(* ===== verification/Prelude.thy ===== *)
theory Prelude
  imports Main
begin

text \<open>
  What every component of the development shares: the collections the proofs are stated
  with, results that are an error or a value, tables of rows with a key (the database tables
  as the services use them), and the two interfaces most components rely on, a machine that
  serves requests while it keeps an invariant, and one whose failing requests leave no trace.
\<close>

named_theorems table_simps "reading a table after it was written"
named_theorems error_defs "the errors a component raises"
named_theorems policy_defs "the permission checks of the services"


section \<open>Results\<close>

text \<open>
  An operation that throws is a value of a sum type, \<open>Inl\<close> the error. \<open>andThen\<close> is
  the sequencing of two operations the second of which runs only when the first returned;
  \<open>require\<close> is a guard that throws.
\<close>

definition andThen :: "'e + 'a \<Rightarrow> ('a \<Rightarrow> 'e + 'b) \<Rightarrow> 'e + 'b" where
  "andThen r f = (case r of Inl e \<Rightarrow> Inl e | Inr x \<Rightarrow> f x)"

definition require :: "bool \<Rightarrow> 'e \<Rightarrow> 'e + unit" where
  "require b e = (if b then Inr () else Inl e)"

definition succeeds :: "'e + 'a \<Rightarrow> bool" where
  "succeeds r = (case r of Inl _ \<Rightarrow> False | Inr _ \<Rightarrow> True)"

lemma andThen_simps [simp]:
  "andThen (Inl e) f = Inl e"
  "andThen (Inr x) f = f x"
  by (simp_all add: andThen_def)

lemma andThen_eq_Inr [simp]:
  "andThen r f = Inr y \<longleftrightarrow> (\<exists>x. r = Inr x \<and> f x = Inr y)"
  by (cases r) simp_all

lemma andThen_eq_Inl:
  "andThen r f = Inl e \<longleftrightarrow> r = Inl e \<or> (\<exists>x. r = Inr x \<and> f x = Inl e)"
  by (cases r) simp_all

lemma require_eq [simp]:
  "require True e = Inr ()"
  "require False e = Inl e"
  "require b e = Inr u \<longleftrightarrow> b"
  "require b e = Inl e' \<longleftrightarrow> \<not> b \<and> e' = e"
  by (auto simp: require_def)

lemma succeeds_simps [simp]:
  "succeeds (Inr x)"
  "\<not> succeeds (Inl e)"
  by (simp_all add: succeeds_def)

lemma succeeds_iff: "succeeds r \<longleftrightarrow> (\<exists>x. r = Inr x)"
  by (cases r) simp_all


section \<open>Tables\<close>

text \<open>
  A table is the list of its rows. \<open>fetch\<close> is \<open>findUnique\<close> by a key, \<open>modify\<close>
  is \<open>update\<close> by a key, \<open>updateWhere\<close> is \<open>updateMany\<close>: every row that meets the
  condition is rewritten, the others stay, and no row moves.
\<close>

definition fetch :: "('r \<Rightarrow> 'k) \<Rightarrow> 'k \<Rightarrow> 'r list \<Rightarrow> 'r option" where
  "fetch key k rows = find (\<lambda>r. key r = k) rows"

definition updateWhere :: "('r \<Rightarrow> bool) \<Rightarrow> ('r \<Rightarrow> 'r) \<Rightarrow> 'r list \<Rightarrow> 'r list" where
  "updateWhere p f rows = map (\<lambda>r. if p r then f r else r) rows"

definition modify :: "('r \<Rightarrow> 'k) \<Rightarrow> 'k \<Rightarrow> ('r \<Rightarrow> 'r) \<Rightarrow> 'r list \<Rightarrow> 'r list" where
  "modify key k f rows = updateWhere (\<lambda>r. key r = k) f rows"

lemma find_map_key:
  assumes "\<And>r. q (g r) = q r"
  shows "find q (map g rows) = map_option g (find q rows)"
  by (induction rows) (simp_all add: assms)

lemma find_some_in: "find q rows = Some r \<Longrightarrow> r \<in> set rows \<and> q r"
  by (induction rows) (auto split: if_splits)

lemma find_distinct_key:
  "distinct (map key rows) \<Longrightarrow> r \<in> set rows \<Longrightarrow> find (\<lambda>x. key x = key r) rows = Some r"
  by (induction rows) (auto simp: image_iff)

lemma fetch_Nil [simp]: "fetch key k [] = None"
  by (simp add: fetch_def)

lemma fetch_Cons [simp]:
  "fetch key k (r # rows) = (if key r = k then Some r else fetch key k rows)"
  by (simp add: fetch_def)

lemma fetch_SomeD: "fetch key k rows = Some r \<Longrightarrow> r \<in> set rows \<and> key r = k"
  unfolding fetch_def by (rule find_some_in)

lemma fetch_None_iff: "fetch key k rows = None \<longleftrightarrow> k \<notin> key ` set rows"
  by (induction rows) (auto simp: image_iff)

lemma fetch_append:
  "fetch key k (xs @ ys) = (case fetch key k xs of None \<Rightarrow> fetch key k ys | Some r \<Rightarrow> Some r)"
  by (induction xs) simp_all

lemma fetch_distinct:
  "distinct (map key rows) \<Longrightarrow> r \<in> set rows \<Longrightarrow> fetch key (key r) rows = Some r"
  unfolding fetch_def by (rule find_distinct_key)

lemma updateWhere_simps [simp]:
  "updateWhere p f [] = []"
  "updateWhere p f (r # rows) = (if p r then f r else r) # updateWhere p f rows"
  by (simp_all add: updateWhere_def)

lemma length_updateWhere [simp]: "length (updateWhere p f rows) = length rows"
  by (simp add: updateWhere_def)

lemma set_updateWhere: "set (updateWhere p f rows) = (\<lambda>r. if p r then f r else r) ` set rows"
  by (simp add: updateWhere_def)

lemma updateWhere_idle: "(\<And>r. r \<in> set rows \<Longrightarrow> \<not> p r) \<Longrightarrow> updateWhere p f rows = rows"
  by (induction rows) simp_all

lemma map_key_updateWhere:
  "(\<And>r. key (f r) = key r) \<Longrightarrow> map key (updateWhere p f rows) = map key rows"
  by (induction rows) simp_all

lemma modify_simps [simp]:
  "modify key k f [] = []"
  "modify key k f (r # rows) = (if key r = k then f r else r) # modify key k f rows"
  by (simp_all add: modify_def)

lemma length_modify [simp]: "length (modify key k f rows) = length rows"
  by (simp add: modify_def)

lemma set_modify: "set (modify key k f rows) = (\<lambda>r. if key r = k then f r else r) ` set rows"
  by (simp add: modify_def set_updateWhere)

lemma map_key_modify:
  "(\<And>r. key (f r) = key r) \<Longrightarrow> map key (modify key k f rows) = map key rows"
  by (simp add: modify_def map_key_updateWhere)

lemma modify_absent: "fetch key k rows = None \<Longrightarrow> modify key k f rows = rows"
  by (induction rows) (auto split: if_splits)

lemma fetch_modify [table_simps]:
  assumes "\<And>r. key (f r) = key r"
  shows "fetch key k (modify key j f rows) =
    (if k = j then map_option f (fetch key k rows) else fetch key k rows)"
  using assms by (induction rows) auto

lemma fetch_replace:
  "key r' = j \<Longrightarrow> fetch key k (modify key j (\<lambda>_. r') rows) =
    (if k = j then map_option (\<lambda>_. r') (fetch key k rows) else fetch key k rows)"
  by (induction rows) auto

lemma fetch_updateWhere [table_simps]:
  assumes "\<And>r. key (f r) = key r"
  shows "fetch key k (updateWhere p f rows) =
    map_option (\<lambda>r. if p r then f r else r) (fetch key k rows)"
  using assms by (induction rows) auto


section \<open>Machines that serve requests\<close>

text \<open>
  Most services are a function from a request and the state to an answer and the next state.
  \<open>serveAll\<close> serves the requests in order. \<open>guarded_machine\<close> is the contract that every
  request keeps an invariant; its lemma lifts it to any sequence of requests.
  \<open>atomic_machine\<close> adds the contract of a transaction: an answer that is an error leaves
  the state as it was, so the failing requests of a run can be struck out of it.
\<close>

primrec serveAll :: "('q \<Rightarrow> 's \<Rightarrow> ('e + 'a) \<times> 's) \<Rightarrow> 'q list \<Rightarrow> 's \<Rightarrow> 's" where
  "serveAll step [] s = s"
| "serveAll step (q # qs) s = serveAll step qs (snd (step q s))"

lemma serveAll_append: "serveAll step (xs @ ys) s = serveAll step ys (serveAll step xs s)"
  by (induction xs arbitrary: s) simp_all

primrec effective :: "('q \<Rightarrow> 's \<Rightarrow> ('e + 'a) \<times> 's) \<Rightarrow> 'q list \<Rightarrow> 's \<Rightarrow> 'q list" where
  "effective step [] s = []"
| "effective step (q # qs) s =
     (if succeeds (fst (step q s)) then q # effective step qs (snd (step q s))
      else effective step qs (snd (step q s)))"

locale guarded_machine =
  fixes step :: "'q \<Rightarrow> 's \<Rightarrow> ('e + 'a) \<times> 's"
    and inv :: "'s \<Rightarrow> bool"
  assumes step_inv: "inv s \<Longrightarrow> inv (snd (step q s))"
begin

lemma serve_inv: "inv s \<Longrightarrow> inv (serveAll step qs s)"
  by (induction qs arbitrary: s) (simp_all add: step_inv)

text \<open>A relation that every request keeps from a good state holds between the ends of any run.\<close>

lemma serve_rel:
  assumes "\<And>q s. inv s \<Longrightarrow> R s (snd (step q s))" and "\<And>s. R s s" and "\<And>a b c. R a b \<Longrightarrow> R b c \<Longrightarrow> R a c"
  shows "inv s \<Longrightarrow> R s (serveAll step qs s)"
proof (induction qs arbitrary: s)
  case (Cons q qs)
  from Cons.IH [OF step_inv [OF Cons.prems]] assms(1) [OF Cons.prems] show ?case by (auto intro: assms(3))
qed (simp add: assms(2))

end

locale atomic_machine = guarded_machine step inv
  for step :: "'q \<Rightarrow> 's \<Rightarrow> ('e + 'a) \<times> 's" and inv :: "'s \<Rightarrow> bool" +
  assumes fail_idle: "fst (step q s) = Inl e \<Longrightarrow> snd (step q s) = s"
begin

lemma failed_idle: "\<not> succeeds (fst (step q s)) \<Longrightarrow> snd (step q s) = s"
  using fail_idle by (cases "fst (step q s)") auto

lemma serve_effective: "serveAll step (effective step qs s) s = serveAll step qs s"
  by (induction qs arbitrary: s) (simp_all add: failed_idle)

end

end
