(* ===== verification/JsText.thy ===== *)
theory JsText
  imports Prelude
begin

text \<open>
  The string operations of the language that the services use, on strings whose code units
  are below 256 (a HOL \<open>char\<close>): trimming, case folding, splitting, decimal digits, prefix
  tests. Whitespace and the letters that fold are those of the language's Unicode tables in
  that range; the two letters whose upper case leaves the range stay as they are.
\<close>

definition codeUnit :: "char \<Rightarrow> nat" where
  "codeUnit c = of_char c"

definition jsWhitespace :: "char \<Rightarrow> bool" where
  "jsWhitespace c = (let n = codeUnit c in (9 \<le> n \<and> n \<le> 13) \<or> n = 32 \<or> n = 160)"

definition jsTrim :: "string \<Rightarrow> string" where
  "jsTrim s = rev (dropWhile jsWhitespace (rev (dropWhile jsWhitespace s)))"

definition lowerChar :: "char \<Rightarrow> char" where
  "lowerChar c = (let n = codeUnit c in
     if (65 \<le> n \<and> n \<le> 90) \<or> (192 \<le> n \<and> n \<le> 222 \<and> n \<noteq> 215) then char_of (n + 32) else c)"

definition upperChar :: "char \<Rightarrow> string" where
  "upperChar c = (let n = codeUnit c in
     if (97 \<le> n \<and> n \<le> 122) \<or> (224 \<le> n \<and> n \<le> 254 \<and> n \<noteq> 247) then [char_of (n - 32)]
     else if n = 223 then ''SS'' else [c])"

definition jsLower :: "string \<Rightarrow> string" where
  "jsLower s = map lowerChar s"

definition jsUpper :: "string \<Rightarrow> string" where
  "jsUpper s = concat (map upperChar s)"

definition isDigit :: "char \<Rightarrow> bool" where
  "isDigit c = (48 \<le> codeUnit c \<and> codeUnit c \<le> 57)"

definition digitValue :: "char \<Rightarrow> nat" where
  "digitValue c = codeUnit c - 48"

definition digitChar :: "nat \<Rightarrow> char" where
  "digitChar d = char_of (48 + d)"

definition allDigits :: "string \<Rightarrow> bool" where
  "allDigits s = (s \<noteq> [] \<and> list_all isDigit s)"

definition natOfDigits :: "string \<Rightarrow> nat" where
  "natOfDigits s = foldl (\<lambda>a c. 10 * a + digitValue c) 0 s"

fun natToText :: "nat \<Rightarrow> string" where
  "natToText n = (if n < 10 then [digitChar n] else natToText (n div 10) @ [digitChar (n mod 10)])"

declare natToText.simps [simp del]

definition padStart :: "nat \<Rightarrow> char \<Rightarrow> string \<Rightarrow> string" where
  "padStart w c s = replicate (w - length s) c @ s"

fun splitOn :: "char \<Rightarrow> string \<Rightarrow> string list" where
  "splitOn sep [] = [[]]"
| "splitOn sep (c # cs) =
     (if c = sep then [] # splitOn sep cs
      else (case splitOn sep cs of [] \<Rightarrow> [[c]] | w # ws \<Rightarrow> (c # w) # ws))"

definition startsWith :: "string \<Rightarrow> string \<Rightarrow> bool" where
  "startsWith p s = (take (length p) s = p)"

definition removeWhitespace :: "string \<Rightarrow> string" where
  "removeWhitespace s = filter (\<lambda>c. \<not> jsWhitespace c) s"

text \<open>The process environment: a variable is set to a string or is not set.\<close>

type_synonym env = "string \<Rightarrow> string option"

text \<open>A value used as a condition, or on the left of \<open>||\<close>: the empty string is false.\<close>

definition orElse :: "string \<Rightarrow> string \<Rightarrow> string" where
  "orElse s t = (if s = [] then t else s)"


section \<open>Their laws\<close>

lemma orElse_simps [simp]: "orElse [] t = t" "s \<noteq> [] \<Longrightarrow> orElse s t = s"
  by (simp_all add: orElse_def)

lemma codeUnit_char_of: "codeUnit (char_of n) = n mod 256"
  by (simp add: codeUnit_def)

lemma codeUnit_digitChar [simp]: "d < 10 \<Longrightarrow> codeUnit (digitChar d) = 48 + d"
  by (simp add: digitChar_def codeUnit_char_of)

lemma digitValue_digitChar [simp]: "d < 10 \<Longrightarrow> digitValue (digitChar d) = d"
  by (simp add: digitValue_def)

lemma isDigit_digitChar [simp]: "d < 10 \<Longrightarrow> isDigit (digitChar d)"
  by (simp add: isDigit_def)

lemma isDigit_zero [simp]: "isDigit (CHR ''0'')"
  by (simp add: isDigit_def codeUnit_def)

lemma digitValue_lt: "isDigit c \<Longrightarrow> digitValue c < 10"
  by (auto simp: isDigit_def digitValue_def)

lemma natOfDigits_Nil [simp]: "natOfDigits [] = 0"
  by (simp add: natOfDigits_def)

lemma natOfDigits_snoc [simp]: "natOfDigits (s @ [c]) = 10 * natOfDigits s + digitValue c"
  by (simp add: natOfDigits_def)

lemma natOfDigits_natToText [simp]: "natOfDigits (natToText n) = n"
proof (induction n rule: natToText.induct)
  case (1 n)
  show ?case
  proof (cases "n < 10")
    case True
    then have "natToText n = [] @ [digitChar n]" by (simp add: natToText.simps)
    with True show ?thesis by (simp only: natOfDigits_snoc) simp
  next
    case False
    then have "natToText n = natToText (n div 10) @ [digitChar (n mod 10)]"
      by (subst natToText.simps) simp
    with False "1.IH" show ?thesis by simp
  qed
qed

lemma natToText_digits: "list_all isDigit (natToText n)"
proof (induction n rule: natToText.induct)
  case (1 n)
  then show ?case by (subst natToText.simps) simp
qed

lemma natToText_nonempty [simp]: "natToText n \<noteq> []"
  by (subst natToText.simps) simp

lemma allDigits_natToText: "allDigits (natToText n)"
  by (simp add: allDigits_def natToText_digits)

lemma natOfDigits_append: "natOfDigits (s @ t) = natOfDigits s * 10 ^ length t + natOfDigits t"
proof (induction t rule: rev_induct)
  case Nil
  show ?case by simp
next
  case (snoc c t)
  have "natOfDigits (s @ t @ [c]) = 10 * natOfDigits (s @ t) + digitValue c"
    using natOfDigits_snoc [of "s @ t" c] by simp
  with snoc show ?case by (simp add: algebra_simps)
qed

lemma natOfDigits_bound: "list_all isDigit s \<Longrightarrow> natOfDigits s < 10 ^ length s"
proof (induction s rule: rev_induct)
  case Nil
  show ?case by simp
next
  case (snoc c s)
  then have "natOfDigits s + 1 \<le> 10 ^ length s" and "digitValue c < 10"
    by (simp_all add: digitValue_lt)
  then show ?case by simp
qed

lemma length_padStart: "length (padStart w c s) = max w (length s)"
  by (auto simp: padStart_def)

lemma natOfDigits_replicate_zero [simp]: "natOfDigits (replicate k (CHR ''0'')) = 0"
  by (induction k) (simp_all add: natOfDigits_def digitValue_def codeUnit_def)

lemma natOfDigits_padStart_zero: "natOfDigits (padStart w (CHR ''0'') s) = natOfDigits s"
  by (simp add: padStart_def natOfDigits_append)

lemma dropWhile_none: "list_all (\<lambda>c. \<not> p c) s \<Longrightarrow> dropWhile p s = s"
  by (cases s) simp_all

lemma jsTrim_id: "s \<noteq> [] \<Longrightarrow> \<not> jsWhitespace (hd s) \<Longrightarrow> \<not> jsWhitespace (last s) \<Longrightarrow> jsTrim s = s"
proof -
  assume s: "s \<noteq> []" "\<not> jsWhitespace (hd s)" "\<not> jsWhitespace (last s)"
  then have "dropWhile jsWhitespace s = s" by (cases s) auto
  moreover have "dropWhile jsWhitespace (rev s) = rev s"
    using s(1,3) by (cases "rev s") (auto simp: hd_rev [symmetric])
  ultimately show ?thesis by (simp add: jsTrim_def)
qed

lemma jsTrim_plain: "list_all (\<lambda>c. \<not> jsWhitespace c) s \<Longrightarrow> jsTrim s = s"
  by (simp add: jsTrim_def dropWhile_none list_all_rev)

lemma digit_not_whitespace: "isDigit c \<Longrightarrow> \<not> jsWhitespace c"
  by (auto simp: isDigit_def jsWhitespace_def Let_def)

lemma digits_not_whitespace: "list_all isDigit s \<Longrightarrow> list_all (\<lambda>c. \<not> jsWhitespace c) s"
  by (induction s) (simp_all add: digit_not_whitespace)

lemma natToText_zero_pad_length: "n < 10 ^ w \<Longrightarrow> 0 < w \<Longrightarrow> length (natToText n) \<le> w"
proof (induction n arbitrary: w rule: natToText.induct)
  case (1 n)
  show ?case
  proof (cases "n < 10")
    case True
    with 1 show ?thesis by (simp add: natToText.simps)
  next
    case False
    with "1.prems" obtain v where w: "w = Suc v" by (cases w) auto
    have v0: "0 < v"
      using False "1.prems" w by (cases v) auto
    have "n div 10 < 10 ^ v"
      using "1.prems"(1) w by (simp add: less_mult_imp_div_less mult.commute)
    with "1.IH" False v0 have "length (natToText (n div 10)) \<le> v" by simp
    with False w show ?thesis by (subst natToText.simps) simp
  qed
qed

lemma splitOn_nonempty [simp]: "splitOn sep s \<noteq> []"
  by (induction s) (auto split: list.splits)

lemma splitOn_absent: "sep \<notin> set s \<Longrightarrow> splitOn sep s = [s]"
  by (induction s) auto

lemma splitOn_append_sep:
  "sep \<notin> set s \<Longrightarrow> splitOn sep (s @ sep # t) = s # splitOn sep t"
  by (induction s) auto

text \<open>
  Binary versions of the two conversions, which the evaluation of closed terms uses in place of the
  ones on natural numbers.
\<close>

function digitsOfInt :: "int \<Rightarrow> string" where
  "digitsOfInt i =
    (if i < 10 then [digitChar (nat i)] else digitsOfInt (i div 10) @ [digitChar (nat (i mod 10))])"
  by pat_completeness auto

termination digitsOfInt
  by (relation "measure nat") auto

declare digitsOfInt.simps [simp del]

lemma natToText_int [code_unfold]: "natToText (nat i) = digitsOfInt i"
proof (induction i rule: digitsOfInt.induct)
  case (1 i)
  show ?case
  proof (cases "i < 10")
    case True
    then show ?thesis by (subst natToText.simps, subst digitsOfInt.simps) auto
  next
    case False
    then have "natToText (nat i) = natToText (nat (i div 10)) @ [digitChar (nat (i mod 10))]"
      by (subst natToText.simps) (simp add: nat_div_distrib nat_mod_distrib)
    then show ?thesis using 1 False by (subst digitsOfInt.simps) simp
  qed
qed

definition intOfDigits :: "string \<Rightarrow> int" where
  "intOfDigits s = foldl (\<lambda>a c. 10 * a + int (digitValue c)) 0 s"

lemma natOfDigits_int [code_unfold]: "int (natOfDigits s) = intOfDigits s"
proof -
  have "int (foldl (\<lambda>a c. 10 * a + digitValue c) n s) = foldl (\<lambda>a c. 10 * a + int (digitValue c)) (int n) s" for n
    by (induction s arbitrary: n) simp_all
  from this [of 0] show ?thesis by (simp add: natOfDigits_def intOfDigits_def)
qed

end
