(* ===== verification/ApiErrors.thy ===== *)
theory ApiErrors
  imports JsText
begin

text \<open>
  The errors of the HTTP layer (\<open>src/src/server/http/errors.ts\<close>), the failure of a
  schema (\<open>src/src/server/validation/schemas.ts\<close>) and the page arithmetic of the list
  endpoints (\<open>src/src/server/http/pagination.ts\<close>). Every service of the development
  throws an \<open>api_error\<close>.
\<close>

datatype api_error_code =
    BAD_REQUEST | AUTH_REQUIRED | UNAUTHENTICATED | INVALID_CREDENTIALS | TOKEN_EXPIRED
  | FORBIDDEN | PERMISSION_DENIED | NOT_FOUND | VALIDATION_ERROR | CONFLICT
  | ACCOUNT_EMAIL_UNAVAILABLE | APPOINTMENT_CONFLICT | CONSULTATION_OUTCOME_NOT_READY
  | CONSULTATION_STATE_CHANGED | CONSULTATION_REOPEN_REQUIRED | CASE_REFERENCE_CONFLICT
  | SETTING_READ_ONLY | TOO_MANY_REQUESTS | RATE_LIMITED | CONVERSATION_LIMIT_REACHED
  | PAYMENT_PROVIDER_DISABLED | FILE_TOO_LARGE | UNSUPPORTED_FILE_TYPE | MALWARE_DETECTED
  | MALWARE_SCANNER_UNAVAILABLE | FEATURE_DISABLED | TWO_FACTOR_REQUIRED | TWO_FACTOR_INVALID
  | TWO_FACTOR_EXPIRED | EMAIL_DELIVERY_FAILED | AI_PROVIDER_UNAVAILABLE | AI_PROVIDER_TIMEOUT
  | AI_OUTPUT_INVALID | APPROVAL_REQUIRED | SERVICE_UNAVAILABLE | INTERNAL_ERROR

record error_detail =
  ed_path :: "string option"
  ed_message :: string
  ed_code :: "string option"

text \<open>
  The fields of the class: status, code, message, details. An absent \<open>details\<close> is the
  empty list, which is what every reader of it makes of one.
\<close>

datatype api_error =
  ApiError (err_status: nat) (err_code: api_error_code) (err_message: string)
    (err_details: "error_detail list")

type_synonym 'a api = "api_error + 'a"

text \<open>\<open>apiError status code message\<close> is an error without details.\<close>

abbreviation apiError :: "nat \<Rightarrow> api_error_code \<Rightarrow> string \<Rightarrow> api_error" where
  "apiError status code message \<equiv> ApiError status code message []"

text \<open>\<open>throwApi status code message\<close> is a throw without details.\<close>

abbreviation throwApi :: "nat \<Rightarrow> api_error_code \<Rightarrow> string \<Rightarrow> 'a api" where
  "throwApi status code message \<equiv> Inl (ApiError status code message [])"

definition ValidationApiError :: "string \<Rightarrow> error_detail list \<Rightarrow> api_error" where
  "ValidationApiError message details = ApiError 400 VALIDATION_ERROR message details"

definition RateLimitApiError :: "string \<Rightarrow> api_error" where
  "RateLimitApiError message = ApiError 429 RATE_LIMITED message []"

definition canonicalApiErrorCode :: "api_error_code \<Rightarrow> api_error_code" where
  "canonicalApiErrorCode code = (if code = UNAUTHENTICATED then AUTH_REQUIRED else code)"

definition stableApiMessageByCode :: "api_error_code \<Rightarrow> string option" where
  "stableApiMessageByCode code =
    (if code = APPOINTMENT_CONFLICT then Some ''Another appointment already exists for this lawyer at this time. Choose a different time.''
     else if code = CASE_REFERENCE_CONFLICT then Some ''A unique case reference could not be generated. Create a new request and retry.''
     else if code = SETTING_READ_ONLY then Some ''Storage runtime settings are managed by the server environment and cannot be changed from the admin dashboard.''
     else if code = CONSULTATION_OUTCOME_NOT_READY then Some ''The consultation outcome is not ready to be recorded yet.''
     else if code = CONSULTATION_STATE_CHANGED then Some ''The consultation changed after this view was loaded. Refresh and try again.''
     else if code = CONSULTATION_REOPEN_REQUIRED then Some ''This missed consultation must be reopened and rescheduled before continuing.''
     else None)"

definition canonicalApiErrorMessage :: "api_error_code \<Rightarrow> string \<Rightarrow> string" where
  "canonicalApiErrorMessage code fallbackMessage =
    (case stableApiMessageByCode (canonicalApiErrorCode code) of
       None \<Rightarrow> fallbackMessage | Some m \<Rightarrow> m)"

text \<open>
  A throw that is no \<open>ApiError\<close> is answered as an internal error; \<open>what\<close> says where it came from.
  \<open>insertRow\<close> is \<open>create\<close>: the database refuses a row whose key is taken.
\<close>

definition unhandled :: "string \<Rightarrow> api_error" where
  "unhandled what = apiError 500 INTERNAL_ERROR what"

definition insertRow :: "string \<Rightarrow> ('r \<Rightarrow> string) \<Rightarrow> 'r \<Rightarrow> 'r list \<Rightarrow> 'r list api" where
  "insertRow table key r rows = andThen (require (key r \<notin> key ` set rows) (unhandled table)) (\<lambda>_. Inr (rows @ [r]))"

lemma insertRow_Inr [simp]:
  "insertRow table key r rows = Inr rows' \<longleftrightarrow> key r \<notin> key ` set rows \<and> rows' = rows @ [r]"
  by (auto simp: insertRow_def)

text \<open>
  A schema is a function from the raw input to the parsed value or the issues it found;
  \<open>parseWithSchema\<close> turns the issues into a \<open>VALIDATION_ERROR\<close>.
\<close>

definition parseWithSchema :: "('raw \<Rightarrow> error_detail list + 'a) \<Rightarrow> 'raw \<Rightarrow> string \<Rightarrow> 'a api" where
  "parseWithSchema schema value message =
    (case schema value of
       Inl issues \<Rightarrow> Inl (ValidationApiError message issues)
     | Inr data \<Rightarrow> Inr data)"

record pagination =
  pg_page :: int
  pg_pageSize :: int
  pg_skip :: int
  pg_take :: int

definition toPagination :: "int option \<Rightarrow> int option \<Rightarrow> pagination" where
  "toPagination page pageSize =
    (let p = max 1 (case page of None \<Rightarrow> 1 | Some x \<Rightarrow> x);
         s = min 100 (max 1 (case pageSize of None \<Rightarrow> 20 | Some x \<Rightarrow> x))
     in \<lparr>pg_page = p, pg_pageSize = s, pg_skip = (p - 1) * s, pg_take = s\<rparr>)"

lemma canonicalApiErrorCode_idem [simp]:
  "canonicalApiErrorCode (canonicalApiErrorCode c) = canonicalApiErrorCode c"
  by (simp add: canonicalApiErrorCode_def)

lemma canonicalApiErrorCode_not_alias [simp]: "canonicalApiErrorCode c \<noteq> UNAUTHENTICATED"
  by (simp add: canonicalApiErrorCode_def)

lemma canonicalApiErrorMessage_stable:
  "stableApiMessageByCode c = Some m \<Longrightarrow> canonicalApiErrorMessage c f = m"
  by (auto simp: canonicalApiErrorMessage_def canonicalApiErrorCode_def
      stableApiMessageByCode_def split: if_splits)

lemma parseWithSchema_eq:
  "parseWithSchema schema v m = Inr d \<longleftrightarrow> schema v = Inr d"
  "parseWithSchema schema v m = Inl e \<longleftrightarrow> (\<exists>is. schema v = Inl is \<and> e = ValidationApiError m is)"
  by (auto simp: parseWithSchema_def split: sum.splits)

text \<open>
  The pages of a listing tile it: consecutive pages start where the previous one ends.
\<close>

lemma toPagination_bounds:
  "1 \<le> pg_page (toPagination p s)"
  "1 \<le> pg_take (toPagination p s)" "pg_take (toPagination p s) \<le> 100"
  "0 \<le> pg_skip (toPagination p s)"
  by (auto simp: toPagination_def Let_def)

lemma toPagination_tiles:
  assumes "1 \<le> p"
  shows "pg_skip (toPagination (Some (p + 1)) s) =
    pg_skip (toPagination (Some p) s) + pg_take (toPagination (Some p) s)"
  using assms by (simp add: toPagination_def Let_def algebra_simps max_def)

end
