(* ===== verification/RateLimit.thy ===== *)
theory RateLimit
  imports ApiErrors "HOL-Library.AList"
begin

text \<open>
  The rate limiter of the public and authentication endpoints
  (\<open>src/src/server/rate-limit/memory-rate-limit.ts\<close>): the in-memory fixed-window
  limiter, whose buckets are a \<open>Map\<close> in insertion order (an association list), and the
  shared counter of the database. Times are milliseconds. What the limiter promises is
  stated against \<open>refCheck\<close>, a limiter that never prunes.
\<close>

record rate_limit_rule =
  rl_windowMs :: int
  rl_max :: int

record rate_limit_result =
  rr_allowed :: bool
  rr_limit :: int
  rr_remaining :: int
  rr_resetAt :: int

record bucket =
  bk_count :: int
  bk_resetAt :: int

record limiter =
  lm_scope :: string
  lm_rule :: rate_limit_rule
  lm_buckets :: "(string \<times> bucket) list"
  lm_lastPrunedAt :: int

definition newLimiter :: "string \<Rightarrow> rate_limit_rule \<Rightarrow> limiter" where
  "newLimiter scope rule = \<lparr>lm_scope = scope, lm_rule = rule, lm_buckets = [], lm_lastPrunedAt = 0\<rparr>"

definition pruneExpired :: "int \<Rightarrow> limiter \<Rightarrow> limiter" where
  "pruneExpired now lim =
    (let pruneEveryMs = min (rl_windowMs (lm_rule lim)) 60000
     in if now - lm_lastPrunedAt lim < pruneEveryMs then lim
        else lim\<lparr>lm_buckets := filter (\<lambda>(k, b). \<not> bk_resetAt b \<le> now) (lm_buckets lim),
                 lm_lastPrunedAt := now\<rparr>)"

text \<open>The bucket a check writes, from the bucket it finds.\<close>

definition nextBucket :: "rate_limit_rule \<Rightarrow> bucket option \<Rightarrow> int \<Rightarrow> bucket" where
  "nextBucket rule current now =
    (case current of
       Some b \<Rightarrow> if bk_resetAt b > now then \<lparr>bk_count = bk_count b + 1, bk_resetAt = bk_resetAt b\<rparr>
                 else \<lparr>bk_count = 1, bk_resetAt = now + rl_windowMs rule\<rparr>
     | None \<Rightarrow> \<lparr>bk_count = 1, bk_resetAt = now + rl_windowMs rule\<rparr>)"

definition bucketResult :: "rate_limit_rule \<Rightarrow> bucket \<Rightarrow> rate_limit_result" where
  "bucketResult rule b =
    \<lparr>rr_allowed = (bk_count b \<le> rl_max rule), rr_limit = rl_max rule,
     rr_remaining = max 0 (rl_max rule - bk_count b), rr_resetAt = bk_resetAt b\<rparr>"

definition check :: "string \<Rightarrow> int \<Rightarrow> limiter \<Rightarrow> rate_limit_result \<times> limiter" where
  "check key now lim =
    (let lim1 = pruneExpired now lim;
         b = nextBucket (lm_rule lim1) (map_of (lm_buckets lim1) key) now
     in (bucketResult (lm_rule lim1) b, lim1\<lparr>lm_buckets := AList.update key b (lm_buckets lim1)\<rparr>))"

definition limiterSize :: "limiter \<Rightarrow> nat" where
  "limiterSize lim = length (lm_buckets lim)"

text \<open>An empty key is false, so \<open>reset("")\<close> clears the whole limiter, as no argument does.\<close>

definition reset :: "string option \<Rightarrow> limiter \<Rightarrow> limiter" where
  "reset key lim =
    (case key of
       Some k \<Rightarrow> if k \<noteq> [] then lim\<lparr>lm_buckets := AList.delete k (lm_buckets lim)\<rparr>
                 else lim\<lparr>lm_buckets := [], lm_lastPrunedAt := 0\<rparr>
     | None \<Rightarrow> lim\<lparr>lm_buckets := [], lm_lastPrunedAt := 0\<rparr>)"


section \<open>The shared store\<close>

record rate_counter =
  rc_scope :: string
  rc_keyHash :: string
  rc_windowStart :: int
  rc_count :: int
  rc_expiresAt :: int

definition shouldUseSharedStore :: "env \<Rightarrow> bool" where
  "shouldUseSharedStore env =
    (env ''APP_ENV'' = Some ''production'' \<or> env ''NODE_ENV'' = Some ''production'' \<or>
     env ''RATE_LIMIT_STORAGE'' = Some ''postgres'')"

text \<open>The hash (\<open>createHash("sha256")\<close>, printed in hex) is a parameter.\<close>

definition hashRateLimitKey :: "(string \<Rightarrow> string) \<Rightarrow> string \<Rightarrow> string \<Rightarrow> string" where
  "hashRateLimitKey sha256 scope key = sha256 (scope @ [char_of (0::nat)] @ key)"

definition counterKey :: "rate_counter \<Rightarrow> string \<times> string \<times> int" where
  "counterKey c = (rc_scope c, rc_keyHash c, rc_windowStart c)"

definition upsertCounter :: "string \<times> string \<times> int \<Rightarrow> int \<Rightarrow> rate_counter list \<Rightarrow> int \<times> rate_counter list" where
  "upsertCounter k expiresAt rows =
    (case fetch counterKey k rows of
       None \<Rightarrow> (1, rows @ [\<lparr>rc_scope = fst k, rc_keyHash = fst (snd k), rc_windowStart = snd (snd k),
                          rc_count = 1, rc_expiresAt = expiresAt\<rparr>])
     | Some c \<Rightarrow> (rc_count c + 1, modify counterKey k (\<lambda>r. r\<lparr>rc_count := rc_count r + 1\<rparr>) rows))"

definition protectionUnavailable :: api_error where
  "protectionUnavailable = ApiError 503 SERVICE_UNAVAILABLE
     ''Request protection is temporarily unavailable. Try again later.'' []"

text \<open>
  \<open>dbUp\<close> says whether the database call returns; a call that throws is the 503 of the
  \<open>catch\<close>. Times are non-negative, so the \<open>Math.floor\<close> of the quotient is \<open>div\<close>.
\<close>

definition checkSharedRateLimit ::
  "(string \<Rightarrow> string) \<Rightarrow> bool \<Rightarrow> limiter \<Rightarrow> string \<Rightarrow> int \<Rightarrow> rate_counter list \<Rightarrow>
   rate_limit_result api \<times> rate_counter list" where
  "checkSharedRateLimit sha256 dbUp lim key now rows =
    (let windowStartMs = (now div rl_windowMs (lm_rule lim)) * rl_windowMs (lm_rule lim);
         resetAt = windowStartMs + rl_windowMs (lm_rule lim);
         keyHash = hashRateLimitKey sha256 (lm_scope lim) key
     in if \<not> dbUp then (Inl protectionUnavailable, rows)
        else let (count, rows') = upsertCounter (lm_scope lim, keyHash, windowStartMs) resetAt rows
             in (Inr \<lparr>rr_allowed = (count \<le> rl_max (lm_rule lim)), rr_limit = rl_max (lm_rule lim),
                      rr_remaining = max 0 (rl_max (lm_rule lim) - count), rr_resetAt = resetAt\<rparr>,
                 rows'))"

record limit_state =
  ls_limiter :: limiter
  ls_counters :: "rate_counter list"

definition tooManyRequests :: api_error where
  "tooManyRequests = RateLimitApiError ''Too many requests. Try again later.''"

definition enforceRateLimit ::
  "(string \<Rightarrow> string) \<Rightarrow> env \<Rightarrow> bool \<Rightarrow> string \<Rightarrow> int \<Rightarrow> limit_state \<Rightarrow>
   rate_limit_result api \<times> limit_state" where
  "enforceRateLimit sha256 env dbUp key now st =
    (let (result, st') =
       (if shouldUseSharedStore env
        then let (r, rows) = checkSharedRateLimit sha256 dbUp (ls_limiter st) key now (ls_counters st)
             in (r, st\<lparr>ls_counters := rows\<rparr>)
        else let (r, lim) = check key now (ls_limiter st) in (Inr r, st\<lparr>ls_limiter := lim\<rparr>))
     in (case result of
           Inl e \<Rightarrow> (Inl e, st')
         | Inr r \<Rightarrow> (if \<not> rr_allowed r then (Inl tooManyRequests, st') else (Inr r, st'))))"

definition pruneExpiredRateLimits :: "int \<Rightarrow> rate_counter list \<Rightarrow> nat \<times> rate_counter list" where
  "pruneExpiredRateLimits now rows =
    (length (filter (\<lambda>c. rc_expiresAt c \<le> now) rows), filter (\<lambda>c. \<not> rc_expiresAt c \<le> now) rows)"

definition rateLimiters :: "(string \<times> limiter) list" where
  "rateLimiters =
    [(''login'', newLimiter ''login'' \<lparr>rl_windowMs = 15 * 60 * 1000, rl_max = 10\<rparr>),
     (''twoFactor'', newLimiter ''two-factor'' \<lparr>rl_windowMs = 10 * 60 * 1000, rl_max = 8\<rparr>),
     (''booking'', newLimiter ''booking'' \<lparr>rl_windowMs = 10 * 60 * 1000, rl_max = 5\<rparr>),
     (''contact'', newLimiter ''contact'' \<lparr>rl_windowMs = 10 * 60 * 1000, rl_max = 5\<rparr>),
     (''conversation'', newLimiter ''conversation'' \<lparr>rl_windowMs = 60 * 1000, rl_max = 12\<rparr>),
     (''upload'', newLimiter ''upload'' \<lparr>rl_windowMs = 10 * 60 * 1000, rl_max = 20\<rparr>),
     (''ai'', newLimiter ''ai'' \<lparr>rl_windowMs = 10 * 60 * 1000, rl_max = 20\<rparr>),
     (''analytics'', newLimiter ''analytics'' \<lparr>rl_windowMs = 60 * 1000, rl_max = 60\<rparr>)]"


section \<open>Pruning is invisible\<close>

text \<open>A bucket counts for a check at \<open>now\<close> only while its window is open.\<close>

definition liveBucket :: "int \<Rightarrow> (string \<times> bucket) list \<Rightarrow> string \<Rightarrow> bucket option" where
  "liveBucket now bs k =
    (case map_of bs k of Some b \<Rightarrow> if bk_resetAt b > now then Some b else None | None \<Rightarrow> None)"

definition refCheck :: "string \<Rightarrow> int \<Rightarrow> limiter \<Rightarrow> rate_limit_result \<times> limiter" where
  "refCheck key now lim =
    (let b = nextBucket (lm_rule lim) (map_of (lm_buckets lim) key) now
     in (bucketResult (lm_rule lim) b, lim\<lparr>lm_buckets := AList.update key b (lm_buckets lim)\<rparr>))"

primrec runChecks ::
  "(string \<Rightarrow> int \<Rightarrow> limiter \<Rightarrow> rate_limit_result \<times> limiter) \<Rightarrow> (string \<times> int) list \<Rightarrow> limiter \<Rightarrow>
   rate_limit_result list" where
  "runChecks f [] lim = []"
| "runChecks f (q # qs) lim =
     (let (r, lim') = f (fst q) (snd q) lim in r # runChecks f qs lim')"

definition sameView :: "int \<Rightarrow> limiter \<Rightarrow> limiter \<Rightarrow> bool" where
  "sameView now l1 l2 \<longleftrightarrow> lm_rule l1 = lm_rule l2 \<and> distinct (map fst (lm_buckets l1)) \<and>
     liveBucket now (lm_buckets l1) = liveBucket now (lm_buckets l2)"

lemma nextBucket_live: "nextBucket rule (map_of bs k) now = nextBucket rule (liveBucket now bs k) now"
  by (auto simp: nextBucket_def liveBucket_def split: option.splits)

lemma liveBucket_update:
  "liveBucket now (AList.update k b bs) =
    (liveBucket now bs)(k := if bk_resetAt b > now then Some b else None)"
  by (auto simp: liveBucket_def AList.update_conv' fun_eq_iff)

lemma map_of_filter_live:
  "distinct (map fst bs) \<Longrightarrow>
    map_of (filter (\<lambda>(k, b). \<not> bk_resetAt b \<le> now) bs) k = liveBucket now bs k"
proof (induction bs)
  case Nil
  show ?case by (simp add: liveBucket_def)
next
  case (Cons p bs)
  obtain j b where p: "p = (j, b)" by (cases p)
  from Cons.prems p have "map_of bs j = None" by (simp add: map_of_eq_None_iff)
  with Cons p show ?case by (auto simp: liveBucket_def)
qed

lemma liveBucket_later:
  "now \<le> later \<Longrightarrow> liveBucket later bs k =
    (case liveBucket now bs k of Some b \<Rightarrow> if bk_resetAt b > later then Some b else None | None \<Rightarrow> None)"
  by (auto simp: liveBucket_def split: option.splits)

lemma sameView_later: "sameView now l1 l2 \<Longrightarrow> now \<le> later \<Longrightarrow> sameView later l1 l2"
  by (simp add: sameView_def fun_eq_iff liveBucket_later [of now later])

lemma liveBucket_pruned:
  "distinct (map fst bs) \<Longrightarrow> liveBucket now (filter (\<lambda>(k, b). \<not> bk_resetAt b \<le> now) bs) = liveBucket now bs"
  by (rule ext, simp only: liveBucket_def [of now "filter _ _"] map_of_filter_live)
     (auto simp: liveBucket_def split: option.splits)

lemma pruneExpired_view: "sameView now l1 l2 \<Longrightarrow> sameView now (pruneExpired now l1) l2"
  by (auto simp: sameView_def pruneExpired_def Let_def liveBucket_pruned distinct_map_filter)

lemma check_refines:
  assumes "sameView now l1 l2"
  shows "fst (check k now l1) = fst (refCheck k now l2) \<and>
    sameView now (snd (check k now l1)) (snd (refCheck k now l2))"
proof -
  let ?p = "pruneExpired now l1"
  have v: "sameView now ?p l2" using assms by (rule pruneExpired_view)
  then have b: "nextBucket (lm_rule ?p) (map_of (lm_buckets ?p) k) now =
      nextBucket (lm_rule l2) (map_of (lm_buckets l2) k) now"
    by (simp add: nextBucket_live sameView_def)
  from v b show ?thesis
    by (simp add: check_def refCheck_def Let_def sameView_def liveBucket_update distinct_update)
qed

lemma runChecks_refines:
  "sameView now l1 l2 \<Longrightarrow> sorted (now # map snd qs) \<Longrightarrow>
    runChecks check qs l1 = runChecks refCheck qs l2"
proof (induction qs arbitrary: now l1 l2)
  case Nil
  show ?case by simp
next
  case (Cons q qs)
  obtain k t where q: "q = (k, t)" by (cases q)
  from Cons.prems q have "sameView t l1 l2" by (auto intro: sameView_later)
  from check_refines [OF this, of k] have
    "fst (check k t l1) = fst (refCheck k t l2)"
    "sameView t (snd (check k t l1)) (snd (refCheck k t l2))" by simp_all
  with Cons.IH [of t "snd (check k t l1)" "snd (refCheck k t l2)"] Cons.prems q show ?case
    by (simp add: case_prod_beta Let_def)
qed

text \<open>
  The limiter keeps one bucket a key: serving requests, with either store, never makes a
  second bucket of a key.
\<close>

lemma check_distinct:
  "distinct (map fst (lm_buckets lim)) \<Longrightarrow> distinct (map fst (lm_buckets (snd (check k t lim))))"
  by (simp add: check_def pruneExpired_def Let_def distinct_update distinct_map_filter)

interpretation limits: guarded_machine
  "\<lambda>q. enforceRateLimit sha256 env dbUp (fst q) (snd q)"
  "\<lambda>st. distinct (map fst (lm_buckets (ls_limiter st)))"
  for sha256 env dbUp
proof
  fix st :: limit_state and q :: "string \<times> int"
  assume "distinct (map fst (lm_buckets (ls_limiter st)))"
  then show "distinct (map fst (lm_buckets (ls_limiter
      (snd (enforceRateLimit sha256 env dbUp (fst q) (snd q) st)))))"
    by (auto simp: enforceRateLimit_def check_distinct case_prod_beta Let_def split: sum.splits)
qed

text \<open>
  Pruning is an optimisation only: for checks that arrive in the order of their clock, the
  limiter answers every one of them exactly as a limiter that keeps every bucket for ever.
\<close>

theorem pruning_invisible:
  assumes "sorted (map snd qs)"
  shows "runChecks check qs (newLimiter scope rule) = runChecks refCheck qs (newLimiter scope rule)"
proof (cases qs)
  case Nil
  then show ?thesis by simp
next
  case (Cons q rest)
  have "sameView (snd q) (newLimiter scope rule) (newLimiter scope rule)"
    by (simp add: sameView_def newLimiter_def)
  moreover have "sorted (snd q # map snd qs)" using assms Cons by simp
  ultimately show ?thesis by (rule runChecks_refines)
qed

theorem pruning_invisible_witness:
  "runChecks check [(''a'', 5), (''b'', 70000)] (newLimiter ''login'' \<lparr>rl_windowMs = 100, rl_max = 1\<rparr>) =
   runChecks refCheck [(''a'', 5), (''b'', 70000)] (newLimiter ''login'' \<lparr>rl_windowMs = 100, rl_max = 1\<rparr>)"
  by (rule pruning_invisible) simp


section \<open>The budget of a window\<close>

text \<open>
  From the first check of a key at \<open>t0\<close> until \<open>t0 + windowMs\<close> the key has one bucket, which
  counts its checks whatever the other keys do.
\<close>

definition allowedOf :: "string \<Rightarrow> (string \<times> int) list \<Rightarrow> rate_limit_result list \<Rightarrow> nat" where
  "allowedOf k qs rs = length (filter (\<lambda>(q, r). fst q = k \<and> rr_allowed r) (zip qs rs))"

definition checksOf :: "string \<Rightarrow> (string \<times> int) list \<Rightarrow> nat" where
  "checksOf k qs = length (filter (\<lambda>q. fst q = k) qs)"

lemma checksOf_simps [simp]:
  "checksOf k [] = 0"
  "checksOf k (q # qs) = (if fst q = k then Suc (checksOf k qs) else checksOf k qs)"
  by (simp_all add: checksOf_def)

lemma allowedOf_simps [simp]:
  "allowedOf k [] rs = 0"
  "allowedOf k (q # qs) (r # rs) = (if fst q = k \<and> rr_allowed r then 1 else 0) + allowedOf k qs rs"
  by (simp_all add: allowedOf_def)

definition hasBucket :: "string \<Rightarrow> int \<Rightarrow> int \<Rightarrow> limiter \<Rightarrow> bool" where
  "hasBucket k n end lim \<longleftrightarrow> distinct (map fst (lm_buckets lim)) \<and>
     map_of (lm_buckets lim) k = Some \<lparr>bk_count = n, bk_resetAt = end\<rparr>"

lemma pruneExpired_keeps_bucket:
  "hasBucket k n end lim \<Longrightarrow> t < end \<Longrightarrow> hasBucket k n end (pruneExpired t lim)"
  by (auto simp: hasBucket_def pruneExpired_def Let_def distinct_map_filter map_of_filter_live
      liveBucket_def)

lemma pruneExpired_rule [simp]: "lm_rule (pruneExpired t lim) = lm_rule lim"
  by (simp add: pruneExpired_def Let_def)

lemma check_rule [simp]: "lm_rule (snd (check k t lim)) = lm_rule lim"
  by (simp add: check_def Let_def)

lemma check_same_key:
  assumes "hasBucket k n end lim" "t < end"
  shows "rr_allowed (fst (check k t lim)) \<longleftrightarrow> n + 1 \<le> rl_max (lm_rule lim)"
    and "hasBucket k (n + 1) end (snd (check k t lim))"
  using pruneExpired_keeps_bucket [OF assms] assms(2)
  by (auto simp: check_def Let_def hasBucket_def nextBucket_def bucketResult_def
      distinct_update AList.update_conv')

lemma check_other_key:
  assumes "hasBucket k n end lim" "t < end" "j \<noteq> k"
  shows "hasBucket k n end (snd (check j t lim))"
  using pruneExpired_keeps_bucket [OF assms(1,2)] assms(3)
  by (auto simp: check_def Let_def hasBucket_def distinct_update AList.update_conv')

lemma window_budget_from:
  assumes "hasBucket k n end lim" "\<And>q. q \<in> set qs \<Longrightarrow> snd q < end" "0 \<le> n"
  shows "int (allowedOf k qs (runChecks check qs lim)) =
    min (int (checksOf k qs)) (max 0 (rl_max (lm_rule lim) - n))"
  using assms
proof (induction qs arbitrary: n lim)
  case Nil
  show ?case by simp
next
  case (Cons q qs)
  obtain j t where q: "q = (j, t)" by (cases q)
  have t: "t < end" using Cons.prems(2) [of q] q by simp
  show ?case
  proof (cases "j = k")
    case True
    note s = check_same_key [OF Cons.prems(1) t]
    have "int (allowedOf k qs (runChecks check qs (snd (check k t lim)))) =
        min (int (checksOf k qs)) (max 0 (rl_max (lm_rule lim) - (n + 1)))"
      using Cons.IH [OF s(2)] Cons.prems(2,3) by simp
    then show ?thesis
      using q True s(1) by (auto simp: case_prod_beta Let_def min_def max_def)
  next
    case False
    have "hasBucket k n end (snd (check j t lim))"
      using Cons.prems(1) t False by (rule check_other_key)
    from Cons.IH [OF this] Cons.prems(2,3) show ?thesis
      using q False by (simp add: case_prod_beta Let_def)
  qed
qed

lemma check_opens_bucket:
  assumes "distinct (map fst (lm_buckets lim))" "liveBucket t (lm_buckets lim) k = None"
  shows "hasBucket k 1 (t + rl_windowMs (lm_rule lim)) (snd (check k t lim))"
    and "rr_allowed (fst (check k t lim)) \<longleftrightarrow> 1 \<le> rl_max (lm_rule lim)"
proof -
  let ?p = "pruneExpired t lim"
  have "sameView t ?p lim"
    by (rule pruneExpired_view) (simp add: sameView_def assms(1))
  then have "nextBucket (lm_rule ?p) (map_of (lm_buckets ?p) k) t =
      \<lparr>bk_count = 1, bk_resetAt = t + rl_windowMs (lm_rule lim)\<rparr>" and d: "distinct (map fst (lm_buckets ?p))"
    using assms(2) by (simp_all add: nextBucket_live sameView_def) (simp add: nextBucket_def)
  then show "hasBucket k 1 (t + rl_windowMs (lm_rule lim)) (snd (check k t lim))"
    and "rr_allowed (fst (check k t lim)) \<longleftrightarrow> 1 \<le> rl_max (lm_rule lim)"
    by (simp_all add: check_def Let_def hasBucket_def bucketResult_def distinct_update AList.update_conv')
qed

text \<open>
  C22. The budget: once a key with no open window is checked at \<open>t0\<close>, then among that check and
  all checks before \<open>t0 + windowMs\<close>, mixed in any way with other keys, exactly the first
  \<open>max\<close> of the key are allowed, no more and no fewer.
\<close>

theorem window_budget:
  assumes "distinct (map fst (lm_buckets lim))"
    and "liveBucket t0 (lm_buckets lim) k = None"
    and "\<And>q. q \<in> set qs \<Longrightarrow> snd q < t0 + rl_windowMs (lm_rule lim)"
    and "0 \<le> rl_max (lm_rule lim)"
  shows "int (allowedOf k ((k, t0) # qs) (runChecks check ((k, t0) # qs) lim)) =
    min (int (checksOf k ((k, t0) # qs))) (rl_max (lm_rule lim))"
proof -
  note o = check_opens_bucket [OF assms(1,2)]
  have "int (allowedOf k qs (runChecks check qs (snd (check k t0 lim)))) =
      min (int (checksOf k qs)) (max 0 (rl_max (lm_rule lim) - 1))"
    using window_budget_from [OF o(1), of qs] assms(3) by simp
  then show ?thesis
    using o(2) assms(4) by (auto simp: case_prod_beta Let_def min_def max_def)
qed

theorem window_budget_witness:
  "int (allowedOf ''ip'' [(''ip'', 0), (''x'', 1), (''ip'', 2), (''ip'', 3)]
     (runChecks check [(''ip'', 0), (''x'', 1), (''ip'', 2), (''ip'', 3)]
       (newLimiter ''booking'' \<lparr>rl_windowMs = 1000, rl_max = 2\<rparr>))) = 2"
proof -
  have "int (allowedOf ''ip'' ((''ip'', 0) # [(''x'', 1), (''ip'', 2), (''ip'', 3)])
     (runChecks check ((''ip'', 0) # [(''x'', 1), (''ip'', 2), (''ip'', 3)])
       (newLimiter ''booking'' \<lparr>rl_windowMs = 1000, rl_max = 2\<rparr>))) =
     min (int (checksOf ''ip'' ((''ip'', 0) # [(''x'', 1), (''ip'', 2), (''ip'', 3)])))
       (rl_max (lm_rule (newLimiter ''booking'' \<lparr>rl_windowMs = 1000, rl_max = 2\<rparr>)))"
    by (rule window_budget) (auto simp: newLimiter_def liveBucket_def)
  then show ?thesis by (simp add: newLimiter_def)
qed

end
