(* ===== verification/Policy.thy ===== *)
theory Policy
  imports ApiErrors
begin

text \<open>
  Roles and permissions: \<open>src/src/server/auth/policy.ts\<close> with the data of
  \<open>src/src/server/auth/policy-data.json\<close>. A role name and a permission key are strings, as
  in the code, so a name that is none of the seven roles is an ordinary input: it has no
  permissions of its own.
\<close>

definition ROLE_guest :: string where "ROLE_guest = ''Guest''"
definition ROLE_client :: string where "ROLE_client = ''Client''"
definition ROLE_lawyer :: string where "ROLE_lawyer = ''Lawyer''"
definition ROLE_secretary :: string where "ROLE_secretary = ''Secretary''"
definition ROLE_officeAdmin :: string where "ROLE_officeAdmin = ''Office Admin''"
definition ROLE_marketingStaff :: string where "ROLE_marketingStaff = ''Marketing Staff''"
definition ROLE_superAdmin :: string where "ROLE_superAdmin = ''Super Admin''"

lemmas role_defs = ROLE_guest_def ROLE_client_def ROLE_lawyer_def ROLE_secretary_def
  ROLE_officeAdmin_def ROLE_marketingStaff_def ROLE_superAdmin_def

definition STAFF_ROLES :: "string list" where
  "STAFF_ROLES = [''Lawyer'', ''Secretary'', ''Office Admin'', ''Marketing Staff'', ''Super Admin'']"

definition ALL_PERMISSIONS :: "string list" where
  "ALL_PERMISSIONS =
    [''audit.read.any'', ''appointment.create.self'', ''appointment.manage.any'',
     ''appointment.read.assigned'', ''appointment.read.own'', ''case.create.any'',
     ''case.read.any'', ''case.read.assigned'', ''case.read.own'', ''case.update.any'',
     ''case.update.assigned'', ''caseStudy.approve.any'', ''caseStudy.create.any'',
     ''caseStudy.read.public'', ''client.read.any'', ''client.read.assigned'',
     ''client.read.self'', ''client.account.manage'', ''client.update.any'',
     ''contact.manage.any'', ''contact.read.any'', ''conversation.assign.any'',
     ''conversation.create.own'', ''conversation.manage.any'', ''conversation.read.any'',
     ''conversation.read.own'', ''conversation.reply.any'', ''conversation.reply.own'',
     ''consultation.create.public'', ''consultation.review.any'',
     ''consultation.review.assigned'', ''content.approve.any'', ''content.create.any'',
     ''content.read.public'', ''document.manage.any'', ''document.read.assigned'',
     ''document.read.own'', ''document.upload.self'', ''email.read.audit'',
     ''finance.manage.any'', ''finance.read.any'', ''lawyer.manage.any'',
     ''lawyer.read.public'', ''note.create.assigned'', ''note.read.any'',
     ''note.read.assigned'', ''notification.read.self'', ''payment.read.own'',
     ''permission.manage.any'', ''report.read.any'', ''role.manage.any'',
     ''service.manage.any'', ''service.read.public'', ''session.manage.any'',
     ''session.manage.assigned'', ''settings.manage.any'', ''socialDraft.approve.any'',
     ''socialDraft.create.any'', ''task.manage.any'', ''task.manage.assigned'',
     ''task.read.assigned'', ''twoFactor.manage.self'', ''twoFactor.reset.staff'',
     ''user.manage.any'', ''user.read.self'']"

definition officePermissions :: "string list" where
  "officePermissions =
    [''appointment.manage.any'', ''case.create.any'', ''case.read.any'', ''case.update.any'',
     ''client.read.any'', ''client.account.manage'', ''client.update.any'',
     ''contact.manage.any'', ''contact.read.any'', ''conversation.assign.any'',
     ''conversation.manage.any'', ''conversation.read.any'', ''conversation.reply.any'',
     ''consultation.review.any'', ''document.manage.any'', ''finance.manage.any'',
     ''finance.read.any'', ''notification.read.self'', ''report.read.any'',
     ''session.manage.any'', ''task.manage.any'', ''twoFactor.manage.self'',
     ''user.read.self'']"

definition guestPermissions :: "string list" where
  "guestPermissions =
    [''caseStudy.read.public'', ''consultation.create.public'', ''content.read.public'',
     ''lawyer.read.public'', ''service.read.public'']"

definition clientPermissions :: "string list" where
  "clientPermissions =
    [''appointment.create.self'', ''appointment.read.own'', ''case.read.own'',
     ''client.read.self'', ''conversation.create.own'', ''conversation.read.own'',
     ''conversation.reply.own'', ''document.read.own'', ''document.upload.self'',
     ''notification.read.self'', ''payment.read.own'', ''user.read.self'']"

definition lawyerPermissions :: "string list" where
  "lawyerPermissions =
    [''appointment.read.assigned'', ''case.read.assigned'', ''case.update.assigned'',
     ''client.read.assigned'', ''consultation.review.assigned'', ''document.read.assigned'',
     ''note.create.assigned'', ''note.read.assigned'', ''notification.read.self'',
     ''session.manage.assigned'', ''task.manage.assigned'', ''task.read.assigned'',
     ''twoFactor.manage.self'', ''user.read.self'']"

definition marketingPermissions :: "string list" where
  "marketingPermissions =
    [''caseStudy.create.any'', ''content.create.any'', ''notification.read.self'',
     ''socialDraft.create.any'', ''twoFactor.manage.self'', ''user.read.self'']"

definition rolePermissions :: "string \<Rightarrow> string list option" where
  "rolePermissions roleName =
    (if roleName = ''Guest'' then Some guestPermissions
     else if roleName = ''Client'' then Some clientPermissions
     else if roleName = ''Lawyer'' then Some lawyerPermissions
     else if roleName = ''Office Admin'' then Some officePermissions
     else if roleName = ''Secretary'' then Some officePermissions
     else if roleName = ''Marketing Staff'' then Some marketingPermissions
     else if roleName = ''Super Admin'' then Some [''*'']
     else None)"

lemmas role_permission_defs = guestPermissions_def clientPermissions_def lawyerPermissions_def
  officePermissions_def marketingPermissions_def

record principal =
  pr_id :: string
  pr_roleName :: string
  pr_permissions :: "string list option"
  pr_clientId :: "string option"

definition isStaffRole :: "string \<Rightarrow> bool" where
  "isStaffRole roleName = (roleName \<in> set STAFF_ROLES)"

definition permissionsForRole :: "string \<Rightarrow> string list" where
  "permissionsForRole roleName =
    (let configured = (case rolePermissions roleName of None \<Rightarrow> [] | Some ps \<Rightarrow> ps)
     in if ''*'' \<in> set configured then ALL_PERMISSIONS else configured)"

definition effectivePermissions :: "principal \<Rightarrow> string list" where
  "effectivePermissions actor =
    (case pr_permissions actor of None \<Rightarrow> permissionsForRole (pr_roleName actor)
     | Some ps \<Rightarrow> ps)"

definition hasPermission :: "principal \<Rightarrow> string \<Rightarrow> bool" where
  "hasPermission actor permission =
    (if pr_roleName actor = ROLE_superAdmin then True
     else let ps = effectivePermissions actor
          in ''*'' \<in> set ps \<or> permission \<in> set ps)"

text \<open>\<open>assertPermission\<close> throws a \<open>PermissionDeniedError\<close>, which carries the key.\<close>

datatype permission_denied = PermissionDeniedError string

definition assertPermission :: "principal \<Rightarrow> string \<Rightarrow> permission_denied + unit" where
  "assertPermission actor permission =
    (if \<not> hasPermission actor permission then Inl (PermissionDeniedError permission)
     else Inr ())"

definition canReadClient :: "principal \<Rightarrow> string option \<Rightarrow> string option \<Rightarrow> bool" where
  "canReadClient actor userId assignedLawyerId =
    (if hasPermission actor ''client.read.any'' then True
     else if hasPermission actor ''client.read.self'' \<and> userId = Some (pr_id actor) then True
     else hasPermission actor ''client.read.assigned''
       \<and> assignedLawyerId = Some (pr_id actor))"

definition canReadCase :: "principal \<Rightarrow> string option \<Rightarrow> string option \<Rightarrow> bool" where
  "canReadCase actor clientUserId assignedLawyerId =
    (if hasPermission actor ''case.read.any'' then True
     else if hasPermission actor ''case.read.own'' \<and> clientUserId = Some (pr_id actor) then True
     else hasPermission actor ''case.read.assigned''
       \<and> assignedLawyerId = Some (pr_id actor))"

lemma hasPermission_superAdmin [simp]:
  "pr_roleName p = ROLE_superAdmin \<Longrightarrow> hasPermission p k"
  by (simp add: hasPermission_def)

lemma hasPermission_explicit:
  "pr_roleName p \<noteq> ROLE_superAdmin \<Longrightarrow> pr_permissions p = Some ps \<Longrightarrow>
    hasPermission p k \<longleftrightarrow> ''*'' \<in> set ps \<or> k \<in> set ps"
  by (simp add: hasPermission_def effectivePermissions_def Let_def)

lemma hasPermission_default:
  "pr_roleName p \<noteq> ROLE_superAdmin \<Longrightarrow> pr_permissions p = None \<Longrightarrow>
    hasPermission p k \<longleftrightarrow> ''*'' \<in> set (permissionsForRole (pr_roleName p)) \<or>
      k \<in> set (permissionsForRole (pr_roleName p))"
  by (simp add: hasPermission_def effectivePermissions_def Let_def)

lemma star_not_a_key: "''*'' \<notin> set ALL_PERMISSIONS"
  by (simp add: ALL_PERMISSIONS_def)

lemma star_not_granted: "''*'' \<notin> set (permissionsForRole r)"
  using star_not_a_key by (simp add: permissionsForRole_def Let_def)

text \<open>What the configured roles grant, a key at a time.\<close>

definition grants :: "string \<Rightarrow> string \<Rightarrow> bool" where
  "grants roleName key = (key \<in> set (permissionsForRole roleName))"

lemma hasPermission_role:
  "pr_permissions p = None \<Longrightarrow>
    hasPermission p k \<longleftrightarrow> pr_roleName p = ROLE_superAdmin \<or> grants (pr_roleName p) k"
  using star_not_granted by (auto simp: hasPermission_def effectivePermissions_def grants_def Let_def)

text \<open>
  Who may read a case under the configured roles (a principal whose permissions are not
  listed explicitly): the office roles and the super admin read every case, a lawyer reads
  exactly the cases assigned to him, a client exactly his own, and a guest, the marketing
  staff and a name that is no role read none.
\<close>

theorem canReadCase_by_role:
  assumes "pr_permissions p = None"
  shows "canReadCase p clientUser lawyer \<longleftrightarrow>
    pr_roleName p \<in> {ROLE_superAdmin, ROLE_officeAdmin, ROLE_secretary} \<or>
    (pr_roleName p = ROLE_client \<and> clientUser = Some (pr_id p)) \<or>
    (pr_roleName p = ROLE_lawyer \<and> lawyer = Some (pr_id p))"
  unfolding canReadCase_def hasPermission_role [OF assms]
  by (simp add: grants_def permissionsForRole_def rolePermissions_def role_permission_defs
      role_defs)

theorem canReadCase_by_role_witness:
  "\<not> canReadCase \<lparr>pr_id = ''u2'', pr_roleName = ''Client'', pr_permissions = None, pr_clientId = None\<rparr>
      (Some ''u1'') (Some ''u2'')"
  by (simp add: canReadCase_by_role role_defs)

end
