(* ===== verification/TwoFactor.thy ===== *)
theory TwoFactor
  imports Policy "HOL-Library.Word"
begin

unbundle bit_operations_syntax

text \<open>
  The second factor of the staff: the mode, the lock of a session and the mailed code
  (\<open>src/src/server/auth/two-factor.ts\<close>), the time-based code
  (\<open>src/src/server/auth/totp.ts\<close>) and the encoding of its secret
  (\<open>src/src/server/auth/totp-enrollment-service.ts\<close>). Bytes are \<open>8 word\<close>s, the code is
  assembled in a \<open>32 word\<close> as the language's bitwise operators do, and a string of binary
  digits is a \<open>bool list\<close>. The keyed hashes of the platform are parameters.
\<close>

type_synonym byte = "8 word"

section \<open>Base 32\<close>

definition BASE32_ALPHABET :: string where
  "BASE32_ALPHABET = ''ABCDEFGHIJKLMNOPQRSTUVWXYZ234567''"

fun indexOfChar :: "string \<Rightarrow> char \<Rightarrow> nat option" where
  "indexOfChar [] c = None"
| "indexOfChar (x # xs) c = (if x = c then Some 0 else map_option Suc (indexOfChar xs c))"

text \<open>\<open>value.toString(2).padStart(w, "0")\<close> and \<open>Number.parseInt(bits, 2)\<close>.\<close>

primrec bitsOf :: "nat \<Rightarrow> nat \<Rightarrow> bool list" where
  "bitsOf 0 n = []"
| "bitsOf (Suc w) n = bitsOf w (n div 2) @ [odd n]"

definition bitsVal :: "bool list \<Rightarrow> nat" where
  "bitsVal bs = foldl (\<lambda>a b. 2 * a + of_bool b) 0 bs"

datatype totp_error = InvalidBase32Character | CounterOutOfRange | BufferLengthMismatch

text \<open>The removal of trailing \<open>=\<close>, then of whitespace, then upper case.\<close>

definition normalizeSecret :: "string \<Rightarrow> string" where
  "normalizeSecret secret =
    jsUpper (removeWhitespace (rev (dropWhile (\<lambda>c. c = CHR ''='') (rev secret))))"

fun base32Bits :: "string \<Rightarrow> totp_error + bool list" where
  "base32Bits [] = Inr []"
| "base32Bits (c # cs) =
     (case indexOfChar BASE32_ALPHABET c of
        None \<Rightarrow> Inl InvalidBase32Character
      | Some v \<Rightarrow> andThen (base32Bits cs) (\<lambda>bs. Inr (bitsOf 5 v @ bs)))"

function bytesOfBits :: "bool list \<Rightarrow> byte list" where
  "bytesOfBits bits =
     (if length bits < 8 then []
      else word_of_nat (bitsVal (take 8 bits)) # bytesOfBits (drop 8 bits))"
  by pat_completeness auto
termination
  by (relation "measure length") auto

definition decodeBase32 :: "string \<Rightarrow> totp_error + byte list" where
  "decodeBase32 secret =
    andThen (base32Bits (normalizeSecret secret)) (\<lambda>bits. Inr (bytesOfBits bits))"

definition bitsOfBytes :: "byte list \<Rightarrow> bool list" where
  "bitsOfBytes bytes = concat (map (\<lambda>b. bitsOf 8 (unat b)) bytes)"

function encodeBits :: "bool list \<Rightarrow> string" where
  "encodeBits bits =
     (if bits = [] then []
      else BASE32_ALPHABET ! bitsVal (take 5 bits @ replicate (5 - length (take 5 bits)) False)
           # encodeBits (drop 5 bits))"
  by pat_completeness auto
termination
  by (relation "measure length") auto

declare bytesOfBits.simps [simp del] encodeBits.simps [simp del]

definition encodeBase32Secret :: "byte list \<Rightarrow> string" where
  "encodeBase32Secret bytes = encodeBits (bitsOfBytes bytes)"


subsection \<open>The round trip\<close>

lemma length_bitsOf [simp]: "length (bitsOf w n) = w"
  by (induction w arbitrary: n) simp_all

lemma bitsVal_snoc [simp]: "bitsVal (bs @ [b]) = 2 * bitsVal bs + of_bool b"
  by (simp add: bitsVal_def)

lemma bitsVal_Nil [simp]: "bitsVal [] = 0"
  by (simp add: bitsVal_def)

lemma bitsOf_bitsVal: "length bs = w \<Longrightarrow> bitsOf w (bitsVal bs) = bs"
proof (induction w arbitrary: bs)
  case 0
  then show ?case by simp
next
  case (Suc w)
  then obtain cs b where bs: "bs = cs @ [b]" by (cases bs rule: rev_cases) auto
  with Suc show ?case by simp
qed

lemma bitsVal_bitsOf: "n < 2 ^ w \<Longrightarrow> bitsVal (bitsOf w n) = n"
proof (induction w arbitrary: n)
  case 0
  then show ?case by simp
next
  case (Suc w)
  then have "n div 2 < 2 ^ w" by auto
  with Suc.IH show ?case by simp
qed

lemma bitsVal_lt: "bitsVal bs < 2 ^ length bs"
  by (induction bs rule: rev_induct) auto

lemma length_alphabet [simp]: "length BASE32_ALPHABET = 32"
  by (simp add: BASE32_ALPHABET_def)

lemma indexOfChar_nth: "distinct xs \<Longrightarrow> i < length xs \<Longrightarrow> indexOfChar xs (xs ! i) = Some i"
proof (induction xs arbitrary: i)
  case Nil
  then show ?case by simp
next
  case (Cons x xs)
  then show ?case by (cases i) auto
qed

lemma distinct_alphabet: "distinct BASE32_ALPHABET"
  by (simp add: BASE32_ALPHABET_def)

lemma alphabet_kept:
  "list_all (\<lambda>c. \<not> jsWhitespace c \<and> upperChar c = [c] \<and> c \<noteq> CHR ''='') BASE32_ALPHABET"
  by code_simp

lemma length_bitsOfBytes: "length (bitsOfBytes bytes) = 8 * length bytes"
  by (induction bytes) (simp_all add: bitsOfBytes_def)

lemma encodeBits_in_alphabet: "set (encodeBits bits) \<subseteq> set BASE32_ALPHABET"
proof (induction bits rule: encodeBits.induct)
  case (1 bits)
  show ?case
  proof (cases "bits = []")
    case True
    then show ?thesis by (simp add: encodeBits.simps)
  next
    case False
    let ?c = "take 5 bits @ replicate (5 - length (take 5 bits)) False"
    have "bitsVal ?c < 2 ^ length ?c" by (rule bitsVal_lt)
    moreover have "length ?c = 5" by simp
    ultimately have "BASE32_ALPHABET ! bitsVal ?c \<in> set BASE32_ALPHABET" by simp
    with False "1.IH" show ?thesis by (simp add: encodeBits.simps [of bits])
  qed
qed

lemma normalizeSecret_plain:
  assumes "set s \<subseteq> set BASE32_ALPHABET"
  shows "normalizeSecret s = s"
proof -
  have k: "\<And>c. c \<in> set s \<Longrightarrow> \<not> jsWhitespace c \<and> upperChar c = [c] \<and> c \<noteq> CHR ''=''"
    using assms alphabet_kept by (auto simp: list_all_iff)
  then have "dropWhile (\<lambda>c. c = CHR ''='') (rev s) = rev s"
    by (intro dropWhile_none) (auto simp: list_all_iff)
  moreover have "removeWhitespace s = s"
    using k by (simp add: removeWhitespace_def filter_id_conv)
  moreover have "jsUpper s = s"
    using k by (induction s) (simp_all add: jsUpper_def)
  ultimately show ?thesis by (simp add: normalizeSecret_def)
qed

lemma base32Bits_encodeBits:
  "\<exists>k<5. base32Bits (encodeBits bits) = Inr (bits @ replicate k False)"
proof (induction bits rule: encodeBits.induct)
  case (1 bits)
  show ?case
  proof (cases "bits = []")
    case True
    then show ?thesis by (auto simp: encodeBits.simps intro!: exI [of _ 0])
  next
    case False
    let ?c = "take 5 bits @ replicate (5 - length (take 5 bits)) False"
    have c5: "length ?c = 5" by simp
    have "bitsVal ?c < 32" using bitsVal_lt [of ?c] c5 by simp
    then have ix: "indexOfChar BASE32_ALPHABET (BASE32_ALPHABET ! bitsVal ?c) = Some (bitsVal ?c)"
      by (simp add: indexOfChar_nth distinct_alphabet)
    from False "1.IH" obtain k where k: "k < 5"
      "base32Bits (encodeBits (drop 5 bits)) = Inr (drop 5 bits @ replicate k False)" by auto
    have e: "base32Bits (encodeBits bits) = Inr (?c @ drop 5 bits @ replicate k False)"
      using False ix k(2) bitsOf_bitsVal [OF c5] by (simp add: encodeBits.simps [of bits])
    show ?thesis
    proof (cases "length bits < 5")
      case True
      then have "drop 5 bits = []" by simp
      moreover from this k(2) have "k = 0"
        by (simp add: encodeBits.simps)
      ultimately show ?thesis
        using e True False by (auto intro!: exI [of _ "5 - length bits"])
    next
      case False
      then have "?c @ drop 5 bits = bits" by simp
      with e k(1) show ?thesis by (metis append_assoc)
    qed
  qed
qed

lemma bytesOfBits_bitsOfBytes:
  "k < 8 \<Longrightarrow> bytesOfBits (bitsOfBytes bytes @ replicate k False) = bytes"
proof (induction bytes)
  case Nil
  then show ?case by (simp add: bitsOfBytes_def bytesOfBits.simps)
next
  case (Cons b bytes)
  have "bitsOfBytes (b # bytes) = bitsOf 8 (unat b) @ bitsOfBytes bytes"
    by (simp add: bitsOfBytes_def)
  moreover have "bitsVal (bitsOf 8 (unat b)) = unat b"
    by (rule bitsVal_bitsOf) (use unsigned_less [of b, where ?'a = nat] in simp)
  ultimately show ?case using Cons
    by (simp add: bytesOfBits.simps [of "bitsOf 8 (unat b) @ bitsOfBytes bytes @ replicate k False"])
qed

lemma decodeBase32_encode: "decodeBase32 (encodeBase32Secret bytes) = Inr bytes"
proof -
  obtain k where k: "k < 5"
    "base32Bits (encodeBits (bitsOfBytes bytes)) = Inr (bitsOfBytes bytes @ replicate k False)"
    using base32Bits_encodeBits by blast
  have "normalizeSecret (encodeBase32Secret bytes) = encodeBase32Secret bytes"
    unfolding encodeBase32Secret_def by (intro normalizeSecret_plain encodeBits_in_alphabet)
  with k show ?thesis
    by (simp add: decodeBase32_def encodeBase32Secret_def bytesOfBits_bitsOfBytes)
qed

text \<open>
  The setup key shown to a member of the staff decodes, in the other module, to exactly
  the random bytes that were drawn for it, whatever their number: padding the last group of
  five bits never adds or loses a byte.
\<close>

theorem base32_roundtrip: "decodeBase32 (encodeBase32Secret bytes) = Inr bytes"
  by (rule decodeBase32_encode)


section \<open>Time-based codes\<close>

text \<open>
  An index past the end reads \<open>undefined\<close>, which the bitwise operators take as 0. \<open>hmac\<close>
  is the keyed hash (\<open>createHmac("sha1", key)\<close>), from key and message to digest.
\<close>

definition byteAt :: "byte list \<Rightarrow> nat \<Rightarrow> byte" where
  "byteAt bs i = (if i < length bs then bs ! i else 0)"

definition counterBytes :: "int \<Rightarrow> byte list" where
  "counterBytes counter = map (\<lambda>i. word_of_int (counter div 256 ^ (7 - i))) [0..<8]"

definition truncatedCode :: "byte list \<Rightarrow> 32 word" where
  "truncatedCode digest =
    (let offset = (if digest = [] then 0 else unat (last digest AND 15))
     in push_bit 24 (ucast (byteAt digest offset AND 127))
        OR push_bit 16 (ucast (byteAt digest (offset + 1) AND 255))
        OR push_bit 8 (ucast (byteAt digest (offset + 2) AND 255))
        OR ucast (byteAt digest (offset + 3) AND 255))"

definition hotp :: "(byte list \<Rightarrow> byte list \<Rightarrow> byte list) \<Rightarrow> string \<Rightarrow> int \<Rightarrow> nat \<Rightarrow> totp_error + string" where
  "hotp hmac secret counter digits =
    (if counter < 0 \<or> 2 ^ 64 \<le> counter then Inl CounterOutOfRange
     else andThen (decodeBase32 secret) (\<lambda>key.
       let code = truncatedCode (hmac key (counterBytes counter))
       in Inr (padStart digits (CHR ''0'') (natToText (unat code mod 10 ^ digits)))))"

text \<open>The options default to a step of 30 seconds, 6 digits and a window of 1.\<close>

record totp_options =
  to_stepSeconds :: int
  to_digits :: nat
  to_window :: nat

definition defaultTotpOptions :: totp_options where
  "defaultTotpOptions = \<lparr>to_stepSeconds = 30, to_digits = 6, to_window = 1\<rparr>"

definition totpCounter :: "totp_options \<Rightarrow> int \<Rightarrow> int" where
  "totpCounter opts now = now div (1000 * to_stepSeconds opts)"

definition generateTotpCode ::
  "(byte list \<Rightarrow> byte list \<Rightarrow> byte list) \<Rightarrow> string \<Rightarrow> totp_options \<Rightarrow> int \<Rightarrow> totp_error + string" where
  "generateTotpCode hmac secret opts now = hotp hmac secret (totpCounter opts now) (to_digits opts)"

text \<open>The platform's constant-time comparison throws when the lengths differ.\<close>

definition timingSafeEqual :: "'a list \<Rightarrow> 'a list \<Rightarrow> totp_error + bool" where
  "timingSafeEqual a b = (if length a \<noteq> length b then Inl BufferLengthMismatch else Inr (a = b))"

fun tryCounters ::
  "(byte list \<Rightarrow> byte list \<Rightarrow> byte list) \<Rightarrow> string \<Rightarrow> nat \<Rightarrow> string \<Rightarrow> int list \<Rightarrow> totp_error + bool" where
  "tryCounters hmac secret digits code [] = Inr False"
| "tryCounters hmac secret digits code (c # cs) =
     andThen (hotp hmac secret c digits) (\<lambda>expected.
       andThen (timingSafeEqual expected code) (\<lambda>eq.
         if eq then Inr True else tryCounters hmac secret digits code cs))"

definition totpCounters :: "totp_options \<Rightarrow> int \<Rightarrow> int list" where
  "totpCounters opts now =
    (let w = int (to_window opts) in map (\<lambda>offset. totpCounter opts now + offset) [- w..w])"

definition verifyTotpCode ::
  "(byte list \<Rightarrow> byte list \<Rightarrow> byte list) \<Rightarrow> string \<Rightarrow> string \<Rightarrow> totp_options \<Rightarrow> int \<Rightarrow> totp_error + bool" where
  "verifyTotpCode hmac secret code opts now =
    (let sanitized = removeWhitespace code
     in if \<not> (length sanitized = to_digits opts \<and> list_all isDigit sanitized) then Inr False
        else tryCounters hmac secret (to_digits opts) sanitized (totpCounters opts now))"

lemma hotp_length:
  assumes "hotp hmac secret c d = Inr code" "0 < d"
  shows "length code = d \<and> list_all isDigit code"
proof -
  from assms(1) obtain n :: nat where
    "code = padStart d (CHR ''0'') (natToText (n mod 10 ^ d))"
    by (auto simp: hotp_def Let_def split: if_splits)
  moreover have "length (natToText (n mod 10 ^ d)) \<le> d"
    by (rule natToText_zero_pad_length) (use assms(2) in simp_all)
  moreover have "list_all isDigit (padStart d (CHR ''0'') (natToText (n mod 10 ^ d)))"
    using natToText_digits [of "n mod 10 ^ d"] by (auto simp: padStart_def list_all_iff isDigit_zero)
  ultimately show ?thesis by (simp add: length_padStart)
qed

lemma tryCounters_result:
  assumes "length code = d" "0 < d"
  shows "tryCounters hmac secret d code cs \<noteq> Inl BufferLengthMismatch"
    and "tryCounters hmac secret d code cs = Inr b \<Longrightarrow> b \<Longrightarrow>
      \<exists>c\<in>set cs. hotp hmac secret c d = Inr code"
    and "list_all (\<lambda>c. 0 \<le> c \<and> c < 2 ^ 64) cs \<Longrightarrow> decodeBase32 secret = Inr key \<Longrightarrow>
      tryCounters hmac secret d code cs = Inr (\<exists>c\<in>set cs. hotp hmac secret c d = Inr code)"
proof -
  have h: "hotp hmac secret c d \<noteq> Inl BufferLengthMismatch" for c
  proof -
    have "base32Bits s \<noteq> Inl BufferLengthMismatch" for s
      by (induction s) (auto simp: andThen_eq_Inl split: option.splits)
    then show ?thesis by (simp add: hotp_def decodeBase32_def andThen_eq_Inl Let_def)
  qed
  show "tryCounters hmac secret d code cs \<noteq> Inl BufferLengthMismatch"
  proof (induction cs)
    case (Cons c cs)
    then show ?case
      using h [of c] hotp_length [of hmac secret c d] assms
      by (auto simp: andThen_eq_Inl timingSafeEqual_def split: if_splits)
  qed simp
  show "tryCounters hmac secret d code cs = Inr b \<Longrightarrow> b \<Longrightarrow>
      \<exists>c\<in>set cs. hotp hmac secret c d = Inr code"
    by (induction cs) (auto simp: timingSafeEqual_def split: if_splits)
  show "list_all (\<lambda>c. 0 \<le> c \<and> c < 2 ^ 64) cs \<Longrightarrow> decodeBase32 secret = Inr key \<Longrightarrow>
      tryCounters hmac secret d code cs = Inr (\<exists>c\<in>set cs. hotp hmac secret c d = Inr code)"
  proof (induction cs)
    case (Cons c cs)
    then obtain e where e: "hotp hmac secret c d = Inr e" by (auto simp: hotp_def Let_def)
    then have "length e = length code" using hotp_length assms by auto
    with e Cons show ?case by (auto simp: timingSafeEqual_def)
  qed simp
qed

lemma verifyTotpCode_iff:
  assumes "decodeBase32 secret = Inr key" and "0 < to_digits opts"
    and "int (to_window opts) \<le> totpCounter opts now"
    and "totpCounter opts now + int (to_window opts) < 2 ^ 64"
  shows "verifyTotpCode hmac secret code opts now =
    Inr (\<exists>c\<in>{totpCounter opts now - int (to_window opts)..totpCounter opts now + int (to_window opts)}.
      hotp hmac secret c (to_digits opts) = Inr (removeWhitespace code))"
proof (cases "length (removeWhitespace code) = to_digits opts \<and> list_all isDigit (removeWhitespace code)")
  case True
  have s: "set (totpCounters opts now) =
      {totpCounter opts now - int (to_window opts)..totpCounter opts now + int (to_window opts)}"
    by (auto simp: totpCounters_def Let_def image_iff
        intro!: bexI [of _ "x - totpCounter opts now" for x])
  then have "list_all (\<lambda>c. 0 \<le> c \<and> c < 2 ^ 64) (totpCounters opts now)"
    using assms(3,4) by (auto simp: list_all_iff)
  with tryCounters_result(3) [OF _ assms(2) _ assms(1)] True s show ?thesis
    by (simp add: verifyTotpCode_def Let_def)
next
  case False
  then have "hotp hmac secret c (to_digits opts) \<noteq> Inr (removeWhitespace code)" for c
    using hotp_length [of hmac secret c "to_digits opts" "removeWhitespace code"] assms(2) by auto
  with False show ?thesis by (auto simp: verifyTotpCode_def Let_def)
qed

text \<open>
  For a secret that decodes and a clock away from the ends of the counter's range, a code
  verifies exactly when, stripped of whitespace, it is the code of one of the counters of the
  window; the constant-time comparison is never reached with different lengths.
\<close>

theorem verifyTotpCode_window:
  assumes "decodeBase32 secret = Inr key" and "0 < to_digits opts"
    and "int (to_window opts) \<le> totpCounter opts now"
    and "totpCounter opts now + int (to_window opts) < 2 ^ 64"
  shows "verifyTotpCode hmac secret code opts now =
    Inr (\<exists>c\<in>{totpCounter opts now - int (to_window opts)..totpCounter opts now + int (to_window opts)}.
      hotp hmac secret c (to_digits opts) = Inr (removeWhitespace code))"
  using assms by (rule verifyTotpCode_iff)

theorem verifyTotpCode_window_witness:
  "verifyTotpCode (\<lambda>key msg. replicate 20 1) ''AE======'' ''843 009'' defaultTotpOptions 90000 =
    Inr (\<exists>c\<in>{2..4}. hotp (\<lambda>key msg. replicate 20 1) ''AE======'' c 6 = Inr ''843009'')"
proof -
  have "verifyTotpCode (\<lambda>key msg. replicate 20 1) ''AE======'' ''843 009'' defaultTotpOptions 90000 =
    Inr (\<exists>c\<in>{totpCounter defaultTotpOptions 90000 - int (to_window defaultTotpOptions)
        ..totpCounter defaultTotpOptions 90000 + int (to_window defaultTotpOptions)}.
      hotp (\<lambda>key msg. replicate 20 1) ''AE======'' c (to_digits defaultTotpOptions) =
        Inr (removeWhitespace ''843 009''))"
  proof (rule verifyTotpCode_window [where key = "[1]"])
    show "decodeBase32 ''AE======'' = Inr [1]" by code_simp
  qed (simp_all add: defaultTotpOptions_def totpCounter_def)
  moreover have "removeWhitespace ''843 009'' = ''843009''" by code_simp
  ultimately show ?thesis by (simp add: defaultTotpOptions_def totpCounter_def)
qed


section \<open>The mode, the lock of a session, the mailed code\<close>

definition EMAIL_OTP_EXPIRY_MINUTES :: int where "EMAIL_OTP_EXPIRY_MINUTES = 10"
definition EMAIL_OTP_MAX_ATTEMPTS :: int where "EMAIL_OTP_MAX_ATTEMPTS = 5"
definition TWO_FACTOR_SESSION_MAX_ATTEMPTS :: int where "TWO_FACTOR_SESSION_MAX_ATTEMPTS = 5"
definition TWO_FACTOR_SESSION_LOCK_MINUTES :: int where "TWO_FACTOR_SESSION_LOCK_MINUTES = 10"
definition EMAIL_OTP_PURPOSE :: string where "EMAIL_OTP_PURPOSE = ''STAFF_2FA''"

datatype two_factor_mode = ModeTotp | ModeDisabled

definition staffTwoFactorMode :: "env \<Rightarrow> two_factor_mode" where
  "staffTwoFactorMode env = (if env ''STAFF_2FA_MODE'' = Some ''totp'' then ModeTotp else ModeDisabled)"

definition isStaffTwoFactorEnabled :: "env \<Rightarrow> bool" where
  "isStaffTwoFactorEnabled env = (staffTwoFactorMode env = ModeTotp)"

definition requiresTwoFactor :: "string \<Rightarrow> env \<Rightarrow> bool" where
  "requiresTwoFactor roleName env = (isStaffRole roleName \<and> isStaffTwoFactorEnabled env)"

datatype session_status = S_PENDING_2FA | S_ACTIVE | S_REVOKED | S_EXPIRED

definition initialSessionStatusForRole :: "string \<Rightarrow> env \<Rightarrow> session_status" where
  "initialSessionStatusForRole roleName env =
    (if requiresTwoFactor roleName env then S_PENDING_2FA else S_ACTIVE)"

definition canFinalizeSession :: "string \<Rightarrow> session_status \<Rightarrow> int option \<Rightarrow> env \<Rightarrow> bool" where
  "canFinalizeSession roleName status twoFactorVerifiedAt env =
    (if status \<noteq> S_ACTIVE then False
     else \<not> requiresTwoFactor roleName env \<or> twoFactorVerifiedAt \<noteq> None)"

definition twoFactorLockedUntilForAttempt :: "int \<Rightarrow> int \<Rightarrow> int option" where
  "twoFactorLockedUntilForAttempt attemptCount now =
    (if attemptCount \<ge> TWO_FACTOR_SESSION_MAX_ATTEMPTS
     then Some (now + TWO_FACTOR_SESSION_LOCK_MINUTES * 60000) else None)"

definition isTwoFactorSessionLocked :: "int option \<Rightarrow> int \<Rightarrow> bool" where
  "isTwoFactorSessionLocked lockedUntil now =
    (case lockedUntil of None \<Rightarrow> False | Some t \<Rightarrow> t > now)"

text \<open>\<open>random\<close> is what \<open>randomInt(0, 1_000_000)\<close> drew.\<close>

definition generateEmailOtp :: "nat \<Rightarrow> string" where
  "generateEmailOtp random = padStart 6 (CHR ''0'') (natToText random)"

definition emailOtpExpiryDate :: "int \<Rightarrow> int" where
  "emailOtpExpiryDate now = now + EMAIL_OTP_EXPIRY_MINUTES * 60000"

datatype secret_error = AuthSecretRequired

definition getOtpHashSecret :: "env \<Rightarrow> secret_error + string" where
  "getOtpHashSecret env =
    (let secret = (case env ''AUTH_SECRET'' of
           None \<Rightarrow> ''local-dev-only-auth-secret-do-not-use-in-production'' | Some s \<Rightarrow> s)
     in if env ''NODE_ENV'' = Some ''production'' \<and>
           (env ''AUTH_SECRET'' = None \<or> env ''AUTH_SECRET'' = Some [])
        then Inl AuthSecretRequired else Inr secret)"

definition hashEmailOtp ::
  "(string \<Rightarrow> string \<Rightarrow> string) \<Rightarrow> env \<Rightarrow> string \<Rightarrow> string \<Rightarrow> string \<Rightarrow> secret_error + string" where
  "hashEmailOtp hmac env otp userId purpose =
    andThen (getOtpHashSecret env) (\<lambda>secret. Inr (hmac secret (userId @ '':'' @ purpose @ '':'' @ otp)))"

text \<open>\<open>bytesOf\<close> is \<open>Buffer.from(_, "base64url")\<close>.\<close>

definition verifyEmailOtpHash ::
  "(string \<Rightarrow> string \<Rightarrow> string) \<Rightarrow> (string \<Rightarrow> byte list) \<Rightarrow> env \<Rightarrow>
   string \<Rightarrow> string \<Rightarrow> string \<Rightarrow> string \<Rightarrow> secret_error + bool" where
  "verifyEmailOtpHash hmac bytesOf env otp userId purpose otpHash =
    andThen (hashEmailOtp hmac env otp userId purpose) (\<lambda>h.
      let actual = bytesOf h; expected = bytesOf otpHash
      in Inr (length actual = length expected \<and> actual = expected))"

lemma generateEmailOtp_shape:
  "random < 1000000 \<Longrightarrow> length (generateEmailOtp random) = 6 \<and> natOfDigits (generateEmailOtp random) = random"
  using natToText_zero_pad_length [of random 6]
  by (simp add: generateEmailOtp_def length_padStart natOfDigits_padStart_zero)

lemma verifyEmailOtpHash_own:
  "hashEmailOtp hmac env otp u p = Inr h \<Longrightarrow> verifyEmailOtpHash hmac bytesOf env otp u p h = Inr True"
  by (simp add: verifyEmailOtpHash_def Let_def)

lemma locked_after_max_attempts:
  "isTwoFactorSessionLocked (twoFactorLockedUntilForAttempt n t) now \<longleftrightarrow> 5 \<le> n \<and> now < t + 600000"
  by (simp add: isTwoFactorSessionLocked_def twoFactorLockedUntilForAttempt_def
      TWO_FACTOR_SESSION_MAX_ATTEMPTS_def TWO_FACTOR_SESSION_LOCK_MINUTES_def)

lemma initialSession_finalizes:
  "canFinalizeSession r (initialSessionStatusForRole r env) None env \<longleftrightarrow> \<not> requiresTwoFactor r env"
  by (simp add: canFinalizeSession_def initialSessionStatusForRole_def)

end
