(* ===== verification/Secrets.thy ===== *)
theory Secrets
  imports TwoFactor
begin

text \<open>
  Stored secrets (\<open>src/src/server/auth/secret.ts\<close>): a secret is kept under AES-256-GCM with the
  digest of \<open>AUTH_SECRET\<close> as the key, as \<open>v1:iv:tag:ciphertext\<close> in base64url. The cipher and
  the digest of \<open>node:crypto\<close> are parameters, the random bytes of the vector an argument.
\<close>

section \<open>base64url\<close>

definition BASE64URL :: string where
  "BASE64URL = ''ABCDEFGHIJKLMNOPQRSTUVWXYZabcdefghijklmnopqrstuvwxyz0123456789-_''"

function sixBits :: "bool list \<Rightarrow> string" where
  "sixBits bits =
     (if bits = [] then []
      else BASE64URL ! bitsVal (take 6 bits @ replicate (6 - length (take 6 bits)) False)
           # sixBits (drop 6 bits))"
  by pat_completeness auto
termination
  by (relation "measure length") auto

declare sixBits.simps [simp del]

definition utf8 :: "string \<Rightarrow> byte list" where
  "utf8 s = concat (map (\<lambda>c. let n = codeUnit c in
     if n < 128 then [word_of_nat n]
     else [word_of_nat (192 + n div 64), word_of_nat (128 + n mod 64)]) s)"

definition toBase64url :: "byte list \<Rightarrow> string" where
  "toBase64url bytes = sixBits (bitsOfBytes bytes)"

text \<open>\<open>Buffer.from(text, "base64url")\<close> reads both base64 alphabets and skips any other character.\<close>

definition base64Value :: "char \<Rightarrow> nat option" where
  "base64Value c = (if c = CHR ''+'' then Some 62 else if c = CHR ''/'' then Some 63
     else indexOfChar BASE64URL c)"

definition fromBase64url :: "string \<Rightarrow> byte list" where
  "fromBase64url s =
    bytesOfBits (concat (map (\<lambda>c. case base64Value c of None \<Rightarrow> [] | Some v \<Rightarrow> bitsOf 6 v) s))"


text \<open>
  \<open>toString("utf8")\<close>: a byte below 128 and a sequence of two bytes for a character up to U+00FF are
  read back; a text of the model has no other characters, and every byte of any other sequence
  gives \<open>CHR 0xFF\<close> in the place of what the platform reads there.
\<close>

fun utf8Text :: "byte list \<Rightarrow> string" where
  "utf8Text [] = []"
| "utf8Text [b] = [if b < 128 then char_of (unat b) else CHR 0xFF]"
| "utf8Text (b # c # bs) =
    (if b < 128 then char_of (unat b) # utf8Text (c # bs)
     else if (b = 194 \<or> b = 195) \<and> 128 \<le> c \<and> c < 192
     then char_of ((unat b - 192) * 64 + (unat c - 128)) # utf8Text bs
     else CHR 0xFF # utf8Text (c # bs))"


section \<open>Sealing and opening\<close>

text \<open>
  \<open>ci_encrypt\<close> gives the ciphertext and the tag of a key, a vector and a plain text; \<open>ci_decrypt\<close>
  takes the key, the vector, the tag and the ciphertext and is \<open>None\<close> where the decipher throws.
\<close>

record cipher =
  ci_sha256 :: "string \<Rightarrow> byte list"
  ci_encrypt :: "byte list \<Rightarrow> byte list \<Rightarrow> byte list \<Rightarrow> byte list \<times> byte list"
  ci_decrypt :: "byte list \<Rightarrow> byte list \<Rightarrow> byte list \<Rightarrow> byte list \<Rightarrow> byte list option"

datatype seal_error = AuthSecretMissing | UnsupportedSealedFormat | DecipherThrew

definition getEncryptionKey :: "cipher \<Rightarrow> env \<Rightarrow> seal_error + byte list" where
  "getEncryptionKey ci env =
    (let secret = (case env ''AUTH_SECRET'' of
           None \<Rightarrow> ''local-dev-only-auth-secret-do-not-use-in-production'' | Some s \<Rightarrow> s)
     in if env ''NODE_ENV'' = Some ''production'' \<and> (env ''AUTH_SECRET'' = None \<or> env ''AUTH_SECRET'' = Some [])
        then Inl AuthSecretMissing
        else Inr (ci_sha256 ci secret))"

definition sealSecret :: "cipher \<Rightarrow> env \<Rightarrow> byte list \<Rightarrow> string \<Rightarrow> seal_error + string" where
  "sealSecret ci env iv value1 =
    andThen (getEncryptionKey ci env) (\<lambda>key.
      let (ciphertext, tag) = ci_encrypt ci key iv (utf8 value1)
      in Inr (''v1:'' @ toBase64url iv @ '':'' @ toBase64url tag @ '':'' @ toBase64url ciphertext))"

definition openSealedSecret :: "cipher \<Rightarrow> env \<Rightarrow> string \<Rightarrow> seal_error + string" where
  "openSealedSecret ci env sealed =
    (case splitOn (CHR '':'') sealed of
       version # ivValue # tagValue # ciphertextValue # rest \<Rightarrow>
         if version \<noteq> ''v1'' \<or> ivValue = [] \<or> tagValue = [] \<or> ciphertextValue = []
         then Inl UnsupportedSealedFormat
         else andThen (getEncryptionKey ci env) (\<lambda>key.
           case ci_decrypt ci key (fromBase64url ivValue) (fromBase64url tagValue) (fromBase64url ciphertextValue) of
             None \<Rightarrow> Inl DecipherThrew
           | Some plain \<Rightarrow> Inr (utf8Text plain))
     | _ \<Rightarrow> Inl UnsupportedSealedFormat)"


section \<open>The round trip\<close>

lemma length_BASE64URL [simp]: "length BASE64URL = 64"
  by (simp add: BASE64URL_def)

lemma distinct_BASE64URL: "distinct BASE64URL"
  by code_simp

lemma BASE64URL_no_dot: "CHR ''.'' \<notin> set BASE64URL" "CHR ''+'' \<notin> set BASE64URL" "CHR ''/'' \<notin> set BASE64URL"
  "CHR '':'' \<notin> set BASE64URL"
  by (simp_all add: BASE64URL_def)

lemma base64Value_nth: "i < 64 \<Longrightarrow> base64Value (BASE64URL ! i) = Some i"
proof -
  assume i: "i < 64"
  then have "BASE64URL ! i \<in> set BASE64URL" by simp
  then have "BASE64URL ! i \<noteq> CHR ''+''" "BASE64URL ! i \<noteq> CHR ''/''"
    using BASE64URL_no_dot by auto
  with i show ?thesis by (simp add: base64Value_def indexOfChar_nth distinct_BASE64URL)
qed

lemma bitsOf_byte: "bitsOf 8 n = [odd (n div 128), odd (n div 64), odd (n div 32), odd (n div 16),
    odd (n div 8), odd (n div 4), odd (n div 2), odd n]"
proof -
  have "(8::nat) = Suc (Suc (Suc (Suc (Suc (Suc (Suc (Suc 0)))))))" by simp
  then show ?thesis by (simp only: bitsOf.simps append.simps) (simp add: div_mult2_eq [symmetric])
qed

lemma sixBits_decodes:
  "\<exists>k<6. concat (map (\<lambda>c. case base64Value c of None \<Rightarrow> [] | Some v \<Rightarrow> bitsOf 6 v) (sixBits bits)) =
    bits @ replicate k False"
proof (induction bits rule: sixBits.induct)
  case (1 bits)
  let ?dec = "\<lambda>s. concat (map (\<lambda>c. case base64Value c of None \<Rightarrow> [] | Some v \<Rightarrow> bitsOf 6 v) s)"
  show ?case
  proof (cases "bits = []")
    case True
    then show ?thesis by (auto simp: sixBits.simps intro!: exI [of _ 0])
  next
    case False
    let ?c = "take 6 bits @ replicate (6 - length (take 6 bits)) False"
    have c6: "length ?c = 6" by simp
    have "bitsVal ?c < 64" using bitsVal_lt [of ?c] c6 by simp
    then have d: "?dec (sixBits bits) = ?c @ ?dec (sixBits (drop 6 bits))"
      using False bitsOf_bitsVal [OF c6] by (simp add: sixBits.simps [of bits] base64Value_nth)
    from False "1.IH" obtain k where k: "k < 6"
      "?dec (sixBits (drop 6 bits)) = drop 6 bits @ replicate k False" by auto
    show ?thesis
    proof (cases "length bits < 6")
      case True
      then have "drop 6 bits = []" by simp
      moreover from this k(2) have "k = 0" by (simp add: sixBits.simps)
      ultimately show ?thesis using d k True False by (auto intro!: exI [of _ "6 - length bits"])
    next
      case False
      then have "?c @ drop 6 bits = bits" by simp
      with d k show ?thesis by (metis append_assoc)
    qed
  qed
qed

lemma fromBase64url_toBase64url: "fromBase64url (toBase64url bytes) = bytes"
proof -
  obtain k where "k < 6" "concat (map (\<lambda>c. case base64Value c of None \<Rightarrow> [] | Some v \<Rightarrow> bitsOf 6 v)
      (sixBits (bitsOfBytes bytes))) = bitsOfBytes bytes @ replicate k False"
    using sixBits_decodes by blast
  then show ?thesis by (simp add: fromBase64url_def toBase64url_def bytesOfBits_bitsOfBytes)
qed

lemma sixBits_alphabet: "set (sixBits bits) \<subseteq> set BASE64URL"
proof (induction bits rule: sixBits.induct)
  case (1 bits)
  let ?c = "take 6 bits @ replicate (6 - length (take 6 bits)) False"
  have "bitsVal ?c < 64" using bitsVal_lt [of ?c] by simp
  then have "BASE64URL ! bitsVal ?c \<in> set BASE64URL" by simp
  then show ?case
    using "1.IH" by (cases "bits = []") (auto simp: sixBits.simps [of bits] sixBits.simps [of "[]"])
qed

lemma utf8_nonempty: "s \<noteq> [] \<Longrightarrow> utf8 s \<noteq> []"
  by (cases s) (simp_all add: utf8_def Let_def)

lemma toBase64url_nonempty: "bytes \<noteq> [] \<Longrightarrow> toBase64url bytes \<noteq> []"
proof (cases bytes)
  case (Cons b bs)
  have "bitsOf 8 (unat b) \<noteq> []" by (metis length_bitsOf list.size(3) zero_neq_numeral)
  then have "bitsOfBytes bytes \<noteq> []" by (simp add: Cons bitsOfBytes_def)
  then show ?thesis by (simp add: toBase64url_def sixBits.simps)
qed simp

lemma toBase64url_no_colon: "CHR '':'' \<notin> set (toBase64url bytes)"
  using sixBits_alphabet BASE64URL_no_dot(4) by (auto simp: toBase64url_def)

lemma codeUnit_byte: "codeUnit c < 128 \<Longrightarrow> word_of_nat (codeUnit c) < (128::byte)"
  by (simp add: word_less_nat_alt unat_of_nat)

lemma utf8Text_utf8:
  assumes "list_all (\<lambda>c. codeUnit c < 128) s"
  shows "utf8Text (utf8 s) = s"
  using assms
proof (induction s)
  case (Cons c s)
  have u: "utf8 (c # s) = word_of_nat (codeUnit c) # utf8 s" using Cons.prems by (simp add: utf8_def)
  have v: "char_of (unat (word_of_nat (codeUnit c) :: byte)) = c"
    using Cons.prems by (simp add: unat_of_nat codeUnit_def)
  have l: "word_of_nat (codeUnit c) < (128::byte)" using Cons.prems by (simp add: codeUnit_byte)
  have t: "utf8Text (utf8 s) = s" using Cons by simp
  show ?case
  proof (cases "utf8 s")
    case Nil
    with t have "s = []" by simp
    then show ?thesis unfolding u Nil using l v by simp
  qed (use t l v u in simp)
qed (simp add: utf8_def)

text \<open>
  What is relied on of the cipher: what was encrypted decrypts to itself under the same key, vector
  and tag; the tag has sixteen bytes and the ciphertext the length of the plain text.
\<close>

definition gcm_library :: "cipher \<Rightarrow> bool" where
  "gcm_library ci \<longleftrightarrow> (\<forall>key iv plain. length iv = 12 \<longrightarrow>
    ci_decrypt ci key iv (snd (ci_encrypt ci key iv plain)) (fst (ci_encrypt ci key iv plain)) = Some plain \<and>
    length (snd (ci_encrypt ci key iv plain)) = 16 \<and>
    length (fst (ci_encrypt ci key iv plain)) = length plain)"

lemma sealSecret_nonempty: "sealSecret ci env iv x = Inr sealed \<Longrightarrow> sealed \<noteq> []"
  by (auto simp: sealSecret_def andThen_def split: sum.splits prod.splits)

lemma openSealedSecret_sealSecret:
  assumes "gcm_library ci" and "length iv = 12" and "x \<noteq> []" and "list_all (\<lambda>c. codeUnit c < 128) x"
    and "sealSecret ci env iv x = Inr sealed"
  shows "openSealedSecret ci env sealed = Inr x"
proof -
  from assms(5) obtain key where k: "getEncryptionKey ci env = Inr key"
    by (auto simp: sealSecret_def andThen_def split: sum.splits)
  define ct tag where "ct = fst (ci_encrypt ci key iv (utf8 x))" and "tag = snd (ci_encrypt ci key iv (utf8 x))"
  have e: "ci_encrypt ci key iv (utf8 x) = (ct, tag)" by (simp add: ct_def tag_def)
  have g: "ci_decrypt ci key iv tag ct = Some (utf8 x)" "length tag = 16" "length ct = length (utf8 x)"
    using assms(1,2) unfolding gcm_library_def ct_def tag_def by blast+
  have n: "iv \<noteq> []" "tag \<noteq> []" "ct \<noteq> []"
    using assms(2) g(2,3) utf8_nonempty [OF assms(3)] by auto
  have "sealed = ''v1'' @ CHR '':'' # toBase64url iv @ CHR '':'' # toBase64url tag @ CHR '':'' # toBase64url ct"
    using assms(5) by (simp add: sealSecret_def k e)
  then have "splitOn (CHR '':'') sealed = [''v1'', toBase64url iv, toBase64url tag, toBase64url ct]"
    by (simp add: splitOn_append_sep splitOn_absent toBase64url_no_colon)
  then show ?thesis
    using n by (simp add: openSealedSecret_def toBase64url_nonempty k fromBase64url_toBase64url g(1)
        utf8Text_utf8 [OF assms(4)])
qed

text \<open>An empty secret is sealed and then refused.\<close>

lemma empty_secret_never_opens:
  assumes "gcm_library ci" and "length iv = 12" and "sealSecret ci env iv [] = Inr sealed"
  shows "openSealedSecret ci env sealed = Inl UnsupportedSealedFormat"
proof -
  from assms(3) obtain key where k: "getEncryptionKey ci env = Inr key"
    by (auto simp: sealSecret_def andThen_def split: sum.splits)
  obtain ct tag where e: "ci_encrypt ci key iv (utf8 []) = (ct, tag)" by fastforce
  have u: "utf8 [] = []" by (simp add: utf8_def)
  have "length ct = length (utf8 [])" using assms(1,2) e unfolding gcm_library_def by (metis fst_conv)
  then have "ct = []" by (simp add: u)
  then have s: "sealed = ''v1'' @ CHR '':'' # toBase64url iv @ CHR '':'' # toBase64url tag @ CHR '':'' # []"
    using assms(3) by (simp add: sealSecret_def k e toBase64url_def bitsOfBytes_def sixBits.simps)
  have "splitOn (CHR '':'') sealed = [''v1'', toBase64url iv, toBase64url tag, []]"
    unfolding s by (simp add: splitOn_append_sep toBase64url_no_colon)
  then show ?thesis by (simp add: openSealedSecret_def)
qed

end
