(* ===== verification/Json.thy ===== *)
theory Json
  imports JsText
begin

text \<open>
  Parsed JSON and the language's conversions of it. A number is given by the text the language
  prints it as, so its only false value is the one printed as 0; an object is the list of its
  members, whose keys are distinct and name no inherited method. \<open>None\<close> stands for
  \<open>undefined\<close>.
\<close>

datatype json =
    JNull
  | JBool bool
  | JNum string
  | JStr string
  | JArr "json list"
  | JObj "(string \<times> json) list"

primrec truthy :: "json \<Rightarrow> bool" where
  "truthy JNull = False"
| "truthy (JBool b) = b"
| "truthy (JNum n) = (n \<noteq> ''0'')"
| "truthy (JStr s) = (s \<noteq> [])"
| "truthy (JArr _) = True"
| "truthy (JObj _) = True"

text \<open>\<open>String(value)\<close>: an array joins its elements with commas, the null ones empty.\<close>

definition commaJoin :: "string list \<Rightarrow> string" where
  "commaJoin ws = (case ws of [] \<Rightarrow> [] | w # rest \<Rightarrow> w @ concat (map (\<lambda>x. '','' @ x) rest))"

fun jsonText :: "json \<Rightarrow> string" where
  "jsonText JNull = ''null''"
| "jsonText (JBool b) = (if b then ''true'' else ''false'')"
| "jsonText (JNum n) = n"
| "jsonText (JStr s) = s"
| "jsonText (JArr vs) = commaJoin (map (\<lambda>v. if v = JNull then [] else jsonText v) vs)"
| "jsonText (JObj _) = ''[object Object]''"

text \<open>\<open>value[key]\<close> of a parsed object; of the arrays only the members that are no index.\<close>

definition memberOf :: "json \<Rightarrow> string \<Rightarrow> json option" where
  "memberOf v key = (case v of JObj ms \<Rightarrow> map_of ms key | _ \<Rightarrow> None)"

text \<open>\<open>a || b\<close> and \<open>a ?? b\<close> on members.\<close>

definition orMember :: "json option \<Rightarrow> json option \<Rightarrow> json option" where
  "orMember a b = (case a of Some v \<Rightarrow> if truthy v then a else b | None \<Rightarrow> b)"

definition nullish :: "json option \<Rightarrow> bool" where
  "nullish a = (a = None \<or> a = Some JNull)"

definition optTruthy :: "json option \<Rightarrow> bool" where
  "optTruthy a = (case a of None \<Rightarrow> False | Some v \<Rightarrow> truthy v)"

definition isObject :: "json \<Rightarrow> bool" where
  "isObject v = (case v of JObj _ \<Rightarrow> True | _ \<Rightarrow> False)"

text \<open>\<open>text.includes(w)\<close>.\<close>

fun hasInfix :: "string \<Rightarrow> string \<Rightarrow> bool" where
  "hasInfix w [] = (w = [])"
| "hasInfix w (c # cs) = (startsWith w (c # cs) \<or> hasInfix w cs)"

lemma jsonText_JArr_nil [simp]: "jsonText (JArr []) = []"
  by (simp add: commaJoin_def)

lemma memberOf_simps [simp]:
  "memberOf (JObj ms) k = map_of ms k" "memberOf JNull k = None" "memberOf (JBool b) k = None"
  "memberOf (JNum n) k = None" "memberOf (JStr s) k = None" "memberOf (JArr vs) k = None"
  by (simp_all add: memberOf_def)

end
