(* ===== verification/AuditTrail.thy ===== *)
theory AuditTrail
  imports ApiErrors Json Complex_Main
begin

text \<open>
  The audit trail as the services see it (\<open>src/src/server/audit/audit-service.ts\<close>): a trail to
  which events are appended. The model keeps the events as they are handed to
  \<open>appendAuditLog\<close>; the redaction of their metadata before storage is a component of its own.
  \<open>MAmount\<close> is the printed text of a decimal amount, \<open>MJson\<close> a value of a stored payload.
\<close>

datatype meta_value = MText string | MInt int | MFlag bool | MNull | MAmount rat | MJson json

type_synonym metadata = "(string \<times> meta_value) list"

record audit_event =
  ae_actorId :: "string option"
  ae_action :: string
  ae_resourceType :: string
  ae_resourceId :: "string option"
  ae_clientId :: "string option"
  ae_caseId :: "string option"
  ae_lawyerId :: "string option"
  ae_appointmentId :: "string option"
  ae_documentId :: "string option"
  ae_paymentId :: "string option"
  ae_metadata :: metadata

definition appendAuditLog :: "audit_event \<Rightarrow> audit_event list \<Rightarrow> audit_event list" where
  "appendAuditLog e trail = trail @ [e]"

text \<open>An event about a resource of an actor, with no further links.\<close>

definition auditEvent :: "string option \<Rightarrow> string \<Rightarrow> string \<Rightarrow> string option \<Rightarrow> metadata \<Rightarrow> audit_event" where
  "auditEvent actorId action resourceType resourceId metadata =
    \<lparr>ae_actorId = actorId, ae_action = action, ae_resourceType = resourceType,
     ae_resourceId = resourceId, ae_clientId = None, ae_caseId = None,
     ae_lawyerId = None, ae_appointmentId = None, ae_documentId = None, ae_paymentId = None, ae_metadata = metadata\<rparr>"

definition optText :: "string option \<Rightarrow> meta_value" where
  "optText x = (case x of None \<Rightarrow> MNull | Some s \<Rightarrow> MText s)"

text \<open>\<open>appendAuditLogBestEffort\<close>: a write that fails (\<open>up\<close> is false) is dropped, not thrown.\<close>

definition appendAuditLogBestEffort :: "bool \<Rightarrow> audit_event \<Rightarrow> audit_event list \<Rightarrow> audit_event list" where
  "appendAuditLogBestEffort up e trail = (if up then appendAuditLog e trail else trail)"

lemma length_appendAuditLog [simp]: "length (appendAuditLog e trail) = Suc (length trail)"
  by (simp add: appendAuditLog_def)

lemma set_appendAuditLog [simp]: "set (appendAuditLog e trail) = insert e (set trail)"
  by (simp add: appendAuditLog_def)

end
