(* ===== verification/Sessions.thy ===== *)
theory Sessions
  imports Secrets AuditTrail
begin

text \<open>
  Sessions and sign-in: \<open>src/src/server/auth/session-store.ts\<close>, \<open>session.ts\<close>,
  \<open>password.ts\<close>, \<open>auth-service.ts\<close> and \<open>totp-enrollment-service.ts\<close>. The state is
  \<open>auth_db\<close>, the tables those files read and write. \<open>auth_platform\<close> collects what the
  platform provides: the process environment, the hash of a session token, the keyed hashes,
  the cipher of the stored secrets and the text codecs. Random values and generated row ids
  are arguments, and one clock reading serves a call.
\<close>

datatype user_status = U_INVITED | U_ACTIVE | U_SUSPENDED | U_DELETED
datatype role_status = R_ACTIVE | R_DISABLED
datatype recovery_state = PENDING_SETUP | ENABLED | RESET_REQUIRED | DISABLED_BY_ADMIN

record auth_user =
  au_id :: string
  au_name :: string
  au_email :: string
  au_phone :: "string option"
  au_locale :: string
  au_status :: user_status
  au_deletedAt :: "int option"
  au_passwordHash :: "string option"
  au_roleName :: string
  au_roleStatus :: role_status
  au_rolePermissions :: "string list"
  au_clientProfileId :: "string option"

record session =
  se_id :: string
  se_userId :: string
  se_tokenHash :: string
  se_status :: session_status
  se_twoFactorVerifiedAt :: "int option"
  se_twoFactorAttemptCount :: int
  se_twoFactorLockedUntil :: "int option"
  se_lastTwoFactorFailedAt :: "int option"
  se_expiresAt :: int
  se_revokedAt :: "int option"
  se_ipAddress :: "string option"
  se_userAgent :: "string option"

record credential =
  cr_id :: string
  cr_userId :: string
  cr_totpSecretEncrypted :: "string option"
  cr_enabledAt :: "int option"
  cr_lastVerifiedAt :: "int option"
  cr_recoveryState :: recovery_state

record otp_challenge =
  oc_id :: string
  oc_userId :: string
  oc_purpose :: string
  oc_otpHash :: string
  oc_expiresAt :: int
  oc_consumedAt :: "int option"
  oc_attemptCount :: int
  oc_createdAt :: int

record email_message =
  em_toUserId :: string
  em_templateKey :: string
  em_purpose :: string
  em_sent :: bool

record auth_db =
  adb_users :: "auth_user list"
  adb_sessions :: "session list"
  adb_credentials :: "credential list"
  adb_challenges :: "otp_challenge list"
  adb_emails :: "email_message list"
  adb_audit :: "audit_event list"

record auth_platform =
  ap_env :: env
  ap_hashToken :: "string \<Rightarrow> string"
  ap_decodeURIComponent :: "string \<Rightarrow> string option"
  ap_hmacSha1 :: "byte list \<Rightarrow> byte list \<Rightarrow> byte list"
  ap_hmacSha256 :: "string \<Rightarrow> string \<Rightarrow> string"
  ap_bytesOf :: "string \<Rightarrow> byte list"
  ap_cipher :: cipher
  ap_verifyPassword :: "string \<Rightarrow> string option \<Rightarrow> bool"
  ap_smtp :: bool

record http_request =
  rq_cookie :: string
  rq_realIp :: "string option"
  rq_forwardedFor :: "string option"
  rq_userAgent :: "string option"


section \<open>Reading a request\<close>

definition SESSION_COOKIE_NAME :: string where "SESSION_COOKIE_NAME = ''kmt_session''"
definition SESSION_TTL_SECONDS :: int where "SESSION_TTL_SECONDS = 60 * 60 * 8"

definition getSessionExpiresAt :: "int \<Rightarrow> int" where
  "getSessionExpiresAt now = now + SESSION_TTL_SECONDS * 1000"

definition shouldUseSecureCookie :: "env \<Rightarrow> bool" where
  "shouldUseSecureCookie env =
    (if env ''SESSION_COOKIE_SECURE'' = Some ''true'' then True
     else if env ''SESSION_COOKIE_SECURE'' = Some ''false'' then False
     else env ''NODE_ENV'' = Some ''production'')"

definition normalizeIpHeader :: "string option \<Rightarrow> string option" where
  "normalizeIpHeader value =
    (case value of None \<Rightarrow> None | Some v \<Rightarrow> if jsTrim v = [] then None else Some (jsTrim v))"

definition getIpAddress :: "env \<Rightarrow> http_request \<Rightarrow> string option" where
  "getIpAddress env request =
    (case normalizeIpHeader (rq_realIp request) of
       Some ip \<Rightarrow> Some ip
     | None \<Rightarrow>
       if env ''APP_ENV'' = Some ''production'' \<or> env ''NODE_ENV'' = Some ''production'' then None
       else normalizeIpHeader (map_option (\<lambda>f. hd (splitOn (CHR '','') f)) (rq_forwardedFor request)))"

definition getSessionTokenFromCookieHeader :: "auth_platform \<Rightarrow> string \<Rightarrow> string option" where
  "getSessionTokenFromCookieHeader pf cookieHeader =
    (let prefix = SESSION_COOKIE_NAME @ ''='';
         rawToken = map_option (drop (length prefix))
           (find (startsWith prefix) (map jsTrim (splitOn (CHR '';'') cookieHeader)))
     in case rawToken of
          None \<Rightarrow> None
        | Some t \<Rightarrow> if t = [] then None else ap_decodeURIComponent pf t)"

definition isActiveAuthUser :: "auth_user \<Rightarrow> bool" where
  "isActiveAuthUser user =
    (au_status user = U_ACTIVE \<and> au_deletedAt user = None \<and> au_roleStatus user = R_ACTIVE)"

definition principalFromUser :: "auth_user \<Rightarrow> principal" where
  "principalFromUser user =
    \<lparr>pr_id = au_id user, pr_roleName = au_roleName user,
     pr_permissions = Some (au_rolePermissions user), pr_clientId = au_clientProfileId user\<rparr>"

text \<open>What the client sees of a user; the state of the second factor only in the TOTP mode.\<close>

record safe_user =
  su_id :: string
  su_name :: string
  su_email :: string
  su_phone :: "string option"
  su_locale :: string
  su_status :: user_status
  su_role :: string
  su_clientId :: "string option"
  su_staffTwoFactorState :: "recovery_state option"

definition credentialOf :: "auth_db \<Rightarrow> string \<Rightarrow> credential option" where
  "credentialOf db userId = fetch cr_userId userId (adb_credentials db)"

definition safeUser :: "auth_platform \<Rightarrow> auth_db \<Rightarrow> auth_user \<Rightarrow> safe_user" where
  "safeUser pf db user =
    \<lparr>su_id = au_id user, su_name = au_name user, su_email = au_email user,
     su_phone = au_phone user, su_locale = au_locale user,
     su_status = au_status user, su_role = au_roleName user, su_clientId = au_clientProfileId user,
     su_staffTwoFactorState =
       (if isStaffTwoFactorEnabled (ap_env pf)
        then map_option cr_recoveryState (credentialOf db (au_id user)) else None)\<rparr>"

record auth_context =
  cx_sessionId :: string
  cx_sessionStatus :: session_status
  cx_twoFactorAttemptCount :: int
  cx_twoFactorLockedUntil :: "int option"
  cx_user :: auth_user
  cx_principal :: principal

definition getAuthContextFromCookieHeader ::
  "auth_platform \<Rightarrow> int \<Rightarrow> bool \<Rightarrow> string \<Rightarrow> auth_db \<Rightarrow> auth_context option" where
  "getAuthContextFromCookieHeader pf now allowPendingTwoFactor cookieHeader db =
    (case getSessionTokenFromCookieHeader pf cookieHeader of
       None \<Rightarrow> None
     | Some token \<Rightarrow> if token = [] then None else
       (case fetch se_tokenHash (ap_hashToken pf token) (adb_sessions db) of
          None \<Rightarrow> None
        | Some session \<Rightarrow>
          (case fetch au_id (se_userId session) (adb_users db) of
             None \<Rightarrow> None
           | Some user \<Rightarrow>
             if se_revokedAt session \<noteq> None \<or> se_expiresAt session \<le> now then None
             else if \<not> isActiveAuthUser user then None
             else if \<not> allowPendingTwoFactor \<and>
                     \<not> canFinalizeSession (au_roleName user) (se_status session)
                         (se_twoFactorVerifiedAt session) (ap_env pf) then None
             else Some \<lparr>cx_sessionId = se_id session, cx_sessionStatus = se_status session,
                        cx_twoFactorAttemptCount = se_twoFactorAttemptCount session,
                        cx_twoFactorLockedUntil = se_twoFactorLockedUntil session,
                        cx_user = user, cx_principal = principalFromUser user\<rparr>)))"

datatype auth_throw =
    AuthRequiredError | ActiveSessionRequiredError | SealThrew seal_error | UniqueConstraintFailed
  | TotpThrew totp_error | OtpSecretThrew secret_error | AuthApiThrew api_error

definition requireAuthContext ::
  "auth_platform \<Rightarrow> int \<Rightarrow> bool \<Rightarrow> http_request \<Rightarrow> auth_db \<Rightarrow> auth_throw + auth_context" where
  "requireAuthContext pf now allowPendingTwoFactor request db =
    (case getAuthContextFromCookieHeader pf now allowPendingTwoFactor (rq_cookie request) db of
       None \<Rightarrow> Inl AuthRequiredError | Some c \<Rightarrow> Inr c)"


section \<open>Passwords\<close>

text \<open>
  \<open>scrypt\<close> derives the key from the password, the salt, the wanted length and the three cost
  fields as they are written; \<open>enc\<close> and \<open>dec\<close> are the base64url codec.
\<close>

definition hashPassword ::
  "(string \<Rightarrow> byte list \<Rightarrow> nat \<Rightarrow> string \<times> string \<times> string \<Rightarrow> byte list) \<Rightarrow> (byte list \<Rightarrow> string) \<Rightarrow>
   byte list \<Rightarrow> string \<Rightarrow> string" where
  "hashPassword scrypt enc salt password =
    (let hash = scrypt password salt 64 (''16384'', ''8'', ''1'')
     in ''scrypt$16384$8$1$'' @ enc salt @ ''$'' @ enc hash)"

definition verifyPassword ::
  "(string \<Rightarrow> byte list \<Rightarrow> nat \<Rightarrow> string \<times> string \<times> string \<Rightarrow> byte list) \<Rightarrow> (string \<Rightarrow> byte list) \<Rightarrow>
   string \<Rightarrow> string option \<Rightarrow> bool" where
  "verifyPassword scrypt dec password storedHash =
    (case storedHash of
       None \<Rightarrow> False
     | Some stored \<Rightarrow> if stored = [] then False else
       (case splitOn (CHR ''$'') stored of
          algorithm # n # r # p # saltValue # hashValue # rest \<Rightarrow>
            if algorithm \<noteq> ''scrypt'' \<or> n = [] \<or> r = [] \<or> p = [] \<or> saltValue = [] \<or> hashValue = []
            then False
            else (let salt = dec saltValue; expected = dec hashValue;
                      actual = scrypt password salt (length expected) (n, r, p)
                  in length expected = length actual \<and> expected = actual)
        | _ \<Rightarrow> False))"

text \<open>
  A password verifies against its own stored hash, and any other password that verifies
  has the same derived key: the stored format is read back field by field.
\<close>

theorem password_roundtrip:
  assumes "\<And>b. dec (enc b) = b" and "\<And>b. b \<noteq> [] \<Longrightarrow> enc b \<noteq> []" and "\<And>b. CHR ''$'' \<notin> set (enc b)"
    and "\<And>pw s n c. length (scrypt pw s n c) = n" and "salt \<noteq> []"
  shows "verifyPassword scrypt dec pw (Some (hashPassword scrypt enc salt password)) \<longleftrightarrow>
    scrypt pw salt 64 (''16384'', ''8'', ''1'') = scrypt password salt 64 (''16384'', ''8'', ''1'')"
proof -
  let ?h = "scrypt password salt 64 (''16384'', ''8'', ''1'')"
  have "?h \<noteq> []" using assms(4) [of password salt 64] by (metis length_0_conv zero_neq_numeral)
  then have ne: "enc salt \<noteq> []" "enc ?h \<noteq> []" using assms(2,5) by auto
  have "splitOn (CHR ''$'') (hashPassword scrypt enc salt password) =
      [''scrypt'', ''16384'', ''8'', ''1'', enc salt, enc ?h]"
    using splitOn_append_sep [OF assms(3) [of salt], of "enc ?h"] splitOn_absent [OF assms(3) [of ?h]]
    by (simp add: hashPassword_def Let_def)
  moreover have "hashPassword scrypt enc salt password \<noteq> []"
    by (simp add: hashPassword_def Let_def)
  ultimately show ?thesis
    using ne assms(1,4) by (auto simp: verifyPassword_def Let_def)
qed

lemma encodeBase32_nonempty: "b \<noteq> [] \<Longrightarrow> encodeBase32Secret b \<noteq> []"
  using decodeBase32_encode [of b] decodeBase32_encode [of "[]"]
  by (metis encodeBase32Secret_def sum.inject(2) encodeBits.simps bitsOfBytes_def concat.simps(1) list.map(1))

theorem password_roundtrip_witness:
  "verifyPassword (\<lambda>pw s n c. replicate n (of_nat (length pw)))
     (\<lambda>t. case decodeBase32 t of Inl e \<Rightarrow> [] | Inr b \<Rightarrow> b) ''letmein''
     (Some (hashPassword (\<lambda>pw s n c. replicate n (of_nat (length pw))) encodeBase32Secret [7] ''letmein''))"
proof -
  have "CHR ''$'' \<notin> set (encodeBase32Secret b)" for b
    using encodeBits_in_alphabet [of "bitsOfBytes b"]
    by (auto simp: encodeBase32Secret_def BASE32_ALPHABET_def)
  with password_roundtrip [of "\<lambda>t. case decodeBase32 t of Inl e \<Rightarrow> [] | Inr b \<Rightarrow> b" encodeBase32Secret
      "\<lambda>pw s n c. replicate n (of_nat (length pw))" "[7]" "''letmein''" "''letmein''"]
  show ?thesis by (simp add: decodeBase32_encode encodeBase32_nonempty)
qed

end
