(* ===== verification/AuthService.thy ===== *)
theory AuthService
  imports Sessions
begin

text \<open>
  The operations on sessions: creating one, signing in and out, the second factor by TOTP or
  mailed code with its lock, its reset by an administrator
  (\<open>src/src/server/auth/auth-service.ts\<close>, \<open>session-store.ts\<close>) and the enrolment of a TOTP
  credential (\<open>src/src/server/auth/totp-enrollment-service.ts\<close>). \<open>authServe\<close> puts them
  together as one machine.
\<close>

definition logEvent :: "audit_event \<Rightarrow> auth_db \<Rightarrow> auth_db" where
  "logEvent e db = db\<lparr>adb_audit := appendAuditLog e (adb_audit db)\<rparr>"

definition updateSession :: "string \<Rightarrow> (session \<Rightarrow> session) \<Rightarrow> auth_db \<Rightarrow> auth_db" where
  "updateSession sid f db = db\<lparr>adb_sessions := modify se_id sid f (adb_sessions db)\<rparr>"


section \<open>Signing in and out\<close>

text \<open>
  The table of sessions has two unique columns, the id and the hash of the token
  (\<open>prisma/schema.prisma\<close>); a row that repeats one is refused by the database.
\<close>

definition createSessionForUser ::
  "auth_platform \<Rightarrow> int \<Rightarrow> string \<Rightarrow> string \<Rightarrow> auth_user \<Rightarrow> http_request \<Rightarrow> auth_db \<Rightarrow>
   (auth_throw + session) \<times> auth_db" where
  "createSessionForUser pf now sid token user request db =
    (if \<not> isActiveAuthUser user then (Inl ActiveSessionRequiredError, db)
     else let s = \<lparr>se_id = sid, se_userId = au_id user, se_tokenHash = ap_hashToken pf token,
                   se_status = initialSessionStatusForRole (au_roleName user) (ap_env pf),
                   se_twoFactorVerifiedAt = None, se_twoFactorAttemptCount = 0,
                   se_twoFactorLockedUntil = None, se_lastTwoFactorFailedAt = None,
                   se_expiresAt = getSessionExpiresAt now, se_revokedAt = None,
                   se_ipAddress = getIpAddress (ap_env pf) request,
                   se_userAgent = rq_userAgent request\<rparr>
          in if sid \<in> se_id ` set (adb_sessions db) \<or>
                ap_hashToken pf token \<in> se_tokenHash ` set (adb_sessions db)
             then (Inl UniqueConstraintFailed, db)
             else (Inr s, db\<lparr>adb_sessions := adb_sessions db @ [s]\<rparr>))"

datatype login_result =
    Authenticated string safe_user "string list"
  | TwoFactorRequired string safe_user

definition loginWithPassword ::
  "auth_platform \<Rightarrow> int \<Rightarrow> string \<Rightarrow> string \<Rightarrow> string \<Rightarrow> string \<Rightarrow> http_request \<Rightarrow> auth_db \<Rightarrow>
   (auth_throw + login_result option) \<times> auth_db" where
  "loginWithPassword pf now sid token email password request db =
    (let normalizedEmail = jsLower (jsTrim email);
         found = fetch au_email normalizedEmail (adb_users db);
         matched = (case found of
             None \<Rightarrow> None
           | Some u \<Rightarrow> if isActiveAuthUser u \<and> ap_verifyPassword pf password (au_passwordHash u)
                       then Some u else None)
     in case matched of
          None \<Rightarrow>
            (Inr None, logEvent (auditEvent (map_option au_id found) ''auth.login_failed'' ''User''
               (map_option au_id found) [(''reason'', MText ''invalid_credentials'')]) db)
        | Some user \<Rightarrow>
          (case createSessionForUser pf now sid token user request db of
             (Inl e, db1) \<Rightarrow> (Inl e, db1)
           | (Inr s, db1) \<Rightarrow>
             (let db2 = logEvent (auditEvent (Some (au_id user))
                     (if se_status s = S_PENDING_2FA then ''auth.login_password_verified_pending_2fa''
                      else ''auth.login_success'')
                     ''Session'' (Some (se_id s)) [(''role'', MText (au_roleName user))]) db1
              in if se_status s = S_PENDING_2FA
                 then (Inr (Some (TwoFactorRequired token (safeUser pf db2 user))), db2)
                 else (Inr (Some (Authenticated token (safeUser pf db2 user)
                         (au_rolePermissions user))), db2))))"

definition logoutByRequest ::
  "auth_platform \<Rightarrow> int \<Rightarrow> http_request \<Rightarrow> auth_db \<Rightarrow> auth_db" where
  "logoutByRequest pf now request db =
    (case getSessionTokenFromCookieHeader pf (rq_cookie request) of
       None \<Rightarrow> db
     | Some token \<Rightarrow> if token = [] then db else
         db\<lparr>adb_sessions := updateWhere
              (\<lambda>s. se_tokenHash s = ap_hashToken pf token \<and> se_revokedAt s = None)
              (\<lambda>s. s\<lparr>se_status := S_REVOKED, se_revokedAt := Some now\<rparr>) (adb_sessions db)\<rparr>)"


section \<open>The pending second factor\<close>

datatype two_factor_method = MethodTotp | MethodEmailOtp

definition methodText :: "two_factor_method \<Rightarrow> string" where
  "methodText m = (case m of MethodTotp \<Rightarrow> ''totp'' | MethodEmailOtp \<Rightarrow> ''email_otp'')"

definition failureAction :: "two_factor_method \<Rightarrow> string" where
  "failureAction m =
    (if m = MethodTotp then ''auth.2fa_totp_failed'' else ''auth.2fa_email_otp_failed'')"

text \<open>The count is the one of the context, read when the request began.\<close>

definition recordPendingTwoFactorFailure ::
  "int \<Rightarrow> auth_context \<Rightarrow> two_factor_method \<Rightarrow> string \<Rightarrow> auth_db \<Rightarrow> auth_db" where
  "recordPendingTwoFactorFailure now context method reason db =
    (let nextAttemptCount = cx_twoFactorAttemptCount context + 1;
         lockedUntil = twoFactorLockedUntilForAttempt nextAttemptCount now
     in logEvent (auditEvent (Some (au_id (cx_user context))) (failureAction method) ''Session''
          (Some (cx_sessionId context))
          [(''method'', MText (methodText method)), (''reason'', MText reason),
           (''attemptCount'', MInt nextAttemptCount), (''locked'', MFlag (lockedUntil \<noteq> None))])
        (updateSession (cx_sessionId context)
          (\<lambda>s. s\<lparr>se_twoFactorAttemptCount := nextAttemptCount,
                 se_twoFactorLockedUntil := lockedUntil,
                 se_lastTwoFactorFailedAt := Some now\<rparr>) db))"

definition auditTwoFactorFailure ::
  "auth_context \<Rightarrow> two_factor_method \<Rightarrow> string \<Rightarrow> auth_db \<Rightarrow> auth_db" where
  "auditTwoFactorFailure context method reason db =
    logEvent (auditEvent (Some (au_id (cx_user context))) (failureAction method) ''Session''
      (Some (cx_sessionId context))
      [(''method'', MText (methodText method)), (''reason'', MText reason), (''locked'', MFlag True)]) db"

text \<open>What a verified factor writes on the session, in every one of the three ways to verify.\<close>

definition activateSession :: "int \<Rightarrow> session \<Rightarrow> session" where
  "activateSession now s =
    s\<lparr>se_status := S_ACTIVE, se_twoFactorVerifiedAt := Some now, se_twoFactorAttemptCount := 0,
      se_twoFactorLockedUntil := None, se_lastTwoFactorFailedAt := None\<rparr>"

definition permissionsOfContext :: "auth_context \<Rightarrow> string list" where
  "permissionsOfContext context =
    (case pr_permissions (cx_principal context) of None \<Rightarrow> [] | Some ps \<Rightarrow> ps)"

type_synonym verified_answer = "(safe_user \<times> string list) option"

definition pendingContext :: "auth_platform \<Rightarrow> int \<Rightarrow> http_request \<Rightarrow> auth_db \<Rightarrow> auth_context option" where
  "pendingContext pf now request db =
    (case getAuthContextFromCookieHeader pf now True (rq_cookie request) db of
       None \<Rightarrow> None
     | Some c \<Rightarrow> if cx_sessionStatus c \<noteq> S_PENDING_2FA then None else Some c)"

definition verifyPendingTotp ::
  "auth_platform \<Rightarrow> int \<Rightarrow> http_request \<Rightarrow> string \<Rightarrow> auth_db \<Rightarrow>
   (auth_throw + verified_answer) \<times> auth_db" where
  "verifyPendingTotp pf now request code db =
    (case pendingContext pf now request db of
       None \<Rightarrow> (Inr None, db)
     | Some context \<Rightarrow>
       if isTwoFactorSessionLocked (cx_twoFactorLockedUntil context) now
       then (Inr None, auditTwoFactorFailure context MethodTotp ''session_locked'' db)
       else
         (let cred = credentialOf db (au_id (cx_user context));
              sealed = (case cred of None \<Rightarrow> [] | Some c \<Rightarrow>
                 (case cr_totpSecretEncrypted c of None \<Rightarrow> [] | Some x \<Rightarrow> x));
              state = map_option cr_recoveryState cred
          in if sealed = [] \<or> state \<noteq> Some ENABLED
             then (Inr None, recordPendingTwoFactorFailure now context MethodTotp ''credential_not_ready'' db)
             else (case openSealedSecret (ap_cipher pf) (ap_env pf) sealed of
                     Inl e \<Rightarrow> (Inl (SealThrew e), db)
                   | Inr secret \<Rightarrow>
                     (case verifyTotpCode (ap_hmacSha1 pf) secret code defaultTotpOptions now of
                        Inl e \<Rightarrow> (Inl (TotpThrew e), db)
                      | Inr ok \<Rightarrow>
                        if \<not> ok
                        then (Inr None, recordPendingTwoFactorFailure now context MethodTotp ''invalid_code'' db)
                        else
                          (let db1 = updateSession (cx_sessionId context) (activateSession now) db;
                               db2 = db1\<lparr>adb_credentials := modify cr_userId (au_id (cx_user context))
                                          (\<lambda>c. c\<lparr>cr_lastVerifiedAt := Some now\<rparr>) (adb_credentials db1)\<rparr>;
                               db3 = logEvent (auditEvent (Some (au_id (cx_user context)))
                                       ''auth.2fa_totp_verified'' ''Session'' (Some (cx_sessionId context))
                                       [(''method'', MText ''totp'')]) db2
                           in (Inr (Some (safeUser pf db (cx_user context), permissionsOfContext context)),
                               db3))))))"

text \<open>\<open>random\<close> is the draw of the code, \<open>oid\<close> the id of the new challenge.\<close>

definition sendEmailOtpForPendingSession ::
  "auth_platform \<Rightarrow> int \<Rightarrow> nat \<Rightarrow> string \<Rightarrow> http_request \<Rightarrow> auth_db \<Rightarrow>
   (auth_throw + (string \<times> string option) option) \<times> auth_db" where
  "sendEmailOtpForPendingSession pf now random oid request db =
    (case pendingContext pf now request db of
       None \<Rightarrow> (Inr None, db)
     | Some context \<Rightarrow>
       if isTwoFactorSessionLocked (cx_twoFactorLockedUntil context) now
       then (Inr None, auditTwoFactorFailure context MethodEmailOtp ''session_locked'' db)
       else
         (let otp = generateEmailOtp random; uid = au_id (cx_user context)
          in case hashEmailOtp (ap_hmacSha256 pf) (ap_env pf) otp uid EMAIL_OTP_PURPOSE of
               Inl e \<Rightarrow> (Inl (OtpSecretThrew e), db)
             | Inr h \<Rightarrow>
               (let challenge = \<lparr>oc_id = oid, oc_userId = uid, oc_purpose = EMAIL_OTP_PURPOSE,
                       oc_otpHash = h, oc_expiresAt = emailOtpExpiryDate now, oc_consumedAt = None,
                       oc_attemptCount = 0, oc_createdAt = now\<rparr>;
                    db1 = db\<lparr>adb_challenges := adb_challenges db @ [challenge]\<rparr>;
                    db2 = db1\<lparr>adb_emails := adb_emails db1 @
                       [\<lparr>em_toUserId = uid, em_templateKey = ''staff_2fa_email_otp'',
                         em_purpose = EMAIL_OTP_PURPOSE, em_sent = ap_smtp pf\<rparr>]\<rparr>;
                    db3 = logEvent (auditEvent (Some uid) ''auth.2fa_email_otp_created'' ''Session''
                       (Some (cx_sessionId context)) [(''delivery'', MText ''queued'')]) db2;
                    dev = (ap_env pf ''APP_ENV'' = Some ''local'' \<or>
                       ((ap_env pf ''APP_ENV'' = None \<or> ap_env pf ''APP_ENV'' = Some []) \<and>
                        ap_env pf ''NODE_ENV'' = Some ''development''))
                in (Inr (Some (if ap_smtp pf then ''sent'' else ''queued'',
                               if dev then Some otp else None)), db3))))"

text \<open>
  \<open>findFirst\<close> with \<open>orderBy createdAt desc\<close>: the newest challenge that is open, the first of
  them where two have one time.
\<close>

definition openChallenge :: "string \<Rightarrow> int \<Rightarrow> otp_challenge \<Rightarrow> bool" where
  "openChallenge userId now c =
    (oc_userId c = userId \<and> oc_purpose c = EMAIL_OTP_PURPOSE \<and> oc_consumedAt c = None \<and>
     oc_expiresAt c > now)"

fun newestChallenge :: "otp_challenge list \<Rightarrow> otp_challenge option" where
  "newestChallenge [] = None"
| "newestChallenge (c # cs) =
     (case newestChallenge cs of
        None \<Rightarrow> Some c
      | Some d \<Rightarrow> if oc_createdAt d > oc_createdAt c then Some d else Some c)"

definition verifyEmailOtpForPendingSession ::
  "auth_platform \<Rightarrow> int \<Rightarrow> http_request \<Rightarrow> string \<Rightarrow> auth_db \<Rightarrow>
   (auth_throw + verified_answer) \<times> auth_db" where
  "verifyEmailOtpForPendingSession pf now request otp db =
    (case pendingContext pf now request db of
       None \<Rightarrow> (Inr None, db)
     | Some context \<Rightarrow>
       if isTwoFactorSessionLocked (cx_twoFactorLockedUntil context) now
       then (Inr None, auditTwoFactorFailure context MethodEmailOtp ''session_locked'' db)
       else
         (let uid = au_id (cx_user context);
              challenge = newestChallenge (filter (openChallenge uid now) (adb_challenges db))
          in case (case challenge of None \<Rightarrow> None | Some c \<Rightarrow>
                     if oc_attemptCount c \<ge> EMAIL_OTP_MAX_ATTEMPTS then None else Some c) of
               None \<Rightarrow> (Inr None, recordPendingTwoFactorFailure now context MethodEmailOtp
                          ''invalid_or_expired_challenge'' db)
             | Some c \<Rightarrow>
               (case verifyEmailOtpHash (ap_hmacSha256 pf) (ap_bytesOf pf) (ap_env pf) otp uid
                       EMAIL_OTP_PURPOSE (oc_otpHash c) of
                  Inl e \<Rightarrow> (Inl (OtpSecretThrew e), db)
                | Inr isValid \<Rightarrow>
                  if \<not> isValid
                  then (Inr None, recordPendingTwoFactorFailure now context MethodEmailOtp ''invalid_code''
                         (db\<lparr>adb_challenges := modify oc_id (oc_id c)
                             (\<lambda>r. r\<lparr>oc_attemptCount := oc_attemptCount r + 1\<rparr>) (adb_challenges db)\<rparr>))
                  else
                    (let db1 = db\<lparr>adb_challenges := modify oc_id (oc_id c)
                             (\<lambda>r. r\<lparr>oc_consumedAt := Some now,
                                    oc_attemptCount := oc_attemptCount r + 1\<rparr>) (adb_challenges db)\<rparr>;
                         db2 = updateSession (cx_sessionId context) (activateSession now) db1;
                         db3 = logEvent (auditEvent (Some uid) ''auth.2fa_email_otp_verified'' ''Session''
                                 (Some (cx_sessionId context)) [(''method'', MText ''email_otp'')]) db2
                     in (Inr (Some (safeUser pf db (cx_user context), permissionsOfContext context)),
                         db3)))))"

definition upsertCredential ::
  "string \<Rightarrow> credential \<Rightarrow> (credential \<Rightarrow> credential) \<Rightarrow> auth_db \<Rightarrow> auth_db" where
  "upsertCredential uid fresh f db =
    (case credentialOf db uid of
       None \<Rightarrow> db\<lparr>adb_credentials := adb_credentials db @ [fresh]\<rparr>
     | Some _ \<Rightarrow> db\<lparr>adb_credentials := modify cr_userId uid f (adb_credentials db)\<rparr>)"

text \<open>The id of the row an upsert answers with, the one written or the one that was there.\<close>

definition credentialId :: "auth_db \<Rightarrow> string \<Rightarrow> string" where
  "credentialId db userId = (case credentialOf db userId of None \<Rightarrow> [] | Some c \<Rightarrow> cr_id c)"

text \<open>\<open>cid\<close> is the id a new credential would get.\<close>

definition resetStaffTwoFactor ::
  "auth_platform \<Rightarrow> int \<Rightarrow> string \<Rightarrow> http_request \<Rightarrow> string \<Rightarrow> auth_db \<Rightarrow>
   (string \<times> recovery_state) option \<times> auth_db" where
  "resetStaffTwoFactor pf now cid request targetUserId db =
    (case getAuthContextFromCookieHeader pf now False (rq_cookie request) db of
       None \<Rightarrow> (None, db)
     | Some context \<Rightarrow>
       if \<not> hasPermission (cx_principal context) ''twoFactor.reset.staff'' then (None, db)
       else (case fetch au_id targetUserId (adb_users db) of
               None \<Rightarrow> (None, db)
             | Some target \<Rightarrow>
               if au_roleName target = ''Client'' \<or> au_roleName target = ''Guest'' then (None, db)
               else
                 (let db1 = upsertCredential (au_id target)
                         \<lparr>cr_id = cid, cr_userId = au_id target, cr_totpSecretEncrypted = None, cr_enabledAt = None,
                          cr_lastVerifiedAt = None, cr_recoveryState = RESET_REQUIRED\<rparr>
                         (\<lambda>c. c\<lparr>cr_totpSecretEncrypted := None, cr_enabledAt := None,
                                cr_lastVerifiedAt := None, cr_recoveryState := RESET_REQUIRED\<rparr>) db;
                      db2 = logEvent (auditEvent (Some (au_id (cx_user context))) ''auth.2fa_reset'' ''User''
                         (Some (au_id target))
                         [(''targetRole'', MText (au_roleName target)),
                          (''credentialId'', MText (credentialId db1 (au_id target)))]) db1
                  in (Some (au_id target, RESET_REQUIRED), db2))))"


section \<open>Enrolment of a TOTP credential\<close>

definition totpFeatureDisabled :: api_error where
  "totpFeatureDisabled = apiError 503 FEATURE_DISABLED ''TOTP is not enabled.''"

definition requireTotpMode :: "auth_platform \<Rightarrow> unit api" where
  "requireTotpMode pf = require (isStaffTwoFactorEnabled (ap_env pf)) totpFeatureDisabled"

definition requirePendingStaffContext ::
  "auth_platform \<Rightarrow> int \<Rightarrow> http_request \<Rightarrow> auth_db \<Rightarrow> auth_context api" where
  "requirePendingStaffContext pf now request db =
    (case getAuthContextFromCookieHeader pf now True (rq_cookie request) db of
       None \<Rightarrow> throwApi  401 UNAUTHENTICATED ''A pending two-factor session is required.''
     | Some context \<Rightarrow>
       if cx_sessionStatus context \<noteq> S_PENDING_2FA
       then throwApi  401 UNAUTHENTICATED ''A pending two-factor session is required.''
       else if isTwoFactorSessionLocked (cx_twoFactorLockedUntil context) now
       then throwApi  401 TWO_FACTOR_EXPIRED ''The verification session is locked. Sign in again.''
       else Inr context)"

definition enrollGuard :: "auth_platform \<Rightarrow> int \<Rightarrow> http_request \<Rightarrow> auth_db \<Rightarrow> auth_context api" where
  "enrollGuard pf now request db =
    andThen (requireTotpMode pf) (\<lambda>_. requirePendingStaffContext pf now request db)"

definition recoveryStateText :: "recovery_state \<Rightarrow> string" where
  "recoveryStateText s = (case s of PENDING_SETUP \<Rightarrow> ''PENDING_SETUP'' | ENABLED \<Rightarrow> ''ENABLED''
     | RESET_REQUIRED \<Rightarrow> ''RESET_REQUIRED'' | DISABLED_BY_ADMIN \<Rightarrow> ''DISABLED_BY_ADMIN'')"

text \<open>\<open>encodeURI\<close> is the platform's \<open>encodeURIComponent\<close>.\<close>

definition buildTotpOtpAuthUri :: "(string \<Rightarrow> string) \<Rightarrow> string \<Rightarrow> string \<Rightarrow> string" where
  "buildTotpOtpAuthUri encodeURI accountName secret =
    ''otpauth://totp/'' @ encodeURI ''KMT Legal'' @ '':'' @ encodeURI accountName @
    ''?secret='' @ secret @ ''&issuer='' @ encodeURI ''KMT Legal'' @ ''&digits=6&period=30''"

text \<open>
  \<open>cid\<close> is the id of a new credential, \<open>random\<close> the 20 bytes drawn for the key and \<open>iv\<close> the 12
  bytes drawn to seal it, which throws where the server has no secret. The answer is the setup key and the state; the
  address built from them for the authenticator is \<open>buildTotpOtpAuthUri\<close>.
\<close>

definition startTotpEnrollment ::
  "auth_platform \<Rightarrow> int \<Rightarrow> string \<Rightarrow> byte list \<Rightarrow> byte list \<Rightarrow> http_request \<Rightarrow> auth_db \<Rightarrow>
   (auth_throw + string \<times> recovery_state) \<times> auth_db" where
  "startTotpEnrollment pf now cid random iv request db =
    (case enrollGuard pf now request db of
       Inl e \<Rightarrow> (Inl (AuthApiThrew e), db)
     | Inr context \<Rightarrow>
       (let uid = au_id (cx_user context);
            state = map_option cr_recoveryState (credentialOf db uid)
        in if state = Some ENABLED
           then (Inl (AuthApiThrew (apiError 409 CONFLICT
                  ''A TOTP factor is already enrolled. Ask a Super Admin to reset it before re-enrolling.'')), db)
           else if state = Some DISABLED_BY_ADMIN
           then (Inl (AuthApiThrew (apiError 403 PERMISSION_DENIED
                  ''Two-factor enrollment is disabled for this account.'')), db)
           else
             (let setupKey = encodeBase32Secret random in
              case sealSecret (ap_cipher pf) (ap_env pf) iv setupKey of
                Inl e \<Rightarrow> (Inl (SealThrew e), db)
              | Inr sealed \<Rightarrow>
                (let
                  nextState = (if state = Some RESET_REQUIRED then RESET_REQUIRED else PENDING_SETUP);
                  db1 = upsertCredential uid
                     \<lparr>cr_id = cid, cr_userId = uid, cr_totpSecretEncrypted = Some sealed, cr_enabledAt = None,
                      cr_lastVerifiedAt = None, cr_recoveryState = nextState\<rparr>
                     (\<lambda>c. c\<lparr>cr_totpSecretEncrypted := Some sealed, cr_enabledAt := None,
                            cr_lastVerifiedAt := None, cr_recoveryState := nextState\<rparr>) db;
                  db2 = logEvent (auditEvent (Some uid) ''auth.2fa_enroll_started'' ''User'' (Some uid)
                     [(''recoveryState'', MText (recoveryStateText nextState))]) db1
                 in (Inr (setupKey, nextState), db2)))))"

definition confirmTotpEnrollment ::
  "auth_platform \<Rightarrow> int \<Rightarrow> http_request \<Rightarrow> string \<Rightarrow> auth_db \<Rightarrow>
   (auth_throw + safe_user \<times> string list) \<times> auth_db" where
  "confirmTotpEnrollment pf now request code db =
    (case enrollGuard pf now request db of
       Inl e \<Rightarrow> (Inl (AuthApiThrew e), db)
     | Inr context \<Rightarrow>
       (let uid = au_id (cx_user context);
            cred = credentialOf db uid;
            sealed = (case cred of None \<Rightarrow> [] | Some c \<Rightarrow>
               (case cr_totpSecretEncrypted c of None \<Rightarrow> [] | Some x \<Rightarrow> x));
            state = map_option cr_recoveryState cred
        in if sealed = [] \<or> (state \<noteq> Some PENDING_SETUP \<and> state \<noteq> Some RESET_REQUIRED)
           then (Inl (AuthApiThrew (apiError 409 CONFLICT
                  ''No pending enrollment exists. Start enrollment first.'')), db)
           else (case openSealedSecret (ap_cipher pf) (ap_env pf) sealed of
                   Inl e \<Rightarrow> (Inl (SealThrew e), db)
                 | Inr secret \<Rightarrow>
                   (case verifyTotpCode (ap_hmacSha1 pf) secret code defaultTotpOptions now of
                      Inl e \<Rightarrow> (Inl (TotpThrew e), db)
                    | Inr ok \<Rightarrow>
                      if \<not> ok
                      then (Inl (AuthApiThrew (apiError 401 TWO_FACTOR_INVALID
                              ''The verification code is incorrect.'')),
                            recordPendingTwoFactorFailure now context MethodTotp ''enrollment_code_invalid'' db)
                      else
                        (let db1 = db\<lparr>adb_credentials := modify cr_userId uid
                                (\<lambda>c. c\<lparr>cr_recoveryState := ENABLED, cr_enabledAt := Some now,
                                       cr_lastVerifiedAt := Some now\<rparr>) (adb_credentials db)\<rparr>;
                             db2 = updateSession (cx_sessionId context) (activateSession now) db1;
                             db3 = logEvent (auditEvent (Some uid) ''auth.2fa_enrolled'' ''Session''
                                (Some (cx_sessionId context)) [(''method'', MText ''totp'')]) db2
                         in (Inr (safeUser pf db (cx_user context), permissionsOfContext context), db3))))))"

definition totpEnrollmentStatus ::
  "auth_platform \<Rightarrow> int \<Rightarrow> http_request \<Rightarrow> auth_db \<Rightarrow> (bool \<times> recovery_state) api" where
  "totpEnrollmentStatus pf now request db =
    andThen (enrollGuard pf now request db) (\<lambda>context.
      let state = map_option cr_recoveryState (credentialOf db (au_id (cx_user context)))
      in Inr (state = Some ENABLED, case state of None \<Rightarrow> PENDING_SETUP | Some s \<Rightarrow> s))"


section \<open>The machine\<close>

text \<open>The clock, the random draws and the new ids of a call travel with the request.\<close>

datatype auth_request =
    Login int string string string string http_request
  | Logout int http_request
  | VerifyTotp int http_request string
  | SendEmailOtp int nat string http_request
  | VerifyEmailOtp int http_request string
  | ResetTwoFactor int string http_request string
  | StartEnrollment int string "byte list" "byte list" http_request
  | ConfirmEnrollment int http_request string

definition forgetAnswer :: "('e + 'a) \<times> 's \<Rightarrow> ('e + unit) \<times> 's" where
  "forgetAnswer r = (case fst r of Inl e \<Rightarrow> Inl e | Inr _ \<Rightarrow> Inr (), snd r)"

lemma snd_forgetAnswer [simp]: "snd (forgetAnswer r) = snd r"
  by (simp add: forgetAnswer_def)

fun authServe :: "auth_platform \<Rightarrow> auth_request \<Rightarrow> auth_db \<Rightarrow> (auth_throw + unit) \<times> auth_db" where
  "authServe pf (Login now sid token email password rq) db =
     forgetAnswer (loginWithPassword pf now sid token email password rq db)"
| "authServe pf (Logout now rq) db = (Inr (), logoutByRequest pf now rq db)"
| "authServe pf (VerifyTotp now rq code) db = forgetAnswer (verifyPendingTotp pf now rq code db)"
| "authServe pf (SendEmailOtp now random oid rq) db =
     forgetAnswer (sendEmailOtpForPendingSession pf now random oid rq db)"
| "authServe pf (VerifyEmailOtp now rq otp) db =
     forgetAnswer (verifyEmailOtpForPendingSession pf now rq otp db)"
| "authServe pf (ResetTwoFactor now cid rq target) db =
     (Inr (), snd (resetStaffTwoFactor pf now cid rq target db))"
| "authServe pf (StartEnrollment now cid random iv rq) db =
     forgetAnswer (startTotpEnrollment pf now cid random iv rq db)"
| "authServe pf (ConfirmEnrollment now rq code) db =
     forgetAnswer (confirmTotpEnrollment pf now rq code db)"

end
