(* ===== verification/AuthFacts.thy ===== *)
theory AuthFacts
  imports AuthService
begin

text \<open>
  What the sign-in machine guarantees: the invariant of its tables, the audit trail behind
  every active session of the staff, the lock after five wrong codes, the end of a session at
  sign-out and the completion of an enrolment.
\<close>

section \<open>The session behind a context\<close>

definition contextOf :: "session \<Rightarrow> auth_user \<Rightarrow> auth_context" where
  "contextOf s u =
    \<lparr>cx_sessionId = se_id s, cx_sessionStatus = se_status s,
     cx_twoFactorAttemptCount = se_twoFactorAttemptCount s,
     cx_twoFactorLockedUntil = se_twoFactorLockedUntil s,
     cx_user = u, cx_principal = principalFromUser u\<rparr>"

lemma contextOf_sel [simp]:
  "cx_sessionId (contextOf s u) = se_id s" "cx_sessionStatus (contextOf s u) = se_status s"
  "cx_twoFactorAttemptCount (contextOf s u) = se_twoFactorAttemptCount s"
  "cx_twoFactorLockedUntil (contextOf s u) = se_twoFactorLockedUntil s"
  "cx_user (contextOf s u) = u" "cx_principal (contextOf s u) = principalFromUser u"
  by (simp_all add: contextOf_def)

lemma authContext_iff:
  "getAuthContextFromCookieHeader pf now allow cookie db = Some c \<longleftrightarrow>
    (\<exists>token s u. getSessionTokenFromCookieHeader pf cookie = Some token \<and> token \<noteq> [] \<and>
      fetch se_tokenHash (ap_hashToken pf token) (adb_sessions db) = Some s \<and>
      fetch au_id (se_userId s) (adb_users db) = Some u \<and>
      se_revokedAt s = None \<and> now < se_expiresAt s \<and> isActiveAuthUser u \<and>
      (allow \<or> canFinalizeSession (au_roleName u) (se_status s) (se_twoFactorVerifiedAt s) (ap_env pf)) \<and>
      c = contextOf s u)"
  by (auto simp: getAuthContextFromCookieHeader_def contextOf_def split: option.splits if_splits)

lemma pendingContext_iff:
  "pendingContext pf now rq db = Some c \<longleftrightarrow>
    getAuthContextFromCookieHeader pf now True (rq_cookie rq) db = Some c \<and>
    cx_sessionStatus c = S_PENDING_2FA"
  by (auto simp: pendingContext_def split: option.splits)

lemma enrollGuard_eq_Inr:
  "enrollGuard pf now rq db = Inr c \<longleftrightarrow>
    isStaffTwoFactorEnabled (ap_env pf) \<and> pendingContext pf now rq db = Some c \<and>
    \<not> isTwoFactorSessionLocked (cx_twoFactorLockedUntil c) now"
  by (auto simp: enrollGuard_def requireTotpMode_def requirePendingStaffContext_def
      pendingContext_def split: option.splits if_splits)

lemma pendingContext_session:
  assumes "pendingContext pf now rq db = Some c"
  obtains s u where "s \<in> set (adb_sessions db)" "u \<in> set (adb_users db)" "c = contextOf s u"
    "au_id u = se_userId s" "se_revokedAt s = None" "se_status s = S_PENDING_2FA" "now < se_expiresAt s"
    "isActiveAuthUser u"
  using assms by (auto simp: pendingContext_iff authContext_iff dest!: fetch_SomeD)


section \<open>The invariant\<close>

definition secondFactorActions :: "string list" where
  "secondFactorActions =
    [''auth.2fa_totp_verified'', ''auth.2fa_email_otp_verified'', ''auth.2fa_enrolled'']"

text \<open>The trail holds the verification of a second factor for a session.\<close>

definition verifiedInLog :: "audit_event list \<Rightarrow> string \<Rightarrow> bool" where
  "verifiedInLog trail sid =
    list_ex (\<lambda>e. ae_resourceId e = Some sid \<and> ae_action e \<in> set secondFactorActions) trail"

definition sessionOk :: "env \<Rightarrow> auth_user list \<Rightarrow> audit_event list \<Rightarrow> session \<Rightarrow> bool" where
  "sessionOk env users trail s \<longleftrightarrow>
    (se_revokedAt s \<noteq> None \<longleftrightarrow> se_status s = S_REVOKED) \<and>
    (se_twoFactorLockedUntil s \<noteq> None \<longrightarrow> TWO_FACTOR_SESSION_MAX_ATTEMPTS \<le> se_twoFactorAttemptCount s) \<and>
    (se_status s = S_ACTIVE \<longrightarrow>
      list_all (\<lambda>u. au_id u = se_userId s \<longrightarrow> requiresTwoFactor (au_roleName u) env \<longrightarrow>
        se_twoFactorVerifiedAt s \<noteq> None \<and> verifiedInLog trail (se_id s)) users)"

definition sessionsOk :: "env \<Rightarrow> auth_user list \<Rightarrow> session list \<Rightarrow> audit_event list \<Rightarrow> bool" where
  "sessionsOk env users sessions trail \<longleftrightarrow>
    distinct (map au_id users) \<and> distinct (map se_id sessions) \<and>
    distinct (map se_tokenHash sessions) \<and> list_all (sessionOk env users trail) sessions"

definition authInv :: "auth_platform \<Rightarrow> auth_db \<Rightarrow> bool" where
  "authInv pf db \<longleftrightarrow> sessionsOk (ap_env pf) (adb_users db) (adb_sessions db) (adb_audit db)"

lemma verifiedInLog_append [simp]:
  "verifiedInLog (trail @ [e]) sid \<longleftrightarrow>
    verifiedInLog trail sid \<or> (ae_resourceId e = Some sid \<and> ae_action e \<in> set secondFactorActions)"
  by (auto simp: verifiedInLog_def)

lemma sessionOk_log: "sessionOk env us trail s \<Longrightarrow> sessionOk env us (trail @ [e]) s"
  by (auto simp: sessionOk_def list_all_iff)

lemma sessionsOk_log: "sessionsOk env us ss trail \<Longrightarrow> sessionsOk env us ss (trail @ [e])"
  by (auto simp: sessionsOk_def list_all_iff sessionOk_log)

lemma sessionsOk_modify:
  assumes "sessionsOk env us ss trail"
    and "\<And>s. se_id (f s) = se_id s" "\<And>s. se_tokenHash (f s) = se_tokenHash s"
    and "\<And>s. s \<in> set ss \<Longrightarrow> se_id s = sid \<Longrightarrow> sessionOk env us (trail @ [e]) (f s)"
  shows "sessionsOk env us (modify se_id sid f ss) (trail @ [e])"
  using assms by (auto simp: sessionsOk_def map_key_modify list_all_iff set_modify sessionOk_log
      modify_def map_key_updateWhere set_updateWhere)

lemma sessionsOk_updateWhere:
  assumes "sessionsOk env us ss trail"
    and "\<And>s. se_id (f s) = se_id s" "\<And>s. se_tokenHash (f s) = se_tokenHash s"
    and "\<And>s. s \<in> set ss \<Longrightarrow> p s \<Longrightarrow> sessionOk env us trail (f s)"
  shows "sessionsOk env us (updateWhere p f ss) trail"
  using assms by (auto simp: sessionsOk_def map_key_updateWhere list_all_iff set_updateWhere)

lemma sessionsOk_unique:
  "sessionsOk env us ss trail \<Longrightarrow> s \<in> set ss \<Longrightarrow> t \<in> set ss \<Longrightarrow> se_id s = se_id t \<Longrightarrow> s = t"
  by (auto simp: sessionsOk_def distinct_map inj_on_def)

lemma sessionsOk_member: "sessionsOk env us ss trail \<Longrightarrow> s \<in> set ss \<Longrightarrow> sessionOk env us trail s"
  by (auto simp: sessionsOk_def list_all_iff)

lemma failure_sessionOk:
  assumes "sessionOk env us trail s"
  shows "sessionOk env us (trail @ [e])
    (s\<lparr>se_twoFactorAttemptCount := n, se_twoFactorLockedUntil := twoFactorLockedUntilForAttempt n t,
       se_lastTwoFactorFailedAt := x\<rparr>)"
  using assms by (auto simp: sessionOk_def twoFactorLockedUntilForAttempt_def list_all_iff)

lemma activate_sessionOk:
  assumes "se_revokedAt s = None" "ae_resourceId e = Some (se_id s)"
    "ae_action e \<in> set secondFactorActions"
  shows "sessionOk env us (trail @ [e]) (activateSession now s)"
  using assms by (auto simp: sessionOk_def activateSession_def list_all_iff)

lemma authInv_log: "authInv pf db \<Longrightarrow> authInv pf (logEvent e db)"
  by (simp add: authInv_def logEvent_def appendAuditLog_def sessionsOk_log)

lemma authInv_failure:
  assumes "authInv pf db"
  shows "authInv pf (recordPendingTwoFactorFailure now c m r db)"
  using assms
  by (auto simp: authInv_def recordPendingTwoFactorFailure_def logEvent_def updateSession_def Let_def
      appendAuditLog_def intro!: sessionsOk_modify failure_sessionOk dest: sessionsOk_member)

lemma authInv_audit: "authInv pf db \<Longrightarrow> authInv pf (auditTwoFactorFailure c m r db)"
  by (simp add: auditTwoFactorFailure_def authInv_log)

lemma authInv_activate:
  assumes "authInv pf db" "pendingContext pf now rq db = Some c"
    and "ae_resourceId e = Some (cx_sessionId c)" "ae_action e \<in> set secondFactorActions"
  shows "sessionsOk (ap_env pf) (adb_users db)
    (modify se_id (cx_sessionId c) (activateSession t) (adb_sessions db)) (adb_audit db @ [e])"
proof -
  obtain s u where s: "s \<in> set (adb_sessions db)" "c = contextOf s u" "se_revokedAt s = None"
    using assms(2) by (rule pendingContext_session)
  have ok: "sessionsOk (ap_env pf) (adb_users db) (adb_sessions db) (adb_audit db)"
    using assms(1) by (simp add: authInv_def)
  then show ?thesis
  proof (rule sessionsOk_modify)
    fix x assume "x \<in> set (adb_sessions db)" "se_id x = cx_sessionId c"
    with s ok have "x = s" by (auto intro: sessionsOk_unique)
    with s assms(3,4) show "sessionOk (ap_env pf) (adb_users db) (adb_audit db @ [e]) (activateSession t x)"
      by (auto intro: activate_sessionOk)
  qed (simp_all add: activateSession_def)
qed

lemmas auth_inv_rules = authInv_log authInv_failure authInv_audit

lemma authInv_tables [simp]:
  "authInv pf (db\<lparr>adb_credentials := cs\<rparr>) = authInv pf db"
  "authInv pf (db\<lparr>adb_challenges := hs\<rparr>) = authInv pf db"
  "authInv pf (db\<lparr>adb_emails := es\<rparr>) = authInv pf db"
  by (simp_all add: authInv_def)

lemma authInv_upsert [simp]: "authInv pf (upsertCredential uid fresh f db) = authInv pf db"
  by (simp add: upsertCredential_def split: option.split)

lemma login_inv: "authInv pf db \<Longrightarrow> authInv pf (snd (loginWithPassword pf now sid token em pw rq db))"
proof -
  assume inv: "authInv pf db"
  have created: "authInv pf (snd (createSessionForUser pf now sid token u rq db))"
    if u: "fetch au_email m (adb_users db) = Some u" for u m
  proof -
    have "list_all (\<lambda>v. au_id v = au_id u \<longrightarrow> v = u) (adb_users db)"
      using inv fetch_SomeD [OF u]
      by (auto simp: authInv_def sessionsOk_def list_all_iff distinct_map inj_on_def)
    with inv show ?thesis
      by (auto simp: createSessionForUser_def authInv_def sessionsOk_def Let_def sessionOk_def
          initialSessionStatusForRole_def list_all_iff)
  qed
  show ?thesis
    using inv created
    by (auto simp: loginWithPassword_def Let_def authInv_log split: option.splits prod.splits sum.splits if_splits)
      (metis authInv_log snd_conv)+
qed

lemma logout_inv: "authInv pf db \<Longrightarrow> authInv pf (logoutByRequest pf now rq db)"
  by (auto simp: logoutByRequest_def authInv_def sessionOk_def split: option.splits
      intro!: sessionsOk_updateWhere dest: sessionsOk_member)

lemma secondFactorActions_mem [simp]:
  "''auth.2fa_totp_verified'' \<in> set secondFactorActions"
  "''auth.2fa_email_otp_verified'' \<in> set secondFactorActions"
  "''auth.2fa_enrolled'' \<in> set secondFactorActions"
  by (simp_all add: secondFactorActions_def)

lemma auditEvent_sel [simp]:
  "ae_resourceId (auditEvent a act rt ri md) = ri" "ae_action (auditEvent a act rt ri md) = act"
  "ae_actorId (auditEvent a act rt ri md) = a"
  by (simp_all add: auditEvent_def)

text \<open>The three writes of a verification, in the order of each of the three services.\<close>

lemma authInv_verified:
  assumes "authInv pf db" "pendingContext pf now rq db = Some c" "act \<in> set secondFactorActions"
  shows "authInv pf (logEvent (auditEvent a act rt (Some (cx_sessionId c)) md)
      ((updateSession (cx_sessionId c) (activateSession now) db)\<lparr>adb_credentials := cs\<rparr>))"
    and "authInv pf (logEvent (auditEvent a act rt (Some (cx_sessionId c)) md)
      (updateSession (cx_sessionId c) (activateSession now) (db\<lparr>adb_credentials := cs\<rparr>)))"
    and "authInv pf (logEvent (auditEvent a act rt (Some (cx_sessionId c)) md)
      (updateSession (cx_sessionId c) (activateSession now) (db\<lparr>adb_challenges := hs\<rparr>)))"
  using authInv_activate [OF assms(1,2), of "auditEvent a act rt (Some (cx_sessionId c)) md" now] assms(3)
  by (simp_all add: authInv_def logEvent_def updateSession_def appendAuditLog_def)

lemma verifyTotp_inv: "authInv pf db \<Longrightarrow> authInv pf (snd (verifyPendingTotp pf now rq code db))"
  unfolding verifyPendingTotp_def Let_def
  by (simp add: authInv_failure authInv_audit authInv_verified split: option.split sum.split)

lemma sendOtp_inv: "authInv pf db \<Longrightarrow> authInv pf (snd (sendEmailOtpForPendingSession pf now n oid rq db))"
  unfolding sendEmailOtpForPendingSession_def Let_def
  by (simp add: authInv_log authInv_audit split: option.split sum.split)

lemma verifyOtp_inv:
  "authInv pf db \<Longrightarrow> authInv pf (snd (verifyEmailOtpForPendingSession pf now rq otp db))"
  unfolding verifyEmailOtpForPendingSession_def Let_def
  by (simp add: authInv_failure authInv_audit authInv_verified split: option.split sum.split)

lemma reset_inv: "authInv pf db \<Longrightarrow> authInv pf (snd (resetStaffTwoFactor pf now cid rq target db))"
  unfolding resetStaffTwoFactor_def Let_def
  by (simp add: authInv_log split: option.split)

lemma startEnrollment_inv: "authInv pf db \<Longrightarrow> authInv pf (snd (startTotpEnrollment pf now cid random iv rq db))"
  unfolding startTotpEnrollment_def Let_def
  by (simp add: authInv_log split: option.split sum.split)

lemma confirmEnrollment_inv:
  "authInv pf db \<Longrightarrow> authInv pf (snd (confirmTotpEnrollment pf now rq code db))"
  unfolding confirmTotpEnrollment_def Let_def
  by (auto simp: authInv_failure enrollGuard_eq_Inr split: option.split sum.split
      intro: authInv_verified(2))

lemma authServe_inv: "authInv pf db \<Longrightarrow> authInv pf (snd (authServe pf q db))"
  by (cases q) (simp_all add: login_inv logout_inv verifyTotp_inv sendOtp_inv verifyOtp_inv
      reset_inv startEnrollment_inv confirmEnrollment_inv)

interpretation signIn: guarded_machine "authServe pf" "authInv pf" for pf
  by unfold_locales (rule authServe_inv)


section \<open>Who is signed in\<close>

lemma updateSession_users [simp]: "adb_users (updateSession sid f db) = adb_users db"
  by (simp add: updateSession_def)

lemma logEvent_sel [simp]:
  "adb_users (logEvent e db) = adb_users db" "adb_sessions (logEvent e db) = adb_sessions db"
  "adb_credentials (logEvent e db) = adb_credentials db"
  "adb_challenges (logEvent e db) = adb_challenges db"
  by (simp_all add: logEvent_def)

lemma upsertCredential_sel [simp]:
  "adb_users (upsertCredential uid fresh f db) = adb_users db"
  "adb_sessions (upsertCredential uid fresh f db) = adb_sessions db"
  by (simp_all add: upsertCredential_def split: option.split)

text \<open>
  C2. Start from a database with no session and serve any requests in any order. In the TOTP mode,
  whenever a request is then recognised as coming from a member of the staff with a full
  session, the audit trail holds the verification of a second factor for that very session:
  no order of sign-ins, mailed codes, resets and enrolments reaches a full session around it.
\<close>

theorem staff_session_verified:
  assumes "adb_sessions db = []" and "distinct (map au_id (adb_users db))"
    and "getAuthContextFromCookieHeader pf now False cookie (serveAll (authServe pf) qs db) = Some c"
    and "requiresTwoFactor (au_roleName (cx_user c)) (ap_env pf)"
  shows "verifiedInLog (adb_audit (serveAll (authServe pf) qs db)) (cx_sessionId c)"
proof -
  let ?db = "serveAll (authServe pf) qs db"
  have "authInv pf db" using assms(1,2) by (simp add: authInv_def sessionsOk_def)
  then have inv: "authInv pf ?db" by (rule signIn.serve_inv)
  obtain s where s: "s \<in> set (adb_sessions ?db)" "c = contextOf s (cx_user c)"
      "cx_user c \<in> set (adb_users ?db)" "au_id (cx_user c) = se_userId s" "se_status s = S_ACTIVE"
    using assms(3) by (auto simp: authContext_iff canFinalizeSession_def dest!: fetch_SomeD split: if_splits)
  have "sessionOk (ap_env pf) (adb_users ?db) (adb_audit ?db) s"
    using inv s(1) by (auto simp: authInv_def dest: sessionsOk_member)
  with s assms(4) have "verifiedInLog (adb_audit ?db) (se_id s)"
    by (auto simp: sessionOk_def list_all_iff)
  with s(2) show ?thesis by (metis contextOf_sel(1))
qed

definition sampleCipher :: cipher where
  "sampleCipher = \<lparr>ci_sha256 = (\<lambda>_. []), ci_encrypt = (\<lambda>key iv plain. (plain, replicate 16 0)),
     ci_decrypt = (\<lambda>key iv tag ct. Some ct)\<rparr>"

definition sampleIv :: "byte list" where "sampleIv = replicate 12 0"

lemma sampleCipher_gcm: "gcm_library sampleCipher"
  by (simp add: gcm_library_def sampleCipher_def)

definition sampleSealed :: string where
  "sampleSealed = ''v1:AAAAAAAAAAAAAAAA:AAAAAAAAAAAAAAAAAAAAAA:QUVCQUc''"

lemma sampleSealed_nonempty [simp]: "sampleSealed \<noteq> []"
  by (simp add: sampleSealed_def)

definition samplePlatform :: auth_platform where
  "samplePlatform =
    \<lparr>ap_env = (\<lambda>k. if k = ''STAFF_2FA_MODE'' then Some ''totp'' else None),
     ap_hashToken = (\<lambda>t. t), ap_decodeURIComponent = Some,
     ap_hmacSha1 = (\<lambda>k m. replicate 20 0), ap_hmacSha256 = (\<lambda>k m. k @ m), ap_bytesOf = (\<lambda>s. []),
     ap_cipher = sampleCipher,
     ap_verifyPassword = (\<lambda>p h. h = Some p), ap_smtp = False\<rparr>"

definition sampleStaff :: auth_user where
  "sampleStaff =
    \<lparr>au_id = ''u1'', au_name = ''A'', au_email = ''a@k'', au_phone = None, au_locale = ''ar'', au_status = U_ACTIVE, au_deletedAt = None,
     au_passwordHash = Some ''pw'', au_roleName = ''Lawyer'', au_roleStatus = R_ACTIVE,
     au_rolePermissions = [], au_clientProfileId = None\<rparr>"

definition sampleAuthDb :: auth_db where
  "sampleAuthDb = \<lparr>adb_users = [sampleStaff], adb_sessions = [], adb_credentials = [],
     adb_challenges = [], adb_emails = [], adb_audit = []\<rparr>"

definition sampleRequest :: http_request where
  "sampleRequest = \<lparr>rq_cookie = ''kmt_session=tok'', rq_realIp = None, rq_forwardedFor = None,
     rq_userAgent = None\<rparr>"

definition sampleSignIn :: "auth_request list" where
  "sampleSignIn =
    [Login 90000 ''s1'' ''tok'' '' A@k'' ''pw'' sampleRequest,
     StartEnrollment 90001 ''c1'' [1, 2, 3] sampleIv sampleRequest,
     ConfirmEnrollment 90002 sampleRequest ''000000'']"

definition samplePending :: session where
  "samplePending = \<lparr>se_id = ''s1'', se_userId = ''u1'', se_tokenHash = ''tok'',
     se_status = S_PENDING_2FA, se_twoFactorVerifiedAt = None,
     se_twoFactorAttemptCount = 0, se_twoFactorLockedUntil = None,
     se_lastTwoFactorFailedAt = None, se_expiresAt = 28890000,
     se_revokedAt = None, se_ipAddress = None, se_userAgent = None\<rparr>"

definition sampleLoginEvent :: audit_event where
  "sampleLoginEvent = auditEvent (Some ''u1'') ''auth.login_password_verified_pending_2fa''
     ''Session'' (Some ''s1'') [(''role'', MText ''Lawyer'')]"

definition sampleStartEvent :: audit_event where
  "sampleStartEvent = auditEvent (Some ''u1'') ''auth.2fa_enroll_started'' ''User'' (Some ''u1'')
     [(''recoveryState'', MText ''PENDING_SETUP'')]"

definition sampleLoggedIn :: auth_db where
  "sampleLoggedIn = sampleAuthDb\<lparr>adb_sessions := [samplePending], adb_audit := [sampleLoginEvent]\<rparr>"

definition sampleEnrolling :: auth_db where
  "sampleEnrolling = sampleLoggedIn\<lparr>adb_credentials :=
       [\<lparr>cr_id = ''c1'', cr_userId = ''u1'', cr_totpSecretEncrypted = Some sampleSealed, cr_enabledAt = None,
         cr_lastVerifiedAt = None, cr_recoveryState = PENDING_SETUP\<rparr>],
     adb_audit := [sampleLoginEvent, sampleStartEvent]\<rparr>"

definition sampleEnrolled :: auth_db where
  "sampleEnrolled = sampleLoggedIn\<lparr>adb_sessions := [activateSession 90002 samplePending],
     adb_credentials :=
       [\<lparr>cr_id = ''c1'', cr_userId = ''u1'', cr_totpSecretEncrypted = Some sampleSealed, cr_enabledAt = Some 90002,
         cr_lastVerifiedAt = Some 90002, cr_recoveryState = ENABLED\<rparr>],
     adb_audit := [sampleLoginEvent, sampleStartEvent,
       auditEvent (Some ''u1'') ''auth.2fa_enrolled'' ''Session'' (Some ''s1'')
         [(''method'', MText ''totp'')]]\<rparr>"

lemma sample_login:
  "snd (authServe samplePlatform (Login 90000 ''s1'' ''tok'' '' A@k'' ''pw'' sampleRequest) sampleAuthDb) =
    sampleLoggedIn"
  by code_simp

lemma sample_key: "encodeBase32Secret [1, 2, 3] = ''AEBAG''"
  by code_simp

lemma sample_base64url:
  "toBase64url (replicate 12 0) = ''AAAAAAAAAAAAAAAA''"
  "toBase64url (replicate 16 0) = ''AAAAAAAAAAAAAAAAAAAAAA''"
  by code_simp+

lemma sample_text: "toBase64url (utf8 ''AEBAG'') = ''QUVCQUc''"
proof -
  have "utf8 ''AEBAG'' = [65, 69, 66, 65, 71]" by (simp add: utf8_def codeUnit_def)
  then have b: "bitsOfBytes (utf8 ''AEBAG'') =
    [False, True, False, False, False, False, False, True, False, True, False, False, False, True, False, True,
     False, True, False, False, False, False, True, False, False, True, False, False, False, False, False, True,
     False, True, False, False, False, True, True, True]"
    by (simp add: bitsOfBytes_def bitsOf_byte)
  show ?thesis unfolding toBase64url_def b by code_simp
qed

lemma sample_platform:
  "getEncryptionKey (ap_cipher samplePlatform) (ap_env samplePlatform) = Inr []"
  "sealSecret (ap_cipher samplePlatform) (ap_env samplePlatform) sampleIv ''AEBAG'' = Inr sampleSealed"
proof -
  show k: "getEncryptionKey (ap_cipher samplePlatform) (ap_env samplePlatform) = Inr []"
    by (simp add: getEncryptionKey_def samplePlatform_def sampleCipher_def)
  show "sealSecret (ap_cipher samplePlatform) (ap_env samplePlatform) sampleIv ''AEBAG'' = Inr sampleSealed"
    unfolding sealSecret_def k
    by (simp add: samplePlatform_def sampleCipher_def sampleIv_def sampleSealed_def sample_base64url sample_text)
qed

lemma sample_pending:
  "enrollGuard samplePlatform 90001 sampleRequest sampleLoggedIn = Inr (contextOf samplePending sampleStaff)"
  by code_simp

lemma sample_start:
  "snd (authServe samplePlatform (StartEnrollment 90001 ''c1'' [1, 2, 3] sampleIv sampleRequest) sampleLoggedIn) =
    sampleEnrolling"
proof -
  have "au_id sampleStaff = ''u1''" by (simp add: sampleStaff_def)
  moreover have "credentialOf sampleLoggedIn ''u1'' = None"
    by (simp add: credentialOf_def sampleLoggedIn_def sampleAuthDb_def)
  ultimately show ?thesis
    by (simp add: startTotpEnrollment_def sample_pending sample_key sample_platform upsertCredential_def)
      (simp add: sampleEnrolling_def sampleLoggedIn_def sampleAuthDb_def logEvent_def appendAuditLog_def
        sampleStartEvent_def recoveryStateText_def Let_def)
qed

lemma sample_code:
  "verifyTotpCode (ap_hmacSha1 samplePlatform) ''AEBAG'' ''000000'' defaultTotpOptions 90002 = Inr True"
proof -
  have d: "decodeBase32 ''AEBAG'' = Inr [1, 2, 3]" by code_simp
  have s: "removeWhitespace ''000000'' = ''000000''" by code_simp
  have "hotp (ap_hmacSha1 samplePlatform) ''AEBAG'' 3 6 = Inr ''000000''"
    by (simp add: hotp_def d samplePlatform_def truncatedCode_def byteAt_def Let_def last_replicate
        padStart_def natToText.simps digitChar_def) code_simp
  then show ?thesis
    by (subst verifyTotpCode_iff [OF d])
      (simp_all add: defaultTotpOptions_def totpCounter_def s, auto intro!: bexI [of _ 3])
qed

lemma sample_enrollment:
  "enrollGuard samplePlatform 90002 sampleRequest sampleEnrolling =
    Inr (contextOf samplePending sampleStaff)"
  "credentialOf sampleEnrolling ''u1'' = Some \<lparr>cr_id = ''c1'', cr_userId = ''u1'',
    cr_totpSecretEncrypted = Some sampleSealed, cr_enabledAt = None,
    cr_lastVerifiedAt = None, cr_recoveryState = PENDING_SETUP\<rparr>"
  "openSealedSecret (ap_cipher samplePlatform) (ap_env samplePlatform) sampleSealed = Inr ''AEBAG''"
proof -
  show "enrollGuard samplePlatform 90002 sampleRequest sampleEnrolling = Inr (contextOf samplePending sampleStaff)"
    by code_simp
  show "credentialOf sampleEnrolling ''u1'' = Some \<lparr>cr_id = ''c1'', cr_userId = ''u1'',
      cr_totpSecretEncrypted = Some sampleSealed, cr_enabledAt = None,
      cr_lastVerifiedAt = None, cr_recoveryState = PENDING_SETUP\<rparr>"
    by (simp add: credentialOf_def sampleEnrolling_def)
  show "openSealedSecret (ap_cipher samplePlatform) (ap_env samplePlatform) sampleSealed = Inr ''AEBAG''"
    by (rule openSealedSecret_sealSecret [OF _ _ _ _ sample_platform(2)])
      (simp_all add: samplePlatform_def sampleCipher_gcm sampleIv_def codeUnit_def)
qed

lemma sample_confirm:
  "snd (authServe samplePlatform (ConfirmEnrollment 90002 sampleRequest ''000000'') sampleEnrolling) =
    sampleEnrolled"
proof -
  have "au_id sampleStaff = ''u1''" by (simp add: sampleStaff_def)
  then show ?thesis
    using sample_enrollment sample_code
    by (simp add: confirmTotpEnrollment_def Let_def)
      (simp add: sampleEnrolled_def sampleEnrolling_def sampleLoggedIn_def samplePending_def
        updateSession_def logEvent_def activateSession_def appendAuditLog_def)
qed

lemma sampleSignIn_run:
  "serveAll (authServe samplePlatform) sampleSignIn sampleAuthDb = sampleEnrolled"
  using sample_login sample_start sample_confirm by (simp add: sampleSignIn_def)

lemma sample_context:
  "map_option cx_sessionId (getAuthContextFromCookieHeader samplePlatform 90003 False ''kmt_session=tok''
      sampleEnrolled) = Some ''s1''"
  "map_option (\<lambda>c. requiresTwoFactor (au_roleName (cx_user c)) (ap_env samplePlatform))
    (getAuthContextFromCookieHeader samplePlatform 90003 False ''kmt_session=tok'' sampleEnrolled) = Some True"
  by code_simp+

theorem staff_session_verified_witness:
  "verifiedInLog (adb_audit (serveAll (authServe samplePlatform) sampleSignIn sampleAuthDb)) ''s1''"
proof -
  obtain c where c: "getAuthContextFromCookieHeader samplePlatform 90003 False ''kmt_session=tok''
      (serveAll (authServe samplePlatform) sampleSignIn sampleAuthDb) = Some c" "cx_sessionId c = ''s1''"
      "requiresTwoFactor (au_roleName (cx_user c)) (ap_env samplePlatform)"
    using sample_context sampleSignIn_run by auto
  have "adb_sessions sampleAuthDb = []" "distinct (map au_id (adb_users sampleAuthDb))"
    by (simp_all add: sampleAuthDb_def)
  from staff_session_verified [OF this c(1,3)] c(2) show ?thesis by simp
qed


section \<open>The lock\<close>

text \<open>A try at the second factor, with either method, at a time.\<close>

datatype factor_try = TryTotp int string | TryEmailOtp int string

primrec tryTime :: "factor_try \<Rightarrow> int" where
  "tryTime (TryTotp now code) = now"
| "tryTime (TryEmailOtp now otp) = now"

primrec tryFactor ::
  "auth_platform \<Rightarrow> http_request \<Rightarrow> factor_try \<Rightarrow> auth_db \<Rightarrow> (auth_throw + verified_answer) \<times> auth_db" where
  "tryFactor pf rq (TryTotp now code) db = verifyPendingTotp pf now rq code db"
| "tryFactor pf rq (TryEmailOtp now otp) db = verifyEmailOtpForPendingSession pf now rq otp db"

primrec afterTries :: "auth_platform \<Rightarrow> http_request \<Rightarrow> factor_try list \<Rightarrow> auth_db \<Rightarrow> auth_db" where
  "afterTries pf rq [] db = db"
| "afterTries pf rq (t # ts) db = afterTries pf rq ts (snd (tryFactor pf rq t db))"

primrec allRejected :: "auth_platform \<Rightarrow> http_request \<Rightarrow> factor_try list \<Rightarrow> auth_db \<Rightarrow> bool" where
  "allRejected pf rq [] db \<longleftrightarrow> True"
| "allRejected pf rq (t # ts) db \<longleftrightarrow>
     fst (tryFactor pf rq t db) = Inr None \<and> allRejected pf rq ts (snd (tryFactor pf rq t db))"

text \<open>The session of a request, pending, with what matters of it.\<close>

definition pendingSession ::
  "auth_platform \<Rightarrow> http_request \<Rightarrow> auth_db \<Rightarrow> session \<Rightarrow> auth_user \<Rightarrow> bool" where
  "pendingSession pf rq db s u \<longleftrightarrow>
    (case getSessionTokenFromCookieHeader pf (rq_cookie rq) of
       None \<Rightarrow> False
     | Some token \<Rightarrow> token \<noteq> [] \<and>
         fetch se_tokenHash (ap_hashToken pf token) (adb_sessions db) = Some s) \<and>
    fetch au_id (se_userId s) (adb_users db) = Some u \<and> se_revokedAt s = None \<and>
    se_status s = S_PENDING_2FA \<and> isActiveAuthUser u"

lemma pendingContext_pendingSession:
  "pendingSession pf rq db s u \<Longrightarrow>
    pendingContext pf now rq db = (if now < se_expiresAt s then Some (contextOf s u) else None)"
  by (auto simp: pendingSession_def pendingContext_def getAuthContextFromCookieHeader_def contextOf_def
      split: option.splits)

lemma pendingContext_SomeD:
  "pendingContext pf now rq db = Some c \<Longrightarrow>
    \<exists>s u. pendingSession pf rq db s u \<and> c = contextOf s u \<and> now < se_expiresAt s"
  by (auto simp: pendingContext_iff authContext_iff pendingSession_def)

definition failSession :: "int \<Rightarrow> session \<Rightarrow> session" where
  "failSession now s =
    s\<lparr>se_twoFactorAttemptCount := se_twoFactorAttemptCount s + 1,
      se_twoFactorLockedUntil := twoFactorLockedUntilForAttempt (se_twoFactorAttemptCount s + 1) now,
      se_lastTwoFactorFailedAt := Some now\<rparr>"

lemma failSession_sel [simp]:
  "se_expiresAt (failSession now s) = se_expiresAt s"
  "se_twoFactorAttemptCount (failSession now s) = se_twoFactorAttemptCount s + 1"
  "se_twoFactorLockedUntil (failSession now s) =
    twoFactorLockedUntilForAttempt (se_twoFactorAttemptCount s + 1) now"
  "se_userId (failSession now s) = se_userId s" "se_id (failSession now s) = se_id s"
  "se_revokedAt (failSession now s) = se_revokedAt s" "se_status (failSession now s) = se_status s"
  by (simp_all add: failSession_def)

lemma recordFailure_tables [simp]:
  "adb_users (recordPendingTwoFactorFailure now c m r db) = adb_users db"
  "adb_sessions (recordPendingTwoFactorFailure now c m r db) =
    modify se_id (cx_sessionId c)
      (\<lambda>s. s\<lparr>se_twoFactorAttemptCount := cx_twoFactorAttemptCount c + 1,
             se_twoFactorLockedUntil := twoFactorLockedUntilForAttempt (cx_twoFactorAttemptCount c + 1) now,
             se_lastTwoFactorFailedAt := Some now\<rparr>) (adb_sessions db)"
  by (simp_all add: recordPendingTwoFactorFailure_def updateSession_def Let_def)

text \<open>What a rejection by an unlocked session changed: the two services agree.\<close>

definition rejectionWrites :: "int \<Rightarrow> auth_context \<Rightarrow> auth_db \<Rightarrow> (auth_throw + verified_answer) \<times> auth_db \<Rightarrow> bool" where
  "rejectionWrites now c db r \<longleftrightarrow>
    (fst r = Inr None \<longrightarrow> adb_users (snd r) = adb_users db \<and>
      adb_sessions (snd r) = adb_sessions (recordPendingTwoFactorFailure now c MethodTotp [] db))"

lemma rejectionWrites_simps [simp]:
  "rejectionWrites now c db (Inl e, db')"
  "rejectionWrites now c db (Inr (Some x), db')"
  "rejectionWrites now c db (Inr None, recordPendingTwoFactorFailure now c m r db)"
  "rejectionWrites now c db (Inr None, recordPendingTwoFactorFailure now c m r (db\<lparr>adb_challenges := hs\<rparr>))"
  by (simp_all add: rejectionWrites_def)

lemma try_rejected_writes:
  assumes "pendingContext pf (tryTime t) rq db = Some c"
    "\<not> isTwoFactorSessionLocked (cx_twoFactorLockedUntil c) (tryTime t)"
  shows "rejectionWrites (tryTime t) c db (tryFactor pf rq t db)"
  using assms
  by (cases t; simp only: tryFactor.simps tryTime.simps verifyPendingTotp_def
      verifyEmailOtpForPendingSession_def Let_def option.case if_False)
    (simp_all del: recordFailure_tables split: option.split sum.split)

lemma try_rejected_tables:
  assumes "pendingContext pf (tryTime t) rq db = Some c"
    "\<not> isTwoFactorSessionLocked (cx_twoFactorLockedUntil c) (tryTime t)"
    "fst (tryFactor pf rq t db) = Inr None"
  shows "adb_users (snd (tryFactor pf rq t db)) = adb_users db"
    and "adb_sessions (snd (tryFactor pf rq t db)) =
      adb_sessions (recordPendingTwoFactorFailure (tryTime t) c MethodTotp [] db)"
  using try_rejected_writes [OF assms(1,2)] assms(3) by (simp_all add: rejectionWrites_def)

lemma try_rejected_session:
  assumes "pendingSession pf rq db s u" "tryTime t < se_expiresAt s"
    "\<not> isTwoFactorSessionLocked (se_twoFactorLockedUntil s) (tryTime t)"
    "fst (tryFactor pf rq t db) = Inr None"
  shows "pendingSession pf rq (snd (tryFactor pf rq t db)) (failSession (tryTime t) s) u"
proof -
  have c: "pendingContext pf (tryTime t) rq db = Some (contextOf s u)"
    using assms(1,2) by (simp add: pendingContext_pendingSession)
  then have tb: "adb_users (snd (tryFactor pf rq t db)) = adb_users db"
    "adb_sessions (snd (tryFactor pf rq t db)) =
      adb_sessions (recordPendingTwoFactorFailure (tryTime t) (contextOf s u) MethodTotp [] db)"
    using assms(3,4) by (simp_all add: try_rejected_tables)
  have f: "fetch se_tokenHash h (adb_sessions (snd (tryFactor pf rq t db))) = Some (failSession (tryTime t) s)"
    if "fetch se_tokenHash h (adb_sessions db) = Some s" for h
    unfolding tb(2) using that by (simp add: modify_def fetch_updateWhere failSession_def)
  show ?thesis
    using assms(1) f tb(1) by (simp add: pendingSession_def split: option.splits)
qed

lemma try_when_locked:
  assumes "pendingSession pf rq db s u" "isTwoFactorSessionLocked (se_twoFactorLockedUntil s) (tryTime t)"
  shows "fst (tryFactor pf rq t db) = Inr None \<and>
    adb_sessions (snd (tryFactor pf rq t db)) = adb_sessions db"
  using assms
  by (cases t) (simp_all add: verifyPendingTotp_def verifyEmailOtpForPendingSession_def
      pendingContext_pendingSession auditTwoFactorFailure_def)

lemma rejected_tries_session:
  assumes "pendingSession pf rq db s u" "\<forall>t\<in>set ts. tryTime t < se_expiresAt s"
    "se_twoFactorLockedUntil s = None" "0 \<le> se_twoFactorAttemptCount s"
    "se_twoFactorAttemptCount s + int (length ts) \<le> 5" "allRejected pf rq ts db"
  shows "\<exists>s'. pendingSession pf rq (afterTries pf rq ts db) s' u \<and>
    se_expiresAt s' = se_expiresAt s \<and>
    (ts \<noteq> [] \<longrightarrow> se_twoFactorLockedUntil s' = twoFactorLockedUntilForAttempt
       (se_twoFactorAttemptCount s + int (length ts)) (tryTime (last ts)))"
  using assms
proof (induction ts arbitrary: db s)
  case Nil
  then show ?case by auto
next
  case (Cons t ts)
  then have p: "pendingSession pf rq (snd (tryFactor pf rq t db)) (failSession (tryTime t) s) u"
    by (intro try_rejected_session) (simp_all add: isTwoFactorSessionLocked_def)
  show ?case
  proof (cases ts)
    case Nil
    with p show ?thesis by auto
  next
    case (Cons t' ts')
    then have "twoFactorLockedUntilForAttempt (se_twoFactorAttemptCount s + 1) (tryTime t) = None"
      using Cons.prems(5)
      by (simp add: twoFactorLockedUntilForAttempt_def TWO_FACTOR_SESSION_MAX_ATTEMPTS_def)
    with Cons.IH [OF p] Cons.prems Cons show ?thesis
      by (simp add: algebra_simps)
  qed
qed

text \<open>
  C15. Guessing is bounded: after five rejected tries on one pending session, by authenticator
  codes, mailed codes or any mix of the two, every further try within ten minutes of the fifth
  is refused whatever its code, and leaves the session as it was; no code is compared.
\<close>

theorem five_rejections_lock:
  assumes "pendingContext pf now rq db = Some c"
    and "cx_twoFactorAttemptCount c = 0" and "cx_twoFactorLockedUntil c = None"
    and "length ts = 5" and "\<forall>t\<in>set ts. tryTime t \<le> now" and "allRejected pf rq ts db"
    and "now < tryTime (last ts) + 600000" and "tryTime t = now"
  shows "fst (tryFactor pf rq t (afterTries pf rq ts db)) = Inr None \<and>
    adb_sessions (snd (tryFactor pf rq t (afterTries pf rq ts db))) =
      adb_sessions (afterTries pf rq ts db)"
proof -
  obtain s u where s: "pendingSession pf rq db s u" "c = contextOf s u" "now < se_expiresAt s"
    using assms(1) pendingContext_SomeD by blast
  have "ts \<noteq> []" using assms(4) by auto
  with rejected_tries_session [OF s(1), of ts] s assms obtain s' where
    "pendingSession pf rq (afterTries pf rq ts db) s' u"
    "se_twoFactorLockedUntil s' = twoFactorLockedUntilForAttempt 5 (tryTime (last ts))"
    by fastforce
  with assms(7,8) show ?thesis
    by (intro try_when_locked [of _ _ _ s' u]) (simp_all add: locked_after_max_attempts)
qed

definition sampleTries :: "factor_try list" where
  "sampleTries = [TryTotp 90001 ''000000'', TryEmailOtp 90002 ''1'', TryTotp 90003 ''2'',
     TryTotp 90004 ''3'', TryEmailOtp 90005 ''4'']"

lemma sampleTries_rejected:
  "allRejected samplePlatform sampleRequest sampleTries sampleLoggedIn"
  by (simp add: sampleTries_def) code_simp

theorem five_rejections_lock_witness:
  "fst (tryFactor samplePlatform sampleRequest (TryTotp 90006 ''000000'')
      (afterTries samplePlatform sampleRequest sampleTries sampleLoggedIn)) = Inr None"
proof -
  have p: "pendingSession samplePlatform sampleRequest sampleLoggedIn samplePending sampleStaff"
    by code_simp
  then have "pendingContext samplePlatform 90006 sampleRequest sampleLoggedIn =
      Some (contextOf samplePending sampleStaff)"
    by (simp add: pendingContext_pendingSession samplePending_def)
  from five_rejections_lock [OF this, of sampleTries "TryTotp 90006 ''000000''"] sampleTries_rejected
  show ?thesis by (simp add: sampleTries_def samplePending_def)
qed

text \<open>
  The count is written from the context that was read, not incremented in the table: two
  rejections whose contexts were read before either wrote count once.
\<close>

theorem concurrent_rejections_count_once:
  assumes "fetch se_id (cx_sessionId c) (adb_sessions db) = Some s"
  shows "map_option se_twoFactorAttemptCount (fetch se_id (cx_sessionId c) (adb_sessions
      (recordPendingTwoFactorFailure now2 c m2 r2 (recordPendingTwoFactorFailure now1 c m1 r1 db)))) =
    Some (cx_twoFactorAttemptCount c + 1)"
  using assms by (simp add: table_simps)


section \<open>A token from sign-in to sign-out\<close>

definition cookieOf :: "string \<Rightarrow> string" where
  "cookieOf token = SESSION_COOKIE_NAME @ ''='' @ token"

lemma session_token_roundtrip:
  assumes "CHR '';'' \<notin> set token" "token \<noteq> []" "\<not> jsWhitespace (last token)"
    "ap_decodeURIComponent pf token = Some token"
  shows "getSessionTokenFromCookieHeader pf (cookieOf token) = Some token"
proof -
  let ?c = "cookieOf token"
  have "CHR '';'' \<notin> set ?c" using assms(1) by (simp add: cookieOf_def SESSION_COOKIE_NAME_def)
  then have s: "splitOn (CHR '';'') ?c = [?c]" by (rule splitOn_absent)
  have "\<not> jsWhitespace (hd ?c)" "?c \<noteq> []" "\<not> jsWhitespace (last ?c)"
    using assms(2,3) by (simp_all add: cookieOf_def SESSION_COOKIE_NAME_def) code_simp
  then have "jsTrim ?c = ?c" by (simp add: jsTrim_id)
  moreover have "startsWith (SESSION_COOKIE_NAME @ ''='') ?c" "drop (length (SESSION_COOKIE_NAME @ ''='')) ?c = token"
    by (simp_all add: cookieOf_def startsWith_def)
  ultimately show ?thesis
    using assms(2,4) s by (simp add: getSessionTokenFromCookieHeader_def Let_def)
qed

text \<open>The token that a sign-in hands out.\<close>

primrec answerToken :: "login_result \<Rightarrow> string" where
  "answerToken (Authenticated token user permissions) = token"
| "answerToken (TwoFactorRequired token user) = token"

text \<open>
  C20. A password sign-in that succeeds hands out a token that is recognised: in the new database
  the cookie of that token yields the session just created, for that user and until it expires,
  as a full session for everyone who needs no second factor and as a pending one for the rest.
\<close>

theorem login_token_recognised:
  assumes "fst (loginWithPassword pf t sid token email password rq db) = Inr (Some answer)"
    and "fetch au_email (jsLower (jsTrim email)) (adb_users db) = Some u"
    and "distinct (map au_id (adb_users db))"
    and "CHR '';'' \<notin> set (answerToken answer)" and "answerToken answer \<noteq> []"
    and "\<not> jsWhitespace (last (answerToken answer))"
    and "ap_decodeURIComponent pf (answerToken answer) = Some (answerToken answer)"
    and "t \<le> now" and "now < t + 28800000"
  shows "\<exists>c. getAuthContextFromCookieHeader pf now True (cookieOf (answerToken answer))
        (snd (loginWithPassword pf t sid token email password rq db)) = Some c \<and>
      cx_sessionId c = sid \<and> cx_user c = u \<and>
      cx_sessionStatus c = (if requiresTwoFactor (au_roleName u) (ap_env pf) then S_PENDING_2FA else S_ACTIVE) \<and>
      (getAuthContextFromCookieHeader pf now False (cookieOf (answerToken answer))
        (snd (loginWithPassword pf t sid token email password rq db)) = None \<longleftrightarrow>
       requiresTwoFactor (au_roleName u) (ap_env pf))"
proof -
  have tk: "answerToken answer = token"
    using assms(1,2) by (auto simp: loginWithPassword_def Let_def split: prod.splits sum.splits if_splits)
  obtain s db1 where s: "createSessionForUser pf t sid token u rq db = (Inr s, db1)"
    and sess: "adb_sessions (snd (loginWithPassword pf t sid token email password rq db)) = adb_sessions db1"
      "adb_users (snd (loginWithPassword pf t sid token email password rq db)) = adb_users db1"
    using assms(1,2) by (auto simp: loginWithPassword_def Let_def split: prod.splits sum.splits if_splits)
  then have c: "adb_sessions db1 = adb_sessions db @ [s]" "adb_users db1 = adb_users db" "isActiveAuthUser u"
      "se_id s = sid" "se_tokenHash s = ap_hashToken pf token" "se_userId s = au_id u"
      "se_revokedAt s = None" "se_expiresAt s = t + 28800000" "se_twoFactorVerifiedAt s = None"
      "se_status s = initialSessionStatusForRole (au_roleName u) (ap_env pf)"
      "ap_hashToken pf token \<notin> se_tokenHash ` set (adb_sessions db)"
    by (auto simp: createSessionForUser_def Let_def getSessionExpiresAt_def SESSION_TTL_SECONDS_def
        split: if_splits)
  have f: "fetch se_tokenHash (ap_hashToken pf token) (adb_sessions db @ [s]) = Some s"
    using c by (simp add: fetch_append fetch_None_iff [THEN iffD2])
  have u: "fetch au_id (au_id u) (adb_users db) = Some u"
    using fetch_distinct [OF assms(3)] fetch_SomeD [OF assms(2)] by simp
  have k: "getSessionTokenFromCookieHeader pf (cookieOf token) = Some token"
    using assms(4-7) unfolding tk by (rule session_token_roundtrip)
  show ?thesis
    using c f u k assms(5,8,9) unfolding tk
    by (simp add: getAuthContextFromCookieHeader_def sess initialSession_finalizes)
      (simp add: initialSessionStatusForRole_def)
qed

theorem login_token_recognised_witness:
  "\<exists>c. getAuthContextFromCookieHeader samplePlatform 90000 True (cookieOf ''tok'')
      (snd (loginWithPassword samplePlatform 90000 ''s1'' ''tok'' '' A@k'' ''pw'' sampleRequest sampleAuthDb)) =
    Some c \<and> cx_sessionStatus c = S_PENDING_2FA"
proof -
  have l: "fst (loginWithPassword samplePlatform 90000 ''s1'' ''tok'' '' A@k'' ''pw'' sampleRequest sampleAuthDb) =
      Inr (Some (TwoFactorRequired ''tok'' (safeUser samplePlatform sampleAuthDb sampleStaff)))"
    by code_simp
  have u: "fetch au_email (jsLower (jsTrim '' A@k'')) (adb_users sampleAuthDb) = Some sampleStaff"
    "requiresTwoFactor (au_roleName sampleStaff) (ap_env samplePlatform)"
    "\<not> jsWhitespace (last ''tok'')"
    by code_simp+
  from login_token_recognised [OF l u(1), of 90000] u show ?thesis
    by (auto simp: sampleAuthDb_def samplePlatform_def)
qed

text \<open>
  C21. Signing out ends the session: whatever the database holds, no later request with that
  cookie is recognised, not even as a pending session.
\<close>

theorem logout_ends_session:
  "getAuthContextFromCookieHeader pf now allow (rq_cookie rq) (logoutByRequest pf t rq db) = None"
  by (auto simp: getAuthContextFromCookieHeader_def logoutByRequest_def fetch_updateWhere
      dest!: fetch_SomeD split: option.splits)

end
