(* ===== verification/Enrollment.thy ===== *)
theory Enrollment
  imports AuthFacts
begin

text \<open>
  The enrolment of a TOTP credential (\<open>src/src/server/auth/totp-enrollment-service.ts\<close>) runs to
  its end: the setup key that starting hands out is the one whose codes confirm it.
\<close>

section \<open>Completing an enrolment\<close>

lemma credentialOf_logEvent [simp]: "credentialOf (logEvent e db) uid = credentialOf db uid"
  by (simp add: credentialOf_def)

lemma credentialOf_upsert:
  assumes "cr_userId fresh = uid" "\<And>x. cr_userId (f x) = cr_userId x"
  shows "credentialOf (upsertCredential uid fresh f db) uid =
    Some (case credentialOf db uid of None \<Rightarrow> fresh | Some x \<Rightarrow> f x)"
  using assms
  by (auto simp: upsertCredential_def credentialOf_def fetch_append table_simps split: option.splits)

lemma pendingSession_tables:
  "adb_users db' = adb_users db \<Longrightarrow> adb_sessions db' = adb_sessions db \<Longrightarrow>
    pendingSession pf rq db' s u = pendingSession pf rq db s u"
  by (simp add: pendingSession_def cong: option.case_cong)

lemma enrollGuard_pendingSession:
  assumes "pendingSession pf rq db s u" "now < se_expiresAt s" "isStaffTwoFactorEnabled (ap_env pf)"
    "\<not> isTwoFactorSessionLocked (se_twoFactorLockedUntil s) now"
  shows "enrollGuard pf now rq db = Inr (contextOf s u)"
  using assms by (simp add: enrollGuard_eq_Inr pendingContext_pendingSession)

lemma startTotpEnrollment_stores:
  assumes "enrollGuard pf now rq db = Inr c"
    and "map_option cr_recoveryState (credentialOf db (au_id (cx_user c))) \<notin> {Some ENABLED, Some DISABLED_BY_ADMIN}"
    and "sealSecret (ap_cipher pf) (ap_env pf) iv (encodeBase32Secret random) = Inr sealed"
  obtains st x where "fst (startTotpEnrollment pf now cid random iv rq db) = Inr (encodeBase32Secret random, st)"
    "credentialOf (snd (startTotpEnrollment pf now cid random iv rq db)) (au_id (cx_user c)) = Some x"
    "cr_totpSecretEncrypted x = Some sealed"
    "cr_recoveryState x = st" "st = PENDING_SETUP \<or> st = RESET_REQUIRED"
    "adb_users (snd (startTotpEnrollment pf now cid random iv rq db)) = adb_users db"
    "adb_sessions (snd (startTotpEnrollment pf now cid random iv rq db)) = adb_sessions db"
proof -
  let ?uid = "au_id (cx_user c)"
  let ?st = "if map_option cr_recoveryState (credentialOf db ?uid) = Some RESET_REQUIRED
    then RESET_REQUIRED else PENDING_SETUP"
  let ?r = "startTotpEnrollment pf now cid random iv rq db"
  have r: "fst ?r = Inr (encodeBase32Secret random, ?st)" "adb_users (snd ?r) = adb_users db"
    "adb_sessions (snd ?r) = adb_sessions db"
    "\<exists>x. credentialOf (snd ?r) ?uid = Some x \<and> cr_totpSecretEncrypted x = Some sealed \<and> cr_recoveryState x = ?st"
    using assms by (simp_all add: startTotpEnrollment_def Let_def credentialOf_upsert split: option.split)
  from r(4) obtain x where "credentialOf (snd ?r) ?uid = Some x" "cr_totpSecretEncrypted x = Some sealed"
    "cr_recoveryState x = ?st" by (elim exE conjE)
  then show thesis by (rule that [OF r(1) _ _ _ _ r(2,3)]) simp
qed

lemma activated_context:
  assumes "pendingSession pf rq db s u" "now < se_expiresAt s" "adb_users db' = adb_users db"
    "adb_sessions db' = modify se_id (se_id s) (activateSession t) (adb_sessions db)"
  shows "getAuthContextFromCookieHeader pf now False (rq_cookie rq) db' =
    Some (contextOf (activateSession t s) u)"
proof -
  have f: "fetch se_tokenHash h (adb_sessions db') = Some (activateSession t s)"
    if "fetch se_tokenHash h (adb_sessions db) = Some s" for h
    unfolding assms(4) using that by (simp add: modify_def fetch_updateWhere activateSession_def)
  have "se_userId (activateSession t s) = se_userId s" "se_revokedAt (activateSession t s) = se_revokedAt s"
    "se_expiresAt (activateSession t s) = se_expiresAt s"
    "canFinalizeSession r (se_status (activateSession t s)) (se_twoFactorVerifiedAt (activateSession t s)) env" for r env
    by (simp_all add: activateSession_def canFinalizeSession_def)
  with assms(1-3) f show ?thesis
    by (auto simp: authContext_iff pendingSession_def split: option.splits)
qed

lemma generated_code_verifies:
  assumes "decodeBase32 k = Inr key" "generateTotpCode hmac k defaultTotpOptions tg = Inr code"
    "\<bar>tg div 30000 - now div 30000\<bar> \<le> 1" "30000 \<le> now" "now < 2 ^ 60"
  shows "verifyTotpCode hmac k code defaultTotpOptions now = Inr True"
proof -
  have c: "totpCounter defaultTotpOptions x = x div 30000" for x
    by (simp add: totpCounter_def defaultTotpOptions_def)
  have h: "hotp hmac k (tg div 30000) 6 = Inr code"
    using assms(2) by (simp add: generateTotpCode_def c) (simp add: defaultTotpOptions_def)
  then have "list_all isDigit code" using hotp_length by fastforce
  then have "removeWhitespace code = code"
    using digits_not_whitespace by (simp add: removeWhitespace_def filter_id_conv list_all_iff)
  moreover have "now div 30000 + 1 < 2 ^ 64" using assms(5) by simp
  ultimately show ?thesis
    using assms(3,4) h
    by (subst verifyTotpCode_iff [OF assms(1)])
      (simp_all add: c, auto simp: defaultTotpOptions_def intro!: bexI [of _ "tg div 30000"])
qed

lemma sealSecret_with_key:
  assumes "getEncryptionKey ci env = Inr key"
  obtains sealed where "sealSecret ci env iv x = Inr sealed"
  using that assms by (cases "ci_encrypt ci key iv (utf8 x)") (simp add: sealSecret_def)

lemma encodeBase32Secret_ascii: "list_all (\<lambda>c. codeUnit c < 128) (encodeBase32Secret bytes)"
proof -
  have "list_all (\<lambda>c. codeUnit c < 128) BASE32_ALPHABET" by code_simp
  then show ?thesis
    using encodeBits_in_alphabet by (auto simp: encodeBase32Secret_def list_all_iff)
qed

lemma encodeBase32Secret_nonempty: "bytes \<noteq> [] \<Longrightarrow> encodeBase32Secret bytes \<noteq> []"
  using length_bitsOfBytes [of bytes] by (auto simp: encodeBase32Secret_def encodeBits.simps)

text \<open>
  C19. Enrolment completes: where the server has the secret it seals with, for a pending session
  whose user has no enabled and no disabled credential, starting returns a setup key, and confirming
  with a code that an authenticator generates from that key, at most one time step away, opens the
  sealed key, signs the same session in fully and leaves the credential enabled.
\<close>

theorem enrollment_completes:
  assumes "isStaffTwoFactorEnabled (ap_env pf)"
    and "pendingContext pf t rq db = Some c" and "pendingContext pf now rq db = Some c"
    and "\<not> isTwoFactorSessionLocked (cx_twoFactorLockedUntil c) t"
    and "\<not> isTwoFactorSessionLocked (cx_twoFactorLockedUntil c) now"
    and "map_option cr_recoveryState (credentialOf db (au_id (cx_user c))) \<notin> {Some ENABLED, Some DISABLED_BY_ADMIN}"
    and "gcm_library (ap_cipher pf)" and "getEncryptionKey (ap_cipher pf) (ap_env pf) = Inr key"
    and "length iv = 12" and "length random = 20"
    and "generateTotpCode (ap_hmacSha1 pf) (encodeBase32Secret random) defaultTotpOptions tg = Inr code"
    and "\<bar>tg div 30000 - now div 30000\<bar> \<le> 1" and "30000 \<le> now" and "now < 2 ^ 60"
  shows "\<exists>st a c'. fst (startTotpEnrollment pf t cid random iv rq db) = Inr (encodeBase32Secret random, st) \<and>
    fst (confirmTotpEnrollment pf now rq code (snd (startTotpEnrollment pf t cid random iv rq db))) = Inr a \<and>
    getAuthContextFromCookieHeader pf now False (rq_cookie rq)
      (snd (confirmTotpEnrollment pf now rq code (snd (startTotpEnrollment pf t cid random iv rq db)))) = Some c' \<and>
    cx_sessionId c' = cx_sessionId c \<and>
    map_option cr_recoveryState (credentialOf (snd (confirmTotpEnrollment pf now rq code
      (snd (startTotpEnrollment pf t cid random iv rq db)))) (au_id (cx_user c))) = Some ENABLED"
proof -
  let ?db = "snd (startTotpEnrollment pf t cid random iv rq db)" and ?k = "encodeBase32Secret random"
  obtain s u where s: "pendingSession pf rq db s u" "c = contextOf s u" "now < se_expiresAt s"
    using assms(3) pendingContext_SomeD by blast
  have eg: "enrollGuard pf t rq db = Inr c" using assms(1,2,4) by (simp add: enrollGuard_eq_Inr)
  obtain sealed where sl: "sealSecret (ap_cipher pf) (ap_env pf) iv ?k = Inr sealed"
    using assms(8) by (rule sealSecret_with_key)
  obtain st x where
    start: "fst (startTotpEnrollment pf t cid random iv rq db) = Inr (?k, st)"
      "credentialOf ?db (au_id (cx_user c)) = Some x" "cr_totpSecretEncrypted x = Some sealed"
      "cr_recoveryState x = st" "st = PENDING_SETUP \<or> st = RESET_REQUIRED"
      and tb: "adb_users ?db = adb_users db" "adb_sessions ?db = adb_sessions db"
    by (rule startTotpEnrollment_stores [where cid = cid, OF eg assms(6) sl])
  have p: "pendingSession pf rq ?db s u" using s(1) by (simp only: pendingSession_tables [OF tb])
  have g: "enrollGuard pf now rq ?db = Inr c"
    using enrollGuard_pendingSession [OF p s(3) assms(1)] assms(5) s(2) by simp
  have v: "verifyTotpCode (ap_hmacSha1 pf) ?k code defaultTotpOptions now = Inr True"
    using decodeBase32_encode assms(11-14) by (rule generated_code_verifies)
  let ?r = "confirmTotpEnrollment pf now rq code ?db"
  have cx: "cx_user c = u" "cx_sessionId c = se_id s" by (simp_all add: s(2))
  have "?k \<noteq> []" using assms(10) by (intro encodeBase32Secret_nonempty) auto
  then have op: "openSealedSecret (ap_cipher pf) (ap_env pf) sealed = Inr ?k" "sealed \<noteq> []"
    using openSealedSecret_sealSecret [OF assms(7,9) _ encodeBase32Secret_ascii sl] sealSecret_nonempty [OF sl]
    by simp_all
  have st: "\<not> (st \<noteq> PENDING_SETUP \<and> st \<noteq> RESET_REQUIRED)" using start(5) by blast
  have cf: "?r = (Inr (safeUser pf ?db u, permissionsOfContext c),
      logEvent (auditEvent (Some (au_id u)) ''auth.2fa_enrolled'' ''Session'' (Some (se_id s))
          [(''method'', MText ''totp'')])
        (updateSession (se_id s) (activateSession now)
          (?db\<lparr>adb_credentials := modify cr_userId (au_id u)
            (\<lambda>c. c\<lparr>cr_recoveryState := ENABLED, cr_enabledAt := Some now,
                   cr_lastVerifiedAt := Some now\<rparr>) (adb_credentials ?db)\<rparr>)))"
    using st unfolding confirmTotpEnrollment_def g
    by (simp only: sum.case Let_def start start(2) [unfolded cx] cx option.case option.map op sum.case v not_True_eq_False if_False)
      simp
  have r: "fst ?r = Inr (safeUser pf ?db u, permissionsOfContext c)"
    "adb_users (snd ?r) = adb_users ?db"
    "adb_sessions (snd ?r) = modify se_id (se_id s) (activateSession now) (adb_sessions ?db)"
    "map_option cr_recoveryState (credentialOf (snd ?r) (au_id u)) = Some ENABLED"
    using start(2) [unfolded cx] unfolding cf
    by (simp_all add: updateSession_def credentialOf_def table_simps)
  have "getAuthContextFromCookieHeader pf now False (rq_cookie rq) (snd ?r) =
      Some (contextOf (activateSession now s) u)"
    using p s(3) r(2,3) by (rule activated_context)
  moreover have "se_id (activateSession now s) = se_id s" by (simp add: activateSession_def)
  ultimately show ?thesis using start(1) r(1,4) s(2) by simp
qed

theorem enrollment_completes_witness:
  "\<exists>a. fst (confirmTotpEnrollment samplePlatform 90002 sampleRequest ''000000''
    (snd (startTotpEnrollment samplePlatform 90001 ''c1'' (replicate 20 7) sampleIv sampleRequest sampleLoggedIn))) = Inr a"
proof -
  have p: "pendingSession samplePlatform sampleRequest sampleLoggedIn samplePending sampleStaff"
    by code_simp
  then have c: "pendingContext samplePlatform 90001 sampleRequest sampleLoggedIn = Some (contextOf samplePending sampleStaff)"
    "pendingContext samplePlatform 90002 sampleRequest sampleLoggedIn = Some (contextOf samplePending sampleStaff)"
    by (simp_all add: pendingContext_pendingSession samplePending_def)
  have m: "isStaffTwoFactorEnabled (ap_env samplePlatform)" by code_simp
  have d: "decodeBase32 (encodeBase32Secret (replicate 20 7)) = Inr (replicate 20 7)" by (rule decodeBase32_encode)
  have g: "generateTotpCode (ap_hmacSha1 samplePlatform) (encodeBase32Secret (replicate 20 7)) defaultTotpOptions 90000 =
      Inr ''000000''"
    by (simp add: generateTotpCode_def totpCounter_def defaultTotpOptions_def hotp_def d samplePlatform_def
        truncatedCode_def byteAt_def Let_def last_replicate padStart_def natToText.simps digitChar_def) code_simp
  have gcm: "gcm_library (ap_cipher samplePlatform)" by (simp add: samplePlatform_def sampleCipher_gcm)
  have key: "getEncryptionKey (ap_cipher samplePlatform) (ap_env samplePlatform) = Inr []"
    by (simp add: getEncryptionKey_def samplePlatform_def sampleCipher_def)
  have len: "length sampleIv = 12" "length (replicate 20 (7::byte)) = 20" by (simp_all add: sampleIv_def)
  have l: "\<not> isTwoFactorSessionLocked (cx_twoFactorLockedUntil (contextOf samplePending sampleStaff)) x" for x
    by (simp add: samplePending_def isTwoFactorSessionLocked_def)
  have "credentialOf sampleLoggedIn uid = None" for uid
    by (simp add: credentialOf_def sampleLoggedIn_def sampleAuthDb_def)
  then have n: "map_option cr_recoveryState (credentialOf sampleLoggedIn
      (au_id (cx_user (contextOf samplePending sampleStaff)))) \<notin> {Some ENABLED, Some DISABLED_BY_ADMIN}"
    by simp
  from enrollment_completes [OF m c l l n gcm key len g] show ?thesis by simp
qed

end
