(* ===== verification/Ledger.thy ===== *)
theory Ledger
  imports Policy AuditTrail
begin

text \<open>
  The invoice ledger: \<open>src/src/server/payments/payment-ledger-service.ts\<close>, the invoice writes
  of \<open>src/src/server/admin/finance-report-service.ts\<close> and
  \<open>src/src/lib/legal-finance.ts\<close>. Decimal amounts are rationals: the columns hold at most twelve
  digits, two of them after the point, so the decimal arithmetic of the code is exact. A
  transaction is a function to an error or the new tables; on an error the tables stay.
\<close>

section \<open>Rows\<close>

datatype currency = EGP | USD | EUR | SAR | AED

definition currencyText :: "currency \<Rightarrow> string" where
  "currencyText c = (case c of EGP \<Rightarrow> ''EGP'' | USD \<Rightarrow> ''USD'' | EUR \<Rightarrow> ''EUR'' | SAR \<Rightarrow> ''SAR'' | AED \<Rightarrow> ''AED'')"

definition currencyValues :: "currency list" where
  "currencyValues = [EGP, USD, EUR, SAR, AED]"

definition currencyOfText :: "string \<Rightarrow> currency option" where
  "currencyOfText s = find (\<lambda>c. currencyText c = s) currencyValues"

datatype invoice_status = I_DRAFT | I_ISSUED | I_PENDING | I_PAID | I_OVERDUE | I_CANCELLED

datatype entry_kind = SETTLEMENT | REFUND | REVERSAL | LEGACY

record invoice =
  iv_id :: string
  iv_invoiceNumber :: string
  iv_clientId :: string
  iv_caseId :: "string option"
  iv_consultationRequestId :: "string option"
  iv_appointmentId :: "string option"
  iv_paymentAttemptId :: "string option"
  iv_issueDate :: int
  iv_dueDate :: "int option"
  iv_amount :: rat
  iv_currency :: currency
  iv_status :: invoice_status
  iv_paymentMethod :: "string option"
  iv_receiptNumber :: "string option"
  iv_paidAt :: "int option"
  iv_notes :: "string option"
  iv_ledgerReviewRequired :: bool
  iv_createdById :: "string option"

record payment_entry =
  pe_id :: string
  pe_paymentId :: string
  pe_kind :: entry_kind
  pe_amount :: rat
  pe_currency :: currency
  pe_method :: string
  pe_receiptNumber :: string
  pe_occurredAt :: int
  pe_approvedById :: "string option"
  pe_idempotencyKey :: string
  pe_externalReference :: "string option"
  pe_reversesEntryId :: "string option"
  pe_reason :: "string option"

record ledger =
  lg_invoices :: "invoice list"
  lg_entries :: "payment_entry list"
  lg_audit :: "audit_event list"

text \<open>
  What a write throws: an \<open>ApiError\<close>, the database's refusal of a row, or the error of the decimal
  library on an amount that it cannot read.
\<close>

datatype ledger_throw = LedgerApi api_error | UniqueViolation string | CheckViolation string
  | DecimalThrew


section \<open>The body of an entry\<close>

text \<open>
  The platform: the UUID and date-time formats of the schema library, the issue it reports for
  a field, the text of the validation error, and the texts that the decimal library reads.
\<close>

record ledger_platform =
  lp_isUuid :: "string \<Rightarrow> bool"
  lp_datetime :: "string \<Rightarrow> int option"
  lp_issue :: "string \<Rightarrow> error_detail"
  lp_validationMessage :: string
  lp_readsDecimal :: "string \<Rightarrow> bool"

text \<open>A field of the raw body is absent, or not a string, where it is \<open>None\<close>.\<close>

record entry_input =
  ei_idempotencyKey :: "string option"
  ei_kind :: "string option"
  ei_amount :: "string option"
  ei_currency :: "string option"
  ei_method :: "string option"
  ei_receiptNumber :: "string option"
  ei_occurredAt :: "string option"
  ei_reversesEntryId :: "string option"
  ei_reason :: "string option"

record entry_body =
  eb_idempotencyKey :: string
  eb_kind :: entry_kind
  eb_amount :: rat
  eb_currency :: currency
  eb_method :: string
  eb_receiptNumber :: string
  eb_occurredAt :: int
  eb_reversesEntryId :: "string option"
  eb_reason :: "string option"

definition integerPart :: "string \<Rightarrow> bool" where
  "integerPart s = (s = ''0'' \<or> (allDigits s \<and> hd s \<noteq> CHR ''0'' \<and> length s \<le> 10))"

definition moneyPattern :: "string \<Rightarrow> bool" where
  "moneyPattern s =
    (case splitOn (CHR ''.'') s of
       [i] \<Rightarrow> integerPart i
     | [i, f] \<Rightarrow> integerPart i \<and> allDigits f \<and> length f \<le> 2
     | _ \<Rightarrow> False)"

definition decimalOfMoney :: "string \<Rightarrow> rat" where
  "decimalOfMoney s =
    (case splitOn (CHR ''.'') s of
       [i] \<Rightarrow> of_nat (natOfDigits i)
     | i # f # _ \<Rightarrow> of_nat (natOfDigits i) + of_nat (natOfDigits f) / 10 ^ length f
     | [] \<Rightarrow> 0)"

definition money :: "string \<Rightarrow> rat option" where
  "money s = (if moneyPattern s \<and> 0 < decimalOfMoney s then Some (decimalOfMoney s) else None)"

text \<open>
  The refinement of \<open>money\<close> runs on a text that misses the pattern as well and builds a decimal of
  it, which throws for a text that is no number.
\<close>

definition amountThrows :: "ledger_platform \<Rightarrow> entry_input \<Rightarrow> bool" where
  "amountThrows pf raw = (case ei_amount raw of None \<Rightarrow> False | Some s \<Rightarrow> \<not> lp_readsDecimal pf s)"

definition entryKindOfText :: "string \<Rightarrow> entry_kind option" where
  "entryKindOfText s =
    (if s = ''SETTLEMENT'' then Some SETTLEMENT else if s = ''REFUND'' then Some REFUND
     else if s = ''REVERSAL'' then Some REVERSAL else None)"

text \<open>A trimmed string within its bounds; an optional field may be absent.\<close>

definition boundedText :: "nat \<Rightarrow> nat \<Rightarrow> string \<Rightarrow> string option" where
  "boundedText lo hi s =
    (let t = jsTrim s in if lo \<le> length t \<and> length t \<le> hi then Some t else None)"

definition wanted :: "('a \<Rightarrow> 'b option) \<Rightarrow> 'a option \<Rightarrow> 'b option" where
  "wanted f x = (case x of None \<Rightarrow> None | Some v \<Rightarrow> f v)"

definition optional :: "('a \<Rightarrow> 'b option) \<Rightarrow> 'a option \<Rightarrow> 'b option option" where
  "optional f x = (case x of None \<Rightarrow> Some None | Some v \<Rightarrow> map_option Some (f v))"

definition issueUnless :: "ledger_platform \<Rightarrow> string \<Rightarrow> 'b option \<Rightarrow> error_detail list" where
  "issueUnless pf path r = (case r of None \<Rightarrow> [lp_issue pf path] | Some _ \<Rightarrow> [])"

definition customIssue :: "bool \<Rightarrow> string \<Rightarrow> string \<Rightarrow> error_detail list" where
  "customIssue bad path message =
    (if bad then [\<lparr>ed_path = Some path, ed_message = message, ed_code = Some ''custom''\<rparr>] else [])"

definition entryRefinements :: "int \<Rightarrow> entry_body \<Rightarrow> error_detail list" where
  "entryRefinements now value =
    customIssue ((eb_kind value = REVERSAL) \<noteq>
        (case eb_reversesEntryId value of None \<Rightarrow> False | Some r \<Rightarrow> r \<noteq> []))
      ''reversesEntryId'' ''Correction requires an original entry.'' @
    customIssue (eb_kind value \<noteq> SETTLEMENT \<and>
        (case eb_reason value of None \<Rightarrow> True | Some r \<Rightarrow> r = []))
      ''reason'' ''A reason is required for refunds and corrections.'' @
    customIssue (eb_occurredAt value > now + 60000)
      ''occurredAt'' ''The payment date cannot be in the future.''"

definition paymentEntryInputSchema ::
  "ledger_platform \<Rightarrow> int \<Rightarrow> entry_input \<Rightarrow> error_detail list + entry_body" where
  "paymentEntryInputSchema pf now raw =
    (let uuid = (\<lambda>s. if lp_isUuid pf s then Some s else None);
         key = wanted uuid (ei_idempotencyKey raw);
         kind = wanted entryKindOfText (ei_kind raw);
         amount = wanted money (ei_amount raw);
         cur = wanted currencyOfText (ei_currency raw);
         meth = wanted (\<lambda>s. if s = ''CASH'' \<or> s = ''BANK_TRANSFER'' then Some s else None) (ei_method raw);
         receipt = wanted (boundedText 1 80) (ei_receiptNumber raw);
         occurred = wanted (lp_datetime pf) (ei_occurredAt raw);
         reverses = optional uuid (ei_reversesEntryId raw);
         reason = optional (boundedText 3 500) (ei_reason raw);
         issues = issueUnless pf ''idempotencyKey'' key @ issueUnless pf ''kind'' kind @
           issueUnless pf ''amount'' amount @ issueUnless pf ''currency'' cur @
           issueUnless pf ''method'' meth @ issueUnless pf ''receiptNumber'' receipt @
           issueUnless pf ''occurredAt'' occurred @ issueUnless pf ''reversesEntryId'' reverses @
           issueUnless pf ''reason'' reason
     in if issues \<noteq> [] then Inl issues
        else let value = \<lparr>eb_idempotencyKey = the key, eb_kind = the kind, eb_amount = the amount,
                   eb_currency = the cur, eb_method = the meth, eb_receiptNumber = the receipt,
                   eb_occurredAt = the occurred, eb_reversesEntryId = the reverses,
                   eb_reason = the reason\<rparr>
             in case entryRefinements now value of [] \<Rightarrow> Inr value | problems \<Rightarrow> Inl problems)"


section \<open>Balances\<close>

record balance =
  bl_total :: rat
  bl_paid :: rat
  bl_remaining :: rat
  bl_reviewRequired :: bool

definition entriesOf :: "string \<Rightarrow> payment_entry list \<Rightarrow> payment_entry list" where
  "entriesOf paymentId es = filter (\<lambda>e. pe_paymentId e = paymentId) es"

definition sumAmounts :: "payment_entry list \<Rightarrow> rat" where
  "sumAmounts es = foldl (\<lambda>sum e. sum + pe_amount e) 0 es"

definition invoiceBalance :: "invoice \<Rightarrow> payment_entry list \<Rightarrow> balance" where
  "invoiceBalance iv es =
    (let paid = sumAmounts es;
         remaining = (if iv_status iv = I_CANCELLED \<or> iv_status iv = I_DRAFT then 0
                      else max 0 (iv_amount iv - paid))
     in \<lparr>bl_total = iv_amount iv, bl_paid = paid, bl_remaining = remaining,
         bl_reviewRequired = (iv_ledgerReviewRequired iv \<or> paid < 0 \<or> paid > iv_amount iv \<or>
           (iv_status iv = I_PAID \<and> paid \<noteq> iv_amount iv))\<rparr>)"


section \<open>Posting an entry\<close>

text \<open>
  The unique keys of the table of entries (\<open>prisma/schema.prisma\<close>): the id, the payment with
  the idempotency key, the external reference and the reversed entry, where they are present.
  Its check (\<open>prisma/migrations/20261009200000_payment_entries\<close>) fixes the sign of an amount by its
  kind. The rows are append-only by a trigger of the same migration; the model has no operation
  that changes one.
\<close>

definition repeats :: "('r \<Rightarrow> 'k option) \<Rightarrow> 'r \<Rightarrow> 'r list \<Rightarrow> bool" where
  "repeats col r rows \<longleftrightarrow> col r \<noteq> None \<and> col r \<in> col ` set rows"

definition amountCheck :: "payment_entry \<Rightarrow> bool" where
  "amountCheck e \<longleftrightarrow> pe_amount e \<noteq> 0 \<and>
    (pe_kind e = SETTLEMENT \<or> pe_kind e = LEGACY \<longrightarrow> 0 < pe_amount e) \<and>
    (pe_kind e = REFUND \<longrightarrow> pe_amount e < 0)"

definition insertEntry :: "payment_entry \<Rightarrow> ledger \<Rightarrow> ledger_throw + ledger" where
  "insertEntry e lg =
    (if \<not> amountCheck e then Inl (CheckViolation ''payment_entries_amount_check'')
     else if pe_id e \<in> pe_id ` set (lg_entries lg) then Inl (UniqueViolation ''id'')
     else if (pe_paymentId e, pe_idempotencyKey e) \<in>
         (\<lambda>x. (pe_paymentId x, pe_idempotencyKey x)) ` set (lg_entries lg)
       then Inl (UniqueViolation ''paymentId,idempotencyKey'')
     else if repeats pe_externalReference e (lg_entries lg) then Inl (UniqueViolation ''externalReference'')
     else if repeats pe_reversesEntryId e (lg_entries lg) then Inl (UniqueViolation ''reversesEntryId'')
     else Inr (lg\<lparr>lg_entries := lg_entries lg @ [e]\<rparr>))"

text \<open>
  The unique keys of the table of invoices: the id, the number, the payment attempt, and the
  receipt number of a paid manual invoice, without regard to case and outer blanks.
\<close>

definition pgTrim :: "string \<Rightarrow> string" where
  "pgTrim s = rev (dropWhile (\<lambda>c. c = CHR '' '') (rev (dropWhile (\<lambda>c. c = CHR '' '') s)))"

definition paidReceiptKey :: "invoice \<Rightarrow> string option" where
  "paidReceiptKey i =
    (case iv_receiptNumber i of
       None \<Rightarrow> None
     | Some r \<Rightarrow> if iv_status i = I_PAID \<and> iv_paymentAttemptId i = None \<and> pgTrim r \<noteq> []
                then Some (jsLower (pgTrim r)) else None)"

definition invoiceClash :: "invoice \<Rightarrow> invoice list \<Rightarrow> string option" where
  "invoiceClash i others =
    (if iv_id i \<in> iv_id ` set others then Some ''id''
     else if iv_invoiceNumber i \<in> iv_invoiceNumber ` set others then Some ''invoiceNumber''
     else if repeats iv_paymentAttemptId i others then Some ''paymentAttemptId''
     else if repeats paidReceiptKey i others then Some ''payments_manual_paid_receipt_number_unique_idx''
     else None)"

definition insertInvoice :: "invoice \<Rightarrow> ledger \<Rightarrow> ledger_throw + ledger" where
  "insertInvoice i lg =
    (case invoiceClash i (lg_invoices lg) of
       Some k \<Rightarrow> Inl (UniqueViolation k)
     | None \<Rightarrow> Inr (lg\<lparr>lg_invoices := lg_invoices lg @ [i]\<rparr>))"

text \<open>\<open>update\<close> of the row that was read: \<open>i\<close> is the new row, with the id of the old.\<close>

definition updateInvoice :: "invoice \<Rightarrow> ledger \<Rightarrow> ledger_throw + ledger" where
  "updateInvoice i lg =
    (case invoiceClash i (filter (\<lambda>x. iv_id x \<noteq> iv_id i) (lg_invoices lg)) of
       Some k \<Rightarrow> Inl (UniqueViolation k)
     | None \<Rightarrow> Inr (lg\<lparr>lg_invoices := modify iv_id (iv_id i) (\<lambda>_. i) (lg_invoices lg)\<rparr>))"

definition sameAction :: "payment_entry \<Rightarrow> entry_body \<Rightarrow> bool" where
  "sameAction existing body \<longleftrightarrow>
    pe_kind existing = eb_kind body \<and> \<bar>pe_amount existing\<bar> = eb_amount body \<and>
    pe_currency existing = eb_currency body \<and> pe_method existing = eb_method body \<and>
    pe_receiptNumber existing = eb_receiptNumber body \<and>
    pe_occurredAt existing = eb_occurredAt body \<and>
    pe_reversesEntryId existing = eb_reversesEntryId body \<and> pe_reason existing = eb_reason body"

definition ledgerConflict :: "string \<Rightarrow> ledger_throw" where
  "ledgerConflict message = LedgerApi (apiError 409 CONFLICT message)"

text \<open>The signed amount an action adds to the invoice, or the refusal of a reversal.\<close>

definition signedAmount :: "entry_body \<Rightarrow> payment_entry list \<Rightarrow> ledger_throw + rat" where
  "signedAmount body es =
    (if eb_kind body = REVERSAL
     then (case find (\<lambda>e. Some (pe_id e) = eb_reversesEntryId body) es of
             None \<Rightarrow> Inl (ledgerConflict ''The original payment entry cannot be reversed.'')
           | Some original \<Rightarrow>
             if pe_kind original = REVERSAL \<or>
                list_ex (\<lambda>e. pe_reversesEntryId e = Some (pe_id original)) es \<or>
                \<bar>pe_amount original\<bar> \<noteq> eb_amount body
             then Inl (ledgerConflict ''The original payment entry cannot be reversed.'')
             else Inr (- pe_amount original))
     else Inr (eb_amount body * (if eb_kind body = REFUND then -1 else 1)))"

definition manualReference :: "currency \<Rightarrow> string \<Rightarrow> string \<Rightarrow> string" where
  "manualReference c meth receipt = ''manual:'' @ currencyText c @ '':'' @ meth @ '':'' @ receipt"

definition entryFor :: "string \<Rightarrow> principal \<Rightarrow> invoice \<Rightarrow> entry_body \<Rightarrow> rat \<Rightarrow> payment_entry" where
  "entryFor eid actor iv body amount =
    \<lparr>pe_id = eid, pe_paymentId = iv_id iv, pe_kind = eb_kind body, pe_amount = amount,
     pe_currency = iv_currency iv, pe_method = eb_method body,
     pe_receiptNumber = eb_receiptNumber body, pe_occurredAt = eb_occurredAt body,
     pe_approvedById = Some (pr_id actor), pe_idempotencyKey = eb_idempotencyKey body,
     pe_externalReference = (if eb_kind body = SETTLEMENT
       then Some (manualReference (iv_currency iv) (eb_method body) (eb_receiptNumber body)) else None),
     pe_reversesEntryId = eb_reversesEntryId body, pe_reason = eb_reason body\<rparr>"

definition statusAfterEntry :: "int \<Rightarrow> invoice \<Rightarrow> rat \<Rightarrow> invoice_status" where
  "statusAfterEntry now iv net =
    (if iv_status iv = I_CANCELLED then I_CANCELLED
     else if net = iv_amount iv then I_PAID
     else if (case iv_dueDate iv of None \<Rightarrow> False | Some d \<Rightarrow> d < now) then I_OVERDUE else I_PENDING)"

definition entryKindText :: "entry_kind \<Rightarrow> string" where
  "entryKindText k = (case k of SETTLEMENT \<Rightarrow> ''SETTLEMENT'' | REFUND \<Rightarrow> ''REFUND'' | REVERSAL \<Rightarrow> ''REVERSAL''
     | LEGACY \<Rightarrow> ''LEGACY'')"

definition entryAction :: "entry_kind \<Rightarrow> string" where
  "entryAction k = ''finance.entry.'' @
    (case k of SETTLEMENT \<Rightarrow> ''settlement'' | REFUND \<Rightarrow> ''refund'' | REVERSAL \<Rightarrow> ''reversal''
     | LEGACY \<Rightarrow> ''legacy'')"

definition entryEvent :: "principal \<Rightarrow> invoice \<Rightarrow> payment_entry \<Rightarrow> audit_event" where
  "entryEvent actor iv e =
    (auditEvent (Some (pr_id actor)) (entryAction (pe_kind e)) ''PaymentEntry'' (Some (pe_id e))
      [(''amount'', MAmount (pe_amount e)), (''currency'', MText (currencyText (iv_currency iv))),
       (''kind'', MText (entryKindText (pe_kind e))), (''reversesEntryId'', optText (pe_reversesEntryId e))])
    \<lparr>ae_paymentId := Some (iv_id iv), ae_clientId := Some (iv_clientId iv)\<rparr>"

text \<open>The body of the transaction, after the row of the invoice was read and locked.\<close>

definition applyEntry ::
  "int \<Rightarrow> string \<Rightarrow> principal \<Rightarrow> invoice \<Rightarrow> entry_body \<Rightarrow> ledger \<Rightarrow> ledger_throw + payment_entry \<times> ledger" where
  "applyEntry now eid actor iv body lg =
    (let es = entriesOf (iv_id iv) (lg_entries lg);
         bal = invoiceBalance iv es
     in andThen (require (\<not> (iv_ledgerReviewRequired iv \<or> iv_paymentAttemptId iv \<noteq> None))
          (ledgerConflict ''This invoice requires payment-provider reconciliation before manual changes.'')) (\<lambda>_.
        andThen (require (\<not> (eb_currency body \<noteq> iv_currency iv \<or> iv_status iv = I_DRAFT \<or>
            (iv_status iv = I_CANCELLED \<and> eb_kind body = SETTLEMENT)))
          (ledgerConflict ''This payment does not match an open invoice.'')) (\<lambda>_.
        andThen (require (\<not> bl_reviewRequired bal)
          (ledgerConflict ''The invoice balance requires reconciliation.'')) (\<lambda>_.
        andThen (signedAmount body es) (\<lambda>amount.
          let net = bl_paid bal + amount
          in andThen (require (\<not> (net < 0 \<or> net > iv_amount iv))
               (ledgerConflict ''The payment exceeds the invoice balance or refundable amount.'')) (\<lambda>_.
             let e = entryFor eid actor iv body amount
             in andThen (insertEntry e lg) (\<lambda>lg1.
                andThen (updateInvoice (iv\<lparr>iv_status := statusAfterEntry now iv net,
                    iv_paidAt := (if net = iv_amount iv then Some (eb_occurredAt body) else None)\<rparr>) lg1) (\<lambda>lg2.
                Inr (e, lg2\<lparr>lg_audit := appendAuditLog (entryEvent actor iv e) (lg_audit lg2)\<rparr>)))))))))"

definition financeForbidden :: ledger_throw where
  "financeForbidden = LedgerApi (apiError 403 PERMISSION_DENIED ''Finance management permission is required.'')"

definition paymentNotFound :: ledger_throw where
  "paymentNotFound = LedgerApi (apiError 404 NOT_FOUND ''Payment was not found.'')"

definition postEntryResult ::
  "ledger_platform \<Rightarrow> int \<Rightarrow> string \<Rightarrow> principal \<Rightarrow> string \<Rightarrow> entry_input \<Rightarrow> ledger \<Rightarrow>
   ledger_throw + payment_entry \<times> ledger" where
  "postEntryResult pf now eid actor paymentId raw lg =
    andThen (require (hasPermission actor ''finance.manage.any'') financeForbidden) (\<lambda>_.
    if amountThrows pf raw then Inl DecimalThrew
    else case parseWithSchema (paymentEntryInputSchema pf now) raw (lp_validationMessage pf) of
      Inl e \<Rightarrow> Inl (LedgerApi e)
    | Inr body \<Rightarrow>
      (case fetch iv_id paymentId (lg_invoices lg) of
         None \<Rightarrow> Inl paymentNotFound
       | Some iv \<Rightarrow>
         (case find (\<lambda>e. pe_idempotencyKey e = eb_idempotencyKey body) (entriesOf paymentId (lg_entries lg)) of
            Some existing \<Rightarrow>
              if sameAction existing body then Inr (existing, lg)
              else Inl (ledgerConflict ''This payment action identifier has already been used.'')
          | None \<Rightarrow> applyEntry now eid actor iv body lg)))"

text \<open>A transaction commits its tables, or leaves them when it throws.\<close>

definition commit :: "'e + 'a \<times> 's \<Rightarrow> 's \<Rightarrow> ('e + 'a) \<times> 's" where
  "commit r s = (case r of Inl e \<Rightarrow> (Inl e, s) | Inr (x, s') \<Rightarrow> (Inr x, s'))"

definition postPaymentEntry ::
  "ledger_platform \<Rightarrow> int \<Rightarrow> string \<Rightarrow> principal \<Rightarrow> string \<Rightarrow> entry_input \<Rightarrow> ledger \<Rightarrow>
   (ledger_throw + payment_entry) \<times> ledger" where
  "postPaymentEntry pf now eid actor paymentId raw lg =
    commit (postEntryResult pf now eid actor paymentId raw lg) lg"

text \<open>The entry an already trusted paid invoice brings with it.\<close>

definition orText :: "string option \<Rightarrow> string \<Rightarrow> string" where
  "orText x d = (case x of None \<Rightarrow> d | Some s \<Rightarrow> s)"

definition trustedSettlement :: "int \<Rightarrow> string \<Rightarrow> invoice \<Rightarrow> payment_entry" where
  "trustedSettlement now eid iv =
    (let meth = orText (iv_paymentMethod iv) ''MANUAL'';
         receipt = orText (iv_receiptNumber iv) (iv_invoiceNumber iv)
     in \<lparr>pe_id = eid, pe_paymentId = iv_id iv, pe_kind = SETTLEMENT, pe_amount = iv_amount iv,
         pe_currency = iv_currency iv, pe_method = meth, pe_receiptNumber = receipt,
         pe_occurredAt = (case iv_paidAt iv of None \<Rightarrow> now | Some t \<Rightarrow> t),
         pe_approvedById = iv_createdById iv,
         pe_idempotencyKey = (case iv_paymentAttemptId iv of
            Some a \<Rightarrow> ''gateway:'' @ a | None \<Rightarrow> ''manual-initial-paid''),
         pe_externalReference = Some (case iv_paymentAttemptId iv of
            Some a \<Rightarrow> ''gateway:'' @ a | None \<Rightarrow> manualReference (iv_currency iv) meth receipt),
         pe_reversesEntryId = None, pe_reason = None\<rparr>)"

definition recordTrustedInvoiceSettlement :: "int \<Rightarrow> string \<Rightarrow> invoice \<Rightarrow> ledger \<Rightarrow> ledger_throw + ledger" where
  "recordTrustedInvoiceSettlement now eid iv lg = insertEntry (trustedSettlement now eid iv) lg"

end
