(* ===== verification/JsDate.thy ===== *)
theory JsDate
  imports JsText
begin

text \<open>
  The calendar of the language's \<open>Date\<close>: a time is the number of milliseconds since
  1970-01-01T00:00:00Z, and the UTC fields of a time follow the proleptic Gregorian calendar.
\<close>

definition MS_PER_DAY :: int where "MS_PER_DAY = 86400000"

definition dayNumber :: "int \<Rightarrow> int" where
  "dayNumber ms = ms div MS_PER_DAY"

text \<open>Year, month (1 to 12) and day of month of a day number, counted in eras of 400 years.\<close>

definition civilOfDays :: "int \<Rightarrow> int \<times> int \<times> int" where
  "civilOfDays days =
    (let z = days + 719468; era = z div 146097; doe = z mod 146097;
         yoe = (doe - doe div 1460 + doe div 36524 - doe div 146096) div 365;
         doy = doe - (365 * yoe + yoe div 4 - yoe div 100);
         mp = (5 * doy + 2) div 153;
         d = doy - (153 * mp + 2) div 5 + 1;
         m = (if mp < 10 then mp + 3 else mp - 9)
     in (yoe + era * 400 + (if m \<le> 2 then 1 else 0), m, d))"

definition daysOfCivil :: "int \<Rightarrow> int \<Rightarrow> int \<Rightarrow> int" where
  "daysOfCivil y m d =
    (let y' = (if m \<le> 2 then y - 1 else y); era = y' div 400; yoe = y' mod 400;
         doy = (153 * (if m > 2 then m - 3 else m + 9) + 2) div 5 + d - 1;
         doe = yoe * 365 + yoe div 4 - yoe div 100 + doy
     in era * 146097 + doe - 719468)"

definition utcFullYear :: "int \<Rightarrow> int" where
  "utcFullYear ms = fst (civilOfDays (dayNumber ms))"

text \<open>\<open>getUTCDay\<close>: 0 is Sunday; 1970-01-01 was a Thursday.\<close>

definition utcDay :: "int \<Rightarrow> int" where
  "utcDay ms = (dayNumber ms + 4) mod 7"

definition utcHours :: "int \<Rightarrow> int" where "utcHours ms = ms div 3600000 mod 24"
definition utcMinutes :: "int \<Rightarrow> int" where "utcMinutes ms = ms div 60000 mod 60"

text \<open>\<open>setUTCHours(23, 59, 59, 999)\<close> and \<open>setUTCHours(0, 0, 0, 0)\<close>.\<close>

definition endOfUtcDay :: "int \<Rightarrow> int" where
  "endOfUtcDay ms = dayNumber ms * MS_PER_DAY + (MS_PER_DAY - 1)"

definition startOfUtcDay :: "int \<Rightarrow> int" where
  "startOfUtcDay ms = dayNumber ms * MS_PER_DAY"

definition isoDate :: "int \<Rightarrow> string" where
  "isoDate ms = (case civilOfDays (dayNumber ms) of (y, m, d) \<Rightarrow>
     padStart 4 (CHR ''0'') (natToText (nat y)) @ ''-'' @ padStart 2 (CHR ''0'') (natToText (nat m)) @ ''-'' @
     padStart 2 (CHR ''0'') (natToText (nat d)))"

lemma startOfUtcDay_le: "startOfUtcDay ms \<le> ms" "ms \<le> endOfUtcDay ms"
  "endOfUtcDay ms - startOfUtcDay ms = MS_PER_DAY - 1"
  by (simp_all add: startOfUtcDay_def endOfUtcDay_def dayNumber_def MS_PER_DAY_def)

lemma civil_examples:
  "civilOfDays 0 = (1970, 1, 1)" "civilOfDays 11016 = (2000, 2, 29)" "civilOfDays 20089 = (2025, 1, 1)"
  "daysOfCivil 1970 1 1 = 0" "daysOfCivil 2000 2 29 = 11016" "daysOfCivil 2025 1 1 = 20089"
  by code_simp+

end
