(* ===== verification/Invoices.thy ===== *)
theory Invoices
  imports Ledger JsDate "HOL-Library.Log_Nat"
begin

text \<open>
  The invoice writes of the office: creating and editing an invoice by hand, its generated
  number and the reading of its dates
  (\<open>src/src/server/admin/finance-report-service.ts\<close>).
\<close>

section \<open>Invoice numbers\<close>

datatype number_error = InvalidYear | InvalidSequence

definition formatAdminInvoiceNumber :: "int \<Rightarrow> int \<Rightarrow> number_error + string" where
  "formatAdminInvoiceNumber year sequence =
    (if year < 1 then Inl InvalidYear
     else if sequence < 1 then Inl InvalidSequence
     else Inr (''INV-'' @ natToText (nat year) @ ''-'' @ padStart 4 (CHR ''0'') (natToText (nat sequence))))"

text \<open>\<open>/^INV-(\d{4})-(\d+)$/\<close>, and its two groups.\<close>

definition generatedInvoiceNumber :: "string \<Rightarrow> (string \<times> string) option" where
  "generatedInvoiceNumber s =
    (case splitOn (CHR ''-'') s of
       [p, y, n] \<Rightarrow> if p = ''INV'' \<and> length y = 4 \<and> list_all isDigit y \<and> allDigits n then Some (y, n) else None
     | _ \<Rightarrow> None)"

text \<open>
  \<open>Number(digits)\<close>: exact up to the largest safe integer; beyond it the value is what the
  floating-point reading \<open>dbl\<close> makes of the digits, if that is an integer.
\<close>

definition sequenceOf :: "(nat \<Rightarrow> nat option) \<Rightarrow> string \<Rightarrow> nat option" where
  "sequenceOf dbl digits =
    (let n = natOfDigits digits in if n \<le> 9007199254740991 then Some n else dbl n)"

definition maxSequence :: "(nat \<Rightarrow> nat option) \<Rightarrow> string \<Rightarrow> string list \<Rightarrow> nat" where
  "maxSequence dbl invoiceYear numbers =
    foldl (\<lambda>best s. case generatedInvoiceNumber s of
        None \<Rightarrow> best
      | Some (y, n) \<Rightarrow> if y \<noteq> invoiceYear then best
          else (case sequenceOf dbl n of None \<Rightarrow> best | Some k \<Rightarrow> if k > best then k else best)) 0 numbers"

definition nextAdminInvoiceNumberFromExisting ::
  "(nat \<Rightarrow> nat option) \<Rightarrow> int \<Rightarrow> string list \<Rightarrow> number_error + string" where
  "nextAdminInvoiceNumberFromExisting dbl year invoiceNumbers =
    formatAdminInvoiceNumber year (int (maxSequence dbl (natToText (nat year)) invoiceNumbers) + 1)"


section \<open>Dates\<close>

text \<open>\<open>parse\<close> is \<open>new Date(text)\<close>, \<open>None\<close> an invalid date.\<close>

definition plainDate :: "string \<Rightarrow> bool" where
  "plainDate s =
    (case splitOn (CHR ''-'') s of
       [y, m, d] \<Rightarrow> length y = 4 \<and> length m = 2 \<and> length d = 2 \<and>
         list_all isDigit y \<and> list_all isDigit m \<and> list_all isDigit d
     | _ \<Rightarrow> False)"

definition parseDateInput ::
  "(string \<Rightarrow> int option) \<Rightarrow> string option \<Rightarrow> string \<Rightarrow> bool \<Rightarrow> int option api" where
  "parseDateInput parse value field endOfDay =
    (case value of
       None \<Rightarrow> Inr None
     | Some v \<Rightarrow> if jsTrim v = [] then Inr None else
       (case parse (jsTrim v) of
          None \<Rightarrow> throwApi 400 VALIDATION_ERROR (field @ '' is invalid.'')
        | Some date \<Rightarrow> Inr (Some (if endOfDay \<and> plainDate (jsTrim v) then endOfUtcDay date else date))))"

definition parseRequiredDate :: "(string \<Rightarrow> int option) \<Rightarrow> string \<Rightarrow> string \<Rightarrow> int api" where
  "parseRequiredDate parse value field =
    andThen (parseDateInput parse (Some value) field False) (\<lambda>d.
      case d of None \<Rightarrow> throwApi 400 VALIDATION_ERROR (field @ '' is required.'') | Some t \<Rightarrow> Inr t)"

definition financeReportDateRange ::
  "(string \<Rightarrow> int option) \<Rightarrow> string option \<Rightarrow> string option \<Rightarrow> (int option \<times> int option) api" where
  "financeReportDateRange parse dateFrom dateTo =
    andThen (parseDateInput parse dateFrom ''dateFrom'' False) (\<lambda>from1.
    andThen (parseDateInput parse dateTo ''dateTo'' True) (\<lambda>to1.
      case (from1, to1) of
        (Some f, Some t) \<Rightarrow> if f > t then throwApi 400 VALIDATION_ERROR ''dateFrom must be before dateTo.''
                            else Inr (from1, to1)
      | _ \<Rightarrow> Inr (from1, to1)))"

definition previousReportPeriod :: "int option \<times> int option \<Rightarrow> (int \<times> int) option" where
  "previousReportPeriod period =
    (case period of
       (Some f, Some t) \<Rightarrow>
         (let duration = t - f + 1; previousTo = f - 1; previousFrom = previousTo - duration + 1
          in Some (previousFrom, previousTo))
     | _ \<Rightarrow> None)"


section \<open>The body of an invoice\<close>

text \<open>
  The body of a write, with its texts as they were sent and its amount the number that was
  sent; an absent text is \<open>None\<close>, and the defaults of the schema are the empty number, EGP and
  DRAFT.
\<close>

record payment_write =
  pw_invoiceNumber :: string
  pw_clientId :: string
  pw_caseId :: "string option"
  pw_issueDate :: string
  pw_dueDate :: "string option"
  pw_amount :: rat
  pw_currency :: currency
  pw_status :: invoice_status
  pw_paymentMethod :: "string option"
  pw_receiptNumber :: "string option"
  pw_paidAt :: "string option"
  pw_notes :: "string option"

text \<open>
  The amount of a raw write is the number that was read, a double. \<open>toDouble\<close> is the double nearest to
  a rational, ties to the even significand, in the normal range of binary64; the product of
  \<open>Math.round(value * 100) / 100\<close> is rounded by it. The quotient is stored in a column of two decimals,
  whose decimal it prints.
\<close>

definition roundHalfEven :: "rat \<Rightarrow> int" where
  "roundHalfEven x = (let f = \<lfloor>x\<rfloor>; r = x - of_int f
     in if r < 1 / 2 \<or> (r = 1 / 2 \<and> even f) then f else f + 1)"

definition binaryExponent :: "rat \<Rightarrow> int" where
  "binaryExponent x = (if 1 \<le> x then bitlen \<lfloor>x\<rfloor> - 1 else - bitlen (\<lceil>1 / x\<rceil> - 1))"

definition powerOfTwo :: "int \<Rightarrow> rat" where
  "powerOfTwo k = (if 0 \<le> k then 2 ^ nat k else 1 / 2 ^ nat (- k))"

definition toDouble :: "rat \<Rightarrow> rat" where
  "toDouble x =
    (if x = 0 then 0
     else let p = powerOfTwo (52 - binaryExponent \<bar>x\<bar>) in sgn x * of_int (roundHalfEven (\<bar>x\<bar> * p)) / p)"

lemma toDouble_nonneg: "0 < x \<Longrightarrow> 0 \<le> toDouble x"
  by (auto simp: toDouble_def Let_def roundHalfEven_def powerOfTwo_def)

lemma toDouble_exact:
  assumes "0 < x" and "x * powerOfTwo (52 - binaryExponent x) = of_int m"
  shows "toDouble x = x"
proof -
  have "0 < powerOfTwo k" for k by (simp add: powerOfTwo_def)
  then have "powerOfTwo k \<noteq> 0" for k by (metis less_irrefl)
  moreover have "roundHalfEven (of_int m) = m" by (simp add: roundHalfEven_def)
  ultimately show ?thesis using assms
    by (simp add: toDouble_def Let_def) (metis nonzero_mult_div_cancel_right)
qed

definition roundedAmount :: "rat \<Rightarrow> rat" where
  "roundedAmount x = of_int \<lfloor>toDouble (x * 100) + 1 / 2\<rfloor> / 100"

text \<open>
  1.115 is read as the double just below it; its product with 100 is the double 111.5, and the
  amount becomes 1.12.
\<close>

lemma roundedAmount_tie: "roundedAmount (toDouble (1115 / 1000)) = 112 / 100"
  by code_simp

definition invoiceNumberChar :: "char \<Rightarrow> bool" where
  "invoiceNumberChar c =
    (isDigit c \<or> (65 \<le> codeUnit c \<and> codeUnit c \<le> 90) \<or> (97 \<le> codeUnit c \<and> codeUnit c \<le> 122) \<or>
     c \<in> set ''._/-'')"

definition invoiceNumberAccepted :: "string \<Rightarrow> bool" where
  "invoiceNumberAccepted s =
    (length s \<le> 80 \<and> (s = [] \<or> 3 \<le> length s) \<and> (s = [] \<or> list_all invoiceNumberChar s))"

text \<open>The double that the literal 999_999_999.99 denotes.\<close>

definition MAX_AMOUNT :: rat where
  "MAX_AMOUNT = 4194303999958057 / 4194304"

definition amountAccepted :: "rat \<Rightarrow> bool" where
  "amountAccepted x = (0 < x \<and> x \<le> MAX_AMOUNT)"

text \<open>
  The platform of the office's writes: the formats of the schema library and the issue it
  reports for a field, the reading of dates, the floating-point reading of long digit strings,
  the clients and cases that exist, and whether the audit table accepts a row.
\<close>

record office_platform =
  op_isUuid :: "string \<Rightarrow> bool"
  op_issue :: "string \<Rightarrow> error_detail"
  op_parseDate :: "string \<Rightarrow> int option"
  op_dbl :: "nat \<Rightarrow> nat option"
  op_clientOpen :: "string \<Rightarrow> bool"
  op_caseOpen :: "string \<Rightarrow> string \<Rightarrow> bool"
  op_auditUp :: bool

definition atMostChars :: "nat \<Rightarrow> string option \<Rightarrow> bool" where
  "atMostChars n x = (case x of None \<Rightarrow> True | Some s \<Rightarrow> length (jsTrim s) \<le> n)"

definition fieldIssue :: "office_platform \<Rightarrow> string \<Rightarrow> bool \<Rightarrow> error_detail list" where
  "fieldIssue pf path ok = (if ok then [] else [op_issue pf path])"

definition adminPaymentWriteSchema ::
  "office_platform \<Rightarrow> payment_write \<Rightarrow> error_detail list + payment_write" where
  "adminPaymentWriteSchema pf raw =
    (let number = jsTrim (pw_invoiceNumber raw); issued = jsTrim (pw_issueDate raw);
         issues =
           fieldIssue pf ''invoiceNumber'' (invoiceNumberAccepted number) @
           fieldIssue pf ''clientId'' (op_isUuid pf (pw_clientId raw)) @
           fieldIssue pf ''caseId'' (case pw_caseId raw of None \<Rightarrow> True | Some c \<Rightarrow> c = [] \<or> op_isUuid pf c) @
           fieldIssue pf ''issueDate'' (1 \<le> length issued \<and> length issued \<le> 60) @
           fieldIssue pf ''dueDate'' (atMostChars 60 (pw_dueDate raw)) @
           fieldIssue pf ''amount'' (amountAccepted (pw_amount raw)) @
           fieldIssue pf ''paymentMethod'' (atMostChars 80 (pw_paymentMethod raw)) @
           fieldIssue pf ''receiptNumber'' (atMostChars 80 (pw_receiptNumber raw)) @
           fieldIssue pf ''paidAt'' (atMostChars 60 (pw_paidAt raw)) @
           fieldIssue pf ''notes'' (atMostChars 1200 (pw_notes raw))
     in if issues \<noteq> [] then Inl issues
        else Inr (raw\<lparr>pw_invoiceNumber := number, pw_issueDate := issued,
                      pw_dueDate := map_option jsTrim (pw_dueDate raw),
                      pw_amount := roundedAmount (pw_amount raw),
                      pw_paymentMethod := map_option jsTrim (pw_paymentMethod raw),
                      pw_receiptNumber := map_option jsTrim (pw_receiptNumber raw),
                      pw_paidAt := map_option jsTrim (pw_paidAt raw),
                      pw_notes := map_option jsTrim (pw_notes raw)\<rparr>))"

definition nonEmpty :: "string option \<Rightarrow> string option" where
  "nonEmpty x = (case x of None \<Rightarrow> None | Some s \<Rightarrow> if s = [] then None else Some s)"

definition paidAtForWrite :: "(string \<Rightarrow> int option) \<Rightarrow> int \<Rightarrow> payment_write \<Rightarrow> int option api" where
  "paidAtForWrite parse now body =
    andThen (parseDateInput parse (pw_paidAt body) ''paidAt'' False) (\<lambda>paidAt.
      if paidAt \<noteq> None \<and> pw_status body \<noteq> I_PAID
      then throwApi 400 VALIDATION_ERROR ''paidAt can be set only when payment status is PAID.''
      else if pw_status body = I_PAID then Inr (Some (case paidAt of None \<Rightarrow> now | Some t \<Rightarrow> t))
      else Inr None)"

text \<open>The columns a write sets, on a row that brings the others.\<close>

definition paymentMutationData ::
  "(string \<Rightarrow> int option) \<Rightarrow> int \<Rightarrow> payment_write \<Rightarrow> string \<Rightarrow> int \<Rightarrow> invoice \<Rightarrow> invoice api" where
  "paymentMutationData parse now body invoiceNumber issueDate row =
    andThen (parseDateInput parse (pw_dueDate body) ''dueDate'' False) (\<lambda>due.
    andThen (paidAtForWrite parse now body) (\<lambda>paidAt.
      Inr (row\<lparr>iv_invoiceNumber := invoiceNumber, iv_clientId := pw_clientId body,
               iv_caseId := nonEmpty (pw_caseId body), iv_issueDate := issueDate, iv_dueDate := due,
               iv_amount := pw_amount body, iv_currency := pw_currency body,
               iv_status := pw_status body, iv_paymentMethod := nonEmpty (pw_paymentMethod body),
               iv_receiptNumber := nonEmpty (pw_receiptNumber body), iv_paidAt := paidAt,
               iv_notes := nonEmpty (pw_notes body)\<rparr>)))"

text \<open>\<open>/\b(paytabs|paymob|hosted checkout|gateway|webhook)\b/\<close>\<close>

definition wordChar :: "char \<Rightarrow> bool" where
  "wordChar c = (isDigit c \<or> (65 \<le> codeUnit c \<and> codeUnit c \<le> 90) \<or>
     (97 \<le> codeUnit c \<and> codeUnit c \<le> 122) \<or> c = CHR ''_'')"

definition wordAt :: "string \<Rightarrow> string \<Rightarrow> nat \<Rightarrow> bool" where
  "wordAt w s i = (take (length w) (drop i s) = w \<and> (i = 0 \<or> \<not> wordChar (s ! (i - 1))) \<and>
     (i + length w = length s \<or> \<not> wordChar (s ! (i + length w))))"

definition containsWord :: "string \<Rightarrow> string \<Rightarrow> bool" where
  "containsWord w s = list_ex (wordAt w s) [0..<Suc (length s) - length w]"

definition containsText :: "string \<Rightarrow> string \<Rightarrow> bool" where
  "containsText w s = list_ex (\<lambda>i. take (length w) (drop i s) = w) [0..<Suc (length s) - length w]"

definition isGatewayManagedPaymentMethod :: "string option \<Rightarrow> bool" where
  "isGatewayManagedPaymentMethod value =
    (let normalized = jsLower (jsTrim (orText value []))
     in normalized \<noteq> [] \<and>
        list_ex (\<lambda>w. containsWord w normalized)
          [''paytabs'', ''paymob'', ''hosted checkout'', ''gateway'', ''webhook''])"


section \<open>Creating and editing\<close>

definition assertClientAndCase :: "office_platform \<Rightarrow> payment_write \<Rightarrow> unit api" where
  "assertClientAndCase pf body =
    andThen (require (op_clientOpen pf (pw_clientId body)) (apiError 400 VALIDATION_ERROR ''Client is invalid.'')) (\<lambda>_.
      case nonEmpty (pw_caseId body) of
        None \<Rightarrow> Inr ()
      | Some c \<Rightarrow> require (op_caseOpen pf c (pw_clientId body))
          (apiError 400 VALIDATION_ERROR ''Case is invalid for the selected client.''))"

definition duplicateReceipt :: api_error where
  "duplicateReceipt = apiError 409 CONFLICT ''A paid manual payment with this receipt number already exists.''"

definition assertManualPaymentDoesNotDuplicateGatewayOrReceipt ::
  "payment_write \<Rightarrow> string option \<Rightarrow> invoice list \<Rightarrow> unit api" where
  "assertManualPaymentDoesNotDuplicateGatewayOrReceipt body existingPaymentId invoices =
    (if pw_status body \<noteq> I_PAID then Inr ()
     else if isGatewayManagedPaymentMethod (pw_paymentMethod body)
       then throwApi 409 CONFLICT ''Gateway payments must be recorded by the trusted payment webhook, not as a manual invoice.''
     else let receiptNumber = jsTrim (orText (pw_receiptNumber body) [])
          in if receiptNumber = [] then Inr ()
             else require (\<not> list_ex (\<lambda>i. iv_receiptNumber i = Some receiptNumber \<and> iv_status i = I_PAID \<and>
                    Some (iv_id i) \<noteq> existingPaymentId) invoices) duplicateReceipt)"

definition isManualReceiptNumberConflict :: "string \<Rightarrow> bool" where
  "isManualReceiptNumberConflict target =
    (containsText ''receiptNumber'' target \<or>
     containsText ''payments_manual_paid_receipt_number_unique_idx'' target)"

definition invoiceNumberTaken :: api_error where
  "invoiceNumberTaken = apiError 409 CONFLICT ''Invoice number already exists.''"

definition handlePaymentWriteError :: "ledger_throw \<Rightarrow> ledger_throw" where
  "handlePaymentWriteError error =
    (case error of
       UniqueViolation target \<Rightarrow>
         LedgerApi (if isManualReceiptNumberConflict target then duplicateReceipt else invoiceNumberTaken)
     | e \<Rightarrow> e)"

definition liftApi :: "'a api \<Rightarrow> ledger_throw + 'a" where
  "liftApi r = (case r of Inl e \<Rightarrow> Inl (LedgerApi e) | Inr x \<Rightarrow> Inr x)"

text \<open>The transaction of a creation: the row, and for a paid one its settlement.\<close>

definition freshInvoice :: "string \<Rightarrow> principal \<Rightarrow> invoice" where
  "freshInvoice pid actor =
    \<lparr>iv_id = pid, iv_invoiceNumber = [], iv_clientId = [], iv_caseId = None,
     iv_consultationRequestId = None, iv_appointmentId = None, iv_paymentAttemptId = None,
     iv_issueDate = 0, iv_dueDate = None, iv_amount = 0, iv_currency = EGP, iv_status = I_DRAFT,
     iv_paymentMethod = None, iv_receiptNumber = None, iv_paidAt = None, iv_notes = None,
     iv_ledgerReviewRequired = False, iv_createdById = Some (pr_id actor)\<rparr>"

definition settleIfPaid :: "int \<Rightarrow> string \<Rightarrow> invoice \<Rightarrow> ledger \<Rightarrow> ledger_throw + invoice \<times> ledger" where
  "settleIfPaid now eid row lg =
    (if iv_status row = I_PAID
     then andThen (recordTrustedInvoiceSettlement now eid row lg) (\<lambda>lg'. Inr (row, lg'))
     else Inr (row, lg))"

definition createInvoiceTx ::
  "office_platform \<Rightarrow> int \<Rightarrow> string \<Rightarrow> string \<Rightarrow> principal \<Rightarrow> payment_write \<Rightarrow> string \<Rightarrow> int \<Rightarrow> ledger \<Rightarrow>
   ledger_throw + invoice \<times> ledger" where
  "createInvoiceTx pf now pid eid actor body invoiceNumber issueDate lg =
    andThen (liftApi (paymentMutationData (op_parseDate pf) now body invoiceNumber issueDate (freshInvoice pid actor))) (\<lambda>row.
    andThen (insertInvoice row lg) (\<lambda>lg1. settleIfPaid now eid row lg1))"

definition isUniqueViolation :: "ledger_throw \<Rightarrow> bool" where
  "isUniqueViolation e = (case e of UniqueViolation _ \<Rightarrow> True | _ \<Rightarrow> False)"

definition generateAdminInvoiceNumber ::
  "office_platform \<Rightarrow> int \<Rightarrow> invoice list \<Rightarrow> number_error + string" where
  "generateAdminInvoiceNumber pf issueDate invoices =
    (let year = utcFullYear issueDate; prefix = ''INV-'' @ natToText (nat year) @ ''-''
     in nextAdminInvoiceNumberFromExisting (op_dbl pf) year
          (filter (startsWith prefix) (map iv_invoiceNumber invoices)))"

definition couldNotGenerate :: ledger_throw where
  "couldNotGenerate = LedgerApi (apiError 409 CONFLICT ''Could not generate a unique invoice number. Try again.'')"

datatype create_error = CreateThrew ledger_throw | NumberThrew number_error

text \<open>
  The retry loop. \<open>others k\<close> is what other requests commit between the reading of the numbers and
  the transaction of the attempt with \<open>k\<close> attempts left after it.
\<close>

primrec createAttempts ::
  "office_platform \<Rightarrow> int \<Rightarrow> string \<Rightarrow> string \<Rightarrow> principal \<Rightarrow> payment_write \<Rightarrow> int \<Rightarrow>
   (nat \<Rightarrow> ledger \<Rightarrow> ledger) \<Rightarrow> nat \<Rightarrow> ledger \<Rightarrow> (create_error + invoice) \<times> ledger" where
  "createAttempts pf now pid eid actor body issueDate others 0 lg = (Inl (CreateThrew couldNotGenerate), lg)"
| "createAttempts pf now pid eid actor body issueDate others (Suc k) lg =
     (let requested = jsTrim (pw_invoiceNumber body)
      in case (if requested \<noteq> [] then Inr requested
               else generateAdminInvoiceNumber pf issueDate (lg_invoices lg)) of
           Inl e \<Rightarrow> (Inl (NumberThrew e), lg)
         | Inr invoiceNumber \<Rightarrow>
           (case createInvoiceTx pf now pid eid actor body invoiceNumber issueDate (others k lg) of
              Inr (row, lg') \<Rightarrow> (Inr row, lg')
            | Inl e \<Rightarrow>
              if requested = [] \<and> isUniqueViolation e \<and> 0 < k
              then createAttempts pf now pid eid actor body issueDate others k (others k lg)
              else (Inl (CreateThrew (handlePaymentWriteError e)), others k lg)))"

definition invoiceEvent :: "principal \<Rightarrow> string \<Rightarrow> invoice \<Rightarrow> metadata \<Rightarrow> audit_event" where
  "invoiceEvent actor action row md =
    (auditEvent (Some (pr_id actor)) action ''Payment'' (Some (iv_id row)) md)
    \<lparr>ae_clientId := Some (iv_clientId row), ae_caseId := iv_caseId row, ae_paymentId := Some (iv_id row)\<rparr>"

definition invoiceStatusText :: "invoice_status \<Rightarrow> string" where
  "invoiceStatusText s = (case s of I_DRAFT \<Rightarrow> ''DRAFT'' | I_ISSUED \<Rightarrow> ''ISSUED'' | I_PENDING \<Rightarrow> ''PENDING''
     | I_PAID \<Rightarrow> ''PAID'' | I_OVERDUE \<Rightarrow> ''OVERDUE'' | I_CANCELLED \<Rightarrow> ''CANCELLED'')"

definition createdMetadata :: "invoice \<Rightarrow> metadata" where
  "createdMetadata row =
    [(''invoiceNumber'', MText (iv_invoiceNumber row)), (''clientId'', MText (iv_clientId row)),
     (''caseId'', optText (iv_caseId row)), (''amount'', MAmount (iv_amount row)),
     (''currency'', MText (currencyText (iv_currency row))),
     (''status'', MText (invoiceStatusText (iv_status row)))]"

definition updatedMetadata :: "invoice \<Rightarrow> invoice \<Rightarrow> metadata" where
  "updatedMetadata existing row =
    [(''previousInvoiceNumber'', MText (iv_invoiceNumber existing)), (''invoiceNumber'', MText (iv_invoiceNumber row)),
     (''previousStatus'', MText (invoiceStatusText (iv_status existing))),
     (''status'', MText (invoiceStatusText (iv_status row))),
     (''previousAmount'', MAmount (iv_amount existing)), (''amount'', MAmount (iv_amount row)),
     (''previousCurrency'', MText (currencyText (iv_currency existing))),
     (''currency'', MText (currencyText (iv_currency row))),
     (''previousClientId'', MText (iv_clientId existing)), (''clientId'', MText (iv_clientId row)),
     (''previousCaseId'', optText (iv_caseId existing)), (''caseId'', optText (iv_caseId row))]"

definition paymentBody :: "office_platform \<Rightarrow> payment_write \<Rightarrow> ledger_throw + payment_write" where
  "paymentBody pf raw = liftApi (parseWithSchema (adminPaymentWriteSchema pf) raw ''Payment payload is invalid.'')"

definition invoiceGenerationRetryLimit :: nat where "invoiceGenerationRetryLimit = 5"

definition createGuard ::
  "office_platform \<Rightarrow> principal \<Rightarrow> payment_write \<Rightarrow> ledger \<Rightarrow> ledger_throw + payment_write \<times> int" where
  "createGuard pf actor raw lg =
    andThen (require (hasPermission actor ''finance.manage.any'') financeForbidden) (\<lambda>_.
    andThen (paymentBody pf raw) (\<lambda>body.
    andThen (liftApi (assertClientAndCase pf body)) (\<lambda>_.
    andThen (liftApi (assertManualPaymentDoesNotDuplicateGatewayOrReceipt body None (lg_invoices lg))) (\<lambda>_.
    andThen (liftApi (parseRequiredDate (op_parseDate pf) (pw_issueDate body) ''issueDate'')) (\<lambda>issueDate.
      Inr (body, issueDate))))))"

definition createAdminPayment ::
  "office_platform \<Rightarrow> int \<Rightarrow> string \<Rightarrow> string \<Rightarrow> principal \<Rightarrow> payment_write \<Rightarrow>
   (nat \<Rightarrow> ledger \<Rightarrow> ledger) \<Rightarrow> ledger \<Rightarrow> (create_error + invoice) \<times> ledger" where
  "createAdminPayment pf now pid eid actor raw others lg =
    (case createGuard pf actor raw lg of
       Inl e \<Rightarrow> (Inl (CreateThrew e), lg)
     | Inr (body, issueDate) \<Rightarrow>
       (case createAttempts pf now pid eid actor body issueDate others invoiceGenerationRetryLimit lg of
          (Inl e, lg') \<Rightarrow> (Inl e, lg')
        | (Inr row, lg') \<Rightarrow>
          (Inr row, lg'\<lparr>lg_audit := appendAuditLogBestEffort (op_auditUp pf)
             (invoiceEvent actor ''finance.payment_create'' row (createdMetadata row)) (lg_audit lg')\<rparr>)))"

definition updateInvoiceTx ::
  "office_platform \<Rightarrow> int \<Rightarrow> string \<Rightarrow> string \<Rightarrow> payment_write \<Rightarrow> string \<Rightarrow> ledger \<Rightarrow>
   ledger_throw + invoice \<times> ledger" where
  "updateInvoiceTx pf now paymentId eid body existingNumber lg =
    (case fetch iv_id paymentId (lg_invoices lg) of
       None \<Rightarrow> Inl paymentNotFound
     | Some current \<Rightarrow>
       andThen (require (\<not> (entriesOf paymentId (lg_entries lg) \<noteq> [] \<or> iv_ledgerReviewRequired current \<or>
           iv_paymentAttemptId current \<noteq> None))
         (ledgerConflict ''Recorded payments are immutable. Use a ledger correction instead.'')) (\<lambda>_.
       andThen (liftApi (parseRequiredDate (op_parseDate pf) (pw_issueDate body) ''issueDate'')) (\<lambda>issueDate.
       andThen (liftApi (paymentMutationData (op_parseDate pf) now body
           (if pw_invoiceNumber body \<noteq> [] then pw_invoiceNumber body else existingNumber) issueDate current)) (\<lambda>row.
       andThen (updateInvoice row lg) (\<lambda>lg1. settleIfPaid now eid row lg1)))))"

definition updatePaymentResult ::
  "office_platform \<Rightarrow> int \<Rightarrow> string \<Rightarrow> principal \<Rightarrow> string \<Rightarrow> payment_write \<Rightarrow> ledger \<Rightarrow>
   ledger_throw + invoice \<times> ledger" where
  "updatePaymentResult pf now eid actor paymentId raw lg =
    andThen (require (hasPermission actor ''finance.manage.any'') financeForbidden) (\<lambda>_.
    andThen (liftApi (parseWithSchema (\<lambda>s. if op_isUuid pf s then Inr s else Inl [op_issue pf []])
      paymentId ''Payment id is invalid.'')) (\<lambda>_.
    andThen (paymentBody pf raw) (\<lambda>body.
    andThen (liftApi (assertClientAndCase pf body)) (\<lambda>_.
      case fetch iv_id paymentId (lg_invoices lg) of
        None \<Rightarrow> Inl paymentNotFound
      | Some existing \<Rightarrow>
        andThen (require (iv_paymentAttemptId existing = None)
          (ledgerConflict ''Gateway-confirmed payments cannot be edited as manual finance records.'')) (\<lambda>_.
        andThen (liftApi (assertManualPaymentDoesNotDuplicateGatewayOrReceipt body (Some paymentId) (lg_invoices lg))) (\<lambda>_.
          case updateInvoiceTx pf now paymentId eid body (iv_invoiceNumber existing) lg of
            Inl e \<Rightarrow> Inl (handlePaymentWriteError e)
          | Inr (row, lg') \<Rightarrow>
            Inr (row, lg'\<lparr>lg_audit := appendAuditLogBestEffort (op_auditUp pf)
              (invoiceEvent actor ''finance.payment_update'' row
                (updatedMetadata existing row)) (lg_audit lg')\<rparr>)))))))"

definition updateAdminPayment ::
  "office_platform \<Rightarrow> int \<Rightarrow> string \<Rightarrow> principal \<Rightarrow> string \<Rightarrow> payment_write \<Rightarrow> ledger \<Rightarrow>
   (ledger_throw + invoice) \<times> ledger" where
  "updateAdminPayment pf now eid actor paymentId body lg =
    commit (updatePaymentResult pf now eid actor paymentId body lg) lg"

definition canUpdateAdminPayment :: "principal \<Rightarrow> invoice \<Rightarrow> payment_entry list \<Rightarrow> bool" where
  "canUpdateAdminPayment actor payment es =
    (hasPermission actor ''finance.manage.any'' \<and> iv_paymentAttemptId payment = None \<and> es = [] \<and>
     \<not> iv_ledgerReviewRequired payment)"

end
