(* ===== verification/LedgerFacts.thy ===== *)
theory LedgerFacts
  imports Invoices
begin

text \<open>
  The guarantees of the invoice ledger: its invariant over any run of posted entries and invoice
  writes, the atomicity of a failed request, the replay of a posted entry, what one entry does
  to a balance, and the freshness of a generated invoice number.
\<close>

section \<open>The machine\<close>

datatype ledger_request =
    PostEntry int string principal string entry_input
  | CreateInvoice int string string principal payment_write
  | UpdateInvoice int string principal string payment_write

definition silently :: "('e \<Rightarrow> 'f) \<Rightarrow> ('e + 'a) \<times> 's \<Rightarrow> ('f + unit) \<times> 's" where
  "silently f r = (case fst r of Inl e \<Rightarrow> Inl (f e) | Inr _ \<Rightarrow> Inr (), snd r)"

lemma silently_simps [simp]:
  "snd (silently f r) = snd r"
  "fst (silently f r) = Inl e \<longleftrightarrow> (\<exists>e'. fst r = Inl e' \<and> e = f e')"
  by (auto simp: silently_def split: sum.splits)

fun ledgerServe ::
  "ledger_platform \<Rightarrow> office_platform \<Rightarrow> ledger_request \<Rightarrow> ledger \<Rightarrow> (create_error + unit) \<times> ledger" where
  "ledgerServe lp op (PostEntry now eid actor paymentId raw) lg =
     silently CreateThrew (postPaymentEntry lp now eid actor paymentId raw lg)"
| "ledgerServe lp op (CreateInvoice now pid eid actor raw) lg =
     silently id (createAdminPayment op now pid eid actor raw (\<lambda>_ x. x) lg)"
| "ledgerServe lp op (UpdateInvoice now eid actor paymentId raw) lg =
     silently CreateThrew (updateAdminPayment op now eid actor paymentId raw lg)"


section \<open>Sums\<close>

lemma foldl_sum: "foldl (\<lambda>sum e. sum + f e) (a :: rat) es = a + sum_list (map f es)"
  by (induction es arbitrary: a) simp_all

lemma sumAmounts_list: "sumAmounts es = sum_list (map pe_amount es)"
  by (simp add: sumAmounts_def foldl_sum)

lemma sumAmounts_simps [simp]: "sumAmounts [] = 0" "sumAmounts (es @ [e]) = sumAmounts es + pe_amount e"
  by (simp_all add: sumAmounts_list)

lemma entriesOf_append [simp]:
  "entriesOf p (es @ [e]) = (if pe_paymentId e = p then entriesOf p es @ [e] else entriesOf p es)"
  by (simp add: entriesOf_def)

lemma set_entriesOf [simp]: "set (entriesOf p es) = {e \<in> set es. pe_paymentId e = p}"
  by (simp add: entriesOf_def)

definition paidOf :: "string \<Rightarrow> ledger \<Rightarrow> rat" where
  "paidOf p lg = sumAmounts (entriesOf p (lg_entries lg))"


section \<open>The invariant\<close>

definition invoiceOk :: "payment_entry list \<Rightarrow> invoice \<Rightarrow> bool" where
  "invoiceOk es i \<longleftrightarrow>
    list_all (\<lambda>e. pe_currency e = iv_currency i) (entriesOf (iv_id i) es) \<and>
    (iv_ledgerReviewRequired i \<or>
     (0 \<le> sumAmounts (entriesOf (iv_id i) es) \<and> sumAmounts (entriesOf (iv_id i) es) \<le> iv_amount i \<and>
      (iv_status i = I_PAID \<longrightarrow> sumAmounts (entriesOf (iv_id i) es) = iv_amount i)))"

definition presentKeys :: "('r \<Rightarrow> 'k option) \<Rightarrow> 'r list \<Rightarrow> 'k option list" where
  "presentKeys col rows = filter (\<lambda>k. k \<noteq> None) (map col rows)"

text \<open>A correction cancels an entry of the same invoice that is no correction itself.\<close>

definition reversalOk :: "payment_entry list \<Rightarrow> payment_entry \<Rightarrow> bool" where
  "reversalOk es e \<longleftrightarrow>
    (case pe_reversesEntryId e of
       None \<Rightarrow> True
     | Some r \<Rightarrow> r = [] \<or> list_ex (\<lambda>x. pe_id x = r \<and> pe_paymentId x = pe_paymentId e \<and>
         pe_kind x \<noteq> REVERSAL \<and> pe_amount e = - pe_amount x) es)"

lemma reversalOk_append: "reversalOk es e \<Longrightarrow> reversalOk (es @ xs) e"
  by (auto simp: reversalOk_def split: option.splits)

definition ledgerOk :: "ledger \<Rightarrow> bool" where
  "ledgerOk lg \<longleftrightarrow>
    distinct (map iv_id (lg_invoices lg)) \<and> distinct (map pe_id (lg_entries lg)) \<and>
    distinct (map (\<lambda>e. (pe_paymentId e, pe_idempotencyKey e)) (lg_entries lg)) \<and>
    distinct (presentKeys pe_externalReference (lg_entries lg)) \<and>
    distinct (presentKeys pe_reversesEntryId (lg_entries lg)) \<and>
    list_all (\<lambda>e. pe_paymentId e \<in> iv_id ` set (lg_invoices lg)) (lg_entries lg) \<and>
    list_all (reversalOk (lg_entries lg)) (lg_entries lg) \<and>
    list_all (invoiceOk (lg_entries lg)) (lg_invoices lg)"

lemma presentKeys_append: "presentKeys col (rows @ [r]) = presentKeys col rows @ (if col r = None then [] else [col r])"
  by (simp add: presentKeys_def)

lemma not_repeats_distinct:
  "distinct (presentKeys col rows) \<Longrightarrow> \<not> repeats col r rows \<Longrightarrow> distinct (presentKeys col (rows @ [r]))"
  by (auto simp: presentKeys_append) (auto simp: presentKeys_def repeats_def)

lemma insertEntry_Inr:
  "insertEntry e lg = Inr lg' \<longleftrightarrow>
    lg' = lg\<lparr>lg_entries := lg_entries lg @ [e]\<rparr> \<and> amountCheck e \<and>
    pe_id e \<notin> pe_id ` set (lg_entries lg) \<and>
    (pe_paymentId e, pe_idempotencyKey e) \<notin> (\<lambda>x. (pe_paymentId x, pe_idempotencyKey x)) ` set (lg_entries lg) \<and>
    \<not> repeats pe_externalReference e (lg_entries lg) \<and> \<not> repeats pe_reversesEntryId e (lg_entries lg)"
  by (auto simp: insertEntry_def)

lemma updateInvoice_Inr:
  "updateInvoice i lg = Inr lg' \<longleftrightarrow>
    invoiceClash i (filter (\<lambda>x. iv_id x \<noteq> iv_id i) (lg_invoices lg)) = None \<and>
    lg' = lg\<lparr>lg_invoices := modify iv_id (iv_id i) (\<lambda>_. i) (lg_invoices lg)\<rparr>"
  by (auto simp: updateInvoice_def split: option.splits)

lemma insertInvoice_Inr:
  "insertInvoice i lg = Inr lg' \<longleftrightarrow> invoiceClash i (lg_invoices lg) = None \<and>
    lg' = lg\<lparr>lg_invoices := lg_invoices lg @ [i]\<rparr>"
  by (auto simp: insertInvoice_def split: option.splits)

lemma invoiceClash_None_id: "invoiceClash i others = None \<Longrightarrow> iv_id i \<notin> iv_id ` set others"
  by (auto simp: invoiceClash_def split: if_splits)

lemma ledgerOk_audit [simp]: "ledgerOk (lg\<lparr>lg_audit := a\<rparr>) = ledgerOk lg"
  by (simp add: ledgerOk_def)

lemma ledgerOk_invoice: "ledgerOk lg \<Longrightarrow> i \<in> set (lg_invoices lg) \<Longrightarrow> invoiceOk (lg_entries lg) i"
  by (simp add: ledgerOk_def list_all_iff)

lemma ledgerOk_row_ids:
  "map iv_id (modify iv_id (iv_id i) (\<lambda>_. i) rows) = map iv_id rows"
  by (induction rows) auto

lemma invoiceOk_other:
  "pe_paymentId e \<noteq> iv_id i \<Longrightarrow> invoiceOk (es @ [e]) i = invoiceOk es i"
  by (simp add: invoiceOk_def)

text \<open>The two writes of a posting: an entry of an invoice, then the row of that invoice.\<close>

lemma ledgerOk_post:
  assumes "ledgerOk lg" "insertEntry e lg = Inr lg1" "updateInvoice i' lg1 = Inr lg2"
    and "pe_paymentId e = iv_id i'" "iv_id i' \<in> iv_id ` set (lg_invoices lg)"
    and "invoiceOk (lg_entries lg @ [e]) i'" "reversalOk (lg_entries lg) e"
  shows "ledgerOk lg2"
proof -
  let ?es = "lg_entries lg" and ?is = "lg_invoices lg"
  have e: "lg1 = lg\<lparr>lg_entries := ?es @ [e]\<rparr>" "pe_id e \<notin> pe_id ` set ?es"
      "(pe_paymentId e, pe_idempotencyKey e) \<notin> (\<lambda>x. (pe_paymentId x, pe_idempotencyKey x)) ` set ?es"
      "\<not> repeats pe_externalReference e ?es" "\<not> repeats pe_reversesEntryId e ?es"
    using assms(2) by (simp_all add: insertEntry_Inr)
  then have lg2: "lg_entries lg2 = ?es @ [e]" "lg_invoices lg2 = modify iv_id (iv_id i') (\<lambda>_. i') ?is"
    using assms(3) by (simp_all add: updateInvoice_Inr)
  have old: "distinct (map iv_id ?is)" "distinct (map pe_id ?es)"
      "distinct (map (\<lambda>e. (pe_paymentId e, pe_idempotencyKey e)) ?es)"
      "distinct (presentKeys pe_externalReference ?es)" "distinct (presentKeys pe_reversesEntryId ?es)"
      "\<And>x. x \<in> set ?es \<Longrightarrow> pe_paymentId x \<in> iv_id ` set ?is" "\<And>i. i \<in> set ?is \<Longrightarrow> invoiceOk ?es i"
      "\<And>x. x \<in> set ?es \<Longrightarrow> reversalOk ?es x"
    using assms(1) by (simp_all add: ledgerOk_def list_all_iff)
  have ids: "iv_id ` set (lg_invoices lg2) = iv_id ` set ?is"
    using ledgerOk_row_ids [of i' ?is] unfolding lg2(2) by (metis list.set_map)
  have rows: "invoiceOk (?es @ [e]) i" if "i \<in> set (lg_invoices lg2)" for i
  proof (cases "iv_id i = iv_id i'")
    case True
    with that have "i = i'" unfolding lg2(2) by (auto simp: set_modify split: if_splits)
    with assms(6) show ?thesis by simp
  next
    case False
    with that have "i \<in> set ?is" unfolding lg2(2) by (auto simp: set_modify split: if_splits)
    with False old(7) assms(4) show ?thesis by (simp add: invoiceOk_other)
  qed
  have m: "distinct (map iv_id (lg_invoices lg2))"
    unfolding lg2(2) ledgerOk_row_ids by (rule old(1))
  have k1: "distinct (presentKeys pe_externalReference (?es @ [e]))" using old(4) e(4) by (rule not_repeats_distinct)
  have k2: "distinct (presentKeys pe_reversesEntryId (?es @ [e]))" using old(5) e(5) by (rule not_repeats_distinct)
  have p: "pe_paymentId e \<in> iv_id ` set ?is" using assms(4,5) by simp
  show ?thesis
    unfolding ledgerOk_def lg2(1) ids
    using m e(2,3) k1 k2 p old(2,3,6,8) rows assms(7) by (simp add: list_all_iff reversalOk_append)
qed

lemma reviewRequired_iff:
  "bl_reviewRequired (invoiceBalance i es) \<longleftrightarrow>
    iv_ledgerReviewRequired i \<or> \<not> (0 \<le> sumAmounts es \<and> sumAmounts es \<le> iv_amount i \<and>
      (iv_status i = I_PAID \<longrightarrow> sumAmounts es = iv_amount i))"
  by (auto simp: invoiceBalance_def Let_def not_less not_le)

lemma balance_sel [simp]:
  "bl_paid (invoiceBalance i es) = sumAmounts es" "bl_total (invoiceBalance i es) = iv_amount i"
  by (simp_all add: invoiceBalance_def Let_def)

definition postedRow :: "int \<Rightarrow> invoice \<Rightarrow> entry_body \<Rightarrow> rat \<Rightarrow> invoice" where
  "postedRow now i body net =
    i\<lparr>iv_status := statusAfterEntry now i net,
      iv_paidAt := (if net = iv_amount i then Some (eb_occurredAt body) else None)\<rparr>"

lemma postedRow_sel [simp]:
  "iv_id (postedRow now i body net) = iv_id i" "iv_amount (postedRow now i body net) = iv_amount i"
  "iv_currency (postedRow now i body net) = iv_currency i"
  "iv_ledgerReviewRequired (postedRow now i body net) = iv_ledgerReviewRequired i"
  "iv_status (postedRow now i body net) = statusAfterEntry now i net"
  by (simp_all add: postedRow_def)

text \<open>A posting that succeeds, taken apart.\<close>

lemma applyEntry_Inr:
  assumes "applyEntry now eid actor i body lg = Inr (e, lg')"
  obtains amount lg1 lg2 where
    "signedAmount body (entriesOf (iv_id i) (lg_entries lg)) = Inr amount"
    "e = entryFor eid actor i body amount" "\<not> iv_ledgerReviewRequired i" "iv_paymentAttemptId i = None"
    "eb_currency body = iv_currency i" "iv_status i \<noteq> I_DRAFT"
    "iv_status i = I_CANCELLED \<Longrightarrow> eb_kind body \<noteq> SETTLEMENT"
    "0 \<le> paidOf (iv_id i) lg + amount" "paidOf (iv_id i) lg + amount \<le> iv_amount i"
    "insertEntry e lg = Inr lg1"
    "updateInvoice (postedRow now i body (paidOf (iv_id i) lg + amount)) lg1 = Inr lg2"
    "lg' = lg2\<lparr>lg_audit := appendAuditLog (entryEvent actor i e) (lg_audit lg2)\<rparr>"
  using assms by (auto simp: applyEntry_def Let_def postedRow_def paidOf_def not_less)

lemma entryFor_sel [simp]:
  "pe_paymentId (entryFor eid actor i body amount) = iv_id i"
  "pe_amount (entryFor eid actor i body amount) = amount"
  "pe_currency (entryFor eid actor i body amount) = iv_currency i"
  "pe_id (entryFor eid actor i body amount) = eid"
  "pe_idempotencyKey (entryFor eid actor i body amount) = eb_idempotencyKey body"
  "pe_kind (entryFor eid actor i body amount) = eb_kind body"
  by (simp_all add: entryFor_def)

definition bodyOk :: "entry_body \<Rightarrow> bool" where
  "bodyOk body \<longleftrightarrow> 0 < eb_amount body \<and>
    (eb_kind body = REVERSAL \<longleftrightarrow> eb_reversesEntryId body \<noteq> None \<and> eb_reversesEntryId body \<noteq> Some [])"

lemma customIssue_Nil [simp]: "customIssue bad path message = [] \<longleftrightarrow> \<not> bad"
  by (simp add: customIssue_def)

lemma issueUnless_Nil [simp]: "issueUnless pf path r = [] \<longleftrightarrow> r \<noteq> None"
  by (simp add: issueUnless_def split: option.split)

lemma schema_bodyOk:
  assumes "paymentEntryInputSchema pf now raw = Inr body"
  shows "bodyOk body"
proof -
  have r: "entryRefinements now body = []" and a: "wanted money (ei_amount raw) = Some (eb_amount body)"
    using assms by (auto simp: paymentEntryInputSchema_def Let_def split: list.splits if_splits)
  from a have "0 < eb_amount body" by (auto simp: wanted_def money_def split: option.splits if_splits)
  with r show ?thesis by (auto simp: bodyOk_def entryRefinements_def split: option.splits)
qed

lemma signedAmount_reversalOk:
  assumes "signedAmount body (entriesOf (iv_id i) es) = Inr amount" "bodyOk body"
  shows "reversalOk es (entryFor eid actor i body amount)"
proof (cases "eb_kind body = REVERSAL")
  case True
  with assms obtain r x where r: "eb_reversesEntryId body = Some r"
    "find (\<lambda>e. Some (pe_id e) = eb_reversesEntryId body) (entriesOf (iv_id i) es) = Some x"
    "pe_kind x \<noteq> REVERSAL" "amount = - pe_amount x"
    by (auto simp: bodyOk_def signedAmount_def split: option.splits if_splits)
  with find_some_in [OF r(2)] show ?thesis
    by (auto simp: reversalOk_def entryFor_def list_ex_iff)
next
  case False
  with assms(2) show ?thesis by (auto simp: reversalOk_def entryFor_def bodyOk_def split: option.split)
qed

lemma applyEntry_ok:
  assumes "ledgerOk lg" "i \<in> set (lg_invoices lg)" "applyEntry now eid actor i body lg = Inr (e, lg')" "bodyOk body"
  shows "ledgerOk lg'"
  using assms(3)
proof (rule applyEntry_Inr)
  fix amount lg1 lg2
  let ?net = "paidOf (iv_id i) lg + amount"
  assume s: "signedAmount body (entriesOf (iv_id i) (lg_entries lg)) = Inr amount"
    and a: "e = entryFor eid actor i body amount" "0 \<le> ?net" "?net \<le> iv_amount i"
    "insertEntry e lg = Inr lg1" "updateInvoice (postedRow now i body ?net) lg1 = Inr lg2"
    "lg' = lg2\<lparr>lg_audit := appendAuditLog (entryEvent actor i e) (lg_audit lg2)\<rparr>"
  have "invoiceOk (lg_entries lg) i" using assms(1,2) by (rule ledgerOk_invoice)
  then have "invoiceOk (lg_entries lg @ [e]) (postedRow now i body ?net)"
    using a(1-3) by (auto simp: invoiceOk_def paidOf_def statusAfterEntry_def split: if_splits)
  then have "ledgerOk lg2"
    using a(1) assms(2) signedAmount_reversalOk [OF s assms(4)]
    by (intro ledgerOk_post [OF assms(1) a(4,5)]) auto
  with a(6) show ?thesis by simp
qed

lemma commit_simps [simp]:
  "snd (commit (Inl e) s) = s" "snd (commit (Inr (x, s')) s) = s'"
  "fst (commit (Inl e) s) = Inl e" "fst (commit (Inr (x, s')) s) = Inr x"
  by (simp_all add: commit_def)

lemma commit_ok:
  assumes "P s" "\<And>x s'. r = Inr (x, s') \<Longrightarrow> P s'"
  shows "P (snd (commit r s))"
  using assms by (cases r) auto

lemma postEntryResult_Inr:
  assumes "postEntryResult pf now eid actor paymentId raw lg = Inr (e, lg')"
  obtains i body where "hasPermission actor ''finance.manage.any''"
    "paymentEntryInputSchema pf now raw = Inr body" "fetch iv_id paymentId (lg_invoices lg) = Some i"
    "(lg' = lg \<and> find (\<lambda>e. pe_idempotencyKey e = eb_idempotencyKey body) (entriesOf paymentId (lg_entries lg)) = Some e \<and>
       sameAction e body) \<or>
     (find (\<lambda>e. pe_idempotencyKey e = eb_idempotencyKey body) (entriesOf paymentId (lg_entries lg)) = None \<and>
      applyEntry now eid actor i body lg = Inr (e, lg'))"
  using assms
  by (auto simp: postEntryResult_def parseWithSchema_def split: sum.splits option.splits if_splits)

lemma postPaymentEntry_ok: "ledgerOk lg \<Longrightarrow> ledgerOk (snd (postPaymentEntry pf now eid actor paymentId raw lg))"
  unfolding postPaymentEntry_def
  by (rule commit_ok) (auto elim!: postEntryResult_Inr dest!: fetch_SomeD dest: schema_bodyOk intro: applyEntry_ok)


section \<open>Invoice writes\<close>

lemma ledgerOk_grow:
  assumes "ledgerOk lg" "lg_entries lgx = lg_entries lg" "distinct (map iv_id (lg_invoices lgx))"
    and "iv_id ` set (lg_invoices lg) \<subseteq> iv_id ` set (lg_invoices lgx)"
    and "\<And>i. i \<in> set (lg_invoices lgx) \<Longrightarrow> i \<in> set (lg_invoices lg) \<or> invoiceOk (lg_entries lg) i"
  shows "ledgerOk lgx"
proof -
  have "invoiceOk (lg_entries lg) i" if "i \<in> set (lg_invoices lgx)" for i
    using assms(5) [OF that] ledgerOk_invoice [OF assms(1)] by blast
  with assms(1-4) show ?thesis unfolding ledgerOk_def list_all_iff by auto
qed

lemma ledgerOk_settle:
  assumes "ledgerOk lg" "lg_entries lgx = lg_entries lg" "distinct (map iv_id (lg_invoices lgx))"
    and "iv_id ` set (lg_invoices lg) \<subseteq> iv_id ` set (lg_invoices lgx)"
    and "\<And>i. i \<in> set (lg_invoices lgx) \<Longrightarrow> iv_id i \<noteq> pe_paymentId e \<Longrightarrow> i \<in> set (lg_invoices lg)"
    and "\<And>i. i \<in> set (lg_invoices lgx) \<Longrightarrow> iv_id i = pe_paymentId e \<Longrightarrow> invoiceOk (lg_entries lg @ [e]) i"
    and "pe_paymentId e \<in> iv_id ` set (lg_invoices lgx)" "insertEntry e lgx = Inr lg2"
    and "pe_reversesEntryId e = None"
  shows "ledgerOk lg2"
proof -
  let ?es = "lg_entries lg"
  have e: "lg2 = lgx\<lparr>lg_entries := ?es @ [e]\<rparr>" "pe_id e \<notin> pe_id ` set ?es"
      "(pe_paymentId e, pe_idempotencyKey e) \<notin> (\<lambda>x. (pe_paymentId x, pe_idempotencyKey x)) ` set ?es"
      "\<not> repeats pe_externalReference e ?es" "\<not> repeats pe_reversesEntryId e ?es"
    using assms(8) by (simp_all add: insertEntry_Inr assms(2))
  have old: "distinct (map pe_id ?es)" "distinct (map (\<lambda>e. (pe_paymentId e, pe_idempotencyKey e)) ?es)"
      "distinct (presentKeys pe_externalReference ?es)" "distinct (presentKeys pe_reversesEntryId ?es)"
      "\<And>x. x \<in> set ?es \<Longrightarrow> pe_paymentId x \<in> iv_id ` set (lg_invoices lgx)"
      "\<And>i. i \<in> set (lg_invoices lg) \<Longrightarrow> invoiceOk ?es i" "\<And>x. x \<in> set ?es \<Longrightarrow> reversalOk ?es x"
    using assms(1,4) by (auto simp: ledgerOk_def list_all_iff)
  have rows: "invoiceOk (?es @ [e]) i" if "i \<in> set (lg_invoices lgx)" for i
    using that assms(5,6) old(6) by (cases "iv_id i = pe_paymentId e") (simp_all add: invoiceOk_other)
  have k: "distinct (presentKeys pe_externalReference (?es @ [e]))"
    "distinct (presentKeys pe_reversesEntryId (?es @ [e]))"
    using old(3,4) e(4,5) by (blast intro: not_repeats_distinct)+
  show ?thesis
    unfolding ledgerOk_def using assms(3,7,9) old(1,2,5,7) e k rows
    by (simp add: list_all_iff reversalOk_append) (simp add: reversalOk_def)
qed

lemma trustedSettlement_sel [simp]:
  "pe_paymentId (trustedSettlement now eid i) = iv_id i"
  "pe_amount (trustedSettlement now eid i) = iv_amount i"
  "pe_currency (trustedSettlement now eid i) = iv_currency i"
  "pe_reversesEntryId (trustedSettlement now eid i) = None"
  by (simp_all add: trustedSettlement_def Let_def)

lemma invoiceOk_settled:
  "entriesOf (iv_id i) es = [] \<Longrightarrow> 0 \<le> iv_amount i \<Longrightarrow> invoiceOk (es @ [trustedSettlement now eid i]) i"
  by (simp add: invoiceOk_def sumAmounts_list)

lemma invoiceOk_unpaid:
  "entriesOf (iv_id i) es = [] \<Longrightarrow> 0 \<le> iv_amount i \<Longrightarrow> iv_status i \<noteq> I_PAID \<Longrightarrow> invoiceOk es i"
  by (simp add: invoiceOk_def)

lemma entriesOf_absent:
  "ledgerOk lg \<Longrightarrow> p \<notin> iv_id ` set (lg_invoices lg) \<Longrightarrow> entriesOf p (lg_entries lg) = []"
  by (auto simp: ledgerOk_def list_all_iff entriesOf_def filter_empty_conv)

text \<open>A new invoice, and its settlement where it is born paid.\<close>

lemma ledgerOk_create:
  assumes "ledgerOk lg" "insertInvoice i lg = Inr lg1" "settleIfPaid now eid i lg1 = Inr (row, lg2)"
    and "0 \<le> iv_amount i"
  shows "ledgerOk lg2"
proof -
  have lg1: "lg1 = lg\<lparr>lg_invoices := lg_invoices lg @ [i]\<rparr>" and n: "iv_id i \<notin> iv_id ` set (lg_invoices lg)"
    using assms(2) invoiceClash_None_id by (auto simp: insertInvoice_Inr)
  have es: "entriesOf (iv_id i) (lg_entries lg) = []" using assms(1) n by (rule entriesOf_absent)
  have d: "distinct (map iv_id (lg_invoices lg1))" using assms(1) n by (simp add: lg1 ledgerOk_def)
  show ?thesis
  proof (cases "iv_status i = I_PAID")
    case True
    then have "insertEntry (trustedSettlement now eid i) lg1 = Inr lg2"
      using assms(3) by (auto simp: settleIfPaid_def recordTrustedInvoiceSettlement_def)
    moreover have "x = i" if "x \<in> set (lg_invoices lg1)" "iv_id x = iv_id i" for x
    proof -
      from that(1) have "x \<in> set (lg_invoices lg) \<or> x = i" by (auto simp: lg1)
      with that(2) n show ?thesis by (metis imageI)
    qed
    ultimately show ?thesis
      using d es assms(4) by (intro ledgerOk_settle [OF assms(1) _ d]) (auto simp: lg1 invoiceOk_settled)
  next
    case False
    then have "lg2 = lg1" using assms(3) by (simp add: settleIfPaid_def)
    with False d es assms(4) show ?thesis
      by (intro ledgerOk_grow [OF assms(1)]) (auto simp: lg1 intro!: invoiceOk_unpaid)
  qed
qed

lemma ledgerOk_edit:
  assumes "ledgerOk lg" "updateInvoice i lg = Inr lg1" "settleIfPaid now eid i lg1 = Inr (row, lg2)"
    and "0 \<le> iv_amount i" "iv_id i \<in> iv_id ` set (lg_invoices lg)" "entriesOf (iv_id i) (lg_entries lg) = []"
  shows "ledgerOk lg2"
proof -
  have lg1: "lg1 = lg\<lparr>lg_invoices := modify iv_id (iv_id i) (\<lambda>_. i) (lg_invoices lg)\<rparr>"
    using assms(2) by (simp add: updateInvoice_Inr)
  have m: "map iv_id (lg_invoices lg1) = map iv_id (lg_invoices lg)"
    by (simp add: lg1 ledgerOk_row_ids)
  then have d: "distinct (map iv_id (lg_invoices lg1))" and
    ids: "iv_id ` set (lg_invoices lg1) = iv_id ` set (lg_invoices lg)"
    using assms(1) by (simp add: ledgerOk_def, metis list.set_map)
  have same: "x = i" if "x \<in> set (lg_invoices lg1)" "iv_id x = iv_id i" for x
    using that by (auto simp: lg1 set_modify split: if_splits)
  have other: "x \<in> set (lg_invoices lg)" if "x \<in> set (lg_invoices lg1)" "iv_id x \<noteq> iv_id i" for x
    using that by (auto simp: lg1 set_modify split: if_splits)
  have en: "lg_entries lg1 = lg_entries lg" by (simp add: lg1)
  show ?thesis
  proof (cases "iv_status i = I_PAID")
    case True
    then have "insertEntry (trustedSettlement now eid i) lg1 = Inr lg2"
      using assms(3) by (auto simp: settleIfPaid_def recordTrustedInvoiceSettlement_def)
    then show ?thesis
      using d ids same other assms(4-6) en
      by (intro ledgerOk_settle [OF assms(1) en d]) (auto dest: same other intro: invoiceOk_settled)
  next
    case False
    then have "lg2 = lg1" using assms(3) by (simp add: settleIfPaid_def)
    with False d ids same other assms(4,6) en show ?thesis
      by (intro ledgerOk_grow [OF assms(1)]) (auto intro!: invoiceOk_unpaid)
  qed
qed

lemma roundedAmount_nonneg: "0 < x \<Longrightarrow> 0 \<le> roundedAmount x"
  using toDouble_nonneg [of "x * 100"] by (simp add: roundedAmount_def)

lemma paymentBody_amount: "paymentBody pf raw = Inr body \<Longrightarrow> 0 \<le> pw_amount body"
  by (auto simp: paymentBody_def liftApi_def parseWithSchema_def adminPaymentWriteSchema_def Let_def
      fieldIssue_def amountAccepted_def roundedAmount_nonneg split: sum.splits if_splits)

lemma liftApi_simps [simp]:
  "liftApi r = Inr x \<longleftrightarrow> r = Inr x" "liftApi r = Inl e \<longleftrightarrow> (\<exists>a. r = Inl a \<and> e = LedgerApi a)"
  by (auto simp: liftApi_def split: sum.splits)

lemma mutationData_sel:
  assumes "paymentMutationData parse now body num issued row = Inr i"
  shows "iv_id i = iv_id row" "iv_amount i = pw_amount body" "iv_status i = pw_status body"
    "iv_invoiceNumber i = num"
  using assms by (auto simp: paymentMutationData_def)

lemma createInvoiceTx_ok:
  assumes "createInvoiceTx pf now pid eid actor body num issued lg = Inr (row, lg')" "ledgerOk lg"
    "0 \<le> pw_amount body"
  shows "ledgerOk lg'"
  using assms by (auto simp: createInvoiceTx_def mutationData_sel intro: ledgerOk_create)

lemma createAttempts_ok:
  assumes "ledgerOk lg" "0 \<le> pw_amount body" "\<And>k x. ledgerOk x \<Longrightarrow> ledgerOk (others k x)"
  shows "ledgerOk (snd (createAttempts pf now pid eid actor body issued others n lg))"
  using assms
proof (induction n arbitrary: lg)
  case (Suc k)
  then show ?case
    by (auto simp: Let_def dest: createInvoiceTx_ok split: sum.split prod.split)
qed simp

lemma createGuard_amount: "createGuard pf actor raw lg = Inr (body, issued) \<Longrightarrow> 0 \<le> pw_amount body"
  by (auto simp: createGuard_def dest: paymentBody_amount)

lemma createAdminPayment_ok:
  assumes "ledgerOk lg" "\<And>k x. ledgerOk x \<Longrightarrow> ledgerOk (others k x)"
  shows "ledgerOk (snd (createAdminPayment pf now pid eid actor raw others lg))"
proof (cases "createGuard pf actor raw lg")
  case (Inl e)
  with assms(1) show ?thesis by (simp add: createAdminPayment_def)
next
  case (Inr p)
  obtain body issued where p: "p = (body, issued)" by (cases p)
  let ?r = "createAttempts pf now pid eid actor body issued others invoiceGenerationRetryLimit lg"
  have "ledgerOk (snd ?r)"
    using assms Inr p by (intro createAttempts_ok) (auto dest: createGuard_amount)
  with Inr p show ?thesis
    by (cases ?r) (auto simp: createAdminPayment_def split: sum.splits)
qed

lemma caseOption_eq_Inr:
  "(case x of None \<Rightarrow> Inl e | Some v \<Rightarrow> f v) = Inr y \<longleftrightarrow> (\<exists>v. x = Some v \<and> f v = Inr y)"
  by (cases x) simp_all

lemma caseResult_eq_Inr:
  "(case r of Inl e \<Rightarrow> Inl (f e) | Inr p \<Rightarrow> (case p of (x, s) \<Rightarrow> Inr (g x s))) = Inr y \<longleftrightarrow>
    (\<exists>x s. r = Inr (x, s) \<and> g x s = y)"
  by (cases r) (auto split: prod.splits)

lemma updateInvoiceTx_ok:
  assumes "updateInvoiceTx pf now paymentId eid body num lg = Inr (row, lg')" "ledgerOk lg" "0 \<le> pw_amount body"
  shows "ledgerOk lg'"
proof -
  obtain current issued i lg1 where c: "fetch iv_id paymentId (lg_invoices lg) = Some current"
    "entriesOf paymentId (lg_entries lg) = []"
    "paymentMutationData (op_parseDate pf) now body
       (if pw_invoiceNumber body \<noteq> [] then pw_invoiceNumber body else num) issued current = Inr i"
    "updateInvoice i lg = Inr lg1" "settleIfPaid now eid i lg1 = Inr (row, lg')"
    using assms(1) unfolding updateInvoiceTx_def caseOption_eq_Inr by auto
  have "iv_id i = paymentId" "0 \<le> iv_amount i" "paymentId \<in> iv_id ` set (lg_invoices lg)"
    using mutationData_sel [OF c(3)] fetch_SomeD [OF c(1)] assms(3) by (auto intro: rev_image_eqI)
  with c assms(2) show ?thesis by (auto intro: ledgerOk_edit)
qed

lemma updateAdminPayment_ok:
  "ledgerOk lg \<Longrightarrow> ledgerOk (snd (updateAdminPayment pf now eid actor paymentId raw lg))"
  unfolding updateAdminPayment_def
proof (rule commit_ok)
  fix row lg'
  assume lg: "ledgerOk lg" and "updatePaymentResult pf now eid actor paymentId raw lg = Inr (row, lg')"
  then obtain body num lg1 where "paymentBody pf raw = Inr body"
    "updateInvoiceTx pf now paymentId eid body num lg = Inr (row, lg1)" "\<exists>a. lg' = lg1\<lparr>lg_audit := a\<rparr>"
    unfolding updatePaymentResult_def andThen_eq_Inr caseOption_eq_Inr caseResult_eq_Inr by blast
  with lg paymentBody_amount updateInvoiceTx_ok show "ledgerOk lg'" by (metis ledgerOk_audit)
qed

lemma ledgerServe_ok: "ledgerOk lg \<Longrightarrow> ledgerOk (snd (ledgerServe lp op q lg))"
  by (cases q) (simp_all add: postPaymentEntry_ok createAdminPayment_ok updateAdminPayment_ok)


section \<open>Failures leave no trace\<close>

lemma commit_idle: "fst (commit r s) = Inl e \<Longrightarrow> snd (commit r s) = s"
  by (auto simp: commit_def split: sum.splits prod.splits)

lemma createAttempts_idle:
  "fst (createAttempts pf now pid eid actor body issued (\<lambda>_ x. x) n lg) = Inl e \<Longrightarrow>
    snd (createAttempts pf now pid eid actor body issued (\<lambda>_ x. x) n lg) = lg"
  by (induction n) (auto simp: Let_def split: sum.splits prod.splits if_splits)

lemma createAttempts_pair:
  "createAttempts pf now pid eid actor body issued (\<lambda>_ x. x) n lg = (Inl e, lg') \<Longrightarrow> lg' = lg"
  using createAttempts_idle by (metis fst_conv snd_conv)

lemma createAdminPayment_idle:
  assumes "fst (createAdminPayment pf now pid eid actor raw (\<lambda>_ x. x) lg) = Inl e"
  shows "snd (createAdminPayment pf now pid eid actor raw (\<lambda>_ x. x) lg) = lg"
proof (cases "createGuard pf actor raw lg")
  case (Inl e)
  then show ?thesis by (simp add: createAdminPayment_def)
next
  case (Inr p)
  obtain body issued where p: "p = (body, issued)" by (cases p)
  with Inr assms show ?thesis
    by (auto simp: createAdminPayment_def split: sum.splits prod.splits dest: createAttempts_pair)
qed

lemma ledgerServe_idle: "fst (ledgerServe lp op q lg) = Inl e \<Longrightarrow> snd (ledgerServe lp op q lg) = lg"
  by (cases q) (auto simp: postPaymentEntry_def updateAdminPayment_def dest: commit_idle createAdminPayment_idle)

interpretation books: atomic_machine "ledgerServe lp op" ledgerOk for lp op
  by unfold_locales (auto intro: ledgerServe_ok ledgerServe_idle)


section \<open>The properties\<close>

definition emptyLedger :: ledger where
  "emptyLedger = \<lparr>lg_invoices = [], lg_entries = [], lg_audit = []\<rparr>"

lemma emptyLedger_ok: "ledgerOk emptyLedger"
  by (simp add: emptyLedger_def ledgerOk_def presentKeys_def)

text \<open>
  C1. The books balance. After any run of entries posted, invoices created and invoices edited
  on an empty ledger, whatever was refused on the way, an invoice that is not put under review
  has received at least nothing and at most its amount, has received exactly its amount when it
  reads PAID, and so never shows as one that requires reconciliation.
\<close>

theorem books_balance:
  assumes "i \<in> set (lg_invoices (serveAll (ledgerServe lp op) qs emptyLedger))"
    and "\<not> iv_ledgerReviewRequired i"
  shows "0 \<le> paidOf (iv_id i) (serveAll (ledgerServe lp op) qs emptyLedger) \<and>
    paidOf (iv_id i) (serveAll (ledgerServe lp op) qs emptyLedger) \<le> iv_amount i \<and>
    \<not> bl_reviewRequired (invoiceBalance i (entriesOf (iv_id i)
        (lg_entries (serveAll (ledgerServe lp op) qs emptyLedger))))"
proof -
  have "ledgerOk (serveAll (ledgerServe lp op) qs emptyLedger)"
    by (rule books.serve_inv) (rule emptyLedger_ok)
  then have "invoiceOk (lg_entries (serveAll (ledgerServe lp op) qs emptyLedger)) i"
    using assms(1) by (rule ledgerOk_invoice)
  with assms(2) show ?thesis by (auto simp: invoiceOk_def reviewRequired_iff paidOf_def)
qed

text \<open>An amount that is no number ends the request with the error of the decimal library, no issue.\<close>

lemma unreadable_amount_throws:
  assumes "hasPermission actor ''finance.manage.any''" and "ei_amount raw = Some s" and "\<not> lp_readsDecimal pf s"
  shows "postPaymentEntry pf now eid actor paymentId raw lg = (Inl DecimalThrew, lg)"
  using assms by (simp add: postPaymentEntry_def postEntryResult_def amountThrows_def commit_def)

lemma postPaymentEntry_cases:
  assumes "postPaymentEntry pf now eid actor paymentId raw lg = (Inr e, lg')"
  shows "postEntryResult pf now eid actor paymentId raw lg = Inr (e, lg')"
  using assms by (auto simp: postPaymentEntry_def commit_def split: sum.splits)

text \<open>
  C17. One entry moves one balance: a posting that adds an entry adds its signed amount to what
  its invoice has received and changes no other invoice's balance, and the invoice then reads
  PAID exactly when it is fully paid, unless it is cancelled.
\<close>

theorem entry_moves_balance:
  assumes "postPaymentEntry pf now eid actor paymentId raw lg = (Inr e, lg')"
    and "lg_entries lg' \<noteq> lg_entries lg"
  shows "paidOf q lg' = paidOf q lg + (if q = paymentId then pe_amount e else 0) \<and>
    (\<forall>i. fetch iv_id q (lg_invoices lg') = Some i \<longrightarrow> q = paymentId \<longrightarrow> iv_status i \<noteq> I_CANCELLED \<longrightarrow>
      (iv_status i = I_PAID \<longleftrightarrow> paidOf q lg' = iv_amount i)) \<and>
    (q \<noteq> paymentId \<longrightarrow> fetch iv_id q (lg_invoices lg') = fetch iv_id q (lg_invoices lg))"
proof -
  obtain i body where b: "fetch iv_id paymentId (lg_invoices lg) = Some i"
    "applyEntry now eid actor i body lg = Inr (e, lg')"
    using postPaymentEntry_cases [OF assms(1)] assms(2) by (auto elim!: postEntryResult_Inr)
  have id: "iv_id i = paymentId" "i \<in> set (lg_invoices lg)" using fetch_SomeD [OF b(1)] by auto
  from b(2) show ?thesis
  proof (rule applyEntry_Inr)
    fix amount lg1 lg2
    let ?net = "paidOf (iv_id i) lg + amount"
    assume a: "e = entryFor eid actor i body amount" "insertEntry e lg = Inr lg1"
      "updateInvoice (postedRow now i body ?net) lg1 = Inr lg2"
      "lg' = lg2\<lparr>lg_audit := appendAuditLog (entryEvent actor i e) (lg_audit lg2)\<rparr>"
    then have en: "lg_entries lg' = lg_entries lg @ [e]"
      and rows: "lg_invoices lg' = modify iv_id paymentId (\<lambda>_. postedRow now i body ?net) (lg_invoices lg)"
      using id(1) by (simp_all add: insertEntry_Inr updateInvoice_Inr)
    have p: "paidOf q lg' = paidOf q lg + (if q = paymentId then pe_amount e else 0)" for q
      using a(1) id(1) by (simp add: paidOf_def en)
    have f: "fetch iv_id paymentId (lg_invoices lg') = Some (postedRow now i body ?net)"
      unfolding rows using b(1) id(1) by (simp add: fetch_replace)
    have g: "fetch iv_id q (lg_invoices lg') = fetch iv_id q (lg_invoices lg)" if "q \<noteq> paymentId"
      unfolding rows using that id(1) by (simp add: fetch_replace)
    have st: "statusAfterEntry now i ?net \<noteq> I_CANCELLED \<Longrightarrow>
        statusAfterEntry now i ?net = I_PAID \<longleftrightarrow> ?net = iv_amount i"
      by (auto simp: statusAfterEntry_def split: if_splits option.splits)
    have "paidOf paymentId lg' = ?net" using p a(1) id(1) by simp
    with p [of q] f g st show ?thesis by auto
  qed
qed


section \<open>Replays\<close>

text \<open>Entries are only ever added, at the end, and no invoice goes.\<close>

definition extendsLedger :: "ledger \<Rightarrow> ledger \<Rightarrow> bool" where
  "extendsLedger lg lg' \<longleftrightarrow> (\<exists>more. lg_entries lg' = lg_entries lg @ more) \<and>
    iv_id ` set (lg_invoices lg) \<subseteq> iv_id ` set (lg_invoices lg')"

lemma extendsLedger_refl [simp]: "extendsLedger lg lg"
  by (simp add: extendsLedger_def)

lemma extendsLedger_trans: "extendsLedger a b \<Longrightarrow> extendsLedger b c \<Longrightarrow> extendsLedger a c"
  by (auto simp: extendsLedger_def)

lemma extendsLedger_audit [simp]: "extendsLedger lg (lg'\<lparr>lg_audit := a\<rparr>) = extendsLedger lg lg'"
  by (simp add: extendsLedger_def)

lemma extends_insertEntry: "insertEntry e lg = Inr lg' \<Longrightarrow> extendsLedger lg lg'"
  by (simp add: insertEntry_Inr extendsLedger_def)

lemma extends_updateInvoice: "updateInvoice i lg = Inr lg' \<Longrightarrow> extendsLedger lg lg'"
  using ledgerOk_row_ids [of i "lg_invoices lg"]
  by (simp add: updateInvoice_Inr extendsLedger_def) (metis list.set_map order_refl)

lemma extends_insertInvoice: "insertInvoice i lg = Inr lg' \<Longrightarrow> extendsLedger lg lg'"
  by (auto simp: insertInvoice_Inr extendsLedger_def)

lemma extends_settle: "settleIfPaid now eid i lg = Inr (row, lg') \<Longrightarrow> extendsLedger lg lg'"
  by (auto simp: settleIfPaid_def recordTrustedInvoiceSettlement_def extends_insertEntry split: if_splits)

lemmas extends_rules = extends_insertEntry extends_updateInvoice extends_insertInvoice extends_settle

lemma extends_apply: "applyEntry now eid actor i body lg = Inr (e, lg') \<Longrightarrow> extendsLedger lg lg'"
  by (erule applyEntry_Inr) (auto intro: extendsLedger_trans extends_rules)

lemma extends_post: "extendsLedger lg (snd (postPaymentEntry pf now eid actor paymentId raw lg))"
  unfolding postPaymentEntry_def
  by (rule commit_ok) (auto elim!: postEntryResult_Inr intro: extends_apply)

lemma extends_createTx:
  "createInvoiceTx pf now pid eid actor body num issued lg = Inr (row, lg') \<Longrightarrow> extendsLedger lg lg'"
  by (auto simp: createInvoiceTx_def intro: extendsLedger_trans extends_rules)

lemma extends_create:
  "extendsLedger lg (snd (createAdminPayment pf now pid eid actor raw (\<lambda>_ x. x) lg))"
proof (cases "createGuard pf actor raw lg")
  case (Inr p)
  obtain body issued where p: "p = (body, issued)" by (cases p)
  have "extendsLedger lg (snd (createAttempts pf now pid eid actor body issued (\<lambda>_ x. x) n lg))" for n
    by (induction n) (auto simp: Let_def split: sum.split prod.split dest: extends_createTx)
  with Inr p show ?thesis
    by (auto simp: createAdminPayment_def split: sum.splits prod.splits) (metis snd_conv)+
qed (simp add: createAdminPayment_def)

lemma extends_update: "extendsLedger lg (snd (updateAdminPayment pf now eid actor paymentId raw lg))"
  unfolding updateAdminPayment_def
proof (rule commit_ok)
  fix row lg'
  assume "updatePaymentResult pf now eid actor paymentId raw lg = Inr (row, lg')"
  then obtain body num lg1 where tx: "updateInvoiceTx pf now paymentId eid body num lg = Inr (row, lg1)"
    and "\<exists>a. lg' = lg1\<lparr>lg_audit := a\<rparr>"
    unfolding updatePaymentResult_def andThen_eq_Inr caseOption_eq_Inr caseResult_eq_Inr by blast
  moreover from tx have "extendsLedger lg lg1"
    unfolding updateInvoiceTx_def caseOption_eq_Inr by (auto intro: extendsLedger_trans extends_rules)
  ultimately show "extendsLedger lg lg'" by (metis extendsLedger_audit)
qed simp

lemma extends_serve: "extendsLedger lg (snd (ledgerServe lp op q lg))"
  by (cases q) (simp_all add: extends_post extends_create extends_update)

lemma extends_serveAll: "extendsLedger lg (serveAll (ledgerServe lp op) qs lg)"
  by (induction qs arbitrary: lg) (auto intro: extendsLedger_trans extends_serve)

lemma find_append_hit: "find p xs = Some x \<Longrightarrow> find p (xs @ ys) = Some x"
  by (induction xs) (auto split: if_splits)

lemma find_append_miss: "find p xs = None \<Longrightarrow> find p (xs @ ys) = find p ys"
  by (induction xs) (auto split: if_splits)

lemma schema_later:
  assumes "paymentEntryInputSchema pf t raw = Inr body" "t \<le> t'"
  shows "paymentEntryInputSchema pf t' raw = Inr body"
proof -
  have "entryRefinements t body = []"
    using assms(1) by (auto simp: paymentEntryInputSchema_def Let_def split: list.splits if_splits)
  then have "entryRefinements t' body = []" using assms(2) by (simp add: entryRefinements_def)
  with assms(1) show ?thesis
    by (auto simp: paymentEntryInputSchema_def Let_def split: list.splits if_splits)
qed

lemma applied_sameAction:
  assumes "applyEntry now eid actor i body lg = Inr (e, lg')" "bodyOk body"
  shows "sameAction e body \<and> pe_idempotencyKey e = eb_idempotencyKey body \<and> pe_paymentId e = iv_id i"
  using assms(1)
proof (rule applyEntry_Inr)
  fix amount
  assume s: "signedAmount body (entriesOf (iv_id i) (lg_entries lg)) = Inr amount"
    and "e = entryFor eid actor i body amount" "eb_currency body = iv_currency i"
  moreover have "\<bar>amount\<bar> = eb_amount body"
    using s assms(2)
    by (cases "eb_kind body = REVERSAL") (auto simp: signedAmount_def bodyOk_def split: option.splits if_splits)
  ultimately show ?thesis by (simp add: sameAction_def entryFor_def)
qed

text \<open>
  C14. Posting is idempotent under its key: once a posting returned an entry, sending the same
  body again, at any later time and after any other requests, returns that same entry and
  changes nothing.
\<close>

theorem posting_replays:
  assumes "postPaymentEntry lp t eid actor paymentId raw lg = (Inr e, lg1)"
    and "lg2 = serveAll (ledgerServe lp op) qs lg1" and "t \<le> t'"
  shows "postPaymentEntry lp t' eid' actor paymentId raw lg2 = (Inr e, lg2)"
  using postPaymentEntry_cases [OF assms(1)]
proof (rule postEntryResult_Inr)
  fix i :: invoice and body :: entry_body
  let ?p = "\<lambda>x. pe_idempotencyKey x = eb_idempotencyKey body"
  assume b: "hasPermission actor ''finance.manage.any''" "paymentEntryInputSchema lp t raw = Inr body"
    "fetch iv_id paymentId (lg_invoices lg) = Some i"
    and c: "(lg1 = lg \<and> find ?p (entriesOf paymentId (lg_entries lg)) = Some e \<and> sameAction e body) \<or>
      (find ?p (entriesOf paymentId (lg_entries lg)) = None \<and> applyEntry t eid actor i body lg = Inr (e, lg1))"
  have id: "iv_id i = paymentId" "i \<in> set (lg_invoices lg)" using fetch_SomeD [OF b(3)] by auto
  have "find ?p (entriesOf paymentId (lg_entries lg1)) = Some e \<and> sameAction e body \<and> extendsLedger lg lg1"
    using c
  proof (elim disjE conjE)
    assume miss: "find ?p (entriesOf paymentId (lg_entries lg)) = None"
      and a: "applyEntry t eid actor i body lg = Inr (e, lg1)"
    have s: "sameAction e body" "?p e" "pe_paymentId e = iv_id i"
      using applied_sameAction [OF a schema_bodyOk [OF b(2)]] by auto
    have "lg_entries lg1 = lg_entries lg @ [e]"
      using a by (auto elim!: applyEntry_Inr simp: insertEntry_Inr updateInvoice_Inr)
    with miss s id extends_apply [OF a] show ?thesis by (simp add: find_append_miss)
  qed simp_all
  then have hit: "find ?p (entriesOf paymentId (lg_entries lg1)) = Some e" "sameAction e body"
    and ext: "extendsLedger lg lg1" by auto
  have ext2: "extendsLedger lg1 lg2" unfolding assms(2) by (rule extends_serveAll)
  then obtain more where "lg_entries lg2 = lg_entries lg1 @ more" by (auto simp: extendsLedger_def)
  then have hit2: "find ?p (entriesOf paymentId (lg_entries lg2)) = Some e"
    using hit(1) by (simp add: entriesOf_def find_append_hit)
  have "paymentId \<in> iv_id ` set (lg_invoices lg2)"
    using id ext ext2 unfolding extendsLedger_def by blast
  then obtain j where j: "fetch iv_id paymentId (lg_invoices lg2) = Some j"
    using fetch_None_iff [of iv_id paymentId "lg_invoices lg2"] by auto
  have "\<not> amountThrows lp raw"
    using assms(1) by (auto simp: postPaymentEntry_def commit_def postEntryResult_def andThen_def split: if_splits sum.splits)
  then show ?thesis
    using b(1) schema_later [OF b(2) assms(3)] j hit2 hit(2)
    by (simp add: postPaymentEntry_def postEntryResult_def parseWithSchema_def commit_def)
qed

text \<open>
  C16. No entry is corrected twice, and a correction cancels exactly what it corrects: in the books
  after any run on an empty ledger, two entries that correct one entry are the same, and the
  corrected entry belongs to the same invoice, is no correction itself and has the opposite
  amount.
\<close>

theorem corrections_cancel:
  assumes "x \<in> set (lg_entries (serveAll (ledgerServe lp op) qs emptyLedger))"
    and "y \<in> set (lg_entries (serveAll (ledgerServe lp op) qs emptyLedger))"
    and "pe_reversesEntryId x = Some r" and "pe_reversesEntryId y = Some r" and "r \<noteq> []"
  shows "x = y \<and> (\<exists>z\<in>set (lg_entries (serveAll (ledgerServe lp op) qs emptyLedger)).
    pe_id z = r \<and> pe_paymentId z = pe_paymentId x \<and> pe_kind z \<noteq> REVERSAL \<and> pe_amount z + pe_amount x = 0)"
proof -
  let ?lg = "serveAll (ledgerServe lp op) qs emptyLedger"
  have ok: "ledgerOk ?lg" by (rule books.serve_inv) (rule emptyLedger_ok)
  then have "distinct (presentKeys pe_reversesEntryId (lg_entries ?lg))" by (simp add: ledgerOk_def)
  moreover have "distinct (filter (\<lambda>k. k \<noteq> None) (map f es)) \<Longrightarrow> x \<in> set es \<Longrightarrow> y \<in> set es \<Longrightarrow>
      f x = f y \<Longrightarrow> f x \<noteq> None \<Longrightarrow> x = y" for f :: "payment_entry \<Rightarrow> string option" and es
    by (induction es) (auto simp: image_iff split: if_splits)
  ultimately have "x = y" using assms unfolding presentKeys_def by (metis option.distinct(1))
  moreover have "reversalOk (lg_entries ?lg) x" using ok assms(1) by (simp add: ledgerOk_def list_all_iff)
  ultimately show ?thesis using assms(3,5) by (auto simp: reversalOk_def list_ex_iff)
qed


section \<open>A run of the books\<close>

definition sampleLp :: ledger_platform where
  "sampleLp = \<lparr>lp_isUuid = (\<lambda>s. s \<noteq> []), lp_datetime = (\<lambda>s. Some 5),
     lp_issue = (\<lambda>p. \<lparr>ed_path = Some p, ed_message = [], ed_code = None\<rparr>), lp_validationMessage = [],
     lp_readsDecimal = moneyPattern\<rparr>"

definition sampleOffice :: office_platform where
  "sampleOffice = \<lparr>op_isUuid = (\<lambda>s. s \<noteq> []),
     op_issue = (\<lambda>p. \<lparr>ed_path = Some p, ed_message = [], ed_code = None\<rparr>),
     op_parseDate = (\<lambda>s. Some 5), op_dbl = (\<lambda>n. None), op_clientOpen = (\<lambda>c. True),
     op_caseOpen = (\<lambda>a b. True), op_auditUp = True\<rparr>"

definition sampleAdmin :: principal where
  "sampleAdmin = \<lparr>pr_id = ''a'', pr_roleName = ''Super Admin'', pr_permissions = None, pr_clientId = None\<rparr>"

definition sampleWrite :: payment_write where
  "sampleWrite = \<lparr>pw_invoiceNumber = ''I-1'', pw_clientId = ''c'', pw_caseId = None, pw_issueDate = ''d'',
     pw_dueDate = None, pw_amount = 100, pw_currency = EGP, pw_status = I_PENDING, pw_paymentMethod = None,
     pw_receiptNumber = None, pw_paidAt = None, pw_notes = None\<rparr>"

definition sampleSettle :: entry_input where
  "sampleSettle = \<lparr>ei_idempotencyKey = Some ''k1'', ei_kind = Some ''SETTLEMENT'', ei_amount = Some ''40.5'',
     ei_currency = Some ''EGP'', ei_method = Some ''CASH'', ei_receiptNumber = Some ''R1'',
     ei_occurredAt = Some ''d'', ei_reversesEntryId = None, ei_reason = None\<rparr>"

definition sampleReverse :: entry_input where
  "sampleReverse = sampleSettle\<lparr>ei_idempotencyKey := Some ''k2'', ei_kind := Some ''REVERSAL'',
     ei_reversesEntryId := Some ''e1'', ei_reason := Some ''err''\<rparr>"

definition sampleRun :: "ledger_request list" where
  "sampleRun = 
    [CreateInvoice 10 ''p1'' ''e0'' sampleAdmin sampleWrite,
     PostEntry 11 ''e1'' sampleAdmin ''p1'' sampleSettle, PostEntry 12 ''e2'' sampleAdmin ''p1'' sampleReverse]"

lemma sampleRun_correction:
  "list_ex (\<lambda>x. pe_reversesEntryId x = Some ''e1'')
    (lg_entries (serveAll (ledgerServe sampleLp sampleOffice) sampleRun emptyLedger))"
  by code_simp

lemma sampleRun_invoice:
  "list_ex (\<lambda>i. iv_id i = ''p1'' \<and> \<not> iv_ledgerReviewRequired i)
    (lg_invoices (serveAll (ledgerServe sampleLp sampleOffice) sampleRun emptyLedger))"
  by code_simp

theorem books_balance_witness:
  "0 \<le> paidOf ''p1'' (serveAll (ledgerServe sampleLp sampleOffice) sampleRun emptyLedger)"
proof -
  obtain i where i: "i \<in> set (lg_invoices (serveAll (ledgerServe sampleLp sampleOffice) sampleRun emptyLedger))"
    "iv_id i = ''p1''" "\<not> iv_ledgerReviewRequired i"
    using sampleRun_invoice unfolding list_ex_iff by blast
  from books_balance [OF i(1,3)] show ?thesis unfolding i(2) by blast
qed

theorem corrections_cancel_witness:
  "\<exists>x\<in>set (lg_entries (serveAll (ledgerServe sampleLp sampleOffice) sampleRun emptyLedger)). pe_id x = ''e1''"
proof -
  obtain x where x: "x \<in> set (lg_entries (serveAll (ledgerServe sampleLp sampleOffice) sampleRun emptyLedger))"
    "pe_reversesEntryId x = Some ''e1''"
    using sampleRun_correction unfolding list_ex_iff by blast
  have "''e1'' \<noteq> []" by simp
  from corrections_cancel [OF x(1) x(1) x(2) x(2) this] show ?thesis by blast
qed

definition sampleBooks :: ledger where
  "sampleBooks = snd (ledgerServe sampleLp sampleOffice (CreateInvoice 10 ''p1'' ''e0'' sampleAdmin sampleWrite) emptyLedger)"

lemma sampleBooks_post:
  "map_option pe_amount (case fst (postPaymentEntry sampleLp 11 ''e1'' sampleAdmin ''p1'' sampleSettle sampleBooks) of
     Inl _ \<Rightarrow> None | Inr e \<Rightarrow> Some e) = Some (81 / 2)"
  "length (lg_entries (snd (postPaymentEntry sampleLp 11 ''e1'' sampleAdmin ''p1'' sampleSettle sampleBooks))) = 1"
  "lg_entries sampleBooks = []"
  by code_simp+

lemma sampleBooks_posted:
  obtains e where "postPaymentEntry sampleLp 11 ''e1'' sampleAdmin ''p1'' sampleSettle sampleBooks =
      (Inr e, snd (postPaymentEntry sampleLp 11 ''e1'' sampleAdmin ''p1'' sampleSettle sampleBooks))" "pe_amount e = 81 / 2"
proof (cases "fst (postPaymentEntry sampleLp 11 ''e1'' sampleAdmin ''p1'' sampleSettle sampleBooks)")
  case (Inl e)
  with sampleBooks_post(1) show thesis by simp
next
  case (Inr e)
  then have "pe_amount e = 81 / 2" using sampleBooks_post(1) by simp
  with Inr show thesis by (metis that prod.collapse)
qed

theorem entry_moves_balance_witness:
  "paidOf ''p1'' (snd (postPaymentEntry sampleLp 11 ''e1'' sampleAdmin ''p1'' sampleSettle sampleBooks)) = 81 / 2"
proof -
  obtain e where e: "postPaymentEntry sampleLp 11 ''e1'' sampleAdmin ''p1'' sampleSettle sampleBooks =
      (Inr e, snd (postPaymentEntry sampleLp 11 ''e1'' sampleAdmin ''p1'' sampleSettle sampleBooks))" "pe_amount e = 81 / 2"
    by (rule sampleBooks_posted)
  have ne: "lg_entries (snd (postPaymentEntry sampleLp 11 ''e1'' sampleAdmin ''p1'' sampleSettle sampleBooks)) \<noteq>
      lg_entries sampleBooks" using sampleBooks_post(2,3) by auto
  have z: "paidOf ''p1'' sampleBooks = 0" using sampleBooks_post(3) by (simp add: paidOf_def entriesOf_def)
  show ?thesis using entry_moves_balance [OF e(1) ne, of "''p1''"] e(2) z by (simp del: One_nat_def)
qed

theorem posting_replays_witness:
  "snd (postPaymentEntry sampleLp 20 ''e9'' sampleAdmin ''p1'' sampleSettle
      (snd (postPaymentEntry sampleLp 11 ''e1'' sampleAdmin ''p1'' sampleSettle sampleBooks))) =
    snd (postPaymentEntry sampleLp 11 ''e1'' sampleAdmin ''p1'' sampleSettle sampleBooks)"
proof -
  let ?lg = "snd (postPaymentEntry sampleLp 11 ''e1'' sampleAdmin ''p1'' sampleSettle sampleBooks)"
  obtain e where e: "postPaymentEntry sampleLp 11 ''e1'' sampleAdmin ''p1'' sampleSettle sampleBooks = (Inr e, ?lg)"
    by (rule sampleBooks_posted)
  have "?lg = serveAll (ledgerServe sampleLp sampleOffice) [] ?lg" by simp
  from posting_replays [OF e this, of 20 "''e9''"] show ?thesis by simp
qed

section \<open>Generated numbers\<close>

lemma maxSequence_fold:
  "foldl (\<lambda>best s. case generatedInvoiceNumber s of
        None \<Rightarrow> best
      | Some (y, n) \<Rightarrow> if y \<noteq> yr then best
          else (case sequenceOf dbl n of None \<Rightarrow> best | Some k \<Rightarrow> if k > best then k else best)) (b :: nat) numbers \<ge> b"
  by (induction numbers arbitrary: b)
    (auto split: option.split prod.split intro: order_trans less_imp_le)

lemma maxSequence_bound:
  assumes "s \<in> set numbers" "generatedInvoiceNumber s = Some (yr, n)" "sequenceOf dbl n = Some k"
  shows "k \<le> maxSequence dbl yr numbers"
proof -
  let ?f = "\<lambda>best s. case generatedInvoiceNumber s of
        None \<Rightarrow> best
      | Some (y, n) \<Rightarrow> if y \<noteq> yr then best
          else (case sequenceOf dbl n of None \<Rightarrow> best | Some k \<Rightarrow> if k > best then k else best)"
  have "k \<le> foldl ?f b numbers" for b using assms(1)
  proof (induction numbers arbitrary: b)
    case (Cons a numbers)
    show ?case
    proof (cases "a = s")
      case True
      then have "k \<le> ?f b a" using assms(2,3) by auto
      also have "?f b a \<le> foldl ?f (?f b a) numbers" by (rule maxSequence_fold)
      finally show ?thesis by simp
    qed (use Cons in simp)
  qed simp
  then show ?thesis by (simp add: maxSequence_def)
qed

lemma length_natToText:
  "length (natToText n) = (if n < 10 then 1 else Suc (length (natToText (n div 10))))"
  by (subst natToText.simps) simp

lemma length_year:
  assumes "1000 \<le> y" "y \<le> 9999"
  shows "length (natToText y) = 4"
proof -
  have "length (natToText (y div 10 div 10 div 10)) = 1"
    using assms by (subst length_natToText) auto
  then have "length (natToText (y div 10 div 10)) = 2"
    using assms by (subst length_natToText) auto
  then have "length (natToText (y div 10)) = 3"
    using assms by (subst length_natToText) auto
  then show ?thesis
    using assms by (subst length_natToText) auto
qed

lemma digits_no_dash: "list_all isDigit s \<Longrightarrow> CHR ''-'' \<notin> set s"
  by (auto simp: list_all_iff isDigit_def codeUnit_def)

lemma generatedInvoiceNumber_format:
  assumes "list_all isDigit y" "length y = 4" "allDigits n"
  shows "generatedInvoiceNumber (''INV-'' @ y @ ''-'' @ n) = Some (y, n)"
proof -
  have d: "CHR ''-'' \<notin> set y" "CHR ''-'' \<notin> set n"
    using assms by (auto dest: digits_no_dash simp: allDigits_def)
  have "splitOn (CHR ''-'') (''INV'' @ CHR ''-'' # y @ CHR ''-'' # n) = [''INV'', y, n]"
    using splitOn_append_sep [of "CHR ''-''" "''INV''"] splitOn_append_sep [OF d(1), of n] splitOn_absent [OF d(2)]
    by simp
  with assms show ?thesis by (simp add: generatedInvoiceNumber_def)
qed

text \<open>
  A generated invoice number is new: for a year of four digits, if every number of that year
  in the table has a sequence the language reads exactly, the next number is formatted and none of
  the existing ones.
\<close>

theorem generated_number_fresh:
  assumes "1000 \<le> year" and "year \<le> 9999"
    and "\<And>s n. s \<in> set numbers \<Longrightarrow> generatedInvoiceNumber s = Some (natToText (nat year), n) \<Longrightarrow>
      natOfDigits n < 9007199254740991"
  shows "\<exists>num. nextAdminInvoiceNumberFromExisting dbl year numbers = Inr num \<and> num \<notin> set numbers"
proof -
  let ?yr = "natToText (nat year)" and ?k = "maxSequence dbl (natToText (nat year)) numbers"
  let ?d = "padStart 4 (CHR ''0'') (natToText (?k + 1))"
  let ?num = "''INV-'' @ ?yr @ ''-'' @ ?d"
  have l: "length ?yr = 4" using assms(1,2) by (intro length_year) auto
  have d: "allDigits ?d"
    using natToText_digits [of "?k + 1"] by (auto simp: allDigits_def padStart_def list_all_iff)
  have v: "natOfDigits ?d = ?k + 1" by (simp add: natOfDigits_padStart_zero)
  have g: "generatedInvoiceNumber ?num = Some (?yr, ?d)"
    using natToText_digits l d by (rule generatedInvoiceNumber_format)
  have "?num \<notin> set numbers"
  proof
    assume m: "?num \<in> set numbers"
    with g assms(3) v have "sequenceOf dbl ?d = Some (?k + 1)" by (fastforce simp: sequenceOf_def)
    from maxSequence_bound [OF m g this] show False by simp
  qed
  moreover have "nextAdminInvoiceNumberFromExisting dbl year numbers = Inr ?num"
    using assms(1) by (simp add: nextAdminInvoiceNumberFromExisting_def formatAdminInvoiceNumber_def nat_add_distrib)
  ultimately show ?thesis by blast
qed

theorem generated_number_fresh_witness:
  "\<exists>num. nextAdminInvoiceNumberFromExisting (\<lambda>n. None) 2026 [''INV-2026-0007'', ''X''] = Inr num \<and>
    num \<notin> set [''INV-2026-0007'', ''X'']"
proof (rule generated_number_fresh)
  fix s n
  assume "s \<in> set [''INV-2026-0007'', ''X'']" "generatedInvoiceNumber s = Some (natToText (nat 2026), n)"
  moreover have "generatedInvoiceNumber ''INV-2026-0007'' = Some (''2026'', ''0007'')"
    "generatedInvoiceNumber ''X'' = None" "natOfDigits ''0007'' = 7" by code_simp+
  ultimately show "natOfDigits n < 9007199254740991" by auto
qed simp_all

text \<open>
  The schema tests the amount before it rounds it: a positive amount below half a cent is
  accepted and becomes an invoice of nothing.
\<close>

lemma amount_tested_before_rounding:
  "map_option pw_amount (case adminPaymentWriteSchema sampleOffice (sampleWrite\<lparr>pw_amount := 4 / 1000\<rparr>) of
     Inl _ \<Rightarrow> None | Inr body \<Rightarrow> Some body) = Some 0"
  by code_simp

text \<open>
  A receipt number that the ledger already used as an external reference is reported as a
  conflict of invoice numbers.
\<close>

lemma receipt_conflict_misreported:
  "handlePaymentWriteError (UniqueViolation ''externalReference'') = LedgerApi invoiceNumberTaken"
  by code_simp

end
