(* ===== verification/Balances.thy ===== *)
theory Balances
  imports LedgerFacts "HOL-Library.AList"
begin

text \<open>
  The two summaries of the books by currency, one folded over invoices with their balances, one
  asked of the database as grouped sums
  (\<open>groupInvoiceBalances\<close> and \<open>aggregateInvoiceBalances\<close> of
  \<open>src/src/server/payments/payment-ledger-service.ts\<close>), and their agreement.
\<close>

record currency_balance =
  cb_total :: rat
  cb_paid :: rat
  cb_remaining :: rat

definition isVoid :: "invoice \<Rightarrow> bool" where
  "isVoid i = (iv_status i = I_CANCELLED \<or> iv_status i = I_DRAFT)"

definition reportCurrencies :: "currency list" where
  "reportCurrencies = [AED, EGP, EUR, SAR, USD]"

definition addInvoice ::
  "payment_entry list \<Rightarrow> (currency \<times> currency_balance) list \<Rightarrow> invoice \<Rightarrow> (currency \<times> currency_balance) list" where
  "addInvoice es groups i =
    (let current = (case map_of groups (iv_currency i) of
           None \<Rightarrow> \<lparr>cb_total = 0, cb_paid = 0, cb_remaining = 0\<rparr> | Some g \<Rightarrow> g);
         bal = invoiceBalance i (entriesOf (iv_id i) es)
     in AList.update (iv_currency i)
          \<lparr>cb_total = (if isVoid i then cb_total current else cb_total current + bl_total bal),
           cb_paid = cb_paid current + bl_paid bal,
           cb_remaining = cb_remaining current + bl_remaining bal\<rparr> groups)"

text \<open>The order of the currency codes, as \<open>localeCompare\<close> has it.\<close>

definition currencyRank :: "currency \<Rightarrow> nat" where
  "currencyRank c = (case c of AED \<Rightarrow> 0 | EGP \<Rightarrow> 1 | EUR \<Rightarrow> 2 | SAR \<Rightarrow> 3 | USD \<Rightarrow> 4)"

definition groupInvoiceBalances :: "payment_entry list \<Rightarrow> invoice list \<Rightarrow> (currency \<times> currency_balance) list" where
  "groupInvoiceBalances es invoices =
    sort_key (\<lambda>p. currencyRank (fst p)) (foldl (addInvoice es) [] invoices)"

text \<open>The sum of a column over the rows of a currency that meet a condition.\<close>

definition sumWhere :: "('r \<Rightarrow> bool) \<Rightarrow> ('r \<Rightarrow> rat) \<Rightarrow> 'r list \<Rightarrow> rat" where
  "sumWhere p f rows = sum_list (map f (filter p rows))"

record currency_aggregate =
  ca_currency :: currency
  ca_count :: nat
  ca_totalAmount :: rat
  ca_paidAmount :: rat
  ca_openAmount :: rat
  ca_overdueAmount :: rat

definition isOpen :: "invoice \<Rightarrow> bool" where
  "isOpen i = (iv_status i \<in> {I_ISSUED, I_PENDING, I_OVERDUE})"

definition isOverdue :: "int \<Rightarrow> invoice \<Rightarrow> bool" where
  "isOverdue now i = (isOpen i \<and> (iv_status i = I_OVERDUE \<or>
     (case iv_dueDate i of None \<Rightarrow> False | Some d \<Rightarrow> d < now)))"

text \<open>The condition on the invoice of an entry.\<close>

definition entryWhere :: "(invoice \<Rightarrow> bool) \<Rightarrow> ledger \<Rightarrow> payment_entry \<Rightarrow> bool" where
  "entryWhere p lg e = (case fetch iv_id (pe_paymentId e) (lg_invoices lg) of None \<Rightarrow> False | Some i \<Rightarrow> p i)"

definition aggregateFor :: "(invoice \<Rightarrow> bool) \<Rightarrow> int \<Rightarrow> ledger \<Rightarrow> currency \<Rightarrow> currency_aggregate" where
  "aggregateFor p now lg c =
    (let amounts = (\<lambda>q. sumWhere (\<lambda>i. iv_currency i = c \<and> q i) iv_amount (lg_invoices lg));
         paid = (\<lambda>q. sumWhere (\<lambda>e. pe_currency e = c \<and> entryWhere q lg e) pe_amount (lg_entries lg))
     in \<lparr>ca_currency = c, ca_count = length (filter (\<lambda>i. iv_currency i = c \<and> p i) (lg_invoices lg)),
         ca_totalAmount = amounts p, ca_paidAmount = paid p,
         ca_openAmount = amounts (\<lambda>i. p i \<and> isOpen i) - paid (\<lambda>i. p i \<and> isOpen i),
         ca_overdueAmount = amounts (\<lambda>i. p i \<and> isOverdue now i) - paid (\<lambda>i. p i \<and> isOverdue now i)\<rparr>)"

definition aggregateInvoiceBalances :: "(invoice \<Rightarrow> bool) \<Rightarrow> int \<Rightarrow> ledger \<Rightarrow> currency_aggregate list" where
  "aggregateInvoiceBalances p now lg =
    map (aggregateFor p now lg)
      (filter (\<lambda>c. list_ex (\<lambda>i. iv_currency i = c \<and> p i) (lg_invoices lg)) reportCurrencies)"


section \<open>Their agreement\<close>

lemma sumWhere_simps [simp]:
  "sumWhere p f [] = 0"
  "sumWhere p f (r # rows) = (if p r then f r + sumWhere p f rows else sumWhere p f rows)"
  "sumWhere p f (rows @ rows') = sumWhere p f rows + sumWhere p f rows'"
  by (simp_all add: sumWhere_def)

lemma sumWhere_cong:
  "(\<And>r. r \<in> set rows \<Longrightarrow> p r = q r) \<Longrightarrow> (\<And>r. r \<in> set rows \<Longrightarrow> p r \<Longrightarrow> f r = g r) \<Longrightarrow>
    sumWhere p f rows = sumWhere q g rows"
  by (induction rows) auto

lemma sumWhere_diff: "sumWhere p f rows - sumWhere p g rows = sumWhere p (\<lambda>r. f r - g r) rows"
  by (induction rows) auto

definition groupOf :: "payment_entry list \<Rightarrow> invoice list \<Rightarrow> currency \<Rightarrow> currency_balance" where
  "groupOf es invoices c =
    \<lparr>cb_total = sumWhere (\<lambda>i. iv_currency i = c \<and> \<not> isVoid i) iv_amount invoices,
     cb_paid = sumWhere (\<lambda>i. iv_currency i = c) (\<lambda>i. sumAmounts (entriesOf (iv_id i) es)) invoices,
     cb_remaining = sumWhere (\<lambda>i. iv_currency i = c)
       (\<lambda>i. bl_remaining (invoiceBalance i (entriesOf (iv_id i) es))) invoices\<rparr>"

lemma groupOf_absent:
  "c \<notin> iv_currency ` set invoices \<Longrightarrow> groupOf es invoices c = \<lparr>cb_total = 0, cb_paid = 0, cb_remaining = 0\<rparr>"
  by (induction invoices) (auto simp: groupOf_def)

lemma groupOf_snoc:
  "groupOf es (invoices @ [i]) c =
    (if iv_currency i = c
     then (let g = groupOf es invoices c; bal = invoiceBalance i (entriesOf (iv_id i) es)
           in \<lparr>cb_total = (if isVoid i then cb_total g else cb_total g + bl_total bal),
               cb_paid = cb_paid g + bl_paid bal, cb_remaining = cb_remaining g + bl_remaining bal\<rparr>)
     else groupOf es invoices c)"
  by (simp add: groupOf_def Let_def)

lemma groups_fold:
  "distinct (map fst (foldl (addInvoice es) [] invoices)) \<and>
   map_of (foldl (addInvoice es) [] invoices) c =
    (if c \<in> iv_currency ` set invoices then Some (groupOf es invoices c) else None)"
proof (induction invoices arbitrary: c rule: rev_induct)
  case Nil
  show ?case by simp
next
  case (snoc i invoices)
  let ?g = "foldl (addInvoice es) [] invoices"
  have cur: "(case map_of ?g (iv_currency i) of None \<Rightarrow> \<lparr>cb_total = 0, cb_paid = 0, cb_remaining = 0\<rparr> | Some g \<Rightarrow> g) =
      groupOf es invoices (iv_currency i)"
    using snoc [of "iv_currency i"] by (simp add: groupOf_absent split: option.split)
  have up: "addInvoice es ?g i = AList.update (iv_currency i) (groupOf es (invoices @ [i]) (iv_currency i)) ?g"
    unfolding addInvoice_def cur by (simp add: groupOf_snoc Let_def)
  have old: "groupOf es (invoices @ [i]) c = groupOf es invoices c" if "c \<noteq> iv_currency i" for c
    using that by (simp add: groupOf_snoc)
  show ?case
    using snoc [of c] old [of c] by (simp add: up update_conv' distinct_update image_iff)
qed

lemma currencyRank_inj: "inj currencyRank"
  by (rule injI) (auto simp: currencyRank_def split: currency.splits)

lemma currencies_sorted:
  "sorted (map currencyRank reportCurrencies)" "distinct reportCurrencies"
  by (simp_all add: currencyRank_def reportCurrencies_def)

lemma currencies_all: "c \<in> set reportCurrencies"
  by (cases c) (simp_all add: reportCurrencies_def)

lemma sorted_filter_map: "sorted (map f xs) \<Longrightarrow> sorted (map f (filter p xs))"
  by (rule sorted_filter)

lemma groups_listed:
  "groupInvoiceBalances es invoices = map (\<lambda>c. (c, groupOf es invoices c))
    (filter (\<lambda>c. c \<in> iv_currency ` set invoices) reportCurrencies)"
proof -
  let ?g = "foldl (addInvoice es) [] invoices"
  let ?cs = "filter (\<lambda>c. c \<in> iv_currency ` set invoices) reportCurrencies"
  let ?l = "map (\<lambda>c. (c, groupOf es invoices c)) ?cs"
  let ?k = "\<lambda>p :: currency \<times> currency_balance. currencyRank (fst p)"
  have m: "map_of ?g = map_of ?l"
  proof (rule ext)
    fix c
    have "map_of ?l c = (if c \<in> set ?cs then Some (groupOf es invoices c) else None)"
      by (induction ?cs) (simp_all add: map_of_map_restrict restrict_map_def)
    then show "map_of ?g c = map_of ?l c"
      using groups_fold [of es invoices c] currencies_all [of c] by simp
  qed
  have d: "distinct (map fst ?g)" "distinct (map fst ?l)"
    using groups_fold [of es invoices] currencies_sorted(2) by (simp_all add: comp_def)
  have s: "set ?g = set ?l" using m map_of_inject_set [OF d] by simp
  have dk: "distinct (map ?k xs)" if "distinct (map fst xs)" for xs :: "(currency \<times> currency_balance) list"
    using that currencyRank_inj by (auto simp: distinct_map inj_on_def)
  have "sort_key ?k ?g = ?l"
  proof (rule map_sorted_distinct_set_unique [where f = ?k])
    show "inj_on ?k (set (sort_key ?k ?g) \<union> set ?l)"
    proof (rule inj_onI)
      fix x y
      assume "x \<in> set (sort_key ?k ?g) \<union> set ?l" "y \<in> set (sort_key ?k ?g) \<union> set ?l" "?k x = ?k y"
      then have "x \<in> set ?l" "y \<in> set ?l" "fst x = fst y"
        using s currencyRank_inj by (auto dest: injD)
      then show "x = y" by auto
    qed
    show "sorted (map ?k (sort_key ?k ?g))" by simp
    have "map ?k ?l = map currencyRank ?cs" by (simp add: comp_def)
    then show "sorted (map ?k ?l)" by (rule ssubst) (rule sorted_filter [OF currencies_sorted(1)])
    show "distinct (map ?k ?l)" using d(2) by (rule dk)
    have "distinct (map fst (sort_key ?k ?g))"
      using d(1) by (simp add: distinct_map distinct_sort)
    then show "distinct (map ?k (sort_key ?k ?g))" by (rule dk)
    show "set (sort_key ?k ?g) = set ?l" using s by simp
  qed
  then show ?thesis by (simp add: groupInvoiceBalances_def)
qed

lemma sumWhere_or:
  "(\<And>r. r \<in> set rows \<Longrightarrow> \<not> (p r \<and> q r)) \<Longrightarrow>
    sumWhere (\<lambda>r. p r \<or> q r) f rows = sumWhere p f rows + sumWhere q f rows"
  by (induction rows) auto

lemma sumAmounts_where: "sumAmounts (entriesOf k es) = sumWhere (\<lambda>e. pe_paymentId e = k) pe_amount es"
  by (simp add: sumAmounts_list entriesOf_def sumWhere_def)

lemma sum_by_invoice:
  assumes "distinct (map iv_id invoices)"
  shows "sumWhere (\<lambda>e. \<exists>i\<in>set invoices. iv_id i = pe_paymentId e \<and> q i) pe_amount es =
    sumWhere q (\<lambda>i. sumAmounts (entriesOf (iv_id i) es)) invoices"
  using assms
proof (induction invoices)
  case Nil
  have "sumWhere (\<lambda>e. False) pe_amount es = 0" by (induction es) simp_all
  then show ?case by simp
next
  case (Cons i invoices)
  have dis: "\<not> ((pe_paymentId e = iv_id i \<and> q i) \<and> (\<exists>j\<in>set invoices. iv_id j = pe_paymentId e \<and> q j))" for e
    using Cons.prems by (auto simp: image_iff)
  have "sumWhere (\<lambda>e. \<exists>j\<in>set (i # invoices). iv_id j = pe_paymentId e \<and> q j) pe_amount es =
      sumWhere (\<lambda>e. (pe_paymentId e = iv_id i \<and> q i) \<or> (\<exists>j\<in>set invoices. iv_id j = pe_paymentId e \<and> q j)) pe_amount es"
    by (rule sumWhere_cong) auto
  also have "\<dots> = sumWhere (\<lambda>e. pe_paymentId e = iv_id i \<and> q i) pe_amount es +
      sumWhere (\<lambda>e. \<exists>j\<in>set invoices. iv_id j = pe_paymentId e \<and> q j) pe_amount es"
    by (rule sumWhere_or) (rule dis)
  also have "sumWhere (\<lambda>e. pe_paymentId e = iv_id i \<and> q i) pe_amount es =
      (if q i then sumAmounts (entriesOf (iv_id i) es) else 0)"
    by (induction es) (auto simp: sumAmounts_where)
  finally show ?case using Cons by simp
qed

lemma entries_by_invoice:
  assumes "ledgerOk lg"
  shows "sumWhere (\<lambda>e. pe_currency e = c \<and> entryWhere q lg e) pe_amount (lg_entries lg) =
    sumWhere (\<lambda>i. iv_currency i = c \<and> q i) (\<lambda>i. sumAmounts (entriesOf (iv_id i) (lg_entries lg))) (lg_invoices lg)"
proof -
  have d: "distinct (map iv_id (lg_invoices lg))" using assms by (simp add: ledgerOk_def)
  have "(pe_currency e = c \<and> entryWhere q lg e) =
      (\<exists>i\<in>set (lg_invoices lg). iv_id i = pe_paymentId e \<and> iv_currency i = c \<and> q i)"
    if e: "e \<in> set (lg_entries lg)" for e
  proof -
    have "pe_paymentId e \<in> iv_id ` set (lg_invoices lg)" using assms e by (simp add: ledgerOk_def list_all_iff)
    then obtain i where i: "i \<in> set (lg_invoices lg)" "iv_id i = pe_paymentId e" by auto
    then have f: "fetch iv_id (pe_paymentId e) (lg_invoices lg) = Some i"
      using fetch_distinct [OF d i(1)] by simp
    have "j = i" if "j \<in> set (lg_invoices lg)" "iv_id j = pe_paymentId e" for j
      using that i d by (auto simp: distinct_map inj_on_def)
    moreover have "pe_currency e = iv_currency i"
      using ledgerOk_invoice [OF assms i(1)] e i(2) by (auto simp: invoiceOk_def list_all_iff)
    moreover have "entryWhere q lg e = q i" using f by (simp add: entryWhere_def)
    ultimately show ?thesis using i by metis
  qed
  then have "sumWhere (\<lambda>e. pe_currency e = c \<and> entryWhere q lg e) pe_amount (lg_entries lg) =
      sumWhere (\<lambda>e. \<exists>i\<in>set (lg_invoices lg). iv_id i = pe_paymentId e \<and> iv_currency i = c \<and> q i) pe_amount (lg_entries lg)"
    by (intro sumWhere_cong) auto
  also have "\<dots> = sumWhere (\<lambda>i. iv_currency i = c \<and> q i)
      (\<lambda>i. sumAmounts (entriesOf (iv_id i) (lg_entries lg))) (lg_invoices lg)"
    by (rule sum_by_invoice [OF d])
  finally show ?thesis .
qed

lemma sumWhere_filter: "sumWhere p f (filter q rows) = sumWhere (\<lambda>r. p r \<and> q r) f rows"
  by (induction rows) auto

lemma sumWhere_zero: "sumWhere p (\<lambda>r. if q r then f r else 0) rows = sumWhere (\<lambda>r. p r \<and> q r) f rows"
  by (induction rows) auto

text \<open>
  C18. The two summaries agree: over the invoices a report selects, none of which is under review,
  the sums asked of the database give, currency by currency and in the same order, what has been
  paid and what remains as the fold over the single invoices does.
\<close>

theorem summaries_agree:
  assumes "ledgerOk lg" and "\<And>i. i \<in> set (lg_invoices lg) \<Longrightarrow> p i \<Longrightarrow> \<not> iv_ledgerReviewRequired i"
  shows "map (\<lambda>a. (ca_currency a, ca_paidAmount a, ca_openAmount a)) (aggregateInvoiceBalances p now lg) =
    map (\<lambda>(c, g). (c, cb_paid g, cb_remaining g))
      (groupInvoiceBalances (lg_entries lg) (filter p (lg_invoices lg)))"
proof -
  let ?es = "lg_entries lg" and ?is = "lg_invoices lg"
  have rem: "bl_remaining (invoiceBalance i (entriesOf (iv_id i) ?es)) =
      (if isOpen i then iv_amount i - sumAmounts (entriesOf (iv_id i) ?es) else 0)"
    if "i \<in> set ?is" "p i" for i
    using ledgerOk_invoice [OF assms(1) that(1)] assms(2) [OF that]
    by (cases "iv_status i") (auto simp: invoiceBalance_def Let_def isOpen_def invoiceOk_def)
  have "ca_openAmount (aggregateFor p now lg c) = cb_remaining (groupOf ?es (filter p ?is) c)" for c
  proof -
    have "cb_remaining (groupOf ?es (filter p ?is) c) =
        sumWhere (\<lambda>i. iv_currency i = c \<and> p i)
          (\<lambda>i. if isOpen i then iv_amount i - sumAmounts (entriesOf (iv_id i) ?es) else 0) ?is"
      by (simp add: groupOf_def sumWhere_filter) (rule sumWhere_cong, simp_all add: rem)
    also have "\<dots> = sumWhere (\<lambda>i. (iv_currency i = c \<and> p i) \<and> isOpen i)
        (\<lambda>i. iv_amount i - sumAmounts (entriesOf (iv_id i) ?es)) ?is"
      by (rule sumWhere_zero)
    finally show ?thesis
      by (simp add: aggregateFor_def Let_def entries_by_invoice [OF assms(1)] sumWhere_diff conj_assoc)
  qed
  moreover have "ca_paidAmount (aggregateFor p now lg c) = cb_paid (groupOf ?es (filter p ?is) c)" for c
    by (simp add: aggregateFor_def Let_def entries_by_invoice [OF assms(1)] groupOf_def sumWhere_filter)
  moreover have "ca_currency (aggregateFor p now lg c) = c" for c by (simp add: aggregateFor_def Let_def)
  moreover have "filter (\<lambda>c. list_ex (\<lambda>i. iv_currency i = c \<and> p i) ?is) reportCurrencies =
      filter (\<lambda>c. c \<in> iv_currency ` set (filter p ?is)) reportCurrencies"
    by (rule filter_cong) (auto simp: list_ex_iff image_iff)
  ultimately show ?thesis
    unfolding aggregateInvoiceBalances_def groups_listed by (simp add: comp_def)
qed

theorem summaries_agree_witness:
  "map (\<lambda>a. (ca_currency a, ca_paidAmount a, ca_openAmount a)) (aggregateInvoiceBalances (\<lambda>i. True) 20 sampleBooks) =
    map (\<lambda>(c, g). (c, cb_paid g, cb_remaining g))
      (groupInvoiceBalances (lg_entries sampleBooks) (filter (\<lambda>i. True) (lg_invoices sampleBooks)))"
proof (rule summaries_agree)
  show "ledgerOk sampleBooks" unfolding sampleBooks_def by (intro ledgerServe_ok emptyLedger_ok)
  have "list_all (\<lambda>i. \<not> iv_ledgerReviewRequired i) (lg_invoices sampleBooks)" by code_simp
  then show "\<And>i. i \<in> set (lg_invoices sampleBooks) \<Longrightarrow> True \<Longrightarrow> \<not> iv_ledgerReviewRequired i"
    by (simp add: list_all_iff)
qed

end
