(* ===== verification/Redaction.thy ===== *)
theory Redaction
  imports Json
begin

text \<open>
  What the audit trail and the stored webhook payloads keep of a value:
  \<open>src/src/server/audit/redaction.ts\<close>. The patterns are matched the way the expressions of the
  source match: at the leftmost start, each run as long as it can be, shortened only where the
  rest would not match.
\<close>

section \<open>The patterns\<close>

definition asciiLetter :: "char \<Rightarrow> bool" where
  "asciiLetter c = (let n = codeUnit c in (65 \<le> n \<and> n \<le> 90) \<or> (97 \<le> n \<and> n \<le> 122))"

definition wordUnit :: "char \<Rightarrow> bool" where
  "wordUnit c = (asciiLetter c \<or> isDigit c \<or> c = CHR ''_'')"

definition emailLocalChar :: "char \<Rightarrow> bool" where
  "emailLocalChar c = (asciiLetter c \<or> isDigit c \<or> c \<in> set ''._%+-'')"

definition emailDomainChar :: "char \<Rightarrow> bool" where
  "emailDomainChar c = (asciiLetter c \<or> isDigit c \<or> c = CHR ''.'' \<or> c = CHR ''-'')"

definition phoneChar :: "char \<Rightarrow> bool" where
  "phoneChar c = (isDigit c \<or> jsWhitespace c \<or> c \<in> set ''().-'')"

text \<open>
  The longest prefix of a run that ends in a full stop and two letters or more, at a word
  boundary: \<open>n\<close> is tried from the length of the run down, and the prefix of length \<open>n\<close> is
  accepted when its letters at the end follow a full stop that follows a character.
\<close>

definition emailDomainEnds :: "string \<Rightarrow> nat \<Rightarrow> bool" where
  "emailDomainEnds s n =
    (let back = rev (take n s); letters = takeWhile asciiLetter back; rest = dropWhile asciiLetter back
     in 2 \<le> length letters \<and> (case rest of c # _ # _ \<Rightarrow> c = CHR ''.'' | _ \<Rightarrow> False) \<and>
        (n = length s \<or> \<not> wordUnit (s ! n)))"

fun longestFrom :: "(nat \<Rightarrow> bool) \<Rightarrow> nat \<Rightarrow> nat option" where
  "longestFrom p 0 = None"
| "longestFrom p (Suc n) = (if p (Suc n) then Some (Suc n) else longestFrom p n)"

text \<open>The length of the match of \<open>EMAIL_VALUE_PATTERN\<close> at the head of a text that \<open>before\<close> precedes.\<close>

definition emailMatch :: "char option \<Rightarrow> string \<Rightarrow> nat option" where
  "emailMatch before s =
    (let boundary = (case s of [] \<Rightarrow> False
           | c # _ \<Rightarrow> wordUnit c \<noteq> (case before of None \<Rightarrow> False | Some b \<Rightarrow> wordUnit b));
         run = takeWhile emailLocalChar s; rest = dropWhile emailLocalChar s
     in if boundary \<and> run \<noteq> [] \<and> rest \<noteq> [] \<and> hd rest = CHR ''@''
        then map_option (\<lambda>n. length run + 1 + n)
          (longestFrom (emailDomainEnds (tl rest)) (length (takeWhile emailDomainChar (tl rest))))
        else None)"

text \<open>The length of the match of \<open>PHONE_VALUE_PATTERN\<close>: a digit, eight characters or more, a digit.\<close>

definition phoneMatch :: "char option \<Rightarrow> string \<Rightarrow> nat option" where
  "phoneMatch before s =
    (let plus = (if s \<noteq> [] \<and> hd s = CHR ''+'' then 1 else 0); t = drop plus s
     in if t \<noteq> [] \<and> isDigit (hd t)
        then map_option (\<lambda>n. plus + 1 + n)
          (longestFrom (\<lambda>n. 9 \<le> n \<and> isDigit (tl t ! (n - 1))) (length (takeWhile phoneChar (tl t))))
        else None)"

text \<open>\<open>replace\<close> with a global pattern: the matches from left to right, none inside another.\<close>

function replaceMatches ::
  "(char option \<Rightarrow> string \<Rightarrow> nat option) \<Rightarrow> (string \<Rightarrow> string) \<Rightarrow> char option \<Rightarrow> string \<Rightarrow> string" where
  "replaceMatches m f before s =
    (case s of
       [] \<Rightarrow> []
     | c # cs \<Rightarrow>
       (case m before s of
          Some (Suc n) \<Rightarrow> f (take (Suc n) s) @ replaceMatches m f (Some (last (take (Suc n) s))) (drop (Suc n) s)
        | _ \<Rightarrow> c # replaceMatches m f (Some c) cs))"
  by pat_completeness auto
termination
  by (relation "measure (\<lambda>(_, _, _, s). length s)") auto

declare replaceMatches.simps [simp del]

definition MAX_SAFE_STRING_LENGTH :: nat where "MAX_SAFE_STRING_LENGTH = 240"

definition redactPhone :: "string \<Rightarrow> string" where
  "redactPhone match =
    (let digits = filter isDigit match
     in if 10 \<le> length digits \<and> length digits \<le> 15 then ''[REDACTED_PHONE]'' else match)"

definition redactString :: "string \<Rightarrow> string" where
  "redactString value =
    (let redacted = replaceMatches phoneMatch redactPhone None
           (replaceMatches emailMatch (\<lambda>_. ''[REDACTED_EMAIL]'') None value)
     in if length redacted > MAX_SAFE_STRING_LENGTH
        then take MAX_SAFE_STRING_LENGTH redacted @ ''...'' else redacted)"

text \<open>The words of \<open>SENSITIVE_KEY_PATTERN\<close>, a pattern that ignores case and may match anywhere.\<close>

definition sensitiveWords :: "string list" where
  "sensitiveWords =
    [''password'', ''pass'', ''secret'', ''token'', ''cookie'', ''authorization'', ''apikey'', ''api-key'', ''api_key'',
     ''otp'', ''totp'', ''smtp'', ''prompt'', ''document'', ''content'', ''summary'', ''casesummary'', ''legalsummary'',
     ''rawresponse'', ''rawprompt'', ''email'', ''phone'', ''mobile'', ''address'', ''message'', ''fullname'',
     ''clientname'', ''firstname'', ''first-name'', ''first_name'', ''lastname'', ''last-name'', ''last_name'',
     ''billingdata'', ''billing-data'', ''billing_data'', ''customer'', ''contact'', ''url'', ''uri'', ''href'',
     ''location'', ''redirect'', ''callback'', ''checkout'', ''receipt'']"

definition sensitiveKey :: "string \<Rightarrow> bool" where
  "sensitiveKey key = list_ex (\<lambda>w. hasInfix w (jsLower key)) sensitiveWords"

definition hexUnit :: "char \<Rightarrow> bool" where
  "hexUnit c = (let n = codeUnit c in isDigit c \<or> (65 \<le> n \<and> n \<le> 70) \<or> (97 \<le> n \<and> n \<le> 102))"

definition correlationId :: "string \<Rightarrow> bool" where
  "correlationId s =
    (map length (splitOn (CHR ''-'') s) = [8, 4, 4, 4, 12] \<and>
     list_all (list_all hexUnit) (splitOn (CHR ''-'') s))"

definition opaqueIdentifier :: "string \<Rightarrow> bool" where
  "opaqueIdentifier s =
    (1 \<le> length s \<and> length s \<le> 160 \<and>
     list_all (\<lambda>c. asciiLetter c \<or> isDigit c \<or> c \<in> set ''._:-'') s)"


section \<open>Redaction of a value\<close>

text \<open>
  \<open>fuel\<close> is the depth that is left, nine at the top: a value below the ninth level is cut.
\<close>

fun redactValue :: "nat \<Rightarrow> json \<Rightarrow> json" where
  "redactValue 0 value = JStr ''[REDACTED_DEPTH]''"
| "redactValue (Suc fuel) (JArr vs) = JArr (map (redactValue fuel) vs)"
| "redactValue (Suc fuel) (JObj ms) =
     JObj (map (\<lambda>(key, entry).
       (key,
        if key = ''requestId'' \<and> (case entry of JStr s \<Rightarrow> correlationId s | _ \<Rightarrow> False) then entry
        else if sensitiveKey key \<and>
             \<not> (key = ''providerCheckoutId'' \<and> (case entry of JStr s \<Rightarrow> opaqueIdentifier s | _ \<Rightarrow> False))
        then JStr ''[REDACTED]''
        else redactValue fuel entry)) ms)"
| "redactValue (Suc fuel) (JStr s) = JStr (redactString s)"
| "redactValue (Suc fuel) value = value"

definition redactMetadata :: "json \<Rightarrow> json" where
  "redactMetadata value = redactValue 9 value"


section \<open>What redaction hides\<close>

text \<open>
  Two values are alike when they differ only in what stands under a sensitive key, at any depth.
\<close>

definition secretKey :: "string \<Rightarrow> bool" where
  "secretKey key \<longleftrightarrow> sensitiveKey key \<and> key \<noteq> ''providerCheckoutId''"

inductive alike :: "json \<Rightarrow> json \<Rightarrow> bool" where
  alike_refl: "alike v v"
| alike_arr: "list_all2 alike vs ws \<Longrightarrow> alike (JArr vs) (JArr ws)"
| alike_obj: "list_all2 (\<lambda>m n. fst m = fst n \<and> (secretKey (fst m) \<or> alike (snd m) (snd n))) ms ns
    \<Longrightarrow> alike (JObj ms) (JObj ns)"

inductive_cases alike_fromE: "alike (JArr vs) w" "alike (JObj ms) w" "alike (JStr s) w"
  "alike JNull w" "alike (JBool b) w" "alike (JNum n) w"

lemma requestId_plain: "\<not> sensitiveKey ''requestId''"
  by code_simp

lemma map_eq_list_all2:
  "list_all2 (\<lambda>x y. f x = g y) xs ys \<Longrightarrow> map f xs = map g ys"
  by (induction rule: list_all2_induct) simp_all

definition redactMember :: "nat \<Rightarrow> string \<Rightarrow> json \<Rightarrow> json" where
  "redactMember fuel key entry =
    (if key = ''requestId'' \<and> (case entry of JStr s \<Rightarrow> correlationId s | _ \<Rightarrow> False) then entry
     else if sensitiveKey key \<and>
          \<not> (key = ''providerCheckoutId'' \<and> (case entry of JStr s \<Rightarrow> opaqueIdentifier s | _ \<Rightarrow> False))
     then JStr ''[REDACTED]'' else redactValue fuel entry)"

lemma redactValue_JObj:
  "redactValue (Suc fuel) (JObj ms) = JObj (map (\<lambda>m. (fst m, redactMember fuel (fst m) (snd m))) ms)"
  by (simp add: redactMember_def case_prod_beta)

lemma redactMember_secret: "secretKey key \<Longrightarrow> redactMember fuel key entry = JStr ''[REDACTED]''"
  using requestId_plain by (auto simp: redactMember_def secretKey_def)

lemma redactMember_alike:
  assumes "alike v w" and "redactValue fuel v = redactValue fuel w"
  shows "redactMember fuel key v = redactMember fuel key w"
  using assms(1)
  by cases (use assms(2) in \<open>auto simp: redactMember_def simp del: redactValue.simps\<close>)

lemma redactValue_alike: "alike v w \<Longrightarrow> redactValue fuel v = redactValue fuel w"
proof (induction fuel arbitrary: v w)
  case 0
  show ?case by simp
next
  case (Suc fuel)
  from Suc.prems show ?case
  proof cases
    case alike_refl
    then show ?thesis by simp
  next
    case (alike_arr vs ws)
    then have "map (redactValue fuel) vs = map (redactValue fuel) ws"
      by (intro map_eq_list_all2) (auto elim: list_all2_mono intro: Suc.IH)
    with alike_arr show ?thesis by simp
  next
    case (alike_obj ms ns)
    have "map (\<lambda>m. (fst m, redactMember fuel (fst m) (snd m))) ms =
        map (\<lambda>m. (fst m, redactMember fuel (fst m) (snd m))) ns"
    proof (rule map_eq_list_all2, rule list_all2_mono [OF alike_obj(3)])
      fix m n :: "string \<times> json"
      assume "fst m = fst n \<and> (secretKey (fst m) \<or> alike (snd m) (snd n))"
      then show "(fst m, redactMember fuel (fst m) (snd m)) = (fst n, redactMember fuel (fst n) (snd n))"
        by (auto simp: redactMember_secret intro: redactMember_alike Suc.IH)
    qed
    then show ?thesis by (simp only: alike_obj(1,2) redactValue_JObj)
  qed
qed

text \<open>
  C25. Nothing below a sensitive key reaches the audit trail or a stored payload: two values that
  differ only there, at any depth, are redacted to the same value.
\<close>

theorem redaction_hides: "alike v w \<Longrightarrow> redactMetadata v = redactMetadata w"
  by (simp add: redactMetadata_def redactValue_alike)

theorem redaction_hides_witness:
  "alike (JObj [(''order'', JObj [(''clientPhone'', JStr ''+201001234567''), (''id'', JNum ''7'')])])
      (JObj [(''order'', JObj [(''clientPhone'', JNull), (''id'', JNum ''7'')])]) \<and>
   redactMetadata (JObj [(''order'', JObj [(''clientPhone'', JStr ''+201001234567''), (''id'', JNum ''7'')])]) =
     redactMetadata (JObj [(''order'', JObj [(''clientPhone'', JNull), (''id'', JNum ''7'')])])"
proof -
  have s: "secretKey ''clientPhone''" by code_simp
  have a: "alike (JObj [(''order'', JObj [(''clientPhone'', JStr ''+201001234567''), (''id'', JNum ''7'')])])
      (JObj [(''order'', JObj [(''clientPhone'', JNull), (''id'', JNum ''7'')])])"
    by (intro alike_obj list_all2_Cons [THEN iffD2] conjI list.rel_intros) (simp_all add: s alike.intros)
  from redaction_hides [OF a] a show ?thesis by blast
qed

text \<open>A text that is kept has no more than the safe length and its ellipsis.\<close>

lemma redactString_length: "length (redactString s) \<le> MAX_SAFE_STRING_LENGTH + 3"
  by (simp add: redactString_def Let_def)

lemma redactString_examples:
  "redactString ''write to omar@kmt.example.'' = ''write to [REDACTED_EMAIL].''"
  "redactString ''call +20 100 123 4567 now'' = ''call [REDACTED_PHONE] now''"
  "redactString ''invoice 12345'' = ''invoice 12345''"
  by code_simp+

end
