(* ===== verification/PaymentConfig.thy ===== *)
theory PaymentConfig
  imports ApiErrors Json
begin

text \<open>
  The configuration of the payment gateways: \<open>src/src/server/payments/payment-config.ts\<close>. The
  environment maps the name of a variable to its value. What throws a plain \<open>Error\<close> is
  \<open>None\<close>.
\<close>

section \<open>Reading variables\<close>

datatype payment_provider = Paytabs | Paymob

definition providerText :: "payment_provider \<Rightarrow> string" where
  "providerText p = (case p of Paytabs \<Rightarrow> ''paytabs'' | Paymob \<Rightarrow> ''paymob'')"

definition SUPPORTED_PAYMENT_PROVIDERS :: "payment_provider list" where
  "SUPPORTED_PAYMENT_PROVIDERS = [Paytabs, Paymob]"

definition DEFAULT_PAYMENT_PROVIDER :: string where
  "DEFAULT_PAYMENT_PROVIDER = ''paymob''"

definition supportedPaymentProvider :: "string \<Rightarrow> payment_provider option" where
  "supportedPaymentProvider value = find (\<lambda>p. providerText p = value) SUPPORTED_PAYMENT_PROVIDERS"

text \<open>\<open>env.NAME\<close> where an unset variable and an empty one mean the same.\<close>

definition envText :: "env \<Rightarrow> string \<Rightarrow> string" where
  "envText env key = (case env key of None \<Rightarrow> [] | Some v \<Rightarrow> v)"

definition normalizePaymentProvider :: "string option \<Rightarrow> payment_provider api" where
  "normalizePaymentProvider value =
    (case supportedPaymentProvider (jsLower (jsTrim
        (orElse (case value of None \<Rightarrow> [] | Some v \<Rightarrow> v) DEFAULT_PAYMENT_PROVIDER))) of
       Some provider \<Rightarrow> Inr provider
     | None \<Rightarrow> Inl (ApiError 400 VALIDATION_ERROR ''Payment provider is not supported.''
         [\<lparr>ed_path = Some ''activeProvider'',
           ed_message = ''Supported payment providers are paytabs and paymob.'',
           ed_code = Some ''unsupported_provider''\<rparr>]))"

definition paymentProvider :: "env \<Rightarrow> payment_provider api" where
  "paymentProvider env = normalizePaymentProvider (env ''PAYMENT_PROVIDER'')"

definition paymentProviderEnabled :: "payment_provider \<Rightarrow> env \<Rightarrow> bool" where
  "paymentProviderEnabled provider env =
    (provider = Paymob \<or> env ''PAYTABS_ENABLED'' = Some ''true'')"

text \<open>
  \<open>Number.parseInt(text, 10)\<close>: leading whitespace, a sign, the digits that follow; \<open>None\<close> is
  NaN. The readers below test the number against bounds far below the numbers a double rounds.
\<close>

definition parseIntText :: "string \<Rightarrow> int option" where
  "parseIntText text =
    (let t = dropWhile jsWhitespace text;
         neg = (t \<noteq> [] \<and> hd t = CHR ''-'');
         u = (if t \<noteq> [] \<and> (hd t = CHR ''-'' \<or> hd t = CHR ''+'') then tl t else t);
         ds = takeWhile isDigit u
     in if ds = [] then None else Some ((if neg then -1 else 1) * int (natOfDigits ds)))"

definition boundedSetting :: "env \<Rightarrow> string \<Rightarrow> int \<Rightarrow> int \<Rightarrow> int \<Rightarrow> int" where
  "boundedSetting env key lo hi fallback =
    (case parseIntText (envText env key) of
       Some n \<Rightarrow> if lo \<le> n \<and> n \<le> hi then n else fallback
     | None \<Rightarrow> fallback)"

definition paymentReservationMinutes :: "env \<Rightarrow> int" where
  "paymentReservationMinutes env = boundedSetting env ''PAYMENT_ATTEMPT_EXPIRY_MINUTES'' 5 60 15"

definition paymobRequestTimeoutMs :: "env \<Rightarrow> int" where
  "paymobRequestTimeoutMs env = boundedSetting env ''PAYMOB_REQUEST_TIMEOUT_MS'' 3000 30000 10000"

definition paymentWebhookSecret :: "payment_provider \<Rightarrow> env \<Rightarrow> string" where
  "paymentWebhookSecret provider env =
    (case provider of
       Paymob \<Rightarrow> orElse (envText env ''PAYMOB_HMAC_SECRET'') (envText env ''PAYMENT_WEBHOOK_SECRET'')
     | Paytabs \<Rightarrow> orElse (envText env ''PAYTABS_WEBHOOK_SECRET'') (envText env ''PAYMENT_WEBHOOK_SECRET''))"

definition isProduction :: "env \<Rightarrow> bool" where
  "isProduction env = (env ''APP_ENV'' = Some ''production'' \<or> env ''NODE_ENV'' = Some ''production'')"

definition requireVerifiedWebhookSignature :: "env \<Rightarrow> bool" where
  "requireVerifiedWebhookSignature env =
    (isProduction env \<or> env ''PAYMENT_REQUIRE_WEBHOOK_SIGNATURE'' = Some ''true'')"

definition dropTrailingSlash :: "string \<Rightarrow> string" where
  "dropTrailingSlash s = (if s \<noteq> [] \<and> last s = CHR ''/'' then butlast s else s)"

text \<open>\<open>origin\<close> is that of the request's address, where there is a request.\<close>

definition publicAppUrl :: "string option \<Rightarrow> env \<Rightarrow> string option" where
  "publicAppUrl origin env =
    (let configured = orElse (envText env ''APP_ORIGIN'')
           (if isProduction env then []
            else orElse (envText env ''APP_URL'')
              (orElse (envText env ''NEXT_PUBLIC_APP_URL'') (envText env ''PUBLIC_APP_URL'')))
     in if configured \<noteq> [] then Some (dropTrailingSlash configured)
        else if isProduction env then None
        else case origin of Some o1 \<Rightarrow> Some o1 | None \<Rightarrow> Some ''http://localhost:3000'')"

text \<open>
  \<open>href\<close> is the address that \<open>new URL(base)\<close> prints after the parameters were set on it.
\<close>

type_synonym href = "string \<Rightarrow> (string \<times> string) list \<Rightarrow> string"

record return_options =
  ro_token :: "string option"
  ro_locale :: "string option"
  ro_status :: "string option"

definition paramWhen :: "string \<Rightarrow> string option \<Rightarrow> (string \<times> string) list" where
  "paramWhen key v = (case v of None \<Rightarrow> [] | Some s \<Rightarrow> if s = [] then [] else [(key, s)])"

definition paymentReturnUrl ::
  "href \<Rightarrow> string option \<Rightarrow> env \<Rightarrow> string \<Rightarrow> return_options \<Rightarrow> string option" where
  "paymentReturnUrl href origin env attemptId options =
    (let path = (if ro_locale options = Some ''ar'' then ''/ar/payment/consultation/return''
                 else ''/payment/consultation/return'')
     in map_option (\<lambda>base. href (base @ path)
          ([(''attemptId'', attemptId)] @ paramWhen ''token'' (ro_token options) @
           paramWhen ''locale'' (ro_locale options) @ paramWhen ''status'' (ro_status options)))
        (publicAppUrl origin env))"

definition paymentFailureUrl ::
  "href \<Rightarrow> string option \<Rightarrow> env \<Rightarrow> string \<Rightarrow> return_options \<Rightarrow> string option" where
  "paymentFailureUrl href origin env attemptId options =
    paymentReturnUrl href origin env attemptId (options\<lparr>ro_status := Some ''failed''\<rparr>)"

definition paymentWebhookUrl :: "payment_provider \<Rightarrow> string option \<Rightarrow> env \<Rightarrow> string option" where
  "paymentWebhookUrl provider origin env =
    map_option (\<lambda>base. base @ ''/api/webhooks/'' @ providerText provider) (publicAppUrl origin env)"

definition paytabsHostedCheckoutTemplate :: "env \<Rightarrow> string" where
  "paytabsHostedCheckoutTemplate env =
    orElse (envText env ''PAYTABS_HOSTED_CHECKOUT_URL_TEMPLATE'')
      (envText env ''PAYMENT_HOSTED_CHECKOUT_URL_TEMPLATE'')"

definition paymobApiBaseUrl :: "env \<Rightarrow> string" where
  "paymobApiBaseUrl env =
    dropTrailingSlash (orElse (envText env ''PAYMOB_API_BASE_URL'') ''https://accept.paymob.com'')"

definition paymobCheckoutBaseUrl :: "env \<Rightarrow> string" where
  "paymobCheckoutBaseUrl env =
    orElse (envText env ''PAYMOB_CHECKOUT_BASE_URL'') ''https://accept.paymob.com/unifiedcheckout/''"

text \<open>An id of digits is sent as a number, any other as a string.\<close>

datatype payment_method_id = MethodNumber nat | MethodName string

definition paymobPaymentMethodIds :: "env \<Rightarrow> payment_method_id list" where
  "paymobPaymentMethodIds env =
    map (\<lambda>v. if allDigits v then MethodNumber (natOfDigits v) else MethodName v)
      (filter (\<lambda>v. v \<noteq> [])
        (map jsTrim (splitOn (CHR '','') (envText env ''PAYMOB_PAYMENT_METHOD_IDS''))))"


section \<open>Readiness\<close>

record provider_readiness =
  rd_provider :: payment_provider
  rd_enabled :: bool
  rd_configured :: bool
  rd_missing :: "string list"
  rd_checkoutMode :: string

definition missingSettings :: "(string \<times> string) list \<Rightarrow> string list" where
  "missingSettings required =
    map fst (filter (\<lambda>(_, value). value = [] \<or> hasInfix ''CHANGE_ME'' value) required)"

definition requiredSettings :: "payment_provider \<Rightarrow> env \<Rightarrow> (string \<times> string) list" where
  "requiredSettings provider env =
    (case provider of
       Paymob \<Rightarrow> map (\<lambda>key. (key, envText env key))
         [''PAYMOB_SECRET_KEY'', ''PAYMOB_PUBLIC_KEY'', ''PAYMOB_HMAC_SECRET'', ''PAYMOB_PAYMENT_METHOD_IDS'']
     | Paytabs \<Rightarrow> [(''PAYTABS_HOSTED_CHECKOUT_URL_TEMPLATE'', paytabsHostedCheckoutTemplate env),
         (''PAYTABS_WEBHOOK_SECRET'',
          orElse (envText env ''PAYTABS_WEBHOOK_SECRET'') (envText env ''PAYMENT_WEBHOOK_SECRET''))])"

definition paymentProviderReadiness :: "payment_provider \<Rightarrow> env \<Rightarrow> provider_readiness" where
  "paymentProviderReadiness provider env =
    (let missing = missingSettings (requiredSettings provider env)
     in \<lparr>rd_provider = provider,
         rd_enabled = (case provider of Paymob \<Rightarrow> True | Paytabs \<Rightarrow> paymentProviderEnabled provider env),
         rd_configured = (missing = []), rd_missing = missing,
         rd_checkoutMode = (case provider of Paymob \<Rightarrow> ''paymob-unified-checkout''
                            | Paytabs \<Rightarrow> ''hosted-checkout-url-template'')\<rparr>)"

definition assertProviderReadyForActivation :: "payment_provider \<Rightarrow> env \<Rightarrow> unit api" where
  "assertProviderReadyForActivation provider env =
    andThen (require (paymentProviderEnabled provider env)
      (ApiError 409 PAYMENT_PROVIDER_DISABLED ''Payment provider is disabled for new payment attempts.''
        [\<lparr>ed_path = Some ''activeProvider'',
          ed_message = providerText provider @ '' is configured as a disabled standby provider.'',
          ed_code = Some ''payment_provider_disabled''\<rparr>])) (\<lambda>_.
    let readiness = paymentProviderReadiness provider env
    in require (rd_configured readiness)
      (ApiError 409 CONFLICT ''Payment provider is not configured.''
        (map (\<lambda>key. \<lparr>ed_path = Some key,
            ed_message = key @ '' is required before activating '' @ providerText provider @ ''.'',
            ed_code = Some ''missing_payment_provider_config''\<rparr>) (rd_missing readiness))))"

definition assertLiveProviderConfigured :: "payment_provider \<Rightarrow> env \<Rightarrow> unit api" where
  "assertLiveProviderConfigured provider env =
    andThen (require (paymentProviderEnabled provider env)
      (apiError 503 SERVICE_UNAVAILABLE ''Payment provider is disabled for new payment attempts.'')) (\<lambda>_.
    if rd_configured (paymentProviderReadiness provider env) then Inr ()
    else require (\<not> isProduction env)
      (apiError 503 SERVICE_UNAVAILABLE ''Payment provider is not configured for production checkout.''))"


section \<open>Laws\<close>

lemma boundedSetting_bounds:
  "lo \<le> fallback \<Longrightarrow> fallback \<le> hi \<Longrightarrow> lo \<le> boundedSetting env key lo hi fallback"
  "lo \<le> fallback \<Longrightarrow> fallback \<le> hi \<Longrightarrow> boundedSetting env key lo hi fallback \<le> hi"
  by (auto simp: boundedSetting_def split: option.splits)

lemma paymentReservationMinutes_bounds:
  "5 \<le> paymentReservationMinutes env" "paymentReservationMinutes env \<le> 60"
  by (simp_all add: paymentReservationMinutes_def boundedSetting_bounds)

lemma supportedPaymentProvider_text [simp]: "supportedPaymentProvider (providerText p) = Some p"
  by (cases p) (simp_all add: supportedPaymentProvider_def SUPPORTED_PAYMENT_PROVIDERS_def providerText_def)

lemma normalizePaymentProvider_text [simp]: "normalizePaymentProvider (Some (providerText p)) = Inr p"
proof -
  have n: "providerText p \<noteq> []" by (cases p) (simp_all add: providerText_def)
  have t: "jsLower (jsTrim (providerText p)) = providerText p"
    by (cases p) (simp_all only: providerText_def payment_provider.case, code_simp+)
  show ?thesis by (simp add: normalizePaymentProvider_def n t)
qed

text \<open>
  In production a checkout is begun only with a provider whose every setting is present and is
  not the placeholder of the example file.
\<close>

lemma live_provider_complete:
  assumes "isProduction env" and "assertLiveProviderConfigured provider env = Inr u"
    and "(key, value) \<in> set (requiredSettings provider env)"
  shows "value \<noteq> [] \<and> \<not> hasInfix ''CHANGE_ME'' value"
proof -
  from assms(1,2) have "missingSettings (requiredSettings provider env) = []"
    by (auto simp: assertLiveProviderConfigured_def paymentProviderReadiness_def Let_def split: if_splits)
  with assms(3) show ?thesis
    by (auto simp: missingSettings_def filter_empty_conv)
qed

end
