(* ===== verification/PaymentProvider.thy ===== *)
theory PaymentProvider
  imports PaymentConfig
begin

text \<open>
  What the gateways send and how it is read: \<open>src/src/server/payments/payment-provider.ts\<close> and
  the stored payloads of \<open>src/src/server/payments/payment-webhook-safety.ts\<close>. The digests of the
  platform's cryptography are parameters.
\<close>

datatype hmac_algorithm = SHA256 | SHA512

record gateway_platform =
  gp_hmacHex :: "hmac_algorithm \<Rightarrow> string \<Rightarrow> string \<Rightarrow> string"
  gp_sha256Hex :: "string \<Rightarrow> string"
  gp_longCents :: "string \<Rightarrow> string"


section \<open>Values of a body\<close>

definition stringValue :: "json option \<Rightarrow> string" where
  "stringValue value =
    (case value of None \<Rightarrow> [] | Some v \<Rightarrow> if v = JNull then [] else jsonText v)"

definition booleanValue :: "json option \<Rightarrow> bool" where
  "booleanValue value =
    (value \<in> {Some (JBool True), Some (JStr ''true''), Some (JStr ''True''), Some (JStr ''1'')})"

fun nestedValue :: "json option \<Rightarrow> string list \<Rightarrow> json option" where
  "nestedValue value [] = value"
| "nestedValue value (segment # path) =
     (case value of
        Some (JObj ms) \<Rightarrow> nestedValue (map_of ms segment) path
      | _ \<Rightarrow> None)"

text \<open>\<open>String(a || b || "")\<close>.\<close>

definition firstTruthyText :: "json option list \<Rightarrow> string" where
  "firstTruthyText vs = (case find optTruthy vs of Some (Some v) \<Rightarrow> jsonText v | _ \<Rightarrow> [])"

text \<open>\<open>a || b\<close> on texts.\<close>

definition firstText :: "string list \<Rightarrow> string" where
  "firstText ts = (case find (\<lambda>t. t \<noteq> []) ts of Some t \<Rightarrow> t | None \<Rightarrow> [])"


section \<open>Statuses\<close>

datatype payment_status = P_PAID | P_PENDING | P_REFUNDED | P_DISPUTED | P_CANCELLED | P_EXPIRED | P_FAILED

definition paymentStatusText :: "payment_status \<Rightarrow> string" where
  "paymentStatusText s =
    (case s of P_PAID \<Rightarrow> ''PAID'' | P_PENDING \<Rightarrow> ''PENDING'' | P_REFUNDED \<Rightarrow> ''REFUNDED''
     | P_DISPUTED \<Rightarrow> ''DISPUTED'' | P_CANCELLED \<Rightarrow> ''CANCELLED'' | P_EXPIRED \<Rightarrow> ''EXPIRED''
     | P_FAILED \<Rightarrow> ''FAILED'')"

definition mapProviderPaymentStatus :: "string \<Rightarrow> payment_status" where
  "mapProviderPaymentStatus status =
    (let value = jsLower (jsTrim status)
     in if value \<in> set [''a'', ''paid'', ''success'', ''succeeded'', ''captured'', ''approved'', ''true''] then P_PAID
        else if value \<in> set [''p'', ''pending'', ''created'', ''processing'', ''authorized'', ''auth''] then P_PENDING
        else if value \<in> set [''r'', ''refunded'', ''refund''] then P_REFUNDED
        else if value \<in> set [''d'', ''disputed'', ''chargeback''] then P_DISPUTED
        else if value \<in> set [''c'', ''cancelled'', ''canceled'', ''void'', ''voided''] then P_CANCELLED
        else if value \<in> set [''expired'', ''timeout'', ''timed_out''] then P_EXPIRED
        else P_FAILED)"

definition paytabsPaymentStatus :: "string \<Rightarrow> string \<Rightarrow> payment_status" where
  "paytabsPaymentStatus responseStatus transactionType =
    (let code = jsUpper (jsTrim responseStatus)
     in if code = ''A'' then
          (if transactionType \<in> {''sale'', ''capture''} then P_PAID
           else if transactionType = ''refund'' then P_REFUNDED
           else if transactionType = ''void'' then P_CANCELLED
           else P_PENDING)
        else if code = ''H'' \<or> code = ''P'' then P_PENDING
        else if code = ''V'' then P_CANCELLED
        else if code = ''X'' then P_EXPIRED
        else if code = ''D'' \<or> code = ''E'' then P_FAILED
        else let status = mapProviderPaymentStatus responseStatus
             in if status = P_PAID then
                  (if transactionType = ''auth'' then P_PENDING
                   else if transactionType = ''refund'' then P_REFUNDED
                   else if transactionType = ''void'' then P_CANCELLED
                   else status)
                else status)"

definition paymobRawStatus :: "json \<Rightarrow> string" where
  "paymobRawStatus obj =
    (let flag = (\<lambda>key. booleanValue (memberOf obj key))
     in if flag ''is_refunded'' then ''refunded''
        else if flag ''is_voided'' then ''voided''
        else if flag ''pending'' then ''pending''
        else if flag ''error_occured'' then ''failed''
        else if flag ''success'' then
          (if flag ''is_auth'' then ''authorized''
           else if flag ''is_capture'' \<or> flag ''is_standalone_payment'' then ''paid''
           else ''pending'')
        else ''failed'')"


section \<open>Amounts\<close>

text \<open>
  \<open>(cents / 100).toFixed(2)\<close>, exact for up to fifteen digits; longer texts, which no amount
  column holds, are read by the platform's floating point.
\<close>

definition centsText :: "nat \<Rightarrow> string" where
  "centsText n = natToText (n div 100) @ ''.'' @ padStart 2 (CHR ''0'') (natToText (n mod 100))"

definition centsToAmountText :: "gateway_platform \<Rightarrow> string \<Rightarrow> string" where
  "centsToAmountText pf value =
    (if \<not> allDigits value then value
     else if length value \<le> 15 then centsText (natOfDigits value)
     else gp_longCents pf value)"

definition decimalAmountToMinorUnits :: "string \<Rightarrow> nat" where
  "decimalAmountToMinorUnits amount =
    (case splitOn (CHR ''.'') amount of
       [] \<Rightarrow> 0
     | whole # rest \<Rightarrow>
       (let fraction = (case rest of [] \<Rightarrow> [] | f # _ \<Rightarrow> f);
            cents = take 2 (fraction @ ''00'')
        in natOfDigits (takeWhile isDigit (orElse (filter isDigit whole) ''0'' @ cents))))"


section \<open>Signatures\<close>

definition hexDigit :: "char \<Rightarrow> bool" where
  "hexDigit c = (let n = codeUnit c in (48 \<le> n \<and> n \<le> 57) \<or> (65 \<le> n \<and> n \<le> 70) \<or> (97 \<le> n \<and> n \<le> 102))"

definition hexDigitValue :: "char \<Rightarrow> nat" where
  "hexDigitValue c = (let n = codeUnit c in
     if n \<le> 57 then n - 48 else if n \<le> 70 then n - 55 else n - 87)"

text \<open>\<open>Buffer.from(text, "hex")\<close> on hexadecimal digits; a digit without a partner is dropped.\<close>

fun hexBytes :: "string \<Rightarrow> nat list" where
  "hexBytes (a # b # cs) = (16 * hexDigitValue a + hexDigitValue b) # hexBytes cs"
| "hexBytes _ = []"

definition timingSafeHexEqual :: "string \<Rightarrow> string \<Rightarrow> bool" where
  "timingSafeHexEqual left right =
    (left \<noteq> [] \<and> list_all hexDigit left \<and> right \<noteq> [] \<and> list_all hexDigit right \<and>
     length (hexBytes left) = length (hexBytes right) \<and> hexBytes left = hexBytes right)"

text \<open>\<open>trim().replace(/^sha(256|512)=/i, "")\<close>\<close>

definition normalizeSignature :: "string \<Rightarrow> string" where
  "normalizeSignature value =
    (let t = jsTrim value
     in if jsLower (take 7 t) \<in> {''sha256='', ''sha512=''} then drop 7 t else t)"

definition paymobWebhookObject :: "json \<Rightarrow> json" where
  "paymobWebhookObject body =
    (case memberOf body ''obj'' of Some (JObj ms) \<Rightarrow> JObj ms | _ \<Rightarrow> body)"

definition paymobHmacFields :: "string list" where
  "paymobHmacFields =
    [''amount_cents'', ''created_at'', ''currency'', ''error_occured'', ''has_parent_transaction'', ''id'',
     ''integration_id'', ''is_3d_secure'', ''is_auth'', ''is_capture'', ''is_refunded'',
     ''is_standalone_payment'', ''is_voided'', ''order'', ''owner'', ''pending'', ''source_data_pan'',
     ''source_data_sub_type'', ''source_data_type'', ''success'']"

definition sourceDataKey :: "string \<Rightarrow> string option" where
  "sourceDataKey field =
    (if field = ''source_data_pan'' then Some ''pan''
     else if field = ''source_data_sub_type'' then Some ''sub_type''
     else if field = ''source_data_type'' then Some ''type'' else None)"

definition paymobHmacFieldValue :: "json \<Rightarrow> string \<Rightarrow> json option" where
  "paymobHmacFieldValue obj field =
    (case sourceDataKey field of
       Some key \<Rightarrow> (let v = nestedValue (Some obj) [''source_data'', key]
                   in if nullish v then nestedValue (Some obj) [field] else v)
     | None \<Rightarrow> nestedValue (Some obj) [field])"

definition paymobHmacValue :: "string \<Rightarrow> json option \<Rightarrow> string" where
  "paymobHmacValue field value =
    (case value of
       None \<Rightarrow> []
     | Some v \<Rightarrow>
       if field = ''order'' \<and> isObject v then stringValue (memberOf v ''id'') else stringValue value)"

definition paymobWebhookHmacSource :: "json \<Rightarrow> string" where
  "paymobWebhookHmacSource body =
    (let obj = paymobWebhookObject body
     in if \<not> list_ex (\<lambda>field. paymobHmacFieldValue obj field \<noteq> None) paymobHmacFields then []
        else concat (map (\<lambda>field. paymobHmacValue field (paymobHmacFieldValue obj field)) paymobHmacFields))"

definition paymobWebhookFingerprint :: "gateway_platform \<Rightarrow> json \<Rightarrow> string" where
  "paymobWebhookFingerprint pf body = gp_sha256Hex pf (paymobWebhookHmacSource body)"

definition verifyWebhookSignature ::
  "gateway_platform \<Rightarrow> payment_provider \<Rightarrow> string \<Rightarrow> string option \<Rightarrow> string \<Rightarrow> json \<Rightarrow> bool" where
  "verifyWebhookSignature pf provider rawBody signature secret parsedBody =
    (case signature of
       None \<Rightarrow> False
     | Some given \<Rightarrow>
       if secret = [] \<or> given = [] then False
       else let s = normalizeSignature given
            in case provider of
                 Paymob \<Rightarrow> (let canonical = paymobWebhookHmacSource parsedBody
                           in canonical \<noteq> [] \<and> timingSafeHexEqual s (gp_hmacHex pf SHA512 secret canonical))
               | Paytabs \<Rightarrow> timingSafeHexEqual s (gp_hmacHex pf SHA256 secret rawBody))"

text \<open>
  A request as the webhook reads it: the \<open>hmac\<close> parameter of its address, and its headers,
  whose names do not depend on case.
\<close>

record webhook_request =
  wr_hmacParam :: "string option"
  wr_header :: "string \<Rightarrow> string option"
  wr_rawBody :: string
  wr_requestId :: string

definition optTextOr :: "string option \<Rightarrow> string option \<Rightarrow> string option" where
  "optTextOr a b = (case a of Some s \<Rightarrow> if s = [] then b else a | None \<Rightarrow> b)"

definition webhookSignature :: "webhook_request \<Rightarrow> payment_provider \<Rightarrow> json \<Rightarrow> string option" where
  "webhookSignature req provider body =
    (case provider of
       Paymob \<Rightarrow> optTextOr (wr_hmacParam req) (optTextOr (wr_header req ''x-paymob-hmac'')
         (optTextOr (Some (stringValue (memberOf body ''hmac'')))
           (Some (stringValue (nestedValue (Some body) [''obj'', ''hmac''])))))
     | Paytabs \<Rightarrow> optTextOr (wr_header req ''x-kmt-payment-signature'')
         (optTextOr (wr_header req ''x-paytabs-signature'')
           (optTextOr (wr_header req ''signature'') (wr_header req ''signature''))))"

definition providerWebhookEventId ::
  "gateway_platform \<Rightarrow> json \<Rightarrow> payment_provider \<Rightarrow> string \<Rightarrow> string" where
  "providerWebhookEventId pf body provider payloadHash =
    (case provider of
       Paymob \<Rightarrow> stringValue (memberOf (paymobWebhookObject body) ''id'') @ '':'' @ paymobWebhookFingerprint pf body
     | Paytabs \<Rightarrow> firstTruthyText
         [memberOf body ''eventId'', memberOf body ''id'', memberOf body ''tran_ref'',
          memberOf body ''transaction_id'', memberOf body ''cart_id'', Some (JStr payloadHash)])"


section \<open>Normalized payloads\<close>

record normalized_payload =
  np_provider :: payment_provider
  np_attemptId :: string
  np_providerTransactionId :: "string option"
  np_providerOrderId :: "string option"
  np_rawStatus :: string
  np_status :: payment_status
  np_amount :: string
  np_currency :: string

definition textOrNone :: "string \<Rightarrow> string option" where
  "textOrNone s = (if s = [] then None else Some s)"

definition normalizePaytabsWebhookPayload :: "json \<Rightarrow> payment_provider \<Rightarrow> normalized_payload api" where
  "normalizePaytabsWebhookPayload body provider =
    (let field = memberOf body;
         attemptId = firstTruthyText [field ''attemptId'', field ''cart_id'', field ''cartId''];
         providerTransactionId = firstTruthyText
           [field ''transactionId'', field ''tran_ref'', field ''transaction_id'', field ''providerTransactionId''];
         responseStatus = firstTruthyText
           [field ''status'', field ''respStatus'', nestedValue (Some body) [''payment_result'', ''response_status'']];
         transactionType = jsLower (stringValue (field ''tran_type''))
     in andThen (require (attemptId \<noteq> [])
          (apiError 400 VALIDATION_ERROR ''Payment webhook attempt id is missing.'')) (\<lambda>_.
        Inr \<lparr>np_provider = provider, np_attemptId = attemptId,
             np_providerTransactionId = textOrNone providerTransactionId, np_providerOrderId = None,
             np_rawStatus = responseStatus, np_status = paytabsPaymentStatus responseStatus transactionType,
             np_amount = firstTruthyText [field ''amount'', field ''cart_amount''],
             np_currency = firstTruthyText [field ''currency'', field ''cart_currency'']\<rparr>))"

definition normalizePaymobWebhookPayload ::
  "gateway_platform \<Rightarrow> json \<Rightarrow> string \<Rightarrow> normalized_payload api" where
  "normalizePaymobWebhookPayload pf body payloadHash =
    (let obj = paymobWebhookObject body; at1 = (\<lambda>path. stringValue (nestedValue (Some obj) path));
         attemptId = firstText
           [stringValue (memberOf body ''attemptId''), at1 [''attemptId''], at1 [''merchant_order_id''],
            at1 [''order'', ''merchant_order_id''], at1 [''payment_key_claims'', ''extra'', ''attemptId''],
            at1 [''payment_key_claims'', ''extra'', ''attempt_id''], at1 [''extra'', ''attemptId''],
            at1 [''extras'', ''attemptId'']];
         providerTransactionId = at1 [''id''];
         providerOrderId = firstText [at1 [''order'', ''id''], at1 [''order'']];
         rawStatus = paymobRawStatus obj
     in andThen (require (providerOrderId \<noteq> [] \<and> providerTransactionId \<noteq> [])
          (apiError 400 VALIDATION_ERROR ''Payment webhook order or transaction id is missing.'')) (\<lambda>_.
        Inr \<lparr>np_provider = Paymob, np_attemptId = attemptId,
             np_providerTransactionId = Some (orElse providerTransactionId payloadHash),
             np_providerOrderId = Some providerOrderId, np_rawStatus = rawStatus,
             np_status = mapProviderPaymentStatus rawStatus,
             np_amount = centsToAmountText pf (at1 [''amount_cents'']),
             np_currency = at1 [''currency'']\<rparr>))"

definition normalizeProviderWebhookPayload ::
  "gateway_platform \<Rightarrow> json \<Rightarrow> payment_provider \<Rightarrow> string \<Rightarrow> normalized_payload api" where
  "normalizeProviderWebhookPayload pf body provider payloadHash =
    (case provider of
       Paymob \<Rightarrow> normalizePaymobWebhookPayload pf body payloadHash
     | Paytabs \<Rightarrow> normalizePaytabsWebhookPayload body provider)"


section \<open>Stored payloads\<close>

definition payloadJson :: "normalized_payload \<Rightarrow> json" where
  "payloadJson np =
    JObj ([(''provider'', JStr (providerText (np_provider np))), (''attemptId'', JStr (np_attemptId np)),
      (''providerTransactionId'', case np_providerTransactionId np of None \<Rightarrow> JNull | Some t \<Rightarrow> JStr t)] @
      (case np_providerOrderId np of None \<Rightarrow> [] | Some ord \<Rightarrow> [(''providerOrderId'', JStr ord)]) @
      [(''rawStatus'', JStr (np_rawStatus np)), (''status'', JStr (paymentStatusText (np_status np))),
       (''amount'', JStr (np_amount np)), (''currency'', JStr (np_currency np))])"

definition stringMember :: "json \<Rightarrow> string \<Rightarrow> string option" where
  "stringMember v key = (case memberOf v key of Some (JStr s) \<Rightarrow> Some s | _ \<Rightarrow> None)"

definition textMember :: "json \<Rightarrow> string \<Rightarrow> string \<Rightarrow> string" where
  "textMember v key fallback = (case stringMember v key of Some s \<Rightarrow> s | None \<Rightarrow> fallback)"

definition parseStoredNormalizedPayload :: "json option \<Rightarrow> normalized_payload option" where
  "parseStoredNormalizedPayload value =
    (case value of
       Some (JObj ms) \<Rightarrow>
         (let body = JObj ms; status = textMember body ''status'' []; attemptId = textMember body ''attemptId'' []
          in if attemptId = [] \<or> status = [] then None
             else Some \<lparr>np_provider = (case stringMember body ''provider'' of
                      Some s \<Rightarrow> (case supportedPaymentProvider s of Some p \<Rightarrow> p | None \<Rightarrow> Paytabs)
                    | None \<Rightarrow> Paytabs),
                  np_attemptId = attemptId,
                  np_providerTransactionId = stringMember body ''providerTransactionId'',
                  np_providerOrderId = stringMember body ''providerOrderId'',
                  np_rawStatus = textMember body ''rawStatus'' [],
                  np_status = mapProviderPaymentStatus status,
                  np_amount = textMember body ''amount'' [],
                  np_currency = textMember body ''currency'' ''EGP''\<rparr>)
     | _ \<Rightarrow> None)"


section \<open>Hosted checkout\<close>

record checkout_customer =
  cc_name :: string
  cc_email :: "string option"
  cc_phone :: "string option"

record checkout_input =
  ci_attemptId :: string
  ci_amount :: string
  ci_currency :: string
  ci_description :: string
  ci_customer :: checkout_customer
  ci_statusToken :: string
  ci_locale :: string
  ci_expiresAt :: "int option"

record hosted_checkout =
  hc_provider :: payment_provider
  hc_checkoutUrl :: string
  hc_providerSessionId :: string
  hc_providerOrderId :: "string option"

text \<open>What the gateway answers: nothing in time, no connection, or a status and a body.\<close>

datatype gateway_answer = TimedOut | Unreachable | Answered bool "json option"

text \<open>\<open>split(/\s+/)\<close> without the empty parts.\<close>

fun wordsOf :: "string \<Rightarrow> string list" where
  "wordsOf [] = []"
| "wordsOf (c # cs) =
     (if jsWhitespace c then wordsOf cs
      else case cs of
             [] \<Rightarrow> [[c]]
           | d # _ \<Rightarrow> if jsWhitespace d then [c] # wordsOf cs
                      else (case wordsOf cs of [] \<Rightarrow> [[c]] | w # ws \<Rightarrow> (c # w) # ws))"

definition spaceJoin :: "string list \<Rightarrow> string" where
  "spaceJoin ws = (case ws of [] \<Rightarrow> [] | w # rest \<Rightarrow> w @ concat (map (\<lambda>x. '' '' @ x) rest))"

definition splitName :: "string \<Rightarrow> string \<times> string" where
  "splitName name =
    (let parts = wordsOf (jsTrim name)
     in (case parts of [] \<Rightarrow> ''KMT'' | p # _ \<Rightarrow> p, orElse (spaceJoin (tl parts)) ''Legal''))"

definition textOr :: "string option \<Rightarrow> string \<Rightarrow> string" where
  "textOr x d = (case x of None \<Rightarrow> d | Some s \<Rightarrow> orElse s d)"

definition paymobBillingData :: "checkout_customer \<Rightarrow> json" where
  "paymobBillingData customer =
    (let (firstName, lastName) = splitName (cc_name customer)
     in JObj [(''apartment'', JStr ''NA''), (''first_name'', JStr firstName), (''last_name'', JStr lastName),
        (''street'', JStr ''NA''), (''building'', JStr ''NA''),
        (''phone_number'', JStr (textOr (cc_phone customer) ''NA'')), (''city'', JStr ''Cairo''),
        (''country'', JStr ''EG''), (''email'', JStr (textOr (cc_email customer) ''payments@kmtlegal.local'')),
        (''floor'', JStr ''NA''), (''state'', JStr ''NA'')])"

definition paymobCustomer :: "checkout_customer \<Rightarrow> json" where
  "paymobCustomer customer =
    (let (firstName, lastName) = splitName (cc_name customer)
     in JObj [(''first_name'', JStr firstName), (''last_name'', JStr lastName),
        (''email'', JStr (textOr (cc_email customer) ''payments@kmtlegal.local''))])"

definition statusReturnOptions :: "checkout_input \<Rightarrow> return_options" where
  "statusReturnOptions input =
    \<lparr>ro_token = Some (ci_statusToken input), ro_locale = Some (ci_locale input), ro_status = None\<rparr>"

text \<open>\<open>encodeURIComponent\<close>: a code unit from 128 up is the two bytes of its UTF-8 form.\<close>

definition hexUpper :: "nat \<Rightarrow> char" where
  "hexUpper d = char_of (if d < 10 then 48 + d else 55 + d)"

definition percentByte :: "nat \<Rightarrow> string" where
  "percentByte b = [CHR ''%'', hexUpper (b div 16), hexUpper (b mod 16)]"

definition uriUnreserved :: "char \<Rightarrow> bool" where
  "uriUnreserved c = (let n = codeUnit c in
     isDigit c \<or> (65 \<le> n \<and> n \<le> 90) \<or> (97 \<le> n \<and> n \<le> 122) \<or> c \<in> set ''-_.!~*()'' \<or> n = 39)"

definition encodeURIComponent :: "string \<Rightarrow> string" where
  "encodeURIComponent s = concat (map (\<lambda>c. let n = codeUnit c in
     if uriUnreserved c then [c]
     else if n < 128 then percentByte n
     else percentByte (192 + n div 64) @ percentByte (128 + n mod 64)) s)"

text \<open>The placeholders of the template, in the order of the expression; \<open>skip\<close> counts matched units.\<close>

definition templateKeys :: "string list" where
  "templateKeys = [''attemptId'', ''amount'', ''currency'', ''returnUrl'', ''failureUrl'', ''webhookUrl'']"

fun fillTemplate :: "(string \<Rightarrow> string) \<Rightarrow> nat \<Rightarrow> string \<Rightarrow> string" where
  "fillTemplate f skip [] = []"
| "fillTemplate f (Suc skip) (c # cs) = fillTemplate f skip cs"
| "fillTemplate f 0 (c # cs) =
     (case find (\<lambda>key. startsWith (CHR ''{'' # key @ ''}'') (c # cs)) templateKeys of
        Some key \<Rightarrow> f key @ fillTemplate f (length key + 1) cs
      | None \<Rightarrow> c # fillTemplate f 0 cs)"

record checkout_platform =
  cp_env :: env
  cp_origin :: "string option"
  cp_href :: href
  cp_post :: "string \<Rightarrow> json \<Rightarrow> gateway_answer"

text \<open>
  What a checkout throws: an \<open>ApiError\<close>, the missing public address, or the read of a member of
  an answer whose body is \<open>null\<close>.
\<close>

datatype checkout_throw = CheckoutApi api_error | NoPublicUrl | NullAnswer

definition checkoutApi :: "'a api \<Rightarrow> checkout_throw + 'a" where
  "checkoutApi r = (case r of Inl e \<Rightarrow> Inl (CheckoutApi e) | Inr x \<Rightarrow> Inr x)"

definition needUrl :: "string option \<Rightarrow> checkout_throw + string" where
  "needUrl u = (case u of None \<Rightarrow> Inl NoPublicUrl | Some s \<Rightarrow> Inr s)"

definition returnUrlOf :: "checkout_platform \<Rightarrow> checkout_input \<Rightarrow> checkout_throw + string" where
  "returnUrlOf cp input = needUrl (paymentReturnUrl (cp_href cp) (cp_origin cp) (cp_env cp)
     (ci_attemptId input) (statusReturnOptions input))"

definition failureUrlOf :: "checkout_platform \<Rightarrow> checkout_input \<Rightarrow> checkout_throw + string" where
  "failureUrlOf cp input = needUrl (paymentFailureUrl (cp_href cp) (cp_origin cp) (cp_env cp)
     (ci_attemptId input) (statusReturnOptions input))"

definition renderCheckoutTemplate ::
  "checkout_platform \<Rightarrow> string \<Rightarrow> checkout_input \<Rightarrow> checkout_throw + string" where
  "renderCheckoutTemplate cp template input =
    andThen (returnUrlOf cp input) (\<lambda>returnUrl.
    andThen (failureUrlOf cp input) (\<lambda>failureUrl.
    andThen (needUrl (paymentWebhookUrl Paytabs (cp_origin cp) (cp_env cp))) (\<lambda>webhookUrl.
      let replacements = map_of [(''attemptId'', ci_attemptId input), (''amount'', ci_amount input),
            (''currency'', ci_currency input), (''returnUrl'', returnUrl), (''failureUrl'', failureUrl),
            (''webhookUrl'', webhookUrl)]
      in Inr (fillTemplate (\<lambda>key. encodeURIComponent
           (case replacements key of None \<Rightarrow> [] | Some v \<Rightarrow> v)) 0 template))))"

definition createPaytabsHostedCheckout ::
  "checkout_platform \<Rightarrow> checkout_input \<Rightarrow> checkout_throw + hosted_checkout" where
  "createPaytabsHostedCheckout cp input =
    andThen (checkoutApi (assertLiveProviderConfigured Paytabs (cp_env cp))) (\<lambda>_.
    let templatedUrl = paytabsHostedCheckoutTemplate (cp_env cp)
    in andThen (if templatedUrl \<noteq> [] then renderCheckoutTemplate cp templatedUrl input
                else returnUrlOf cp input) (\<lambda>url.
       Inr \<lparr>hc_provider = Paytabs, hc_checkoutUrl = url, hc_providerSessionId = ci_attemptId input,
            hc_providerOrderId = None\<rparr>))"

definition methodJson :: "payment_method_id \<Rightarrow> json" where
  "methodJson m = (case m of MethodNumber n \<Rightarrow> JNum (natToText n) | MethodName s \<Rightarrow> JStr s)"

definition intText :: "int \<Rightarrow> string" where
  "intText n = (if n < 0 then ''-'' @ natToText (nat (- n)) else natToText (nat n))"

definition paymobPayload ::
  "int \<Rightarrow> checkout_input \<Rightarrow> payment_method_id list \<Rightarrow> string \<Rightarrow> string \<Rightarrow> string \<Rightarrow> json" where
  "paymobPayload now input paymentMethods returnUrl failureUrl webhookUrl =
    (let amountMinor = JNum (natToText (decimalAmountToMinorUnits (ci_amount input)))
     in JObj ([(''amount'', amountMinor)] @
        (case ci_expiresAt input of
           None \<Rightarrow> [] | Some t \<Rightarrow> [(''expiration'', JNum (intText (max 1 ((t - now) div 1000))))]) @
        [(''currency'', JStr (ci_currency input)), (''payment_methods'', JArr (map methodJson paymentMethods)),
         (''items'', JArr [JObj [(''name'', JStr ''KMT Legal consultation booking''), (''amount'', amountMinor),
            (''description'', JStr (ci_description input)), (''quantity'', JNum ''1'')]]),
         (''billing_data'', paymobBillingData (ci_customer input)),
         (''customer'', paymobCustomer (ci_customer input)),
         (''extras'', JObj [(''attemptId'', JStr (ci_attemptId input)), (''returnUrl'', JStr returnUrl),
            (''failureUrl'', JStr failureUrl)]),
         (''notification_url'', JStr webhookUrl), (''redirection_url'', JStr returnUrl)]))"

definition buildPaymobCheckoutUrl :: "checkout_platform \<Rightarrow> string \<Rightarrow> string" where
  "buildPaymobCheckoutUrl cp clientSecret =
    (let publicKey = envText (cp_env cp) ''PAYMOB_PUBLIC_KEY''
     in if clientSecret = [] \<or> publicKey = [] then []
        else cp_href cp (paymobCheckoutBaseUrl (cp_env cp))
          [(''publicKey'', publicKey), (''clientSecret'', clientSecret)])"

definition unavailable :: "nat \<Rightarrow> string \<Rightarrow> checkout_throw + 'a" where
  "unavailable status message = Inl (CheckoutApi (apiError status SERVICE_UNAVAILABLE message))"

text \<open>The answer of the gateway, read: its address, its session and the order it is bound to.\<close>

definition readPaymobAnswer ::
  "checkout_platform \<Rightarrow> checkout_input \<Rightarrow> gateway_answer \<Rightarrow> checkout_throw + hosted_checkout" where
  "readPaymobAnswer cp input response =
    (case response of
       TimedOut \<Rightarrow> unavailable 504 ''Paymob checkout creation timed out.''
     | Unreachable \<Rightarrow> unavailable 502 ''Paymob checkout creation failed.''
     | Answered ok parsed \<Rightarrow>
       if \<not> ok then unavailable 502 ''Paymob checkout creation failed.''
       else if parsed = Some JNull then Inl NullAnswer
       else let body = (case parsed of None \<Rightarrow> JObj [] | Some v \<Rightarrow> v);
                field = (\<lambda>key. stringValue (memberOf body key));
                clientSecret = orElse (field ''client_secret'') (field ''clientSecret'');
                checkoutUrl = orElse (field ''checkout_url'')
                  (orElse (field ''checkoutUrl'') (buildPaymobCheckoutUrl cp clientSecret));
                providerSessionId = orElse (field ''id'') (orElse (field ''intention_id'')
                  (orElse (field ''intentionId'') (ci_attemptId input)));
                providerOrderId = field ''intention_order_id''
            in if checkoutUrl = [] then unavailable 502 ''Paymob checkout response did not include a checkout URL.''
               else if \<not> allDigits providerOrderId
                 then unavailable 502 ''Paymob checkout response did not include a valid order ID.''
               else Inr \<lparr>hc_provider = Paymob, hc_checkoutUrl = checkoutUrl,
                      hc_providerSessionId = providerSessionId, hc_providerOrderId = Some providerOrderId\<rparr>)"

definition createPaymobHostedCheckout ::
  "checkout_platform \<Rightarrow> int \<Rightarrow> checkout_input \<Rightarrow> checkout_throw + hosted_checkout" where
  "createPaymobHostedCheckout cp now input =
    andThen (checkoutApi (assertLiveProviderConfigured Paymob (cp_env cp))) (\<lambda>_.
    let paymentMethods = paymobPaymentMethodIds (cp_env cp)
    in if paymentMethods = [] then unavailable 503 ''Paymob payment methods are not configured.''
       else andThen (returnUrlOf cp input) (\<lambda>returnUrl.
            andThen (failureUrlOf cp input) (\<lambda>failureUrl.
            andThen (needUrl (paymentWebhookUrl Paymob (cp_origin cp) (cp_env cp))) (\<lambda>webhookUrl.
              readPaymobAnswer cp input
                (cp_post cp (paymobApiBaseUrl (cp_env cp) @ ''/v1/intention/'')
                  (paymobPayload now input paymentMethods returnUrl failureUrl webhookUrl))))))"

definition createHostedCheckout ::
  "checkout_platform \<Rightarrow> int \<Rightarrow> payment_provider \<Rightarrow> checkout_input \<Rightarrow> checkout_throw + hosted_checkout" where
  "createHostedCheckout cp now provider input =
    (case provider of
       Paymob \<Rightarrow> createPaymobHostedCheckout cp now input
     | Paytabs \<Rightarrow> createPaytabsHostedCheckout cp input)"

section \<open>Laws\<close>

lemma mapProviderPaymentStatus_text [simp]: "mapProviderPaymentStatus (paymentStatusText s) = s"
  by (cases s) (simp_all only: paymentStatusText_def payment_status.case, code_simp+)

lemma paymentStatusText_nonempty [simp]: "paymentStatusText s \<noteq> []"
  by (cases s) (simp_all add: paymentStatusText_def)

lemma payloadJson_members:
  "memberOf (payloadJson np) ''provider'' = Some (JStr (providerText (np_provider np)))"
  "memberOf (payloadJson np) ''attemptId'' = Some (JStr (np_attemptId np))"
  "memberOf (payloadJson np) ''providerTransactionId'' =
     Some (case np_providerTransactionId np of None \<Rightarrow> JNull | Some t \<Rightarrow> JStr t)"
  "memberOf (payloadJson np) ''providerOrderId'' = map_option JStr (np_providerOrderId np)"
  "memberOf (payloadJson np) ''rawStatus'' = Some (JStr (np_rawStatus np))"
  "memberOf (payloadJson np) ''status'' = Some (JStr (paymentStatusText (np_status np)))"
  "memberOf (payloadJson np) ''amount'' = Some (JStr (np_amount np))"
  "memberOf (payloadJson np) ''currency'' = Some (JStr (np_currency np))"
  by (simp_all add: payloadJson_def split: option.splits)

lemma payloadJson_object: "\<exists>ms. payloadJson np = JObj ms"
  by (simp add: payloadJson_def)

lemma parseStored_payloadJson:
  "np_attemptId np \<noteq> [] \<Longrightarrow> parseStoredNormalizedPayload (Some (payloadJson np)) = Some np"
proof -
  assume a: "np_attemptId np \<noteq> []"
  obtain ms where ms: "payloadJson np = JObj ms" using payloadJson_object by blast
  note m = payloadJson_members [of np, unfolded ms]
  have "stringMember (JObj ms) ''providerTransactionId'' = np_providerTransactionId np"
    by (simp add: stringMember_def m del: memberOf_simps split: option.splits)
  moreover have "stringMember (JObj ms) ''providerOrderId'' = np_providerOrderId np"
    by (simp add: stringMember_def m del: memberOf_simps split: option.splits)
  ultimately show ?thesis
    using a by (simp add: ms parseStoredNormalizedPayload_def textMember_def stringMember_def m
        del: memberOf_simps)
qed

text \<open>
  C27. A webhook's normalized payload is stored so that reading it back gives the payload that was
  received, whatever its status, amounts and ids: a replay acts on what the gateway reported.
\<close>

theorem stored_payload_roundtrip:
  assumes "np_attemptId np \<noteq> []"
  shows "parseStoredNormalizedPayload (Some (payloadJson np)) = Some np"
  using assms by (rule parseStored_payloadJson)

definition samplePayload :: normalized_payload where
  "samplePayload = \<lparr>np_provider = Paymob, np_attemptId = ''a1'', np_providerTransactionId = None,
     np_providerOrderId = Some ''77'', np_rawStatus = ''voided'', np_status = P_CANCELLED,
     np_amount = ''350.00'', np_currency = ''EGP''\<rparr>"

theorem stored_payload_roundtrip_witness:
  "parseStoredNormalizedPayload (Some (payloadJson samplePayload)) = Some samplePayload"
  by (rule stored_payload_roundtrip) (simp add: samplePayload_def)

lemma padTwo_length: "m < 100 \<Longrightarrow> length (padStart 2 (CHR ''0'') (natToText m)) = 2"
  using natToText_zero_pad_length [of m 2] by (simp add: length_padStart)

lemma padTwo_digits: "list_all isDigit (padStart 2 (CHR ''0'') (natToText m))"
  by (auto simp: padStart_def natToText_digits list_all_iff [of isDigit "replicate _ _"])

lemma digits_no_dot: "list_all isDigit s \<Longrightarrow> CHR ''.'' \<notin> set s"
  by (auto simp: list_all_iff isDigit_def codeUnit_def)

lemma splitOn_centsText:
  "splitOn (CHR ''.'') (centsText n) =
     [natToText (n div 100), padStart 2 (CHR ''0'') (natToText (n mod 100))]"
proof -
  have "splitOn (CHR ''.'') (natToText (n div 100) @ CHR ''.'' # padStart 2 (CHR ''0'') (natToText (n mod 100))) =
      natToText (n div 100) # splitOn (CHR ''.'') (padStart 2 (CHR ''0'') (natToText (n mod 100)))"
    by (intro splitOn_append_sep digits_no_dot natToText_digits)
  also have "splitOn (CHR ''.'') (padStart 2 (CHR ''0'') (natToText (n mod 100))) =
      [padStart 2 (CHR ''0'') (natToText (n mod 100))]"
    by (intro splitOn_absent digits_no_dot padTwo_digits)
  finally show ?thesis by (simp add: centsText_def)
qed

lemma takeWhile_digits: "list_all isDigit s \<Longrightarrow> takeWhile isDigit s = s"
  by (induction s) simp_all

lemma minorUnits_centsText: "decimalAmountToMinorUnits (centsText n) = n"
proof -
  let ?f = "padStart 2 (CHR ''0'') (natToText (n mod 100))"
  have l: "length ?f = 2" by (rule padTwo_length) simp
  have w: "filter isDigit (natToText (n div 100)) = natToText (n div 100)"
    using natToText_digits by (simp add: list_all_iff filter_id_conv)
  have "takeWhile isDigit (natToText (n div 100) @ ?f) = natToText (n div 100) @ ?f"
    by (intro takeWhile_digits) (simp add: natToText_digits padTwo_digits)
  then have "decimalAmountToMinorUnits (centsText n) = natOfDigits (natToText (n div 100) @ ?f)"
    by (simp add: decimalAmountToMinorUnits_def splitOn_centsText w l del: takeWhile_append2 takeWhile_eq_all_conv)
  also have "\<dots> = n div 100 * 10 ^ 2 + n mod 100"
    by (simp only: natOfDigits_append l natOfDigits_natToText natOfDigits_padStart_zero)
  finally show ?thesis by simp
qed

text \<open>
  The amount in minor units that is sent to the gateway and the amount text that is read
  from its webhook are inverse: the cents the gateway reports are the cents that were asked for.
\<close>

theorem minor_units_roundtrip:
  assumes "n < 10 ^ 15"
  shows "decimalAmountToMinorUnits (centsToAmountText pf (natToText n)) = n"
  using assms natToText_zero_pad_length [of n 15]
  by (simp add: centsToAmountText_def allDigits_natToText minorUnits_centsText)

definition sampleGateway :: gateway_platform where
  "sampleGateway = \<lparr>gp_hmacHex = (\<lambda>_ _ _. ''ab12''), gp_sha256Hex = (\<lambda>_. ''cd34''), gp_longCents = id\<rparr>"

theorem minor_units_roundtrip_witness:
  "decimalAmountToMinorUnits (centsToAmountText sampleGateway (natToText 35007)) = 35007"
  by (rule minor_units_roundtrip) simp

end
