(* ===== verification/ReceiptTokens.thy ===== *)
theory ReceiptTokens
  imports PaymentConfig Secrets
begin

text \<open>
  The signed links of a payment (\<open>src/src/server/payments/payment-receipt-service.ts\<close>): a token is
  a version, the claims in base64url, and their keyed digest. The digest and the reading of JSON
  are parameters.
\<close>

section \<open>Tokens\<close>

record token_platform =
  tk_env :: env
  tk_isUuid :: "string \<Rightarrow> bool"
  tk_digest :: "string \<Rightarrow> string \<Rightarrow> string"
  tk_parse :: "byte list \<Rightarrow> json option"

text \<open>The claims of a status token have no payment.\<close>

record token_claims =
  tc_attemptId :: string
  tc_paymentId :: "string option"
  tc_iat :: int
  tc_exp :: int

definition LOCAL_RECEIPT_SIGNING_SECRET :: string where
  "LOCAL_RECEIPT_SIGNING_SECRET = ''local-dev-only-payment-receipt-secret-do-not-use-in-production''"

definition LOCAL_STATUS_SIGNING_SECRET :: string where
  "LOCAL_STATUS_SIGNING_SECRET = ''local-dev-only-payment-status-secret-do-not-use-in-production''"

text \<open>What a token throws: a plain error, for a missing secret or an id that is no UUID.\<close>

datatype token_throw = SigningSecretRequired | NotUuid

definition secretOr :: "env \<Rightarrow> string \<Rightarrow> string \<Rightarrow> token_throw + string" where
  "secretOr env secret local =
    (if secret \<noteq> [] then Inr secret else if isProduction env then Inl SigningSecretRequired else Inr local)"

definition receiptSigningSecret :: "env \<Rightarrow> token_throw + string" where
  "receiptSigningSecret env =
    secretOr env (orElse (envText env ''PAYMENT_RECEIPT_SIGNING_SECRET'') (envText env ''AUTH_SECRET''))
      LOCAL_RECEIPT_SIGNING_SECRET"

definition statusSigningSecret :: "env \<Rightarrow> token_throw + string" where
  "statusSigningSecret env =
    secretOr env (orElse (envText env ''PAYMENT_STATUS_SIGNING_SECRET'')
        (orElse (envText env ''PAYMENT_RECEIPT_SIGNING_SECRET'') (envText env ''AUTH_SECRET'')))
      LOCAL_STATUS_SIGNING_SECRET"

definition toUnixSeconds :: "int \<Rightarrow> int" where
  "toUnixSeconds ms = ms div 1000"

definition paymentStatusTokenMaxAgeSeconds :: "env \<Rightarrow> int" where
  "paymentStatusTokenMaxAgeSeconds env =
    boundedSetting env ''PAYMENT_STATUS_TOKEN_MAX_AGE_SECONDS'' 1800 7200
      (min ((paymentReservationMinutes env + 60) * 60) 7200)"

definition paymentReceiptTokenMaxAgeSeconds :: "env \<Rightarrow> int" where
  "paymentReceiptTokenMaxAgeSeconds env =
    boundedSetting env ''PAYMENT_RECEIPT_TOKEN_MAX_AGE_SECONDS'' 3600 2592000 604800"

definition tokenInt :: "int \<Rightarrow> string" where
  "tokenInt n = (if n < 0 then ''-'' @ natToText (nat (- n)) else natToText (nat n))"

text \<open>\<open>JSON.stringify\<close> of the claims, whose ids are UUIDs and need no escape.\<close>

definition claimsText :: "token_claims \<Rightarrow> string" where
  "claimsText c =
    ''{\"v\":'' @ (if tc_paymentId c = None then ''1'' else ''2'') @
    '',\"attemptId\":\"'' @ tc_attemptId c @ ''\"'' @
    (case tc_paymentId c of None \<Rightarrow> [] | Some p \<Rightarrow> '',\"paymentId\":\"'' @ p @ ''\"'') @
    '',\"iat\":'' @ tokenInt (tc_iat c) @ '',\"exp\":'' @ tokenInt (tc_exp c) @ ''}''"

definition encodePayload :: "token_claims \<Rightarrow> string" where
  "encodePayload c = toBase64url (utf8 (claimsText c))"

definition intMember :: "json \<Rightarrow> string \<Rightarrow> int option" where
  "intMember v key =
    (case memberOf v key of
       Some (JNum s) \<Rightarrow> (if allDigits s then Some (int (natOfDigits s)) else None) | _ \<Rightarrow> None)"

definition uuidMember :: "token_platform \<Rightarrow> json \<Rightarrow> string \<Rightarrow> string option" where
  "uuidMember pf v key =
    (case memberOf v key of Some (JStr s) \<Rightarrow> (if tk_isUuid pf s then Some s else None) | _ \<Rightarrow> None)"

text \<open>The two schemas: the version, the ids, a non-negative issue time before the expiry.\<close>

definition tokenClaimsSchema :: "token_platform \<Rightarrow> bool \<Rightarrow> json \<Rightarrow> token_claims option" where
  "tokenClaimsSchema pf receipt v =
    (case (intMember v ''v'', uuidMember pf v ''attemptId'', intMember v ''iat'', intMember v ''exp'') of
       (Some version, Some attemptId, Some iat, Some exp1) \<Rightarrow>
         if version \<noteq> (if receipt then 2 else 1) \<or> exp1 \<le> 0 \<or> exp1 \<le> iat then None
         else if receipt
         then (case uuidMember pf v ''paymentId'' of
                 None \<Rightarrow> None
               | Some p \<Rightarrow> Some \<lparr>tc_attemptId = attemptId, tc_paymentId = Some p, tc_iat = iat, tc_exp = exp1\<rparr>)
         else Some \<lparr>tc_attemptId = attemptId, tc_paymentId = None, tc_iat = iat, tc_exp = exp1\<rparr>
     | _ \<Rightarrow> None)"

definition decodeClaims :: "token_platform \<Rightarrow> bool \<Rightarrow> string \<Rightarrow> token_claims option" where
  "decodeClaims pf receipt value =
    (case tk_parse pf (fromBase64url value) of None \<Rightarrow> None | Some v \<Rightarrow> tokenClaimsSchema pf receipt v)"

definition createPaymentReceiptToken ::
  "token_platform \<Rightarrow> string \<Rightarrow> string \<Rightarrow> int \<Rightarrow> token_throw + string" where
  "createPaymentReceiptToken pf attemptId paymentId now =
    (let iat = toUnixSeconds now
     in andThen (require (tk_isUuid pf attemptId \<and> tk_isUuid pf paymentId) NotUuid) (\<lambda>_.
        let payload = encodePayload \<lparr>tc_attemptId = attemptId, tc_paymentId = Some paymentId, tc_iat = iat,
              tc_exp = iat + paymentReceiptTokenMaxAgeSeconds (tk_env pf)\<rparr>
        in andThen (receiptSigningSecret (tk_env pf)) (\<lambda>secret.
           Inr (''v2.'' @ payload @ ''.'' @ tk_digest pf secret payload))))"

definition createPaymentStatusToken :: "token_platform \<Rightarrow> string \<Rightarrow> int \<Rightarrow> token_throw + string" where
  "createPaymentStatusToken pf attemptId now =
    (let iat = toUnixSeconds now
     in andThen (require (tk_isUuid pf attemptId) NotUuid) (\<lambda>_.
        let payload = encodePayload \<lparr>tc_attemptId = attemptId, tc_paymentId = None, tc_iat = iat,
              tc_exp = iat + paymentStatusTokenMaxAgeSeconds (tk_env pf)\<rparr>
        in andThen (statusSigningSecret (tk_env pf)) (\<lambda>secret.
           Inr (''v1.'' @ payload @ ''.'' @ tk_digest pf secret payload))))"

text \<open>
  \<open>verifyPaymentReceiptToken\<close> and \<open>verifyPaymentStatusToken\<close>, which differ in the version, the
  secret and the schema: \<open>None\<close> is \<open>null\<close>.
\<close>

definition verifyToken ::
  "token_platform \<Rightarrow> bool \<Rightarrow> string \<Rightarrow> string \<Rightarrow> int \<Rightarrow> token_throw + token_claims option" where
  "verifyToken pf receipt attemptId token now =
    (if \<not> tk_isUuid pf attemptId then Inr None
     else case splitOn (CHR ''.'') token of
       [version, payload, signature] \<Rightarrow>
         if version \<noteq> (if receipt then ''v2'' else ''v1'') \<or> payload = [] \<or> signature = [] then Inr None
         else andThen (if receipt then receiptSigningSecret (tk_env pf) else statusSigningSecret (tk_env pf))
           (\<lambda>secret.
             if signature \<noteq> tk_digest pf secret payload then Inr None
             else case decodeClaims pf receipt payload of
               None \<Rightarrow> Inr None
             | Some claims \<Rightarrow>
               if tc_attemptId claims \<noteq> attemptId \<or> tc_exp claims \<le> toUnixSeconds now then Inr None
               else Inr (Some claims))
     | _ \<Rightarrow> Inr None)"

definition verifyPaymentReceiptToken ::
  "token_platform \<Rightarrow> string \<Rightarrow> string \<Rightarrow> int \<Rightarrow> token_throw + token_claims option" where
  "verifyPaymentReceiptToken pf = verifyToken pf True"

definition verifyPaymentStatusToken ::
  "token_platform \<Rightarrow> string \<Rightarrow> string \<Rightarrow> int \<Rightarrow> token_throw + token_claims option" where
  "verifyPaymentStatusToken pf = verifyToken pf False"

text \<open>\<open>formEncode\<close> prints the parameters of \<open>URLSearchParams\<close>.\<close>

definition publicPaymentReceiptUrl ::
  "token_platform \<Rightarrow> ((string \<times> string) list \<Rightarrow> string) \<Rightarrow> string \<Rightarrow> string \<Rightarrow> string \<Rightarrow> int \<Rightarrow> token_throw + string" where
  "publicPaymentReceiptUrl pf formEncode attemptId paymentId locale1 now =
    andThen (createPaymentReceiptToken pf attemptId paymentId now) (\<lambda>token.
      Inr ((if locale1 = ''ar'' then ''/ar/payment/consultation/receipt'' else ''/payment/consultation/receipt'')
        @ ''?'' @ formEncode [(''attemptId'', attemptId), (''token'', token)]))"


section \<open>The round trip\<close>

lemma encodePayload_no_dot: "CHR ''.'' \<notin> set (encodePayload c)"
  using sixBits_alphabet BASE64URL_no_dot(1) by (auto simp: encodePayload_def toBase64url_def)

lemma encodePayload_nonempty: "encodePayload c \<noteq> []"
  by (simp add: encodePayload_def toBase64url_nonempty utf8_nonempty claimsText_def)

text \<open>
  What the token code relies on: JSON reads back the claims it printed, and a digest is a
  non-empty base64url text.
\<close>

definition claimsJson :: "token_claims \<Rightarrow> json" where
  "claimsJson c =
    JObj ([(''v'', JNum (if tc_paymentId c = None then ''1'' else ''2'')), (''attemptId'', JStr (tc_attemptId c))] @
      (case tc_paymentId c of None \<Rightarrow> [] | Some p \<Rightarrow> [(''paymentId'', JStr p)]) @
      [(''iat'', JNum (tokenInt (tc_iat c))), (''exp'', JNum (tokenInt (tc_exp c)))])"

definition token_library :: "token_platform \<Rightarrow> token_claims \<Rightarrow> bool" where
  "token_library pf c \<longleftrightarrow>
    tk_parse pf (utf8 (claimsText c)) = Some (claimsJson c) \<and>
    (\<forall>secret m. tk_digest pf secret m \<noteq> [] \<and> CHR ''.'' \<notin> set (tk_digest pf secret m))"

lemma tokenInt_nonneg: "0 \<le> n \<Longrightarrow> tokenInt n = natToText (nat n)"
  by (simp add: tokenInt_def)

lemma tokenClaimsSchema_claimsJson:
  assumes "tk_isUuid pf (tc_attemptId c)" and "\<forall>p. tc_paymentId c = Some p \<longrightarrow> tk_isUuid pf p"
    and "0 \<le> tc_iat c" and "tc_iat c < tc_exp c" and "receipt \<longleftrightarrow> tc_paymentId c \<noteq> None"
  shows "tokenClaimsSchema pf receipt (claimsJson c) = Some c"
proof -
  have v: "intMember (claimsJson c) ''v'' = Some (if receipt then 2 else 1)"
    using assms(5) by (auto simp: intMember_def claimsJson_def allDigits_def isDigit_def codeUnit_def
        natOfDigits_def digitValue_def)
  have i: "intMember (claimsJson c) ''iat'' = Some (tc_iat c)"
    using assms(3) by (cases "tc_paymentId c")
      (simp_all add: intMember_def claimsJson_def tokenInt_nonneg allDigits_natToText)
  have e: "intMember (claimsJson c) ''exp'' = Some (tc_exp c)"
    using assms(3,4) by (cases "tc_paymentId c")
      (simp_all add: intMember_def claimsJson_def tokenInt_nonneg allDigits_natToText)
  have a: "uuidMember pf (claimsJson c) ''attemptId'' = Some (tc_attemptId c)"
    using assms(1) by (simp add: uuidMember_def claimsJson_def)
  have p: "uuidMember pf (claimsJson c) ''paymentId'' = tc_paymentId c"
    using assms(2) by (cases "tc_paymentId c") (simp_all add: uuidMember_def claimsJson_def)
  show ?thesis
    using assms(3,4,5) by (cases "tc_paymentId c") (auto simp: tokenClaimsSchema_def v i e a p)
qed

lemma verifyToken_own:
  assumes lib: "token_library pf c"
    and ids: "tk_isUuid pf (tc_attemptId c)" "\<forall>p. tc_paymentId c = Some p \<longrightarrow> tk_isUuid pf p"
    and times: "0 \<le> tc_iat c" "tc_iat c < tc_exp c" and r: "receipt \<longleftrightarrow> tc_paymentId c \<noteq> None"
    and s: "(if receipt then receiptSigningSecret (tk_env pf) else statusSigningSecret (tk_env pf)) = Inr secret"
  shows "verifyToken pf receipt (tc_attemptId c)
      ((if receipt then ''v2.'' else ''v1.'') @ encodePayload c @ ''.'' @ tk_digest pf secret (encodePayload c)) now =
    Inr (if toUnixSeconds now < tc_exp c then Some c else None)"
proof -
  let ?d = "tk_digest pf secret (encodePayload c)"
  have d: "?d \<noteq> []" "CHR ''.'' \<notin> set ?d" using lib by (simp_all add: token_library_def)
  have split: "splitOn (CHR ''.'') (encodePayload c @ CHR ''.'' # ?d) = [encodePayload c, ?d]"
    using d(2) by (simp add: splitOn_append_sep splitOn_absent encodePayload_no_dot)
  have "decodeClaims pf receipt (encodePayload c) = Some c"
    using lib ids tokenClaimsSchema_claimsJson [OF ids times r]
    by (simp add: decodeClaims_def encodePayload_def fromBase64url_toBase64url token_library_def)
  then show ?thesis
    using ids(1) s d(1) by (cases receipt) (simp_all add: verifyToken_def split encodePayload_nonempty)
qed

text \<open>
  C26. A receipt link works for exactly its lifetime: the token made for an attempt and its payment
  verifies, for that attempt, to its own claims until the second it expires and to nothing from
  then on.
\<close>

theorem receipt_token_lifetime:
  assumes "token_library pf \<lparr>tc_attemptId = attemptId, tc_paymentId = Some paymentId,
        tc_iat = toUnixSeconds issued,
        tc_exp = toUnixSeconds issued + paymentReceiptTokenMaxAgeSeconds (tk_env pf)\<rparr>"
    and "tk_isUuid pf attemptId" and "tk_isUuid pf paymentId" and "0 \<le> issued" and "createPaymentReceiptToken pf attemptId paymentId issued = Inr token"
  shows "verifyPaymentReceiptToken pf attemptId token now =
    Inr (if toUnixSeconds now < toUnixSeconds issued + paymentReceiptTokenMaxAgeSeconds (tk_env pf)
         then Some \<lparr>tc_attemptId = attemptId, tc_paymentId = Some paymentId, tc_iat = toUnixSeconds issued,
                tc_exp = toUnixSeconds issued + paymentReceiptTokenMaxAgeSeconds (tk_env pf)\<rparr>
         else None)"
proof -
  let ?c = "\<lparr>tc_attemptId = attemptId, tc_paymentId = Some paymentId, tc_iat = toUnixSeconds issued,
    tc_exp = toUnixSeconds issued + paymentReceiptTokenMaxAgeSeconds (tk_env pf)\<rparr>"
  have age: "3600 \<le> paymentReceiptTokenMaxAgeSeconds (tk_env pf)"
    by (simp add: paymentReceiptTokenMaxAgeSeconds_def boundedSetting_bounds)
  from assms(2,3,5) obtain secret where s: "receiptSigningSecret (tk_env pf) = Inr secret"
    and t: "token = ''v2.'' @ encodePayload ?c @ ''.'' @ tk_digest pf secret (encodePayload ?c)"
    by (auto simp: createPaymentReceiptToken_def Let_def)
  show ?thesis
    using verifyToken_own [of pf ?c True secret now] assms(1-4) age s t
    by (simp add: verifyPaymentReceiptToken_def toUnixSeconds_def)
qed

definition sampleClaims :: token_claims where
  "sampleClaims = \<lparr>tc_attemptId = ''a1'', tc_paymentId = Some ''p1'', tc_iat = 5, tc_exp = 604805\<rparr>"

definition sampleTokens :: token_platform where
  "sampleTokens = \<lparr>tk_env = (\<lambda>_. None), tk_isUuid = (\<lambda>s. s = ''a1'' \<or> s = ''p1''), tk_digest = (\<lambda>_ _. ''sig''),
     tk_parse = (\<lambda>bs. if bs = utf8 (claimsText sampleClaims) then Some (claimsJson sampleClaims) else None)\<rparr>"

lemma sampleTokens_age: "paymentReceiptTokenMaxAgeSeconds (tk_env sampleTokens) = 604800"
  by (simp add: paymentReceiptTokenMaxAgeSeconds_def boundedSetting_def parseIntText_def envText_def
      sampleTokens_def Let_def)

lemma sampleTokens_secret: "receiptSigningSecret (tk_env sampleTokens) = Inr LOCAL_RECEIPT_SIGNING_SECRET"
  by (simp add: receiptSigningSecret_def secretOr_def isProduction_def envText_def sampleTokens_def)

lemma sampleTokens_claims:
  "\<lparr>tc_attemptId = ''a1'', tc_paymentId = Some ''p1'', tc_iat = toUnixSeconds 5000,
    tc_exp = toUnixSeconds 5000 + paymentReceiptTokenMaxAgeSeconds (tk_env sampleTokens)\<rparr> = sampleClaims"
  by (simp add: sampleClaims_def sampleTokens_age toUnixSeconds_def)

lemma sampleTokens_library: "token_library sampleTokens sampleClaims"
  by (simp add: token_library_def sampleTokens_def)

theorem receipt_token_lifetime_witness:
  "\<exists>token. createPaymentReceiptToken sampleTokens ''a1'' ''p1'' 5000 = Inr token \<and>
     verifyPaymentReceiptToken sampleTokens ''a1'' token 604804999 = Inr (Some sampleClaims) \<and>
     verifyPaymentReceiptToken sampleTokens ''a1'' token 604805000 = Inr None"
proof -
  obtain token where t: "createPaymentReceiptToken sampleTokens ''a1'' ''p1'' 5000 = Inr token"
    using sampleTokens_secret by (simp add: createPaymentReceiptToken_def sampleTokens_def Let_def)
  have u: "tk_isUuid sampleTokens ''a1''" "tk_isUuid sampleTokens ''p1''" by (simp_all add: sampleTokens_def)
  have lib: "token_library sampleTokens \<lparr>tc_attemptId = ''a1'', tc_paymentId = Some ''p1'',
      tc_iat = toUnixSeconds 5000,
      tc_exp = toUnixSeconds 5000 + paymentReceiptTokenMaxAgeSeconds (tk_env sampleTokens)\<rparr>"
    by (simp only: sampleTokens_claims sampleTokens_library)
  have "(0::int) \<le> 5000" by simp
  note life = receipt_token_lifetime [OF lib u this t, unfolded sampleTokens_claims sampleTokens_age]
  have "verifyPaymentReceiptToken sampleTokens ''a1'' token 604804999 = Inr (Some sampleClaims)"
    by (subst life) (simp add: toUnixSeconds_def sampleClaims_def)
  moreover have "verifyPaymentReceiptToken sampleTokens ''a1'' token 604805000 = Inr None"
    by (subst life) (simp add: toUnixSeconds_def sampleClaims_def)
  ultimately show ?thesis using t by blast
qed

text \<open>A token is accepted only for its own attempt, its own version and the digest of its claims.\<close>

lemma verifyToken_accepts:
  assumes "verifyToken pf receipt attemptId token now = Inr (Some claims)"
  obtains secret payload where
    "(if receipt then receiptSigningSecret (tk_env pf) else statusSigningSecret (tk_env pf)) = Inr secret"
    "splitOn (CHR ''.'') token = [if receipt then ''v2'' else ''v1'', payload, tk_digest pf secret payload]"
    "tc_attemptId claims = attemptId" "toUnixSeconds now < tc_exp claims"
  using assms
  by (auto simp: verifyToken_def split: list.splits if_splits option.splits)

end
