(* ===== verification/Office.thy ===== *)
theory Office
  imports Policy AuditTrail
begin

text \<open>
  The rows the consultation workflow and the payments share: appointments, consultation requests,
  members of the staff, clients and notifications (\<open>prisma/schema.prisma\<close>), and the notification
  writes of \<open>src/src/server/admin/notification-service.ts\<close>. The titles of notifications are named
  by the copy they show, and a body that is fixed copy is left empty.
\<close>

section \<open>Rows\<close>

datatype appointment_type = AT_CONSULTATION | AT_COURT_SESSION | AT_INTERNAL_MEETING | AT_CALL | AT_ONLINE_MEETING
datatype appointment_mode = M_OFFICE | M_PHONE | M_ONLINE | M_COURT
datatype appointment_status = A_RESERVED | A_SCHEDULED | A_COMPLETED | A_CANCELLED | A_RESCHEDULED | A_NO_SHOW
datatype consultation_status = C_NEW | C_REVIEWING | C_PAYMENT_PENDING | C_SCHEDULED | C_REJECTED | C_CONVERTED
datatype outcome_status = O_PENDING | O_AWAITING_RESULT | O_MISSED | O_SUCCESSFUL | O_NO_SHOW | O_CANCELLED

record appointment =
  ap_id :: string
  ap_clientId :: string
  ap_lawyerId :: "string option"
  ap_consultationRequestId :: "string option"
  ap_caseId :: "string option"
  ap_title :: string
  ap_type :: appointment_type
  ap_mode :: appointment_mode
  ap_location :: "string option"
  ap_startsAt :: int
  ap_endsAt :: int
  ap_status :: appointment_status
  ap_notes :: "string option"

record consultation =
  cr_id :: string
  cr_clientId :: "string option"
  cr_fullName :: string
  cr_serviceCategory :: string
  cr_status :: consultation_status
  cr_assignedLawyerId :: "string option"
  cr_secretaryReviewedAt :: "int option"
  cr_secretaryReviewedById :: "string option"
  cr_secretaryReviewNote :: "string option"
  cr_outcomeStatus :: outcome_status
  cr_outcomeAt :: "int option"
  cr_outcomeById :: "string option"
  cr_outcomeReasonCode :: "string option"
  cr_outcomeNote :: "string option"
  cr_outcomeVersion :: int
  cr_convertedCaseId :: "string option"
  cr_createdAt :: int

record staff_member =
  sm_id :: string
  sm_active :: bool
  sm_deleted :: bool
  sm_roleName :: string
  sm_roleActive :: bool
  sm_permissions :: "string list"

record office_client =
  oc_id :: string
  oc_assignedLawyerId :: "string option"

datatype notice_title = ReviewRequestTitle | MissedTitle | AwaitingTitle

record notification =
  nt_userId :: string
  nt_type :: string
  nt_title :: notice_title
  nt_body :: string
  nt_resourceType :: "string option"
  nt_resourceId :: "string option"
  nt_actionUrl :: "string option"
  nt_readAt :: "int option"
  nt_createdAt :: int

record office =
  of_appointments :: "appointment list"
  of_consultations :: "consultation list"
  of_staff :: "staff_member list"
  of_clients :: "office_client list"
  of_notifications :: "notification list"
  of_audit :: "audit_event list"

definition activeStaff :: "staff_member \<Rightarrow> bool" where
  "activeStaff u = (sm_active u \<and> \<not> sm_deleted u \<and> sm_roleActive u)"

definition staffPrincipal :: "staff_member \<Rightarrow> principal" where
  "staffPrincipal u = \<lparr>pr_id = sm_id u, pr_roleName = sm_roleName u,
     pr_permissions = Some (sm_permissions u), pr_clientId = None\<rparr>"

definition consultationReference :: "string \<Rightarrow> string" where
  "consultationReference i = ''CONS-'' @ jsUpper (take 8 i)"


section \<open>Notifications\<close>

definition CONSULTATION_NOTIFICATION_RESOURCE_TYPE :: string where
  "CONSULTATION_NOTIFICATION_RESOURCE_TYPE = ''ConsultationRequest''"

text \<open>The unique key of a notification; a key with a null part repeats no other.\<close>

definition noticeKey :: "notification \<Rightarrow> (string \<times> string \<times> string \<times> string) option" where
  "noticeKey n =
    (case (nt_resourceType n, nt_resourceId n) of
       (Some t, Some r) \<Rightarrow> Some (nt_userId n, nt_type n, t, r) | _ \<Rightarrow> None)"

text \<open>\<open>createMany\<close> with \<open>skipDuplicates\<close>.\<close>

definition createNotice :: "notification \<Rightarrow> notification list \<Rightarrow> notification list" where
  "createNotice n ns = (if noticeKey n \<noteq> None \<and> noticeKey n \<in> noticeKey ` set ns then ns else ns @ [n])"

definition consultationNotice ::
  "string \<Rightarrow> notice_title \<Rightarrow> string \<Rightarrow> int \<Rightarrow> staff_member \<Rightarrow> notification" where
  "consultationNotice consultationId title body now u =
    \<lparr>nt_userId = sm_id u, nt_type = ''CONSULTATION'', nt_title = title, nt_body = body,
     nt_resourceType = Some CONSULTATION_NOTIFICATION_RESOURCE_TYPE, nt_resourceId = Some consultationId,
     nt_actionUrl = Some (''/admin/consultations/'' @ consultationId), nt_readAt = None, nt_createdAt = now\<rparr>"

definition mayReviewConsultations :: "staff_member \<Rightarrow> bool" where
  "mayReviewConsultations u =
    (sm_roleName u = ROLE_superAdmin \<or>
     (''consultation.review.any'' \<in> set (sm_permissions u) \<and> ''notification.read.self'' \<in> set (sm_permissions u)))"

definition createConsultationReviewNotifications :: "int \<Rightarrow> string \<Rightarrow> office \<Rightarrow> office" where
  "createConsultationReviewNotifications now consultationId s =
    (case fetch cr_id consultationId (of_consultations s) of
       None \<Rightarrow> s
     | Some c \<Rightarrow>
       if cr_status c \<noteq> C_SCHEDULED \<or> cr_secretaryReviewedAt c \<noteq> None \<or> cr_outcomeStatus c \<noteq> O_PENDING then s
       else let recipients = filter mayReviewConsultations (filter activeStaff (of_staff s));
                body = cr_fullName c @ '' - '' @ consultationReference (cr_id c)
            in s\<lparr>of_notifications := foldl (\<lambda>ns u.
                  createNotice (consultationNotice (cr_id c) ReviewRequestTitle body now u) ns)
                (of_notifications s) recipients\<rparr>)"

definition resolveConsultationNotifications :: "int \<Rightarrow> string \<Rightarrow> office \<Rightarrow> office" where
  "resolveConsultationNotifications now consultationId s =
    s\<lparr>of_notifications := updateWhere
        (\<lambda>n. nt_type n = ''CONSULTATION'' \<and> nt_resourceType n = Some CONSULTATION_NOTIFICATION_RESOURCE_TYPE \<and>
             nt_resourceId n = Some consultationId \<and> nt_readAt n = None)
        (\<lambda>n. n\<lparr>nt_readAt := Some now\<rparr>) (of_notifications s)\<rparr>"

definition upsertNotice :: "notification \<Rightarrow> notification list \<Rightarrow> notification list" where
  "upsertNotice n ns =
    (if noticeKey n \<in> noticeKey ` set ns
     then updateWhere (\<lambda>m. noticeKey m = noticeKey n)
       (\<lambda>m. m\<lparr>nt_title := nt_title n, nt_body := nt_body n, nt_actionUrl := nt_actionUrl n,
             nt_readAt := nt_readAt n, nt_createdAt := nt_createdAt n\<rparr>) ns
     else ns @ [n])"

definition canManageConsultationOutcome :: "principal \<Rightarrow> bool" where
  "canManageConsultationOutcome actor =
    (pr_roleName actor \<in> {ROLE_secretary, ROLE_officeAdmin, ROLE_superAdmin} \<and>
     hasPermission actor ''consultation.review.any'' \<and> hasPermission actor ''appointment.manage.any'')"

definition syncConsultationOutcomeNotifications :: "int \<Rightarrow> string \<Rightarrow> outcome_status \<Rightarrow> office \<Rightarrow> office" where
  "syncConsultationOutcomeNotifications now consultationId outcomeStatus s =
    (if outcomeStatus \<noteq> O_AWAITING_RESULT \<and> outcomeStatus \<noteq> O_MISSED
     then resolveConsultationNotifications now consultationId s
     else let recipients = filter (\<lambda>u. canManageConsultationOutcome (staffPrincipal u) \<and>
                 hasPermission (staffPrincipal u) ''notification.read.self'')
               (filter activeStaff (of_staff s));
              title = (if outcomeStatus = O_MISSED then MissedTitle else AwaitingTitle)
          in s\<lparr>of_notifications := foldl (\<lambda>ns u.
                upsertNotice (consultationNotice consultationId title [] now u) ns)
              (of_notifications s) recipients\<rparr>)"


section \<open>Laws\<close>

lemma notifications_frame [simp]:
  "of_appointments (createConsultationReviewNotifications now i s) = of_appointments s"
  "of_consultations (createConsultationReviewNotifications now i s) = of_consultations s"
  "of_appointments (syncConsultationOutcomeNotifications now i os s) = of_appointments s"
  "of_consultations (syncConsultationOutcomeNotifications now i os s) = of_consultations s"
  "of_staff (syncConsultationOutcomeNotifications now i os s) = of_staff s"
  "of_staff (createConsultationReviewNotifications now i s) = of_staff s"
  by (auto simp: createConsultationReviewNotifications_def syncConsultationOutcomeNotifications_def
      resolveConsultationNotifications_def Let_def split: option.splits)

end
