(* ===== verification/Conflicts.thy ===== *)
theory Conflicts
  imports Office
begin

text \<open>
  The guard against double booking: \<open>src/src/server/appointments/appointment-conflict-service.ts\<close>.
  Times are milliseconds; an invalid \<open>Date\<close> is \<open>None\<close>.
\<close>

definition ACTIVE_APPOINTMENT_STATUSES :: "appointment_status list" where
  "ACTIVE_APPOINTMENT_STATUSES = [A_RESERVED, A_SCHEDULED, A_RESCHEDULED]"

datatype transaction_mode = DatabaseCreateBoundedRetry | ExistingUpdateSingleAttempt | ExternalSideEffectSingleAttempt

datatype conflict_scope = OfficeConsultation | LawyerScope string | ClientScope string

definition DATABASE_CREATE_MAX_ATTEMPTS :: nat where "DATABASE_CREATE_MAX_ATTEMPTS = 3"

definition appointmentIntervalsOverlap :: "int \<Rightarrow> int \<Rightarrow> int \<Rightarrow> int \<Rightarrow> bool" where
  "appointmentIntervalsOverlap leftStartsAt leftEndsAt rightStartsAt rightEndsAt =
    (leftStartsAt < rightEndsAt \<and> rightStartsAt < leftEndsAt)"

definition appointmentConflictError :: api_error where
  "appointmentConflictError = apiError 409 APPOINTMENT_CONFLICT
     ''Another appointment already exists for this lawyer at this time. Choose a different time.''"

definition assertValidAppointmentInterval :: "int option \<Rightarrow> int option \<Rightarrow> (int \<times> int) api" where
  "assertValidAppointmentInterval startsAt endsAt =
    (case (startsAt, endsAt) of
       (Some s, Some e) \<Rightarrow>
         if e \<le> s then throwApi 400 VALIDATION_ERROR ''Appointment end time must be after its start time.''
         else Inr (s, e)
     | _ \<Rightarrow> throwApi 400 VALIDATION_ERROR ''Appointment end time must be after its start time.'')"

definition scopeCovers :: "conflict_scope \<Rightarrow> appointment \<Rightarrow> bool" where
  "scopeCovers scope a =
    (case scope of
       OfficeConsultation \<Rightarrow> ap_type a = AT_CONSULTATION
     | ClientScope c \<Rightarrow> ap_clientId a = c
     | LawyerScope l \<Rightarrow> ap_lawyerId a = Some l \<or>
         (ap_lawyerId a = None \<and> ap_consultationRequestId a \<noteq> None))"

definition appointmentConflictWhere ::
  "int \<Rightarrow> int \<Rightarrow> conflict_scope \<Rightarrow> string option \<Rightarrow> appointment \<Rightarrow> bool" where
  "appointmentConflictWhere startsAt endsAt scope excludeAppointmentId a =
    (ap_status a \<in> set ACTIVE_APPOINTMENT_STATUSES \<and> ap_startsAt a < endsAt \<and> ap_endsAt a > startsAt \<and>
     (case excludeAppointmentId of None \<Rightarrow> True | Some x \<Rightarrow> x = [] \<or> ap_id a \<noteq> x) \<and>
     scopeCovers scope a)"

definition assertNoAppointmentConflict ::
  "int option \<Rightarrow> int option \<Rightarrow> conflict_scope \<Rightarrow> string option \<Rightarrow> appointment list \<Rightarrow> unit api" where
  "assertNoAppointmentConflict startsAt endsAt scope excludeAppointmentId rows =
    andThen (assertValidAppointmentInterval startsAt endsAt) (\<lambda>(s, e).
      require (\<not> list_ex (appointmentConflictWhere s e scope excludeAppointmentId) rows)
        appointmentConflictError)"

text \<open>
  \<open>aborts\<close> tells which attempts the database ends with a serialization failure; an attempt it lets
  through commits or throws, and a throw of the operation is not retried. A retry runs on the state
  of the first attempt: what another client commits between two attempts is a request of the run that
  comes before this one, since the transactions are serializable.
\<close>

fun attemptTransaction ::
  "(nat \<Rightarrow> bool) \<Rightarrow> api_error \<Rightarrow> nat \<Rightarrow> nat \<Rightarrow> ('s \<Rightarrow> ('a \<times> 's) api) \<Rightarrow> 's \<Rightarrow> 'a api \<times> 's" where
  "attemptTransaction aborts conflict attempt 0 operation s = (Inl appointmentConflictError, s)"
| "attemptTransaction aborts conflict attempt (Suc left) operation s =
    (if \<not> aborts attempt then
       (case operation s of Inl e \<Rightarrow> (Inl e, s) | Inr (x, s') \<Rightarrow> (Inr x, s'))
     else if left = 0 then (Inl conflict, s)
     else attemptTransaction aborts conflict (Suc attempt) left operation s)"

definition runAppointmentConflictTransaction ::
  "transaction_mode \<Rightarrow> (nat \<Rightarrow> bool) \<Rightarrow> api_error option \<Rightarrow> ('s \<Rightarrow> ('a \<times> 's) api) \<Rightarrow> 's \<Rightarrow> 'a api \<times> 's" where
  "runAppointmentConflictTransaction mode aborts serializationConflictError operation s =
    attemptTransaction aborts
      (case serializationConflictError of None \<Rightarrow> appointmentConflictError | Some e \<Rightarrow> e)
      1 (if mode = DatabaseCreateBoundedRetry then DATABASE_CREATE_MAX_ATTEMPTS else 1) operation s"


section \<open>Laws\<close>

lemma overlap_symmetric:
  "appointmentIntervalsOverlap a b c d \<longleftrightarrow> appointmentIntervalsOverlap c d a b"
  by (auto simp: appointmentIntervalsOverlap_def)

lemma overlap_iff_common_instant:
  assumes "a < b" and "c < d"
  shows "appointmentIntervalsOverlap a b c d \<longleftrightarrow> (\<exists>t. a \<le> t \<and> t < b \<and> c \<le> t \<and> t < d)"
proof
  assume "appointmentIntervalsOverlap a b c d"
  then have "a \<le> max a c \<and> max a c < b \<and> c \<le> max a c \<and> max a c < d"
    using assms by (auto simp: appointmentIntervalsOverlap_def)
  then show "\<exists>t. a \<le> t \<and> t < b \<and> c \<le> t \<and> t < d" by blast
qed (auto simp: appointmentIntervalsOverlap_def)

text \<open>The rows that clash are the active ones in scope whose time shares an instant with the interval.\<close>

lemma assertNoAppointmentConflict_Inr:
  assumes "assertNoAppointmentConflict (Some s) (Some e) scope ex rows = Inr u"
  shows "s < e" and "\<And>a. a \<in> set rows \<Longrightarrow> \<not> appointmentConflictWhere s e scope ex a"
  using assms
  by (auto simp: assertNoAppointmentConflict_def assertValidAppointmentInterval_def list_ex_iff
      split: if_splits)

lemma attemptTransaction_result:
  "attemptTransaction aborts conflict n left operation s = (r, s') \<Longrightarrow>
    (\<exists>x. r = Inr x \<and> operation s = Inr (x, s')) \<or>
    (s' = s \<and> (\<exists>e. r = Inl e \<and> (operation s = Inl e \<or> e = conflict \<or> e = appointmentConflictError)))"
proof (induction left arbitrary: n)
  case 0
  then show ?case by auto
next
  case (Suc left)
  then show ?case
    by (cases "operation s") (auto split: if_splits prod.splits)
qed

text \<open>A transaction commits the state of an attempt that ran, or leaves the state.\<close>

lemma runTransaction_cases:
  assumes "runAppointmentConflictTransaction mode aborts ce operation s = (r, s')"
  obtains (committed) x where "r = Inr x" "operation s = Inr (x, s')"
    | (failed) e where "r = Inl e" "s' = s"
  using attemptTransaction_result [OF assms [unfolded runAppointmentConflictTransaction_def]] by blast

text \<open>
  A booking is attempted three times and an update of an existing appointment once: where the
  database aborts each of these attempts the conflict is thrown, whatever a further attempt would have
  done, and otherwise the first attempt it lets through decides.
\<close>

theorem booking_retries_bounded:
  "runAppointmentConflictTransaction mode aborts ce operation s =
    (if aborts 1 \<and> (mode = DatabaseCreateBoundedRetry \<longrightarrow> aborts 2 \<and> aborts 3)
     then (Inl (case ce of None \<Rightarrow> appointmentConflictError | Some e \<Rightarrow> e), s)
     else (case operation s of Inl e \<Rightarrow> (Inl e, s) | Inr (x, s') \<Rightarrow> (Inr x, s')))"
  by (simp add: runAppointmentConflictTransaction_def DATABASE_CREATE_MAX_ATTEMPTS_def numeral_eq_Suc)

end
