(* ===== verification/Outcomes.thy ===== *)
theory Outcomes
  imports Conflicts
begin

text \<open>
  What became of a consultation: \<open>src/src/server/admin/consultation-outcome-policy.ts\<close> and
  \<open>src/src/server/admin/consultation-outcome-service.ts\<close>. A request carries the version of the
  outcome it was made for, and a transaction applies it to that version only.
\<close>

section \<open>Policy\<close>

definition CONSULTATION_OVERDUE_UNBOOKED_MS :: int where
  "CONSULTATION_OVERDUE_UNBOOKED_MS = 72 * 60 * 60 * 1000"

definition ACTIVE_UNBOOKED_CONSULTATION_STATUSES :: "consultation_status list" where
  "ACTIVE_UNBOOKED_CONSULTATION_STATUSES = [C_NEW, C_REVIEWING, C_PAYMENT_PENDING, C_SCHEDULED]"

definition INITIAL_OUTCOME_REASON_CODES :: "string list" where
  "INITIAL_OUTCOME_REASON_CODES = [''COMPLETED_AS_SCHEDULED'', ''CLIENT_NO_SHOW'', ''CANCELLED_BY_CLIENT'',
     ''CANCELLED_BY_OFFICE'', ''TECHNICAL_ISSUE'', ''OTHER'']"

definition CORRECTION_OUTCOME_REASON_CODES :: "string list" where
  "CORRECTION_OUTCOME_REASON_CODES = [''CORRECTED_OPERATOR_ERROR'', ''CORRECTED_AFTER_VERIFICATION'',
     ''CORRECTED_CLIENT_UPDATE'', ''OTHER'']"

definition REOPEN_OUTCOME_REASON_CODES :: "string list" where
  "REOPEN_OUTCOME_REASON_CODES = [''REOPEN_CLIENT_REQUEST'', ''REOPEN_OFFICE_FOLLOW_UP'',
     ''REOPEN_SCHEDULING_ERROR'', ''OTHER'']"

definition isCorrectionReasonCode :: "string \<Rightarrow> bool" where
  "isCorrectionReasonCode value = (value \<in> set CORRECTION_OUTCOME_REASON_CODES)"

definition outcomeText :: "outcome_status \<Rightarrow> string" where
  "outcomeText os = (case os of O_PENDING \<Rightarrow> ''PENDING'' | O_AWAITING_RESULT \<Rightarrow> ''AWAITING_RESULT''
     | O_MISSED \<Rightarrow> ''MISSED'' | O_SUCCESSFUL \<Rightarrow> ''SUCCESSFUL'' | O_NO_SHOW \<Rightarrow> ''NO_SHOW''
     | O_CANCELLED \<Rightarrow> ''CANCELLED'')"

definition FINAL_CONSULTATION_OUTCOMES :: "outcome_status list" where
  "FINAL_CONSULTATION_OUTCOMES = [O_SUCCESSFUL, O_NO_SHOW, O_CANCELLED]"

definition isFinalOutcome :: "outcome_status \<Rightarrow> bool" where
  "isFinalOutcome os = (os = O_SUCCESSFUL \<or> os = O_NO_SHOW \<or> os = O_CANCELLED)"

text \<open>\<open>a && !b\<close> on optional columns: an empty id is no id.\<close>

definition present :: "string option \<Rightarrow> bool" where
  "present x = (case x of None \<Rightarrow> False | Some s \<Rightarrow> s \<noteq> [])"

definition classifyConsultationOutcome ::
  "outcome_status \<Rightarrow> int \<Rightarrow> string option \<Rightarrow> int option \<Rightarrow> int \<Rightarrow> outcome_status option" where
  "classifyConsultationOutcome outcomeStatus endsAt assignedLawyerId secretaryReviewedAt now =
    (if outcomeStatus \<noteq> O_PENDING \<or> endsAt > now then None
     else if \<not> present assignedLawyerId \<and> secretaryReviewedAt = None then Some O_MISSED
     else Some O_AWAITING_RESULT)"

definition appointmentStatusForConsultationOutcome :: "outcome_status \<Rightarrow> appointment_status option" where
  "appointmentStatusForConsultationOutcome outcome =
    (if outcome = O_SUCCESSFUL then Some A_COMPLETED
     else if outcome = O_NO_SHOW then Some A_NO_SHOW
     else if outcome = O_CANCELLED then Some A_CANCELLED else None)"

text \<open>The primary appointment: a consultation outside any case, the earliest, ties by id.\<close>

definition primaryAppointment :: "appointment \<Rightarrow> bool" where
  "primaryAppointment a = (ap_type a = AT_CONSULTATION \<and> ap_caseId a = None)"

fun textBefore :: "string \<Rightarrow> string \<Rightarrow> bool" where
  "textBefore [] t = (t \<noteq> [])"
| "textBefore (c # cs) [] = False"
| "textBefore (c # cs) (d # ds) =
     (codeUnit c < codeUnit d \<or> (codeUnit c = codeUnit d \<and> textBefore cs ds))"

definition startsEarlier :: "appointment \<Rightarrow> appointment \<Rightarrow> bool" where
  "startsEarlier a b =
    (ap_startsAt a < ap_startsAt b \<or> (ap_startsAt a = ap_startsAt b \<and> textBefore (ap_id a) (ap_id b)))"

fun earliest :: "appointment list \<Rightarrow> appointment option" where
  "earliest [] = None"
| "earliest (a # as) =
     (case earliest as of None \<Rightarrow> Some a | Some b \<Rightarrow> if startsEarlier b a then Some b else Some a)"

definition getPrimaryConsultationAppointment :: "string \<Rightarrow> appointment list \<Rightarrow> appointment option" where
  "getPrimaryConsultationAppointment consultationId rows =
    earliest (filter (\<lambda>a. ap_consultationRequestId a = Some consultationId \<and> primaryAppointment a) rows)"

datatype outcome_view = V_current | V_overdue_unbooked | V_awaiting_result | V_missed | V_successful
  | V_no_show | V_cancelled | V_all

definition CONSULTATION_OUTCOME_VIEWS :: "outcome_view list" where
  "CONSULTATION_OUTCOME_VIEWS = [V_current, V_overdue_unbooked, V_awaiting_result, V_missed, V_successful,
     V_no_show, V_cancelled, V_all]"

definition statusByView :: "outcome_view \<Rightarrow> outcome_status option" where
  "statusByView view = (case view of V_awaiting_result \<Rightarrow> Some O_AWAITING_RESULT | V_missed \<Rightarrow> Some O_MISSED
     | V_successful \<Rightarrow> Some O_SUCCESSFUL | V_no_show \<Rightarrow> Some O_NO_SHOW | V_cancelled \<Rightarrow> Some O_CANCELLED
     | _ \<Rightarrow> None)"

text \<open>The condition of a view, on a row and the appointments that belong to it.\<close>

definition consultationOutcomeViewWhere ::
  "outcome_view \<Rightarrow> int \<Rightarrow> appointment list \<Rightarrow> consultation \<Rightarrow> bool" where
  "consultationOutcomeViewWhere view asOf rows c =
    (let primaries = filter (\<lambda>a. ap_consultationRequestId a = Some (cr_id c) \<and> primaryAppointment a) rows;
         open1 = cr_status c \<in> set ACTIVE_UNBOOKED_CONSULTATION_STATUSES;
         limit = asOf - CONSULTATION_OVERDUE_UNBOOKED_MS
     in if view = V_current then
          cr_outcomeStatus c = O_PENDING \<and>
          ((list_ex (\<lambda>a. ap_endsAt a > asOf) primaries \<and> \<not> list_ex (\<lambda>a. ap_endsAt a \<le> asOf) primaries) \<or>
           (primaries = [] \<and> open1 \<and> cr_createdAt c > limit))
        else if view = V_overdue_unbooked then
          cr_outcomeStatus c = O_PENDING \<and> open1 \<and> cr_createdAt c \<le> limit \<and> primaries = []
        else case statusByView view of Some os \<Rightarrow> cr_outcomeStatus c = os | None \<Rightarrow> True)"

definition countConsultationOutcomeViews ::
  "int \<Rightarrow> appointment list \<Rightarrow> (consultation \<Rightarrow> bool) \<Rightarrow> consultation list \<Rightarrow> (outcome_view \<times> nat) list" where
  "countConsultationOutcomeViews asOf rows baseWhere cs =
    map (\<lambda>view. (view, length (filter (\<lambda>c. baseWhere c \<and> consultationOutcomeViewWhere view asOf rows c) cs)))
      CONSULTATION_OUTCOME_VIEWS"

definition consultationOperationalTiming ::
  "int \<Rightarrow> consultation_status \<Rightarrow> outcome_status \<Rightarrow> bool \<Rightarrow> int \<Rightarrow> bool \<times> int option" where
  "consultationOperationalTiming createdAt status outcomeStatus hasPrimaryAppointment asOf =
    (if hasPrimaryAppointment \<or> outcomeStatus \<noteq> O_PENDING \<or> status \<notin> set ACTIVE_UNBOOKED_CONSULTATION_STATUSES
     then (False, None)
     else let overdueAt = createdAt + CONSULTATION_OVERDUE_UNBOOKED_MS in (overdueAt \<le> asOf, Some overdueAt))"


section \<open>Bodies\<close>

record outcome_platform =
  ou_isUuid :: "string \<Rightarrow> bool"
  ou_issue :: "string \<Rightarrow> error_detail"
  ou_datetime :: "string \<Rightarrow> int option"

text \<open>The versions and durations are the numbers their coercion gives.\<close>

record outcome_input =
  oi_status :: string
  oi_expectedOutcomeVersion :: int
  oi_reasonCode :: string
  oi_note :: "string option"

record outcome_body =
  ob_status :: outcome_status
  ob_expectedOutcomeVersion :: int
  ob_reasonCode :: string
  ob_note :: "string option"

definition schemaIssue :: "outcome_platform \<Rightarrow> string \<Rightarrow> bool \<Rightarrow> error_detail list" where
  "schemaIssue pf path ok = (if ok then [] else [ou_issue pf path])"

definition textAtMost :: "nat \<Rightarrow> string option \<Rightarrow> bool" where
  "textAtMost n x = (case x of None \<Rightarrow> True | Some s \<Rightarrow> length (jsTrim s) \<le> n)"

definition consultationOutcomeInputSchema ::
  "outcome_platform \<Rightarrow> outcome_input \<Rightarrow> error_detail list + outcome_body" where
  "consultationOutcomeInputSchema pf raw =
    (let status = find (\<lambda>os. outcomeText os = oi_status raw) FINAL_CONSULTATION_OUTCOMES;
         issues = schemaIssue pf ''status'' (status \<noteq> None) @
           schemaIssue pf ''expectedOutcomeVersion'' (0 \<le> oi_expectedOutcomeVersion raw) @
           schemaIssue pf ''reasonCode''
             (oi_reasonCode raw \<in> set INITIAL_OUTCOME_REASON_CODES \<union> set CORRECTION_OUTCOME_REASON_CODES) @
           schemaIssue pf ''note'' (textAtMost 800 (oi_note raw))
     in if issues \<noteq> [] then Inl issues
        else Inr \<lparr>ob_status = the status, ob_expectedOutcomeVersion = oi_expectedOutcomeVersion raw,
                  ob_reasonCode = oi_reasonCode raw, ob_note = map_option jsTrim (oi_note raw)\<rparr>)"

record reopen_input =
  ri_assignedLawyerId :: string
  ri_startsAt :: string
  ri_durationMinutes :: int
  ri_mode :: appointment_mode
  ri_location :: "string option"
  ri_reasonCode :: string
  ri_note :: "string option"
  ri_expectedOutcomeVersion :: int

definition reopenConsultationInputSchema ::
  "outcome_platform \<Rightarrow> reopen_input \<Rightarrow> error_detail list + reopen_input \<times> int" where
  "reopenConsultationInputSchema pf raw =
    (let starts = ou_datetime pf (ri_startsAt raw);
         issues = schemaIssue pf ''assignedLawyerId'' (ou_isUuid pf (ri_assignedLawyerId raw)) @
           schemaIssue pf ''startsAt'' (starts \<noteq> None) @
           schemaIssue pf ''durationMinutes'' (15 \<le> ri_durationMinutes raw \<and> ri_durationMinutes raw \<le> 240) @
           schemaIssue pf ''mode'' (ri_mode raw \<noteq> M_COURT) @
           schemaIssue pf ''location'' (textAtMost 180 (ri_location raw)) @
           schemaIssue pf ''reasonCode'' (ri_reasonCode raw \<in> set REOPEN_OUTCOME_REASON_CODES) @
           schemaIssue pf ''note'' (textAtMost 800 (ri_note raw)) @
           schemaIssue pf ''expectedOutcomeVersion'' (0 \<le> ri_expectedOutcomeVersion raw)
     in if issues \<noteq> [] then Inl issues
        else Inr (raw\<lparr>ri_location := map_option jsTrim (ri_location raw),
                      ri_note := map_option jsTrim (ri_note raw)\<rparr>, the starts))"

definition filled :: "string option \<Rightarrow> string option" where
  "filled x = (case x of None \<Rightarrow> None | Some s \<Rightarrow> if s = [] then None else Some s)"


section \<open>Errors\<close>

definition consultationOutcomeNotReadyError :: api_error where
  "consultationOutcomeNotReadyError = apiError 409 CONSULTATION_OUTCOME_NOT_READY
     ''The consultation outcome is not ready to be recorded yet.''"

definition consultationStateChangedError :: api_error where
  "consultationStateChangedError = apiError 409 CONSULTATION_STATE_CHANGED
     ''The consultation changed after this view was loaded. Refresh and try again.''"

definition consultationReopenRequiredError :: api_error where
  "consultationReopenRequiredError = apiError 409 CONSULTATION_REOPEN_REQUIRED
     ''This missed consultation must be reopened and rescheduled before continuing.''"

definition assertOutcomeManagementPermission :: "principal \<Rightarrow> unit api" where
  "assertOutcomeManagementPermission actor =
    require (canManageConsultationOutcome actor) (apiError 403 PERMISSION_DENIED
      ''Consultation outcome management requires consultation review and appointment management permissions.'')"

definition assertExpectedOutcomeVersion :: "int \<Rightarrow> int \<Rightarrow> unit api" where
  "assertExpectedOutcomeVersion actual expected = require (actual = expected) consultationStateChangedError"

definition assertActiveConsultationLawyer :: "string \<Rightarrow> staff_member list \<Rightarrow> unit api" where
  "assertActiveConsultationLawyer userId staff =
    require (list_ex (\<lambda>u. sm_id u = userId \<and> sm_active u \<and> \<not> sm_deleted u \<and>
        sm_roleName u = ''Lawyer'' \<and> sm_roleActive u) staff)
      (apiError 400 VALIDATION_ERROR ''Assigned lawyer is invalid.'')"

definition consultationIdOf :: "outcome_platform \<Rightarrow> string \<Rightarrow> string api" where
  "consultationIdOf pf consultationId =
    parseWithSchema (\<lambda>s. if ou_isUuid pf s then Inr s else Inl [ou_issue pf []]) consultationId
      ''Consultation id is invalid.''"

definition consultationMissing :: api_error where
  "consultationMissing = apiError 404 NOT_FOUND ''Consultation was not found.''"


section \<open>Recording an outcome\<close>

definition outcomeMetadata ::
  "outcome_status \<Rightarrow> outcome_status \<Rightarrow> string \<Rightarrow> int \<Rightarrow> metadata" where
  "outcomeMetadata fromOutcome toOutcome reasonCode version =
    [(''fromOutcome'', MText (outcomeText fromOutcome)), (''toOutcome'', MText (outcomeText toOutcome)),
     (''reasonCode'', MText reasonCode), (''outcomeVersion'', MInt version), (''source'', MText ''ADMIN'')]"

definition recordOutcomeFields :: "int \<Rightarrow> string \<Rightarrow> outcome_status \<Rightarrow> string \<Rightarrow> string option \<Rightarrow> consultation \<Rightarrow> consultation" where
  "recordOutcomeFields now actorId status reasonCode note c =
    c\<lparr>cr_outcomeStatus := status, cr_outcomeAt := Some now, cr_outcomeById := Some actorId,
      cr_outcomeReasonCode := Some reasonCode, cr_outcomeNote := filled note,
      cr_outcomeVersion := cr_outcomeVersion c + 1\<rparr>"

text \<open>The rows \<open>updateMany\<close> finds: the outcome and its version are still the ones that were read.\<close>

definition outcomeTarget :: "string \<Rightarrow> outcome_status \<Rightarrow> int \<Rightarrow> consultation \<Rightarrow> bool" where
  "outcomeTarget consultationId outcomeStatus version r =
    (cr_id r = consultationId \<and> cr_outcomeStatus r = outcomeStatus \<and> cr_outcomeVersion r = version)"

text \<open>Whether the outcome of the row may be recorded now, and with which reasons.\<close>

definition outcomeReady :: "int \<Rightarrow> consultation \<Rightarrow> appointment option \<Rightarrow> bool" where
  "outcomeReady now c primary =
    (case primary of
       Some a \<Rightarrow> ap_endsAt a \<le> now
     | None \<Rightarrow> cr_status c = C_CONVERTED \<and> cr_convertedCaseId c \<noteq> None \<and>
         ((cr_outcomeStatus c = O_AWAITING_RESULT \<and>
           cr_outcomeReasonCode c = Some ''BACKFILL_CONVERTED_WITHOUT_PRIMARY'') \<or>
          isFinalOutcome (cr_outcomeStatus c)))"

definition allowedReasons :: "consultation \<Rightarrow> string list" where
  "allowedReasons c =
    (if isFinalOutcome (cr_outcomeStatus c) then CORRECTION_OUTCOME_REASON_CODES else INITIAL_OUTCOME_REASON_CODES)"

definition outcomeOperation ::
  "int \<Rightarrow> principal \<Rightarrow> string \<Rightarrow> outcome_body \<Rightarrow> office \<Rightarrow> (bool \<times> office) api" where
  "outcomeOperation now actor consultationId body s =
    (case fetch cr_id consultationId (of_consultations s) of
       None \<Rightarrow> Inl consultationMissing
     | Some c \<Rightarrow>
       andThen (assertExpectedOutcomeVersion (cr_outcomeVersion c) (ob_expectedOutcomeVersion body)) (\<lambda>_.
       andThen (require (cr_outcomeStatus c \<noteq> O_MISSED) consultationReopenRequiredError) (\<lambda>_.
       let currentIsFinal = isFinalOutcome (cr_outcomeStatus c);
           primary = getPrimaryConsultationAppointment consultationId (of_appointments s)
       in andThen (require (outcomeReady now c primary) consultationOutcomeNotReadyError) (\<lambda>_.
          andThen (require (cr_outcomeStatus c = O_AWAITING_RESULT \<or> currentIsFinal)
            consultationOutcomeNotReadyError) (\<lambda>_.
          andThen (require (cr_outcomeStatus c \<noteq> ob_status body)
            (apiError 400 VALIDATION_ERROR ''Choose a different final consultation outcome.'')) (\<lambda>_.
          andThen (require (ob_reasonCode body \<in> set (allowedReasons c))
            (apiError 400 VALIDATION_ERROR
              (if currentIsFinal then ''A categorized correction reason is required.''
               else ''A categorized consultation outcome reason is required.''))) (\<lambda>_.
          andThen (require (length (filter (outcomeTarget consultationId (cr_outcomeStatus c)
              (ob_expectedOutcomeVersion body)) (of_consultations s)) = 1) consultationStateChangedError) (\<lambda>_.
          case appointmentStatusForConsultationOutcome (ob_status body) of
            None \<Rightarrow> Inl consultationOutcomeNotReadyError
          | Some appointmentStatus \<Rightarrow>
            let s1 = s\<lparr>of_consultations := updateWhere
                  (outcomeTarget consultationId (cr_outcomeStatus c) (ob_expectedOutcomeVersion body))
                  (recordOutcomeFields now (pr_id actor) (ob_status body) (ob_reasonCode body) (ob_note body))
                  (of_consultations s)\<rparr>;
                s2 = (case primary of
                    None \<Rightarrow> s1
                  | Some a \<Rightarrow> s1\<lparr>of_appointments := modify ap_id (ap_id a)
                      (\<lambda>r. r\<lparr>ap_status := appointmentStatus\<rparr>) (of_appointments s1)\<rparr>);
                s3 = syncConsultationOutcomeNotifications now consultationId (ob_status body) s2;
                event = (auditEvent (Some (pr_id actor))
                    (if currentIsFinal then ''consultation.outcome.corrected'' else ''consultation.outcome.confirmed'')
                    ''ConsultationRequest'' (Some consultationId)
                    (outcomeMetadata (cr_outcomeStatus c) (ob_status body) (ob_reasonCode body)
                       (ob_expectedOutcomeVersion body + 1) @
                     (case primary of None \<Rightarrow> [] | Some a \<Rightarrow> [(''primaryAppointmentId'', MText (ap_id a))])))
                  \<lparr>ae_clientId := cr_clientId c, ae_lawyerId := cr_assignedLawyerId c,
                   ae_appointmentId := map_option ap_id primary\<rparr>
            in Inr (currentIsFinal, s3\<lparr>of_audit := appendAuditLog event (of_audit s3)\<rparr>)))))))))"

definition setConsultationOutcome ::
  "outcome_platform \<Rightarrow> (nat \<Rightarrow> bool) \<Rightarrow> int \<Rightarrow> principal \<Rightarrow> string \<Rightarrow> outcome_input \<Rightarrow> office \<Rightarrow> bool api \<times> office" where
  "setConsultationOutcome pf aborts now actor consultationId raw s =
    (case andThen (assertOutcomeManagementPermission actor) (\<lambda>_.
          andThen (consultationIdOf pf consultationId) (\<lambda>i.
          andThen (parseWithSchema (consultationOutcomeInputSchema pf) raw
            ''Consultation outcome payload is invalid.'') (\<lambda>body. Inr (i, body)))) of
       Inl e \<Rightarrow> (Inl e, s)
     | Inr (i, body) \<Rightarrow>
       runAppointmentConflictTransaction ExistingUpdateSingleAttempt aborts
         (Some consultationStateChangedError) (outcomeOperation now actor i body) s)"


section \<open>Reopening a missed consultation\<close>

definition orClient :: "string option \<Rightarrow> string \<Rightarrow> string" where
  "orClient x d = (case x of None \<Rightarrow> d | Some c \<Rightarrow> c)"

definition reopenOperation ::
  "int \<Rightarrow> principal \<Rightarrow> string \<Rightarrow> reopen_input \<Rightarrow> int \<Rightarrow> office \<Rightarrow> (unit \<times> office) api" where
  "reopenOperation now actor consultationId body startsAt s =
    (let endsAt = startsAt + ri_durationMinutes body * 60000 in
     case fetch cr_id consultationId (of_consultations s) of
       None \<Rightarrow> Inl consultationMissing
     | Some c \<Rightarrow>
       andThen (assertExpectedOutcomeVersion (cr_outcomeVersion c) (ri_expectedOutcomeVersion body)) (\<lambda>_.
       andThen (require (cr_outcomeStatus c = O_MISSED) consultationReopenRequiredError) (\<lambda>_.
       andThen (require (cr_status c \<noteq> C_REJECTED \<and> cr_status c \<noteq> C_CONVERTED) consultationStateChangedError) (\<lambda>_.
       case getPrimaryConsultationAppointment consultationId (of_appointments s) of
         None \<Rightarrow> Inl consultationOutcomeNotReadyError
       | Some a \<Rightarrow>
         let conflictClientId = orClient (cr_clientId c) (ap_clientId a)
         in andThen (assertActiveConsultationLawyer (ri_assignedLawyerId body) (of_staff s)) (\<lambda>_.
            andThen (assertNoAppointmentConflict (Some startsAt) (Some endsAt)
              (LawyerScope (ri_assignedLawyerId body)) (Some (ap_id a)) (of_appointments s)) (\<lambda>_.
            andThen (assertNoAppointmentConflict (Some startsAt) (Some endsAt)
              (ClientScope conflictClientId) (Some (ap_id a)) (of_appointments s)) (\<lambda>_.
            andThen (require (length (filter (outcomeTarget consultationId O_MISSED
                (ri_expectedOutcomeVersion body)) (of_consultations s)) = 1) consultationStateChangedError) (\<lambda>_.
            let s1 = s\<lparr>of_consultations := updateWhere
                  (outcomeTarget consultationId O_MISSED (ri_expectedOutcomeVersion body))
                  (\<lambda>r. (recordOutcomeFields now (pr_id actor) O_PENDING (ri_reasonCode body) (ri_note body) r)
                     \<lparr>cr_assignedLawyerId := Some (ri_assignedLawyerId body),
                      cr_secretaryReviewedAt := Some (case cr_secretaryReviewedAt c of None \<Rightarrow> now | Some t \<Rightarrow> t),
                      cr_secretaryReviewedById := (if cr_secretaryReviewedAt c = None then Some (pr_id actor)
                         else cr_secretaryReviewedById r)\<rparr>) (of_consultations s)\<rparr>;
                s2 = s1\<lparr>of_appointments := modify ap_id (ap_id a)
                  (\<lambda>r. r\<lparr>ap_lawyerId := Some (ri_assignedLawyerId body), ap_startsAt := startsAt,
                         ap_endsAt := endsAt, ap_mode := ri_mode body, ap_location := filled (ri_location body),
                         ap_status := A_RESCHEDULED\<rparr>) (of_appointments s1)\<rparr>;
                s3 = s2\<lparr>of_clients := modify oc_id conflictClientId
                  (\<lambda>r. r\<lparr>oc_assignedLawyerId := Some (ri_assignedLawyerId body)\<rparr>) (of_clients s2)\<rparr>;
                s4 = syncConsultationOutcomeNotifications now consultationId O_PENDING s3;
                event = (auditEvent (Some (pr_id actor)) ''consultation.outcome.reopened'' ''ConsultationRequest''
                    (Some consultationId)
                    (outcomeMetadata O_MISSED O_PENDING (ri_reasonCode body) (ri_expectedOutcomeVersion body + 1) @
                     [(''primaryAppointmentId'', MText (ap_id a)),
                      (''assignedLawyerId'', MText (ri_assignedLawyerId body))]))
                  \<lparr>ae_clientId := Some conflictClientId, ae_lawyerId := Some (ri_assignedLawyerId body),
                   ae_appointmentId := Some (ap_id a)\<rparr>
            in Inr ((), s4\<lparr>of_audit := appendAuditLog event (of_audit s4)\<rparr>)))))))))"

definition reopenMissedConsultation ::
  "outcome_platform \<Rightarrow> (nat \<Rightarrow> bool) \<Rightarrow> int \<Rightarrow> principal \<Rightarrow> string \<Rightarrow> reopen_input \<Rightarrow> office \<Rightarrow> unit api \<times> office" where
  "reopenMissedConsultation pf aborts now actor consultationId raw s =
    (case andThen (assertOutcomeManagementPermission actor) (\<lambda>_.
          andThen (consultationIdOf pf consultationId) (\<lambda>i.
          andThen (parseWithSchema (reopenConsultationInputSchema pf) raw
            ''Consultation reopen payload is invalid.'') (\<lambda>(body, startsAt).
          andThen (require (startsAt > now)
            (apiError 400 VALIDATION_ERROR ''The reopened consultation must start in the future.'')) (\<lambda>_.
            Inr (i, body, startsAt))))) of
       Inl e \<Rightarrow> (Inl e, s)
     | Inr (i, body, startsAt) \<Rightarrow>
       runAppointmentConflictTransaction ExistingUpdateSingleAttempt aborts None
         (reopenOperation now actor i body startsAt) s)"

end
