(* ===== verification/OutcomeFacts.thy ===== *)
theory OutcomeFacts
  imports Outcomes
begin

text \<open>
  What holds of the outcomes of consultations: the requests that record or reopen them, the
  invariant they keep, the machine their outcomes follow, and the lock their versions are.
\<close>

section \<open>Requests\<close>

datatype outcome_request =
    SetOutcome (oq_now: int) (oq_actor: principal) (oq_aborts: "nat \<Rightarrow> bool") (oq_id: string) outcome_input
  | Reopen (oq_now: int) (oq_actor: principal) (oq_aborts: "nat \<Rightarrow> bool") (oq_id: string) reopen_input

definition outcomeServe :: "outcome_platform \<Rightarrow> outcome_request \<Rightarrow> office \<Rightarrow> (api_error + bool) \<times> office" where
  "outcomeServe pf q s =
    (case q of
       SetOutcome now actor aborts i raw \<Rightarrow> setConsultationOutcome pf aborts now actor i raw s
     | Reopen now actor aborts i raw \<Rightarrow>
         (case reopenMissedConsultation pf aborts now actor i raw s of (r, s') \<Rightarrow>
            (case r of Inl e \<Rightarrow> Inl e | Inr _ \<Rightarrow> Inr True, s')))"

definition expectedVersion :: "outcome_request \<Rightarrow> int" where
  "expectedVersion q = (case q of SetOutcome _ _ _ _ raw \<Rightarrow> oi_expectedOutcomeVersion raw
     | Reopen _ _ _ _ raw \<Rightarrow> ri_expectedOutcomeVersion raw)"


section \<open>Successful operations\<close>

lemma earliest_in: "earliest rows = Some a \<Longrightarrow> a \<in> set rows"
  by (induction rows arbitrary: a) (auto split: option.splits if_splits)

lemma primary_in:
  "getPrimaryConsultationAppointment i rows = Some a \<Longrightarrow>
    a \<in> set rows \<and> ap_consultationRequestId a = Some i \<and> primaryAppointment a"
  unfolding getPrimaryConsultationAppointment_def using earliest_in by fastforce

lemma appointmentStatus_inactive:
  "appointmentStatusForConsultationOutcome os = Some st \<Longrightarrow> st \<notin> set ACTIVE_APPOINTMENT_STATUSES \<and> isFinalOutcome os"
  by (auto simp: appointmentStatusForConsultationOutcome_def ACTIVE_APPOINTMENT_STATUSES_def
      isFinalOutcome_def split: if_splits)

lemma outcomeOperation_success:
  assumes "outcomeOperation now actor i body s = Inr (b, s')"
  obtains c st where "fetch cr_id i (of_consultations s) = Some c"
    "cr_outcomeVersion c = ob_expectedOutcomeVersion body"
    "cr_outcomeStatus c = O_AWAITING_RESULT \<or> isFinalOutcome (cr_outcomeStatus c)"
    "cr_outcomeStatus c \<noteq> ob_status body" "isFinalOutcome (ob_status body)"
    "appointmentStatusForConsultationOutcome (ob_status body) = Some st"
    "outcomeReady now c (getPrimaryConsultationAppointment i (of_appointments s))"
    "ob_reasonCode body \<in> set (allowedReasons c)"
    "of_consultations s' = updateWhere (outcomeTarget i (cr_outcomeStatus c) (ob_expectedOutcomeVersion body))
       (recordOutcomeFields now (pr_id actor) (ob_status body) (ob_reasonCode body) (ob_note body))
       (of_consultations s)"
    "of_appointments s' = (case getPrimaryConsultationAppointment i (of_appointments s) of
        None \<Rightarrow> of_appointments s
      | Some a \<Rightarrow> modify ap_id (ap_id a) (\<lambda>r. r\<lparr>ap_status := st\<rparr>) (of_appointments s))"
proof (cases "fetch cr_id i (of_consultations s)")
  case None
  with assms show ?thesis by (simp add: outcomeOperation_def)
next
  case (Some c)
  show ?thesis
  proof (cases "appointmentStatusForConsultationOutcome (ob_status body)")
    case None
    with assms Some show ?thesis
      by (simp add: outcomeOperation_def Let_def assertExpectedOutcomeVersion_def)
  next
    case st: (Some st)
    note facts = assms [unfolded outcomeOperation_def Let_def assertExpectedOutcomeVersion_def]
    show ?thesis
    proof (rule that [OF Some _ _ _ _ st])
      from appointmentStatus_inactive [OF st] show "isFinalOutcome (ob_status body)" by simp
    qed (use facts Some st in \<open>auto split: option.splits\<close>)
  qed
qed

lemma reopenOperation_success:
  assumes "reopenOperation now actor i body startsAt s = Inr (u, s')"
  obtains c a endsAt client g where "fetch cr_id i (of_consultations s) = Some c"
    "cr_outcomeVersion c = ri_expectedOutcomeVersion body" "cr_outcomeStatus c = O_MISSED"
    "getPrimaryConsultationAppointment i (of_appointments s) = Some a"
    "endsAt = startsAt + ri_durationMinutes body * 60000"
    "client = orClient (cr_clientId c) (ap_clientId a)"
    "assertNoAppointmentConflict (Some startsAt) (Some endsAt) (LawyerScope (ri_assignedLawyerId body))
       (Some (ap_id a)) (of_appointments s) = Inr ()"
    "assertNoAppointmentConflict (Some startsAt) (Some endsAt) (ClientScope client)
       (Some (ap_id a)) (of_appointments s) = Inr ()"
    "of_consultations s' = updateWhere (outcomeTarget i O_MISSED (ri_expectedOutcomeVersion body)) g
       (of_consultations s)"
    "\<And>r. cr_id (g r) = cr_id r \<and> cr_clientId (g r) = cr_clientId r \<and> cr_outcomeStatus (g r) = O_PENDING \<and>
       cr_outcomeVersion (g r) = cr_outcomeVersion r + 1"
    "of_appointments s' = modify ap_id (ap_id a)
       (\<lambda>r. r\<lparr>ap_lawyerId := Some (ri_assignedLawyerId body), ap_startsAt := startsAt,
              ap_endsAt := endsAt, ap_mode := ri_mode body, ap_location := filled (ri_location body),
              ap_status := A_RESCHEDULED\<rparr>) (of_appointments s)"
proof (cases "fetch cr_id i (of_consultations s)")
  case None
  with assms show ?thesis by (simp add: reopenOperation_def Let_def)
next
  case (Some c)
  show ?thesis
  proof (cases "getPrimaryConsultationAppointment i (of_appointments s)")
    case None
    with assms Some show ?thesis by (simp add: reopenOperation_def Let_def)
  next
    case a: (Some a)
    note facts = assms [unfolded reopenOperation_def Let_def assertExpectedOutcomeVersion_def]
    show ?thesis
      by (rule that [OF Some _ _ a refl refl _ _ _ _ _, where g =
          "\<lambda>r. (recordOutcomeFields now (pr_id actor) O_PENDING (ri_reasonCode body) (ri_note body) r)
             \<lparr>cr_assignedLawyerId := Some (ri_assignedLawyerId body),
              cr_secretaryReviewedAt := Some (case cr_secretaryReviewedAt c of None \<Rightarrow> now | Some t \<Rightarrow> t),
              cr_secretaryReviewedById := (if cr_secretaryReviewedAt c = None then Some (pr_id actor)
                 else cr_secretaryReviewedById r)\<rparr>"])
        (use facts Some a in \<open>auto simp: recordOutcomeFields_def\<close>)
  qed
qed


lemma consultationIdOf_eq [simp]: "consultationIdOf pf i = Inr j \<longleftrightarrow> ou_isUuid pf i \<and> j = i"
  by (auto simp: consultationIdOf_def parseWithSchema_def)

lemma outcomeSchema_version:
  "consultationOutcomeInputSchema pf raw = Inr body \<Longrightarrow>
    ob_expectedOutcomeVersion body = oi_expectedOutcomeVersion raw"
  by (auto simp: consultationOutcomeInputSchema_def Let_def split: if_splits)

lemma reopenSchema_version:
  "reopenConsultationInputSchema pf raw = Inr (body, t) \<Longrightarrow>
    ri_expectedOutcomeVersion body = ri_expectedOutcomeVersion raw"
  by (auto simp: reopenConsultationInputSchema_def Let_def split: if_splits)

text \<open>A request fails and leaves the office, or its operation ran.\<close>

lemma outcomeServe_cases:
  assumes "outcomeServe pf q s = (r, s')"
  obtains (failed) e where "r = Inl e" "s' = s"
    | (recorded) now actor body b where "r = Inr b"
        "outcomeOperation now actor (oq_id q) body s = Inr (b, s')"
        "ob_expectedOutcomeVersion body = expectedVersion q"
    | (reopened) now actor body t where "r = Inr True"
        "reopenOperation now actor (oq_id q) body t s = Inr ((), s')"
        "ri_expectedOutcomeVersion body = expectedVersion q"
proof (cases q)
  case (SetOutcome now actor aborts i raw)
  with assms have run: "setConsultationOutcome pf aborts now actor i raw s = (r, s')"
    by (simp add: outcomeServe_def)
  show ?thesis
  proof (cases "andThen (assertOutcomeManagementPermission actor) (\<lambda>_.
      andThen (consultationIdOf pf i) (\<lambda>j. andThen (parseWithSchema (consultationOutcomeInputSchema pf) raw
        ''Consultation outcome payload is invalid.'') (\<lambda>body. Inr (j, body))))")
    case (Inl e)
    with run show ?thesis by (auto simp: setConsultationOutcome_def intro: failed)
  next
    case (Inr p)
    then obtain body where p: "p = (i, body)" and body: "consultationOutcomeInputSchema pf raw = Inr body"
      by (auto simp: parseWithSchema_eq)
    with Inr run have "runAppointmentConflictTransaction ExistingUpdateSingleAttempt aborts
        (Some consultationStateChangedError) (outcomeOperation now actor i body) s = (r, s')"
      by (simp only: setConsultationOutcome_def sum.case prod.case)
    then show ?thesis
      by (rule runTransaction_cases)
        (use SetOutcome outcomeSchema_version [OF body] in
          \<open>auto simp: expectedVersion_def intro: failed recorded\<close>)
  qed
next
  case (Reopen now actor aborts i raw)
  obtain r1 s1 where run: "reopenMissedConsultation pf aborts now actor i raw s = (r1, s1)" by fastforce
  with assms Reopen have r: "r = (case r1 of Inl e \<Rightarrow> Inl e | Inr _ \<Rightarrow> Inr True)" "s' = s1"
    by (simp_all add: outcomeServe_def)
  show ?thesis
  proof (cases "andThen (assertOutcomeManagementPermission actor) (\<lambda>_.
      andThen (consultationIdOf pf i) (\<lambda>j. andThen (parseWithSchema (reopenConsultationInputSchema pf) raw
        ''Consultation reopen payload is invalid.'') (\<lambda>(body, startsAt).
        andThen (require (startsAt > now)
            (apiError 400 VALIDATION_ERROR ''The reopened consultation must start in the future.'')) (\<lambda>_.
            Inr (j, body, startsAt)))))")
    case (Inl e)
    with run r show ?thesis by (auto simp: reopenMissedConsultation_def intro: failed)
  next
    case (Inr p)
    then obtain body t where p: "p = (i, body, t)" and body: "reopenConsultationInputSchema pf raw = Inr (body, t)"
      by (auto simp: parseWithSchema_eq)
    with Inr run have "runAppointmentConflictTransaction ExistingUpdateSingleAttempt aborts None
        (reopenOperation now actor i body t) s = (r1, s1)"
      by (simp only: reopenMissedConsultation_def sum.case prod.case)
    then show ?thesis
      by (rule runTransaction_cases)
        (use Reopen r reopenSchema_version [OF body] in
          \<open>auto simp: expectedVersion_def intro: failed reopened\<close>)
  qed
qed


section \<open>The invariant\<close>

text \<open>
  The ids of a table are distinct, a consultation's appointments are its client's, and no lawyer
  and no client has two active appointments at one time.
\<close>

definition activeAppointment :: "appointment \<Rightarrow> bool" where
  "activeAppointment a \<longleftrightarrow> ap_status a \<in> set ACTIVE_APPOINTMENT_STATUSES"

definition sharesPerson :: "appointment \<Rightarrow> appointment \<Rightarrow> bool" where
  "sharesPerson a b \<longleftrightarrow> (ap_lawyerId a \<noteq> None \<and> ap_lawyerId a = ap_lawyerId b) \<or> ap_clientId a = ap_clientId b"

definition doubleBooked :: "appointment \<Rightarrow> appointment \<Rightarrow> bool" where
  "doubleBooked a b \<longleftrightarrow> ap_id a \<noteq> ap_id b \<and> activeAppointment a \<and> activeAppointment b \<and> sharesPerson a b \<and>
     appointmentIntervalsOverlap (ap_startsAt a) (ap_endsAt a) (ap_startsAt b) (ap_endsAt b)"

definition noDoubleBooking :: "appointment list \<Rightarrow> bool" where
  "noDoubleBooking rows \<longleftrightarrow> (\<forall>a\<in>set rows. \<forall>b\<in>set rows. \<not> doubleBooked a b)"

definition appointmentsLinked :: "office \<Rightarrow> bool" where
  "appointmentsLinked s \<longleftrightarrow> (\<forall>a\<in>set (of_appointments s). \<forall>c\<in>set (of_consultations s). \<forall>k.
     ap_consultationRequestId a = Some (cr_id c) \<longrightarrow> cr_clientId c = Some k \<longrightarrow> ap_clientId a = k)"

definition officeOk :: "office \<Rightarrow> bool" where
  "officeOk s \<longleftrightarrow> distinct (map cr_id (of_consultations s)) \<and> distinct (map ap_id (of_appointments s)) \<and>
     appointmentsLinked s \<and> noDoubleBooking (of_appointments s)"

lemma sharesPerson_sym: "sharesPerson a b \<Longrightarrow> sharesPerson b a"
  unfolding sharesPerson_def by metis

lemma doubleBooked_sym: "doubleBooked a b \<Longrightarrow> doubleBooked b a"
  by (auto simp: doubleBooked_def sharesPerson_sym overlap_symmetric)

text \<open>A changed row makes no double booking when the new row clashes with no other.\<close>

lemma noDoubleBooking_modify:
  assumes "noDoubleBooking rows" and "distinct (map ap_id rows)" and "\<And>r. ap_id (f r) = ap_id r"
    and "a \<in> set rows" and "\<And>b. b \<in> set rows \<Longrightarrow> ap_id b \<noteq> ap_id a \<Longrightarrow> \<not> doubleBooked (f a) b"
  shows "noDoubleBooking (modify ap_id (ap_id a) f rows)"
  unfolding noDoubleBooking_def
proof (intro ballI notI)
  fix x y assume x: "x \<in> set (modify ap_id (ap_id a) f rows)" and y: "y \<in> set (modify ap_id (ap_id a) f rows)"
    and d: "doubleBooked x y"
  have row: "(z = f a \<and> ap_id z = ap_id a) \<or> (z \<in> set rows \<and> ap_id z \<noteq> ap_id a)"
    if "z \<in> set (modify ap_id (ap_id a) f rows)" for z
  proof -
    from that obtain r where r: "r \<in> set rows" "z = (if ap_id r = ap_id a then f r else r)"
      by (auto simp: set_modify)
    show ?thesis
    proof (cases "ap_id r = ap_id a")
      case True
      then have "r = a" using assms(2,4) r(1) by (metis fetch_distinct option.inject)
      with r True assms(3) show ?thesis by simp
    qed (use r in auto)
  qed
  from d have "ap_id x \<noteq> ap_id y" by (simp add: doubleBooked_def)
  with row [OF x] row [OF y] d assms(1,5) show False
    by (auto simp: noDoubleBooking_def dest: doubleBooked_sym)
qed

lemma appointmentsLinked_step:
  assumes "appointmentsLinked s"
    and "of_consultations s' = updateWhere p g (of_consultations s)"
    and "\<And>r. cr_id (g r) = cr_id r \<and> cr_clientId (g r) = cr_clientId r"
    and "\<And>a'. a' \<in> set (of_appointments s') \<Longrightarrow> \<exists>a\<in>set (of_appointments s).
       ap_consultationRequestId a' = ap_consultationRequestId a \<and> ap_clientId a' = ap_clientId a"
  shows "appointmentsLinked s'"
  unfolding appointmentsLinked_def
proof (intro ballI allI impI)
  fix a' c' k assume a': "a' \<in> set (of_appointments s')" and c': "c' \<in> set (of_consultations s')"
    and link: "ap_consultationRequestId a' = Some (cr_id c')" "cr_clientId c' = Some k"
  from assms(4) [OF a'] obtain a where a: "a \<in> set (of_appointments s)"
    "ap_consultationRequestId a' = ap_consultationRequestId a" "ap_clientId a' = ap_clientId a" by blast
  from c' assms(2,3) obtain c where c: "c \<in> set (of_consultations s)" "cr_id c' = cr_id c" "cr_clientId c' = cr_clientId c"
    by (auto simp: set_updateWhere)
  from a c link assms(1) show "ap_clientId a' = k" by (simp add: appointmentsLinked_def)
qed

lemma recordOutcomeFields_keeps [simp]:
  "cr_id (recordOutcomeFields now act os rc note c) = cr_id c"
  "cr_clientId (recordOutcomeFields now act os rc note c) = cr_clientId c"
  "cr_outcomeStatus (recordOutcomeFields now act os rc note c) = os"
  "cr_outcomeVersion (recordOutcomeFields now act os rc note c) = cr_outcomeVersion c + 1"
  by (simp_all add: recordOutcomeFields_def)

lemma officeOk_recorded:
  assumes ok: "officeOk s" and op: "outcomeOperation now actor i body s = Inr (b, s')"
  shows "officeOk s'"
  using op
proof (rule outcomeOperation_success)
  fix c st
  assume st: "appointmentStatusForConsultationOutcome (ob_status body) = Some st"
    and cons: "of_consultations s' = updateWhere (outcomeTarget i (cr_outcomeStatus c) (ob_expectedOutcomeVersion body))
       (recordOutcomeFields now (pr_id actor) (ob_status body) (ob_reasonCode body) (ob_note body)) (of_consultations s)"
    and apps: "of_appointments s' = (case getPrimaryConsultationAppointment i (of_appointments s) of
        None \<Rightarrow> of_appointments s
      | Some a \<Rightarrow> modify ap_id (ap_id a) (\<lambda>r. r\<lparr>ap_status := st\<rparr>) (of_appointments s))"
  have link: "appointmentsLinked s'"
    by (rule appointmentsLinked_step [OF _ cons])
      (use ok apps in \<open>auto simp: officeOk_def set_modify split: option.splits\<close>)
  have ids: "map cr_id (of_consultations s') = map cr_id (of_consultations s)"
    by (simp add: cons map_key_updateWhere)
  have inactive: "st \<notin> set ACTIVE_APPOINTMENT_STATUSES" using appointmentStatus_inactive [OF st] by simp
  show ?thesis
  proof (cases "getPrimaryConsultationAppointment i (of_appointments s)")
    case None
    with ok link ids apps show ?thesis by (simp add: officeOk_def)
  next
    case (Some a)
    have "noDoubleBooking (modify ap_id (ap_id a) (\<lambda>r. r\<lparr>ap_status := st\<rparr>) (of_appointments s))"
      by (rule noDoubleBooking_modify)
        (use ok Some inactive primary_in in \<open>auto simp: officeOk_def doubleBooked_def activeAppointment_def\<close>)
    with ok link ids apps Some show ?thesis by (simp add: officeOk_def map_key_modify)
  qed
qed

lemma officeOk_reopened:
  assumes ok: "officeOk s" and op: "reopenOperation now actor i body t s = Inr (u, s')"
  shows "officeOk s'"
  using op
proof (rule reopenOperation_success)
  fix c a endsAt client g
  assume c: "fetch cr_id i (of_consultations s) = Some c"
    and a: "getPrimaryConsultationAppointment i (of_appointments s) = Some a"
    and client: "client = orClient (cr_clientId c) (ap_clientId a)"
    and lawyer: "assertNoAppointmentConflict (Some t) (Some endsAt) (LawyerScope (ri_assignedLawyerId body))
       (Some (ap_id a)) (of_appointments s) = Inr ()"
    and person: "assertNoAppointmentConflict (Some t) (Some endsAt) (ClientScope client)
       (Some (ap_id a)) (of_appointments s) = Inr ()"
    and cons: "of_consultations s' = updateWhere (outcomeTarget i O_MISSED (ri_expectedOutcomeVersion body)) g
       (of_consultations s)"
    and g: "\<And>r. cr_id (g r) = cr_id r \<and> cr_clientId (g r) = cr_clientId r \<and> cr_outcomeStatus (g r) = O_PENDING \<and>
       cr_outcomeVersion (g r) = cr_outcomeVersion r + 1"
    and apps: "of_appointments s' = modify ap_id (ap_id a)
       (\<lambda>r. r\<lparr>ap_lawyerId := Some (ri_assignedLawyerId body), ap_startsAt := t,
              ap_endsAt := endsAt, ap_mode := ri_mode body, ap_location := filled (ri_location body),
              ap_status := A_RESCHEDULED\<rparr>) (of_appointments s)"
  have link: "appointmentsLinked s'"
    by (rule appointmentsLinked_step [OF _ cons])
      (use ok apps g in \<open>auto simp: officeOk_def set_modify\<close>)
  have ids: "map cr_id (of_consultations s') = map cr_id (of_consultations s)"
    using g by (simp add: cons map_key_updateWhere)
  from primary_in [OF a] have a_in: "a \<in> set (of_appointments s)" "ap_consultationRequestId a = Some i" by simp_all
  have client_a: "ap_clientId a = client"
    using ok a_in fetch_SomeD [OF c] client
    by (cases "cr_clientId c") (auto simp: officeOk_def appointmentsLinked_def orClient_def)
  let ?f = "\<lambda>r. r\<lparr>ap_lawyerId := Some (ri_assignedLawyerId body), ap_startsAt := t,
      ap_endsAt := endsAt, ap_mode := ri_mode body, ap_location := filled (ri_location body),
      ap_status := A_RESCHEDULED\<rparr>"
  have free: "\<not> doubleBooked (?f a) b" if b: "b \<in> set (of_appointments s)" "ap_id b \<noteq> ap_id a" for b
    using assertNoAppointmentConflict_Inr(2) [OF lawyer b(1)] assertNoAppointmentConflict_Inr(2) [OF person b(1)]
      b(2) client_a
    by (auto simp: doubleBooked_def sharesPerson_def activeAppointment_def appointmentConflictWhere_def
        scopeCovers_def appointmentIntervalsOverlap_def)
  have "noDoubleBooking (modify ap_id (ap_id a) ?f (of_appointments s))"
    by (rule noDoubleBooking_modify) (use ok a_in free in \<open>auto simp: officeOk_def\<close>)
  with ok link ids apps show ?thesis by (simp add: officeOk_def map_key_modify)
qed

lemma officeOk_step: "officeOk s \<Longrightarrow> officeOk (snd (outcomeServe pf q s))"
proof -
  assume ok: "officeOk s"
  obtain r s' where run: "outcomeServe pf q s = (r, s')" by fastforce
  from run have "officeOk s'"
    by (rule outcomeServe_cases) (use ok in \<open>auto intro: officeOk_recorded officeOk_reopened\<close>)
  with run show ?thesis by simp
qed

interpretation outcomes: atomic_machine "outcomeServe pf" officeOk for pf
proof
  fix s q
  show "officeOk s \<Longrightarrow> officeOk (snd (outcomeServe pf q s))" by (rule officeOk_step)
next
  fix q s e
  assume e: "fst (outcomeServe pf q s) = Inl e"
  obtain r s' where run: "outcomeServe pf q s = (r, s')" by fastforce
  from run show "snd (outcomeServe pf q s) = s"
    by (rule outcomeServe_cases) (use e run in auto)
qed


section \<open>Versions\<close>

text \<open>What a request that went through found and left of its consultation.\<close>

lemma outcomeServe_success:
  assumes "outcomeServe pf q s = (Inr x, s')"
  obtains c c' p g where "fetch cr_id (oq_id q) (of_consultations s) = Some c"
    "cr_outcomeVersion c = expectedVersion q"
    "of_consultations s' = updateWhere p g (of_consultations s)" "p c" "c' = g c"
    "\<And>r. p r \<Longrightarrow> cr_id r = oq_id q \<and> cr_outcomeStatus r = cr_outcomeStatus c"
    "\<And>r. cr_id (g r) = cr_id r" "\<And>r. cr_outcomeVersion (g r) = cr_outcomeVersion r + 1"
    "\<And>r. cr_outcomeStatus (g r) = cr_outcomeStatus c'"
    "(cr_outcomeStatus c = O_MISSED \<and> cr_outcomeStatus c' = O_PENDING) \<or>
     ((cr_outcomeStatus c = O_AWAITING_RESULT \<or> isFinalOutcome (cr_outcomeStatus c)) \<and>
      isFinalOutcome (cr_outcomeStatus c') \<and> cr_outcomeStatus c' \<noteq> cr_outcomeStatus c)"
  using assms
proof (rule outcomeServe_cases)
  fix now actor body b
  assume op: "outcomeOperation now actor (oq_id q) body s = Inr (b, s')"
    and v: "ob_expectedOutcomeVersion body = expectedVersion q"
  from op show thesis
  proof (rule outcomeOperation_success)
    fix c st
    assume c: "fetch cr_id (oq_id q) (of_consultations s) = Some c"
      "cr_outcomeVersion c = ob_expectedOutcomeVersion body"
      "cr_outcomeStatus c = O_AWAITING_RESULT \<or> isFinalOutcome (cr_outcomeStatus c)"
      "cr_outcomeStatus c \<noteq> ob_status body" "isFinalOutcome (ob_status body)"
      and cons: "of_consultations s' = updateWhere
       (outcomeTarget (oq_id q) (cr_outcomeStatus c) (ob_expectedOutcomeVersion body))
       (recordOutcomeFields now (pr_id actor) (ob_status body) (ob_reasonCode body) (ob_note body))
       (of_consultations s)"
    show thesis
      by (rule that [OF c(1) _ cons _ refl]) (use c v fetch_SomeD [OF c(1)] in \<open>auto simp: outcomeTarget_def\<close>)
  qed
next
  fix now actor body t
  assume op: "reopenOperation now actor (oq_id q) body t s = Inr ((), s')"
    and v: "ri_expectedOutcomeVersion body = expectedVersion q"
  from op show thesis
  proof (rule reopenOperation_success)
    fix c a e k g
    assume c: "fetch cr_id (oq_id q) (of_consultations s) = Some c"
      "cr_outcomeVersion c = ri_expectedOutcomeVersion body" "cr_outcomeStatus c = O_MISSED"
      and cons: "of_consultations s' = updateWhere
        (outcomeTarget (oq_id q) O_MISSED (ri_expectedOutcomeVersion body)) g (of_consultations s)"
      and g: "\<And>r. cr_id (g r) = cr_id r \<and> cr_clientId (g r) = cr_clientId r \<and>
        cr_outcomeStatus (g r) = O_PENDING \<and> cr_outcomeVersion (g r) = cr_outcomeVersion r + 1"
    show thesis
      by (rule that [OF c(1) _ cons _ refl]) (use c v g fetch_SomeD [OF c(1)] in \<open>auto simp: outcomeTarget_def\<close>)
  qed
next
  fix e assume "(Inr x :: api_error + bool) = Inl e"
  then show thesis by (rule sum.distinct(2) [THEN notE])
qed

text \<open>What a step does to the row of any consultation.\<close>

lemma outcomeServe_row:
  assumes "fetch cr_id i (of_consultations s) = Some c"
  obtains c' where "fetch cr_id i (of_consultations (snd (outcomeServe pf q s))) = Some c'"
    "c' = c \<or> (succeeds (fst (outcomeServe pf q s)) \<and> i = oq_id q \<and>
       cr_outcomeVersion c' = cr_outcomeVersion c + 1 \<and>
       ((cr_outcomeStatus c = O_MISSED \<and> cr_outcomeStatus c' = O_PENDING) \<or>
        ((cr_outcomeStatus c = O_AWAITING_RESULT \<or> isFinalOutcome (cr_outcomeStatus c)) \<and>
         isFinalOutcome (cr_outcomeStatus c') \<and> cr_outcomeStatus c' \<noteq> cr_outcomeStatus c)))"
proof -
  obtain r s' where run: "outcomeServe pf q s = (r, s')" by fastforce
  show thesis
  proof (cases r)
    case (Inl e)
    with run outcomes.fail_idle [of pf q s e] assms that show ?thesis by auto
  next
    case (Inr x)
    from run Inr have ok: "outcomeServe pf q s = (Inr x, s')" by simp
    from ok show ?thesis
    proof (rule outcomeServe_success)
      fix d d' p g
      assume cons: "of_consultations s' = updateWhere p g (of_consultations s)"
        and p: "\<And>r. p r \<Longrightarrow> cr_id r = oq_id q \<and> cr_outcomeStatus r = cr_outcomeStatus d"
        and g: "\<And>r. cr_id (g r) = cr_id r" "\<And>r. cr_outcomeVersion (g r) = cr_outcomeVersion r + 1"
          "\<And>r. cr_outcomeStatus (g r) = cr_outcomeStatus d'"
        and st: "(cr_outcomeStatus d = O_MISSED \<and> cr_outcomeStatus d' = O_PENDING) \<or>
          ((cr_outcomeStatus d = O_AWAITING_RESULT \<or> isFinalOutcome (cr_outcomeStatus d)) \<and>
           isFinalOutcome (cr_outcomeStatus d') \<and> cr_outcomeStatus d' \<noteq> cr_outcomeStatus d)"
      have "fetch cr_id i (of_consultations s') = Some (if p c then g c else c)"
        using assms by (simp add: cons fetch_updateWhere g(1))
      moreover have "i = oq_id q \<and> cr_outcomeStatus c = cr_outcomeStatus d" if "p c"
        using p [OF that] fetch_SomeD [OF assms] by simp
      ultimately show ?thesis
        using st g ok by (intro that [of "if p c then g c else c"]) auto
    qed
  qed
qed

lemma version_grows:
  "fetch cr_id i (of_consultations s) = Some c \<Longrightarrow>
    \<exists>c'. fetch cr_id i (of_consultations (serveAll (outcomeServe pf) qs s)) = Some c' \<and>
      cr_outcomeVersion c \<le> cr_outcomeVersion c'"
proof (induction qs arbitrary: s c)
  case (Cons q qs)
  from Cons.prems obtain c1 where c1: "fetch cr_id i (of_consultations (snd (outcomeServe pf q s))) = Some c1"
    "cr_outcomeVersion c \<le> cr_outcomeVersion c1"
    by (rule outcomeServe_row [where pf = pf and q = q]) auto
  from Cons.IH [OF c1(1)] c1(2) show ?case by fastforce
qed simp

lemma succeeds_version:
  assumes "succeeds (fst (outcomeServe pf q s))"
  obtains c c' where "fetch cr_id (oq_id q) (of_consultations s) = Some c"
    "cr_outcomeVersion c = expectedVersion q"
    "fetch cr_id (oq_id q) (of_consultations (snd (outcomeServe pf q s))) = Some c'"
    "cr_outcomeVersion c' = expectedVersion q + 1"
proof -
  obtain x s' where run: "outcomeServe pf q s = (Inr x, s')"
    using assms by (cases "outcomeServe pf q s") (auto simp: succeeds_iff)
  from run show thesis
  proof (rule outcomeServe_success)
    fix c c' p g
    assume c: "fetch cr_id (oq_id q) (of_consultations s) = Some c" "cr_outcomeVersion c = expectedVersion q"
      and cons: "of_consultations s' = updateWhere p g (of_consultations s)" and "p c"
      and g: "\<And>r. cr_id (g r) = cr_id r" "\<And>r. cr_outcomeVersion (g r) = cr_outcomeVersion r + 1"
    then have "fetch cr_id (oq_id q) (of_consultations s') = Some (g c)"
      by (simp add: cons fetch_updateWhere)
    with c g run show thesis by (intro that [of c "g c"]) simp_all
  qed
qed

text \<open>
  C23. An outcome is recorded or reopened once per version: after a request went through, no request
  made for the same version of the same consultation goes through again, whoever sends it, whatever
  it asks for and whatever happened in between. Of two members of the staff who decide on the same
  view, one is refused.
\<close>

theorem one_decision_per_version:
  assumes "succeeds (fst (outcomeServe pf q s))"
    and "oq_id q' = oq_id q" and "expectedVersion q' = expectedVersion q"
  shows "\<not> succeeds (fst (outcomeServe pf q' (serveAll (outcomeServe pf) qs (snd (outcomeServe pf q s)))))"
proof
  let ?s = "serveAll (outcomeServe pf) qs (snd (outcomeServe pf q s))"
  assume later: "succeeds (fst (outcomeServe pf q' ?s))"
  from assms(1) obtain c' where "fetch cr_id (oq_id q) (of_consultations (snd (outcomeServe pf q s))) = Some c'"
    "cr_outcomeVersion c' = expectedVersion q + 1" by (rule succeeds_version)
  with version_grows obtain c2 where "fetch cr_id (oq_id q) (of_consultations ?s) = Some c2"
    "expectedVersion q + 1 \<le> cr_outcomeVersion c2" by metis
  moreover from later obtain c3 where "fetch cr_id (oq_id q') (of_consultations ?s) = Some c3"
    "cr_outcomeVersion c3 = expectedVersion q'" by (rule succeeds_version)
  ultimately show False using assms(2,3) by simp
qed


section \<open>The machine of outcomes\<close>

text \<open>
  The abstract specification: a result is recorded once the consultation awaits one, may then be
  corrected to another, and a missed consultation goes back to the calendar.
\<close>

inductive outcomeStep :: "outcome_status \<Rightarrow> outcome_status \<Rightarrow> bool" where
  record_result: "isFinalOutcome os \<Longrightarrow> outcomeStep O_AWAITING_RESULT os"
| correct_result: "isFinalOutcome os \<Longrightarrow> isFinalOutcome os' \<Longrightarrow> os \<noteq> os' \<Longrightarrow> outcomeStep os os'"
| reopen_missed: "outcomeStep O_MISSED O_PENDING"

inductive_cases outcomeStep_PendingE: "outcomeStep O_PENDING os"

definition outcomeOf :: "string \<Rightarrow> office \<Rightarrow> outcome_status option" where
  "outcomeOf i s = map_option cr_outcomeStatus (fetch cr_id i (of_consultations s))"

lemma no_step_from_pending: "\<not> outcomeStep O_PENDING os"
  by (auto elim: outcomeStep_PendingE simp: isFinalOutcome_def)

lemma pending_stays: "outcomeStep\<^sup>*\<^sup>* O_PENDING os \<Longrightarrow> os = O_PENDING"
  by (erule converse_rtranclpE) (auto simp: no_step_from_pending)

lemma outcomeOf_step:
  "outcomeOf i s = Some os \<Longrightarrow>
    \<exists>os'. outcomeOf i (snd (outcomeServe pf q s)) = Some os' \<and> outcomeStep\<^sup>*\<^sup>* os os'"
proof -
  assume "outcomeOf i s = Some os"
  then obtain c where c: "fetch cr_id i (of_consultations s) = Some c" "os = cr_outcomeStatus c"
    by (auto simp: outcomeOf_def)
  from c(1) obtain c' where c': "fetch cr_id i (of_consultations (snd (outcomeServe pf q s))) = Some c'"
    "c' = c \<or> (cr_outcomeStatus c = O_MISSED \<and> cr_outcomeStatus c' = O_PENDING) \<or>
      ((cr_outcomeStatus c = O_AWAITING_RESULT \<or> isFinalOutcome (cr_outcomeStatus c)) \<and>
       isFinalOutcome (cr_outcomeStatus c') \<and> cr_outcomeStatus c' \<noteq> cr_outcomeStatus c)"
    by (rule outcomeServe_row [where pf = pf and q = q]) blast
  from c'(2) have "c' = c \<or> outcomeStep (cr_outcomeStatus c) (cr_outcomeStatus c')"
    by (metis outcomeStep.intros)
  with c(2) c'(1) show ?thesis by (auto simp: outcomeOf_def)
qed

lemma outcomeOf_run:
  "outcomeOf i s = Some os \<Longrightarrow>
    \<exists>os'. outcomeOf i (serveAll (outcomeServe pf) qs s) = Some os' \<and> outcomeStep\<^sup>*\<^sup>* os os'"
proof (induction qs arbitrary: s os)
  case (Cons q qs)
  from outcomeOf_step [OF Cons.prems] obtain os1 where
    "outcomeOf i (snd (outcomeServe pf q s)) = Some os1" "outcomeStep\<^sup>*\<^sup>* os os1" by blast
  with Cons.IH show ?case by (fastforce intro: rtranclp_trans)
qed auto

text \<open>
  C24. Whatever requests are served, the outcome of every consultation moves along the machine of
  outcomes only: a result comes after the consultation awaited one or as the correction of another
  result, a missed consultation only goes back to pending, and a pending one is not decided here.
\<close>

theorem outcomes_follow_machine:
  assumes "outcomeOf i s = Some os"
  shows "\<exists>os'. outcomeOf i (serveAll (outcomeServe pf) qs s) = Some os' \<and> outcomeStep\<^sup>*\<^sup>* os os'"
  using assms by (rule outcomeOf_run)

text \<open>
  No lawyer and no client is ever booked twice at one time: recording outcomes, correcting
  them and reopening missed consultations keeps, over any requests, every two active appointments
  that share a lawyer or a client apart.
\<close>

theorem no_double_booking:
  assumes "officeOk s"
  shows "noDoubleBooking (of_appointments (serveAll (outcomeServe pf) qs s))"
  using outcomes.serve_inv [OF assms] by (simp add: officeOk_def)


section \<open>Views\<close>

text \<open>
  The lists of the consultation desk never show a consultation twice: two different views,
  the list of all apart, have no consultation in common.
\<close>

theorem outcome_views_disjoint:
  assumes "consultationOutcomeViewWhere v asOf rows c" and "consultationOutcomeViewWhere w asOf rows c"
    and "v \<noteq> V_all" and "w \<noteq> V_all"
  shows "v = w"
  using assms
  by (cases v; cases w) (auto simp: consultationOutcomeViewWhere_def statusByView_def Let_def list_ex_iff filter_empty_conv)


section \<open>A sample office\<close>

definition sampleConsultation :: "string \<Rightarrow> string \<Rightarrow> outcome_status \<Rightarrow> consultation" where
  "sampleConsultation i k os =
    \<lparr>cr_id = i, cr_clientId = Some k, cr_fullName = ''Mona'', cr_serviceCategory = ''family'',
     cr_status = C_SCHEDULED, cr_assignedLawyerId = None, cr_secretaryReviewedAt = None,
     cr_secretaryReviewedById = None, cr_secretaryReviewNote = None, cr_outcomeStatus = os,
     cr_outcomeAt = None, cr_outcomeById = None, cr_outcomeReasonCode = None, cr_outcomeNote = None,
     cr_outcomeVersion = 0, cr_convertedCaseId = None, cr_createdAt = 0\<rparr>"

definition sampleAppointment :: "string \<Rightarrow> string \<Rightarrow> string \<Rightarrow> int \<Rightarrow> appointment" where
  "sampleAppointment i k c starts =
    \<lparr>ap_id = i, ap_clientId = k, ap_lawyerId = None, ap_consultationRequestId = Some c, ap_caseId = None,
     ap_title = ''Consultation'', ap_type = AT_CONSULTATION, ap_mode = M_PHONE, ap_location = None,
     ap_startsAt = starts, ap_endsAt = starts + 60, ap_status = A_SCHEDULED, ap_notes = None\<rparr>"

definition sampleDesk :: office where
  "sampleDesk =
    \<lparr>of_appointments = [sampleAppointment ''a1'' ''k1'' ''c1'' 100, sampleAppointment ''a2'' ''k2'' ''c2'' 200],
     of_consultations = [sampleConsultation ''c1'' ''k1'' O_AWAITING_RESULT, sampleConsultation ''c2'' ''k2'' O_MISSED],
     of_staff = [\<lparr>sm_id = ''l1'', sm_active = True, sm_deleted = False, sm_roleName = ''Lawyer'',
        sm_roleActive = True, sm_permissions = []\<rparr>],
     of_clients = [\<lparr>oc_id = ''k2'', oc_assignedLawyerId = None\<rparr>], of_notifications = [], of_audit = []\<rparr>"

definition sampleSecretary :: principal where
  "sampleSecretary = \<lparr>pr_id = ''s1'', pr_roleName = ''Super Admin'', pr_permissions = None, pr_clientId = None\<rparr>"

definition sampleOutcomePlatform :: outcome_platform where
  "sampleOutcomePlatform = \<lparr>ou_isUuid = (\<lambda>s. length s = 2),
     ou_issue = (\<lambda>p. \<lparr>ed_path = Some p, ed_message = [], ed_code = None\<rparr>), ou_datetime = (\<lambda>_. Some 5000)\<rparr>"

definition sampleRecord :: outcome_request where
  "sampleRecord = SetOutcome 1000 sampleSecretary (\<lambda>_. False) ''c1''
     \<lparr>oi_status = ''SUCCESSFUL'', oi_expectedOutcomeVersion = 0, oi_reasonCode = ''COMPLETED_AS_SCHEDULED'', oi_note = None\<rparr>"

definition sampleNoShow :: outcome_request where
  "sampleNoShow = SetOutcome 1001 sampleSecretary (\<lambda>_. False) ''c1''
     \<lparr>oi_status = ''NO_SHOW'', oi_expectedOutcomeVersion = 0, oi_reasonCode = ''OTHER'', oi_note = None\<rparr>"

definition sampleReopen :: outcome_request where
  "sampleReopen = Reopen 1002 sampleSecretary (\<lambda>_. False) ''c2''
     \<lparr>ri_assignedLawyerId = ''l1'', ri_startsAt = ''t'', ri_durationMinutes = 30, ri_mode = M_PHONE,
      ri_location = None, ri_reasonCode = ''OTHER'', ri_note = None, ri_expectedOutcomeVersion = 0\<rparr>"

lemma sampleRecord_succeeds: "succeeds (fst (outcomeServe sampleOutcomePlatform sampleRecord sampleDesk))"
  by code_simp

lemma sampleReopen_succeeds: "succeeds (fst (outcomeServe sampleOutcomePlatform sampleReopen sampleDesk))"
  by code_simp

lemma sampleDesk_ok: "officeOk sampleDesk"
  by (auto simp: officeOk_def sampleDesk_def sampleConsultation_def sampleAppointment_def
      appointmentsLinked_def noDoubleBooking_def doubleBooked_def sharesPerson_def)

theorem one_decision_per_version_witness:
  "succeeds (fst (outcomeServe sampleOutcomePlatform sampleRecord sampleDesk)) \<and>
   \<not> succeeds (fst (outcomeServe sampleOutcomePlatform sampleNoShow
       (serveAll (outcomeServe sampleOutcomePlatform) [sampleReopen]
         (snd (outcomeServe sampleOutcomePlatform sampleRecord sampleDesk)))))"
  using one_decision_per_version [OF sampleRecord_succeeds, of sampleNoShow "[sampleReopen]"] sampleRecord_succeeds
  by (simp add: sampleRecord_def sampleNoShow_def expectedVersion_def)

theorem outcomes_follow_machine_witness:
  "\<exists>os'. outcomeOf ''c1'' (serveAll (outcomeServe sampleOutcomePlatform) [sampleReopen, sampleRecord] sampleDesk) =
     Some os' \<and> outcomeStep\<^sup>*\<^sup>* O_AWAITING_RESULT os'"
  by (rule outcomes_follow_machine) (simp add: outcomeOf_def sampleDesk_def sampleConsultation_def)

theorem no_double_booking_witness:
  "noDoubleBooking (of_appointments
     (serveAll (outcomeServe sampleOutcomePlatform) [sampleRecord, sampleReopen] sampleDesk))"
  by (rule no_double_booking) (rule sampleDesk_ok)

theorem outcome_views_disjoint_witness:
  "\<not> consultationOutcomeViewWhere V_current 1000 [] (sampleConsultation ''c2'' ''k2'' O_MISSED)"
proof
  assume c: "consultationOutcomeViewWhere V_current 1000 [] (sampleConsultation ''c2'' ''k2'' O_MISSED)"
  have m: "consultationOutcomeViewWhere V_missed 1000 [] (sampleConsultation ''c2'' ''k2'' O_MISSED)" by code_simp
  have "V_current = V_missed" by (rule outcome_views_disjoint [OF c m]) simp_all
  then show False by simp
qed

end
