(* ===== verification/Pricing.thy ===== *)
theory Pricing
  imports Office Invoices Json
begin

text \<open>
  The fees of consultations (\<open>src/src/server/payments/pricing-service.ts\<close>) and the settings that
  decide how a consultation is booked and paid
  (\<open>src/src/server/payments/payment-settings-service.ts\<close> in the theory that follows). The rows of a
  query that orders by several columns are sorted by the last column first, with stable sorts.
\<close>

section \<open>Rules\<close>

record pricing_rule =
  ru_id :: string
  ru_serviceCategory :: "string option"
  ru_mode :: "appointment_mode option"
  ru_amount :: rat
  ru_currency :: currency
  ru_active :: bool
  ru_effectiveFrom :: int
  ru_version :: int
  ru_label :: "string option"
  ru_createdAt :: int
  ru_updatedById :: "string option"

record price_snapshot =
  ps_amount :: rat
  ps_amountText :: string
  ps_currency :: currency
  ps_pricingRuleId :: string
  ps_priceVersion :: int
  ps_serviceCategory :: string
  ps_mode :: appointment_mode
  ps_label :: "string option"

text \<open>\<open>toString\<close> of a decimal with two places: no point and no zeros that the value does not need.\<close>

definition decimalText :: "rat \<Rightarrow> string" where
  "decimalText amount =
    (let cents = nat \<lfloor>amount * 100\<rfloor>; whole = natToText (cents div 100); f = cents mod 100
     in if f = 0 then whole
        else if f mod 10 = 0 then whole @ ''.'' @ natToText (f div 10)
        else whole @ ''.'' @ padStart 2 (CHR ''0'') (natToText f))"

definition modeText :: "appointment_mode \<Rightarrow> string" where
  "modeText m = (case m of M_OFFICE \<Rightarrow> ''OFFICE'' | M_PHONE \<Rightarrow> ''PHONE'' | M_ONLINE \<Rightarrow> ''ONLINE'' | M_COURT \<Rightarrow> ''COURT'')"

definition canManageConsultationPricing :: "principal \<Rightarrow> bool" where
  "canManageConsultationPricing actor =
    (hasPermission actor ''finance.manage.any'' \<or> hasPermission actor ''settings.manage.any'')"

definition canReadConsultationPricing :: "principal \<Rightarrow> bool" where
  "canReadConsultationPricing actor =
    (hasPermission actor ''finance.read.any'' \<or> canManageConsultationPricing actor)"

definition assertPricingRead :: "principal \<Rightarrow> unit api" where
  "assertPricingRead actor = require (canReadConsultationPricing actor)
     (apiError 403 PERMISSION_DENIED ''Finance read permission is required.'')"

definition assertPricingManage :: "principal \<Rightarrow> unit api" where
  "assertPricingManage actor = require (canManageConsultationPricing actor)
     (apiError 403 PERMISSION_DENIED ''Finance management permission is required.'')"


section \<open>Resolving a price\<close>

definition ruleMatches :: "int \<Rightarrow> string \<Rightarrow> appointment_mode \<Rightarrow> pricing_rule \<Rightarrow> bool" where
  "ruleMatches now serviceCategory mode r =
    (ru_active r \<and> ru_effectiveFrom r \<le> now \<and>
     (ru_serviceCategory r = Some serviceCategory \<or> ru_serviceCategory r = None) \<and>
     (ru_mode r = Some mode \<or> ru_mode r = None))"

definition ruleSpecificity :: "pricing_rule \<Rightarrow> string \<Rightarrow> appointment_mode \<Rightarrow> int" where
  "ruleSpecificity rule serviceCategory mode =
    (if ru_serviceCategory rule = Some serviceCategory then 2
     else if ru_serviceCategory rule = None then 0 else -10) +
    (if ru_mode rule = Some mode then 1 else if ru_mode rule = None then 0 else -10)"

definition newestRules :: "pricing_rule list \<Rightarrow> pricing_rule list" where
  "newestRules rows =
    sort_key (\<lambda>r. - ru_effectiveFrom r)
      (sort_key (\<lambda>r. - ru_version r) (sort_key (\<lambda>r. - ru_createdAt r) rows))"

definition feeNotConfigured :: api_error where
  "feeNotConfigured =
    apiError 409 CONFLICT ''Consultation booking fee is not configured. Please contact the office.''"

definition resolveConsultationPrice ::
  "int \<Rightarrow> string \<Rightarrow> appointment_mode \<Rightarrow> pricing_rule list \<Rightarrow> price_snapshot api" where
  "resolveConsultationPrice now rawCategory mode rows =
    (let serviceCategory = jsTrim rawCategory;
         rules = take 20 (newestRules (filter (ruleMatches now serviceCategory mode) rows))
     in case sort_key (\<lambda>r. - ruleSpecificity r serviceCategory mode) rules of
          [] \<Rightarrow> Inl feeNotConfigured
        | rule # _ \<Rightarrow> Inr \<lparr>ps_amount = ru_amount rule, ps_amountText = decimalText (ru_amount rule),
            ps_currency = ru_currency rule, ps_pricingRuleId = ru_id rule, ps_priceVersion = ru_version rule,
            ps_serviceCategory = serviceCategory, ps_mode = mode, ps_label = ru_label rule\<rparr>)"

definition hasActiveConsultationPricingRule :: "int \<Rightarrow> pricing_rule list \<Rightarrow> bool" where
  "hasActiveConsultationPricingRule now rows =
    (0 < length (filter (\<lambda>r. ru_active r \<and> ru_effectiveFrom r \<le> now) rows))"


section \<open>Writing rules\<close>

record rule_write =
  rw_serviceCategory :: "string option"
  rw_mode :: "appointment_mode option"
  rw_amount :: rat
  rw_currency :: currency
  rw_active :: bool
  rw_effectiveFrom :: string
  rw_version :: int
  rw_label :: "string option"

definition pricingRuleWriteSchema :: "office_platform \<Rightarrow> rule_write \<Rightarrow> error_detail list + rule_write" where
  "pricingRuleWriteSchema pf raw =
    (let from1 = jsTrim (rw_effectiveFrom raw);
         issues =
           fieldIssue pf ''serviceCategory'' (atMostChars 80 (rw_serviceCategory raw)) @
           fieldIssue pf ''mode'' (rw_mode raw \<noteq> Some M_COURT) @
           fieldIssue pf ''amount'' (amountAccepted (rw_amount raw)) @
           fieldIssue pf ''effectiveFrom'' (1 \<le> length from1 \<and> length from1 \<le> 60) @
           fieldIssue pf ''version'' (1 \<le> rw_version raw \<and> rw_version raw \<le> 9999) @
           fieldIssue pf ''label'' (atMostChars 120 (rw_label raw))
     in if issues \<noteq> [] then Inl issues
        else Inr (raw\<lparr>rw_serviceCategory := map_option jsTrim (rw_serviceCategory raw),
                      rw_amount := roundedAmount (rw_amount raw), rw_effectiveFrom := from1,
                      rw_label := map_option jsTrim (rw_label raw)\<rparr>))"

definition parseEffectiveFrom :: "office_platform \<Rightarrow> string \<Rightarrow> int api" where
  "parseEffectiveFrom pf value =
    (case op_parseDate pf value of
       None \<Rightarrow> throwApi 400 VALIDATION_ERROR ''effectiveFrom is invalid.'' | Some t \<Rightarrow> Inr t)"

text \<open>The columns a write sets, on a row that brings its id and creation time.\<close>

definition pricingRuleData :: "rule_write \<Rightarrow> int \<Rightarrow> string \<Rightarrow> pricing_rule \<Rightarrow> pricing_rule" where
  "pricingRuleData body effectiveFrom actorId row =
    row\<lparr>ru_serviceCategory := nonEmpty (rw_serviceCategory body), ru_mode := rw_mode body,
        ru_amount := rw_amount body, ru_currency := rw_currency body, ru_active := rw_active body,
        ru_effectiveFrom := effectiveFrom, ru_version := rw_version body, ru_label := nonEmpty (rw_label body),
        ru_updatedById := Some actorId\<rparr>"

record pricing_desk =
  pk_rules :: "pricing_rule list"
  pk_audit :: "audit_event list"

text \<open>The event of an update has the members of the old row, then those of the new one.\<close>

definition pricingRuleAuditMetadata :: "pricing_rule \<Rightarrow> metadata" where
  "pricingRuleAuditMetadata rule =
    [(''serviceCategory'', optText (ru_serviceCategory rule)), (''mode'', optText (map_option modeText (ru_mode rule))),
     (''amount'', MAmount (ru_amount rule)),
     (''currency'', MText (currencyText (ru_currency rule))), (''active'', MFlag (ru_active rule)),
     (''effectiveFrom'', MInt (ru_effectiveFrom rule)), (''version'', MInt (ru_version rule)),
     (''label'', optText (ru_label rule))]"

definition createAdminConsultationPricingRule ::
  "office_platform \<Rightarrow> int \<Rightarrow> string \<Rightarrow> principal \<Rightarrow> rule_write \<Rightarrow> pricing_desk \<Rightarrow> pricing_rule api \<times> pricing_desk" where
  "createAdminConsultationPricingRule pf now newId actor raw s =
    (case andThen (assertPricingManage actor) (\<lambda>_.
          andThen (parseWithSchema (pricingRuleWriteSchema pf) raw ''Pricing rule payload is invalid.'') (\<lambda>body.
          andThen (parseEffectiveFrom pf (rw_effectiveFrom body)) (\<lambda>from1. Inr (body, from1)))) of
       Inl e \<Rightarrow> (Inl e, s)
     | Inr (body, from1) \<Rightarrow>
       let rule = pricingRuleData body from1 (pr_id actor)
             \<lparr>ru_id = newId, ru_serviceCategory = None, ru_mode = None, ru_amount = 0, ru_currency = EGP,
              ru_active = True, ru_effectiveFrom = 0, ru_version = 1, ru_label = None, ru_createdAt = now,
              ru_updatedById = None\<rparr>;
           event = auditEvent (Some (pr_id actor)) ''payment.pricing_rule_create'' ''ConsultationPricingRule''
             (Some newId) (pricingRuleAuditMetadata rule)
       in (Inr rule, s\<lparr>pk_rules := pk_rules s @ [rule],
             pk_audit := appendAuditLogBestEffort (op_auditUp pf) event (pk_audit s)\<rparr>))"

definition updateAdminConsultationPricingRule ::
  "office_platform \<Rightarrow> principal \<Rightarrow> string \<Rightarrow> rule_write \<Rightarrow> pricing_desk \<Rightarrow> pricing_rule api \<times> pricing_desk" where
  "updateAdminConsultationPricingRule pf actor ruleId raw s =
    (case andThen (assertPricingManage actor) (\<lambda>_.
          andThen (parseWithSchema (\<lambda>i. if op_isUuid pf i then Inr i else Inl [op_issue pf []]) ruleId
            ''Pricing rule id is invalid.'') (\<lambda>_.
          andThen (parseWithSchema (pricingRuleWriteSchema pf) raw ''Pricing rule payload is invalid.'') (\<lambda>body.
          andThen (parseEffectiveFrom pf (rw_effectiveFrom body)) (\<lambda>from1.
          case fetch ru_id ruleId (pk_rules s) of
            None \<Rightarrow> throwApi 404 NOT_FOUND ''Pricing rule was not found.''
          | Some existing \<Rightarrow> Inr (existing, pricingRuleData body from1 (pr_id actor) existing))))) of
       Inl e \<Rightarrow> (Inl e, s)
     | Inr (existing, rule) \<Rightarrow>
       let event = auditEvent (Some (pr_id actor)) ''payment.pricing_rule_update'' ''ConsultationPricingRule''
             (Some ruleId) (pricingRuleAuditMetadata existing @ pricingRuleAuditMetadata rule)
       in (Inr rule, s\<lparr>pk_rules := modify ru_id ruleId (\<lambda>_. rule) (pk_rules s),
             pk_audit := appendAuditLogBestEffort (op_auditUp pf) event (pk_audit s)\<rparr>))"


section \<open>Laws\<close>

lemma sort_key_hd_min:
  assumes "sort_key f xs = y # ys" and "x \<in> set xs"
  shows "f y \<le> f x"
proof -
  have "sorted (map f (y # ys))" using sorted_sort_key [of f xs] assms(1) by simp
  moreover have "x \<in> set (y # ys)" using assms by (metis set_sort)
  ultimately show ?thesis by auto
qed

text \<open>
  C28. The fee of a consultation is that of the most specific rule in force: as long as no more than
  twenty rules match, no matching rule names the service or the mode more closely than the one whose
  price is charged.
\<close>

theorem price_most_specific:
  assumes "resolveConsultationPrice now cat mode rows = Inr price"
    and "length (filter (ruleMatches now (jsTrim cat) mode) rows) \<le> 20"
  shows "\<exists>rule\<in>set rows. ruleMatches now (jsTrim cat) mode rule \<and> ps_amount price = ru_amount rule \<and>
     ps_currency price = ru_currency rule \<and> ps_pricingRuleId price = ru_id rule \<and>
     (\<forall>r\<in>set rows. ruleMatches now (jsTrim cat) mode r \<longrightarrow>
        ruleSpecificity r (jsTrim cat) mode \<le> ruleSpecificity rule (jsTrim cat) mode)"
proof -
  let ?m = "filter (ruleMatches now (jsTrim cat) mode) rows"
  have all: "take 20 (newestRules ?m) = newestRules ?m"
    using assms(2) by (simp add: newestRules_def)
  have set_new: "set (newestRules ?m) = set ?m" by (simp add: newestRules_def)
  obtain rule rest where sorted: "sort_key (\<lambda>r. - ruleSpecificity r (jsTrim cat) mode) (newestRules ?m) = rule # rest"
    and price: "ps_amount price = ru_amount rule" "ps_currency price = ru_currency rule" "ps_pricingRuleId price = ru_id rule"
    using assms(1) all by (auto simp: resolveConsultationPrice_def Let_def split: list.splits)
  have "rule \<in> set (newestRules ?m)" using sorted by (metis list.set_intros(1) set_sort)
  moreover have "ruleSpecificity r (jsTrim cat) mode \<le> ruleSpecificity rule (jsTrim cat) mode"
    if "r \<in> set ?m" for r
    using sort_key_hd_min [OF sorted, of r] that set_new by simp
  ultimately show ?thesis using price set_new by auto
qed

definition sampleRule :: "string \<Rightarrow> string option \<Rightarrow> rat \<Rightarrow> int \<Rightarrow> pricing_rule" where
  "sampleRule i cat amount t =
    \<lparr>ru_id = i, ru_serviceCategory = cat, ru_mode = None, ru_amount = amount, ru_currency = EGP,
     ru_active = True, ru_effectiveFrom = t, ru_version = 1, ru_label = None, ru_createdAt = 0,
     ru_updatedById = None\<rparr>"

definition twoRules :: "pricing_rule list" where
  "twoRules = [sampleRule ''family'' (Some ''family'') 500 1, sampleRule ''any'' None 300 2]"

lemma sampleRule_matches:
  "ruleMatches 10 ''family'' M_PHONE (sampleRule ''any'' None a 2)"
  "ruleMatches 10 ''family'' M_PHONE (sampleRule ''family'' (Some ''family'') a 1)"
  "ruleSpecificity (sampleRule ''any'' None a e) ''family'' M_PHONE = 0"
  "ruleSpecificity (sampleRule ''family'' (Some ''family'') a e) ''family'' M_PHONE = 2"
  by (simp_all add: ruleMatches_def ruleSpecificity_def sampleRule_def)

lemma trim_family: "jsTrim ''family'' = ''family''"
  by code_simp

lemma twoRules_price:
  "resolveConsultationPrice 10 ''family'' M_PHONE twoRules =
    Inr \<lparr>ps_amount = 500, ps_amountText = decimalText 500, ps_currency = EGP, ps_pricingRuleId = ''family'',
      ps_priceVersion = 1, ps_serviceCategory = ''family'', ps_mode = M_PHONE, ps_label = None\<rparr>"
  by (simp add: resolveConsultationPrice_def Let_def trim_family twoRules_def sampleRule_matches newestRules_def)
    (simp add: sampleRule_def ruleSpecificity_def)

theorem price_most_specific_witness:
  "\<exists>rule\<in>set twoRules. ruleMatches 10 (jsTrim ''family'') M_PHONE rule \<and> 500 = ru_amount rule \<and>
     EGP = ru_currency rule \<and> ''family'' = ru_id rule \<and>
     (\<forall>r\<in>set twoRules. ruleMatches 10 (jsTrim ''family'') M_PHONE r \<longrightarrow>
        ruleSpecificity r (jsTrim ''family'') M_PHONE \<le> ruleSpecificity rule (jsTrim ''family'') M_PHONE)"
proof -
  have "length (filter (ruleMatches 10 (jsTrim ''family'') M_PHONE) twoRules) \<le> 20"
    by (simp add: twoRules_def)
  from price_most_specific [OF twoRules_price this] show ?thesis by simp
qed

text \<open>
  The bound is needed: the rules are cut to the twenty newest before they are compared, so twenty
  newer rules for any service hide the older rule of the service that is booked.
\<close>

lemma specific_rule_hidden:
  "\<exists>price. resolveConsultationPrice 10 ''family'' M_PHONE
      (sampleRule ''family'' (Some ''family'') 500 1 # replicate 20 (sampleRule ''any'' None 300 2)) = Inr price \<and>
    ps_amount price = 300"
  by (simp add: resolveConsultationPrice_def Let_def trim_family sampleRule_matches newestRules_def
      numeral_eq_Suc) (simp add: sampleRule_def ruleSpecificity_def)

end
