(* ===== verification/PaymentSettings.thy ===== *)
theory PaymentSettings
  imports Pricing PaymentConfig
begin

text \<open>
  How consultations are booked and which gateway is paid through:
  \<open>src/src/server/consultations/consultation-booking-settings.ts\<close> and
  \<open>src/src/server/payments/payment-settings-service.ts\<close>. A setting is a row of a key and a JSON
  value; the time and the author of its last change are not read by any decision.
\<close>

section \<open>Booking modes\<close>

record setting =
  se_settingId :: string
  se_key :: string
  se_value :: json
  se_updatedById :: "string option"

definition CONSULTATION_BOOKING_SETTING_KEY :: string where
  "CONSULTATION_BOOKING_SETTING_KEY = ''consultation.booking''"

definition PAYMENT_GATEWAY_SETTING_KEY :: string where
  "PAYMENT_GATEWAY_SETTING_KEY = ''payment.gateway''"

datatype booking_mode = AI_CHAT_PAID | AI_CHAT_FREE

definition DEFAULT_CONSULTATION_BOOKING_MODE :: booking_mode where
  "DEFAULT_CONSULTATION_BOOKING_MODE = AI_CHAT_PAID"

definition bookingModeText :: "booking_mode \<Rightarrow> string" where
  "bookingModeText m = (case m of AI_CHAT_PAID \<Rightarrow> ''AI_CHAT_PAID'' | AI_CHAT_FREE \<Rightarrow> ''AI_CHAT_FREE'')"

text \<open>The input schema with its transformation of the legacy names.\<close>

definition consultationBookingModeInput :: "string \<Rightarrow> booking_mode option" where
  "consultationBookingModeInput mode =
    (if mode = ''PAID_CHAT'' then Some AI_CHAT_PAID
     else if mode = ''MANUAL_REVIEW'' then Some AI_CHAT_FREE
     else find (\<lambda>m. bookingModeText m = mode) [AI_CHAT_PAID, AI_CHAT_FREE])"

definition consultationBookingModeFromValue :: "json option \<Rightarrow> booking_mode" where
  "consultationBookingModeFromValue value =
    (case value of
       Some (JObj ms) \<Rightarrow>
         (case map_of ms ''mode'' of
            Some (JStr configured) \<Rightarrow>
              (case consultationBookingModeInput configured of
                 Some m \<Rightarrow> m | None \<Rightarrow> DEFAULT_CONSULTATION_BOOKING_MODE)
          | _ \<Rightarrow> DEFAULT_CONSULTATION_BOOKING_MODE)
     | _ \<Rightarrow> DEFAULT_CONSULTATION_BOOKING_MODE)"

record booking_flags =
  bf_bookingMode :: booking_mode
  bf_paymentEnabled :: bool
  bf_aiChatEnabled :: bool

definition consultationBookingFlags :: "booking_mode \<Rightarrow> booking_flags" where
  "consultationBookingFlags mode =
    \<lparr>bf_bookingMode = mode, bf_paymentEnabled = (mode = AI_CHAT_PAID), bf_aiChatEnabled = True\<rparr>"

definition settingValue :: "string \<Rightarrow> setting list \<Rightarrow> json option" where
  "settingValue key settings = map_option se_value (fetch se_key key settings)"

definition getConsultationBookingMode :: "setting list \<Rightarrow> booking_mode" where
  "getConsultationBookingMode settings =
    consultationBookingModeFromValue (settingValue CONSULTATION_BOOKING_SETTING_KEY settings)"

text \<open>
  \<open>settings\<close> is \<open>None\<close> where the read of the settings fails; \<open>own\<close> tells whether the caller
  brought a client of its own.
\<close>

definition getPublicConsultationBookingMode :: "env \<Rightarrow> bool \<Rightarrow> setting list option \<Rightarrow> booking_mode" where
  "getPublicConsultationBookingMode env own settings =
    (if envText env ''DATABASE_URL'' = [] \<and> \<not> own then DEFAULT_CONSULTATION_BOOKING_MODE
     else case settings of None \<Rightarrow> DEFAULT_CONSULTATION_BOOKING_MODE | Some ss \<Rightarrow> getConsultationBookingMode ss)"

definition assertPaidChatBookingEnabled :: "setting list \<Rightarrow> unit api" where
  "assertPaidChatBookingEnabled settings =
    require (getConsultationBookingMode settings = AI_CHAT_PAID)
      (apiError 409 FEATURE_DISABLED ''Paid booking is disabled. Use the consultation assistant without payment.'')"

definition assertAiChatBookingEnabled :: "setting list \<Rightarrow> unit api" where
  "assertAiChatBookingEnabled settings =
    require (bf_aiChatEnabled (consultationBookingFlags (getConsultationBookingMode settings)))
      (apiError 409 FEATURE_DISABLED ''Consultation assistant booking is disabled.'')"

definition assertManualReviewBookingEnabled :: "setting list \<Rightarrow> unit api" where
  "assertManualReviewBookingEnabled settings =
    throwApi 409 FEATURE_DISABLED ''Manual consultation form is disabled. Use the consultation assistant.''"


section \<open>The active gateway\<close>

definition canReadPaymentGatewaySettings :: "principal \<Rightarrow> bool" where
  "canReadPaymentGatewaySettings actor =
    (hasPermission actor ''finance.read.any'' \<or> hasPermission actor ''finance.manage.any'' \<or>
     hasPermission actor ''settings.manage.any'')"

definition canManagePaymentGatewaySettings :: "principal \<Rightarrow> bool" where
  "canManagePaymentGatewaySettings actor =
    (hasPermission actor ''finance.manage.any'' \<or> hasPermission actor ''settings.manage.any'')"

definition fallbackProvider :: "env \<Rightarrow> payment_provider" where
  "fallbackProvider env =
    (case paymentProvider env of
       Inr provider \<Rightarrow> if paymentProviderEnabled provider env then provider else Paymob
     | Inl _ \<Rightarrow> Paymob)"

definition activeProviderFromValue :: "json option \<Rightarrow> env \<Rightarrow> payment_provider" where
  "activeProviderFromValue value env =
    (case value of
       Some (JObj ms) \<Rightarrow>
         (case map_of ms ''activeProvider'' of
            Some (JStr configured) \<Rightarrow>
              (case normalizePaymentProvider (Some configured) of
                 Inr provider \<Rightarrow> if paymentProviderEnabled provider env then provider else fallbackProvider env
               | Inl _ \<Rightarrow> fallbackProvider env)
          | _ \<Rightarrow> fallbackProvider env)
     | _ \<Rightarrow> fallbackProvider env)"

definition getActivePaymentGateway :: "env \<Rightarrow> setting list \<Rightarrow> payment_provider" where
  "getActivePaymentGateway env settings =
    activeProviderFromValue (settingValue PAYMENT_GATEWAY_SETTING_KEY settings) env"

definition activationStatus :: "provider_readiness \<Rightarrow> string" where
  "activationStatus readiness =
    (if \<not> rd_enabled readiness then ''standby_disabled''
     else if rd_configured readiness then ''ready'' else ''missing_config'')"

record gateway_settings_view =
  gv_activeProvider :: payment_provider
  gv_flags :: booking_flags
  gv_hasActivePricingRule :: bool
  gv_readyForPaidChat :: bool
  gv_providers :: "(provider_readiness \<times> string \<times> bool) list"

definition gatewaySettingsView :: "env \<Rightarrow> payment_provider \<Rightarrow> booking_mode \<Rightarrow> bool \<Rightarrow> gateway_settings_view" where
  "gatewaySettingsView env active mode hasRule =
    \<lparr>gv_activeProvider = active, gv_flags = consultationBookingFlags mode, gv_hasActivePricingRule = hasRule,
     gv_readyForPaidChat = (rd_configured (paymentProviderReadiness active env) \<and> hasRule),
     gv_providers = map (\<lambda>p. let r = paymentProviderReadiness p env in (r, activationStatus r, p = active))
       SUPPORTED_PAYMENT_PROVIDERS\<rparr>"

record settings_desk =
  sd_settings :: "setting list"
  sd_rules :: "pricing_rule list"
  sd_audit :: "audit_event list"

definition getAdminPaymentGatewaySettings :: "env \<Rightarrow> int \<Rightarrow> principal \<Rightarrow> settings_desk \<Rightarrow> gateway_settings_view api" where
  "getAdminPaymentGatewaySettings env now actor s =
    andThen (require (canReadPaymentGatewaySettings actor)
      (apiError 403 PERMISSION_DENIED ''Finance read permission is required.'')) (\<lambda>_.
      Inr (gatewaySettingsView env (getActivePaymentGateway env (sd_settings s))
        (getConsultationBookingMode (sd_settings s)) (hasActiveConsultationPricingRule now (sd_rules s))))"

text \<open>\<open>sid\<close> is the id a new row gets; the row keeps the id it has.\<close>

definition upsertSetting :: "string \<Rightarrow> string \<Rightarrow> json \<Rightarrow> string \<Rightarrow> setting list \<Rightarrow> setting list" where
  "upsertSetting sid key value actorId settings =
    (if fetch se_key key settings = None
     then settings @ [\<lparr>se_settingId = sid, se_key = key, se_value = value, se_updatedById = Some actorId\<rparr>]
     else modify se_key key (\<lambda>r. r\<lparr>se_value := value, se_updatedById := Some actorId\<rparr>) settings)"

definition settingId :: "string \<Rightarrow> setting list \<Rightarrow> string" where
  "settingId key settings = (case fetch se_key key settings of None \<Rightarrow> [] | Some r \<Rightarrow> se_settingId r)"

text \<open>The parsed body: the provider, and the mode where the request names one. New rows get the two ids.\<close>

definition missingPricingRule :: api_error where
  "missingPricingRule = ApiError 409 CONFLICT
     ''An active consultation pricing rule is required before enabling paid booking chat.''
     [\<lparr>ed_path = Some ''bookingMode'',
       ed_message = ''Create an active consultation pricing rule before enabling paid booking chat.'',
       ed_code = Some ''MISSING_ACTIVE_PRICING_RULE''\<rparr>]"

definition updateAdminPaymentGatewaySettings ::
  "env \<Rightarrow> int \<Rightarrow> string \<times> string \<Rightarrow> principal \<Rightarrow> payment_provider \<Rightarrow> booking_mode option \<Rightarrow> settings_desk \<Rightarrow>
   gateway_settings_view api \<times> settings_desk" where
  "updateAdminPaymentGatewaySettings env now ids actor activeProvider bookingMode s =
    (let nextBookingMode = (case bookingMode of Some m \<Rightarrow> m | None \<Rightarrow> getConsultationBookingMode (sd_settings s));
         hasRule = hasActiveConsultationPricingRule now (sd_rules s)
     in case andThen (require (canManagePaymentGatewaySettings actor)
            (apiError 403 PERMISSION_DENIED ''Finance management permission is required.'')) (\<lambda>_.
          if nextBookingMode = AI_CHAT_PAID
          then andThen (assertProviderReadyForActivation activeProvider env) (\<lambda>_. require hasRule missingPricingRule)
          else Inr ()) of
        Inl e \<Rightarrow> (Inl e, s)
      | Inr _ \<Rightarrow>
        let settings = upsertSetting (snd ids) CONSULTATION_BOOKING_SETTING_KEY
              (JObj [(''mode'', JStr (bookingModeText nextBookingMode))]) (pr_id actor)
              (upsertSetting (fst ids) PAYMENT_GATEWAY_SETTING_KEY
                (JObj [(''activeProvider'', JStr (providerText activeProvider))]) (pr_id actor) (sd_settings s));
            event = auditEvent (Some (pr_id actor)) ''settings.update'' ''SystemSetting''
              (Some (settingId PAYMENT_GATEWAY_SETTING_KEY settings))
              [(''key'', MText PAYMENT_GATEWAY_SETTING_KEY), (''activeProvider'', MText (providerText activeProvider)),
               (''bookingSettingKey'', MText CONSULTATION_BOOKING_SETTING_KEY),
               (''bookingMode'', MText (bookingModeText nextBookingMode))]
        in (Inr (gatewaySettingsView env activeProvider nextBookingMode hasRule),
            s\<lparr>sd_settings := settings, sd_audit := appendAuditLog event (sd_audit s)\<rparr>))"


section \<open>Laws\<close>

lemma fetch_upsertSetting:
  "settingValue k (upsertSetting sid key value actorId settings) =
    (if k = key then Some value else settingValue k settings)"
proof (cases "fetch se_key key settings")
  case None
  then show ?thesis by (auto simp: settingValue_def upsertSetting_def fetch_append split: option.splits)
next
  case (Some r)
  then show ?thesis by (auto simp: settingValue_def upsertSetting_def fetch_modify)
qed

lemma bookingMode_roundtrip [simp]:
  "consultationBookingModeFromValue (Some (JObj [(''mode'', JStr (bookingModeText m))])) = m"
  by (cases m) (simp_all add: consultationBookingModeFromValue_def consultationBookingModeInput_def bookingModeText_def)

lemma activeProvider_enabled: "paymentProviderEnabled (activeProviderFromValue value env) env"
  by (auto simp: activeProviderFromValue_def fallbackProvider_def paymentProviderEnabled_def Let_def
      split: option.splits json.splits sum.splits)

text \<open>
  An accepted change of the gateway is the one that takes effect: the chosen provider is the
  active one from then on when it is enabled, the booking mode is the chosen one or stays, and the
  paid chat is never switched on for a provider that is disabled or not configured, nor without a fee.
\<close>

theorem gateway_change_takes_effect:
  assumes "updateAdminPaymentGatewaySettings env now ids actor provider mode s = (Inr view, s')"
  shows "getConsultationBookingMode (sd_settings s') =
      (case mode of Some m \<Rightarrow> m | None \<Rightarrow> getConsultationBookingMode (sd_settings s)) \<and>
    (paymentProviderEnabled provider env \<longrightarrow> getActivePaymentGateway env (sd_settings s') = provider) \<and>
    (getConsultationBookingMode (sd_settings s') = AI_CHAT_PAID \<longrightarrow>
       getActivePaymentGateway env (sd_settings s') = provider \<and>
       rd_configured (paymentProviderReadiness provider env) \<and>
       hasActiveConsultationPricingRule now (sd_rules s'))"
proof -
  let ?next = "case mode of Some m \<Rightarrow> m | None \<Rightarrow> getConsultationBookingMode (sd_settings s)"
  from assms have s': "sd_rules s' = sd_rules s" "sd_settings s' =
      upsertSetting (snd ids) CONSULTATION_BOOKING_SETTING_KEY (JObj [(''mode'', JStr (bookingModeText ?next))]) (pr_id actor)
        (upsertSetting (fst ids) PAYMENT_GATEWAY_SETTING_KEY (JObj [(''activeProvider'', JStr (providerText provider))])
          (pr_id actor) (sd_settings s))"
    and paid: "?next = AI_CHAT_PAID \<Longrightarrow> paymentProviderEnabled provider env \<and>
       rd_configured (paymentProviderReadiness provider env) \<and> hasActiveConsultationPricingRule now (sd_rules s)"
    by (auto simp: updateAdminPaymentGatewaySettings_def assertProviderReadyForActivation_def Let_def
        andThen_eq_Inl split: sum.splits if_splits)
  have mode': "getConsultationBookingMode (sd_settings s') = ?next"
    by (simp add: getConsultationBookingMode_def s'(2) fetch_upsertSetting)
  have active: "getActivePaymentGateway env (sd_settings s') = provider" if "paymentProviderEnabled provider env"
    using that by (simp add: getActivePaymentGateway_def s'(2) fetch_upsertSetting activeProviderFromValue_def
        PAYMENT_GATEWAY_SETTING_KEY_def CONSULTATION_BOOKING_SETTING_KEY_def)
  show ?thesis using mode' active paid s'(1) by auto
qed

definition sampleSettingsDesk :: settings_desk where
  "sampleSettingsDesk = \<lparr>sd_settings = [], sd_rules = [], sd_audit = []\<rparr>"

definition sampleFinance :: principal where
  "sampleFinance = \<lparr>pr_id = ''f1'', pr_roleName = ''Super Admin'', pr_permissions = None, pr_clientId = None\<rparr>"

theorem gateway_change_takes_effect_witness:
  "getConsultationBookingMode (sd_settings (snd (updateAdminPaymentGatewaySettings (\<lambda>_. None) 5 (''g1'', ''g2'') sampleFinance
      Paymob (Some AI_CHAT_FREE) sampleSettingsDesk))) = AI_CHAT_FREE"
proof -
  obtain view s' where run: "updateAdminPaymentGatewaySettings (\<lambda>_. None) 5 (''g1'', ''g2'') sampleFinance Paymob
      (Some AI_CHAT_FREE) sampleSettingsDesk = (Inr view, s')"
    by (simp add: updateAdminPaymentGatewaySettings_def canManagePaymentGatewaySettings_def hasPermission_def
        sampleFinance_def ROLE_superAdmin_def Let_def)
  from gateway_change_takes_effect [OF run] run show ?thesis by simp
qed

end
