(* ===== verification/PaymentDb.thy ===== *)
theory PaymentDb
  imports PaymentProvider ReceiptTokens Redaction PaymentSettings
begin

text \<open>
  The tables of the payments (\<open>prisma/schema.prisma\<close>) and the pure decisions of
  \<open>src/src/server/payments/payment-service.ts\<close> and \<open>src/src/lib/legal-finance.ts\<close>. The provider of
  a row is one of the two the code writes.
\<close>

section \<open>Rows\<close>

datatype attempt_status = PA_CREATED | PA_PENDING | PA_PAID | PA_FAILED | PA_EXPIRED | PA_REFUNDED
  | PA_DISPUTED | PA_CANCELLED
datatype transaction_status = PT_PENDING | PT_PAID | PT_FAILED | PT_REFUNDED | PT_DISPUTED | PT_CANCELLED
datatype signature_status = SIG_VERIFIED | SIG_UNVERIFIED | SIG_INVALID
datatype processing_status = WP_PENDING | WP_PROCESSED | WP_FAILED | WP_IGNORED

record payment_attempt =
  pa_id :: string
  pa_provider :: payment_provider
  pa_status :: attempt_status
  pa_clientId :: string
  pa_consultationRequestId :: string
  pa_appointmentId :: string
  pa_pricingRuleId :: "string option"
  pa_priceVersion :: int
  pa_serviceCategory :: string
  pa_mode :: appointment_mode
  pa_amount :: rat
  pa_currency :: currency
  pa_startsAt :: int
  pa_endsAt :: int
  pa_expiresAt :: int
  pa_idempotencyKey :: string
  pa_checkoutUrl :: "string option"
  pa_providerSessionId :: "string option"
  pa_providerOrderId :: "string option"
  pa_providerPaymentId :: "string option"
  pa_failureCode :: "string option"

record payment_transaction =
  pt_id :: string
  pt_attemptId :: string
  pt_provider :: payment_provider
  pt_providerTransactionId :: "string option"
  pt_rawStatus :: "string option"
  pt_status :: transaction_status
  pt_amount :: rat
  pt_currency :: currency
  pt_paidAt :: "int option"

record webhook_event =
  we_id :: string
  we_provider :: payment_provider
  we_eventId :: string
  we_attemptId :: "string option"
  we_transactionId :: "string option"
  we_signatureStatus :: signature_status
  we_processingStatus :: processing_status
  we_replayCount :: int
  we_payloadHash :: string
  we_payloadSnapshot :: json
  we_normalizedPayload :: "json option"
  we_errorCode :: "string option"
  we_processedAt :: "int option"

text \<open>
  The office with its appointments and consultations, the ledger with its invoices (the
  \<open>Payment\<close> rows), and the tables of this component. The audit events of the component are in
  the office's trail.
\<close>

record pay_db =
  pd_office :: office
  pd_ledger :: ledger
  pd_attempts :: "payment_attempt list"
  pd_transactions :: "payment_transaction list"
  pd_events :: "webhook_event list"
  pd_settings :: "setting list"

text \<open>
  What an operation throws: an \<open>ApiError\<close>, a refusal of the database (a unique key, a foreign key, a
  check, a row that is not there), a decimal that does not parse, or what a checkout or a token throws.
\<close>

datatype pay_throw =
    PayApi api_error
  | PayUnique string
  | PayForeign string
  | PayCheck string
  | RowMissing
  | DecimalInvalid
  | PayCheckout checkout_throw
  | PayToken token_throw

definition ofLedger :: "ledger_throw + 'a \<Rightarrow> pay_throw + 'a" where
  "ofLedger r = (case r of
     Inr x \<Rightarrow> Inr x
   | Inl (LedgerApi e) \<Rightarrow> Inl (PayApi e)
   | Inl (UniqueViolation k) \<Rightarrow> Inl (PayUnique k)
   | Inl (CheckViolation k) \<Rightarrow> Inl (PayCheck k)
   | Inl DecimalThrew \<Rightarrow> Inl DecimalInvalid)"

definition payApi :: "nat \<Rightarrow> api_error_code \<Rightarrow> string \<Rightarrow> pay_throw" where
  "payApi status code message = PayApi (apiError status code message)"

text \<open>Inserts, with the unique keys of the tables; a null column repeats nothing.\<close>

definition insertAttempt :: "payment_attempt \<Rightarrow> pay_db \<Rightarrow> pay_throw + pay_db" where
  "insertAttempt a s =
    (if pa_id a \<in> pa_id ` set (pd_attempts s) then Inl (PayUnique ''id'')
     else if pa_idempotencyKey a \<in> pa_idempotencyKey ` set (pd_attempts s) then Inl (PayUnique ''idempotencyKey'')
     else Inr (s\<lparr>pd_attempts := pd_attempts s @ [a]\<rparr>))"

definition orderKey :: "payment_attempt \<Rightarrow> (payment_provider \<times> string) option" where
  "orderKey a = map_option (\<lambda>o1. (pa_provider a, o1)) (pa_providerOrderId a)"

definition updateAttempt :: "payment_attempt \<Rightarrow> pay_db \<Rightarrow> pay_throw + pay_db" where
  "updateAttempt a s =
    (if repeats orderKey a (filter (\<lambda>x. pa_id x \<noteq> pa_id a) (pd_attempts s))
     then Inl (PayUnique ''provider,providerOrderId'')
     else Inr (s\<lparr>pd_attempts := modify pa_id (pa_id a) (\<lambda>_. a) (pd_attempts s)\<rparr>))"

definition transactionKey :: "payment_transaction \<Rightarrow> (payment_provider \<times> string) option" where
  "transactionKey t = map_option (\<lambda>x. (pt_provider t, x)) (pt_providerTransactionId t)"

definition insertTransaction :: "payment_transaction \<Rightarrow> pay_db \<Rightarrow> pay_throw + pay_db" where
  "insertTransaction t s =
    (if pt_id t \<in> pt_id ` set (pd_transactions s) then Inl (PayUnique ''id'')
     else if repeats transactionKey t (pd_transactions s) then Inl (PayUnique ''provider,providerTransactionId'')
     else Inr (s\<lparr>pd_transactions := pd_transactions s @ [t]\<rparr>))"

definition findEvent :: "payment_provider \<Rightarrow> string \<Rightarrow> pay_db \<Rightarrow> webhook_event option" where
  "findEvent provider eventId s =
    find (\<lambda>e. we_provider e = provider \<and> we_eventId e = eventId) (pd_events s)"

definition updateEvent :: "string \<Rightarrow> (webhook_event \<Rightarrow> webhook_event) \<Rightarrow> pay_db \<Rightarrow> pay_throw + webhook_event \<times> pay_db" where
  "updateEvent i f s =
    (case fetch we_id i (pd_events s) of
       None \<Rightarrow> Inl RowMissing
     | Some e \<Rightarrow> Inr (f e, s\<lparr>pd_events := modify we_id i f (pd_events s)\<rparr>))"

definition modifyAttempt :: "string \<Rightarrow> (payment_attempt \<Rightarrow> payment_attempt) \<Rightarrow> pay_db \<Rightarrow> pay_db" where
  "modifyAttempt i f s = s\<lparr>pd_attempts := modify pa_id i f (pd_attempts s)\<rparr>"

definition modifyAppointment :: "string \<Rightarrow> (appointment \<Rightarrow> appointment) \<Rightarrow> pay_db \<Rightarrow> pay_db" where
  "modifyAppointment i f s =
    s\<lparr>pd_office := (pd_office s)\<lparr>of_appointments := modify ap_id i f (of_appointments (pd_office s))\<rparr>\<rparr>"

definition modifyConsultation :: "string \<Rightarrow> (consultation \<Rightarrow> consultation) \<Rightarrow> pay_db \<Rightarrow> pay_db" where
  "modifyConsultation i f s =
    s\<lparr>pd_office := (pd_office s)\<lparr>of_consultations := modify cr_id i f (of_consultations (pd_office s))\<rparr>\<rparr>"

definition auditPay :: "audit_event \<Rightarrow> pay_db \<Rightarrow> pay_db" where
  "auditPay e s = s\<lparr>pd_office := (pd_office s)\<lparr>of_audit := appendAuditLog e (of_audit (pd_office s))\<rparr>\<rparr>"

text \<open>The invoice of an attempt: at most one, by the unique key of the column.\<close>

definition paymentOfAttempt :: "string \<Rightarrow> pay_db \<Rightarrow> invoice option" where
  "paymentOfAttempt attemptId s = find (\<lambda>i. iv_paymentAttemptId i = Some attemptId) (lg_invoices (pd_ledger s))"


section \<open>Decisions\<close>

definition confirmableStatus :: "attempt_status \<Rightarrow> bool" where
  "confirmableStatus st = (st = PA_CREATED \<or> st = PA_PENDING)"

definition canReadAdminPaymentOperations :: "principal \<Rightarrow> bool" where
  "canReadAdminPaymentOperations actor =
    (hasPermission actor ''finance.read.any'' \<or> hasPermission actor ''finance.manage.any'')"

definition canManageAdminPaymentOperations :: "principal \<Rightarrow> bool" where
  "canManageAdminPaymentOperations actor = hasPermission actor ''finance.manage.any''"

definition paidAttemptWebhookConfirmationBlocker ::
  "attempt_status \<Rightarrow> int \<Rightarrow> appointment_status \<Rightarrow> consultation_status \<Rightarrow> int \<Rightarrow> string" where
  "paidAttemptWebhookConfirmationBlocker attemptStatus expiresAt appointmentStatus consultationStatus now =
    (if \<not> confirmableStatus attemptStatus then ''Payment attempt can no longer confirm this appointment.''
     else if expiresAt \<le> now then ''Payment attempt expired before trusted payment confirmation.''
     else if appointmentStatus \<noteq> A_RESERVED then ''Payment attempt appointment is no longer reserved.''
     else if consultationStatus \<noteq> C_PAYMENT_PENDING then ''Payment attempt consultation is no longer pending payment.''
     else [])"

definition paymentTransactionStatus :: "payment_status \<Rightarrow> transaction_status" where
  "paymentTransactionStatus status =
    (case status of P_PAID \<Rightarrow> PT_PAID | P_REFUNDED \<Rightarrow> PT_REFUNDED | P_DISPUTED \<Rightarrow> PT_DISPUTED
     | P_CANCELLED \<Rightarrow> PT_CANCELLED | P_PENDING \<Rightarrow> PT_PENDING | _ \<Rightarrow> PT_FAILED)"

definition attemptStatusOf :: "payment_status \<Rightarrow> attempt_status" where
  "attemptStatusOf status =
    (case status of P_PAID \<Rightarrow> PA_PAID | P_PENDING \<Rightarrow> PA_PENDING | P_REFUNDED \<Rightarrow> PA_REFUNDED
     | P_DISPUTED \<Rightarrow> PA_DISPUTED | P_CANCELLED \<Rightarrow> PA_CANCELLED | P_EXPIRED \<Rightarrow> PA_EXPIRED
     | P_FAILED \<Rightarrow> PA_FAILED)"

definition attemptStatusText :: "attempt_status \<Rightarrow> string" where
  "attemptStatusText st =
    (case st of PA_CREATED \<Rightarrow> ''CREATED'' | PA_PENDING \<Rightarrow> ''PENDING'' | PA_PAID \<Rightarrow> ''PAID'' | PA_FAILED \<Rightarrow> ''FAILED''
     | PA_EXPIRED \<Rightarrow> ''EXPIRED'' | PA_REFUNDED \<Rightarrow> ''REFUNDED'' | PA_DISPUTED \<Rightarrow> ''DISPUTED''
     | PA_CANCELLED \<Rightarrow> ''CANCELLED'')"

definition preserveTransactionState :: "transaction_status \<Rightarrow> transaction_status \<Rightarrow> int option \<Rightarrow> bool" where
  "preserveTransactionState current incoming paidAt =
    (if current = PT_REFUNDED \<or> current = PT_DISPUTED \<or> (current = PT_CANCELLED \<and> paidAt \<noteq> None) then True
     else current = PT_PAID \<and> incoming \<notin> {PT_REFUNDED, PT_DISPUTED, PT_CANCELLED})"

text \<open>\<open>/^\d+(\.\d{1,2})?$/\<close>\<close>

definition reportedAmountShape :: "string \<Rightarrow> bool" where
  "reportedAmountShape s =
    (case splitOn (CHR ''.'') s of
       [i] \<Rightarrow> allDigits i
     | [i, f] \<Rightarrow> allDigits i \<and> allDigits f \<and> length f \<le> 2
     | _ \<Rightarrow> False)"

text \<open>
  \<open>decimal\<close> is the constructor of the decimal library, \<open>None\<close> where it throws; its
  \<open>isPositive\<close> tests the sign, which zero has.
\<close>

type_synonym decimal_reader = "string \<Rightarrow> rat option"

definition providerReportedMoney ::
  "decimal_reader \<Rightarrow> normalized_payload \<Rightarrow> pay_throw + (rat \<times> currency) option" where
  "providerReportedMoney decimal payload =
    (case currencyOfText (jsUpper (jsTrim (np_currency payload))) of
       None \<Rightarrow> Inr None
     | Some cur \<Rightarrow>
       if \<not> reportedAmountShape (jsTrim (np_amount payload)) then Inr None
       else (case decimal (np_amount payload) of
               None \<Rightarrow> Inl DecimalInvalid
             | Some amount \<Rightarrow>
               if \<not> 0 \<le> amount \<or> amount > 999999999999 / 100 then Inr None else Inr (Some (amount, cur))))"

datatype payload_problem = PayloadProblem (problem_code: string) (problem_path: string) (problem_message: string)

definition paidWebhookPayloadProblem ::
  "decimal_reader \<Rightarrow> normalized_payload \<Rightarrow> rat \<Rightarrow> currency \<Rightarrow> payload_problem option" where
  "paidWebhookPayloadProblem decimal payload amount currency1 =
    (let payloadCurrency = jsUpper (jsTrim (np_currency payload)); payloadAmountText = jsTrim (np_amount payload)
     in if payloadCurrency = [] \<or> payloadCurrency \<noteq> currencyText currency1
        then Some (PayloadProblem ''PAYMENT_CURRENCY_MISMATCH'' ''currency''
          ''Paid webhook currency does not match the reserved payment attempt.'')
        else if payloadAmountText = []
        then Some (PayloadProblem ''PAYMENT_AMOUNT_MISMATCH'' ''amount'' ''Paid webhook amount is missing.'')
        else case decimal payloadAmountText of
          None \<Rightarrow> Some (PayloadProblem ''PAYMENT_AMOUNT_MISMATCH'' ''amount'' ''Paid webhook amount is invalid.'')
        | Some payloadAmount \<Rightarrow>
          if payloadAmount \<noteq> amount
          then Some (PayloadProblem ''PAYMENT_AMOUNT_MISMATCH'' ''amount''
            ''Paid webhook amount does not match the reserved payment attempt.'')
          else None)"

definition gatewayInvoiceNumber :: "string \<Rightarrow> int \<Rightarrow> string" where
  "gatewayInvoiceNumber attemptId paidAt =
    ''CONS-'' @ intText (utcFullYear paidAt) @ ''-'' @ jsUpper (take 8 attemptId)"

definition financialReviewCodes :: "string list" where
  "financialReviewCodes = [''PAYMENT_REVERSAL_REVIEW_REQUIRED'', ''PAYMENT_COLLECTION_REVIEW_REQUIRED'']"

definition paymentNeedsOrderVerification :: "payment_attempt \<Rightarrow> bool" where
  "paymentNeedsOrderVerification a =
    (pa_provider a = Paymob \<and> nonEmpty (pa_providerOrderId a) = None \<and> nonEmpty (pa_checkoutUrl a) \<noteq> None \<and>
     pa_status a \<noteq> PA_PAID)"

definition paymentRequiresReview :: "payment_attempt \<Rightarrow> bool" where
  "paymentRequiresReview a =
    ((case pa_failureCode a of None \<Rightarrow> False | Some c \<Rightarrow> c \<noteq> [] \<and> c \<in> set financialReviewCodes) \<or>
     paymentNeedsOrderVerification a)"

text \<open>\<open>toISOString\<close> of a time in the years 0 to 9999.\<close>

definition isoText :: "int \<Rightarrow> string" where
  "isoText ms = isoDate ms @ ''T'' @ padStart 2 (CHR ''0'') (natToText (nat (utcHours ms))) @ '':'' @
     padStart 2 (CHR ''0'') (natToText (nat (utcMinutes ms))) @ '':'' @
     padStart 2 (CHR ''0'') (natToText (nat (ms div 1000 mod 60))) @ ''.'' @
     padStart 3 (CHR ''0'') (natToText (nat (ms mod 1000))) @ ''Z''"

definition consultationAttemptIdempotencyKey ::
  "gateway_platform \<Rightarrow> payment_provider \<Rightarrow> string \<Rightarrow> int \<Rightarrow> price_snapshot \<Rightarrow> string" where
  "consultationAttemptIdempotencyKey pf provider clientId startsAt price =
    gp_sha256Hex pf (providerText provider @ ''|'' @ clientId @ ''|'' @ isoText startsAt @ ''|'' @
      ps_serviceCategory price @ ''|'' @ modeText (ps_mode price) @ ''|'' @ ps_amountText price @ ''|'' @
      currencyText (ps_currency price) @ ''|'' @ intText (ps_priceVersion price))"


section \<open>The comparison shown to the office\<close>

datatype money_status = MS_MATCHED | MS_AMOUNT_MISMATCH | MS_CURRENCY_MISMATCH | MS_MISSING_ATTEMPT
  | MS_NOT_PAID | MS_NEEDS_REVIEW

record money_comparison =
  mc_status :: money_status
  mc_expected :: "(rat \<times> currency) option"
  mc_receivedAmount :: "string option"
  mc_receivedCurrency :: "string option"
  mc_providerStatus :: "payment_status option"
  mc_difference :: "rat option"

definition paymentWebhookMoneyComparison ::
  "decimal_reader \<Rightarrow> json option \<Rightarrow> (rat \<times> currency) option \<Rightarrow> string option \<Rightarrow> processing_status option \<Rightarrow>
   signature_status option \<Rightarrow> money_comparison" where
  "paymentWebhookMoneyComparison decimal normalizedPayload attempt errorCode processingStatus signatureStatus =
    (let normalized = parseStoredNormalizedPayload normalizedPayload;
         receivedAmount = nonEmpty (map_option (\<lambda>n. jsTrim (np_amount n)) normalized);
         receivedCurrency = nonEmpty (map_option (\<lambda>n. jsUpper (jsTrim (np_currency n))) normalized);
         providerStatus = map_option np_status normalized;
         result = (\<lambda>status difference. \<lparr>mc_status = status, mc_expected = attempt,
           mc_receivedAmount = receivedAmount, mc_receivedCurrency = receivedCurrency,
           mc_providerStatus = providerStatus, mc_difference = difference\<rparr>)
     in if errorCode = Some ''PAYMENT_AMOUNT_MISMATCH'' then result MS_AMOUNT_MISMATCH None
        else if errorCode = Some ''PAYMENT_CURRENCY_MISMATCH'' then result MS_CURRENCY_MISMATCH None
        else case attempt of
          None \<Rightarrow> result MS_MISSING_ATTEMPT None
        | Some (expectedAmount, expectedCurrency) \<Rightarrow>
          if signatureStatus = Some SIG_INVALID \<or> processingStatus = Some WP_FAILED \<or> nonEmpty errorCode \<noteq> None
          then result MS_NEEDS_REVIEW None
          else if providerStatus \<noteq> Some P_PAID then result MS_NOT_PAID None
          else case receivedAmount of
            None \<Rightarrow> result MS_AMOUNT_MISMATCH None
          | Some received \<Rightarrow>
            if receivedCurrency \<noteq> Some (currencyText expectedCurrency) then result MS_CURRENCY_MISMATCH None
            else case decimal received of
              None \<Rightarrow> result MS_AMOUNT_MISMATCH None
            | Some r \<Rightarrow>
              result (if r - expectedAmount = 0 then MS_MATCHED else MS_AMOUNT_MISMATCH) (Some (r - expectedAmount)))"

text \<open>The list filter by money status, on a row of the table.\<close>

definition paymentWebhookMoneyStatusWhere :: "money_status \<Rightarrow> webhook_event \<Rightarrow> bool" where
  "paymentWebhookMoneyStatusWhere status e =
    (let stored = (case we_normalizedPayload e of None \<Rightarrow> None | Some v \<Rightarrow> memberOf v ''status'')
     in case status of
          MS_MATCHED \<Rightarrow> we_attemptId e \<noteq> None \<and> we_processingStatus e = WP_PROCESSED \<and> we_errorCode e = None \<and>
            stored = Some (JStr ''PAID'')
        | MS_AMOUNT_MISMATCH \<Rightarrow> we_errorCode e = Some ''PAYMENT_AMOUNT_MISMATCH''
        | MS_CURRENCY_MISMATCH \<Rightarrow> we_errorCode e = Some ''PAYMENT_CURRENCY_MISMATCH''
        | MS_MISSING_ATTEMPT \<Rightarrow> we_attemptId e = None
        | MS_NOT_PAID \<Rightarrow> (case stored of None \<Rightarrow> False | Some v \<Rightarrow> v \<noteq> JStr ''PAID'')
        | MS_NEEDS_REVIEW \<Rightarrow> we_processingStatus e = WP_FAILED \<or> we_signatureStatus e = SIG_INVALID \<or>
            we_errorCode e \<noteq> None \<or> we_attemptId e = None)"

end
