(* ===== verification/PaymentService.thy ===== *)
theory PaymentService
  imports PaymentDb
begin

text \<open>
  The payments of consultations (\<open>src/src/server/payments/payment-service.ts\<close>): opening an
  attempt, expiring it, and the webhooks that confirm, release or reverse it. A function of the
  service that runs in one transaction returns an error or the new tables; a request that writes
  outside a transaction returns the tables with its answer, so what it wrote before it threw
  stays. A request reads the clock once.
\<close>

definition apiErrorCodeText :: "api_error_code \<Rightarrow> string" where
  "apiErrorCodeText code =
    (case code of
       BAD_REQUEST \<Rightarrow> ''BAD_REQUEST''
     | AUTH_REQUIRED \<Rightarrow> ''AUTH_REQUIRED''
     | UNAUTHENTICATED \<Rightarrow> ''UNAUTHENTICATED''
     | INVALID_CREDENTIALS \<Rightarrow> ''INVALID_CREDENTIALS''
     | TOKEN_EXPIRED \<Rightarrow> ''TOKEN_EXPIRED''
     | FORBIDDEN \<Rightarrow> ''FORBIDDEN''
     | PERMISSION_DENIED \<Rightarrow> ''PERMISSION_DENIED''
     | NOT_FOUND \<Rightarrow> ''NOT_FOUND''
     | VALIDATION_ERROR \<Rightarrow> ''VALIDATION_ERROR''
     | CONFLICT \<Rightarrow> ''CONFLICT''
     | ACCOUNT_EMAIL_UNAVAILABLE \<Rightarrow> ''ACCOUNT_EMAIL_UNAVAILABLE''
     | APPOINTMENT_CONFLICT \<Rightarrow> ''APPOINTMENT_CONFLICT''
     | CONSULTATION_OUTCOME_NOT_READY \<Rightarrow> ''CONSULTATION_OUTCOME_NOT_READY''
     | CONSULTATION_STATE_CHANGED \<Rightarrow> ''CONSULTATION_STATE_CHANGED''
     | CONSULTATION_REOPEN_REQUIRED \<Rightarrow> ''CONSULTATION_REOPEN_REQUIRED''
     | CASE_REFERENCE_CONFLICT \<Rightarrow> ''CASE_REFERENCE_CONFLICT''
     | SETTING_READ_ONLY \<Rightarrow> ''SETTING_READ_ONLY''
     | TOO_MANY_REQUESTS \<Rightarrow> ''TOO_MANY_REQUESTS''
     | RATE_LIMITED \<Rightarrow> ''RATE_LIMITED''
     | CONVERSATION_LIMIT_REACHED \<Rightarrow> ''CONVERSATION_LIMIT_REACHED''
     | PAYMENT_PROVIDER_DISABLED \<Rightarrow> ''PAYMENT_PROVIDER_DISABLED''
     | FILE_TOO_LARGE \<Rightarrow> ''FILE_TOO_LARGE''
     | UNSUPPORTED_FILE_TYPE \<Rightarrow> ''UNSUPPORTED_FILE_TYPE''
     | MALWARE_DETECTED \<Rightarrow> ''MALWARE_DETECTED''
     | MALWARE_SCANNER_UNAVAILABLE \<Rightarrow> ''MALWARE_SCANNER_UNAVAILABLE''
     | FEATURE_DISABLED \<Rightarrow> ''FEATURE_DISABLED''
     | TWO_FACTOR_REQUIRED \<Rightarrow> ''TWO_FACTOR_REQUIRED''
     | TWO_FACTOR_INVALID \<Rightarrow> ''TWO_FACTOR_INVALID''
     | TWO_FACTOR_EXPIRED \<Rightarrow> ''TWO_FACTOR_EXPIRED''
     | EMAIL_DELIVERY_FAILED \<Rightarrow> ''EMAIL_DELIVERY_FAILED''
     | AI_PROVIDER_UNAVAILABLE \<Rightarrow> ''AI_PROVIDER_UNAVAILABLE''
     | AI_PROVIDER_TIMEOUT \<Rightarrow> ''AI_PROVIDER_TIMEOUT''
     | AI_OUTPUT_INVALID \<Rightarrow> ''AI_OUTPUT_INVALID''
     | APPROVAL_REQUIRED \<Rightarrow> ''APPROVAL_REQUIRED''
     | SERVICE_UNAVAILABLE \<Rightarrow> ''SERVICE_UNAVAILABLE''
     | INTERNAL_ERROR \<Rightarrow> ''INTERNAL_ERROR'')"

text \<open>
  The platform: digests, decimals, the reading of JSON, tokens (with the environment and the UUID
  format), the gateway, and whether a write of the audit trail outside a transaction succeeds.
  The ids are the ones the database gives to the rows a request creates.
\<close>

record pay_platform =
  pp_gateway :: gateway_platform
  pp_decimal :: decimal_reader
  pp_parse :: "string \<Rightarrow> json option"
  pp_tokens :: token_platform
  pp_checkout :: checkout_platform
  pp_issue :: error_detail
  pp_auditUp :: bool

record webhook_ids =
  wi_event :: string
  wi_transaction :: string
  wi_invoice :: string
  wi_entry :: string

definition payEnv :: "pay_platform \<Rightarrow> env" where
  "payEnv pf = tk_env (pp_tokens pf)"

definition isPaymentUuid :: "pay_platform \<Rightarrow> string option \<Rightarrow> bool" where
  "isPaymentUuid pf value = (case value of None \<Rightarrow> False | Some s \<Rightarrow> tk_isUuid (pp_tokens pf) s)"

definition uuidSchema :: "pay_platform \<Rightarrow> string \<Rightarrow> error_detail list + string" where
  "uuidSchema pf s = (if tk_isUuid (pp_tokens pf) s then Inr s else Inl [pp_issue pf])"

definition payParse :: "'a api \<Rightarrow> pay_throw + 'a" where
  "payParse r = (case r of Inl e \<Rightarrow> Inl (PayApi e) | Inr x \<Rightarrow> Inr x)"


section \<open>Expiry\<close>

definition expiredAttemptBatchSize :: int where
  "expiredAttemptBatchSize = 100"

definition openAndExpired :: "int \<Rightarrow> payment_attempt \<Rightarrow> bool" where
  "openAndExpired now a = (confirmableStatus (pa_status a) \<and> pa_expiresAt a < now)"

definition expirableBatch :: "int \<Rightarrow> string option \<Rightarrow> int option \<Rightarrow> pay_db \<Rightarrow> string list" where
  "expirableBatch now attemptId limit s =
    (let n = min (max (case limit of None \<Rightarrow> expiredAttemptBatchSize | Some l \<Rightarrow> l) 1) 500
     in map pa_id (take (nat n) (sort_key pa_expiresAt
          (filter (\<lambda>a. (case nonEmpty attemptId of None \<Rightarrow> True | Some i \<Rightarrow> pa_id a = i) \<and> openAndExpired now a)
            (pd_attempts s)))))"

text \<open>
  The transaction that follows the selection. It checks the rows again, so other requests may have
  run since the batch was selected.
\<close>

definition expireBatch :: "int \<Rightarrow> string list \<Rightarrow> pay_db \<Rightarrow> nat \<times> pay_db" where
  "expireBatch now batch s =
    (let due = (\<lambda>a. pa_id a \<in> set batch \<and> openAndExpired now a);
         expired = filter due (pd_attempts s); desk = pd_office s
     in (length expired,
         s\<lparr>pd_attempts := updateWhere due
             (\<lambda>a. a\<lparr>pa_status := PA_EXPIRED, pa_failureCode := Some ''ATTEMPT_EXPIRED''\<rparr>) (pd_attempts s),
           pd_office := desk\<lparr>of_appointments := updateWhere
               (\<lambda>a. ap_id a \<in> set (map pa_appointmentId expired) \<and> ap_status a = A_RESERVED)
               (\<lambda>a. a\<lparr>ap_status := A_CANCELLED,
                  ap_notes := Some ''Payment reservation expired before trusted payment confirmation.''\<rparr>)
               (of_appointments desk),
             of_consultations := updateWhere
               (\<lambda>c. cr_id c \<in> set (map pa_consultationRequestId expired) \<and> cr_status c = C_PAYMENT_PENDING)
               (\<lambda>c. c\<lparr>cr_status := C_REVIEWING\<rparr>) (of_consultations desk)\<rparr>\<rparr>))"

definition expireOpenConsultationPaymentAttempts ::
  "int \<Rightarrow> string option \<Rightarrow> int option \<Rightarrow> pay_db \<Rightarrow> nat \<times> pay_db" where
  "expireOpenConsultationPaymentAttempts now attemptId limit s =
    (case expirableBatch now attemptId limit s of
       [] \<Rightarrow> (0, s)
     | batch \<Rightarrow> expireBatch now batch s)"


section \<open>Opening an attempt\<close>

record attempt_client =
  ac_id :: string
  ac_fullName :: string
  ac_email :: "string option"
  ac_phone :: string

record attempt_input =
  ai_client :: attempt_client
  ai_consultationId :: string
  ai_appointmentId :: string
  ai_startsAt :: int
  ai_endsAt :: int
  ai_price :: price_snapshot
  ai_locale :: "string option"

definition openAttemptFor :: "int \<Rightarrow> string \<Rightarrow> pay_db \<Rightarrow> payment_attempt option" where
  "openAttemptFor now key s =
    find (\<lambda>a. pa_idempotencyKey a = key \<and> confirmableStatus (pa_status a) \<and> now < pa_expiresAt a) (pd_attempts s)"

definition freshAttempt ::
  "payment_provider \<Rightarrow> string \<Rightarrow> int \<Rightarrow> string \<Rightarrow> attempt_input \<Rightarrow> payment_attempt" where
  "freshAttempt provider newId expiresAt key input =
    \<lparr>pa_id = newId, pa_provider = provider, pa_status = PA_CREATED, pa_clientId = ac_id (ai_client input),
     pa_consultationRequestId = ai_consultationId input, pa_appointmentId = ai_appointmentId input,
     pa_pricingRuleId = Some (ps_pricingRuleId (ai_price input)), pa_priceVersion = ps_priceVersion (ai_price input),
     pa_serviceCategory = ps_serviceCategory (ai_price input), pa_mode = ps_mode (ai_price input),
     pa_amount = ps_amount (ai_price input), pa_currency = ps_currency (ai_price input),
     pa_startsAt = ai_startsAt input, pa_endsAt = ai_endsAt input, pa_expiresAt = expiresAt,
     pa_idempotencyKey = key, pa_checkoutUrl = None, pa_providerSessionId = None, pa_providerOrderId = None,
     pa_providerPaymentId = None, pa_failureCode = None\<rparr>"

definition attemptCheckoutInput :: "attempt_input \<Rightarrow> payment_attempt \<Rightarrow> string \<Rightarrow> checkout_input" where
  "attemptCheckoutInput input attempt statusToken =
    \<lparr>ci_attemptId = pa_id attempt, ci_amount = ps_amountText (ai_price input),
     ci_currency = currencyText (ps_currency (ai_price input)),
     ci_description = ''KMT Legal consultation booking '' @ pa_id attempt,
     ci_customer = \<lparr>cc_name = ac_fullName (ai_client input), cc_email = ac_email (ai_client input),
       cc_phone = Some (ac_phone (ai_client input))\<rparr>,
     ci_statusToken = statusToken, ci_locale = (if ai_locale input = Some ''ar'' then ''ar'' else ''en''),
     ci_expiresAt = Some (pa_expiresAt attempt)\<rparr>"

definition withCheckout :: "hosted_checkout \<Rightarrow> payment_attempt \<Rightarrow> payment_attempt" where
  "withCheckout checkout attempt =
    attempt\<lparr>pa_provider := hc_provider checkout, pa_status := PA_PENDING,
      pa_checkoutUrl := Some (hc_checkoutUrl checkout), pa_providerSessionId := Some (hc_providerSessionId checkout),
      pa_providerOrderId := (case hc_providerOrderId checkout of None \<Rightarrow> pa_providerOrderId attempt | x \<Rightarrow> x)\<rparr>"

definition checkoutEvent :: "attempt_input \<Rightarrow> payment_attempt \<Rightarrow> audit_event" where
  "checkoutEvent input a =
    (auditEvent None ''payment.checkout_create'' ''PaymentAttempt'' (Some (pa_id a))
      [(''provider'', MText (providerText (pa_provider a))), (''amount'', MAmount (pa_amount a)),
       (''currency'', MText (currencyText (pa_currency a))), (''serviceCategory'', MText (pa_serviceCategory a)),
       (''mode'', MText (modeText (pa_mode a))), (''expiresAt'', MText (isoText (pa_expiresAt a)))])
    \<lparr>ae_clientId := Some (ac_id (ai_client input)), ae_appointmentId := Some (ai_appointmentId input)\<rparr>"

text \<open>The attempt a checkout is made for: the open one of the key, or a new row.\<close>

definition attemptToCheckOut ::
  "int \<Rightarrow> string \<Rightarrow> payment_attempt \<Rightarrow> pay_db \<Rightarrow> pay_throw + payment_attempt \<times> pay_db" where
  "attemptToCheckOut now key fresh s =
    (case openAttemptFor now key s of
       Some a \<Rightarrow> Inr (a, s)
     | None \<Rightarrow> andThen (insertAttempt fresh s) (\<lambda>s1. Inr (fresh, s1)))"

definition checkOutAttempt ::
  "pay_platform \<Rightarrow> int \<Rightarrow> payment_provider \<Rightarrow> attempt_input \<Rightarrow> payment_attempt \<Rightarrow> pay_db \<Rightarrow>
   pay_throw + payment_attempt \<times> pay_db" where
  "checkOutAttempt pf now activeProvider input attempt s =
    andThen (case createPaymentStatusToken (pp_tokens pf) (pa_id attempt) now of
        Inl e \<Rightarrow> Inl (PayToken e) | Inr t \<Rightarrow> Inr t) (\<lambda>token.
    andThen (case createHostedCheckout (pp_checkout pf) now activeProvider
          (attemptCheckoutInput input attempt token) of
        Inl e \<Rightarrow> Inl (PayCheckout e) | Inr c \<Rightarrow> Inr c) (\<lambda>checkout.
    let updated = withCheckout checkout attempt
    in andThen (updateAttempt updated s) (\<lambda>s1.
       Inr (updated, auditPay (checkoutEvent input updated) s1))))"

definition createConsultationPaymentAttempt ::
  "pay_platform \<Rightarrow> int \<Rightarrow> string \<Rightarrow> attempt_input \<Rightarrow> pay_db \<Rightarrow> pay_throw + payment_attempt \<times> pay_db" where
  "createConsultationPaymentAttempt pf now newId input s =
    (let env = payEnv pf; activeProvider = getActivePaymentGateway env (pd_settings s);
         expiresAt = now + paymentReservationMinutes env * 60000;
         key = consultationAttemptIdempotencyKey (pp_gateway pf) activeProvider (ac_id (ai_client input))
           (ai_startsAt input) (ai_price input);
         fresh = freshAttempt activeProvider newId expiresAt key input
     in case Option.bind (openAttemptFor now key s)
          (\<lambda>a. if nonEmpty (pa_checkoutUrl a) = None then None else Some a) of
          Some a \<Rightarrow> Inr (a, s)
        | None \<Rightarrow> andThen (attemptToCheckOut now key fresh s) (\<lambda>(attempt, s1).
            checkOutAttempt pf now activeProvider input attempt s1))"

section \<open>Applying a webhook\<close>

text \<open>An attempt with the rows its relations include; the foreign keys give it both.\<close>

record loaded_attempt =
  la_attempt :: payment_attempt
  la_appointment :: appointment
  la_consultation :: consultation
  la_payment :: "invoice option"

definition loadAttempt :: "string \<Rightarrow> pay_db \<Rightarrow> loaded_attempt option" where
  "loadAttempt attemptId s =
    (case fetch pa_id attemptId (pd_attempts s) of
       None \<Rightarrow> None
     | Some a \<Rightarrow>
       (case (fetch ap_id (pa_appointmentId a) (of_appointments (pd_office s)),
              fetch cr_id (pa_consultationRequestId a) (of_consultations (pd_office s))) of
          (Some ap, Some cr) \<Rightarrow> Some \<lparr>la_attempt = a, la_appointment = ap, la_consultation = cr,
             la_payment = paymentOfAttempt attemptId s\<rparr>
        | _ \<Rightarrow> None))"

definition conflict :: "string \<Rightarrow> pay_throw" where
  "conflict message = payApi 409 CONFLICT message"

definition orderMismatch :: pay_throw where
  "orderMismatch = conflict ''Payment webhook order does not match a reserved payment attempt.''"

record transaction_input =
  ti_eventId :: string
  ti_attemptId :: string
  ti_provider :: payment_provider
  ti_providerTransactionId :: "string option"
  ti_rawStatus :: "string option"
  ti_status :: transaction_status
  ti_amount :: rat
  ti_currency :: currency
  ti_paidAt :: "int option"

definition transactionMismatch :: "error_detail list \<Rightarrow> pay_throw" where
  "transactionMismatch details = PayApi (ApiError 409 CONFLICT
     ''Provider transaction is already linked to a different payment attempt.'' details)"

definition transactionMismatchDetail :: error_detail where
  "transactionMismatchDetail = \<lparr>ed_path = Some ''providerTransactionId'',
     ed_message = ''Provider transaction is already linked to a different payment attempt.'',
     ed_code = Some ''provider_transaction_attempt_mismatch''\<rparr>"

text \<open>
  The transaction the event is linked to, when its state is to be preserved; \<open>None\<close> when the
  reported state is to be written.
\<close>

definition linkedTransaction ::
  "transaction_input \<Rightarrow> pay_db \<Rightarrow> pay_throw + payment_transaction option" where
  "linkedTransaction input s =
    (case Option.bind (fetch we_id (ti_eventId input) (pd_events s)) (\<lambda>e. nonEmpty (we_transactionId e)) of
       None \<Rightarrow> Inr None
     | Some t \<Rightarrow>
       (case fetch pt_id t (pd_transactions s) of
          None \<Rightarrow> Inl RowMissing
        | Some linked \<Rightarrow>
          if pt_attemptId linked \<noteq> ti_attemptId input then Inl (transactionMismatch [])
          else if preserveTransactionState (pt_status linked) (ti_status input) (pt_paidAt linked)
          then Inr (Some linked) else Inr None))"

definition createTransaction ::
  "string \<Rightarrow> transaction_input \<Rightarrow> pay_db \<Rightarrow> pay_throw + payment_transaction \<times> pay_db" where
  "createTransaction newId input s =
    (let t = \<lparr>pt_id = newId, pt_attemptId = ti_attemptId input, pt_provider = ti_provider input,
           pt_providerTransactionId = ti_providerTransactionId input, pt_rawStatus = ti_rawStatus input,
           pt_status = ti_status input, pt_amount = ti_amount input, pt_currency = ti_currency input,
           pt_paidAt = ti_paidAt input\<rparr>
     in andThen (insertTransaction t s) (\<lambda>s1. Inr (t, s1)))"

definition upsertPaymentTransaction ::
  "string \<Rightarrow> transaction_input \<Rightarrow> pay_db \<Rightarrow> pay_throw + payment_transaction \<times> pay_db" where
  "upsertPaymentTransaction newId input s =
    andThen (linkedTransaction input s) (\<lambda>preserved.
    case preserved of
      Some linked \<Rightarrow> Inr (linked, s)
    | None \<Rightarrow>
      (case Option.bind (nonEmpty (ti_providerTransactionId input)) (\<lambda>i.
          find (\<lambda>t. pt_provider t = ti_provider input \<and> pt_providerTransactionId t = Some i) (pd_transactions s)) of
         None \<Rightarrow> createTransaction newId input s
       | Some existing \<Rightarrow>
         if pt_attemptId existing \<noteq> ti_attemptId input then Inl (transactionMismatch [transactionMismatchDetail])
         else if preserveTransactionState (pt_status existing) (ti_status input) (pt_paidAt existing)
         then Inr (existing, s)
         else (let t = existing\<lparr>pt_rawStatus := ti_rawStatus input, pt_status := ti_status input,
                   pt_amount := ti_amount input, pt_currency := ti_currency input,
                   pt_paidAt := (case pt_paidAt existing of None \<Rightarrow> ti_paidAt input | Some p \<Rightarrow> Some p)\<rparr>
               in Inr (t, s\<lparr>pd_transactions := modify pt_id (pt_id existing) (\<lambda>_. t) (pd_transactions s)\<rparr>))))"

definition releaseFailedAttempt ::
  "loaded_attempt \<Rightarrow> attempt_status \<Rightarrow> string \<Rightarrow> pay_db \<Rightarrow> pay_db" where
  "releaseFailedAttempt la status failureCode s =
    (let a = la_attempt la
     in if la_payment la \<noteq> None \<or> \<not> confirmableStatus (pa_status a) then s
        else let s1 = modifyAttempt (pa_id a)
                   (\<lambda>x. x\<lparr>pa_status := status, pa_failureCode := Some failureCode\<rparr>) s;
                 s2 = (if ap_status (la_appointment la) = A_RESERVED
                   then modifyAppointment (pa_appointmentId a) (\<lambda>x. x\<lparr>ap_status := A_CANCELLED,
                      ap_notes := Some (''Payment attempt ended with '' @ attemptStatusText status @ ''.'')\<rparr>) s1
                   else s1)
             in if cr_status (la_consultation la) = C_PAYMENT_PENDING
                then modifyConsultation (pa_consultationRequestId a) (\<lambda>c. c\<lparr>cr_status := C_REVIEWING\<rparr>) s2
                else s2)"

definition updateOpenAttemptStatus :: "loaded_attempt \<Rightarrow> payment_status \<Rightarrow> pay_db \<Rightarrow> pay_db" where
  "updateOpenAttemptStatus la status s =
    (if la_payment la \<noteq> None \<or> \<not> confirmableStatus (pa_status (la_attempt la)) then s
     else modifyAttempt (pa_id (la_attempt la)) (\<lambda>x. x\<lparr>pa_status := attemptStatusOf status\<rparr>) s)"

definition gatewayInvoice :: "int \<Rightarrow> string \<Rightarrow> payment_attempt \<Rightarrow> payment_transaction \<Rightarrow> invoice" where
  "gatewayInvoice now invoiceId a t =
    \<lparr>iv_id = invoiceId, iv_invoiceNumber = gatewayInvoiceNumber (pa_id a) now, iv_clientId = pa_clientId a,
     iv_caseId = None, iv_consultationRequestId = Some (pa_consultationRequestId a),
     iv_appointmentId = Some (pa_appointmentId a), iv_paymentAttemptId = Some (pa_id a), iv_issueDate = now,
     iv_dueDate = None, iv_amount = pa_amount a, iv_currency = pa_currency a, iv_status = I_PAID,
     iv_paymentMethod = Some (providerText (pa_provider a)),
     iv_receiptNumber = Some (textOr (pt_providerTransactionId t) (pt_id t)), iv_paidAt = Some now,
     iv_notes = Some ''Gateway-confirmed consultation booking payment.'', iv_ledgerReviewRequired = False,
     iv_createdById = None\<rparr>"

definition paidEvent :: "payment_attempt \<Rightarrow> invoice \<Rightarrow> audit_event" where
  "paidEvent a payment =
    (auditEvent None ''payment.webhook_paid'' ''PaymentAttempt'' (Some (pa_id a))
      [(''invoiceNumber'', MText (iv_invoiceNumber payment)), (''provider'', MText (providerText (pa_provider a))),
       (''amount'', MAmount (pa_amount a)), (''currency'', MText (currencyText (pa_currency a)))])
    \<lparr>ae_clientId := Some (pa_clientId a), ae_appointmentId := Some (pa_appointmentId a),
     ae_paymentId := Some (iv_id payment)\<rparr>"

definition confirmationBlocker :: "int \<Rightarrow> loaded_attempt \<Rightarrow> string" where
  "confirmationBlocker now la =
    paidAttemptWebhookConfirmationBlocker (pa_status (la_attempt la)) (pa_expiresAt (la_attempt la))
      (ap_status (la_appointment la)) (cr_status (la_consultation la)) now"

definition confirmPaidAttempt ::
  "int \<Rightarrow> webhook_ids \<Rightarrow> loaded_attempt \<Rightarrow> payment_transaction \<Rightarrow> pay_db \<Rightarrow> pay_throw + pay_db" where
  "confirmPaidAttempt now ids la t s =
    (let a = la_attempt la; payment = gatewayInvoice now (wi_invoice ids) a t
     in if la_payment la \<noteq> None \<or> pa_status a = PA_PAID then Inr s
        else andThen (require (confirmationBlocker now la = []) (conflict (confirmationBlocker now la))) (\<lambda>_.
             andThen (ofLedger (insertInvoice payment (pd_ledger s))) (\<lambda>lg1.
             let s1 = modifyAttempt (pa_id a) (\<lambda>x. x\<lparr>pa_status := PA_PAID,
                   pa_providerPaymentId := pt_providerTransactionId t\<rparr>) (s\<lparr>pd_ledger := lg1\<rparr>)
             in andThen (ofLedger (recordTrustedInvoiceSettlement now (wi_entry ids) payment lg1)) (\<lambda>lg2.
             let s2 = s1\<lparr>pd_ledger := lg2\<rparr>;
                 s3 = modifyAppointment (pa_appointmentId a) (\<lambda>x. x\<lparr>ap_status := A_SCHEDULED,
                   ap_notes := Some ''Confirmed after trusted payment webhook.''\<rparr>) s2;
                 s4 = modifyConsultation (pa_consultationRequestId a) (\<lambda>c. c\<lparr>cr_status := C_SCHEDULED\<rparr>) s3;
                 s5 = s4\<lparr>pd_office := createConsultationReviewNotifications now (pa_consultationRequestId a)
                   (pd_office s4)\<rparr>
             in Inr (auditPay (paidEvent a payment) s5)))))"

definition finishEvent ::
  "int \<Rightarrow> string \<Rightarrow> processing_status \<Rightarrow> string option \<Rightarrow> pay_db \<Rightarrow> pay_throw + webhook_event \<times> pay_db" where
  "finishEvent now eventId status errorCode s =
    updateEvent eventId (\<lambda>e. e\<lparr>we_processingStatus := status, we_errorCode := errorCode,
      we_processedAt := Some now\<rparr>) s"

definition transactionInput ::
  "int \<Rightarrow> string \<Rightarrow> payment_provider \<Rightarrow> normalized_payload \<Rightarrow> payment_attempt \<Rightarrow> (rat \<times> currency) option \<Rightarrow>
   transaction_input" where
  "transactionInput now eventId provider payload a reported =
    \<lparr>ti_eventId = eventId, ti_attemptId = pa_id a, ti_provider = provider,
     ti_providerTransactionId = np_providerTransactionId payload, ti_rawStatus = textOrNone (np_rawStatus payload),
     ti_status = (if np_status payload = P_PAID \<and> reported = None then PT_FAILED
       else paymentTransactionStatus (np_status payload)),
     ti_amount = (case reported of Some (amount, _) \<Rightarrow> amount | None \<Rightarrow> pa_amount a),
     ti_currency = (case reported of Some (_, cur) \<Rightarrow> cur | None \<Rightarrow> pa_currency a),
     ti_paidAt = (if np_status payload = P_PAID \<and> reported \<noteq> None then Some now else None)\<rparr>"

text \<open>The review a collection needs, as the error code of its event.\<close>

definition collectionReview ::
  "pay_platform \<Rightarrow> int \<Rightarrow> loaded_attempt \<Rightarrow> normalized_payload \<Rightarrow> (rat \<times> currency) option \<Rightarrow>
   payment_transaction \<Rightarrow> pay_db \<Rightarrow> string option" where
  "collectionReview pf now la payload reported t s =
    (if np_status payload \<noteq> P_PAID then None
     else let a = la_attempt la;
              additional = (reported \<noteq> None \<and> list_ex (\<lambda>x. pt_attemptId x = pa_id a \<and> pt_id x \<noteq> pt_id t \<and>
                pt_paidAt x \<noteq> None) (pd_transactions s))
          in case paidWebhookPayloadProblem (pp_decimal pf) payload (pa_amount a) (pa_currency a) of
               Some p \<Rightarrow> Some (problem_code p)
             | None \<Rightarrow> if additional then Some ''ADDITIONAL_PAYMENT_REVIEW_REQUIRED''
                 else if la_payment la = None \<and> confirmationBlocker now la \<noteq> []
                 then Some ''LATE_PAYMENT_REVIEW_REQUIRED'' else None)"

definition holdCollection ::
  "pay_platform \<Rightarrow> loaded_attempt \<Rightarrow> normalized_payload \<Rightarrow> pay_db \<Rightarrow> pay_db" where
  "holdCollection pf la payload s =
    (let a = la_attempt la
     in modifyAttempt (pa_id a) (\<lambda>x. x\<lparr>pa_failureCode := Some ''PAYMENT_COLLECTION_REVIEW_REQUIRED''\<rparr>)
          (case paidWebhookPayloadProblem (pp_decimal pf) payload (pa_amount a) (pa_currency a) of
             Some p \<Rightarrow> releaseFailedAttempt la PA_FAILED (problem_code p) s
           | None \<Rightarrow> releaseFailedAttempt la PA_EXPIRED ''PAYMENT_COLLECTION_REVIEW_REQUIRED'' s))"

definition reverseAttempt ::
  "loaded_attempt \<Rightarrow> normalized_payload \<Rightarrow> payment_transaction \<Rightarrow> pay_db \<Rightarrow> pay_db" where
  "reverseAttempt la payload t s =
    (let status = (case pt_status t of PT_REFUNDED \<Rightarrow> PA_REFUNDED | PT_DISPUTED \<Rightarrow> PA_DISPUTED
           | PT_CANCELLED \<Rightarrow> PA_CANCELLED | _ \<Rightarrow> attemptStatusOf (np_status payload));
         s1 = modifyAttempt (pa_id (la_attempt la)) (\<lambda>x. x\<lparr>pa_status := status,
           pa_failureCode := Some ''PAYMENT_REVERSAL_REVIEW_REQUIRED''\<rparr>) s
     in case la_payment la of
          None \<Rightarrow> s1
        | Some payment \<Rightarrow> s1\<lparr>pd_ledger := (pd_ledger s1)\<lparr>lg_invoices := modify iv_id (iv_id payment)
            (\<lambda>i. i\<lparr>iv_ledgerReviewRequired := True\<rparr>) (lg_invoices (pd_ledger s1))\<rparr>\<rparr>)"

definition isReversal :: "loaded_attempt \<Rightarrow> normalized_payload \<Rightarrow> bool" where
  "isReversal la payload =
    (np_status payload = P_REFUNDED \<or> np_status payload = P_DISPUTED \<or>
     (np_status payload = P_CANCELLED \<and> la_payment la \<noteq> None))"

text \<open>The change of the attempt by what was reported, once the transaction is stored.\<close>

definition settleReport ::
  "pay_platform \<Rightarrow> int \<Rightarrow> webhook_ids \<Rightarrow> string \<Rightarrow> loaded_attempt \<Rightarrow> normalized_payload \<Rightarrow> (rat \<times> currency) option \<Rightarrow>
   payment_transaction \<Rightarrow> pay_db \<Rightarrow> pay_throw + webhook_event \<times> pay_db" where
  "settleReport pf now ids eventId la payload reported t s =
    (let status = np_status payload
     in case collectionReview pf now la payload reported t s of
          Some code \<Rightarrow> finishEvent now eventId WP_FAILED (Some code) (holdCollection pf la payload s)
        | None \<Rightarrow>
          if status = P_PAID then
            andThen (confirmPaidAttempt now ids la t s) (\<lambda>s1. finishEvent now eventId WP_PROCESSED None s1)
          else if isReversal la payload then
            finishEvent now eventId WP_FAILED (Some ''PAYMENT_REVERSAL_REVIEW_REQUIRED'') (reverseAttempt la payload t s)
          else if status = P_FAILED \<or> status = P_EXPIRED \<or> status = P_CANCELLED then
            finishEvent now eventId WP_PROCESSED None (releaseFailedAttempt la (attemptStatusOf status)
              (orElse (np_rawStatus payload) (paymentStatusText status)) s)
          else finishEvent now eventId WP_PROCESSED None (updateOpenAttemptStatus la status s))"

definition orderMatches :: "payment_provider \<Rightarrow> normalized_payload \<Rightarrow> payment_attempt \<Rightarrow> bool" where
  "orderMatches provider payload a =
    (provider \<noteq> Paymob \<or>
     (nonEmpty (pa_providerOrderId a) \<noteq> None \<and> pa_providerOrderId a = np_providerOrderId payload))"

definition applyReport ::
  "pay_platform \<Rightarrow> int \<Rightarrow> webhook_ids \<Rightarrow> string \<Rightarrow> payment_provider \<Rightarrow> normalized_payload \<Rightarrow> string \<Rightarrow> pay_db \<Rightarrow>
   pay_throw + webhook_event \<times> pay_db" where
  "applyReport pf now ids eventId provider payload attemptId s =
    (case loadAttempt attemptId s of
       None \<Rightarrow> Inl (payApi 404 NOT_FOUND ''Payment attempt was not found.'')
     | Some la \<Rightarrow>
       andThen (require (pa_provider (la_attempt la) = provider)
         (conflict ''Payment webhook provider does not match the original payment attempt provider.'')) (\<lambda>_.
       andThen (require (orderMatches provider payload (la_attempt la)) orderMismatch) (\<lambda>_.
       andThen (providerReportedMoney (pp_decimal pf) payload) (\<lambda>reported.
       andThen (upsertPaymentTransaction (wi_transaction ids)
         (transactionInput now eventId provider payload (la_attempt la) reported) s) (\<lambda>(t, s1).
       andThen (updateEvent eventId (\<lambda>e. e\<lparr>we_attemptId := Some (pa_id (la_attempt la)),
         we_transactionId := Some (pt_id t)\<rparr>) s1) (\<lambda>(_, s2).
       settleReport pf now ids eventId la payload reported t s2))))))"

definition applyWebhookResult ::
  "pay_platform \<Rightarrow> int \<Rightarrow> webhook_ids \<Rightarrow> string \<Rightarrow> payment_provider \<Rightarrow> normalized_payload \<Rightarrow> pay_db \<Rightarrow>
   pay_throw + webhook_event \<times> pay_db" where
  "applyWebhookResult pf now ids eventId provider payload s =
    andThen (payParse (parseWithSchema (uuidSchema pf) (np_attemptId payload) ''Payment attempt id is invalid.''))
      (\<lambda>attemptId.
    case fetch we_id eventId (pd_events s) of
      None \<Rightarrow> Inl RowMissing
    | Some event \<Rightarrow>
      if we_processingStatus event = WP_PROCESSED then Inr (event, s)
      else andThen (require (we_signatureStatus event = SIG_VERIFIED)
             (conflict ''Payment webhook signature is invalid.'')) (\<lambda>_.
           applyReport pf now ids eventId provider payload attemptId s))"

definition applyWebhookPaymentState ::
  "pay_platform \<Rightarrow> int \<Rightarrow> webhook_ids \<Rightarrow> string \<Rightarrow> payment_provider \<Rightarrow> normalized_payload \<Rightarrow> pay_db \<Rightarrow>
   (pay_throw + webhook_event) \<times> pay_db" where
  "applyWebhookPaymentState pf now ids eventId provider payload s =
    commit (applyWebhookResult pf now ids eventId provider payload s) s"


section \<open>Receiving a webhook\<close>

definition parseWebhookJson :: "pay_platform \<Rightarrow> string \<Rightarrow> json api" where
  "parseWebhookJson pf rawBody =
    (case pp_parse pf (orElse rawBody ''{}'') of
       None \<Rightarrow> throwApi 400 VALIDATION_ERROR ''Payment webhook payload is invalid JSON.''
     | Some v \<Rightarrow>
       (case v of
          JObj _ \<Rightarrow> Inr v
        | JArr _ \<Rightarrow> Inr v
        | _ \<Rightarrow> throwApi 400 VALIDATION_ERROR ''Payment webhook payload is invalid.''))"

text \<open>
  The upsert changes nothing of a row that is there. The attempt of a new row must exist, by its
  foreign key.
\<close>

definition upsertWebhookEvent :: "pay_platform \<Rightarrow> webhook_event \<Rightarrow> pay_db \<Rightarrow> pay_throw + webhook_event \<times> pay_db" where
  "upsertWebhookEvent pf row s =
    (case findEvent (we_provider row) (we_eventId row) s of
       Some e \<Rightarrow> Inr (e, s)
     | None \<Rightarrow>
       (let e = row\<lparr>we_attemptId := (if isPaymentUuid pf (we_attemptId row) then we_attemptId row else None)\<rparr>
        in if we_id e \<in> we_id ` set (pd_events s) then Inl (PayUnique ''id'')
           else if we_attemptId e \<notin> insert None (Some ` pa_id ` set (pd_attempts s))
           then Inl (PayForeign ''attemptId'')
           else Inr (e, s\<lparr>pd_events := pd_events s @ [e]\<rparr>)))"

definition webhookRow ::
  "string \<Rightarrow> payment_provider \<Rightarrow> string \<Rightarrow> string \<Rightarrow> json \<Rightarrow> signature_status \<Rightarrow> processing_status \<Rightarrow> webhook_event" where
  "webhookRow newId provider eventId payloadHash snapshot signatureStatus processingStatus =
    \<lparr>we_id = newId, we_provider = provider, we_eventId = eventId, we_attemptId = None, we_transactionId = None,
     we_signatureStatus = signatureStatus, we_processingStatus = processingStatus, we_replayCount = 0,
     we_payloadHash = payloadHash, we_payloadSnapshot = snapshot, we_normalizedPayload = None,
     we_errorCode = None, we_processedAt = None\<rparr>"

definition processingStatusText :: "processing_status \<Rightarrow> string" where
  "processingStatusText st =
    (case st of WP_PENDING \<Rightarrow> ''PENDING'' | WP_PROCESSED \<Rightarrow> ''PROCESSED'' | WP_FAILED \<Rightarrow> ''FAILED''
     | WP_IGNORED \<Rightarrow> ''IGNORED'')"

definition recordWebhookPayloadMismatch ::
  "pay_platform \<Rightarrow> webhook_event \<Rightarrow> string \<Rightarrow> json \<Rightarrow> pay_db \<Rightarrow> pay_db" where
  "recordWebhookPayloadMismatch pf event payloadHash snapshot s =
    (let e = auditEvent None ''payment.webhook_payload_mismatch'' ''PaymentWebhookEvent'' (Some (we_id event))
           [(''provider'', MText (providerText (we_provider event))), (''eventId'', MText (we_eventId event)),
            (''storedPayloadHash'', MText (we_payloadHash event)), (''receivedPayloadHash'', MText payloadHash),
            (''receivedPayloadSnapshot'', MJson snapshot),
            (''processingStatus'', MText (processingStatusText (we_processingStatus event)))]
     in if pp_auditUp pf then auditPay e s else s)"

definition paymentWebhookProcessingErrorCode :: "pay_throw \<Rightarrow> string" where
  "paymentWebhookProcessingErrorCode error =
    (case error of
       PayApi e \<Rightarrow> textOr (case err_details e of [] \<Rightarrow> None | d # _ \<Rightarrow> map_option jsUpper (ed_code d))
         (apiErrorCodeText (err_code e))
     | _ \<Rightarrow> ''WEBHOOK_PROCESSING_FAILED'')"

definition invalidSignature :: pay_throw where
  "invalidSignature = PayApi (ApiError 400 VALIDATION_ERROR ''Payment webhook signature is invalid.''
     [\<lparr>ed_path = Some ''signature'', ed_message = ''Invalid webhook signature.'', ed_code = Some ''invalid_signature''\<rparr>])"

definition payloadHashMismatch :: pay_throw where
  "payloadHashMismatch = PayApi (ApiError 409 CONFLICT
     ''Payment webhook event payload does not match the original event.''
     [\<lparr>ed_path = Some ''eventId'', ed_message = ''Duplicate payment webhook event has a different payload.'',
       ed_code = Some ''webhook_payload_hash_mismatch''\<rparr>])"

text \<open>What a verified webhook reports, bound to its attempt by the order that was reserved.\<close>

definition bindPayload ::
  "payment_provider \<Rightarrow> normalized_payload \<Rightarrow> pay_db \<Rightarrow> pay_throw + normalized_payload" where
  "bindPayload provider payload s =
    (if provider = Paytabs then Inr payload
     else case Option.bind (nonEmpty (np_providerOrderId payload)) (\<lambda>i.
         find (\<lambda>a. pa_provider a = Paymob \<and> pa_providerOrderId a = Some i) (pd_attempts s)) of
       None \<Rightarrow> Inl orderMismatch
     | Some bound \<Rightarrow>
       if np_attemptId payload \<noteq> [] \<and> np_attemptId payload \<noteq> pa_id bound then Inl orderMismatch
       else Inr (payload\<lparr>np_attemptId := pa_id bound\<rparr>))"

text \<open>The rest of the request, once the event is known to be new or unprocessed.\<close>

definition processWebhook ::
  "pay_platform \<Rightarrow> int \<Rightarrow> webhook_ids \<Rightarrow> payment_provider \<Rightarrow> webhook_event \<Rightarrow> normalized_payload \<Rightarrow> pay_db \<Rightarrow>
   (pay_throw + webhook_event \<times> bool) \<times> pay_db" where
  "processWebhook pf now ids provider row payload s =
    (case upsertWebhookEvent pf row s of
       Inl e \<Rightarrow> (Inl e, s)
     | Inr (event, s1) \<Rightarrow>
       if we_payloadHash event \<noteq> we_payloadHash row
       then (Inl (conflict ''Payment webhook event payload does not match the original event.''), s1)
       else case applyWebhookPaymentState pf now ids (we_id event) provider payload s1 of
         (Inr processed, s2) \<Rightarrow> (Inr (processed, False), s2)
       | (Inl e, s2) \<Rightarrow>
         (case finishEvent now (we_id event) WP_FAILED (Some (paymentWebhookProcessingErrorCode e)) s2 of
            Inl e' \<Rightarrow> (Inl e', s2)
          | Inr (_, s3) \<Rightarrow> (Inl e, s3)))"

definition handleVerified ::
  "pay_platform \<Rightarrow> int \<Rightarrow> webhook_ids \<Rightarrow> payment_provider \<Rightarrow> json \<Rightarrow> string \<Rightarrow> pay_db \<Rightarrow>
   (pay_throw + webhook_event \<times> bool) \<times> pay_db" where
  "handleVerified pf now ids provider body payloadHash s =
    (let eventId = providerWebhookEventId (pp_gateway pf) body provider payloadHash
     in case andThen (payParse (normalizeProviderWebhookPayload (pp_gateway pf) body provider payloadHash))
          (\<lambda>n. bindPayload provider n s) of
       Inl e \<Rightarrow> (Inl e, s)
     | Inr payload \<Rightarrow>
       let row = (webhookRow (wi_event ids) provider eventId payloadHash (redactMetadata body) SIG_VERIFIED WP_PENDING)
             \<lparr>we_attemptId := Some (np_attemptId payload), we_normalizedPayload := Some (payloadJson payload)\<rparr>
       in case findEvent provider eventId s of
            None \<Rightarrow> processWebhook pf now ids provider row payload s
          | Some existing \<Rightarrow>
            if we_payloadHash existing \<noteq> payloadHash
            then (Inl payloadHashMismatch,
                  recordWebhookPayloadMismatch pf existing payloadHash (redactMetadata body) s)
            else if we_processingStatus existing = WP_PROCESSED then (Inr (existing, True), s)
            else processWebhook pf now ids provider row payload s)"

definition webhookVerified :: "pay_platform \<Rightarrow> payment_provider \<Rightarrow> webhook_request \<Rightarrow> json \<Rightarrow> bool" where
  "webhookVerified pf provider req body =
    verifyWebhookSignature (pp_gateway pf) provider (wr_rawBody req) (webhookSignature req provider body)
      (paymentWebhookSecret provider (payEnv pf)) body"

definition webhookPayloadHash :: "pay_platform \<Rightarrow> payment_provider \<Rightarrow> webhook_request \<Rightarrow> json \<Rightarrow> string" where
  "webhookPayloadHash pf provider req body =
    (case provider of Paymob \<Rightarrow> paymobWebhookFingerprint (pp_gateway pf) body
     | Paytabs \<Rightarrow> gp_sha256Hex (pp_gateway pf) (wr_rawBody req))"

definition handlePaymentWebhook ::
  "pay_platform \<Rightarrow> int \<Rightarrow> webhook_ids \<Rightarrow> payment_provider \<Rightarrow> webhook_request \<Rightarrow> pay_db \<Rightarrow>
   (pay_throw + webhook_event \<times> bool) \<times> pay_db" where
  "handlePaymentWebhook pf now ids provider req s =
    (case payParse (parseWebhookJson pf (wr_rawBody req)) of
       Inl e \<Rightarrow> (Inl e, s)
     | Inr body \<Rightarrow>
       if webhookVerified pf provider req body
       then handleVerified pf now ids provider body (webhookPayloadHash pf provider req body) s
       else let rawHash = gp_sha256Hex (pp_gateway pf) (wr_rawBody req);
                row = (webhookRow (wi_event ids) provider (''invalid:'' @ rawHash) rawHash (redactMetadata body)
                  SIG_INVALID WP_FAILED)\<lparr>we_errorCode := Some ''INVALID_SIGNATURE''\<rparr>
            in case upsertWebhookEvent pf row s of
                 Inl e \<Rightarrow> (Inl e, s)
               | Inr (_, s1) \<Rightarrow> (Inl invalidSignature, s1))"


section \<open>Replaying an event\<close>

definition replayEvent :: "principal \<Rightarrow> webhook_event \<Rightarrow> payment_attempt \<Rightarrow> audit_event" where
  "replayEvent actor replayed attempt =
    (auditEvent (Some (pr_id actor)) ''payment.webhook_replay'' ''PaymentWebhookEvent'' (Some (we_id replayed))
      [(''provider'', MText (providerText (we_provider replayed))), (''eventId'', MText (we_eventId replayed)),
       (''replayCount'', MInt (we_replayCount replayed))])
    \<lparr>ae_clientId := Some (pa_clientId attempt), ae_appointmentId := Some (pa_appointmentId attempt)\<rparr>"

text \<open>The event to replay and its attempt, behind the guards.\<close>

definition replayable ::
  "pay_platform \<Rightarrow> principal \<Rightarrow> string \<Rightarrow> pay_db \<Rightarrow> (webhook_event \<times> payment_attempt) api" where
  "replayable pf actor eventId s =
    andThen (require (canManageAdminPaymentOperations actor)
      (apiError 403 PERMISSION_DENIED ''Finance management permission is required.'')) (\<lambda>_.
    andThen (parseWithSchema (uuidSchema pf) eventId ''Webhook event id is invalid.'') (\<lambda>i.
    case fetch we_id i (pd_events s) of
      None \<Rightarrow> throwApi 404 NOT_FOUND ''Payment webhook event was not found.''
    | Some event \<Rightarrow>
      (case Option.bind (we_attemptId event) (\<lambda>a. fetch pa_id a (pd_attempts s)) of
         None \<Rightarrow> throwApi 409 CONFLICT ''Webhook event is not linked to a payment attempt.''
       | Some attempt \<Rightarrow>
         andThen (require (we_signatureStatus event = SIG_VERIFIED)
           (apiError 409 CONFLICT ''Payment webhook signature is invalid.'')) (\<lambda>_. Inr (event, attempt)))))"

definition replayAdminPaymentWebhookEvent ::
  "pay_platform \<Rightarrow> int \<Rightarrow> webhook_ids \<Rightarrow> principal \<Rightarrow> string \<Rightarrow> pay_db \<Rightarrow> (pay_throw + webhook_event) \<times> pay_db" where
  "replayAdminPaymentWebhookEvent pf now ids actor eventId s =
    (case replayable pf actor eventId s of
       Inl e \<Rightarrow> (Inl (PayApi e), s)
     | Inr (event, attempt) \<Rightarrow>
       (case updateEvent (we_id event) (\<lambda>e. e\<lparr>we_replayCount := we_replayCount e + 1,
           we_processingStatus := WP_PENDING, we_errorCode := None\<rparr>) s of
          Inl e \<Rightarrow> (Inl e, s)
        | Inr (replayed, s1) \<Rightarrow>
          let s2 = (if pp_auditUp pf then auditPay (replayEvent actor replayed attempt) s1 else s1)
          in case parseStoredNormalizedPayload (we_normalizedPayload replayed) of
               None \<Rightarrow> (Inr replayed, s2)
             | Some payload \<Rightarrow>
               applyWebhookPaymentState pf now ids (we_id replayed) (we_provider event) payload s2))"


section \<open>What the public page shows\<close>

text \<open>
  The members of the client and of the consultation that are shown and not read by any decision;
  \<open>None\<close> is a null column.
\<close>

record payer_details =
  py_fullName :: string
  py_phone :: string
  py_email :: "string option"
  py_city :: "string option"
  py_urgency :: "string option"
  py_preferredMode :: "string option"
  py_summary :: "string option"
  py_consultationLocale :: string

record draft =
  dr_fullName :: string
  dr_phone :: string
  dr_email :: string
  dr_city :: string
  dr_serviceCategory :: string
  dr_urgency :: "string option"
  dr_preferredMode :: string
  dr_summary :: string

record attempt_view =
  av_id :: string
  av_provider :: payment_provider
  av_status :: attempt_status
  av_requiresFinancialReview :: bool
  av_requiresOrderVerification :: bool
  av_amount :: string
  av_currency :: currency
  av_checkoutUrl :: "string option"
  av_expiresAt :: string
  av_appointment :: "(string \<times> string \<times> string \<times> appointment_status) option"
  av_consultation :: consultation
  av_resumeDraft :: "draft option"
  av_client :: "(string \<times> string) option"
  av_offersAccountSetup :: bool
  av_payment :: "invoice option"
  av_receiptUrl :: "string option"

definition resumeDraft :: "payment_attempt \<Rightarrow> consultation \<Rightarrow> payer_details \<Rightarrow> draft" where
  "resumeDraft a c d =
    \<lparr>dr_fullName = py_fullName d, dr_phone = py_phone d,
     dr_email = (case py_email d of None \<Rightarrow> [] | Some e \<Rightarrow> e),
     dr_city = (case py_city d of None \<Rightarrow> [] | Some c1 \<Rightarrow> c1),
     dr_serviceCategory = orElse (cr_serviceCategory c) (pa_serviceCategory a), dr_urgency = py_urgency d,
     dr_preferredMode = textOr (py_preferredMode d) (modeText (pa_mode a)), dr_summary = textOr (py_summary d) []\<rparr>"

definition paymentAttemptDto ::
  "pay_platform \<Rightarrow> ((string \<times> string) list \<Rightarrow> string) \<Rightarrow> int \<Rightarrow> payer_details \<Rightarrow> loaded_attempt \<Rightarrow>
   pay_throw + attempt_view" where
  "paymentAttemptDto pf formEncode now d la =
    (let a = la_attempt la; ap = la_appointment la; review = paymentRequiresReview a;
         settled = (\<not> review \<and> pa_status a = PA_PAID \<and>
           (case la_payment la of None \<Rightarrow> False | Some p \<Rightarrow> iv_status p = I_PAID))
     in andThen (case la_payment la of
          None \<Rightarrow> Inr None
        | Some p \<Rightarrow>
          if \<not> settled then Inr None
          else (case publicPaymentReceiptUrl (pp_tokens pf) formEncode (pa_id a) (iv_id p)
                  (if py_consultationLocale d = ''ar'' then ''ar'' else ''en'') now of
                  Inl e \<Rightarrow> Inl (PayToken e) | Inr url \<Rightarrow> Inr (Some url))) (\<lambda>receiptUrl.
        Inr \<lparr>av_id = pa_id a, av_provider = pa_provider a, av_status = pa_status a,
          av_requiresFinancialReview = review, av_requiresOrderVerification = paymentNeedsOrderVerification a,
          av_amount = decimalText (pa_amount a), av_currency = pa_currency a,
          av_checkoutUrl = (if review then None else pa_checkoutUrl a), av_expiresAt = isoText (pa_expiresAt a),
          av_appointment = (if ap_type ap = AT_INTERNAL_MEETING then None
            else Some (ap_id ap, ap_title ap, isoText (ap_startsAt ap), ap_status ap)),
          av_consultation = la_consultation la,
          av_resumeDraft = (if \<not> review \<and> la_payment la = None \<and>
              pa_status a \<in> {PA_FAILED, PA_EXPIRED, PA_CANCELLED}
            then Some (resumeDraft a (la_consultation la) d) else None),
          av_client = (if la_payment la \<noteq> None \<and> pa_status a = PA_PAID
            then Some (py_fullName d, py_phone d) else None),
          av_offersAccountSetup = settled, av_payment = la_payment la, av_receiptUrl = receiptUrl\<rparr>))"

definition statusLinkNotFound :: pay_throw where
  "statusLinkNotFound = payApi 404 NOT_FOUND ''Payment status link was not found.''"

definition getPublicPaymentAttemptStatus ::
  "pay_platform \<Rightarrow> ((string \<times> string) list \<Rightarrow> string) \<Rightarrow> (string \<Rightarrow> payer_details) \<Rightarrow> int \<Rightarrow> string \<Rightarrow> string option \<Rightarrow>
   pay_db \<Rightarrow> (pay_throw + attempt_view) \<times> pay_db" where
  "getPublicPaymentAttemptStatus pf formEncode details now attemptId token s =
    (case (case nonEmpty token of
             None \<Rightarrow> Inr None
           | Some t \<Rightarrow> verifyPaymentStatusToken (pp_tokens pf) attemptId t now) of
       Inl e \<Rightarrow> (Inl (PayToken e), s)
     | Inr None \<Rightarrow> (Inl statusLinkNotFound, s)
     | Inr (Some verified) \<Rightarrow>
       let (_, s1) = expireOpenConsultationPaymentAttempts now (Some (tc_attemptId verified)) None s
       in case loadAttempt (tc_attemptId verified) s1 of
            None \<Rightarrow> (Inl statusLinkNotFound, s1)
          | Some la \<Rightarrow> (paymentAttemptDto pf formEncode now (details (pa_id (la_attempt la))) la, s1))"


section \<open>The receipt page\<close>

text \<open>
  \<open>src/src/server/payments/payment-receipt-service.ts\<close>: the receipt of a paid attempt. The relations
  of a payment are optional rows; a receipt without an appointment shows the times of the attempt.
\<close>

record receipt_view =
  rv_locale :: string
  rv_payment :: invoice
  rv_amount :: string
  rv_paymentMethod :: string
  rv_provider :: payment_provider
  rv_providerPaymentId :: "string option"
  rv_clientName :: string
  rv_consultation :: "(string \<times> string) option"
  rv_appointmentId :: string
  rv_startsAt :: string
  rv_endsAt :: string
  rv_mode :: appointment_mode
  rv_status :: appointment_status

definition receiptNotFound :: pay_throw where
  "receiptNotFound = payApi 404 NOT_FOUND ''Payment receipt was not found.''"

definition receiptPayment :: "string \<Rightarrow> string \<Rightarrow> pay_db \<Rightarrow> (invoice \<times> payment_attempt) option" where
  "receiptPayment attemptId paymentId s =
    (case find (\<lambda>p. iv_id p = paymentId \<and> iv_paymentAttemptId p = Some attemptId \<and> iv_status p = I_PAID)
        (lg_invoices (pd_ledger s)) of
       None \<Rightarrow> None
     | Some p \<Rightarrow>
       (case find (\<lambda>a. pa_id a = attemptId \<and> pa_status a = PA_PAID \<and>
             (case pa_failureCode a of None \<Rightarrow> True | Some c \<Rightarrow> c \<notin> set financialReviewCodes)) (pd_attempts s) of
          None \<Rightarrow> None
        | Some a \<Rightarrow> Some (p, a)))"

definition receiptView ::
  "payer_details \<Rightarrow> invoice \<Rightarrow> payment_attempt \<Rightarrow> appointment option \<Rightarrow> consultation option \<Rightarrow> receipt_view" where
  "receiptView d p a ap cr =
    \<lparr>rv_locale = (if cr \<noteq> None \<and> py_consultationLocale d = ''ar'' then ''ar'' else ''en''), rv_payment = p,
     rv_amount = decimalText (iv_amount p),
     rv_paymentMethod = (case iv_paymentMethod p of None \<Rightarrow> providerText (pa_provider a) | Some m \<Rightarrow> m),
     rv_provider = pa_provider a, rv_providerPaymentId = pa_providerPaymentId a, rv_clientName = py_fullName d,
     rv_consultation = map_option (\<lambda>c. (cr_id c, cr_serviceCategory c)) cr,
     rv_appointmentId = (case ap of None \<Rightarrow> pa_id a | Some x \<Rightarrow> ap_id x),
     rv_startsAt = isoText (case ap of None \<Rightarrow> pa_startsAt a | Some x \<Rightarrow> ap_startsAt x),
     rv_endsAt = isoText (case ap of None \<Rightarrow> pa_endsAt a | Some x \<Rightarrow> ap_endsAt x),
     rv_mode = (case ap of None \<Rightarrow> pa_mode a | Some x \<Rightarrow> ap_mode x),
     rv_status = (case ap of None \<Rightarrow> A_SCHEDULED | Some x \<Rightarrow> ap_status x)\<rparr>"

definition getPublicConsultationPaymentReceipt ::
  "pay_platform \<Rightarrow> (string \<Rightarrow> payer_details) \<Rightarrow> int \<Rightarrow> string \<Rightarrow> string \<Rightarrow> pay_db \<Rightarrow> pay_throw + receipt_view" where
  "getPublicConsultationPaymentReceipt pf details now attemptId token s =
    (case verifyPaymentReceiptToken (pp_tokens pf) attemptId token now of
       Inl e \<Rightarrow> Inl (PayToken e)
     | Inr None \<Rightarrow> Inl receiptNotFound
     | Inr (Some verified) \<Rightarrow>
       (case Option.bind (tc_paymentId verified) (\<lambda>p. receiptPayment (tc_attemptId verified) p s) of
          None \<Rightarrow> Inl receiptNotFound
        | Some (p, a) \<Rightarrow>
          let ap = Option.bind (iv_appointmentId p) (\<lambda>i. fetch ap_id i (of_appointments (pd_office s)));
              cr = Option.bind (iv_consultationRequestId p) (\<lambda>i. fetch cr_id i (of_consultations (pd_office s)))
          in if (case ap of None \<Rightarrow> False | Some x \<Rightarrow> ap_type x = AT_INTERNAL_MEETING) then Inl receiptNotFound
             else Inr (receiptView (details (pa_id a)) p a ap cr)))"

end
