(* ===== verification/PaymentSamples.thy ===== *)
theory PaymentSamples
  imports PaymentService
begin

text \<open>A small office with one open attempt, and a webhook of each kind for it.\<close>

definition sampleTokenPlatform :: token_platform where
  "sampleTokenPlatform = \<lparr>tk_env = (\<lambda>k. if k = ''PAYTABS_WEBHOOK_SECRET'' then Some ''s'' else None),
     tk_isUuid = (\<lambda>_. True), tk_digest = (\<lambda>_ _. ''ab12''), tk_parse = (\<lambda>_. None)\<rparr>"

definition sampleBody :: json where
  "sampleBody = JObj [(''eventId'', JStr ''e1''), (''attemptId'', JStr ''a1''), (''transactionId'', JStr ''t9''),
     (''status'', JStr ''A''), (''tran_type'', JStr ''sale''), (''amount'', JStr ''350.00''), (''currency'', JStr ''EGP'')]"

definition samplePay :: pay_platform where
  "samplePay = \<lparr>pp_gateway = sampleGateway, pp_decimal = (\<lambda>s. if s = ''350.00'' then Some 350 else None),
     pp_parse = (\<lambda>_. Some sampleBody), pp_tokens = sampleTokenPlatform,
     pp_checkout = \<lparr>cp_env = (\<lambda>_. None), cp_origin = None, cp_href = (\<lambda>a _. a), cp_post = (\<lambda>_ _. Unreachable)\<rparr>,
     pp_issue = \<lparr>ed_path = None, ed_message = [], ed_code = None\<rparr>, pp_auditUp = True\<rparr>"

definition sampleAttempt :: payment_attempt where
  "sampleAttempt =
    \<lparr>pa_id = ''a1'', pa_provider = Paytabs, pa_status = PA_PENDING, pa_clientId = ''c1'',
     pa_consultationRequestId = ''q1'', pa_appointmentId = ''p1'', pa_pricingRuleId = Some ''r1'', pa_priceVersion = 1,
     pa_serviceCategory = ''family'', pa_mode = M_PHONE, pa_amount = 350, pa_currency = EGP, pa_startsAt = 1000,
     pa_endsAt = 2000, pa_expiresAt = 100, pa_idempotencyKey = ''k1'', pa_checkoutUrl = Some ''u'',
     pa_providerSessionId = Some ''a1'', pa_providerOrderId = None, pa_providerPaymentId = None, pa_failureCode = None\<rparr>"

definition sampleReserved :: appointment where
  "sampleReserved =
    \<lparr>ap_id = ''p1'', ap_clientId = ''c1'', ap_lawyerId = None, ap_consultationRequestId = Some ''q1'', ap_caseId = None,
     ap_title = ''t'', ap_type = AT_CONSULTATION, ap_mode = M_PHONE, ap_location = None, ap_startsAt = 1000,
     ap_endsAt = 2000, ap_status = A_RESERVED, ap_notes = None\<rparr>"

definition sampleWaiting :: consultation where
  "sampleWaiting =
    \<lparr>cr_id = ''q1'', cr_clientId = Some ''c1'', cr_fullName = ''A'', cr_serviceCategory = ''family'',
     cr_status = C_PAYMENT_PENDING, cr_assignedLawyerId = None, cr_secretaryReviewedAt = None,
     cr_secretaryReviewedById = None, cr_secretaryReviewNote = None, cr_outcomeStatus = O_PENDING, cr_outcomeAt = None,
     cr_outcomeById = None, cr_outcomeReasonCode = None, cr_outcomeNote = None, cr_outcomeVersion = 0,
     cr_convertedCaseId = None, cr_createdAt = 0\<rparr>"

definition sampleShop :: pay_db where
  "sampleShop = \<lparr>pd_office = \<lparr>of_appointments = [sampleReserved], of_consultations = [sampleWaiting], of_staff = [],
       of_clients = [], of_notifications = [], of_audit = []\<rparr>,
     pd_ledger = \<lparr>lg_invoices = [], lg_entries = [], lg_audit = []\<rparr>, pd_attempts = [sampleAttempt],
     pd_transactions = [], pd_events = [], pd_settings = []\<rparr>"

definition sampleIds :: webhook_ids where
  "sampleIds = \<lparr>wi_event = ''w1'', wi_transaction = ''x1'', wi_invoice = ''i1'', wi_entry = ''n1''\<rparr>"

definition sampleWebhook :: webhook_request where
  "sampleWebhook = \<lparr>wr_hmacParam = None, wr_header = (\<lambda>_. Some ''ab12''), wr_rawBody = ''b'', wr_requestId = []\<rparr>"

lemma sampleWebhook_verified: "webhookVerified samplePay Paytabs sampleWebhook sampleBody"
  by code_simp

definition sampleReport :: normalized_payload where
  "sampleReport = \<lparr>np_provider = Paytabs, np_attemptId = ''a1'', np_providerTransactionId = Some ''t9'',
     np_providerOrderId = None, np_rawStatus = ''A'', np_status = P_PAID, np_amount = ''350.00'', np_currency = ''EGP''\<rparr>"

lemma sampleBody_normalized:
  "normalizeProviderWebhookPayload sampleGateway sampleBody Paytabs h = Inr sampleReport"
  by code_simp

text \<open>The webhook is served: the attempt is paid.\<close>

definition sampleServed :: "(pay_throw + webhook_event \<times> bool) \<times> pay_db" where
  "sampleServed = handlePaymentWebhook samplePay 50 sampleIds Paytabs sampleWebhook sampleShop"

lemma sampleServed_paid: "map pa_status (pd_attempts (snd sampleServed)) = [PA_PAID]"
  by code_simp

lemma sampleServed_answer:
  "(case fst sampleServed of Inr (e, again) \<Rightarrow> we_processingStatus e = WP_PROCESSED \<and> \<not> again | Inl _ \<Rightarrow> False)"
  by code_simp

end
