(* ===== verification/PaymentFacts.thy ===== *)
theory PaymentFacts
  imports PaymentSamples
begin

text \<open>
  What the payments guarantee: which tables each step may change, when an attempt becomes paid,
  that a redelivered webhook changes nothing, and that every paid attempt has its one invoice and
  its settlement in the ledger.
\<close>

section \<open>Frames\<close>

named_theorems pay_frame "the tables a payment step leaves alone"

lemma modifyAttempt_frame [pay_frame, simp]:
  "pd_attempts (modifyAttempt i f s) = modify pa_id i f (pd_attempts s)"
  "pd_office (modifyAttempt i f s) = pd_office s"
  "pd_ledger (modifyAttempt i f s) = pd_ledger s"
  "pd_transactions (modifyAttempt i f s) = pd_transactions s"
  "pd_events (modifyAttempt i f s) = pd_events s"
  "pd_settings (modifyAttempt i f s) = pd_settings s"
  by (simp_all add: modifyAttempt_def)

lemma modifyAppointment_frame [pay_frame, simp]:
  "pd_attempts (modifyAppointment i g s) = pd_attempts s"
  "pd_ledger (modifyAppointment i g s) = pd_ledger s"
  "pd_transactions (modifyAppointment i g s) = pd_transactions s"
  "pd_events (modifyAppointment i g s) = pd_events s"
  "pd_settings (modifyAppointment i g s) = pd_settings s"
  "of_appointments (pd_office (modifyAppointment i g s)) = modify ap_id i g (of_appointments (pd_office s))"
  "of_consultations (pd_office (modifyAppointment i g s)) = of_consultations (pd_office s)"
  by (simp_all add: modifyAppointment_def)

lemma modifyConsultation_frame [pay_frame, simp]:
  "pd_attempts (modifyConsultation i h s) = pd_attempts s"
  "pd_ledger (modifyConsultation i h s) = pd_ledger s"
  "pd_transactions (modifyConsultation i h s) = pd_transactions s"
  "pd_events (modifyConsultation i h s) = pd_events s"
  "pd_settings (modifyConsultation i h s) = pd_settings s"
  "of_appointments (pd_office (modifyConsultation i h s)) = of_appointments (pd_office s)"
  "of_consultations (pd_office (modifyConsultation i h s)) = modify cr_id i h (of_consultations (pd_office s))"
  by (simp_all add: modifyConsultation_def)

lemma auditPay_frame [pay_frame, simp]:
  "pd_attempts (auditPay e s) = pd_attempts s"
  "pd_ledger (auditPay e s) = pd_ledger s"
  "pd_transactions (auditPay e s) = pd_transactions s"
  "pd_events (auditPay e s) = pd_events s"
  "pd_settings (auditPay e s) = pd_settings s"
  "of_appointments (pd_office (auditPay e s)) = of_appointments (pd_office s)"
  "of_consultations (pd_office (auditPay e s)) = of_consultations (pd_office s)"
  by (simp_all add: auditPay_def)

lemma releaseFailedAttempt_frame [pay_frame, simp]:
  "pd_ledger (releaseFailedAttempt la st code s) = pd_ledger s"
  "pd_transactions (releaseFailedAttempt la st code s) = pd_transactions s"
  "pd_events (releaseFailedAttempt la st code s) = pd_events s"
  "pd_settings (releaseFailedAttempt la st code s) = pd_settings s"
  by (simp_all add: releaseFailedAttempt_def Let_def)

lemma updateOpenAttemptStatus_frame [pay_frame, simp]:
  "pd_ledger (updateOpenAttemptStatus la st s) = pd_ledger s"
  "pd_office (updateOpenAttemptStatus la st s) = pd_office s"
  "pd_transactions (updateOpenAttemptStatus la st s) = pd_transactions s"
  "pd_events (updateOpenAttemptStatus la st s) = pd_events s"
  "pd_settings (updateOpenAttemptStatus la st s) = pd_settings s"
  by (simp_all add: updateOpenAttemptStatus_def)

lemma holdCollection_frame [pay_frame, simp]:
  "pd_ledger (holdCollection pf la p s) = pd_ledger s"
  "pd_transactions (holdCollection pf la p s) = pd_transactions s"
  "pd_events (holdCollection pf la p s) = pd_events s"
  "pd_settings (holdCollection pf la p s) = pd_settings s"
  by (simp_all add: holdCollection_def Let_def split: option.splits)

lemma reverseAttempt_frame [pay_frame, simp]:
  "pd_office (reverseAttempt la p t s) = pd_office s"
  "pd_transactions (reverseAttempt la p t s) = pd_transactions s"
  "pd_events (reverseAttempt la p t s) = pd_events s"
  "pd_settings (reverseAttempt la p t s) = pd_settings s"
  "lg_entries (pd_ledger (reverseAttempt la p t s)) = lg_entries (pd_ledger s)"
  by (simp_all add: reverseAttempt_def Let_def split: option.splits)

lemma updateEvent_InrE:
  assumes "updateEvent i f s = Inr (e, s')"
  obtains e0 where "fetch we_id i (pd_events s) = Some e0" "e = f e0"
    "s' = s\<lparr>pd_events := modify we_id i f (pd_events s)\<rparr>"
  using assms by (auto simp: updateEvent_def split: option.splits)

lemma finishEvent_InrE:
  assumes "finishEvent now i st code s = Inr (e, s')"
  obtains e0 where "fetch we_id i (pd_events s) = Some e0"
    "e = e0\<lparr>we_processingStatus := st, we_errorCode := code, we_processedAt := Some now\<rparr>"
    "s' = s\<lparr>pd_events := modify we_id i (\<lambda>e. e\<lparr>we_processingStatus := st, we_errorCode := code,
       we_processedAt := Some now\<rparr>) (pd_events s)\<rparr>"
  using assms unfolding finishEvent_def by (rule updateEvent_InrE) (rule that)

lemma createTransaction_InrE:
  assumes "createTransaction i input s = Inr (t, s')"
  obtains "t = \<lparr>pt_id = i, pt_attemptId = ti_attemptId input, pt_provider = ti_provider input,
      pt_providerTransactionId = ti_providerTransactionId input, pt_rawStatus = ti_rawStatus input,
      pt_status = ti_status input, pt_amount = ti_amount input, pt_currency = ti_currency input,
      pt_paidAt = ti_paidAt input\<rparr>" "i \<notin> pt_id ` set (pd_transactions s)"
    "\<not> repeats transactionKey t (pd_transactions s)"
    "s' = s\<lparr>pd_transactions := pd_transactions s @ [t]\<rparr>"
  using assms by (auto simp: createTransaction_def insertTransaction_def Let_def split: if_splits)

lemma upsertPaymentTransaction_cases:
  assumes "upsertPaymentTransaction i input s = Inr (t, s')"
  obtains (kept) "s' = s" "t \<in> set (pd_transactions s)"
      "preserveTransactionState (pt_status t) (ti_status input) (pt_paidAt t)"
    | (rewritten) old where "old \<in> set (pd_transactions s)" "pt_attemptId old = ti_attemptId input"
      "\<not> preserveTransactionState (pt_status old) (ti_status input) (pt_paidAt old)"
      "t = old\<lparr>pt_rawStatus := ti_rawStatus input, pt_status := ti_status input, pt_amount := ti_amount input,
         pt_currency := ti_currency input,
         pt_paidAt := (case pt_paidAt old of None \<Rightarrow> ti_paidAt input | Some p \<Rightarrow> Some p)\<rparr>"
      "s' = s\<lparr>pd_transactions := modify pt_id (pt_id old) (\<lambda>_. t) (pd_transactions s)\<rparr>"
    | (created) "createTransaction i input s = Inr (t, s')"
proof -
  from assms obtain preserved where l: "linkedTransaction input s = Inr preserved"
    and rest: "(case preserved of Some linked \<Rightarrow> Inr (linked, s) | None \<Rightarrow>
      (case Option.bind (nonEmpty (ti_providerTransactionId input)) (\<lambda>i.
          find (\<lambda>t. pt_provider t = ti_provider input \<and> pt_providerTransactionId t = Some i) (pd_transactions s)) of
         None \<Rightarrow> createTransaction i input s
       | Some existing \<Rightarrow>
         if pt_attemptId existing \<noteq> ti_attemptId input then Inl (transactionMismatch [transactionMismatchDetail])
         else if preserveTransactionState (pt_status existing) (ti_status input) (pt_paidAt existing)
         then Inr (existing, s)
         else (let t = existing\<lparr>pt_rawStatus := ti_rawStatus input, pt_status := ti_status input,
                   pt_amount := ti_amount input, pt_currency := ti_currency input,
                   pt_paidAt := (case pt_paidAt existing of None \<Rightarrow> ti_paidAt input | Some p \<Rightarrow> Some p)\<rparr>
               in Inr (t, s\<lparr>pd_transactions := modify pt_id (pt_id existing) (\<lambda>_. t) (pd_transactions s)\<rparr>)))) =
      Inr (t, s')"
    unfolding upsertPaymentTransaction_def by auto
  show thesis
  proof (cases preserved)
    case (Some linked)
    then have "s' = s" "t = linked" using rest by auto
    moreover have "linked \<in> set (pd_transactions s)"
      "preserveTransactionState (pt_status linked) (ti_status input) (pt_paidAt linked)"
      using l Some by (auto simp: linkedTransaction_def dest: fetch_SomeD split: option.splits if_splits)
    ultimately show ?thesis using kept by blast
  next
    case None
    show ?thesis
    proof (cases "Option.bind (nonEmpty (ti_providerTransactionId input)) (\<lambda>i.
          find (\<lambda>t. pt_provider t = ti_provider input \<and> pt_providerTransactionId t = Some i) (pd_transactions s))")
      case none: None
      then show ?thesis using rest None created by simp
    next
      case (Some old)
      then have old: "old \<in> set (pd_transactions s)"
        by (auto simp: bind_eq_Some_conv dest: find_some_in)
      show ?thesis
        using rest None Some old kept rewritten [OF old] by (auto simp: Let_def split: if_splits)
    qed
  qed
qed

lemma upsertPaymentTransaction_frame:
  assumes "upsertPaymentTransaction i input s = Inr (t, s')"
  shows "\<exists>ts. s' = s\<lparr>pd_transactions := ts\<rparr>"
  using assms
proof (cases rule: upsertPaymentTransaction_cases)
  case kept
  then show ?thesis by (intro exI [of _ "pd_transactions s"]) simp
next
  case (rewritten old)
  then show ?thesis by blast
next
  case created
  then show ?thesis by (elim createTransaction_InrE) blast
qed

text \<open>The steps of a report that was applied.\<close>

lemma applyReport_InrE:
  assumes "applyReport pf now ids eventId provider payload attemptId s = Inr (e, s')"
  obtains la reported t ts s2 where "loadAttempt attemptId s = Some la"
    "pa_provider (la_attempt la) = provider" "orderMatches provider payload (la_attempt la)"
    "providerReportedMoney (pp_decimal pf) payload = Inr reported"
    "upsertPaymentTransaction (wi_transaction ids)
       (transactionInput now eventId provider payload (la_attempt la) reported) s =
     Inr (t, s\<lparr>pd_transactions := ts\<rparr>)"
    "s2 = s\<lparr>pd_transactions := ts, pd_events := modify we_id eventId
       (\<lambda>e. e\<lparr>we_attemptId := Some (pa_id (la_attempt la)), we_transactionId := Some (pt_id t)\<rparr>) (pd_events s)\<rparr>"
    "settleReport pf now ids eventId la payload reported t s2 = Inr (e, s')"
proof -
  from assms obtain la where la: "loadAttempt attemptId s = Some la"
    by (auto simp: applyReport_def split: option.splits)
  note r = assms [unfolded applyReport_def la option.case, simplified]
  from r obtain reported t s1 e1 s2 where g: "pa_provider (la_attempt la) = provider"
    "orderMatches provider payload (la_attempt la)"
    "providerReportedMoney (pp_decimal pf) payload = Inr reported"
    and u: "upsertPaymentTransaction (wi_transaction ids)
       (transactionInput now eventId provider payload (la_attempt la) reported) s = Inr (t, s1)"
    and w: "updateEvent eventId (\<lambda>e. e\<lparr>we_attemptId := Some (pa_id (la_attempt la)),
         we_transactionId := Some (pt_id t)\<rparr>) s1 = Inr (e1, s2)"
    and f: "settleReport pf now ids eventId la payload reported t s2 = Inr (e, s')"
    by auto
  from upsertPaymentTransaction_frame [OF u] obtain ts where ts: "s1 = s\<lparr>pd_transactions := ts\<rparr>" by blast
  show thesis
    using w f u ts by (elim updateEvent_InrE) (rule that [OF la g], auto)
qed

lemma applyWebhookResult_InrE:
  assumes "applyWebhookResult pf now ids eventId provider payload s = Inr (e, s')"
  obtains (idle) "s' = s" "fetch we_id eventId (pd_events s) = Some e" "we_processingStatus e = WP_PROCESSED"
    | (report) e0 where "fetch we_id eventId (pd_events s) = Some e0" "we_processingStatus e0 \<noteq> WP_PROCESSED"
      "we_signatureStatus e0 = SIG_VERIFIED" "tk_isUuid (pp_tokens pf) (np_attemptId payload)"
      "applyReport pf now ids eventId provider payload (np_attemptId payload) s = Inr (e, s')"
proof -
  have id: "attemptId = np_attemptId payload \<and> tk_isUuid (pp_tokens pf) (np_attemptId payload)"
    if "payParse (parseWithSchema (uuidSchema pf) (np_attemptId payload) m) = Inr attemptId" for attemptId m
    using that by (auto simp: payParse_def parseWithSchema_def uuidSchema_def split: sum.splits if_splits)
  from assms obtain attemptId where p: "payParse (parseWithSchema (uuidSchema pf) (np_attemptId payload)
      ''Payment attempt id is invalid.'') = Inr attemptId"
    and rest: "(case fetch we_id eventId (pd_events s) of
      None \<Rightarrow> Inl RowMissing
    | Some event \<Rightarrow>
      if we_processingStatus event = WP_PROCESSED then Inr (event, s)
      else andThen (require (we_signatureStatus event = SIG_VERIFIED)
             (conflict ''Payment webhook signature is invalid.'')) (\<lambda>_.
           applyReport pf now ids eventId provider payload attemptId s)) = Inr (e, s')"
    unfolding applyWebhookResult_def andThen_eq_Inr by blast
  then show thesis using id [OF p] idle report by (auto split: option.splits if_splits)
qed


section \<open>When an attempt becomes paid\<close>

definition paidIn :: "pay_db \<Rightarrow> string \<Rightarrow> bool" where
  "paidIn s i = (case fetch pa_id i (pd_attempts s) of None \<Rightarrow> False | Some a \<Rightarrow> pa_status a = PA_PAID)"

definition trustedPayment :: "pay_platform \<Rightarrow> int \<Rightarrow> loaded_attempt \<Rightarrow> normalized_payload \<Rightarrow> bool" where
  "trustedPayment pf now la payload =
    (np_status payload = P_PAID \<and> confirmableStatus (pa_status (la_attempt la)) \<and>
     now < pa_expiresAt (la_attempt la) \<and> ap_status (la_appointment la) = A_RESERVED \<and>
     cr_status (la_consultation la) = C_PAYMENT_PENDING \<and>
     jsUpper (jsTrim (np_currency payload)) = currencyText (pa_currency (la_attempt la)) \<and>
     pp_decimal pf (jsTrim (np_amount payload)) = Some (pa_amount (la_attempt la)))"

lemma loadAttempt_SomeD:
  assumes "loadAttempt i s = Some la"
  shows "fetch pa_id i (pd_attempts s) = Some (la_attempt la)" "pa_id (la_attempt la) = i"
    "fetch ap_id (pa_appointmentId (la_attempt la)) (of_appointments (pd_office s)) = Some (la_appointment la)"
    "fetch cr_id (pa_consultationRequestId (la_attempt la)) (of_consultations (pd_office s)) =
       Some (la_consultation la)"
    "la_payment la = paymentOfAttempt i s"
  using assms by (auto simp: loadAttempt_def dest: fetch_SomeD split: option.splits)

lemma loadAttempt_cong:
  "pd_attempts s' = pd_attempts s \<Longrightarrow> pd_office s' = pd_office s \<Longrightarrow> pd_ledger s' = pd_ledger s \<Longrightarrow>
    loadAttempt i s' = loadAttempt i s"
  by (simp add: loadAttempt_def paymentOfAttempt_def cong: option.case_cong)

lemma blocker_nil_iff:
  "paidAttemptWebhookConfirmationBlocker st ex ap cr now = [] \<longleftrightarrow>
    confirmableStatus st \<and> now < ex \<and> ap = A_RESERVED \<and> cr = C_PAYMENT_PENDING"
  by (auto simp: paidAttemptWebhookConfirmationBlocker_def)

lemma paidWebhookPayloadProblem_None_iff:
  "paidWebhookPayloadProblem decimal payload amount cur = None \<longleftrightarrow>
    jsUpper (jsTrim (np_currency payload)) = currencyText cur \<and> jsTrim (np_amount payload) \<noteq> [] \<and>
    decimal (jsTrim (np_amount payload)) = Some amount"
proof -
  have "currencyText cur \<noteq> []" by (cases cur) (simp_all add: currencyText_def)
  then show ?thesis by (auto simp: paidWebhookPayloadProblem_def Let_def split: option.splits)
qed

lemma paidIn_modify:
  assumes "\<And>a. pa_id (f a) = pa_id a" and "\<And>a. pa_status (f a) = PA_PAID \<Longrightarrow> pa_status a = PA_PAID"
    and "paidIn (s\<lparr>pd_attempts := modify pa_id i f (pd_attempts s)\<rparr>) j"
  shows "paidIn s j"
  using assms by (auto simp: paidIn_def fetch_modify split: option.splits if_splits)

lemma paidIn_finish: "finishEvent now ev st code s = Inr (e, s') \<Longrightarrow> paidIn s' i \<Longrightarrow> paidIn s i"
  by (elim finishEvent_InrE) (simp add: paidIn_def)

lemma paidIn_release:
  "st \<noteq> PA_PAID \<Longrightarrow> paidIn (releaseFailedAttempt la st code s) i \<Longrightarrow> paidIn s i"
  by (auto simp: releaseFailedAttempt_def Let_def paidIn_def fetch_modify split: option.splits if_splits)

lemma paidIn_hold: "paidIn (holdCollection pf la payload s) i \<Longrightarrow> paidIn s i"
  by (auto simp: holdCollection_def Let_def releaseFailedAttempt_def paidIn_def fetch_modify
      split: option.splits if_splits)

lemma attemptStatusOf_PAID [simp]: "attemptStatusOf st = PA_PAID \<longleftrightarrow> st = P_PAID"
  by (cases st) (simp_all add: attemptStatusOf_def)

lemma paidIn_updateOpen:
  "st \<noteq> P_PAID \<Longrightarrow> paidIn (updateOpenAttemptStatus la st s) i \<Longrightarrow> paidIn s i"
  by (auto simp: updateOpenAttemptStatus_def paidIn_def fetch_modify split: option.splits if_splits)

lemma paidIn_reverse:
  "isReversal la payload \<Longrightarrow> paidIn (reverseAttempt la payload t s) i \<Longrightarrow> paidIn s i"
  by (auto simp: reverseAttempt_def isReversal_def Let_def paidIn_def fetch_modify
      split: option.splits if_splits transaction_status.splits)

text \<open>The confirmation, when it confirms.\<close>

lemma confirmPaidAttempt_InrE:
  assumes "confirmPaidAttempt now ids la t s = Inr s'"
  obtains (settled) "s' = s" "la_payment la \<noteq> None \<or> pa_status (la_attempt la) = PA_PAID"
    | (confirmed) lg1 lg2 a payment where "a = la_attempt la"
      "payment = gatewayInvoice now (wi_invoice ids) a t"
      "la_payment la = None" "confirmationBlocker now la = []"
      "insertInvoice payment (pd_ledger s) = Inr lg1"
      "recordTrustedInvoiceSettlement now (wi_entry ids) payment lg1 = Inr lg2"
      "pd_attempts s' = modify pa_id (pa_id a) (\<lambda>x. x\<lparr>pa_status := PA_PAID,
         pa_providerPaymentId := pt_providerTransactionId t\<rparr>) (pd_attempts s)"
      "pd_ledger s' = lg2" "pd_transactions s' = pd_transactions s" "pd_events s' = pd_events s"
      "pd_settings s' = pd_settings s"
      "of_appointments (pd_office s') = modify ap_id (pa_appointmentId a) (\<lambda>x. x\<lparr>ap_status := A_SCHEDULED,
         ap_notes := Some ''Confirmed after trusted payment webhook.''\<rparr>) (of_appointments (pd_office s))"
      "of_consultations (pd_office s') = modify cr_id (pa_consultationRequestId a)
         (\<lambda>c. c\<lparr>cr_status := C_SCHEDULED\<rparr>) (of_consultations (pd_office s))"
proof (cases "la_payment la \<noteq> None \<or> pa_status (la_attempt la) = PA_PAID")
  case True
  then show ?thesis using assms that(1) by (simp add: confirmPaidAttempt_def)
next
  case False
  have conv: "ofLedger r = Inr x \<Longrightarrow> r = Inr x" for r :: "ledger_throw + ledger" and x
    by (auto simp: ofLedger_def split: sum.splits ledger_throw.splits)
  show ?thesis
    using assms False
    by (auto simp: confirmPaidAttempt_def Let_def dest!: conv intro: that(2))
qed

text \<open>The five ways a report ends.\<close>

lemma settleReport_InrE:
  assumes "settleReport pf now ids ev la payload reported t s = Inr (e, s')"
  obtains (held) code where "collectionReview pf now la payload reported t s = Some code"
      "finishEvent now ev WP_FAILED (Some code) (holdCollection pf la payload s) = Inr (e, s')"
    | (paying) s1 where "collectionReview pf now la payload reported t s = None" "np_status payload = P_PAID"
      "confirmPaidAttempt now ids la t s = Inr s1" "finishEvent now ev WP_PROCESSED None s1 = Inr (e, s')"
    | (reversing) "isReversal la payload" "finishEvent now ev WP_FAILED (Some ''PAYMENT_REVERSAL_REVIEW_REQUIRED'')
        (reverseAttempt la payload t s) = Inr (e, s')"
    | (releasing) "np_status payload \<in> {P_FAILED, P_EXPIRED, P_CANCELLED}"
      "finishEvent now ev WP_PROCESSED None (releaseFailedAttempt la (attemptStatusOf (np_status payload))
        (orElse (np_rawStatus payload) (paymentStatusText (np_status payload))) s) = Inr (e, s')"
    | (waiting) "np_status payload = P_PENDING"
      "finishEvent now ev WP_PROCESSED None (updateOpenAttemptStatus la (np_status payload) s) = Inr (e, s')"
proof (cases "collectionReview pf now la payload reported t s")
  case (Some code)
  then show ?thesis using assms by (intro held) (simp_all add: settleReport_def)
next
  case None
  note st = assms [unfolded settleReport_def None option.case Let_def]
  show ?thesis
  proof (cases "np_status payload = P_PAID")
    case True
    then show ?thesis using None st by (auto intro: paying)
  next
    case notPaid: False
    show ?thesis
    proof (cases "isReversal la payload")
      case True
      then show ?thesis using notPaid st by (intro reversing) simp_all
    next
      case False
      then show ?thesis
        using notPaid st releasing waiting
        by (cases "np_status payload") (auto simp: isReversal_def split: if_splits)
    qed
  qed
qed

lemma settleReport_paid:
  assumes run: "settleReport pf now ids ev la payload reported t s = Inr (e, s')"
    and paid: "paidIn s' i" "\<not> paidIn s i"
  shows "i = pa_id (la_attempt la) \<and> trustedPayment pf now la payload"
  using run
proof (cases rule: settleReport_InrE)
  case (held code)
  from paidIn_hold [OF paidIn_finish [OF held(2) paid(1)]] paid(2) show ?thesis by simp
next
  case (paying s1)
  from paidIn_finish [OF paying(4) paid(1)] have p1: "paidIn s1 i" .
  from paying(3) show ?thesis
  proof (cases rule: confirmPaidAttempt_InrE)
    case settled
    then show ?thesis using paid p1 by simp
  next
    case (confirmed lg1 lg2 a payment)
    have "i = pa_id (la_attempt la)"
      using paid(2) p1 confirmed by (auto simp: paidIn_def fetch_modify split: option.splits if_splits)
    moreover have "paidWebhookPayloadProblem (pp_decimal pf) payload (pa_amount (la_attempt la))
        (pa_currency (la_attempt la)) = None"
      using paying(1,2) by (auto simp: collectionReview_def Let_def split: option.splits)
    ultimately show ?thesis
      using confirmed paying(2)
      by (simp add: trustedPayment_def confirmationBlocker_def blocker_nil_iff paidWebhookPayloadProblem_None_iff)
  qed
next
  case reversing
  from paidIn_reverse [OF reversing(1) paidIn_finish [OF reversing(2) paid(1)]] paid(2) show ?thesis by simp
next
  case releasing
  from paidIn_release [OF _ paidIn_finish [OF releasing(2) paid(1)]] releasing(1) paid(2) show ?thesis by auto
next
  case waiting
  from paidIn_updateOpen [OF _ paidIn_finish [OF waiting(2) paid(1)]] waiting(1) paid(2) show ?thesis by simp
qed

lemma applyReport_paid:
  assumes run: "applyReport pf now ids ev provider payload attemptId s = Inr (e, s')"
    and paid: "paidIn s' i" "\<not> paidIn s i"
  shows "i = attemptId \<and> (\<exists>la. loadAttempt i s = Some la \<and> pa_provider (la_attempt la) = provider \<and>
    orderMatches provider payload (la_attempt la) \<and> trustedPayment pf now la payload)"
  using run
proof (cases rule: applyReport_InrE)
  case (1 la reported t ts s2)
  have "\<not> paidIn s2 i" using paid(2) 1(6) by (simp add: paidIn_def)
  from settleReport_paid [OF 1(7) paid(1) this] loadAttempt_SomeD(2) [OF 1(1)] 1 show ?thesis by auto
qed

lemma applyWebhook_paid:
  assumes "applyWebhookPaymentState pf now ids ev provider payload s = (r, s')"
    and "paidIn s' i" "\<not> paidIn s i"
  shows "np_attemptId payload = i \<and> (\<exists>la. loadAttempt i s = Some la \<and> pa_provider (la_attempt la) = provider \<and>
    orderMatches provider payload (la_attempt la) \<and> trustedPayment pf now la payload)"
proof -
  from assms obtain e where "applyWebhookResult pf now ids ev provider payload s = Inr (e, s')"
    by (auto simp: applyWebhookPaymentState_def commit_def split: sum.splits prod.splits)
  then show ?thesis
    using assms(2,3) by (elim applyWebhookResult_InrE) (auto dest: applyReport_paid)
qed

lemma upsertWebhookEvent_InrE:
  assumes "upsertWebhookEvent pf row s = Inr (e, s')"
  obtains (there) "findEvent (we_provider row) (we_eventId row) s = Some e" "s' = s"
    | (added) "findEvent (we_provider row) (we_eventId row) s = None"
      "e = row\<lparr>we_attemptId := (if isPaymentUuid pf (we_attemptId row) then we_attemptId row else None)\<rparr>"
      "we_id row \<notin> we_id ` set (pd_events s)" "s' = s\<lparr>pd_events := pd_events s @ [e]\<rparr>"
  using assms
  by (auto simp: upsertWebhookEvent_def Let_def split: option.splits if_splits)

text \<open>A request either leaves the event unprocessed, or applies it in the tables with the event.\<close>

lemma processWebhook_cases:
  assumes "processWebhook pf now ids provider row payload s = (r, s')"
  obtains (refused) err where "r = Inl err" "s' = s"
    | (foreign) event where "upsertWebhookEvent pf row s = Inr (event, s')" "we_payloadHash event \<noteq> we_payloadHash row"
      "r = Inl (conflict ''Payment webhook event payload does not match the original event.'')"
    | (applied) event s1 processed where "upsertWebhookEvent pf row s = Inr (event, s1)"
      "we_payloadHash event = we_payloadHash row"
      "applyWebhookResult pf now ids (we_id event) provider payload s1 = Inr (processed, s')"
      "r = Inr (processed, False)"
    | (failed) event s1 err e where "upsertWebhookEvent pf row s = Inr (event, s1)"
      "applyWebhookResult pf now ids (we_id event) provider payload s1 = Inl err" "r = Inl err"
      "finishEvent now (we_id event) WP_FAILED (Some (paymentWebhookProcessingErrorCode err)) s1 = Inr (e, s')"
    | (lost) event s1 err where "upsertWebhookEvent pf row s = Inr (event, s1)" "s' = s1" "r = Inl err"
proof (cases "upsertWebhookEvent pf row s")
  case (Inl e)
  then show ?thesis using assms by (auto simp: processWebhook_def intro: refused)
next
  case (Inr x)
  then obtain event s1 where up: "upsertWebhookEvent pf row s = Inr (event, s1)" by (cases x) simp
  show ?thesis
  proof (cases "we_payloadHash event = we_payloadHash row")
    case False
    then show ?thesis using assms up by (intro foreign) (auto simp: processWebhook_def)
  next
    case True
    note run = assms [unfolded processWebhook_def up, simplified True, simplified]
    show ?thesis
    proof (cases "applyWebhookResult pf now ids (we_id event) provider payload s1")
      case (Inr y)
      then obtain processed s2 where "applyWebhookResult pf now ids (we_id event) provider payload s1 = Inr (processed, s2)"
        by (cases y) simp
      then show ?thesis using run up True
        by (intro applied) (auto simp: applyWebhookPaymentState_def commit_def)
    next
      case (Inl err)
      then show ?thesis
        using run up True by (auto simp: applyWebhookPaymentState_def commit_def split: sum.splits prod.splits
            intro: failed lost)
    qed
  qed
qed

lemma upsertWebhookEvent_frame:
  assumes "upsertWebhookEvent pf row s = Inr (e, s')"
  shows "pd_attempts s' = pd_attempts s" "pd_office s' = pd_office s" "pd_ledger s' = pd_ledger s"
    "pd_transactions s' = pd_transactions s" "pd_settings s' = pd_settings s"
  using assms by (auto elim!: upsertWebhookEvent_InrE)

lemma processWebhook_paid:
  assumes run: "processWebhook pf now ids provider row payload s = (r, s')"
    and paid: "paidIn s' i" "\<not> paidIn s i"
  shows "np_attemptId payload = i \<and> (\<exists>la. loadAttempt i s = Some la \<and> pa_provider (la_attempt la) = provider \<and>
    orderMatches provider payload (la_attempt la) \<and> trustedPayment pf now la payload)"
proof -
  have same: "paidIn s1 j = paidIn s j" "loadAttempt j s1 = loadAttempt j s"
    if "upsertWebhookEvent pf row s = Inr (event, s1)" for event s1 j
    using upsertWebhookEvent_frame [OF that] by (simp add: paidIn_def, intro loadAttempt_cong)
  from run show ?thesis
  proof (cases rule: processWebhook_cases)
    case (refused err)
    then show ?thesis using paid by simp
  next
    case (foreign event)
    then show ?thesis using paid same by blast
  next
    case (applied event s1 processed)
    then have "applyWebhookPaymentState pf now ids (we_id event) provider payload s1 = (Inr processed, s')"
      by (simp add: applyWebhookPaymentState_def commit_def)
    from applyWebhook_paid [OF this paid(1)] paid(2) same [OF applied(1)] show ?thesis by simp
  next
    case (failed event s1 err e)
    then show ?thesis using paid same [OF failed(1)] by (metis paidIn_finish)
  next
    case (lost event s1 err)
    then show ?thesis using paid same [OF lost(1)] by simp
  qed
qed

lemma handlePaymentWebhook_cases:
  assumes "handlePaymentWebhook pf now ids provider req s = (r, s')"
  obtains (unread) err where "r = Inl err" "s' = s"
    | (unsigned) body where "pp_parse pf (orElse (wr_rawBody req) ''{}'') = Some body"
      "\<not> webhookVerified pf provider req body" "\<not> succeeds r"
      "s' = s \<or> (\<exists>e. s' = s\<lparr>pd_events := pd_events s @ [e]\<rparr> \<and> we_signatureStatus e = SIG_INVALID)"
    | (verified) body where "pp_parse pf (orElse (wr_rawBody req) ''{}'') = Some body"
      "webhookVerified pf provider req body"
      "handleVerified pf now ids provider body (webhookPayloadHash pf provider req body) s = (r, s')"
proof (cases "payParse (parseWebhookJson pf (wr_rawBody req))")
  case (Inl e)
  then show ?thesis using assms by (auto simp: handlePaymentWebhook_def intro: unread)
next
  case (Inr body)
  then have body: "pp_parse pf (orElse (wr_rawBody req) ''{}'') = Some body"
    by (auto simp: payParse_def parseWebhookJson_def split: sum.splits option.splits json.splits)
  show ?thesis
  proof (cases "webhookVerified pf provider req body")
    case True
    then show ?thesis using assms Inr body verified by (simp add: handlePaymentWebhook_def)
  next
    case False
    then show ?thesis
      using assms Inr body
      by (intro unsigned [OF body])
        (auto simp: handlePaymentWebhook_def webhookRow_def Let_def elim!: upsertWebhookEvent_InrE
          split: sum.splits prod.splits)
  qed
qed

text \<open>What a verified request works on.\<close>

definition reportedBy ::
  "pay_platform \<Rightarrow> payment_provider \<Rightarrow> webhook_request \<Rightarrow> json \<Rightarrow> string \<Rightarrow> normalized_payload \<Rightarrow> bool" where
  "reportedBy pf provider req body i payload =
    (\<exists>p. normalizeProviderWebhookPayload (pp_gateway pf) body provider (webhookPayloadHash pf provider req body) =
       Inr p \<and> payload = p\<lparr>np_attemptId := i\<rparr>)"

lemma bindPayload_InrD:
  assumes "bindPayload provider p s = Inr payload"
  shows "payload = p\<lparr>np_attemptId := np_attemptId payload\<rparr>"
  using assms by (auto simp: bindPayload_def split: if_splits option.splits)

text \<open>
  C3. An attempt becomes paid by a webhook only when the gateway said so in a body whose signature
  verified, about this attempt's own order, while the attempt was open and had not expired, its
  appointment was still reserved and its consultation still waiting for the payment, and the amount
  and the currency it reported are exactly those of the attempt.
\<close>

theorem paid_only_when_trusted:
  assumes "handlePaymentWebhook pf now ids provider req s = (r, s')"
    and "paidIn s' i" and "\<not> paidIn s i"
  shows "\<exists>body payload la. pp_parse pf (orElse (wr_rawBody req) ''{}'') = Some body \<and>
    webhookVerified pf provider req body \<and> reportedBy pf provider req body i payload \<and>
    loadAttempt i s = Some la \<and> pa_provider (la_attempt la) = provider \<and>
    orderMatches provider payload (la_attempt la) \<and> trustedPayment pf now la payload"
  using assms(1)
proof (cases rule: handlePaymentWebhook_cases)
  case (unread err)
  then show ?thesis using assms by simp
next
  case (unsigned body)
  then show ?thesis using assms(2,3) by (auto simp: paidIn_def)
next
  case (verified body)
  let ?h = "webhookPayloadHash pf provider req body"
  have audit: "paidIn (recordWebhookPayloadMismatch pf e h j s) i = paidIn s i" for e h j
    by (simp add: recordWebhookPayloadMismatch_def Let_def paidIn_def)
  obtain p payload row where p: "normalizeProviderWebhookPayload (pp_gateway pf) body provider ?h = Inr p"
    and b: "bindPayload provider p s = Inr payload"
    and run: "processWebhook pf now ids provider row payload s = (r, s')"
    using verified(3) assms(2,3) audit
    by (auto simp: handleVerified_def Let_def payParse_def split: sum.splits option.splits if_splits)
  from processWebhook_paid [OF run assms(2,3)] obtain la where "np_attemptId payload = i"
    "loadAttempt i s = Some la" "pa_provider (la_attempt la) = provider"
    "orderMatches provider payload (la_attempt la)" "trustedPayment pf now la payload" by blast
  moreover from this have "reportedBy pf provider req body i payload"
    using p bindPayload_InrD [OF b] by (auto simp: reportedBy_def)
  ultimately show ?thesis using verified(1,2) by blast
qed

theorem paid_only_when_trusted_witness:
  "\<exists>body payload la. pp_parse samplePay (orElse (wr_rawBody sampleWebhook) ''{}'') = Some body \<and>
    webhookVerified samplePay Paytabs sampleWebhook body \<and>
    reportedBy samplePay Paytabs sampleWebhook body ''a1'' payload \<and>
    loadAttempt ''a1'' sampleShop = Some la \<and> pa_provider (la_attempt la) = Paytabs \<and>
    orderMatches Paytabs payload (la_attempt la) \<and> trustedPayment samplePay 50 la payload"
proof (rule paid_only_when_trusted [where r = "fst sampleServed" and s' = "snd sampleServed"])
  show "handlePaymentWebhook samplePay 50 sampleIds Paytabs sampleWebhook sampleShop =
      (fst sampleServed, snd sampleServed)"
    by (simp add: sampleServed_def)
  show "paidIn (snd sampleServed) ''a1''" by code_simp
  show "\<not> paidIn sampleShop ''a1''" by code_simp
qed

end
