(* ===== verification/PaymentBooks.thy ===== *)
theory PaymentBooks
  imports PaymentFacts LedgerFacts
begin

text \<open>
  The payments as a machine that serves requests: every paid attempt has its one invoice with its
  settlement, a stored transaction only moves forward, a redelivered webhook changes nothing, and
  an expired attempt gives its appointment back.
\<close>

section \<open>The invariant\<close>

definition invoicedIn :: "ledger \<Rightarrow> payment_attempt \<Rightarrow> bool" where
  "invoicedIn lg a =
    (\<exists>p\<in>set (lg_invoices lg). iv_paymentAttemptId p = Some (pa_id a) \<and> iv_amount p = pa_amount a \<and>
       iv_currency p = pa_currency a \<and>
       (\<exists>e\<in>set (lg_entries lg). pe_paymentId e = iv_id p \<and> pe_kind e = SETTLEMENT \<and> pe_amount e = pa_amount a \<and>
          pe_currency e = pa_currency a))"

definition oneInvoiceEach :: "ledger \<Rightarrow> bool" where
  "oneInvoiceEach lg = distinct (map (\<lambda>p. iv_paymentAttemptId p) (filter (\<lambda>p. iv_paymentAttemptId p \<noteq> None) (lg_invoices lg)))"

definition eventKey :: "webhook_event \<Rightarrow> payment_provider \<times> string" where
  "eventKey e = (we_provider e, we_eventId e)"

definition payOk :: "pay_db \<Rightarrow> bool" where
  "payOk s =
    (distinct (map pa_id (pd_attempts s)) \<and> distinct (map we_id (pd_events s)) \<and>
     distinct (map eventKey (pd_events s)) \<and> distinct (map pt_id (pd_transactions s)) \<and>
     oneInvoiceEach (pd_ledger s) \<and>
     (\<forall>a\<in>set (pd_attempts s). pa_status a = PA_PAID \<longrightarrow> invoicedIn (pd_ledger s) a))"

text \<open>A ledger grows when its invoices keep what they are for, and no entry is lost.\<close>

definition ledgerGrows :: "ledger \<Rightarrow> ledger \<Rightarrow> bool" where
  "ledgerGrows lg lg' =
    ((\<forall>p\<in>set (lg_invoices lg). \<exists>p'\<in>set (lg_invoices lg'). iv_id p' = iv_id p \<and>
        iv_paymentAttemptId p' = iv_paymentAttemptId p \<and> iv_amount p' = iv_amount p \<and> iv_currency p' = iv_currency p) \<and>
     set (lg_entries lg) \<subseteq> set (lg_entries lg'))"

text \<open>What every step does to the attempts: a paid one was paid already, or has its invoice.\<close>

definition keepsBooks :: "pay_db \<Rightarrow> pay_db \<Rightarrow> bool" where
  "keepsBooks s s' =
    (ledgerGrows (pd_ledger s) (pd_ledger s') \<and>
     (\<forall>a'\<in>set (pd_attempts s'). pa_status a' = PA_PAID \<longrightarrow> invoicedIn (pd_ledger s') a' \<or>
        (\<exists>a\<in>set (pd_attempts s). pa_status a = PA_PAID \<and> pa_id a = pa_id a' \<and> pa_amount a = pa_amount a' \<and>
           pa_currency a = pa_currency a')))"

lemma ledgerGrows_refl [simp]: "ledgerGrows lg lg"
  by (auto simp: ledgerGrows_def)

lemma ledgerGrows_trans: "ledgerGrows a b \<Longrightarrow> ledgerGrows b c \<Longrightarrow> ledgerGrows a c"
  unfolding ledgerGrows_def by (metis (no_types, lifting) subset_trans)

lemma invoicedIn_grows:
  assumes "invoicedIn lg a" and "ledgerGrows lg lg'" and "pa_id a = pa_id a'" and "pa_amount a = pa_amount a'"
    and "pa_currency a = pa_currency a'"
  shows "invoicedIn lg' a'"
proof -
  from assms(1) obtain p e where p: "p \<in> set (lg_invoices lg)" "iv_paymentAttemptId p = Some (pa_id a)"
      "iv_amount p = pa_amount a" "iv_currency p = pa_currency a"
    and e: "e \<in> set (lg_entries lg)" "pe_paymentId e = iv_id p" "pe_kind e = SETTLEMENT" "pe_amount e = pa_amount a"
      "pe_currency e = pa_currency a"
    unfolding invoicedIn_def by blast
  from assms(2) p(1) obtain p' where "p' \<in> set (lg_invoices lg')" "iv_id p' = iv_id p"
      "iv_paymentAttemptId p' = iv_paymentAttemptId p" "iv_amount p' = iv_amount p" "iv_currency p' = iv_currency p"
    unfolding ledgerGrows_def by blast
  moreover have "e \<in> set (lg_entries lg')" using assms(2) e(1) unfolding ledgerGrows_def by blast
  ultimately show ?thesis using p e assms(3-5) unfolding invoicedIn_def by metis
qed

lemma keepsBooks_trans:
  assumes "keepsBooks a b" and "keepsBooks b c"
  shows "keepsBooks a c"
proof -
  have g: "ledgerGrows (pd_ledger a) (pd_ledger b)" "ledgerGrows (pd_ledger b) (pd_ledger c)"
    using assms by (simp_all add: keepsBooks_def)
  have "invoicedIn (pd_ledger c) z \<or> (\<exists>x\<in>set (pd_attempts a). pa_status x = PA_PAID \<and> pa_id x = pa_id z \<and>
      pa_amount x = pa_amount z \<and> pa_currency x = pa_currency z)"
    if z: "z \<in> set (pd_attempts c)" "pa_status z = PA_PAID" for z
  proof (cases "invoicedIn (pd_ledger c) z")
    case False
    with assms(2) z obtain y where y: "y \<in> set (pd_attempts b)" "pa_status y = PA_PAID" "pa_id y = pa_id z"
        "pa_amount y = pa_amount z" "pa_currency y = pa_currency z"
      unfolding keepsBooks_def by blast
    have "\<not> invoicedIn (pd_ledger b) y" using False invoicedIn_grows [OF _ g(2) y(3-5)] by blast
    with assms(1) y show ?thesis unfolding keepsBooks_def by metis
  qed simp
  then show ?thesis using ledgerGrows_trans [OF g] unfolding keepsBooks_def by blast
qed

lemma keepsBooks_same:
  "pd_attempts s' = pd_attempts s \<Longrightarrow> ledgerGrows (pd_ledger s) (pd_ledger s') \<Longrightarrow> keepsBooks s s'"
  by (auto simp: keepsBooks_def)

text \<open>A change of attempts that makes none paid.\<close>

lemma keepsBooks_modify:
  assumes "pd_attempts s' = modify pa_id i f (pd_attempts s)" and "ledgerGrows (pd_ledger s) (pd_ledger s')"
    and "\<And>a. pa_id (f a) = pa_id a \<and> pa_amount (f a) = pa_amount a \<and> pa_currency (f a) = pa_currency a"
    and "\<And>a. pa_status (f a) = PA_PAID \<Longrightarrow> pa_status a = PA_PAID"
  shows "keepsBooks s s'"
  using assms unfolding keepsBooks_def by (auto simp: set_modify) metis+

lemma keepsBooks_payOk:
  assumes "payOk s" and "keepsBooks s s'"
    and "map pa_id (pd_attempts s') = map pa_id (pd_attempts s)"
    and "distinct (map we_id (pd_events s'))" and "distinct (map eventKey (pd_events s'))"
    and "distinct (map pt_id (pd_transactions s'))" and "oneInvoiceEach (pd_ledger s')"
  shows "payOk s'"
proof -
  have "invoicedIn (pd_ledger s') a'" if "a' \<in> set (pd_attempts s')" "pa_status a' = PA_PAID" for a'
    using assms(1,2) that invoicedIn_grows unfolding keepsBooks_def payOk_def by metis
  then show ?thesis using assms unfolding payOk_def by metis
qed


section \<open>Steps\<close>

lemma map_modify_col: "(\<And>r. col (f r) = col r) \<Longrightarrow> map col (modify key k f rows) = map col rows"
  by (induction rows) auto

lemma eventKey_update [simp]:
  "eventKey (e\<lparr>we_processingStatus := st, we_errorCode := code, we_processedAt := at1\<rparr>) = eventKey e"
  "eventKey (e\<lparr>we_attemptId := x, we_transactionId := y\<rparr>) = eventKey e"
  "eventKey (e\<lparr>we_replayCount := n, we_processingStatus := st, we_errorCode := code\<rparr>) = eventKey e"
  by (simp_all add: eventKey_def)

lemma finish_steps:
  assumes "finishEvent now ev st code s = Inr (e, s')"
  shows "pd_attempts s' = pd_attempts s" "pd_ledger s' = pd_ledger s" "pd_office s' = pd_office s"
    "pd_transactions s' = pd_transactions s" "pd_settings s' = pd_settings s"
    "map we_id (pd_events s') = map we_id (pd_events s)" "map eventKey (pd_events s') = map eventKey (pd_events s)"
  using assms
  by (auto elim!: finishEvent_InrE simp: map_modify_col)

text \<open>
  A report rewrites the row of its attempt only, and of that row neither the identity nor the deal.
\<close>

definition sameDeal :: "payment_attempt \<Rightarrow> payment_attempt \<Rightarrow> bool" where
  "sameDeal a' a =
    (pa_id a' = pa_id a \<and> pa_provider a' = pa_provider a \<and> pa_providerOrderId a' = pa_providerOrderId a \<and>
     pa_amount a' = pa_amount a \<and> pa_currency a' = pa_currency a \<and> pa_idempotencyKey a' = pa_idempotencyKey a)"

definition movesAttempt :: "string \<Rightarrow> pay_db \<Rightarrow> pay_db \<Rightarrow> bool" where
  "movesAttempt i s s' =
    (\<exists>f. pd_attempts s' = modify pa_id i f (pd_attempts s) \<and> (\<forall>a. sameDeal (f a) a))"

lemma modify_id [simp]: "modify key k (\<lambda>x. x) rows = rows"
  by (induction rows) auto

lemma modify_twice:
  "(\<And>x. key (f x) = key x) \<Longrightarrow> modify key k g (modify key k f rows) = modify key k (\<lambda>x. g (f x)) rows"
  by (induction rows) auto

lemma movesAttempt_same: "pd_attempts s' = pd_attempts s \<Longrightarrow> movesAttempt i s s'"
  unfolding movesAttempt_def by (rule exI [of _ "\<lambda>x. x"]) (simp add: sameDeal_def)

lemma movesAttempt_trans:
  assumes "movesAttempt i a b" and "movesAttempt i b c"
  shows "movesAttempt i a c"
proof -
  from assms obtain f g where f: "pd_attempts b = modify pa_id i f (pd_attempts a)" "\<And>x. sameDeal (f x) x"
    and g: "pd_attempts c = modify pa_id i g (pd_attempts b)" "\<And>x. sameDeal (g x) x"
    unfolding movesAttempt_def by blast
  have "pd_attempts c = modify pa_id i (\<lambda>x. g (f x)) (pd_attempts a)"
    using f g(1) by (simp add: modify_twice sameDeal_def)
  moreover have "sameDeal (g (f x)) x" for x using f(2) [of x] g(2) [of "f x"] by (simp add: sameDeal_def)
  ultimately show ?thesis unfolding movesAttempt_def by blast
qed

lemma movesAttempt_modify:
  "(\<And>a. sameDeal (f a) a) \<Longrightarrow> movesAttempt i s (modifyAttempt i f s)"
  unfolding movesAttempt_def by auto

lemma movesAttempt_cong:
  "movesAttempt i s s' \<Longrightarrow> pd_attempts s'' = pd_attempts s' \<Longrightarrow> movesAttempt i s s''"
  by (simp add: movesAttempt_def)

lemma release_moves: "movesAttempt (pa_id (la_attempt la)) s (releaseFailedAttempt la st code s)"
  unfolding movesAttempt_def releaseFailedAttempt_def Let_def
  by (cases "la_payment la \<noteq> None \<or> \<not> confirmableStatus (pa_status (la_attempt la))")
    (auto simp: sameDeal_def intro: exI [of _ "\<lambda>x. x"]
      exI [of _ "\<lambda>x. x\<lparr>pa_status := st, pa_failureCode := Some code\<rparr>"])

lemma hold_moves: "movesAttempt (pa_id (la_attempt la)) s (holdCollection pf la payload s)"
  unfolding holdCollection_def Let_def
  by (rule movesAttempt_trans [OF _ movesAttempt_modify])
    (auto simp: sameDeal_def release_moves split: option.splits)

lemma reverse_moves: "movesAttempt (pa_id (la_attempt la)) s (reverseAttempt la payload t s)"
  unfolding movesAttempt_def reverseAttempt_def Let_def
  by (rule exI [of _ "\<lambda>x. x\<lparr>pa_status := (case pt_status t of PT_REFUNDED \<Rightarrow> PA_REFUNDED
      | PT_DISPUTED \<Rightarrow> PA_DISPUTED | PT_CANCELLED \<Rightarrow> PA_CANCELLED | _ \<Rightarrow> attemptStatusOf (np_status payload)),
      pa_failureCode := Some ''PAYMENT_REVERSAL_REVIEW_REQUIRED''\<rparr>"])
    (auto simp: sameDeal_def split: option.splits)

lemma updateOpen_moves: "movesAttempt (pa_id (la_attempt la)) s (updateOpenAttemptStatus la st s)"
  by (auto simp: updateOpenAttemptStatus_def sameDeal_def intro: movesAttempt_modify movesAttempt_same)

lemma confirm_moves:
  assumes "confirmPaidAttempt now ids la t s = Inr s'"
  shows "movesAttempt (pa_id (la_attempt la)) s s'"
  using assms
proof (cases rule: confirmPaidAttempt_InrE)
  case settled
  then show ?thesis by (simp add: movesAttempt_same)
next
  case (confirmed lg1 lg2 a payment)
  then show ?thesis unfolding movesAttempt_def
    by (intro exI [of _ "\<lambda>x. x\<lparr>pa_status := PA_PAID, pa_providerPaymentId := pt_providerTransactionId t\<rparr>"])
      (simp add: sameDeal_def)
qed

lemma finish_moves:
  "finishEvent now ev st code s1 = Inr (e, s') \<Longrightarrow> movesAttempt i s s1 \<Longrightarrow> movesAttempt i s s'"
  by (rule movesAttempt_cong [OF _ finish_steps(1)])

lemma settle_moves:
  assumes "settleReport pf now ids ev la payload reported t s = Inr (e, s')"
  shows "movesAttempt (pa_id (la_attempt la)) s s'"
  using assms
proof (cases rule: settleReport_InrE)
  case (held code)
  show ?thesis by (rule finish_moves [OF held(2) hold_moves])
next
  case (paying s1)
  show ?thesis by (rule finish_moves [OF paying(4) confirm_moves [OF paying(3)]])
next
  case reversing
  show ?thesis by (rule finish_moves [OF reversing(2) reverse_moves])
next
  case releasing
  show ?thesis by (rule finish_moves [OF releasing(2) release_moves])
next
  case waiting
  show ?thesis by (rule finish_moves [OF waiting(2) updateOpen_moves])
qed

lemma applyReport_moves:
  assumes "applyReport pf now ids ev provider payload attemptId s = Inr (e, s')"
  shows "movesAttempt attemptId s s'"
  using assms
proof (cases rule: applyReport_InrE)
  case (1 la reported t ts s2)
  have "movesAttempt attemptId s s2" using 1(6) by (intro movesAttempt_same) simp
  then show ?thesis using settle_moves [OF 1(7)] loadAttempt_SomeD(2) [OF 1(1)] movesAttempt_trans by metis
qed


section \<open>The invariant is kept\<close>

lemma movesAttempt_ids: "movesAttempt i s s' \<Longrightarrow> map pa_id (pd_attempts s') = map pa_id (pd_attempts s)"
  by (auto simp: movesAttempt_def sameDeal_def map_key_modify)

lemma movesAttempt_fetch:
  assumes "movesAttempt i s s'" and "fetch pa_id j (pd_attempts s') = Some a'"
  obtains a where "fetch pa_id j (pd_attempts s) = Some a" "sameDeal a' a"
  using assms
  by (auto simp: movesAttempt_def sameDeal_def fetch_modify split: if_splits)

lemma keepsBooks_moves:
  assumes "movesAttempt i s s'" and "distinct (map pa_id (pd_attempts s))"
    and "\<And>j. paidIn s' j \<Longrightarrow> paidIn s j" and "ledgerGrows (pd_ledger s) (pd_ledger s')"
  shows "keepsBooks s s'"
proof -
  have "\<exists>a\<in>set (pd_attempts s). pa_status a = PA_PAID \<and> pa_id a = pa_id a' \<and> pa_amount a = pa_amount a' \<and>
      pa_currency a = pa_currency a'" if a': "a' \<in> set (pd_attempts s')" "pa_status a' = PA_PAID" for a'
  proof -
    have f': "fetch pa_id (pa_id a') (pd_attempts s') = Some a'"
      using assms(2) movesAttempt_ids [OF assms(1)] a'(1) by (intro fetch_distinct) simp_all
    then have "paidIn s (pa_id a')" using assms(3) a'(2) by (simp add: paidIn_def)
    moreover obtain a where "fetch pa_id (pa_id a') (pd_attempts s) = Some a" "sameDeal a' a"
      using movesAttempt_fetch [OF assms(1) f'] .
    ultimately show ?thesis by (auto simp: paidIn_def sameDeal_def dest: fetch_SomeD)
  qed
  then show ?thesis using assms(4) unfolding keepsBooks_def by blast
qed

lemma insertInvoice_one:
  assumes "insertInvoice i lg = Inr lg'" and "oneInvoiceEach lg"
  shows "oneInvoiceEach lg'"
  using assms
  by (auto simp: insertInvoice_def invoiceClash_def oneInvoiceEach_def repeats_def split: option.splits if_splits)

lemma insertInvoice_InrD:
  "insertInvoice i lg = Inr lg' \<Longrightarrow> lg' = lg\<lparr>lg_invoices := lg_invoices lg @ [i]\<rparr>"
  by (auto simp: insertInvoice_def split: option.splits)

lemma insertEntry_InrD:
  "insertEntry e lg = Inr lg' \<Longrightarrow> lg' = lg\<lparr>lg_entries := lg_entries lg @ [e]\<rparr>"
  by (auto simp: insertEntry_def split: if_splits)

lemma filter_map_modify:
  assumes "\<And>x. col (f x) = col x" and "\<And>x. q (f x) = q x"
  shows "map col (filter q (modify key k f rows)) = map col (filter q rows)"
  by (induction rows) (simp_all add: assms)

lemma ledgerGrows_modify:
  assumes "\<And>p. iv_id (f p) = iv_id p \<and> iv_paymentAttemptId (f p) = iv_paymentAttemptId p \<and>
      iv_amount (f p) = iv_amount p \<and> iv_currency (f p) = iv_currency p"
  shows "ledgerGrows lg (lg\<lparr>lg_invoices := modify iv_id k f (lg_invoices lg)\<rparr>)"
proof -
  have "(if iv_id p = k then f p else p) \<in> set (modify iv_id k f (lg_invoices lg))" if "p \<in> set (lg_invoices lg)" for p
    using that unfolding set_modify by blast
  then have "\<exists>p'\<in>set (modify iv_id k f (lg_invoices lg)). iv_id p' = iv_id p \<and>
      iv_paymentAttemptId p' = iv_paymentAttemptId p \<and> iv_amount p' = iv_amount p \<and> iv_currency p' = iv_currency p"
    if "p \<in> set (lg_invoices lg)" for p
    using assms that by (intro bexI [of _ "if iv_id p = k then f p else p"]) simp_all
  then show ?thesis by (simp add: ledgerGrows_def)
qed

lemma reverse_ledger:
  "ledgerGrows (pd_ledger s) (pd_ledger (reverseAttempt la payload t s))"
  "oneInvoiceEach (pd_ledger s) \<Longrightarrow> oneInvoiceEach (pd_ledger (reverseAttempt la payload t s))"
  by (auto simp: reverseAttempt_def Let_def ledgerGrows_modify oneInvoiceEach_def filter_map_modify
      split: option.splits)

lemma confirm_books:
  assumes run: "confirmPaidAttempt now ids la t s = Inr s'"
    and own: "fetch pa_id (pa_id (la_attempt la)) (pd_attempts s) = Some (la_attempt la)"
    and ok: "distinct (map pa_id (pd_attempts s))" "oneInvoiceEach (pd_ledger s)"
  shows "keepsBooks s s'" and "oneInvoiceEach (pd_ledger s')" and "pd_transactions s' = pd_transactions s"
    and "pd_events s' = pd_events s"
proof -
  have "keepsBooks s s' \<and> oneInvoiceEach (pd_ledger s') \<and> pd_transactions s' = pd_transactions s \<and>
    pd_events s' = pd_events s"
    using run
  proof (cases rule: confirmPaidAttempt_InrE)
    case settled
    then show ?thesis using ok by (simp add: keepsBooks_same)
  next
    case (confirmed lg1 lg2 a payment)
    let ?e = "trustedSettlement now (wi_entry ids) payment"
    have lg1: "lg1 = (pd_ledger s)\<lparr>lg_invoices := lg_invoices (pd_ledger s) @ [payment]\<rparr>"
      using insertInvoice_InrD [OF confirmed(5)] .
    have lg2: "lg2 = lg1\<lparr>lg_entries := lg_entries lg1 @ [?e]\<rparr>"
      using insertEntry_InrD confirmed(6) by (simp add: recordTrustedInvoiceSettlement_def)
    have grows: "ledgerGrows (pd_ledger s) (pd_ledger s')"
      using lg1 lg2 confirmed(8) by (auto simp: ledgerGrows_def)
    have paid: "invoicedIn (pd_ledger s') a'" if "pa_id a' = pa_id a" "pa_amount a' = pa_amount a"
        "pa_currency a' = pa_currency a" for a'
      using that lg1 lg2 confirmed(2,8)
      by (auto simp: invoicedIn_def gatewayInvoice_def trustedSettlement_def Let_def)
    have "invoicedIn (pd_ledger s') a' \<or> (\<exists>x\<in>set (pd_attempts s). pa_status x = PA_PAID \<and> pa_id x = pa_id a' \<and>
        pa_amount x = pa_amount a' \<and> pa_currency x = pa_currency a')"
      if a': "a' \<in> set (pd_attempts s')" "pa_status a' = PA_PAID" for a'
    proof -
      from a'(1) obtain x where x: "x \<in> set (pd_attempts s)" "a' = (if pa_id x = pa_id a then x\<lparr>pa_status := PA_PAID,
          pa_providerPaymentId := pt_providerTransactionId t\<rparr> else x)"
        unfolding confirmed(7) set_modify by auto
      show ?thesis
      proof (cases "pa_id x = pa_id a")
        case True
        then have "x = a" using own ok(1) x(1) confirmed(1) fetch_distinct [of pa_id] by (metis option.inject)
        then show ?thesis using True x(2) paid by simp
      qed (use x a' in auto)
    qed
    then show ?thesis
      using grows insertInvoice_one [OF confirmed(5) ok(2)] lg2 confirmed
      by (simp add: keepsBooks_def oneInvoiceEach_def)
  qed
  then show "keepsBooks s s'" "oneInvoiceEach (pd_ledger s')" "pd_transactions s' = pd_transactions s"
    "pd_events s' = pd_events s" by simp_all
qed

lemma settle_books:
  assumes run: "settleReport pf now ids ev la payload reported t s = Inr (e, s')"
    and own: "fetch pa_id (pa_id (la_attempt la)) (pd_attempts s) = Some (la_attempt la)"
    and ok: "distinct (map pa_id (pd_attempts s))" "oneInvoiceEach (pd_ledger s)"
  shows "keepsBooks s s' \<and> oneInvoiceEach (pd_ledger s') \<and> pd_transactions s' = pd_transactions s \<and>
    map we_id (pd_events s') = map we_id (pd_events s) \<and> map eventKey (pd_events s') = map eventKey (pd_events s)"
  using run
proof (cases rule: settleReport_InrE)
  case (held code)
  note f = finish_steps [OF held(2)]
  have "keepsBooks s s'"
    using f ok paidIn_hold [OF paidIn_finish [OF held(2)]]
    by (intro keepsBooks_moves [OF settle_moves [OF run]]) simp_all
  then show ?thesis using f ok by simp
next
  case (paying s1)
  note f = finish_steps [OF paying(4)] and c = confirm_books [OF paying(3) own ok]
  have "keepsBooks s s'" using f c by (intro keepsBooks_trans [OF c(1)] keepsBooks_same) simp_all
  then show ?thesis using f c by simp
next
  case reversing
  note f = finish_steps [OF reversing(2)]
  have "keepsBooks s s'"
    using f ok paidIn_reverse [OF reversing(1) paidIn_finish [OF reversing(2)]] reverse_ledger(1)
    by (intro keepsBooks_moves [OF settle_moves [OF run]]) simp_all
  then show ?thesis using f reverse_ledger(2) [OF ok(2)] by simp
next
  case releasing
  note f = finish_steps [OF releasing(2)]
  have "attemptStatusOf (np_status payload) \<noteq> PA_PAID" using releasing(1) by auto
  then have "keepsBooks s s'"
    using f ok paidIn_release [OF _ paidIn_finish [OF releasing(2)]]
    by (intro keepsBooks_moves [OF settle_moves [OF run]]) simp_all
  then show ?thesis using f ok by simp
next
  case waiting
  note f = finish_steps [OF waiting(2)]
  have "keepsBooks s s'"
    using f ok waiting(1) paidIn_updateOpen [OF _ paidIn_finish [OF waiting(2)]]
    by (intro keepsBooks_moves [OF settle_moves [OF run]]) simp_all
  then show ?thesis using f ok by simp
qed

lemma upsertTransaction_ids:
  assumes "upsertPaymentTransaction i input s = Inr (t, s')" and "distinct (map pt_id (pd_transactions s))"
  shows "distinct (map pt_id (pd_transactions s'))"
  using assms(1)
proof (cases rule: upsertPaymentTransaction_cases)
  case kept
  then show ?thesis using assms(2) by simp
next
  case (rewritten old)
  have "map pt_id (modify pt_id (pt_id old) (\<lambda>_. t) rows) = map pt_id rows" for rows
    using rewritten(4) by (induction rows) auto
  then show ?thesis using assms(2) rewritten(5) by simp
next
  case created
  then show ?thesis using assms(2) by (elim createTransaction_InrE) simp
qed

lemma applyReport_ok:
  assumes ok: "payOk s" and run: "applyReport pf now ids ev provider payload attemptId s = Inr (e, s')"
  shows "payOk s'"
  using run
proof (cases rule: applyReport_InrE)
  case (1 la reported t ts s2)
  have s2: "pd_attempts s2 = pd_attempts s" "pd_ledger s2 = pd_ledger s" "pd_transactions s2 = ts"
    "map we_id (pd_events s2) = map we_id (pd_events s)" "map eventKey (pd_events s2) = map eventKey (pd_events s)"
    using 1(6) by (simp_all add: map_modify_col)
  have own: "fetch pa_id (pa_id (la_attempt la)) (pd_attempts s2) = Some (la_attempt la)"
    using s2(1) loadAttempt_SomeD [OF 1(1)] by simp
  have b: "keepsBooks s2 s'" "oneInvoiceEach (pd_ledger s')" "pd_transactions s' = ts"
    "map we_id (pd_events s') = map we_id (pd_events s)" "map eventKey (pd_events s') = map eventKey (pd_events s)"
    using settle_books [OF 1(7) own] s2 ok by (simp_all add: payOk_def)
  have k: "keepsBooks s s'" using s2 b(1) keepsBooks_same [of s2 s] keepsBooks_trans by (metis ledgerGrows_refl)
  show ?thesis
    using ok b movesAttempt_ids [OF applyReport_moves [OF run]] upsertTransaction_ids [OF 1(5)]
    by (intro keepsBooks_payOk [OF ok k]) (simp_all add: payOk_def)
qed

lemma applyWebhook_ok:
  "payOk s \<Longrightarrow> applyWebhookResult pf now ids ev provider payload s = Inr (e, s') \<Longrightarrow> payOk s'"
  by (elim applyWebhookResult_InrE) (auto intro: applyReport_ok)

lemma applyWebhookState_ok: "payOk s \<Longrightarrow> payOk (snd (applyWebhookPaymentState pf now ids ev provider payload s))"
  by (auto simp: applyWebhookPaymentState_def commit_def dest: applyWebhook_ok split: sum.splits)

lemma payOk_events:
  assumes "payOk s" and "pd_attempts s' = pd_attempts s" and "pd_ledger s' = pd_ledger s"
    and "pd_transactions s' = pd_transactions s" and "distinct (map we_id (pd_events s'))"
    and "distinct (map eventKey (pd_events s'))"
  shows "payOk s'"
  using assms by (simp add: payOk_def)

lemma findEvent_None_iff: "findEvent provider eventId s = None \<longleftrightarrow> (provider, eventId) \<notin> eventKey ` set (pd_events s)"
  by (auto simp: findEvent_def find_None_iff eventKey_def image_iff)

lemma upsertWebhookEvent_ok:
  assumes "payOk s" and "upsertWebhookEvent pf row s = Inr (e, s')"
  shows "payOk s'"
  using assms(2)
proof (cases rule: upsertWebhookEvent_InrE)
  case added
  have "eventKey e \<notin> eventKey ` set (pd_events s)"
    using added(1) unfolding findEvent_None_iff by (simp add: added(2) eventKey_def)
  then show ?thesis using added assms(1) by (intro payOk_events [OF assms(1)]) (auto simp: payOk_def)
qed (simp add: assms(1))

lemma finishEvent_ok: "payOk s \<Longrightarrow> finishEvent now ev st code s = Inr (e, s') \<Longrightarrow> payOk s'"
  by (rule payOk_events) (simp_all add: finish_steps, simp_all add: payOk_def)

lemma processWebhook_ok:
  assumes "payOk s" and "processWebhook pf now ids provider row payload s = (r, s')"
  shows "payOk s'"
  using assms(2)
proof (cases rule: processWebhook_cases)
  case (applied event s1 processed)
  then show ?thesis using assms(1) upsertWebhookEvent_ok applyWebhook_ok by metis
next
  case (failed event s1 err e)
  then show ?thesis using assms(1) upsertWebhookEvent_ok finishEvent_ok by metis
qed (use assms(1) upsertWebhookEvent_ok in metis)+

lemma audit_ok [simp]: "payOk (auditPay e s) = payOk s"
  by (simp add: payOk_def)

lemma mismatch_ok [simp]: "payOk (recordWebhookPayloadMismatch pf e h j s) = payOk s"
  by (simp add: recordWebhookPayloadMismatch_def Let_def)

lemma handleVerified_ok:
  assumes "payOk s"
  shows "payOk (snd (handleVerified pf now ids provider body h s))"
proof -
  have "payOk (snd (processWebhook pf now ids provider row payload s))" for row payload
    using processWebhook_ok [OF assms] by (metis prod.collapse)
  then show ?thesis using assms by (auto simp: handleVerified_def Let_def split: sum.splits option.splits)
qed

lemma handlePaymentWebhook_ok:
  assumes "payOk s"
  shows "payOk (snd (handlePaymentWebhook pf now ids provider req s))"
  using assms upsertWebhookEvent_ok [OF assms]
  by (auto simp: handlePaymentWebhook_def Let_def handleVerified_ok split: sum.splits prod.splits)

lemma replay_ok:
  assumes "payOk s"
  shows "payOk (snd (replayAdminPaymentWebhookEvent pf now ids actor eventId s))"
proof -
  have "payOk s1" if "updateEvent i (\<lambda>e. e\<lparr>we_replayCount := we_replayCount e + 1,
      we_processingStatus := WP_PENDING, we_errorCode := None\<rparr>) s = Inr (e, s1)" for i e s1
    using that assms
    by (elim updateEvent_InrE, intro payOk_events [OF assms]) (auto simp: payOk_def map_modify_col)
  then show ?thesis
    using assms
    by (auto simp: replayAdminPaymentWebhookEvent_def Let_def applyWebhookState_ok split: sum.splits option.splits)
qed

lemma expireBatch_ok:
  assumes "payOk s"
  shows "payOk (snd (expireBatch now batch s))"
proof -
  have "keepsBooks s (snd (expireBatch now batch s))"
    by (auto simp: keepsBooks_def expireBatch_def Let_def set_updateWhere)
  then show ?thesis
    using assms by (intro keepsBooks_payOk [OF assms])
      (auto simp: payOk_def expireBatch_def Let_def map_key_updateWhere)
qed

lemma expire_ok: "payOk s \<Longrightarrow> payOk (snd (expireOpenConsultationPaymentAttempts now i limit s))"
  by (simp add: expireOpenConsultationPaymentAttempts_def expireBatch_ok split: list.splits)

lemma insertAttempt_ok:
  assumes "payOk s" and "insertAttempt a s = Inr s'" and "pa_status a \<noteq> PA_PAID"
  shows "payOk s'"
  using assms by (auto simp: insertAttempt_def payOk_def split: if_splits)

lemma updateAttempt_ok:
  assumes "payOk s" and "updateAttempt a s = Inr s'" and "pa_status a \<noteq> PA_PAID"
  shows "payOk s'"
proof -
  have ids: "map pa_id (modify pa_id (pa_id a) (\<lambda>_. a) rows) = map pa_id rows" for rows :: "payment_attempt list"
    by (induction rows) auto
  show ?thesis
    using assms by (auto simp: updateAttempt_def payOk_def set_modify ids split: if_splits)
qed

lemma checkOutAttempt_ok:
  assumes "payOk s" and "checkOutAttempt pf now provider input attempt s = Inr (a, s')"
  shows "payOk s'"
proof -
  from assms(2) obtain checkout e s1 where "updateAttempt (withCheckout checkout attempt) s = Inr s1" "s' = auditPay e s1"
    unfolding checkOutAttempt_def Let_def andThen_eq_Inr by blast
  moreover have "pa_status (withCheckout checkout attempt) \<noteq> PA_PAID" by (simp add: withCheckout_def)
  ultimately show ?thesis using updateAttempt_ok [OF assms(1)] by simp
qed

lemma attemptToCheckOut_ok:
  assumes "payOk s" and "attemptToCheckOut now key fresh s = Inr (a, s')" and "pa_status fresh \<noteq> PA_PAID"
  shows "payOk s'"
  using assms insertAttempt_ok by (auto simp: attemptToCheckOut_def split: option.splits)

lemma createAttempt_ok:
  assumes ok: "payOk s" and run: "createConsultationPaymentAttempt pf now newId input s = Inr (a, s')"
  shows "payOk s'"
proof -
  consider "s' = s" | fresh key provider attempt s1 where "attemptToCheckOut now key fresh s = Inr (attempt, s1)"
      "pa_status fresh \<noteq> PA_PAID" "checkOutAttempt pf now provider input attempt s1 = Inr (a, s')"
    using run unfolding createConsultationPaymentAttempt_def Let_def
    by (auto simp: freshAttempt_def split: option.splits)
  then show ?thesis using ok attemptToCheckOut_ok checkOutAttempt_ok by cases blast+
qed

datatype pay_request =
    OpenAttempt int string attempt_input
  | ExpireBatch int "string list"
  | Webhook int webhook_ids payment_provider webhook_request
  | Replay int webhook_ids principal string
  | ShowStatus int string "string option"

text \<open>
  The public status also writes, as it expires the attempt first; \<open>shows\<close> is what it needs of the
  client and the consultation.
\<close>

fun payServe ::
  "pay_platform \<Rightarrow> (string \<Rightarrow> payer_details) \<Rightarrow> pay_request \<Rightarrow> pay_db \<Rightarrow> (pay_throw + unit) \<times> pay_db" where
  "payServe pf details (OpenAttempt now newId input) s =
     silently id (commit (createConsultationPaymentAttempt pf now newId input s) s)"
| "payServe pf details (ExpireBatch now batch) s = (Inr (), snd (expireBatch now batch s))"
| "payServe pf details (Webhook now ids provider req) s = silently id (handlePaymentWebhook pf now ids provider req s)"
| "payServe pf details (Replay now ids actor eventId) s =
     silently id (replayAdminPaymentWebhookEvent pf now ids actor eventId s)"
| "payServe pf details (ShowStatus now attemptId token) s =
     silently id (getPublicPaymentAttemptStatus pf (\<lambda>_. []) details now attemptId token s)"

lemma status_ok: "payOk s \<Longrightarrow> payOk (snd (getPublicPaymentAttemptStatus pf fe details now i token s))"
  using expire_ok
  by (auto simp: getPublicPaymentAttemptStatus_def split: sum.splits option.splits prod.splits)
    (metis snd_conv)+

lemma commit_payOk:
  assumes "payOk s" and "\<And>x s'. r = Inr (x, s') \<Longrightarrow> payOk s'"
  shows "payOk (snd (commit r s))"
  using assms by (auto simp: commit_def split: sum.splits)

lemma payServe_ok: "payOk s \<Longrightarrow> payOk (snd (payServe pf details q s))"
  by (cases q) (auto simp: expireBatch_ok handlePaymentWebhook_ok replay_ok status_ok intro: commit_payOk createAttempt_ok)

interpretation payments: guarded_machine "payServe pf details" payOk for pf details
  by unfold_locales (rule payServe_ok)


section \<open>Paid attempts\<close>

lemma distinct_filter_one:
  assumes "distinct (map col (filter (\<lambda>p. col p \<noteq> None) rows))" and "p \<in> set rows" and "col p = Some i"
  shows "filter (\<lambda>q. col q = Some i) rows = [p]"
  using assms
proof (induction rows)
  case (Cons r rows)
  show ?case
  proof (cases "col r = Some i")
    case True
    then have "Some i \<notin> col ` set (filter (\<lambda>q. col q \<noteq> None) rows)" using Cons.prems(1) by simp
    then have "\<not> (q \<in> set rows \<and> col q = Some i)" for q by (force simp: image_iff)
    then have none: "filter (\<lambda>q. col q = Some i) rows = []" by (simp add: filter_empty_conv)
    have "p = r"
    proof (rule ccontr)
      assume "p \<noteq> r"
      then have "p \<in> set rows" using Cons.prems(2) by simp
      then show False using none Cons.prems(3) by (auto simp: filter_empty_conv)
    qed
    then show ?thesis using True none by simp
  next
    case False
    then have "p \<in> set rows" using Cons.prems by auto
    then show ?thesis using Cons.IH Cons.prems False by (auto split: if_splits)
  qed
qed simp

text \<open>
  C4. Whatever webhooks, replays, expiries and new bookings run, in any order, every paid attempt
  has exactly one invoice, of its amount in its currency, and the ledger holds the settlement of
  that invoice in full.
\<close>

theorem paid_attempts_invoiced:
  assumes "payOk s" and "a \<in> set (pd_attempts (serveAll (payServe pf details) qs s))" and "pa_status a = PA_PAID"
  shows "\<exists>p e. filter (\<lambda>q. iv_paymentAttemptId q = Some (pa_id a))
        (lg_invoices (pd_ledger (serveAll (payServe pf details) qs s))) = [p] \<and>
    iv_amount p = pa_amount a \<and> iv_currency p = pa_currency a \<and>
    e \<in> set (lg_entries (pd_ledger (serveAll (payServe pf details) qs s))) \<and> pe_paymentId e = iv_id p \<and>
    pe_kind e = SETTLEMENT \<and> pe_amount e = pa_amount a \<and> pe_currency e = pa_currency a"
proof -
  let ?lg = "pd_ledger (serveAll (payServe pf details) qs s)"
  have ok: "payOk (serveAll (payServe pf details) qs s)" using assms(1) by (rule payments.serve_inv)
  then obtain p e where p: "p \<in> set (lg_invoices ?lg)" "iv_paymentAttemptId p = Some (pa_id a)"
      "iv_amount p = pa_amount a" "iv_currency p = pa_currency a"
    and e: "e \<in> set (lg_entries ?lg)" "pe_paymentId e = iv_id p" "pe_kind e = SETTLEMENT"
      "pe_amount e = pa_amount a" "pe_currency e = pa_currency a"
    using assms(2,3) unfolding payOk_def invoicedIn_def by blast
  from ok have "filter (\<lambda>q. iv_paymentAttemptId q = Some (pa_id a)) (lg_invoices ?lg) = [p]"
    using p(1,2) unfolding payOk_def oneInvoiceEach_def by (intro distinct_filter_one) simp_all
  then show ?thesis using p e by blast
qed

lemma sampleShop_ok: "payOk sampleShop"
  by (simp add: payOk_def oneInvoiceEach_def sampleShop_def sampleAttempt_def)

theorem paid_attempts_invoiced_witness:
  "\<exists>a\<in>set (pd_attempts (snd sampleServed)). pa_status a = PA_PAID \<and>
    (\<exists>p. filter (\<lambda>q. iv_paymentAttemptId q = Some (pa_id a)) (lg_invoices (pd_ledger (snd sampleServed))) = [p] \<and>
      iv_amount p = pa_amount a)"
proof -
  have run: "serveAll (payServe samplePay d) [Webhook 50 sampleIds Paytabs sampleWebhook] sampleShop = snd sampleServed" for d
    by (simp add: sampleServed_def)
  obtain a where a: "pd_attempts (snd sampleServed) = [a]" "pa_status a = PA_PAID"
    using sampleServed_paid by (auto simp: map_eq_Cons_conv)
  from paid_attempts_invoiced [OF sampleShop_ok, of a samplePay undefined "[Webhook 50 sampleIds Paytabs sampleWebhook]",
      unfolded run] a show ?thesis by auto
qed

end
