(* ===== verification/PaymentFlows.thy ===== *)
theory PaymentFlows
  imports PaymentBooks
begin

text \<open>
  How the rows of the payments move: a redelivered webhook changes nothing, one that is not signed
  reaches no attempt, and the attempts and the transactions follow small machines.
\<close>

section \<open>Redelivery\<close>

lemma settle_event:
  assumes "settleReport pf now ids ev la payload reported t s = Inr (e, s')"
  shows "\<exists>e0. fetch we_id ev (pd_events s) = Some e0 \<and> eventKey e = eventKey e0 \<and>
    we_payloadHash e = we_payloadHash e0 \<and> fetch we_id ev (pd_events s') = Some e"
proof -
  have fin: "\<exists>e0. fetch we_id ev (pd_events s1) = Some e0 \<and> eventKey e = eventKey e0 \<and>
      we_payloadHash e = we_payloadHash e0 \<and> fetch we_id ev (pd_events s') = Some e"
    if "finishEvent now ev st code s1 = Inr (e, s')" for st code s1
    using that by (elim finishEvent_InrE) (auto simp: fetch_modify)
  from assms show ?thesis
  proof (cases rule: settleReport_InrE)
    case (held code)
    from fin [OF held(2)] show ?thesis by simp
  next
    case (paying s1)
    have "pd_events s1 = pd_events s" using paying(3) by (cases rule: confirmPaidAttempt_InrE) simp_all
    with fin [OF paying(4)] show ?thesis by simp
  next
    case reversing
    from fin [OF reversing(2)] show ?thesis by simp
  next
    case releasing
    from fin [OF releasing(2)] show ?thesis by simp
  next
    case waiting
    from fin [OF waiting(2)] show ?thesis by simp
  qed
qed

lemma applyWebhook_event:
  assumes "applyWebhookResult pf now ids ev provider payload s = Inr (e, s')"
  shows "\<exists>e0 i. fetch we_id ev (pd_events s) = Some e0 \<and> eventKey e = eventKey e0 \<and>
    we_payloadHash e = we_payloadHash e0 \<and> e \<in> set (pd_events s') \<and> movesAttempt i s s'"
  using assms
proof (cases rule: applyWebhookResult_InrE)
  case idle
  then show ?thesis by (auto intro: movesAttempt_same dest: fetch_SomeD)
next
  case (report e0)
  from report(5) show ?thesis
  proof (cases rule: applyReport_InrE)
    case (1 la reported t ts s2)
    have "fetch we_id ev (pd_events s2) = map_option (\<lambda>e. e\<lparr>we_attemptId := Some (pa_id (la_attempt la)),
        we_transactionId := Some (pt_id t)\<rparr>) (fetch we_id ev (pd_events s))"
      by (simp add: 1(6) fetch_modify)
    with settle_event [OF 1(7)] report(1) have "eventKey e = eventKey e0 \<and> we_payloadHash e = we_payloadHash e0 \<and>
        fetch we_id ev (pd_events s') = Some e" by auto
    then show ?thesis using report(1) applyReport_moves [OF report(5)] by (auto dest: fetch_SomeD)
  qed
qed

lemma find_modify_keep:
  assumes "\<And>r. q (f r) = q r"
  shows "find q (modify key k f rows) = map_option (\<lambda>r. if key r = k then f r else r) (find q rows)"
  using assms by (induction rows) auto

lemma bindPayload_moves:
  assumes "movesAttempt i s s'"
  shows "bindPayload provider p s' = bindPayload provider p s"
proof -
  from assms obtain f where f: "pd_attempts s' = modify pa_id i f (pd_attempts s)" "\<And>a. sameDeal (f a) a"
    unfolding movesAttempt_def by blast
  have find: "find (\<lambda>a. pa_provider a = Paymob \<and> pa_providerOrderId a = Some j) (pd_attempts s') =
      map_option (\<lambda>r. if pa_id r = i then f r else r)
        (find (\<lambda>a. pa_provider a = Paymob \<and> pa_providerOrderId a = Some j) (pd_attempts s))" for j
    unfolding f(1) using f(2) by (intro find_modify_keep) (simp add: sameDeal_def)
  have id: "pa_id (if pa_id r = i then f r else r) = pa_id r" for r using f(2) by (simp add: sameDeal_def)
  show ?thesis
  proof (cases "nonEmpty (np_providerOrderId p)")
    case (Some j)
    then show ?thesis unfolding bindPayload_def Some Option.bind.simps find
      by (cases "find (\<lambda>a. pa_provider a = Paymob \<and> pa_providerOrderId a = Some j) (pd_attempts s)")
        (simp_all add: id del: if_split)
  qed (simp add: bindPayload_def)
qed

lemma findEvent_stored:
  assumes "payOk s" and "e \<in> set (pd_events s)"
  shows "findEvent (we_provider e) (we_eventId e) s = Some e"
proof -
  have "find (\<lambda>x. eventKey x = eventKey e) (pd_events s) = Some e"
    using assms by (intro find_distinct_key) (simp_all add: payOk_def)
  then show ?thesis by (simp add: findEvent_def eventKey_def)
qed

text \<open>A request that is served finds its event processed when it comes again.\<close>

lemma handleVerified_again:
  assumes ok: "payOk s" and run: "handleVerified pf now ids provider body h s = (Inr (e, again), s')"
    and processed1: "we_processingStatus e = WP_PROCESSED"
  shows "handleVerified pf now' ids' provider body h s' = (Inr (e, True), s')"
proof -
  let ?id = "providerWebhookEventId (pp_gateway pf) body provider h"
  let ?norm = "payParse (normalizeProviderWebhookPayload (pp_gateway pf) body provider h)"
  obtain p payload where n: "?norm = Inr p" and b: "bindPayload provider p s = Inr payload"
    using run by (auto simp: handleVerified_def Let_def split: sum.splits)
  have served: "handleVerified pf now' ids' provider body h s' = (Inr (e, True), s')"
    if "findEvent provider ?id s' = Some e" "we_payloadHash e = h" "movesAttempt i s s'" for i
    using that n b processed1 bindPayload_moves [OF that(3)] by (simp add: handleVerified_def Let_def)
  define row where "row = (webhookRow (wi_event ids) provider ?id h (redactMetadata body) SIG_VERIFIED WP_PENDING)
      \<lparr>we_attemptId := Some (np_attemptId payload), we_normalizedPayload := Some (payloadJson payload)\<rparr>"
  have row: "we_provider row = provider" "we_eventId row = ?id" "we_payloadHash row = h"
    by (simp_all add: row_def webhookRow_def)
  consider (replayed) "findEvent provider ?id s = Some e" "we_payloadHash e = h" "s' = s"
    | (processed) "processWebhook pf now ids provider row payload s = (Inr (e, again), s')"
    using run n b by (auto simp: handleVerified_def Let_def row_def split: option.splits if_splits)
  then show ?thesis
  proof cases
    case replayed
    then show ?thesis using served movesAttempt_same by blast
  next
    case processed
    note ok' = processWebhook_ok [OF ok processed]
    from processed obtain event s1 where up: "upsertWebhookEvent pf row s = Inr (event, s1)"
      and hash: "we_payloadHash event = we_payloadHash row"
      and app: "applyWebhookResult pf now ids (we_id event) provider payload s1 = Inr (e, s')"
      by (cases rule: processWebhook_cases) auto
    have ok1: "payOk s1" using upsertWebhookEvent_ok [OF ok up] .
    have ev: "event \<in> set (pd_events s1)" "eventKey event = (provider, ?id)"
      using up row by (auto elim!: upsertWebhookEvent_InrE simp: findEvent_def eventKey_def dest: find_some_in)
    have "fetch we_id (we_id event) (pd_events s1) = Some event"
      using ok1 ev(1) by (intro fetch_distinct) (simp_all add: payOk_def)
    with applyWebhook_event [OF app] obtain i where e: "eventKey e = eventKey event" "we_payloadHash e = we_payloadHash event"
        "e \<in> set (pd_events s')" "movesAttempt i s1 s'" by auto
    have "movesAttempt i s s'"
      using e(4) upsertWebhookEvent_frame(1) [OF up] movesAttempt_trans movesAttempt_same by metis
    moreover have "findEvent provider ?id s' = Some e"
      using findEvent_stored [OF ok' e(3)] e(1) ev(2) by (simp add: eventKey_def)
    ultimately show ?thesis using served e(2) hash row(3) by simp
  qed
qed

text \<open>
  C5. A webhook that was processed changes nothing when it is delivered again, at whatever time: the
  answer is the stored event, marked as a repetition, and every table stays as it is.
\<close>

theorem webhook_redelivery_idle:
  assumes "payOk s" and "handlePaymentWebhook pf now ids provider req s = (Inr (e, again), s')"
    and "we_processingStatus e = WP_PROCESSED"
  shows "handlePaymentWebhook pf now' ids' provider req s' = (Inr (e, True), s')"
proof -
  obtain body where body: "payParse (parseWebhookJson pf (wr_rawBody req)) = Inr body"
      "webhookVerified pf provider req body"
    and run: "handleVerified pf now ids provider body (webhookPayloadHash pf provider req body) s = (Inr (e, again), s')"
    using assms(2) by (auto simp: handlePaymentWebhook_def Let_def split: sum.splits if_splits)
  from handleVerified_again [OF assms(1) run assms(3)] body show ?thesis by (simp add: handlePaymentWebhook_def)
qed

theorem webhook_redelivery_idle_witness:
  "\<exists>e. handlePaymentWebhook samplePay 70 sampleIds Paytabs sampleWebhook (snd sampleServed) =
    (Inr (e, True), snd sampleServed)"
proof -
  obtain e again where e: "fst sampleServed = Inr (e, again)" "we_processingStatus e = WP_PROCESSED"
    using sampleServed_answer by (auto split: sum.splits)
  have "handlePaymentWebhook samplePay 50 sampleIds Paytabs sampleWebhook sampleShop = (Inr (e, again), snd sampleServed)"
    using e(1) by (metis sampleServed_def prod.collapse)
  from webhook_redelivery_idle [OF sampleShop_ok this e(2)] show ?thesis by blast
qed

text \<open>
  C13. A body that parses but whose signature does not verify is answered with an error and reaches
  nothing: all that may remain of it is one event that is marked invalid, is linked to no attempt and
  so can never be replayed.
\<close>

theorem unsigned_webhook_inert:
  assumes "payParse (parseWebhookJson pf (wr_rawBody req)) = Inr body" and "\<not> webhookVerified pf provider req body"
    and "handlePaymentWebhook pf now ids provider req s = (r, s')"
  shows "\<not> succeeds r \<and> (s' = s \<or> (\<exists>e. s' = s\<lparr>pd_events := pd_events s @ [e]\<rparr> \<and>
    we_signatureStatus e = SIG_INVALID \<and> \<not> succeeds (replayable pf actor (we_id e) s')))"
proof -
  let ?hash = "gp_sha256Hex (pp_gateway pf) (wr_rawBody req)"
  let ?row = "(webhookRow (wi_event ids) provider (''invalid:'' @ ?hash) ?hash (redactMetadata body)
      SIG_INVALID WP_FAILED)\<lparr>we_errorCode := Some ''INVALID_SIGNATURE''\<rparr>"
  have run: "(case upsertWebhookEvent pf ?row s of Inl e \<Rightarrow> (Inl e, s) | Inr (_, s1) \<Rightarrow> (Inl invalidSignature, s1)) = (r, s')"
    using assms by (simp add: handlePaymentWebhook_def Let_def)
  show ?thesis
  proof (cases "upsertWebhookEvent pf ?row s")
    case (Inl e)
    then show ?thesis using run by auto
  next
    case (Inr x)
    then obtain e where up: "upsertWebhookEvent pf ?row s = Inr (e, s')" and r: "r = Inl invalidSignature"
      using run by (cases x) simp
    from up show ?thesis
    proof (cases rule: upsertWebhookEvent_InrE)
      case there
      then show ?thesis using r by simp
    next
      case added
      have "we_signatureStatus e = SIG_INVALID" "we_attemptId e = None" "we_id e \<notin> we_id ` set (pd_events s)"
        using added(2,3) by (simp_all add: webhookRow_def isPaymentUuid_def)
      moreover from this(3) have "fetch we_id (we_id e) (pd_events s') = Some e"
        unfolding added(4) by (simp add: fetch_append fetch_None_iff [THEN iffD2])
      moreover from calculation have "\<not> succeeds (replayable pf actor (we_id e) s')"
        by (auto simp: replayable_def succeeds_iff parseWithSchema_eq uuidSchema_def split: option.splits if_splits)
      ultimately show ?thesis using r added(4) by auto
    qed
  qed
qed

definition forgedWebhook :: webhook_request where
  "forgedWebhook = sampleWebhook\<lparr>wr_header := (\<lambda>_. Some ''ab34'')\<rparr>"

theorem unsigned_webhook_inert_witness:
  "\<not> succeeds (fst (handlePaymentWebhook samplePay 50 sampleIds Paytabs forgedWebhook sampleShop))"
proof -
  have "payParse (parseWebhookJson samplePay (wr_rawBody forgedWebhook)) = Inr sampleBody" by code_simp
  moreover have "\<not> webhookVerified samplePay Paytabs forgedWebhook sampleBody" by code_simp
  ultimately show ?thesis using unsigned_webhook_inert by (metis prod.collapse)
qed


section \<open>The machine of attempts\<close>

inductive attempt_step :: "attempt_status \<Rightarrow> attempt_status \<Rightarrow> bool" where
  checked_out: "confirmableStatus st \<Longrightarrow> attempt_step st PA_PENDING"
| confirmed: "confirmableStatus st \<Longrightarrow> attempt_step st PA_PAID"
| closed: "confirmableStatus st \<Longrightarrow> st' \<in> {PA_FAILED, PA_EXPIRED, PA_CANCELLED} \<Longrightarrow> attempt_step st st'"
| reversed: "st' \<in> {PA_REFUNDED, PA_DISPUTED, PA_CANCELLED} \<Longrightarrow> attempt_step st st'"

inductive_cases attempt_stepE: "attempt_step st st'"

text \<open>Every attempt is still there, and moved along the machine.\<close>

definition attemptsMove :: "pay_db \<Rightarrow> pay_db \<Rightarrow> bool" where
  "attemptsMove s s' =
    (\<forall>i a. fetch pa_id i (pd_attempts s) = Some a \<longrightarrow>
      (\<exists>a'. fetch pa_id i (pd_attempts s') = Some a' \<and> attempt_step\<^sup>*\<^sup>* (pa_status a) (pa_status a')))"

lemma attemptsMove_refl: "attemptsMove s s"
  by (auto simp: attemptsMove_def)

lemma attemptsMove_trans: "attemptsMove a b \<Longrightarrow> attemptsMove b c \<Longrightarrow> attemptsMove a c"
  unfolding attemptsMove_def by (meson rtranclp_trans)

lemma attemptsMove_same: "pd_attempts s' = pd_attempts s \<Longrightarrow> attemptsMove s s'"
  by (auto simp: attemptsMove_def)

lemma attemptsMove_row:
  assumes "pd_attempts s' = modify pa_id i f (pd_attempts s)" and "\<And>a. pa_id (f a) = pa_id a"
    and "\<And>a. fetch pa_id i (pd_attempts s) = Some a \<Longrightarrow> attempt_step\<^sup>*\<^sup>* (pa_status a) (pa_status (f a))"
  shows "attemptsMove s s'"
  using assms by (auto simp: attemptsMove_def fetch_modify)

lemma release_move:
  assumes "fetch pa_id (pa_id (la_attempt la)) (pd_attempts s) = Some (la_attempt la)"
    and "st \<in> {PA_FAILED, PA_EXPIRED, PA_CANCELLED}"
  shows "attemptsMove s (releaseFailedAttempt la st code s)"
proof (cases "la_payment la \<noteq> None \<or> \<not> confirmableStatus (pa_status (la_attempt la))")
  case True
  then show ?thesis by (auto simp: releaseFailedAttempt_def attemptsMove_refl)
next
  case False
  then show ?thesis
    using assms
    by (intro attemptsMove_row [where i = "pa_id (la_attempt la)"
          and f = "\<lambda>x. x\<lparr>pa_status := st, pa_failureCode := Some code\<rparr>"])
      (auto simp: releaseFailedAttempt_def Let_def intro!: r_into_rtranclp closed)
qed

lemma hold_move:
  assumes "fetch pa_id (pa_id (la_attempt la)) (pd_attempts s) = Some (la_attempt la)"
  shows "attemptsMove s (holdCollection pf la payload s)"
  unfolding holdCollection_def Let_def
  by (rule attemptsMove_trans [OF _ attemptsMove_row [OF modifyAttempt_frame(1)]])
    (auto intro: release_move [OF assms] split: option.splits)

lemma settle_move:
  assumes run: "settleReport pf now ids ev la payload reported t s = Inr (e, s')"
    and own: "fetch pa_id (pa_id (la_attempt la)) (pd_attempts s) = Some (la_attempt la)"
  shows "attemptsMove s s'"
  using run
proof (cases rule: settleReport_InrE)
  case (held code)
  then show ?thesis using hold_move [OF own] attemptsMove_same [OF finish_steps(1)] attemptsMove_trans by blast
next
  case (paying s1)
  from paying(3) have "attemptsMove s s1"
  proof (cases rule: confirmPaidAttempt_InrE)
    case settled
    then show ?thesis by (simp add: attemptsMove_refl)
  next
    case (confirmed lg1 lg2 a payment)
    then have "confirmableStatus (pa_status a)" by (simp add: confirmationBlocker_def blocker_nil_iff)
    then show ?thesis
      using confirmed own by (intro attemptsMove_row [OF confirmed(7)]) (auto intro!: r_into_rtranclp attempt_step.confirmed)
  qed
  then show ?thesis using attemptsMove_same [OF finish_steps(1) [OF paying(4)]] attemptsMove_trans by blast
next
  case reversing
  have "attemptsMove s (reverseAttempt la payload t s)"
  proof (rule attemptsMove_row [where i = "pa_id (la_attempt la)"])
    show "pd_attempts (reverseAttempt la payload t s) = modify pa_id (pa_id (la_attempt la))
        (\<lambda>x. x\<lparr>pa_status := (case pt_status t of PT_REFUNDED \<Rightarrow> PA_REFUNDED | PT_DISPUTED \<Rightarrow> PA_DISPUTED
           | PT_CANCELLED \<Rightarrow> PA_CANCELLED | _ \<Rightarrow> attemptStatusOf (np_status payload)),
           pa_failureCode := Some ''PAYMENT_REVERSAL_REVIEW_REQUIRED''\<rparr>) (pd_attempts s)"
      by (simp add: reverseAttempt_def Let_def split: option.splits)
  qed (use reversing(1) in \<open>auto simp: isReversal_def attemptStatusOf_def intro!: r_into_rtranclp reversed
      split: transaction_status.splits\<close>)
  then show ?thesis using attemptsMove_same [OF finish_steps(1) [OF reversing(2)]] attemptsMove_trans by blast
next
  case releasing
  have "attemptStatusOf (np_status payload) \<in> {PA_FAILED, PA_EXPIRED, PA_CANCELLED}"
    using releasing(1) by (auto simp: attemptStatusOf_def)
  then show ?thesis
    using release_move [OF own] attemptsMove_same [OF finish_steps(1) [OF releasing(2)]] attemptsMove_trans by blast
next
  case waiting
  have "attemptsMove s (updateOpenAttemptStatus la (np_status payload) s)"
  proof (cases "la_payment la \<noteq> None \<or> \<not> confirmableStatus (pa_status (la_attempt la))")
    case True
    then show ?thesis by (auto simp: updateOpenAttemptStatus_def attemptsMove_refl)
  next
    case False
    then show ?thesis
      using own waiting(1)
      by (intro attemptsMove_row [where i = "pa_id (la_attempt la)" and f = "\<lambda>x. x\<lparr>pa_status := PA_PENDING\<rparr>"])
        (auto simp: updateOpenAttemptStatus_def attemptStatusOf_def intro!: r_into_rtranclp checked_out)
  qed
  then show ?thesis using attemptsMove_same [OF finish_steps(1) [OF waiting(2)]] attemptsMove_trans by blast
qed


section \<open>The machine of transactions\<close>

text \<open>
  The state of a transaction: its status, and whether money was collected with it. A step is what one
  reported event may write: anything over a status that is pending, failed or cancelled without money
  (a failed one may become pending again), and a refund, a dispute or a cancellation over a paid one.
\<close>

definition txState :: "payment_transaction \<Rightarrow> transaction_status \<times> bool" where
  "txState t = (pt_status t, pt_paidAt t \<noteq> None)"

inductive tx_step :: "transaction_status \<times> bool \<Rightarrow> transaction_status \<times> bool \<Rightarrow> bool" where
  reported: "st \<in> {PT_PENDING, PT_FAILED} \<or> (st = PT_CANCELLED \<and> \<not> p) \<Longrightarrow> (p \<longrightarrow> p') \<Longrightarrow> tx_step (st, p) (st', p')"
| turned: "st' \<in> {PT_REFUNDED, PT_DISPUTED, PT_CANCELLED} \<Longrightarrow> (p \<longrightarrow> p') \<Longrightarrow> tx_step (PT_PAID, p) (st', p')"

inductive_cases tx_stepE: "tx_step (st, p) y"

definition transactionsMove :: "pay_db \<Rightarrow> pay_db \<Rightarrow> bool" where
  "transactionsMove s s' =
    (\<forall>i t. fetch pt_id i (pd_transactions s) = Some t \<longrightarrow>
      (\<exists>t'. fetch pt_id i (pd_transactions s') = Some t' \<and> pt_attemptId t' = pt_attemptId t \<and>
         (pt_paidAt t \<noteq> None \<longrightarrow> pt_paidAt t' = pt_paidAt t) \<and> tx_step\<^sup>*\<^sup>* (txState t) (txState t')))"

lemma transactionsMove_refl: "transactionsMove s s"
  by (auto simp: transactionsMove_def)

lemma transactionsMove_trans: "transactionsMove a b \<Longrightarrow> transactionsMove b c \<Longrightarrow> transactionsMove a c"
  unfolding transactionsMove_def by (metis rtranclp_trans)

lemma transactionsMove_same: "pd_transactions s' = pd_transactions s \<Longrightarrow> transactionsMove s s'"
  by (auto simp: transactionsMove_def)

lemma tx_step_unpreserved:
  assumes "\<not> preserveTransactionState (pt_status old) st (pt_paidAt old)"
    and "pt_paidAt old \<noteq> None \<longrightarrow> pt_paidAt t = pt_paidAt old" and "pt_status t = st"
  shows "tx_step (txState old) (txState t)"
proof (cases "pt_status old")
  case PT_PAID
  then show ?thesis using assms by (auto simp: txState_def preserveTransactionState_def intro!: turned split: if_splits)
qed (use assms in \<open>auto simp: txState_def preserveTransactionState_def intro!: reported split: if_splits\<close>)

lemma upsert_move:
  assumes "upsertPaymentTransaction i input s = Inr (t, s')" and "distinct (map pt_id (pd_transactions s))"
  shows "transactionsMove s s'"
  using assms(1)
proof (cases rule: upsertPaymentTransaction_cases)
  case kept
  then show ?thesis by (simp add: transactionsMove_refl)
next
  case (rewritten old)
  have own: "fetch pt_id (pt_id old) (pd_transactions s) = Some old"
    using assms(2) rewritten(1) by (rule fetch_distinct)
  have t: "pt_id t = pt_id old" "pt_attemptId t = pt_attemptId old"
    "pt_paidAt old \<noteq> None \<longrightarrow> pt_paidAt t = pt_paidAt old" "pt_status t = ti_status input"
    using rewritten(4) by auto
  have step: "tx_step\<^sup>*\<^sup>* (txState old) (txState t)"
    by (rule r_into_rtranclp) (rule tx_step_unpreserved [OF rewritten(3) t(3,4)])
  show ?thesis
    unfolding transactionsMove_def
  proof (intro allI impI)
    fix j x assume x: "fetch pt_id j (pd_transactions s) = Some x"
    show "\<exists>t'. fetch pt_id j (pd_transactions s') = Some t' \<and> pt_attemptId t' = pt_attemptId x \<and>
       (pt_paidAt x \<noteq> None \<longrightarrow> pt_paidAt t' = pt_paidAt x) \<and> tx_step\<^sup>*\<^sup>* (txState x) (txState t')"
    proof (cases "j = pt_id old")
      case True
      then have "x = old" using own x by simp
      then show ?thesis
        using True own t rewritten(5) step
        by (intro exI [of _ t]) (simp add: fetch_replace)
    next
      case False
      then show ?thesis using x t(1) rewritten(5) by (intro exI [of _ x]) (simp add: fetch_replace)
    qed
  qed
next
  case created
  then show ?thesis
    by (elim createTransaction_InrE) (auto simp: transactionsMove_def fetch_append split: option.splits)
qed


section \<open>Runs\<close>

definition rowsMove :: "pay_db \<Rightarrow> pay_db \<Rightarrow> bool" where
  "rowsMove s s' = (attemptsMove s s' \<and> transactionsMove s s')"

lemma rowsMove_refl [simp]: "rowsMove s s"
  by (simp add: rowsMove_def attemptsMove_refl transactionsMove_refl)

lemma rowsMove_trans: "rowsMove a b \<Longrightarrow> rowsMove b c \<Longrightarrow> rowsMove a c"
  using attemptsMove_trans transactionsMove_trans unfolding rowsMove_def by blast

lemma rowsMove_same:
  "pd_attempts s' = pd_attempts s \<Longrightarrow> pd_transactions s' = pd_transactions s \<Longrightarrow> rowsMove s s'"
  by (simp add: rowsMove_def attemptsMove_same transactionsMove_same)

lemma finish_rows: "finishEvent now ev st code s = Inr (e, s') \<Longrightarrow> rowsMove s s'"
  by (rule rowsMove_same) (rule finish_steps, assumption)+

lemma upsertEvent_rows: "upsertWebhookEvent pf row s = Inr (e, s') \<Longrightarrow> rowsMove s s'"
  by (rule rowsMove_same) (rule upsertWebhookEvent_frame, assumption)+

lemma applyWebhook_rows:
  assumes ok: "payOk s" and run: "applyWebhookResult pf now ids ev provider payload s = Inr (e, s')"
  shows "rowsMove s s'"
  using run
proof (cases rule: applyWebhookResult_InrE)
  case (report e0)
  from report(5) show ?thesis
  proof (cases rule: applyReport_InrE)
    case (1 la reported t ts s2)
    have own: "fetch pa_id (pa_id (la_attempt la)) (pd_attempts s2) = Some (la_attempt la)"
      using 1(6) loadAttempt_SomeD [OF 1(1)] by simp
    have b: "pd_transactions s' = pd_transactions s2"
      using settle_books [OF 1(7) own] 1(6) ok by (simp add: payOk_def)
    have "transactionsMove s s2"
      using upsert_move [OF 1(5)] ok 1(6) by (simp add: payOk_def transactionsMove_def)
    moreover have "attemptsMove s s2" using 1(6) by (simp add: attemptsMove_same)
    ultimately have "rowsMove s s2" by (simp add: rowsMove_def)
    moreover have "rowsMove s2 s'" using settle_move [OF 1(7) own] b by (simp add: rowsMove_def transactionsMove_same)
    ultimately show ?thesis by (rule rowsMove_trans)
  qed
qed simp

lemma applyWebhookState_rows:
  "payOk s \<Longrightarrow> rowsMove s (snd (applyWebhookPaymentState pf now ids ev provider payload s))"
  by (auto simp: applyWebhookPaymentState_def commit_def dest: applyWebhook_rows split: sum.splits)

lemma processWebhook_rows:
  assumes ok: "payOk s" and run: "processWebhook pf now ids provider row payload s = (r, s')"
  shows "rowsMove s s'"
  using run
proof (cases rule: processWebhook_cases)
  case (applied event s1 processed)
  from upsertEvent_rows [OF applied(1)] applyWebhook_rows [OF upsertWebhookEvent_ok [OF ok applied(1)] applied(3)]
  show ?thesis by (rule rowsMove_trans)
next
  case (failed event s1 err e)
  from upsertEvent_rows [OF failed(1)] finish_rows [OF failed(4)] show ?thesis by (rule rowsMove_trans)
qed (use upsertEvent_rows in auto)

lemma handlePaymentWebhook_rows:
  assumes "payOk s"
  shows "rowsMove s (snd (handlePaymentWebhook pf now ids provider req s))"
proof -
  have p: "rowsMove s (snd (processWebhook pf now ids provider row payload s))" for row payload
    using processWebhook_rows [OF assms] by (metis prod.collapse)
  have "rowsMove s (recordWebhookPayloadMismatch pf e h j s)" for e h j
    by (rule rowsMove_same) (simp_all add: recordWebhookPayloadMismatch_def Let_def)
  with p have "rowsMove s (snd (handleVerified pf now ids provider body h s))" for body h
    by (auto simp: handleVerified_def Let_def split: sum.splits option.splits)
  then show ?thesis
    using upsertEvent_rows by (auto simp: handlePaymentWebhook_def Let_def split: sum.splits prod.splits)
qed

lemma replay_rows:
  assumes ok: "payOk s"
  shows "rowsMove s (snd (replayAdminPaymentWebhookEvent pf now ids actor eventId s))"
proof (cases "replayable pf actor eventId s")
  case (Inr x)
  obtain event attempt where x: "x = (event, attempt)" by (cases x)
  let ?up = "updateEvent (we_id event) (\<lambda>e. e\<lparr>we_replayCount := we_replayCount e + 1,
      we_processingStatus := WP_PENDING, we_errorCode := None\<rparr>) s"
  show ?thesis
  proof (cases ?up)
    case (Inr y)
    then obtain replayed s1 where up: "?up = Inr (replayed, s1)" by (cases y) simp
    let ?s2 = "if pp_auditUp pf then auditPay (replayEvent actor replayed attempt) s1 else s1"
    have s1: "pd_attempts s1 = pd_attempts s" "pd_transactions s1 = pd_transactions s" "payOk s1"
      using up ok by (auto elim!: updateEvent_InrE intro!: payOk_events [OF ok] simp: payOk_def map_key_modify map_modify_col)
    have "rowsMove s ?s2" by (rule rowsMove_same) (simp_all add: s1)
    moreover have "payOk ?s2" by (simp add: s1(3))
    ultimately have "rowsMove s (snd (applyWebhookPaymentState pf now ids ev provider payload ?s2))" for ev provider payload
      using applyWebhookState_rows rowsMove_trans by blast
    with \<open>rowsMove s ?s2\<close> show ?thesis
      using \<open>replayable pf actor eventId s = Inr x\<close> x up
      by (cases "pp_auditUp pf") (simp_all add: replayAdminPaymentWebhookEvent_def Let_def split: option.splits)
  qed (use Inr x in \<open>simp add: replayAdminPaymentWebhookEvent_def\<close>)
qed (simp add: replayAdminPaymentWebhookEvent_def)

lemma expireBatch_rows: "rowsMove s (snd (expireBatch now batch s))"
  by (auto simp: rowsMove_def attemptsMove_def expireBatch_def Let_def fetch_updateWhere openAndExpired_def
      intro!: transactionsMove_same r_into_rtranclp closed)

lemma status_rows: "rowsMove s (snd (getPublicPaymentAttemptStatus pf fe details now i token s))"
proof -
  have "rowsMove s (snd (expireOpenConsultationPaymentAttempts now j limit s))" for j limit
    by (simp add: expireOpenConsultationPaymentAttempts_def expireBatch_rows split: list.splits)
  then show ?thesis
    by (auto simp: getPublicPaymentAttemptStatus_def split: sum.splits option.splits prod.splits) (metis snd_conv)+
qed

lemma attemptToCheckOut_rows:
  assumes ok: "payOk s" and run: "attemptToCheckOut now key fresh s = Inr (a, s')"
    and fresh: "pa_status fresh = PA_CREATED"
  shows "rowsMove s s'" and "fetch pa_id (pa_id a) (pd_attempts s') = Some a" and "confirmableStatus (pa_status a)"
proof -
  have "rowsMove s s' \<and> fetch pa_id (pa_id a) (pd_attempts s') = Some a \<and> confirmableStatus (pa_status a)"
  proof (cases "openAttemptFor now key s")
    case None
    then have a: "a = fresh" "pa_id fresh \<notin> pa_id ` set (pd_attempts s)"
      "s' = s\<lparr>pd_attempts := pd_attempts s @ [fresh]\<rparr>"
      using run by (auto simp: attemptToCheckOut_def insertAttempt_def split: if_splits)
    have "attemptsMove s s'" unfolding a(3) by (auto simp: attemptsMove_def fetch_append)
    moreover have "fetch pa_id (pa_id fresh) (pd_attempts s) = None" using a(2) by (simp add: fetch_None_iff)
    ultimately show ?thesis using a fresh
      by (simp add: rowsMove_def transactionsMove_same fetch_append confirmableStatus_def)
  next
    case (Some x)
    then have x: "x \<in> set (pd_attempts s)" "confirmableStatus (pa_status x)"
      by (auto simp: openAttemptFor_def dest: find_some_in)
    then have "fetch pa_id (pa_id x) (pd_attempts s) = Some x"
      using ok by (intro fetch_distinct) (simp_all add: payOk_def)
    with Some x run show ?thesis by (simp add: attemptToCheckOut_def)
  qed
  then show "rowsMove s s'" "fetch pa_id (pa_id a) (pd_attempts s') = Some a" "confirmableStatus (pa_status a)"
    by simp_all
qed

lemma checkOutAttempt_rows:
  assumes own: "fetch pa_id (pa_id attempt) (pd_attempts s) = Some attempt" "confirmableStatus (pa_status attempt)"
    and run: "checkOutAttempt pf now provider input attempt s = Inr (a, s')"
  shows "rowsMove s s'"
proof -
  from run obtain checkout e s1 where up: "updateAttempt (withCheckout checkout attempt) s = Inr s1" "s' = auditPay e s1"
    unfolding checkOutAttempt_def Let_def andThen_eq_Inr by blast
  let ?u = "withCheckout checkout attempt"
  have u: "pa_id ?u = pa_id attempt" "pa_status ?u = PA_PENDING" by (simp_all add: withCheckout_def)
  have s1: "s1 = s\<lparr>pd_attempts := modify pa_id (pa_id attempt) (\<lambda>_. ?u) (pd_attempts s)\<rparr>"
    using up(1) u(1) by (auto simp: updateAttempt_def split: if_splits)
  have step: "attempt_step\<^sup>*\<^sup>* (pa_status attempt) PA_PENDING"
    using own(2) by (intro r_into_rtranclp checked_out)
  have "attemptsMove s s'"
    using own(1) u step unfolding attemptsMove_def up(2) s1 by (auto simp: fetch_replace)
  then show ?thesis by (simp add: rowsMove_def transactionsMove_same up(2) s1)
qed

lemma createAttempt_rows:
  assumes ok: "payOk s" and run: "createConsultationPaymentAttempt pf now newId input s = Inr (a, s')"
  shows "rowsMove s s'"
proof -
  consider "s' = s" | fresh key provider attempt s1 where "attemptToCheckOut now key fresh s = Inr (attempt, s1)"
      "pa_status fresh = PA_CREATED" "checkOutAttempt pf now provider input attempt s1 = Inr (a, s')"
    using run unfolding createConsultationPaymentAttempt_def Let_def
    by (auto simp: freshAttempt_def split: option.splits)
  then show ?thesis
  proof cases
    case (2 fresh key provider attempt s1)
    note r = attemptToCheckOut_rows [OF ok 2(1,2)]
    from r(1) checkOutAttempt_rows [OF r(2,3) 2(3)] show ?thesis by (rule rowsMove_trans)
  qed simp
qed

lemma payServe_rows: "payOk s \<Longrightarrow> rowsMove s (snd (payServe pf details q s))"
  by (cases q) (auto simp: commit_def expireBatch_rows handlePaymentWebhook_rows replay_rows status_rows
      dest: createAttempt_rows split: sum.splits)

lemma run_rows: "payOk s \<Longrightarrow> rowsMove s (serveAll (payServe pf details) qs s)"
  by (rule payments.serve_rel [where R = rowsMove]) (auto intro: payServe_rows rowsMove_trans)

lemma attempt_closed_stays:
  "attempt_step\<^sup>*\<^sup>* st st' \<Longrightarrow> \<not> confirmableStatus st \<Longrightarrow> st \<noteq> PA_PAID \<Longrightarrow> \<not> confirmableStatus st' \<and> st' \<noteq> PA_PAID"
  by (induction rule: rtranclp_induct) (auto simp: confirmableStatus_def elim!: attempt_stepE)

lemma tx_turned_stays:
  "tx_step\<^sup>*\<^sup>* x y \<Longrightarrow> fst x \<in> {PT_REFUNDED, PT_DISPUTED} \<or> x = (PT_CANCELLED, True) \<Longrightarrow> y = x"
proof (induction rule: rtranclp_induct)
  case (step y z)
  then have "y = x" by simp
  then show ?case using step.hyps(2) step.prems by (cases x) (auto elim: tx_step.cases)
qed simp

lemma tx_collected_stays:
  "tx_step\<^sup>*\<^sup>* x y \<Longrightarrow> x = (PT_PAID, True) \<Longrightarrow>
    snd y \<and> fst y \<in> {PT_PAID, PT_REFUNDED, PT_DISPUTED, PT_CANCELLED}"
proof (induction rule: rtranclp_induct)
  case (step y z)
  then show ?case by (cases y) (auto elim!: tx_stepE)
qed simp

text \<open>
  C11. Over any webhooks, replays, expiries and bookings an attempt moves along its machine only: it
  is paid or closed from an open state, and reversed from any; one that failed, expired, was
  cancelled or reversed is never open or paid again.
\<close>

theorem attempts_follow_machine:
  assumes "payOk s" and "fetch pa_id i (pd_attempts s) = Some a"
  shows "\<exists>a'. fetch pa_id i (pd_attempts (serveAll (payServe pf details) qs s)) = Some a' \<and>
    attempt_step\<^sup>*\<^sup>* (pa_status a) (pa_status a') \<and>
    (\<not> confirmableStatus (pa_status a) \<and> pa_status a \<noteq> PA_PAID \<longrightarrow>
       \<not> confirmableStatus (pa_status a') \<and> pa_status a' \<noteq> PA_PAID)"
  using run_rows [OF assms(1)] assms(2) attempt_closed_stays unfolding rowsMove_def attemptsMove_def by blast

text \<open>
  C12. Whatever the gateway reports, and in whatever order its webhooks arrive, a stored transaction
  keeps its attempt and, once money was collected with it, the time of the collection; it moves along
  \<open>tx_step\<close>; one that was refunded or disputed, or cancelled after its money was collected, keeps that
  status; and a paid one whose money was collected is never pending or failed again.
\<close>

theorem collected_transactions_stay:
  assumes "payOk s" and "fetch pt_id i (pd_transactions s) = Some t"
  shows "\<exists>t'. fetch pt_id i (pd_transactions (serveAll (payServe pf details) qs s)) = Some t' \<and>
    pt_attemptId t' = pt_attemptId t \<and> (pt_paidAt t \<noteq> None \<longrightarrow> pt_paidAt t' = pt_paidAt t) \<and>
    tx_step\<^sup>*\<^sup>* (txState t) (txState t') \<and>
    (pt_status t \<in> {PT_REFUNDED, PT_DISPUTED} \<or> (pt_status t = PT_CANCELLED \<and> pt_paidAt t \<noteq> None) \<longrightarrow>
       pt_status t' = pt_status t) \<and>
    (pt_status t = PT_PAID \<and> pt_paidAt t \<noteq> None \<longrightarrow>
       pt_status t' \<in> {PT_PAID, PT_REFUNDED, PT_DISPUTED, PT_CANCELLED})"
proof -
  obtain t' where t': "fetch pt_id i (pd_transactions (serveAll (payServe pf details) qs s)) = Some t'"
      "pt_attemptId t' = pt_attemptId t" "pt_paidAt t \<noteq> None \<longrightarrow> pt_paidAt t' = pt_paidAt t"
      "tx_step\<^sup>*\<^sup>* (txState t) (txState t')"
    using run_rows [OF assms(1)] assms(2) unfolding rowsMove_def transactionsMove_def by blast
  moreover have "pt_status t \<in> {PT_REFUNDED, PT_DISPUTED} \<or> (pt_status t = PT_CANCELLED \<and> pt_paidAt t \<noteq> None) \<longrightarrow>
      pt_status t' = pt_status t"
    using tx_turned_stays [OF t'(4)] by (auto simp: txState_def)
  moreover have "pt_status t = PT_PAID \<and> pt_paidAt t \<noteq> None \<longrightarrow>
      pt_status t' \<in> {PT_PAID, PT_REFUNDED, PT_DISPUTED, PT_CANCELLED}"
    using tx_collected_stays [OF t'(4)] by (auto simp: txState_def)
  ultimately show ?thesis by blast
qed

theorem attempts_follow_machine_witness:
  "\<exists>a'. fetch pa_id ''a1'' (pd_attempts (serveAll (payServe samplePay (\<lambda>_. undefined))
       [Webhook 50 sampleIds Paytabs sampleWebhook] sampleShop)) = Some a' \<and>
    attempt_step\<^sup>*\<^sup>* PA_PENDING (pa_status a')"
proof -
  have "fetch pa_id ''a1'' (pd_attempts sampleShop) = Some sampleAttempt"
    by (simp add: sampleShop_def sampleAttempt_def)
  from attempts_follow_machine [OF sampleShop_ok this, of samplePay "\<lambda>_. undefined"
      "[Webhook 50 sampleIds Paytabs sampleWebhook]"]
  show ?thesis by (auto simp: sampleAttempt_def simp del: serveAll.simps)
qed

definition refundedShop :: pay_db where
  "refundedShop = sampleShop\<lparr>pd_transactions := [\<lparr>pt_id = ''x0'', pt_attemptId = ''a1'', pt_provider = Paytabs,
     pt_providerTransactionId = Some ''t9'', pt_rawStatus = None, pt_status = PT_REFUNDED, pt_amount = 350,
     pt_currency = EGP, pt_paidAt = Some 40\<rparr>]\<rparr>"

lemma refundedShop_ok: "payOk refundedShop"
  using sampleShop_ok by (simp add: refundedShop_def payOk_def)

theorem collected_transactions_stay_witness:
  "\<exists>t'. fetch pt_id ''x0'' (pd_transactions (serveAll (payServe samplePay (\<lambda>_. undefined))
       [Webhook 50 sampleIds Paytabs sampleWebhook] refundedShop)) = Some t' \<and>
    pt_paidAt t' = Some 40 \<and> pt_status t' = PT_REFUNDED"
proof -
  let ?t = "hd (pd_transactions refundedShop)"
  have t: "fetch pt_id ''x0'' (pd_transactions refundedShop) = Some ?t" "pt_status ?t = PT_REFUNDED"
    "pt_paidAt ?t = Some 40"
    by (simp_all add: refundedShop_def)
  from collected_transactions_stay [OF refundedShop_ok t(1), of samplePay "\<lambda>_. undefined"
      "[Webhook 50 sampleIds Paytabs sampleWebhook]"] t(2,3)
  show ?thesis by (auto simp del: serveAll.simps)
qed

end
