(* ===== verification/Availability.thy ===== *)
theory Availability
  imports PaymentSamples Conflicts
begin

text \<open>
  The times a consultation can be booked:
  \<open>src/src/server/consultations/consultation-availability-service.ts\<close>. A date is its text, a time of
  the day is its text or a number of minutes, an instant is a number of milliseconds; a slot keeps
  its instants where the code keeps their printed form. The offset of Cairo's clock at an instant,
  which the platform's time zone data gives, is a parameter.
\<close>

section \<open>Clocks\<close>

record slot_platform =
  sp_offset :: "int \<Rightarrow> int"
  sp_issues :: "string \<Rightarrow> error_detail list"
  sp_isUuid :: "string \<Rightarrow> bool"
  sp_schemaIssues :: "json \<Rightarrow> error_detail list"
  sp_auditUp :: bool

definition minuteMs :: int where "minuteMs = 60000"

text \<open>The local clock, which shows no seconds, and the local calendar.\<close>

definition wallTimeAt :: "slot_platform \<Rightarrow> int \<Rightarrow> int" where
  "wallTimeAt sp instant = (instant + sp_offset sp instant) div minuteMs * minuteMs"

definition cairoDateString :: "slot_platform \<Rightarrow> int \<Rightarrow> string" where
  "cairoDateString sp instant = isoDate (instant + sp_offset sp instant)"

text \<open>
  \<open>Date.parse\<close> of a date as the start of its UTC day: the parser takes days up to 31 in any month.
\<close>

definition parseDay :: "string \<Rightarrow> int option" where
  "parseDay s =
    (case splitOn (CHR ''-'') s of
       [y, m, d] \<Rightarrow>
         (let month = int (natOfDigits m); day = int (natOfDigits d)
          in if allDigits y \<and> length y = 4 \<and> allDigits m \<and> length m = 2 \<and> allDigits d \<and> length d = 2 \<and>
                1 \<le> month \<and> month \<le> 12 \<and> 1 \<le> day \<and> day \<le> 31
             then Some ((daysOfCivil (int (natOfDigits y)) month 1 + day - 1) * MS_PER_DAY) else None)
     | _ \<Rightarrow> None)"

definition consultationSlotDateSchema :: "string \<Rightarrow> bool" where
  "consultationSlotDateSchema s = (case parseDay s of None \<Rightarrow> False | Some t \<Rightarrow> isoDate t = s)"

text \<open>Noon in Cairo by its summer offset, from which days are counted.\<close>

definition noonOf :: "string \<Rightarrow> int" where
  "noonOf date = (case parseDay date of None \<Rightarrow> 0 | Some t \<Rightarrow> t + 9 * 3600000)"

definition addCairoDays :: "slot_platform \<Rightarrow> string \<Rightarrow> int \<Rightarrow> string" where
  "addCairoDays sp date offset1 = cairoDateString sp (noonOf date + offset1 * MS_PER_DAY)"

definition cairoWeekday :: "slot_platform \<Rightarrow> string \<Rightarrow> int" where
  "cairoWeekday sp date = utcDay (noonOf date + sp_offset sp (noonOf date))"

definition minutesFromTime :: "string \<Rightarrow> int" where
  "minutesFromTime value =
    (case splitOn (CHR '':'') value of
       hours # minutes # _ \<Rightarrow> int (natOfDigits hours) * 60 + int (natOfDigits minutes)
     | [hours] \<Rightarrow> int (natOfDigits hours) * 60
     | [] \<Rightarrow> 0)"

definition timeFromMinutes :: "int \<Rightarrow> string" where
  "timeFromMinutes value =
    padStart 2 (CHR ''0'') (natToText (nat (value div 60))) @ '':'' @
    padStart 2 (CHR ''0'') (natToText (nat (value mod 60)))"

text \<open>
  The instant at which the local clock shows a time of a date, the first one when it shows it twice;
  none when it skips it. The offsets are probed a day before, at and a day after the wall time read
  as an instant.
\<close>

definition probedOffsets :: "slot_platform \<Rightarrow> int \<Rightarrow> int list" where
  "probedOffsets sp target =
    remdups (map (\<lambda>day. let probe = target + day * MS_PER_DAY in wallTimeAt sp probe - probe) [-1, 0, 1])"

definition cairoDateTime :: "slot_platform \<Rightarrow> string \<Rightarrow> int \<Rightarrow> int option" where
  "cairoDateTime sp date minutes =
    (case parseDay date of
       None \<Rightarrow> None
     | Some t \<Rightarrow>
       if \<not> (0 \<le> minutes \<and> minutes < 1440) then None
       else let target = t + minutes * minuteMs;
                matches = filter (\<lambda>instant. wallTimeAt sp instant = target)
                  (map (\<lambda>offset1. target - offset1) (probedOffsets sp target))
            in case matches of [] \<Rightarrow> None | m # ms \<Rightarrow> Some (foldl min m ms))"


section \<open>Settings\<close>

record availability_day =
  ad_weekday :: int
  ad_enabled :: bool
  ad_start :: string
  ad_end :: string
  ad_modes :: "appointment_mode list"

record closure =
  cl_date :: string
  cl_start :: string
  cl_end :: string
  cl_lawyerId :: "string option"

record availability =
  al_published :: bool
  al_roster :: "(int \<times> string list) list"
  al_closures :: "closure list"
  al_slotDurationMinutes :: int
  al_minLeadHours :: int
  al_bookingWindowDays :: int
  al_days :: "availability_day list"

definition CONSULTATION_AVAILABILITY_SETTING_KEY :: string where
  "CONSULTATION_AVAILABILITY_SETTING_KEY = ''consultation.availability''"

text \<open>\<open>HH:mm\<close>, and \<open>24:00\<close> for an end.\<close>

definition consultationStartTimeSchema :: "string \<Rightarrow> bool" where
  "consultationStartTimeSchema s =
    (case splitOn (CHR '':'') s of
       [h, m] \<Rightarrow> allDigits h \<and> length h = 2 \<and> natOfDigits h \<le> 23 \<and> allDigits m \<and> length m = 2 \<and> natOfDigits m \<le> 59
     | _ \<Rightarrow> False)"

definition consultationEndTimeSchema :: "string \<Rightarrow> bool" where
  "consultationEndTimeSchema s = (s = ''24:00'' \<or> consultationStartTimeSchema s)"

text \<open>The order of texts by their code units.\<close>

fun textLess :: "string \<Rightarrow> string \<Rightarrow> bool" where
  "textLess [] b = (b \<noteq> [])"
| "textLess (_ # _) [] = False"
| "textLess (x # a) (y # b) = (if x = y then textLess a b else codeUnit x < codeUnit y)"

definition consultationModeOfText :: "string \<Rightarrow> appointment_mode option" where
  "consultationModeOfText s = find (\<lambda>m. modeText m = s) [M_PHONE, M_ONLINE, M_OFFICE]"

text \<open>Readers of the members of a JSON object, and of the elements of an array.\<close>

fun readAll :: "('a \<Rightarrow> 'b option) \<Rightarrow> 'a list \<Rightarrow> 'b list option" where
  "readAll f [] = Some []"
| "readAll f (x # xs) =
     (case (f x, readAll f xs) of (Some y, Some ys) \<Rightarrow> Some (y # ys) | _ \<Rightarrow> None)"

definition readInt :: "int \<Rightarrow> int \<Rightarrow> json option \<Rightarrow> int option" where
  "readInt lo hi v =
    (case v of
       Some (JNum s) \<Rightarrow> (if allDigits s \<and> lo \<le> int (natOfDigits s) \<and> int (natOfDigits s) \<le> hi
                        then Some (int (natOfDigits s)) else None)
     | _ \<Rightarrow> None)"

definition readText :: "(string \<Rightarrow> bool) \<Rightarrow> json option \<Rightarrow> string option" where
  "readText ok v = (case v of Some (JStr s) \<Rightarrow> (if ok s then Some s else None) | _ \<Rightarrow> None)"

definition readFlag :: "json option \<Rightarrow> bool option" where
  "readFlag v = (case v of Some (JBool b) \<Rightarrow> Some b | _ \<Rightarrow> None)"

definition readList :: "nat option \<Rightarrow> (json \<Rightarrow> 'a option) \<Rightarrow> json option \<Rightarrow> 'a list option" where
  "readList most f v =
    (case v of
       Some (JArr vs) \<Rightarrow>
         (if (case most of None \<Rightarrow> True | Some n \<Rightarrow> length vs \<le> n) then readAll f vs else None)
     | _ \<Rightarrow> None)"

definition orDefault :: "json option \<Rightarrow> json \<Rightarrow> json option" where
  "orDefault v d = (case v of None \<Rightarrow> Some d | Some _ \<Rightarrow> v)"

definition readMode :: "json \<Rightarrow> appointment_mode option" where
  "readMode v = (case v of JStr s \<Rightarrow> consultationModeOfText s | _ \<Rightarrow> None)"

definition consultationAvailabilityDaySchema :: "json \<Rightarrow> availability_day option" where
  "consultationAvailabilityDaySchema v =
    (case (readInt 0 6 (memberOf v ''weekday''), readFlag (memberOf v ''enabled''),
           readText consultationStartTimeSchema (memberOf v ''start''),
           readText consultationEndTimeSchema (memberOf v ''end''),
           readList None readMode (memberOf v ''modes'')) of
       (Some w, Some en, Some st, Some e, Some ms) \<Rightarrow>
         if ms = [] \<or> minutesFromTime e \<le> minutesFromTime st then None
         else Some \<lparr>ad_weekday = w, ad_enabled = en, ad_start = st, ad_end = e, ad_modes = ms\<rparr>
     | _ \<Rightarrow> None)"

definition rosterSchema :: "slot_platform \<Rightarrow> json \<Rightarrow> (int \<times> string list) option" where
  "rosterSchema sp v =
    (case (readInt 0 6 (memberOf v ''weekday''),
           readList (Some 100) (\<lambda>x. readText (sp_isUuid sp) (Some x)) (memberOf v ''lawyerIds'')) of
       (Some w, Some ids) \<Rightarrow> Some (w, ids) | _ \<Rightarrow> None)"

definition closureSchema :: "slot_platform \<Rightarrow> json \<Rightarrow> closure option" where
  "closureSchema sp v =
    (case (readText consultationSlotDateSchema (memberOf v ''date''),
           readText consultationStartTimeSchema (memberOf v ''start''),
           readText consultationEndTimeSchema (memberOf v ''end''),
           (case memberOf v ''lawyerId'' of
              None \<Rightarrow> Some None | Some JNull \<Rightarrow> Some None
            | x \<Rightarrow> map_option Some (readText (sp_isUuid sp) x))) of
       (Some d, Some st, Some e, Some l) \<Rightarrow>
         if textLess st e then Some \<lparr>cl_date = d, cl_start = st, cl_end = e, cl_lawyerId = l\<rparr> else None
     | _ \<Rightarrow> None)"

definition directBookingSchema ::
  "slot_platform \<Rightarrow> json option \<Rightarrow> (bool \<times> (int \<times> string list) list \<times> closure list) option" where
  "directBookingSchema sp v =
    (case v of
       None \<Rightarrow> Some (False, [], [])
     | Some (JObj ms) \<Rightarrow>
       (case (readFlag (orDefault (map_of ms ''published'') (JBool False)),
              readList (Some 7) (rosterSchema sp) (orDefault (map_of ms ''roster'') (JArr [])),
              readList (Some 366) (closureSchema sp) (orDefault (map_of ms ''closures'') (JArr []))) of
          (Some p, Some r, Some c) \<Rightarrow> if distinct (map fst r) then Some (p, r, c) else None
        | _ \<Rightarrow> None)
     | _ \<Rightarrow> None)"

definition consultationAvailabilitySchema :: "slot_platform \<Rightarrow> json \<Rightarrow> availability option" where
  "consultationAvailabilitySchema sp v =
    (if \<not> isObject v then None
     else case (directBookingSchema sp (memberOf v ''directBooking''),
           readText (\<lambda>s. s = ''Africa/Cairo'') (orDefault (memberOf v ''timezone'') (JStr ''Africa/Cairo'')),
           readInt 15 240 (orDefault (memberOf v ''slotDurationMinutes'') (JNum ''60'')),
           readInt 0 168 (orDefault (memberOf v ''minLeadHours'') (JNum ''4'')),
           readInt 1 60 (orDefault (memberOf v ''bookingWindowDays'') (JNum ''14'')),
           readList (Some 7) consultationAvailabilityDaySchema (memberOf v ''days'')) of
       (Some (p, r, c), Some _, Some slot, Some lead, Some window, Some days) \<Rightarrow>
         if length days \<noteq> 7 then None
         else Some \<lparr>al_published = p, al_roster = r, al_closures = c, al_slotDurationMinutes = slot,
                al_minLeadHours = lead, al_bookingWindowDays = window, al_days = days\<rparr>
     | _ \<Rightarrow> None)"

definition defaultDayJson :: "int \<Rightarrow> bool \<Rightarrow> string list \<Rightarrow> json" where
  "defaultDayJson weekday enabled modes =
    JObj [(''weekday'', JNum (natToText (nat weekday))), (''enabled'', JBool enabled), (''start'', JStr ''10:00''),
      (''end'', JStr ''17:00''), (''modes'', JArr (map JStr modes))]"

definition defaultDays :: "json list" where
  "defaultDays =
    map (\<lambda>w. defaultDayJson w True [''ONLINE'', ''PHONE'', ''OFFICE'']) [0, 1, 2, 3, 4] @
    map (\<lambda>w. defaultDayJson w False [''ONLINE'']) [5, 6]"

definition defaultConsultationAvailability :: "(string \<times> json) list" where
  "defaultConsultationAvailability =
    [(''directBooking'', JObj [(''published'', JBool False), (''roster'', JArr []), (''closures'', JArr [])]),
     (''timezone'', JStr ''Africa/Cairo''), (''slotDurationMinutes'', JNum ''60''), (''minLeadHours'', JNum ''4''),
     (''bookingWindowDays'', JNum ''14''), (''days'', JArr defaultDays)]"

text \<open>A spread over defaults: the members given later are found first.\<close>

definition membersOf :: "json \<Rightarrow> (string \<times> json) list" where
  "membersOf v = (case v of JObj ms \<Rightarrow> ms | _ \<Rightarrow> [])"

definition normalizeDays :: "json option \<Rightarrow> json" where
  "normalizeDays value =
    (let rows = (case value of Some (JArr vs) \<Rightarrow> vs | _ \<Rightarrow> [])
     in JArr (map (\<lambda>d. JObj ((case find (\<lambda>row. memberOf row ''weekday'' \<noteq> None \<and>
              memberOf row ''weekday'' = memberOf d ''weekday'') rows of
            None \<Rightarrow> [] | Some row \<Rightarrow> membersOf row) @ membersOf d)) defaultDays))"

text \<open>A stored value that the schema refuses is thrown by the schema itself: \<open>None\<close>.\<close>

definition normalizeAvailability :: "slot_platform \<Rightarrow> json option \<Rightarrow> availability option" where
  "normalizeAvailability sp value =
    (case value of
       Some (JObj ms) \<Rightarrow> consultationAvailabilitySchema sp
         (JObj ((''days'', normalizeDays (map_of ms ''days'')) # ms @ defaultConsultationAvailability))
     | Some (JArr _) \<Rightarrow> consultationAvailabilitySchema sp
         (JObj ((''days'', normalizeDays None) # defaultConsultationAvailability))
     | _ \<Rightarrow> consultationAvailabilitySchema sp (JObj defaultConsultationAvailability))"

definition getConsultationAvailability :: "slot_platform \<Rightarrow> setting list \<Rightarrow> availability option" where
  "getConsultationAvailability sp settings =
    normalizeAvailability sp (settingValue CONSULTATION_AVAILABILITY_SETTING_KEY settings)"

definition canManageConsultationAvailability :: "principal \<Rightarrow> bool" where
  "canManageConsultationAvailability actor =
    (hasPermission actor ''appointment.manage.any'' \<or> hasPermission actor ''settings.manage.any'')"

definition assertCanManageAvailability :: "principal \<Rightarrow> unit api" where
  "assertCanManageAvailability actor = require (canManageConsultationAvailability actor)
     (apiError 403 PERMISSION_DENIED ''Managing consultation availability requires appointment management permission.'')"

text \<open>The lawyers a setting names, and those the table counts for them.\<close>

definition namedLawyers :: "availability \<Rightarrow> string list" where
  "namedLawyers value =
    remdups (concat (map snd (al_roster value)) @
      concat (map (\<lambda>c. case nonEmpty (cl_lawyerId c) of None \<Rightarrow> [] | Some l \<Rightarrow> [l]) (al_closures value)))"

definition activeLawyer :: "staff_member \<Rightarrow> bool" where
  "activeLawyer u = (activeStaff u \<and> sm_roleName u = ROLE_lawyer)"

definition publishable :: "availability \<Rightarrow> bool" where
  "publishable value =
    list_ex (\<lambda>d. ad_enabled d \<and> M_PHONE \<in> set (ad_modes d) \<and>
      list_ex (\<lambda>r. fst r = ad_weekday d \<and> snd r \<noteq> []) (al_roster value)) (al_days value)"

definition availabilityAccepted ::
  "slot_platform \<Rightarrow> principal \<Rightarrow> json \<Rightarrow> staff_member list \<Rightarrow> availability api" where
  "availabilityAccepted sp actor raw staff =
    andThen (assertCanManageAvailability actor) (\<lambda>_.
    andThen (parseWithSchema (\<lambda>v. case consultationAvailabilitySchema sp v of
        None \<Rightarrow> Inl (sp_schemaIssues sp v) | Some a \<Rightarrow> Inr a) raw
        ''Consultation availability payload is invalid.'') (\<lambda>value.
    let lawyerIds = namedLawyers value
    in andThen (require (lawyerIds = [] \<or>
           length (filter (\<lambda>u. sm_id u \<in> set lawyerIds \<and> activeLawyer u) staff) = length lawyerIds)
         (apiError 400 VALIDATION_ERROR ''Roster requires active lawyers.'')) (\<lambda>_.
       andThen (require (al_published value \<longrightarrow> publishable value)
         (apiError 400 VALIDATION_ERROR ''Publishing requires telephone hours and a lawyer roster.'')) (\<lambda>_.
       Inr value))))"

text \<open>
  The value as it is stored: what the schema made of the body. \<open>None\<close> in the answer is a stored value
  that does not read back.
\<close>

definition availabilityJson :: "availability \<Rightarrow> json" where
  "availabilityJson a =
    JObj [(''directBooking'', JObj [(''published'', JBool (al_published a)),
        (''roster'', JArr (map (\<lambda>(w, ids). JObj [(''weekday'', JNum (natToText (nat w))), (''lawyerIds'', JArr (map JStr ids))])
           (al_roster a))),
        (''closures'', JArr (map (\<lambda>c. JObj [(''date'', JStr (cl_date c)), (''start'', JStr (cl_start c)),
           (''end'', JStr (cl_end c)), (''lawyerId'', case cl_lawyerId c of None \<Rightarrow> JNull | Some l \<Rightarrow> JStr l)])
           (al_closures a)))]),
      (''timezone'', JStr ''Africa/Cairo''), (''slotDurationMinutes'', JNum (natToText (nat (al_slotDurationMinutes a)))),
      (''minLeadHours'', JNum (natToText (nat (al_minLeadHours a)))),
      (''bookingWindowDays'', JNum (natToText (nat (al_bookingWindowDays a)))),
      (''days'', JArr (map (\<lambda>d. JObj [(''weekday'', JNum (natToText (nat (ad_weekday d)))),
         (''enabled'', JBool (ad_enabled d)), (''start'', JStr (ad_start d)), (''end'', JStr (ad_end d)),
         (''modes'', JArr (map (\<lambda>m. JStr (modeText m)) (ad_modes d)))]) (al_days a)))]"

definition updateAdminConsultationAvailability ::
  "slot_platform \<Rightarrow> string \<Rightarrow> principal \<Rightarrow> json \<Rightarrow> pay_db \<Rightarrow> (availability option) api \<times> pay_db" where
  "updateAdminConsultationAvailability sp sid actor raw s =
    (case availabilityAccepted sp actor raw (of_staff (pd_office s)) of
       Inl e \<Rightarrow> (Inl e, s)
     | Inr value \<Rightarrow>
       let s1 = s\<lparr>pd_settings := upsertSetting sid CONSULTATION_AVAILABILITY_SETTING_KEY (availabilityJson value)
             (pr_id actor) (pd_settings s)\<rparr>;
           e = auditEvent (Some (pr_id actor)) ''settings.update'' ''SystemSetting''
             (Some (settingId CONSULTATION_AVAILABILITY_SETTING_KEY (pd_settings s1)))
             [(''key'', MText CONSULTATION_AVAILABILITY_SETTING_KEY)]
       in (Inr (getConsultationAvailability sp (pd_settings s1)), if sp_auditUp sp then auditPay e s1 else s1))"


section \<open>Slots\<close>

record slot =
  sl_startsAt :: int
  sl_endsAt :: int
  sl_mode :: appointment_mode

definition slotId :: "slot \<Rightarrow> string" where
  "slotId x = ''slot-'' @ isoText (sl_startsAt x)"

record slot_query =
  sq_availability :: availability
  sq_appointments :: "(int \<times> int) list"
  sq_mode :: "appointment_mode option"
  sq_now :: int
  sq_limit :: "int option"
  sq_date :: "string option"
  sq_fromTime :: "string option"
  sq_toTime :: "string option"

definition consultationSlotFilterSchema ::
  "slot_platform \<Rightarrow> slot_query \<Rightarrow> error_detail list + slot_query" where
  "consultationSlotFilterSchema sp q =
    (let bad = (\<lambda>ok path x. case x of None \<Rightarrow> [] | Some v \<Rightarrow> if ok v then [] else sp_issues sp path);
         issues = bad consultationSlotDateSchema ''date'' (sq_date q) @
           bad consultationStartTimeSchema ''fromTime'' (sq_fromTime q) @
           bad consultationEndTimeSchema ''toTime'' (sq_toTime q);
         refused = (\<lambda>ok x. case x of None \<Rightarrow> False | Some v \<Rightarrow> \<not> ok v)
     in if refused consultationSlotDateSchema (sq_date q) \<or> refused consultationStartTimeSchema (sq_fromTime q) \<or>
           refused consultationEndTimeSchema (sq_toTime q)
        then Inl issues else Inr q)"

definition consultationSlotWindow :: "availability \<Rightarrow> int \<Rightarrow> int \<times> int" where
  "consultationSlotWindow a now =
    (let startsAt = now + al_minLeadHours a * 3600000 in (startsAt, startsAt + al_bookingWindowDays a * MS_PER_DAY))"

definition queryMode :: "slot_query \<Rightarrow> appointment_mode" where
  "queryMode q = (case sq_mode q of None \<Rightarrow> M_ONLINE | Some m \<Rightarrow> m)"

definition queryLimit :: "slot_query \<Rightarrow> int" where
  "queryLimit q = (case sq_limit q of None \<Rightarrow> 12 | Some l \<Rightarrow> l)"

text \<open>The body of the inner loop: the slot of a minute of a date, unless a guard skips it.\<close>

definition slotAt :: "slot_platform \<Rightarrow> slot_query \<Rightarrow> string \<Rightarrow> int \<Rightarrow> slot list" where
  "slotAt sp q date minute =
    (let duration = al_slotDurationMinutes (sq_availability q);
         (availableFrom, availableUntil) = consultationSlotWindow (sq_availability q) (sq_now q)
     in if (case nonEmpty (sq_fromTime q) of None \<Rightarrow> False | Some f \<Rightarrow> minute < minutesFromTime f) then []
        else if (case nonEmpty (sq_toTime q) of None \<Rightarrow> False | Some u \<Rightarrow> minute + duration > minutesFromTime u) then []
        else case cairoDateTime sp date minute of
          None \<Rightarrow> []
        | Some startsAt \<Rightarrow>
          (let endsAt = startsAt + duration * minuteMs
           in if startsAt < availableFrom \<or> startsAt \<ge> availableUntil then []
              else if list_ex (\<lambda>(a, b). appointmentIntervalsOverlap startsAt endsAt a b) (sq_appointments q) then []
              else [\<lparr>sl_startsAt = startsAt, sl_endsAt = endsAt, sl_mode = queryMode q\<rparr>]))"

text \<open>
  The inner loop, which steps by the duration while a slot fits and the limit is not reached: with a
  duration of zero it would not end, and then its value is \<open>None\<close>.
\<close>

partial_function (option) minuteLoop ::
  "slot_platform \<Rightarrow> slot_query \<Rightarrow> string \<Rightarrow> int \<Rightarrow> int \<Rightarrow> slot list \<Rightarrow> slot list option" where
  "minuteLoop sp q date endMinutes minute slots =
    (if minute + al_slotDurationMinutes (sq_availability q) \<le> endMinutes \<and> int (length slots) < queryLimit q
     then minuteLoop sp q date endMinutes (minute + al_slotDurationMinutes (sq_availability q))
       (slots @ slotAt sp q date minute)
     else Some slots)"

definition dayOf :: "slot_platform \<Rightarrow> availability \<Rightarrow> string \<Rightarrow> availability_day option" where
  "dayOf sp a date = find (\<lambda>d. ad_weekday d = cairoWeekday sp date) (al_days a)"

definition openDay :: "slot_platform \<Rightarrow> slot_query \<Rightarrow> string \<Rightarrow> availability_day option" where
  "openDay sp q date =
    (case dayOf sp (sq_availability q) date of
       None \<Rightarrow> None
     | Some d \<Rightarrow> if ad_enabled d \<and> queryMode q \<in> set (ad_modes d) then Some d else None)"

fun dayLoop :: "slot_platform \<Rightarrow> slot_query \<Rightarrow> string list \<Rightarrow> slot list \<Rightarrow> slot list option" where
  "dayLoop sp q [] slots = Some slots"
| "dayLoop sp q (date # dates) slots =
     (if \<not> int (length slots) < queryLimit q then Some slots
      else case openDay sp q date of
        None \<Rightarrow> dayLoop sp q dates slots
      | Some d \<Rightarrow>
        (case minuteLoop sp q date (minutesFromTime (ad_end d)) (minutesFromTime (ad_start d)) slots of
           None \<Rightarrow> None
         | Some slots1 \<Rightarrow> dayLoop sp q dates slots1))"

definition scannedDates :: "slot_platform \<Rightarrow> slot_query \<Rightarrow> string list" where
  "scannedDates sp q =
    (let firstDate = (case nonEmpty (sq_date q) of Some d \<Rightarrow> d | None \<Rightarrow> cairoDateString sp (sq_now q));
         daysToScan = (if nonEmpty (sq_date q) \<noteq> None then 1 else al_bookingWindowDays (sq_availability q))
     in map (\<lambda>offset1. addCairoDays sp firstDate (int offset1)) [0..<nat daysToScan])"

definition generateConsultationSlots :: "slot_platform \<Rightarrow> slot_query \<Rightarrow> slot list option api" where
  "generateConsultationSlots sp q =
    andThen (parseWithSchema (consultationSlotFilterSchema sp) q ''Consultation slot query is invalid.'') (\<lambda>_.
      Inr (dayLoop sp q (scannedDates sp q) []))"


section \<open>The public listing and the two checks\<close>

text \<open>
  What a caller chooses of a listing. The services throw an \<open>ApiError\<close>, or the schema's own error when
  the stored setting does not read back; \<open>None\<close> is a generation that does not end.
\<close>

record slot_filter =
  sf_mode :: "appointment_mode option"
  sf_now :: int
  sf_limit :: "int option"
  sf_date :: "string option"
  sf_fromTime :: "string option"
  sf_toTime :: "string option"

datatype slot_throw = SettingUnreadable | SlotApi api_error

definition queryOf :: "availability \<Rightarrow> (int \<times> int) list \<Rightarrow> slot_filter \<Rightarrow> slot_query" where
  "queryOf a appointments f =
    \<lparr>sq_availability = a, sq_appointments = appointments, sq_mode = sf_mode f, sq_now = sf_now f,
     sq_limit = sf_limit f, sq_date = sf_date f, sq_fromTime = sf_fromTime f, sq_toTime = sf_toTime f\<rparr>"

definition bookedConsultations :: "int \<Rightarrow> int \<Rightarrow> pay_db \<Rightarrow> (int \<times> int) list" where
  "bookedConsultations from1 until1 s =
    map (\<lambda>a. (ap_startsAt a, ap_endsAt a))
      (filter (\<lambda>a. ap_type a = AT_CONSULTATION \<and> ap_status a \<in> {A_RESERVED, A_SCHEDULED, A_RESCHEDULED} \<and>
          ap_startsAt a < until1 \<and> ap_endsAt a > from1)
        (of_appointments (pd_office s)))"

definition storedAvailability :: "slot_platform \<Rightarrow> pay_db \<Rightarrow> slot_throw + availability" where
  "storedAvailability sp s =
    (case getConsultationAvailability sp (pd_settings s) of
       None \<Rightarrow> Inl SettingUnreadable | Some a \<Rightarrow> Inr a)"

definition ofSlotApi :: "'a api \<Rightarrow> slot_throw + 'a" where
  "ofSlotApi r = (case r of Inl e \<Rightarrow> Inl (SlotApi e) | Inr x \<Rightarrow> Inr x)"

definition listPublicConsultationSlots ::
  "slot_platform \<Rightarrow> slot_filter \<Rightarrow> pay_db \<Rightarrow> (slot_throw + slot list option) \<times> pay_db" where
  "listPublicConsultationSlots sp f s =
    (let (_, s1) = expireOpenConsultationPaymentAttempts (sf_now f) None (Some 500) s
     in (andThen (storedAvailability sp s1) (\<lambda>a.
         let (from1, until1) = consultationSlotWindow a (sf_now f)
         in ofSlotApi (generateConsultationSlots sp (queryOf a (bookedConsultations from1 until1 s1)
              (f\<lparr>sf_limit := Some (case sf_limit f of None \<Rightarrow> 12 | Some l \<Rightarrow> l)\<rparr>)))),
       s1))"

text \<open>The hour and minute of the local clock.\<close>

definition cairoClock :: "slot_platform \<Rightarrow> int \<Rightarrow> string" where
  "cairoClock sp instant = timeFromMinutes (wallTimeAt sp instant mod MS_PER_DAY div minuteMs)"

definition takenSlotError :: api_error where
  "takenSlotError = apiError 409 CONFLICT
     ''This consultation slot is no longer available. Please choose another time.''"

text \<open>Within a transaction the check only reads; outside it goes through the listing, which expires attempts.\<close>

definition assertPublicConsultationSlotAvailable ::
  "slot_platform \<Rightarrow> bool \<Rightarrow> int \<Rightarrow> appointment_mode \<Rightarrow> int \<Rightarrow> pay_db \<Rightarrow> (slot_throw + slot option) \<times> pay_db" where
  "assertPublicConsultationSlotAvailable sp inTransaction startsAt mode now s =
    (let f = \<lparr>sf_mode = Some mode, sf_now = now, sf_limit = Some 1, sf_date = Some (cairoDateString sp startsAt),
              sf_fromTime = Some (cairoClock sp startsAt), sf_toTime = None\<rparr>;
         (slots, s1) = (if inTransaction
           then (andThen (storedAvailability sp s) (\<lambda>a.
               ofSlotApi (generateConsultationSlots sp
                 (queryOf a (bookedConsultations startsAt (startsAt + 86400000) s) f))), s)
           else listPublicConsultationSlots sp f s)
     in (andThen slots (\<lambda>found. case found of
           None \<Rightarrow> Inr None
         | Some xs \<Rightarrow> (case find (\<lambda>x. sl_startsAt x = startsAt) xs of
             None \<Rightarrow> Inl (SlotApi takenSlotError)
           | Some x \<Rightarrow> Inr (Some x))), s1))"

definition assertRequestedSlotAtApproval ::
  "slot_platform \<Rightarrow> int \<Rightarrow> int \<Rightarrow> appointment_mode \<Rightarrow> int \<Rightarrow> pay_db \<Rightarrow> slot_throw + unit option" where
  "assertRequestedSlotAtApproval sp startsAt endsAt mode now s =
    andThen (storedAvailability sp s) (\<lambda>a.
    andThen (ofSlotApi (generateConsultationSlots sp (queryOf a (bookedConsultations startsAt endsAt s)
        \<lparr>sf_mode = Some mode, sf_now = now, sf_limit = Some 100, sf_date = Some (cairoDateString sp startsAt),
         sf_fromTime = None, sf_toTime = None\<rparr>))) (\<lambda>found.
      case found of
        None \<Rightarrow> Inr None
      | Some slots \<Rightarrow>
        if list_ex (\<lambda>x. sl_startsAt x = startsAt \<and> sl_endsAt x = endsAt) slots then Inr (Some ())
        else Inl (SlotApi (apiError 409 APPOINTMENT_CONFLICT
          ''The requested time is unavailable. Ask the client to choose an alternative.''))))"


section \<open>The loops against a list of candidates\<close>

text \<open>The start minutes of a day, and the slots of a day without a limit.\<close>

definition startMinutes :: "int \<Rightarrow> int \<Rightarrow> int \<Rightarrow> int list" where
  "startMinutes first until1 step = map (\<lambda>k. first + int k * step) [0..<nat ((until1 - first) div step)]"

definition daySlots :: "slot_platform \<Rightarrow> slot_query \<Rightarrow> string \<Rightarrow> slot list" where
  "daySlots sp q date =
    (case openDay sp q date of
       None \<Rightarrow> []
     | Some d \<Rightarrow> concat (map (slotAt sp q date)
         (startMinutes (minutesFromTime (ad_start d)) (minutesFromTime (ad_end d))
           (al_slotDurationMinutes (sq_availability q)))))"

lemma startMinutes_step:
  assumes "1 \<le> step"
  shows "startMinutes first until1 step =
    (if first + step \<le> until1 then first # startMinutes (first + step) until1 step else [])"
proof (cases "first + step \<le> until1")
  case True
  then have "(until1 - first) div step = (until1 - (first + step)) div step + 1"
    using assms div_add_self2 [of step "until1 - first - step"] by (simp add: algebra_simps)
  moreover have "0 \<le> (until1 - (first + step)) div step"
    using True assms by (simp add: pos_imp_zdiv_nonneg_iff)
  ultimately have "nat ((until1 - first) div step) = Suc (nat ((until1 - (first + step)) div step))"
    by simp
  then show ?thesis using True
    by (simp add: startMinutes_def upt_conv_Cons map_Suc_upt [symmetric] comp_def algebra_simps del: upt_Suc)
next
  case False
  then have "(until1 - first) div step \<le> 0"
    using assms zdiv_mono1 [of "until1 - first" "step - 1" step] by simp
  then show ?thesis using False by (simp add: startMinutes_def)
qed

lemma startMinutes_range:
  assumes "m \<in> set (startMinutes first until1 step)" and "1 \<le> step"
  shows "first \<le> m" and "m + step \<le> until1"
proof -
  obtain k where k: "m = first + int k * step" "int k < (until1 - first) div step"
    using assms by (auto simp: startMinutes_def)
  show "first \<le> m" using k assms(2) by simp
  have "(int k + 1) * step \<le> (until1 - first) div step * step"
    using k(2) assms(2) by (intro mult_right_mono) auto
  also have "\<dots> \<le> until1 - first"
    using assms(2) by (metis add.commute add_increasing div_mult_mod_eq le_add_same_cancel1 order_refl
        pos_mod_sign zero_less_one order_less_le_trans)
  finally show "m + step \<le> until1" using k(1) by (simp add: algebra_simps)
qed

lemma slotAt_at_most_one: "length (slotAt sp q date m) \<le> 1"
  by (simp add: slotAt_def Let_def split: option.split prod.split)


lemma minuteLoop_eq:
  assumes "1 \<le> al_slotDurationMinutes (sq_availability q)" and "int (length slots) \<le> max 0 (queryLimit q)"
  shows "minuteLoop sp q date until1 m slots =
    Some (take (nat (queryLimit q))
      (slots @ concat (map (slotAt sp q date) (startMinutes m until1 (al_slotDurationMinutes (sq_availability q))))))"
  using assms
proof (induction n \<equiv> "nat (until1 - m)" arbitrary: m slots rule: less_induct)
  case less
  let ?step = "al_slotDurationMinutes (sq_availability q)"
  show ?case
  proof (cases "m + ?step \<le> until1 \<and> int (length slots) < queryLimit q")
    case True
    have "int (length (slots @ slotAt sp q date m)) \<le> max 0 (queryLimit q)"
      using True slotAt_at_most_one [of sp q date m] by simp
    moreover have "nat (until1 - (m + ?step)) < nat (until1 - m)"
      using True less.prems(1) by simp
    ultimately have "minuteLoop sp q date until1 (m + ?step) (slots @ slotAt sp q date m) =
      Some (take (nat (queryLimit q))
        ((slots @ slotAt sp q date m) @ concat (map (slotAt sp q date) (startMinutes (m + ?step) until1 ?step))))"
      using less.hyps less.prems(1) by blast
    then show ?thesis
      using True startMinutes_step [OF less.prems(1), of m until1] by (subst minuteLoop.simps) simp
  next
    case False
    then show ?thesis
      using less.prems startMinutes_step [OF less.prems(1), of m until1] by (subst minuteLoop.simps) auto
  qed
qed

lemma dayLoop_eq:
  assumes "1 \<le> al_slotDurationMinutes (sq_availability q)" and "int (length slots) \<le> max 0 (queryLimit q)"
  shows "dayLoop sp q dates slots =
    Some (take (nat (queryLimit q)) (slots @ concat (map (daySlots sp q) dates)))"
  using assms(2)
proof (induction dates arbitrary: slots)
  case (Cons date dates)
  show ?case
  proof (cases "openDay sp q date")
    case None
    then show ?thesis using Cons by (auto simp: daySlots_def)
  next
    case (Some d)
    let ?more = "daySlots sp q date" and ?rest = "concat (map (daySlots sp q) dates)" and ?n = "nat (queryLimit q)"
    have loop: "minuteLoop sp q date (minutesFromTime (ad_end d)) (minutesFromTime (ad_start d)) slots =
      Some (take ?n (slots @ ?more))"
      using Some Cons.prems assms(1) by (simp only: minuteLoop_eq daySlots_def option.case)
    show ?thesis
    proof (cases "int (length slots) < queryLimit q")
      case True
      then have "dayLoop sp q (date # dates) slots = dayLoop sp q dates (take ?n (slots @ ?more))"
        using Some loop by (simp del: take_append)
      also have "\<dots> = Some (take ?n (take ?n (slots @ ?more) @ ?rest))"
        by (rule Cons.IH) simp
      also have "take ?n (take ?n (slots @ ?more) @ ?rest) = take ?n ((slots @ ?more) @ ?rest)"
        by (simp add: min_def)
      finally show ?thesis by (simp del: take_append)
    qed (use Cons.prems in auto)
  qed
qed auto

text \<open>What the schema lets through.\<close>

lemma readInt_bounds: "readInt lo hi v = Some n \<Longrightarrow> lo \<le> n \<and> n \<le> hi"
  by (auto simp: readInt_def split: option.splits json.splits if_splits)

lemma consultationAvailabilitySchema_bounds:
  assumes "consultationAvailabilitySchema sp v = Some a"
  shows "15 \<le> al_slotDurationMinutes a \<and> al_slotDurationMinutes a \<le> 240 \<and>
    0 \<le> al_minLeadHours a \<and> 1 \<le> al_bookingWindowDays a \<and> al_bookingWindowDays a \<le> 60 \<and> length (al_days a) = 7"
  using assms
  by (auto simp: consultationAvailabilitySchema_def split: option.splits if_splits prod.splits dest!: readInt_bounds)

lemma getConsultationAvailability_bounds:
  assumes "getConsultationAvailability sp settings = Some a"
  shows "15 \<le> al_slotDurationMinutes a \<and> al_slotDurationMinutes a \<le> 240 \<and>
    0 \<le> al_minLeadHours a \<and> 1 \<le> al_bookingWindowDays a \<and> al_bookingWindowDays a \<le> 60 \<and> length (al_days a) = 7"
  using assms
  by (auto simp: getConsultationAvailability_def normalizeAvailability_def
      split: option.splits json.splits dest!: consultationAvailabilitySchema_bounds)

lemma storedAvailability_duration:
  "storedAvailability sp s = Inr a \<Longrightarrow> 15 \<le> al_slotDurationMinutes a \<and> al_slotDurationMinutes a \<le> 240"
  by (auto simp: storedAvailability_def split: option.splits dest!: getConsultationAvailability_bounds)

lemma parseFilter_Inr:
  "parseWithSchema (consultationSlotFilterSchema sp) q m = Inr q' \<Longrightarrow> q' = q"
  by (auto simp: parseWithSchema_eq consultationSlotFilterSchema_def Let_def split: if_splits)

lemma generate_eq:
  assumes "1 \<le> al_slotDurationMinutes (sq_availability q)"
    and "generateConsultationSlots sp q = Inr found"
  shows "found = Some (take (nat (queryLimit q)) (concat (map (daySlots sp q) (scannedDates sp q))))"
  using assms by (auto simp: generateConsultationSlots_def dayLoop_eq dest!: parseFilter_Inr)


section \<open>What a slot promises\<close>

lemma foldl_min_member: "foldl min (x::int) xs \<in> set (x # xs)"
proof (induction xs arbitrary: x)
  case (Cons y ys)
  then show ?case using Cons.IH [of "min x y"] by (auto simp: min_def split: if_splits)
qed simp

lemma cairoDateTime_wall:
  assumes "cairoDateTime sp date m = Some i"
  obtains t where "parseDay date = Some t" and "wallTimeAt sp i = t + m * minuteMs"
proof -
  obtain t where t: "parseDay date = Some t" using assms by (auto simp: cairoDateTime_def split: option.splits)
  let ?matches = "filter (\<lambda>j. wallTimeAt sp j = t + m * minuteMs)
    (map (\<lambda>o1. t + m * minuteMs - o1) (probedOffsets sp (t + m * minuteMs)))"
  have "\<exists>y ys. ?matches = y # ys \<and> i = foldl min y ys"
    using assms t by (auto simp: cairoDateTime_def Let_def split: list.splits if_splits)
  then obtain y ys where ys: "?matches = y # ys" "i = foldl min y ys" by blast
  then have "i \<in> set ?matches" using foldl_min_member [of y ys] by simp
  then have "wallTimeAt sp i = t + m * minuteMs" by (simp only: set_filter mem_Collect_eq)
  then show thesis using t that by blast
qed

lemma slotAt_sound:
  assumes "x \<in> set (slotAt sp q date m)"
  shows "cairoDateTime sp date m = Some (sl_startsAt x)"
    and "sl_endsAt x = sl_startsAt x + al_slotDurationMinutes (sq_availability q) * minuteMs"
    and "fst (consultationSlotWindow (sq_availability q) (sq_now q)) \<le> sl_startsAt x"
    and "sl_startsAt x < snd (consultationSlotWindow (sq_availability q) (sq_now q))"
    and "sl_mode x = queryMode q"
    and "\<forall>(a, b)\<in>set (sq_appointments q). \<not> appointmentIntervalsOverlap (sl_startsAt x) (sl_endsAt x) a b"
proof -
  let ?a = "sq_availability q"
  let ?x = "\<lambda>i. \<lparr>sl_startsAt = i, sl_endsAt = i + al_slotDurationMinutes ?a * minuteMs, sl_mode = queryMode q\<rparr>"
  obtain i where i: "cairoDateTime sp date m = Some i"
    using assms by (cases "cairoDateTime sp date m") (simp_all add: slotAt_def Let_def split_beta split: if_splits)
  then have x: "x = ?x i \<and> fst (consultationSlotWindow ?a (sq_now q)) \<le> i \<and>
      i < snd (consultationSlotWindow ?a (sq_now q)) \<and>
      \<not> list_ex (\<lambda>(u, v). appointmentIntervalsOverlap i (sl_endsAt (?x i)) u v) (sq_appointments q)"
    using assms by (simp add: slotAt_def Let_def split_beta split: if_splits)
  show "cairoDateTime sp date m = Some (sl_startsAt x)"
    and "sl_endsAt x = sl_startsAt x + al_slotDurationMinutes ?a * minuteMs"
    and "fst (consultationSlotWindow ?a (sq_now q)) \<le> sl_startsAt x"
    and "sl_startsAt x < snd (consultationSlotWindow ?a (sq_now q))"
    and "sl_mode x = queryMode q"
    using i x by simp_all
  show "\<forall>(a, b)\<in>set (sq_appointments q). \<not> appointmentIntervalsOverlap (sl_startsAt x) (sl_endsAt x) a b"
    using x by (auto simp: list_ex_iff)
qed

text \<open>
  A slot fits a day of the settings that is open for its mode: its start shows on the local clock as a
  minute of the opening hours, and it ends before they do.
\<close>

definition fitsOpenDay :: "slot_platform \<Rightarrow> availability \<Rightarrow> appointment_mode \<Rightarrow> int \<Rightarrow> bool" where
  "fitsOpenDay sp a mode startsAt \<longleftrightarrow>
    (\<exists>date t m d. parseDay date = Some t \<and> wallTimeAt sp startsAt = t + m * minuteMs \<and>
       d \<in> set (al_days a) \<and> ad_weekday d = cairoWeekday sp date \<and> ad_enabled d \<and> mode \<in> set (ad_modes d) \<and>
       minutesFromTime (ad_start d) \<le> m \<and> m + al_slotDurationMinutes a \<le> minutesFromTime (ad_end d))"

lemma daySlots_sound:
  assumes "x \<in> set (daySlots sp q date)" and "1 \<le> al_slotDurationMinutes (sq_availability q)"
  shows "fitsOpenDay sp (sq_availability q) (queryMode q) (sl_startsAt x)"
    and "\<exists>m. x \<in> set (slotAt sp q date m)"
proof -
  obtain d m where d: "openDay sp q date = Some d" and x: "x \<in> set (slotAt sp q date m)"
    and m: "m \<in> set (startMinutes (minutesFromTime (ad_start d)) (minutesFromTime (ad_end d))
      (al_slotDurationMinutes (sq_availability q)))"
    using assms(1) by (cases "openDay sp q date") (auto simp: daySlots_def)
  obtain t where "parseDay date = Some t" "wallTimeAt sp (sl_startsAt x) = t + m * minuteMs"
    using slotAt_sound(1) [OF x] cairoDateTime_wall by blast
  moreover have "d \<in> set (al_days (sq_availability q))" "ad_weekday d = cairoWeekday sp date"
    "ad_enabled d" "queryMode q \<in> set (ad_modes d)"
    using d by (auto simp: openDay_def dayOf_def find_Some_iff split: option.splits if_splits)
  ultimately show "fitsOpenDay sp (sq_availability q) (queryMode q) (sl_startsAt x)"
    using startMinutes_range [OF m assms(2)] unfolding fitsOpenDay_def by blast
  show "\<exists>m. x \<in> set (slotAt sp q date m)" using x by blast
qed

lemma generated_slot:
  assumes "generateConsultationSlots sp q = Inr (Some slots)" and "x \<in> set slots"
    and "1 \<le> al_slotDurationMinutes (sq_availability q)"
  obtains date m where "x \<in> set (slotAt sp q date m)"
    and "fitsOpenDay sp (sq_availability q) (queryMode q) (sl_startsAt x)"
proof -
  have "x \<in> set (take (nat (queryLimit q)) (concat (map (daySlots sp q) (scannedDates sp q))))"
    using generate_eq [OF assms(3,1)] assms(2) by simp
  then obtain date where "x \<in> set (daySlots sp q date)"
    using in_set_takeD by fastforce
  then show thesis using daySlots_sound [OF _ assms(3)] that by blast
qed

lemma bookedConsultations_none:
  assumes "\<forall>(u, v)\<in>set (bookedConsultations from1 until1 s). \<not> appointmentIntervalsOverlap startsAt endsAt u v"
    and "from1 \<le> startsAt" and "endsAt \<le> until1"
  shows "\<not> list_ex (appointmentConflictWhere startsAt endsAt OfficeConsultation None) (of_appointments (pd_office s))"
  using assms
  by (fastforce simp: bookedConsultations_def list_ex_iff appointmentConflictWhere_def scopeCovers_def
      ACTIVE_APPOINTMENT_STATUSES_def appointmentIntervalsOverlap_def)

lemma ofSlotApi_Inr [simp]: "ofSlotApi r = Inr x \<longleftrightarrow> r = Inr x"
  by (simp add: ofSlotApi_def split: sum.splits)

lemma storedAvailability_Inr [simp]:
  "storedAvailability sp s = Inr a \<longleftrightarrow> getConsultationAvailability sp (pd_settings s) = Some a"
  by (simp add: storedAvailability_def split: option.splits)

lemma queryOf_simps [simp]:
  "sq_availability (queryOf a ap f) = a" "sq_appointments (queryOf a ap f) = ap" "sq_now (queryOf a ap f) = sf_now f"
  "queryMode (queryOf a ap f) = (case sf_mode f of None \<Rightarrow> M_ONLINE | Some m \<Rightarrow> m)"
  "queryLimit (queryOf a ap f) = (case sf_limit f of None \<Rightarrow> 12 | Some l \<Rightarrow> l)"
  by (auto simp: queryOf_def queryMode_def queryLimit_def)


section \<open>Properties\<close>

lemma expire_settings [simp]:
  "pd_settings (snd (expireOpenConsultationPaymentAttempts now i limit s)) = pd_settings s"
  by (simp add: expireOpenConsultationPaymentAttempts_def expireBatch_def Let_def split: list.split)

lemma limit_left_out:
  "slotAt sp (queryOf a ap (f\<lparr>sf_limit := l\<rparr>)) = slotAt sp (queryOf a ap f)"
  "openDay sp (queryOf a ap (f\<lparr>sf_limit := l\<rparr>)) = openDay sp (queryOf a ap f)"
  "daySlots sp (queryOf a ap (f\<lparr>sf_limit := l\<rparr>)) = daySlots sp (queryOf a ap f)"
  "scannedDates sp (queryOf a ap (f\<lparr>sf_limit := l\<rparr>)) = scannedDates sp (queryOf a ap f)"
proof -
  show slots: "slotAt sp (queryOf a ap (f\<lparr>sf_limit := l\<rparr>)) = slotAt sp (queryOf a ap f)"
    by (intro ext) (simp add: slotAt_def queryOf_def queryMode_def cong: if_cong option.case_cong)
  show days: "openDay sp (queryOf a ap (f\<lparr>sf_limit := l\<rparr>)) = openDay sp (queryOf a ap f)"
    by (intro ext) (simp add: openDay_def cong: if_cong option.case_cong)
  show "daySlots sp (queryOf a ap (f\<lparr>sf_limit := l\<rparr>)) = daySlots sp (queryOf a ap f)"
    by (intro ext) (simp add: daySlots_def slots days cong: option.case_cong)
  show "scannedDates sp (queryOf a ap (f\<lparr>sf_limit := l\<rparr>)) = scannedDates sp (queryOf a ap f)"
    by (simp add: scannedDates_def queryOf_def cong: option.case_cong)
qed

definition sampleClock :: slot_platform where
  "sampleClock = \<lparr>sp_offset = (\<lambda>_. 7200000), sp_issues = (\<lambda>_. []), sp_isUuid = (\<lambda>_. True), sp_schemaIssues = (\<lambda>_. []),
     sp_auditUp = True\<rparr>"

definition sampleAvailability :: availability where
  "sampleAvailability =
    \<lparr>al_published = False, al_roster = [], al_closures = [], al_slotDurationMinutes = 60, al_minLeadHours = 4,
     al_bookingWindowDays = 14,
     al_days = map (\<lambda>w. \<lparr>ad_weekday = w, ad_enabled = True, ad_start = ''10:00'', ad_end = ''17:00'',
         ad_modes = [M_ONLINE, M_PHONE, M_OFFICE]\<rparr>) [0, 1, 2, 3, 4] @
       map (\<lambda>w. \<lparr>ad_weekday = w, ad_enabled = False, ad_start = ''10:00'', ad_end = ''17:00'',
         ad_modes = [M_ONLINE]\<rparr>) [5, 6]\<rparr>"

lemma defaultAvailability_read: "getConsultationAvailability sp [] = Some sampleAvailability"
  by (simp add: getConsultationAvailability_def settingValue_def normalizeAvailability_def) code_simp

lemma sampleShop_availability: "getConsultationAvailability sp (pd_settings sampleShop) = Some sampleAvailability"
  by (simp add: sampleShop_def defaultAvailability_read)

text \<open>
  C30. The public listing always answers, whatever the stored settings say as long as they read back:
  its two nested loops, which stop at the limit, give the first slots of the plain list of all
  candidates of the days in turn, and an unacceptable filter is refused.
\<close>

theorem listed_slots_reference:
  fixes f :: slot_filter
  assumes "getConsultationAvailability sp (pd_settings s) = Some a"
  defines "s1 \<equiv> snd (expireOpenConsultationPaymentAttempts (sf_now f) None (Some 500) s)"
  defines "w \<equiv> consultationSlotWindow a (sf_now f)"
  defines "q \<equiv> queryOf a (bookedConsultations (fst w) (snd w) s1) f"
  shows "listPublicConsultationSlots sp f s =
    (case consultationSlotFilterSchema sp q of
       Inl issues \<Rightarrow> Inl (SlotApi (ValidationApiError ''Consultation slot query is invalid.'' issues))
     | Inr _ \<Rightarrow> Inr (Some (take (nat (queryLimit q)) (concat (map (daySlots sp q) (scannedDates sp q))))), s1)"
proof -
  let ?q = "queryOf a (bookedConsultations (fst w) (snd w) s1) (f\<lparr>sf_limit := Some (queryLimit q)\<rparr>)"
  have duration: "1 \<le> al_slotDurationMinutes a" using getConsultationAvailability_bounds [OF assms(1)] by simp
  have "listPublicConsultationSlots sp f s = (ofSlotApi (generateConsultationSlots sp ?q), s1)"
    using assms(1) by (simp add: listPublicConsultationSlots_def storedAvailability_def split_beta s1_def w_def q_def)
  moreover have schema: "consultationSlotFilterSchema sp ?q = map_sum id (\<lambda>_. ?q) (consultationSlotFilterSchema sp q)"
    by (simp add: consultationSlotFilterSchema_def q_def queryOf_def Let_def)
  have "ofSlotApi (generateConsultationSlots sp ?q) = (case consultationSlotFilterSchema sp q of
       Inl issues \<Rightarrow> Inl (SlotApi (ValidationApiError ''Consultation slot query is invalid.'' issues))
     | Inr _ \<Rightarrow> Inr (dayLoop sp ?q (scannedDates sp ?q) []))"
    by (simp add: generateConsultationSlots_def parseWithSchema_def schema ofSlotApi_def split: sum.split)
  moreover have "dayLoop sp ?q (scannedDates sp ?q) [] =
      Some (take (nat (queryLimit q)) (concat (map (daySlots sp q) (scannedDates sp q))))"
    using duration by (simp add: dayLoop_eq limit_left_out q_def)
  ultimately show ?thesis by (simp cong: sum.case_cong)
qed

theorem listed_slots_reference_witness:
  "\<exists>s1. listPublicConsultationSlots sampleClock
      \<lparr>sf_mode = None, sf_now = 50, sf_limit = Some 0, sf_date = None, sf_fromTime = None, sf_toTime = None\<rparr> sampleShop =
    (Inr (Some []), s1)"
  using listed_slots_reference [OF sampleShop_availability,
      of sampleClock "\<lparr>sf_mode = None, sf_now = 50, sf_limit = Some 0, sf_date = None, sf_fromTime = None, sf_toTime = None\<rparr>"]
  by (simp add: consultationSlotFilterSchema_def queryOf_def queryLimit_def)

text \<open>A time of the reference list passes the check.\<close>

lemma assertRequestedSlotAtApproval_accepts:
  fixes mode now startsAt endsAt sp s
  defines "q \<equiv> \<lambda>a. queryOf a (bookedConsultations startsAt endsAt s)
     \<lparr>sf_mode = Some mode, sf_now = now, sf_limit = Some 100, sf_date = Some (cairoDateString sp startsAt),
      sf_fromTime = None, sf_toTime = None\<rparr>"
  assumes "getConsultationAvailability sp (pd_settings s) = Some a"
    and "consultationSlotDateSchema (cairoDateString sp startsAt)"
    and "list_ex (\<lambda>x. sl_startsAt x = startsAt \<and> sl_endsAt x = endsAt)
      (take 100 (concat (map (daySlots sp (q a)) (scannedDates sp (q a)))))"
  shows "assertRequestedSlotAtApproval sp startsAt endsAt mode now s = Inr (Some ())"
proof -
  have duration: "1 \<le> al_slotDurationMinutes a" using getConsultationAvailability_bounds [OF assms(2)] by simp
  have "consultationSlotFilterSchema sp (q a) = Inr (q a)"
    using assms(3) by (simp add: consultationSlotFilterSchema_def q_def queryOf_def Let_def)
  then have "generateConsultationSlots sp (q a) =
    Inr (Some (take 100 (concat (map (daySlots sp (q a)) (scannedDates sp (q a))))))"
    using duration by (simp add: generateConsultationSlots_def parseWithSchema_def dayLoop_eq q_def)
  then show ?thesis
    using assms(2,4) by (simp add: assertRequestedSlotAtApproval_def storedAvailability_def q_def)
qed

lemma sampleApproval:
  "assertRequestedSlotAtApproval sampleClock (4 * MS_PER_DAY + 28800000) (4 * MS_PER_DAY + 32400000) M_PHONE 50 sampleShop
    = Inr (Some ())"
proof -
  let ?q = "queryOf sampleAvailability [] \<lparr>sf_mode = Some M_PHONE, sf_now = 50, sf_limit = Some 100,
    sf_date = Some ''1970-01-05'', sf_fromTime = None, sf_toTime = None\<rparr>"
  have date: "cairoDateString sampleClock (4 * MS_PER_DAY + 28800000) = ''1970-01-05''" by code_simp
  have schema: "consultationSlotDateSchema ''1970-01-05''" by code_simp
  have same: "addCairoDays sampleClock ''1970-01-05'' 0 = ''1970-01-05''" by code_simp
  have booked: "bookedConsultations (4 * MS_PER_DAY + 28800000) (4 * MS_PER_DAY + 32400000) sampleShop = []"
    by (simp add: bookedConsultations_def sampleShop_def sampleReserved_def MS_PER_DAY_def)
  have dates: "scannedDates sampleClock ?q = [''1970-01-05'']"
    by (simp add: scannedDates_def queryOf_def nonEmpty_def same)
  have "list_ex (\<lambda>x. sl_startsAt x = 4 * MS_PER_DAY + 28800000 \<and> sl_endsAt x = 4 * MS_PER_DAY + 32400000)
    (daySlots sampleClock ?q ''1970-01-05'')"
    by code_simp
  moreover have "length (daySlots sampleClock ?q ''1970-01-05'') \<le> 100"
    by code_simp
  ultimately show ?thesis
    by (intro assertRequestedSlotAtApproval_accepts [OF sampleShop_availability]) (simp_all add: date schema booked dates)
qed

lemma approval_slot:
  assumes "assertRequestedSlotAtApproval sp startsAt endsAt mode now s = Inr (Some ())"
  shows "assertNoAppointmentConflict (Some startsAt) (Some endsAt) OfficeConsultation None
      (of_appointments (pd_office s)) = Inr () \<and>
    (\<exists>a. getConsultationAvailability sp (pd_settings s) = Some a \<and>
       endsAt = startsAt + al_slotDurationMinutes a * minuteMs \<and> fitsOpenDay sp a mode startsAt \<and>
       now + al_minLeadHours a * 3600000 \<le> startsAt \<and>
       startsAt < now + al_minLeadHours a * 3600000 + al_bookingWindowDays a * MS_PER_DAY)"
proof -
  let ?f = "\<lparr>sf_mode = Some mode, sf_now = now, sf_limit = Some 100, sf_date = Some (cairoDateString sp startsAt),
         sf_fromTime = None, sf_toTime = None\<rparr>"
  obtain a slots x where a: "getConsultationAvailability sp (pd_settings s) = Some a"
    and slots: "generateConsultationSlots sp (queryOf a (bookedConsultations startsAt endsAt s) ?f) = Inr (Some slots)"
    and x: "x \<in> set slots" "sl_startsAt x = startsAt" "sl_endsAt x = endsAt"
    using assms by (auto simp: assertRequestedSlotAtApproval_def list_ex_iff split: option.splits if_splits)
  have duration: "15 \<le> al_slotDurationMinutes a" using getConsultationAvailability_bounds [OF a] by simp
  then obtain date m where slot: "x \<in> set (slotAt sp (queryOf a (bookedConsultations startsAt endsAt s) ?f) date m)"
    and fits: "fitsOpenDay sp a mode startsAt"
    using generated_slot [OF slots x(1)] x(2) by auto
  have window: "endsAt = startsAt + al_slotDurationMinutes a * minuteMs"
    "now + al_minLeadHours a * 3600000 \<le> startsAt"
    "startsAt < now + al_minLeadHours a * 3600000 + al_bookingWindowDays a * MS_PER_DAY"
    using slotAt_sound(2,3,4) [OF slot] x by (simp_all add: consultationSlotWindow_def Let_def)
  moreover have "startsAt < endsAt" using window(1) duration by (simp add: minuteMs_def)
  moreover have "\<not> list_ex (appointmentConflictWhere startsAt endsAt OfficeConsultation None)
      (of_appointments (pd_office s))"
    using slotAt_sound(6) [OF slot] x bookedConsultations_none [of startsAt endsAt s startsAt endsAt] by simp
  ultimately show ?thesis
    using a fits by (simp add: assertNoAppointmentConflict_def assertValidAppointmentInterval_def)
qed

text \<open>
  C29. A requested time that passes the check at approval is a slot: it lasts exactly the configured
  duration, lies within the lead time and the booking window, fits the opening hours of a day that is
  enabled for the mode, and no active consultation of the office overlaps it.
\<close>

theorem approved_slot_is_free:
  assumes "assertRequestedSlotAtApproval sp startsAt endsAt mode now s = Inr (Some ())"
  shows "assertNoAppointmentConflict (Some startsAt) (Some endsAt) OfficeConsultation None
      (of_appointments (pd_office s)) = Inr () \<and>
    (\<exists>a. getConsultationAvailability sp (pd_settings s) = Some a \<and>
       endsAt = startsAt + al_slotDurationMinutes a * minuteMs \<and> fitsOpenDay sp a mode startsAt \<and>
       now + al_minLeadHours a * 3600000 \<le> startsAt \<and>
       startsAt < now + al_minLeadHours a * 3600000 + al_bookingWindowDays a * MS_PER_DAY)"
  using approval_slot [OF assms] .

theorem approved_slot_is_free_witness:
  "assertNoAppointmentConflict (Some (4 * MS_PER_DAY + 28800000)) (Some (4 * MS_PER_DAY + 32400000)) OfficeConsultation None
      (of_appointments (pd_office sampleShop)) = Inr ()"
  using approved_slot_is_free [OF sampleApproval] by blast

text \<open>
  The listing asks for the appointments that begin before the window ends, and offers slots that begin
  before it ends: its last slot may overlap an appointment it did not ask for.
\<close>

definition sampleLate :: pay_db where
  "sampleLate = sampleShop\<lparr>pd_attempts := [], pd_office := (pd_office sampleShop)\<lparr>of_appointments :=
     [sampleReserved\<lparr>ap_startsAt := 14 * MS_PER_DAY + 37800000, ap_endsAt := 14 * MS_PER_DAY + 39600000\<rparr>]\<rparr>\<rparr>"

definition sampleNoonFilter :: slot_filter where
  "sampleNoonFilter = \<lparr>sf_mode = None, sf_now = 23400000, sf_limit = Some 1, sf_date = Some ''1970-01-15'',
     sf_fromTime = Some ''12:00'', sf_toTime = None\<rparr>"

lemma sampleLate_idle:
  "expireOpenConsultationPaymentAttempts 23400000 None (Some 500) sampleLate = (0, sampleLate)"
  "getConsultationAvailability sp (pd_settings sampleLate) = Some sampleAvailability"
  by (simp_all add: expireOpenConsultationPaymentAttempts_def expirableBatch_def sampleLate_def sampleShop_availability)

lemma sampleNoon_reference:
  "take 1 (concat (map (daySlots sampleClock (queryOf sampleAvailability
      (bookedConsultations 37800000 (14 * MS_PER_DAY + 37800000) sampleLate) sampleNoonFilter)) [''1970-01-15''])) =
    [\<lparr>sl_startsAt = 14 * MS_PER_DAY + 36000000, sl_endsAt = 14 * MS_PER_DAY + 39600000, sl_mode = M_ONLINE\<rparr>]"
  by code_simp

lemma sampleNoon_accepted:
  "consultationSlotFilterSchema sampleClock (queryOf sampleAvailability xs sampleNoonFilter) =
    Inr (queryOf sampleAvailability xs sampleNoonFilter)"
  "scannedDates sampleClock (queryOf sampleAvailability xs sampleNoonFilter) = [''1970-01-15'']"
proof -
  have "consultationSlotDateSchema ''1970-01-15''" "consultationStartTimeSchema ''12:00''" by code_simp+
  then show "consultationSlotFilterSchema sampleClock (queryOf sampleAvailability xs sampleNoonFilter) =
      Inr (queryOf sampleAvailability xs sampleNoonFilter)"
    by (simp add: consultationSlotFilterSchema_def queryOf_def sampleNoonFilter_def Let_def)
  have "addCairoDays sampleClock ''1970-01-15'' 0 = ''1970-01-15''" by code_simp
  then show "scannedDates sampleClock (queryOf sampleAvailability xs sampleNoonFilter) = [''1970-01-15'']"
    by (simp add: scannedDates_def queryOf_def sampleNoonFilter_def nonEmpty_def)
qed

lemma last_slot_may_overlap:
  "\<exists>x. fst (listPublicConsultationSlots sampleClock sampleNoonFilter sampleLate) = Inr (Some [x]) \<and>
     list_ex (appointmentConflictWhere (sl_startsAt x) (sl_endsAt x) OfficeConsultation None)
       (of_appointments (pd_office sampleLate))"
proof -
  let ?x = "\<lparr>sl_startsAt = 14 * MS_PER_DAY + 36000000, sl_endsAt = 14 * MS_PER_DAY + 39600000, sl_mode = M_ONLINE\<rparr>"
  let ?q = "queryOf sampleAvailability (bookedConsultations 37800000 (14 * MS_PER_DAY + 37800000) sampleLate) sampleNoonFilter"
  have now: "sf_now sampleNoonFilter = 23400000" "sampleNoonFilter\<lparr>sf_limit := Some 1\<rparr> = sampleNoonFilter"
    "sf_limit sampleNoonFilter = Some 1"
    by (simp_all add: sampleNoonFilter_def)
  have window: "consultationSlotWindow sampleAvailability 23400000 = (37800000, 14 * MS_PER_DAY + 37800000)"
    by (simp add: consultationSlotWindow_def sampleAvailability_def)
  have "1 \<le> al_slotDurationMinutes sampleAvailability" by (simp add: sampleAvailability_def)
  then have "dayLoop sampleClock ?q [''1970-01-15''] [] = Some [?x]"
    using sampleNoon_reference now by (simp add: dayLoop_eq del: concat.simps list.map dayLoop.simps)
  then have "fst (listPublicConsultationSlots sampleClock sampleNoonFilter sampleLate) = Inr (Some [?x])"
    by (simp add: listPublicConsultationSlots_def storedAvailability_def sampleLate_idle now generateConsultationSlots_def
        parseWithSchema_def sampleNoon_accepted ofSlotApi_def window del: dayLoop.simps)
  moreover have "list_ex (appointmentConflictWhere (sl_startsAt ?x) (sl_endsAt ?x) OfficeConsultation None)
       (of_appointments (pd_office sampleLate))"
    by code_simp
  ultimately show ?thesis by blast
qed

end
