(* ===== verification/DirectBooking.thy ===== *)
theory DirectBooking
  imports Availability
begin

text \<open>
  The slots a client can confirm without the office:
  \<open>src/src/server/consultations/direct-booking-availability.ts\<close>. A day is explained by a status; a
  free slot names the lawyer it would be assigned to. Identifiers are lower-case UUIDs, on which the
  collation of \<open>localeCompare\<close> is the order of the code units. The default message of a failed
  schema is a parameter, because it is not in the alphabet of the strings here.
\<close>

section \<open>Rows\<close>

datatype booking_status =
    BS_AVAILABLE | BS_CLOSED_WEEKLY | BS_CLOSED_EXCEPTION | BS_MODE_UNAVAILABLE | BS_FULL | BS_LEAD_TIME
  | BS_OUTSIDE_WINDOW | BS_UNPUBLISHED | BS_NO_STAFF | BS_NO_SLOTS | BS_OUTSIDE_HOURS

record snapshot =
  sn_availability :: availability
  sn_now :: int
  sn_lawyers :: "string list"
  sn_appointments :: "appointment list"

record candidate = slot +
  cd_lawyerId :: string

record booking_day =
  bd_date :: string
  bd_status :: booking_status
  bd_hours :: "(string \<times> string) option"
  bd_closedPeriods :: "(string \<times> string) list"

record booking_availability =
  ba_published :: bool
  ba_now :: int
  ba_slotDurationMinutes :: int
  ba_weeklyHours :: "(int \<times> bool \<times> (string \<times> string) option) list"
  ba_days :: "booking_day list"
  ba_selectedDay :: booking_day
  ba_window :: "string \<times> string"
  ba_slots :: "slot list"
  ba_nearestSlot :: "slot option"
  ba_suggestedSlots :: "slot list"
  ba_hasAvailability :: bool

definition slotMinute :: "slot_platform \<Rightarrow> int \<Rightarrow> int" where
  "slotMinute sp time = wallTimeAt sp time mod MS_PER_DAY div minuteMs"

definition overlapsSlot :: "'a slot_scheme \<Rightarrow> appointment \<Rightarrow> bool" where
  "overlapsSlot x a = (ap_startsAt a < sl_endsAt x \<and> ap_endsAt a > sl_startsAt x)"


section \<open>Candidates\<close>

definition closedFor :: "snapshot \<Rightarrow> string \<Rightarrow> int \<Rightarrow> string \<Rightarrow> bool" where
  "closedFor sn date start lawyerId =
    list_ex (\<lambda>c. cl_date c = date \<and> (nonEmpty (cl_lawyerId c) = None \<or> cl_lawyerId c = Some lawyerId) \<and>
        start < minutesFromTime (cl_end c) \<and>
        start + al_slotDurationMinutes (sn_availability sn) > minutesFromTime (cl_start c))
      (al_closures (sn_availability sn))"

definition openLawyers :: "snapshot \<Rightarrow> string \<Rightarrow> int \<Rightarrow> string list \<Rightarrow> string list" where
  "openLawyers sn date minute roster = filter (\<lambda>l. \<not> closedFor sn date minute l) roster"

definition eligibleLawyers :: "snapshot \<Rightarrow> slot \<Rightarrow> string list \<Rightarrow> string list" where
  "eligibleLawyers sn x open1 =
    filter (\<lambda>l. \<not> list_ex (\<lambda>a. ap_lawyerId a = Some l \<and> overlapsSlot x a) (sn_appointments sn)) open1"

definition dailyCount :: "slot_platform \<Rightarrow> snapshot \<Rightarrow> string \<Rightarrow> string \<Rightarrow> nat" where
  "dailyCount sp sn date l =
    length (filter (\<lambda>a. ap_lawyerId a = Some l \<and> cairoDateString sp (ap_startsAt a) = date) (sn_appointments sn))"

text \<open>The first of the sorted list: the first one that no other precedes.\<close>

definition precedes :: "slot_platform \<Rightarrow> snapshot \<Rightarrow> string \<Rightarrow> string \<Rightarrow> string \<Rightarrow> bool" where
  "precedes sp sn date a b =
    (dailyCount sp sn date a < dailyCount sp sn date b \<or>
     (dailyCount sp sn date a = dailyCount sp sn date b \<and> textLess a b))"

definition leastLoaded :: "slot_platform \<Rightarrow> snapshot \<Rightarrow> string \<Rightarrow> string list \<Rightarrow> string option" where
  "leastLoaded sp sn date ls = find (\<lambda>l. list_all (\<lambda>m. \<not> precedes sp sn date m l) ls) ls"

definition refusals :: "slot_platform \<Rightarrow> snapshot \<Rightarrow> string \<Rightarrow> slot \<Rightarrow> string list \<Rightarrow> booking_status list" where
  "refusals sp sn date x roster =
    (let (from1, until1) = consultationSlotWindow (sn_availability sn) (sn_now sn);
         open1 = openLawyers sn date (slotMinute sp (sl_startsAt x)) roster;
         eligible = eligibleLawyers sn x open1
     in remdups (
         (if sl_startsAt x < from1 then [BS_LEAD_TIME] else []) @
         (if sl_startsAt x \<ge> until1 then [BS_OUTSIDE_WINDOW] else []) @
         (if list_ex (\<lambda>a. ap_type a = AT_CONSULTATION \<and> overlapsSlot x a) (sn_appointments sn) then [BS_FULL] else []) @
         (if open1 = [] then [BS_CLOSED_EXCEPTION] else []) @
         (if open1 \<noteq> [] \<and> eligible = []
          then [if length open1 = length roster then BS_FULL else BS_NO_SLOTS] else [])))"

definition candidateFor ::
  "slot_platform \<Rightarrow> snapshot \<Rightarrow> string \<Rightarrow> slot \<Rightarrow> string list \<Rightarrow> booking_status + candidate" where
  "candidateFor sp sn date x roster =
    (let eligible = eligibleLawyers sn x (openLawyers sn date (slotMinute sp (sl_startsAt x)) roster)
     in case refusals sp sn date x roster of
          [] \<Rightarrow> (case leastLoaded sp sn date eligible of
             None \<Rightarrow> Inl BS_NO_SLOTS
           | Some l \<Rightarrow> Inr (slot.extend x (candidate.fields l)))
        | [reason] \<Rightarrow> Inl reason
        | _ \<Rightarrow> Inl BS_NO_SLOTS)"


section \<open>Days\<close>

text \<open>The whole day of slots, without lead time, and the ones that fit the asked hours.\<close>

definition nominalQuery :: "snapshot \<Rightarrow> string \<Rightarrow> slot_query" where
  "nominalQuery sn date =
    \<lparr>sq_availability = (sn_availability sn)\<lparr>al_minLeadHours := 0, al_bookingWindowDays := 2\<rparr>,
     sq_appointments = [], sq_mode = Some M_PHONE,
     sq_now = (case parseDay date of None \<Rightarrow> 0 | Some t \<Rightarrow> t) - 86400000, sq_limit = Some 100,
     sq_date = Some date, sq_fromTime = None, sq_toTime = None\<rparr>"

definition fitsHours :: "slot_platform \<Rightarrow> snapshot \<Rightarrow> slot_filter \<Rightarrow> slot \<Rightarrow> bool" where
  "fitsHours sp sn f x =
    ((case nonEmpty (sf_fromTime f) of None \<Rightarrow> True | Some t \<Rightarrow> slotMinute sp (sl_startsAt x) \<ge> minutesFromTime t) \<and>
     (case nonEmpty (sf_toTime f) of None \<Rightarrow> True
      | Some t \<Rightarrow> slotMinute sp (sl_startsAt x) + al_slotDurationMinutes (sn_availability sn) \<le> minutesFromTime t))"

definition outsideHours :: "slot_filter \<Rightarrow> availability_day \<Rightarrow> bool" where
  "outsideHours f d =
    ((case nonEmpty (sf_fromTime f) of None \<Rightarrow> False | Some t \<Rightarrow> minutesFromTime t \<ge> minutesFromTime (ad_end d)) \<or>
     (case nonEmpty (sf_toTime f) of None \<Rightarrow> False | Some t \<Rightarrow> minutesFromTime t \<le> minutesFromTime (ad_start d)))"

definition dayRoster :: "snapshot \<Rightarrow> availability_day \<Rightarrow> string list" where
  "dayRoster sn d =
    (let ids = (case find (\<lambda>r. fst r = ad_weekday d) (al_roster (sn_availability sn)) of None \<Rightarrow> [] | Some r \<Rightarrow> snd r)
     in filter (\<lambda>l. l \<in> set ids) (sn_lawyers sn))"

definition statusOfDay :: "(booking_status + candidate) list \<Rightarrow> booking_status" where
  "statusOfDay evaluated =
    (if list_ex (\<lambda>e. case e of Inr _ \<Rightarrow> True | Inl _ \<Rightarrow> False) evaluated then BS_AVAILABLE
     else case remdups (concat (map (\<lambda>e. case e of Inl r \<Rightarrow> [r] | Inr _ \<Rightarrow> []) evaluated)) of
       [reason] \<Rightarrow> reason | _ \<Rightarrow> BS_NO_SLOTS)"

definition candidatesOf :: "(booking_status + candidate) list \<Rightarrow> candidate list" where
  "candidatesOf evaluated = concat (map (\<lambda>e. case e of Inl _ \<Rightarrow> [] | Inr c \<Rightarrow> [c]) evaluated)"

definition lastBookingDate :: "slot_platform \<Rightarrow> snapshot \<Rightarrow> string" where
  "lastBookingDate sp sn =
    cairoDateString sp (snd (consultationSlotWindow (sn_availability sn) (sn_now sn)) - 1)"

text \<open>The slots of a day of the week that is open by telephone, for the roster of the day.\<close>

definition evaluateDay ::
  "slot_platform \<Rightarrow> snapshot \<Rightarrow> string \<Rightarrow> slot_filter \<Rightarrow> availability_day \<Rightarrow>
   (booking_status \<times> candidate list) option api" where
  "evaluateDay sp sn date f d =
    (let roster = dayRoster sn d
     in if roster = [] then Inr (Some (BS_NO_STAFF, []))
        else andThen (generateConsultationSlots sp (nominalQuery sn date)) (\<lambda>nominal.
          Inr (case nominal of
            None \<Rightarrow> None
          | Some slots \<Rightarrow>
            (case filter (fitsHours sp sn f) slots of
               [] \<Rightarrow> Some (if outsideHours f d then BS_OUTSIDE_HOURS else BS_NO_SLOTS, [])
             | requested \<Rightarrow>
               let evaluated = map (\<lambda>x. candidateFor sp sn date x roster) requested
               in Some (statusOfDay evaluated, candidatesOf evaluated)))))"

definition directBookingDay ::
  "slot_platform \<Rightarrow> snapshot \<Rightarrow> string \<Rightarrow> slot_filter \<Rightarrow> (booking_day \<times> candidate list) option api" where
  "directBookingDay sp sn date f =
    (let a = sn_availability sn; day = dayOf sp a date;
         hours = (case day of None \<Rightarrow> None
           | Some d \<Rightarrow> if ad_enabled d \<and> M_PHONE \<in> set (ad_modes d) then Some (ad_start d, ad_end d) else None);
         closedPeriods = map (\<lambda>c. (cl_start c, cl_end c))
           (filter (\<lambda>c. cl_date c = date \<and> nonEmpty (cl_lawyerId c) = None) (al_closures a));
         describe = (\<lambda>status slots. Some (\<lparr>bd_date = date, bd_status = status, bd_hours = hours,
           bd_closedPeriods = closedPeriods\<rparr>, slots))
     in if \<not> al_published a
        then Inr (Some (\<lparr>bd_date = date, bd_status = BS_UNPUBLISHED, bd_hours = None, bd_closedPeriods = []\<rparr>, []))
        else if textLess date (cairoDateString sp (sn_now sn)) \<or> textLess (lastBookingDate sp sn) date
        then Inr (describe BS_OUTSIDE_WINDOW [])
        else case day of
          None \<Rightarrow> Inr (describe BS_CLOSED_WEEKLY [])
        | Some d \<Rightarrow>
          if \<not> ad_enabled d then Inr (describe BS_CLOSED_WEEKLY [])
          else if M_PHONE \<notin> set (ad_modes d) then Inr (describe BS_MODE_UNAVAILABLE [])
          else andThen (evaluateDay sp sn date f d) (\<lambda>r.
            Inr (case r of None \<Rightarrow> None | Some (status, slots) \<Rightarrow> describe status slots)))"


section \<open>The calendar\<close>

definition publicSlot :: "candidate \<Rightarrow> slot" where
  "publicSlot c = slot.truncate c"

text \<open>The days in turn; one that does not end or throws does so for the whole.\<close>

fun evaluateDays ::
  "slot_platform \<Rightarrow> snapshot \<Rightarrow> string list \<Rightarrow> (booking_day \<times> candidate list) list option api" where
  "evaluateDays sp sn [] = Inr (Some [])"
| "evaluateDays sp sn (date # dates) =
     andThen (directBookingDay sp sn date
         \<lparr>sf_mode = None, sf_now = 0, sf_limit = None, sf_date = None, sf_fromTime = None, sf_toTime = None\<rparr>) (\<lambda>r.
     case r of
       None \<Rightarrow> Inr None
     | Some day \<Rightarrow> andThen (evaluateDays sp sn dates) (\<lambda>rest. Inr (map_option (\<lambda>days. day # days) rest)))"

definition bookingDates :: "slot_platform \<Rightarrow> snapshot \<Rightarrow> string list" where
  "bookingDates sp sn =
    (let today = cairoDateString sp (sn_now sn);
         dayCount = (case (parseDay (lastBookingDate sp sn), parseDay today) of
           (Some a, Some b) \<Rightarrow> (a - b) div 86400000 + 1 | _ \<Rightarrow> 0)
     in map (\<lambda>offset1. addCairoDays sp today (int offset1)) [0..<nat dayCount])"

definition weeklyHours :: "availability \<Rightarrow> (int \<times> bool \<times> (string \<times> string) option) list" where
  "weeklyHours a =
    map (\<lambda>d. let open1 = ad_enabled d \<and> M_PHONE \<in> set (ad_modes d)
             in (ad_weekday d, open1, if open1 then Some (ad_start d, ad_end d) else None))
      (sort_key ad_weekday (if al_published a then al_days a else []))"

text \<open>The first free slot that fits what was asked, or the next one after it.\<close>

definition reachesRequest :: "slot_platform \<Rightarrow> string option \<Rightarrow> string option \<Rightarrow> candidate \<Rightarrow> bool" where
  "reachesRequest sp requestedDate afterTime c =
    (case nonEmpty requestedDate of
       None \<Rightarrow> True
     | Some r \<Rightarrow> textLess r (cairoDateString sp (sl_startsAt c)) \<or>
         (cairoDateString sp (sl_startsAt c) = r \<and>
          (case nonEmpty afterTime of None \<Rightarrow> True | Some t \<Rightarrow> slotMinute sp (sl_startsAt c) \<ge> minutesFromTime t)))"

definition buildBookingAvailability ::
  "slot_platform \<Rightarrow> string \<Rightarrow> snapshot \<Rightarrow> slot_filter \<Rightarrow> booking_availability option api" where
  "buildBookingAvailability sp message sn f =
    andThen (parseWithSchema (consultationSlotFilterSchema sp) (queryOf (sn_availability sn) [] f) message) (\<lambda>_.
    andThen (require (\<not> (case (nonEmpty (sf_fromTime f), nonEmpty (sf_toTime f)) of
          (Some u, Some v) \<Rightarrow> \<not> textLess u v | _ \<Rightarrow> False)) (ValidationApiError message [])) (\<lambda>_.
    andThen (evaluateDays sp sn (bookingDates sp sn)) (\<lambda>r.
    case r of
      None \<Rightarrow> Inr None
    | Some evaluated \<Rightarrow>
      (let a = sn_availability sn; today = cairoDateString sp (sn_now sn);
           every = sort_key sl_startsAt (concat (map snd evaluated));
           requestedDate = (case sf_date f of Some d \<Rightarrow> Some d
             | None \<Rightarrow> if nonEmpty (sf_fromTime f) \<noteq> None \<or> nonEmpty (sf_toTime f) \<noteq> None then Some today else None);
           selectedDate = (case requestedDate of Some d \<Rightarrow> d
             | None \<Rightarrow> (case every of [] \<Rightarrow> today | c # _ \<Rightarrow> cairoDateString sp (sl_startsAt c)))
       in andThen (directBookingDay sp sn selectedDate f) (\<lambda>r2.
          Inr (case r2 of
            None \<Rightarrow> None
          | Some (selectedDay, selected) \<Rightarrow>
            (let afterTime = (case sf_toTime f of Some t \<Rightarrow> Some t | None \<Rightarrow> sf_fromTime f);
                 nearest = (case selected of c # _ \<Rightarrow> Some c
                   | [] \<Rightarrow> find (reachesRequest sp requestedDate afterTime) every)
             in Some \<lparr>ba_published = al_published a, ba_now = sn_now sn,
                  ba_slotDurationMinutes = al_slotDurationMinutes a, ba_weeklyHours = weeklyHours a,
                  ba_days = map fst evaluated, ba_selectedDay = selectedDay, ba_window = (today, lastBookingDate sp sn),
                  ba_slots = map publicSlot
                    (if nonEmpty requestedDate \<noteq> None then take 100 selected else take 3 every),
                  ba_nearestSlot = map_option publicSlot nearest,
                  ba_suggestedSlots = (case nearest of None \<Rightarrow> []
                    | Some n \<Rightarrow> map publicSlot (take 3 (filter (\<lambda>c. sl_startsAt c \<ge> sl_startsAt n) every))),
                  ba_hasAvailability = (every \<noteq> [])\<rparr>)))))))"


section \<open>The assigned lawyer\<close>

lemma textLess_irrefl [simp]: "\<not> textLess a a"
  by (induction a) simp_all

lemma textLess_trans: "textLess a b \<Longrightarrow> textLess b c \<Longrightarrow> textLess a c"
proof (induction a b arbitrary: c rule: textLess.induct)
  case (1 b)
  then show ?case by (cases b; cases c) auto
next
  case (3 x a y b)
  then show ?case by (cases c) (auto split: if_splits)
qed auto

lemma precedes_irrefl [simp]: "\<not> precedes sp sn date a a"
  by (simp add: precedes_def)

lemma precedes_trans: "precedes sp sn date a b \<Longrightarrow> precedes sp sn date b c \<Longrightarrow> precedes sp sn date a c"
  using textLess_trans by (auto simp: precedes_def)

lemma minimal_exists: "ls \<noteq> [] \<Longrightarrow> \<exists>l\<in>set ls. \<forall>m\<in>set ls. \<not> precedes sp sn date m l"
proof (induction ls)
  case (Cons x xs)
  show ?case
  proof (cases "xs = []")
    case False
    then obtain l where l: "l \<in> set xs" "\<forall>m\<in>set xs. \<not> precedes sp sn date m l" using Cons.IH by blast
    show ?thesis
    proof (cases "precedes sp sn date x l")
      case True
      then have "\<forall>m\<in>set (x # xs). \<not> precedes sp sn date m x"
        using l(2) precedes_trans [OF _ True] by auto
      then show ?thesis by (meson list.set_intros(1))
    qed (use l in auto)
  qed simp
qed simp

lemma leastLoaded_total: "ls \<noteq> [] \<Longrightarrow> leastLoaded sp sn date ls \<noteq> None"
  using minimal_exists [of ls sp sn date] by (auto simp: leastLoaded_def find_None_iff list_all_iff)

lemma leastLoaded_Some:
  assumes "leastLoaded sp sn date ls = Some l"
  shows "l \<in> set ls" and "\<And>m. m \<in> set ls \<Longrightarrow> dailyCount sp sn date l \<le> dailyCount sp sn date m"
  using assms by (auto simp: leastLoaded_def find_Some_iff list_all_iff precedes_def not_less)

lemma refusals_Nil:
  assumes "refusals sp sn date x roster = []"
  shows "fst (consultationSlotWindow (sn_availability sn) (sn_now sn)) \<le> sl_startsAt x"
    and "sl_startsAt x < snd (consultationSlotWindow (sn_availability sn) (sn_now sn))"
    and "\<not> list_ex (\<lambda>a. ap_type a = AT_CONSULTATION \<and> overlapsSlot x a) (sn_appointments sn)"
    and "eligibleLawyers sn x (openLawyers sn date (slotMinute sp (sl_startsAt x)) roster) \<noteq> []"
  using assms by (auto simp: refusals_def Let_def split_beta split: if_splits)

text \<open>A slot that nothing refuses is assigned.\<close>

lemma unrefused_assigned:
  assumes "refusals sp sn date x roster = []"
  obtains l where "candidateFor sp sn date x roster = Inr (slot.extend x (candidate.fields l))"
    and "leastLoaded sp sn date
      (eligibleLawyers sn x (openLawyers sn date (slotMinute sp (sl_startsAt x)) roster)) = Some l"
  using leastLoaded_total [OF refusals_Nil(4) [OF assms]] assms that
  by (auto simp: candidateFor_def Let_def)

lemma candidate_projections [simp]:
  "sl_startsAt (slot.extend x e) = sl_startsAt x" "sl_endsAt (slot.extend x e) = sl_endsAt x"
  "sl_mode (slot.extend x e) = sl_mode x" "cd_lawyerId (slot.extend x (candidate.fields l)) = l"
  "overlapsSlot (slot.extend x e) a = overlapsSlot x a"
  by (simp_all add: slot.defs candidate.defs overlapsSlot_def)

lemma candidateFor_Inr:
  assumes "candidateFor sp sn date x roster = Inr c"
  obtains l where "c = slot.extend x (candidate.fields l)" and "refusals sp sn date x roster = []"
    and "leastLoaded sp sn date
      (eligibleLawyers sn x (openLawyers sn date (slotMinute sp (sl_startsAt x)) roster)) = Some l"
  using assms that
  by (cases "refusals sp sn date x roster") (auto simp: candidateFor_def Let_def split: list.splits option.splits)

lemma evaluateDay_member:
  assumes "evaluateDay sp sn date f d = Inr (Some (status, cs))" and "c \<in> set cs"
  obtains slots x where "generateConsultationSlots sp (nominalQuery sn date) = Inr (Some slots)"
    and "x \<in> set slots" and "fitsHours sp sn f x" and "candidateFor sp sn date x (dayRoster sn d) = Inr c"
proof -
  obtain nominal where g: "generateConsultationSlots sp (nominalQuery sn date) = Inr nominal"
    using assms by (auto simp: evaluateDay_def Let_def split: if_splits)
  have "dayRoster sn d \<noteq> []" using assms by (auto simp: evaluateDay_def)
  then obtain slots where slots: "nominal = Some slots"
    using assms(1) g by (cases nominal) (simp_all add: evaluateDay_def)
  let ?fs = "filter (fitsHours sp sn f) slots"
  have "cs = candidatesOf (map (\<lambda>x. candidateFor sp sn date x (dayRoster sn d)) ?fs)"
    using assms g slots \<open>dayRoster sn d \<noteq> []\<close>
    by (cases ?fs) (simp_all add: evaluateDay_def Let_def)
  then obtain x where "x \<in> set ?fs" "candidateFor sp sn date x (dayRoster sn d) = Inr c"
    using assms(2) by (auto simp: candidatesOf_def split: sum.splits)
  then show thesis using g slots that by auto
qed

lemma directBookingDay_member:
  assumes "directBookingDay sp sn date f = Inr (Some (day, cs))" and "c \<in> set cs"
  obtains d x where "al_published (sn_availability sn)" and "dayOf sp (sn_availability sn) date = Some d"
    and "ad_enabled d" and "M_PHONE \<in> set (ad_modes d)" and "fitsHours sp sn f x"
    and "\<exists>slots. generateConsultationSlots sp (nominalQuery sn date) = Inr (Some slots) \<and> x \<in> set slots"
    and "candidateFor sp sn date x (dayRoster sn d) = Inr c"
proof -
  obtain d where d: "al_published (sn_availability sn)" "dayOf sp (sn_availability sn) date = Some d"
    "ad_enabled d" "M_PHONE \<in> set (ad_modes d)"
    and e: "\<exists>status. evaluateDay sp sn date f d = Inr (Some (status, cs))"
    using assms by (auto simp: directBookingDay_def Let_def split: if_splits option.splits)
  then show thesis using d that evaluateDay_member [OF _ assms(2)] by metis
qed

lemma dayRoster_member:
  assumes "l \<in> set (dayRoster sn d)"
  shows "l \<in> set (sn_lawyers sn)"
    and "\<exists>ids. (ad_weekday d, ids) \<in> set (al_roster (sn_availability sn)) \<and> l \<in> set ids"
proof -
  show "l \<in> set (sn_lawyers sn)" using assms by (simp add: dayRoster_def Let_def)
  obtain r where r: "find (\<lambda>r. fst r = ad_weekday d) (al_roster (sn_availability sn)) = Some r" "l \<in> set (snd r)"
    using assms
    by (cases "find (\<lambda>r. fst r = ad_weekday d) (al_roster (sn_availability sn))") (simp_all add: dayRoster_def Let_def)
  then have "r \<in> set (al_roster (sn_availability sn)) \<and> fst r = ad_weekday d"
    by (auto simp: find_Some_iff)
  then show "\<exists>ids. (ad_weekday d, ids) \<in> set (al_roster (sn_availability sn)) \<and> l \<in> set ids"
    using r(2) by (cases r) auto
qed

text \<open>The lawyers of a day's roster who could take a slot.\<close>

definition couldTake :: "slot_platform \<Rightarrow> snapshot \<Rightarrow> string \<Rightarrow> slot \<Rightarrow> availability_day \<Rightarrow> string \<Rightarrow> bool" where
  "couldTake sp sn date x d l \<longleftrightarrow>
    l \<in> set (dayRoster sn d) \<and> \<not> closedFor sn date (slotMinute sp (sl_startsAt x)) l \<and>
    \<not> list_ex (\<lambda>a. ap_lawyerId a = Some l \<and> overlapsSlot x a) (sn_appointments sn)"

lemma eligible_couldTake:
  "l \<in> set (eligibleLawyers sn x (openLawyers sn date (slotMinute sp (sl_startsAt x)) (dayRoster sn d))) \<longleftrightarrow>
    couldTake sp sn date x d l"
  by (auto simp: eligibleLawyers_def openLawyers_def couldTake_def)

definition sampleSnapshot :: snapshot where
  "sampleSnapshot =
    \<lparr>sn_availability = sampleAvailability\<lparr>al_published := True, al_roster := [(1, [''l1'', ''l2''])]\<rparr>,
     sn_now = 50, sn_lawyers = [''l1'', ''l2''],
     sn_appointments = [sampleReserved\<lparr>ap_lawyerId := Some ''l1'', ap_type := AT_CALL,
       ap_startsAt := 4 * MS_PER_DAY + 28800000, ap_endsAt := 4 * MS_PER_DAY + 32400000\<rparr>]\<rparr>"

definition plainFilter :: slot_filter where
  "plainFilter =
    \<lparr>sf_mode = None, sf_now = 0, sf_limit = None, sf_date = None, sf_fromTime = None, sf_toTime = None\<rparr>"

text \<open>
  A slot that is offered for direct booking can be kept: the schedule is published, the day is
  open by telephone, the slot lasts the configured duration and lies within the lead time and the booking
  window, no consultation overlaps it, and its lawyer is an active one of the day's roster whose periods
  are not closed, who has no overlapping appointment, and who has no more appointments that day than
  any other lawyer who could take it.
\<close>

theorem direct_slot_assignable:
  assumes "directBookingDay sp sn date f = Inr (Some (day, cs))" and "c \<in> set cs"
    and "1 \<le> al_slotDurationMinutes (sn_availability sn)"
  shows "\<exists>d. al_published (sn_availability sn) \<and> dayOf sp (sn_availability sn) date = Some d \<and>
      ad_enabled d \<and> M_PHONE \<in> set (ad_modes d) \<and>
      sl_endsAt c = sl_startsAt c + al_slotDurationMinutes (sn_availability sn) * minuteMs \<and>
      sn_now sn + al_minLeadHours (sn_availability sn) * 3600000 \<le> sl_startsAt c \<and>
      sl_startsAt c < sn_now sn + al_minLeadHours (sn_availability sn) * 3600000 +
        al_bookingWindowDays (sn_availability sn) * MS_PER_DAY \<and>
      (\<forall>a\<in>set (sn_appointments sn). ap_type a = AT_CONSULTATION \<longrightarrow> \<not> overlapsSlot c a) \<and>
      couldTake sp sn date (publicSlot c) d (cd_lawyerId c) \<and>
      (\<forall>m. couldTake sp sn date (publicSlot c) d m \<longrightarrow>
        dailyCount sp sn date (cd_lawyerId c) \<le> dailyCount sp sn date m)"
proof -
  obtain d x slots where d: "al_published (sn_availability sn)" "dayOf sp (sn_availability sn) date = Some d"
    "ad_enabled d" "M_PHONE \<in> set (ad_modes d)"
    and x: "generateConsultationSlots sp (nominalQuery sn date) = Inr (Some slots)" "x \<in> set slots"
    and c: "candidateFor sp sn date x (dayRoster sn d) = Inr c"
    by (rule directBookingDay_member [OF assms(1,2)]) blast
  obtain l where l: "c = slot.extend x (candidate.fields l)" "refusals sp sn date x (dayRoster sn d) = []"
    "leastLoaded sp sn date
      (eligibleLawyers sn x (openLawyers sn date (slotMinute sp (sl_startsAt x)) (dayRoster sn d))) = Some l"
    by (rule candidateFor_Inr [OF c])
  have "1 \<le> al_slotDurationMinutes (sq_availability (nominalQuery sn date))"
    using assms(3) by (simp add: nominalQuery_def)
  then obtain day m where "x \<in> set (slotAt sp (nominalQuery sn date) day m)"
    using generated_slot [OF x] by blast
  then have "sl_endsAt x = sl_startsAt x + al_slotDurationMinutes (sn_availability sn) * minuteMs"
    by (auto dest: slotAt_sound(2) simp: nominalQuery_def)
  moreover have "publicSlot c = x" by (simp add: l(1) publicSlot_def slot.defs)
  ultimately show ?thesis
    using d l(1) refusals_Nil(1-3) [OF l(2)] leastLoaded_Some [OF l(3)]
    by (intro exI [of _ d]) (auto simp: eligible_couldTake consultationSlotWindow_def Let_def list_ex_iff)
qed

definition sampleHours :: slot_filter where
  "sampleHours = plainFilter\<lparr>sf_fromTime := Some ''10:00'', sf_toTime := Some ''11:00''\<rparr>"

definition sampleTen :: slot where
  "sampleTen = \<lparr>sl_startsAt = 374400000, sl_endsAt = 378000000, sl_mode = M_PHONE\<rparr>"

lemma generate_accepts:
  assumes "1 \<le> al_slotDurationMinutes (sq_availability q)" and "consultationSlotFilterSchema sp q = Inr q"
  shows "generateConsultationSlots sp q =
    Inr (Some (take (nat (queryLimit q)) (concat (map (daySlots sp q) (scannedDates sp q)))))"
  using assms by (simp add: generateConsultationSlots_def parseWithSchema_def dayLoop_eq)

lemma sampleNominal_slots:
  "filter (fitsHours sampleClock sampleSnapshot sampleHours)
     (daySlots sampleClock (nominalQuery sampleSnapshot ''1970-01-05'') ''1970-01-05'') = [sampleTen]"
  "length (daySlots sampleClock (nominalQuery sampleSnapshot ''1970-01-05'') ''1970-01-05'') \<le> 100"
  by code_simp+

lemma sampleNominal:
  "generateConsultationSlots sampleClock (nominalQuery sampleSnapshot ''1970-01-05'') =
    Inr (Some (daySlots sampleClock (nominalQuery sampleSnapshot ''1970-01-05'') ''1970-01-05''))"
proof -
  have "consultationSlotDateSchema ''1970-01-05''" by code_simp
  then have schema: "consultationSlotFilterSchema sampleClock (nominalQuery sampleSnapshot ''1970-01-05'') =
      Inr (nominalQuery sampleSnapshot ''1970-01-05'')"
    by (simp add: consultationSlotFilterSchema_def nominalQuery_def Let_def)
  have "addCairoDays sampleClock ''1970-01-05'' 0 = ''1970-01-05''" by code_simp
  then have dates: "scannedDates sampleClock (nominalQuery sampleSnapshot ''1970-01-05'') = [''1970-01-05'']"
    by (simp add: scannedDates_def nominalQuery_def nonEmpty_def)
  have "1 \<le> al_slotDurationMinutes (sq_availability (nominalQuery sampleSnapshot ''1970-01-05''))"
    "nat (queryLimit (nominalQuery sampleSnapshot ''1970-01-05'')) = 100"
    by (simp_all add: nominalQuery_def sampleSnapshot_def sampleAvailability_def queryLimit_def)
  then show ?thesis
    using sampleNominal_slots(2) by (simp add: generate_accepts [OF _ schema] dates)
qed

text \<open>At ten o'clock the first lawyer of the roster is busy: the second one is offered.\<close>

lemma sampleTen_candidate:
  "candidateFor sampleClock sampleSnapshot ''1970-01-05'' sampleTen [''l1'', ''l2''] =
    Inr (slot.extend sampleTen (candidate.fields ''l2''))"
  by code_simp

text \<open>The day is a Monday within the window, with both lawyers on its roster.\<close>

lemma sampleMonday:
  obtains d where "dayOf sampleClock (sn_availability sampleSnapshot) ''1970-01-05'' = Some d"
    "ad_enabled d" "M_PHONE \<in> set (ad_modes d)" "dayRoster sampleSnapshot d = [''l1'', ''l2'']"
proof
  let ?d = "\<lparr>ad_weekday = 1, ad_enabled = True, ad_start = ''10:00'', ad_end = ''17:00'',
       ad_modes = [M_ONLINE, M_PHONE, M_OFFICE]\<rparr>"
  show "dayOf sampleClock (sn_availability sampleSnapshot) ''1970-01-05'' = Some ?d" by code_simp
  show "ad_enabled ?d" "M_PHONE \<in> set (ad_modes ?d)" by simp_all
  show "dayRoster sampleSnapshot ?d = [''l1'', ''l2'']" by code_simp
qed

lemma sampleMonday_within:
  "\<not> textLess ''1970-01-05'' (cairoDateString sampleClock (sn_now sampleSnapshot))"
  "\<not> textLess (lastBookingDate sampleClock sampleSnapshot) ''1970-01-05''"
  by code_simp+

lemma sampleTen_day:
  "\<exists>day. directBookingDay sampleClock sampleSnapshot ''1970-01-05'' sampleHours =
    Inr (Some (day, [slot.extend sampleTen (candidate.fields ''l2'')]))"
proof -
  obtain d where d: "dayOf sampleClock (sn_availability sampleSnapshot) ''1970-01-05'' = Some d"
    "ad_enabled d" "M_PHONE \<in> set (ad_modes d)" "dayRoster sampleSnapshot d = [''l1'', ''l2'']"
    by (rule sampleMonday)
  have "evaluateDay sampleClock sampleSnapshot ''1970-01-05'' sampleHours d =
    Inr (Some (BS_AVAILABLE, [slot.extend sampleTen (candidate.fields ''l2'')]))"
    using d(4) sampleNominal sampleNominal_slots(1)
    by (simp add: evaluateDay_def sampleTen_candidate statusOfDay_def candidatesOf_def Let_def)
  moreover have "al_published (sn_availability sampleSnapshot)" by (simp add: sampleSnapshot_def)
  ultimately show ?thesis using d(1-3) sampleMonday_within by (simp add: directBookingDay_def Let_def)
qed

theorem direct_slot_assignable_witness:
  "\<exists>d. dayOf sampleClock (sn_availability sampleSnapshot) ''1970-01-05'' = Some d \<and>
    couldTake sampleClock sampleSnapshot ''1970-01-05'' sampleTen d ''l2''"
proof -
  obtain day where "directBookingDay sampleClock sampleSnapshot ''1970-01-05'' sampleHours =
    Inr (Some (day, [slot.extend sampleTen (candidate.fields ''l2'')]))" (is "_ = Inr (Some (day, [?c]))")
    using sampleTen_day by blast
  moreover have "1 \<le> al_slotDurationMinutes (sn_availability sampleSnapshot)"
    by (simp add: sampleSnapshot_def sampleAvailability_def)
  moreover have "publicSlot ?c = sampleTen" by (simp add: publicSlot_def slot.defs)
  ultimately show ?thesis using direct_slot_assignable [of sampleClock sampleSnapshot "''1970-01-05''" sampleHours day "[?c]" ?c] by auto
qed

end
