(* ===== verification/Phones.thy ===== *)
theory Phones
  imports JsText
begin

text \<open>
  Telephone numbers: \<open>src/src/server/phone/phone-normalization.ts\<close> and \<open>phone-schema.ts\<close>. A number as it
  is typed is the list of its code points, because it may hold Arabic digits; the canonical number is
  a text of ASCII digits.
\<close>

definition arabicDigitToAscii :: "nat \<Rightarrow> nat option" where
  "arabicDigitToAscii codePoint =
    (if codePoint \<ge> 1632 \<and> codePoint \<le> 1641 then Some (codePoint - 1632)
     else if codePoint \<ge> 1776 \<and> codePoint \<le> 1785 then Some (codePoint - 1776) else None)"

definition phoneDigit :: "nat \<Rightarrow> string" where
  "phoneDigit codePoint =
    (case arabicDigitToAscii codePoint of
       Some d \<Rightarrow> [digitChar d]
     | None \<Rightarrow> if 48 \<le> codePoint \<and> codePoint \<le> 57 then [digitChar (codePoint - 48)] else [])"

definition egyptianMobile :: "string \<Rightarrow> bool" where
  "egyptianMobile s = (length s = 11 \<and> startsWith ''01'' s \<and> allDigits s)"

definition canonicalPhone :: "nat list option \<Rightarrow> string option" where
  "canonicalPhone value =
    (let digits = concat (map phoneDigit (case value of None \<Rightarrow> [] | Some v \<Rightarrow> v))
     in if digits = [] then None
        else let rest = (if startsWith ''00'' digits then drop 2 digits else digits)
             in Some (if egyptianMobile rest then ''20'' @ drop 1 rest else rest))"

definition canonicalPhoneForSearch :: "nat list option \<Rightarrow> string option" where
  "canonicalPhoneForSearch value = canonicalPhone value"

definition whitespacePoint :: "nat \<Rightarrow> bool" where
  "whitespacePoint n = (n \<in> {9, 10, 11, 12, 13, 32, 160, 5760, 8232, 8233, 8239, 8287, 12288, 65279} \<or>
    (8192 \<le> n \<and> n \<le> 8202))"

definition trimPoints :: "nat list \<Rightarrow> nat list" where
  "trimPoints v = rev (dropWhile whitespacePoint (rev (dropWhile whitespacePoint v)))"

definition phonePoint :: "nat \<Rightarrow> bool" where
  "phonePoint n = ((48 \<le> n \<and> n \<le> 57) \<or> arabicDigitToAscii n \<noteq> None \<or> n \<in> {43, 32, 40, 41, 45})"

definition phoneSchema :: "nat list \<Rightarrow> nat list option" where
  "phoneSchema value =
    (let v = trimPoints value; c = (case canonicalPhone (Some v) of None \<Rightarrow> [] | Some s \<Rightarrow> s)
     in if length v \<le> 24 \<and> v \<noteq> [] \<and> list_all phonePoint v \<and> 8 \<le> length c \<and> length c \<le> 15 \<and> allDigits c
        then Some v else None)"


section \<open>Canonical numbers\<close>

lemma phoneDigit_digits: "list_all isDigit (phoneDigit n)"
proof -
  have "isDigit (digitChar d)" if "d < 10" for d using that by (rule isDigit_digitChar)
  then show ?thesis
    by (auto simp: phoneDigit_def arabicDigitToAscii_def split: option.splits if_splits)
qed

lemma canonicalPhone_digits:
  assumes "canonicalPhone v = Some s"
  shows "list_all isDigit s"
proof -
  let ?digits = "concat (map phoneDigit (case v of None \<Rightarrow> [] | Some v \<Rightarrow> v))"
  have digits: "list_all isDigit ?digits" using phoneDigit_digits by (auto simp: list_all_iff)
  then have "list_all isDigit (drop n ?digits)" for n unfolding list_all_iff by (meson in_set_dropD)
  moreover have "list_all isDigit ''20''" by code_simp
  ultimately show ?thesis
    using assms digits by (auto simp: canonicalPhone_def Let_def split: if_splits)
qed

text \<open>
  The notations of an Egyptian mobile number have one canonical form: national, with the country code,
  and with the international prefix.
\<close>

definition asciiPoints :: "string \<Rightarrow> nat list" where
  "asciiPoints s = map codeUnit s"

lemma phoneDigit_ascii: "isDigit c \<Longrightarrow> phoneDigit (codeUnit c) = [c]"
  by (simp add: phoneDigit_def arabicDigitToAscii_def isDigit_def digitChar_def codeUnit_def)

lemma concat_ascii: "list_all isDigit s \<Longrightarrow> concat (map phoneDigit (asciiPoints s)) = s"
  by (induction s) (simp_all add: asciiPoints_def phoneDigit_ascii)

lemma mobile_notations:
  assumes "list_all isDigit s" and "length s = 9"
  shows "canonicalPhone (Some (asciiPoints (''01'' @ s))) = Some (''201'' @ s)"
    and "canonicalPhone (Some (asciiPoints (''+201'' @ s))) = Some (''201'' @ s)"
    and "canonicalPhone (Some (asciiPoints (''00201'' @ s))) = Some (''201'' @ s)"
proof -
  have split: "concat (map phoneDigit (asciiPoints (a @ s))) = concat (map phoneDigit (asciiPoints a)) @ s" for a
    using concat_ascii [OF assms(1)] by (simp add: asciiPoints_def)
  have "concat (map phoneDigit (asciiPoints ''01'')) = ''01''"
    "concat (map phoneDigit (asciiPoints ''+201'')) = ''201''" "concat (map phoneDigit (asciiPoints ''00201'')) = ''00201''"
    by code_simp+
  then have digits: "concat (map phoneDigit (asciiPoints (''01'' @ s))) = ''01'' @ s"
    "concat (map phoneDigit (asciiPoints (''+201'' @ s))) = ''201'' @ s"
    "concat (map phoneDigit (asciiPoints (''00201'' @ s))) = ''00201'' @ s"
    by (simp_all only: split)
  have "list_all isDigit ''01''" by code_simp
  then have mobile: "egyptianMobile (''01'' @ s)" "\<not> egyptianMobile (''201'' @ s)"
    using assms by (simp_all add: egyptianMobile_def startsWith_def allDigits_def)
  show "canonicalPhone (Some (asciiPoints (''01'' @ s))) = Some (''201'' @ s)"
    unfolding canonicalPhone_def Let_def option.case digits using mobile(1) by (simp add: startsWith_def)
  show "canonicalPhone (Some (asciiPoints (''+201'' @ s))) = Some (''201'' @ s)"
    unfolding canonicalPhone_def Let_def option.case digits using mobile(2) by (simp add: startsWith_def)
  show "canonicalPhone (Some (asciiPoints (''00201'' @ s))) = Some (''201'' @ s)"
    unfolding canonicalPhone_def Let_def option.case digits using mobile(2) by (simp add: startsWith_def)
qed

end
