(* ===== verification/BookingDb.thy ===== *)
theory BookingDb
  imports DirectBooking Phones
begin

text \<open>
  The rows of the conversations that end in a booking and of the cases requests become, and the services the booking uses:
  the transcript and the hand-over to the office
  (\<open>src/src/server/conversations/assistant-handoff-service.ts\<close>), the ownership of a conversation
  (\<open>conversation-session-service.ts\<close>), the draft and the dialogue (\<open>conversation-contract.ts\<close>,
  \<open>src/src/server/ai/company-conversation-policy.ts\<close>).

  A consultation request is the row of the office joined with its columns here; a request whose
  columns are not known here was made by the office itself. Tables list their rows in the order of creation. A throw
  that is not an \<open>ApiError\<close> is the \<open>INTERNAL_ERROR\<close> the HTTP layer answers with.
\<close>

section \<open>Rows\<close>

datatype confirmation_source = STAFF_APPROVAL | PUBLISHED_SLOT | CALLBACK_REQUEST
datatype contact_channel = CH_PHONE | CH_WHATSAPP
datatype body_line =
    CopyLine string
  | TextLine string
  | ReferenceLine string
  | ContactLine string "nat list"
  | SlotLine int

record request_contact =
  rc_id :: string
  rc_publicReference :: string
  rc_phone :: "nat list"
  rc_phoneCanonical :: "string option"
  rc_publicServiceSlug :: string
  rc_summary :: string
  rc_aiSummary :: "string option"
  rc_urgency :: string
  rc_email :: "string option"
  rc_city :: "string option"
  rc_preferredMode :: appointment_mode
  rc_contactChannel :: contact_channel
  rc_locale :: string
  rc_confirmationSource :: confirmation_source
  rc_requestedStartsAt :: "int option"
  rc_requestedEndsAt :: "int option"

record client_contact =
  ct_id :: string
  ct_fullName :: string
  ct_phone :: "nat list"
  ct_phoneCanonical :: "string option"
  ct_email :: "string option"
  ct_city :: "string option"
  ct_status :: string
  ct_source :: "string option"
  ct_userId :: "string option"
  ct_userActive :: bool
  ct_deleted :: bool

record assistant_session =
  as_id :: string
  as_capabilityHash :: string
  as_locale :: string
  as_clientId :: "string option"
  as_consultationRequestId :: "string option"
  as_threadId :: "string option"
  as_draft :: json
  as_dialogue :: json
  as_humanOwned :: bool
  as_revision :: int
  as_leaseId :: "string option"
  as_leaseExpiresAt :: "int option"
  as_expiresAt :: int

record assistant_turn =
  tn_id :: string
  tn_sessionId :: string
  tn_userText :: string
  tn_recipient :: string
  tn_assistantText :: "string option"
  tn_status :: string
  tn_errorCode :: "string option"
  tn_createdAt :: int
  tn_updatedAt :: int

record conversation_thread =
  th_id :: string
  th_clientId :: "string option"
  th_status :: string
  th_assignedToId :: "string option"

record conversation_message =
  mg_id :: string
  mg_threadId :: string
  mg_senderType :: string
  mg_recipient :: "string option"
  mg_body :: "body_line list"
  mg_createdAt :: int

record booking_action =
  bx_sessionId :: string
  bx_key :: string
  bx_requestHash :: string

record legal_case =
  lc_id :: string
  lc_internalFileNumber :: string
  lc_clientId :: string
  lc_assignedLawyerId :: string
  lc_consultationRequestId :: "string option"
  lc_title :: string
  lc_caseType :: string
  lc_courtName :: "string option"
  lc_externalCaseNumber :: "string option"
  lc_status :: string
  lc_priority :: string
  lc_summary :: "string option"
  lc_nextSessionAt :: "int option"
  lc_createdAt :: int
  lc_updatedAt :: int
  lc_deletedAt :: "int option"

record booking_db =
  bk_office :: office
  bk_settings :: "setting list"
  bk_requests :: "request_contact list"
  bk_clients :: "client_contact list"
  bk_sessions :: "assistant_session list"
  bk_turns :: "assistant_turn list"
  bk_threads :: "conversation_thread list"
  bk_messages :: "conversation_message list"
  bk_actions :: "booking_action list"
  bk_cases :: "legal_case list"

text \<open>
  What the code calls outside: the digest, the parser of dates, the validators of the schema library,
  the copy and the booking category of a service in a language, and the rest of the dialogue's schema.
\<close>

record booking_platform =
  bp_clock :: slot_platform
  bp_sha256 :: "string \<Rightarrow> string"
  bp_parseDate :: "string \<Rightarrow> int"
  bp_isEmail :: "string \<Rightarrow> bool"
  bp_isDateTime :: "string \<Rightarrow> bool"
  bp_copy :: "string \<Rightarrow> string \<Rightarrow> string"
  bp_category :: "string \<Rightarrow> string \<Rightarrow> string"
  bp_dialogueRest :: "json \<Rightarrow> bool"
  bp_message :: string

section \<open>Transcripts\<close>

definition slice :: "nat \<Rightarrow> nat \<Rightarrow> string \<Rightarrow> string" where
  "slice a b s = take (b - a) (drop a s)"

definition transcriptId :: "booking_platform \<Rightarrow> string \<Rightarrow> string \<Rightarrow> string" where
  "transcriptId pf turnId side =
    (let hex = bp_sha256 pf (''kmt-transcript:'' @ turnId @ '':'' @ side)
     in slice 0 8 hex @ ''-'' @ slice 8 12 hex @ ''-4'' @ slice 13 16 hex @ ''-a'' @ slice 17 20 hex @
        ''-'' @ slice 20 32 hex)"

definition turnMessages :: "booking_platform \<Rightarrow> string \<Rightarrow> assistant_turn \<Rightarrow> conversation_message list" where
  "turnMessages pf threadId t =
    \<lparr>mg_id = transcriptId pf (tn_id t) ''user'', mg_threadId = threadId, mg_senderType = ''CLIENT'',
     mg_recipient = Some (tn_recipient t), mg_body = [TextLine (tn_userText t)], mg_createdAt = tn_createdAt t\<rparr> #
    (case nonEmpty (tn_assistantText t) of
       None \<Rightarrow> []
     | Some text1 \<Rightarrow> [\<lparr>mg_id = transcriptId pf (tn_id t) ''assistant'', mg_threadId = threadId,
         mg_senderType = ''SYSTEM'', mg_recipient = None, mg_body = [TextLine text1], mg_createdAt = tn_updatedAt t\<rparr>])"

definition addMessage :: "conversation_message list \<Rightarrow> conversation_message \<Rightarrow> conversation_message list" where
  "addMessage ms m = (if mg_id m \<in> mg_id ` set ms then ms else ms @ [m])"

definition syncAssistantTranscript :: "booking_platform \<Rightarrow> string \<Rightarrow> string \<Rightarrow> booking_db \<Rightarrow> booking_db" where
  "syncAssistantTranscript pf sessionId threadId s =
    (let turns = take 100 (sort_key tn_createdAt
           (filter (\<lambda>t. tn_sessionId t = sessionId \<and> tn_status t \<in> {''COMPLETED'', ''HUMAN''}) (bk_turns s)))
     in s\<lparr>bk_messages := foldl addMessage (bk_messages s) (concat (map (turnMessages pf threadId) turns))\<rparr>)"

definition updateSession1 :: "string \<Rightarrow> (assistant_session \<Rightarrow> assistant_session) \<Rightarrow> booking_db \<Rightarrow> booking_db" where
  "updateSession1 i f s = s\<lparr>bk_sessions := modify as_id i f (bk_sessions s)\<rparr>"

text \<open>The thread of a conversation, opened when there is none.\<close>

definition ensureAssistantHandoff ::
  "booking_platform \<Rightarrow> string \<Rightarrow> string \<Rightarrow> booking_db \<Rightarrow> (string \<times> booking_db) api" where
  "ensureAssistantHandoff pf newId sessionId s =
    (case fetch as_id sessionId (bk_sessions s) of
       None \<Rightarrow> Inl (unhandled ''assistant_sessions'')
     | Some a \<Rightarrow>
       (case nonEmpty (as_threadId a) of
          Some threadId \<Rightarrow> Inr (threadId, syncAssistantTranscript pf sessionId threadId s)
        | None \<Rightarrow>
          andThen (insertRow ''conversation_threads'' th_id
              \<lparr>th_id = newId, th_clientId = as_clientId a, th_status = ''WAITING_STAFF'', th_assignedToId = None\<rparr>
              (bk_threads s)) (\<lambda>threads.
            let s1 = updateSession1 sessionId (\<lambda>x. x\<lparr>as_threadId := Some newId\<rparr>) (s\<lparr>bk_threads := threads\<rparr>)
            in Inr (newId, syncAssistantTranscript pf sessionId newId s1))))"


section \<open>Ownership\<close>

definition authenticationRequired :: api_error where
  "authenticationRequired = apiError 401 AUTH_REQUIRED ''Authentication required.''"

definition ownedBy :: "int \<Rightarrow> principal option \<Rightarrow> assistant_session \<Rightarrow> bool" where
  "ownedBy now actor a =
    (as_expiresAt a > now \<and>
     (nonEmpty (as_clientId a) = None \<or> (case actor of None \<Rightarrow> False | Some p \<Rightarrow> pr_clientId p = as_clientId a)))"

definition assertActiveServiceClient :: "principal \<Rightarrow> booking_db \<Rightarrow> unit api" where
  "assertActiveServiceClient actor s =
    require (nonEmpty (pr_clientId actor) \<noteq> None \<and> hasPermission actor ''client.read.self'' \<and>
        list_ex (\<lambda>c. Some (ct_id c) = pr_clientId actor \<and> ct_userId c = Some (pr_id actor) \<and> \<not> ct_deleted c \<and>
          ct_userActive c) (bk_clients s))
      (apiError 403 PERMISSION_DENIED ''This action is not permitted.'')"

text \<open>A lease that ran out is released, and the replies that were waiting for it fail.\<close>

definition leaseExpired :: "int \<Rightarrow> assistant_session \<Rightarrow> bool" where
  "leaseExpired now a = (nonEmpty (as_leaseId a) \<noteq> None \<and>
    (case as_leaseExpiresAt a of None \<Rightarrow> True | Some t \<Rightarrow> t \<le> now))"

definition releaseLease :: "assistant_session \<Rightarrow> booking_db \<Rightarrow> booking_db" where
  "releaseLease a s =
    s\<lparr>bk_sessions := modify as_id (as_id a)
        (\<lambda>x. x\<lparr>as_leaseId := None, as_leaseExpiresAt := None, as_revision := as_revision x + 1\<rparr>) (bk_sessions s),
      bk_turns := updateWhere (\<lambda>t. tn_sessionId t = as_id a \<and> tn_status t = ''PENDING'')
        (\<lambda>t. t\<lparr>tn_status := ''FAILED'', tn_errorCode := Some ''AI_PROVIDER_TIMEOUT''\<rparr>) (bk_turns s)\<rparr>"

definition ownAssistantSession ::
  "booking_platform \<Rightarrow> int \<Rightarrow> string \<Rightarrow> principal option \<Rightarrow> booking_db \<Rightarrow> assistant_session api \<times> booking_db" where
  "ownAssistantSession pf now token actor s =
    (case fetch as_capabilityHash (bp_sha256 pf token) (bk_sessions s) of
       None \<Rightarrow> (Inl authenticationRequired, s)
     | Some a \<Rightarrow>
       if \<not> ownedBy now actor a then (Inl authenticationRequired, s)
       else case (if nonEmpty (as_clientId a) = None then Inr ()
                  else case actor of None \<Rightarrow> Inr () | Some p \<Rightarrow> assertActiveServiceClient p s) of
         Inl e \<Rightarrow> (Inl e, s)
       | Inr _ \<Rightarrow>
         if leaseExpired now a
         then let s1 = releaseLease a s
              in (case fetch as_id (as_id a) (bk_sessions s1) of
                    None \<Rightarrow> (Inl authenticationRequired, s1)
                  | Some r \<Rightarrow> if ownedBy now actor r then (Inr r, s1) else (Inl authenticationRequired, s1))
         else (Inr a, s))"


section \<open>Draft and dialogue\<close>

text \<open>The mode and the consent of a dialogue; the other members are checked by the rest of the schema.\<close>

definition readDialogueConsent :: "booking_platform \<Rightarrow> json \<Rightarrow> string \<times> string option" where
  "readDialogueConsent pf v =
    (let mode = orDefault (memberOf v ''mode'') (JStr ''INQUIRY'');
         consent = orDefault (memberOf v ''consentAt'') JNull
     in if isObject v \<and> bp_dialogueRest pf v \<and> mode \<in> {Some (JStr ''INQUIRY''), Some (JStr ''BOOKING'')} \<and>
           (case consent of Some (JStr _) \<Rightarrow> True | Some JNull \<Rightarrow> True | _ \<Rightarrow> False)
        then (case mode of Some (JStr m) \<Rightarrow> m | _ \<Rightarrow> [],
              case consent of Some (JStr c) \<Rightarrow> Some c | _ \<Rightarrow> None)
        else (''INQUIRY'', None))"

definition bookingAllowed :: "booking_platform \<Rightarrow> json \<Rightarrow> bool" where
  "bookingAllowed pf v =
    (case readDialogueConsent pf v of (mode, consent) \<Rightarrow> mode = ''BOOKING'' \<and> nonEmpty consent \<noteq> None)"

definition publicServiceSlugs :: "string list" where
  "publicServiceSlugs =
    [''legal-consultation'', ''company-formation'', ''corporate-business-services'', ''contracts'',
     ''real-estate-legal-support'', ''claims-collections'', ''criminal-law'', ''civil-law'', ''family-personal-status'',
     ''administrative-law'', ''litigation-appeals'', ''employment'', ''investment'', ''tax-customs'', ''banking-finance'',
     ''arbitration'', ''ip-technology'', ''compensation-insurance'', ''immigration-nationality'', ''transport'',
     ''specialist-practices'']"

text \<open>A trimmed text between two lengths; the telephone pattern of a draft.\<close>

definition trimmedText :: "nat \<Rightarrow> nat \<Rightarrow> json \<Rightarrow> json option" where
  "trimmedText lo hi v =
    (case v of JStr s \<Rightarrow> (let t = jsTrim s in if lo \<le> length t \<and> length t \<le> hi then Some (JStr t) else None)
     | _ \<Rightarrow> None)"

definition draftPhone :: "json \<Rightarrow> json option" where
  "draftPhone v =
    (case v of
       JStr s \<Rightarrow> (let t = jsTrim s; rest = (if startsWith ''+'' t then drop 1 t else t)
         in if 8 \<le> length rest \<and> length rest \<le> 24 \<and> list_all (\<lambda>c. isDigit c \<or> c \<in> set '' ()-'') rest
            then Some (JStr t) else None)
     | _ \<Rightarrow> None)"

definition oneOf :: "string list \<Rightarrow> json \<Rightarrow> json option" where
  "oneOf ws v = (case v of JStr s \<Rightarrow> (if s \<in> set ws then Some v else None) | _ \<Rightarrow> None)"

definition draftMember :: "booking_platform \<Rightarrow> string \<Rightarrow> json \<Rightarrow> json option" where
  "draftMember pf key v =
    (if key = ''fullName'' then trimmedText 2 160 v
     else if key = ''phone'' then draftPhone v
     else if key = ''email'' then (case v of
       JStr s \<Rightarrow> (let t = jsTrim s in if bp_isEmail pf t \<and> length t \<le> 254 then Some (JStr (jsLower t)) else None)
       | _ \<Rightarrow> None)
     else if key = ''city'' then trimmedText 2 120 v
     else if key = ''service'' then oneOf publicServiceSlugs v
     else if key = ''summary'' then trimmedText 10 3000 v
     else if key = ''preferredMode'' then oneOf [''PHONE'', ''ONLINE'', ''OFFICE''] v
     else if key = ''contactChannel'' then oneOf [''PHONE'', ''WHATSAPP''] v
     else if key = ''requestedStartsAt'' then (case v of
       JNull \<Rightarrow> Some JNull | JStr s \<Rightarrow> (if bp_isDateTime pf s then Some v else None) | _ \<Rightarrow> None)
     else None)"

definition intakeDraftSchema :: "booking_platform \<Rightarrow> json \<Rightarrow> (string \<times> json) list option" where
  "intakeDraftSchema pf v =
    (case v of
       JObj ms \<Rightarrow> readAll (\<lambda>(k, x). map_option (\<lambda>y. (k, y)) (draftMember pf k x)) ms
     | _ \<Rightarrow> None)"

definition draftText :: "string \<Rightarrow> (string \<times> json) list \<Rightarrow> string option" where
  "draftText key ms = (case map_of ms key of Some (JStr s) \<Rightarrow> Some s | _ \<Rightarrow> None)"

end
