(* ===== verification/BookingActions.thy ===== *)
theory BookingActions
  imports BookingDb
begin

text \<open>
  Booking without the office: \<open>src/src/server/consultations/direct-booking-service.ts\<close>. An action of a
  conversation carries a key; the first time it books, moves or cancels the appointment or asks for a
  call, and afterwards its key answers for it. The instant is read once. The ids the database makes are
  given, and the line of a message that prints an appointment keeps its instant.
\<close>

section \<open>Actions\<close>

datatype booking_kind = ConfirmBooking | RescheduleBooking | CancelBooking | RequestCallback

definition kindText :: "booking_kind \<Rightarrow> string" where
  "kindText k =
    (case k of ConfirmBooking \<Rightarrow> ''confirm_booking'' | RescheduleBooking \<Rightarrow> ''reschedule_booking''
     | CancelBooking \<Rightarrow> ''cancel_booking'' | RequestCallback \<Rightarrow> ''request_callback'')"

text \<open>The body and the digest of its printed form.\<close>

record booking_body =
  bb_action :: booking_kind
  bb_key :: string
  bb_revision :: int
  bb_fullName :: "string option"
  bb_phone :: "nat list option"
  bb_contactChannel :: "contact_channel option"
  bb_startsAt :: "string option"
  bb_hash :: string

record booking_ids =
  bi_client :: string
  bi_request :: string
  bi_appointment :: string
  bi_thread :: string
  bi_message :: string

definition textField :: "nat \<Rightarrow> nat \<Rightarrow> string option \<Rightarrow> string option option" where
  "textField lo hi x =
    (case x of None \<Rightarrow> Some None
     | Some s \<Rightarrow> (let t = jsTrim s in if lo \<le> length t \<and> length t \<le> hi then Some (Some t) else None))"

definition phoneField :: "nat list option \<Rightarrow> nat list option option" where
  "phoneField x = (case x of None \<Rightarrow> Some None | Some v \<Rightarrow> map_option Some (phoneSchema v))"

definition directBookingInputSchema :: "booking_platform \<Rightarrow> booking_body \<Rightarrow> booking_body option" where
  "directBookingInputSchema pf b =
    (case (textField 2 160 (bb_fullName b), phoneField (bb_phone b)) of
       (Some name1, Some phone1) \<Rightarrow>
         if sp_isUuid (bp_clock pf) (bb_key b) \<and> 0 \<le> bb_revision b \<and>
            (case bb_startsAt b of None \<Rightarrow> True | Some t \<Rightarrow> bp_isDateTime pf t) \<and>
            (bb_action b \<in> {ConfirmBooking, RequestCallback} \<longrightarrow>
               name1 \<noteq> None \<and> phone1 \<noteq> None \<and> bb_contactChannel b \<noteq> None) \<and>
            (bb_action b \<in> {ConfirmBooking, RescheduleBooking} \<longrightarrow> bb_startsAt b \<noteq> None)
         then Some (b\<lparr>bb_fullName := name1, bb_phone := phone1\<rparr>) else None
     | _ \<Rightarrow> None)"


section \<open>What is free\<close>

definition availabilitySnapshot ::
  "booking_platform \<Rightarrow> int \<Rightarrow> string option \<Rightarrow> booking_db \<Rightarrow> snapshot api" where
  "availabilitySnapshot pf now excludeAppointmentId s =
    (case consultationAvailabilitySchema (bp_clock pf) (JObj
        ((case settingValue CONSULTATION_AVAILABILITY_SETTING_KEY (bk_settings s) of None \<Rightarrow> [] | Some v \<Rightarrow> membersOf v) @
         defaultConsultationAvailability)) of
       None \<Rightarrow> Inl (unhandled ''consultation.availability'')
     | Some a \<Rightarrow>
       (let ids = remdups (concat (map snd (al_roster a)))
        in Inr \<lparr>sn_availability = a, sn_now = now,
             sn_lawyers = map sm_id (filter (\<lambda>u. sm_id u \<in> set ids \<and> activeLawyer u) (of_staff (bk_office s))),
             sn_appointments = filter (\<lambda>p.
                 (case nonEmpty excludeAppointmentId of None \<Rightarrow> True | Some x \<Rightarrow> ap_id p \<noteq> x) \<and>
                 ap_status p \<in> set ACTIVE_APPOINTMENT_STATUSES \<and> ap_endsAt p > now - 86400000 \<and>
                 ap_startsAt p < snd (consultationSlotWindow a now) \<and>
                 (ap_type p = AT_CONSULTATION \<or> (case ap_lawyerId p of None \<Rightarrow> False | Some l \<Rightarrow> l \<in> set ids)))
               (of_appointments (bk_office s))\<rparr>))"

definition everyHour :: slot_filter where
  "everyHour = \<lparr>sf_mode = None, sf_now = 0, sf_limit = None, sf_date = None, sf_fromTime = None, sf_toTime = None\<rparr>"

text \<open>A generation that does not end has no answer; the schema of the settings excludes it.\<close>

definition endless :: "'a option \<Rightarrow> 'a api" where
  "endless r = (case r of None \<Rightarrow> Inl (unhandled ''endless'') | Some x \<Rightarrow> Inr x)"

definition availableCandidates ::
  "booking_platform \<Rightarrow> int \<Rightarrow> string \<Rightarrow> string option \<Rightarrow> booking_db \<Rightarrow> (booking_day \<times> candidate list) api" where
  "availableCandidates pf now date excludeAppointmentId s =
    andThen (availabilitySnapshot pf now excludeAppointmentId s) (\<lambda>sn.
    andThen (directBookingDay (bp_clock pf) sn date everyHour) endless)"

definition listDirectBookingSlots ::
  "booking_platform \<Rightarrow> int \<Rightarrow> string option \<Rightarrow> slot_filter \<Rightarrow> booking_db \<Rightarrow> booking_availability api" where
  "listDirectBookingSlots pf now excludeAppointmentId f s =
    andThen (availabilitySnapshot pf now excludeAppointmentId s) (\<lambda>sn.
    andThen (buildBookingAvailability (bp_clock pf) (bp_message pf) sn f) endless)"


section \<open>The existing request\<close>

record loaded_request =
  lr_request :: consultation
  lr_contact :: "request_contact option"
  lr_appointments :: "appointment list"

definition sourceOf :: "loaded_request \<Rightarrow> confirmation_source" where
  "sourceOf r = (case lr_contact r of None \<Rightarrow> STAFF_APPROVAL | Some c \<Rightarrow> rc_confirmationSource c)"

definition loadRequest :: "string \<Rightarrow> booking_db \<Rightarrow> loaded_request option" where
  "loadRequest i s =
    map_option (\<lambda>c. \<lparr>lr_request = c, lr_contact = fetch rc_id i (bk_requests s),
        lr_appointments = rev (filter (\<lambda>a. ap_consultationRequestId a = Some i \<and> ap_type a = AT_CONSULTATION \<and>
          ap_caseId a = None) (of_appointments (bk_office s)))\<rparr>)
      (fetch cr_id i (of_consultations (bk_office s)))"

definition readDirectBooking :: "string option \<Rightarrow> booking_db \<Rightarrow> loaded_request option" where
  "readDirectBooking requestId s =
    (case nonEmpty requestId of
       None \<Rightarrow> None
     | Some i \<Rightarrow> (case loadRequest i s of
         None \<Rightarrow> None
       | Some r \<Rightarrow> if sourceOf r \<noteq> STAFF_APPROVAL
           then Some (r\<lparr>lr_appointments := take 1 (lr_appointments r)\<rparr>) else None))"

definition bookingConflict :: "string \<Rightarrow> api_error" where
  "bookingConflict message = apiError 409 CONFLICT message"

text \<open>The checks on the conversation and its request, before anything is written.\<close>

definition existingRequest :: "assistant_session \<Rightarrow> booking_db \<Rightarrow> loaded_request option api" where
  "existingRequest a s =
    (case nonEmpty (as_consultationRequestId a) of
       None \<Rightarrow> Inr None
     | Some i \<Rightarrow> (case loadRequest i s of
         None \<Rightarrow> Inl (unhandled ''consultation_requests'')
       | Some r \<Rightarrow>
         if sourceOf r = STAFF_APPROVAL then Inl (bookingConflict ''Existing request requires office review.'')
         else Inr (Some r)))"

definition currentAppointment :: "loaded_request option \<Rightarrow> appointment option" where
  "currentAppointment r =
    (case r of None \<Rightarrow> None | Some x \<Rightarrow> (case lr_appointments x of [] \<Rightarrow> None | p # _ \<Rightarrow> Some p))"

definition editsBooking :: "booking_kind \<Rightarrow> bool" where
  "editsBooking k = (k = CancelBooking \<or> k = RescheduleBooking)"

definition changeable :: "int \<Rightarrow> loaded_request option \<Rightarrow> bool" where
  "changeable now existing =
    (case existing of None \<Rightarrow> False
     | Some r \<Rightarrow> (case currentAppointment existing of None \<Rightarrow> False
       | Some p \<Rightarrow> ap_status p \<in> {A_SCHEDULED, A_RESCHEDULED} \<and> ap_startsAt p > now \<and>
           cr_outcomeStatus (lr_request r) = O_PENDING))"

definition actionPermitted ::
  "booking_platform \<Rightarrow> int \<Rightarrow> booking_body \<Rightarrow> assistant_session \<Rightarrow> loaded_request option \<Rightarrow> unit api" where
  "actionPermitted pf now body a existing =
    andThen (require (editsBooking (bb_action body) \<longrightarrow> changeable now existing)
      (bookingConflict ''Appointment cannot be changed.'')) (\<lambda>_.
    require (\<not> editsBooking (bb_action body) \<longrightarrow> existing = None \<and> bookingAllowed pf (as_dialogue a))
      (bookingConflict ''Explicit booking consent required.''))"


section \<open>Cancelling\<close>

definition setAppointments :: "appointment list \<Rightarrow> booking_db \<Rightarrow> booking_db" where
  "setAppointments rows s = s\<lparr>bk_office := (bk_office s)\<lparr>of_appointments := rows\<rparr>\<rparr>"

definition setConsultations :: "consultation list \<Rightarrow> booking_db \<Rightarrow> booking_db" where
  "setConsultations rows s = s\<lparr>bk_office := (bk_office s)\<lparr>of_consultations := rows\<rparr>\<rparr>"

definition cancelBooking :: "int \<Rightarrow> loaded_request option \<Rightarrow> booking_db \<Rightarrow> booking_db" where
  "cancelBooking now existing s =
    (case (existing, currentAppointment existing) of
       (Some r, Some p) \<Rightarrow>
         setConsultations (modify cr_id (cr_id (lr_request r))
             (\<lambda>c. c\<lparr>cr_status := C_REJECTED, cr_outcomeStatus := O_CANCELLED, cr_outcomeAt := Some now,
                    cr_outcomeVersion := cr_outcomeVersion c + 1\<rparr>) (of_consultations (bk_office s)))
           (setAppointments (modify ap_id (ap_id p) (\<lambda>q. q\<lparr>ap_status := A_CANCELLED\<rparr>)
             (of_appointments (bk_office s))) s)
     | _ \<Rightarrow> s)"


section \<open>Booking\<close>

definition bookingPhone :: "booking_body \<Rightarrow> loaded_request option \<Rightarrow> string option" where
  "bookingPhone body existing =
    canonicalPhone (case existing of
       None \<Rightarrow> bb_phone body
     | Some r \<Rightarrow> (case lr_contact r of None \<Rightarrow> bb_phone body | Some c \<Rightarrow> Some (rc_phone c)))"

definition duplicateBooking :: "int \<Rightarrow> string option \<Rightarrow> loaded_request option \<Rightarrow> booking_db \<Rightarrow> bool" where
  "duplicateBooking now phone existing s =
    list_ex (\<lambda>r. (case existing of None \<Rightarrow> True | Some x \<Rightarrow> rc_id r \<noteq> cr_id (lr_request x)) \<and>
        rc_phoneCanonical r = phone \<and> rc_confirmationSource r = PUBLISHED_SLOT \<and>
        list_ex (\<lambda>a. ap_consultationRequestId a = Some (rc_id r) \<and> ap_startsAt a > now \<and>
            ap_status a \<in> set ACTIVE_APPOINTMENT_STATUSES) (of_appointments (bk_office s)))
      (bk_requests s)"

definition chosenSlot ::
  "booking_platform \<Rightarrow> int \<Rightarrow> booking_body \<Rightarrow> appointment option \<Rightarrow> booking_db \<Rightarrow> candidate option api" where
  "chosenSlot pf now body current s =
    (if bb_action body = RequestCallback then Inr None
     else case bb_startsAt body of
       None \<Rightarrow> Inl (unhandled ''startsAt'')
     | Some t \<Rightarrow>
       (let startsAt = bp_parseDate pf t
        in andThen (availableCandidates pf now (cairoDateString (bp_clock pf) startsAt) (map_option ap_id current) s)
          (\<lambda>(day, cs). case find (\<lambda>c. sl_startsAt c = startsAt) cs of
             None \<Rightarrow> Inl (apiError 409 APPOINTMENT_CONFLICT ''Time is unavailable.'')
           | Some c \<Rightarrow> Inr (Some c))))"

definition assertSlotFree ::
  "conflict_scope \<Rightarrow> appointment option \<Rightarrow> candidate option \<Rightarrow> booking_db \<Rightarrow> unit api" where
  "assertSlotFree scope current slot1 s =
    (case slot1 of
       None \<Rightarrow> Inr ()
     | Some c \<Rightarrow> assertNoAppointmentConflict (Some (sl_startsAt c)) (Some (sl_endsAt c)) scope
         (map_option ap_id current) (of_appointments (bk_office s)))"

definition guestSource :: string where "guestSource = ''assistant_guest_booking''"

text \<open>The client of the request, of the conversation, or a new lead that no account owns.\<close>

definition bookingClient ::
  "booking_ids \<Rightarrow> booking_body \<Rightarrow> string option \<Rightarrow> assistant_session \<Rightarrow> loaded_request option \<Rightarrow>
   candidate option \<Rightarrow> booking_db \<Rightarrow> (string \<times> booking_db) api" where
  "bookingClient ids body phone a existing slot1 s =
    (case (case existing of None \<Rightarrow> None | Some r \<Rightarrow> cr_clientId (lr_request r)) of
       Some c \<Rightarrow> Inr (c, s)
     | None \<Rightarrow> (case as_clientId a of
         Some c \<Rightarrow> Inr (c, s)
       | None \<Rightarrow>
         andThen (insertRow ''clients'' ct_id
             \<lparr>ct_id = bi_client ids, ct_fullName = (case bb_fullName body of None \<Rightarrow> [] | Some n \<Rightarrow> n),
              ct_phone = (case bb_phone body of None \<Rightarrow> [] | Some v \<Rightarrow> v), ct_phoneCanonical = phone, ct_email = None, ct_city = None, ct_status = ''LEAD'',
              ct_source = Some guestSource, ct_userId = None, ct_userActive = False, ct_deleted = False\<rparr>
             (bk_clients s)) (\<lambda>clients.
         andThen (insertRow ''clients'' oc_id
             \<lparr>oc_id = bi_client ids, oc_assignedLawyerId = map_option cd_lawyerId slot1\<rparr>
             (of_clients (bk_office s))) (\<lambda>rows.
         Inr (bi_client ids, s\<lparr>bk_clients := clients, bk_office := (bk_office s)\<lparr>of_clients := rows\<rparr>\<rparr>)))))"

definition publicReference :: "string \<Rightarrow> string" where
  "publicReference i = ''CONS-'' @ jsUpper (filter (\<lambda>c. c \<noteq> CHR ''-'') i)"

definition newConsultation ::
  "booking_platform \<Rightarrow> int \<Rightarrow> booking_ids \<Rightarrow> booking_body \<Rightarrow> string \<Rightarrow> (string \<times> json) list \<Rightarrow> string \<Rightarrow>
   candidate option \<Rightarrow> consultation" where
  "newConsultation pf now ids body clientId draft locale1 slot1 =
    \<lparr>cr_id = bi_request ids, cr_clientId = Some clientId,
     cr_fullName = (case bb_fullName body of None \<Rightarrow> [] | Some n \<Rightarrow> n),
     cr_serviceCategory = bp_category pf
       (case draftText ''service'' draft of None \<Rightarrow> ''legal-consultation'' | Some w \<Rightarrow> w) locale1,
     cr_status = (if slot1 = None then C_NEW else C_SCHEDULED), cr_assignedLawyerId = map_option cd_lawyerId slot1,
     cr_secretaryReviewedAt = None, cr_secretaryReviewedById = None, cr_secretaryReviewNote = None,
     cr_outcomeStatus = O_PENDING, cr_outcomeAt = None, cr_outcomeById = None, cr_outcomeReasonCode = None,
     cr_outcomeNote = None, cr_outcomeVersion = 0, cr_convertedCaseId = None, cr_createdAt = now\<rparr>"

definition newContact ::
  "booking_platform \<Rightarrow> booking_ids \<Rightarrow> booking_body \<Rightarrow> string option \<Rightarrow> (string \<times> json) list \<Rightarrow> string \<Rightarrow>
   candidate option \<Rightarrow> request_contact" where
  "newContact pf ids body phone draft locale1 slot1 =
    \<lparr>rc_id = bi_request ids, rc_publicReference = publicReference (bi_request ids),
     rc_phone = (case bb_phone body of None \<Rightarrow> [] | Some v \<Rightarrow> v), rc_phoneCanonical = phone,
     rc_publicServiceSlug = (case draftText ''service'' draft of None \<Rightarrow> ''legal-consultation'' | Some w \<Rightarrow> w),
     rc_summary = (case draftText ''summary'' draft of None \<Rightarrow> bp_copy pf locale1 ''defaultSummary'' | Some w \<Rightarrow> w),
     rc_aiSummary = None, rc_urgency = ''NORMAL'', rc_email = None, rc_city = None, rc_preferredMode = M_PHONE,
     rc_contactChannel = (case bb_contactChannel body of None \<Rightarrow> CH_PHONE | Some c \<Rightarrow> c), rc_locale = locale1,
     rc_confirmationSource = (if slot1 = None then CALLBACK_REQUEST else PUBLISHED_SLOT),
     rc_requestedStartsAt = map_option sl_startsAt slot1, rc_requestedEndsAt = map_option sl_endsAt slot1\<rparr>"

definition createRequest ::
  "booking_platform \<Rightarrow> int \<Rightarrow> booking_ids \<Rightarrow> booking_body \<Rightarrow> string option \<Rightarrow> string \<Rightarrow> (string \<times> json) list \<Rightarrow> string \<Rightarrow>
   candidate option \<Rightarrow> booking_db \<Rightarrow> booking_db api" where
  "createRequest pf now ids body phone clientId draft locale1 slot1 s =
    (let contact = newContact pf ids body phone draft locale1 slot1
     in andThen (require (rc_publicReference contact \<notin> rc_publicReference ` set (bk_requests s))
          (unhandled ''publicReference'')) (\<lambda>_.
        andThen (insertRow ''consultation_requests'' cr_id (newConsultation pf now ids body clientId draft locale1 slot1)
          (of_consultations (bk_office s))) (\<lambda>rows.
        andThen (insertRow ''consultation_requests'' rc_id contact (bk_requests s)) (\<lambda>contacts.
        Inr (setConsultations rows (s\<lparr>bk_requests := contacts\<rparr>))))))"

text \<open>The appointment of the slot, moved or new, and what hangs on it.\<close>

definition takeSlot ::
  "booking_platform \<Rightarrow> booking_ids \<Rightarrow> string \<Rightarrow> string \<Rightarrow> string \<Rightarrow> loaded_request option \<Rightarrow> candidate \<Rightarrow>
   booking_db \<Rightarrow> booking_db api" where
  "takeSlot pf ids clientId requestId locale1 existing c s =
    (let guests = map ct_id (filter (\<lambda>k. ct_id k = clientId \<and> ct_source k = Some guestSource \<and> ct_userId k = None)
           (bk_clients s));
         s1 = s\<lparr>bk_office := (bk_office s)\<lparr>of_clients := updateWhere (\<lambda>k. oc_id k \<in> set guests)
           (\<lambda>k. k\<lparr>oc_assignedLawyerId := Some (cd_lawyerId c)\<rparr>) (of_clients (bk_office s))\<rparr>\<rparr>
     in andThen (case currentAppointment existing of
            Some p \<Rightarrow> Inr (modify ap_id (ap_id p)
              (\<lambda>q. q\<lparr>ap_lawyerId := Some (cd_lawyerId c), ap_startsAt := sl_startsAt c, ap_endsAt := sl_endsAt c,
                     ap_status := A_RESCHEDULED\<rparr>) (of_appointments (bk_office s)))
          | None \<Rightarrow> insertRow ''appointments'' ap_id
              \<lparr>ap_id = bi_appointment ids, ap_clientId = clientId, ap_lawyerId = Some (cd_lawyerId c),
               ap_consultationRequestId = Some requestId, ap_caseId = None,
               ap_title = bp_copy pf locale1 ''appointmentTitle'', ap_type = AT_CONSULTATION, ap_mode = M_PHONE,
               ap_location = None, ap_startsAt = sl_startsAt c, ap_endsAt = sl_endsAt c, ap_status = A_SCHEDULED,
               ap_notes = None\<rparr> (of_appointments (bk_office s))) (\<lambda>rows.
        let s2 = setAppointments rows s1
        in Inr (if existing = None then s2
                else setConsultations (modify cr_id requestId
                    (\<lambda>q. q\<lparr>cr_assignedLawyerId := Some (cd_lawyerId c), cr_outcomeVersion := cr_outcomeVersion q + 1\<rparr>)
                    (of_consultations (bk_office s2)))
                  (s2\<lparr>bk_requests := modify rc_id requestId
                    (\<lambda>r. r\<lparr>rc_requestedStartsAt := Some (sl_startsAt c), rc_requestedEndsAt := Some (sl_endsAt c)\<rparr>)
                    (bk_requests s2)\<rparr>))))"

text \<open>A spread that overrides members.\<close>

definition setMembers :: "(string \<times> json) list \<Rightarrow> (string \<times> json) list \<Rightarrow> (string \<times> json) list" where
  "setMembers new ms = filter (\<lambda>m. fst m \<notin> fst ` set new) ms @ new"

definition bookedDraft ::
  "booking_body \<Rightarrow> string option \<Rightarrow> loaded_request option \<Rightarrow> candidate option \<Rightarrow> (string \<times> json) list \<Rightarrow> json" where
  "bookedDraft body phone existing slot1 draft =
    JObj (setMembers
      ((case (case existing of Some r \<Rightarrow> Some (cr_fullName (lr_request r)) | None \<Rightarrow> bb_fullName body) of
          None \<Rightarrow> [] | Some n \<Rightarrow> [(''fullName'', JStr n)]) @
       [(''phone'', JStr (''+'' @ (case phone of None \<Rightarrow> ''null'' | Some p \<Rightarrow> p))), (''preferredMode'', JStr ''PHONE'')] @
       (case slot1 of None \<Rightarrow> [] | Some c \<Rightarrow> [(''requestedStartsAt'', JStr (isoText (sl_startsAt c)))])) draft)"

definition bookingLines ::
  "booking_platform \<Rightarrow> booking_body \<Rightarrow> string \<Rightarrow> string \<Rightarrow> loaded_request option \<Rightarrow> candidate option \<Rightarrow>
   (string \<times> json) list \<Rightarrow> body_line list" where
  "bookingLines pf body requestId locale1 existing slot1 draft =
    (let old = (case existing of None \<Rightarrow> None | Some r \<Rightarrow> lr_contact r);
         name1 = (case existing of Some r \<Rightarrow> cr_fullName (lr_request r)
           | None \<Rightarrow> (case bb_fullName body of None \<Rightarrow> ''undefined'' | Some n \<Rightarrow> n));
         phone1 = (case old of Some c \<Rightarrow> rc_phone c
           | None \<Rightarrow> (case bb_phone body of None \<Rightarrow> [] | Some v \<Rightarrow> v));
         channel = (case old of Some c \<Rightarrow> Some (rc_contactChannel c) | None \<Rightarrow> bb_contactChannel body)
     in [CopyLine (if slot1 = None then ''callbackDone'' else ''confirmed''),
         ReferenceLine (case old of Some c \<Rightarrow> rc_publicReference c | None \<Rightarrow> publicReference requestId),
         ContactLine name1 phone1,
         CopyLine (if channel = Some CH_WHATSAPP then ''whatsapp'' else ''phone'')] @
        (case slot1 of None \<Rightarrow> [] | Some c \<Rightarrow> [SlotLine (sl_startsAt c)]) @
        [case draftText ''summary'' draft of None \<Rightarrow> CopyLine ''defaultSummary'' | Some w \<Rightarrow> TextLine w])"

text \<open>The conversation learns of the booking.\<close>

definition tellConversation ::
  "booking_platform \<Rightarrow> int \<Rightarrow> booking_ids \<Rightarrow> booking_body \<Rightarrow> assistant_session \<Rightarrow> string option \<Rightarrow> string \<Rightarrow> string \<Rightarrow>
   string \<Rightarrow> loaded_request option \<Rightarrow> candidate option \<Rightarrow> (string \<times> json) list \<Rightarrow> booking_db \<Rightarrow> booking_db api" where
  "tellConversation pf now ids body a phone clientId requestId locale1 existing slot1 draft s =
    andThen (require (\<not> list_ex (\<lambda>x. as_id x \<noteq> as_id a \<and> as_consultationRequestId x = Some requestId) (bk_sessions s))
      (unhandled ''consultationRequestId'')) (\<lambda>_.
    let s1 = updateSession1 (as_id a) (\<lambda>x. x\<lparr>as_consultationRequestId := Some requestId,
          as_draft := bookedDraft body phone existing slot1 draft\<rparr>) s
    in andThen (ensureAssistantHandoff pf (bi_thread ids) (as_id a) s1) (\<lambda>(threadId, s2).
       let s3 = s2\<lparr>bk_threads := modify th_id threadId
             (\<lambda>t. t\<lparr>th_clientId := Some clientId,
                    th_assignedToId := (if \<not> as_humanOwned a then
                      (case slot1 of None \<Rightarrow> th_assignedToId t | Some c \<Rightarrow> Some (cd_lawyerId c))
                      else th_assignedToId t)\<rparr>) (bk_threads s2)\<rparr>
       in andThen (insertRow ''conversation_messages'' mg_id
            \<lparr>mg_id = bi_message ids, mg_threadId = threadId, mg_senderType = ''SYSTEM'', mg_recipient = None,
             mg_body = bookingLines pf body requestId locale1 existing slot1 draft, mg_createdAt = now\<rparr>
            (bk_messages s3)) (\<lambda>ms.
          Inr (s3\<lparr>bk_messages := ms\<rparr>))))"

definition requestIdOf :: "booking_ids \<Rightarrow> loaded_request option \<Rightarrow> string" where
  "requestIdOf ids existing = (case existing of Some r \<Rightarrow> cr_id (lr_request r) | None \<Rightarrow> bi_request ids)"

definition bookOrCall ::
  "booking_platform \<Rightarrow> int \<Rightarrow> booking_ids \<Rightarrow> booking_body \<Rightarrow> assistant_session \<Rightarrow> loaded_request option \<Rightarrow>
   booking_db \<Rightarrow> booking_db api" where
  "bookOrCall pf now ids body a existing s =
    (let current = currentAppointment existing; phone = bookingPhone body existing
     in andThen (require (\<not> duplicateBooking now phone existing s)
          (apiError 409 APPOINTMENT_CONFLICT ''An active booking already exists.'')) (\<lambda>_.
        andThen (chosenSlot pf now body current s) (\<lambda>slot1.
        andThen (assertSlotFree OfficeConsultation current slot1 s) (\<lambda>_.
        andThen (assertSlotFree (LawyerScope (case slot1 of None \<Rightarrow> [] | Some c \<Rightarrow> cd_lawyerId c)) current slot1 s) (\<lambda>_.
        case intakeDraftSchema pf (as_draft a) of
          None \<Rightarrow> Inl (unhandled ''draft'')
        | Some draft \<Rightarrow>
          (let locale1 = (if as_locale a = ''en'' then ''en'' else ''ar'')
           in andThen (bookingClient ids body phone a existing slot1 s) (\<lambda>(clientId, s1).
              andThen (assertSlotFree (ClientScope clientId) current slot1 s1) (\<lambda>_.
              let requestId = requestIdOf ids existing
              in andThen (if existing = None then createRequest pf now ids body phone clientId draft locale1 slot1 s1
                          else Inr s1) (\<lambda>s2.
                 andThen (case slot1 of None \<Rightarrow> Inr s2
                     | Some c \<Rightarrow> takeSlot pf ids clientId requestId locale1 existing c s2) (\<lambda>s3.
                 tellConversation pf now ids body a phone clientId requestId locale1 existing slot1 draft s3))))))))))"


section \<open>The action\<close>

definition recordAction :: "booking_body \<Rightarrow> principal option \<Rightarrow> assistant_session \<Rightarrow> booking_db \<Rightarrow> booking_db" where
  "recordAction body actor a s =
    (let s1 = updateSession1 (as_id a) (\<lambda>x. x\<lparr>as_revision := as_revision x + 1\<rparr>) s
     in s1\<lparr>bk_actions := bk_actions s1 @ [\<lparr>bx_sessionId = as_id a, bx_key = bb_key body, bx_requestHash = bb_hash body\<rparr>],
          bk_office := (bk_office s1)\<lparr>of_audit := appendAuditLog
            (auditEvent (map_option pr_id actor) (''assistant.'' @ kindText (bb_action body)) ''AssistantSession''
              (Some (as_id a)) []) (of_audit (bk_office s1))\<rparr>\<rparr>)"

definition performAction ::
  "booking_platform \<Rightarrow> int \<Rightarrow> booking_ids \<Rightarrow> principal option \<Rightarrow> booking_body \<Rightarrow> assistant_session \<Rightarrow> booking_db \<Rightarrow>
   (unit \<times> booking_db) api" where
  "performAction pf now ids actor body a s =
    andThen (require (as_revision a = bb_revision body \<and> nonEmpty (as_leaseId a) = None)
      (bookingConflict ''Conversation changed.'')) (\<lambda>_.
    andThen (existingRequest a s) (\<lambda>existing.
    andThen (actionPermitted pf now body a existing) (\<lambda>_.
    andThen (if bb_action body = CancelBooking then Inr (cancelBooking now existing s)
             else bookOrCall pf now ids body a existing s) (\<lambda>s1.
    Inr ((), recordAction body actor a s1)))))"

definition directBookingOperation ::
  "booking_platform \<Rightarrow> int \<Rightarrow> booking_ids \<Rightarrow> principal option \<Rightarrow> string \<Rightarrow> booking_body \<Rightarrow> booking_db \<Rightarrow>
   (unit \<times> booking_db) api" where
  "directBookingOperation pf now ids actor sessionId body s =
    (case fetch as_id sessionId (bk_sessions s) of
       None \<Rightarrow> Inl (unhandled ''assistant_sessions'')
     | Some a \<Rightarrow>
       if \<not> ownedBy now actor a then Inl authenticationRequired
       else case find (\<lambda>x. bx_sessionId x = as_id a \<and> bx_key x = bb_key body) (bk_actions s) of
         Some replay \<Rightarrow> andThen (require (bx_requestHash replay = bb_hash body)
           (bookingConflict ''Booking action changed.'')) (\<lambda>_. Inr ((), s))
       | None \<Rightarrow> performAction pf now ids actor body a s)"

definition mutateDirectBooking ::
  "booking_platform \<Rightarrow> int \<Rightarrow> (nat \<Rightarrow> bool) \<Rightarrow> booking_ids \<Rightarrow> string \<Rightarrow> booking_body \<Rightarrow> principal option \<Rightarrow> booking_db \<Rightarrow>
   unit api \<times> booking_db" where
  "mutateDirectBooking pf now aborts ids token body actor s =
    (case ownAssistantSession pf now token actor s of
       (Inl e, s1) \<Rightarrow> (Inl e, s1)
     | (Inr owned, s1) \<Rightarrow>
       runAppointmentConflictTransaction DatabaseCreateBoundedRetry aborts None
         (directBookingOperation pf now ids actor (as_id owned) body) s1)"

end
