(* ===== verification/ConsultationReview.thy ===== *)
theory ConsultationReview
  imports BookingActions Outcomes
begin

text \<open>
  What the office does with a consultation request: \<open>src/src/server/admin/consultation-review-service.ts\<close>.
  A member of the staff schedules it, assigns it to a lawyer, reviews it, rejects it or turns it into a
  case. Every action is one transaction; what it answers prints the rows it wrote. The row of a request is
  the row of the office with the row of its contact columns, and its \<open>convertedCase\<close> is kept with it.
\<close>

section \<open>Bodies\<close>

text \<open>
  The validators, the clock of the slots, the year the server's clock prints, the case-insensitive
  search of the database and the Arabic copy.
\<close>

record review_platform =
  cw_outcome :: outcome_platform
  cw_clock :: slot_platform
  cw_year :: "int \<Rightarrow> string"
  cw_contains :: "string \<Rightarrow> string \<Rightarrow> bool"
  cw_containsPoints :: "string \<Rightarrow> nat list \<Rightarrow> bool"
  cw_appointmentTitle :: "string \<Rightarrow> string"
  cw_followUpTitle :: "string \<Rightarrow> string"
  cw_assignNote :: string

record review_ids =
  vi_client :: string
  vi_appointment :: string
  vi_case :: string

record schedule_input =
  si_assignedLawyerId :: string
  si_startsAt :: string
  si_durationMinutes :: int
  si_mode :: appointment_mode
  si_location :: "string option"
  si_expectedOutcomeVersion :: int

definition scheduleConsultationInputSchema ::
  "outcome_platform \<Rightarrow> schedule_input \<Rightarrow> error_detail list + schedule_input \<times> int" where
  "scheduleConsultationInputSchema pf raw =
    (let starts = ou_datetime pf (si_startsAt raw);
         issues = schemaIssue pf ''assignedLawyerId'' (ou_isUuid pf (si_assignedLawyerId raw)) @
           schemaIssue pf ''startsAt'' (starts \<noteq> None) @
           schemaIssue pf ''durationMinutes'' (15 \<le> si_durationMinutes raw \<and> si_durationMinutes raw \<le> 240) @
           schemaIssue pf ''mode'' (si_mode raw \<noteq> M_COURT) @
           schemaIssue pf ''location'' (textAtMost 180 (si_location raw)) @
           schemaIssue pf ''expectedOutcomeVersion'' (0 \<le> si_expectedOutcomeVersion raw)
     in if issues \<noteq> [] then Inl issues
        else Inr (raw\<lparr>si_location := map_option jsTrim (si_location raw)\<rparr>, the starts))"

definition assignConsultationSchema :: "outcome_platform \<Rightarrow> string \<Rightarrow> error_detail list + string" where
  "assignConsultationSchema pf raw =
    (if ou_isUuid pf raw then Inr raw else Inl [ou_issue pf ''assignedLawyerId''])"

record reject_input =
  ji_expectedOutcomeVersion :: "int option"
  ji_reasonCode :: "string option"
  ji_reason :: "string option"

definition rejectConsultationSchema :: "outcome_platform \<Rightarrow> reject_input \<Rightarrow> error_detail list + reject_input" where
  "rejectConsultationSchema pf raw =
    (let code = (case ji_reasonCode raw of None \<Rightarrow> ''CANCELLED_BY_OFFICE'' | Some c \<Rightarrow> c);
         issues = schemaIssue pf ''expectedOutcomeVersion''
             (case ji_expectedOutcomeVersion raw of None \<Rightarrow> True | Some v \<Rightarrow> 0 \<le> v) @
           schemaIssue pf ''reasonCode'' (code \<in> {''CANCELLED_BY_CLIENT'', ''CANCELLED_BY_OFFICE'', ''OTHER''}) @
           schemaIssue pf ''reason'' (textAtMost 500 (ji_reason raw))
     in if issues \<noteq> [] then Inl issues
        else Inr (raw\<lparr>ji_reasonCode := Some code, ji_reason := map_option jsTrim (ji_reason raw)\<rparr>))"

definition reviewConsultationSchema ::
  "outcome_platform \<Rightarrow> string option \<Rightarrow> error_detail list + string option" where
  "reviewConsultationSchema pf note =
    (if textAtMost 800 note then Inr (map_option jsTrim note) else Inl [ou_issue pf ''note''])"

text \<open>A text that is absent, trimmed between two lengths, or the empty one.\<close>

definition trimmedOrEmpty :: "nat \<Rightarrow> nat \<Rightarrow> string option \<Rightarrow> string option option" where
  "trimmedOrEmpty lo hi x =
    (case x of None \<Rightarrow> Some None
     | Some s \<Rightarrow> (let t = jsTrim s in
         if lo \<le> length t \<and> length t \<le> hi then Some (Some t) else if s = [] then Some (Some []) else None))"

record convert_input =
  vt_assignedLawyerId :: "string option"
  vt_caseTitle :: "string option"
  vt_caseType :: "string option"
  vt_priority :: "string option"
  vt_appointmentStartsAt :: "string option"
  vt_appointmentMode :: "appointment_mode option"
  vt_appointmentLocation :: "string option"
  vt_appointmentDurationMinutes :: "int option"

record convert_body =
  vb_assignedLawyerId :: "string option"
  vb_caseTitle :: "string option"
  vb_caseType :: "string option"
  vb_priority :: string
  vb_appointment :: "(int \<times> int) option"
  vb_appointmentMode :: appointment_mode
  vb_appointmentLocation :: "string option"

definition appointmentEndAt :: "int \<Rightarrow> int \<Rightarrow> int" where
  "appointmentEndAt startsAt durationMinutes = startsAt + durationMinutes * 60000"

definition convertConsultationSchema ::
  "outcome_platform \<Rightarrow> convert_input \<Rightarrow> error_detail list + convert_body" where
  "convertConsultationSchema pf raw =
    (let title = trimmedOrEmpty 3 180 (vt_caseTitle raw);
         kind = trimmedOrEmpty 2 80 (vt_caseType raw);
         location = trimmedOrEmpty 0 180 (vt_appointmentLocation raw);
         priority = (case vt_priority raw of None \<Rightarrow> ''NORMAL'' | Some p \<Rightarrow> p);
         mode = (case vt_appointmentMode raw of None \<Rightarrow> M_ONLINE | Some m \<Rightarrow> m);
         minutes = (case vt_appointmentDurationMinutes raw of None \<Rightarrow> 60 | Some n \<Rightarrow> n);
         starts = (case nonEmpty (vt_appointmentStartsAt raw) of None \<Rightarrow> Some None
           | Some t \<Rightarrow> map_option Some (ou_datetime pf t));
         issues = schemaIssue pf ''assignedLawyerId''
             (case nonEmpty (vt_assignedLawyerId raw) of None \<Rightarrow> True | Some i \<Rightarrow> ou_isUuid pf i) @
           schemaIssue pf ''caseTitle'' (title \<noteq> None) @ schemaIssue pf ''caseType'' (kind \<noteq> None) @
           schemaIssue pf ''priority'' (priority \<in> {''LOW'', ''NORMAL'', ''HIGH'', ''URGENT''}) @
           schemaIssue pf ''appointmentStartsAt'' (starts \<noteq> None) @
           schemaIssue pf ''appointmentMode'' (mode \<noteq> M_COURT) @
           schemaIssue pf ''appointmentLocation'' (location \<noteq> None) @
           schemaIssue pf ''appointmentDurationMinutes'' (15 \<le> minutes \<and> minutes \<le> 240)
     in if issues \<noteq> [] then Inl issues
        else Inr \<lparr>vb_assignedLawyerId = nonEmpty (vt_assignedLawyerId raw), vb_caseTitle = nonEmpty (the title),
                  vb_caseType = nonEmpty (the kind), vb_priority = priority,
                  vb_appointment = map_option (\<lambda>t. (t, appointmentEndAt t minutes)) (the starts),
                  vb_appointmentMode = mode, vb_appointmentLocation = nonEmpty (the location)\<rparr>)"

definition priorityFromUrgency :: "string \<Rightarrow> string" where
  "priorityFromUrgency urgency =
    (if urgency = ''URGENT'' then ''URGENT'' else if urgency = ''HIGH'' then ''HIGH''
     else if urgency = ''LOW'' then ''LOW'' else ''NORMAL'')"

definition legalCaseReference :: "(int \<Rightarrow> string) \<Rightarrow> string \<Rightarrow> int \<Rightarrow> string" where
  "legalCaseReference year i now = ''KMT-'' @ year now @ ''-'' @ jsUpper (take 8 i)"


section \<open>Who may act, and on which requests\<close>

definition canReviewConsultation :: "principal \<Rightarrow> consultation \<Rightarrow> bool" where
  "canReviewConsultation actor c =
    (if hasPermission actor ''consultation.review.any'' then True
     else hasPermission actor ''consultation.review.assigned'' \<and> cr_assignedLawyerId c = Some (pr_id actor))"

datatype existing_mutation = MutAssign | MutReview | MutReject | MutConvert

definition assertExistingConsultationMutationAllowed ::
  "existing_mutation \<Rightarrow> outcome_status \<Rightarrow> int option \<Rightarrow> string option \<Rightarrow> int option \<Rightarrow> int \<Rightarrow> unit api" where
  "assertExistingConsultationMutationAllowed action outcome primaryEndsAt assignedLawyerId secretaryReviewedAt now =
    (if outcome = O_MISSED then Inl consultationReopenRequiredError
     else if action \<in> {MutAssign, MutReview} \<and> outcome = O_PENDING \<and>
        (case primaryEndsAt of None \<Rightarrow> False | Some t \<Rightarrow> t \<le> now)
     then (if \<not> present assignedLawyerId \<and> secretaryReviewedAt = None then Inl consultationReopenRequiredError
           else Inl consultationStateChangedError)
     else require (if action = MutConvert then outcome = O_AWAITING_RESULT \<or> outcome = O_SUCCESSFUL
           else outcome = O_PENDING \<or> outcome = O_AWAITING_RESULT)
         consultationStateChangedError)"

definition consultationScopeWhereForPrincipal :: "principal \<Rightarrow> (consultation \<Rightarrow> bool) api" where
  "consultationScopeWhereForPrincipal actor =
    (if hasPermission actor ''consultation.review.any'' then Inr (\<lambda>_. True)
     else if hasPermission actor ''consultation.review.assigned''
     then Inr (\<lambda>c. cr_assignedLawyerId c = Some (pr_id actor))
     else Inl (apiError 403 PERMISSION_DENIED ''Consultation review permission is required.''))"

definition assertAssignableLawyer :: "string \<Rightarrow> staff_member list \<Rightarrow> unit api" where
  "assertAssignableLawyer userId staff =
    require (list_ex (\<lambda>u. sm_id u = userId \<and> sm_active u \<and> \<not> sm_deleted u \<and>
        sm_roleName u = ROLE_lawyer \<and> sm_roleActive u) staff)
      (apiError 400 VALIDATION_ERROR ''Assigned lawyer is invalid.'')"


section \<open>The client of a request\<close>

definition loadConsultation :: "string \<Rightarrow> booking_db \<Rightarrow> (consultation \<times> request_contact) option" where
  "loadConsultation i s =
    (case (fetch cr_id i (of_consultations (bk_office s)), fetch rc_id i (bk_requests s)) of
       (Some c, Some r) \<Rightarrow> Some (c, r) | _ \<Rightarrow> None)"

text \<open>The columns an update of a client writes; the lawyer is a column of the office's table.\<close>

definition clientFromRequest :: "consultation \<Rightarrow> request_contact \<Rightarrow> client_contact \<Rightarrow> client_contact" where
  "clientFromRequest c r k =
    k\<lparr>ct_fullName := cr_fullName c, ct_phone := rc_phone r, ct_phoneCanonical := canonicalPhone (Some (rc_phone r)),
      ct_email := rc_email r, ct_city := rc_city r, ct_status := ''ACTIVE''\<rparr>"

definition assignClientLawyer :: "string \<Rightarrow> string \<Rightarrow> booking_db \<Rightarrow> booking_db" where
  "assignClientLawyer clientId lawyerId s =
    s\<lparr>bk_office := (bk_office s)\<lparr>of_clients := modify oc_id clientId
      (\<lambda>k. k\<lparr>oc_assignedLawyerId := Some lawyerId\<rparr>) (of_clients (bk_office s))\<rparr>\<rparr>"

definition updateClient ::
  "consultation \<Rightarrow> request_contact \<Rightarrow> string \<Rightarrow> string \<Rightarrow> booking_db \<Rightarrow> (string \<times> booking_db) api" where
  "updateClient c r lawyerId clientId s =
    andThen (require (clientId \<in> ct_id ` set (bk_clients s)) (unhandled ''clients'')) (\<lambda>_.
      Inr (clientId, assignClientLawyer clientId lawyerId
        (s\<lparr>bk_clients := modify ct_id clientId (clientFromRequest c r) (bk_clients s)\<rparr>)))"

text \<open>The first client with the number, in its canonical form or as it was typed, or with the address.\<close>

definition matchingClient :: "request_contact \<Rightarrow> client_contact list \<Rightarrow> client_contact option" where
  "matchingClient r clients =
    (let phone = canonicalPhone (Some (rc_phone r))
     in find (\<lambda>k. (nonEmpty phone \<noteq> None \<and> ct_phoneCanonical k = phone) \<or> ct_phone k = rc_phone r \<or>
          (nonEmpty (rc_email r) \<noteq> None \<and> ct_email k = rc_email r)) clients)"

definition upsertClientFromConsultation ::
  "string \<Rightarrow> consultation \<Rightarrow> request_contact \<Rightarrow> string \<Rightarrow> booking_db \<Rightarrow> (string \<times> booking_db) api" where
  "upsertClientFromConsultation newId c r lawyerId s =
    (case matchingClient r (bk_clients s) of
       Some k \<Rightarrow> updateClient c r lawyerId (ct_id k) s
     | None \<Rightarrow>
       andThen (insertRow ''clients'' ct_id
           \<lparr>ct_id = newId, ct_fullName = cr_fullName c, ct_phone = rc_phone r,
            ct_phoneCanonical = canonicalPhone (Some (rc_phone r)), ct_email = rc_email r, ct_city = rc_city r,
            ct_status = ''ACTIVE'', ct_source = Some ''consultation'', ct_userId = None, ct_userActive = False,
            ct_deleted = False\<rparr> (bk_clients s)) (\<lambda>clients.
       andThen (insertRow ''clients'' oc_id \<lparr>oc_id = newId, oc_assignedLawyerId = Some lawyerId\<rparr>
           (of_clients (bk_office s))) (\<lambda>rows.
       Inr (newId, s\<lparr>bk_clients := clients, bk_office := (bk_office s)\<lparr>of_clients := rows\<rparr>\<rparr>))))"

definition consultationClient ::
  "string \<Rightarrow> consultation \<Rightarrow> request_contact \<Rightarrow> string \<Rightarrow> booking_db \<Rightarrow> (string \<times> booking_db) api" where
  "consultationClient newId c r lawyerId s =
    (case cr_clientId c of
       Some k \<Rightarrow> updateClient c r lawyerId k s
     | None \<Rightarrow> upsertClientFromConsultation newId c r lawyerId s)"


section \<open>Scheduling\<close>

text \<open>The tables of the office with the settings, as the check of a requested time reads them.\<close>

definition slotView :: "booking_db \<Rightarrow> pay_db" where
  "slotView s = \<lparr>pd_office = bk_office s, pd_ledger = \<lparr>lg_invoices = [], lg_entries = [], lg_audit = []\<rparr>,
     pd_attempts = [], pd_transactions = [], pd_events = [], pd_settings = bk_settings s\<rparr>"

definition requestedSlotFree ::
  "review_platform \<Rightarrow> int \<Rightarrow> int \<Rightarrow> int \<Rightarrow> appointment_mode \<Rightarrow> booking_db \<Rightarrow> unit api" where
  "requestedSlotFree pf now startsAt endsAt mode s =
    (case assertRequestedSlotAtApproval (cw_clock pf) startsAt endsAt mode now (slotView s) of
       Inl SettingUnreadable \<Rightarrow> Inl (unhandled ''consultation.availability'')
     | Inl (SlotApi e) \<Rightarrow> Inl e
     | Inr r \<Rightarrow> endless r)"

definition fromAssistant :: "string \<Rightarrow> booking_db \<Rightarrow> bool" where
  "fromAssistant i s = list_ex (\<lambda>a. as_consultationRequestId a = Some i) (bk_sessions s)"

text \<open>What the client asked for, in a conversation, is not changed by the office.\<close>

definition clientsChoiceKept ::
  "review_platform \<Rightarrow> int \<Rightarrow> request_contact \<Rightarrow> int \<Rightarrow> int \<Rightarrow> appointment_mode \<Rightarrow> booking_db \<Rightarrow> unit api" where
  "clientsChoiceKept pf now r startsAt endsAt mode s =
    (if fromAssistant (rc_id r) s then
       andThen (require (rc_preferredMode r = mode \<and> (case rc_requestedStartsAt r of None \<Rightarrow> True
            | Some t \<Rightarrow> t = startsAt \<and> rc_requestedEndsAt r = Some endsAt))
          (apiError 409 CONFLICT ''Ask the client to choose an alternative before changing their requested time.'')) (\<lambda>_.
       requestedSlotFree pf now startsAt endsAt mode s)
     else Inr ())"

definition reviewedBy :: "principal \<Rightarrow> int \<Rightarrow> consultation \<Rightarrow> consultation" where
  "reviewedBy actor now c =
    (if cr_secretaryReviewedAt c = None
     then c\<lparr>cr_secretaryReviewedAt := Some now, cr_secretaryReviewedById := Some (pr_id actor)\<rparr> else c)"

definition modeName :: "appointment_mode \<Rightarrow> string" where
  "modeName m = (case m of M_OFFICE \<Rightarrow> ''OFFICE'' | M_PHONE \<Rightarrow> ''PHONE'' | M_ONLINE \<Rightarrow> ''ONLINE'' | M_COURT \<Rightarrow> ''COURT'')"

definition auditOffice :: "audit_event \<Rightarrow> booking_db \<Rightarrow> booking_db" where
  "auditOffice e s = s\<lparr>bk_office := (bk_office s)\<lparr>of_audit := appendAuditLog e (of_audit (bk_office s))\<rparr>\<rparr>"

definition syncNotices :: "int \<Rightarrow> string \<Rightarrow> outcome_status \<Rightarrow> booking_db \<Rightarrow> booking_db" where
  "syncNotices now i os s = s\<lparr>bk_office := syncConsultationOutcomeNotifications now i os (bk_office s)\<rparr>"

definition scheduledEvent ::
  "principal \<Rightarrow> string \<Rightarrow> schedule_input \<Rightarrow> string \<Rightarrow> string \<Rightarrow> int \<Rightarrow> int \<Rightarrow> audit_event" where
  "scheduledEvent actor i body clientId appointmentId startsAt endsAt =
    (auditEvent (Some (pr_id actor)) ''consultation.primary_appointment_schedule'' ''ConsultationRequest'' (Some i)
      [(''fromOutcome'', MText ''PENDING''), (''toOutcome'', MText ''PENDING''),
       (''outcomeVersion'', MInt (si_expectedOutcomeVersion body + 1)), (''source'', MText ''ADMIN''),
       (''primaryAppointmentId'', MText appointmentId), (''assignedLawyerId'', MText (si_assignedLawyerId body)),
       (''startsAt'', MText (isoText startsAt)), (''endsAt'', MText (isoText endsAt)),
       (''mode'', MText (modeName (si_mode body)))])
    \<lparr>ae_clientId := Some clientId, ae_lawyerId := Some (si_assignedLawyerId body), ae_appointmentId := Some appointmentId\<rparr>"

definition scheduledRow ::
  "review_platform \<Rightarrow> string \<Rightarrow> string \<Rightarrow> schedule_input \<Rightarrow> string \<Rightarrow> int \<Rightarrow> int \<Rightarrow> appointment" where
  "scheduledRow pf newId i body clientId startsAt endsAt =
    \<lparr>ap_id = newId, ap_clientId = clientId, ap_lawyerId = Some (si_assignedLawyerId body),
     ap_consultationRequestId = Some i, ap_caseId = None, ap_title = cw_appointmentTitle pf (consultationReference i),
     ap_type = AT_CONSULTATION, ap_mode = si_mode body, ap_location = nonEmpty (si_location body),
     ap_startsAt = startsAt, ap_endsAt = endsAt, ap_status = A_SCHEDULED, ap_notes = None\<rparr>"

definition startsInFuture :: "int \<Rightarrow> int \<Rightarrow> unit api" where
  "startsInFuture now startsAt =
    require (startsAt > now) (apiError 400 VALIDATION_ERROR ''The consultation appointment must start in the future.'')"

definition schedulable :: "consultation \<Rightarrow> schedule_input \<Rightarrow> booking_db \<Rightarrow> bool" where
  "schedulable c body s =
    (cr_outcomeVersion c = si_expectedOutcomeVersion body \<and> cr_outcomeStatus c = O_PENDING \<and>
     cr_status c \<in> set ACTIVE_UNBOOKED_CONSULTATION_STATUSES \<and>
     getPrimaryConsultationAppointment (cr_id c) (of_appointments (bk_office s)) = None)"

definition scheduleOperation ::
  "review_platform \<Rightarrow> int \<Rightarrow> review_ids \<Rightarrow> principal \<Rightarrow> string \<Rightarrow> schedule_input \<Rightarrow> int \<Rightarrow> booking_db \<Rightarrow>
   (unit \<times> booking_db) api" where
  "scheduleOperation pf now ids actor i body startsAt s =
    (let endsAt = appointmentEndAt startsAt (si_durationMinutes body); lawyer = si_assignedLawyerId body
     in andThen (startsInFuture now startsAt) (\<lambda>_.
        case loadConsultation i s of
          None \<Rightarrow> Inl consultationMissing
        | Some (c, r) \<Rightarrow>
          andThen (require (schedulable c body s) consultationStateChangedError) (\<lambda>_.
          andThen (assertAssignableLawyer lawyer (of_staff (bk_office s))) (\<lambda>_.
          andThen (clientsChoiceKept pf now r startsAt endsAt (si_mode body) s) (\<lambda>_.
          andThen (consultationClient (vi_client ids) c r lawyer s) (\<lambda>(clientId, s1).
          andThen (assertNoAppointmentConflict (Some startsAt) (Some endsAt) (LawyerScope lawyer) None
            (of_appointments (bk_office s1))) (\<lambda>_.
          andThen (assertNoAppointmentConflict (Some startsAt) (Some endsAt) (ClientScope clientId) None
            (of_appointments (bk_office s1))) (\<lambda>_.
          andThen (insertRow ''appointments'' ap_id (scheduledRow pf (vi_appointment ids) i body clientId startsAt endsAt)
            (of_appointments (bk_office s1))) (\<lambda>rows.
          let s2 = setAppointments rows s1; target = outcomeTarget i O_PENDING (si_expectedOutcomeVersion body)
          in andThen (require (length (filter target (of_consultations (bk_office s2))) = 1)
               consultationStateChangedError) (\<lambda>_.
             let s3 = setConsultations (updateWhere target
                   (\<lambda>q. (reviewedBy actor now q)\<lparr>cr_clientId := Some clientId, cr_assignedLawyerId := Some lawyer,
                       cr_status := C_SCHEDULED, cr_outcomeVersion := cr_outcomeVersion q + 1\<rparr>)
                   (of_consultations (bk_office s2))) s2
             in Inr ((), auditOffice (scheduledEvent actor i body clientId (vi_appointment ids) startsAt endsAt)
                  (syncNotices now i O_PENDING s3))))))))))))"

text \<open>The instant is read when the request comes and again when its transaction runs.\<close>

definition scheduleConsultation ::
  "review_platform \<Rightarrow> (nat \<Rightarrow> bool) \<Rightarrow> int \<Rightarrow> int \<Rightarrow> review_ids \<Rightarrow> principal \<Rightarrow> string \<Rightarrow> schedule_input \<Rightarrow> booking_db \<Rightarrow>
   unit api \<times> booking_db" where
  "scheduleConsultation pf aborts now transactionNow ids actor consultationId raw s =
    (case andThen (require (canManageConsultationOutcome actor) (apiError 403 PERMISSION_DENIED
            ''Consultation scheduling requires consultation review and appointment management permissions.'')) (\<lambda>_.
          andThen (consultationIdOf (cw_outcome pf) consultationId) (\<lambda>i.
          andThen (parseWithSchema (scheduleConsultationInputSchema (cw_outcome pf)) raw
            ''Consultation schedule payload is invalid.'') (\<lambda>(body, startsAt).
          andThen (startsInFuture now startsAt) (\<lambda>_. Inr (i, body, startsAt))))) of
       Inl e \<Rightarrow> (Inl e, s)
     | Inr (i, body, startsAt) \<Rightarrow>
       runAppointmentConflictTransaction ExistingUpdateSingleAttempt aborts (Some consultationStateChangedError)
         (scheduleOperation pf transactionNow ids actor i body startsAt) s)"


section \<open>Assigning\<close>

definition closedConsultation :: "consultation \<Rightarrow> bool" where
  "closedConsultation c = (cr_status c = C_CONVERTED \<or> cr_status c = C_REJECTED)"

definition closedError :: "string \<Rightarrow> api_error" where
  "closedError what = apiError 409 CONFLICT (''Closed consultations cannot be '' @ what @ ''.'')"

text \<open>The rows of a request whose outcome did not change since they were read.\<close>

definition unchangedRow :: "consultation \<Rightarrow> consultation \<Rightarrow> bool" where
  "unchangedRow c = outcomeTarget (cr_id c) (cr_outcomeStatus c) (cr_outcomeVersion c)"

definition updateUnchanged ::
  "consultation \<Rightarrow> (consultation \<Rightarrow> consultation) \<Rightarrow> booking_db \<Rightarrow> booking_db api" where
  "updateUnchanged c f s =
    andThen (require (length (filter (unchangedRow c) (of_consultations (bk_office s))) = 1)
      consultationStateChangedError) (\<lambda>_.
    Inr (setConsultations (updateWhere (unchangedRow c) f (of_consultations (bk_office s))) s))"

definition assignedRow :: "review_platform \<Rightarrow> int \<Rightarrow> principal \<Rightarrow> bool \<Rightarrow> string \<Rightarrow> consultation \<Rightarrow> consultation" where
  "assignedRow pf now actor shouldMarkReviewed lawyer q =
    (let q1 = q\<lparr>cr_assignedLawyerId := Some lawyer,
           cr_status := (if cr_status q = C_SCHEDULED then C_SCHEDULED else C_REVIEWING)\<rparr>
     in if shouldMarkReviewed then q1\<lparr>cr_secretaryReviewedAt := Some now,
          cr_secretaryReviewedById := Some (pr_id actor), cr_secretaryReviewNote := Some (cw_assignNote pf)\<rparr> else q1)"

text \<open>The lawyer is free at the time of the appointment that moves to him.\<close>

definition lawyerFreeFor :: "appointment option \<Rightarrow> string \<Rightarrow> booking_db \<Rightarrow> unit api" where
  "lawyerFreeFor primary lawyer s =
    (case primary of
       None \<Rightarrow> Inr ()
     | Some a \<Rightarrow> if ap_status a \<in> set ACTIVE_APPOINTMENT_STATUSES
         then assertNoAppointmentConflict (Some (ap_startsAt a)) (Some (ap_endsAt a)) (LawyerScope lawyer)
           (Some (ap_id a)) (of_appointments (bk_office s))
         else Inr ())"

definition moveToLawyer :: "appointment option \<Rightarrow> string \<Rightarrow> booking_db \<Rightarrow> booking_db" where
  "moveToLawyer primary lawyer s =
    (case primary of None \<Rightarrow> s
     | Some a \<Rightarrow> setAppointments (modify ap_id (ap_id a) (\<lambda>q. q\<lparr>ap_lawyerId := Some lawyer\<rparr>)
         (of_appointments (bk_office s))) s)"

definition giveClient :: "string option \<Rightarrow> string \<Rightarrow> booking_db \<Rightarrow> booking_db api" where
  "giveClient clientId lawyer s =
    (case clientId of None \<Rightarrow> Inr s
     | Some k \<Rightarrow> andThen (require (k \<in> ct_id ` set (bk_clients s)) (unhandled ''clients''))
         (\<lambda>_. Inr (assignClientLawyer k lawyer s)))"

definition assignedEvent :: "principal \<Rightarrow> consultation \<Rightarrow> string \<Rightarrow> audit_event" where
  "assignedEvent actor c lawyer =
    (auditEvent (Some (pr_id actor)) ''consultation.assign'' ''ConsultationRequest'' (Some (cr_id c))
      [(''assignedLawyerId'', MText lawyer), (''previousAssignedLawyerId'', optText (cr_assignedLawyerId c))])
    \<lparr>ae_lawyerId := Some lawyer\<rparr>"

definition assignOperation ::
  "review_platform \<Rightarrow> int \<Rightarrow> principal \<Rightarrow> string \<Rightarrow> string \<Rightarrow> booking_db \<Rightarrow> (unit \<times> booking_db) api" where
  "assignOperation pf now actor i lawyer s =
    andThen (assertAssignableLawyer lawyer (of_staff (bk_office s))) (\<lambda>_.
    case fetch cr_id i (of_consultations (bk_office s)) of
      None \<Rightarrow> Inl consultationMissing
    | Some c \<Rightarrow>
      andThen (require (\<not> closedConsultation c) (closedError ''assigned'')) (\<lambda>_.
      let primary = getPrimaryConsultationAppointment i (of_appointments (bk_office s));
          shouldMarkReviewed = (cr_status c = C_SCHEDULED \<and> cr_secretaryReviewedAt c = None)
      in andThen (assertExistingConsultationMutationAllowed MutAssign (cr_outcomeStatus c) (map_option ap_endsAt primary)
           (cr_assignedLawyerId c) (cr_secretaryReviewedAt c) now) (\<lambda>_.
         andThen (lawyerFreeFor primary lawyer s) (\<lambda>_.
         andThen (updateUnchanged c (assignedRow pf now actor shouldMarkReviewed lawyer) s) (\<lambda>s1.
         let s2 = (if shouldMarkReviewed then syncNotices now i (cr_outcomeStatus c) s1 else s1)
         in andThen (giveClient (cr_clientId c) lawyer (moveToLawyer primary lawyer s2)) (\<lambda>s3.
            Inr ((), auditOffice (assignedEvent actor c lawyer) s3)))))))"

definition assignConsultation ::
  "review_platform \<Rightarrow> (nat \<Rightarrow> bool) \<Rightarrow> int \<Rightarrow> principal \<Rightarrow> string \<Rightarrow> string \<Rightarrow> booking_db \<Rightarrow> unit api \<times> booking_db" where
  "assignConsultation pf aborts now actor consultationId raw s =
    (case andThen (require (hasPermission actor ''consultation.review.any'') (apiError 403 PERMISSION_DENIED
            ''Assigning consultations requires admin review permission.'')) (\<lambda>_.
          andThen (consultationIdOf (cw_outcome pf) consultationId) (\<lambda>i.
          andThen (parseWithSchema (assignConsultationSchema (cw_outcome pf)) raw ''Assignment payload is invalid.'')
            (\<lambda>lawyer. Inr (i, lawyer)))) of
       Inl e \<Rightarrow> (Inl e, s)
     | Inr (i, lawyer) \<Rightarrow>
       runAppointmentConflictTransaction ExistingUpdateSingleAttempt aborts None (assignOperation pf now actor i lawyer) s)"


section \<open>Reviewing and rejecting\<close>

definition consultationReviewScope :: "principal \<Rightarrow> (consultation \<Rightarrow> bool) option" where
  "consultationReviewScope actor =
    (if hasPermission actor ''consultation.review.any'' then Some (\<lambda>_. True)
     else if hasPermission actor ''consultation.review.assigned''
     then Some (\<lambda>c. cr_assignedLawyerId c = Some (pr_id actor)) else None)"

definition unreviewedConsultationWhere ::
  "principal \<Rightarrow> int \<Rightarrow> appointment list \<Rightarrow> (consultation \<Rightarrow> bool) api" where
  "unreviewedConsultationWhere actor asOf rows =
    (case consultationReviewScope actor of
       None \<Rightarrow> Inl (apiError 403 PERMISSION_DENIED ''Consultation review permission is required.'')
     | Some scope \<Rightarrow> Inr (\<lambda>c. scope c \<and> cr_status c = C_SCHEDULED \<and> cr_secretaryReviewedAt c = None \<and>
         consultationOutcomeViewWhere V_current asOf rows c))"

text \<open>The page of the oldest other request that waits for a review.\<close>

definition nextReviewHref :: "principal \<Rightarrow> int \<Rightarrow> string \<Rightarrow> booking_db \<Rightarrow> string option api" where
  "nextReviewHref actor now i s =
    andThen (unreviewedConsultationWhere actor now (of_appointments (bk_office s))) (\<lambda>waits.
    Inr (case sort_key cr_createdAt (filter (\<lambda>c. waits c \<and> cr_id c \<noteq> i) (of_consultations (bk_office s))) of
       [] \<Rightarrow> None | c # _ \<Rightarrow> Some (''/admin/consultations/'' @ cr_id c)))"

definition reviewOperation ::
  "int \<Rightarrow> principal \<Rightarrow> string \<Rightarrow> string option \<Rightarrow> booking_db \<Rightarrow> (string option \<times> booking_db) api" where
  "reviewOperation now actor i note s =
    (case fetch cr_id i (of_consultations (bk_office s)) of
       None \<Rightarrow> Inl consultationMissing
     | Some c \<Rightarrow>
       andThen (require (canReviewConsultation actor c)
         (apiError 403 PERMISSION_DENIED ''Consultation review is not allowed.'')) (\<lambda>_.
       andThen (require (cr_status c \<noteq> C_PAYMENT_PENDING) (apiError 409 CONFLICT
         ''Paid consultation cannot be reviewed before trusted payment confirmation.'')) (\<lambda>_.
       andThen (require (\<not> closedConsultation c) (closedError ''reviewed'')) (\<lambda>_.
       let primary = getPrimaryConsultationAppointment i (of_appointments (bk_office s))
       in andThen (assertExistingConsultationMutationAllowed MutReview (cr_outcomeStatus c) (map_option ap_endsAt primary)
            (cr_assignedLawyerId c) (cr_secretaryReviewedAt c) now) (\<lambda>_.
          andThen (updateUnchanged c (\<lambda>q. (reviewedBy actor now q)\<lparr>cr_secretaryReviewNote := filled note\<rparr>) s) (\<lambda>s1.
          let s2 = syncNotices now i (cr_outcomeStatus c) s1
          in andThen (nextReviewHref actor now i s2) (\<lambda>href.
             Inr (href, auditOffice ((auditEvent (Some (pr_id actor)) ''consultation.secretary_review''
                 ''ConsultationRequest'' (Some i)
                 [(''previousSecretaryReviewedAt'', optText (map_option isoText (cr_secretaryReviewedAt c))),
                  (''secretaryReviewedAt'', MText (isoText (case cr_secretaryReviewedAt c of None \<Rightarrow> now | Some t \<Rightarrow> t))),
                  (''nextReviewHref'', optText href)])
               \<lparr>ae_lawyerId := cr_assignedLawyerId c\<rparr>) s2))))))))"

definition reviewConsultation ::
  "review_platform \<Rightarrow> (nat \<Rightarrow> bool) \<Rightarrow> int \<Rightarrow> principal \<Rightarrow> string \<Rightarrow> string option \<Rightarrow> booking_db \<Rightarrow>
   string option api \<times> booking_db" where
  "reviewConsultation pf aborts now actor consultationId raw s =
    (case andThen (consultationIdOf (cw_outcome pf) consultationId) (\<lambda>i.
          andThen (parseWithSchema (reviewConsultationSchema (cw_outcome pf)) raw ''Review payload is invalid.'')
            (\<lambda>note. Inr (i, note))) of
       Inl e \<Rightarrow> (Inl e, s)
     | Inr (i, note) \<Rightarrow>
       runAppointmentConflictTransaction ExistingUpdateSingleAttempt aborts (Some consultationStateChangedError)
         (reviewOperation now actor i note) s)"

definition rejectedRow :: "int \<Rightarrow> principal \<Rightarrow> reject_input \<Rightarrow> consultation \<Rightarrow> consultation" where
  "rejectedRow now actor body q =
    q\<lparr>cr_status := C_REJECTED, cr_outcomeStatus := O_CANCELLED, cr_outcomeAt := Some now,
      cr_outcomeById := Some (pr_id actor), cr_outcomeReasonCode := ji_reasonCode body,
      cr_outcomeNote := filled (ji_reason body), cr_outcomeVersion := cr_outcomeVersion q + 1\<rparr>"

definition rejectedEvent ::
  "principal \<Rightarrow> consultation \<Rightarrow> reject_input \<Rightarrow> appointment option \<Rightarrow> audit_event" where
  "rejectedEvent actor c body primary =
    (auditEvent (Some (pr_id actor)) ''consultation.reject'' ''ConsultationRequest'' (Some (cr_id c))
      (outcomeMetadata (cr_outcomeStatus c) O_CANCELLED
         (case ji_reasonCode body of None \<Rightarrow> [] | Some code \<Rightarrow> code) (cr_outcomeVersion c + 1) @
       (case primary of None \<Rightarrow> [] | Some a \<Rightarrow> [(''primaryAppointmentId'', MText (ap_id a))])))
    \<lparr>ae_clientId := cr_clientId c, ae_lawyerId := cr_assignedLawyerId c, ae_appointmentId := map_option ap_id primary\<rparr>"

definition cancelPrimary :: "appointment option \<Rightarrow> booking_db \<Rightarrow> booking_db" where
  "cancelPrimary primary s =
    (case primary of None \<Rightarrow> s
     | Some a \<Rightarrow> setAppointments (modify ap_id (ap_id a) (\<lambda>q. q\<lparr>ap_status := A_CANCELLED\<rparr>)
         (of_appointments (bk_office s))) s)"

definition rejectOperation ::
  "int \<Rightarrow> principal \<Rightarrow> string \<Rightarrow> reject_input \<Rightarrow> booking_db \<Rightarrow> (unit \<times> booking_db) api" where
  "rejectOperation now actor i body s =
    (case fetch cr_id i (of_consultations (bk_office s)) of
       None \<Rightarrow> Inl consultationMissing
     | Some c \<Rightarrow>
       andThen (require (\<not> closedConsultation c) (closedError ''rejected'')) (\<lambda>_.
       andThen (assertExistingConsultationMutationAllowed MutReject (cr_outcomeStatus c) None None None now) (\<lambda>_.
       andThen (require (case ji_expectedOutcomeVersion body of None \<Rightarrow> True | Some v \<Rightarrow> cr_outcomeVersion c = v)
         consultationStateChangedError) (\<lambda>_.
       let primary = getPrimaryConsultationAppointment i (of_appointments (bk_office s));
           target = (\<lambda>q. unchangedRow c q \<and> cr_status q = cr_status c)
       in andThen (require (length (filter target (of_consultations (bk_office s))) = 1)
            consultationStateChangedError) (\<lambda>_.
          let s1 = setConsultations (updateWhere target (rejectedRow now actor body) (of_consultations (bk_office s))) s;
              s2 = cancelPrimary primary s1
          in Inr ((), auditOffice (rejectedEvent actor c body primary) (syncNotices now i O_CANCELLED s2)))))))"

definition rejectConsultation ::
  "review_platform \<Rightarrow> (nat \<Rightarrow> bool) \<Rightarrow> int \<Rightarrow> principal \<Rightarrow> string \<Rightarrow> reject_input \<Rightarrow> booking_db \<Rightarrow>
   unit api \<times> booking_db" where
  "rejectConsultation pf aborts now actor consultationId raw s =
    (case andThen (require (canManageConsultationOutcome actor) (apiError 403 PERMISSION_DENIED
            ''Consultation rejection requires consultation review and appointment management permissions.'')) (\<lambda>_.
          andThen (consultationIdOf (cw_outcome pf) consultationId) (\<lambda>i.
          andThen (parseWithSchema (rejectConsultationSchema (cw_outcome pf)) raw ''Reject payload is invalid.'')
            (\<lambda>body. Inr (i, body)))) of
       Inl e \<Rightarrow> (Inl e, s)
     | Inr (i, body) \<Rightarrow>
       runAppointmentConflictTransaction ExistingUpdateSingleAttempt aborts (Some consultationStateChangedError)
         (rejectOperation now actor i body) s)"


section \<open>Conversion to a case\<close>

definition conversionLawyer :: "principal \<Rightarrow> consultation \<Rightarrow> convert_body \<Rightarrow> string option" where
  "conversionLawyer actor c body =
    (case vb_assignedLawyerId body of Some l \<Rightarrow> Some l
     | None \<Rightarrow> (case nonEmpty (cr_assignedLawyerId c) of Some l \<Rightarrow> Some l
       | None \<Rightarrow> if pr_roleName actor = ROLE_lawyer then nonEmpty (Some (pr_id actor)) else None))"

definition convertible :: "principal \<Rightarrow> consultation \<Rightarrow> unit api" where
  "convertible actor c =
    andThen (require (canReviewConsultation actor c)
      (apiError 403 PERMISSION_DENIED ''Consultation conversion is not allowed.'')) (\<lambda>_.
    andThen (require (\<not> (cr_status c = C_CONVERTED \<or> cr_convertedCaseId c \<noteq> None))
      (apiError 409 CONFLICT ''Consultation is already converted.'')) (\<lambda>_.
    andThen (require (cr_status c \<noteq> C_REJECTED)
      (apiError 409 CONFLICT ''Rejected consultations cannot be converted.'')) (\<lambda>_.
    assertExistingConsultationMutationAllowed MutConvert (cr_outcomeStatus c) None None None 0)))"

definition newCase ::
  "review_platform \<Rightarrow> int \<Rightarrow> string \<Rightarrow> consultation \<Rightarrow> request_contact \<Rightarrow> convert_body \<Rightarrow> string \<Rightarrow> string \<Rightarrow> legal_case" where
  "newCase pf now newId c r body clientId lawyer =
    \<lparr>lc_id = newId, lc_internalFileNumber = legalCaseReference (cw_year pf) (cr_id c) now, lc_clientId = clientId,
     lc_assignedLawyerId = lawyer, lc_consultationRequestId = Some (cr_id c),
     lc_title = (case vb_caseTitle body of Some t \<Rightarrow> t | None \<Rightarrow> take 120 (rc_summary r)),
     lc_caseType = (case vb_caseType body of Some t \<Rightarrow> t | None \<Rightarrow> cr_serviceCategory c),
     lc_courtName = None, lc_externalCaseNumber = None, lc_status = ''ACTIVE'',
     lc_priority = (if vb_priority body = [] then priorityFromUrgency (rc_urgency r) else vb_priority body),
     lc_summary = Some (case nonEmpty (rc_aiSummary r) of Some t \<Rightarrow> t | None \<Rightarrow> rc_summary r),
     lc_nextSessionAt = map_option fst (vb_appointment body), lc_createdAt = now, lc_updatedAt = now, lc_deletedAt = None\<rparr>"

text \<open>A case has its own file number, and is the only one of its request.\<close>

definition insertCase :: "legal_case \<Rightarrow> booking_db \<Rightarrow> booking_db api" where
  "insertCase k s =
    andThen (require (lc_internalFileNumber k \<notin> lc_internalFileNumber ` set (bk_cases s) \<and>
        lc_consultationRequestId k \<notin> lc_consultationRequestId ` set (bk_cases s)) (unhandled ''cases'')) (\<lambda>_.
    andThen (insertRow ''cases'' lc_id k (bk_cases s)) (\<lambda>rows. Inr (s\<lparr>bk_cases := rows\<rparr>)))"

definition followUpRow ::
  "review_platform \<Rightarrow> string \<Rightarrow> legal_case \<Rightarrow> string \<Rightarrow> convert_body \<Rightarrow> int \<times> int \<Rightarrow> appointment" where
  "followUpRow pf newId k i body span1 =
    \<lparr>ap_id = newId, ap_clientId = lc_clientId k, ap_lawyerId = Some (lc_assignedLawyerId k),
     ap_consultationRequestId = Some i, ap_caseId = Some (lc_id k),
     ap_title = cw_followUpTitle pf (lc_internalFileNumber k), ap_type = AT_CONSULTATION,
     ap_mode = vb_appointmentMode body, ap_location = vb_appointmentLocation body,
     ap_startsAt = fst span1, ap_endsAt = snd span1, ap_status = A_SCHEDULED, ap_notes = None\<rparr>"

definition bookFollowUp ::
  "review_platform \<Rightarrow> review_ids \<Rightarrow> legal_case \<Rightarrow> string \<Rightarrow> convert_body \<Rightarrow> booking_db \<Rightarrow> booking_db api" where
  "bookFollowUp pf ids k i body s =
    (case vb_appointment body of None \<Rightarrow> Inr s
     | Some span1 \<Rightarrow> andThen (insertRow ''appointments'' ap_id (followUpRow pf (vi_appointment ids) k i body span1)
           (of_appointments (bk_office s))) (\<lambda>rows. Inr (setAppointments rows s)))"

definition followUpLawyerFree :: "convert_body \<Rightarrow> string \<Rightarrow> booking_db \<Rightarrow> unit api" where
  "followUpLawyerFree body lawyer s =
    (case vb_appointment body of None \<Rightarrow> Inr ()
     | Some (a, b) \<Rightarrow> assertNoAppointmentConflict (Some a) (Some b) (LawyerScope lawyer) None
         (of_appointments (bk_office s)))"

definition convertedRow :: "string \<Rightarrow> string \<Rightarrow> string \<Rightarrow> consultation \<Rightarrow> consultation" where
  "convertedRow clientId lawyer caseId q =
    q\<lparr>cr_clientId := Some clientId, cr_assignedLawyerId := Some lawyer, cr_status := C_CONVERTED,
      cr_convertedCaseId := Some caseId\<rparr>"

definition convertedEvent :: "principal \<Rightarrow> string \<Rightarrow> legal_case \<Rightarrow> string option \<Rightarrow> audit_event" where
  "convertedEvent actor i k appointmentId =
    (auditEvent (Some (pr_id actor)) ''consultation.convert_to_case'' ''ConsultationRequest'' (Some i)
      [(''clientId'', MText (lc_clientId k)), (''caseId'', MText (lc_id k)), (''appointmentId'', optText appointmentId),
       (''assignedLawyerId'', MText (lc_assignedLawyerId k))])
    \<lparr>ae_clientId := Some (lc_clientId k), ae_caseId := Some (lc_id k), ae_lawyerId := Some (lc_assignedLawyerId k),
     ae_appointmentId := appointmentId\<rparr>"

definition convertOperation ::
  "review_platform \<Rightarrow> int \<Rightarrow> review_ids \<Rightarrow> principal \<Rightarrow> string \<Rightarrow> convert_body \<Rightarrow> booking_db \<Rightarrow>
   (legal_case \<times> booking_db) api" where
  "convertOperation pf now ids actor i body s =
    (case loadConsultation i s of
       None \<Rightarrow> Inl consultationMissing
     | Some (c, r) \<Rightarrow>
       andThen (convertible actor c) (\<lambda>_.
       case conversionLawyer actor c body of
         None \<Rightarrow> Inl (apiError 400 VALIDATION_ERROR ''Assigned lawyer is required before conversion.'')
       | Some lawyer \<Rightarrow>
         andThen (assertAssignableLawyer lawyer (of_staff (bk_office s))) (\<lambda>_.
         andThen (followUpLawyerFree body lawyer s) (\<lambda>_.
         andThen (consultationClient (vi_client ids) c r lawyer s) (\<lambda>(clientId, s1).
         let k = newCase pf now (vi_case ids) c r body clientId lawyer
         in andThen (insertCase k s1) (\<lambda>s2.
            andThen (bookFollowUp pf ids k i body s2) (\<lambda>s3.
            let s4 = setConsultations (modify cr_id i (convertedRow clientId lawyer (lc_id k))
                  (of_consultations (bk_office s3))) s3
            in Inr (k, auditOffice (convertedEvent actor i k
                  (if vb_appointment body = None then None else Some (vi_appointment ids)))
                (syncNotices now i (cr_outcomeStatus c) s4)))))))))"

definition convertConsultationToCase ::
  "review_platform \<Rightarrow> (nat \<Rightarrow> bool) \<Rightarrow> int \<Rightarrow> review_ids \<Rightarrow> principal \<Rightarrow> string \<Rightarrow> convert_input \<Rightarrow> booking_db \<Rightarrow>
   legal_case api \<times> booking_db" where
  "convertConsultationToCase pf aborts now ids actor consultationId raw s =
    (case andThen (consultationIdOf (cw_outcome pf) consultationId) (\<lambda>i.
          andThen (parseWithSchema (convertConsultationSchema (cw_outcome pf)) raw ''Conversion payload is invalid.'')
            (\<lambda>body. Inr (i, body))) of
       Inl e \<Rightarrow> (Inl e, s)
     | Inr (i, body) \<Rightarrow>
       runAppointmentConflictTransaction DatabaseCreateBoundedRetry aborts None
         (convertOperation pf now ids actor i body) s)"


section \<open>Listing\<close>

datatype assigned_filter = AnyAssigned | OnlyAssigned | OnlyUnassigned

record consultation_query =
  cq_view :: outcome_view
  cq_q :: "string option"
  cq_status :: "consultation_status option"
  cq_assigned :: assigned_filter
  cq_unreviewed :: bool
  cq_clientId :: "string option"
  cq_page :: int
  cq_pageSize :: int

definition adminConsultationListQuerySchema ::
  "outcome_platform \<Rightarrow> consultation_query \<Rightarrow> error_detail list + consultation_query" where
  "adminConsultationListQuerySchema pf raw =
    (let issues = schemaIssue pf ''q'' (textAtMost 120 (cq_q raw)) @
           schemaIssue pf ''clientId'' (case nonEmpty (cq_clientId raw) of None \<Rightarrow> True | Some i \<Rightarrow> ou_isUuid pf i) @
           schemaIssue pf ''page'' (1 \<le> cq_page raw) @
           schemaIssue pf ''pageSize'' (1 \<le> cq_pageSize raw \<and> cq_pageSize raw \<le> 50) @
           schemaIssue pf ''review'' (cq_unreviewed raw \<longrightarrow> cq_view raw = V_current \<or> cq_view raw = V_overdue_unbooked)
     in if issues \<noteq> [] then Inl issues
        else Inr (raw\<lparr>cq_q := nonEmpty (map_option jsTrim (cq_q raw)), cq_clientId := nonEmpty (cq_clientId raw)\<rparr>))"

definition waitsForReview :: "consultation \<Rightarrow> bool" where
  "waitsForReview c = (cr_status c = C_SCHEDULED \<and> cr_secretaryReviewedAt c = None)"

definition searchedRow :: "review_platform \<Rightarrow> string \<Rightarrow> request_contact option \<Rightarrow> consultation \<Rightarrow> bool" where
  "searchedRow pf q contact c =
    (cw_contains pf q (cr_fullName c) \<or> cw_contains pf q (cr_serviceCategory c) \<or>
     (case contact of None \<Rightarrow> False
      | Some r \<Rightarrow> cw_contains pf q (rc_publicReference r) \<or> cw_containsPoints pf q (rc_phone r) \<or>
          (case rc_email r of None \<Rightarrow> False | Some e \<Rightarrow> cw_contains pf q e) \<or> cw_contains pf q (rc_summary r)))"

definition listBaseWhere ::
  "review_platform \<Rightarrow> principal \<Rightarrow> consultation_query \<Rightarrow> bool \<Rightarrow> booking_db \<Rightarrow> (consultation \<Rightarrow> bool) api" where
  "listBaseWhere pf actor f includeReview s =
    andThen (consultationScopeWhereForPrincipal actor) (\<lambda>scope. Inr (\<lambda>c.
      scope c \<and> (case cq_status f of None \<Rightarrow> True | Some st \<Rightarrow> cr_status c = st) \<and>
      (case cq_assigned f of AnyAssigned \<Rightarrow> True | OnlyAssigned \<Rightarrow> cr_assignedLawyerId c \<noteq> None
        | OnlyUnassigned \<Rightarrow> cr_assignedLawyerId c = None) \<and>
      (case cq_clientId f of None \<Rightarrow> True | Some k \<Rightarrow> cr_clientId c = Some k) \<and>
      (includeReview \<and> cq_unreviewed f \<longrightarrow> waitsForReview c) \<and>
      (case cq_q f of None \<Rightarrow> True | Some q \<Rightarrow> searchedRow pf q (fetch rc_id (cr_id c) (bk_requests s)) c)))"

record consultation_page =
  cg_items :: "consultation list"
  cg_total :: nat
  cg_viewCounts :: "(outcome_view \<times> nat) list"
  cg_unassignedTotal :: nat
  cg_unreviewedTotal :: nat

text \<open>The newest first.\<close>

definition listAdminConsultations ::
  "review_platform \<Rightarrow> int \<Rightarrow> principal \<Rightarrow> consultation_query \<Rightarrow> booking_db \<Rightarrow> consultation_page api" where
  "listAdminConsultations pf asOf actor query s =
    andThen (parseWithSchema (adminConsultationListQuerySchema (cw_outcome pf)) query
      ''Consultation list query is invalid.'') (\<lambda>f.
    andThen (listBaseWhere pf actor f True s) (\<lambda>reviewBase.
    andThen (listBaseWhere pf actor f False s) (\<lambda>base.
    andThen (consultationScopeWhereForPrincipal actor) (\<lambda>scope.
    let cs = of_consultations (bk_office s); rows = of_appointments (bk_office s);
        p = toPagination (Some (cq_page f)) (Some (cq_pageSize f));
        shown = filter (\<lambda>c. reviewBase c \<and> consultationOutcomeViewWhere (cq_view f) asOf rows c) cs;
        actionView = (if cq_view f = V_overdue_unbooked then V_overdue_unbooked else V_current);
        inAction = (\<lambda>c. scope c \<and> consultationOutcomeViewWhere actionView asOf rows c)
    in Inr \<lparr>cg_items = take (nat (pg_take p)) (drop (nat (pg_skip p)) (sort_key (\<lambda>c. - cr_createdAt c) shown)),
            cg_total = length shown,
            cg_viewCounts = map (\<lambda>view. (view, length (filter (\<lambda>c.
                (if view = V_current \<or> view = V_overdue_unbooked then reviewBase c else base c) \<and>
                consultationOutcomeViewWhere view asOf rows c) cs))) CONSULTATION_OUTCOME_VIEWS,
            cg_unassignedTotal = length (filter (\<lambda>c. inAction c \<and> cr_assignedLawyerId c = None) cs),
            cg_unreviewedTotal = length (filter (\<lambda>c. inAction c \<and> waitsForReview c) cs)\<rparr>))))"

record consultation_detail =
  cd_consultation :: consultation
  cd_primary :: "appointment option"
  cd_timing :: "bool \<times> int option"
  cd_canAssign :: bool
  cd_canManageOutcome :: bool
  cd_canReopen :: bool
  cd_canSchedule :: bool

definition getAdminConsultationDetail ::
  "review_platform \<Rightarrow> int \<Rightarrow> principal \<Rightarrow> string \<Rightarrow> booking_db \<Rightarrow> consultation_detail api" where
  "getAdminConsultationDetail pf asOf actor consultationId s =
    andThen (consultationIdOf (cw_outcome pf) consultationId) (\<lambda>i.
    case fetch cr_id i (of_consultations (bk_office s)) of
      None \<Rightarrow> Inl consultationMissing
    | Some c \<Rightarrow>
      andThen (require (canReviewConsultation actor c)
        (apiError 403 PERMISSION_DENIED ''Consultation review is not allowed.'')) (\<lambda>_.
      let primary = getPrimaryConsultationAppointment i (of_appointments (bk_office s));
          manages = canManageConsultationOutcome actor
      in Inr \<lparr>cd_consultation = c, cd_primary = primary,
           cd_timing = consultationOperationalTiming (cr_createdAt c) (cr_status c) (cr_outcomeStatus c)
             (primary \<noteq> None) asOf,
           cd_canAssign = hasPermission actor ''consultation.review.any'', cd_canManageOutcome = manages,
           cd_canReopen = (manages \<and> cr_outcomeStatus c = O_MISSED),
           cd_canSchedule = (manages \<and> cr_outcomeStatus c = O_PENDING \<and>
             cr_status c \<in> set ACTIVE_UNBOOKED_CONSULTATION_STATUSES \<and> primary = None)\<rparr>))"

end
