(* ===== verification/CaseWork.thy ===== *)
theory CaseWork
  imports ConsultationReview
begin

text \<open>
  The cases of the office and its calendar: \<open>src/src/server/admin/case-operations-service.ts\<close>,
  \<open>calendar-service.ts\<close> and the dates of the office's clock in \<open>src/src/lib/legal-format.ts\<close>. The state is
  \<open>case_db\<close>: the tables of the booking with the court sessions and the parties of the cases. An audit
  event written outside a transaction is dropped when its write fails.
\<close>

section \<open>The office's clock\<close>

text \<open>The three numbers of a date as it is typed, and the day they name, if there is one.\<close>

definition dateParts :: "string \<Rightarrow> (int \<times> int \<times> int) option" where
  "dateParts s =
    (case splitOn (CHR ''-'') s of
       [y, m, d] \<Rightarrow> if allDigits y \<and> length y = 4 \<and> allDigits m \<and> length m = 2 \<and> allDigits d \<and> length d = 2
         then Some (int (natOfDigits y), int (natOfDigits m), int (natOfDigits d)) else None
     | _ \<Rightarrow> None)"

definition calendarDay :: "int \<times> int \<times> int \<Rightarrow> int option" where
  "calendarDay p =
    (case p of (y, m, d) \<Rightarrow>
       if 100 \<le> y \<and> 1 \<le> m \<and> m \<le> 12 \<and> civilOfDays (daysOfCivil y m d) = (y, m, d)
       then Some (daysOfCivil y m d) else None)"

definition formatCairoDateInput :: "slot_platform \<Rightarrow> int \<Rightarrow> string" where
  "formatCairoDateInput sp t = isoDate (t + sp_offset sp t)"

definition addCairoDateInputDays :: "string \<Rightarrow> int \<Rightarrow> string option" where
  "addCairoDateInputDays s days =
    map_option (\<lambda>n. isoDate ((n + days) * MS_PER_DAY)) (Option.bind (dateParts s) calendarDay)"

definition timeParts :: "string \<Rightarrow> (int \<times> int) option" where
  "timeParts s =
    (case splitOn (CHR '':'') s of
       [h, m] \<Rightarrow> if allDigits h \<and> length h = 2 \<and> allDigits m \<and> length m = 2
         then Some (int (natOfDigits h), int (natOfDigits m)) else None
     | _ \<Rightarrow> None)"

text \<open>The reading of the local clock that a date and a time name, as the instant that shows it in UTC.\<close>

definition wallReading :: "string \<Rightarrow> int option" where
  "wallReading s =
    (case splitOn (CHR ''T'') s of
       [date, time] \<Rightarrow>
         (case (Option.bind (dateParts date) calendarDay, timeParts time) of
            (Some n, Some (h, m)) \<Rightarrow> if h < 24 \<and> m < 60 then Some (n * MS_PER_DAY + h * 3600000 + m * 60000) else None
          | _ \<Rightarrow> None)
     | _ \<Rightarrow> None)"

definition cairoLocalOrdinal :: "slot_platform \<Rightarrow> int \<Rightarrow> int" where
  "cairoLocalOrdinal sp t = wallTimeAt sp t"

text \<open>The candidate moves by what its reading is off, at most so many times.\<close>

fun approachReading :: "slot_platform \<Rightarrow> int \<Rightarrow> nat \<Rightarrow> int \<Rightarrow> int" where
  "approachReading sp desired 0 candidate = candidate"
| "approachReading sp desired (Suc n) candidate =
     (let difference = desired - cairoLocalOrdinal sp candidate
      in if difference = 0 then candidate else approachReading sp desired n (candidate + difference))"

definition cairoLocalDateTimeToIso :: "slot_platform \<Rightarrow> string \<Rightarrow> int option" where
  "cairoLocalDateTimeToIso sp s =
    (case wallReading s of
       None \<Rightarrow> None
     | Some desired \<Rightarrow>
       (let candidate = approachReading sp desired 4 desired
        in if cairoLocalOrdinal sp candidate \<noteq> desired then None else Some candidate))"


text \<open>An operation that refuses leaves the tables, and what it returns is not looked at.\<close>

definition ran :: "('a \<times> 's) api \<Rightarrow> 's \<Rightarrow> unit api \<times> 's" where
  "ran r s = (case r of Inl e \<Rightarrow> (Inl e, s) | Inr (x, s') \<Rightarrow> (Inr (), s'))"


section \<open>Rows\<close>

record case_session =
  cs_id :: string
  cs_caseId :: string
  cs_appointmentId :: "string option"
  cs_courtName :: "string option"
  cs_sessionDate :: int
  cs_decision :: "string option"
  cs_nextAction :: "string option"
  cs_nextSessionDate :: "int option"
  cs_createdById :: string

record case_party =
  pa_caseId :: string
  pa_name :: string
  pa_type :: string
  pa_notes :: "string option"

record case_db =
  kd_desk :: booking_db
  kd_sessions :: "case_session list"
  kd_parties :: "case_party list"
  kd_userNames :: "(string \<times> string) list"

text \<open>
  The validators, the clock, the parser of dates, the search and the order of the database, the digest of
  a value's text, and whether a write of the audit trail outside a transaction succeeds.
\<close>

record case_platform =
  kp_outcome :: outcome_platform
  kp_clock :: slot_platform
  kp_year :: "int \<Rightarrow> string"
  kp_parseDate :: "string \<Rightarrow> int option"
  kp_contains :: "string \<Rightarrow> string \<Rightarrow> bool"
  kp_containsPoints :: "string \<Rightarrow> nat list \<Rightarrow> bool"
  kp_order :: "string \<Rightarrow> string \<Rightarrow> legal_case list \<Rightarrow> legal_case list"
  kp_sha256 :: "json \<Rightarrow> string"
  kp_auditUp :: bool

definition casesOf :: "case_db \<Rightarrow> legal_case list" where "casesOf s = bk_cases (kd_desk s)"

definition appointmentsOf :: "case_db \<Rightarrow> appointment list" where
  "appointmentsOf s = of_appointments (bk_office (kd_desk s))"

definition putCases :: "legal_case list \<Rightarrow> case_db \<Rightarrow> case_db" where
  "putCases rows s = s\<lparr>kd_desk := (kd_desk s)\<lparr>bk_cases := rows\<rparr>\<rparr>"

definition putAppointments :: "appointment list \<Rightarrow> case_db \<Rightarrow> case_db" where
  "putAppointments rows s = s\<lparr>kd_desk := setAppointments rows (kd_desk s)\<rparr>"

definition auditCase :: "audit_event \<Rightarrow> case_db \<Rightarrow> case_db" where
  "auditCase e s = s\<lparr>kd_desk := auditOffice e (kd_desk s)\<rparr>"

definition auditCaseBestEffort :: "case_platform \<Rightarrow> audit_event \<Rightarrow> case_db \<Rightarrow> case_db" where
  "auditCaseBestEffort pf e s = (if kp_auditUp pf then auditCase e s else s)"

definition caseClient :: "case_db \<Rightarrow> legal_case \<Rightarrow> client_contact option" where
  "caseClient s k = fetch ct_id (lc_clientId k) (bk_clients (kd_desk s))"


section \<open>Permissions\<close>

definition canListAdminCases :: "principal \<Rightarrow> bool" where
  "canListAdminCases actor = (hasPermission actor ''case.read.any'' \<or> hasPermission actor ''case.read.assigned'')"

definition canReadAdminCase :: "principal \<Rightarrow> case_db \<Rightarrow> legal_case \<Rightarrow> bool" where
  "canReadAdminCase actor s k =
    (canListAdminCases actor \<and>
     canReadCase actor (Option.bind (caseClient s k) ct_userId) (Some (lc_assignedLawyerId k)))"

definition canUpdateAdminCase :: "principal \<Rightarrow> legal_case \<Rightarrow> bool" where
  "canUpdateAdminCase actor k =
    (if hasPermission actor ''case.update.any'' then True
     else hasPermission actor ''case.update.assigned'' \<and> lc_assignedLawyerId k = pr_id actor)"

definition canManageCaseSessions :: "principal \<Rightarrow> legal_case \<Rightarrow> bool" where
  "canManageCaseSessions actor k =
    (if hasPermission actor ''session.manage.any'' then True
     else hasPermission actor ''session.manage.assigned'' \<and> lc_assignedLawyerId k = pr_id actor)"

text \<open>On the case of the appointment, if it has one.\<close>

definition canManageCalendarAppointment :: "principal \<Rightarrow> legal_case option \<Rightarrow> bool" where
  "canManageCalendarAppointment actor ko =
    (if hasPermission actor ''appointment.manage.any'' then True
     else hasPermission actor ''session.manage.assigned'' \<and>
       (case ko of None \<Rightarrow> False | Some k \<Rightarrow> lc_deletedAt k = None \<and> lc_assignedLawyerId k = pr_id actor))"

definition caseScopeWhereForPrincipal :: "principal \<Rightarrow> (legal_case \<Rightarrow> bool) api" where
  "caseScopeWhereForPrincipal actor =
    (if hasPermission actor ''case.read.any'' then Inr (\<lambda>k. lc_deletedAt k = None)
     else if hasPermission actor ''case.read.assigned''
     then Inr (\<lambda>k. lc_deletedAt k = None \<and> lc_assignedLawyerId k = pr_id actor)
     else Inl (apiError 403 PERMISSION_DENIED ''Case read permission is required.''))"

definition dateFromActionInput :: "case_platform \<Rightarrow> string \<Rightarrow> string \<Rightarrow> int api" where
  "dateFromActionInput pf s fieldName =
    (case kp_parseDate pf s of
       None \<Rightarrow> Inl (apiError 400 VALIDATION_ERROR (fieldName @ '' is invalid.'')) | Some t \<Rightarrow> Inr t)"

definition uuidIn :: "case_platform \<Rightarrow> string \<Rightarrow> string \<Rightarrow> string api" where
  "uuidIn pf i message =
    parseWithSchema (\<lambda>s. if ou_isUuid (kp_outcome pf) s then Inr s else Inl [ou_issue (kp_outcome pf) []]) i message"

definition caseMissing :: api_error where
  "caseMissing = apiError 404 NOT_FOUND ''Case was not found.''"

definition findCaseForAction :: "principal \<Rightarrow> string \<Rightarrow> case_db \<Rightarrow> legal_case api" where
  "findCaseForAction actor caseId s =
    (case fetch lc_id caseId (casesOf s) of
       None \<Rightarrow> Inl caseMissing
     | Some k \<Rightarrow>
       andThen (require (lc_deletedAt k = None) caseMissing) (\<lambda>_.
       andThen (require (canReadAdminCase actor s k) (apiError 403 PERMISSION_DENIED ''Case record is not allowed.''))
         (\<lambda>_. Inr k)))"

definition assertCaseUpdateAllowed :: "principal \<Rightarrow> string \<Rightarrow> case_db \<Rightarrow> legal_case api" where
  "assertCaseUpdateAllowed actor caseId s =
    andThen (findCaseForAction actor caseId s) (\<lambda>k.
    andThen (require (canUpdateAdminCase actor k) (apiError 403 PERMISSION_DENIED ''Case update permission is required.''))
      (\<lambda>_. Inr k))"

definition assertSessionManageAllowed :: "principal \<Rightarrow> string \<Rightarrow> case_db \<Rightarrow> legal_case api" where
  "assertSessionManageAllowed actor caseId s =
    andThen (findCaseForAction actor caseId s) (\<lambda>k.
    andThen (require (canManageCaseSessions actor k)
      (apiError 403 PERMISSION_DENIED ''Session management permission is required.'')) (\<lambda>_. Inr k))"


section \<open>Listing cases\<close>

definition caseStatuses :: "string list" where
  "caseStatuses = [''NEW'', ''UNDER_REVIEW'', ''ACTIVE'', ''AWAITING_JUDGMENT'', ''COMPLETED'', ''CLOSED'', ''ARCHIVED'']"

definition openCaseStatusValues :: "string list" where
  "openCaseStatusValues = [''NEW'', ''UNDER_REVIEW'', ''ACTIVE'', ''AWAITING_JUDGMENT'']"

definition casePriorities :: "string list" where
  "casePriorities = [''LOW'', ''NORMAL'', ''HIGH'', ''URGENT'']"

record case_query =
  kq_q :: "string option"
  kq_status :: "string option"
  kq_priority :: "string option"
  kq_caseType :: "string option"
  kq_assignedLawyerId :: "string option"
  kq_clientId :: "string option"
  kq_sortBy :: string
  kq_sortDirection :: string
  kq_page :: int
  kq_pageSize :: int

text \<open>A column that may be left out or left empty.\<close>

definition orEmpty :: "(string \<Rightarrow> bool) \<Rightarrow> string option \<Rightarrow> bool" where
  "orEmpty ok x = (case nonEmpty x of None \<Rightarrow> True | Some s \<Rightarrow> ok s)"

definition adminCaseListQuerySchema :: "outcome_platform \<Rightarrow> case_query \<Rightarrow> error_detail list + case_query" where
  "adminCaseListQuerySchema pf raw =
    (let issues = schemaIssue pf ''q'' (textAtMost 120 (kq_q raw)) @
           schemaIssue pf ''status'' (orEmpty (\<lambda>x. x \<in> set caseStatuses) (kq_status raw)) @
           schemaIssue pf ''priority'' (orEmpty (\<lambda>x. x \<in> set casePriorities) (kq_priority raw)) @
           schemaIssue pf ''caseType'' (textAtMost 80 (kq_caseType raw)) @
           schemaIssue pf ''assignedLawyerId'' (orEmpty (ou_isUuid pf) (kq_assignedLawyerId raw)) @
           schemaIssue pf ''clientId'' (orEmpty (ou_isUuid pf) (kq_clientId raw)) @
           schemaIssue pf ''sortBy'' (kq_sortBy raw \<in> {''updatedAt'', ''createdAt'', ''nextSessionAt'',
             ''internalFileNumber'', ''status'', ''priority''}) @
           schemaIssue pf ''sortDirection'' (kq_sortDirection raw \<in> {''asc'', ''desc''}) @
           schemaIssue pf ''page'' (1 \<le> kq_page raw) @
           schemaIssue pf ''pageSize'' (1 \<le> kq_pageSize raw \<and> kq_pageSize raw \<le> 50)
     in if issues \<noteq> [] then Inl issues
        else Inr (raw\<lparr>kq_q := map_option jsTrim (kq_q raw), kq_caseType := map_option jsTrim (kq_caseType raw)\<rparr>))"

definition searchedCase :: "case_platform \<Rightarrow> case_db \<Rightarrow> string \<Rightarrow> legal_case \<Rightarrow> bool" where
  "searchedCase pf s q k =
    (let has = (\<lambda>x. case x of None \<Rightarrow> False | Some t \<Rightarrow> kp_contains pf q t)
     in kp_contains pf q (lc_internalFileNumber k) \<or> kp_contains pf q (lc_title k) \<or> kp_contains pf q (lc_caseType k) \<or>
        has (lc_courtName k) \<or> has (lc_externalCaseNumber k) \<or> has (map_option ct_fullName (caseClient s k)) \<or>
        (case caseClient s k of None \<Rightarrow> False | Some c \<Rightarrow> kp_containsPoints pf q (ct_phone c)) \<or>
        has (map_of (kd_userNames s) (lc_assignedLawyerId k)))"

definition equalsFilter :: "string option \<Rightarrow> string \<Rightarrow> bool" where
  "equalsFilter f x = (case nonEmpty f of None \<Rightarrow> True | Some y \<Rightarrow> x = y)"

definition caseListWhere :: "case_platform \<Rightarrow> principal \<Rightarrow> case_query \<Rightarrow> case_db \<Rightarrow> (legal_case \<Rightarrow> bool) api" where
  "caseListWhere pf actor f s =
    andThen (caseScopeWhereForPrincipal actor) (\<lambda>scope.
    let lawyer = (if hasPermission actor ''case.read.any'' then kq_assignedLawyerId f else None)
    in Inr (\<lambda>k. scope k \<and> equalsFilter (kq_status f) (lc_status k) \<and> equalsFilter (kq_priority f) (lc_priority k) \<and>
         equalsFilter (kq_caseType f) (lc_caseType k) \<and> equalsFilter lawyer (lc_assignedLawyerId k) \<and>
         equalsFilter (kq_clientId f) (lc_clientId k) \<and>
         (case nonEmpty (map_option jsTrim (kq_q f)) of None \<Rightarrow> True | Some q \<Rightarrow> searchedCase pf s q k)))"

record case_page =
  kg_items :: "legal_case list"
  kg_total :: nat
  kg_pagination :: pagination

definition listAdminCases :: "case_platform \<Rightarrow> principal \<Rightarrow> case_query \<Rightarrow> case_db \<Rightarrow> case_page api" where
  "listAdminCases pf actor query s =
    andThen (parseWithSchema (adminCaseListQuerySchema (kp_outcome pf)) query ''Case list query is invalid.'') (\<lambda>f.
    andThen (caseListWhere pf actor f s) (\<lambda>found.
    let p = toPagination (Some (kq_page f)) (Some (kq_pageSize f)); rows = filter found (casesOf s)
    in Inr \<lparr>kg_items = take (nat (pg_take p)) (drop (nat (pg_skip p))
              (kp_order pf (kq_sortBy f) (kq_sortDirection f) rows)),
            kg_total = length rows, kg_pagination = p\<rparr>))"

text \<open>The lawyers a case can be given to, and the kinds of cases; where the code sorts them by name, they keep the order of the table.\<close>

definition listAssignableCaseLawyers :: "case_db \<Rightarrow> string list" where
  "listAssignableCaseLawyers s =
    map sm_id (filter (\<lambda>u. sm_active u \<and> \<not> sm_deleted u \<and> sm_roleName u = ROLE_lawyer \<and> sm_roleActive u)
      (of_staff (bk_office (kd_desk s))))"

definition getAdminCaseFilterOptions :: "principal \<Rightarrow> case_db \<Rightarrow> (string list \<times> string list) api" where
  "getAdminCaseFilterOptions actor s =
    andThen (caseScopeWhereForPrincipal actor) (\<lambda>scope.
    Inr (remdups (map lc_caseType (filter (\<lambda>k. scope k \<and> lc_caseType k \<noteq> []) (casesOf s))),
         if hasPermission actor ''case.read.any'' then listAssignableCaseLawyers s else []))"

definition listCalendarCaseOptions :: "principal \<Rightarrow> case_db \<Rightarrow> legal_case list api" where
  "listCalendarCaseOptions actor s =
    andThen (caseScopeWhereForPrincipal actor) (\<lambda>scope.
    Inr (take 80 (sort_key (\<lambda>k. - lc_updatedAt k)
      (filter (\<lambda>k. scope k \<and> lc_status k \<in> set openCaseStatusValues) (casesOf s)))))"

record case_detail =
  kx_case :: legal_case
  kx_parties :: "case_party list"
  kx_sessions :: "case_session list"
  kx_appointments :: "appointment list"
  kx_canUpdate :: bool
  kx_canManageSessions :: bool

definition getAdminCaseDetail :: "case_platform \<Rightarrow> principal \<Rightarrow> string \<Rightarrow> case_db \<Rightarrow> case_detail api" where
  "getAdminCaseDetail pf actor caseIdText s =
    andThen (uuidIn pf caseIdText ''Case id is invalid.'') (\<lambda>caseId.
    andThen (findCaseForAction actor caseId s) (\<lambda>k.
    Inr \<lparr>kx_case = k, kx_parties = filter (\<lambda>p. pa_caseId p = caseId) (kd_parties s),
         kx_sessions = sort_key (\<lambda>x. - cs_sessionDate x) (filter (\<lambda>x. cs_caseId x = caseId) (kd_sessions s)),
         kx_appointments = sort_key ap_startsAt (filter (\<lambda>a. ap_caseId a = Some caseId) (appointmentsOf s)),
         kx_canUpdate = canUpdateAdminCase actor k, kx_canManageSessions = canManageCaseSessions actor k\<rparr>))"


section \<open>Changing a case\<close>

record status_input =
  su_status :: string
  su_reason :: "string option"
  su_confirmStatusChange :: bool

definition caseStatusUpdateSchema :: "outcome_platform \<Rightarrow> status_input \<Rightarrow> error_detail list + status_input" where
  "caseStatusUpdateSchema pf raw =
    (let issues = schemaIssue pf ''status'' (su_status raw \<in> set caseStatuses) @
           schemaIssue pf ''reason'' (textAtMost 500 (su_reason raw)) @
           schemaIssue pf ''confirmStatusChange'' (su_confirmStatusChange raw)
     in if issues \<noteq> [] then Inl issues else Inr (raw\<lparr>su_reason := map_option jsTrim (su_reason raw)\<rparr>))"

definition caseEvent :: "principal \<Rightarrow> string \<Rightarrow> string \<Rightarrow> string \<Rightarrow> legal_case \<Rightarrow> metadata \<Rightarrow> audit_event" where
  "caseEvent actor action resourceType resourceId k m =
    (auditEvent (Some (pr_id actor)) action resourceType (Some resourceId) m)
    \<lparr>ae_clientId := Some (lc_clientId k), ae_caseId := Some (lc_id k), ae_lawyerId := Some (lc_assignedLawyerId k)\<rparr>"

definition updateAdminCaseStatus ::
  "case_platform \<Rightarrow> int \<Rightarrow> principal \<Rightarrow> string \<Rightarrow> status_input \<Rightarrow> case_db \<Rightarrow> (legal_case \<times> case_db) api" where
  "updateAdminCaseStatus pf now actor caseIdText raw s =
    andThen (uuidIn pf caseIdText ''Case id is invalid.'') (\<lambda>caseId.
    andThen (parseWithSchema (caseStatusUpdateSchema (kp_outcome pf)) raw ''Case status payload is invalid.'') (\<lambda>body.
    andThen (assertCaseUpdateAllowed actor caseId s) (\<lambda>existing.
    andThen (require (lc_status existing \<noteq> su_status body) (apiError 409 CONFLICT ''Case already has this status.'')) (\<lambda>_.
    let f = (\<lambda>k. k\<lparr>lc_status := su_status body, lc_updatedAt := now\<rparr>)
    in Inr (f existing, auditCaseBestEffort pf (caseEvent actor ''case.status_update'' ''LegalCase'' caseId (f existing)
           [(''previousStatus'', MText (lc_status existing)), (''status'', MText (su_status body)),
            (''reason'', optText (nonEmpty (su_reason body)))])
         (putCases (modify lc_id caseId f (casesOf s)) s))))))"

record session_input =
  sn_courtName :: "string option"
  sn_sessionDate :: string
  sn_decision :: "string option"
  sn_nextAction :: "string option"
  sn_nextSessionDate :: "string option"

definition caseSessionCreateSchema :: "outcome_platform \<Rightarrow> session_input \<Rightarrow> error_detail list + session_input" where
  "caseSessionCreateSchema pf raw =
    (let issues = schemaIssue pf ''courtName'' (textAtMost 160 (sn_courtName raw)) @
           schemaIssue pf ''sessionDate'' (jsTrim (sn_sessionDate raw) \<noteq> [] \<and> length (jsTrim (sn_sessionDate raw)) \<le> 40) @
           schemaIssue pf ''decision'' (textAtMost 1200 (sn_decision raw)) @
           schemaIssue pf ''nextAction'' (textAtMost 1200 (sn_nextAction raw)) @
           schemaIssue pf ''nextSessionDate'' (textAtMost 40 (sn_nextSessionDate raw))
     in if issues \<noteq> [] then Inl issues
        else Inr \<lparr>sn_courtName = map_option jsTrim (sn_courtName raw), sn_sessionDate = jsTrim (sn_sessionDate raw),
                  sn_decision = map_option jsTrim (sn_decision raw), sn_nextAction = map_option jsTrim (sn_nextAction raw),
                  sn_nextSessionDate = map_option jsTrim (sn_nextSessionDate raw)\<rparr>)"

definition optionalDate :: "case_platform \<Rightarrow> string option \<Rightarrow> string \<Rightarrow> int option api" where
  "optionalDate pf x fieldName =
    (case nonEmpty x of None \<Rightarrow> Inr None | Some t \<Rightarrow> andThen (dateFromActionInput pf t fieldName) (\<lambda>d. Inr (Some d)))"

definition createAdminCaseSession ::
  "case_platform \<Rightarrow> int \<Rightarrow> string \<Rightarrow> principal \<Rightarrow> string \<Rightarrow> session_input \<Rightarrow> case_db \<Rightarrow> (case_session \<times> case_db) api" where
  "createAdminCaseSession pf now newId actor caseIdText raw s =
    andThen (uuidIn pf caseIdText ''Case id is invalid.'') (\<lambda>caseId.
    andThen (parseWithSchema (caseSessionCreateSchema (kp_outcome pf)) raw ''Case session payload is invalid.'') (\<lambda>body.
    andThen (assertSessionManageAllowed actor caseId s) (\<lambda>k.
    andThen (dateFromActionInput pf (sn_sessionDate body) ''sessionDate'') (\<lambda>sessionDate.
    andThen (optionalDate pf (sn_nextSessionDate body) ''nextSessionDate'') (\<lambda>nextSessionDate.
    let row = \<lparr>cs_id = newId, cs_caseId = lc_id k, cs_appointmentId = None,
          cs_courtName = (case nonEmpty (sn_courtName body) of None \<Rightarrow> nonEmpty (lc_courtName k) | Some c \<Rightarrow> Some c),
          cs_sessionDate = sessionDate, cs_decision = nonEmpty (sn_decision body),
          cs_nextAction = nonEmpty (sn_nextAction body), cs_nextSessionDate = nextSessionDate,
          cs_createdById = pr_id actor\<rparr>
    in andThen (insertRow ''case_sessions'' cs_id row (kd_sessions s)) (\<lambda>rows.
       let s1 = s\<lparr>kd_sessions := rows\<rparr>;
           s2 = (case nextSessionDate of None \<Rightarrow> s1
             | Some d \<Rightarrow> putCases (modify lc_id (lc_id k)
                 (\<lambda>x. x\<lparr>lc_nextSessionAt := Some d, lc_updatedAt := now\<rparr>) (casesOf s1)) s1)
       in Inr (row, auditCaseBestEffort pf (caseEvent actor ''case.session_create'' ''CaseSession'' newId k
            [(''caseId'', MText (lc_id k)), (''sessionDate'', MText (isoText sessionDate)),
             (''nextSessionDate'', optText (map_option isoText nextSessionDate))]) s2)))))))"


section \<open>The calendar\<close>

definition caseOfAppointment :: "case_db \<Rightarrow> appointment \<Rightarrow> legal_case option" where
  "caseOfAppointment s a = Option.bind (ap_caseId a) (\<lambda>i. fetch lc_id i (casesOf s))"

definition requestOf :: "case_db \<Rightarrow> appointment \<Rightarrow> consultation option" where
  "requestOf s a = Option.bind (ap_consultationRequestId a) (\<lambda>i. fetch cr_id i (of_consultations (bk_office (kd_desk s))))"

definition effectiveConsultationOutcome :: "appointment \<Rightarrow> consultation option \<Rightarrow> outcome_status option" where
  "effectiveConsultationOutcome a request =
    (if ap_type a \<noteq> AT_CONSULTATION \<or> ap_caseId a \<noteq> None then None else map_option cr_outcomeStatus request)"

definition canUseGenericCalendarReschedule :: "appointment \<Rightarrow> consultation option \<Rightarrow> int \<Rightarrow> bool" where
  "canUseGenericCalendarReschedule a request now =
    (case effectiveConsultationOutcome a request of
       None \<Rightarrow> True | Some outcome \<Rightarrow> outcome = O_PENDING \<and> ap_endsAt a > now)"

definition appointmentScopeWhereForPrincipal :: "principal \<Rightarrow> case_db \<Rightarrow> (appointment \<Rightarrow> bool) api" where
  "appointmentScopeWhereForPrincipal actor s =
    (if hasPermission actor ''appointment.manage.any'' then Inr (\<lambda>_. True)
     else if hasPermission actor ''appointment.read.assigned'' \<or> hasPermission actor ''case.read.assigned''
     then Inr (\<lambda>a. ap_lawyerId a = Some (pr_id actor) \<or>
       (case caseOfAppointment s a of None \<Rightarrow> False
        | Some k \<Rightarrow> lc_assignedLawyerId k = pr_id actor \<and> lc_deletedAt k = None))
     else Inl (apiError 403 PERMISSION_DENIED ''Appointment calendar permission is required.''))"

record calendar_query =
  cy_from :: "string option"
  cy_to :: "string option"
  cy_anchor :: "string option"
  cy_status :: "appointment_status option"
  cy_mode :: "appointment_mode option"
  cy_lawyerId :: "string option"
  cy_clientId :: "string option"
  cy_caseId :: "string option"
  cy_page :: int
  cy_pageSize :: int

definition adminCalendarQuerySchema :: "outcome_platform \<Rightarrow> calendar_query \<Rightarrow> error_detail list + calendar_query" where
  "adminCalendarQuerySchema pf raw =
    (let issues = schemaIssue pf ''from'' (textAtMost 40 (cy_from raw)) @ schemaIssue pf ''to'' (textAtMost 40 (cy_to raw)) @
           schemaIssue pf ''anchor'' (textAtMost 40 (cy_anchor raw)) @
           schemaIssue pf ''status'' (cy_status raw \<noteq> Some A_RESERVED) @
           schemaIssue pf ''lawyerId'' (orEmpty (ou_isUuid pf) (cy_lawyerId raw)) @
           schemaIssue pf ''clientId'' (orEmpty (ou_isUuid pf) (cy_clientId raw)) @
           schemaIssue pf ''caseId'' (orEmpty (ou_isUuid pf) (cy_caseId raw)) @
           schemaIssue pf ''page'' (1 \<le> cy_page raw) @
           schemaIssue pf ''pageSize'' (1 \<le> cy_pageSize raw \<and> cy_pageSize raw \<le> 100)
     in if issues \<noteq> [] then Inl issues
        else Inr (raw\<lparr>cy_from := map_option jsTrim (cy_from raw), cy_to := map_option jsTrim (cy_to raw)\<rparr>))"

definition cairoCalendarBoundary :: "slot_platform \<Rightarrow> string option \<Rightarrow> string \<Rightarrow> int api" where
  "cairoCalendarBoundary sp date fieldName =
    (case Option.bind (nonEmpty date) (\<lambda>d. cairoLocalDateTimeToIso sp (d @ ''T00:00'')) of
       None \<Rightarrow> Inl (apiError 400 VALIDATION_ERROR (fieldName @ '' is invalid.'')) | Some t \<Rightarrow> Inr t)"

definition calendarWindow :: "slot_platform \<Rightarrow> calendar_query \<Rightarrow> int \<Rightarrow> (int \<times> int) api" where
  "calendarWindow sp f now =
    (let fromInput = (case nonEmpty (cy_from f) of Some d \<Rightarrow> d | None \<Rightarrow> formatCairoDateInput sp now);
         toInput = (case nonEmpty (cy_to f) of Some d \<Rightarrow> Some d | None \<Rightarrow> addCairoDateInputDays fromInput 30)
     in andThen (cairoCalendarBoundary sp (Some fromInput) ''from'') (\<lambda>a.
        andThen (cairoCalendarBoundary sp toInput ''to'') (\<lambda>b.
        andThen (require (a < b) (apiError 400 VALIDATION_ERROR ''Calendar end date must be after start date.''))
          (\<lambda>_. Inr (a, b)))))"

definition calendarWhere ::
  "case_platform \<Rightarrow> int \<Rightarrow> principal \<Rightarrow> calendar_query \<Rightarrow> case_db \<Rightarrow> (appointment \<Rightarrow> bool) api" where
  "calendarWhere pf now actor f s =
    andThen (appointmentScopeWhereForPrincipal actor s) (\<lambda>scope.
    andThen (calendarWindow (kp_clock pf) f now) (\<lambda>(a, b).
    let lawyer = (if hasPermission actor ''appointment.manage.any'' then nonEmpty (cy_lawyerId f) else None);
        same = (\<lambda>f x. case f of None \<Rightarrow> True | Some y \<Rightarrow> x = Some y)
    in Inr (\<lambda>r. scope r \<and> a \<le> ap_startsAt r \<and> ap_startsAt r < b \<and>
         (case cy_status f of None \<Rightarrow> True | Some st \<Rightarrow> ap_status r = st) \<and>
         (case cy_mode f of None \<Rightarrow> True | Some m \<Rightarrow> ap_mode r = m) \<and> same lawyer (ap_lawyerId r) \<and>
         equalsFilter (cy_clientId f) (ap_clientId r) \<and> same (nonEmpty (cy_caseId f)) (ap_caseId r))))"

text \<open>The rows by beginning, ties by id.\<close>

fun putEarly :: "appointment \<Rightarrow> appointment list \<Rightarrow> appointment list" where
  "putEarly a [] = [a]"
| "putEarly a (b # bs) = (if startsEarlier b a then b # putEarly a bs else a # b # bs)"

record calendar_page =
  cz_items :: "(appointment \<times> outcome_status option) list"
  cz_window :: "int \<times> int"
  cz_total :: nat
  cz_page :: int

definition calendarPage :: "calendar_query \<Rightarrow> int \<times> int \<Rightarrow> appointment list \<Rightarrow> case_db \<Rightarrow> calendar_page" where
  "calendarPage f window rows s =
    (let total = int (length rows); pages = max 1 ((total + cy_pageSize f - 1) div cy_pageSize f);
         p = toPagination (Some (min (cy_page f) pages)) (Some (cy_pageSize f))
     in \<lparr>cz_items = map (\<lambda>a. (a, effectiveConsultationOutcome a (requestOf s a)))
           (take (nat (pg_take p)) (drop (nat (pg_skip p)) (foldr putEarly rows []))),
         cz_window = window, cz_total = length rows, cz_page = pg_page p\<rparr>)"

definition listAdminCalendarAppointments ::
  "case_platform \<Rightarrow> int \<Rightarrow> principal \<Rightarrow> calendar_query \<Rightarrow> case_db \<Rightarrow> calendar_page api" where
  "listAdminCalendarAppointments pf now actor query s =
    andThen (parseWithSchema (adminCalendarQuerySchema (kp_outcome pf)) query ''Calendar query is invalid.'') (\<lambda>f.
    andThen (calendarWhere pf now actor f s) (\<lambda>found.
    andThen (calendarWindow (kp_clock pf) f now) (\<lambda>window.
    Inr (calendarPage f window (filter found (appointmentsOf s)) s))))"

record calendar_input =
  ci_caseId :: string
  ci_title :: string
  ci_type :: "appointment_type option"
  ci_mode :: "appointment_mode option"
  ci_location :: "string option"
  ci_startsAt :: string
  ci_durationMinutes :: "int option"
  ci_notes :: "string option"

definition durationOr60 :: "int option \<Rightarrow> int" where
  "durationOr60 x = (case x of None \<Rightarrow> 60 | Some n \<Rightarrow> n)"

definition calendarAppointmentCreateSchema ::
  "outcome_platform \<Rightarrow> calendar_input \<Rightarrow> error_detail list + calendar_input" where
  "calendarAppointmentCreateSchema pf raw =
    (let title = jsTrim (ci_title raw); starts = jsTrim (ci_startsAt raw);
         issues = schemaIssue pf ''caseId'' (ou_isUuid pf (ci_caseId raw)) @
           schemaIssue pf ''title'' (3 \<le> length title \<and> length title \<le> 180) @
           schemaIssue pf ''location'' (textAtMost 180 (ci_location raw)) @
           schemaIssue pf ''startsAt'' (starts \<noteq> [] \<and> length starts \<le> 40) @
           schemaIssue pf ''durationMinutes''
             (15 \<le> durationOr60 (ci_durationMinutes raw) \<and> durationOr60 (ci_durationMinutes raw) \<le> 480) @
           schemaIssue pf ''notes'' (textAtMost 1200 (ci_notes raw))
     in if issues \<noteq> [] then Inl issues
        else Inr (raw\<lparr>ci_title := title, ci_startsAt := starts, ci_location := map_option jsTrim (ci_location raw),
                      ci_notes := map_option jsTrim (ci_notes raw)\<rparr>))"

definition calendarRow :: "string \<Rightarrow> legal_case \<Rightarrow> calendar_input \<Rightarrow> int \<Rightarrow> int \<Rightarrow> appointment" where
  "calendarRow newId k body startsAt endsAt =
    \<lparr>ap_id = newId, ap_clientId = lc_clientId k, ap_lawyerId = Some (lc_assignedLawyerId k),
     ap_consultationRequestId = None, ap_caseId = Some (lc_id k), ap_title = ci_title body,
     ap_type = (case ci_type body of None \<Rightarrow> AT_COURT_SESSION | Some t \<Rightarrow> t),
     ap_mode = (case ci_mode body of None \<Rightarrow> M_COURT | Some m \<Rightarrow> m), ap_location = nonEmpty (ci_location body),
     ap_startsAt = startsAt, ap_endsAt = endsAt, ap_status = A_SCHEDULED, ap_notes = nonEmpty (ci_notes body)\<rparr>"

definition appointmentTypeText :: "appointment_type \<Rightarrow> string" where
  "appointmentTypeText t = (case t of AT_CONSULTATION \<Rightarrow> ''CONSULTATION'' | AT_COURT_SESSION \<Rightarrow> ''COURT_SESSION''
     | AT_INTERNAL_MEETING \<Rightarrow> ''INTERNAL_MEETING'' | AT_CALL \<Rightarrow> ''CALL'' | AT_ONLINE_MEETING \<Rightarrow> ''ONLINE_MEETING'')"

definition calendarCreateOperation ::
  "string \<Rightarrow> principal \<Rightarrow> calendar_input \<Rightarrow> int \<Rightarrow> int \<Rightarrow> case_db \<Rightarrow> (appointment \<times> case_db) api" where
  "calendarCreateOperation newId actor body startsAt endsAt s =
    andThen (assertSessionManageAllowed actor (ci_caseId body) s) (\<lambda>k.
    andThen (assertNoAppointmentConflict (Some startsAt) (Some endsAt) (LawyerScope (lc_assignedLawyerId k)) None
      (appointmentsOf s)) (\<lambda>_.
    let row = calendarRow newId k body startsAt endsAt
    in andThen (insertRow ''appointments'' ap_id row (appointmentsOf s)) (\<lambda>rows.
       Inr (row, auditCase ((caseEvent actor ''calendar.appointment_create'' ''Appointment'' newId k
            [(''caseId'', MText (lc_id k)), (''startsAt'', MText (isoText startsAt)),
             (''mode'', MText (modeName (ap_mode row))), (''type'', MText (appointmentTypeText (ap_type row)))])
          \<lparr>ae_appointmentId := Some newId\<rparr>) (putAppointments rows s)))))"

definition createAdminCalendarAppointment ::
  "case_platform \<Rightarrow> (nat \<Rightarrow> bool) \<Rightarrow> string \<Rightarrow> principal \<Rightarrow> calendar_input \<Rightarrow> case_db \<Rightarrow> appointment api \<times> case_db" where
  "createAdminCalendarAppointment pf aborts newId actor raw s =
    (case andThen (parseWithSchema (calendarAppointmentCreateSchema (kp_outcome pf)) raw
            ''Calendar appointment payload is invalid.'') (\<lambda>body.
          andThen (dateFromActionInput pf (ci_startsAt body) ''startsAt'') (\<lambda>t. Inr (body, t))) of
       Inl e \<Rightarrow> (Inl e, s)
     | Inr (body, t) \<Rightarrow>
       runAppointmentConflictTransaction DatabaseCreateBoundedRetry aborts None
         (calendarCreateOperation newId actor body t (appointmentEndAt t (durationOr60 (ci_durationMinutes body)))) s)"

record reschedule_input =
  rs_startsAt :: string
  rs_durationMinutes :: "int option"
  rs_mode :: "appointment_mode option"
  rs_location :: "string option"
  rs_reason :: "string option"

definition appointmentRescheduleSchema :: "outcome_platform \<Rightarrow> reschedule_input \<Rightarrow> error_detail list + reschedule_input" where
  "appointmentRescheduleSchema pf raw =
    (let starts = jsTrim (rs_startsAt raw);
         issues = schemaIssue pf ''startsAt'' (starts \<noteq> [] \<and> length starts \<le> 40) @
           schemaIssue pf ''durationMinutes''
             (15 \<le> durationOr60 (rs_durationMinutes raw) \<and> durationOr60 (rs_durationMinutes raw) \<le> 480) @
           schemaIssue pf ''location'' (textAtMost 180 (rs_location raw)) @
           schemaIssue pf ''reason'' (textAtMost 500 (rs_reason raw))
     in if issues \<noteq> [] then Inl issues
        else Inr (raw\<lparr>rs_startsAt := starts, rs_location := map_option jsTrim (rs_location raw),
                      rs_reason := map_option jsTrim (rs_reason raw)\<rparr>))"

definition rescheduledRow :: "reschedule_input \<Rightarrow> int \<Rightarrow> int \<Rightarrow> appointment \<Rightarrow> appointment" where
  "rescheduledRow body startsAt endsAt a =
    a\<lparr>ap_startsAt := startsAt, ap_endsAt := endsAt,
      ap_mode := (case rs_mode body of None \<Rightarrow> ap_mode a | Some m \<Rightarrow> m),
      ap_location := (case nonEmpty (rs_location body) of None \<Rightarrow> ap_location a | Some l \<Rightarrow> Some l),
      ap_status := A_RESCHEDULED\<rparr>"

text \<open>Why the calendar may not move a consultation.\<close>

definition calendarRefusal :: "appointment \<Rightarrow> consultation option \<Rightarrow> int \<Rightarrow> api_error" where
  "calendarRefusal a request now =
    (case request of
       None \<Rightarrow> consultationStateChangedError
     | Some c \<Rightarrow>
       if cr_outcomeStatus c = O_MISSED \<or>
          (ap_type a = AT_CONSULTATION \<and> ap_caseId a = None \<and> cr_outcomeStatus c = O_PENDING \<and> ap_endsAt a \<le> now \<and>
           \<not> present (cr_assignedLawyerId c) \<and> cr_secretaryReviewedAt c = None)
       then consultationReopenRequiredError else consultationStateChangedError)"

text \<open>The id of a lawyer is never the empty text.\<close>

definition rescheduleScope :: "case_db \<Rightarrow> appointment \<Rightarrow> conflict_scope" where
  "rescheduleScope s a =
    (case (case ap_lawyerId a of Some l \<Rightarrow> Some l
        | None \<Rightarrow> map_option lc_assignedLawyerId (caseOfAppointment s a)) of
       Some l \<Rightarrow> LawyerScope l | None \<Rightarrow> OfficeConsultation)"

definition rescheduleOperation ::
  "int \<Rightarrow> principal \<Rightarrow> string \<Rightarrow> reschedule_input \<Rightarrow> int \<Rightarrow> int \<Rightarrow> case_db \<Rightarrow> (appointment \<times> case_db) api" where
  "rescheduleOperation now actor i body startsAt endsAt s =
    (case fetch ap_id i (appointmentsOf s) of
       None \<Rightarrow> Inl (apiError 404 NOT_FOUND ''Appointment was not found.'')
     | Some a \<Rightarrow>
       andThen (require (canManageCalendarAppointment actor (caseOfAppointment s a))
         (apiError 403 PERMISSION_DENIED ''Appointment reschedule permission is required.'')) (\<lambda>_.
       andThen (require (ap_status a \<notin> {A_CANCELLED, A_COMPLETED, A_NO_SHOW})
         (apiError 409 CONFLICT ''Closed appointments cannot be rescheduled.'')) (\<lambda>_.
       andThen (require (canUseGenericCalendarReschedule a (requestOf s a) now) (calendarRefusal a (requestOf s a) now)) (\<lambda>_.
       andThen (assertNoAppointmentConflict (Some startsAt) (Some endsAt) (rescheduleScope s a) (Some i)
         (appointmentsOf s)) (\<lambda>_.
       let row = rescheduledRow body startsAt endsAt a
       in Inr (row, auditCase ((auditEvent (Some (pr_id actor)) ''calendar.appointment_reschedule'' ''Appointment'' (Some i)
             [(''caseId'', optText (ap_caseId a)), (''previousStartsAt'', MText (isoText (ap_startsAt a))),
              (''startsAt'', MText (isoText startsAt)), (''reason'', optText (nonEmpty (rs_reason body)))])
            \<lparr>ae_clientId := Some (ap_clientId a), ae_caseId := ap_caseId a, ae_lawyerId := ap_lawyerId a,
             ae_appointmentId := Some i\<rparr>)
          (putAppointments (modify ap_id i (rescheduledRow body startsAt endsAt) (appointmentsOf s)) s)))))))"

definition rescheduleAdminCalendarAppointment ::
  "case_platform \<Rightarrow> (nat \<Rightarrow> bool) \<Rightarrow> int \<Rightarrow> principal \<Rightarrow> string \<Rightarrow> reschedule_input \<Rightarrow> case_db \<Rightarrow> appointment api \<times> case_db" where
  "rescheduleAdminCalendarAppointment pf aborts now actor appointmentIdText raw s =
    (case andThen (uuidIn pf appointmentIdText ''Appointment id is invalid.'') (\<lambda>i.
          andThen (parseWithSchema (appointmentRescheduleSchema (kp_outcome pf)) raw
            ''Appointment reschedule payload is invalid.'') (\<lambda>body.
          andThen (dateFromActionInput pf (rs_startsAt body) ''startsAt'') (\<lambda>t. Inr (i, body, t)))) of
       Inl e \<Rightarrow> (Inl e, s)
     | Inr (i, body, t) \<Rightarrow>
       runAppointmentConflictTransaction ExistingUpdateSingleAttempt aborts None
         (rescheduleOperation now actor i body t (appointmentEndAt t (durationOr60 (rs_durationMinutes body)))) s)"

end
