(* ===== verification/ManualCases.thy ===== *)
theory ManualCases
  imports CaseWork
begin

text \<open>
  Cases the staff opens by hand: \<open>src/src/server/admin/manual-case-service.ts\<close>. The token of a request is
  the id of the case it opens, and the audit trail keeps the digest of its payload, so a repeated request
  is answered with the case it opened. \<open>UniqueTaken\<close> is the unique key the database refuses; the digest
  survives the redaction of the audit trail (\<open>AuditStore\<close>).
\<close>

section \<open>Bodies\<close>

record party_input =
  py_name :: string
  py_partyType :: string
  py_notes :: "string option"

record manual_input =
  mi_requestToken :: string
  mi_clientId :: string
  mi_assignedLawyerId :: string
  mi_title :: string
  mi_caseType :: string
  mi_courtName :: "string option"
  mi_externalCaseNumber :: "string option"
  mi_priority :: "string option"
  mi_summary :: "string option"
  mi_parties :: "party_input list option"

text \<open>A text that is trimmed, and null when nothing is left of it.\<close>

definition normalizedNullableText :: "string option \<Rightarrow> string option" where
  "normalizedNullableText x = nonEmpty (map_option jsTrim x)"

definition nullableTrimmedText :: "nat \<Rightarrow> string option \<Rightarrow> bool" where
  "nullableTrimmedText n x = (case normalizedNullableText x of None \<Rightarrow> True | Some t \<Rightarrow> length t \<le> n)"

definition trimmedBetween :: "nat \<Rightarrow> nat \<Rightarrow> string \<Rightarrow> bool" where
  "trimmedBetween lo hi x = (lo \<le> length (jsTrim x) \<and> length (jsTrim x) \<le> hi)"

definition partyTypes :: "string list" where
  "partyTypes = [''CLIENT'', ''OPPOSING_PARTY'', ''WITNESS'', ''EXPERT'', ''OTHER'']"

definition manualCasePartySchema :: "party_input \<Rightarrow> bool" where
  "manualCasePartySchema p =
    (trimmedBetween 1 200 (py_name p) \<and> py_partyType p \<in> set partyTypes \<and> nullableTrimmedText 1000 (py_notes p))"

record manual_body =
  mb_requestToken :: string
  mb_clientId :: string
  mb_assignedLawyerId :: string
  mb_title :: string
  mb_caseType :: string
  mb_courtName :: "string option"
  mb_externalCaseNumber :: "string option"
  mb_priority :: string
  mb_summary :: "string option"
  mb_parties :: "party_input list"

definition manualCaseCreateSchema :: "outcome_platform \<Rightarrow> manual_input \<Rightarrow> error_detail list + manual_body" where
  "manualCaseCreateSchema pf raw =
    (let priority = (case mi_priority raw of None \<Rightarrow> ''NORMAL'' | Some p \<Rightarrow> p);
         parties = (case mi_parties raw of None \<Rightarrow> [] | Some ps \<Rightarrow> ps);
         issues = schemaIssue pf ''requestToken'' (ou_isUuid pf (mi_requestToken raw)) @
           schemaIssue pf ''clientId'' (ou_isUuid pf (mi_clientId raw)) @
           schemaIssue pf ''assignedLawyerId'' (ou_isUuid pf (mi_assignedLawyerId raw)) @
           schemaIssue pf ''title'' (trimmedBetween 3 180 (mi_title raw)) @
           schemaIssue pf ''caseType'' (trimmedBetween 2 120 (mi_caseType raw)) @
           schemaIssue pf ''courtName'' (nullableTrimmedText 240 (mi_courtName raw)) @
           schemaIssue pf ''externalCaseNumber'' (nullableTrimmedText 240 (mi_externalCaseNumber raw)) @
           schemaIssue pf ''priority'' (priority \<in> set casePriorities) @
           schemaIssue pf ''summary'' (nullableTrimmedText 5000 (mi_summary raw)) @
           schemaIssue pf ''parties'' (length parties \<le> 20 \<and> list_all manualCasePartySchema parties)
     in if issues \<noteq> [] then Inl issues
        else Inr \<lparr>mb_requestToken = mi_requestToken raw, mb_clientId = mi_clientId raw,
          mb_assignedLawyerId = mi_assignedLawyerId raw, mb_title = jsTrim (mi_title raw),
          mb_caseType = jsTrim (mi_caseType raw), mb_courtName = normalizedNullableText (mi_courtName raw),
          mb_externalCaseNumber = normalizedNullableText (mi_externalCaseNumber raw), mb_priority = priority,
          mb_summary = normalizedNullableText (mi_summary raw),
          mb_parties = map (\<lambda>p. p\<lparr>py_name := jsTrim (py_name p), py_notes := normalizedNullableText (py_notes p)\<rparr>)
            parties\<rparr>)"

text \<open>An undefined column is absent, a null one is \<open>Some None\<close>.\<close>

record core_update =
  mu_title :: "string option"
  mu_caseType :: "string option"
  mu_courtName :: "string option option"
  mu_externalCaseNumber :: "string option option"
  mu_priority :: "string option"
  mu_summary :: "string option option"
  mu_assignedLawyerId :: "string option"
  mu_updatedAt :: string

definition manualCaseCoreUpdateSchema :: "outcome_platform \<Rightarrow> core_update \<Rightarrow> error_detail list + core_update \<times> int" where
  "manualCaseCoreUpdateSchema pf raw =
    (let version = ou_datetime pf (mu_updatedAt raw);
         absentOr = (\<lambda>ok x. case x of None \<Rightarrow> True | Some t \<Rightarrow> ok t);
         issues = schemaIssue pf ''title'' (absentOr (trimmedBetween 3 180) (mu_title raw)) @
           schemaIssue pf ''caseType'' (absentOr (trimmedBetween 2 120) (mu_caseType raw)) @
           schemaIssue pf ''courtName'' (case mu_courtName raw of None \<Rightarrow> True | Some x \<Rightarrow> nullableTrimmedText 240 x) @
           schemaIssue pf ''externalCaseNumber''
             (case mu_externalCaseNumber raw of None \<Rightarrow> True | Some x \<Rightarrow> nullableTrimmedText 240 x) @
           schemaIssue pf ''priority'' (absentOr (\<lambda>x. x \<in> set casePriorities) (mu_priority raw)) @
           schemaIssue pf ''summary'' (case mu_summary raw of None \<Rightarrow> True | Some x \<Rightarrow> nullableTrimmedText 5000 x) @
           schemaIssue pf ''assignedLawyerId'' (absentOr (ou_isUuid pf) (mu_assignedLawyerId raw)) @
           schemaIssue pf ''updatedAt'' (version \<noteq> None) @
           schemaIssue pf [] (mu_title raw \<noteq> None \<or> mu_caseType raw \<noteq> None \<or> mu_courtName raw \<noteq> None \<or>
             mu_externalCaseNumber raw \<noteq> None \<or> mu_priority raw \<noteq> None \<or> mu_summary raw \<noteq> None \<or>
             mu_assignedLawyerId raw \<noteq> None)
     in if issues \<noteq> [] then Inl issues
        else Inr (raw\<lparr>mu_title := map_option jsTrim (mu_title raw), mu_caseType := map_option jsTrim (mu_caseType raw),
          mu_courtName := map_option normalizedNullableText (mu_courtName raw),
          mu_externalCaseNumber := map_option normalizedNullableText (mu_externalCaseNumber raw),
          mu_summary := map_option normalizedNullableText (mu_summary raw)\<rparr>, the version))"

definition optJson :: "string option \<Rightarrow> json" where
  "optJson x = (case x of None \<Rightarrow> JNull | Some s \<Rightarrow> JStr s)"

definition normalizedCreatePayload :: "manual_body \<Rightarrow> json" where
  "normalizedCreatePayload body =
    JObj [(''requestToken'', JStr (mb_requestToken body)), (''clientId'', JStr (mb_clientId body)),
      (''assignedLawyerId'', JStr (mb_assignedLawyerId body)), (''title'', JStr (mb_title body)),
      (''caseType'', JStr (mb_caseType body)), (''courtName'', optJson (mb_courtName body)),
      (''externalCaseNumber'', optJson (mb_externalCaseNumber body)), (''priority'', JStr (mb_priority body)),
      (''summary'', optJson (mb_summary body)),
      (''parties'', JArr (map (\<lambda>p. JObj [(''name'', JStr (py_name p)), (''partyType'', JStr (py_partyType p)),
         (''notes'', optJson (py_notes p))]) (mb_parties body)))]"

definition manualCaseRequestHash :: "case_platform \<Rightarrow> manual_body \<Rightarrow> string" where
  "manualCaseRequestHash pf body = kp_sha256 pf (normalizedCreatePayload body)"


section \<open>Opening a case\<close>

definition canCreateManualCase :: "principal \<Rightarrow> bool" where
  "canCreateManualCase actor = hasPermission actor ''case.create.any''"

definition activeClient :: "string \<Rightarrow> case_db \<Rightarrow> unit api" where
  "activeClient clientId s =
    require (list_ex (\<lambda>c. ct_id c = clientId \<and> ct_status c = ''ACTIVE'' \<and> \<not> ct_deleted c) (bk_clients (kd_desk s)))
      (apiError 400 VALIDATION_ERROR ''An active existing client is required.'')"

definition eligibleLawyer :: "string \<Rightarrow> case_db \<Rightarrow> unit api" where
  "eligibleLawyer lawyerId s =
    require (list_ex (\<lambda>u. sm_id u = lawyerId \<and> sm_active u \<and> \<not> sm_deleted u \<and> sm_roleName u = ROLE_lawyer \<and> sm_roleActive u)
        (of_staff (bk_office (kd_desk s))))
      (apiError 400 VALIDATION_ERROR ''An active eligible lawyer is required.'')"

definition auditRequestHash :: "audit_event option \<Rightarrow> string option" where
  "auditRequestHash e =
    (case e of None \<Rightarrow> None
     | Some x \<Rightarrow> (case map_of (ae_metadata x) ''requestHash'' of Some (MText h) \<Rightarrow> Some h | _ \<Rightarrow> None))"

definition createEventOf :: "string \<Rightarrow> string \<Rightarrow> case_db \<Rightarrow> audit_event option" where
  "createEventOf actorId caseId s =
    find (\<lambda>e. ae_action e = ''case.manual_create'' \<and> ae_resourceType e = ''LegalCase'' \<and>
        ae_resourceId e = Some caseId \<and> ae_actorId e = Some actorId)
      (of_audit (bk_office (kd_desk s)))"

definition replayForExistingCase :: "string \<Rightarrow> string \<Rightarrow> string \<Rightarrow> case_db \<Rightarrow> legal_case option api" where
  "replayForExistingCase actorId caseId requestHash s =
    (case fetch lc_id caseId (casesOf s) of
       None \<Rightarrow> Inr None
     | Some k \<Rightarrow>
       if lc_deletedAt k = None \<and> auditRequestHash (createEventOf actorId caseId s) = Some requestHash
       then Inr (Some k)
       else Inl (apiError 409 CONFLICT ''The request token is already bound to another case request.''))"

datatype manual_throw = UniqueTaken | ManualApi api_error

definition ofManualApi :: "'a api \<Rightarrow> manual_throw + 'a" where
  "ofManualApi r = (case r of Inl e \<Rightarrow> Inl (ManualApi e) | Inr x \<Rightarrow> Inr x)"

definition manualCaseRow :: "case_platform \<Rightarrow> int \<Rightarrow> manual_body \<Rightarrow> legal_case" where
  "manualCaseRow pf now body =
    \<lparr>lc_id = mb_requestToken body, lc_internalFileNumber = legalCaseReference (kp_year pf) (mb_requestToken body) now,
     lc_clientId = mb_clientId body, lc_assignedLawyerId = mb_assignedLawyerId body, lc_consultationRequestId = None,
     lc_title = mb_title body, lc_caseType = mb_caseType body, lc_courtName = mb_courtName body,
     lc_externalCaseNumber = mb_externalCaseNumber body, lc_status = ''NEW'', lc_priority = mb_priority body,
     lc_summary = mb_summary body, lc_nextSessionAt = None, lc_createdAt = now, lc_updatedAt = now, lc_deletedAt = None\<rparr>"

definition createManualCaseTransaction ::
  "case_platform \<Rightarrow> int \<Rightarrow> principal \<Rightarrow> manual_body \<Rightarrow> string \<Rightarrow> case_db \<Rightarrow>
   manual_throw + (legal_case \<times> bool) \<times> case_db" where
  "createManualCaseTransaction pf now actor body requestHash s =
    andThen (ofManualApi (activeClient (mb_clientId body) s)) (\<lambda>_.
    andThen (ofManualApi (eligibleLawyer (mb_assignedLawyerId body) s)) (\<lambda>_.
    andThen (ofManualApi (replayForExistingCase (pr_id actor) (mb_requestToken body) requestHash s)) (\<lambda>replay.
    case replay of
      Some k \<Rightarrow> Inr ((k, True), s)
    | None \<Rightarrow>
      let k = manualCaseRow pf now body
      in andThen (require (lc_internalFileNumber k \<notin> lc_internalFileNumber ` set (casesOf s) \<and>
           lc_id k \<notin> lc_id ` set (casesOf s)) UniqueTaken) (\<lambda>_.
         let s1 = (putCases (casesOf s @ [k]) s)\<lparr>kd_parties := kd_parties s @
               map (\<lambda>p. \<lparr>pa_caseId = lc_id k, pa_name = py_name p, pa_type = py_partyType p, pa_notes = py_notes p\<rparr>)
                 (mb_parties body)\<rparr>
         in Inr ((k, False), auditCase (caseEvent actor ''case.manual_create'' ''LegalCase'' (lc_id k) k
              [(''requestHash'', MText requestHash), (''source'', MText ''admin-manual''), (''status'', MText ''NEW'')]) s1)))))"

definition caseReferenceConflict :: api_error where
  "caseReferenceConflict = apiError 409 CASE_REFERENCE_CONFLICT
    ''A unique case reference could not be generated. Create a new request and retry.''"

definition createManualCase ::
  "case_platform \<Rightarrow> int \<Rightarrow> principal \<Rightarrow> manual_input \<Rightarrow> case_db \<Rightarrow> ((legal_case \<times> bool) \<times> case_db) api" where
  "createManualCase pf now actor raw s =
    andThen (require (canCreateManualCase actor)
      (apiError 403 PERMISSION_DENIED ''Manual case creation permission is required.'')) (\<lambda>_.
    andThen (parseWithSchema (manualCaseCreateSchema (kp_outcome pf)) raw ''Manual case payload is invalid.'') (\<lambda>body.
    let requestHash = manualCaseRequestHash pf body
    in case createManualCaseTransaction pf now actor body requestHash s of
         Inr r \<Rightarrow> Inr r
       | Inl (ManualApi e) \<Rightarrow> Inl e
       | Inl UniqueTaken \<Rightarrow>
           andThen (replayForExistingCase (pr_id actor) (mb_requestToken body) requestHash s) (\<lambda>replay.
           case replay of Some k \<Rightarrow> Inr ((k, True), s) | None \<Rightarrow> Inl caseReferenceConflict)))"


section \<open>Editing a case\<close>

definition changedCoreFields :: "legal_case \<Rightarrow> core_update \<Rightarrow> string list" where
  "changedCoreFields k body =
    map fst (filter snd
      [(''title'', mu_title body \<noteq> None \<and> mu_title body \<noteq> Some (lc_title k)),
       (''caseType'', mu_caseType body \<noteq> None \<and> mu_caseType body \<noteq> Some (lc_caseType k)),
       (''courtName'', mu_courtName body \<noteq> None \<and> mu_courtName body \<noteq> Some (lc_courtName k)),
       (''externalCaseNumber'', mu_externalCaseNumber body \<noteq> None \<and>
          mu_externalCaseNumber body \<noteq> Some (lc_externalCaseNumber k)),
       (''priority'', mu_priority body \<noteq> None \<and> mu_priority body \<noteq> Some (lc_priority k)),
       (''summary'', mu_summary body \<noteq> None \<and> mu_summary body \<noteq> Some (lc_summary k)),
       (''assignedLawyerId'', mu_assignedLawyerId body \<noteq> None \<and> mu_assignedLawyerId body \<noteq> Some (lc_assignedLawyerId k))])"

text \<open>A column that is not given, or given unchanged, keeps its value.\<close>

definition updateMutationData :: "core_update \<Rightarrow> legal_case \<Rightarrow> legal_case" where
  "updateMutationData body k =
    k\<lparr>lc_title := (case mu_title body of None \<Rightarrow> lc_title k | Some x \<Rightarrow> x),
      lc_caseType := (case mu_caseType body of None \<Rightarrow> lc_caseType k | Some x \<Rightarrow> x),
      lc_courtName := (case mu_courtName body of None \<Rightarrow> lc_courtName k | Some x \<Rightarrow> x),
      lc_externalCaseNumber := (case mu_externalCaseNumber body of None \<Rightarrow> lc_externalCaseNumber k | Some x \<Rightarrow> x),
      lc_priority := (case mu_priority body of None \<Rightarrow> lc_priority k | Some x \<Rightarrow> x),
      lc_summary := (case mu_summary body of None \<Rightarrow> lc_summary k | Some x \<Rightarrow> x),
      lc_assignedLawyerId := (case mu_assignedLawyerId body of None \<Rightarrow> lc_assignedLawyerId k | Some x \<Rightarrow> x)\<rparr>"

definition caseChanged :: api_error where
  "caseChanged = apiError 409 CONFLICT ''Case data changed after this form was loaded.''"

definition mayReassign :: "principal \<Rightarrow> string list \<Rightarrow> core_update \<Rightarrow> case_db \<Rightarrow> unit api" where
  "mayReassign actor changed body s =
    (if ''assignedLawyerId'' \<in> set changed then
       andThen (require (hasPermission actor ''case.update.any'')
         (apiError 403 PERMISSION_DENIED ''Case reassignment requires office-wide update permission.'')) (\<lambda>_.
       eligibleLawyer (case mu_assignedLawyerId body of None \<Rightarrow> [] | Some l \<Rightarrow> l) s)
     else Inr ())"

definition coreUpdateEvent :: "principal \<Rightarrow> legal_case \<Rightarrow> legal_case \<Rightarrow> string list \<Rightarrow> audit_event" where
  "coreUpdateEvent actor previous updated changed =
    caseEvent actor ''case.core_update'' ''LegalCase'' (lc_id updated) updated
      [(''changedFields'', MJson (JArr (map JStr changed))),
       (''previousAssignedLawyerId'', MText (lc_assignedLawyerId previous)),
       (''assignedLawyerId'', MText (lc_assignedLawyerId updated)), (''previousPriority'', MText (lc_priority previous)),
       (''priority'', MText (lc_priority updated))]"

definition updateManualCaseTransaction ::
  "int \<Rightarrow> principal \<Rightarrow> string \<Rightarrow> core_update \<Rightarrow> int \<Rightarrow> case_db \<Rightarrow> (legal_case \<times> case_db) api" where
  "updateManualCaseTransaction now actor caseId body version s =
    (let missing = apiError 404 NOT_FOUND ''Case was not found in the current access scope.''
     in case fetch lc_id caseId (casesOf s) of
          None \<Rightarrow> Inl missing
        | Some k \<Rightarrow>
          andThen (require (lc_deletedAt k = None \<and> canUpdateAdminCase actor k) missing) (\<lambda>_.
          let changed = changedCoreFields k body
          in andThen (mayReassign actor changed body s) (\<lambda>_.
             andThen (require (lc_updatedAt k = version) caseChanged) (\<lambda>_.
             if changed = [] then Inr (k, s)
             else let claimed = (\<lambda>x. lc_id x = caseId \<and> lc_updatedAt x = lc_updatedAt k \<and> lc_deletedAt x = None);
                      f = (\<lambda>x. (updateMutationData body x)\<lparr>lc_updatedAt := now\<rparr>)
                  in andThen (require (length (filter claimed (casesOf s)) = 1) caseChanged) (\<lambda>_.
                     Inr (f k, auditCase (coreUpdateEvent actor k (f k) changed)
                       (putCases (updateWhere claimed f (casesOf s)) s)))))))"

definition updateManualCaseCore ::
  "case_platform \<Rightarrow> int \<Rightarrow> principal \<Rightarrow> string \<Rightarrow> core_update \<Rightarrow> case_db \<Rightarrow> (legal_case \<times> case_db) api" where
  "updateManualCaseCore pf now actor caseIdText raw s =
    andThen (require (hasPermission actor ''case.update.any'' \<or> hasPermission actor ''case.update.assigned'')
      (apiError 403 PERMISSION_DENIED ''Case update permission is required.'')) (\<lambda>_.
    andThen (uuidIn pf caseIdText ''Case id is invalid.'') (\<lambda>caseId.
    andThen (parseWithSchema (manualCaseCoreUpdateSchema (kp_outcome pf)) raw ''Case core update payload is invalid.'')
      (\<lambda>(body, version). updateManualCaseTransaction now actor caseId body version s)))"

end
