(* ===== verification/BookingFacts.thy ===== *)
theory BookingFacts
  imports BookingActions OutcomeFacts PaymentSamples
begin

text \<open>
  What booking from a conversation promises: an action is performed once for its key, and no two active
  appointments that share the lawyer, the client or the office's telephone line overlap.
\<close>

section \<open>Frames\<close>

text \<open>The tables an operation leaves alone.\<close>

definition sameDesk :: "booking_db \<Rightarrow> booking_db \<Rightarrow> bool" where
  "sameDesk s s' \<longleftrightarrow> of_appointments (bk_office s') = of_appointments (bk_office s) \<and>
     of_consultations (bk_office s') = of_consultations (bk_office s) \<and> bk_requests s' = bk_requests s"

lemma sameDesk_refl [simp]: "sameDesk s s"
  by (simp add: sameDesk_def)

lemma sameDesk_trans: "sameDesk a b \<Longrightarrow> sameDesk b c \<Longrightarrow> sameDesk a c"
  by (simp add: sameDesk_def)

lemma updateSession1_desk [simp]: "sameDesk s (updateSession1 i f s)"
  by (simp add: sameDesk_def updateSession1_def)

lemma syncAssistantTranscript_desk [simp]: "sameDesk s (syncAssistantTranscript pf i t s)"
  by (simp add: sameDesk_def syncAssistantTranscript_def Let_def)

lemma ensureAssistantHandoff_desk:
  "ensureAssistantHandoff pf n i s = Inr (t, s') \<Longrightarrow> sameDesk s s' \<and> bk_actions s' = bk_actions s \<and>
     map as_id (bk_sessions s') = map as_id (bk_sessions s)"
  by (auto simp: ensureAssistantHandoff_def sameDesk_def syncAssistantTranscript_def updateSession1_def Let_def
      modify_def map_key_updateWhere split: option.splits)

lemma tellConversation_desk:
  assumes "tellConversation pf now ids body a phone k i l existing slot1 draft s = Inr s'"
  shows "sameDesk s s' \<and> bk_actions s' = bk_actions s \<and> map as_id (bk_sessions s') = map as_id (bk_sessions s)"
  using assms
  by (auto simp: tellConversation_def sameDesk_def updateSession1_def Let_def modify_def map_key_updateWhere
      dest!: ensureAssistantHandoff_desk)

lemma bookingClient_desk:
  assumes "bookingClient ids body phone a existing slot1 s = Inr (k, s')"
  shows "sameDesk s s' \<and> bk_actions s' = bk_actions s \<and> bk_sessions s' = bk_sessions s \<and>
    (\<forall>r. existing = Some r \<longrightarrow> cr_clientId (lr_request r) \<noteq> None \<longrightarrow> cr_clientId (lr_request r) = Some k)"
  using assms by (auto simp: bookingClient_def sameDesk_def split: option.splits)

lemma recordAction_desk: "sameDesk s (recordAction body actor a s)"
  by (simp add: recordAction_def sameDesk_def updateSession1_def Let_def)

lemma createRequest_Inr:
  assumes "createRequest pf now ids body phone k draft l slot1 s = Inr s'"
  shows "of_appointments (bk_office s') = of_appointments (bk_office s)"
    and "of_consultations (bk_office s') =
      of_consultations (bk_office s) @ [newConsultation pf now ids body k draft l slot1]"
    and "bk_requests s' = bk_requests s @ [newContact pf ids body phone draft l slot1]"
    and "bi_request ids \<notin> cr_id ` set (of_consultations (bk_office s))"
    and "bi_request ids \<notin> rc_id ` set (bk_requests s)"
    and "bk_actions s' = bk_actions s" and "bk_sessions s' = bk_sessions s"
  using assms
  by (auto simp: createRequest_def setConsultations_def newConsultation_def newContact_def Let_def)

lemma takeSlot_rest:
  assumes "takeSlot pf ids k i l existing c s = Inr s'"
  shows "bk_actions s' = bk_actions s \<and> bk_sessions s' = bk_sessions s"
  using assms
  by (auto simp: takeSlot_def setAppointments_def setConsultations_def Let_def split: if_splits option.splits)

text \<open>The rows of a taken slot.\<close>

definition slotRow ::
  "booking_platform \<Rightarrow> booking_ids \<Rightarrow> string \<Rightarrow> string \<Rightarrow> string \<Rightarrow> candidate \<Rightarrow> appointment" where
  "slotRow pf ids k i l c =
    \<lparr>ap_id = bi_appointment ids, ap_clientId = k, ap_lawyerId = Some (cd_lawyerId c),
     ap_consultationRequestId = Some i, ap_caseId = None, ap_title = bp_copy pf l ''appointmentTitle'',
     ap_type = AT_CONSULTATION, ap_mode = M_PHONE, ap_location = None, ap_startsAt = sl_startsAt c,
     ap_endsAt = sl_endsAt c, ap_status = A_SCHEDULED, ap_notes = None\<rparr>"

definition movedRow :: "candidate \<Rightarrow> appointment \<Rightarrow> appointment" where
  "movedRow c q = q\<lparr>ap_lawyerId := Some (cd_lawyerId c), ap_startsAt := sl_startsAt c, ap_endsAt := sl_endsAt c,
     ap_status := A_RESCHEDULED\<rparr>"

lemma takeSlot_new:
  assumes "takeSlot pf ids k i l None c s = Inr s'"
  shows "of_appointments (bk_office s') = of_appointments (bk_office s) @ [slotRow pf ids k i l c]"
    and "bi_appointment ids \<notin> ap_id ` set (of_appointments (bk_office s))"
    and "of_consultations (bk_office s') = of_consultations (bk_office s)" and "bk_requests s' = bk_requests s"
  using assms
  by (auto simp: takeSlot_def setAppointments_def currentAppointment_def slotRow_def Let_def)

lemma takeSlot_moved:
  assumes "takeSlot pf ids k i l (Some r) c s = Inr s'" and "currentAppointment (Some r) = Some p"
  shows "of_appointments (bk_office s') = modify ap_id (ap_id p) (movedRow c) (of_appointments (bk_office s))"
    and "of_consultations (bk_office s') = modify cr_id i
       (\<lambda>q. q\<lparr>cr_assignedLawyerId := Some (cd_lawyerId c), cr_outcomeVersion := cr_outcomeVersion q + 1\<rparr>)
       (of_consultations (bk_office s))"
    and "bk_requests s' = modify rc_id i
       (\<lambda>r. r\<lparr>rc_requestedStartsAt := Some (sl_startsAt c), rc_requestedEndsAt := Some (sl_endsAt c)\<rparr>) (bk_requests s)"
  using assms
  by (auto simp: takeSlot_def setAppointments_def setConsultations_def movedRow_def [abs_def] Let_def)


section \<open>Appointments that clash\<close>

text \<open>Two active appointments of one lawyer or client, or two consultations of the office, at one time.\<close>

definition clash :: "appointment \<Rightarrow> appointment \<Rightarrow> bool" where
  "clash a b \<longleftrightarrow> ap_id a \<noteq> ap_id b \<and> activeAppointment a \<and> activeAppointment b \<and>
     (sharesPerson a b \<or> (ap_type a = AT_CONSULTATION \<and> ap_type b = AT_CONSULTATION)) \<and>
     appointmentIntervalsOverlap (ap_startsAt a) (ap_endsAt a) (ap_startsAt b) (ap_endsAt b)"

definition apart :: "(appointment \<Rightarrow> appointment \<Rightarrow> bool) \<Rightarrow> appointment list \<Rightarrow> bool" where
  "apart R rows \<longleftrightarrow> (\<forall>a\<in>set rows. \<forall>b\<in>set rows. \<not> R a b)"

lemma apart_doubleBooked [simp]: "apart doubleBooked rows = noDoubleBooking rows"
  by (simp add: apart_def noDoubleBooking_def)

lemma clash_doubleBooked: "doubleBooked a b \<Longrightarrow> clash a b"
  by (auto simp: clash_def doubleBooked_def)

lemma apart_mono: "apart clash rows \<Longrightarrow> noDoubleBooking rows"
  using clash_doubleBooked by (auto simp: apart_def noDoubleBooking_def)

text \<open>
  What the desk keeps: ids are unique, an appointment of a request is that of the request's client, and
  no two rows are in the relation \<open>R\<close>.
\<close>

definition linkOk :: "office \<Rightarrow> bool" where
  "linkOk s \<longleftrightarrow> (\<forall>a\<in>set (of_appointments s). \<forall>i. ap_consultationRequestId a = Some i \<longrightarrow>
     (\<exists>c\<in>set (of_consultations s). cr_id c = i \<and> cr_clientId c = Some (ap_clientId a)))"

definition deskOk :: "(appointment \<Rightarrow> appointment \<Rightarrow> bool) \<Rightarrow> office \<Rightarrow> bool" where
  "deskOk R s \<longleftrightarrow> distinct (map ap_id (of_appointments s)) \<and> distinct (map cr_id (of_consultations s)) \<and>
     linkOk s \<and> apart R (of_appointments s)"

lemma linkOk_client:
  assumes "deskOk R s" and "a \<in> set (of_appointments s)" and "ap_consultationRequestId a = Some (cr_id c)"
    and "c \<in> set (of_consultations s)"
  shows "cr_clientId c = Some (ap_clientId a)"
proof -
  obtain c' where c': "c' \<in> set (of_consultations s)" "cr_id c' = cr_id c" "cr_clientId c' = Some (ap_clientId a)"
    using assms(1-3) unfolding deskOk_def linkOk_def by blast
  moreover have "c' = c"
    using c' assms(1,4) unfolding deskOk_def by (metis fetch_distinct option.inject)
  ultimately show ?thesis by simp
qed

text \<open>
  The contract of a relation that keeps rows apart: it is symmetric, relates no row to one with its id,
  and only active rows that clash.
\<close>

locale timetable =
  fixes R :: "appointment \<Rightarrow> appointment \<Rightarrow> bool"
  assumes sym: "R a b \<Longrightarrow> R b a"
    and clashes: "R a b \<Longrightarrow> clash a b"
begin

lemma other: "R a b \<Longrightarrow> ap_id a \<noteq> ap_id b"
  using clashes by (auto simp: clash_def)

lemma inactive_apart: "\<not> activeAppointment a \<Longrightarrow> \<not> R a b"
  using clashes by (auto simp: clash_def)

lemma apart_append:
  assumes "apart R rows" and "\<And>b. b \<in> set rows \<Longrightarrow> \<not> R a b"
  shows "apart R (rows @ [a])"
  unfolding apart_def
proof (intro ballI notI)
  fix x y assume "x \<in> set (rows @ [a])" "y \<in> set (rows @ [a])" and c: "R x y"
  then have "x \<in> set rows \<or> x = a" "y \<in> set rows \<or> y = a" by auto
  moreover have "\<not> R a a" using other by blast
  ultimately show False using assms c sym unfolding apart_def by blast
qed

lemma apart_modify:
  assumes "apart R rows" and "distinct (map ap_id rows)" and "a \<in> set rows" and "\<And>r. ap_id (f r) = ap_id r"
    and "\<And>b. b \<in> set rows \<Longrightarrow> ap_id b \<noteq> ap_id a \<Longrightarrow> \<not> R (f a) b"
  shows "apart R (modify ap_id (ap_id a) f rows)"
  unfolding apart_def
proof (intro ballI notI)
  fix x y assume x: "x \<in> set (modify ap_id (ap_id a) f rows)" and y: "y \<in> set (modify ap_id (ap_id a) f rows)"
    and c: "R x y"
  have row: "z = f a \<or> (z \<in> set rows \<and> ap_id z \<noteq> ap_id a)"
    if z: "z \<in> set (modify ap_id (ap_id a) f rows)" for z
  proof -
    from z obtain r where r: "r \<in> set rows" "z = (if ap_id r = ap_id a then f r else r)"
      by (auto simp: set_modify)
    show ?thesis
    proof (cases "ap_id r = ap_id a")
      case True
      then have "r = a" using assms(2,3) r(1) by (metis fetch_distinct option.inject)
      with r show ?thesis by simp
    qed (use r in auto)
  qed
  have "\<not> R (f a) (f a)" using other by blast
  then show False using row [OF x] row [OF y] c assms(1,5) sym unfolding apart_def by metis
qed

text \<open>A new row for a request of its client, and a change of rows that keeps the links.\<close>

lemma deskOk_append:
  assumes ok: "deskOk R s" and apps: "of_appointments s' = of_appointments s @ [a]"
    and rest: "of_consultations s' = of_consultations s"
    and fresh: "ap_id a \<notin> ap_id ` set (of_appointments s)"
    and c: "c \<in> set (of_consultations s)" "ap_consultationRequestId a = Some (cr_id c)" "cr_clientId c = Some (ap_clientId a)"
    and free: "\<And>b. b \<in> set (of_appointments s) \<Longrightarrow> \<not> R a b"
  shows "deskOk R s'"
proof -
  have "linkOk s'" using ok c by (auto simp: deskOk_def linkOk_def apps rest)
  moreover have "apart R (of_appointments s')" using ok free by (auto simp: apps deskOk_def intro!: apart_append)
  ultimately show ?thesis using ok fresh by (auto simp: deskOk_def apps rest)
qed

lemma deskOk_modify:
  assumes ok: "deskOk R s" and apps: "of_appointments s' = modify ap_id k f (of_appointments s)"
    and cons: "of_consultations s' = modify cr_id i g (of_consultations s)"
    and f: "\<And>a. ap_id (f a) = ap_id a \<and> ap_clientId (f a) = ap_clientId a \<and>
      ap_consultationRequestId (f a) = ap_consultationRequestId a"
    and g: "\<And>c. cr_id (g c) = cr_id c" and client: "\<And>c. c \<in> set (of_consultations s) \<Longrightarrow> cr_id c = i \<Longrightarrow>
      cr_clientId c \<noteq> None \<Longrightarrow> cr_clientId (g c) = cr_clientId c"
    and apart: "apart R (of_appointments s')"
  shows "deskOk R s'"
proof -
  have ids: "map ap_id (of_appointments s') = map ap_id (of_appointments s)"
    "map cr_id (of_consultations s') = map cr_id (of_consultations s)"
    using f g by (simp_all add: apps cons modify_def map_key_updateWhere)
  have "linkOk s'"
    unfolding linkOk_def
  proof (intro ballI allI impI)
    fix a' j assume a': "a' \<in> set (of_appointments s')" "ap_consultationRequestId a' = Some j"
    then obtain a where a: "a \<in> set (of_appointments s)" "ap_consultationRequestId a = Some j"
      "ap_clientId a = ap_clientId a'"
      using f by (auto simp: apps set_modify split: if_splits)
    then obtain c where c: "c \<in> set (of_consultations s)" "cr_id c = j" "cr_clientId c = Some (ap_clientId a)"
      using ok unfolding deskOk_def linkOk_def by blast
    let ?c = "if cr_id c = i then g c else c"
    have "?c \<in> set (of_consultations s')" using c(1) by (auto simp: cons set_modify)
    moreover have "cr_id ?c = j" "cr_clientId ?c = Some (ap_clientId a')" using c a(3) g client by auto
    ultimately show "\<exists>c\<in>set (of_consultations s'). cr_id c = j \<and> cr_clientId c = Some (ap_clientId a')" by blast
  qed
  then show ?thesis using ok apart ids by (simp add: deskOk_def)
qed

lemma deskOk_cancel:
  assumes ok: "deskOk R s" and p: "p \<in> set (of_appointments s)"
    and apps: "of_appointments s' = modify ap_id (ap_id p) (\<lambda>q. q\<lparr>ap_status := A_CANCELLED\<rparr>) (of_appointments s)"
    and cons: "of_consultations s' = modify cr_id i g (of_consultations s)"
    and g: "\<And>c. cr_id (g c) = cr_id c \<and> cr_clientId (g c) = cr_clientId c"
  shows "deskOk R s'"
proof (rule deskOk_modify [OF ok apps cons])
  show "apart R (of_appointments s')"
    unfolding apps
    using ok p by (intro apart_modify) (auto simp: deskOk_def activeAppointment_def ACTIVE_APPOINTMENT_STATUSES_def
        intro!: inactive_apart)
qed (use g in auto)

end

text \<open>A row whose three checks passed clashes with none.\<close>

lemma checked_apart:
  assumes "assertSlotFree OfficeConsultation current (Some c) s = Inr u1"
    and "assertSlotFree (LawyerScope (cd_lawyerId c)) current (Some c) s = Inr u2"
    and "assertSlotFree (ClientScope (ap_clientId a)) current (Some c) s1 = Inr u3"
    and "of_appointments (bk_office s1) = of_appointments (bk_office s)"
    and "ap_lawyerId a = Some (cd_lawyerId c)" and "ap_startsAt a = sl_startsAt c" and "ap_endsAt a = sl_endsAt c"
    and "b \<in> set (of_appointments (bk_office s))" and "\<And>p. current = Some p \<Longrightarrow> ap_id b \<noteq> ap_id p"
  shows "\<not> clash a b"
proof
  assume clash: "clash a b"
  have away: "case map_option ap_id current of None \<Rightarrow> True | Some x \<Rightarrow> x = [] \<or> ap_id b \<noteq> x"
    using assms(9) by (cases current) auto
  have "\<not> appointmentConflictWhere (sl_startsAt c) (sl_endsAt c) scope (map_option ap_id current) b"
    if "scope \<in> {OfficeConsultation, LawyerScope (cd_lawyerId c), ClientScope (ap_clientId a)}" for scope
    using that assms(1-4,8) by (auto simp: assertSlotFree_def dest: assertNoAppointmentConflict_Inr(2))
  then have "\<not> scopeCovers scope b"
    if "scope \<in> {OfficeConsultation, LawyerScope (cd_lawyerId c), ClientScope (ap_clientId a)}" for scope
    using that away clash assms(6,7)
    by (auto simp: appointmentConflictWhere_def clash_def activeAppointment_def appointmentIntervalsOverlap_def)
  from this [of OfficeConsultation] this [of "LawyerScope (cd_lawyerId c)"] this [of "ClientScope (ap_clientId a)"]
  show False
    using clash assms(5) by (auto simp: scopeCovers_def clash_def sharesPerson_def)
qed


section \<open>The desk stays consistent\<close>

lemma deskOk_same: "sameDesk s s' \<Longrightarrow> deskOk R (bk_office s) \<Longrightarrow> deskOk R (bk_office s')"
  by (simp add: deskOk_def sameDesk_def linkOk_def)

lemma existingRequest_Some:
  assumes "existingRequest a s = Inr (Some r)"
  shows "lr_request r \<in> set (of_consultations (bk_office s))"
    and "\<And>p. currentAppointment (Some r) = Some p \<Longrightarrow> p \<in> set (of_appointments (bk_office s)) \<and>
      ap_consultationRequestId p = Some (cr_id (lr_request r)) \<and> ap_type p = AT_CONSULTATION"
proof -
  obtain i where i: "loadRequest i s = Some r"
    using assms by (auto simp: existingRequest_def split: option.splits if_splits)
  then obtain c where c: "fetch cr_id i (of_consultations (bk_office s)) = Some c"
    "r = \<lparr>lr_request = c, lr_contact = fetch rc_id i (bk_requests s),
        lr_appointments = rev (filter (\<lambda>a. ap_consultationRequestId a = Some i \<and> ap_type a = AT_CONSULTATION \<and>
          ap_caseId a = None) (of_appointments (bk_office s)))\<rparr>"
    by (auto simp: loadRequest_def)
  have id: "c \<in> set (of_consultations (bk_office s))" "cr_id c = i"
    using c(1) by (auto dest: fetch_SomeD)
  then show "lr_request r \<in> set (of_consultations (bk_office s))" using c by simp
  fix p assume "currentAppointment (Some r) = Some p"
  then have "p \<in> set (lr_appointments r)" by (auto simp: currentAppointment_def split: list.splits)
  then show "p \<in> set (of_appointments (bk_office s)) \<and>
      ap_consultationRequestId p = Some (cr_id (lr_request r)) \<and> ap_type p = AT_CONSULTATION"
    using c id by auto
qed

lemma deskOk_create:
  assumes ok: "deskOk R (bk_office s)" and new: "createRequest pf now ids body phone k draft l slot1 s = Inr s'"
  shows "deskOk R (bk_office s')"
proof -
  note made = createRequest_Inr [OF new]
  have "cr_id (newConsultation pf now ids body k draft l slot1) = bi_request ids" by (simp add: newConsultation_def)
  then show ?thesis using ok made(4) by (auto simp: deskOk_def linkOk_def made(1,2))
qed

text \<open>The steps of a booking that went through.\<close>

lemma bookOrCall_steps:
  assumes "bookOrCall pf now ids body a existing s = Inr s'"
  obtains slot1 draft l k s1 s2 s3 u1 u2 u3 where
    "chosenSlot pf now body (currentAppointment existing) s = Inr slot1"
    and "assertSlotFree OfficeConsultation (currentAppointment existing) slot1 s = Inr u1"
    and "assertSlotFree (LawyerScope (case slot1 of None \<Rightarrow> [] | Some c \<Rightarrow> cd_lawyerId c))
      (currentAppointment existing) slot1 s = Inr u2"
    and "bookingClient ids body (bookingPhone body existing) a existing slot1 s = Inr (k, s1)"
    and "assertSlotFree (ClientScope k) (currentAppointment existing) slot1 s1 = Inr u3"
    and "(if existing = None then createRequest pf now ids body (bookingPhone body existing) k draft l slot1 s1
          else Inr s1) = Inr s2"
    and "(case slot1 of None \<Rightarrow> Inr s2
          | Some c \<Rightarrow> takeSlot pf ids k (requestIdOf ids existing) l existing c s2) = Inr s3"
    and "tellConversation pf now ids body a (bookingPhone body existing) k (requestIdOf ids existing) l existing slot1
      draft s3 = Inr s'"
  using assms
  by (clarsimp simp: bookOrCall_def Let_def split: option.splits prod.splits)

context timetable begin

lemma deskOk_cancelBooking:
  assumes ok: "deskOk R (bk_office s)" and r: "existingRequest a s = Inr existing"
  shows "deskOk R (bk_office (cancelBooking now existing s))"
proof (cases existing)
  case (Some x)
  show ?thesis
  proof (cases "currentAppointment existing")
    case None
    then show ?thesis using ok Some by (simp add: cancelBooking_def)
  next
    case p: (Some p)
    have "p \<in> set (of_appointments (bk_office s))"
      using existingRequest_Some(2) r Some p by blast
    then show ?thesis
      using Some p
      by (intro deskOk_cancel [OF ok, where i = "cr_id (lr_request x)"
            and g = "\<lambda>c. c\<lparr>cr_status := C_REJECTED, cr_outcomeStatus := O_CANCELLED, cr_outcomeAt := Some now,
                    cr_outcomeVersion := cr_outcomeVersion c + 1\<rparr>"])
        (simp_all add: cancelBooking_def setAppointments_def setConsultations_def)
  qed
qed (use ok in \<open>simp add: cancelBooking_def\<close>)

lemma deskOk_bookOrCall:
  assumes ok: "deskOk R (bk_office s)" and r: "existingRequest a s = Inr existing"
    and permitted: "actionPermitted pf now body a existing = Inr u" and "bb_action body \<noteq> CancelBooking"
    and book: "bookOrCall pf now ids body a existing s = Inr s'"
  shows "deskOk R (bk_office s')"
  using book
proof (rule bookOrCall_steps)
  fix slot1 draft l k s1 s2 s3 u1 u2 u3
  let ?cur = "currentAppointment existing"
  assume free: "assertSlotFree OfficeConsultation ?cur slot1 s = Inr u1"
      "assertSlotFree (LawyerScope (case slot1 of None \<Rightarrow> [] | Some c \<Rightarrow> cd_lawyerId c)) ?cur slot1 s = Inr u2"
      "assertSlotFree (ClientScope k) ?cur slot1 s1 = Inr u3"
    and client: "bookingClient ids body (bookingPhone body existing) a existing slot1 s = Inr (k, s1)"
    and made: "(if existing = None then createRequest pf now ids body (bookingPhone body existing) k draft l slot1 s1
          else Inr s1) = Inr s2"
    and taken: "(case slot1 of None \<Rightarrow> Inr s2
          | Some c \<Rightarrow> takeSlot pf ids k (requestIdOf ids existing) l existing c s2) = Inr s3"
    and told: "tellConversation pf now ids body a (bookingPhone body existing) k (requestIdOf ids existing) l existing
      slot1 draft s3 = Inr s'"
  have desk: "sameDesk s s1" using bookingClient_desk [OF client] by blast
  have ok1: "deskOk R (bk_office s1)" by (rule deskOk_same [OF desk ok])
  have ok2: "deskOk R (bk_office s2)" using made ok1 by (auto split: if_splits intro: deskOk_create)
  have "deskOk R (bk_office s3)"
  proof (cases slot1)
    case None
    then show ?thesis using taken ok2 by simp
  next
    case (Some c)
    have apart: "\<not> R x b" if row: "ap_lawyerId x = Some (cd_lawyerId c)" "ap_clientId x = k"
        "ap_startsAt x = sl_startsAt c" "ap_endsAt x = sl_endsAt c"
        "b \<in> set (of_appointments (bk_office s))" "\<And>p. ?cur = Some p \<Longrightarrow> ap_id b \<noteq> ap_id p" for x b
    proof -
      have "\<not> clash x b"
        using free Some row desk by (intro checked_apart [of ?cur c s u1 u2 x s1 u3]) (simp_all add: sameDesk_def)
      then show ?thesis using clashes by blast
    qed
    show ?thesis
    proof (cases existing)
      case None
      note new = createRequest_Inr [of pf now ids body "bookingPhone body existing" k draft l slot1 s1 s2]
      from None made have create: "createRequest pf now ids body (bookingPhone body existing) k draft l slot1 s1 = Inr s2"
        by simp
      from None Some taken have take_eq: "takeSlot pf ids k (bi_request ids) l None c s2 = Inr s3"
        by (simp add: requestIdOf_def)
      show ?thesis
      proof (rule deskOk_append [OF ok2 takeSlot_new(1) [OF take_eq] takeSlot_new(3) [OF take_eq]])
        show "ap_id (slotRow pf ids k (bi_request ids) l c) \<notin> ap_id ` set (of_appointments (bk_office s2))"
          using takeSlot_new(2) [OF take_eq] by (simp add: slotRow_def)
        show "newConsultation pf now ids body k draft l slot1 \<in> set (of_consultations (bk_office s2))"
          by (simp add: new(2) [OF create])
        show "\<not> R (slotRow pf ids k (bi_request ids) l c) b" if "b \<in> set (of_appointments (bk_office s2))" for b
          using that desk new(1) [OF create] None
          by (intro apart) (simp_all add: slotRow_def sameDesk_def currentAppointment_def)
      qed (simp_all add: newConsultation_def slotRow_def)
    next
      case r1: (Some r)
      have old: "lr_request r \<in> set (of_consultations (bk_office s))"
        using existingRequest_Some(1) r r1 by blast
      obtain p where p: "?cur = Some p"
        using permitted assms(4) r1 by (auto simp: actionPermitted_def changeable_def split: option.splits)
      then have p_in: "p \<in> set (of_appointments (bk_office s))"
        "ap_consultationRequestId p = Some (cr_id (lr_request r))"
        using existingRequest_Some(2) r r1 by blast+
      have "cr_clientId (lr_request r) = Some (ap_clientId p)" by (rule linkOk_client [OF ok p_in old])
      then have pk: "ap_clientId p = k" using bookingClient_desk [OF client] r1 by auto
      have s2: "s2 = s1" using made r1 by simp
      from r1 Some taken s2 have take_eq: "takeSlot pf ids k (cr_id (lr_request r)) l (Some r) c s1 = Inr s3"
        by (simp add: requestIdOf_def)
      have cur: "currentAppointment (Some r) = Some p" using p r1 by simp
      note moved = takeSlot_moved [OF take_eq cur]
      have rows: "of_appointments (bk_office s1) = of_appointments (bk_office s)" using desk by (simp add: sameDesk_def)
      have "apart R (of_appointments (bk_office s3))"
        unfolding moved(1) rows
      proof (rule apart_modify)
        show "\<not> R (movedRow c p) b" if "b \<in> set (of_appointments (bk_office s))" "ap_id b \<noteq> ap_id p" for b
          using that pk p by (intro apart) (auto simp: movedRow_def)
      qed (use ok p_in in \<open>auto simp: deskOk_def movedRow_def\<close>)
      then show ?thesis by (intro deskOk_modify [OF ok1 moved(1,2)]) (simp_all add: movedRow_def)
    qed
  qed
  then show "deskOk R (bk_office s')" using tellConversation_desk [OF told] deskOk_same by blast
qed

end

section \<open>Any sequence of actions\<close>

lemma performAction_steps:
  assumes "performAction pf now ids actor body a s = Inr (u, s')"
  obtains existing s1 u1 where "existingRequest a s = Inr existing"
    and "actionPermitted pf now body a existing = Inr u1"
    and "(if bb_action body = CancelBooking then Inr (cancelBooking now existing s)
             else bookOrCall pf now ids body a existing s) = Inr s1" and "s' = recordAction body actor a s1"
  using assms unfolding performAction_def andThen_eq_Inr by blast

context timetable begin

lemma performAction_ok:
  assumes "deskOk R (bk_office s)" and "performAction pf now ids actor body a s = Inr (u, s')"
  shows "deskOk R (bk_office s')"
proof -
  obtain existing s1 u1 where e: "existingRequest a s = Inr existing"
    and p: "actionPermitted pf now body a existing = Inr u1"
    and r: "(if bb_action body = CancelBooking then Inr (cancelBooking now existing s)
             else bookOrCall pf now ids body a existing s) = Inr s1" and s': "s' = recordAction body actor a s1"
    by (rule performAction_steps [OF assms(2)])
  have "deskOk R (bk_office s1)"
    using r deskOk_cancelBooking [OF assms(1) e] deskOk_bookOrCall [OF assms(1) e p] by (auto split: if_splits)
  then show ?thesis using recordAction_desk deskOk_same unfolding s' by blast
qed

lemma directBookingOperation_ok:
  assumes "deskOk R (bk_office s)" and "directBookingOperation pf now ids actor i body s = Inr (u, s')"
  shows "deskOk R (bk_office s')"
  using assms performAction_ok by (auto simp: directBookingOperation_def split: option.splits if_splits)

end

lemma ownAssistantSession_rest:
  "sameDesk s (snd (ownAssistantSession pf now token actor s)) \<and>
   bk_actions (snd (ownAssistantSession pf now token actor s)) = bk_actions s"
  by (auto simp: ownAssistantSession_def releaseLease_def sameDesk_def Let_def split: option.split sum.split)

record booking_request =
  bq_now :: int
  bq_aborts :: "nat \<Rightarrow> bool"
  bq_ids :: booking_ids
  bq_token :: string
  bq_body :: booking_body
  bq_actor :: "principal option"

definition bookingServe :: "booking_platform \<Rightarrow> booking_request \<Rightarrow> booking_db \<Rightarrow> unit api \<times> booking_db" where
  "bookingServe pf q s =
    mutateDirectBooking pf (bq_now q) (bq_aborts q) (bq_ids q) (bq_token q) (bq_body q) (bq_actor q) s"

text \<open>A request changes the tables as an ownership check does, or as one performed action does.\<close>

lemma bookingServe_cases:
  obtains "snd (bookingServe pf q s) = snd (ownAssistantSession pf (bq_now q) (bq_token q) (bq_actor q) s)"
  | i u where "directBookingOperation pf (bq_now q) (bq_ids q) (bq_actor q) i (bq_body q)
      (snd (ownAssistantSession pf (bq_now q) (bq_token q) (bq_actor q) s)) = Inr (u, snd (bookingServe pf q s))"
proof -
  obtain r s1 where own: "ownAssistantSession pf (bq_now q) (bq_token q) (bq_actor q) s = (r, s1)" by fastforce
  show thesis
  proof (cases r)
    case (Inr a)
    obtain r2 s2 where run: "runAppointmentConflictTransaction DatabaseCreateBoundedRetry (bq_aborts q) None
         (directBookingOperation pf (bq_now q) (bq_ids q) (bq_actor q) (as_id a) (bq_body q)) s1 = (r2, s2)" by fastforce
    then have "snd (bookingServe pf q s) = s2" by (simp add: bookingServe_def mutateDirectBooking_def own Inr)
    then show thesis
      using attemptTransaction_result [OF run [unfolded runAppointmentConflictTransaction_def]] that own by auto
  qed (use that own in \<open>simp add: bookingServe_def mutateDirectBooking_def\<close>)
qed

context timetable begin

lemma bookingServe_ok: "deskOk R (bk_office s) \<Longrightarrow> deskOk R (bk_office (snd (bookingServe pf q s)))"
  using ownAssistantSession_rest deskOk_same directBookingOperation_ok
  by (cases rule: bookingServe_cases [of pf q s]) metis+

end

interpretation calendar: timetable clash
  by unfold_locales (auto simp: clash_def sharesPerson_sym overlap_symmetric)

interpretation persons: timetable doubleBooked
  by unfold_locales (auto simp: doubleBooked_sym clash_doubleBooked)

interpretation bookings: guarded_machine "bookingServe pf" "\<lambda>s. deskOk clash (bk_office s)" for pf
  by unfold_locales (rule calendar.bookingServe_ok)

text \<open>
  C32. Whatever clients confirm, move, cancel and ask from their conversations, in any order, with
  any transactions aborted and retried: no lawyer and no client is booked twice at one time, and no two
  active consultations of the office overlap.
\<close>

theorem direct_bookings_apart:
  fixes qs :: "booking_request list" and pf :: booking_platform
  assumes "deskOk clash (bk_office s)"
  defines "rows \<equiv> of_appointments (bk_office (serveAll (bookingServe pf) qs s))"
  shows "noDoubleBooking rows \<and>
    (\<forall>a\<in>set rows. \<forall>b\<in>set rows. ap_id a \<noteq> ap_id b \<and> activeAppointment a \<and> activeAppointment b \<and>
       ap_type a = AT_CONSULTATION \<and> ap_type b = AT_CONSULTATION \<longrightarrow>
       \<not> appointmentIntervalsOverlap (ap_startsAt a) (ap_endsAt a) (ap_startsAt b) (ap_endsAt b))"
proof -
  have "apart clash rows" using bookings.serve_inv [OF assms(1)] by (simp add: deskOk_def rows_def)
  then show ?thesis using apart_mono by (auto simp: apart_def clash_def)
qed

text \<open>Actions are only added.\<close>

lemma directBookingOperation_actions:
  assumes "directBookingOperation pf now ids actor i body s = Inr (u, s')"
  shows "\<exists>more. bk_actions s' = bk_actions s @ more \<and>
    (\<exists>x. find (\<lambda>x. bx_sessionId x = i \<and> bx_key x = bb_key body) (bk_actions s') = Some x \<and>
      bx_requestHash x = bb_hash body)"
proof -
  obtain a where a: "fetch as_id i (bk_sessions s) = Some a"
    using assms by (auto simp: directBookingOperation_def split: option.splits)
  then have i: "as_id a = i" by (auto dest: fetch_SomeD)
  show ?thesis
  proof (cases "find (\<lambda>x. bx_sessionId x = i \<and> bx_key x = bb_key body) (bk_actions s)")
    case None
    then have "performAction pf now ids actor body a s = Inr (u, s')"
      using assms a i by (auto simp: directBookingOperation_def split: if_splits)
    then obtain existing s1 where "(if bb_action body = CancelBooking then Inr (cancelBooking now existing s)
             else bookOrCall pf now ids body a existing s) = Inr s1" "s' = recordAction body actor a s1"
      by (rule performAction_steps)
    moreover have "bk_actions (cancelBooking now existing s) = bk_actions s"
      by (simp add: cancelBooking_def setAppointments_def setConsultations_def split: option.split)
    moreover have "bk_actions s1 = bk_actions s" if "bookOrCall pf now ids body a existing s = Inr s1"
      using that
      by (rule bookOrCall_steps)
        (auto dest!: bookingClient_desk tellConversation_desk createRequest_Inr(6) takeSlot_rest
          split: if_splits option.splits)
    ultimately have s': "bk_actions s' = bk_actions s @
        [\<lparr>bx_sessionId = i, bx_key = bb_key body, bx_requestHash = bb_hash body\<rparr>]"
      using i by (auto simp: recordAction_def updateSession1_def Let_def split: if_splits)
    have "find P (xs @ [y]) = Some y" if "find P xs = None" "P y" for P :: "booking_action \<Rightarrow> bool" and xs y
      using that by (induction xs) (auto split: if_splits)
    from this [OF None] show ?thesis by (simp add: s')
  next
    case (Some x)
    then show ?thesis
      using assms a i by (auto simp: directBookingOperation_def split: if_splits)
  qed
qed

lemma bookingServe_actions: "\<exists>more. bk_actions (snd (bookingServe pf q s)) = bk_actions s @ more"
proof (cases rule: bookingServe_cases [of pf q s])
  case 1
  then show ?thesis using ownAssistantSession_rest by auto
next
  case (2 i u)
  from directBookingOperation_actions [OF this] show ?thesis using ownAssistantSession_rest by auto
qed

lemma serveAll_actions: "\<exists>more. bk_actions (serveAll (bookingServe pf) qs s) = bk_actions s @ more"
proof (induction qs arbitrary: s)
  case (Cons q qs)
  show ?case using bookingServe_actions [of pf q s] Cons.IH [of "snd (bookingServe pf q s)"] by auto
qed simp

lemma find_append_Some: "find P xs = Some x \<Longrightarrow> find P (xs @ ys) = Some x"
  by (induction xs) (auto split: if_splits)

text \<open>
  C31. The key of an action answers for it for ever: once an action went through, whatever requests are
  served afterwards, the same body goes through without changing anything, and another body under its
  key is refused.
\<close>

theorem booking_key_answers:
  fixes qs :: "booking_request list" and pf :: booking_platform
  assumes "directBookingOperation pf now ids actor i body s = Inr (u, s1)"
  defines "s2 \<equiv> serveAll (bookingServe pf) qs s1"
  assumes "fetch as_id i (bk_sessions s2) = Some a" and "ownedBy later who a"
  shows "directBookingOperation pf later newIds who i body s2 = Inr ((), s2) \<and>
    (\<forall>other. bb_key other = bb_key body \<longrightarrow> bb_hash other \<noteq> bb_hash body \<longrightarrow>
       directBookingOperation pf later newIds who i other s2 = Inl (bookingConflict ''Booking action changed.''))"
proof -
  obtain more where "bk_actions s2 = bk_actions s1 @ more"
    using serveAll_actions unfolding s2_def by blast
  then obtain x where "find (\<lambda>x. bx_sessionId x = i \<and> bx_key x = bb_key body) (bk_actions s2) = Some x"
    "bx_requestHash x = bb_hash body"
    using directBookingOperation_actions [OF assms(1)] find_append_Some by metis
  moreover have "as_id a = i" using assms(3) by (auto dest: fetch_SomeD)
  ultimately show ?thesis using assms(3,4) by (auto simp: directBookingOperation_def require_def)
qed

section \<open>A booking\<close>

definition sampleBooking :: booking_platform where
  "sampleBooking = \<lparr>bp_clock = sampleClock, bp_sha256 = (\<lambda>s. s), bp_parseDate = (\<lambda>_. 374400000), bp_isEmail = (\<lambda>_. True),
     bp_isDateTime = (\<lambda>_. True), bp_copy = (\<lambda>_ k. k), bp_category = (\<lambda>w _. w), bp_dialogueRest = (\<lambda>_. True),
     bp_message = []\<rparr>"

definition sampleTalk :: assistant_session where
  "sampleTalk = \<lparr>as_id = ''s1'', as_capabilityHash = ''tok'', as_locale = ''en'', as_clientId = None,
     as_consultationRequestId = None, as_threadId = None, as_draft = JObj [],
     as_dialogue = JObj [(''mode'', JStr ''BOOKING''), (''consentAt'', JStr ''now'')], as_humanOwned = False,
     as_revision = 0, as_leaseId = None, as_leaseExpiresAt = None, as_expiresAt = 1000\<rparr>"

definition sampleLawyer :: "string \<Rightarrow> staff_member" where
  "sampleLawyer i = \<lparr>sm_id = i, sm_active = True, sm_deleted = False, sm_roleName = ROLE_lawyer, sm_roleActive = True,
     sm_permissions = []\<rparr>"

definition sampleRooms :: booking_db where
  "sampleRooms =
    \<lparr>bk_office = \<lparr>of_appointments = [sampleReserved\<lparr>ap_lawyerId := Some ''l1'', ap_type := AT_CALL,
         ap_startsAt := 4 * MS_PER_DAY + 28800000, ap_endsAt := 4 * MS_PER_DAY + 32400000\<rparr>],
       of_consultations = [sampleWaiting], of_staff = [sampleLawyer ''l1'', sampleLawyer ''l2''],
       of_clients = [], of_notifications = [], of_audit = []\<rparr>,
     bk_settings = [\<lparr>se_settingId = ''g1'', se_key = CONSULTATION_AVAILABILITY_SETTING_KEY,
       se_value = JObj [(''directBooking'', JObj [(''published'', JBool True),
         (''roster'', JArr [JObj [(''weekday'', JNum ''1''), (''lawyerIds'', JArr [JStr ''l1'', JStr ''l2''])]])])],
       se_updatedById = None\<rparr>],
     bk_requests = [], bk_clients = [], bk_sessions = [sampleTalk], bk_turns = [], bk_threads = [], bk_messages = [],
     bk_actions = [], bk_cases = []\<rparr>"

definition sampleConfirm :: booking_body where
  "sampleConfirm = \<lparr>bb_action = ConfirmBooking, bb_key = ''k1'', bb_revision = 0, bb_fullName = Some ''Ann'',
     bb_phone = Some (asciiPoints ''01000000000''), bb_contactChannel = Some CH_PHONE,
     bb_startsAt = Some ''1970-01-05T08:00:00Z'', bb_hash = ''h1''\<rparr>"

definition sampleBookingIds :: booking_ids where
  "sampleBookingIds = \<lparr>bi_client = ''c9'', bi_request = ''q9'', bi_appointment = ''p9'', bi_thread = ''t9'', bi_message = ''m9''\<rparr>"

definition sampleBooker :: booking_request where
  "sampleBooker = \<lparr>bq_now = 50, bq_aborts = (\<lambda>_. False), bq_ids = sampleBookingIds, bq_token = ''tok'',
     bq_body = sampleConfirm, bq_actor = None\<rparr>"

lemma sampleRooms_ok: "deskOk clash (bk_office sampleRooms)"
  by (simp add: deskOk_def sampleRooms_def linkOk_def sampleReserved_def sampleWaiting_def apart_def clash_def)

theorem direct_bookings_apart_witness:
  "noDoubleBooking (of_appointments (bk_office (serveAll (bookingServe sampleBooking) [sampleBooker] sampleRooms)))"
  using direct_bookings_apart [OF sampleRooms_ok, of sampleBooking "[sampleBooker]"] by (simp del: serveAll.simps)

lemma sampleRooms_snapshot: "availabilitySnapshot sampleBooking 50 None sampleRooms = Inr sampleSnapshot"
  by code_simp

text \<open>The second lawyer gets the slot at ten, because the first one is busy.\<close>

lemma sampleDay_slots:
  "filter (fitsHours sampleClock sampleSnapshot everyHour)
     (daySlots sampleClock (nominalQuery sampleSnapshot ''1970-01-05'') ''1970-01-05'') \<noteq> []"
  "find (\<lambda>c. sl_startsAt c = 374400000) (candidatesOf (map (\<lambda>x.
       candidateFor sampleClock sampleSnapshot ''1970-01-05'' x [''l1'', ''l2''])
     (filter (fitsHours sampleClock sampleSnapshot everyHour)
       (daySlots sampleClock (nominalQuery sampleSnapshot ''1970-01-05'') ''1970-01-05'')))) =
    Some (slot.extend sampleTen (candidate.fields ''l2''))"
  by code_simp+

lemma sampleChosen:
  "chosenSlot sampleBooking 50 sampleConfirm None sampleRooms =
    Inr (Some (slot.extend sampleTen (candidate.fields ''l2'')))"
proof -
  let ?fs = "filter (fitsHours sampleClock sampleSnapshot everyHour)
     (daySlots sampleClock (nominalQuery sampleSnapshot ''1970-01-05'') ''1970-01-05'')"
  obtain y ys where fs: "?fs = y # ys" using sampleDay_slots(1) by (cases ?fs) auto
  obtain d where d: "dayOf sampleClock (sn_availability sampleSnapshot) ''1970-01-05'' = Some d"
    "ad_enabled d" "M_PHONE \<in> set (ad_modes d)" "dayRoster sampleSnapshot d = [''l1'', ''l2'']"
    by (rule sampleMonday)
  have "evaluateDay sampleClock sampleSnapshot ''1970-01-05'' everyHour d =
    Inr (Some (statusOfDay (map (\<lambda>x. candidateFor sampleClock sampleSnapshot ''1970-01-05'' x [''l1'', ''l2'']) (y # ys)),
      candidatesOf (map (\<lambda>x. candidateFor sampleClock sampleSnapshot ''1970-01-05'' x [''l1'', ''l2'']) (y # ys))))"
    using d(4) sampleNominal fs by (simp add: evaluateDay_def Let_def)
  moreover have "al_published (sn_availability sampleSnapshot)" by (simp add: sampleSnapshot_def)
  ultimately obtain day where "directBookingDay sampleClock sampleSnapshot ''1970-01-05'' everyHour =
      Inr (Some (day, candidatesOf (map (\<lambda>x. candidateFor sampleClock sampleSnapshot ''1970-01-05'' x [''l1'', ''l2'']) (y # ys))))"
    using d(1-3) sampleMonday_within by (simp add: directBookingDay_def Let_def)
  moreover have "cairoDateString sampleClock 374400000 = ''1970-01-05''" by code_simp
  ultimately show ?thesis
    using sampleDay_slots(2) sampleRooms_snapshot
    by (simp add: chosenSlot_def availableCandidates_def endless_def sampleConfirm_def fs sampleBooking_def)
qed

lemma sampleConfirmed:
  "case directBookingOperation sampleBooking 50 sampleBookingIds None ''s1'' sampleConfirm sampleRooms of
     Inl _ \<Rightarrow> False
   | Inr (u, s1) \<Rightarrow> map ap_lawyerId (of_appointments (bk_office s1)) = [Some ''l1'', Some ''l2''] \<and>
       (case fetch as_id ''s1'' (bk_sessions s1) of None \<Rightarrow> False | Some a \<Rightarrow> ownedBy 60 None a)"
proof -
  have "fetch as_id ''s1'' (bk_sessions sampleRooms) = Some sampleTalk" by code_simp
  moreover have "ownedBy 50 None sampleTalk" by code_simp
  moreover have "find (\<lambda>x. bx_sessionId x = as_id sampleTalk \<and> bx_key x = bb_key sampleConfirm) (bk_actions sampleRooms) = None"
    by code_simp
  moreover have "existingRequest sampleTalk sampleRooms = Inr None" by code_simp
  moreover have "actionPermitted sampleBooking 50 sampleConfirm sampleTalk None = Inr ()" by code_simp
  moreover have "as_revision sampleTalk = bb_revision sampleConfirm \<and> nonEmpty (as_leaseId sampleTalk) = None" by code_simp
  moreover have "bb_action sampleConfirm \<noteq> CancelBooking" by (simp add: sampleConfirm_def)
  moreover have "currentAppointment None = None" by (simp add: currentAppointment_def)
  ultimately show ?thesis
    by (simp add: directBookingOperation_def performAction_def bookOrCall_def sampleChosen) code_simp
qed

theorem booking_key_answers_witness:
  "\<exists>s. map ap_lawyerId (of_appointments (bk_office s)) = [Some ''l1'', Some ''l2''] \<and>
    directBookingOperation sampleBooking 60 sampleBookingIds None ''s1'' sampleConfirm s = Inr ((), s)"
proof -
  obtain u s1 a where "directBookingOperation sampleBooking 50 sampleBookingIds None ''s1'' sampleConfirm sampleRooms =
      Inr (u, s1)"
    and rows: "map ap_lawyerId (of_appointments (bk_office s1)) = [Some ''l1'', Some ''l2'']"
    and a: "fetch as_id ''s1'' (bk_sessions s1) = Some a" "ownedBy 60 None a"
    using sampleConfirmed by (auto split: sum.splits option.splits)
  from booking_key_answers [OF this(1), where qs = "[]" and later = 60 and who = None and a = a
      and newIds = sampleBookingIds] a rows
  show ?thesis by auto
qed

end
