(* ===== verification/ReviewFacts.thy ===== *)
theory ReviewFacts
  imports ConsultationReview BookingFacts
begin

text \<open>
  What holds of the requests of the office, whatever the clients and the staff do with them: nobody is booked
  twice, a closed request stays closed, a request becomes a case once, and a time the client chose is kept.
\<close>

section \<open>Frames\<close>

lemma updateClient_Inr:
  assumes "updateClient c r l k s = Inr (k', s')"
  shows "k' = k \<and> sameDesk s s' \<and> bk_cases s' = bk_cases s \<and> bk_sessions s' = bk_sessions s"
  using assms by (auto simp: updateClient_def assignClientLawyer_def sameDesk_def)

lemma consultationClient_Inr:
  assumes "consultationClient n c r l s = Inr (k, s')"
  shows "sameDesk s s' \<and> bk_cases s' = bk_cases s \<and> bk_sessions s' = bk_sessions s \<and>
    (cr_clientId c \<noteq> None \<longrightarrow> cr_clientId c = Some k)"
  using assms
  by (auto simp: consultationClient_def upsertClientFromConsultation_def sameDesk_def split: option.splits
      dest!: updateClient_Inr)

lemma loadConsultation_Some:
  "loadConsultation i s = Some (c, r) \<longleftrightarrow>
    fetch cr_id i (of_consultations (bk_office s)) = Some c \<and> fetch rc_id i (bk_requests s) = Some r"
  by (auto simp: loadConsultation_def split: option.splits)

lemma desk_frame [simp]:
  "of_appointments (bk_office (auditOffice e s)) = of_appointments (bk_office s)"
  "of_consultations (bk_office (auditOffice e s)) = of_consultations (bk_office s)"
  "of_appointments (bk_office (syncNotices now i os s)) = of_appointments (bk_office s)"
  "of_consultations (bk_office (syncNotices now i os s)) = of_consultations (bk_office s)"
  "of_appointments (bk_office (setAppointments rows s)) = rows"
  "of_consultations (bk_office (setAppointments rows s)) = of_consultations (bk_office s)"
  "of_appointments (bk_office (setConsultations cs s)) = of_appointments (bk_office s)"
  "of_consultations (bk_office (setConsultations cs s)) = cs"
  "of_appointments (bk_office (assignClientLawyer k l s)) = of_appointments (bk_office s)"
  "of_consultations (bk_office (assignClientLawyer k l s)) = of_consultations (bk_office s)"
  by (simp_all add: auditOffice_def syncNotices_def setAppointments_def setConsultations_def assignClientLawyer_def)

lemma modify_same [simp]: "modify key k (\<lambda>r. r) rows = rows"
  by (induction rows) simp_all


section \<open>What an operation that went through did\<close>

lemma scheduleOperation_success:
  assumes "scheduleOperation pf now ids actor i body t s = Inr (u, s')"
  obtains c r k s1 g e where "loadConsultation i s = Some (c, r)" and "schedulable c body s" and "now < t"
    and "e = appointmentEndAt t (si_durationMinutes body)"
    and "clientsChoiceKept pf now r t e (si_mode body) s = Inr ()"
    and "consultationClient (vi_client ids) c r (si_assignedLawyerId body) s = Inr (k, s1)"
    and "assertNoAppointmentConflict (Some t) (Some e) (LawyerScope (si_assignedLawyerId body)) None
      (of_appointments (bk_office s)) = Inr ()"
    and "assertNoAppointmentConflict (Some t) (Some e) (ClientScope k) None (of_appointments (bk_office s)) = Inr ()"
    and "vi_appointment ids \<notin> ap_id ` set (of_appointments (bk_office s))"
    and "of_appointments (bk_office s') = of_appointments (bk_office s) @ [scheduledRow pf (vi_appointment ids) i body k t e]"
    and "of_consultations (bk_office s') =
      updateWhere (outcomeTarget i O_PENDING (si_expectedOutcomeVersion body)) g (of_consultations (bk_office s))"
    and "g = (\<lambda>q. (reviewedBy actor now q)\<lparr>cr_clientId := Some k, cr_assignedLawyerId := Some (si_assignedLawyerId body),
         cr_status := C_SCHEDULED, cr_outcomeVersion := cr_outcomeVersion q + 1\<rparr>)"
    and "bk_cases s' = bk_cases s"
proof -
  let ?e = "appointmentEndAt t (si_durationMinutes body)"
  obtain c r k s1 rows where steps: "now < t" "loadConsultation i s = Some (c, r)" "schedulable c body s"
    "clientsChoiceKept pf now r t ?e (si_mode body) s = Inr ()"
    "consultationClient (vi_client ids) c r (si_assignedLawyerId body) s = Inr (k, s1)"
    "assertNoAppointmentConflict (Some t) (Some ?e) (LawyerScope (si_assignedLawyerId body)) None
      (of_appointments (bk_office s1)) = Inr ()"
    "assertNoAppointmentConflict (Some t) (Some ?e) (ClientScope k) None (of_appointments (bk_office s1)) = Inr ()"
    "insertRow ''appointments'' ap_id (scheduledRow pf (vi_appointment ids) i body k t ?e)
      (of_appointments (bk_office s1)) = Inr rows"
    "s' = auditOffice (scheduledEvent actor i body k (vi_appointment ids) t ?e)
        (syncNotices now i O_PENDING (setConsultations (updateWhere (outcomeTarget i O_PENDING (si_expectedOutcomeVersion body))
          (\<lambda>q. (reviewedBy actor now q)\<lparr>cr_clientId := Some k, cr_assignedLawyerId := Some (si_assignedLawyerId body),
             cr_status := C_SCHEDULED, cr_outcomeVersion := cr_outcomeVersion q + 1\<rparr>)
          (of_consultations (bk_office (setAppointments rows s1)))) (setAppointments rows s1)))"
    using assms
    by (auto simp: scheduleOperation_def startsInFuture_def Let_def simp del: insertRow_Inr split: option.splits)
  from consultationClient_Inr [OF steps(5)] have desk: "sameDesk s s1" "bk_cases s1 = bk_cases s" by blast+
  show thesis
    by (rule that [OF steps(2,3,1) refl steps(4,5) _ _ _ _ _ refl])
      (use steps(6-9) desk in \<open>auto simp: sameDesk_def scheduledRow_def auditOffice_def syncNotices_def
        setConsultations_def setAppointments_def\<close>)
qed

lemma updateUnchanged_Inr [simp]:
  "updateUnchanged c f s = Inr s' \<longleftrightarrow>
    length (filter (unchangedRow c) (of_consultations (bk_office s))) = 1 \<and>
    s' = setConsultations (updateWhere (unchangedRow c) f (of_consultations (bk_office s))) s"
  by (auto simp: updateUnchanged_def)

lemma cases_frame [simp]:
  "bk_cases (setConsultations x s) = bk_cases s" "bk_cases (setAppointments y s) = bk_cases s"
  "bk_cases (syncNotices now i os s) = bk_cases s" "bk_cases (auditOffice e s) = bk_cases s"
  "bk_cases (assignClientLawyer k l s) = bk_cases s"
  by (simp_all add: setConsultations_def setAppointments_def syncNotices_def auditOffice_def assignClientLawyer_def)

lemma giveClient_Inr:
  "giveClient k l s = Inr s' \<Longrightarrow> of_appointments (bk_office s') = of_appointments (bk_office s) \<and>
    of_consultations (bk_office s') = of_consultations (bk_office s) \<and> bk_cases s' = bk_cases s"
  by (auto simp: giveClient_def split: option.splits)

lemma primary_moves [simp]:
  "of_consultations (bk_office (moveToLawyer p l s)) = of_consultations (bk_office s)"
  "of_consultations (bk_office (cancelPrimary p s)) = of_consultations (bk_office s)"
  "bk_cases (moveToLawyer p l s) = bk_cases s" "bk_cases (cancelPrimary p s) = bk_cases s"
  by (simp_all add: moveToLawyer_def cancelPrimary_def split: option.split)

lemma assignOperation_success:
  assumes "assignOperation pf now actor i l s = Inr (u, s')"
  obtains c b primary where "fetch cr_id i (of_consultations (bk_office s)) = Some c" and "\<not> closedConsultation c"
    and "b \<longleftrightarrow> cr_status c = C_SCHEDULED \<and> cr_secretaryReviewedAt c = None"
    and "primary = getPrimaryConsultationAppointment i (of_appointments (bk_office s))"
    and "lawyerFreeFor primary l s = Inr ()"
    and "of_consultations (bk_office s') =
      updateWhere (unchangedRow c) (assignedRow pf now actor b l) (of_consultations (bk_office s))"
    and "of_appointments (bk_office s') = of_appointments (bk_office (moveToLawyer primary l s))"
    and "bk_cases s' = bk_cases s"
proof -
  have rows: "of_appointments (bk_office (moveToLawyer p l y)) = of_appointments (bk_office (moveToLawyer p l x))"
    if "of_appointments (bk_office y) = of_appointments (bk_office x)" for p x y
    using that by (simp add: moveToLawyer_def split: option.split)
  from assms obtain c b s3 where c: "fetch cr_id i (of_consultations (bk_office s)) = Some c" "\<not> closedConsultation c"
    and b: "b \<longleftrightarrow> cr_status c = C_SCHEDULED \<and> cr_secretaryReviewedAt c = None"
    and free: "lawyerFreeFor (getPrimaryConsultationAppointment i (of_appointments (bk_office s))) l s = Inr ()"
    and given: "giveClient (cr_clientId c) l (moveToLawyer (getPrimaryConsultationAppointment i (of_appointments (bk_office s))) l
       (let s1 = setConsultations (updateWhere (unchangedRow c) (assignedRow pf now actor b l)
           (of_consultations (bk_office s))) s
        in if b then syncNotices now i (cr_outcomeStatus c) s1 else s1)) = Inr s3"
    and s': "s' = auditOffice (assignedEvent actor c l) s3"
    unfolding assignOperation_def Let_def by (clarsimp split: option.splits)
  note g = giveClient_Inr [OF given]
  show thesis
    by (rule that [OF c b refl free]) (use g s' in \<open>auto simp: Let_def intro!: rows\<close>)
qed

lemma reviewOperation_success:
  assumes "reviewOperation now actor i note s = Inr (href, s')"
  obtains c where "fetch cr_id i (of_consultations (bk_office s)) = Some c" and "\<not> closedConsultation c"
    and "of_consultations (bk_office s') = updateWhere (unchangedRow c)
      (\<lambda>q. (reviewedBy actor now q)\<lparr>cr_secretaryReviewNote := filled note\<rparr>) (of_consultations (bk_office s))"
    and "of_appointments (bk_office s') = of_appointments (bk_office s)" and "bk_cases s' = bk_cases s"
  using assms unfolding reviewOperation_def Let_def by (clarsimp split: option.splits)

lemma rejectOperation_success:
  assumes "rejectOperation now actor i body s = Inr (u, s')"
  obtains c where "fetch cr_id i (of_consultations (bk_office s)) = Some c" and "\<not> closedConsultation c"
    and "of_consultations (bk_office s') = updateWhere (\<lambda>q. unchangedRow c q \<and> cr_status q = cr_status c)
      (rejectedRow now actor body) (of_consultations (bk_office s))"
    and "of_appointments (bk_office s') = of_appointments (bk_office
      (cancelPrimary (getPrimaryConsultationAppointment i (of_appointments (bk_office s))) s))"
    and "bk_cases s' = bk_cases s"
proof -
  have rows: "of_appointments (bk_office (cancelPrimary p y)) = of_appointments (bk_office (cancelPrimary p x))"
    if "of_appointments (bk_office y) = of_appointments (bk_office x)" for p x y
    using that by (simp add: cancelPrimary_def split: option.split)
  from assms obtain c where c: "fetch cr_id i (of_consultations (bk_office s)) = Some c" "\<not> closedConsultation c"
    and s': "s' = auditOffice (rejectedEvent actor c body (getPrimaryConsultationAppointment i (of_appointments (bk_office s))))
      (syncNotices now i O_CANCELLED (cancelPrimary (getPrimaryConsultationAppointment i (of_appointments (bk_office s)))
        (setConsultations (updateWhere (\<lambda>q. unchangedRow c q \<and> cr_status q = cr_status c) (rejectedRow now actor body)
          (of_consultations (bk_office s))) s)))"
    unfolding rejectOperation_def Let_def by (clarsimp split: option.splits)
  show thesis by (rule that [OF c]) (use s' in \<open>auto intro!: rows\<close>)
qed

text \<open>The cases grow by one, and the follow-up takes the client of the request and the lawyer of the case.\<close>

lemma insertCase_Inr:
  "insertCase k s = Inr s' \<longleftrightarrow> s' = s\<lparr>bk_cases := bk_cases s @ [k]\<rparr> \<and> lc_id k \<notin> lc_id ` set (bk_cases s) \<and>
    lc_internalFileNumber k \<notin> lc_internalFileNumber ` set (bk_cases s) \<and>
    lc_consultationRequestId k \<notin> lc_consultationRequestId ` set (bk_cases s)"
  by (auto simp: insertCase_def)

lemma convertOperation_success:
  assumes "convertOperation pf now ids actor i body s = Inr (k, s')"
  obtains c r l client where "loadConsultation i s = Some (c, r)" and "convertible actor c = Inr ()"
    and "conversionLawyer actor c body = Some l" and "followUpLawyerFree body l s = Inr ()"
    and "cr_clientId c \<noteq> None \<longrightarrow> cr_clientId c = Some client"
    and "k = newCase pf now (vi_case ids) c r body client l"
    and "bk_cases s' = bk_cases s @ [k]" and "lc_consultationRequestId k \<notin> lc_consultationRequestId ` set (bk_cases s)"
    and "of_consultations (bk_office s') = modify cr_id i (convertedRow client l (lc_id k))
      (of_consultations (bk_office s))"
    and "case vb_appointment body of None \<Rightarrow> of_appointments (bk_office s') = of_appointments (bk_office s)
      | Some x \<Rightarrow> of_appointments (bk_office s') = of_appointments (bk_office s) @
            [followUpRow pf (vi_appointment ids) k i body x] \<and>
          vi_appointment ids \<notin> ap_id ` set (of_appointments (bk_office s))"
proof -
  from assms obtain c r l client s1 s3 where load: "loadConsultation i s = Some (c, r)"
    and ok: "convertible actor c = Inr ()" and l: "conversionLawyer actor c body = Some l"
    and free: "followUpLawyerFree body l s = Inr ()"
    and made: "consultationClient (vi_client ids) c r l s = Inr (client, s1)"
    and k: "k = newCase pf now (vi_case ids) c r body client l"
    and new: "lc_consultationRequestId k \<notin> lc_consultationRequestId ` set (bk_cases s1)"
    and follow: "bookFollowUp pf ids k i body (s1\<lparr>bk_cases := bk_cases s1 @ [k]\<rparr>) = Inr s3"
    and s': "bk_cases s' = bk_cases s3" "of_appointments (bk_office s') = of_appointments (bk_office s3)"
      "of_consultations (bk_office s') = modify cr_id i (convertedRow client l (lc_id k))
        (of_consultations (bk_office s3))"
    unfolding convertOperation_def Let_def by (clarsimp simp: insertCase_Inr split: option.splits)
  from consultationClient_Inr [OF made] have desk: "sameDesk s s1" "bk_cases s1 = bk_cases s"
    "cr_clientId c \<noteq> None \<longrightarrow> cr_clientId c = Some client" by blast+
  show thesis
    by (rule that [OF load ok l free desk(3) k])
      (use desk new follow s' in \<open>auto simp: bookFollowUp_def sameDesk_def followUpRow_def split: option.splits\<close>)
qed


section \<open>Requests of clients and staff\<close>

datatype office_request =
    Books booking_request
  | Schedules "nat \<Rightarrow> bool" int int review_ids principal string schedule_input
  | Assigns "nat \<Rightarrow> bool" int principal string string
  | Reviews "nat \<Rightarrow> bool" int principal string "string option"
  | Rejects "nat \<Rightarrow> bool" int principal string reject_input
  | Converts "nat \<Rightarrow> bool" int review_ids principal string convert_input
  | Decides outcome_request

definition quiet :: "'a api \<times> 's \<Rightarrow> unit api \<times> 's" where
  "quiet x = (case fst x of Inl e \<Rightarrow> Inl e | Inr _ \<Rightarrow> Inr (), snd x)"

definition deskServe :: "booking_platform \<Rightarrow> review_platform \<Rightarrow> office_request \<Rightarrow> booking_db \<Rightarrow> unit api \<times> booking_db" where
  "deskServe bp pf q s =
    (case q of
       Books b \<Rightarrow> bookingServe bp b s
     | Schedules ab now later ids actor i raw \<Rightarrow> scheduleConsultation pf ab now later ids actor i raw s
     | Assigns ab now actor i raw \<Rightarrow> assignConsultation pf ab now actor i raw s
     | Reviews ab now actor i raw \<Rightarrow> quiet (reviewConsultation pf ab now actor i raw s)
     | Rejects ab now actor i raw \<Rightarrow> rejectConsultation pf ab now actor i raw s
     | Converts ab now ids actor i raw \<Rightarrow> quiet (convertConsultationToCase pf ab now ids actor i raw s)
     | Decides o1 \<Rightarrow> (case outcomeServe (cw_outcome pf) o1 (bk_office s) of
         (r, o2) \<Rightarrow> quiet (r, s\<lparr>bk_office := o2\<rparr>)))"

text \<open>A request is refused and leaves the tables, or its operation ran.\<close>

lemma scheduleConsultation_cases:
  assumes "scheduleConsultation pf ab now later ids actor i raw s = (r, s')"
  obtains e where "r = Inl e" "s' = s"
    | body t u where "r = Inr ()" "scheduleOperation pf later ids actor i body t s = Inr (u, s')"
  using assms unfolding scheduleConsultation_def
  by (auto split: sum.splits prod.splits elim!: runTransaction_cases intro: that)

lemma assignConsultation_cases:
  assumes "assignConsultation pf ab now actor i raw s = (r, s')"
  obtains e where "r = Inl e" "s' = s"
    | l u where "r = Inr ()" "assignOperation pf now actor i l s = Inr (u, s')"
  using assms unfolding assignConsultation_def
  by (auto split: sum.splits prod.splits elim!: runTransaction_cases intro: that)

lemma reviewConsultation_cases:
  assumes "reviewConsultation pf ab now actor i raw s = (r, s')"
  obtains e where "r = Inl e" "s' = s"
    | note1 href where "r = Inr href" "reviewOperation now actor i note1 s = Inr (href, s')"
  using assms unfolding reviewConsultation_def
  by (auto split: sum.splits prod.splits elim!: runTransaction_cases intro: that)

lemma rejectConsultation_cases:
  assumes "rejectConsultation pf ab now actor i raw s = (r, s')"
  obtains e where "r = Inl e" "s' = s"
    | body u where "r = Inr ()" "rejectOperation now actor i body s = Inr (u, s')"
  using assms unfolding rejectConsultation_def
  by (auto split: sum.splits prod.splits elim!: runTransaction_cases intro: that)

lemma convertConsultationToCase_cases:
  assumes "convertConsultationToCase pf ab now ids actor i raw s = (r, s')"
  obtains e where "r = Inl e" "s' = s"
    | body k where "r = Inr k" "convertConsultationSchema (cw_outcome pf) raw = Inr body"
      "convertOperation pf now ids actor i body s = Inr (k, s')"
  using assms unfolding convertConsultationToCase_def
  by (auto simp: parseWithSchema_eq split: sum.splits prod.splits elim!: runTransaction_cases intro: that)

lemma reopenMissedConsultation_cases:
  assumes "reopenMissedConsultation pf ab now actor i raw s = (r, s')"
  obtains e where "r = Inl e" "s' = s"
    | body t where "r = Inr ()" "reopenOperation now actor i body t s = Inr ((), s')"
  using assms unfolding reopenMissedConsultation_def
  by (auto split: sum.splits prod.splits elim!: runTransaction_cases intro: that)

text \<open>A conversion that brings an appointment of its own.\<close>

definition bringsFollowUp :: "office_request \<Rightarrow> bool" where
  "bringsFollowUp q = (case q of Converts _ _ _ _ _ raw \<Rightarrow> nonEmpty (vt_appointmentStartsAt raw) \<noteq> None | _ \<Rightarrow> False)"

lemma convertSchema_appointment:
  assumes "convertConsultationSchema pf raw = Inr body"
  shows "vb_appointment body = None \<longleftrightarrow> nonEmpty (vt_appointmentStartsAt raw) = None"
proof -
  define starts where "starts = (case nonEmpty (vt_appointmentStartsAt raw) of None \<Rightarrow> Some None
    | Some t \<Rightarrow> map_option Some (ou_datetime pf t))"
  have "starts \<noteq> None"
    using assms unfolding convertConsultationSchema_def starts_def [symmetric] Let_def
    by (simp add: schemaIssue_def split: if_splits)
  moreover have "vb_appointment body = None \<longleftrightarrow> the starts = None"
    using assms unfolding convertConsultationSchema_def starts_def [symmetric] Let_def
    by (auto split: if_splits)
  ultimately show ?thesis by (auto simp: starts_def split: option.splits)
qed


section \<open>Nobody is booked twice\<close>

text \<open>Two active appointments of one lawyer, or of one client when clients count, at one time.\<close>

definition bookedTwice :: "bool \<Rightarrow> appointment \<Rightarrow> appointment \<Rightarrow> bool" where
  "bookedTwice clients a b \<longleftrightarrow> ap_id a \<noteq> ap_id b \<and> activeAppointment a \<and> activeAppointment b \<and>
     ((ap_lawyerId a \<noteq> None \<and> ap_lawyerId a = ap_lawyerId b) \<or> (clients \<and> ap_clientId a = ap_clientId b)) \<and>
     appointmentIntervalsOverlap (ap_startsAt a) (ap_endsAt a) (ap_startsAt b) (ap_endsAt b)"

lemma bookedTwice_True: "bookedTwice True = doubleBooked"
  by (intro ext) (auto simp: bookedTwice_def doubleBooked_def sharesPerson_def)

lemma bookedTwice_sym: "bookedTwice w a b \<Longrightarrow> bookedTwice w b a"
  unfolding bookedTwice_def by (metis overlap_symmetric)

interpretation desks: timetable "bookedTwice w" for w
  by unfold_locales (auto simp: bookedTwice_sym, auto simp: bookedTwice_def clash_def sharesPerson_def)

text \<open>A row at a time its lawyer and, where clients count, its client are free.\<close>

lemma free_row:
  assumes "assertNoAppointmentConflict (Some t) (Some e) (LawyerScope l) ex rows = Inr ()"
    and "w \<Longrightarrow> assertNoAppointmentConflict (Some t) (Some e) (ClientScope (ap_clientId x)) ex rows = Inr ()"
    and "ap_lawyerId x = Some l" and "ap_startsAt x = t" and "ap_endsAt x = e" and "b \<in> set rows"
    and "\<And>i. ex = Some i \<Longrightarrow> ap_id b \<noteq> i"
  shows "\<not> bookedTwice w x b"
proof
  assume twice: "bookedTwice w x b"
  have away: "case ex of None \<Rightarrow> True | Some i \<Rightarrow> i = [] \<or> ap_id b \<noteq> i" using assms(7) by (cases ex) auto
  have "\<not> appointmentConflictWhere t e (LawyerScope l) ex b"
    using assertNoAppointmentConflict_Inr(2) [OF assms(1,6)] .
  moreover have "\<not> appointmentConflictWhere t e (ClientScope (ap_clientId x)) ex b" if w
    using assertNoAppointmentConflict_Inr(2) [OF assms(2) [OF that] assms(6)] .
  ultimately show False
    using twice away assms(3-5)
    by (auto simp: bookedTwice_def appointmentConflictWhere_def scopeCovers_def activeAppointment_def
        appointmentIntervalsOverlap_def)
qed

lemma deskOk_requests:
  assumes ok: "deskOk R s" and apps: "of_appointments s' = of_appointments s"
    and cons: "of_consultations s' = updateWhere p g (of_consultations s)" and g: "\<And>c. cr_id (g c) = cr_id c"
    and client: "\<And>c. c \<in> set (of_consultations s) \<Longrightarrow> p c \<Longrightarrow> cr_clientId c \<noteq> None \<Longrightarrow> cr_clientId (g c) = cr_clientId c"
  shows "deskOk R s'"
proof -
  have "linkOk s'"
    unfolding linkOk_def
  proof (intro ballI allI impI)
    fix a j assume "a \<in> set (of_appointments s')" "ap_consultationRequestId a = Some j"
    then obtain c where c: "c \<in> set (of_consultations s)" "cr_id c = j" "cr_clientId c = Some (ap_clientId a)"
      using ok unfolding deskOk_def linkOk_def apps by blast
    let ?c = "if p c then g c else c"
    have "?c \<in> set (of_consultations s')" using c(1) by (auto simp: cons set_updateWhere)
    moreover have "cr_id ?c = j" "cr_clientId ?c = Some (ap_clientId a)" using c g client by auto
    ultimately show "\<exists>c\<in>set (of_consultations s'). cr_id c = j \<and> cr_clientId c = Some (ap_clientId a)" by blast
  qed
  moreover have "map cr_id (of_consultations s') = map cr_id (of_consultations s)"
    using g by (simp add: cons map_key_updateWhere)
  ultimately show ?thesis using ok by (simp add: deskOk_def apps)
qed

text \<open>A new row for a request whose own row changes with it.\<close>

lemma deskOk_grow:
  assumes ok: "deskOk (bookedTwice w) s" and apps: "of_appointments s' = of_appointments s @ [a]"
    and cons: "of_consultations s' = updateWhere p g (of_consultations s)" and g: "\<And>c. cr_id (g c) = cr_id c"
    and client: "\<And>c. c \<in> set (of_consultations s) \<Longrightarrow> p c \<Longrightarrow> cr_clientId c \<noteq> None \<Longrightarrow> cr_clientId (g c) = cr_clientId c"
    and fresh: "ap_id a \<notin> ap_id ` set (of_appointments s)"
    and c: "c \<in> set (of_consultations s)" "p c" "ap_consultationRequestId a = Some (cr_id c)"
      "cr_clientId (g c) = Some (ap_clientId a)"
    and free: "\<And>b. b \<in> set (of_appointments s) \<Longrightarrow> \<not> bookedTwice w a b"
  shows "deskOk (bookedTwice w) s'"
proof -
  let ?m = "s\<lparr>of_consultations := of_consultations s'\<rparr>"
  have "deskOk (bookedTwice w) ?m" by (rule deskOk_requests [OF ok _ _ g client]) (simp_all add: cons)
  then show ?thesis
  proof (rule desks.deskOk_append)
    show "g c \<in> set (of_consultations ?m)" using c by (auto simp: cons set_updateWhere)
  qed (use apps fresh c g free in simp_all)
qed

lemma deskOk_distinct:
  assumes "deskOk R s" and "fetch cr_id i (of_consultations s) = Some c" and "q \<in> set (of_consultations s)" and "cr_id q = i"
  shows "q = c"
  using assms unfolding deskOk_def by (metis fetch_distinct option.inject)

lemma schedule_desk:
  assumes ok: "deskOk (bookedTwice w) (bk_office s)" and op: "scheduleOperation pf now ids actor i body t s = Inr (u, s')"
  shows "deskOk (bookedTwice w) (bk_office s')"
  using op
proof (rule scheduleOperation_success)
  fix c r k s1 g e
  let ?p = "outcomeTarget i O_PENDING (si_expectedOutcomeVersion body)"
  assume load: "loadConsultation i s = Some (c, r)" and can: "schedulable c body s"
    and made: "consultationClient (vi_client ids) c r (si_assignedLawyerId body) s = Inr (k, s1)"
    and free: "assertNoAppointmentConflict (Some t) (Some e) (LawyerScope (si_assignedLawyerId body)) None
        (of_appointments (bk_office s)) = Inr ()"
      "assertNoAppointmentConflict (Some t) (Some e) (ClientScope k) None (of_appointments (bk_office s)) = Inr ()"
    and fresh: "vi_appointment ids \<notin> ap_id ` set (of_appointments (bk_office s))"
    and apps: "of_appointments (bk_office s') = of_appointments (bk_office s) @ [scheduledRow pf (vi_appointment ids) i body k t e]"
    and cons: "of_consultations (bk_office s') = updateWhere ?p g (of_consultations (bk_office s))"
    and g: "g = (\<lambda>q. (reviewedBy actor now q)\<lparr>cr_clientId := Some k, cr_assignedLawyerId := Some (si_assignedLawyerId body),
         cr_status := C_SCHEDULED, cr_outcomeVersion := cr_outcomeVersion q + 1\<rparr>)"
  have c: "fetch cr_id i (of_consultations (bk_office s)) = Some c" using load by (simp add: loadConsultation_Some)
  from fetch_SomeD [OF c] have c_in: "c \<in> set (of_consultations (bk_office s))" "cr_id c = i" by simp_all
  show ?thesis
  proof (rule deskOk_grow [OF ok apps cons _ _ _ c_in(1)])
    show "cr_clientId (g q) = cr_clientId q"
      if "q \<in> set (of_consultations (bk_office s))" "?p q" "cr_clientId q \<noteq> None" for q
      using that deskOk_distinct [OF ok c that(1)] consultationClient_Inr [OF made] by (auto simp: g outcomeTarget_def)
    show "\<not> bookedTwice w (scheduledRow pf (vi_appointment ids) i body k t e) b" if "b \<in> set (of_appointments (bk_office s))" for b
      by (rule free_row [OF free(1) _ _ _ _ that]) (simp_all add: free scheduledRow_def)
  qed (use fresh can c_in in \<open>auto simp: g reviewedBy_def scheduledRow_def schedulable_def outcomeTarget_def\<close>)
qed

lemma moved_desk:
  assumes ok: "deskOk (bookedTwice w) s" and apps: "of_appointments s' = modify ap_id (ap_id a) f (of_appointments s)"
    and a: "a \<in> set (of_appointments s)"
    and cons: "of_consultations s' = updateWhere p g (of_consultations s)"
    and f: "\<And>a. ap_id (f a) = ap_id a \<and> ap_clientId (f a) = ap_clientId a \<and>
      ap_consultationRequestId (f a) = ap_consultationRequestId a"
    and g: "\<And>c. cr_id (g c) = cr_id c \<and> cr_clientId (g c) = cr_clientId c"
    and apart: "\<And>b. b \<in> set (of_appointments s) \<Longrightarrow> ap_id b \<noteq> ap_id a \<Longrightarrow> \<not> bookedTwice w (f a) b"
  shows "deskOk (bookedTwice w) s'"
proof -
  let ?m = "s\<lparr>of_consultations := of_consultations s'\<rparr>"
  have m: "deskOk (bookedTwice w) ?m" by (rule deskOk_requests [OF ok, where p = p and g = g]) (simp_all add: cons g)
  have "apart (bookedTwice w) (of_appointments s')"
    unfolding apps by (rule desks.apart_modify) (use ok a apart f in \<open>auto simp: deskOk_def\<close>)
  then show ?thesis
    by (intro desks.deskOk_modify [OF m, where i = "[]" and g = "\<lambda>c. c" and f = f and k = "ap_id a"])
      (simp_all add: apps f)
qed

lemma assign_desk:
  assumes ok: "deskOk (bookedTwice w) (bk_office s)" and op: "assignOperation pf now actor i l s = Inr (u, s')"
  shows "deskOk (bookedTwice w) (bk_office s')"
  using op
proof (rule assignOperation_success)
  fix c b primary
  assume primary: "primary = getPrimaryConsultationAppointment i (of_appointments (bk_office s))"
    and free: "lawyerFreeFor primary l s = Inr ()"
    and cons: "of_consultations (bk_office s') =
      updateWhere (unchangedRow c) (assignedRow pf now actor b l) (of_consultations (bk_office s))"
    and apps: "of_appointments (bk_office s') = of_appointments (bk_office (moveToLawyer primary l s))"
  have g: "cr_id (assignedRow pf now actor b l q) = cr_id q \<and> cr_clientId (assignedRow pf now actor b l q) = cr_clientId q" for q
    by (simp add: assignedRow_def Let_def)
  show ?thesis
  proof (cases primary)
    case None
    with apps show ?thesis by (intro deskOk_requests [OF ok _ cons]) (simp_all add: moveToLawyer_def g)
  next
    case (Some a)
    have a: "a \<in> set (of_appointments (bk_office s))" using primary_in primary Some by metis
    have apart: "\<not> bookedTwice w (a\<lparr>ap_lawyerId := Some l\<rparr>) x"
      if x: "x \<in> set (of_appointments (bk_office s))" "ap_id x \<noteq> ap_id a" for x
    proof (cases "activeAppointment a")
      case True
      then have "assertNoAppointmentConflict (Some (ap_startsAt a)) (Some (ap_endsAt a)) (LawyerScope l) (Some (ap_id a))
          (of_appointments (bk_office s)) = Inr ()"
        using free Some by (simp add: lawyerFreeFor_def activeAppointment_def)
      then have "\<not> bookedTwice False (a\<lparr>ap_lawyerId := Some l\<rparr>) x" by (rule free_row) (use x in auto)
      moreover have "\<not> bookedTwice w a x" using ok a x(1) by (simp add: deskOk_def apart_def)
      ultimately show ?thesis by (auto simp: bookedTwice_def activeAppointment_def)
    qed (simp add: bookedTwice_def activeAppointment_def)
    show ?thesis
    proof (rule moved_desk [OF ok _ a cons])
      show "of_appointments (bk_office s') = modify ap_id (ap_id a) (\<lambda>q. q\<lparr>ap_lawyerId := Some l\<rparr>)
          (of_appointments (bk_office s))"
        using apps Some by (simp add: moveToLawyer_def)
    qed (use g apart in simp_all)
  qed
qed

lemma review_desk:
  assumes ok: "deskOk (bookedTwice w) (bk_office s)" and op: "reviewOperation now actor i note1 s = Inr (href, s')"
  shows "deskOk (bookedTwice w) (bk_office s')"
  using op by (rule reviewOperation_success) (erule (1) deskOk_requests [OF ok], auto simp: reviewedBy_def)

lemma cancelled_desk:
  assumes ok: "deskOk (bookedTwice w) s" and a: "a \<in> set (of_appointments s)"
    and apps: "of_appointments s' = modify ap_id (ap_id a) (\<lambda>q. q\<lparr>ap_status := st\<rparr>) (of_appointments s)"
    and st: "st \<notin> set ACTIVE_APPOINTMENT_STATUSES" and cons: "of_consultations s' = updateWhere p g (of_consultations s)"
    and g: "\<And>c. cr_id (g c) = cr_id c \<and> cr_clientId (g c) = cr_clientId c"
  shows "deskOk (bookedTwice w) s'"
  by (rule moved_desk [OF ok apps a cons _ g]) (use st in \<open>simp_all add: bookedTwice_def activeAppointment_def\<close>)

lemma reject_desk:
  assumes ok: "deskOk (bookedTwice w) (bk_office s)" and op: "rejectOperation now actor i body s = Inr (u, s')"
  shows "deskOk (bookedTwice w) (bk_office s')"
  using op
proof (rule rejectOperation_success)
  fix c
  let ?primary = "getPrimaryConsultationAppointment i (of_appointments (bk_office s))"
  assume cons: "of_consultations (bk_office s') = updateWhere (\<lambda>q. unchangedRow c q \<and> cr_status q = cr_status c)
      (rejectedRow now actor body) (of_consultations (bk_office s))"
    and apps: "of_appointments (bk_office s') = of_appointments (bk_office (cancelPrimary ?primary s))"
  show ?thesis
  proof (cases ?primary)
    case None
    with apps show ?thesis by (intro deskOk_requests [OF ok _ cons]) (simp_all add: cancelPrimary_def rejectedRow_def)
  next
    case (Some a)
    have a: "a \<in> set (of_appointments (bk_office s))" using primary_in [OF Some] by simp
    show ?thesis
      by (rule cancelled_desk [OF ok a _ _ cons, where st = A_CANCELLED])
        (use apps Some in \<open>simp_all add: cancelPrimary_def rejectedRow_def ACTIVE_APPOINTMENT_STATUSES_def\<close>)
  qed
qed

text \<open>A conversion asks for the lawyer's time only.\<close>

lemma convert_desk:
  assumes ok: "deskOk (bookedTwice w) (bk_office s)" and op: "convertOperation pf now ids actor i body s = Inr (k, s')"
    and quiet: "w \<Longrightarrow> vb_appointment body = None"
  shows "deskOk (bookedTwice w) (bk_office s')"
  using op
proof (rule convertOperation_success)
  fix c r l client
  let ?g = "convertedRow client l (lc_id k)"
  assume load: "loadConsultation i s = Some (c, r)" and free: "followUpLawyerFree body l s = Inr ()"
    and client: "cr_clientId c \<noteq> None \<longrightarrow> cr_clientId c = Some client"
    and k: "k = newCase pf now (vi_case ids) c r body client l"
    and cons: "of_consultations (bk_office s') = modify cr_id i ?g (of_consultations (bk_office s))"
    and apps: "case vb_appointment body of None \<Rightarrow> of_appointments (bk_office s') = of_appointments (bk_office s)
      | Some x \<Rightarrow> of_appointments (bk_office s') = of_appointments (bk_office s) @
            [followUpRow pf (vi_appointment ids) k i body x] \<and>
          vi_appointment ids \<notin> ap_id ` set (of_appointments (bk_office s))"
  have c: "fetch cr_id i (of_consultations (bk_office s)) = Some c" using load by (simp add: loadConsultation_Some)
  from fetch_SomeD [OF c] have c_in: "c \<in> set (of_consultations (bk_office s))" "cr_id c = i" by simp_all
  have same: "cr_clientId (?g q) = cr_clientId q"
    if "q \<in> set (of_consultations (bk_office s))" "cr_id q = i" "cr_clientId q \<noteq> None" for q
    using that deskOk_distinct [OF ok c that(1)] client by (auto simp: convertedRow_def)
  show ?thesis
  proof (cases "vb_appointment body")
    case None
    with apps show ?thesis
      by (intro deskOk_requests [OF ok _ cons [unfolded modify_def]]) (use same in \<open>auto simp: convertedRow_def\<close>)
  next
    case (Some x)
    obtain a b where x: "x = (a, b)" by (cases x)
    have "assertNoAppointmentConflict (Some a) (Some b) (LawyerScope l) None (of_appointments (bk_office s)) = Inr ()"
      using free Some x by (simp add: followUpLawyerFree_def)
    then have "\<not> bookedTwice w (followUpRow pf (vi_appointment ids) k i body x) z"
      if "z \<in> set (of_appointments (bk_office s))" for z
      by (rule free_row) (use that quiet Some x k in \<open>auto simp: followUpRow_def newCase_def\<close>)
    moreover have "of_appointments (bk_office s') = of_appointments (bk_office s) @
        [followUpRow pf (vi_appointment ids) k i body x]"
      and "vi_appointment ids \<notin> ap_id ` set (of_appointments (bk_office s))"
      using apps Some by simp_all
    ultimately show ?thesis
      using same c_in k
      by (intro deskOk_grow [OF ok _ cons [unfolded modify_def] _ _ _ c_in(1)]) (auto simp: followUpRow_def newCase_def convertedRow_def)
  qed
qed

lemma decide_desk:
  assumes ok: "deskOk (bookedTwice w) s"
  shows "deskOk (bookedTwice w) (snd (outcomeServe pf q s))"
proof -
  obtain x s' where run: "outcomeServe pf q s = (x, s')" by fastforce
  from run have "deskOk (bookedTwice w) s'"
  proof (rule outcomeServe_cases)
    fix now actor body b assume "outcomeOperation now actor (oq_id q) body s = Inr (b, s')"
    then show ?thesis
    proof (rule outcomeOperation_success)
      fix c st
      assume st: "appointmentStatusForConsultationOutcome (ob_status body) = Some st"
        and cons: "of_consultations s' = updateWhere (outcomeTarget (oq_id q) (cr_outcomeStatus c) (ob_expectedOutcomeVersion body))
          (recordOutcomeFields now (pr_id actor) (ob_status body) (ob_reasonCode body) (ob_note body)) (of_consultations s)"
        and apps: "of_appointments s' = (case getPrimaryConsultationAppointment (oq_id q) (of_appointments s) of
          None \<Rightarrow> of_appointments s | Some a \<Rightarrow> modify ap_id (ap_id a) (\<lambda>r. r\<lparr>ap_status := st\<rparr>) (of_appointments s))"
      show ?thesis
      proof (cases "getPrimaryConsultationAppointment (oq_id q) (of_appointments s)")
        case None
        with apps show ?thesis by (intro deskOk_requests [OF ok _ cons]) simp_all
      next
        case (Some a)
        have a: "a \<in> set (of_appointments s)" using primary_in [OF Some] by simp
        show ?thesis
          by (rule cancelled_desk [OF ok a _ _ cons, where st = st]) (use apps Some appointmentStatus_inactive [OF st] in simp_all)
      qed
    qed
  next
    fix now actor body t assume "reopenOperation now actor (oq_id q) body t s = Inr ((), s')"
    then show ?thesis
    proof (rule reopenOperation_success)
      fix c a e k g
      assume c: "fetch cr_id (oq_id q) (of_consultations s) = Some c"
        and a: "getPrimaryConsultationAppointment (oq_id q) (of_appointments s) = Some a"
        and k: "k = orClient (cr_clientId c) (ap_clientId a)"
        and free: "assertNoAppointmentConflict (Some t) (Some e) (LawyerScope (ri_assignedLawyerId body)) (Some (ap_id a))
            (of_appointments s) = Inr ()"
          "assertNoAppointmentConflict (Some t) (Some e) (ClientScope k) (Some (ap_id a)) (of_appointments s) = Inr ()"
        and cons: "of_consultations s' = updateWhere (outcomeTarget (oq_id q) O_MISSED (ri_expectedOutcomeVersion body)) g
          (of_consultations s)"
        and g: "\<And>r. cr_id (g r) = cr_id r \<and> cr_clientId (g r) = cr_clientId r \<and> cr_outcomeStatus (g r) = O_PENDING \<and>
          cr_outcomeVersion (g r) = cr_outcomeVersion r + 1"
        and apps: "of_appointments s' = modify ap_id (ap_id a) (\<lambda>r. r\<lparr>ap_lawyerId := Some (ri_assignedLawyerId body),
          ap_startsAt := t, ap_endsAt := e, ap_mode := ri_mode body, ap_location := filled (ri_location body),
          ap_status := A_RESCHEDULED\<rparr>) (of_appointments s)"
      from primary_in [OF a] fetch_SomeD [OF c]
      have a_in: "a \<in> set (of_appointments s)" "ap_consultationRequestId a = Some (cr_id c)" "c \<in> set (of_consultations s)"
        by simp_all
      have "cr_clientId c = Some (ap_clientId a)" by (rule linkOk_client [OF ok a_in])
      then have ka: "k = ap_clientId a" by (simp add: k orClient_def)
      show ?thesis
        by (rule moved_desk [OF ok apps a_in(1) cons])
          (use g in simp, use g in simp, rule free_row [OF free(1)], use free(2) ka in simp_all)
    qed
  qed (use ok in simp)
  then show ?thesis by (simp add: run)
qed

text \<open>A request keeps the desk; one that brings a follow-up keeps what concerns the lawyers.\<close>

lemma quiet_sel [simp]: "snd (quiet x) = snd x" "succeeds (fst (quiet x)) = succeeds (fst x)"
  by (auto simp: quiet_def succeeds_def split: sum.split)

lemma deskServe_desk:
  assumes ok: "deskOk (bookedTwice w) (bk_office s)" and follow: "w \<Longrightarrow> \<not> bringsFollowUp q"
  shows "deskOk (bookedTwice w) (bk_office (snd (deskServe bp pf q s)))"
proof (cases q)
  case (Books b)
  then show ?thesis using desks.bookingServe_ok [OF ok] by (simp add: deskServe_def)
next
  case (Schedules ab now later ids actor i raw)
  obtain x s' where run: "scheduleConsultation pf ab now later ids actor i raw s = (x, s')" by fastforce
  from run show ?thesis
    by (rule scheduleConsultation_cases) (use run ok Schedules schedule_desk in \<open>auto simp: deskServe_def\<close>)
next
  case (Assigns ab now actor i raw)
  obtain x s' where run: "assignConsultation pf ab now actor i raw s = (x, s')" by fastforce
  from run show ?thesis
    by (rule assignConsultation_cases) (use run ok Assigns assign_desk in \<open>auto simp: deskServe_def\<close>)
next
  case (Reviews ab now actor i raw)
  obtain x s' where run: "reviewConsultation pf ab now actor i raw s = (x, s')" by fastforce
  from run show ?thesis
    by (rule reviewConsultation_cases) (use run ok Reviews review_desk in \<open>auto simp: deskServe_def\<close>)
next
  case (Rejects ab now actor i raw)
  obtain x s' where run: "rejectConsultation pf ab now actor i raw s = (x, s')" by fastforce
  from run show ?thesis
    by (rule rejectConsultation_cases) (use run ok Rejects reject_desk in \<open>auto simp: deskServe_def\<close>)
next
  case (Converts ab now ids actor i raw)
  obtain x s' where run: "convertConsultationToCase pf ab now ids actor i raw s = (x, s')" by fastforce
  from run show ?thesis
  proof (rule convertConsultationToCase_cases)
    fix body k assume "convertConsultationSchema (cw_outcome pf) raw = Inr body"
      and op: "convertOperation pf now ids actor i body s = Inr (k, s')"
    then have "w \<Longrightarrow> vb_appointment body = None"
      using follow Converts by (simp add: convertSchema_appointment bringsFollowUp_def)
    from convert_desk [OF ok op this] show ?thesis using run Converts by (simp add: deskServe_def)
  qed (use run ok Converts in \<open>simp add: deskServe_def\<close>)
next
  case (Decides q')
  then show ?thesis using decide_desk [OF ok, of "cw_outcome pf" q'] by (simp add: deskServe_def split_beta)
qed

section \<open>Requests only move forward\<close>

text \<open>
  What every action keeps of a request: its client, its review and its case once it has them, its status once
  it is closed; and its version never goes back.
\<close>

definition movesForward :: "consultation \<Rightarrow> consultation \<Rightarrow> bool" where
  "movesForward c c' \<longleftrightarrow> (cr_clientId c \<noteq> None \<longrightarrow> cr_clientId c' = cr_clientId c) \<and>
     cr_outcomeVersion c \<le> cr_outcomeVersion c' \<and> (closedConsultation c \<longrightarrow> cr_status c' = cr_status c) \<and>
     (cr_secretaryReviewedAt c \<noteq> None \<longrightarrow> cr_secretaryReviewedAt c' = cr_secretaryReviewedAt c \<and>
        cr_secretaryReviewedById c' = cr_secretaryReviewedById c) \<and>
     (cr_convertedCaseId c \<noteq> None \<longrightarrow> cr_convertedCaseId c' = cr_convertedCaseId c)"

lemma movesForward_refl [simp]: "movesForward c c"
  by (simp add: movesForward_def)

lemma movesForward_trans: "movesForward a b \<Longrightarrow> movesForward b c \<Longrightarrow> movesForward a c"
  unfolding movesForward_def closedConsultation_def by (metis order_trans)

text \<open>No closed request waits for an appointment or missed one; and rows that move forward keep it so.\<close>

definition closedSettled :: "consultation list \<Rightarrow> bool" where
  "closedSettled cs \<longleftrightarrow> (\<forall>c\<in>set cs. closedConsultation c \<longrightarrow> cr_outcomeStatus c \<noteq> O_PENDING \<and> cr_outcomeStatus c \<noteq> O_MISSED)"

definition rowsForward :: "consultation list \<Rightarrow> consultation list \<Rightarrow> bool" where
  "rowsForward cs cs' \<longleftrightarrow> closedSettled cs' \<and>
     (\<forall>i c. fetch cr_id i cs = Some c \<longrightarrow> (\<exists>c'. fetch cr_id i cs' = Some c' \<and> movesForward c c'))"

lemma rowsForward_refl: "closedSettled cs \<Longrightarrow> rowsForward cs cs"
  by (simp add: rowsForward_def)

lemma rowsForward_trans: "rowsForward a b \<Longrightarrow> rowsForward b c \<Longrightarrow> rowsForward a c"
  unfolding rowsForward_def by (metis movesForward_trans)

lemma rowsForward_append:
  assumes "closedSettled cs" and "\<not> closedConsultation c"
  shows "rowsForward cs (cs @ [c])"
  using assms by (auto simp: rowsForward_def closedSettled_def fetch_append)

lemma rowsForward_update:
  assumes "closedSettled cs" and "\<And>c. cr_id (g c) = cr_id c"
    and "\<And>c. c \<in> set cs \<Longrightarrow> p c \<Longrightarrow> movesForward c (g c) \<and>
      (closedConsultation (g c) \<longrightarrow> cr_outcomeStatus (g c) \<noteq> O_PENDING \<and> cr_outcomeStatus (g c) \<noteq> O_MISSED)"
  shows "rowsForward cs (updateWhere p g cs)"
  unfolding rowsForward_def
proof (intro conjI allI impI)
  show "closedSettled (updateWhere p g cs)"
    using assms(1,3) by (auto simp: closedSettled_def set_updateWhere)
  fix i c assume c: "fetch cr_id i cs = Some c"
  then have "fetch cr_id i (updateWhere p g cs) = Some (if p c then g c else c)"
    using assms(2) by (simp add: fetch_updateWhere)
  then show "\<exists>c'. fetch cr_id i (updateWhere p g cs) = Some c' \<and> movesForward c c'"
    using assms(3) fetch_SomeD [OF c] by auto
qed

text \<open>The invariant under which requests move forward, and what a step keeps.\<close>

definition reviewOk :: "booking_db \<Rightarrow> bool" where
  "reviewOk s \<longleftrightarrow> deskOk (bookedTwice False) (bk_office s) \<and> closedSettled (of_consultations (bk_office s))"

lemma schedule_forward:
  assumes ok: "reviewOk s" and op: "scheduleOperation pf now ids actor i body t s = Inr (u, s')"
  shows "rowsForward (of_consultations (bk_office s)) (of_consultations (bk_office s'))"
  using op
proof (rule scheduleOperation_success)
  fix c r k s1 g
  assume load: "loadConsultation i s = Some (c, r)" and can: "schedulable c body s"
    and made: "consultationClient (vi_client ids) c r (si_assignedLawyerId body) s = Inr (k, s1)"
    and cons: "of_consultations (bk_office s') = updateWhere (outcomeTarget i O_PENDING (si_expectedOutcomeVersion body)) g
      (of_consultations (bk_office s))"
    and g: "g = (\<lambda>q. (reviewedBy actor now q)\<lparr>cr_clientId := Some k, cr_assignedLawyerId := Some (si_assignedLawyerId body),
         cr_status := C_SCHEDULED, cr_outcomeVersion := cr_outcomeVersion q + 1\<rparr>)"
  have c: "fetch cr_id i (of_consultations (bk_office s)) = Some c" using load by (simp add: loadConsultation_Some)
  have same: "q = c" if "q \<in> set (of_consultations (bk_office s))" "outcomeTarget i O_PENDING (si_expectedOutcomeVersion body) q" for q
    using deskOk_distinct ok c that unfolding reviewOk_def outcomeTarget_def by blast
  show ?thesis
    unfolding cons
  proof (rule rowsForward_update)
    fix q assume q: "q \<in> set (of_consultations (bk_office s))" "outcomeTarget i O_PENDING (si_expectedOutcomeVersion body) q"
    then show "movesForward q (g q) \<and> (closedConsultation (g q) \<longrightarrow> cr_outcomeStatus (g q) \<noteq> O_PENDING \<and>
        cr_outcomeStatus (g q) \<noteq> O_MISSED)"
      using same [OF q] can consultationClient_Inr [OF made]
      by (auto simp: g movesForward_def closedConsultation_def reviewedBy_def schedulable_def
          ACTIVE_UNBOOKED_CONSULTATION_STATUSES_def)
  qed (use ok in \<open>auto simp: g reviewedBy_def reviewOk_def\<close>)
qed

lemma unchangedRow_self:
  assumes "reviewOk s" and "fetch cr_id i (of_consultations (bk_office s)) = Some c"
    and "q \<in> set (of_consultations (bk_office s))" and "unchangedRow c q"
  shows "q = c"
  using deskOk_distinct assms fetch_SomeD [OF assms(2)] unfolding reviewOk_def unchangedRow_def outcomeTarget_def by blast

lemma assign_forward:
  assumes ok: "reviewOk s" and op: "assignOperation pf now actor i l s = Inr (u, s')"
  shows "rowsForward (of_consultations (bk_office s)) (of_consultations (bk_office s'))"
  using op
proof (rule assignOperation_success)
  fix c b primary
  assume c: "fetch cr_id i (of_consultations (bk_office s)) = Some c" "\<not> closedConsultation c"
    and b: "b \<longleftrightarrow> cr_status c = C_SCHEDULED \<and> cr_secretaryReviewedAt c = None"
    and cons: "of_consultations (bk_office s') = updateWhere (unchangedRow c) (assignedRow pf now actor b l)
      (of_consultations (bk_office s))"
  show ?thesis
    unfolding cons
  proof (rule rowsForward_update)
    fix q assume q: "q \<in> set (of_consultations (bk_office s))" "unchangedRow c q"
    from unchangedRow_self [OF ok c(1) q] c(2) b
    show "movesForward q (assignedRow pf now actor b l q) \<and> (closedConsultation (assignedRow pf now actor b l q) \<longrightarrow>
        cr_outcomeStatus (assignedRow pf now actor b l q) \<noteq> O_PENDING \<and> cr_outcomeStatus (assignedRow pf now actor b l q) \<noteq> O_MISSED)"
      by (auto simp: assignedRow_def Let_def movesForward_def closedConsultation_def)
  qed (use ok in \<open>auto simp: assignedRow_def Let_def reviewOk_def\<close>)
qed

lemma review_forward:
  assumes ok: "reviewOk s" and op: "reviewOperation now actor i note1 s = Inr (href, s')"
  shows "rowsForward (of_consultations (bk_office s)) (of_consultations (bk_office s'))"
  using op
proof (rule reviewOperation_success)
  fix c
  assume cons: "of_consultations (bk_office s') = updateWhere (unchangedRow c)
      (\<lambda>q. (reviewedBy actor now q)\<lparr>cr_secretaryReviewNote := filled note1\<rparr>) (of_consultations (bk_office s))"
  show ?thesis
    unfolding cons
    by (rule rowsForward_update)
      (use ok in \<open>auto simp: reviewedBy_def movesForward_def closedConsultation_def reviewOk_def closedSettled_def\<close>)
qed

lemma reject_forward:
  assumes ok: "reviewOk s" and op: "rejectOperation now actor i body s = Inr (u, s')"
  shows "rowsForward (of_consultations (bk_office s)) (of_consultations (bk_office s'))"
  using op
proof (rule rejectOperation_success)
  fix c
  assume c: "fetch cr_id i (of_consultations (bk_office s)) = Some c" "\<not> closedConsultation c"
    and cons: "of_consultations (bk_office s') = updateWhere (\<lambda>q. unchangedRow c q \<and> cr_status q = cr_status c)
      (rejectedRow now actor body) (of_consultations (bk_office s))"
  show ?thesis
    unfolding cons
    by (rule rowsForward_update)
      (use ok c unchangedRow_self [OF ok c(1)] in \<open>auto simp: rejectedRow_def movesForward_def reviewOk_def\<close>)
qed

lemma convertible_open:
  assumes "convertible actor c = Inr u"
  shows "\<not> closedConsultation c" and "cr_convertedCaseId c = None"
    and "cr_outcomeStatus c = O_AWAITING_RESULT \<or> cr_outcomeStatus c = O_SUCCESSFUL"
  using assms
  by (auto simp: convertible_def closedConsultation_def assertExistingConsultationMutationAllowed_def split: if_splits)

lemma convert_forward:
  assumes ok: "reviewOk s" and op: "convertOperation pf now ids actor i body s = Inr (k, s')"
  shows "rowsForward (of_consultations (bk_office s)) (of_consultations (bk_office s'))"
  using op
proof (rule convertOperation_success)
  fix c r l client
  assume load: "loadConsultation i s = Some (c, r)" and can: "convertible actor c = Inr ()"
    and client: "cr_clientId c \<noteq> None \<longrightarrow> cr_clientId c = Some client"
    and cons: "of_consultations (bk_office s') = modify cr_id i (convertedRow client l (lc_id k))
      (of_consultations (bk_office s))"
  have "fetch cr_id i (of_consultations (bk_office s)) = Some c" using load by (simp add: loadConsultation_Some)
  then have same: "q = c" if "q \<in> set (of_consultations (bk_office s))" "cr_id q = i" for q
    using deskOk_distinct ok that unfolding reviewOk_def by blast
  show ?thesis
    unfolding cons modify_def
    by (rule rowsForward_update)
      (use same client convertible_open [OF can] ok in \<open>auto simp: convertedRow_def movesForward_def reviewOk_def\<close>)
qed

lemma reopenOperation_row:
  assumes "reopenOperation now actor i body t s = Inr (u, s')"
  obtains c where "fetch cr_id i (of_consultations s) = Some c"
    and "of_consultations s' = updateWhere (outcomeTarget i O_MISSED (ri_expectedOutcomeVersion body))
      (\<lambda>r. (recordOutcomeFields now (pr_id actor) O_PENDING (ri_reasonCode body) (ri_note body) r)
         \<lparr>cr_assignedLawyerId := Some (ri_assignedLawyerId body),
          cr_secretaryReviewedAt := Some (case cr_secretaryReviewedAt c of None \<Rightarrow> now | Some t \<Rightarrow> t),
          cr_secretaryReviewedById := (if cr_secretaryReviewedAt c = None then Some (pr_id actor)
             else cr_secretaryReviewedById r)\<rparr>) (of_consultations s)"
  using assms unfolding reopenOperation_def Let_def by (clarsimp split: option.splits)

lemma decide_forward:
  assumes ids: "distinct (map cr_id (of_consultations s))" and ok: "closedSettled (of_consultations s)"
  shows "rowsForward (of_consultations s) (of_consultations (snd (outcomeServe pf q s)))"
proof -
  obtain x s' where run: "outcomeServe pf q s = (x, s')" by fastforce
  from run have "rowsForward (of_consultations s) (of_consultations s')"
  proof (rule outcomeServe_cases)
    fix now actor body b assume "outcomeOperation now actor (oq_id q) body s = Inr (b, s')"
    then show ?thesis
    proof (rule outcomeOperation_success)
      fix c
      assume final: "isFinalOutcome (ob_status body)"
        and cons: "of_consultations s' = updateWhere (outcomeTarget (oq_id q) (cr_outcomeStatus c) (ob_expectedOutcomeVersion body))
          (recordOutcomeFields now (pr_id actor) (ob_status body) (ob_reasonCode body) (ob_note body)) (of_consultations s)"
      show ?thesis
        unfolding cons
        by (rule rowsForward_update)
          (use ok final in \<open>auto simp: recordOutcomeFields_def movesForward_def closedConsultation_def isFinalOutcome_def\<close>)
    qed
  next
    fix now actor body t assume "reopenOperation now actor (oq_id q) body t s = Inr ((), s')"
    then show ?thesis
    proof (rule reopenOperation_row)
      fix c :: consultation
      let ?p = "outcomeTarget (oq_id q) O_MISSED (ri_expectedOutcomeVersion body)"
      let ?g = "\<lambda>r. (recordOutcomeFields now (pr_id actor) O_PENDING (ri_reasonCode body) (ri_note body) r)
         \<lparr>cr_assignedLawyerId := Some (ri_assignedLawyerId body),
          cr_secretaryReviewedAt := Some (case cr_secretaryReviewedAt c of None \<Rightarrow> now | Some t \<Rightarrow> t),
          cr_secretaryReviewedById := (if cr_secretaryReviewedAt c = None then Some (pr_id actor)
             else cr_secretaryReviewedById r)\<rparr>"
      assume c: "fetch cr_id (oq_id q) (of_consultations s) = Some c"
        and cons: "of_consultations s' = updateWhere ?p ?g (of_consultations s)"
      have same: "r = c" if "r \<in> set (of_consultations s)" "?p r" for r
        using that ids c unfolding outcomeTarget_def by (metis fetch_distinct option.inject)
      have open1: "\<not> closedConsultation r" if "r \<in> set (of_consultations s)" "?p r" for r
        using that ok by (auto simp: closedSettled_def outcomeTarget_def)
      show ?thesis
        unfolding cons
      proof (rule rowsForward_update)
        fix r assume r: "r \<in> set (of_consultations s)" "?p r"
        show "movesForward r (?g r) \<and> (closedConsultation (?g r) \<longrightarrow>
            cr_outcomeStatus (?g r) \<noteq> O_PENDING \<and> cr_outcomeStatus (?g r) \<noteq> O_MISSED)"
          using same [OF r] open1 [OF r]
          by (auto simp: recordOutcomeFields_def movesForward_def closedConsultation_def)
      qed (use ok in \<open>simp_all add: recordOutcomeFields_def\<close>)
    qed
  qed (use ok in \<open>simp add: rowsForward_refl\<close>)
  then show ?thesis by (simp add: run)
qed

lemma cancelBooking_forward:
  assumes ok: "reviewOk s" and r: "existingRequest a s = Inr existing" and "changeable now existing"
  shows "rowsForward (of_consultations (bk_office s)) (of_consultations (bk_office (cancelBooking now existing s)))"
proof -
  obtain x p where x: "existing = Some x" "currentAppointment existing = Some p" "cr_outcomeStatus (lr_request x) = O_PENDING"
    using assms(3) by (auto simp: changeable_def split: option.splits)
  have x_in: "lr_request x \<in> set (of_consultations (bk_office s))" using existingRequest_Some(1) r x(1) by blast
  have same: "q = lr_request x" if "q \<in> set (of_consultations (bk_office s))" "cr_id q = cr_id (lr_request x)" for q
    using that x_in ok unfolding reviewOk_def deskOk_def by (metis fetch_distinct option.inject)
  have open1: "\<not> closedConsultation (lr_request x)"
    using ok x_in x(3) by (auto simp: reviewOk_def closedSettled_def)
  have "of_consultations (bk_office (cancelBooking now existing s)) = updateWhere (\<lambda>q. cr_id q = cr_id (lr_request x))
      (\<lambda>c. c\<lparr>cr_status := C_REJECTED, cr_outcomeStatus := O_CANCELLED, cr_outcomeAt := Some now,
         cr_outcomeVersion := cr_outcomeVersion c + 1\<rparr>) (of_consultations (bk_office s))"
    using x by (simp add: cancelBooking_def modify_def)
  then show ?thesis
    by (simp only:) (rule rowsForward_update, use ok same open1 in \<open>auto simp: reviewOk_def movesForward_def\<close>)
qed

lemma bookOrCall_forward:
  assumes ok: "reviewOk s" and permitted: "actionPermitted pf now body a existing = Inr u"
    and "bb_action body \<noteq> CancelBooking" and book: "bookOrCall pf now ids body a existing s = Inr s'"
  shows "rowsForward (of_consultations (bk_office s)) (of_consultations (bk_office s'))"
  using book
proof (rule bookOrCall_steps)
  fix slot1 draft l k s1 s2 s3 u1 u2 u3
  assume client: "bookingClient ids body (bookingPhone body existing) a existing slot1 s = Inr (k, s1)"
    and made: "(if existing = None then createRequest pf now ids body (bookingPhone body existing) k draft l slot1 s1
          else Inr s1) = Inr s2"
    and taken: "(case slot1 of None \<Rightarrow> Inr s2
          | Some c \<Rightarrow> takeSlot pf ids k (requestIdOf ids existing) l existing c s2) = Inr s3"
    and told: "tellConversation pf now ids body a (bookingPhone body existing) k (requestIdOf ids existing) l existing slot1
      draft s3 = Inr s'"
  have s1: "of_consultations (bk_office s1) = of_consultations (bk_office s)"
    using bookingClient_desk [OF client] by (simp add: sameDesk_def)
  have s': "of_consultations (bk_office s') = of_consultations (bk_office s3)"
    using tellConversation_desk [OF told] by (simp add: sameDesk_def)
  show ?thesis
  proof (cases existing)
    case None
    then have create: "createRequest pf now ids body (bookingPhone body existing) k draft l slot1 s1 = Inr s2" using made by simp
    have "of_consultations (bk_office s3) = of_consultations (bk_office s2)"
      using taken None takeSlot_new(3) by (auto split: option.splits)
    then have "of_consultations (bk_office s') =
        of_consultations (bk_office s) @ [newConsultation pf now ids body k draft l slot1]"
      using createRequest_Inr(2) [OF create] s1 s' by simp
    then show ?thesis
      using ok by (auto simp: reviewOk_def newConsultation_def closedConsultation_def intro!: rowsForward_append)
  next
    case (Some r)
    then obtain p where p: "currentAppointment (Some r) = Some p"
      using permitted assms(3) by (auto simp: actionPermitted_def changeable_def split: option.splits)
    have s2: "s2 = s1" using made Some by simp
    show ?thesis
    proof (cases slot1)
      case None
      then show ?thesis using taken s2 s1 s' ok by (simp add: rowsForward_refl reviewOk_def)
    next
      case c: (Some c)
      then have "takeSlot pf ids k (requestIdOf ids existing) l (Some r) c s1 = Inr s3" using taken s2 Some by simp
      from takeSlot_moved(2) [OF this p] show ?thesis
        using s1 s' ok
        by (simp only: modify_def) (rule rowsForward_update, auto simp: reviewOk_def movesForward_def closedConsultation_def
            closedSettled_def)
    qed
  qed
qed

lemma performAction_forward:
  assumes ok: "reviewOk s" and "performAction pf now ids actor body a s = Inr (u, s')"
  shows "rowsForward (of_consultations (bk_office s)) (of_consultations (bk_office s'))"
  using assms(2)
proof (rule performAction_steps)
  fix existing s1 u1
  assume e: "existingRequest a s = Inr existing" and p: "actionPermitted pf now body a existing = Inr u1"
    and r: "(if bb_action body = CancelBooking then Inr (cancelBooking now existing s)
             else bookOrCall pf now ids body a existing s) = Inr s1" and s': "s' = recordAction body actor a s1"
  have rows: "of_consultations (bk_office s') = of_consultations (bk_office s1)"
    using recordAction_desk s' by (simp add: sameDesk_def)
  show ?thesis
  proof (cases "bb_action body = CancelBooking")
    case True
    then have "changeable now existing" using p by (simp add: actionPermitted_def editsBooking_def)
    then show ?thesis using cancelBooking_forward [OF ok e] r True rows by auto
  next
    case False
    then show ?thesis using bookOrCall_forward [OF ok p False] r rows by simp
  qed
qed

lemma bookingServe_forward:
  assumes ok: "reviewOk s"
  shows "rowsForward (of_consultations (bk_office s)) (of_consultations (bk_office (snd (bookingServe bp q s))))"
proof -
  let ?s = "snd (ownAssistantSession bp (bq_now q) (bq_token q) (bq_actor q) s)"
  have same: "of_consultations (bk_office ?s) = of_consultations (bk_office s)"
    using ownAssistantSession_rest by (simp add: sameDesk_def)
  have ok1: "reviewOk ?s" using ok same ownAssistantSession_rest deskOk_same unfolding reviewOk_def by metis
  have idle: "rowsForward (of_consultations (bk_office ?s)) (of_consultations (bk_office ?s))"
    using ok1 by (simp add: reviewOk_def rowsForward_refl)
  show ?thesis
    by (cases rule: bookingServe_cases [of bp q s])
      (use same idle performAction_forward [OF ok1] in
        \<open>auto simp: directBookingOperation_def split: option.splits if_splits\<close>)
qed

lemma deskServe_forward:
  assumes ok: "reviewOk s"
  shows "rowsForward (of_consultations (bk_office s)) (of_consultations (bk_office (snd (deskServe bp pf q s))))"
proof -
  have idle: "rowsForward (of_consultations (bk_office s)) (of_consultations (bk_office s))"
    using ok by (simp add: reviewOk_def rowsForward_refl)
  show ?thesis
  proof (cases q)
    case (Books b)
    then show ?thesis using bookingServe_forward [OF ok] by (simp add: deskServe_def)
  next
    case (Schedules ab now later ids actor i raw)
    obtain x s' where run: "scheduleConsultation pf ab now later ids actor i raw s = (x, s')" by fastforce
    from run show ?thesis
      by (rule scheduleConsultation_cases) (use run idle Schedules schedule_forward [OF ok] in \<open>auto simp: deskServe_def\<close>)
  next
    case (Assigns ab now actor i raw)
    obtain x s' where run: "assignConsultation pf ab now actor i raw s = (x, s')" by fastforce
    from run show ?thesis
      by (rule assignConsultation_cases) (use run idle Assigns assign_forward [OF ok] in \<open>auto simp: deskServe_def\<close>)
  next
    case (Reviews ab now actor i raw)
    obtain x s' where run: "reviewConsultation pf ab now actor i raw s = (x, s')" by fastforce
    from run show ?thesis
      by (rule reviewConsultation_cases) (use run idle Reviews review_forward [OF ok] in \<open>auto simp: deskServe_def\<close>)
  next
    case (Rejects ab now actor i raw)
    obtain x s' where run: "rejectConsultation pf ab now actor i raw s = (x, s')" by fastforce
    from run show ?thesis
      by (rule rejectConsultation_cases) (use run idle Rejects reject_forward [OF ok] in \<open>auto simp: deskServe_def\<close>)
  next
    case (Converts ab now ids actor i raw)
    obtain x s' where run: "convertConsultationToCase pf ab now ids actor i raw s = (x, s')" by fastforce
    from run show ?thesis
      by (rule convertConsultationToCase_cases) (use run idle Converts convert_forward [OF ok] in \<open>auto simp: deskServe_def\<close>)
  next
    case (Decides q')
    then show ?thesis
      using ok decide_forward [of "bk_office s" "cw_outcome pf" q']
      by (simp add: deskServe_def split_beta reviewOk_def deskOk_def)
  qed
qed

interpretation reviews: guarded_machine "deskServe bp pf" reviewOk for bp pf
proof
  fix s q assume ok: "reviewOk s"
  then have "deskOk (bookedTwice False) (bk_office (snd (deskServe bp pf q s)))"
    by (intro deskServe_desk) (simp_all add: reviewOk_def)
  then show "reviewOk (snd (deskServe bp pf q s))"
    using deskServe_forward [OF ok] by (simp add: reviewOk_def rowsForward_def)
qed

lemma served_forward:
  assumes "reviewOk s" and "fetch cr_id i (of_consultations (bk_office s)) = Some c"
  obtains c' where "fetch cr_id i (of_consultations (bk_office (serveAll (deskServe bp pf) qs s))) = Some c'"
    and "movesForward c c'"
proof -
  let ?R = "\<lambda>s s'. \<forall>c. fetch cr_id i (of_consultations (bk_office s)) = Some c \<longrightarrow>
    (\<exists>c'. fetch cr_id i (of_consultations (bk_office s')) = Some c' \<and> movesForward c c')"
  have "?R s (serveAll (deskServe bp pf) qs s)"
  proof (rule reviews.serve_rel [OF _ _ _ assms(1)])
    show "?R s (snd (deskServe bp pf q s))" if "reviewOk s" for q s
      using deskServe_forward [OF that] by (simp add: rowsForward_def)
    show "?R a c" if "?R a b" "?R b c" for a b c using that movesForward_trans by blast
  qed simp
  then show thesis using assms(2) that by blast
qed

text \<open>
  C33. A request only moves forward, whatever clients and staff do in any order: it is never lost, it keeps
  its client, the moment and the member of the staff of its first review, and its case once it has them; its
  version never goes back; and once it is rejected or converted its status is final.
\<close>

theorem requests_move_forward:
  fixes qs :: "office_request list" and bp :: booking_platform and pf :: review_platform
  assumes "reviewOk s" and "fetch cr_id i (of_consultations (bk_office s)) = Some c"
  shows "\<exists>c'. fetch cr_id i (of_consultations (bk_office (serveAll (deskServe bp pf) qs s))) = Some c' \<and>
    (cr_clientId c \<noteq> None \<longrightarrow> cr_clientId c' = cr_clientId c) \<and> cr_outcomeVersion c \<le> cr_outcomeVersion c' \<and>
    (cr_status c \<in> {C_CONVERTED, C_REJECTED} \<longrightarrow> cr_status c' = cr_status c) \<and>
    (cr_secretaryReviewedAt c \<noteq> None \<longrightarrow> cr_secretaryReviewedAt c' = cr_secretaryReviewedAt c \<and>
       cr_secretaryReviewedById c' = cr_secretaryReviewedById c) \<and>
    (cr_convertedCaseId c \<noteq> None \<longrightarrow> cr_convertedCaseId c' = cr_convertedCaseId c)"
  by (rule served_forward [OF assms, of bp pf qs]) (auto simp: movesForward_def closedConsultation_def)

text \<open>
  C34. A request becomes a case at most once: after a conversion went through, no conversion of the same request
  goes through again, whoever asks and whatever happened in between, and the request keeps the case it became.
\<close>

theorem case_opened_once:
  fixes qs :: "office_request list" and bp :: booking_platform
  assumes "reviewOk s" and "convertConsultationToCase pf ab now ids actor i raw s = (Inr k, s1)"
  defines "s2 \<equiv> serveAll (deskServe bp pf) qs s1"
  shows "\<not> succeeds (fst (convertConsultationToCase pf again later newIds who i other s2)) \<and>
    map_option cr_convertedCaseId (fetch cr_id i (of_consultations (bk_office s2))) = Some (Some (lc_id k)) \<and>
    lc_consultationRequestId k = Some i"
proof -
  have s1: "s1 = snd (deskServe bp pf (Converts ab now ids actor i raw) s)" using assms(2) by (simp add: deskServe_def)
  from assms(2) obtain body where "convertOperation pf now ids actor i body s = Inr (k, s1)"
    by (rule convertConsultationToCase_cases) auto
  then obtain c r client l where load: "loadConsultation i s = Some (c, r)"
    and k: "k = newCase pf now (vi_case ids) c r body client l"
    and cons: "of_consultations (bk_office s1) = modify cr_id i (convertedRow client l (lc_id k)) (of_consultations (bk_office s))"
    by (rule convertOperation_success)
  let ?c = "convertedRow client l (lc_id k) c"
  have "fetch cr_id i (of_consultations (bk_office s)) = Some c" using load by (simp add: loadConsultation_Some)
  then have c1: "fetch cr_id i (of_consultations (bk_office s1)) = Some ?c" and i: "cr_id c = i"
    by (auto simp: cons fetch_modify convertedRow_def dest: fetch_SomeD)
  obtain c2 where c2: "fetch cr_id i (of_consultations (bk_office s2)) = Some c2" and forward: "movesForward ?c c2"
    using served_forward [OF reviews.step_inv [OF assms(1)] c1 [unfolded s1], of bp pf qs] unfolding s2_def s1 by blast
  have kept: "cr_status c2 = C_CONVERTED" "cr_convertedCaseId c2 = Some (lc_id k)"
    using forward by (simp_all add: movesForward_def closedConsultation_def convertedRow_def)
  have "\<not> succeeds (fst (convertConsultationToCase pf again later newIds who i other s2))"
  proof
    obtain x s3 where run: "convertConsultationToCase pf again later newIds who i other s2 = (x, s3)" by fastforce
    assume "succeeds (fst (convertConsultationToCase pf again later newIds who i other s2))"
    then obtain body2 k2 where "convertOperation pf later newIds who i body2 s2 = Inr (k2, s3)"
      using run by (auto elim: convertConsultationToCase_cases)
    then show False
    proof (rule convertOperation_success)
      fix c3 r3 assume "loadConsultation i s2 = Some (c3, r3)" and ok: "convertible who c3 = Inr ()"
      then have "c3 = c2" using c2 by (simp add: loadConsultation_Some)
      then show False using convertible_open(1) [OF ok] kept by (simp add: closedConsultation_def)
    qed
  qed
  then show ?thesis using c2 kept k i by (simp add: newCase_def)
qed


section \<open>What the client chose, what the page tells\<close>

text \<open>
  C35. The office cannot change what a client asked for in a conversation: when the staff schedules such a
  request, the appointment has exactly the requested beginning, end and mode, and no active consultation of the
  office overlaps it.
\<close>

theorem clients_choice_kept:
  assumes "scheduleConsultation pf ab now later ids actor i raw s = (Inr u, s')"
    and "fetch rc_id i (bk_requests s) = Some r" and "fromAssistant i s" and "rc_requestedStartsAt r = Some chosen"
  shows "\<exists>a. of_appointments (bk_office s') = of_appointments (bk_office s) @ [a] \<and>
    ap_startsAt a = chosen \<and> rc_requestedEndsAt r = Some (ap_endsAt a) \<and> ap_mode a = rc_preferredMode r \<and>
    assertNoAppointmentConflict (Some (ap_startsAt a)) (Some (ap_endsAt a)) OfficeConsultation None
      (of_appointments (bk_office s)) = Inr ()"
proof -
  from assms(1) obtain body t u1 where "scheduleOperation pf later ids actor i body t s = Inr (u1, s')"
    by (rule scheduleConsultation_cases) auto
  then show ?thesis
  proof (rule scheduleOperation_success)
    fix c r1 k e
    assume load: "loadConsultation i s = Some (c, r1)"
      and kept: "clientsChoiceKept pf later r1 t e (si_mode body) s = Inr ()"
      and apps: "of_appointments (bk_office s') = of_appointments (bk_office s) @ [scheduledRow pf (vi_appointment ids) i body k t e]"
    have r1: "r1 = r" "rc_id r = i" using load assms(2) by (auto simp: loadConsultation_Some dest: fetch_SomeD)
    then have choice: "rc_preferredMode r = si_mode body" "chosen = t" "rc_requestedEndsAt r = Some e"
      and free: "requestedSlotFree pf later t e (si_mode body) s = Inr ()"
      using kept assms(3,4) by (auto simp: clientsChoiceKept_def split: if_splits)
    from free have "assertRequestedSlotAtApproval (cw_clock pf) t e (si_mode body) later (slotView s) = Inr (Some ())"
      by (auto simp: requestedSlotFree_def endless_def split: sum.splits slot_throw.splits option.splits)
    from approval_slot [OF this] show ?thesis using apps choice by (auto simp: scheduledRow_def slotView_def)
  qed
qed

text \<open>
  C36. The page of a request does not mislead: where it offers no scheduling the action is refused, where it
  offers it the request can be scheduled at the version it shows, and where it offers no reopening the action is
  refused.
\<close>

theorem detail_tells_actions:
  assumes "getAdminConsultationDetail pf asOf actor i s = Inr d"
  shows "(\<not> cd_canSchedule d \<longrightarrow> \<not> succeeds (fst (scheduleConsultation pf ab now later ids actor i raw s))) \<and>
    (cd_canSchedule d \<longrightarrow> canManageConsultationOutcome actor \<and> (\<forall>body.
       si_expectedOutcomeVersion body = cr_outcomeVersion (cd_consultation d) \<longrightarrow> schedulable (cd_consultation d) body s)) \<and>
    (\<not> cd_canReopen d \<longrightarrow>
       \<not> succeeds (fst (reopenMissedConsultation (cw_outcome pf) ab now actor i again (bk_office s))))"
proof -
  obtain c where c: "fetch cr_id i (of_consultations (bk_office s)) = Some c" "cr_id c = i"
    and d: "cd_consultation d = c" "cd_canReopen d \<longleftrightarrow> canManageConsultationOutcome actor \<and> cr_outcomeStatus c = O_MISSED"
      "cd_canSchedule d \<longleftrightarrow> canManageConsultationOutcome actor \<and> cr_outcomeStatus c = O_PENDING \<and>
        cr_status c \<in> set ACTIVE_UNBOOKED_CONSULTATION_STATUSES \<and>
        getPrimaryConsultationAppointment i (of_appointments (bk_office s)) = None"
    using assms by (auto simp: getAdminConsultationDetail_def Let_def split: option.splits dest: fetch_SomeD)
  have "cd_canSchedule d" if "succeeds (fst (scheduleConsultation pf ab now later ids actor i raw s))"
  proof -
    obtain x s' where run: "scheduleConsultation pf ab now later ids actor i raw s = (x, s')" by fastforce
    have manages: "canManageConsultationOutcome actor"
      using that by (rule contrapos_pp) (simp add: scheduleConsultation_def)
    from run that obtain body t u where "scheduleOperation pf later ids actor i body t s = Inr (u, s')"
      by (auto elim: scheduleConsultation_cases)
    then show ?thesis
      by (rule scheduleOperation_success) (use c d manages in \<open>auto simp: loadConsultation_Some schedulable_def\<close>)
  qed
  moreover have "cd_canReopen d" if "succeeds (fst (reopenMissedConsultation (cw_outcome pf) ab now actor i again (bk_office s)))"
  proof -
    have manages: "canManageConsultationOutcome actor"
      using that by (rule contrapos_pp) (simp add: reopenMissedConsultation_def assertOutcomeManagementPermission_def)
    obtain x o2 where run: "reopenMissedConsultation (cw_outcome pf) ab now actor i again (bk_office s) = (x, o2)" by fastforce
    from run that obtain body t where "reopenOperation now actor i body t (bk_office s) = Inr ((), o2)"
      by (auto elim: reopenMissedConsultation_cases)
    then show ?thesis by (rule reopenOperation_success) (use c d manages in auto)
  qed
  ultimately show ?thesis using c d by (auto simp: schedulable_def)
qed

text \<open>
  The list shows an actor only requests whose page opens for that actor, no more of them than the page size
  and the total, and every one of them is a row of the view that was asked for.
\<close>

theorem listed_requests_open:
  assumes "listAdminConsultations pf asOf actor query s = Inr page" and "c \<in> set (cg_items page)"
    and "distinct (map cr_id (of_consultations (bk_office s)))" and "ou_isUuid (cw_outcome pf) (cr_id c)"
  shows "(\<exists>d. getAdminConsultationDetail pf asOf actor (cr_id c) s = Inr d \<and> cd_consultation d = c) \<and>
    int (length (cg_items page)) \<le> cq_pageSize query \<and> length (cg_items page) \<le> cg_total page \<and>
    consultationOutcomeViewWhere (cq_view query) asOf (of_appointments (bk_office s)) c"
proof -
  obtain f base where f: "adminConsultationListQuerySchema (cw_outcome pf) query = Inr f"
    and base: "listBaseWhere pf actor f True s = Inr base"
    and items: "cg_items page = take (nat (pg_take (toPagination (Some (cq_page f)) (Some (cq_pageSize f)))))
      (drop (nat (pg_skip (toPagination (Some (cq_page f)) (Some (cq_pageSize f)))))
        (sort_key (\<lambda>c. - cr_createdAt c) (filter (\<lambda>c. base c \<and> consultationOutcomeViewWhere (cq_view f) asOf
          (of_appointments (bk_office s)) c) (of_consultations (bk_office s)))))"
    and total: "cg_total page = length (filter (\<lambda>c. base c \<and> consultationOutcomeViewWhere (cq_view f) asOf
          (of_appointments (bk_office s)) c) (of_consultations (bk_office s)))"
    using assms(1) by (auto simp: listAdminConsultations_def parseWithSchema_eq Let_def)
  have same: "cq_view f = cq_view query" "cq_pageSize f = cq_pageSize query" "1 \<le> cq_pageSize query" "cq_pageSize query \<le> 50"
    using f by (auto simp: adminConsultationListQuerySchema_def schemaIssue_def Let_def split: if_splits)
  have c: "c \<in> set (of_consultations (bk_office s))" "base c"
    "consultationOutcomeViewWhere (cq_view f) asOf (of_appointments (bk_office s)) c"
    using assms(2) unfolding items by (auto dest!: in_set_takeD in_set_dropD)
  have "canReviewConsultation actor c"
    using base c(2)
    by (auto simp: listBaseWhere_def consultationScopeWhereForPrincipal_def canReviewConsultation_def split: if_splits)
  moreover have "fetch cr_id (cr_id c) (of_consultations (bk_office s)) = Some c" by (rule fetch_distinct [OF assms(3) c(1)])
  ultimately have "\<exists>d. getAdminConsultationDetail pf asOf actor (cr_id c) s = Inr d \<and> cd_consultation d = c"
    using assms(4) by (simp add: getAdminConsultationDetail_def Let_def)
  moreover have "pg_take (toPagination (Some (cq_page f)) (Some (cq_pageSize f))) = cq_pageSize query"
    using same(2-4) by (simp add: toPagination_def Let_def)
  then have "length (cg_items page) \<le> nat (cq_pageSize query)" by (simp add: items)
  then have "int (length (cg_items page)) \<le> cq_pageSize query" using same(3) by simp
  moreover have "length (cg_items page) \<le> cg_total page"
    unfolding items total by (simp only: length_take length_drop length_sort)
  ultimately show ?thesis using c(3) same(1) by simp
qed


section \<open>A sample desk\<close>

definition sampleReview :: review_platform where
  "sampleReview = \<lparr>cw_outcome = sampleOutcomePlatform, cw_clock = sampleClock, cw_year = (\<lambda>_. ''2026''),
     cw_contains = (\<lambda>_ _. True), cw_containsPoints = (\<lambda>_ _. True), cw_appointmentTitle = (\<lambda>r. r),
     cw_followUpTitle = (\<lambda>r. r), cw_assignNote = ''reviewed''\<rparr>"

definition sampleCaller :: "string \<Rightarrow> request_contact" where
  "sampleCaller i = \<lparr>rc_id = i, rc_publicReference = i, rc_phone = asciiPoints ''01000000000'', rc_phoneCanonical = None,
     rc_publicServiceSlug = ''family-personal-status'', rc_summary = ''A question'', rc_aiSummary = None, rc_urgency = ''URGENT'',
     rc_email = None, rc_city = None, rc_preferredMode = M_PHONE, rc_contactChannel = CH_PHONE, rc_locale = ''ar'',
     rc_confirmationSource = STAFF_APPROVAL, rc_requestedStartsAt = None, rc_requestedEndsAt = None\<rparr>"

definition sampleClient :: "string \<Rightarrow> client_contact" where
  "sampleClient i = \<lparr>ct_id = i, ct_fullName = ''Mona'', ct_phone = asciiPoints ''01000000000'', ct_phoneCanonical = None,
     ct_email = None, ct_city = None, ct_status = ''LEAD'', ct_source = None, ct_userId = None, ct_userActive = False,
     ct_deleted = False\<rparr>"

definition sampleReviewDb :: booking_db where
  "sampleReviewDb = \<lparr>bk_office = sampleDesk, bk_settings = [], bk_requests = [sampleCaller ''c1'', sampleCaller ''c2''],
     bk_clients = [sampleClient ''k1'', sampleClient ''k2''], bk_sessions = [], bk_turns = [], bk_threads = [],
     bk_messages = [], bk_actions = [], bk_cases = []\<rparr>"

definition sampleConvert :: convert_input where
  "sampleConvert = \<lparr>vt_assignedLawyerId = Some ''l1'', vt_caseTitle = None, vt_caseType = None, vt_priority = None,
     vt_appointmentStartsAt = None, vt_appointmentMode = None, vt_appointmentLocation = None,
     vt_appointmentDurationMinutes = None\<rparr>"

definition sampleReviewIds :: review_ids where
  "sampleReviewIds = \<lparr>vi_client = ''k9'', vi_appointment = ''a9'', vi_case = ''f9''\<rparr>"

definition sampleConversion :: "int \<Rightarrow> booking_db \<Rightarrow> legal_case api \<times> booking_db" where
  "sampleConversion now = convertConsultationToCase sampleReview (\<lambda>_. False) now sampleReviewIds sampleSecretary ''c1'' sampleConvert"

lemma sampleReviewDb_ok: "deskOk doubleBooked (bk_office sampleReviewDb)" "reviewOk sampleReviewDb"
  by (simp_all add: reviewOk_def deskOk_def sampleReviewDb_def sampleDesk_def linkOk_def apart_def noDoubleBooking_def
      doubleBooked_def bookedTwice_def sharesPerson_def closedSettled_def closedConsultation_def sampleConsultation_def
      sampleAppointment_def)

lemma sampleConversion_ok: "succeeds (fst (sampleConversion 50 sampleReviewDb))"
  by code_simp

theorem requests_move_forward_witness:
  "\<exists>c'. fetch cr_id ''c2'' (of_consultations (bk_office (serveAll (deskServe sampleBooking sampleReview)
      [Decides sampleReopen] sampleReviewDb))) = Some c' \<and> cr_clientId c' = Some ''k2''"
proof -
  have "fetch cr_id ''c2'' (of_consultations (bk_office sampleReviewDb)) = Some (sampleConsultation ''c2'' ''k2'' O_MISSED)"
    by code_simp
  from requests_move_forward [OF sampleReviewDb_ok(2) this, where qs = "[Decides sampleReopen]" and bp = sampleBooking and pf = sampleReview]
  show ?thesis by (auto simp: sampleConsultation_def simp del: serveAll.simps)
qed

theorem case_opened_once_witness:
  "\<not> succeeds (fst (sampleConversion 60 (serveAll (deskServe sampleBooking sampleReview) [Decides sampleReopen]
     (snd (sampleConversion 50 sampleReviewDb)))))"
proof -
  obtain k s1 where run: "sampleConversion 50 sampleReviewDb = (Inr k, s1)"
    using sampleConversion_ok by (cases "sampleConversion 50 sampleReviewDb") (auto simp: succeeds_iff)
  from case_opened_once [OF sampleReviewDb_ok(2) run [unfolded sampleConversion_def],
      where later = 60 and who = sampleSecretary and other = sampleConvert and bp = sampleBooking and
        qs = "[Decides sampleReopen]" and again = "\<lambda>_. False" and newIds = sampleReviewIds] run
  show ?thesis by (simp add: sampleConversion_def del: serveAll.simps)
qed

text \<open>A conversion that brings a follow-up asks for the lawyer only: the client may have another appointment then.\<close>

definition sampleBusyDb :: booking_db where
  "sampleBusyDb = setAppointments (of_appointments sampleDesk @
     [(sampleAppointment ''a3'' ''k1'' ''c1'' 5000)\<lparr>ap_consultationRequestId := None, ap_lawyerId := Some ''l2''\<rparr>]) sampleReviewDb"

lemma conversion_may_double_book:
  "deskOk doubleBooked (bk_office sampleBusyDb)"
  "\<not> noDoubleBooking (of_appointments (bk_office (snd (convertConsultationToCase sampleReview (\<lambda>_. False) 50 sampleReviewIds
      sampleSecretary ''c1'' (sampleConvert\<lparr>vt_appointmentStartsAt := Some ''t''\<rparr>) sampleBusyDb))))"
proof -
  show "deskOk doubleBooked (bk_office sampleBusyDb)"
    by (simp add: deskOk_def sampleBusyDb_def sampleReviewDb_def sampleDesk_def linkOk_def apart_def noDoubleBooking_def
        doubleBooked_def sharesPerson_def sampleConsultation_def sampleAppointment_def setAppointments_def
        appointmentIntervalsOverlap_def)
qed code_simp

text \<open>The priority of a case never comes from the urgency of its request: the body always has one.\<close>

lemma urgency_is_lost:
  "map_option lc_priority (case fst (sampleConversion 50 sampleReviewDb) of Inl _ \<Rightarrow> None | Inr k \<Rightarrow> Some k) = Some ''NORMAL''"
  "rc_urgency (sampleCaller ''c1'') = ''URGENT''"
  by code_simp+

text \<open>A request from a conversation, for a free time.\<close>

definition sampleAsked :: booking_db where
  "sampleAsked = sampleReviewDb
    \<lparr>bk_office := sampleDesk\<lparr>of_appointments := [sampleReserved],
       of_consultations := [sampleConsultation ''n1'' ''k1'' O_PENDING]\<rparr>,
     bk_requests := [(sampleCaller ''n1'')\<lparr>rc_requestedStartsAt := Some 374400000, rc_requestedEndsAt := Some 378000000\<rparr>],
     bk_sessions := [sampleTalk\<lparr>as_consultationRequestId := Some ''n1''\<rparr>]\<rparr>"

definition sampleTimed :: review_platform where
  "sampleTimed = sampleReview\<lparr>cw_outcome := sampleOutcomePlatform\<lparr>ou_datetime := \<lambda>_. Some 374400000\<rparr>\<rparr>"

definition sampleSchedule :: schedule_input where
  "sampleSchedule = \<lparr>si_assignedLawyerId = ''l1'', si_startsAt = ''t'', si_durationMinutes = 60, si_mode = M_PHONE,
     si_location = None, si_expectedOutcomeVersion = 0\<rparr>"

lemma sampleAsked_free: "requestedSlotFree sampleTimed 50 374400000 378000000 M_PHONE sampleAsked = Inr ()"
proof -
  have "assertRequestedSlotAtApproval sampleClock 374400000 378000000 M_PHONE 50 (slotView sampleAsked) =
      assertRequestedSlotAtApproval sampleClock 374400000 378000000 M_PHONE 50 sampleShop"
    by (simp add: assertRequestedSlotAtApproval_def storedAvailability_def bookedConsultations_def slotView_def sampleAsked_def
        sampleShop_def sampleReviewDb_def)
  then show ?thesis
    using sampleApproval by (simp add: requestedSlotFree_def sampleTimed_def sampleReview_def MS_PER_DAY_def endless_def)
qed

lemma sampleSchedule_runs:
  "succeeds (scheduleOperation sampleTimed 50 sampleReviewIds sampleSecretary ''n1'' sampleSchedule 374400000 sampleAsked)"
proof -
  have load: "loadConsultation ''n1'' sampleAsked = Some (sampleConsultation ''n1'' ''k1'' O_PENDING,
      (sampleCaller ''n1'')\<lparr>rc_requestedStartsAt := Some 374400000, rc_requestedEndsAt := Some 378000000\<rparr>)"
    by code_simp
  have can: "schedulable (sampleConsultation ''n1'' ''k1'' O_PENDING) sampleSchedule sampleAsked" by code_simp
  have times: "appointmentEndAt 374400000 (si_durationMinutes sampleSchedule) = 378000000" by code_simp
  have future: "startsInFuture 50 374400000 = Inr ()" by code_simp
  have lawyer: "assertAssignableLawyer (si_assignedLawyerId sampleSchedule) (of_staff (bk_office sampleAsked)) = Inr ()"
    by code_simp
  have "clientsChoiceKept sampleTimed 50
      ((sampleCaller ''n1'')\<lparr>rc_requestedStartsAt := Some 374400000, rc_requestedEndsAt := Some 378000000\<rparr>)
      374400000 378000000 (si_mode sampleSchedule) sampleAsked = Inr ()"
    using sampleAsked_free by (simp add: clientsChoiceKept_def sampleCaller_def sampleSchedule_def)
  with load can times future lawyer show ?thesis
    by (simp add: scheduleOperation_def Let_def) code_simp
qed

lemma sampleSchedule_ok:
  "succeeds (fst (scheduleConsultation sampleTimed (\<lambda>_. False) 50 50 sampleReviewIds sampleSecretary ''n1'' sampleSchedule
     sampleAsked))"
proof -
  have "canManageConsultationOutcome sampleSecretary" "consultationIdOf (cw_outcome sampleTimed) ''n1'' = Inr ''n1''"
    "parseWithSchema (scheduleConsultationInputSchema (cw_outcome sampleTimed)) sampleSchedule
       ''Consultation schedule payload is invalid.'' = Inr (sampleSchedule, 374400000)"
    "startsInFuture 50 374400000 = Inr ()"
    by code_simp+
  then show ?thesis
    using sampleSchedule_runs
    by (auto simp: scheduleConsultation_def runAppointmentConflictTransaction_def succeeds_iff simp del: consultationIdOf_eq)
qed

theorem clients_choice_kept_witness:
  "\<exists>a. of_appointments (bk_office (snd (scheduleConsultation sampleTimed (\<lambda>_. False) 50 50 sampleReviewIds sampleSecretary
      ''n1'' sampleSchedule sampleAsked))) = [sampleReserved, a] \<and> ap_startsAt a = 374400000"
proof -
  obtain u s' where run: "scheduleConsultation sampleTimed (\<lambda>_. False) 50 50 sampleReviewIds sampleSecretary ''n1''
      sampleSchedule sampleAsked = (Inr u, s')"
    using sampleSchedule_ok
    by (cases "scheduleConsultation sampleTimed (\<lambda>_. False) 50 50 sampleReviewIds sampleSecretary ''n1'' sampleSchedule
      sampleAsked") (auto simp: succeeds_iff)
  have "fetch rc_id ''n1'' (bk_requests sampleAsked) =
      Some ((sampleCaller ''n1'')\<lparr>rc_requestedStartsAt := Some 374400000, rc_requestedEndsAt := Some 378000000\<rparr>)"
    and "fromAssistant ''n1'' sampleAsked"
    by code_simp+
  from clients_choice_kept [OF run this, of 374400000] run show ?thesis by (auto simp: sampleAsked_def)
qed

theorem detail_tells_actions_witness:
  "\<not> succeeds (fst (scheduleConsultation sampleReview (\<lambda>_. False) 50 50 sampleReviewIds sampleSecretary ''c1'' sampleSchedule
     sampleReviewDb))"
proof -
  have "case getAdminConsultationDetail sampleReview 50 sampleSecretary ''c1'' sampleReviewDb of
      Inl _ \<Rightarrow> False | Inr d \<Rightarrow> \<not> cd_canSchedule d"
    by code_simp
  then obtain d where "getAdminConsultationDetail sampleReview 50 sampleSecretary ''c1'' sampleReviewDb = Inr d"
    "\<not> cd_canSchedule d"
    by (auto split: sum.splits)
  from detail_tells_actions [OF this(1), of "\<lambda>_. False" 50 50 sampleReviewIds sampleSchedule] this(2) show ?thesis by blast
qed

definition sampleQuery :: consultation_query where
  "sampleQuery = \<lparr>cq_view = V_missed, cq_q = None, cq_status = None, cq_assigned = AnyAssigned, cq_unreviewed = False,
     cq_clientId = None, cq_page = 1, cq_pageSize = 20\<rparr>"

theorem listed_requests_open_witness:
  "\<exists>d. getAdminConsultationDetail sampleReview 50 sampleSecretary ''c2'' sampleReviewDb = Inr d \<and>
     cd_consultation d = sampleConsultation ''c2'' ''k2'' O_MISSED"
proof -
  let ?c = "sampleConsultation ''c2'' ''k2'' O_MISSED"
  have "case listAdminConsultations sampleReview 50 sampleSecretary sampleQuery sampleReviewDb of
      Inl _ \<Rightarrow> False | Inr page \<Rightarrow> cg_items page = [?c]"
    by code_simp
  then obtain page where page: "listAdminConsultations sampleReview 50 sampleSecretary sampleQuery sampleReviewDb = Inr page"
    "?c \<in> set (cg_items page)"
    by (auto split: sum.splits)
  have "distinct (map cr_id (of_consultations (bk_office sampleReviewDb)))" "ou_isUuid (cw_outcome sampleReview) (cr_id ?c)"
    by code_simp+
  from listed_requests_open [OF page this] show ?thesis by (simp add: sampleConsultation_def)
qed

text \<open>
  A lawyer assigned while the client is paying: the request no longer waits for the payment, so the confirmation
  of the payment finds a blocker.
\<close>

definition samplePaying :: booking_db where
  "samplePaying = sampleReviewDb\<lparr>bk_office := sampleDesk\<lparr>of_appointments := [sampleReserved], of_consultations := [sampleWaiting]\<rparr>,
     bk_clients := [sampleClient ''c1'']\<rparr>"

lemma assignment_stops_payment:
  "paidAttemptWebhookConfirmationBlocker PA_PENDING 900 A_RESERVED (cr_status sampleWaiting) 50 = []"
  "case assignConsultation sampleReview (\<lambda>_. False) 40 sampleSecretary ''q1'' ''l1'' samplePaying of
     (Inl _, _) \<Rightarrow> False
   | (Inr _, s) \<Rightarrow> list_all (\<lambda>a. ap_status a = A_RESERVED) (of_appointments (bk_office s)) \<and> list_all (\<lambda>c.
       paidAttemptWebhookConfirmationBlocker PA_PENDING 900 A_RESERVED (cr_status c) 50 \<noteq> []) (of_consultations (bk_office s))"
  by code_simp+

end
