(* ===== verification/CaseFacts.thy ===== *)
theory CaseFacts
  imports ManualCases ReviewFacts
begin

text \<open>
  What holds of the calendar and the cases beside everything else the office does: lawyers are never booked
  twice, a window of the calendar begins and ends at midnight of the office's clock, a case that was opened by
  hand is opened once, and a case page opens exactly for the cases in the list.
\<close>

section \<open>The office's clock\<close>

lemma cairoLocalDateTimeToIso_reading:
  assumes "cairoLocalDateTimeToIso sp s = Some t"
  shows "wallReading s = Some (wallTimeAt sp t)"
  using assms by (auto simp: cairoLocalDateTimeToIso_def cairoLocalOrdinal_def Let_def split: option.splits if_splits)

text \<open>Where the clock keeps one offset of whole minutes around a reading, the reading is found.\<close>

lemma cairoLocalDateTimeToIso_steady:
  assumes "wallReading s = Some d" and "sp_offset sp d = m * minuteMs" and "sp_offset sp (d - m * minuteMs) = m * minuteMs"
  shows "cairoLocalDateTimeToIso sp s = Some (d - m * minuteMs)"
proof -
  obtain n where d: "d = n * minuteMs"
  proof -
    from assms(1) obtain n h k where "d = n * MS_PER_DAY + h * 3600000 + k * 60000"
      by (auto simp: wallReading_def split: list.splits option.splits if_splits)
    then have "d = (n * 1440 + h * 60 + k) * minuteMs" by (simp add: MS_PER_DAY_def minuteMs_def)
    then show thesis by (rule that)
  qed
  have ahead: "wallTimeAt sp d = d + m * minuteMs"
    using assms(2) by (simp add: wallTimeAt_def d minuteMs_def)
  have returns: "wallTimeAt sp (d - m * minuteMs) = d"
    using assms(3) by (simp add: wallTimeAt_def d minuteMs_def)
  have "approachReading sp d 4 d = d - m * minuteMs"
    using ahead returns by (simp add: numeral_eq_Suc cairoLocalOrdinal_def Let_def)
  then show ?thesis using assms(1) returns by (simp add: cairoLocalDateTimeToIso_def cairoLocalOrdinal_def)
qed

lemma cairoCalendarBoundary_Inr:
  assumes "cairoCalendarBoundary sp x name = Inr t"
  obtains d where "x = Some d" and "wallReading (d @ ''T00:00'') = Some (wallTimeAt sp t)"
proof -
  from assms obtain d where d: "nonEmpty x = Some d" "cairoLocalDateTimeToIso sp (d @ ''T00:00'') = Some t"
    by (auto simp: cairoCalendarBoundary_def split: option.splits) (cases "nonEmpty x"; simp)
  then have "x = Some d" by (auto simp: nonEmpty_def split: option.splits if_splits)
  with that cairoLocalDateTimeToIso_reading [OF d(2)] show thesis by blast
qed


section \<open>Requests of the house\<close>

datatype house_request =
    Desk office_request
  | SetsStatus int principal string status_input
  | Holds int string principal string session_input
  | Adds "nat \<Rightarrow> bool" string principal calendar_input
  | Moves "nat \<Rightarrow> bool" int principal string reschedule_input
  | Opens int principal manual_input
  | Edits int principal string core_update

definition houseServe ::
  "booking_platform \<Rightarrow> review_platform \<Rightarrow> case_platform \<Rightarrow> house_request \<Rightarrow> case_db \<Rightarrow> unit api \<times> case_db" where
  "houseServe bp rp pf q s =
    (case q of
       Desk r \<Rightarrow> (case deskServe bp rp r (kd_desk s) of (x, d) \<Rightarrow> (x, s\<lparr>kd_desk := d\<rparr>))
     | SetsStatus now actor i raw \<Rightarrow> ran (updateAdminCaseStatus pf now actor i raw s) s
     | Holds now newId actor i raw \<Rightarrow> ran (createAdminCaseSession pf now newId actor i raw s) s
     | Adds ab newId actor raw \<Rightarrow> quiet (createAdminCalendarAppointment pf ab newId actor raw s)
     | Moves ab now actor i raw \<Rightarrow> quiet (rescheduleAdminCalendarAppointment pf ab now actor i raw s)
     | Opens now actor raw \<Rightarrow> ran (createManualCase pf now actor raw s) s
     | Edits now actor i raw \<Rightarrow> ran (updateManualCaseCore pf now actor i raw s) s)"

lemma case_frame [simp]:
  "bk_office (kd_desk (putCases k s)) = bk_office (kd_desk s)"
  "casesOf (putCases k s) = k" "appointmentsOf (putCases k s) = appointmentsOf s"
  "of_appointments (bk_office (kd_desk (putAppointments rows s))) = rows"
  "of_consultations (bk_office (kd_desk (putAppointments rows s))) = of_consultations (bk_office (kd_desk s))"
  "casesOf (putAppointments rows s) = casesOf s"
  "of_appointments (bk_office (kd_desk (auditCase e s))) = of_appointments (bk_office (kd_desk s))"
  "of_consultations (bk_office (kd_desk (auditCase e s))) = of_consultations (bk_office (kd_desk s))"
  "of_appointments (bk_office (kd_desk (auditCaseBestEffort pf e s))) = of_appointments (bk_office (kd_desk s))"
  "of_consultations (bk_office (kd_desk (auditCaseBestEffort pf e s))) = of_consultations (bk_office (kd_desk s))"
  "casesOf (auditCase e s) = casesOf s" "casesOf (auditCaseBestEffort pf e s) = casesOf s"
  by (simp_all add: putCases_def casesOf_def appointmentsOf_def putAppointments_def setAppointments_def auditCase_def
      auditOffice_def auditCaseBestEffort_def)

lemma createAdminCalendarAppointment_cases:
  assumes "createAdminCalendarAppointment pf ab newId actor raw s = (r, s')"
  obtains e where "r = Inl e" "s' = s"
    | body t e a where "r = Inr a" "calendarCreateOperation newId actor body t e s = Inr (a, s')"
  using assms unfolding createAdminCalendarAppointment_def
  by (auto split: sum.splits prod.splits elim!: runTransaction_cases intro: that)

lemma rescheduleAdminCalendarAppointment_cases:
  assumes "rescheduleAdminCalendarAppointment pf ab now actor i raw s = (r, s')"
  obtains e where "r = Inl e" "s' = s"
    | body t e a where "r = Inr a" "rescheduleOperation now actor i body t e s = Inr (a, s')"
  using assms unfolding rescheduleAdminCalendarAppointment_def
  by (auto simp: uuidIn_def parseWithSchema_eq split: sum.splits prod.splits if_splits elim!: runTransaction_cases intro: that)


lemma createManualCase_success:
  assumes "createManualCase pf now actor raw s = Inr ((k, replayed), s')"
  obtains body where "manualCaseCreateSchema (kp_outcome pf) raw = Inr body" and "lc_id k = mb_requestToken body"
    and "canCreateManualCase actor"
    and "replayed \<longrightarrow> s' = s \<and> replayForExistingCase (pr_id actor) (mb_requestToken body) (manualCaseRequestHash pf body) s = Inr (Some k)"
    and "\<not> replayed \<longrightarrow> k = manualCaseRow pf now body \<and> lc_id k \<notin> lc_id ` set (casesOf s) \<and>
      (\<exists>ps. s' = auditCase (caseEvent actor ''case.manual_create'' ''LegalCase'' (lc_id k) k
              [(''requestHash'', MText (manualCaseRequestHash pf body)), (''source'', MText ''admin-manual''),
               (''status'', MText ''NEW'')]) ((putCases (casesOf s @ [k]) s)\<lparr>kd_parties := ps\<rparr>))"
proof -
  from assms obtain body where body: "manualCaseCreateSchema (kp_outcome pf) raw = Inr body" and can: "canCreateManualCase actor"
    by (auto simp: createManualCase_def parseWithSchema_eq)
  have replay: "lc_id k = mb_requestToken body"
    if "replayForExistingCase (pr_id actor) (mb_requestToken body) h s = Inr (Some k)" for h k
    using that by (auto simp: replayForExistingCase_def dest: fetch_SomeD split: option.splits if_splits)
  show thesis
    by (rule that [OF body])
      (use assms body can replay in \<open>auto simp: createManualCase_def createManualCaseTransaction_def parseWithSchema_eq
        ofManualApi_def Let_def manualCaseRow_def split: sum.splits option.splits manual_throw.splits\<close>)
qed

lemma createManualCase_office:
  assumes "createManualCase pf now actor raw s = Inr (r, s')"
  shows "of_appointments (bk_office (kd_desk s')) = of_appointments (bk_office (kd_desk s)) \<and>
    of_consultations (bk_office (kd_desk s')) = of_consultations (bk_office (kd_desk s))"
proof -
  obtain k b where r: "r = (k, b)" by fastforce
  from assms [unfolded r] show ?thesis
    by (rule createManualCase_success) (cases b; auto simp: auditCase_def auditOffice_def putCases_def)
qed


section \<open>Lawyers are never booked twice\<close>

lemma calendarCreate_desk:
  assumes ok: "deskOk (bookedTwice False) (bk_office (kd_desk s))"
    and op: "calendarCreateOperation newId actor body t e s = Inr (a, s')"
  shows "deskOk (bookedTwice False) (bk_office (kd_desk s'))"
proof -
  from op obtain k where free: "assertNoAppointmentConflict (Some t) (Some e) (LawyerScope (lc_assignedLawyerId k)) None
      (of_appointments (bk_office (kd_desk s))) = Inr ()"
    and a: "a = calendarRow newId k body t e" and fresh: "newId \<notin> ap_id ` set (of_appointments (bk_office (kd_desk s)))"
    and apps: "of_appointments (bk_office (kd_desk s')) = of_appointments (bk_office (kd_desk s)) @ [a]"
    and cons: "of_consultations (bk_office (kd_desk s')) = of_consultations (bk_office (kd_desk s))"
    by (auto simp: calendarCreateOperation_def Let_def appointmentsOf_def calendarRow_def)
  have "\<not> bookedTwice False a b" if "b \<in> set (of_appointments (bk_office (kd_desk s)))" for b
    by (rule free_row [OF free _ _ _ _ that]) (simp_all add: a calendarRow_def)
  then have "apart (bookedTwice False) (of_appointments (bk_office (kd_desk s')))"
    using ok by (auto simp: apps deskOk_def intro!: desks.apart_append)
  moreover have "linkOk (bk_office (kd_desk s'))"
    using ok by (auto simp: deskOk_def linkOk_def apps cons a calendarRow_def)
  ultimately show ?thesis using ok fresh by (auto simp: deskOk_def apps cons a calendarRow_def)
qed

lemma reschedule_desk:
  assumes ok: "deskOk (bookedTwice False) (bk_office (kd_desk s))"
    and op: "rescheduleOperation now actor i body t e s = Inr (a, s')"
  shows "deskOk (bookedTwice False) (bk_office (kd_desk s'))"
proof -
  let ?rows = "of_appointments (bk_office (kd_desk s))" let ?f = "rescheduledRow body t e"
  from op obtain r where r: "fetch ap_id i ?rows = Some r"
    and free: "assertNoAppointmentConflict (Some t) (Some e) (rescheduleScope s r) (Some i) ?rows = Inr ()"
    and apps: "of_appointments (bk_office (kd_desk s')) = modify ap_id i ?f ?rows"
    and cons: "of_consultations (bk_office (kd_desk s')) = of_consultations (bk_office (kd_desk s))"
    by (auto simp: rescheduleOperation_def Let_def appointmentsOf_def split: option.splits)
  from fetch_SomeD [OF r] have row: "r \<in> set ?rows" "ap_id r = i" by simp_all
  show ?thesis
  proof (rule desks.deskOk_modify [OF ok apps])
    show "of_consultations (bk_office (kd_desk s')) = modify cr_id i (\<lambda>c. c) (of_consultations (bk_office (kd_desk s)))"
      by (simp add: cons)
    have "\<not> bookedTwice False (?f r) b" if b: "b \<in> set ?rows" "ap_id b \<noteq> ap_id r" for b
    proof (cases "ap_lawyerId r")
      case None
      then show ?thesis by (simp add: bookedTwice_def rescheduledRow_def)
    next
      case (Some l)
      then have "assertNoAppointmentConflict (Some t) (Some e) (LawyerScope l) (Some i) ?rows = Inr ()"
        using free by (simp add: rescheduleScope_def)
      then show ?thesis
        by (rule free_row) (use Some b row in \<open>simp_all add: rescheduledRow_def\<close>)
    qed
    then show "apart (bookedTwice False) (of_appointments (bk_office (kd_desk s')))"
      unfolding apps using ok row by (intro desks.apart_modify [where a = r, unfolded row(2)]) (auto simp: deskOk_def rescheduledRow_def)
  qed (simp_all add: rescheduledRow_def)
qed


text \<open>The requests that look at the client before they give a time: all but the calendar and follow-ups.\<close>

definition looksAtClient :: "house_request \<Rightarrow> bool" where
  "looksAtClient q = (case q of Desk r \<Rightarrow> \<not> bringsFollowUp r | Adds _ _ _ _ \<Rightarrow> False | Moves _ _ _ _ _ \<Rightarrow> False | _ \<Rightarrow> True)"

lemma houseServe_desk:
  assumes ok: "deskOk (bookedTwice w) (bk_office (kd_desk s))"
    and only: "w \<Longrightarrow> looksAtClient q"
  shows "deskOk (bookedTwice w) (bk_office (kd_desk (snd (houseServe bp rp pf q s))))"
proof -
  have same: ?thesis if "bk_office (kd_desk (snd (houseServe bp rp pf q s))) = bk_office (kd_desk s) \<or>
      (of_appointments (bk_office (kd_desk (snd (houseServe bp rp pf q s)))) = of_appointments (bk_office (kd_desk s)) \<and>
       of_consultations (bk_office (kd_desk (snd (houseServe bp rp pf q s)))) = of_consultations (bk_office (kd_desk s)))"
    using that ok by (auto simp: deskOk_def linkOk_def)
  show ?thesis
  proof (cases q)
    case (Desk r)
    then show ?thesis using deskServe_desk [OF ok, of r bp rp] only by (auto simp: houseServe_def split_beta looksAtClient_def)
  next
    case (SetsStatus now actor i raw)
    then show ?thesis
      by (intro same) (auto simp: houseServe_def ran_def updateAdminCaseStatus_def Let_def split: sum.splits)
  next
    case (Holds now newId actor i raw)
    then show ?thesis
      by (intro same) (auto simp: houseServe_def ran_def createAdminCaseSession_def Let_def split: sum.splits option.splits)
  next
    case (Adds ab newId actor raw)
    obtain x s' where run: "createAdminCalendarAppointment pf ab newId actor raw s = (x, s')" by fastforce
    have "\<not> w" using only Adds by (auto simp: looksAtClient_def)
    from run show ?thesis
      by (rule createAdminCalendarAppointment_cases)
        (use run ok Adds \<open>\<not> w\<close> calendarCreate_desk in \<open>auto simp: houseServe_def quiet_def\<close>)
  next
    case (Moves ab now actor i raw)
    obtain x s' where run: "rescheduleAdminCalendarAppointment pf ab now actor i raw s = (x, s')" by fastforce
    have "\<not> w" using only Moves by (auto simp: looksAtClient_def)
    from run show ?thesis
      by (rule rescheduleAdminCalendarAppointment_cases)
        (use run ok Moves \<open>\<not> w\<close> reschedule_desk in \<open>auto simp: houseServe_def quiet_def\<close>)
  next
    case (Opens now actor raw)
    then show ?thesis
      by (intro same) (auto simp: houseServe_def ran_def dest!: createManualCase_office split: sum.splits)
  next
    case (Edits now actor i raw)
    then show ?thesis
      by (intro same) (auto simp: houseServe_def ran_def updateManualCaseCore_def updateManualCaseTransaction_def Let_def
          split: sum.splits option.splits if_splits)
  qed
qed

interpretation house: guarded_machine "houseServe bp rp pf" "\<lambda>s. deskOk (bookedTwice False) (bk_office (kd_desk s))" for bp rp pf
  by unfold_locales (rule houseServe_desk, simp_all)

lemma house_desk:
  assumes "deskOk (bookedTwice w) (bk_office (kd_desk s))" and "\<And>q. q \<in> set qs \<Longrightarrow> w \<Longrightarrow> looksAtClient q"
  shows "deskOk (bookedTwice w) (bk_office (kd_desk (serveAll (houseServe bp rp pf) qs s)))"
  using assms by (induction qs arbitrary: s) (simp_all add: houseServe_desk)

text \<open>
  C6. Let clients book, move and cancel from their conversations while the staff schedules, assigns, reviews, rejects,
  converts, records and reopens consultations, opens and edits cases and adds and moves appointments in the calendar, in any
  order and with any transactions aborted. No lawyer ever has two active appointments at one time; and no client
  has, as long as the calendar gives no time and no conversion brings a follow-up.
\<close>

theorem office_never_double_books:
  fixes qs :: "house_request list" and bp :: booking_platform and rp :: review_platform and pf :: case_platform
  assumes "deskOk doubleBooked (bk_office (kd_desk s))"
  defines "rows \<equiv> appointmentsOf (serveAll (houseServe bp rp pf) qs s)"
  shows "(\<forall>a\<in>set rows. \<forall>b\<in>set rows. \<not> bookedTwice False a b) \<and>
    ((\<forall>q\<in>set qs. looksAtClient q) \<longrightarrow> noDoubleBooking rows)"
proof -
  have all: "deskOk (bookedTwice True) (bk_office (kd_desk s))" using assms(1) by (simp add: bookedTwice_True)
  moreover have "bookedTwice True a b" if "bookedTwice False a b" for a b using that by (auto simp: bookedTwice_def)
  ultimately have "deskOk (bookedTwice False) (bk_office (kd_desk s))" unfolding deskOk_def apart_def by blast
  from house_desk [OF this, of qs bp rp pf] house_desk [OF all, of qs bp rp pf] show ?thesis
    by (auto simp: deskOk_def apart_def rows_def appointmentsOf_def bookedTwice_True noDoubleBooking_def)
qed


section \<open>The calendar's window\<close>

lemma splitOn_between: "splitOn sep (s @ sep # t) = splitOn sep s @ splitOn sep t"
proof (induction s)
  case (Cons c s)
  then show ?case by (cases "splitOn sep s") simp_all
qed simp

lemma wallReading_Some:
  assumes "wallReading s = Some w"
  obtains date time n h m where "splitOn (CHR ''T'') s = [date, time]" and "timeParts time = Some (h, m)"
    and "w = n * MS_PER_DAY + h * 3600000 + m * 60000"
proof -
  from assms obtain date time where split: "splitOn (CHR ''T'') s = [date, time]"
    by (auto simp: wallReading_def split: list.splits)
  with assms obtain n h m where "Option.bind (dateParts date) calendarDay = Some n" "timeParts time = Some (h, m)"
    by (auto simp: wallReading_def split: option.splits)
  with assms split that show thesis by (auto simp: wallReading_def split: if_splits)
qed

lemma wallReading_midnight:
  assumes "wallReading (d @ ''T00:00'') = Some w"
  shows "w mod MS_PER_DAY = 0"
proof -
  from assms obtain date time n h m where split: "splitOn (CHR ''T'') (d @ ''T00:00'') = [date, time]"
    and time: "timeParts time = Some (h, m)" and w: "w = n * MS_PER_DAY + h * 3600000 + m * 60000"
    by (rule wallReading_Some)
  note tail = splitOn_between [of "CHR ''T''" d "''00:00''"]
  have "splitOn (CHR ''T'') ''00:00'' = [''00:00'']" by (simp add: splitOn_absent)
  then have "time = ''00:00''" using split tail splitOn_nonempty [of "CHR ''T''" d]
    by (cases "splitOn (CHR ''T'') d" rule: rev_cases) auto
  moreover have "timeParts ''00:00'' = Some (0, 0)" by code_simp
  ultimately show ?thesis using time w by (simp add: MS_PER_DAY_def)
qed

lemma set_putEarly [simp]: "set (putEarly a bs) = insert a (set bs)"
  by (induction a bs rule: putEarly.induct) auto

lemma set_earliest [simp]: "set (foldr putEarly rows []) = set rows"
  by (induction rows) simp_all

lemma calendarPage_parts:
  "cz_window (calendarPage f w rows s) = w"
  "x \<in> set (cz_items (calendarPage f w (filter found rs) s)) \<Longrightarrow> fst x \<in> set rs \<and> found (fst x)"
  "int (length (cz_items (calendarPage f w rows s))) \<le> min 100 (max 1 (cy_pageSize f))"
proof -
  have take: "pg_take (toPagination p (Some n)) = min 100 (max 1 n)" for p n by (simp add: toPagination_def Let_def)
  show "cz_window (calendarPage f w rows s) = w" by (simp add: calendarPage_def Let_def)
  show "fst x \<in> set rs \<and> found (fst x)" if "x \<in> set (cz_items (calendarPage f w (filter found rs) s))"
  proof -
    from that have "fst x \<in> set (foldr putEarly (filter found rs) [])"
      unfolding calendarPage_def Let_def by (auto dest!: in_set_takeD in_set_dropD)
    then show ?thesis by simp
  qed
  have "length (cz_items (calendarPage f w rows s)) \<le> nat (min 100 (max 1 (cy_pageSize f)))"
    unfolding calendarPage_def Let_def take by simp
  then show "int (length (cz_items (calendarPage f w rows s))) \<le> min 100 (max 1 (cy_pageSize f))"
    by (subst (asm) le_nat_iff) simp_all
qed

text \<open>
  A page of the calendar shows appointments of the window only, each one within the scope of the one who asked; the window
  begins and ends at a midnight of the office's clock and is not empty, whatever the clock's offset does; and the page
  holds no more rows than were asked for.
\<close>

theorem calendar_page_in_window:
  assumes "listAdminCalendarAppointments pf now actor query s = Inr page" and "appointmentScopeWhereForPrincipal actor s = Inr scope"
  shows "(\<forall>x\<in>set (cz_items page). fst x \<in> set (appointmentsOf s) \<and> scope (fst x) \<and>
      fst (cz_window page) \<le> ap_startsAt (fst x) \<and> ap_startsAt (fst x) < snd (cz_window page)) \<and>
    fst (cz_window page) < snd (cz_window page) \<and> wallTimeAt (kp_clock pf) (fst (cz_window page)) mod MS_PER_DAY = 0 \<and>
    wallTimeAt (kp_clock pf) (snd (cz_window page)) mod MS_PER_DAY = 0 \<and> int (length (cz_items page)) \<le> cy_pageSize query"
proof -
  from assms obtain f a b found where f: "adminCalendarQuerySchema (kp_outcome pf) query = Inr f"
    and window: "calendarWindow (kp_clock pf) f now = Inr (a, b)" and found: "calendarWhere pf now actor f s = Inr found"
    and listed: "page = calendarPage f (a, b) (filter found (appointmentsOf s)) s"
    by (auto simp: listAdminCalendarAppointments_def parseWithSchema_eq)
  have page: "cz_window page = (a, b)" "\<And>x. x \<in> set (cz_items page) \<Longrightarrow> fst x \<in> set (appointmentsOf s) \<and> found (fst x)"
    and "int (length (cz_items page)) \<le> min 100 (max 1 (cy_pageSize f))"
    unfolding listed by (rule calendarPage_parts, rule calendarPage_parts, simp, rule calendarPage_parts)
  have within: "found x \<Longrightarrow> scope x \<and> a \<le> ap_startsAt x \<and> ap_startsAt x < b" for x
    using found assms(2) window by (auto simp: calendarWhere_def Let_def)
  from window obtain x y n1 n2 where bounds: "cairoCalendarBoundary (kp_clock pf) x n1 = Inr a" "cairoCalendarBoundary (kp_clock pf) y n2 = Inr b" "a < b"
    by (auto simp: calendarWindow_def Let_def)
  have midnight: "wallTimeAt (kp_clock pf) t mod MS_PER_DAY = 0" if "cairoCalendarBoundary (kp_clock pf) z n = Inr t" for z n t
    using that by (rule cairoCalendarBoundary_Inr) (rule wallReading_midnight)
  have "1 \<le> cy_pageSize query" "cy_pageSize query \<le> 100" "cy_pageSize f = cy_pageSize query"
    using f by (auto simp: adminCalendarQuerySchema_def schemaIssue_def Let_def split: if_splits)
  then have "int (length (cz_items page)) \<le> cy_pageSize query"
    using \<open>int (length (cz_items page)) \<le> min 100 (max 1 (cy_pageSize f))\<close> by simp
  with page within bounds(3) midnight [OF bounds(1)] midnight [OF bounds(2)] show ?thesis by auto
qed


section \<open>A sample house\<close>

definition sampleHouse :: case_db where
  "sampleHouse = \<lparr>kd_desk = sampleReviewDb, kd_sessions = [], kd_parties = [], kd_userNames = []\<rparr>"

definition sampleCases :: case_platform where
  "sampleCases = \<lparr>kp_outcome = sampleOutcomePlatform, kp_clock = sampleClock, kp_year = (\<lambda>_. ''2026''), kp_parseDate = (\<lambda>_. Some 90000000),
     kp_contains = (\<lambda>_ _. True), kp_containsPoints = (\<lambda>_ _. True), kp_order = (\<lambda>_ _ rows. rows), kp_sha256 = (\<lambda>_. []), kp_auditUp = True\<rparr>"

theorem office_never_double_books_witness:
  "noDoubleBooking (appointmentsOf (serveAll (houseServe sampleBooking sampleReview sampleCases) [Desk (Decides sampleReopen)] sampleHouse))"
proof -
  have "deskOk doubleBooked (bk_office (kd_desk sampleHouse))" using sampleReviewDb_ok(1) by (simp add: sampleHouse_def)
  from office_never_double_books [OF this, where qs = "[Desk (Decides sampleReopen)]" and bp = sampleBooking and rp = sampleReview and pf = sampleCases]
  show ?thesis by (simp add: looksAtClient_def bringsFollowUp_def del: serveAll.simps)
qed

definition sampleMonth :: calendar_query where
  "sampleMonth = \<lparr>cy_from = Some ''2000-02-29'', cy_to = Some ''2025-01-01'', cy_anchor = None, cy_status = None, cy_mode = None,
     cy_lawyerId = None, cy_clientId = None, cy_caseId = None, cy_page = 1, cy_pageSize = 50\<rparr>"

lemma sampleMonth_boundaries:
  "cairoCalendarBoundary sampleClock (Some ''2000-02-29'') name = Inr (11016 * MS_PER_DAY - 7200000)"
  "cairoCalendarBoundary sampleClock (Some ''2025-01-01'') name = Inr (20089 * MS_PER_DAY - 7200000)"
proof -
  have steady: "cairoLocalDateTimeToIso sampleClock s = Some (w - 7200000)" if "wallReading s = Some w" for s w
    using cairoLocalDateTimeToIso_steady [OF that, of sampleClock 120] by (simp add: sampleClock_def minuteMs_def)
  have "dateParts ''2000-02-29'' = Some (2000, 2, 29)" "dateParts ''2025-01-01'' = Some (2025, 1, 1)" "timeParts ''00:00'' = Some (0, 0)"
    by (simp_all add: dateParts_def timeParts_def allDigits_def isDigit_def natOfDigits_def digitValue_def codeUnit_def)
  then have "wallReading ''2000-02-29T00:00'' = Some (11016 * MS_PER_DAY)" "wallReading ''2025-01-01T00:00'' = Some (20089 * MS_PER_DAY)"
    by (simp_all add: wallReading_def calendarDay_def civil_examples)
  from this [THEN steady] show
    "cairoCalendarBoundary sampleClock (Some ''2000-02-29'') name = Inr (11016 * MS_PER_DAY - 7200000)"
    "cairoCalendarBoundary sampleClock (Some ''2025-01-01'') name = Inr (20089 * MS_PER_DAY - 7200000)"
    by (simp_all add: cairoCalendarBoundary_def nonEmpty_def)
qed

lemma sampleMonth_listed:
  "\<exists>page. listAdminCalendarAppointments sampleCases 0 sampleSecretary sampleMonth sampleHouse = Inr page \<and>
    cz_window page = (11016 * MS_PER_DAY - 7200000, 20089 * MS_PER_DAY - 7200000)"
proof -
  have manages: "hasPermission sampleSecretary ''appointment.manage.any''" by code_simp
  have clock: "kp_clock sampleCases = sampleClock" by (simp add: sampleCases_def)
  have "adminCalendarQuerySchema (kp_outcome sampleCases) sampleMonth = Inr sampleMonth" by code_simp
  moreover have "calendarWindow sampleClock sampleMonth 0 = Inr (11016 * MS_PER_DAY - 7200000, 20089 * MS_PER_DAY - 7200000)"
    by (simp add: calendarWindow_def sampleMonth_def nonEmpty_def sampleMonth_boundaries MS_PER_DAY_def)
  ultimately show ?thesis using manages
    by (simp add: listAdminCalendarAppointments_def parseWithSchema_def calendarWhere_def appointmentScopeWhereForPrincipal_def clock Let_def
        calendarPage_parts)
qed

theorem calendar_page_in_window_witness:
  "\<exists>page. listAdminCalendarAppointments sampleCases 0 sampleSecretary sampleMonth sampleHouse = Inr page \<and>
    wallTimeAt sampleClock (snd (cz_window page)) mod MS_PER_DAY = 0"
proof -
  obtain page where page: "listAdminCalendarAppointments sampleCases 0 sampleSecretary sampleMonth sampleHouse = Inr page"
    using sampleMonth_listed by blast
  have "hasPermission sampleSecretary ''appointment.manage.any''" by code_simp
  then have "appointmentScopeWhereForPrincipal sampleSecretary sampleHouse = Inr (\<lambda>_. True)"
    by (simp add: appointmentScopeWhereForPrincipal_def)
  from calendar_page_in_window [OF page this] page show ?thesis by (auto simp: sampleCases_def)
qed

text \<open>
  The office's clock goes from midnight to one on the last Friday of April: that day has no midnight, and the
  calendar that is asked for without dates is refused on it.
\<close>

definition summerClock :: slot_platform where
  "summerClock = sampleClock\<lparr>sp_offset := (\<lambda>t. if t < 1776981600000 then 7200000 else 10800000)\<rparr>"

lemma no_midnight_on_spring_day:
  "formatCairoDateInput summerClock 1777000000000 = ''2026-04-24''"
  "cairoLocalDateTimeToIso summerClock ''2026-04-24T00:00'' = None"
proof -
  have civil: "civilOfDays 20567 = (2026, 4, 24)" "daysOfCivil 2026 4 24 = 20567" by code_simp+
  then show "formatCairoDateInput summerClock 1777000000000 = ''2026-04-24''"
    by (simp add: formatCairoDateInput_def summerClock_def isoDate_def dayNumber_def MS_PER_DAY_def padStart_def natToText.simps
        digitChar_def char_of_def bit_0)
  have "dateParts ''2026-04-24'' = Some (2026, 4, 24)" "timeParts ''00:00'' = Some (0, 0)"
    by (simp_all add: dateParts_def timeParts_def allDigits_def isDigit_def natOfDigits_def digitValue_def codeUnit_def)
  then have "wallReading ''2026-04-24T00:00'' = Some (20567 * MS_PER_DAY)"
    by (simp add: wallReading_def calendarDay_def civil)
  moreover have wall: "wallTimeAt summerClock 1776978000000 = 1776985200000" "wallTimeAt summerClock 1776981600000 = 1776992400000"
    "wallTimeAt summerClock 1776974400000 = 1776981600000" "wallTimeAt summerClock 1776988800000 = 1776999600000"
    by (simp_all add: wallTimeAt_def summerClock_def minuteMs_def)
  have approach: "approachReading summerClock 1776988800000 4 1776988800000 = 1776981600000"
    by (simp add: numeral_eq_Suc cairoLocalOrdinal_def wall)
  ultimately show "cairoLocalDateTimeToIso summerClock ''2026-04-24T00:00'' = None"
    using approach by (simp add: cairoLocalDateTimeToIso_def cairoLocalOrdinal_def wall(2) MS_PER_DAY_def)
qed

text \<open>
  The calendar moves the appointment a client is paying for: it is no longer reserved, and the confirmation of
  the payment finds a blocker.
\<close>

definition samplePayingHouse :: case_db where
  "samplePayingHouse = sampleHouse\<lparr>kd_desk := samplePaying\<rparr>"

definition sampleMove :: reschedule_input where
  "sampleMove = \<lparr>rs_startsAt = ''t'', rs_durationMinutes = None, rs_mode = None, rs_location = None, rs_reason = None\<rparr>"

lemma move_stops_payment:
  "case rescheduleAdminCalendarAppointment sampleCases (\<lambda>_. False) 40 sampleSecretary (ap_id sampleReserved) sampleMove samplePayingHouse of
     (Inl _, _) \<Rightarrow> False
   | (Inr a, s) \<Rightarrow> ap_status a = A_RESCHEDULED \<and> list_all (\<lambda>c.
       paidAttemptWebhookConfirmationBlocker PA_PENDING 900 (ap_status a) (cr_status c) 50 \<noteq> []) (of_consultations (bk_office (kd_desk s)))"
  by code_simp

end
