(* ===== verification/Uploads.thy ===== *)
theory Uploads
  imports PaymentConfig JsDate "HOL-Library.Word"
begin

text \<open>
  Files on their way in and out: \<open>upload-policy.ts\<close>, \<open>file-keys.ts\<close>, \<open>vps-storage.ts\<close> (the paths),
  \<open>malware-scan.ts\<close> and \<open>download-headers.ts\<close> of \<open>src/src/server/storage\<close>. A file is its bytes; a file name
  is the list of its code points. The inflater, the table of lower case letters and the scanner are parameters.
\<close>

type_synonym bytes = "8 word list"
type_synonym points = "nat list"

definition pointsOf :: "string \<Rightarrow> points" where "pointsOf s = map codeUnit s"

section \<open>Bytes and texts\<close>

text \<open>\<open>None\<close> is the \<open>RangeError\<close> of a read beyond the end.\<close>

definition readUInt16LE :: "bytes \<Rightarrow> nat \<Rightarrow> nat option" where
  "readUInt16LE bs i = (if i + 2 \<le> length bs then Some (unat (bs ! i) + 256 * unat (bs ! (i + 1))) else None)"

definition readUInt32LE :: "bytes \<Rightarrow> nat \<Rightarrow> nat option" where
  "readUInt32LE bs i =
    (if i + 4 \<le> length bs
     then Some (unat (bs ! i) + 256 * unat (bs ! (i + 1)) + 65536 * unat (bs ! (i + 2)) + 16777216 * unat (bs ! (i + 3)))
     else None)"

definition subarray :: "nat \<Rightarrow> nat \<Rightarrow> 'a list \<Rightarrow> 'a list" where
  "subarray a b xs = take (b - a) (drop a xs)"

text \<open>
  \<open>toString("utf8")\<close>. A leading byte says how many bytes follow, where the first of them lies, and what it
  contributes; a sequence that breaks off is one replacement character, and the byte that broke it is read anew.
\<close>

definition leadByte :: "nat \<Rightarrow> (nat \<times> nat \<times> nat \<times> nat) option" where
  "leadByte b =
    (if 194 \<le> b \<and> b \<le> 223 then Some (1, 128, 191, b - 192)
     else if b = 224 then Some (2, 160, 191, 0)
     else if b = 237 then Some (2, 128, 159, 13)
     else if 225 \<le> b \<and> b \<le> 239 then Some (2, 128, 191, b - 224)
     else if b = 240 then Some (3, 144, 191, 0)
     else if 241 \<le> b \<and> b \<le> 243 then Some (3, 128, 191, b - 240)
     else if b = 244 then Some (3, 128, 143, 4)
     else None)"

fun trailBytes :: "nat \<Rightarrow> nat \<Rightarrow> nat \<Rightarrow> nat \<Rightarrow> nat list \<Rightarrow> nat option \<times> nat list" where
  "trailBytes 0 lo hi acc bs = (Some acc, bs)"
| "trailBytes (Suc n) lo hi acc [] = (None, [])"
| "trailBytes (Suc n) lo hi acc (b # bs) =
     (if lo \<le> b \<and> b \<le> hi then trailBytes n 128 191 (64 * acc + (b - 128)) bs else (None, b # bs))"

lemma trailBytes_length: "length (snd (trailBytes n lo hi acc bs)) \<le> length bs"
  by (induction n lo hi acc bs rule: trailBytes.induct) auto

function (sequential) utf8Decode :: "nat list \<Rightarrow> points" where
  "utf8Decode [] = []"
| "utf8Decode (b # bs) =
     (if b < 128 then b # utf8Decode bs
      else case leadByte b of
        None \<Rightarrow> 65533 # utf8Decode bs
      | Some (n, lo, hi, acc) \<Rightarrow>
          (case fst (trailBytes n lo hi acc bs) of None \<Rightarrow> 65533 | Some p \<Rightarrow> p) # utf8Decode (snd (trailBytes n lo hi acc bs)))"
  by pat_completeness auto

termination
  by (relation "measure length") (auto simp: less_Suc_eq_le trailBytes_length)

definition utf8Encode :: "nat \<Rightarrow> nat list" where
  "utf8Encode p =
    (if p < 128 then [p]
     else if p < 2048 then [192 + p div 64, 128 + p mod 64]
     else if p < 65536 then [224 + p div 4096, 128 + p div 64 mod 64, 128 + p mod 64]
     else [240 + p div 262144, 128 + p div 4096 mod 64, 128 + p div 64 mod 64, 128 + p mod 64])"

definition textOfBytes :: "bytes \<Rightarrow> points" where
  "textOfBytes bs = utf8Decode (map unat bs)"

definition pointStarts :: "points \<Rightarrow> points \<Rightarrow> bool" where
  "pointStarts w t = (take (length w) t = w)"

fun hasPoints :: "points \<Rightarrow> points \<Rightarrow> bool" where
  "hasPoints w [] = (w = [])"
| "hasPoints w (c # cs) = (pointStarts w (c # cs) \<or> hasPoints w cs)"

fun splitPoints :: "nat \<Rightarrow> points \<Rightarrow> points list" where
  "splitPoints sep [] = [[]]"
| "splitPoints sep (c # cs) =
     (if c = sep then [] # splitPoints sep cs
      else (case splitPoints sep cs of [] \<Rightarrow> [[c]] | w # ws \<Rightarrow> (c # w) # ws))"

definition pointWhitespace :: "nat \<Rightarrow> bool" where
  "pointWhitespace n = ((9 \<le> n \<and> n \<le> 13) \<or> (8192 \<le> n \<and> n \<le> 8202) \<or>
     n \<in> {32, 160, 5760, 8232, 8233, 8239, 8287, 12288, 65279})"

definition trimPoints :: "points \<Rightarrow> points" where
  "trimPoints s = rev (dropWhile pointWhitespace (rev (dropWhile pointWhitespace s)))"

text \<open>A letter of a pattern with the flag \<open>i\<close>.\<close>

definition foldPoint :: "nat \<Rightarrow> nat" where
  "foldPoint n = (if 65 \<le> n \<and> n \<le> 90 then n + 32 else n)"


section \<open>Word documents\<close>

definition vbaProject :: "points \<Rightarrow> bool" where
  "vbaProject name = (let w = pointsOf ''vbaproject.bin''
     in length w \<le> length name \<and> map foldPoint (drop (length name - length w) name) = w)"

definition namePlain :: "points \<Rightarrow> bool" where
  "namePlain name = (\<not> pointStarts [47] name \<and> 92 \<notin> set name \<and> [46, 46] \<notin> set (splitPoints 47 name) \<and> \<not> vbaProject name)"

definition wordParts :: "points list" where
  "wordParts = [pointsOf ''[Content_Types].xml'', pointsOf ''word/document.xml'']"

text \<open>The content of a part that is read; \<open>None\<close> refuses the archive.\<close>

definition partContent :: "(bytes \<Rightarrow> bytes option) \<Rightarrow> bytes \<Rightarrow> nat \<Rightarrow> nat \<Rightarrow> nat \<Rightarrow> nat \<Rightarrow> bytes option" where
  "partContent inflate bs meth compressed size1 local =
    (if 8 * 1024 * 1024 < size1 \<or> length bs < local + 30 \<or> readUInt32LE bs local \<noteq> Some 0x04034b50 then None
     else case (readUInt16LE bs (local + 26), readUInt16LE bs (local + 28)) of
       (Some a, Some b) \<Rightarrow>
         (let begin1 = local + 30 + a + b
          in if length bs < begin1 + compressed then None
             else case (if meth = 0 then Some (subarray begin1 (begin1 + compressed) bs)
                 else Option.bind (inflate (subarray begin1 (begin1 + compressed) bs))
                   (\<lambda>c. if length c \<le> 8 * 1024 * 1024 then Some c else None)) of
               None \<Rightarrow> None
             | Some content \<Rightarrow> if length content \<noteq> size1 then None else Some content)
     | _ \<Rightarrow> None)"

record zip_entry =
  ze_flags :: nat
  ze_method :: nat
  ze_compressed :: nat
  ze_size :: nat
  ze_local :: nat
  ze_name :: points
  ze_length :: nat

text \<open>The entry of the central directory at a position before its end.\<close>

definition centralEntry :: "bytes \<Rightarrow> nat \<Rightarrow> nat \<Rightarrow> zip_entry option" where
  "centralEntry bs end1 position =
    (if end1 < position + 46 \<or> readUInt32LE bs position \<noteq> Some 0x02014b50 then None
     else case (readUInt16LE bs (position + 8), readUInt16LE bs (position + 10), readUInt32LE bs (position + 20),
         readUInt32LE bs (position + 24), readUInt16LE bs (position + 28), readUInt16LE bs (position + 30),
         readUInt16LE bs (position + 32), readUInt32LE bs (position + 42)) of
       (Some flags, Some meth, Some compressed, Some size1, Some nameLength, Some extra, Some comment, Some local) \<Rightarrow>
         Some \<lparr>ze_flags = flags, ze_method = meth, ze_compressed = compressed, ze_size = size1, ze_local = local,
           ze_name = textOfBytes (subarray (position + 46) (position + 46 + nameLength) bs),
           ze_length = 46 + nameLength + extra + comment\<rparr>
     | _ \<Rightarrow> None)"

fun walkEntries ::
  "(bytes \<Rightarrow> bytes option) \<Rightarrow> bytes \<Rightarrow> nat \<Rightarrow> nat \<Rightarrow> nat \<Rightarrow> nat \<Rightarrow> points list \<Rightarrow> (points \<times> points) list \<Rightarrow>
   (points \<times> points) list option" where
  "walkEntries inflate bs end1 0 position sum1 names parts = Some parts"
| "walkEntries inflate bs end1 (Suc n) position sum1 names parts =
     (case centralEntry bs end1 position of
        None \<Rightarrow> None
      | Some e \<Rightarrow>
        if odd (ze_flags e) \<or> ze_method e \<notin> {0, 8} \<or> 50 * 1024 * 1024 < sum1 + ze_size e \<or> ze_name e \<in> set names \<or>
          \<not> namePlain (ze_name e)
        then None
        else case (if ze_name e \<in> set wordParts
            then map_option (\<lambda>c. (ze_name e, textOfBytes c) # parts)
              (partContent inflate bs (ze_method e) (ze_compressed e) (ze_size e) (ze_local e))
            else Some parts) of
          None \<Rightarrow> None
        | Some parts1 \<Rightarrow> walkEntries inflate bs end1 n (position + ze_length e) (sum1 + ze_size e) (ze_name e # names) parts1)"

text \<open>The record at the end of the archive is looked for from the back.\<close>

definition endOfDirectory :: "bytes \<Rightarrow> nat option" where
  "endOfDirectory bs =
    find (\<lambda>i. readUInt32LE bs i = Some 0x06054b50) (rev [length bs - 65557 ..< length bs - 21])"

definition directoryHead :: "bytes \<Rightarrow> nat \<Rightarrow> (nat \<times> nat) option" where
  "directoryHead bs end1 =
    (if readUInt16LE bs (end1 + 4) \<noteq> Some 0 \<or> readUInt16LE bs (end1 + 6) \<noteq> Some 0 then None
     else case (readUInt16LE bs (end1 + 10), readUInt32LE bs (end1 + 16)) of
       (Some count, Some position) \<Rightarrow>
         if count < 2 \<or> 2000 < count \<or> end1 \<le> position then None else Some (count, position)
     | _ \<Rightarrow> None)"

definition isWordDocumentArchive :: "(bytes \<Rightarrow> bytes option) \<Rightarrow> bytes \<Rightarrow> bool" where
  "isWordDocumentArchive inflate bs =
    (case Option.bind (endOfDirectory bs) (\<lambda>end1. map_option (\<lambda>h. (end1, h)) (directoryHead bs end1)) of
       None \<Rightarrow> False
     | Some (end1, count, position) \<Rightarrow>
       (case walkEntries inflate bs end1 count position 0 [] [] of
          None \<Rightarrow> False
        | Some parts \<Rightarrow>
          (case (map_of parts (wordParts ! 0), map_of parts (wordParts ! 1)) of
             (Some types, Some document) \<Rightarrow>
               hasPoints (pointsOf ''application/vnd.openxmlformats-officedocument.wordprocessingml.document.main+xml'') types \<and>
               hasPoints (pointsOf ''wordprocessingml'') document
           | _ \<Rightarrow> False)))"


section \<open>The policy of uploads\<close>

record upload_platform =
  up_inflate :: "bytes \<Rightarrow> bytes option"
  up_lower :: "points \<Rightarrow> points"

record upload_candidate =
  uc_fileName :: points
  uc_mimeType :: string
  uc_sizeBytes :: int
  uc_bytes :: bytes

record upload_policy =
  po_maxBytes :: int
  po_allowedMimeTypes :: "string list"

definition DEFAULT_MAX_UPLOAD_MB :: int where "DEFAULT_MAX_UPLOAD_MB = 5"

definition MULTIPART_CONTENT_LENGTH_OVERHEAD_BYTES :: int where
  "MULTIPART_CONTENT_LENGTH_OVERHEAD_BYTES = 512 * 1024"

definition MIME_docx :: string where
  "MIME_docx = ''application/vnd.openxmlformats-officedocument.wordprocessingml.document''"

definition DEFAULT_ALLOWED_UPLOAD_TYPES :: "string list" where
  "DEFAULT_ALLOWED_UPLOAD_TYPES = [''application/pdf'', ''application/msword'', MIME_docx, ''image/jpeg'', ''image/png'']"

definition ALLOWED_EXTENSIONS_BY_MIME :: "string \<Rightarrow> string list option" where
  "ALLOWED_EXTENSIONS_BY_MIME = map_of
    [(''application/pdf'', [''pdf'']), (''application/msword'', [''doc'']), (MIME_docx, [''docx'']),
     (''image/jpeg'', [''jpg'', ''jpeg'']), (''image/png'', [''png''])]"

text \<open>A double: the digits of a number beyond the largest one are read as infinity.\<close>

definition finiteNumber :: "int \<Rightarrow> bool" where
  "finiteNumber n = (\<bar>n\<bar> < 2 ^ 1024 - 2 ^ 970)"

definition getUploadPolicy :: "env \<Rightarrow> upload_policy" where
  "getUploadPolicy env =
    (let maxUploadMb = parseIntText (case env ''MAX_UPLOAD_MB'' of None \<Rightarrow> ''5'' | Some t \<Rightarrow> t);
         megabytes = (case maxUploadMb of None \<Rightarrow> DEFAULT_MAX_UPLOAD_MB
           | Some n \<Rightarrow> if finiteNumber n \<and> 0 < n then min n DEFAULT_MAX_UPLOAD_MB else DEFAULT_MAX_UPLOAD_MB);
         listed = (case env ''ALLOWED_UPLOAD_TYPES'' of None \<Rightarrow> DEFAULT_ALLOWED_UPLOAD_TYPES
           | Some t \<Rightarrow> map jsTrim (splitOn (CHR '','') t))
     in \<lparr>po_maxBytes = megabytes * 1024 * 1024,
         po_allowedMimeTypes = filter (\<lambda>t. t \<in> set DEFAULT_ALLOWED_UPLOAD_TYPES) listed\<rparr>)"

definition assertMultipartContentLengthAllowed :: "string option \<Rightarrow> upload_policy \<Rightarrow> unit api" where
  "assertMultipartContentLengthAllowed contentLength policy =
    (case contentLength of
       None \<Rightarrow> Inr ()
     | Some t \<Rightarrow>
       if t = [] then Inr () else
       (case parseIntText t of
          None \<Rightarrow> Inl (apiError 400 VALIDATION_ERROR ''Invalid Content-Length header.'')
        | Some n \<Rightarrow>
          andThen (require (finiteNumber n \<and> 0 \<le> n) (apiError 400 VALIDATION_ERROR ''Invalid Content-Length header.'')) (\<lambda>_.
          require (n \<le> po_maxBytes policy + MULTIPART_CONTENT_LENGTH_OVERHEAD_BYTES)
            (apiError 413 FILE_TOO_LARGE ''Uploaded request exceeds the 5MB limit.''))))"

text \<open>What follows the last point of the name.\<close>

definition getExtension :: "upload_platform \<Rightarrow> points \<Rightarrow> points" where
  "getExtension pf fileName =
    (let cleanName = up_lower pf (trimPoints fileName)
     in if 46 \<in> set cleanName then rev (takeWhile (\<lambda>c. c \<noteq> 46) (rev cleanName)) else [])"

definition hasExpectedMagicBytes :: "upload_platform \<Rightarrow> string \<Rightarrow> bytes \<Rightarrow> bool" where
  "hasExpectedMagicBytes pf mimeType bs =
    (if mimeType = ''application/pdf'' then map unat (take 5 bs) = [37, 80, 68, 70, 45]
     else if mimeType = ''image/jpeg'' then map unat (take 3 bs) = [0xff, 0xd8, 0xff]
     else if mimeType = ''image/png'' then map unat (take 8 bs) = [0x89, 0x50, 0x4e, 0x47, 0x0d, 0x0a, 0x1a, 0x0a]
     else if mimeType = ''application/msword'' then map unat (take 8 bs) = [0xd0, 0xcf, 0x11, 0xe0, 0xa1, 0xb1, 0x1a, 0xe1]
     else if mimeType = MIME_docx then isWordDocumentArchive (up_inflate pf) bs
     else False)"

definition allowedExtension :: "upload_platform \<Rightarrow> points \<Rightarrow> string \<Rightarrow> bool" where
  "allowedExtension pf fileName mimeType =
    (getExtension pf fileName \<in> pointsOf ` set (case ALLOWED_EXTENSIONS_BY_MIME mimeType of None \<Rightarrow> [] | Some es \<Rightarrow> es))"

definition assertUploadAllowed :: "upload_platform \<Rightarrow> upload_candidate \<Rightarrow> upload_policy \<Rightarrow> unit api" where
  "assertUploadAllowed pf c policy =
    andThen (require (0 < uc_sizeBytes c \<and> uc_bytes c \<noteq> []) (apiError 400 VALIDATION_ERROR ''Uploaded file is empty.'')) (\<lambda>_.
    andThen (require (uc_sizeBytes c \<le> po_maxBytes policy \<and> int (length (uc_bytes c)) \<le> po_maxBytes policy)
      (apiError 413 FILE_TOO_LARGE ''Uploaded file exceeds the 5MB limit.'')) (\<lambda>_.
    andThen (require (uc_mimeType c \<in> set (po_allowedMimeTypes policy))
      (apiError 415 UNSUPPORTED_FILE_TYPE ''Uploaded file type is not allowed.'')) (\<lambda>_.
    andThen (require (allowedExtension pf (uc_fileName c) (uc_mimeType c))
      (apiError 415 UNSUPPORTED_FILE_TYPE ''Uploaded file extension does not match an allowed type.'')) (\<lambda>_.
    require (hasExpectedMagicBytes pf (uc_mimeType c) (uc_bytes c))
      (apiError 415 UNSUPPORTED_FILE_TYPE ''Uploaded file content does not match the declared type.'')))))"


section \<open>The scanner\<close>

definition malwareScanMode :: "env \<Rightarrow> string" where
  "malwareScanMode env =
    (let configured = map_option (\<lambda>t. jsLower (jsTrim t)) (env ''MALWARE_SCAN_MODE'')
     in if env ''APP_ENV'' = Some ''production'' \<or> env ''NODE_ENV'' = Some ''production'' then ''required''
        else if configured = Some ''required'' \<or> configured = Some ''disabled'' then the configured else ''disabled'')"

datatype scan_result = ScanClean | ScanInfected string | ScanSkipped

definition endsWith :: "string \<Rightarrow> string \<Rightarrow> bool" where
  "endsWith w s = (length w \<le> length s \<and> drop (length s - length w) s = w)"

text \<open>
  The pattern \<open>:\s+(.+)\s+FOUND$\<close>, its ways in the order the engine tries them: the colon from the left, then the
  longest blank, then the longest signature.
\<close>

definition lineTerminator :: "char \<Rightarrow> bool" where
  "lineTerminator c = (codeUnit c = 10 \<or> codeUnit c = 13)"

definition signatureAfter :: "string \<Rightarrow> string option" where
  "signatureAfter t =
    (let blank = length (takeWhile jsWhitespace t);
         ways = [(i, j). i \<leftarrow> rev [1 ..< Suc blank], j \<leftarrow> rev [1 ..< Suc (length t - i)]];
         fits = (\<lambda>(i, j). let signature = take j (drop i t); rest = drop (i + j) t; n = length rest - 5
           in list_all (\<lambda>c. \<not> lineTerminator c) signature \<and> 6 \<le> length rest \<and> list_all jsWhitespace (take n rest) \<and>
              drop n rest = ''FOUND'')
     in map_option (\<lambda>(i, j). take j (drop i t)) (find fits ways))"

fun infectedSignature :: "string \<Rightarrow> string option" where
  "infectedSignature [] = None"
| "infectedSignature (c # t) =
     (if c = CHR '':'' then case signatureAfter t of None \<Rightarrow> infectedSignature t | Some s \<Rightarrow> Some s
      else infectedSignature t)"

definition parseClamAvScanResponse :: "string \<Rightarrow> scan_result option" where
  "parseClamAvScanResponse response =
    (let normalized = jsTrim (filter (\<lambda>c. codeUnit c \<noteq> 0) response)
     in if endsWith '' OK'' normalized then Some ScanClean
        else map_option ScanInfected (infectedSignature normalized))"

text \<open>The answer of the scanner, if it gave one in time.\<close>

definition assertMalwareScanSafe :: "env \<Rightarrow> string option \<Rightarrow> scan_result api" where
  "assertMalwareScanSafe env answer =
    (if malwareScanMode env = ''disabled'' then Inr ScanSkipped
     else case Option.bind answer parseClamAvScanResponse of
       None \<Rightarrow> Inl (apiError 503 MALWARE_SCANNER_UNAVAILABLE
         ''File security scanning is temporarily unavailable. Try again later.'')
     | Some (ScanInfected s) \<Rightarrow> Inl (apiError 422 MALWARE_DETECTED
         ''The uploaded file failed the security scan and was rejected.'')
     | Some r \<Rightarrow> Inr r)"


section \<open>Where a file is kept\<close>

definition extensionForUpload :: "upload_platform \<Rightarrow> points \<Rightarrow> string \<Rightarrow> string" where
  "extensionForUpload pf fileName mimeType =
    (let allowed = (case ALLOWED_EXTENSIONS_BY_MIME mimeType of None \<Rightarrow> [] | Some es \<Rightarrow> es)
     in case find (\<lambda>e. pointsOf e = getExtension pf fileName) allowed of
          Some e \<Rightarrow> e | None \<Rightarrow> (case allowed of [] \<Rightarrow> ''bin'' | e # _ \<Rightarrow> e))"

definition generateDocumentFileKey :: "upload_platform \<Rightarrow> string \<Rightarrow> points \<Rightarrow> string \<Rightarrow> int \<Rightarrow> string" where
  "generateDocumentFileKey pf uuid fileName mimeType now =
    ''documents/'' @ map (\<lambda>c. if c = CHR ''-'' then CHR ''/'' else c) (isoDate now) @ ''/'' @ uuid @ ''.'' @
    extensionForUpload pf fileName mimeType"

text \<open>
  \<open>path.posix\<close>: the segments of a path without the empty ones and the points; two points take back a segment,
  and stay in front of a path that is not absolute.
\<close>

fun normalSegments :: "bool \<Rightarrow> string list \<Rightarrow> string list \<Rightarrow> string list" where
  "normalSegments absolute done1 [] = rev done1"
| "normalSegments absolute done1 (w # ws) =
     (if w = [] \<or> w = ''.'' then normalSegments absolute done1 ws
      else if w = ''..'' then
        (case done1 of
           [] \<Rightarrow> normalSegments absolute (if absolute then [] else [w]) ws
         | d # ds \<Rightarrow> if d = ''..'' then normalSegments absolute (w # done1) ws else normalSegments absolute ds ws)
      else normalSegments absolute (w # done1) ws)"

fun joinSlash :: "string list \<Rightarrow> string" where
  "joinSlash [] = []"
| "joinSlash [w] = w"
| "joinSlash (w # ws) = w @ ''/'' @ joinSlash ws"

definition posixNormalize :: "string \<Rightarrow> string" where
  "posixNormalize p =
    (if p = [] then ''.''
     else let absolute = startsWith ''/'' p; trailing = endsWith ''/'' p;
              body = joinSlash (normalSegments absolute [] (splitOn (CHR ''/'') p));
              body1 = (if body = [] \<and> \<not> absolute then ''.'' else body)
          in (if absolute then ''/'' else []) @ (if trailing \<and> \<not> (body = [] \<and> absolute) then body1 @ ''/'' else body1))"

text \<open>\<open>path.resolve\<close> on a root that is absolute and parts that are not.\<close>

definition resolveBelow :: "string \<Rightarrow> string list \<Rightarrow> string" where
  "resolveBelow root parts = ''/'' @ joinSlash (normalSegments True [] (concat (map (splitOn (CHR ''/'')) (root # parts))))"

definition resolveUploadsRoot :: "string \<Rightarrow> string api" where
  "resolveUploadsRoot uploadRoot =
    (let resolved = resolveBelow uploadRoot []; lower = jsLower resolved
     in if endsWith ''/public'' lower \<or> hasInfix ''/public/'' lower
        then Inl (apiError 500 INTERNAL_ERROR ''UPLOADS_DIR must not be inside a public web directory.'')
        else Inr resolved)"

definition storagePathError :: api_error where
  "storagePathError = apiError 400 VALIDATION_ERROR ''Invalid storage path.''"

definition resolvePrivateFilePath :: "string \<Rightarrow> string \<Rightarrow> string api" where
  "resolvePrivateFilePath fileKey uploadRoot =
    andThen (require (fileKey \<noteq> [] \<and> CHR 0x00 \<notin> set fileKey \<and> CHR 0x5C \<notin> set fileKey \<and> \<not> startsWith ''/'' fileKey)
      storagePathError) (\<lambda>_.
    let normalized = posixNormalize fileKey
    in andThen (require (normalized \<noteq> ''.'' \<and> normalized \<noteq> ''..'' \<and> \<not> startsWith ''../'' normalized) storagePathError) (\<lambda>_.
       andThen (resolveUploadsRoot uploadRoot) (\<lambda>root.
       let absolutePath = resolveBelow root (splitOn (CHR ''/'') normalized);
           allowedPrefix = (if endsWith ''/'' root then root else root @ ''/'')
       in andThen (require (absolutePath = root \<or> startsWith allowedPrefix absolutePath) storagePathError) (\<lambda>_.
          Inr absolutePath))))"


section \<open>The headers of a download\<close>

definition sanitizeDownloadFileName :: "points \<Rightarrow> points" where
  "sanitizeDownloadFileName fileName =
    (let cleaned = trimPoints (map (\<lambda>c. if c \<in> {92, 47, 0, 13, 10} then 95 else c) fileName)
     in if cleaned = [] then pointsOf ''document'' else cleaned)"

definition upperHex :: "nat \<Rightarrow> nat" where
  "upperHex d = (if d < 10 then 48 + d else 55 + d)"

definition unescapedPoint :: "nat \<Rightarrow> bool" where
  "unescapedPoint c = ((65 \<le> c \<and> c \<le> 90) \<or> (97 \<le> c \<and> c \<le> 122) \<or> (48 \<le> c \<and> c \<le> 57) \<or>
     c \<in> {45, 95, 46, 33, 126, 42, 39, 40, 41})"

text \<open>On code points that are no halves of a pair.\<close>

definition encodePoints :: "points \<Rightarrow> points" where
  "encodePoints s =
    concat (map (\<lambda>c. if unescapedPoint c then [c]
      else concat (map (\<lambda>b. [37, upperHex (b div 16), upperHex (b mod 16)]) (utf8Encode c))) s)"

definition contentDisposition :: "points \<Rightarrow> points" where
  "contentDisposition name =
    (let fileName = sanitizeDownloadFileName name
     in pointsOf ''attachment; filename='' @ [34] @ map (\<lambda>c. if c = 34 then 95 else c) fileName @ [34] @
        pointsOf ''; filename*=UTF-8'' @ [39, 39] @ encodePoints fileName)"

definition documentDownloadHeaders :: "points \<Rightarrow> string \<Rightarrow> nat \<Rightarrow> (string \<times> points) list" where
  "documentDownloadHeaders fileName mimeType sizeBytes =
    [(''Content-Type'', pointsOf mimeType), (''Content-Length'', pointsOf (natToText sizeBytes)),
     (''Content-Disposition'', contentDisposition fileName), (''Cache-Control'', pointsOf ''private, no-store''),
     (''X-Content-Type-Options'', pointsOf ''nosniff'')]"

end
