(* ===== verification/FormationDraft.thy ===== *)
theory FormationDraft
  imports Complex_Main Uploads
begin

text \<open>
  The facts of a company to be founded: \<open>src/src/lib/business-formation.ts\<close> and the assessment of
  \<open>src/src/server/services/formation-assessment.ts\<close>. The names and nationalities are lists of code points; the shares
  are exact numbers, whose sum the code takes in doubles and compares with a hundredth to spare.
\<close>

datatype ternary = YES | NO | UNSURE

record founder =
  fo_name :: points
  fo_nationality :: points
  fo_ownership :: "rat option"

record formation_draft =
  fd_activity :: string
  fd_existingBusiness :: string
  fd_founders :: "founder list"
  fd_capital :: string
  fd_management :: string
  fd_location :: string
  fd_timing :: string
  fd_regulated :: ternary
  fd_notes :: string

definition emptyDraft :: formation_draft where
  "emptyDraft = \<lparr>fd_activity = [], fd_existingBusiness = ''UNSURE'', fd_founders = [], fd_capital = [], fd_management = [],
     fd_location = [], fd_timing = [], fd_regulated = UNSURE, fd_notes = []\<rparr>"

definition founderAccepted :: "founder \<Rightarrow> bool" where
  "founderAccepted f =
    (length (trimPoints (fo_name f)) \<le> 160 \<and> length (trimPoints (fo_nationality f)) \<le> 100 \<and>
     (case fo_ownership f of None \<Rightarrow> True | Some x \<Rightarrow> 0 \<le> x \<and> x \<le> 100))"

text \<open>The schema: what it accepts, and what it makes of it.\<close>

definition formationAccepted :: "formation_draft \<Rightarrow> bool" where
  "formationAccepted d =
    (length (jsTrim (fd_activity d)) \<le> 2000 \<and> fd_existingBusiness d \<in> {''NEW'', ''EXISTING'', ''UNSURE''} \<and>
     length (fd_founders d) \<le> 30 \<and> list_all founderAccepted (fd_founders d) \<and> length (jsTrim (fd_capital d)) \<le> 200 \<and>
     length (jsTrim (fd_management d)) \<le> 1000 \<and> length (jsTrim (fd_location d)) \<le> 500 \<and>
     length (jsTrim (fd_timing d)) \<le> 300 \<and> length (jsTrim (fd_notes d)) \<le> 2000)"

definition parsedDraft :: "formation_draft \<Rightarrow> formation_draft" where
  "parsedDraft d = d\<lparr>fd_activity := jsTrim (fd_activity d),
     fd_founders := map (\<lambda>f. f\<lparr>fo_name := trimPoints (fo_name f), fo_nationality := trimPoints (fo_nationality f)\<rparr>) (fd_founders d),
     fd_capital := jsTrim (fd_capital d), fd_management := jsTrim (fd_management d), fd_location := jsTrim (fd_location d),
     fd_timing := jsTrim (fd_timing d), fd_notes := jsTrim (fd_notes d)\<rparr>"

definition formationFieldKeys :: "string list" where
  "formationFieldKeys = [''activity'', ''existingBusiness'', ''founders'', ''capital'', ''management'', ''location'',
     ''timing'', ''regulated'', ''notes'']"

text \<open>The names of the country and its people in both languages.\<close>

definition egyptian :: "points \<Rightarrow> bool" where
  "egyptian n = (map foldPoint n \<in> {pointsOf ''egypt'', pointsOf ''egyptian'', [1605, 1589, 1585], [1605, 1589, 1585, 1610],
     [1605, 1589, 1585, 1610, 1577]})"

definition missingField :: "formation_draft \<Rightarrow> string \<Rightarrow> bool" where
  "missingField d key =
    (if key = ''notes'' then False
     else if key = ''founders'' then fd_founders d = [] \<or>
       list_ex (\<lambda>f. fo_name f = [] \<or> fo_nationality f = [] \<or> fo_ownership f = None) (fd_founders d)
     else if key = ''existingBusiness'' then fd_existingBusiness d = ''UNSURE''
     else if key = ''regulated'' then fd_regulated d = UNSURE
     else if key = ''activity'' then fd_activity d = []
     else if key = ''capital'' then fd_capital d = []
     else if key = ''management'' then fd_management d = []
     else if key = ''location'' then fd_location d = []
     else fd_timing d = [])"

definition sharesOf :: "formation_draft \<Rightarrow> rat" where
  "sharesOf d = sum_list (map (\<lambda>f. case fo_ownership f of None \<Rightarrow> 0 | Some x \<Rightarrow> x) (fd_founders d))"

definition formationFlags :: "(points \<Rightarrow> points) \<Rightarrow> formation_draft \<Rightarrow> string list" where
  "formationFlags lower d =
    (let named = filter (\<lambda>f. fo_name f \<noteq> []) (fd_founders d)
     in map fst (filter snd
      [(''foreign'', list_ex (\<lambda>f. fo_nationality f \<noteq> [] \<and> \<not> egyptian (fo_nationality f)) (fd_founders d)),
       (''regulated'', fd_regulated d \<noteq> NO),
       (''ownership'', fd_founders d \<noteq> [] \<and> list_all (\<lambda>f. fo_ownership f \<noteq> None) (fd_founders d) \<and>
          \<bar>sharesOf d - 100\<bar> > 1 / 100),
       (''duplicate'', card (set (filter (\<lambda>n. n \<noteq> []) (map (\<lambda>f. lower (fo_name f)) (fd_founders d)))) < length named)]))"

record formation_review =
  fr_missing :: "string list"
  fr_flags :: "string list"
  fr_humanReviewRequired :: bool
  fr_legalOptionsEnabled :: bool

definition formationReview :: "(points \<Rightarrow> points) \<Rightarrow> formation_draft \<Rightarrow> formation_review" where
  "formationReview lower d =
    \<lparr>fr_missing = filter (missingField d) formationFieldKeys, fr_flags = formationFlags lower d,
     fr_humanReviewRequired = True, fr_legalOptionsEnabled = False\<rparr>"

text \<open>The assistant may put more questions; it is asked nothing else, and its failure leaves the questions of the review.\<close>

record assessment =
  am_providerAvailable :: bool
  am_questionKeys :: "string list"
  am_references :: "json list"

definition uniqueKeys :: "string list \<Rightarrow> string list" where
  "uniqueKeys ks = rev (remdups (rev ks))"

definition assessFormation ::
  "(points \<Rightarrow> points) \<Rightarrow> json list option \<Rightarrow> (string \<times> string list) option \<Rightarrow> formation_draft \<Rightarrow> assessment" where
  "assessFormation lower references answer d =
    (let missing = fr_missing (formationReview lower d); refs = (case references of None \<Rightarrow> [] | Some rs \<Rightarrow> rs)
     in case answer of
          Some (provider, keys) \<Rightarrow>
            if set keys \<subseteq> set formationFieldKeys \<and> length keys \<le> 9
            then \<lparr>am_providerAvailable = (provider \<noteq> ''mock''), am_questionKeys = uniqueKeys (missing @ keys), am_references = refs\<rparr>
            else \<lparr>am_providerAvailable = False, am_questionKeys = missing, am_references = refs\<rparr>
        | None \<Rightarrow> \<lparr>am_providerAvailable = False, am_questionKeys = missing, am_references = refs\<rparr>)"

record formation_interview =
  fi_id :: string
  fi_sessionId :: string
  fi_serviceRequestId :: "string option"
  fi_locale :: string
  fi_consentAt :: int
  fi_draft :: formation_draft
  fi_revision :: int

record formation_report =
  fp_interviewId :: string
  fp_version :: int
  fp_draft :: formation_draft
  fp_review :: formation_review
  fp_assessment :: "assessment option"
  fp_locale :: string
  fp_consentAt :: int

end
