(* ===== verification/ServiceDesk.thy ===== *)
theory ServiceDesk
  imports CaseWork FormationDraft
begin

text \<open>
  The requests for a service, from the client's draft to the delivered work:
  \<open>src/src/server/services/service-request-service.ts\<close>. Every action carries the revision of the request it was
  made for and runs in one transaction that holds the row. The columns a thread of messages has
  besides its client and its status are not read here.
\<close>

section \<open>Rows\<close>

datatype service_kind = CONTRACT_DRAFT | CONTRACT_REVIEW | HEALTH_CHECK | COMPANY_FORMATION
datatype service_status = SR_DRAFT | SR_RECEIVED | SR_NEEDS_INFORMATION | SR_AWAITING_ACCEPTANCE | SR_IN_PROGRESS
  | SR_READY | SR_COMPLETED | SR_CANCELLED

record intake =
  in_formation :: "formation_draft option"
  in_title :: string
  in_purpose :: string
  in_language :: string
  in_requestedDate :: string
  in_answers :: "(string \<times> string) list"

record quote =
  qt_amount :: string
  qt_currency :: currency
  qt_scope :: string
  qt_durationDays :: int

record service_request =
  sv_id :: string
  sv_reference :: string
  sv_clientId :: string
  sv_assignedLawyerId :: "string option"
  sv_paymentId :: "string option"
  sv_threadId :: "string option"
  sv_sourceRequestId :: "string option"
  sv_kind :: service_kind
  sv_locale :: string
  sv_status :: service_status
  sv_intake :: intake
  sv_questionnaireId :: "string option"
  sv_quote :: "quote option"
  sv_quoteVersion :: int
  sv_acceptedQuoteVersion :: "int option"
  sv_revision :: int
  sv_idempotencyKey :: string
  sv_updatedAt :: int

record service_event =
  ev_requestId :: string
  ev_actorId :: string
  ev_action :: string
  ev_body :: "string option"
  ev_internal :: bool
  ev_createdAt :: int

record questionnaire =
  qn_id :: string
  qn_version :: int
  qn_questions :: "string list"
  qn_approvedById :: "string option"
  qn_approvedAt :: "int option"
  qn_published :: bool

record document_row =
  dc_id :: string
  dc_ownerClientId :: "string option"
  dc_caseId :: "string option"
  dc_serviceRequestId :: "string option"
  dc_deliveryVersion :: "int option"
  dc_paymentId :: "string option"
  dc_uploadedById :: string
  dc_fileName :: points
  dc_fileKey :: string
  dc_fileType :: string
  dc_fileSize :: nat
  dc_category :: string
  dc_status :: string
  dc_visibility :: string
  dc_createdAt :: int
  dc_deletedAt :: "int option"

record service_db =
  sd_cases :: case_db
  sd_requests :: "service_request list"
  sd_events :: "service_event list"
  sd_questionnaires :: "questionnaire list"
  sd_documents :: "document_row list"
  sd_interviews :: "formation_interview list"
  sd_reports :: "formation_report list"
  sd_invoices :: "invoice list"
  sd_files :: "(string \<times> bytes) list"

definition deskOf :: "service_db \<Rightarrow> booking_db" where "deskOf s = kd_desk (sd_cases s)"

definition putDesk :: "booking_db \<Rightarrow> service_db \<Rightarrow> service_db" where
  "putDesk d s = s\<lparr>sd_cases := (sd_cases s)\<lparr>kd_desk := d\<rparr>\<rparr>"

definition auditService :: "audit_event \<Rightarrow> service_db \<Rightarrow> service_db" where
  "auditService e s = putDesk (auditOffice e (deskOf s)) s"

text \<open>The ids and texts the platform makes for a request, and the validators.\<close>

record service_ids =
  xi_id :: string
  xi_reference :: string
  xi_thread :: string
  xi_invoiceNumber :: string
  xi_message :: string

record service_platform =
  yp_isUuid :: "string \<Rightarrow> bool"
  yp_issue :: "string \<Rightarrow> error_detail"
  yp_message :: string

definition serviceDenied :: api_error where
  "serviceDenied = apiError 403 PERMISSION_DENIED ''This action is not permitted.''"

definition serviceConflict :: api_error where
  "serviceConflict = apiError 409 CONFLICT ''Refresh the request before continuing.''"

definition serviceMissing :: api_error where
  "serviceMissing = apiError 404 NOT_FOUND ''Request not found.''"

definition ypIssue :: "service_platform \<Rightarrow> string \<Rightarrow> bool \<Rightarrow> error_detail list" where
  "ypIssue pf path ok = (if ok then [] else [yp_issue pf path])"


section \<open>Bodies\<close>

definition emptyIntake :: intake where
  "emptyIntake = \<lparr>in_formation = None, in_title = [], in_purpose = [], in_language = ''ar'', in_requestedDate = [],
     in_answers = []\<rparr>"

text \<open>
  A stored intake or quote is what its schema made of it, so where the code parses it again it gets it back.
\<close>

definition intakeAccepted :: "intake \<Rightarrow> bool" where
  "intakeAccepted i =
    ((case in_formation i of None \<Rightarrow> True | Some f \<Rightarrow> formationAccepted f) \<and>
     length (jsTrim (in_title i)) \<le> 180 \<and> length (jsTrim (in_purpose i)) \<le> 5000 \<and>
     in_language i \<in> {''ar'', ''en'', ''both''} \<and> (in_requestedDate i = [] \<or> dateParts (in_requestedDate i) \<noteq> None) \<and>
     list_all (\<lambda>(k, v). length k \<le> 60 \<and> v \<in> {''YES'', ''NO'', ''UNSURE'', ''NOT_APPLICABLE''}) (in_answers i))"

definition parsedIntake :: "intake \<Rightarrow> intake" where
  "parsedIntake i = i\<lparr>in_formation := map_option parsedDraft (in_formation i), in_title := jsTrim (in_title i), in_purpose := jsTrim (in_purpose i)\<rparr>"

text \<open>One to ten digits, and one or two after a point.\<close>

definition quoteAmountAccepted :: "string \<Rightarrow> bool" where
  "quoteAmountAccepted s =
    (case splitOn (CHR ''.'') s of
       [a] \<Rightarrow> allDigits a \<and> 1 \<le> length a \<and> length a \<le> 10
     | [a, b] \<Rightarrow> allDigits a \<and> 1 \<le> length a \<and> length a \<le> 10 \<and> allDigits b \<and> 1 \<le> length b \<and> length b \<le> 2
     | _ \<Rightarrow> False)"

definition quoteAmount :: "string \<Rightarrow> rat" where
  "quoteAmount s =
    (case splitOn (CHR ''.'') s of
       [a] \<Rightarrow> of_nat (natOfDigits a)
     | [a, b] \<Rightarrow> of_nat (natOfDigits a) + of_nat (natOfDigits b) / 10 ^ length b
     | _ \<Rightarrow> 0)"

definition quoteAccepted :: "quote \<Rightarrow> bool" where
  "quoteAccepted q =
    (quoteAmountAccepted (qt_amount q) \<and> 10 \<le> length (jsTrim (qt_scope q)) \<and> length (jsTrim (qt_scope q)) \<le> 6000 \<and>
     1 \<le> qt_durationDays q \<and> qt_durationDays q \<le> 365)"

datatype service_action =
    SaveIntake intake
  | SubmitRequest
  | AcceptQuote int
  | OfferQuote quote
  | AssignLawyer string
  | Say string bool
  | Transition service_status string

text \<open>The member \<open>action\<close> of a body, and what the schema makes of the others.\<close>

definition actionName :: "service_action \<Rightarrow> string" where
  "actionName a = (case a of SaveIntake _ \<Rightarrow> ''save'' | SubmitRequest \<Rightarrow> ''submit'' | AcceptQuote _ \<Rightarrow> ''accept''
     | OfferQuote _ \<Rightarrow> ''quote'' | AssignLawyer _ \<Rightarrow> ''assign'' | Say _ _ \<Rightarrow> ''message'' | Transition _ _ \<Rightarrow> ''transition'')"

definition serviceStatusText :: "service_status \<Rightarrow> string" where
  "serviceStatusText st = (case st of SR_DRAFT \<Rightarrow> ''DRAFT'' | SR_RECEIVED \<Rightarrow> ''RECEIVED''
     | SR_NEEDS_INFORMATION \<Rightarrow> ''NEEDS_INFORMATION'' | SR_AWAITING_ACCEPTANCE \<Rightarrow> ''AWAITING_ACCEPTANCE''
     | SR_IN_PROGRESS \<Rightarrow> ''IN_PROGRESS'' | SR_READY \<Rightarrow> ''READY'' | SR_COMPLETED \<Rightarrow> ''COMPLETED'' | SR_CANCELLED \<Rightarrow> ''CANCELLED'')"

definition serviceActionSchema ::
  "service_platform \<Rightarrow> int \<times> service_action \<Rightarrow> error_detail list + int \<times> service_action" where
  "serviceActionSchema pf raw =
    (case raw of (revision, a) \<Rightarrow>
      (let revisionIssue = ypIssue pf ''revision'' (0 \<le> revision);
           parsed = (case a of
               SaveIntake i \<Rightarrow> (ypIssue pf ''intake'' (intakeAccepted i), SaveIntake (parsedIntake i))
             | SubmitRequest \<Rightarrow> ([], a)
             | AcceptQuote v \<Rightarrow> (ypIssue pf ''quoteVersion'' (0 < v), a)
             | OfferQuote q \<Rightarrow> (ypIssue pf ''quote'' (quoteAccepted q), OfferQuote (q\<lparr>qt_scope := jsTrim (qt_scope q)\<rparr>))
             | AssignLawyer l \<Rightarrow> (ypIssue pf ''lawyerId'' (yp_isUuid pf l), a)
             | Say t internal \<Rightarrow> (ypIssue pf ''body'' (1 \<le> length (jsTrim t) \<and> length (jsTrim t) \<le> 5000), Say (jsTrim t) internal)
             | Transition st t \<Rightarrow>
                 (ypIssue pf ''status'' (st \<in> {SR_NEEDS_INFORMATION, SR_READY, SR_COMPLETED, SR_CANCELLED, SR_IN_PROGRESS}) @
                  ypIssue pf ''body'' (length (jsTrim t) \<le> 5000), Transition st (jsTrim t)))
       in if revisionIssue @ fst parsed \<noteq> [] then Inl (revisionIssue @ fst parsed) else Inr (revision, snd parsed)))"

record create_service =
  cv_kind :: service_kind
  cv_locale :: string
  cv_idempotencyKey :: string
  cv_sourceRequestId :: "string option"

definition createServiceRequestSchema :: "service_platform \<Rightarrow> create_service \<Rightarrow> error_detail list + create_service" where
  "createServiceRequestSchema pf raw =
    (let issues = ypIssue pf ''locale'' (cv_locale raw \<in> {''ar'', ''en''}) @
           ypIssue pf ''idempotencyKey'' (yp_isUuid pf (cv_idempotencyKey raw)) @
           ypIssue pf ''sourceRequestId'' (case cv_sourceRequestId raw of None \<Rightarrow> True | Some i \<Rightarrow> yp_isUuid pf i)
     in if issues \<noteq> [] then Inl issues else Inr raw)"


section \<open>Who sees what\<close>

definition clientOf :: "service_db \<Rightarrow> string \<Rightarrow> client_contact option" where
  "clientOf s i = fetch ct_id i (bk_clients (deskOf s))"

definition serviceRequestWhere :: "principal \<Rightarrow> service_db \<Rightarrow> (service_request \<Rightarrow> bool) api" where
  "serviceRequestWhere actor s =
    (let live = (\<lambda>r. case clientOf s (sv_clientId r) of None \<Rightarrow> False | Some c \<Rightarrow> \<not> ct_deleted c)
     in if hasPermission actor ''case.read.any'' then Inr live
        else if hasPermission actor ''case.read.assigned''
        then Inr (\<lambda>r. sv_assignedLawyerId r = Some (pr_id actor) \<and> live r)
        else if hasPermission actor ''client.read.self'' \<and> nonEmpty (pr_clientId actor) \<noteq> None
        then Inr (\<lambda>r. Some (sv_clientId r) = pr_clientId actor \<and> live r \<and>
          (case clientOf s (sv_clientId r) of None \<Rightarrow> False | Some c \<Rightarrow> ct_userId c = Some (pr_id actor)))
        else Inl serviceDenied)"

definition listServiceRequests ::
  "principal \<Rightarrow> service_status option \<Rightarrow> service_db \<Rightarrow> service_request list api" where
  "listServiceRequests actor status s =
    andThen (serviceRequestWhere actor s) (\<lambda>scope.
    Inr (take 100 (sort_key (\<lambda>r. - sv_updatedAt r)
      (filter (\<lambda>r. scope r \<and> (case status of None \<Rightarrow> True | Some st \<Rightarrow> sv_status r = st)) (sd_requests s)))))"

definition serviceRequestQueueCounts :: "principal \<Rightarrow> service_db \<Rightarrow> (nat \<times> nat) api" where
  "serviceRequestQueueCounts actor s =
    andThen (serviceRequestWhere actor s) (\<lambda>scope.
    Inr (length (filter (\<lambda>r. scope r \<and> sv_status r = SR_RECEIVED) (sd_requests s)),
         length (filter (\<lambda>r. scope r \<and> sv_status r = SR_AWAITING_ACCEPTANCE) (sd_requests s))))"

text \<open>The page of a request: a message of the thread is shown as an event.\<close>

datatype page_entry = EventEntry service_event | MessageEntry conversation_message

definition entryTime :: "page_entry \<Rightarrow> int" where
  "entryTime e = (case e of EventEntry x \<Rightarrow> ev_createdAt x | MessageEntry m \<Rightarrow> mg_createdAt m)"

record service_page =
  sp_request :: service_request
  sp_documents :: "document_row list"
  sp_events :: "page_entry list"

definition getServiceRequest :: "principal \<Rightarrow> string \<Rightarrow> service_db \<Rightarrow> service_page api" where
  "getServiceRequest actor i s =
    andThen (serviceRequestWhere actor s) (\<lambda>scope.
    let clientView = (pr_roleName actor = ROLE_client)
    in case find (\<lambda>r. sv_id r = i \<and> scope r) (sd_requests s) of
         None \<Rightarrow> Inl serviceMissing
       | Some r \<Rightarrow>
         Inr \<lparr>sp_request = r,
           sp_documents = sort_key dc_createdAt (filter (\<lambda>d. dc_serviceRequestId d = Some i \<and> dc_deletedAt d = None \<and>
             (clientView \<longrightarrow> dc_visibility d = ''CLIENT_VISIBLE'')) (sd_documents s)),
           sp_events = sort_key entryTime
             (map EventEntry (take 250 (sort_key ev_createdAt
                (filter (\<lambda>e. ev_requestId e = i \<and> (clientView \<longrightarrow> \<not> ev_internal e)) (sd_events s)))) @
              map MessageEntry (case sv_threadId r of None \<Rightarrow> []
                | Some t \<Rightarrow> take 250 (sort_key mg_createdAt (filter (\<lambda>m. mg_threadId m = t) (bk_messages (deskOf s))))))\<rparr>)"


section \<open>Questionnaires\<close>

definition questionnaireSchema ::
  "service_platform \<Rightarrow> (string \<times> string \<times> string) list \<times> bool \<Rightarrow> error_detail list + string list" where
  "questionnaireSchema pf raw =
    (case raw of (questions, approved) \<Rightarrow>
      (let idOk = (\<lambda>i. 2 \<le> length i \<and> length i \<le> 60 \<and> (97 \<le> codeUnit (hd i) \<and> codeUnit (hd i) \<le> 122) \<and>
             list_all (\<lambda>c. (97 \<le> codeUnit c \<and> codeUnit c \<le> 122) \<or> isDigit c \<or> c = CHR ''_'') i);
           textOk = (\<lambda>t. 5 \<le> length (jsTrim t) \<and> length (jsTrim t) \<le> 500);
           issues = ypIssue pf ''questions'' (1 \<le> length questions \<and> length questions \<le> 60 \<and>
               list_all (\<lambda>(i, ar, en). idOk i \<and> textOk ar \<and> textOk en) questions) @
             ypIssue pf ''approved'' approved @ ypIssue pf [] (distinct (map fst questions))
       in if issues \<noteq> [] then Inl issues else Inr (map fst questions)))"

text \<open>The newest version that is published and approved.\<close>

definition publishedQuestionnaire :: "service_db \<Rightarrow> questionnaire option" where
  "publishedQuestionnaire s =
    (case sort_key (\<lambda>q. - qn_version q) (filter (\<lambda>q. qn_published q \<and> qn_approvedAt q \<noteq> None \<and> qn_approvedById q \<noteq> None)
        (sd_questionnaires s)) of
       [] \<Rightarrow> None | q # _ \<Rightarrow> Some q)"

definition publishQuestionnaire ::
  "service_platform \<Rightarrow> int \<Rightarrow> string \<Rightarrow> principal \<Rightarrow> (string \<times> string \<times> string) list \<times> bool \<Rightarrow> service_db \<Rightarrow>
   (questionnaire \<times> service_db) api" where
  "publishQuestionnaire pf now newId actor raw s =
    andThen (require (hasPermission actor ''settings.manage.any'') serviceDenied) (\<lambda>_.
    andThen (parseWithSchema (questionnaireSchema pf) raw (yp_message pf)) (\<lambda>questions.
    let latest = foldl max 0 (map qn_version (sd_questionnaires s));
        row = \<lparr>qn_id = newId, qn_version = latest + 1, qn_questions = questions, qn_approvedById = Some (pr_id actor),
               qn_approvedAt = Some now, qn_published = True\<rparr>
    in andThen (insertRow ''health_questionnaires'' qn_id row
         (updateWhere qn_published (\<lambda>q. q\<lparr>qn_published := False\<rparr>) (sd_questionnaires s))) (\<lambda>rows.
       Inr (row, auditService (auditEvent (Some (pr_id actor)) ''questionnaire.publish'' ''HealthQuestionnaire'' (Some newId)
            [(''version'', MInt (latest + 1))]) (s\<lparr>sd_questionnaires := rows\<rparr>)))))"


section \<open>Opening a request\<close>

definition sameCreate :: "create_service \<Rightarrow> service_request \<Rightarrow> bool" where
  "sameCreate body r =
    (sv_kind r = cv_kind body \<and> sv_locale r = cv_locale body \<and> sv_sourceRequestId r = cv_sourceRequestId body)"

definition serviceByKey :: "string \<Rightarrow> string \<Rightarrow> service_db \<Rightarrow> service_request option" where
  "serviceByKey clientId key s = find (\<lambda>r. sv_clientId r = clientId \<and> sv_idempotencyKey r = key) (sd_requests s)"

definition sourceReady :: "string \<Rightarrow> create_service \<Rightarrow> service_db \<Rightarrow> bool" where
  "sourceReady clientId body s =
    (case cv_sourceRequestId body of None \<Rightarrow> True
     | Some i \<Rightarrow> list_ex (\<lambda>r. sv_id r = i \<and> sv_clientId r = clientId \<and> sv_kind r = HEALTH_CHECK \<and>
         (sv_status r = SR_READY \<or> sv_status r = SR_COMPLETED)) (sd_requests s))"

definition draftRow :: "int \<Rightarrow> service_ids \<Rightarrow> string \<Rightarrow> create_service \<Rightarrow> string option \<Rightarrow> service_request" where
  "draftRow now ids clientId body questionnaireId =
    \<lparr>sv_id = xi_id ids,
     sv_reference = (if cv_kind body = HEALTH_CHECK then ''HEALTH'' else ''CONTRACT'') @ ''-'' @ xi_reference ids,
     sv_clientId = clientId, sv_assignedLawyerId = None, sv_paymentId = None, sv_threadId = None,
     sv_sourceRequestId = cv_sourceRequestId body, sv_kind = cv_kind body, sv_locale = cv_locale body,
     sv_status = SR_DRAFT, sv_intake = emptyIntake, sv_questionnaireId = questionnaireId, sv_quote = None,
     sv_quoteVersion = 0, sv_acceptedQuoteVersion = None, sv_revision = 0,
     sv_idempotencyKey = cv_idempotencyKey body, sv_updatedAt = now\<rparr>"

text \<open>The row is looked for before the transaction and again under the lock of the client.\<close>

definition createServiceRequest ::
  "service_platform \<Rightarrow> int \<Rightarrow> service_ids \<Rightarrow> principal \<Rightarrow> create_service \<Rightarrow> service_db \<Rightarrow>
   (service_request \<times> service_db) api" where
  "createServiceRequest pf now ids actor raw s =
    andThen (assertActiveServiceClient actor (deskOf s)) (\<lambda>_.
    andThen (parseWithSchema (createServiceRequestSchema pf) raw (yp_message pf)) (\<lambda>body.
    andThen (require (cv_kind body \<noteq> COMPANY_FORMATION)
      (apiError 400 VALIDATION_ERROR ''Start through the formation interview.'')) (\<lambda>_.
    let clientId = (case pr_clientId actor of None \<Rightarrow> [] | Some i \<Rightarrow> i)
    in case serviceByKey clientId (cv_idempotencyKey body) s of
         Some r \<Rightarrow> if sameCreate body r then Inr (r, s) else Inl serviceConflict
       | None \<Rightarrow>
         andThen (require (sourceReady clientId body s) serviceMissing) (\<lambda>_.
         let questions = (if cv_kind body = HEALTH_CHECK then publishedQuestionnaire s else None)
         in andThen (require (cv_kind body = HEALTH_CHECK \<longrightarrow> questions \<noteq> None)
              (apiError 409 FEATURE_DISABLED ''The questionnaire is awaiting office approval.'')) (\<lambda>_.
            let row = draftRow now ids clientId body (map_option qn_id questions)
            in andThen (require (sv_reference row \<notin> sv_reference ` set (sd_requests s)) (unhandled ''service_requests'')) (\<lambda>_.
               andThen (insertRow ''service_requests'' sv_id row (sd_requests s)) (\<lambda>rows.
               Inr (row, auditService ((auditEvent (Some (pr_id actor)) ''service_request.create'' ''ServiceRequest''
                    (Some (sv_id row)) [])\<lparr>ae_clientId := Some clientId\<rparr>) (s\<lparr>sd_requests := rows\<rparr>)))))))))"


section \<open>Acting on a request\<close>

record service_rights =
  wr_own :: bool
  wr_manager :: bool
  wr_lawyer :: bool

definition rightsOn :: "principal \<Rightarrow> service_request \<Rightarrow> service_rights" where
  "rightsOn actor r =
    \<lparr>wr_own = (pr_roleName actor = ROLE_client \<and> pr_clientId actor = Some (sv_clientId r)),
     wr_manager = hasPermission actor ''case.update.any'',
     wr_lawyer = (sv_assignedLawyerId r = Some (pr_id actor) \<and> hasPermission actor ''case.update.assigned'')\<rparr>"

definition editableRequest :: "service_request \<Rightarrow> bool" where
  "editableRequest r = (sv_status r = SR_DRAFT \<or> sv_status r = SR_NEEDS_INFORMATION)"

definition questionsOf :: "service_request \<Rightarrow> service_db \<Rightarrow> string list" where
  "questionsOf r s =
    (case Option.bind (sv_questionnaireId r) (\<lambda>i. fetch qn_id i (sd_questionnaires s)) of
       None \<Rightarrow> [] | Some q \<Rightarrow> qn_questions q)"

definition saveIntake :: "service_request \<Rightarrow> intake \<Rightarrow> service_db \<Rightarrow> service_request api" where
  "saveIntake r i s =
    (let bad = (\<lambda>t. apiError 400 VALIDATION_ERROR t)
     in andThen (require (editableRequest r) serviceDenied) (\<lambda>_.
        andThen (if sv_kind r = HEALTH_CHECK
            then require (list_all (\<lambda>(k, _). k \<in> set (questionsOf r s)) (in_answers i)) (bad ''Unknown question.'')
            else require (in_answers i = []) (bad ''Questionnaire answers are not applicable.'')) (\<lambda>_.
        andThen (require (sv_kind r = COMPANY_FORMATION \<or> in_formation i = None) (bad ''Formation data is not applicable.'')) (\<lambda>_.
        andThen (require (sv_kind r \<noteq> COMPANY_FORMATION \<or> in_formation i = in_formation (sv_intake r))
          (bad ''Use messages to clarify submitted formation facts.'')) (\<lambda>_.
        Inr (r\<lparr>sv_intake := i\<rparr>))))))"

text \<open>A thread for the messages is opened with the first submission.\<close>

definition submitRequest :: "service_ids \<Rightarrow> service_request \<Rightarrow> service_db \<Rightarrow> (service_request \<times> service_db) api" where
  "submitRequest ids r s =
    andThen (require (editableRequest r) serviceDenied) (\<lambda>_.
    andThen (require (3 \<le> length (in_title (sv_intake r)) \<and> 10 \<le> length (in_purpose (sv_intake r)))
      (apiError 400 VALIDATION_ERROR ''Complete the request description.'')) (\<lambda>_.
    let submitted = r\<lparr>sv_status := SR_RECEIVED\<rparr>
    in case sv_threadId r of
         Some _ \<Rightarrow> Inr (submitted, s)
       | None \<Rightarrow>
         andThen (insertRow ''conversation_threads'' th_id
             \<lparr>th_id = xi_thread ids, th_clientId = Some (sv_clientId r), th_status = ''WAITING_STAFF'', th_assignedToId = None\<rparr>
             (bk_threads (deskOf s))) (\<lambda>threads.
         Inr (submitted\<lparr>sv_threadId := Some (xi_thread ids)\<rparr>, putDesk ((deskOf s)\<lparr>bk_threads := threads\<rparr>) s))))"

definition assignServiceLawyer :: "service_request \<Rightarrow> string \<Rightarrow> service_db \<Rightarrow> service_request api" where
  "assignServiceLawyer r lawyerId s =
    andThen (require (list_ex (\<lambda>u. sm_id u = lawyerId \<and> sm_active u \<and> \<not> sm_deleted u \<and> sm_roleName u = ROLE_lawyer \<and>
        sm_roleActive u) (of_staff (bk_office (deskOf s))))
      (apiError 400 VALIDATION_ERROR ''Choose an active lawyer.'')) (\<lambda>_.
    Inr (r\<lparr>sv_assignedLawyerId := Some lawyerId\<rparr>))"

definition offerQuote :: "principal \<Rightarrow> service_request \<Rightarrow> quote \<Rightarrow> service_request api" where
  "offerQuote actor r q =
    andThen (require (hasPermission actor ''finance.manage.any'' \<and>
        sv_status r \<in> {SR_RECEIVED, SR_NEEDS_INFORMATION, SR_AWAITING_ACCEPTANCE} \<and> sv_paymentId r = None) serviceDenied) (\<lambda>_.
    Inr (r\<lparr>sv_quote := Some q, sv_quoteVersion := sv_quoteVersion r + 1, sv_status := SR_AWAITING_ACCEPTANCE\<rparr>))"

definition quoteInvoice :: "int \<Rightarrow> service_ids \<Rightarrow> service_request \<Rightarrow> quote \<Rightarrow> invoice" where
  "quoteInvoice now ids r q =
    \<lparr>iv_id = xi_id ids, iv_invoiceNumber = ''SR-'' @ xi_invoiceNumber ids, iv_clientId = sv_clientId r, iv_caseId = None,
     iv_consultationRequestId = None, iv_appointmentId = None, iv_paymentAttemptId = None, iv_issueDate = now,
     iv_dueDate = None, iv_amount = quoteAmount (qt_amount q), iv_currency = qt_currency q,
     iv_status = (if quoteAmount (qt_amount q) = 0 then I_PAID else I_PENDING), iv_paymentMethod = None,
     iv_receiptNumber = None, iv_paidAt = None, iv_notes = None, iv_ledgerReviewRequired = False, iv_createdById = None\<rparr>"

definition acceptQuote ::
  "int \<Rightarrow> service_ids \<Rightarrow> service_request \<Rightarrow> int \<Rightarrow> service_db \<Rightarrow> (service_request \<times> service_db) api" where
  "acceptQuote now ids r version s =
    andThen (require (sv_status r = SR_AWAITING_ACCEPTANCE \<and> sv_quoteVersion r = version \<and> sv_paymentId r = None)
      serviceConflict) (\<lambda>_.
    case sv_quote r of
      None \<Rightarrow> Inl (unhandled ''quote'')
    | Some q \<Rightarrow>
      let row = quoteInvoice now ids r q
      in andThen (require (iv_invoiceNumber row \<notin> iv_invoiceNumber ` set (sd_invoices s)) (unhandled ''payments'')) (\<lambda>_.
         andThen (insertRow ''payments'' iv_id row (sd_invoices s)) (\<lambda>rows.
         Inr (r\<lparr>sv_paymentId := Some (iv_id row), sv_acceptedQuoteVersion := Some (sv_quoteVersion r),
                sv_status := SR_IN_PROGRESS\<rparr>, s\<lparr>sd_invoices := rows\<rparr>))))"

text \<open>A public message goes to the thread, where there is one; else it is kept as an event.\<close>

definition sayMessage ::
  "int \<Rightarrow> service_ids \<Rightarrow> bool \<Rightarrow> service_request \<Rightarrow> string \<Rightarrow> bool \<Rightarrow> service_db \<Rightarrow> (string option \<times> service_db) api" where
  "sayMessage now ids own r body internal s =
    (case sv_threadId r of
       None \<Rightarrow> Inr (Some body, s)
     | Some t \<Rightarrow>
       if internal then Inr (Some body, s)
       else andThen (insertRow ''conversation_messages'' mg_id
           \<lparr>mg_id = xi_message ids, mg_threadId = t, mg_senderType = (if own then ''CLIENT'' else ''STAFF''), mg_recipient = None,
            mg_body = [TextLine body], mg_createdAt = now\<rparr> (bk_messages (deskOf s))) (\<lambda>messages.
         Inr (None, putDesk ((deskOf s)\<lparr>bk_messages := messages,
           bk_threads := modify th_id t (\<lambda>x. x\<lparr>th_status := (if own then ''WAITING_STAFF'' else ''WAITING_CLIENT'')\<rparr>)
             (bk_threads (deskOf s))\<rparr>) s)))"

definition ownTransition :: "service_status \<Rightarrow> service_status \<Rightarrow> string \<Rightarrow> bool" where
  "ownTransition from to1 body =
    ((to1 = SR_IN_PROGRESS \<and> from = SR_READY \<and> 5 \<le> length (jsTrim body)) \<or> (to1 = SR_COMPLETED \<and> from = SR_READY) \<or>
     (to1 = SR_CANCELLED \<and> from \<in> {SR_DRAFT, SR_RECEIVED, SR_NEEDS_INFORMATION, SR_AWAITING_ACCEPTANCE}))"

definition transitions :: "service_status \<Rightarrow> service_status list" where
  "transitions from = (case from of
       SR_RECEIVED \<Rightarrow> [SR_NEEDS_INFORMATION, SR_CANCELLED]
     | SR_NEEDS_INFORMATION \<Rightarrow> [SR_CANCELLED]
     | SR_AWAITING_ACCEPTANCE \<Rightarrow> [SR_NEEDS_INFORMATION, SR_CANCELLED]
     | SR_IN_PROGRESS \<Rightarrow> [SR_READY, SR_CANCELLED]
     | SR_READY \<Rightarrow> [SR_IN_PROGRESS, SR_COMPLETED, SR_CANCELLED]
     | _ \<Rightarrow> [])"

definition delivered :: "string \<Rightarrow> service_db \<Rightarrow> bool" where
  "delivered i s = list_ex (\<lambda>d. dc_serviceRequestId d = Some i \<and> dc_deletedAt d = None \<and> dc_deliveryVersion d \<noteq> None \<and>
     dc_visibility d = ''CLIENT_VISIBLE'') (sd_documents s)"

definition changeStatus ::
  "service_rights \<Rightarrow> service_request \<Rightarrow> service_status \<Rightarrow> string \<Rightarrow> service_db \<Rightarrow> service_request api" where
  "changeStatus w r status body s =
    (if wr_own w then andThen (require (ownTransition (sv_status r) status body) serviceDenied) (\<lambda>_.
       Inr (r\<lparr>sv_status := status\<rparr>))
     else andThen (require (wr_manager w \<or> wr_lawyer w) serviceDenied) (\<lambda>_.
       andThen (require (status \<in> set (transitions (sv_status r))) serviceConflict) (\<lambda>_.
       andThen (require (status = SR_READY \<longrightarrow> delivered (sv_id r) s)
         (apiError 400 VALIDATION_ERROR ''Upload a reviewed delivery first.'')) (\<lambda>_.
       Inr (r\<lparr>sv_status := status\<rparr>)))))"

text \<open>The new columns of the row, the text and the secrecy of the event, and the tables.\<close>

type_synonym action_result = "service_request \<times> string option \<times> bool \<times> service_db"

definition actionEffect ::
  "int \<Rightarrow> service_ids \<Rightarrow> principal \<Rightarrow> service_request \<Rightarrow> service_action \<Rightarrow> service_db \<Rightarrow> action_result api" where
  "actionEffect now ids actor r action s =
    (let w = rightsOn actor r; plain = (\<lambda>x. andThen x (\<lambda>r1. Inr (r1, None, False, s)))
     in case action of
          SaveIntake i \<Rightarrow> andThen (require (wr_own w) serviceDenied) (\<lambda>_. plain (saveIntake r i s))
        | SubmitRequest \<Rightarrow> andThen (require (wr_own w) serviceDenied) (\<lambda>_.
            andThen (submitRequest ids r s) (\<lambda>(r1, s1). Inr (r1, None, False, s1)))
        | AssignLawyer l \<Rightarrow> andThen (require (wr_manager w) serviceDenied) (\<lambda>_. plain (assignServiceLawyer r l s))
        | OfferQuote q \<Rightarrow> andThen (require (wr_manager w) serviceDenied) (\<lambda>_. plain (offerQuote actor r q))
        | AcceptQuote v \<Rightarrow> andThen (require (wr_own w) serviceConflict) (\<lambda>_.
            andThen (acceptQuote now ids r v s) (\<lambda>(r1, s1). Inr (r1, None, False, s1)))
        | Say body internal \<Rightarrow> andThen (require (wr_own w \<or> wr_manager w \<or> wr_lawyer w) serviceDenied) (\<lambda>_.
            andThen (require (\<not> (internal \<and> wr_own w)) serviceDenied) (\<lambda>_.
            andThen (sayMessage now ids (wr_own w) r body internal s) (\<lambda>(text1, s1). Inr (r, text1, internal, s1))))
        | Transition st body \<Rightarrow> andThen (changeStatus w r st body s) (\<lambda>r1.
            Inr (r1, nonEmpty (Some body), False, s)))"

definition eventName :: "service_action \<Rightarrow> string" where
  "eventName a = (case a of Transition st _ \<Rightarrow> serviceStatusText st | _ \<Rightarrow> actionName a)"

definition actOnServiceRequest ::
  "service_platform \<Rightarrow> int \<Rightarrow> service_ids \<Rightarrow> principal \<Rightarrow> string \<Rightarrow> int \<times> service_action \<Rightarrow> service_db \<Rightarrow>
   (int \<times> service_db) api" where
  "actOnServiceRequest pf now ids actor i raw s =
    andThen (parseWithSchema (serviceActionSchema pf) raw (yp_message pf)) (\<lambda>(revision, action).
    andThen (serviceRequestWhere actor s) (\<lambda>scope.
    case find (\<lambda>r. sv_id r = i \<and> scope r) (sd_requests s) of
      None \<Rightarrow> Inl serviceMissing
    | Some r \<Rightarrow>
      andThen (require (sv_revision r = revision) serviceConflict) (\<lambda>_.
      andThen (require (sv_status r \<noteq> SR_COMPLETED \<and> sv_status r \<noteq> SR_CANCELLED) serviceConflict) (\<lambda>_.
      andThen (actionEffect now ids actor r action s) (\<lambda>(r1, text1, internal, s1).
      let s2 = s1\<lparr>sd_requests := modify sv_id i (\<lambda>_. r1\<lparr>sv_revision := sv_revision r + 1, sv_updatedAt := now\<rparr>) (sd_requests s1),
            sd_events := sd_events s1 @ [\<lparr>ev_requestId = i, ev_actorId = pr_id actor, ev_action = eventName action,
              ev_body = text1, ev_internal = internal, ev_createdAt = now\<rparr>]\<rparr>
      in Inr (sv_revision r + 1, auditService ((auditEvent (Some (pr_id actor)) (''service_request.'' @ actionName action)
           ''ServiceRequest'' (Some i) [(''revision'', MInt (sv_revision r + 1))])\<lparr>ae_clientId := Some (sv_clientId r)\<rparr>) s2))))))"

end
