(* ===== verification/Documents.thy ===== *)
theory Documents
  imports ServiceDesk
begin

text \<open>
  The documents: \<open>src/src/server/storage/document-service.ts\<close>, the documents of
  \<open>src/src/server/admin/task-document-service.ts\<close> and the route that answers a download. A file lies under its
  path; an upload is its checks, the file, and the transaction that enters the row, which may see a newer state.
\<close>

record document_platform =
  du_upload :: upload_platform
  du_env :: env
  du_outcome :: outcome_platform
  du_scanner :: "bytes \<Rightarrow> string option"
  du_auditUp :: bool
  du_deleteUp :: bool
  du_contains :: "string \<Rightarrow> string \<Rightarrow> bool"
  du_containsPoints :: "string \<Rightarrow> points \<Rightarrow> bool"
  du_order :: "string \<Rightarrow> string \<Rightarrow> document_row list \<Rightarrow> document_row list"

definition documentCategories :: "string list" where
  "documentCategories = [''CONTRACT'', ''COURT_FILE'', ''IDENTITY'', ''EVIDENCE'', ''PAYMENT'', ''OTHER'']"

definition documentVisibilities :: "string list" where
  "documentVisibilities = [''CLIENT_VISIBLE'', ''STAFF_ONLY'', ''INTERNAL_ONLY'']"

record upload_fields =
  uf_ownerClientId :: "string option"
  uf_caseId :: "string option"
  uf_serviceRequestId :: "string option"
  uf_paymentId :: "string option"
  uf_delivery :: bool
  uf_category :: string
  uf_visibility :: "string option"

definition documentUploadFieldsSchema :: "outcome_platform \<Rightarrow> upload_fields \<Rightarrow> error_detail list + upload_fields" where
  "documentUploadFieldsSchema pf raw =
    (let ok = (\<lambda>x. case x of None \<Rightarrow> True | Some i \<Rightarrow> ou_isUuid pf i);
         issues = schemaIssue pf ''ownerClientId'' (ok (uf_ownerClientId raw)) @ schemaIssue pf ''caseId'' (ok (uf_caseId raw)) @
           schemaIssue pf ''serviceRequestId'' (ok (uf_serviceRequestId raw)) @
           schemaIssue pf ''paymentId'' (ok (uf_paymentId raw)) @
           schemaIssue pf ''category'' (uf_category raw \<in> set documentCategories) @
           schemaIssue pf ''visibility'' (case uf_visibility raw of None \<Rightarrow> True | Some v \<Rightarrow> v \<in> set documentVisibilities)
     in if issues \<noteq> [] then Inl issues else Inr raw)"


section \<open>Before the file is stored\<close>

definition liveClient :: "service_db \<Rightarrow> string \<Rightarrow> client_contact option" where
  "liveClient s i = (case clientOf s i of None \<Rightarrow> None | Some c \<Rightarrow> if ct_deleted c then None else Some c)"

definition ZERO_UUID :: string where "ZERO_UUID = ''00000000-0000-0000-0000-000000000000''"

definition uploadPaymentOwner :: "principal \<Rightarrow> upload_fields \<Rightarrow> service_db \<Rightarrow> string option api" where
  "uploadPaymentOwner actor f s =
    (case uf_paymentId f of
       None \<Rightarrow> Inr None
     | Some p \<Rightarrow>
       andThen (require (uf_serviceRequestId f = None \<and> uf_caseId f = None \<and> \<not> uf_delivery f)
         (apiError 400 VALIDATION_ERROR ''Payment evidence cannot be a delivery.'')) (\<lambda>_.
       let seen = (\<lambda>v. iv_id v = p \<and> (case liveClient s (iv_clientId v) of None \<Rightarrow> False
             | Some c \<Rightarrow> hasPermission actor ''document.manage.any'' \<or>
                 (iv_clientId v = (case pr_clientId actor of None \<Rightarrow> ZERO_UUID | Some i \<Rightarrow> i) \<and> ct_userId c = Some (pr_id actor))))
       in case find seen (sd_invoices s) of
            None \<Rightarrow> Inl (apiError 404 NOT_FOUND ''Payment not found.'')
          | Some v \<Rightarrow>
            andThen (require (iv_status v \<noteq> I_DRAFT \<and>
                (case uf_ownerClientId f of None \<Rightarrow> True | Some c \<Rightarrow> c = iv_clientId v))
              (apiError 404 NOT_FOUND ''Payment not found.'')) (\<lambda>_. Inr (Some (iv_clientId v)))))"

definition assertDocumentUploadPermission :: "principal \<Rightarrow> upload_fields \<Rightarrow> unit api" where
  "assertDocumentUploadPermission actor f =
    (if hasPermission actor ''document.manage.any'' then Inr ()
     else if hasPermission actor ''document.upload.self'' \<and> nonEmpty (pr_clientId actor) \<noteq> None
     then require (uf_ownerClientId f = None \<or> uf_ownerClientId f = pr_clientId actor)
       (apiError 403 PERMISSION_DENIED ''Cannot upload documents for another client.'')
     else Inl (apiError 403 PERMISSION_DENIED ''Document upload permission is required.''))"

text \<open>The client the documents of a service request belong to, and the right to add one.\<close>

definition ownsService :: "principal \<Rightarrow> service_request \<Rightarrow> bool" where
  "ownsService actor r = (pr_roleName actor = ROLE_client \<and> pr_clientId actor = Some (sv_clientId r))"

definition staffOfService :: "principal \<Rightarrow> service_request \<Rightarrow> bool" where
  "staffOfService actor r = (hasPermission actor ''document.manage.any'' \<or>
     (hasPermission actor ''case.update.assigned'' \<and> sv_assignedLawyerId r = Some (pr_id actor)))"

definition closedRequest :: "service_request \<Rightarrow> bool" where
  "closedRequest r = (sv_status r = SR_COMPLETED \<or> sv_status r = SR_CANCELLED)"

definition uploadServiceTarget :: "principal \<Rightarrow> upload_fields \<Rightarrow> service_db \<Rightarrow> string option api" where
  "uploadServiceTarget actor f s =
    (case uf_serviceRequestId f of
       None \<Rightarrow>
         andThen (assertDocumentUploadPermission actor f) (\<lambda>_.
         andThen (require (\<not> uf_delivery f) (apiError 400 VALIDATION_ERROR ''A delivery needs a service request.'')) (\<lambda>_. Inr None))
     | Some i \<Rightarrow>
       (case fetch sv_id i (sd_requests s) of
          None \<Rightarrow> Inl serviceMissing
        | Some r \<Rightarrow>
          andThen (require (\<not> closedRequest r) serviceMissing) (\<lambda>_.
          andThen (if ownsService actor r then assertActiveServiceClient actor (deskOf s) else Inr ()) (\<lambda>_.
          andThen (require ((ownsService actor r \<or> staffOfService actor r) \<and>
              \<not> (uf_delivery f \<and> (\<not> staffOfService actor r \<or> sv_status r \<noteq> SR_IN_PROGRESS)) \<and> uf_caseId f = None \<and>
              (case uf_ownerClientId f of None \<Rightarrow> True | Some c \<Rightarrow> c = sv_clientId r))
            (apiError 403 PERMISSION_DENIED ''Request upload is not allowed.'')) (\<lambda>_. Inr (Some (sv_clientId r)))))))"

definition selfUpload :: "principal \<Rightarrow> bool" where
  "selfUpload actor = (hasPermission actor ''document.upload.self'' \<and> nonEmpty (pr_clientId actor) \<noteq> None \<and>
     \<not> hasPermission actor ''document.manage.any'')"

definition assertDocumentUploadTargets :: "principal \<Rightarrow> upload_fields \<Rightarrow> string option \<Rightarrow> service_db \<Rightarrow> unit api" where
  "assertDocumentUploadTargets actor f owner s =
    andThen (case owner of
        None \<Rightarrow> Inr ()
      | Some c \<Rightarrow>
        andThen (require (liveClient s c \<noteq> None) (apiError 404 NOT_FOUND ''Document owner client was not found.'')) (\<lambda>_.
        require (selfUpload actor \<longrightarrow> Some c = pr_clientId actor)
          (apiError 403 PERMISSION_DENIED ''Cannot upload documents for another client.''))) (\<lambda>_.
    case uf_caseId f of
      None \<Rightarrow> Inr ()
    | Some i \<Rightarrow>
      (case fetch lc_id i (casesOf (sd_cases s)) of
         None \<Rightarrow> Inl (apiError 404 NOT_FOUND ''Document case was not found.'')
       | Some k \<Rightarrow>
         andThen (require (lc_deletedAt k = None) (apiError 404 NOT_FOUND ''Document case was not found.'')) (\<lambda>_.
         andThen (require (selfUpload actor \<longrightarrow> Some (lc_clientId k) = pr_clientId actor)
           (apiError 403 PERMISSION_DENIED ''Cannot upload documents to another client's case.'')) (\<lambda>_.
         require (case owner of None \<Rightarrow> True | Some c \<Rightarrow> c = lc_clientId k)
           (apiError 400 VALIDATION_ERROR ''Document owner client must match the selected case client.'')))))"

text \<open>What is known when the checks are passed: the fields and the owner.\<close>

definition uploadChecks ::
  "document_platform \<Rightarrow> principal \<Rightarrow> upload_fields \<Rightarrow> upload_candidate \<Rightarrow> service_db \<Rightarrow> (upload_fields \<times> string option) api" where
  "uploadChecks pf actor raw file s =
    andThen (parseWithSchema (documentUploadFieldsSchema (du_outcome pf)) raw ''Document upload fields are invalid.'') (\<lambda>f.
    andThen (uploadPaymentOwner actor f s) (\<lambda>paymentOwner.
    andThen (uploadServiceTarget actor f s) (\<lambda>serviceClient.
    andThen (assertUploadAllowed (du_upload pf) file (getUploadPolicy (du_env pf))) (\<lambda>_.
    andThen (assertMalwareScanSafe (du_env pf) (du_scanner pf (uc_bytes file))) (\<lambda>_.
    let owner = (case paymentOwner of Some c \<Rightarrow> Some c | None \<Rightarrow>
          (case serviceClient of Some c \<Rightarrow> Some c | None \<Rightarrow>
             if selfUpload actor then pr_clientId actor else uf_ownerClientId f))
    in andThen (assertDocumentUploadTargets actor f owner s) (\<lambda>_. Inr (f, owner)))))))"


section \<open>The file and the row\<close>

definition getUploadsRoot :: "env \<Rightarrow> string" where
  "getUploadsRoot env = (case env ''UPLOADS_DIR'' of None \<Rightarrow> ''/var/lib/kmt-legal/uploads'' | Some t \<Rightarrow> t)"

definition savePrivateFile :: "document_platform \<Rightarrow> string \<Rightarrow> bytes \<Rightarrow> service_db \<Rightarrow> service_db api" where
  "savePrivateFile pf fileKey bs s =
    andThen (resolvePrivateFilePath fileKey (getUploadsRoot (du_env pf))) (\<lambda>path.
    andThen (require (path \<notin> fst ` set (sd_files s)) (unhandled ''EEXIST'')) (\<lambda>_.
    Inr (s\<lparr>sd_files := (path, bs) # sd_files s\<rparr>)))"

definition readPrivateFile :: "document_platform \<Rightarrow> string \<Rightarrow> service_db \<Rightarrow> bytes api" where
  "readPrivateFile pf fileKey s =
    andThen (resolvePrivateFilePath fileKey (getUploadsRoot (du_env pf))) (\<lambda>path.
    case map_of (sd_files s) path of None \<Rightarrow> Inl (unhandled ''ENOENT'') | Some bs \<Rightarrow> Inr bs)"

definition deletePrivateFileBestEffort :: "document_platform \<Rightarrow> string \<Rightarrow> service_db \<Rightarrow> service_db" where
  "deletePrivateFileBestEffort pf fileKey s =
    (case resolvePrivateFilePath fileKey (getUploadsRoot (du_env pf)) of
       Inl _ \<Rightarrow> s
     | Inr path \<Rightarrow> if du_deleteUp pf then s\<lparr>sd_files := filter (\<lambda>x. fst x \<noteq> path) (sd_files s)\<rparr> else s)"

definition nextDelivery :: "string \<Rightarrow> service_db \<Rightarrow> int" where
  "nextDelivery i s = foldl max 0 (concat (map (\<lambda>d. if dc_serviceRequestId d = Some i
     then (case dc_deliveryVersion d of None \<Rightarrow> [] | Some v \<Rightarrow> [v]) else []) (sd_documents s))) + 1"

text \<open>The request is read again under its lock; its revision goes up with every document.\<close>

definition claimDelivery ::
  "int \<Rightarrow> principal \<Rightarrow> upload_fields \<Rightarrow> service_db \<Rightarrow> (int option \<times> service_db) api" where
  "claimDelivery now actor f s =
    (case uf_serviceRequestId f of
       None \<Rightarrow> Inr (None, s)
     | Some i \<Rightarrow>
       (case fetch sv_id i (sd_requests s) of
          None \<Rightarrow> Inl (unhandled ''P2025'')
        | Some r \<Rightarrow>
          andThen (require (\<not> closedRequest r \<and> \<not> (uf_delivery f \<and> sv_status r \<noteq> SR_IN_PROGRESS))
            (apiError 409 CONFLICT ''The request changed during upload.'')) (\<lambda>_.
          andThen (require (staffOfService actor r \<or> pr_clientId actor = Some (sv_clientId r))
            (apiError 403 PERMISSION_DENIED ''Request assignment changed.'')) (\<lambda>_.
          Inr (if uf_delivery f then Some (nextDelivery i s) else None,
               s\<lparr>sd_requests := modify sv_id i (\<lambda>r. r\<lparr>sv_revision := sv_revision r + 1, sv_updatedAt := now\<rparr>)
                   (sd_requests s)\<rparr>)))))"

definition uploadedRow ::
  "int \<Rightarrow> string \<Rightarrow> principal \<Rightarrow> upload_fields \<Rightarrow> string option \<Rightarrow> upload_candidate \<Rightarrow> string \<Rightarrow> int option \<Rightarrow> document_row" where
  "uploadedRow now newId actor f owner file fileKey delivery =
    \<lparr>dc_id = newId, dc_ownerClientId = owner, dc_caseId = uf_caseId f, dc_serviceRequestId = uf_serviceRequestId f,
     dc_deliveryVersion = delivery, dc_paymentId = uf_paymentId f, dc_uploadedById = pr_id actor,
     dc_fileName = uc_fileName file, dc_fileKey = fileKey, dc_fileType = uc_mimeType file,
     dc_fileSize = nat (uc_sizeBytes file),
     dc_category = (if uf_paymentId f \<noteq> None then ''PAYMENT'' else uf_category f), dc_status = ''NEW'',
     dc_visibility = (if uf_delivery f then ''CLIENT_VISIBLE''
       else case uf_visibility f of Some v \<Rightarrow> v | None \<Rightarrow> if owner \<noteq> None then ''CLIENT_VISIBLE'' else ''STAFF_ONLY''),
     dc_createdAt = now, dc_deletedAt = None\<rparr>"

definition uploadTransaction ::
  "int \<Rightarrow> string \<Rightarrow> principal \<Rightarrow> upload_fields \<Rightarrow> string option \<Rightarrow> upload_candidate \<Rightarrow> string \<Rightarrow> service_db \<Rightarrow>
   (document_row \<times> service_db) api" where
  "uploadTransaction now newId actor f owner file fileKey s =
    andThen (claimDelivery now actor f s) (\<lambda>(delivery, s1).
    let row = uploadedRow now newId actor f owner file fileKey delivery
    in andThen (require (dc_fileKey row \<notin> dc_fileKey ` set (sd_documents s1)) (unhandled ''documents'')) (\<lambda>_.
       andThen (insertRow ''documents'' dc_id row (sd_documents s1)) (\<lambda>rows.
       Inr (row, s1\<lparr>sd_documents := rows\<rparr>))))"

definition auditDocument :: "document_platform \<Rightarrow> audit_event \<Rightarrow> service_db \<Rightarrow> service_db" where
  "auditDocument pf e s = (if du_auditUp pf then auditService e s else s)"

definition documentEvent :: "principal \<Rightarrow> string \<Rightarrow> document_row \<Rightarrow> metadata \<Rightarrow> audit_event" where
  "documentEvent actor action d m =
    (auditEvent (Some (pr_id actor)) action ''Document'' (Some (dc_id d)) m)
    \<lparr>ae_clientId := dc_ownerClientId d, ae_caseId := dc_caseId d, ae_documentId := Some (dc_id d)\<rparr>"

definition uploadDocument ::
  "document_platform \<Rightarrow> int \<Rightarrow> string \<Rightarrow> string \<Rightarrow> principal \<Rightarrow> upload_fields \<Rightarrow> upload_candidate \<Rightarrow> service_db \<Rightarrow>
   document_row api \<times> service_db" where
  "uploadDocument pf now uuid newId actor raw file s =
    (case uploadChecks pf actor raw file s of
       Inl e \<Rightarrow> (Inl e, s)
     | Inr (f, owner) \<Rightarrow>
       (let fileKey = generateDocumentFileKey (du_upload pf) uuid (uc_fileName file) (uc_mimeType file) now
        in case savePrivateFile pf fileKey (uc_bytes file) s of
             Inl e \<Rightarrow> (Inl e, s)
           | Inr s1 \<Rightarrow>
             (case uploadTransaction now newId actor f owner file fileKey s1 of
                Inl e \<Rightarrow> (Inl e, deletePrivateFileBestEffort pf fileKey s1)
              | Inr (d, s2) \<Rightarrow>
                (Inr d, auditDocument pf (documentEvent actor ''document.upload'' d
                   [(''documentId'', MText (dc_id d)), (''fileType'', MText (dc_fileType d)),
                    (''fileSize'', MInt (int (dc_fileSize d))), (''category'', MText (dc_category d)),
                    (''visibility'', MText (dc_visibility d)), (''ownerClientId'', optText (dc_ownerClientId d)),
                    (''caseId'', optText (dc_caseId d))]) s2))))"


section \<open>Who reads a document\<close>

definition lawyerOfClient :: "service_db \<Rightarrow> string \<Rightarrow> string option" where
  "lawyerOfClient s i = Option.bind (fetch oc_id i (of_clients (bk_office (deskOf s)))) oc_assignedLawyerId"

definition userOfClient :: "service_db \<Rightarrow> string \<Rightarrow> string option" where
  "userOfClient s i = Option.bind (clientOf s i) ct_userId"

definition caseOfDocument :: "service_db \<Rightarrow> document_row \<Rightarrow> legal_case option" where
  "caseOfDocument s d = Option.bind (dc_caseId d) (\<lambda>i. fetch lc_id i (casesOf (sd_cases s)))"

definition requestOfDocument :: "service_db \<Rightarrow> document_row \<Rightarrow> service_request option" where
  "requestOfDocument s d = Option.bind (dc_serviceRequestId d) (\<lambda>i. fetch sv_id i (sd_requests s))"

definition ownerUserOfDocument :: "service_db \<Rightarrow> document_row \<Rightarrow> string option" where
  "ownerUserOfDocument s d =
    (case Option.bind (dc_ownerClientId d) (userOfClient s) of
       Some u \<Rightarrow> Some u
     | None \<Rightarrow> Option.bind (caseOfDocument s d) (\<lambda>k. userOfClient s (lc_clientId k)))"

text \<open>The lawyer of the document's client, or of its case.\<close>

definition lawyerOfDocument :: "service_db \<Rightarrow> string \<Rightarrow> document_row \<Rightarrow> bool" where
  "lawyerOfDocument s u d =
    (Option.bind (dc_ownerClientId d) (lawyerOfClient s) = Some u \<or>
     map_option lc_assignedLawyerId (caseOfDocument s d) = Some u)"

definition canReadDocument :: "principal \<Rightarrow> service_db \<Rightarrow> document_row \<Rightarrow> bool" where
  "canReadDocument actor s d =
    (if hasPermission actor ''document.manage.any'' then True
     else if hasPermission actor ''document.read.own'' \<and> ownerUserOfDocument s d = Some (pr_id actor) \<and>
       dc_visibility d = ''CLIENT_VISIBLE'' then True
     else if hasPermission actor ''document.read.assigned''
     then (case requestOfDocument s d of Some r \<Rightarrow> sv_assignedLawyerId r = Some (pr_id actor)
       | None \<Rightarrow> lawyerOfDocument s (pr_id actor) d)
     else False)"

definition documentMissing :: api_error where
  "documentMissing = apiError 404 NOT_FOUND ''Document was not found.''"

definition documentIdOf :: "document_platform \<Rightarrow> string \<Rightarrow> string api" where
  "documentIdOf pf i =
    parseWithSchema (\<lambda>x. if ou_isUuid (du_outcome pf) x then Inr x else Inl [ou_issue (du_outcome pf) []]) i
      ''Document id is invalid.''"

definition findDocument :: "document_platform \<Rightarrow> principal \<Rightarrow> string \<Rightarrow> string \<Rightarrow> service_db \<Rightarrow> document_row api" where
  "findDocument pf actor refusal idText s =
    andThen (documentIdOf pf idText) (\<lambda>i.
    case fetch dc_id i (sd_documents s) of
      None \<Rightarrow> Inl documentMissing
    | Some d \<Rightarrow>
      andThen (require (dc_deletedAt d = None) documentMissing) (\<lambda>_.
      andThen (require (canReadDocument actor s d) (apiError 403 PERMISSION_DENIED refusal)) (\<lambda>_. Inr d)))"

definition getAuthorizedDocumentDownload ::
  "document_platform \<Rightarrow> principal \<Rightarrow> string \<Rightarrow> service_db \<Rightarrow> ((bytes \<times> (string \<times> points) list) \<times> service_db) api" where
  "getAuthorizedDocumentDownload pf actor idText s =
    andThen (findDocument pf actor ''Document download is not allowed.'' idText s) (\<lambda>d.
    andThen (readPrivateFile pf (dc_fileKey d) s) (\<lambda>bs.
    Inr ((bs, documentDownloadHeaders (dc_fileName d) (dc_fileType d) (dc_fileSize d)),
         auditDocument pf (documentEvent actor ''document.download'' d
           [(''documentId'', MText (dc_id d)), (''fileType'', MText (dc_fileType d)),
            (''fileSize'', MInt (int (dc_fileSize d))), (''visibility'', MText (dc_visibility d)),
            (''ownerClientId'', optText (dc_ownerClientId d)), (''caseId'', optText (dc_caseId d))]) s)))"

text \<open>
  The route: the answer is built from the headers, and the constructor of a response throws when a header has a
  code point beyond a byte.
\<close>

definition headersAccepted :: "(string \<times> points) list \<Rightarrow> bool" where
  "headersAccepted hs = list_all (\<lambda>h. list_all (\<lambda>c. c < 256) (snd h)) hs"

definition downloadRoute ::
  "document_platform \<Rightarrow> principal option \<Rightarrow> string \<Rightarrow> service_db \<Rightarrow> (bytes \<times> (string \<times> points) list) api \<times> service_db" where
  "downloadRoute pf context1 idText s =
    (case context1 of
       None \<Rightarrow> (Inl (apiError 401 UNAUTHENTICATED ''Authentication required.''), s)
     | Some actor \<Rightarrow>
       (case getAuthorizedDocumentDownload pf actor idText s of
          Inl e \<Rightarrow> (Inl e, s)
        | Inr ((bs, hs), s1) \<Rightarrow> (if headersAccepted hs then Inr (bs, hs) else Inl (unhandled ''TypeError''), s1)))"


section \<open>The office's list of documents\<close>

definition documentScopeWhereForPrincipal :: "principal \<Rightarrow> service_db \<Rightarrow> (document_row \<Rightarrow> bool) api" where
  "documentScopeWhereForPrincipal actor s =
    (if hasPermission actor ''document.manage.any'' then Inr (\<lambda>d. dc_deletedAt d = None)
     else if hasPermission actor ''document.read.assigned''
     then Inr (\<lambda>d. dc_deletedAt d = None \<and>
       ((case requestOfDocument s d of None \<Rightarrow> False | Some r \<Rightarrow> sv_assignedLawyerId r = Some (pr_id actor)) \<or>
        (dc_serviceRequestId d = None \<and> lawyerOfDocument s (pr_id actor) d)))
     else Inl (apiError 403 PERMISSION_DENIED ''Document read permission is required.''))"

definition documentStatuses :: "string list" where
  "documentStatuses = [''NEW'', ''UNDER_REVIEW'', ''NEEDS_CLARIFICATION'', ''ACCEPTED'', ''REJECTED'', ''DELETED'']"

record document_query =
  dq_q :: "string option"
  dq_status :: "string option"
  dq_category :: "string option"
  dq_visibility :: "string option"
  dq_caseId :: "string option"
  dq_ownerClientId :: "string option"
  dq_sortBy :: string
  dq_sortDirection :: string
  dq_page :: int
  dq_pageSize :: int

definition adminDocumentListQuerySchema :: "outcome_platform \<Rightarrow> document_query \<Rightarrow> error_detail list + document_query" where
  "adminDocumentListQuerySchema pf raw =
    (let issues = schemaIssue pf ''q'' (textAtMost 120 (dq_q raw)) @
           schemaIssue pf ''status'' (orEmpty (\<lambda>x. x \<in> set documentStatuses) (dq_status raw)) @
           schemaIssue pf ''category'' (orEmpty (\<lambda>x. x \<in> set documentCategories) (dq_category raw)) @
           schemaIssue pf ''visibility'' (orEmpty (\<lambda>x. x \<in> set documentVisibilities) (dq_visibility raw)) @
           schemaIssue pf ''caseId'' (orEmpty (ou_isUuid pf) (dq_caseId raw)) @
           schemaIssue pf ''ownerClientId'' (orEmpty (ou_isUuid pf) (dq_ownerClientId raw)) @
           schemaIssue pf ''sortBy'' (dq_sortBy raw \<in> {''createdAt'', ''updatedAt'', ''fileName'', ''status'', ''category''}) @
           schemaIssue pf ''sortDirection'' (dq_sortDirection raw \<in> {''asc'', ''desc''}) @
           schemaIssue pf ''page'' (1 \<le> dq_page raw) @
           schemaIssue pf ''pageSize'' (1 \<le> dq_pageSize raw \<and> dq_pageSize raw \<le> 80)
     in if issues \<noteq> [] then Inl issues else Inr (raw\<lparr>dq_q := map_option jsTrim (dq_q raw)\<rparr>))"

definition searchedDocument :: "document_platform \<Rightarrow> service_db \<Rightarrow> string \<Rightarrow> document_row \<Rightarrow> bool" where
  "searchedDocument pf s q d =
    (let has = (\<lambda>x. case x of None \<Rightarrow> False | Some t \<Rightarrow> du_contains pf q t)
     in du_containsPoints pf q (dc_fileName d) \<or> du_contains pf q (dc_fileType d) \<or>
        has (map_option ct_fullName (Option.bind (dc_ownerClientId d) (clientOf s))) \<or>
        has (map_option lc_title (caseOfDocument s d)) \<or> has (map_option lc_internalFileNumber (caseOfDocument s d)) \<or>
        has (map_of (kd_userNames (sd_cases s)) (dc_uploadedById d)))"

definition documentListWhere ::
  "document_platform \<Rightarrow> principal \<Rightarrow> document_query \<Rightarrow> service_db \<Rightarrow> (document_row \<Rightarrow> bool) api" where
  "documentListWhere pf actor f s =
    andThen (documentScopeWhereForPrincipal actor s) (\<lambda>scope.
    let same = (\<lambda>f x. case nonEmpty f of None \<Rightarrow> True | Some y \<Rightarrow> x = Some y)
    in Inr (\<lambda>d. scope d \<and> equalsFilter (dq_status f) (dc_status d) \<and> equalsFilter (dq_category f) (dc_category d) \<and>
         equalsFilter (dq_visibility f) (dc_visibility d) \<and> same (dq_caseId f) (dc_caseId d) \<and>
         same (dq_ownerClientId f) (dc_ownerClientId d) \<and>
         (case nonEmpty (map_option jsTrim (dq_q f)) of None \<Rightarrow> True | Some q \<Rightarrow> searchedDocument pf s q d)))"

definition listAdminDocuments ::
  "document_platform \<Rightarrow> principal \<Rightarrow> document_query \<Rightarrow> service_db \<Rightarrow> (document_row list \<times> nat) api" where
  "listAdminDocuments pf actor query s =
    andThen (parseWithSchema (adminDocumentListQuerySchema (du_outcome pf)) query ''Document list query is invalid.'') (\<lambda>f.
    andThen (documentListWhere pf actor f s) (\<lambda>found.
    let p = toPagination (Some (dq_page f)) (Some (dq_pageSize f)); rows = filter found (sd_documents s)
    in Inr (take (nat (pg_take p)) (drop (nat (pg_skip p)) (du_order pf (dq_sortBy f) (dq_sortDirection f) rows)), length rows)))"

record document_update =
  dw_status :: string
  dw_category :: string
  dw_visibility :: string
  dw_note :: "string option"

definition adminDocumentUpdateSchema :: "outcome_platform \<Rightarrow> document_update \<Rightarrow> error_detail list + document_update" where
  "adminDocumentUpdateSchema pf raw =
    (let issues = schemaIssue pf ''status'' (dw_status raw \<in> set documentStatuses \<and> dw_status raw \<noteq> ''DELETED'') @
           schemaIssue pf ''category'' (dw_category raw \<in> set documentCategories) @
           schemaIssue pf ''visibility'' (dw_visibility raw \<in> set documentVisibilities) @
           schemaIssue pf ''note'' (textAtMost 500 (dw_note raw))
     in if issues \<noteq> [] then Inl issues else Inr (raw\<lparr>dw_note := map_option jsTrim (dw_note raw)\<rparr>))"

definition canManageAdminDocuments :: "principal \<Rightarrow> bool" where
  "canManageAdminDocuments actor = hasPermission actor ''document.manage.any''"

definition manageDocument :: "principal \<Rightarrow> unit api" where
  "manageDocument actor = require (canManageAdminDocuments actor)
    (apiError 403 PERMISSION_DENIED ''Document management permission is required.'')"

definition updateAdminDocument ::
  "document_platform \<Rightarrow> principal \<Rightarrow> string \<Rightarrow> document_update \<Rightarrow> service_db \<Rightarrow> (document_row \<times> service_db) api" where
  "updateAdminDocument pf actor idText raw s =
    andThen (manageDocument actor) (\<lambda>_.
    andThen (findDocument pf actor ''Document is outside your permission scope.'' idText s) (\<lambda>existing.
    andThen (parseWithSchema (adminDocumentUpdateSchema (du_outcome pf)) raw ''Document payload is invalid.'') (\<lambda>body.
    let f = (\<lambda>d. d\<lparr>dc_status := dw_status body, dc_category := dw_category body, dc_visibility := dw_visibility body\<rparr>);
        d = f existing;
        lawyer = (case map_option lc_assignedLawyerId (caseOfDocument s d) of Some l \<Rightarrow> Some l
          | None \<Rightarrow> Option.bind (dc_ownerClientId d) (lawyerOfClient s))
    in Inr (d, auditDocument pf ((documentEvent actor ''document.update'' d
           [(''previousStatus'', MText (dc_status existing)), (''status'', MText (dc_status d)),
            (''previousVisibility'', MText (dc_visibility existing)), (''visibility'', MText (dc_visibility d)),
            (''previousCategory'', MText (dc_category existing)), (''category'', MText (dc_category d)),
            (''note'', optText (nonEmpty (dw_note body)))])\<lparr>ae_lawyerId := lawyer\<rparr>)
         (s\<lparr>sd_documents := modify dc_id (dc_id existing) f (sd_documents s)\<rparr>)))))"

definition adminDocumentDeleteSchema ::
  "outcome_platform \<Rightarrow> string option \<times> bool \<Rightarrow> error_detail list + string option" where
  "adminDocumentDeleteSchema pf raw =
    (let issues = schemaIssue pf ''reason'' (textAtMost 500 (fst raw)) @ schemaIssue pf ''confirmDelete'' (snd raw)
     in if issues \<noteq> [] then Inl issues else Inr (map_option jsTrim (fst raw)))"

definition deleteAdminDocument ::
  "document_platform \<Rightarrow> int \<Rightarrow> principal \<Rightarrow> string \<Rightarrow> string option \<times> bool \<Rightarrow> service_db \<Rightarrow> (document_row \<times> service_db) api" where
  "deleteAdminDocument pf now actor idText raw s =
    andThen (manageDocument actor) (\<lambda>_.
    andThen (findDocument pf actor ''Document is outside your permission scope.'' idText s) (\<lambda>existing.
    andThen (parseWithSchema (adminDocumentDeleteSchema (du_outcome pf)) raw ''Document delete payload is invalid.'') (\<lambda>reason.
    let f = (\<lambda>d. d\<lparr>dc_status := ''DELETED'', dc_deletedAt := Some now\<rparr>)
    in Inr (f existing, auditDocument pf (documentEvent actor ''document.delete'' existing
           [(''reason'', optText (nonEmpty reason)), (''previousStatus'', MText (dc_status existing)),
            (''visibility'', MText (dc_visibility existing)), (''category'', MText (dc_category existing)),
            (''caseId'', optText (dc_caseId existing)), (''ownerClientId'', optText (dc_ownerClientId existing))])
         (s\<lparr>sd_documents := modify dc_id (dc_id existing) f (sd_documents s)\<rparr>)))))"

end
