(* ===== verification/FormationDesk.thy ===== *)
theory FormationDesk
  imports ServiceDesk
begin

text \<open>
  The interview before a company is founded: \<open>src/src/server/services/formation-service.ts\<close>. The interview belongs to a
  conversation; a report is kept per revision; a submission opens a service request. The title of the copy, the
  references and the answer of the assistant are parameters.
\<close>

record formation_platform =
  ff_booking :: booking_platform
  ff_lower :: "points \<Rightarrow> points"
  ff_title :: "string \<Rightarrow> string"
  ff_references :: "string \<Rightarrow> json list option"
  ff_answer :: "formation_draft \<Rightarrow> (string \<times> string list) option"

datatype formation_action =
    FStart string bool
  | FSave int formation_draft
  | FReport int
  | FSubmit int bool

text \<open>The body of a request: a locale, a literal \<open>true\<close>, a revision that is not negative, a draft.\<close>

definition formationActionSchema :: "error_detail \<Rightarrow> formation_action \<Rightarrow> error_detail list + formation_action" where
  "formationActionSchema issue raw =
    (case raw of
       FStart locale consent \<Rightarrow> if locale \<in> {''ar'', ''en''} \<and> consent then Inr raw else Inl [issue]
     | FSave revision d \<Rightarrow> if 0 \<le> revision \<and> formationAccepted d then Inr (FSave revision (parsedDraft d)) else Inl [issue]
     | FReport revision \<Rightarrow> if 0 \<le> revision then Inr raw else Inl [issue]
     | FSubmit revision confirmed \<Rightarrow> if 0 \<le> revision \<and> confirmed then Inr raw else Inl [issue])"

definition formationConflict :: api_error where
  "formationConflict = apiError 409 CONFLICT ''Refresh the interview before continuing.''"

definition interviewOf :: "string \<Rightarrow> service_db \<Rightarrow> formation_interview option" where
  "interviewOf sessionId s = fetch fi_sessionId sessionId (sd_interviews s)"

definition reportOf :: "string \<Rightarrow> int \<Rightarrow> service_db \<Rightarrow> formation_report option" where
  "reportOf interviewId version s = find (\<lambda>p. fp_interviewId p = interviewId \<and> fp_version p = version) (sd_reports s)"

text \<open>The conversation the capability opens, in the tables a released lease leaves.\<close>

definition ownSession ::
  "formation_platform \<Rightarrow> int \<Rightarrow> string \<Rightarrow> principal option \<Rightarrow> service_db \<Rightarrow> assistant_session api \<times> service_db" where
  "ownSession pf now token actor s =
    (case ownAssistantSession (ff_booking pf) now token actor (deskOf s) of (r, d) \<Rightarrow> (r, putDesk d s))"

definition readFormation ::
  "formation_platform \<Rightarrow> int \<Rightarrow> string \<Rightarrow> principal option \<Rightarrow> service_db \<Rightarrow>
   (formation_interview \<times> formation_report option) option api \<times> service_db" where
  "readFormation pf now token actor s =
    (case ownSession pf now token actor s of
       (Inl e, s1) \<Rightarrow> (Inl e, s1)
     | (Inr a, s1) \<Rightarrow>
       (Inr (map_option (\<lambda>row. (row,
          case sort_key (\<lambda>p. - fp_version p) (filter (\<lambda>p. fp_interviewId p = fi_id row) (sd_reports s1)) of
            [] \<Rightarrow> None | p # _ \<Rightarrow> Some p)) (interviewOf (as_id a) s1)), s1))"

definition startFormation ::
  "int \<Rightarrow> string \<Rightarrow> string \<Rightarrow> string \<Rightarrow> service_db \<Rightarrow> (formation_interview \<times> service_db) api" where
  "startFormation now newId sessionId locale s =
    (case interviewOf sessionId s of
       Some row \<Rightarrow> Inr (row, s)
     | None \<Rightarrow>
       let row = \<lparr>fi_id = newId, fi_sessionId = sessionId, fi_serviceRequestId = None, fi_locale = locale, fi_consentAt = now,
             fi_draft = emptyDraft, fi_revision = 0\<rparr>
       in andThen (insertRow ''formation_interviews'' fi_id row (sd_interviews s)) (\<lambda>rows. Inr (row, s\<lparr>sd_interviews := rows\<rparr>)))"

text \<open>The assistant is asked before the transaction, and only for a revision that has no report yet.\<close>

definition assessmentFor ::
  "formation_platform \<Rightarrow> formation_action \<Rightarrow> string \<Rightarrow> service_db \<Rightarrow> assessment option api" where
  "assessmentFor pf input sessionId s =
    (case input of
       FReport revision \<Rightarrow>
         (case interviewOf sessionId s of
            None \<Rightarrow> Inl formationConflict
          | Some saved \<Rightarrow>
            andThen (require (fi_revision saved = revision) formationConflict) (\<lambda>_.
            Inr (if reportOf (fi_id saved) revision s \<noteq> None then None
                 else Some (assessFormation (ff_lower pf) (ff_references pf (fi_locale saved)) (ff_answer pf (fi_draft saved))
                   (fi_draft saved)))))
     | _ \<Rightarrow> Inr None)"

definition keepReport ::
  "formation_platform \<Rightarrow> assessment option \<Rightarrow> formation_interview \<Rightarrow> service_db \<Rightarrow> service_db" where
  "keepReport pf asked row s =
    (case reportOf (fi_id row) (fi_revision row) s of
       Some _ \<Rightarrow> s
     | None \<Rightarrow> s\<lparr>sd_reports := sd_reports s @ [\<lparr>fp_interviewId = fi_id row, fp_version = fi_revision row, fp_draft = fi_draft row,
         fp_review = formationReview (ff_lower pf) (fi_draft row), fp_assessment = asked, fp_locale = fi_locale row,
         fp_consentAt = fi_consentAt row\<rparr>]\<rparr>)"

definition formationRequest ::
  "formation_platform \<Rightarrow> int \<Rightarrow> service_ids \<Rightarrow> string \<Rightarrow> formation_interview \<Rightarrow> service_request" where
  "formationRequest pf now ids clientId row =
    \<lparr>sv_id = xi_id ids, sv_reference = ''FORMATION-'' @ xi_reference ids, sv_clientId = clientId, sv_assignedLawyerId = None,
     sv_paymentId = None, sv_threadId = Some (xi_thread ids), sv_sourceRequestId = None, sv_kind = COMPANY_FORMATION,
     sv_locale = fi_locale row, sv_status = SR_RECEIVED,
     sv_intake = \<lparr>in_formation = Some (fi_draft row), in_title = ff_title pf (if fi_locale row = ''en'' then ''en'' else ''ar''),
       in_purpose = fd_activity (fi_draft row), in_language = fi_locale row, in_requestedDate = [], in_answers = []\<rparr>,
     sv_questionnaireId = None, sv_quote = None, sv_quoteVersion = 0, sv_acceptedQuoteVersion = None, sv_revision = 0,
     sv_idempotencyKey = fi_id row, sv_updatedAt = now\<rparr>"

definition submitFormation ::
  "formation_platform \<Rightarrow> int \<Rightarrow> service_ids \<Rightarrow> principal \<Rightarrow> string \<Rightarrow> string \<Rightarrow> formation_interview \<Rightarrow> service_db \<Rightarrow>
   (formation_interview \<times> service_db) api" where
  "submitFormation pf now ids actor clientId sessionId row s =
    andThen (require (10 \<le> length (fd_activity (fi_draft row)))
      (apiError 400 VALIDATION_ERROR ''Describe the proposed activity.'')) (\<lambda>_.
    andThen (require (reportOf (fi_id row) (fi_revision row) s \<noteq> None) formationConflict) (\<lambda>_.
    andThen (insertRow ''conversation_threads'' th_id
        \<lparr>th_id = xi_thread ids, th_clientId = Some clientId, th_status = ''WAITING_STAFF'', th_assignedToId = None\<rparr>
        (bk_threads (deskOf s))) (\<lambda>threads.
    let request = formationRequest pf now ids clientId row; submitted = row\<lparr>fi_serviceRequestId := Some (xi_id ids)\<rparr>
    in andThen (require (sv_reference request \<notin> sv_reference ` set (sd_requests s) \<and>
           (clientId, fi_id row) \<notin> (\<lambda>r. (sv_clientId r, sv_idempotencyKey r)) ` set (sd_requests s))
         (unhandled ''service_requests'')) (\<lambda>_.
       andThen (insertRow ''service_requests'' sv_id request (sd_requests s)) (\<lambda>rows.
       let desk = (deskOf s)\<lparr>bk_threads := threads,
             bk_sessions := modify as_id sessionId (\<lambda>a. a\<lparr>as_clientId := Some clientId\<rparr>) (bk_sessions (deskOf s))\<rparr>;
           event = \<lparr>ev_requestId = xi_id ids, ev_actorId = pr_id actor, ev_action = ''submit'', ev_body = None, ev_internal = False,
             ev_createdAt = now\<rparr>;
           s1 = (putDesk desk s)\<lparr>sd_requests := rows, sd_events := sd_events s @ [event],
             sd_interviews := modify fi_id (fi_id row) (\<lambda>x. x\<lparr>fi_serviceRequestId := Some (xi_id ids)\<rparr>) (sd_interviews s)\<rparr>
       in Inr (submitted, auditService ((auditEvent (Some (pr_id actor)) ''formation.submit'' ''ServiceRequest'' (Some (xi_id ids))
            [(''reportVersion'', MInt (fi_revision row))])\<lparr>ae_clientId := Some clientId\<rparr>) s1))))))"

text \<open>The transaction, under the lock of the conversation. The id of a request is never the empty text.\<close>

definition formationRevision :: "formation_action \<Rightarrow> int" where
  "formationRevision a = (case a of FStart _ _ \<Rightarrow> 0 | FSave n _ \<Rightarrow> n | FReport n \<Rightarrow> n | FSubmit n _ \<Rightarrow> n)"

definition isSubmit :: "formation_action \<Rightarrow> bool" where
  "isSubmit a = (case a of FSubmit _ _ \<Rightarrow> True | _ \<Rightarrow> False)"

definition formationTransaction ::
  "formation_platform \<Rightarrow> int \<Rightarrow> service_ids \<Rightarrow> principal option \<Rightarrow> assessment option \<Rightarrow> formation_action \<Rightarrow> string \<Rightarrow>
   service_db \<Rightarrow> (formation_interview \<times> service_db) api" where
  "formationTransaction pf now ids actor asked input sessionId s =
    (case fetch as_id sessionId (bk_sessions (deskOf s)) of
       None \<Rightarrow> Inl (apiError 401 AUTH_REQUIRED ''Session unavailable.'')
     | Some a \<Rightarrow>
       andThen (require (ownedBy now actor a) (apiError 401 AUTH_REQUIRED ''Session unavailable.'')) (\<lambda>_.
       case interviewOf sessionId s of
         None \<Rightarrow> Inl (apiError 404 NOT_FOUND ''Interview not found.'')
       | Some row \<Rightarrow>
         if fi_serviceRequestId row \<noteq> None
         then (if isSubmit input then Inr (row, s) else Inl formationConflict)
         else andThen (require (fi_revision row = formationRevision input) formationConflict) (\<lambda>_.
           case input of
             FSave _ d \<Rightarrow>
               Inr (row\<lparr>fi_draft := d, fi_revision := fi_revision row + 1\<rparr>,
                 s\<lparr>sd_interviews := modify fi_id (fi_id row)
                     (\<lambda>x. x\<lparr>fi_draft := d, fi_revision := fi_revision x + 1\<rparr>) (sd_interviews s)\<rparr>)
           | FReport _ \<Rightarrow> Inr (row, keepReport pf asked row s)
           | _ \<Rightarrow>
             (case actor of
                None \<Rightarrow> Inl (unhandled ''serviceClient'')
              | Some p \<Rightarrow> submitFormation pf now ids p (case pr_clientId p of None \<Rightarrow> [] | Some c \<Rightarrow> c) sessionId row s))))"

definition actOnFormation ::
  "formation_platform \<Rightarrow> int \<Rightarrow> service_ids \<Rightarrow> string \<Rightarrow> string \<Rightarrow> principal option \<Rightarrow> formation_action \<Rightarrow> service_db \<Rightarrow>
   formation_interview api \<times> service_db" where
  "actOnFormation pf now ids newId token actor input s =
    (case ownSession pf now token actor s of
       (Inl e, s1) \<Rightarrow> (Inl e, s1)
     | (Inr a, s1) \<Rightarrow>
       (let done1 = (\<lambda>r. case r of Inl e \<Rightarrow> (Inl e, s1) | Inr (row, s2) \<Rightarrow> (Inr row, s2))
        in case input of
             FStart locale _ \<Rightarrow> done1 (startFormation now newId (as_id a) locale s1)
           | _ \<Rightarrow> done1
               (andThen (if isSubmit input
                  then case actor of
                      None \<Rightarrow> Inl (apiError 401 AUTH_REQUIRED ''An active client account is required.'')
                    | Some p \<Rightarrow> assertActiveServiceClient p (deskOf s1)
                  else Inr ()) (\<lambda>_.
                andThen (assessmentFor pf input (as_id a) s1) (\<lambda>asked.
                formationTransaction pf now ids actor asked input (as_id a) s1)))))"

end
