(* ===== verification/UploadFacts.thy ===== *)
theory UploadFacts
  imports Uploads
begin

text \<open>
  What an accepted upload is, and what the headers of a download say: no accepted Word document has an entry that leaves its
  folder or a macro, nothing accepted is larger than five megabytes whatever the environment says, and the encoded
  name of a download decodes to the name.
\<close>

section \<open>Word documents\<close>

text \<open>The central directory as a list: so many entries, each where the one before it ends.\<close>

fun directoryOf :: "bytes \<Rightarrow> nat \<Rightarrow> nat \<Rightarrow> nat \<Rightarrow> zip_entry list option" where
  "directoryOf bs end1 0 position = Some []"
| "directoryOf bs end1 (Suc n) position =
     (case centralEntry bs end1 position of
        None \<Rightarrow> None
      | Some e \<Rightarrow> map_option ((#) e) (directoryOf bs end1 n (position + ze_length e)))"

definition harmlessEntry :: "zip_entry \<Rightarrow> bool" where
  "harmlessEntry e = (even (ze_flags e) \<and> ze_method e \<in> {0, 8} \<and> namePlain (ze_name e))"

text \<open>The text of a part is what the entry of that name holds, in its declared length.\<close>

definition partOf :: "(bytes \<Rightarrow> bytes option) \<Rightarrow> bytes \<Rightarrow> zip_entry \<Rightarrow> points \<Rightarrow> bool" where
  "partOf inflate bs e t = (\<exists>c. partContent inflate bs (ze_method e) (ze_compressed e) (ze_size e) (ze_local e) = Some c \<and>
     length c = ze_size e \<and> t = textOfBytes c)"

lemma partContent_length:
  "partContent inflate bs m a n l = Some c \<Longrightarrow> length c = n"
  by (auto simp: partContent_def Let_def split: option.splits if_splits)

lemma walkEntries_directory:
  assumes "walkEntries inflate bs end1 n position sum1 names parts = Some parts1"
  obtains es where "directoryOf bs end1 n position = Some es" and "list_all harmlessEntry es" and "distinct (map ze_name es)"
    and "set (map ze_name es) \<inter> set names = {}" and "n \<noteq> 0 \<longrightarrow> sum1 + sum_list (map ze_size es) \<le> 50 * 1024 * 1024"
    and "\<And>w t. map_of parts1 w = Some t \<Longrightarrow> map_of parts w = Some t \<or> (\<exists>e\<in>set es. ze_name e = w \<and> partOf inflate bs e t)"
proof -
  have "\<exists>es. directoryOf bs end1 n position = Some es \<and> list_all harmlessEntry es \<and> distinct (map ze_name es) \<and>
      set (map ze_name es) \<inter> set names = {} \<and> (n \<noteq> 0 \<longrightarrow> sum1 + sum_list (map ze_size es) \<le> 50 * 1024 * 1024) \<and>
      (\<forall>w t. map_of parts1 w = Some t \<longrightarrow> map_of parts w = Some t \<or> (\<exists>e\<in>set es. ze_name e = w \<and> partOf inflate bs e t))"
    using assms
  proof (induction n arbitrary: position sum1 names parts)
    case (Suc n)
    from Suc.prems obtain e where e: "centralEntry bs end1 position = Some e" by (auto split: option.splits)
    with Suc.prems obtain parts2 where fine: "harmlessEntry e" "ze_name e \<notin> set names" "sum1 + ze_size e \<le> 50 * 1024 * 1024"
      and parts2: "(if ze_name e \<in> set wordParts
          then map_option (\<lambda>c. (ze_name e, textOfBytes c) # parts)
            (partContent inflate bs (ze_method e) (ze_compressed e) (ze_size e) (ze_local e))
          else Some parts) = Some parts2"
      and rest: "walkEntries inflate bs end1 n (position + ze_length e) (sum1 + ze_size e) (ze_name e # names) parts2 = Some parts1"
      by (auto simp: harmlessEntry_def split: if_splits option.splits)
    have new: "map_of parts2 w = Some t \<Longrightarrow> map_of parts w = Some t \<or> (ze_name e = w \<and> partOf inflate bs e t)" for w t
      using parts2 by (auto simp: partOf_def dest: partContent_length split: if_splits)
    from Suc.IH [OF rest] obtain es where es: "directoryOf bs end1 n (position + ze_length e) = Some es" "list_all harmlessEntry es"
      "distinct (map ze_name es)" "set (map ze_name es) \<inter> set (ze_name e # names) = {}"
      "n \<noteq> 0 \<longrightarrow> sum1 + ze_size e + sum_list (map ze_size es) \<le> 50 * 1024 * 1024"
      and parts1: "\<forall>w t. map_of parts1 w = Some t \<longrightarrow> map_of parts2 w = Some t \<or> (\<exists>e\<in>set es. ze_name e = w \<and> partOf inflate bs e t)"
      by blast
    have "n = 0 \<longrightarrow> es = []" using es(1) by (cases n) auto
    then have "sum1 + sum_list (map ze_size (e # es)) \<le> 50 * 1024 * 1024" using es(5) fine(3) by (cases n) auto
    moreover have "\<forall>w t. map_of parts1 w = Some t \<longrightarrow> map_of parts w = Some t \<or>
        (\<exists>e\<in>set (e # es). ze_name e = w \<and> partOf inflate bs e t)"
      using parts1 new by (metis list.set_intros(1) list.set_intros(2))
    ultimately show ?case using e es fine by (intro exI [of _ "e # es"]) auto
  qed simp
  then show thesis using that by blast
qed

lemma word_archive_entries:
  assumes "isWordDocumentArchive inflate bs"
  obtains end1 position es where "endOfDirectory bs = Some end1" and "directoryOf bs end1 (length es) position = Some es"
    and "list_all harmlessEntry es" and "distinct (map ze_name es)" and "sum_list (map ze_size es) \<le> 50 * 1024 * 1024"
    and "\<exists>e\<in>set es. ze_name e = pointsOf ''word/document.xml'' \<and>
      (\<exists>t. partOf inflate bs e t \<and> hasPoints (pointsOf ''wordprocessingml'') t)"
proof -
  from assms obtain end1 count position parts types document where e: "endOfDirectory bs = Some end1"
    and head: "directoryHead bs end1 = Some (count, position)"
    and walk: "walkEntries inflate bs end1 count position 0 [] [] = Some parts"
    and part: "map_of parts (wordParts ! 1) = Some document" "hasPoints (pointsOf ''wordprocessingml'') document"
    by (auto simp: isWordDocumentArchive_def bind_eq_Some_conv split: option.splits prod.splits) blast
  have count: "count \<noteq> 0" using head by (auto simp: directoryHead_def split: if_splits option.splits)
  from walk obtain es where es: "directoryOf bs end1 count position = Some es" "list_all harmlessEntry es" "distinct (map ze_name es)"
    "count \<noteq> 0 \<longrightarrow> 0 + sum_list (map ze_size es) \<le> 50 * 1024 * 1024"
    and from_es: "\<And>w t. map_of parts w = Some t \<Longrightarrow> map_of ([] :: (points \<times> points) list) w = Some t \<or>
      (\<exists>e\<in>set es. ze_name e = w \<and> partOf inflate bs e t)"
    by (rule walkEntries_directory) blast
  have "length es = n" if "directoryOf bs end1 n p = Some es" for n p es
    using that by (induction n arbitrary: p es) (auto split: option.splits)
  with es(1) have "directoryOf bs end1 (length es) position = Some es" by simp
  moreover from from_es [OF part(1)] part(2)
  have "\<exists>e\<in>set es. ze_name e = pointsOf ''word/document.xml'' \<and>
      (\<exists>t. partOf inflate bs e t \<and> hasPoints (pointsOf ''wordprocessingml'') t)"
    by (auto simp: wordParts_def)
  ultimately show thesis using that e es count by simp
qed


section \<open>The policy\<close>

lemma getUploadPolicy_bounds:
  "0 < po_maxBytes (getUploadPolicy env) \<and> po_maxBytes (getUploadPolicy env) \<le> 5 * 1024 * 1024"
  "set (po_allowedMimeTypes (getUploadPolicy env)) \<subseteq> set DEFAULT_ALLOWED_UPLOAD_TYPES"
  by (auto simp: getUploadPolicy_def DEFAULT_MAX_UPLOAD_MB_def Let_def split: option.splits)

text \<open>
  Whatever the environment says, an accepted file is not empty and has at most five megabytes, its type is one of the five
  and its extension one of that type. An accepted Word document is an archive whose directory lists
  no file twice, none that is encrypted, packed in an unknown way or larger together than fifty megabytes, none whose name is
  absolute, has a backslash or a step upwards, and no macros; and one of its files is the text of a Word document.
\<close>

theorem accepted_upload_safe:
  fixes c :: upload_candidate and pf :: upload_platform
  assumes "assertUploadAllowed pf c (getUploadPolicy env) = Inr ()"
  shows "0 < length (uc_bytes c) \<and> length (uc_bytes c) \<le> 5 * 1024 * 1024 \<and>
    uc_mimeType c \<in> set DEFAULT_ALLOWED_UPLOAD_TYPES \<and> allowedExtension pf (uc_fileName c) (uc_mimeType c) \<and>
    (uc_mimeType c = MIME_docx \<longrightarrow> (\<exists>end1 position es.
       endOfDirectory (uc_bytes c) = Some end1 \<and> directoryOf (uc_bytes c) end1 (length es) position = Some es \<and>
       distinct (map ze_name es) \<and> sum_list (map ze_size es) \<le> 50 * 1024 * 1024 \<and>
       (\<forall>e\<in>set es. even (ze_flags e) \<and> ze_method e \<in> {0, 8} \<and> \<not> pointStarts [47] (ze_name e) \<and> 92 \<notin> set (ze_name e) \<and>
          [46, 46] \<notin> set (splitPoints 47 (ze_name e)) \<and> \<not> vbaProject (ze_name e)) \<and>
       (\<exists>e\<in>set es. ze_name e = pointsOf ''word/document.xml'' \<and>
          (\<exists>t. partOf (up_inflate pf) (uc_bytes c) e t \<and> hasPoints (pointsOf ''wordprocessingml'') t))))"
proof -
  from assms have basics: "uc_bytes c \<noteq> []" "int (length (uc_bytes c)) \<le> po_maxBytes (getUploadPolicy env)"
    "uc_mimeType c \<in> set (po_allowedMimeTypes (getUploadPolicy env))" "allowedExtension pf (uc_fileName c) (uc_mimeType c)"
    and magic: "hasExpectedMagicBytes pf (uc_mimeType c) (uc_bytes c)"
    by (auto simp: assertUploadAllowed_def)
  have word: "isWordDocumentArchive (up_inflate pf) (uc_bytes c)" if "uc_mimeType c = MIME_docx"
    using magic that by (simp add: hasExpectedMagicBytes_def MIME_docx_def)
  have small: "0 < length (uc_bytes c)" "length (uc_bytes c) \<le> 5 * 1024 * 1024" "uc_mimeType c \<in> set DEFAULT_ALLOWED_UPLOAD_TYPES"
    using basics getUploadPolicy_bounds [of env] by auto
  show ?thesis
  proof (intro conjI impI small basics(4))
    assume "uc_mimeType c = MIME_docx"
    from word [OF this] obtain end1 position es where
      *: "endOfDirectory (uc_bytes c) = Some end1" "directoryOf (uc_bytes c) end1 (length es) position = Some es"
      and harmless: "list_all harmlessEntry es"
      and **: "distinct (map ze_name es)" "sum_list (map ze_size es) \<le> 50 * 1024 * 1024"
        "\<exists>e\<in>set es. ze_name e = pointsOf ''word/document.xml'' \<and>
          (\<exists>t. partOf (up_inflate pf) (uc_bytes c) e t \<and> hasPoints (pointsOf ''wordprocessingml'') t)"
      by (rule word_archive_entries)
    from harmless have "\<forall>e\<in>set es. even (ze_flags e) \<and> ze_method e \<in> {0, 8} \<and> \<not> pointStarts [47] (ze_name e) \<and>
        92 \<notin> set (ze_name e) \<and> [46, 46] \<notin> set (splitPoints 47 (ze_name e)) \<and> \<not> vbaProject (ze_name e)"
      by (simp add: list_all_iff harmlessEntry_def namePlain_def)
    with * ** show "\<exists>end1 position es. endOfDirectory (uc_bytes c) = Some end1 \<and>
       directoryOf (uc_bytes c) end1 (length es) position = Some es \<and>
       distinct (map ze_name es) \<and> sum_list (map ze_size es) \<le> 50 * 1024 * 1024 \<and>
       (\<forall>e\<in>set es. even (ze_flags e) \<and> ze_method e \<in> {0, 8} \<and> \<not> pointStarts [47] (ze_name e) \<and> 92 \<notin> set (ze_name e) \<and>
          [46, 46] \<notin> set (splitPoints 47 (ze_name e)) \<and> \<not> vbaProject (ze_name e)) \<and>
       (\<exists>e\<in>set es. ze_name e = pointsOf ''word/document.xml'' \<and>
          (\<exists>t. partOf (up_inflate pf) (uc_bytes c) e t \<and> hasPoints (pointsOf ''wordprocessingml'') t))"
      by blast
  qed
qed


section \<open>The name of a download\<close>

text \<open>The bytes that the escapes stand for.\<close>

fun percentBytes :: "points \<Rightarrow> nat list" where
  "percentBytes [] = []"
| "percentBytes [a] = [a]"
| "percentBytes [a, b] = [a, b]"
| "percentBytes (a # b # c # cs) =
     (if a = 37 then (let hex = (\<lambda>d. if d < 65 then d - 48 else d - 55) in (16 * hex b + hex c) # percentBytes cs)
      else a # percentBytes (b # c # cs))"

lemma percentBytes_plain: "a \<noteq> 37 \<Longrightarrow> percentBytes (a # cs) = a # percentBytes cs"
  by (cases cs rule: percentBytes.cases) (auto simp: Let_def)

lemma percentBytes_escape:
  "b < 256 \<Longrightarrow> percentBytes (37 # upperHex (b div 16) # upperHex (b mod 16) # cs) = b # percentBytes cs"
  by (auto simp: upperHex_def Let_def)

lemma percentBytes_escapes:
  "list_all (\<lambda>b. b < 256) bs \<Longrightarrow>
    percentBytes (concat (map (\<lambda>b. [37, upperHex (b div 16), upperHex (b mod 16)]) bs) @ cs) = bs @ percentBytes cs"
proof (induction bs)
  case (Cons b bs)
  then show ?case using percentBytes_escape [of b] by simp
qed simp

text \<open>A code point that is no half of a pair.\<close>

definition scalarPoint :: "nat \<Rightarrow> bool" where
  "scalarPoint p = (p < 1114112 \<and> \<not> (55296 \<le> p \<and> p \<le> 57343))"

lemma utf8Encode_bytes: "scalarPoint p \<Longrightarrow> list_all (\<lambda>b. b < 256) (utf8Encode p)"
  by (auto simp: utf8Encode_def scalarPoint_def)

lemma utf8Decode_encode:
  assumes "scalarPoint p"
  shows "utf8Decode (utf8Encode p @ bs) = p # utf8Decode bs"
proof -
  consider "p < 128" | "128 \<le> p" "p < 2048" | "2048 \<le> p" "p < 65536" | "65536 \<le> p" by linarith
  then show ?thesis
  proof cases
    case 1
    then show ?thesis by (simp add: utf8Encode_def)
  next
    case 2
    define a b where "a = p div 64" and "b = p mod 64"
    have p: "p = 64 * a + b" "b < 64" by (simp_all add: a_def b_def)
    have a: "2 \<le> a" "a < 32" using 2 p by linarith+
    have enc: "utf8Encode p = [192 + a, 128 + b]" using 2 by (simp add: utf8Encode_def a_def b_def)
    show ?thesis using a p(2) unfolding enc by (simp add: leadByte_def p(1))
  next
    case 3
    define a b c where "a = p div 4096" and "b = p div 64 mod 64" and "c = p mod 64"
    have a': "a = p div 64 div 64" by (simp add: a_def div_mult2_eq [symmetric])
    have p: "p = 4096 * a + 64 * b + c" "b < 64" "c < 64"
      using mult_div_mod_eq [of 64 p] mult_div_mod_eq [of 64 "p div 64"] unfolding a' b_def c_def by (linarith | simp)+
    have a: "a < 16" using 3 p by linarith
    have enc: "utf8Encode p = [224 + a, 128 + b, 128 + c]" using 3 by (simp add: utf8Encode_def a_def b_def c_def)
    have low: "a = 0 \<Longrightarrow> 32 \<le> b" using 3 p by linarith
    have high: "a = 13 \<Longrightarrow> b < 32" using assms p by (auto simp: scalarPoint_def)
    show ?thesis using a low high p(2,3) unfolding enc
      by (cases "a = 0"; cases "a = 13") (simp_all add: leadByte_def p(1) numeral_2_eq_2)
  next
    case 4
    define a b c d where "a = p div 262144" and "b = p div 4096 mod 64" and "c = p div 64 mod 64" and "d = p mod 64"
    have b': "p div 4096 = p div 64 div 64" by (simp add: div_mult2_eq [symmetric])
    have a': "a = p div 64 div 64 div 64" by (simp add: a_def div_mult2_eq [symmetric])
    have p: "p = 262144 * a + 4096 * b + 64 * c + d" "b < 64" "c < 64" "d < 64"
      using mult_div_mod_eq [of 64 p] mult_div_mod_eq [of 64 "p div 64"] mult_div_mod_eq [of 64 "p div 64 div 64"]
      unfolding a' b_def b' c_def d_def by (linarith | simp)+
    have a: "a \<le> 4" using assms p by (auto simp: scalarPoint_def)
    have enc: "utf8Encode p = [240 + a, 128 + b, 128 + c, 128 + d]" using 4 by (simp add: utf8Encode_def a_def b_def c_def d_def)
    have low: "a = 0 \<Longrightarrow> 16 \<le> b" using 4 p by linarith
    have high: "a = 4 \<Longrightarrow> b < 16" using assms p by (auto simp: scalarPoint_def)
    show ?thesis using a low high p(2,3,4) unfolding enc
      by (cases "a = 0"; cases "a = 4") (simp_all add: leadByte_def p(1) numeral_3_eq_3)
  qed
qed


lemma utf8Decode_encodes: "list_all scalarPoint s \<Longrightarrow> utf8Decode (concat (map utf8Encode s)) = s"
  by (induction s) (simp_all add: utf8Decode_encode)

lemma unescaped_small: "unescapedPoint c \<Longrightarrow> c < 128 \<and> c \<noteq> 37"
  by (auto simp: unescapedPoint_def)

lemma percentBytes_encoded:
  "list_all scalarPoint s \<Longrightarrow> percentBytes (encodePoints s) = concat (map utf8Encode s)"
proof (induction s)
  case (Cons c s)
  have step: "encodePoints (c # s) = (if unescapedPoint c then [c]
      else concat (map (\<lambda>b. [37, upperHex (b div 16), upperHex (b mod 16)]) (utf8Encode c))) @ encodePoints s"
    by (simp add: encodePoints_def)
  show ?case
  proof (cases "unescapedPoint c")
    case True
    then have "utf8Encode c = [c]" using unescaped_small by (simp add: utf8Encode_def)
    then show ?thesis using Cons True unescaped_small [OF True] unfolding step by (simp add: percentBytes_plain)
  next
    case False
    then show ?thesis
      using Cons percentBytes_escapes [OF utf8Encode_bytes [of c], of "encodePoints s"] unfolding step by simp
  qed
qed (simp add: encodePoints_def)

lemma set_trimPoints: "set (trimPoints s) \<subseteq> set s"
  unfolding trimPoints_def by (metis set_dropWhileD set_rev subsetI)

lemma sanitized_points:
  "c \<in> set (sanitizeDownloadFileName name) \<Longrightarrow> c \<in> set name \<and> c \<notin> {92, 47, 0, 13, 10} \<or> c = 95 \<or> c \<in> set (pointsOf ''document'')"
  using set_trimPoints [of "map (\<lambda>c. if c \<in> {92, 47, 0, 13, 10} then 95 else c) name"]
  by (auto simp: sanitizeDownloadFileName_def Let_def split: if_splits)

lemma document_points: "set (pointsOf ''document'') \<subseteq> {97..122}"
  by code_simp

lemma concat_member: "c \<in> set (concat (map f bs)) \<Longrightarrow> \<exists>b\<in>set bs. c \<in> set (f b)"
  by (induction bs) auto

lemma encoded_points: "list_all scalarPoint s \<Longrightarrow> c \<in> set (encodePoints s) \<Longrightarrow> unescapedPoint c \<or> c = 37"
proof -
  have hex: "d < 16 \<Longrightarrow> unescapedPoint (upperHex d)" for d by (simp add: upperHex_def unescapedPoint_def)
  assume "list_all scalarPoint s" "c \<in> set (encodePoints s)"
  then obtain p where p: "scalarPoint p" "c \<in> set (if unescapedPoint p then [p]
      else concat (map (\<lambda>b. [37, upperHex (b div 16), upperHex (b mod 16)]) (utf8Encode p)))"
    unfolding encodePoints_def set_concat set_map list_all_iff by blast
  show ?thesis
  proof (cases "unescapedPoint p")
    case False
    with p(2) have "c \<in> set (concat (map (\<lambda>b. [37, upperHex (b div 16), upperHex (b mod 16)]) (utf8Encode p)))" by (simp only: if_False)
    from concat_member [OF this] obtain b where b: "b \<in> set (utf8Encode p)"
      "c = 37 \<or> c = upperHex (b div 16) \<or> c = upperHex (b mod 16)"
      by auto
    then have "b < 256" using utf8Encode_bytes [OF p(1)] by (simp add: list_all_iff)
    then show ?thesis using b(2) hex [of "b div 16"] hex [of "b mod 16"] by auto
  qed (use p(2) in simp)
qed

text \<open>
  The header that names a download is one well-formed line for every file name: the quoted name has no quote, backslash,
  slash or control that would end it, the encoded name is plain text, and decoding it gives the name back.
\<close>

theorem download_header_faithful:
  assumes "list_all scalarPoint name"
  shows "\<exists>n e. contentDisposition name = pointsOf ''attachment; filename='' @ [34] @ n @ [34] @ pointsOf ''; filename*=UTF-8'' @ [39, 39] @ e \<and>
    n \<noteq> [] \<and> set n \<inter> {0, 10, 13, 34, 47, 92} = {} \<and> (\<forall>c\<in>set e. unescapedPoint c \<or> c = 37) \<and>
    utf8Decode (percentBytes e) = sanitizeDownloadFileName name"
proof -
  let ?f = "sanitizeDownloadFileName name"
  have scalar: "list_all scalarPoint ?f"
    unfolding list_all_iff
  proof
    fix c assume "c \<in> set ?f"
    from sanitized_points [OF this] consider "c \<in> set name" | "c = 95" | "c \<in> {97..122}" using document_points by blast
    then show "scalarPoint c" using assms by cases (auto simp: list_all_iff scalarPoint_def)
  qed
  have "?f \<noteq> []" by (simp add: sanitizeDownloadFileName_def Let_def pointsOf_def)
  moreover have "set (map (\<lambda>c. if c = 34 then 95 else c) ?f) \<inter> {0, 10, 13, 34, 47, 92} = {}"
    using document_points by (auto dest!: sanitized_points)
  ultimately show ?thesis
    using encoded_points [OF scalar] utf8Decode_encodes [OF scalar] percentBytes_encoded [OF scalar]
    by (intro exI [of _ "map (\<lambda>c. if c = 34 then 95 else c) ?f"] exI [of _ "encodePoints ?f"])
      (simp add: contentDisposition_def Let_def)
qed

theorem download_header_faithful_witness:
  "\<exists>n e. contentDisposition [1593, 34, 1602, 46, 112] = pointsOf ''attachment; filename='' @ [34] @ n @ [34] @
     pointsOf ''; filename*=UTF-8'' @ [39, 39] @ e \<and> 34 \<notin> set n \<and> utf8Decode (percentBytes e) = [1593, 34, 1602, 46, 112]"
proof -
  have "list_all scalarPoint [1593, 34, 1602, 46, 112]" "sanitizeDownloadFileName [1593, 34, 1602, 46, 112] = [1593, 34, 1602, 46, 112]"
    by (simp_all add: scalarPoint_def sanitizeDownloadFileName_def trimPoints_def pointWhitespace_def)
  from download_header_faithful [OF this(1)] this(2) show ?thesis by fastforce
qed


section \<open>Samples\<close>

definition sampleUpload :: upload_platform where
  "sampleUpload = \<lparr>up_inflate = (\<lambda>_. None), up_lower = map foldPoint\<rparr>"

definition samplePdf :: upload_candidate where
  "samplePdf = \<lparr>uc_fileName = [65, 46, 80, 68, 70], uc_mimeType = ''application/pdf'', uc_sizeBytes = 6,
     uc_bytes = [37, 80, 68, 70, 45, 49]\<rparr>"

lemma samplePdf_accepted: "assertUploadAllowed sampleUpload samplePdf (getUploadPolicy (\<lambda>_. None)) = Inr ()"
proof -
  have "parseIntText ''5'' = Some 5" by code_simp
  moreover have "finiteNumber 5" by (simp add: finiteNumber_def)
  moreover have "pointsOf ''pdf'' = [112, 100, 102]" by (simp add: pointsOf_def codeUnit_def)
  ultimately show ?thesis
    by (simp add: assertUploadAllowed_def getUploadPolicy_def samplePdf_def sampleUpload_def DEFAULT_MAX_UPLOAD_MB_def
        DEFAULT_ALLOWED_UPLOAD_TYPES_def allowedExtension_def getExtension_def trimPoints_def pointWhitespace_def foldPoint_def
        ALLOWED_EXTENSIONS_BY_MIME_def hasExpectedMagicBytes_def Let_def)
qed

theorem accepted_upload_safe_witness:
  "length (uc_bytes samplePdf) \<le> 5 * 1024 * 1024 \<and> allowedExtension sampleUpload (uc_fileName samplePdf) (uc_mimeType samplePdf)"
  using accepted_upload_safe [OF samplePdf_accepted] by blast

end
