(* ===== verification/ServiceFacts.thy ===== *)
theory ServiceFacts
  imports Documents FormationDesk ReviewFacts UploadFacts
begin

text \<open>
  What holds of the requests for a service beside their documents and the interviews: the status follows a machine,
  work is done only under an accepted quote with its invoice, a revision is used once, the client's page does
  not depend on what is kept from the client, and the facts of an interview stay those of its request.
\<close>

section \<open>The machine of the status\<close>

text \<open>The first argument tells the moves of the client from those of the office.\<close>

inductive statusMoves :: "bool \<Rightarrow> service_status \<Rightarrow> service_status \<Rightarrow> bool" where
  stays: "x \<notin> {SR_COMPLETED, SR_CANCELLED} \<Longrightarrow> statusMoves c x x"
| submits: "x \<in> {SR_DRAFT, SR_NEEDS_INFORMATION} \<Longrightarrow> statusMoves True x SR_RECEIVED"
| quotes: "x \<in> {SR_RECEIVED, SR_NEEDS_INFORMATION, SR_AWAITING_ACCEPTANCE} \<Longrightarrow> statusMoves c x SR_AWAITING_ACCEPTANCE"
| accepts: "statusMoves True SR_AWAITING_ACCEPTANCE SR_IN_PROGRESS"
| asks: "x \<in> {SR_RECEIVED, SR_AWAITING_ACCEPTANCE} \<Longrightarrow> statusMoves False x SR_NEEDS_INFORMATION"
| delivers: "statusMoves False SR_IN_PROGRESS SR_READY"
| returns: "statusMoves c SR_READY SR_IN_PROGRESS"
| completes: "statusMoves c SR_READY SR_COMPLETED"
| withdraws: "x \<in> {SR_DRAFT, SR_RECEIVED, SR_NEEDS_INFORMATION, SR_AWAITING_ACCEPTANCE} \<Longrightarrow> statusMoves True x SR_CANCELLED"
| drops: "x \<in> {SR_RECEIVED, SR_NEEDS_INFORMATION, SR_AWAITING_ACCEPTANCE, SR_IN_PROGRESS, SR_READY} \<Longrightarrow>
    statusMoves False x SR_CANCELLED"

inductive_cases movesFrom: "statusMoves c x y"

definition moves :: "service_status \<Rightarrow> service_status \<Rightarrow> bool" where
  "moves x y = (\<exists>c. statusMoves c x y)"

definition closedStatus :: "service_status \<Rightarrow> bool" where
  "closedStatus st = (st = SR_COMPLETED \<or> st = SR_CANCELLED)"

lemma closed_final: "statusMoves c x y \<Longrightarrow> \<not> closedStatus x"
  by (auto simp: closedStatus_def elim: movesFrom)

lemma changeStatus_moves:
  assumes "changeStatus w r st body s = Inr r1"
  shows "r1 = r\<lparr>sv_status := st\<rparr> \<and> statusMoves (wr_own w) (sv_status r) st \<and> (st = SR_READY \<longrightarrow> delivered (sv_id r) s) \<and>
    (st = SR_IN_PROGRESS \<longrightarrow> sv_status r = SR_READY) \<and> st \<noteq> SR_AWAITING_ACCEPTANCE"
proof (cases "wr_own w")
  case True
  then show ?thesis
    using assms by (auto simp: changeStatus_def ownTransition_def intro: statusMoves.intros)
next
  case False
  then show ?thesis
    using assms by (cases "sv_status r") (auto simp: changeStatus_def transitions_def intro: statusMoves.intros)
qed


section \<open>What an action makes of a request\<close>

text \<open>The columns no action changes, and the facts of a company to be founded.\<close>

definition sameRequest :: "service_request \<Rightarrow> service_request \<Rightarrow> bool" where
  "sameRequest r x =
    (sv_id x = sv_id r \<and> sv_reference x = sv_reference r \<and> sv_clientId x = sv_clientId r \<and> sv_kind x = sv_kind r \<and>
     sv_locale x = sv_locale r \<and> sv_sourceRequestId x = sv_sourceRequestId r \<and>
     sv_idempotencyKey x = sv_idempotencyKey r \<and> sv_questionnaireId x = sv_questionnaireId r \<and>
     (sv_kind r = COMPANY_FORMATION \<longrightarrow> in_formation (sv_intake x) = in_formation (sv_intake r)))"

lemma sameRequest_refl [simp]: "sameRequest r r" by (simp add: sameRequest_def)

lemma sameRequest_trans: "sameRequest a b \<Longrightarrow> sameRequest b c \<Longrightarrow> sameRequest a c" by (simp add: sameRequest_def)

text \<open>Work is done under the quote that was accepted, and its invoice carries the amount of that quote.\<close>

definition invoiceFor :: "invoice list \<Rightarrow> service_request \<Rightarrow> string \<Rightarrow> bool" where
  "invoiceFor vs r p = (\<exists>q v. sv_quote r = Some q \<and> fetch iv_id p vs = Some v \<and> iv_clientId v = sv_clientId r \<and>
     iv_amount v = quoteAmount (qt_amount q) \<and> iv_currency v = qt_currency q)"

definition priced :: "invoice list \<Rightarrow> service_request \<Rightarrow> bool" where
  "priced vs r =
    (case sv_paymentId r of
       None \<Rightarrow> sv_acceptedQuoteVersion r = None \<and> sv_status r \<notin> {SR_IN_PROGRESS, SR_READY, SR_COMPLETED}
     | Some p \<Rightarrow> sv_status r \<in> {SR_IN_PROGRESS, SR_READY, SR_COMPLETED, SR_CANCELLED} \<and>
         sv_acceptedQuoteVersion r = Some (sv_quoteVersion r) \<and> invoiceFor vs r p)"

lemma priced_grows: "priced vs r \<Longrightarrow> priced (vs @ ws) r"
  by (auto simp: priced_def invoiceFor_def fetch_append split: option.splits)

lemma priced_status:
  assumes "priced vs r" and "statusMoves c (sv_status r) st" and "st = SR_IN_PROGRESS \<longrightarrow> sv_status r = SR_READY"
    and "st \<noteq> SR_AWAITING_ACCEPTANCE"
  shows "priced vs (r\<lparr>sv_status := st\<rparr>)"
  using assms by (auto simp: priced_def invoiceFor_def elim!: movesFrom split: option.splits)

definition freshInvoices :: "service_db \<Rightarrow> service_db \<Rightarrow> bool" where
  "freshInvoices s x = (\<exists>vs. sd_invoices x = sd_invoices s @ vs)"

lemma deskOf_putDesk [simp]: "deskOf (putDesk d s) = d"
  by (simp add: deskOf_def putDesk_def)

lemma service_frame [simp]:
  "sd_requests (putDesk d s) = sd_requests s" "sd_events (putDesk d s) = sd_events s"
  "sd_questionnaires (putDesk d s) = sd_questionnaires s" "sd_documents (putDesk d s) = sd_documents s"
  "sd_interviews (putDesk d s) = sd_interviews s" "sd_reports (putDesk d s) = sd_reports s"
  "sd_invoices (putDesk d s) = sd_invoices s" "sd_files (putDesk d s) = sd_files s"
  "sd_requests (auditService e s) = sd_requests s" "sd_documents (auditService e s) = sd_documents s"
  "sd_questionnaires (auditService e s) = sd_questionnaires s" "sd_interviews (auditService e s) = sd_interviews s"
  "sd_reports (auditService e s) = sd_reports s" "sd_invoices (auditService e s) = sd_invoices s"
  "sd_files (auditService e s) = sd_files s" "sd_events (auditService e s) = sd_events s"
  by (simp_all add: putDesk_def auditService_def)

lemma document_frame [simp]:
  "sd_requests (auditDocument pf e s) = sd_requests s" "sd_documents (auditDocument pf e s) = sd_documents s"
  "sd_interviews (auditDocument pf e s) = sd_interviews s" "sd_invoices (auditDocument pf e s) = sd_invoices s"
  "sd_files (auditDocument pf e s) = sd_files s" "sd_questionnaires (auditDocument pf e s) = sd_questionnaires s"
  "sd_requests (deletePrivateFileBestEffort pf k s) = sd_requests s"
  "sd_documents (deletePrivateFileBestEffort pf k s) = sd_documents s"
  "sd_interviews (deletePrivateFileBestEffort pf k s) = sd_interviews s"
  "sd_invoices (deletePrivateFileBestEffort pf k s) = sd_invoices s"
  by (simp_all add: auditDocument_def deletePrivateFileBestEffort_def split: sum.splits)

lemma actionEffect_request:
  assumes act: "actionEffect now ids actor r a s = Inr (r1, t, b, s1)" and alive: "\<not> closedStatus (sv_status r)"
  shows "sd_requests s1 = sd_requests s \<and> sd_events s1 = sd_events s \<and> sd_documents s1 = sd_documents s \<and>
    sd_interviews s1 = sd_interviews s \<and> sd_files s1 = sd_files s \<and> sd_questionnaires s1 = sd_questionnaires s \<and>
    sameRequest r r1 \<and> sv_revision r1 = sv_revision r \<and>
    statusMoves (wr_own (rightsOn actor r)) (sv_status r) (sv_status r1)"
proof (cases a)
  case (Transition st body)
  with act have "changeStatus (rightsOn actor r) r st body s = Inr r1" "s1 = s" by (auto simp: actionEffect_def Let_def)
  from changeStatus_moves [OF this(1)] this(2) show ?thesis by (simp add: sameRequest_def)
next
  case (SubmitRequest)
  with act alive show ?thesis
    by (auto simp: actionEffect_def Let_def submitRequest_def editableRequest_def sameRequest_def closedStatus_def
        split: option.splits intro: statusMoves.intros)
next
  case (AcceptQuote v)
  with act alive show ?thesis
    by (auto simp: actionEffect_def Let_def acceptQuote_def sameRequest_def closedStatus_def
        split: option.splits intro: statusMoves.intros)
next
  case (OfferQuote q)
  with act alive show ?thesis
    by (auto simp: actionEffect_def Let_def offerQuote_def sameRequest_def intro: statusMoves.intros)
next
  case (Say body internal)
  with act alive show ?thesis
    by (auto simp: actionEffect_def Let_def sayMessage_def sameRequest_def closedStatus_def
        split: option.splits if_splits intro: statusMoves.intros)
next
  case (SaveIntake i)
  with act alive show ?thesis
    by (auto simp: actionEffect_def Let_def saveIntake_def sameRequest_def closedStatus_def split: if_splits
        intro: statusMoves.intros)
next
  case (AssignLawyer l)
  with act alive show ?thesis
    by (auto simp: actionEffect_def Let_def assignServiceLawyer_def sameRequest_def closedStatus_def intro: statusMoves.intros)
qed

lemma actionEffect_invoices:
  assumes act: "actionEffect now ids actor r a s = Inr (r1, t, b, s1)"
  shows "sd_invoices s1 = sd_invoices s \<and> sv_paymentId r1 = sv_paymentId r \<or>
    (\<exists>v. sd_invoices s1 = sd_invoices s @ [v] \<and> iv_id v \<notin> iv_id ` set (sd_invoices s) \<and> sv_paymentId r1 = Some (iv_id v))"
proof (cases a)
  case (Transition st body)
  with act have "changeStatus (rightsOn actor r) r st body s = Inr r1" "s1 = s" by (auto simp: actionEffect_def Let_def)
  from changeStatus_moves [OF this(1)] this(2) show ?thesis by auto
qed (use act in \<open>auto simp: actionEffect_def Let_def submitRequest_def acceptQuote_def offerQuote_def sayMessage_def saveIntake_def
      assignServiceLawyer_def split: option.splits if_splits\<close>)

lemma actionEffect_priced:
  assumes act: "actionEffect now ids actor r a s = Inr (r1, t, b, s1)" and priced: "priced (sd_invoices s) r"
  shows "priced (sd_invoices s1) r1"
proof (cases a)
  case (Transition st body)
  with act have "changeStatus (rightsOn actor r) r st body s = Inr r1" "s1 = s" by (auto simp: actionEffect_def Let_def)
  from changeStatus_moves [OF this(1)] this(2) priced_status [OF priced, of _ st] show ?thesis by auto
next
  case (AcceptQuote v)
  with act obtain q where q: "sv_quote r = Some q" and row: "sd_invoices s1 = sd_invoices s @ [quoteInvoice now ids r q]"
    and fresh: "iv_id (quoteInvoice now ids r q) \<notin> iv_id ` set (sd_invoices s)"
    and r1: "r1 = r\<lparr>sv_paymentId := Some (iv_id (quoteInvoice now ids r q)), sv_acceptedQuoteVersion := Some (sv_quoteVersion r),
      sv_status := SR_IN_PROGRESS\<rparr>"
    by (auto simp: actionEffect_def Let_def acceptQuote_def split: option.splits)
  have "fetch iv_id (iv_id (quoteInvoice now ids r q)) (sd_invoices s1) = Some (quoteInvoice now ids r q)"
    using fresh by (simp add: row fetch_append fetch_None_iff [THEN iffD2])
  with q row fresh show ?thesis by (auto simp: r1 priced_def invoiceFor_def quoteInvoice_def)
next
  case SubmitRequest
  with act priced show ?thesis
    by (auto simp: actionEffect_def Let_def submitRequest_def editableRequest_def priced_def split: option.splits)
next
  case (OfferQuote q)
  with act priced show ?thesis
    by (auto simp: actionEffect_def Let_def offerQuote_def priced_def split: option.splits)
next
  case (Say body internal)
  with act priced show ?thesis
    by (auto simp: actionEffect_def Let_def sayMessage_def split: option.splits if_splits)
next
  case (SaveIntake i)
  with act have "s1 = s" "r1 = r\<lparr>sv_intake := i\<rparr>" by (auto simp: actionEffect_def Let_def saveIntake_def split: if_splits)
  with priced show ?thesis by (simp add: priced_def invoiceFor_def split: option.splits)
next
  case (AssignLawyer l)
  with act have "s1 = s" "r1 = r\<lparr>sv_assignedLawyerId := Some l\<rparr>"
    by (auto simp: actionEffect_def Let_def assignServiceLawyer_def)
  with priced show ?thesis by (simp add: priced_def invoiceFor_def split: option.splits)
qed

lemma priced_stamp [simp]: "priced vs (r\<lparr>sv_revision := n, sv_updatedAt := t\<rparr>) = priced vs r"
  by (simp add: priced_def invoiceFor_def split: option.split)

lemma actOnServiceRequest_success:
  assumes "actOnServiceRequest pf now ids actor i raw s = Inr (n, s')"
  obtains a r r1 t b s1 e ev where "serviceActionSchema pf raw = Inr (sv_revision r, a)" and "r \<in> set (sd_requests s)" and "sv_id r = i"
    and "\<not> closedStatus (sv_status r)" and "n = sv_revision r + 1" and "actionEffect now ids actor r a s = Inr (r1, t, b, s1)"
    and "s' = auditService e (s1\<lparr>sd_requests := modify sv_id i (\<lambda>_. r1\<lparr>sv_revision := sv_revision r + 1, sv_updatedAt := now\<rparr>)
          (sd_requests s1), sd_events := sd_events s1 @ [ev]\<rparr>)"
proof -
  from assms obtain revision a scope where body: "serviceActionSchema pf raw = Inr (revision, a)" and scope: "serviceRequestWhere actor s = Inr scope"
    by (auto simp: actOnServiceRequest_def parseWithSchema_eq)
  with assms obtain r where r: "find (\<lambda>r. sv_id r = i \<and> scope r) (sd_requests s) = Some r"
    by (auto simp: actOnServiceRequest_def parseWithSchema_eq split: option.splits)
  with assms body scope obtain r1 t b s1 where "sv_revision r = revision" "\<not> closedStatus (sv_status r)" "n = sv_revision r + 1"
    and effect: "actionEffect now ids actor r a s = Inr (r1, t, b, s1)"
    by (auto simp: actOnServiceRequest_def parseWithSchema_eq closedStatus_def Let_def)
  with find_some_in [OF r] body assms scope r show thesis
    by (intro that [of r a r1 t b s1])
      (auto simp: actOnServiceRequest_def parseWithSchema_eq Let_def)
qed


section \<open>Requests of the house of services\<close>

datatype service_call =
    Creates int service_ids principal create_service
  | Acts int service_ids principal string "int \<times> service_action"
  | Publishes int string principal "(string \<times> string \<times> string) list \<times> bool"
  | Uploads int string string principal upload_fields upload_candidate
  | UpdatesDocument principal string document_update
  | DeletesDocument int principal string "string option \<times> bool"
  | Downloads principal string
  | Interviews int service_ids string string "principal option" formation_action

text \<open>What came back is not looked at.\<close>

definition hushed :: "'a api \<times> 's \<Rightarrow> unit api \<times> 's" where
  "hushed x = (case x of (Inl e, s) \<Rightarrow> (Inl e, s) | (Inr _, s) \<Rightarrow> (Inr (), s))"

definition serviceServe ::
  "service_platform \<Rightarrow> document_platform \<Rightarrow> formation_platform \<Rightarrow> service_call \<Rightarrow> service_db \<Rightarrow> unit api \<times> service_db" where
  "serviceServe yp dp fp q s =
    (case q of
       Creates now ids actor raw \<Rightarrow> ran (createServiceRequest yp now ids actor raw s) s
     | Acts now ids actor i raw \<Rightarrow> ran (actOnServiceRequest yp now ids actor i raw s) s
     | Publishes now newId actor raw \<Rightarrow> ran (publishQuestionnaire yp now newId actor raw s) s
     | Uploads now uuid newId actor raw file \<Rightarrow> hushed (uploadDocument dp now uuid newId actor raw file s)
     | UpdatesDocument actor i raw \<Rightarrow> ran (updateAdminDocument dp actor i raw s) s
     | DeletesDocument now actor i raw \<Rightarrow> ran (deleteAdminDocument dp now actor i raw s) s
     | Downloads actor i \<Rightarrow> ran (getAuthorizedDocumentDownload dp actor i s) s
     | Interviews now ids newId token actor input \<Rightarrow> hushed (actOnFormation fp now ids newId token actor input s))"

lemma hushed_simps [simp]: "snd (hushed x) = snd x" "fst (hushed x) = Inl e \<longleftrightarrow> fst x = Inl e"
  by (auto simp: hushed_def split: prod.splits sum.splits)

lemma ran_simps [simp]: "snd (ran (Inl e) s) = s" "snd (ran (Inr (x, s')) s) = s'"
  by (simp_all add: ran_def)


section \<open>The rows of a run\<close>

text \<open>What a request becomes: the same request, further along its machine, with a higher revision if anything changed.\<close>

definition evolved :: "service_request \<Rightarrow> service_request \<Rightarrow> bool" where
  "evolved r x = (sameRequest r x \<and> moves\<^sup>*\<^sup>* (sv_status r) (sv_status x) \<and> (sv_revision r < sv_revision x \<or> x = r) \<and>
     (closedStatus (sv_status r) \<longrightarrow> x = r))"

lemma evolved_refl [simp]: "evolved r r" by (simp add: evolved_def)

lemma evolved_trans: "evolved a b \<Longrightarrow> evolved b c \<Longrightarrow> evolved a c"
  unfolding evolved_def by (auto intro: sameRequest_trans)

text \<open>One call: every request is kept or has evolved, and the requests that are new wait for their first step.\<close>

definition newRequest :: "service_db \<Rightarrow> service_request \<Rightarrow> bool" where
  "newRequest s r = (sv_id r \<notin> sv_id ` set (sd_requests s) \<and> sv_paymentId r = None \<and> sv_acceptedQuoteVersion r = None \<and>
     sv_status r \<in> {SR_DRAFT, SR_RECEIVED} \<and>
     (sv_clientId r, sv_idempotencyKey r) \<notin> (\<lambda>x. (sv_clientId x, sv_idempotencyKey x)) ` set (sd_requests s))"

datatype change = Same | Added service_request | Changed service_request service_request

definition changed :: "service_db \<Rightarrow> change \<Rightarrow> service_db \<Rightarrow> bool" where
  "changed s c s' =
    (case c of
       Same \<Rightarrow> sd_requests s' = sd_requests s \<and> sd_invoices s' = sd_invoices s
     | Added r \<Rightarrow> newRequest s r \<and> sd_requests s' = sd_requests s @ [r] \<and> sd_invoices s' = sd_invoices s
     | Changed r x \<Rightarrow> r \<in> set (sd_requests s) \<and> sd_requests s' = modify sv_id (sv_id r) (\<lambda>_. x) (sd_requests s) \<and>
         sameRequest r x \<and> moves (sv_status r) (sv_status x) \<and> sv_revision r < sv_revision x \<and>
         (priced (sd_invoices s) r \<longrightarrow> priced (sd_invoices s') x) \<and>
         (sd_invoices s' = sd_invoices s \<and> sv_paymentId x = sv_paymentId r \<or>
          (\<exists>v. sd_invoices s' = sd_invoices s @ [v] \<and> iv_id v \<notin> iv_id ` set (sd_invoices s) \<and> sv_paymentId x = Some (iv_id v))))"

lemma serviceByKey_None:
  "serviceByKey c k s = None \<longleftrightarrow> (c, k) \<notin> (\<lambda>r. (sv_clientId r, sv_idempotencyKey r)) ` set (sd_requests s)"
  unfolding serviceByKey_def by (auto simp: find_None_iff)

lemma createServiceRequest_changed:
  assumes "createServiceRequest yp now ids actor raw s = Inr (r, s')"
  shows "changed s Same s' \<or> changed s (Added r) s' \<and> sv_kind r \<noteq> COMPANY_FORMATION"
proof -
  let ?c = "case pr_clientId actor of None \<Rightarrow> [] | Some i \<Rightarrow> i"
  from assms obtain body where body: "createServiceRequestSchema yp raw = Inr body" and kind: "cv_kind body \<noteq> COMPANY_FORMATION"
    by (auto simp: createServiceRequest_def parseWithSchema_eq)
  show ?thesis
  proof (cases "serviceByKey ?c (cv_idempotencyKey body) s")
    case None
    with assms body obtain q e where row: "r = draftRow now ids ?c body q" and fresh: "sv_id r \<notin> sv_id ` set (sd_requests s)"
      and s': "s' = auditService e (s\<lparr>sd_requests := sd_requests s @ [r]\<rparr>)"
      by (auto simp: createServiceRequest_def parseWithSchema_eq Let_def)
    have "newRequest s r"
      using None fresh unfolding serviceByKey_None newRequest_def by (simp add: row draftRow_def)
    then show ?thesis using kind by (simp add: changed_def s' row draftRow_def)
  next
    case (Some x)
    with assms body show ?thesis
      by (auto simp: createServiceRequest_def parseWithSchema_eq Let_def changed_def split: if_splits)
  qed
qed

lemma actOnServiceRequest_changed:
  assumes "actOnServiceRequest yp now ids actor i raw s = Inr (n, s')"
  obtains r x where "changed s (Changed r x) s'" and "sv_id r = i" and "n = sv_revision x" and "fst raw = sv_revision r"
    and "sv_revision x = sv_revision r + 1"
  using assms
proof (rule actOnServiceRequest_success)
  fix a r r1 t b s1 e ev
  assume body: "serviceActionSchema yp raw = Inr (sv_revision r, a)" and r: "r \<in> set (sd_requests s)" "sv_id r = i"
    and alive: "\<not> closedStatus (sv_status r)" and n: "n = sv_revision r + 1"
    and effect: "actionEffect now ids actor r a s = Inr (r1, t, b, s1)"
    and s': "s' = auditService e (s1\<lparr>sd_requests := modify sv_id i (\<lambda>_. r1\<lparr>sv_revision := sv_revision r + 1, sv_updatedAt := now\<rparr>)
          (sd_requests s1), sd_events := sd_events s1 @ [ev]\<rparr>)"
  let ?x = "r1\<lparr>sv_revision := sv_revision r + 1, sv_updatedAt := now\<rparr>"
  note same = actionEffect_request [OF effect alive]
  have "changed s (Changed r ?x) s'"
    using same actionEffect_priced [OF effect] actionEffect_invoices [OF effect] r s'
    by (auto simp: changed_def sameRequest_def moves_def)
  moreover have "fst raw = sv_revision r"
    using body by (cases raw) (auto simp: serviceActionSchema_def Let_def split: if_splits)
  ultimately show thesis using that n r by auto
qed


lemma modify_at:
  "distinct (map key rows) \<Longrightarrow> r \<in> set rows \<Longrightarrow> modify key (key r) f rows = modify key (key r) (\<lambda>_. f r) rows"
  by (induction rows) (auto simp: modify_absent fetch_None_iff)

lemma uploadTransaction_changed:
  assumes ids: "distinct (map sv_id (sd_requests s))"
    and run: "uploadTransaction now newId actor f owner file k s = Inr (d, s')"
  shows "\<exists>c. changed s c s'"
proof (cases "uf_serviceRequestId f")
  case None
  then have "changed s Same s'" using run by (auto simp: uploadTransaction_def claimDelivery_def changed_def Let_def)
  then show ?thesis ..
next
  case (Some i)
  from run Some obtain r where r: "fetch sv_id i (sd_requests s) = Some r" and alive: "\<not> closedRequest r"
    and rows: "sd_requests s' = modify sv_id i (\<lambda>r. r\<lparr>sv_revision := sv_revision r + 1, sv_updatedAt := now\<rparr>) (sd_requests s)"
    and rest: "sd_invoices s' = sd_invoices s"
    by (auto simp: uploadTransaction_def claimDelivery_def Let_def split: option.splits)
  let ?x = "r\<lparr>sv_revision := sv_revision r + 1, sv_updatedAt := now\<rparr>"
  have in_set: "r \<in> set (sd_requests s)" and i: "i = sv_id r" using fetch_SomeD [OF r] by simp_all
  have "sd_requests s' = modify sv_id (sv_id r) (\<lambda>_. ?x) (sd_requests s)"
    using modify_at [OF ids in_set] rows unfolding i by simp
  moreover have "moves (sv_status r) (sv_status ?x)"
    using alive by (auto simp: closedRequest_def moves_def intro: statusMoves.stays)
  ultimately have "changed s (Changed r ?x) s'"
    using in_set rest by (simp add: changed_def sameRequest_def)
  then show ?thesis ..
qed

lemma changed_cong:
  "changed s c s' \<Longrightarrow> sd_requests t = sd_requests s \<Longrightarrow> sd_invoices t = sd_invoices s \<Longrightarrow>
    sd_requests t' = sd_requests s' \<Longrightarrow> sd_invoices t' = sd_invoices s' \<Longrightarrow> changed t c t'"
  by (cases c) (simp_all add: changed_def newRequest_def)

lemma uploadDocument_changed:
  assumes ids: "distinct (map sv_id (sd_requests s))"
  shows "\<exists>c. changed s c (snd (uploadDocument pf now uuid newId actor raw file s))"
proof -
  have same: ?thesis if "sd_requests (snd (uploadDocument pf now uuid newId actor raw file s)) = sd_requests s"
    "sd_invoices (snd (uploadDocument pf now uuid newId actor raw file s)) = sd_invoices s"
    using that by (intro exI [of _ Same]) (simp add: changed_def)
  show ?thesis
  proof (cases "uploadChecks pf actor raw file s")
    case (Inl e)
    then show ?thesis by (intro same) (simp_all add: uploadDocument_def)
  next
    case (Inr fo)
    obtain f owner where fo: "fo = (f, owner)" by fastforce
    let ?k = "generateDocumentFileKey (du_upload pf) uuid (uc_fileName file) (uc_mimeType file) now"
    show ?thesis
    proof (cases "savePrivateFile pf ?k (uc_bytes file) s")
      case (Inl e)
      then show ?thesis using Inr fo by (intro same) (simp_all add: uploadDocument_def Let_def)
    next
      case saved: (Inr s1)
      then have s1: "sd_requests s1 = sd_requests s" "sd_invoices s1 = sd_invoices s" by (auto simp: savePrivateFile_def)
      show ?thesis
      proof (cases "uploadTransaction now newId actor f owner file ?k s1")
        case (Inl e)
        then show ?thesis using Inr fo saved s1 by (intro same) (simp_all add: uploadDocument_def Let_def)
      next
        case entered: (Inr ds)
        obtain d s2 where ds: "ds = (d, s2)" by fastforce
        from uploadTransaction_changed [of s1, OF _ entered [unfolded ds]] ids s1 obtain c where "changed s1 c s2" by auto
        then have "changed s c (snd (uploadDocument pf now uuid newId actor raw file s))"
          by (rule changed_cong) (use s1 Inr fo saved entered ds in \<open>simp_all add: uploadDocument_def Let_def\<close>)
        then show ?thesis ..
      qed
    qed
  qed
qed


section \<open>What an interview changes\<close>

lemma ownSession_frame:
  assumes "ownSession pf now token actor s = (r, s1)"
  shows "\<exists>d. s1 = putDesk d s"
  using assms by (auto simp: ownSession_def split: prod.splits)

text \<open>The ways an interview goes on.\<close>

datatype interview_change = Untouched | Started formation_interview | Saved formation_interview formation_draft
  | Reported formation_report | Submitted formation_interview service_request

definition interviewed :: "(points \<Rightarrow> points) \<Rightarrow> service_db \<Rightarrow> interview_change \<Rightarrow> service_db \<Rightarrow> bool" where
  "interviewed lower s c s' =
    (case c of
       Untouched \<Rightarrow> sd_requests s' = sd_requests s \<and> sd_interviews s' = sd_interviews s \<and> sd_reports s' = sd_reports s
     | Started row \<Rightarrow> sd_requests s' = sd_requests s \<and> sd_reports s' = sd_reports s \<and> sd_interviews s' = sd_interviews s @ [row] \<and>
         fi_id row \<notin> fi_id ` set (sd_interviews s) \<and> fi_sessionId row \<notin> fi_sessionId ` set (sd_interviews s) \<and>
         fi_serviceRequestId row = None
     | Saved row d \<Rightarrow> sd_requests s' = sd_requests s \<and> sd_reports s' = sd_reports s \<and> row \<in> set (sd_interviews s) \<and>
         fi_serviceRequestId row = None \<and> sd_interviews s' = modify fi_id (fi_id row)
           (\<lambda>x. x\<lparr>fi_draft := d, fi_revision := fi_revision x + 1\<rparr>) (sd_interviews s)
     | Reported p \<Rightarrow> sd_requests s' = sd_requests s \<and> sd_interviews s' = sd_interviews s \<and> sd_reports s' = sd_reports s @ [p] \<and>
         (\<exists>row\<in>set (sd_interviews s). fp_interviewId p = fi_id row \<and> fp_version p = fi_revision row \<and> fp_draft p = fi_draft row) \<and>
         fp_review p = formationReview lower (fp_draft p)
     | Submitted row r \<Rightarrow> newRequest s r \<and> sd_requests s' = sd_requests s @ [r] \<and> sd_reports s' = sd_reports s \<and>
         row \<in> set (sd_interviews s) \<and> fi_serviceRequestId row = None \<and>
         sd_interviews s' = modify fi_id (fi_id row) (\<lambda>x. x\<lparr>fi_serviceRequestId := Some (sv_id r)\<rparr>) (sd_interviews s) \<and>
         sv_kind r = COMPANY_FORMATION \<and> in_formation (sv_intake r) = Some (fi_draft row) \<and>
         sv_idempotencyKey r = fi_id row \<and> reportOf (fi_id row) (fi_revision row) s \<noteq> None)"

lemma interviewOf_SomeD: "interviewOf a s = Some row \<Longrightarrow> row \<in> set (sd_interviews s) \<and> fi_sessionId row = a"
  unfolding interviewOf_def by (rule fetch_SomeD)

lemma submitFormation_interviewed:
  assumes "submitFormation pf now ids actor c a row s = Inr (x, s')" and "row \<in> set (sd_interviews s)"
    and "fi_serviceRequestId row = None"
  shows "interviewed lower s (Submitted row (formationRequest pf now ids c row)) s' \<and> sd_invoices s' = sd_invoices s"
  using assms
  by (auto simp: submitFormation_def Let_def interviewed_def newRequest_def formationRequest_def)

lemma formationTransaction_interviewed:
  assumes run: "formationTransaction pf now ids actor asked input a s = Inr (x, s')"
    and no_start: "\<And>l c. input \<noteq> FStart l c"
  shows "(\<exists>c. interviewed (ff_lower pf) s c s') \<and> sd_invoices s' = sd_invoices s"
proof -
  from run obtain row where row: "interviewOf a s = Some row"
    by (auto simp: formationTransaction_def split: option.splits)
  note in_set = interviewOf_SomeD [OF row]
  show ?thesis
  proof (cases "fi_serviceRequestId row")
    case (Some i)
    with run row have "s' = s" by (auto simp: formationTransaction_def split: option.splits if_splits)
    then show ?thesis by (auto simp: interviewed_def intro: exI [of _ Untouched])
  next
    case None
    show ?thesis
    proof (cases input)
      case (FStart l c)
      with no_start show ?thesis by blast
    next
      case (FSave n d)
      with run row None have "interviewed (ff_lower pf) s (Saved row d) s' \<and> sd_invoices s' = sd_invoices s"
        using in_set by (auto simp: formationTransaction_def interviewed_def split: option.splits)
      then show ?thesis by blast
    next
      case (FReport n)
      with run row None have s': "s' = keepReport pf asked row s"
        by (auto simp: formationTransaction_def split: option.splits)
      show ?thesis
      proof (cases "reportOf (fi_id row) (fi_revision row) s")
        case (Some p)
        then show ?thesis by (auto simp: s' keepReport_def interviewed_def intro: exI [of _ Untouched])
      next
        case none: None
        have "interviewed (ff_lower pf) s (Reported \<lparr>fp_interviewId = fi_id row, fp_version = fi_revision row, fp_draft = fi_draft row,
            fp_review = formationReview (ff_lower pf) (fi_draft row), fp_assessment = asked, fp_locale = fi_locale row,
            fp_consentAt = fi_consentAt row\<rparr>) s'"
          using in_set none by (auto simp: s' keepReport_def interviewed_def)
        then show ?thesis using none by (auto simp: s' keepReport_def)
      qed
    next
      case (FSubmit n b)
      with run row None obtain p c where "submitFormation pf now ids p c a row s = Inr (x, s')"
        by (auto simp: formationTransaction_def split: option.splits)
      from submitFormation_interviewed [OF this, of "ff_lower pf"] in_set None show ?thesis by blast
    qed
  qed
qed

lemma actOnFormation_interviewed:
  "(\<exists>c. interviewed (ff_lower pf) s c (snd (actOnFormation pf now ids newId token actor input s))) \<and>
   sd_invoices (snd (actOnFormation pf now ids newId token actor input s)) = sd_invoices s"
proof -
  obtain r s1 where own: "ownSession pf now token actor s = (r, s1)" by fastforce
  from ownSession_frame [OF this] obtain d where s1: "s1 = putDesk d s" ..
  have frame: "interviewed lower s1 c x \<longleftrightarrow> interviewed lower s c x" for lower c x
    by (cases c) (simp_all add: interviewed_def s1 newRequest_def reportOf_def)
  have untouched: "interviewed lower s Untouched s1" for lower by (simp add: interviewed_def s1)
  show ?thesis
  proof (cases r)
    case (Inl e)
    then show ?thesis using own untouched by (auto simp: actOnFormation_def s1)
  next
    case (Inr a)
    show ?thesis
    proof (cases "\<exists>l c. input = FStart l c")
      case True
      then obtain l c where input: "input = FStart l c" by blast
      show ?thesis
      proof (cases "startFormation now newId (as_id a) l s1")
        case (Inl e)
        then show ?thesis using own Inr input untouched by (auto simp: actOnFormation_def s1)
      next
        case started: (Inr z)
        obtain row s2 where z: "z = (row, s2)" by fastforce
        have "s2 = s1 \<or> interviewed (ff_lower pf) s1 (Started row) s2 \<and> sd_invoices s2 = sd_invoices s1"
          using started unfolding z
          by (auto simp: startFormation_def Let_def interviewed_def interviewOf_def fetch_None_iff split: option.splits)
        then show ?thesis using own Inr input started z untouched frame by (auto simp: actOnFormation_def s1)
      qed
    next
      case False
      then have no_start: "\<And>l c. input \<noteq> FStart l c" by blast
      have "snd (actOnFormation pf now ids newId token actor input s) = s1 \<or>
        (\<exists>asked x. formationTransaction pf now ids actor asked input (as_id a) s1 =
          Inr (x, snd (actOnFormation pf now ids newId token actor input s)))"
        using no_start own Inr
        by (cases input) (auto simp: actOnFormation_def Let_def andThen_def split: sum.splits option.splits)
      then show ?thesis
        using formationTransaction_interviewed [OF _ no_start] frame untouched by (auto simp: s1) (metis s1)+
    qed
  qed
qed

lemma interviewed_changed:
  "interviewed lower s c s' \<Longrightarrow> sd_invoices s' = sd_invoices s \<Longrightarrow> \<exists>c. changed s c s'"
  by (cases c) (auto simp: interviewed_def changed_def intro: exI [of _ Same] exI [of _ "Added _"])



section \<open>One call\<close>

lemma serviceServe_changed:
  assumes ids: "distinct (map sv_id (sd_requests s))"
  shows "\<exists>c. changed s c (snd (serviceServe yp dp fp q s))"
proof -
  have same: "\<exists>c. changed s c s'" if "sd_requests s' = sd_requests s" "sd_invoices s' = sd_invoices s" for s'
    using that by (intro exI [of _ Same]) (simp add: changed_def)
  show ?thesis
  proof (cases q)
    case (Creates now ids actor raw)
    show ?thesis
    proof (cases "createServiceRequest yp now ids actor raw s")
      case (Inr x)
      obtain r s1 where x: "x = (r, s1)" by fastforce
      from createServiceRequest_changed [OF Inr [unfolded x]] show ?thesis using Creates Inr x
        by (auto simp: serviceServe_def)
    qed (use Creates same in \<open>simp add: serviceServe_def\<close>)
  next
    case (Acts now ids actor i raw)
    show ?thesis
    proof (cases "actOnServiceRequest yp now ids actor i raw s")
      case (Inr x)
      obtain n s1 where x: "x = (n, s1)" by fastforce
      from Inr [unfolded x] show ?thesis
        by (rule actOnServiceRequest_changed) (use Acts Inr x in \<open>auto simp: serviceServe_def\<close>)
    qed (use Acts same in \<open>simp add: serviceServe_def\<close>)
  next
    case (Publishes now newId actor raw)
    then show ?thesis
      by (intro same) (auto simp: serviceServe_def ran_def publishQuestionnaire_def Let_def split: sum.splits)
  next
    case (Uploads now uuid newId actor raw item)
    then show ?thesis using uploadDocument_changed [OF ids] by (simp add: serviceServe_def)
  next
    case (UpdatesDocument actor i raw)
    then show ?thesis
      by (intro same) (auto simp: serviceServe_def ran_def updateAdminDocument_def Let_def split: sum.splits)
  next
    case (DeletesDocument now actor i raw)
    then show ?thesis
      by (intro same) (auto simp: serviceServe_def ran_def deleteAdminDocument_def Let_def split: sum.splits)
  next
    case (Downloads actor i)
    then show ?thesis
      by (intro same) (auto simp: serviceServe_def ran_def getAuthorizedDocumentDownload_def split: sum.splits)
  next
    case (Interviews now ids newId token actor input)
    obtain c where "interviewed (ff_lower fp) s c (snd (actOnFormation fp now ids newId token actor input s))"
      "sd_invoices (snd (actOnFormation fp now ids newId token actor input s)) = sd_invoices s"
      using actOnFormation_interviewed by blast
    from interviewed_changed [OF this] show ?thesis using Interviews by (simp add: serviceServe_def)
  qed
qed


section \<open>The invariant\<close>

definition serviceOk :: "service_db \<Rightarrow> bool" where
  "serviceOk s = (distinct (map sv_id (sd_requests s)) \<and>
     distinct (map (\<lambda>r. (sv_clientId r, sv_idempotencyKey r)) (sd_requests s)) \<and>
     (\<forall>r\<in>set (sd_requests s). priced (sd_invoices s) r) \<and>
     (\<forall>r\<in>set (sd_requests s). \<forall>x\<in>set (sd_requests s). \<forall>p. sv_paymentId r = Some p \<and> sv_paymentId x = Some p \<longrightarrow> r = x))"

lemma modify_const_set:
  "set (modify key (key r) (\<lambda>_. x) rows) \<subseteq> insert x {y \<in> set rows. key y \<noteq> key r}"
  by (auto simp: set_modify)

lemma changed_ok:
  assumes ok: "serviceOk s" and c: "changed s c s'"
  shows "serviceOk s'"
proof (cases c)
  case Same
  then show ?thesis using ok c by (simp add: serviceOk_def changed_def)
next
  case (Added r)
  with c have new: "newRequest s r" and rows: "sd_requests s' = sd_requests s @ [r]" "sd_invoices s' = sd_invoices s"
    by (simp_all add: changed_def)
  have "priced (sd_invoices s) r" using new by (auto simp: newRequest_def priced_def)
  then show ?thesis using ok new by (auto simp: serviceOk_def rows newRequest_def)
next
  case (Changed r x)
  with c have r: "r \<in> set (sd_requests s)" and rows: "sd_requests s' = modify sv_id (sv_id r) (\<lambda>_. x) (sd_requests s)"
    and same: "sameRequest r x" and priced: "priced (sd_invoices s) r \<longrightarrow> priced (sd_invoices s') x"
    and invoices: "sd_invoices s' = sd_invoices s \<and> sv_paymentId x = sv_paymentId r \<or>
      (\<exists>v. sd_invoices s' = sd_invoices s @ [v] \<and> iv_id v \<notin> iv_id ` set (sd_invoices s) \<and> sv_paymentId x = Some (iv_id v))"
    by (simp_all add: changed_def)
  have grown: "priced (sd_invoices s') y" if "priced (sd_invoices s) y" for y
    using invoices priced_grows [OF that] that by auto
  have in_rows: "y = x \<or> (y \<in> set (sd_requests s) \<and> sv_id y \<noteq> sv_id r)" if "y \<in> set (sd_requests s')" for y
    using that modify_const_set [of sv_id r x] unfolding rows by blast
  have ids: "map sv_id (sd_requests s') = map sv_id (sd_requests s)"
    unfolding rows modify_def updateWhere_def using same by (auto simp: sameRequest_def)
  have unique: "distinct (map sv_id (sd_requests s))" using ok by (simp add: serviceOk_def)
  have keys: "map (\<lambda>r. (sv_clientId r, sv_idempotencyKey r)) (sd_requests s') =
      map (\<lambda>r. (sv_clientId r, sv_idempotencyKey r)) (sd_requests s)"
    unfolding rows modify_def updateWhere_def
    using same unique r by (auto simp: sameRequest_def inj_on_def distinct_map)
  have other: "sv_paymentId y \<noteq> sv_paymentId x" if y: "y \<in> set (sd_requests s)" "sv_id y \<noteq> sv_id r" "sv_paymentId y = Some p" for y p
    using invoices
  proof
    assume "sd_invoices s' = sd_invoices s \<and> sv_paymentId x = sv_paymentId r"
    then show ?thesis using y r ok unfolding serviceOk_def by metis
  next
    assume "\<exists>v. sd_invoices s' = sd_invoices s @ [v] \<and> iv_id v \<notin> iv_id ` set (sd_invoices s) \<and> sv_paymentId x = Some (iv_id v)"
    then obtain v :: invoice where v: "iv_id v \<notin> iv_id ` set (sd_invoices s)" "sv_paymentId x = Some (iv_id v)" by blast
    from ok y have "priced (sd_invoices s) y" by (simp add: serviceOk_def)
    with y(3) obtain w where "fetch iv_id p (sd_invoices s) = Some w" by (auto simp: priced_def invoiceFor_def)
    from fetch_SomeD [OF this] have "p \<in> iv_id ` set (sd_invoices s)" by auto
    then show ?thesis using v y(3) by (metis option.inject)
  qed
  show ?thesis
    unfolding serviceOk_def ids keys
  proof (intro conjI ballI allI impI)
    show "distinct (map sv_id (sd_requests s))"
      "distinct (map (\<lambda>r. (sv_clientId r, sv_idempotencyKey r)) (sd_requests s))"
      using ok by (simp_all add: serviceOk_def)
    show "priced (sd_invoices s') y" if "y \<in> set (sd_requests s')" for y
      using in_rows [OF that] ok r priced grown by (auto simp: serviceOk_def)
    show "y = z" if "y \<in> set (sd_requests s')" "z \<in> set (sd_requests s')" "sv_paymentId y = Some p \<and> sv_paymentId z = Some p" for y z p
      using in_rows [OF that(1)] in_rows [OF that(2)] that(3) other [of y p] other [of z p] ok
      unfolding serviceOk_def by metis
  qed
qed

lemma changed_evolved:
  assumes ids: "distinct (map sv_id (sd_requests s))" and c: "changed s c s'" and r: "fetch sv_id i (sd_requests s) = Some r"
  shows "\<exists>x. fetch sv_id i (sd_requests s') = Some x \<and> evolved r x"
proof (cases c)
  case (Changed y x)
  with c have y: "y \<in> set (sd_requests s)" and rows: "sd_requests s' = modify sv_id (sv_id y) (\<lambda>_. x) (sd_requests s)"
    and same: "sameRequest y x" and step: "moves (sv_status y) (sv_status x)" "sv_revision y < sv_revision x"
    by (simp_all add: changed_def)
  have id: "sv_id x = sv_id y" using same by (simp add: sameRequest_def)
  show ?thesis
  proof (cases "i = sv_id y")
    case True
    then have "r = y" using fetch_distinct [OF ids y] r by simp
    moreover have "\<not> closedStatus (sv_status y)" using step(1) closed_final by (auto simp: moves_def)
    then have "evolved y x" using same step by (simp add: evolved_def r_into_rtranclp)
    ultimately show ?thesis using r True id by (simp add: rows fetch_replace)
  next
    case False
    then show ?thesis using r id by (simp add: rows fetch_replace)
  qed
qed (use c r in \<open>auto simp: changed_def fetch_append\<close>)

interpretation services: guarded_machine "serviceServe yp dp fp" serviceOk for yp dp fp
proof
  fix q s assume "serviceOk s"
  then show "serviceOk (snd (serviceServe yp dp fp q s))"
    using serviceServe_changed changed_ok by (meson serviceOk_def)
qed

lemma request_evolves:
  assumes ok: "serviceOk s" and r: "fetch sv_id i (sd_requests s) = Some r"
  obtains x where "fetch sv_id i (sd_requests (serveAll (serviceServe yp dp fp) qs s)) = Some x" and "evolved r x"
proof -
  let ?R = "\<lambda>s s'. \<forall>i r. fetch sv_id i (sd_requests s) = Some r \<longrightarrow> (\<exists>x. fetch sv_id i (sd_requests s') = Some x \<and> evolved r x)"
  have "?R s (serveAll (serviceServe yp dp fp) qs s)"
  proof (rule services.serve_rel [OF _ _ _ ok])
    show "?R s (snd (serviceServe yp dp fp q s))" if "serviceOk s" for q s
    proof -
      have ids: "distinct (map sv_id (sd_requests s))" using that by (simp add: serviceOk_def)
      from serviceServe_changed [OF ids] obtain c where "changed s c (snd (serviceServe yp dp fp q s))" by blast
      from changed_evolved [OF ids this] show ?thesis by blast
    qed
    show "?R a c" if "?R a b" "?R b c" for a b c
      using that by (meson evolved_trans)
  qed simp
  with r that show thesis by blast
qed


section \<open>Properties\<close>

text \<open>
  C40. Whatever clients and staff do, a request for a service is never lost: it stays the same client's request of the same kind
  (and a company's facts stay the ones that were submitted), its status only moves along the machine, a completed or
  cancelled one stays as it is, and its revision rises with every change.
\<close>

theorem service_requests_follow_machine:
  fixes qs :: "service_call list"
  assumes "serviceOk s" and "fetch sv_id i (sd_requests s) = Some r"
  shows "\<exists>x. fetch sv_id i (sd_requests (serveAll (serviceServe yp dp fp) qs s)) = Some x \<and>
    sv_clientId x = sv_clientId r \<and> sv_kind x = sv_kind r \<and>
    (sv_kind r = COMPANY_FORMATION \<longrightarrow> in_formation (sv_intake x) = in_formation (sv_intake r)) \<and>
    (\<lambda>a b. \<exists>c. statusMoves c a b)\<^sup>*\<^sup>* (sv_status r) (sv_status x) \<and> (sv_revision r < sv_revision x \<or> x = r) \<and>
    (sv_status r \<in> {SR_COMPLETED, SR_CANCELLED} \<longrightarrow> x = r)"
proof -
  from request_evolves [OF assms] obtain x where "fetch sv_id i (sd_requests (serveAll (serviceServe yp dp fp) qs s)) = Some x"
    "evolved r x" .
  moreover have "moves = (\<lambda>a b. \<exists>c. statusMoves c a b)" by (simp add: fun_eq_iff moves_def)
  ultimately show ?thesis by (auto simp: evolved_def sameRequest_def closedStatus_def)
qed


text \<open>
  A revision of a request is used once: after an action for it went through, no other action for that revision goes through,
  whoever sends it and whatever happened in between.
\<close>

theorem revision_used_once:
  fixes qs :: "service_call list"
  assumes "serviceOk s" and "actOnServiceRequest yp now ids actor i (n, a) s = Inr (m, s')"
  shows "\<not> succeeds (actOnServiceRequest yp later ids2 who i (n, b) (serveAll (serviceServe yp dp fp) qs s'))"
proof
  assume "succeeds (actOnServiceRequest yp later ids2 who i (n, b) (serveAll (serviceServe yp dp fp) qs s'))"
  then obtain k t where again: "actOnServiceRequest yp later ids2 who i (n, b) (serveAll (serviceServe yp dp fp) qs s') = Inr (k, t)"
    by (auto simp: succeeds_iff)
  from assms(2) obtain r x where c: "changed s (Changed r x) s'" and x: "sv_id r = i" "n = sv_revision r" "sv_revision x = sv_revision r + 1"
    by (rule actOnServiceRequest_changed) simp
  from changed_ok [OF assms(1) c] have ok: "serviceOk s'" .
  have "r \<in> set (sd_requests s)" "sd_requests s' = modify sv_id i (\<lambda>_. x) (sd_requests s)" "sv_id x = i"
    using c x(1) by (simp_all add: changed_def sameRequest_def)
  then have "fetch sv_id i (sd_requests s') = Some x"
    using assms(1) x(1) fetch_distinct [of sv_id "sd_requests s" r] by (simp add: fetch_replace serviceOk_def)
  from request_evolves [OF ok this] obtain y where y: "fetch sv_id i (sd_requests (serveAll (serviceServe yp dp fp) qs s')) = Some y" "evolved x y" .
  from again obtain r2 x2 where "changed (serveAll (serviceServe yp dp fp) qs s') (Changed r2 x2) t" "sv_id r2 = i" "sv_revision r2 = n"
    by (rule actOnServiceRequest_changed) simp
  then have "r2 = y"
    using y(1) services.serve_inv [OF ok] fetch_distinct [of sv_id "sd_requests (serveAll (serviceServe yp dp fp) qs s')" r2]
    by (simp add: changed_def serviceOk_def)
  with \<open>sv_revision r2 = n\<close> y(2) x show False by (auto simp: evolved_def)
qed

text \<open>What is left when everything kept from the client is gone.\<close>

definition clientCopy :: "service_db \<Rightarrow> service_db" where
  "clientCopy s = s\<lparr>sd_events := filter (\<lambda>e. \<not> ev_internal e) (sd_events s),
     sd_documents := filter (\<lambda>d. dc_visibility d = ''CLIENT_VISIBLE'' \<and> dc_deletedAt d = None) (sd_documents s)\<rparr>"

text \<open>
  C38. The page of a request that a client opens does not depend on the internal events and on the documents that are kept from
  the client: it is the page of the tables without them.
\<close>

theorem client_page_hides_secrets:
  assumes "pr_roleName actor = ROLE_client"
  shows "getServiceRequest actor i s = getServiceRequest actor i (clientCopy s)"
proof -
  have "clientOf (clientCopy s) = clientOf s"
    by (simp add: fun_eq_iff clientOf_def clientCopy_def deskOf_def)
  then have where1: "serviceRequestWhere actor (clientCopy s) = serviceRequestWhere actor s"
    by (simp only: serviceRequestWhere_def)
  have events: "filter (\<lambda>e. ev_requestId e = i \<and> \<not> ev_internal e) (sd_events (clientCopy s)) =
      filter (\<lambda>e. ev_requestId e = i \<and> \<not> ev_internal e) (sd_events s)"
    by (simp add: clientCopy_def conj_commute)
  have documents: "filter (\<lambda>d. dc_serviceRequestId d = Some i \<and> dc_deletedAt d = None \<and> dc_visibility d = ''CLIENT_VISIBLE'')
        (sd_documents (clientCopy s)) =
      filter (\<lambda>d. dc_serviceRequestId d = Some i \<and> dc_deletedAt d = None \<and> dc_visibility d = ''CLIENT_VISIBLE'') (sd_documents s)"
    by (simp add: clientCopy_def conj_ac)
  have rest: "sd_requests (clientCopy s) = sd_requests s" "deskOf (clientCopy s) = deskOf s"
    by (simp_all add: clientCopy_def deskOf_def)
  show ?thesis
  proof (cases "serviceRequestWhere actor s")
    case (Inl e)
    then show ?thesis by (simp add: getServiceRequest_def where1)
  next
    case (Inr scope)
    then show ?thesis
      using assms where1 events documents rest
      by (cases "find (\<lambda>r. sv_id r = i \<and> scope r) (sd_requests s)")
        (simp_all add: getServiceRequest_def Let_def split: option.split)
  qed
qed


section \<open>A sample request\<close>

definition sampleMona :: principal where
  "sampleMona = \<lparr>pr_id = ''u1'', pr_roleName = ''Client'', pr_permissions = None, pr_clientId = Some ''k1''\<rparr>"

definition sampleAsk :: service_request where
  "sampleAsk = \<lparr>sv_id = ''r1'', sv_reference = ''SR1'', sv_clientId = ''k1'', sv_assignedLawyerId = None, sv_paymentId = None,
     sv_threadId = None, sv_sourceRequestId = None, sv_kind = CONTRACT_REVIEW, sv_locale = ''ar'',
     sv_status = SR_AWAITING_ACCEPTANCE, sv_intake = emptyIntake, sv_questionnaireId = None,
     sv_quote = Some \<lparr>qt_amount = ''20'', qt_currency = EGP, qt_scope = ''One contract'', qt_durationDays = 7\<rparr>,
     sv_quoteVersion = 1, sv_acceptedQuoteVersion = None, sv_revision = 3, sv_idempotencyKey = ''i1'', sv_updatedAt = 50\<rparr>"

definition sampleServices :: service_db where
  "sampleServices = \<lparr>sd_cases = \<lparr>kd_desk = sampleReviewDb\<lparr>bk_clients := [(sampleClient ''k1'')\<lparr>ct_userId := Some ''u1'', ct_userActive := True\<rparr>]\<rparr>,
       kd_sessions = [], kd_parties = [], kd_userNames = []\<rparr>, sd_requests = [sampleAsk], sd_events = [], sd_questionnaires = [],
     sd_documents = [], sd_interviews = [], sd_reports = [], sd_invoices = [], sd_files = []\<rparr>"

definition sampleServicePlatform :: service_platform where
  "sampleServicePlatform = \<lparr>yp_isUuid = (\<lambda>t. length t = 2), yp_issue = (\<lambda>p. \<lparr>ed_path = Some p, ed_message = [], ed_code = None\<rparr>),
     yp_message = ''Invalid request''\<rparr>"

definition sampleServiceIds :: service_ids where
  "sampleServiceIds = \<lparr>xi_id = ''n1'', xi_reference = ''SR2'', xi_thread = ''t1'', xi_invoiceNumber = ''9'', xi_message = ''m1''\<rparr>"

definition sampleArchive :: document_platform where
  "sampleArchive = \<lparr>du_upload = sampleUpload, du_env = (\<lambda>_. None), du_outcome = sampleOutcomePlatform, du_scanner = (\<lambda>_. Some ''stream: OK''),
     du_auditUp = True, du_deleteUp = True, du_contains = (\<lambda>_ _. True), du_containsPoints = (\<lambda>_ _. True), du_order = (\<lambda>_ _ rows. rows)\<rparr>"

definition sampleFormation :: formation_platform where
  "sampleFormation = \<lparr>ff_booking = sampleBooking, ff_lower = (\<lambda>t. t), ff_title = (\<lambda>t. t), ff_references = (\<lambda>_. None), ff_answer = (\<lambda>_. None)\<rparr>"

text \<open>The client accepts the first quote of the third revision.\<close>

definition sampleAccept :: service_call where
  "sampleAccept = Acts 90 sampleServiceIds sampleMona ''r1'' (3, AcceptQuote 1)"

definition sampleAccepted :: service_request where
  "sampleAccepted = sampleAsk\<lparr>sv_paymentId := Some ''n1'', sv_acceptedQuoteVersion := Some 1, sv_status := SR_IN_PROGRESS,
     sv_revision := 4, sv_updatedAt := 90\<rparr>"

lemma sampleServices_ok: "serviceOk sampleServices"
  by (simp add: serviceOk_def sampleServices_def sampleAsk_def priced_def)

lemma sampleAccept_runs:
  "\<exists>s'. actOnServiceRequest sampleServicePlatform 90 sampleServiceIds sampleMona ''r1'' (3, AcceptQuote 1) sampleServices = Inr (4, s') \<and>
     sd_requests s' = [sampleAccepted]"
proof -
  have rights: "hasPermission sampleMona ''case.read.any'' = False" "hasPermission sampleMona ''case.read.assigned'' = False"
    "hasPermission sampleMona ''client.read.self'' = True" "hasPermission sampleMona ''case.update.any'' = False"
    "hasPermission sampleMona ''case.update.assigned'' = False"
    by code_simp+
  have mona: "pr_id sampleMona = ''u1''" "pr_roleName sampleMona = ''Client''" "pr_clientId sampleMona = Some ''k1''"
    by (simp_all add: sampleMona_def)
  show ?thesis
    by (simp add: actOnServiceRequest_def parseWithSchema_def serviceActionSchema_def ypIssue_def serviceRequestWhere_def rights mona
        sampleServices_def sampleAsk_def sampleAccepted_def clientOf_def deskOf_def sampleClient_def actionEffect_def
        rightsOn_def ROLE_client_def acceptQuote_def quoteInvoice_def insertRow_def Let_def nonEmpty_def sampleServiceIds_def)
qed

theorem service_requests_follow_machine_witness:
  "\<exists>x. fetch sv_id ''r1'' (sd_requests (serveAll (serviceServe sampleServicePlatform sampleArchive sampleFormation) [sampleAccept] sampleServices)) = Some x \<and>
    sv_clientId x = ''k1''"
proof -
  have "fetch sv_id ''r1'' (sd_requests sampleServices) = Some sampleAsk" by (simp add: sampleServices_def sampleAsk_def)
  from service_requests_follow_machine [OF sampleServices_ok this, of sampleServicePlatform sampleArchive sampleFormation "[sampleAccept]"]
  show ?thesis by (auto simp: sampleAsk_def simp del: serveAll.simps)
qed



theorem revision_used_once_witness:
  "\<exists>s'. actOnServiceRequest sampleServicePlatform 90 sampleServiceIds sampleMona ''r1'' (3, AcceptQuote 1) sampleServices = Inr (4, s') \<and>
     \<not> succeeds (actOnServiceRequest sampleServicePlatform 91 sampleServiceIds sampleMona ''r1'' (3, Say ''Hello'' False)
        (serveAll (serviceServe sampleServicePlatform sampleArchive sampleFormation) [] s'))"
proof -
  obtain s' where "actOnServiceRequest sampleServicePlatform 90 sampleServiceIds sampleMona ''r1'' (3, AcceptQuote 1) sampleServices = Inr (4, s')"
    using sampleAccept_runs by blast
  with revision_used_once [OF sampleServices_ok this] show ?thesis by blast
qed

theorem client_page_hides_secrets_witness:
  "getServiceRequest sampleMona ''r1'' sampleServices = getServiceRequest sampleMona ''r1'' (clientCopy sampleServices)"
  by (rule client_page_hides_secrets) (simp add: sampleMona_def ROLE_client_def)

end
