(* ===== verification/DocumentFacts.thy ===== *)
theory DocumentFacts
  imports ServiceFacts UploadFacts
begin

text \<open>
  What holds of the documents beside the requests for a service: every document has its file, which was accepted and scanned, and
  belongs to the client of its request; a download gives back the bytes that were uploaded; and the list of the
  office shows a lawyer what opens for that lawyer.
\<close>

section \<open>Files\<close>

definition pathOf :: "document_platform \<Rightarrow> string \<Rightarrow> string api" where
  "pathOf pf k = resolvePrivateFilePath k (getUploadsRoot (du_env pf))"

text \<open>The file of a document passed the policy and the scanner.\<close>

definition cleared :: "document_platform \<Rightarrow> document_row \<Rightarrow> bytes \<Rightarrow> bool" where
  "cleared pf d bs =
    (assertUploadAllowed (du_upload pf) \<lparr>uc_fileName = dc_fileName d, uc_mimeType = dc_fileType d,
        uc_sizeBytes = int (dc_fileSize d), uc_bytes = bs\<rparr> (getUploadPolicy (du_env pf)) = Inr () \<and>
     (malwareScanMode (du_env pf) = ''required'' \<longrightarrow> Option.bind (du_scanner pf bs) parseClamAvScanResponse = Some ScanClean))"

definition fileOf :: "document_platform \<Rightarrow> service_db \<Rightarrow> document_row \<Rightarrow> bytes option" where
  "fileOf pf s d = (case pathOf pf (dc_fileKey d) of Inl _ \<Rightarrow> None | Inr p \<Rightarrow> map_of (sd_files s) p)"

definition documentsOk :: "document_platform \<Rightarrow> service_db \<Rightarrow> bool" where
  "documentsOk pf s = (serviceOk s \<and> distinct (map dc_id (sd_documents s)) \<and>
     (\<forall>d\<in>set (sd_documents s). (\<exists>bs. fileOf pf s d = Some bs \<and> cleared pf d bs) \<and>
        (\<forall>i. dc_serviceRequestId d = Some i \<longrightarrow>
           (\<exists>r. fetch sv_id i (sd_requests s) = Some r \<and> dc_ownerClientId d = Some (sv_clientId r)))))"

lemma readPrivateFile_fileOf:
  "readPrivateFile pf (dc_fileKey d) s = Inr bs \<longleftrightarrow> fileOf pf s d = Some bs"
  by (auto simp: readPrivateFile_def fileOf_def pathOf_def split: option.splits sum.splits)

text \<open>The columns of a document no request changes.\<close>

definition sameDocument :: "document_row \<Rightarrow> document_row \<Rightarrow> bool" where
  "sameDocument d x = (dc_id x = dc_id d \<and> dc_fileKey x = dc_fileKey d \<and> dc_fileName x = dc_fileName d \<and> dc_fileType x = dc_fileType d \<and>
     dc_fileSize x = dc_fileSize d \<and> dc_serviceRequestId x = dc_serviceRequestId d \<and> dc_ownerClientId x = dc_ownerClientId d)"

lemma sameDocument_refl [simp]: "sameDocument d d" by (simp add: sameDocument_def)

lemma sameDocument_trans: "sameDocument a b \<Longrightarrow> sameDocument b c \<Longrightarrow> sameDocument a c" by (simp add: sameDocument_def)

text \<open>One call keeps the documents and their files, and may enter one more with its file.\<close>

definition keeps :: "document_platform \<Rightarrow> service_db \<Rightarrow> service_db \<Rightarrow> bool" where
  "keeps pf s s' = (\<forall>i d. fetch dc_id i (sd_documents s) = Some d \<longrightarrow>
     (\<exists>x. fetch dc_id i (sd_documents s') = Some x \<and> sameDocument d x \<and> fileOf pf s' x = fileOf pf s d))"

lemma keeps_refl: "keeps pf s s" by (auto simp: keeps_def)

lemma keeps_trans: "keeps pf a b \<Longrightarrow> keeps pf b c \<Longrightarrow> keeps pf a c"
  unfolding keeps_def
proof (intro allI impI)
  assume ab: "\<forall>i d. fetch dc_id i (sd_documents a) = Some d \<longrightarrow>
      (\<exists>x. fetch dc_id i (sd_documents b) = Some x \<and> sameDocument d x \<and> fileOf pf b x = fileOf pf a d)"
    and bc: "\<forall>i d. fetch dc_id i (sd_documents b) = Some d \<longrightarrow>
      (\<exists>x. fetch dc_id i (sd_documents c) = Some x \<and> sameDocument d x \<and> fileOf pf c x = fileOf pf b d)"
  fix i d assume "fetch dc_id i (sd_documents a) = Some d"
  with ab obtain x where x: "fetch dc_id i (sd_documents b) = Some x" "sameDocument d x" "fileOf pf b x = fileOf pf a d" by blast
  with bc obtain y where "fetch dc_id i (sd_documents c) = Some y" "sameDocument x y" "fileOf pf c y = fileOf pf b x" by blast
  with x show "\<exists>y. fetch dc_id i (sd_documents c) = Some y \<and> sameDocument d y \<and> fileOf pf c y = fileOf pf a d"
    using sameDocument_trans by auto
qed

lemma fileOf_same: "sameDocument d x \<Longrightarrow> fileOf pf s x = fileOf pf s d"
  by (simp add: fileOf_def sameDocument_def)

lemma cleared_same: "sameDocument d x \<Longrightarrow> cleared pf x bs = cleared pf d bs"
  by (simp add: cleared_def sameDocument_def)

lemma fileOf_files: "sd_files s' = sd_files s \<Longrightarrow> fileOf pf s' d = fileOf pf s d"
  by (simp add: fileOf_def split: sum.split)

text \<open>The three ways the tables of documents and files change.\<close>

datatype paper_change = Kept | Marked string "document_row \<Rightarrow> document_row" | Entered document_row bytes

definition papers :: "document_platform \<Rightarrow> service_db \<Rightarrow> paper_change \<Rightarrow> service_db \<Rightarrow> bool" where
  "papers pf s c s' =
    (case c of
       Kept \<Rightarrow> sd_documents s' = sd_documents s \<and> (\<forall>d\<in>set (sd_documents s). fileOf pf s d \<noteq> None \<longrightarrow> fileOf pf s' d = fileOf pf s d)
     | Marked i f \<Rightarrow> sd_files s' = sd_files s \<and> (\<forall>d. sameDocument d (f d)) \<and> sd_documents s' = modify dc_id i f (sd_documents s)
     | Entered d bs \<Rightarrow> sd_documents s' = sd_documents s @ [d] \<and> dc_id d \<notin> dc_id ` set (sd_documents s) \<and>
         fileOf pf s' d = Some bs \<and> cleared pf d bs \<and>
         (\<forall>x\<in>set (sd_documents s). fileOf pf s x \<noteq> None \<longrightarrow> fileOf pf s' x = fileOf pf s x) \<and>
         (\<forall>i. dc_serviceRequestId d = Some i \<longrightarrow>
            (\<exists>r. fetch sv_id i (sd_requests s) = Some r \<and> dc_ownerClientId d = Some (sv_clientId r))))"

lemma savePrivateFile_success:
  assumes "savePrivateFile pf k bs s = Inr s1"
  obtains p where "pathOf pf k = Inr p" and "p \<notin> fst ` set (sd_files s)" and "s1 = s\<lparr>sd_files := (p, bs) # sd_files s\<rparr>"
  using assms by (auto simp: savePrivateFile_def pathOf_def)

lemma uploadChecks_parts:
  assumes "uploadChecks pf actor raw item s = Inr (f, owner)"
  obtains payer target verdict where "uploadPaymentOwner actor f s = Inr payer" and "uploadServiceTarget actor f s = Inr target"
    and "assertUploadAllowed (du_upload pf) item (getUploadPolicy (du_env pf)) = Inr ()"
    and "assertMalwareScanSafe (du_env pf) (du_scanner pf (uc_bytes item)) = Inr verdict"
    and "payer = None \<longrightarrow> target \<noteq> None \<longrightarrow> owner = target"
proof -
  from assms obtain payer target verdict where *: "uploadPaymentOwner actor f s = Inr payer" "uploadServiceTarget actor f s = Inr target"
    "assertUploadAllowed (du_upload pf) item (getUploadPolicy (du_env pf)) = Inr ()"
    "assertMalwareScanSafe (du_env pf) (du_scanner pf (uc_bytes item)) = Inr verdict"
    and "owner = (case payer of Some c \<Rightarrow> Some c | None \<Rightarrow> (case target of Some c \<Rightarrow> Some c | None \<Rightarrow>
          if selfUpload actor then pr_clientId actor else uf_ownerClientId f))"
    by (auto simp: uploadChecks_def Let_def)
  then have "payer = None \<longrightarrow> target \<noteq> None \<longrightarrow> owner = target" by auto
  with * show thesis by (rule that)
qed

lemma scan_required:
  assumes "assertMalwareScanSafe env answer = Inr verdict" and "malwareScanMode env = ''required''"
  shows "Option.bind answer parseClamAvScanResponse = Some ScanClean"
proof -
  from assms obtain r where r: "Option.bind answer parseClamAvScanResponse = Some r" "\<And>x. r \<noteq> ScanInfected x"
    by (cases "Option.bind answer parseClamAvScanResponse") (auto simp: assertMalwareScanSafe_def split: scan_result.splits)
  from r(1) obtain t where "parseClamAvScanResponse t = Some r" by (cases answer) simp_all
  then have "r = ScanClean \<or> (\<exists>x. r = ScanInfected x)" by (auto simp: parseClamAvScanResponse_def Let_def split: if_splits)
  with r show ?thesis by blast
qed

lemma uploadServiceTarget_client:
  assumes "uploadServiceTarget actor f s = Inr target" and "uf_serviceRequestId f = Some i"
  obtains r where "fetch sv_id i (sd_requests s) = Some r" and "target = Some (sv_clientId r)"
  using assms by (auto simp: uploadServiceTarget_def split: option.splits)

lemma uploadChecks_success:
  assumes run: "uploadChecks pf actor raw item s = Inr (f, owner)"
  shows "assertUploadAllowed (du_upload pf) item (getUploadPolicy (du_env pf)) = Inr ()"
    and "malwareScanMode (du_env pf) = ''required'' \<Longrightarrow>
      Option.bind (du_scanner pf (uc_bytes item)) parseClamAvScanResponse = Some ScanClean"
    and "uf_serviceRequestId f = Some i \<Longrightarrow> \<exists>r. fetch sv_id i (sd_requests s) = Some r \<and> owner = Some (sv_clientId r)"
proof -
  from run obtain payer target verdict where parts: "uploadPaymentOwner actor f s = Inr payer" "uploadServiceTarget actor f s = Inr target"
    "assertUploadAllowed (du_upload pf) item (getUploadPolicy (du_env pf)) = Inr ()"
    "assertMalwareScanSafe (du_env pf) (du_scanner pf (uc_bytes item)) = Inr verdict"
    and owner: "payer = None \<longrightarrow> target \<noteq> None \<longrightarrow> owner = target"
    by (rule uploadChecks_parts)
  show "assertUploadAllowed (du_upload pf) item (getUploadPolicy (du_env pf)) = Inr ()" by (rule parts(3))
  show "Option.bind (du_scanner pf (uc_bytes item)) parseClamAvScanResponse = Some ScanClean"
    if "malwareScanMode (du_env pf) = ''required''"
    by (rule scan_required [OF parts(4) that])
  assume i: "uf_serviceRequestId f = Some i"
  have "payer = None" using parts(1) i by (auto simp: uploadPaymentOwner_def split: option.splits)
  moreover from parts(2) i obtain r where "fetch sv_id i (sd_requests s) = Some r" "target = Some (sv_clientId r)"
    by (rule uploadServiceTarget_client)
  ultimately show "\<exists>r. fetch sv_id i (sd_requests s) = Some r \<and> owner = Some (sv_clientId r)" using owner by auto
qed

lemma uploadDocument_papers:
  "\<exists>c. papers pf s c (snd (uploadDocument pf now uuid newId actor raw file s))"
proof -
  have kept: "papers pf s Kept s" by (simp add: papers_def)
  show ?thesis
  proof (cases "uploadChecks pf actor raw file s")
    case (Inl e)
    then show ?thesis using kept by (auto simp: uploadDocument_def)
  next
    case (Inr fo)
    obtain f owner where fo: "fo = (f, owner)" by fastforce
    note checks = uploadChecks_success [OF Inr [unfolded fo]]
    let ?k = "generateDocumentFileKey (du_upload pf) uuid (uc_fileName file) (uc_mimeType file) now"
    show ?thesis
    proof (cases "savePrivateFile pf ?k (uc_bytes file) s")
      case (Inl e)
      then show ?thesis using kept Inr fo by (auto simp: uploadDocument_def Let_def)
    next
      case saved: (Inr s1)
      then obtain p where p: "pathOf pf ?k = Inr p" "p \<notin> fst ` set (sd_files s)" and s1: "s1 = s\<lparr>sd_files := (p, uc_bytes file) # sd_files s\<rparr>"
        by (rule savePrivateFile_success)
      have old: "fileOf pf t d = fileOf pf s d"
        if "fileOf pf s d \<noteq> None" "\<And>q. q \<noteq> p \<Longrightarrow> map_of (sd_files t) q = map_of (sd_files s) q" for d t
      proof -
        from that(1) obtain q where q: "pathOf pf (dc_fileKey d) = Inr q" "map_of (sd_files s) q \<noteq> None"
          by (auto simp: fileOf_def split: sum.splits)
        then have "q \<noteq> p" using p(2) by (metis map_of_eq_None_iff)
        then show ?thesis using q(1) that(2) by (simp add: fileOf_def)
      qed
      show ?thesis
      proof (cases "uploadTransaction now newId actor f owner file ?k s1")
        case (Inl e)
        let ?t = "deletePrivateFileBestEffort pf ?k s1"
        have "map_of (sd_files ?t) q = map_of (sd_files s) q" if "q \<noteq> p" for q
        proof -
          have "map_of (filter (\<lambda>x. fst x \<noteq> p) fs) q = map_of fs q" for fs :: "(string \<times> bytes) list"
            using that by (induction fs) auto
          then show ?thesis using that p(1) by (simp add: deletePrivateFileBestEffort_def pathOf_def s1)
        qed
        then have "fileOf pf ?t d = fileOf pf s d" if "fileOf pf s d \<noteq> None" for d by (rule old [OF that])
        moreover have "sd_documents ?t = sd_documents s" by (simp add: deletePrivateFileBestEffort_def s1 split: sum.split)
        ultimately have "papers pf s Kept ?t" by (simp add: papers_def)
        moreover have "snd (uploadDocument pf now uuid newId actor raw file s) = ?t"
          using Inr fo saved Inl by (simp add: uploadDocument_def Let_def)
        ultimately show ?thesis by metis
      next
        case entered: (Inr ds)
        obtain d s2 where ds: "ds = (d, s2)" by fastforce
        from entered ds obtain v where d: "d = uploadedRow now newId actor f owner file ?k v" and fresh: "dc_id d \<notin> dc_id ` set (sd_documents s)"
          and s2: "sd_documents s2 = sd_documents s @ [d]" "sd_files s2 = sd_files s1"
          by (auto simp: uploadTransaction_def Let_def claimDelivery_def s1 split: option.splits)
        let ?t = "snd (uploadDocument pf now uuid newId actor raw file s)"
        have t: "sd_documents ?t = sd_documents s @ [d]" "sd_files ?t = (p, uc_bytes file) # sd_files s"
          using Inr fo saved entered ds s2 by (simp_all add: uploadDocument_def Let_def s1)
        have "0 < uc_sizeBytes file" using checks(1) by (auto simp: assertUploadAllowed_def)
        then have "\<lparr>uc_fileName = uc_fileName file, uc_mimeType = uc_mimeType file, uc_sizeBytes = int (nat (uc_sizeBytes file)),
            uc_bytes = uc_bytes file\<rparr> = file" by simp
        then have "cleared pf d (uc_bytes file)"
          using checks(1,2) by (simp add: cleared_def d uploadedRow_def)
        moreover have "fileOf pf ?t d = Some (uc_bytes file)" using p(1) t(2) by (simp add: fileOf_def d uploadedRow_def)
        moreover have "\<exists>r. fetch sv_id i (sd_requests s) = Some r \<and> dc_ownerClientId d = Some (sv_clientId r)"
          if "dc_serviceRequestId d = Some i" for i
          using checks(3) that by (simp add: d uploadedRow_def)
        moreover have "fileOf pf ?t x = fileOf pf s x" if "fileOf pf s x \<noteq> None" for x
          using old [OF that, of ?t] t(2) by simp
        ultimately have "papers pf s (Entered d (uc_bytes file)) ?t"
          using fresh t(1) by (simp add: papers_def)
        then show ?thesis ..
      qed
    qed
  qed
qed

lemma actOnFormation_papers:
  "sd_documents (snd (actOnFormation pf now ids newId token actor input s)) = sd_documents s \<and>
   sd_files (snd (actOnFormation pf now ids newId token actor input s)) = sd_files s"
proof -
  obtain r s1 where own: "ownSession pf now token actor s = (r, s1)" by fastforce
  from ownSession_frame [OF this] obtain d where s1: "s1 = putDesk d s" ..
  have start: "startFormation now newId a l s1 = Inr (x, t) \<Longrightarrow> sd_documents t = sd_documents s \<and> sd_files t = sd_files s" for a l x t
    by (auto simp: startFormation_def Let_def s1 split: option.splits)
  have transact: "formationTransaction pf now ids actor asked input a s1 = Inr (x, t) \<Longrightarrow>
      sd_documents t = sd_documents s \<and> sd_files t = sd_files s" for asked a x t
    by (auto simp: formationTransaction_def submitFormation_def keepReport_def Let_def s1 split: option.splits if_splits
        formation_action.splits)
  show ?thesis
    using own start transact
    by (cases r; cases input) (auto simp: actOnFormation_def Let_def andThen_def s1 split: sum.splits option.splits)
qed

lemma serviceServe_papers:
  assumes ids: "distinct (map sv_id (sd_requests s))"
  shows "\<exists>c. papers dp s c (snd (serviceServe yp dp fp q s))"
proof -
  have same: "\<exists>c. papers dp s c s'" if "sd_documents s' = sd_documents s" "sd_files s' = sd_files s" for s'
    using that(1) fileOf_files [OF that(2)] by (intro exI [of _ Kept]) (simp add: papers_def)
  show ?thesis
  proof (cases q)
    case (Creates now ids actor raw)
    then show ?thesis
      by (intro same) (auto simp: serviceServe_def ran_def createServiceRequest_def Let_def split: sum.splits option.splits if_splits)
  next
    case (Acts now ids actor i raw)
    show ?thesis
    proof (cases "actOnServiceRequest yp now ids actor i raw s")
      case (Inr x)
      obtain n t where x: "x = (n, t)" by fastforce
      from Inr [unfolded x] have "sd_documents t = sd_documents s \<and> sd_files t = sd_files s"
        by (rule actOnServiceRequest_success) (auto dest: actionEffect_request)
      then show ?thesis using same Acts Inr x by (simp add: serviceServe_def)
    qed (use Acts same in \<open>simp add: serviceServe_def\<close>)
  next
    case (Publishes now newId actor raw)
    then show ?thesis
      by (intro same) (auto simp: serviceServe_def ran_def publishQuestionnaire_def Let_def split: sum.splits)
  next
    case (Uploads now uuid newId actor raw item)
    then show ?thesis using uploadDocument_papers by (simp add: serviceServe_def)
  next
    case (UpdatesDocument actor i raw)
    show ?thesis
    proof (cases "updateAdminDocument dp actor i raw s")
      case (Inr x)
      obtain d t where x: "x = (d, t)" by fastforce
      from Inr obtain e where e: "findDocument dp actor ''Document is outside your permission scope.'' i s = Inr e"
        unfolding x by (auto simp: updateAdminDocument_def)
      with Inr obtain body where "parseWithSchema (adminDocumentUpdateSchema (du_outcome dp)) raw ''Document payload is invalid.'' = Inr body"
        unfolding x by (auto simp: updateAdminDocument_def)
      with Inr e have "sd_documents t = modify dc_id (dc_id e)
          (\<lambda>d. d\<lparr>dc_status := dw_status body, dc_category := dw_category body, dc_visibility := dw_visibility body\<rparr>) (sd_documents s)"
        "sd_files t = sd_files s"
        unfolding x by (auto simp: updateAdminDocument_def Let_def)
      then have "papers dp s (Marked (dc_id e)
          (\<lambda>d. d\<lparr>dc_status := dw_status body, dc_category := dw_category body, dc_visibility := dw_visibility body\<rparr>)) t"
        by (simp add: papers_def sameDocument_def)
      then show ?thesis using UpdatesDocument Inr x by (auto simp: serviceServe_def)
    qed (use UpdatesDocument same in \<open>simp add: serviceServe_def\<close>)
  next
    case (DeletesDocument now actor i raw)
    show ?thesis
    proof (cases "deleteAdminDocument dp now actor i raw s")
      case (Inr x)
      obtain d t where x: "x = (d, t)" by fastforce
      from Inr obtain e where e: "findDocument dp actor ''Document is outside your permission scope.'' i s = Inr e"
        unfolding x by (auto simp: deleteAdminDocument_def)
      with Inr have "sd_documents t = modify dc_id (dc_id e)
          (\<lambda>d. d\<lparr>dc_status := ''DELETED'', dc_deletedAt := Some now\<rparr>) (sd_documents s)" "sd_files t = sd_files s"
        unfolding x by (auto simp: deleteAdminDocument_def Let_def)
      then have "papers dp s (Marked (dc_id e) (\<lambda>d. d\<lparr>dc_status := ''DELETED'', dc_deletedAt := Some now\<rparr>)) t"
        by (simp add: papers_def sameDocument_def)
      then show ?thesis using DeletesDocument Inr x by (auto simp: serviceServe_def)
    qed (use DeletesDocument same in \<open>simp add: serviceServe_def\<close>)
  next
    case (Downloads actor i)
    then show ?thesis
      by (intro same) (auto simp: serviceServe_def ran_def getAuthorizedDocumentDownload_def split: sum.splits)
  next
    case (Interviews now ids newId token actor input)
    then show ?thesis using actOnFormation_papers by (intro same) (simp_all add: serviceServe_def)
  qed
qed

lemma papers_keep:
  assumes c: "papers pf s c s'" and files: "\<And>d. d \<in> set (sd_documents s) \<Longrightarrow> fileOf pf s d \<noteq> None"
  shows "keeps pf s s'"
  unfolding keeps_def
proof (intro allI impI)
  fix i d assume d: "fetch dc_id i (sd_documents s) = Some d"
  note in_set = fetch_SomeD [OF d]
  show "\<exists>x. fetch dc_id i (sd_documents s') = Some x \<and> sameDocument d x \<and> fileOf pf s' x = fileOf pf s d"
  proof (cases c)
    case Kept
    then show ?thesis using c d in_set files by (simp add: papers_def)
  next
    case (Marked j f)
    with c have f: "\<And>d. sameDocument d (f d)" "\<And>d. dc_id (f d) = dc_id d" and rows: "sd_documents s' = modify dc_id j f (sd_documents s)"
      and same: "sd_files s' = sd_files s"
      by (simp_all add: papers_def sameDocument_def)
    have "fetch dc_id i (sd_documents s') = Some (if i = j then f d else d)"
      using d fetch_modify [of dc_id f i j "sd_documents s", OF f(2)] by (cases "i = j") (simp_all add: rows)
    then show ?thesis using f(1) fileOf_same [OF f(1)] fileOf_files [OF same] by (cases "i = j") simp_all
  next
    case (Entered x bs)
    then show ?thesis using c d in_set files by (simp add: papers_def fetch_append)
  qed
qed

lemma papers_ok:
  assumes ok: "documentsOk pf s" and c: "papers pf s c s'" and request: "serviceOk s'"
    and evolve: "\<And>i r. fetch sv_id i (sd_requests s) = Some r \<Longrightarrow> \<exists>x. fetch sv_id i (sd_requests s') = Some x \<and> evolved r x"
  shows "documentsOk pf s'"
proof -
  have owner: "\<exists>r. fetch sv_id i (sd_requests s') = Some r \<and> o1 = Some (sv_clientId r)"
    if "\<exists>r. fetch sv_id i (sd_requests s) = Some r \<and> o1 = Some (sv_clientId r)" for i o1
    using that evolve unfolding evolved_def sameRequest_def by metis
  have each: "(\<exists>bs. fileOf pf s' x = Some bs \<and> cleared pf x bs) \<and> (\<forall>i. dc_serviceRequestId x = Some i \<longrightarrow>
      (\<exists>r. fetch sv_id i (sd_requests s') = Some r \<and> dc_ownerClientId x = Some (sv_clientId r)))"
    if d: "d \<in> set (sd_documents s)" and same: "sameDocument d x" and stored: "fileOf pf s' x = fileOf pf s d" for d x
    using ok d same stored owner cleared_same [OF same] unfolding documentsOk_def sameDocument_def by metis
  show ?thesis
  proof (cases c)
    case Kept
    then show ?thesis
      using c ok request each [OF _ sameDocument_refl] by (auto simp: documentsOk_def papers_def)
  next
    case (Marked j f)
    with c have f: "\<And>d. sameDocument d (f d)" "\<And>d. dc_id (f d) = dc_id d" and rows: "sd_documents s' = modify dc_id j f (sd_documents s)"
      and same: "sd_files s' = sd_files s"
      by (simp_all add: papers_def sameDocument_def)
    have from_old: "\<exists>d\<in>set (sd_documents s). sameDocument d x \<and> fileOf pf s' x = fileOf pf s d" if "x \<in> set (sd_documents s')" for x
    proof -
      from that obtain y where y: "y \<in> set (sd_documents s)" "x = (if dc_id y = j then f y else y)"
        unfolding rows set_modify by blast
      then have "sameDocument y x" using f(1) by auto
      with y(1) fileOf_same [OF this] fileOf_files [OF same] show ?thesis by auto
    qed
    have "(\<exists>bs. fileOf pf s' x = Some bs \<and> cleared pf x bs) \<and> (\<forall>i. dc_serviceRequestId x = Some i \<longrightarrow>
      (\<exists>r. fetch sv_id i (sd_requests s') = Some r \<and> dc_ownerClientId x = Some (sv_clientId r)))"
      if "x \<in> set (sd_documents s')" for x
      using from_old [OF that] each by blast
    moreover have "distinct (map dc_id (sd_documents s'))"
      using ok f(2) by (simp add: documentsOk_def rows map_key_modify)
    ultimately show ?thesis using request by (simp add: documentsOk_def)
  next
    case (Entered d bs)
    with c have rows: "sd_documents s' = sd_documents s @ [d]" and fresh: "dc_id d \<notin> dc_id ` set (sd_documents s)"
      and new: "fileOf pf s' d = Some bs" "cleared pf d bs"
      and old: "\<forall>x\<in>set (sd_documents s). fileOf pf s x \<noteq> None \<longrightarrow> fileOf pf s' x = fileOf pf s x"
      and link: "\<forall>i. dc_serviceRequestId d = Some i \<longrightarrow>
            (\<exists>r. fetch sv_id i (sd_requests s) = Some r \<and> dc_ownerClientId d = Some (sv_clientId r))"
      by (simp_all add: papers_def)
    have "fileOf pf s' x = fileOf pf s x" if "x \<in> set (sd_documents s)" for x
      using old ok that by (force simp: documentsOk_def)
    then show ?thesis using ok request each [OF _ sameDocument_refl] new fresh link owner by (auto simp: documentsOk_def rows)
  qed
qed

interpretation archive: guarded_machine "serviceServe yp dp fp" "documentsOk dp" for yp dp fp
proof
  fix q s assume ok: "documentsOk dp s"
  then have service: "serviceOk s" and ids: "distinct (map sv_id (sd_requests s))" by (simp_all add: documentsOk_def serviceOk_def)
  obtain c where "papers dp s c (snd (serviceServe yp dp fp q s))" using serviceServe_papers [OF ids] by blast
  moreover obtain k where "changed s k (snd (serviceServe yp dp fp q s))" using serviceServe_changed [OF ids] by blast
  ultimately show "documentsOk dp (snd (serviceServe yp dp fp q s))"
    using papers_ok [OF ok] services.step_inv [OF service] changed_evolved [OF ids] by blast
qed

lemma documents_kept:
  assumes "documentsOk dp s"
  shows "keeps dp s (serveAll (serviceServe yp dp fp) qs s)"
proof (rule archive.serve_rel [OF _ _ _ assms])
  show "keeps dp s (snd (serviceServe yp dp fp q s))" if "documentsOk dp s" for q s
    using that serviceServe_papers papers_keep by (metis documentsOk_def option.distinct(1) serviceOk_def)
qed (use keeps_refl keeps_trans in blast)+


section \<open>Properties\<close>


text \<open>
  C39. A download gives back what was uploaded: after an upload went through, at any later time and whoever is let to download the
  document gets the bytes of the uploaded file, under its name, type and size.
\<close>

theorem download_returns_upload:
  fixes qs :: "service_call list"
  assumes "documentsOk dp s" and "uploadDocument dp now uuid newId actor raw file s = (Inr d, s1)"
    and "getAuthorizedDocumentDownload dp who (dc_id d) (serveAll (serviceServe yp dp fp) qs s1) = Inr ((bs, hs), s2)"
  shows "bs = uc_bytes file \<and> hs = documentDownloadHeaders (uc_fileName file) (uc_mimeType file) (nat (uc_sizeBytes file))"
proof -
  let ?q = "Uploads now uuid newId actor raw file"
  have s1: "s1 = snd (serviceServe yp dp fp ?q s)" using assms(2) by (simp add: serviceServe_def)
  have ok: "documentsOk dp s1" unfolding s1 by (rule archive.step_inv [OF assms(1)])
  from assms(2) obtain f owner k v t where run: "uploadChecks dp actor raw file s = Inr (f, owner)"
    and k: "k = generateDocumentFileKey (du_upload dp) uuid (uc_fileName file) (uc_mimeType file) now"
    and t: "savePrivateFile dp k (uc_bytes file) s = Inr t" and d: "d = uploadedRow now newId actor f owner file k v"
    and rows: "sd_documents s1 = sd_documents s @ [d]" "dc_id d \<notin> dc_id ` set (sd_documents s)" "sd_files s1 = sd_files t"
    by (auto simp: uploadDocument_def Let_def uploadTransaction_def claimDelivery_def savePrivateFile_def split: sum.splits option.splits prod.splits)
  from t obtain p where p: "pathOf dp k = Inr p" and files: "sd_files t = (p, uc_bytes file) # sd_files s"
    by (auto elim: savePrivateFile_success)
  have stored: "fileOf dp s1 d = Some (uc_bytes file)" using p files rows by (simp add: fileOf_def d uploadedRow_def)
  have "fetch dc_id (dc_id d) (sd_documents s1) = Some d" using rows by (simp add: fetch_append fetch_None_iff [THEN iffD2])
  with documents_kept [OF ok, of yp fp qs] stored obtain x where x: "fetch dc_id (dc_id d) (sd_documents (serveAll (serviceServe yp dp fp) qs s1)) = Some x"
    "sameDocument d x" "fileOf dp (serveAll (serviceServe yp dp fp) qs s1) x = Some (uc_bytes file)"
    unfolding keeps_def by metis
  from assms(3) x(1) have "readPrivateFile dp (dc_fileKey x) (serveAll (serviceServe yp dp fp) qs s1) = Inr bs"
    "hs = documentDownloadHeaders (dc_fileName x) (dc_fileType x) (dc_fileSize x)"
    by (auto simp: getAuthorizedDocumentDownload_def findDocument_def documentIdOf_def parseWithSchema_eq split: if_splits)
  with x(2,3) show ?thesis unfolding readPrivateFile_fileOf by (simp add: sameDocument_def d uploadedRow_def)
qed

text \<open>
  The list of documents and the page of a document agree: what is listed for an actor opens for the actor, and what opens is
  listed, apart from what a client sees as the owner.
\<close>

theorem listed_documents_open:
  assumes "documentScopeWhereForPrincipal actor s = Inr scope" and "fetch dc_id i (sd_documents s) = Some d"
    and "ou_isUuid (du_outcome pf) i" and "\<forall>j. dc_serviceRequestId d = Some j \<longrightarrow> fetch sv_id j (sd_requests s) \<noteq> None"
  shows "(scope d \<longrightarrow> findDocument pf actor refusal i s = Inr d) \<and>
    (findDocument pf actor refusal i s = Inr d \<and> ownerUserOfDocument s d \<noteq> Some (pr_id actor) \<longrightarrow> scope d)"
proof -
  have opens: "findDocument pf actor refusal i s = Inr d \<longleftrightarrow> dc_deletedAt d = None \<and> canReadDocument actor s d"
    using assms(2,3) by (auto simp: findDocument_def documentIdOf_def parseWithSchema_def)
  have none: "requestOfDocument s d = None \<longleftrightarrow> dc_serviceRequestId d = None"
    using assms(4) by (cases "dc_serviceRequestId d") (auto simp: requestOfDocument_def)
  show ?thesis
    using assms(1) none unfolding opens documentScopeWhereForPrincipal_def canReadDocument_def
    by (auto split: if_splits option.splits)
qed

text \<open>
  A name with a letter outside the first 256 code points is put into the header as it is, and the constructor of the response
  refuses the header: the download fails after it was audited.
\<close>

lemma name_beyond_bytes_fails:
  assumes "c \<in> set (sanitizeDownloadFileName name)" and "256 \<le> c"
  shows "\<not> headersAccepted (documentDownloadHeaders name mimeType n)"
proof -
  have "c \<in> set (contentDisposition name)"
    using assms by (auto simp: contentDisposition_def Let_def)
  then have "\<not> list_all (\<lambda>c. c < 256) (contentDisposition name)" using assms(2) by (auto simp: list_all_iff not_less)
  then show ?thesis by (simp add: headersAccepted_def documentDownloadHeaders_def)
qed


section \<open>A sample upload\<close>

definition sampleFields :: upload_fields where
  "sampleFields = \<lparr>uf_ownerClientId = None, uf_caseId = None, uf_serviceRequestId = None, uf_paymentId = None, uf_delivery = False,
     uf_category = ''OTHER'', uf_visibility = None\<rparr>"


definition sampleDoc :: document_row where
  "sampleDoc = uploadedRow 0 ''d1'' sampleMona sampleFields (Some ''k1'') samplePdf ''documents/1970/01/01/f1.pdf'' None"

lemma sampleServices_documentsOk: "documentsOk sampleArchive sampleServices"
  using sampleServices_ok by (simp add: documentsOk_def sampleServices_def)

lemma sampleUpload_checks: "uploadChecks sampleArchive sampleMona sampleFields samplePdf sampleServices = Inr (sampleFields, Some ''k1'')"
proof -
  have "parseWithSchema (documentUploadFieldsSchema (du_outcome sampleArchive)) sampleFields ''Document upload fields are invalid.'' = Inr sampleFields"
    by code_simp
  moreover have "uploadServiceTarget sampleMona sampleFields sampleServices = Inr None" "selfUpload sampleMona" by code_simp+
  moreover have "uploadPaymentOwner sampleMona sampleFields sampleServices = Inr None"
    by (simp add: uploadPaymentOwner_def sampleFields_def)
  moreover have "assertDocumentUploadTargets sampleMona sampleFields (Some ''k1'') sampleServices = Inr ()" by code_simp
  moreover have "assertMalwareScanSafe (\<lambda>_. None) (Some ''stream: OK'') = Inr ScanClean \<or>
      assertMalwareScanSafe (\<lambda>_. None) (Some ''stream: OK'') = Inr ScanSkipped" by code_simp
  ultimately show ?thesis using samplePdf_accepted
    by (auto simp: uploadChecks_def Let_def sampleArchive_def sampleMona_def)
qed

lemma sampleUpload_runs:
  "\<exists>s'. uploadDocument sampleArchive 0 ''f1'' ''d1'' sampleMona sampleFields samplePdf sampleServices = (Inr sampleDoc, s') \<and>
     sd_documents s' = [sampleDoc] \<and> readPrivateFile sampleArchive ''documents/1970/01/01/f1.pdf'' s' = Inr (uc_bytes samplePdf)"
proof -
  have "civilOfDays (dayNumber 0) = (1970, 1, 1)" using civil_examples(1) by (simp add: dayNumber_def)
  then have "isoDate 0 = ''1970-01-01''" by (simp add: isoDate_def padStart_def natToText.simps digitChar_def char_of_def bit_0)
  moreover have "extensionForUpload sampleUpload (uc_fileName samplePdf) (uc_mimeType samplePdf) = ''pdf''"
    by (simp add: extensionForUpload_def ALLOWED_EXTENSIONS_BY_MIME_def samplePdf_def sampleUpload_def getExtension_def trimPoints_def
        pointWhitespace_def foldPoint_def pointsOf_def codeUnit_def Let_def)
  ultimately have "generateDocumentFileKey sampleUpload ''f1'' (uc_fileName samplePdf) (uc_mimeType samplePdf) 0 = ''documents/1970/01/01/f1.pdf''"
    by (simp add: generateDocumentFileKey_def)
  moreover have "case resolvePrivateFilePath ''documents/1970/01/01/f1.pdf'' (getUploadsRoot (\<lambda>_. None)) of Inr _ \<Rightarrow> True | Inl _ \<Rightarrow> False"
    by code_simp
  then obtain p where "resolvePrivateFilePath ''documents/1970/01/01/f1.pdf'' (getUploadsRoot (\<lambda>_. None)) = Inr p"
    by (auto split: sum.splits)
  ultimately have path: "resolvePrivateFilePath ''documents/1970/01/01/f1.pdf'' (getUploadsRoot (du_env sampleArchive)) = Inr p"
    and key: "generateDocumentFileKey (du_upload sampleArchive) ''f1'' (uc_fileName samplePdf) (uc_mimeType samplePdf) 0 = ''documents/1970/01/01/f1.pdf''"
    by (simp_all add: sampleArchive_def)
  let ?s1 = "sampleServices\<lparr>sd_files := [(p, uc_bytes samplePdf)]\<rparr>"
  have empty: "sd_files sampleServices = []" "sd_documents sampleServices = []" by (simp_all add: sampleServices_def)
  have "savePrivateFile sampleArchive ''documents/1970/01/01/f1.pdf'' (uc_bytes samplePdf) sampleServices = Inr ?s1"
    using path by (simp add: savePrivateFile_def empty)
  moreover have "uploadTransaction 0 ''d1'' sampleMona sampleFields (Some ''k1'') samplePdf ''documents/1970/01/01/f1.pdf'' ?s1 =
      Inr (sampleDoc, ?s1\<lparr>sd_documents := [sampleDoc]\<rparr>)"
    by (simp add: uploadTransaction_def claimDelivery_def insertRow_def empty sampleDoc_def Let_def) (simp add: sampleFields_def empty)
  ultimately show ?thesis
    using sampleUpload_checks key path by (simp add: uploadDocument_def readPrivateFile_def)
qed


theorem download_returns_upload_witness:
  "\<exists>s' hs s2. uploadDocument sampleArchive 0 ''f1'' ''d1'' sampleMona sampleFields samplePdf sampleServices = (Inr sampleDoc, s') \<and>
     getAuthorizedDocumentDownload sampleArchive sampleSecretary ''d1''
       (serveAll (serviceServe sampleServicePlatform sampleArchive sampleFormation) [] s') = Inr ((uc_bytes samplePdf, hs), s2)"
proof -
  obtain s' where run: "uploadDocument sampleArchive 0 ''f1'' ''d1'' sampleMona sampleFields samplePdf sampleServices = (Inr sampleDoc, s')"
    and rows: "sd_documents s' = [sampleDoc]"
    and stored: "readPrivateFile sampleArchive ''documents/1970/01/01/f1.pdf'' s' = Inr (uc_bytes samplePdf)"
    using sampleUpload_runs by blast
  have manages: "hasPermission sampleSecretary ''document.manage.any''" by code_simp
  have d: "dc_id sampleDoc = ''d1''" "dc_deletedAt sampleDoc = None" "dc_fileKey sampleDoc = ''documents/1970/01/01/f1.pdf''"
    by (simp_all add: sampleDoc_def uploadedRow_def)
  have "findDocument sampleArchive sampleSecretary ''Document download is not allowed.'' ''d1'' s' = Inr sampleDoc"
    using manages d by (simp add: findDocument_def documentIdOf_def parseWithSchema_def rows canReadDocument_def)
      (simp add: sampleArchive_def sampleOutcomePlatform_def)
  then obtain bs hs s2 where down: "getAuthorizedDocumentDownload sampleArchive sampleSecretary ''d1'' s' = Inr ((bs, hs), s2)"
    using stored d by (auto simp: getAuthorizedDocumentDownload_def)
  from download_returns_upload [OF sampleServices_documentsOk run, of sampleSecretary sampleServicePlatform sampleFormation "[]" bs hs s2] down d
  have "bs = uc_bytes samplePdf" by simp
  with run down show ?thesis by auto
qed

theorem listed_documents_open_witness:
  "findDocument sampleArchive sampleSecretary ''refused'' ''d1'' (sampleServices\<lparr>sd_documents := [sampleDoc]\<rparr>) = Inr sampleDoc"
proof -
  let ?s = "sampleServices\<lparr>sd_documents := [sampleDoc]\<rparr>"
  have "hasPermission sampleSecretary ''document.manage.any''" by code_simp
  then have "documentScopeWhereForPrincipal sampleSecretary ?s = Inr (\<lambda>d. dc_deletedAt d = None)"
    by (simp add: documentScopeWhereForPrincipal_def)
  moreover have "fetch dc_id ''d1'' (sd_documents ?s) = Some sampleDoc" by (simp add: sampleDoc_def uploadedRow_def)
  moreover have "ou_isUuid (du_outcome sampleArchive) ''d1''" by (simp add: sampleArchive_def sampleOutcomePlatform_def)
  moreover have "\<forall>j. dc_serviceRequestId sampleDoc = Some j \<longrightarrow> fetch sv_id j (sd_requests ?s) \<noteq> None"
    by (simp add: sampleDoc_def uploadedRow_def sampleFields_def)
  ultimately have "dc_deletedAt sampleDoc = None \<longrightarrow> findDocument sampleArchive sampleSecretary ''refused'' ''d1'' ?s = Inr sampleDoc"
    using listed_documents_open [of sampleSecretary ?s "\<lambda>d. dc_deletedAt d = None" "''d1''" sampleDoc sampleArchive "''refused''"] by blast
  then show ?thesis by (simp add: sampleDoc_def uploadedRow_def)
qed

end
