(* ===== verification/AuditStore.thy ===== *)
theory AuditStore
  imports Sessions PaymentDb
begin

text \<open>
  What the audit trail stores of an event: \<open>src/src/server/audit/audit-service.ts\<close> and the
  allow lists of \<open>src/src/server/audit/audit-event-catalog.ts\<close>. The metadata of an event of the
  two release plans is projected to the keys its action may carry, everything is redacted, and the
  projection is applied again when the row is shown.
\<close>

section \<open>The allow lists\<close>

definition PLAN35_appointmentCreate :: string where "PLAN35_appointmentCreate = ''calendar.appointment_create''"
definition PLAN35_appointmentReschedule :: string where "PLAN35_appointmentReschedule = ''calendar.appointment_reschedule''"
definition PLAN35_manualCaseCreate :: string where "PLAN35_manualCaseCreate = ''case.manual_create''"
definition PLAN35_caseCoreUpdate :: string where "PLAN35_caseCoreUpdate = ''case.core_update''"
definition PLAN35_rolePermissionsReplace :: string where "PLAN35_rolePermissionsReplace = ''role.permissions_replace''"
definition PLAN35_contactReview :: string where "PLAN35_contactReview = ''contact.message_review''"
definition PLAN35_contactArchive :: string where "PLAN35_contactArchive = ''contact.message_archive''"

lemmas plan35_action_defs = PLAN35_appointmentCreate_def PLAN35_appointmentReschedule_def
  PLAN35_manualCaseCreate_def PLAN35_caseCoreUpdate_def PLAN35_rolePermissionsReplace_def
  PLAN35_contactReview_def PLAN35_contactArchive_def

definition PLAN35_AUDIT_SAFE_METADATA_KEYS :: "(string \<times> string list) list" where
  "PLAN35_AUDIT_SAFE_METADATA_KEYS =
    [(PLAN35_appointmentCreate, [''startsAt'', ''status'', ''type'', ''mode'', ''reasonCode'']),
     (PLAN35_appointmentReschedule, [''previousStartsAt'', ''startsAt'', ''status'', ''reasonCode'']),
     (PLAN35_manualCaseCreate, [''requestHash'', ''source'', ''status'', ''reasonCode'']),
     (PLAN35_caseCoreUpdate, [''changedFields'', ''previousAssignedLawyerId'', ''assignedLawyerId'',
        ''previousPriority'', ''priority'', ''reasonCode'']),
     (PLAN35_rolePermissionsReplace, [''previousPermissionCount'', ''permissionCount'', ''reasonCode'']),
     (PLAN35_contactReview, [''previousStatus'', ''status'', ''topic'', ''reasonCode'']),
     (PLAN35_contactArchive, [''previousStatus'', ''status'', ''topic'', ''reasonCode''])]"

definition PLAN36_AUDIT_ACTIONS :: "string list" where
  "PLAN36_AUDIT_ACTIONS =
    [''consultation.primary_appointment_schedule'', ''consultation.outcome.awaiting_result'',
     ''consultation.outcome.missed'', ''consultation.outcome.confirmed'', ''consultation.outcome.corrected'',
     ''consultation.outcome.reopened'', ''consultation.reject'', ''consultation.outcome.backfilled'']"

definition plan36AuditSafeKeys :: "string list" where
  "plan36AuditSafeKeys =
    [''fromOutcome'', ''toOutcome'', ''reasonCode'', ''outcomeVersion'', ''source'', ''primaryAppointmentId'',
     ''assignedLawyerId'', ''startsAt'', ''endsAt'', ''mode'']"

definition PLAN36_AUDIT_SAFE_METADATA_KEYS :: "(string \<times> string list) list" where
  "PLAN36_AUDIT_SAFE_METADATA_KEYS = map (\<lambda>a. (a, plan36AuditSafeKeys)) PLAN36_AUDIT_ACTIONS"

definition safeCaseCoreFields :: "string list" where
  "safeCaseCoreFields =
    [''title'', ''caseType'', ''courtName'', ''externalCaseNumber'', ''priority'', ''summary'', ''assignedLawyerId'']"

definition isPlan35AuditAction :: "string \<Rightarrow> bool" where
  "isPlan35AuditAction action = (action \<in> set (map fst PLAN35_AUDIT_SAFE_METADATA_KEYS))"

definition isPlan36AuditAction :: "string \<Rightarrow> bool" where
  "isPlan36AuditAction action = (action \<in> set PLAN36_AUDIT_ACTIONS)"

text \<open>The keys a plan lists for an action.\<close>

definition listedKeys :: "(string \<times> string list) list \<Rightarrow> string \<Rightarrow> string list" where
  "listedKeys plan action = (case map_of plan action of None \<Rightarrow> [] | Some ks \<Rightarrow> ks)"

definition scalar :: "json \<Rightarrow> bool" where
  "scalar v = (case v of JStr _ \<Rightarrow> True | JNum _ \<Rightarrow> True | JBool _ \<Rightarrow> True | _ \<Rightarrow> False)"

definition sha256Text :: "string \<Rightarrow> bool" where
  "sha256Text s = (length s = 64 \<and> list_all hexUnit s)"

definition isSha256 :: "json \<Rightarrow> bool" where
  "isSha256 v = (case v of JStr s \<Rightarrow> sha256Text s | _ \<Rightarrow> False)"

definition safeField :: "json \<Rightarrow> bool" where
  "safeField v = (case v of JStr s \<Rightarrow> s \<in> set safeCaseCoreFields | _ \<Rightarrow> False)"

text \<open>The value a key keeps, if it keeps one.\<close>

definition plan35Keep :: "string \<Rightarrow> json \<Rightarrow> json option" where
  "plan35Keep key value =
    (if key = ''changedFields'' then
       (case value of JArr vs \<Rightarrow> Some (JArr (filter safeField vs)) | _ \<Rightarrow> None)
     else if key = ''requestHash'' then (if isSha256 value then Some value else None)
     else if scalar value then Some value else None)"

definition plan36Keep :: "string \<Rightarrow> json \<Rightarrow> json option" where
  "plan36Keep key value = (if scalar value then Some value else None)"

text \<open>The members of an object that is filled key by key.\<close>

definition tabulate :: "(string \<Rightarrow> json option) \<Rightarrow> string list \<Rightarrow> (string \<times> json) list" where
  "tabulate h keys = concat (map (\<lambda>k. case h k of None \<Rightarrow> [] | Some v \<Rightarrow> [(k, v)]) keys)"

definition projectKeys ::
  "(string \<Rightarrow> json \<Rightarrow> json option) \<Rightarrow> string list \<Rightarrow> (string \<times> json) list \<Rightarrow> (string \<times> json) list" where
  "projectKeys keep keys metadata = tabulate (\<lambda>key. Option.bind (map_of metadata key) (keep key)) keys"

definition plan35SafeAuditMetadata :: "string \<Rightarrow> (string \<times> json) list \<Rightarrow> (string \<times> json) list" where
  "plan35SafeAuditMetadata action metadata =
    projectKeys plan35Keep (listedKeys PLAN35_AUDIT_SAFE_METADATA_KEYS action) metadata"

definition plan36SafeAuditMetadata :: "string \<Rightarrow> (string \<times> json) list \<Rightarrow> (string \<times> json) list" where
  "plan36SafeAuditMetadata action metadata =
    projectKeys plan36Keep (listedKeys PLAN36_AUDIT_SAFE_METADATA_KEYS action) metadata"

definition metadataRecord :: "json \<Rightarrow> (string \<times> json) list" where
  "metadataRecord metadata = (case metadata of JObj ms \<Rightarrow> ms | _ \<Rightarrow> [])"

definition plan35AuditMetadataForStorage :: "string \<Rightarrow> json \<Rightarrow> json" where
  "plan35AuditMetadataForStorage action metadata =
    (let r = metadataRecord metadata
     in if isPlan35AuditAction action then JObj (plan35SafeAuditMetadata action r)
        else if isPlan36AuditAction action then JObj (plan36SafeAuditMetadata action r)
        else metadata)"

text \<open>The metadata \<open>toAdminAuditLogDto\<close> shows of a stored row.\<close>

definition shownMetadata :: "string \<Rightarrow> json \<Rightarrow> (string \<times> json) list" where
  "shownMetadata action stored =
    (let r = metadataRecord stored
     in if isPlan35AuditAction action then plan35SafeAuditMetadata action r
        else if isPlan36AuditAction action then plan36SafeAuditMetadata action r else r)"


section \<open>The row of an event\<close>

record audit_row =
  aw_id :: string
  aw_actorId :: "string option"
  aw_action :: string
  aw_resourceType :: string
  aw_resourceId :: "string option"
  aw_clientId :: "string option"
  aw_caseId :: "string option"
  aw_lawyerId :: "string option"
  aw_appointmentId :: "string option"
  aw_documentId :: "string option"
  aw_paymentId :: "string option"
  aw_metadata :: json
  aw_ipAddress :: "string option"
  aw_userAgent :: "string option"
  aw_createdAt :: int

text \<open>\<open>amount\<close> prints a decimal.\<close>

fun metaJson :: "(rat \<Rightarrow> string) \<Rightarrow> meta_value \<Rightarrow> json" where
  "metaJson amount (MText s) = JStr s"
| "metaJson amount (MInt i) = JNum (intText i)"
| "metaJson amount (MFlag b) = JBool b"
| "metaJson amount MNull = JNull"
| "metaJson amount (MAmount r) = JStr (amount r)"
| "metaJson amount (MJson v) = v"

definition metadataJson :: "(rat \<Rightarrow> string) \<Rightarrow> metadata \<Rightarrow> json" where
  "metadataJson amount m = JObj (map (\<lambda>(k, v). (k, metaJson amount v)) m)"

definition setMember :: "string \<Rightarrow> json \<Rightarrow> (string \<times> json) list \<Rightarrow> (string \<times> json) list" where
  "setMember key value ms =
    (if key \<in> set (map fst ms) then map (\<lambda>(k, v). (k, if k = key then value else v)) ms
     else ms @ [(key, value)])"

definition storedMetadata :: "string \<Rightarrow> json \<Rightarrow> json" where
  "storedMetadata action metadata =
    (let safe = plan35AuditMetadataForStorage action metadata; redacted = redactMetadata safe
     in if action = PLAN35_manualCaseCreate then
          (case (safe, redacted) of
             (JObj ss, JObj rs) \<Rightarrow>
               (case map_of ss ''requestHash'' of
                  Some h \<Rightarrow> if isSha256 h then JObj (setMember ''requestHash'' h rs) else redacted
                | None \<Rightarrow> redacted)
           | _ \<Rightarrow> redacted)
        else redacted)"

definition auditLogCreateData ::
  "env \<Rightarrow> (rat \<Rightarrow> string) \<Rightarrow> string \<Rightarrow> int \<Rightarrow> http_request option \<Rightarrow> audit_event \<Rightarrow> audit_row" where
  "auditLogCreateData env amount newId now request e =
    \<lparr>aw_id = newId, aw_actorId = ae_actorId e, aw_action = ae_action e, aw_resourceType = ae_resourceType e,
     aw_resourceId = ae_resourceId e, aw_clientId = ae_clientId e, aw_caseId = ae_caseId e,
     aw_lawyerId = ae_lawyerId e, aw_appointmentId = ae_appointmentId e, aw_documentId = ae_documentId e,
     aw_paymentId = ae_paymentId e, aw_metadata = storedMetadata (ae_action e) (metadataJson amount (ae_metadata e)),
     aw_ipAddress = (case request of None \<Rightarrow> None | Some r \<Rightarrow> getIpAddress env r),
     aw_userAgent = (case request of None \<Rightarrow> None | Some r \<Rightarrow> rq_userAgent r), aw_createdAt = now\<rparr>"


section \<open>What is stored is what the lists allow\<close>

lemma tabulate_simps [simp]:
  "tabulate h [] = []"
  "tabulate h (k # ks) = (case h k of None \<Rightarrow> [] | Some v \<Rightarrow> [(k, v)]) @ tabulate h ks"
  by (simp_all add: tabulate_def)

lemma set_tabulate: "set (tabulate h keys) = {(k, v). k \<in> set keys \<and> h k = Some v}"
  by (induction keys) (auto split: option.splits)

lemma tabulate_keys: "map fst (tabulate h keys) = filter (\<lambda>k. h k \<noteq> None) keys"
  by (induction keys) (auto split: option.splits)

lemma tabulate_values:
  "(\<And>k v. k \<in> set keys \<Longrightarrow> h k = Some v \<Longrightarrow> P v) \<Longrightarrow> list_all (\<lambda>(k, v). P v) (tabulate h keys)"
  by (auto simp: list_all_iff set_tabulate)

lemma tabulate_names:
  "map fst (tabulate h keys) = filter (\<lambda>k. k \<in> fst ` set (tabulate h keys)) keys"
  unfolding tabulate_keys by (rule filter_cong) (auto simp: set_tabulate image_iff)

lemma map_of_tabulate: "map_of (tabulate h keys) k = (if k \<in> set keys then h k else None)"
  by (induction keys) (auto split: option.splits)

lemma tabulate_cong: "(\<And>k. k \<in> set keys \<Longrightarrow> h k = h' k) \<Longrightarrow> tabulate h keys = tabulate h' keys"
  by (induction keys) simp_all

lemma map_tabulate: "map (\<lambda>m. (fst m, g (fst m) (snd m))) (tabulate h keys) = tabulate (\<lambda>k. map_option (g k) (h k)) keys"
  by (induction keys) (auto split: option.splits)

lemma projectKeys_tabulate:
  assumes "\<And>k v. k \<in> set keys \<Longrightarrow> h k = Some v \<Longrightarrow> keep k v = Some v"
  shows "projectKeys keep keys (tabulate h keys) = tabulate h keys"
  unfolding projectKeys_def
  by (rule tabulate_cong) (auto simp: map_of_tabulate assms split: bind_splits)

lemma setMember_tabulate:
  "h k \<noteq> None \<Longrightarrow> k \<in> set keys \<Longrightarrow> setMember k v (tabulate h keys) = tabulate (h(k := Some v)) keys"
proof -
  assume k: "h k \<noteq> None" "k \<in> set keys"
  then have "k \<in> set (map fst (tabulate h keys))" by (simp add: tabulate_keys)
  moreover have "map (\<lambda>(j, w). (j, if j = k then v else w)) (tabulate h keys) = tabulate (h(k := Some v)) keys"
    using k(1) by (induction keys) (auto split: option.splits)
  ultimately show ?thesis by (simp add: setMember_def)
qed

lemma redactMetadata_tabulate:
  "redactMetadata (JObj (tabulate h keys)) = JObj (tabulate (\<lambda>k. map_option (redactMember 8 k) (h k)) keys)"
  using redactValue_JObj [of 8 "tabulate h keys"] map_tabulate [of "redactMember 8" h keys]
  by (simp add: redactMetadata_def)

text \<open>Equations that evaluate faster.\<close>

lemma startsWith_code [code]:
  "startsWith [] s = True"
  "startsWith (c # p) [] = False"
  "startsWith (c # p) (d # s) = (c = d \<and> startsWith p s)"
  by (auto simp: startsWith_def)

text \<open>No listed key is a sensitive one, and no listed field is changed by the redaction of texts.\<close>

lemma lowered_keys:
  "map jsLower (plan36AuditSafeKeys @ [''status'', ''type'', ''previousStartsAt'', ''requestHash'', ''changedFields'',
    ''previousAssignedLawyerId'', ''previousPriority'', ''priority'', ''previousPermissionCount'',
    ''permissionCount'', ''previousStatus'', ''topic'']) =
   [''fromoutcome'', ''tooutcome'', ''reasoncode'', ''outcomeversion'', ''source'', ''primaryappointmentid'',
    ''assignedlawyerid'', ''startsat'', ''endsat'', ''mode'', ''status'', ''type'', ''previousstartsat'', ''requesthash'',
    ''changedfields'', ''previousassignedlawyerid'', ''previouspriority'', ''priority'', ''previouspermissioncount'',
    ''permissioncount'', ''previousstatus'', ''topic'']"
  by code_simp

lemma plain_words:
  "list_all (\<lambda>k. \<not> list_ex (\<lambda>w. hasInfix w k) sensitiveWords)
   [''fromoutcome'', ''tooutcome'', ''reasoncode'', ''outcomeversion'', ''source'', ''primaryappointmentid'',
    ''assignedlawyerid'', ''startsat'', ''endsat'', ''mode'', ''status'', ''type'', ''previousstartsat'', ''requesthash'',
    ''changedfields'', ''previousassignedlawyerid'', ''previouspriority'', ''priority'', ''previouspermissioncount'',
    ''permissioncount'', ''previousstatus'', ''topic'']"
  by code_simp

lemma plain_keys:
  "list_all (\<lambda>k. \<not> sensitiveKey k) (plan36AuditSafeKeys @ [''status'', ''type'', ''previousStartsAt'', ''requestHash'',
    ''changedFields'', ''previousAssignedLawyerId'', ''previousPriority'', ''priority'', ''previousPermissionCount'',
    ''permissionCount'', ''previousStatus'', ''topic''])"
  using plain_words unfolding lowered_keys [symmetric] by (simp add: list_all_iff sensitiveKey_def)

text \<open>A text without a digit and without an at sign is kept.\<close>

lemma replaceMatches_none:
  assumes "\<And>before t. set t \<subseteq> A \<Longrightarrow> m before t = None"
  shows "set s \<subseteq> A \<Longrightarrow> replaceMatches m f before s = s"
proof (induction s arbitrary: before)
  case (Cons c cs)
  then show ?case using assms [of "c # cs" before] by (subst replaceMatches.simps) simp
qed (simp add: replaceMatches.simps)

lemma emailMatch_none: "set t \<subseteq> {c. c \<noteq> CHR ''@'' \<and> \<not> isDigit c} \<Longrightarrow> emailMatch before t = None"
proof -
  assume t: "set t \<subseteq> {c. c \<noteq> CHR ''@'' \<and> \<not> isDigit c}"
  let ?r = "dropWhile emailLocalChar t"
  have "?r \<noteq> [] \<Longrightarrow> hd ?r \<in> set t" by (metis hd_in_set set_dropWhileD)
  with t have "\<not> (?r \<noteq> [] \<and> hd ?r = CHR ''@'')" by auto
  then show ?thesis by (auto simp: emailMatch_def Let_def simp del: dropWhile_eq_Nil_conv)
qed

lemma phoneMatch_none: "set t \<subseteq> {c. c \<noteq> CHR ''@'' \<and> \<not> isDigit c} \<Longrightarrow> phoneMatch before t = None"
proof -
  assume t: "set t \<subseteq> {c. c \<noteq> CHR ''@'' \<and> \<not> isDigit c}"
  then have "drop n t \<noteq> [] \<Longrightarrow> \<not> isDigit (hd (drop n t))" for n
    using hd_in_set [of "drop n t"] set_drop_subset [of n t] by blast
  then show ?thesis unfolding phoneMatch_def Let_def by (metis (no_types, lifting))
qed

lemma redactString_plain:
  "set s \<subseteq> {c. c \<noteq> CHR ''@'' \<and> \<not> isDigit c} \<Longrightarrow> length s \<le> MAX_SAFE_STRING_LENGTH \<Longrightarrow> redactString s = s"
  using replaceMatches_none [OF emailMatch_none] replaceMatches_none [OF phoneMatch_none]
  by (simp add: redactString_def)

lemma safe_fields_plain: "list_all (\<lambda>f. redactString f = f) safeCaseCoreFields"
  by (simp add: safeCaseCoreFields_def redactString_plain MAX_SAFE_STRING_LENGTH_def isDigit_def codeUnit_def)

lemma plan35_keys:
  "k \<in> set (listedKeys PLAN35_AUDIT_SAFE_METADATA_KEYS a) \<Longrightarrow> \<not> sensitiveKey k \<and> k \<noteq> ''requestId''"
  using plain_keys
  by (auto simp: listedKeys_def PLAN35_AUDIT_SAFE_METADATA_KEYS_def plan36AuditSafeKeys_def split: if_splits)

lemma listed_plan36:
  "listedKeys PLAN36_AUDIT_SAFE_METADATA_KEYS a = (if isPlan36AuditAction a then plan36AuditSafeKeys else [])"
  by (simp add: listedKeys_def PLAN36_AUDIT_SAFE_METADATA_KEYS_def isPlan36AuditAction_def
      map_of_map_restrict restrict_map_def)

lemma plan36_keys:
  "k \<in> set plan36AuditSafeKeys \<Longrightarrow>
    \<not> sensitiveKey k \<and> k \<noteq> ''requestId'' \<and> k \<noteq> ''requestHash'' \<and> k \<noteq> ''changedFields''"
  using plain_keys by (auto simp: plan36AuditSafeKeys_def)

lemma listed_distinct:
  "distinct (listedKeys PLAN35_AUDIT_SAFE_METADATA_KEYS a)" "distinct plan36AuditSafeKeys"
  by (simp_all add: listedKeys_def PLAN35_AUDIT_SAFE_METADATA_KEYS_def plan36AuditSafeKeys_def)

lemma hash_only_on_create:
  "''requestHash'' \<in> set (listedKeys PLAN35_AUDIT_SAFE_METADATA_KEYS a) \<longleftrightarrow> a = PLAN35_manualCaseCreate"
  by (auto simp: listedKeys_def PLAN35_AUDIT_SAFE_METADATA_KEYS_def plan35_action_defs)

lemma manual_create_plans: "isPlan35AuditAction PLAN35_manualCaseCreate" "\<not> isPlan36AuditAction PLAN35_manualCaseCreate"
  by (simp_all add: isPlan35AuditAction_def isPlan36AuditAction_def PLAN35_AUDIT_SAFE_METADATA_KEYS_def
      PLAN36_AUDIT_ACTIONS_def plan35_action_defs)

lemma redactMember_plain: "\<not> sensitiveKey k \<Longrightarrow> k \<noteq> ''requestId'' \<Longrightarrow> redactMember fuel k v = redactValue fuel v"
  by (simp add: redactMember_def)

lemma redact_scalar: "scalar v \<Longrightarrow> scalar (redactValue (Suc fuel) v)"
  by (cases v) (simp_all add: scalar_def)

lemma redact_field: "safeField v \<Longrightarrow> redactValue (Suc fuel) v = v"
  using safe_fields_plain by (cases v) (auto simp: safeField_def list_all_iff)

lemma redact_fields: "redactValue (Suc (Suc fuel)) (JArr (filter safeField vs)) = JArr (filter safeField vs)"
proof -
  have "map (redactValue (Suc fuel)) (filter safeField vs) = filter safeField vs"
    by (induction vs) (simp_all add: redact_field del: redactValue.simps)
  then show ?thesis by simp
qed

lemma isSha256_scalar: "isSha256 v \<Longrightarrow> scalar v"
  by (cases v) (simp_all add: isSha256_def scalar_def)

text \<open>What a key keeps is kept again after the redaction, the digest of a request aside.\<close>

lemma keep35_redacted:
  assumes "plan35Keep k v = Some w" and "k \<noteq> ''requestHash''"
  shows "plan35Keep k (redactValue 8 w) = Some (redactValue 8 w)"
proof (cases "k = ''changedFields''")
  case True
  with assms(1) obtain vs where "v = JArr vs" "w = JArr (filter safeField vs)"
    by (auto simp: plan35Keep_def split: json.splits)
  with True show ?thesis
    using redact_fields [of 6 vs] by (simp add: plan35Keep_def numeral_eq_Suc del: redactValue.simps)
next
  case False
  with assms have "scalar w" by (auto simp: plan35Keep_def split: if_splits)
  with redact_scalar [of w 7] have "scalar (redactValue 8 w)" by (simp add: numeral_eq_Suc)
  with False assms(2) show ?thesis by (simp add: plan35Keep_def)
qed

lemma keep36_redacted:
  "plan36Keep k v = Some w \<Longrightarrow> plan36Keep k (redactValue 8 w) = Some (redactValue 8 w)"
  using redact_scalar [of w 7] by (auto simp: plan36Keep_def numeral_eq_Suc split: if_splits)

text \<open>
  What a plan's projection keeps of a metadata, redacted: \<open>fix\<close> puts the digest back, which redaction
  may have taken for a telephone number.
\<close>

definition keptMember :: "(string \<Rightarrow> json \<Rightarrow> json option) \<Rightarrow> (string \<times> json) list \<Rightarrow> string \<Rightarrow> json option" where
  "keptMember keep ms k = map_option (\<lambda>v. if k = ''requestHash'' then v else redactValue 8 v)
     (Option.bind (map_of ms k) (keep k))"

lemma stored_plan36:
  assumes "isPlan36AuditAction a"
  shows "storedMetadata a m = JObj (tabulate (keptMember plan36Keep (metadataRecord m)) plan36AuditSafeKeys)"
proof -
  have n: "\<not> isPlan35AuditAction a" "a \<noteq> PLAN35_manualCaseCreate"
    using assms manual_create_plans
    by (auto simp: isPlan35AuditAction_def isPlan36AuditAction_def PLAN35_AUDIT_SAFE_METADATA_KEYS_def
        PLAN36_AUDIT_ACTIONS_def plan35_action_defs)
  let ?h = "\<lambda>k. Option.bind (map_of (metadataRecord m) k) (plan36Keep k)"
  have "storedMetadata a m = JObj (tabulate (\<lambda>k. map_option (redactMember 8 k) (?h k)) plan36AuditSafeKeys)"
    using assms n by (simp add: storedMetadata_def plan35AuditMetadataForStorage_def plan36SafeAuditMetadata_def
        listed_plan36 projectKeys_def redactMetadata_tabulate)
  also have "tabulate (\<lambda>k. map_option (redactMember 8 k) (?h k)) plan36AuditSafeKeys =
      tabulate (keptMember plan36Keep (metadataRecord m)) plan36AuditSafeKeys"
    by (rule tabulate_cong) (use plan36_keys in \<open>simp add: keptMember_def redactMember_plain cong: option.map_cong\<close>)
  finally show ?thesis .
qed

lemma stored_plan35:
  assumes "isPlan35AuditAction a"
  shows "storedMetadata a m = JObj (tabulate (keptMember plan35Keep (metadataRecord m))
    (listedKeys PLAN35_AUDIT_SAFE_METADATA_KEYS a))"
proof -
  let ?ks = "listedKeys PLAN35_AUDIT_SAFE_METADATA_KEYS a"
  let ?h = "\<lambda>k. Option.bind (map_of (metadataRecord m) k) (plan35Keep k)"
  let ?r = "\<lambda>k. map_option (redactMember 8 k) (?h k)"
  have safe: "plan35AuditMetadataForStorage a m = JObj (tabulate ?h ?ks)"
    using assms by (simp add: plan35AuditMetadataForStorage_def plan35SafeAuditMetadata_def projectKeys_def)
  have same: "k \<noteq> ''requestHash'' \<Longrightarrow> k \<in> set ?ks \<Longrightarrow> ?r k = keptMember plan35Keep (metadataRecord m) k" for k
    using plan35_keys [of k a] by (simp add: keptMember_def redactMember_plain cong: option.map_cong)
  show ?thesis
  proof (cases "a = PLAN35_manualCaseCreate \<and> ?h ''requestHash'' \<noteq> None")
    case True
    then obtain h where h: "?h ''requestHash'' = Some h" and a: "a = PLAN35_manualCaseCreate" by auto
    then have sha: "isSha256 h" by (auto simp: plan35Keep_def split: bind_splits if_splits)
    have mem: "''requestHash'' \<in> set ?ks" using a hash_only_on_create by blast
    have "storedMetadata a m = JObj (setMember ''requestHash'' h (tabulate ?r ?ks))"
      unfolding storedMetadata_def Let_def safe redactMetadata_tabulate using a h sha mem
      by (simp add: map_of_tabulate)
    also have "setMember ''requestHash'' h (tabulate ?r ?ks) = tabulate (?r(''requestHash'' := Some h)) ?ks"
      using h mem by (simp add: setMember_tabulate)
    also have "\<dots> = tabulate (keptMember plan35Keep (metadataRecord m)) ?ks"
      by (rule tabulate_cong) (use h same in \<open>auto simp: keptMember_def\<close>)
    finally show ?thesis .
  next
    case False
    have "storedMetadata a m = JObj (tabulate ?r ?ks)"
    proof (cases "a = PLAN35_manualCaseCreate")
      case True
      with False have "map_of (tabulate ?h ?ks) ''requestHash'' = None" by (simp add: map_of_tabulate)
      with True show ?thesis unfolding storedMetadata_def Let_def safe redactMetadata_tabulate by simp
    next
      case False
      then show ?thesis unfolding storedMetadata_def Let_def safe redactMetadata_tabulate by simp
    qed
    also have "tabulate ?r ?ks = tabulate (keptMember plan35Keep (metadataRecord m)) ?ks"
    proof (rule tabulate_cong)
      fix k assume k: "k \<in> set ?ks"
      show "?r k = keptMember plan35Keep (metadataRecord m) k"
      proof (cases "k = ''requestHash''")
        case True
        with k hash_only_on_create have "a = PLAN35_manualCaseCreate" by blast
        with False True have "?h k = None" by blast
        then show ?thesis by (simp add: keptMember_def)
      qed (rule same [OF _ k])
    qed
    finally show ?thesis .
  qed
qed

text \<open>The keys an action of a plan may carry.\<close>

definition auditKeys :: "string \<Rightarrow> string list" where
  "auditKeys a = (if isPlan35AuditAction a then listedKeys PLAN35_AUDIT_SAFE_METADATA_KEYS a
     else listedKeys PLAN36_AUDIT_SAFE_METADATA_KEYS a)"

lemma kept35: "keptMember plan35Keep ms k = Some v \<Longrightarrow> plan35Keep k v = Some v"
proof (cases "k = ''requestHash''")
  case True
  then show "keptMember plan35Keep ms k = Some v \<Longrightarrow> ?thesis"
    by (auto simp: keptMember_def plan35Keep_def split: bind_splits if_splits)
qed (auto simp: keptMember_def intro: keep35_redacted split: bind_splits)

lemma kept36: "k \<in> set plan36AuditSafeKeys \<Longrightarrow> keptMember plan36Keep ms k = Some v \<Longrightarrow> plan36Keep k v = Some v"
  using plan36_keys [of k] by (auto simp: keptMember_def intro: keep36_redacted split: bind_splits)

lemma keep_values:
  "plan35Keep k v = Some v \<Longrightarrow> scalar v \<or> (\<exists>fs. v = JArr fs \<and> list_all safeField fs)"
  "plan36Keep k v = Some v \<Longrightarrow> scalar v"
  by (auto simp: plan35Keep_def plan36Keep_def isSha256_scalar list_all_iff filter_id_conv
      split: if_splits json.splits)

text \<open>
  The trail keeps of an event of the two plans only what its action may carry: the keys stored are
  listed for the action and stand in the listed order, each value is a text, a number, a flag or the list
  of the case columns that may be named, and a row shows exactly what it stores.
\<close>

theorem audit_keeps_listed:
  assumes "isPlan35AuditAction a \<or> isPlan36AuditAction a"
  shows "\<exists>ms. storedMetadata a m = JObj ms \<and> shownMetadata a (storedMetadata a m) = ms \<and>
    map fst ms = filter (\<lambda>k. k \<in> fst ` set ms) (auditKeys a) \<and>
    list_all (\<lambda>(k, v). scalar v \<or> (\<exists>fs. v = JArr fs \<and> list_all safeField fs)) ms"
proof (cases "isPlan35AuditAction a")
  case True
  let ?h = "keptMember plan35Keep (metadataRecord m)"
  have keys: "auditKeys a = listedKeys PLAN35_AUDIT_SAFE_METADATA_KEYS a" using True by (simp add: auditKeys_def)
  have "list_all (\<lambda>(k, v). scalar v \<or> (\<exists>fs. v = JArr fs \<and> list_all safeField fs)) (tabulate ?h (auditKeys a))"
    by (rule tabulate_values) (rule keep_values(1) [OF kept35])
  moreover have "shownMetadata a (JObj (tabulate ?h (auditKeys a))) = tabulate ?h (auditKeys a)"
    using True projectKeys_tabulate [of "auditKeys a" ?h plan35Keep, OF kept35]
    by (simp add: shownMetadata_def metadataRecord_def plan35SafeAuditMetadata_def keys)
  ultimately show ?thesis
    using stored_plan35 [OF True, of m] tabulate_names [of ?h "auditKeys a"] by (simp add: keys)
next
  case False
  with assms have p: "isPlan36AuditAction a" by simp
  let ?h = "keptMember plan36Keep (metadataRecord m)"
  have keys: "auditKeys a = plan36AuditSafeKeys" using False p by (simp add: auditKeys_def listed_plan36)
  have "list_all (\<lambda>(k, v). scalar v \<or> (\<exists>fs. v = JArr fs \<and> list_all safeField fs)) (tabulate ?h plan36AuditSafeKeys)"
    by (rule tabulate_values) (use keep_values(2) kept36 in metis)
  moreover have "shownMetadata a (JObj (tabulate ?h plan36AuditSafeKeys)) = tabulate ?h plan36AuditSafeKeys"
    using False p projectKeys_tabulate [of plan36AuditSafeKeys ?h plan36Keep, OF kept36]
    by (simp add: shownMetadata_def metadataRecord_def plan36SafeAuditMetadata_def listed_plan36)
  ultimately show ?thesis
    using stored_plan36 [OF p, of m] tabulate_names [of ?h plan36AuditSafeKeys] by (simp add: keys)
qed

lemma contact_listed: "isPlan35AuditAction ''contact.message_review''"
  by (simp add: isPlan35AuditAction_def PLAN35_AUDIT_SAFE_METADATA_KEYS_def plan35_action_defs)

theorem audit_keeps_listed_witness:
  "\<exists>ms. storedMetadata ''contact.message_review'' (JObj [(''message'', JStr ''call me''), (''topic'', JStr ''media'')])
      = JObj ms \<and> map fst ms = filter (\<lambda>k. k \<in> fst ` set ms) (auditKeys ''contact.message_review'')"
  using audit_keeps_listed [of "''contact.message_review''"
      "JObj [(''message'', JStr ''call me''), (''topic'', JStr ''media'')]"]
  by (simp only: contact_listed simp_thms) blast

text \<open>
  A row id whose digits look like a telephone number is lost: the redaction of texts runs over the
  identifiers in the metadata, only the digest of a request and the correlation id are put back.
\<close>

lemma audit_id_lost:
  "redactString ''3f9c1234-5678-4012-8abc-def012345678'' = ''3f9c[REDACTED_PHONE]abc-def012345678''"
  by code_simp

end
