(* ===== verification/Governance.thy ===== *)
theory Governance
  imports AuthService AuditStore "HOL-Library.List_Lexorder" "HOL-Library.Char_ord"
begin

text \<open>
  Accounts, roles and settings: \<open>src/src/server/admin/governance-service.ts\<close> and
  \<open>role-permission-service.ts\<close>. The state is \<open>gov_db\<close>, the tables those files read and write: the
  accounts, the roles with their permission keys, the sessions, the settings and the stored audit rows.
  A change runs in one serializable transaction that is tried once; \<open>aborted\<close> says that the database
  gave it up. Bodies are parsed JSON. Generated ids, the two clock readings and the verdicts of the
  validators are arguments.
\<close>

section \<open>Tables\<close>

record role_row =
  ro_id :: string
  ro_name :: string
  ro_description :: "string option"
  ro_status :: role_status
  ro_updatedAt :: int
  ro_permissions :: "string list"

record user_row =
  ur_id :: string
  ur_email :: string
  ur_name :: string
  ur_phone :: "string option"
  ur_locale :: string
  ur_status :: user_status
  ur_roleId :: string
  ur_passwordHash :: "string option"
  ur_deletedAt :: "int option"
  ur_createdAt :: int
  ur_updatedAt :: int
  ur_clientProfile :: "(string \<times> string \<times> string) option"
  ur_lawyerProfile :: "(string \<times> string \<times> bool \<times> bool) option"

record dated_session = session +
  ds_createdAt :: int

record setting_row =
  sg_id :: string
  sg_key :: string
  sg_value :: json
  sg_updatedById :: "string option"
  sg_updatedAt :: int

text \<open>Of the cases and the tasks only who is assigned; of the permission table its keys.\<close>

record gov_db =
  gv_users :: "user_row list"
  gv_roles :: "role_row list"
  gv_permissions :: "string list"
  gv_sessions :: "dated_session list"
  gv_credentials :: "credential list"
  gv_settings :: "setting_row list"
  gv_audit :: "audit_row list"
  gv_caseLawyers :: "string list"
  gv_taskAssignees :: "string list"

record gov_platform =
  gp_env :: env
  gp_amount :: "rat \<Rightarrow> string"
  gp_isUuid :: "string \<Rightarrow> bool"
  gp_isEmail :: "string \<Rightarrow> bool"
  gp_datetime :: "string \<Rightarrow> int option"
  gp_hash :: "string \<Rightarrow> string"
  gp_contains :: "string \<Rightarrow> string \<Rightarrow> bool"
  gp_order :: "string \<Rightarrow> string \<Rightarrow> user_row list \<Rightarrow> user_row list"
  gp_issue :: "string \<Rightarrow> error_detail"

definition roleOf :: "gov_db \<Rightarrow> user_row \<Rightarrow> role_row option" where
  "roleOf db u = fetch ro_id (ur_roleId u) (gv_roles db)"

definition storeAudit :: "gov_platform \<Rightarrow> string \<Rightarrow> int \<Rightarrow> http_request option \<Rightarrow> audit_event \<Rightarrow> gov_db \<Rightarrow> gov_db" where
  "storeAudit pf auditId now request e db =
    db\<lparr>gv_audit := gv_audit db @ [auditLogCreateData (gp_env pf) (gp_amount pf) auditId now request e]\<rparr>"

definition revokeSessions :: "(dated_session \<Rightarrow> bool) \<Rightarrow> int \<Rightarrow> gov_db \<Rightarrow> gov_db" where
  "revokeSessions p now db =
    db\<lparr>gv_sessions := updateWhere (\<lambda>s. p s \<and> se_revokedAt s = None)
      (\<lambda>s. s\<lparr>se_status := S_REVOKED, se_revokedAt := Some now\<rparr>) (gv_sessions db)\<rparr>"

text \<open>One attempt of a serializable transaction.\<close>

definition serializable :: "string \<Rightarrow> bool \<Rightarrow> ('s \<Rightarrow> ('a \<times> 's) api) \<Rightarrow> 's \<Rightarrow> 'a api \<times> 's" where
  "serializable message aborted operation db =
    (if aborted then (throwApi 409 CONFLICT message, db)
     else case operation db of Inl e \<Rightarrow> (Inl e, db) | Inr (x, db') \<Rightarrow> (Inr x, db'))"


section \<open>Bodies\<close>

definition gathered :: "gov_platform \<Rightarrow> (string \<times> bool) list \<Rightarrow> error_detail list" where
  "gathered pf checks = map (\<lambda>(path, ok). gp_issue pf path) (filter (\<lambda>(path, ok). \<not> ok) checks)"

definition zTrimmed :: "nat \<Rightarrow> nat \<Rightarrow> json option \<Rightarrow> string option" where
  "zTrimmed lo hi v = (case v of
     Some (JStr s) \<Rightarrow> if lo \<le> length (jsTrim s) \<and> length (jsTrim s) \<le> hi then Some (jsTrim s) else None
   | _ \<Rightarrow> None)"

text \<open>A text of at most \<open>hi\<close> characters that may be absent.\<close>

definition zOptionalText :: "nat \<Rightarrow> json option \<Rightarrow> string option option" where
  "zOptionalText hi v = (case v of None \<Rightarrow> Some None | Some j \<Rightarrow> map_option Some (zTrimmed 0 hi (Some j)))"

definition zUuid :: "gov_platform \<Rightarrow> json option \<Rightarrow> string option" where
  "zUuid pf v = (case v of Some (JStr s) \<Rightarrow> if gp_isUuid pf s then Some s else None | _ \<Rightarrow> None)"

definition zDatetime :: "gov_platform \<Rightarrow> json option \<Rightarrow> int option" where
  "zDatetime pf v = (case v of Some (JStr s) \<Rightarrow> gp_datetime pf s | _ \<Rightarrow> None)"

definition zEmail :: "gov_platform \<Rightarrow> json option \<Rightarrow> string option" where
  "zEmail pf v = (case v of
     Some (JStr s) \<Rightarrow> if gp_isEmail pf (jsTrim s) \<and> length (jsTrim s) \<le> 254 then Some (jsLower (jsTrim s)) else None
   | _ \<Rightarrow> None)"

definition zLocale :: "json option \<Rightarrow> string option" where
  "zLocale v = (case v of None \<Rightarrow> Some ''ar''
   | Some (JStr s) \<Rightarrow> if s = ''ar'' \<or> s = ''en'' then Some s else None | _ \<Rightarrow> None)"

definition zStatus :: "json option \<Rightarrow> user_status option" where
  "zStatus v = (case v of
     Some (JStr s) \<Rightarrow> (if s = ''INVITED'' then Some U_INVITED else if s = ''ACTIVE'' then Some U_ACTIVE
       else if s = ''SUSPENDED'' then Some U_SUSPENDED else if s = ''DELETED'' then Some U_DELETED else None)
   | _ \<Rightarrow> None)"

definition zPassword :: "json option \<Rightarrow> string option" where
  "zPassword v = (case v of Some (JStr s) \<Rightarrow> if 10 \<le> length s \<and> length s \<le> 256 then Some s else None | _ \<Rightarrow> None)"

definition zBoolean :: "bool \<Rightarrow> json option \<Rightarrow> bool" where
  "zBoolean absent v = (case v of None \<Rightarrow> absent | Some j \<Rightarrow> truthy j)"

definition onlyKeys :: "string list \<Rightarrow> json \<Rightarrow> bool" where
  "onlyKeys keys body = (case body of JObj ms \<Rightarrow> list_all (\<lambda>m. fst m \<in> set keys) ms | _ \<Rightarrow> False)"

record user_update =
  uu_name :: string
  uu_phone :: "string option"
  uu_roleId :: string
  uu_status :: user_status
  uu_locale :: string
  uu_updatedAt :: int

definition adminUserUpdateSchema :: "gov_platform \<Rightarrow> json \<Rightarrow> error_detail list + user_update" where
  "adminUserUpdateSchema pf body =
    (let name = zTrimmed 2 120 (memberOf body ''name''); phone = zOptionalText 40 (memberOf body ''phone'');
         role = zUuid pf (memberOf body ''roleId''); status = zStatus (memberOf body ''status'');
         locale = zLocale (memberOf body ''locale''); updated = zDatetime pf (memberOf body ''updatedAt'');
         issues = gathered pf
           [(''name'', name \<noteq> None), (''phone'', phone \<noteq> None), (''roleId'', role \<noteq> None), (''status'', status \<noteq> None),
            (''locale'', locale \<noteq> None), (''updatedAt'', updated \<noteq> None),
            ('''', onlyKeys [''name'', ''phone'', ''roleId'', ''status'', ''locale'', ''updatedAt''] body)]
     in if issues \<noteq> [] then Inl issues
        else Inr \<lparr>uu_name = the name, uu_phone = the phone, uu_roleId = the role, uu_status = the status,
                  uu_locale = the locale, uu_updatedAt = the updated\<rparr>)"

record user_create =
  uc_name :: string
  uc_email :: string
  uc_phone :: "string option"
  uc_roleId :: string
  uc_status :: user_status
  uc_locale :: string
  uc_password :: string

definition adminUserCreateSchema :: "gov_platform \<Rightarrow> json \<Rightarrow> error_detail list + user_create" where
  "adminUserCreateSchema pf body =
    (let name = zTrimmed 2 120 (memberOf body ''name''); email = zEmail pf (memberOf body ''email'');
         phone = zOptionalText 40 (memberOf body ''phone''); role = zUuid pf (memberOf body ''roleId'');
         status = (case memberOf body ''status'' of None \<Rightarrow> Some U_ACTIVE | Some j \<Rightarrow> zStatus (Some j));
         locale = zLocale (memberOf body ''locale''); password = zPassword (memberOf body ''password'');
         issues = gathered pf
           [(''name'', name \<noteq> None), (''email'', email \<noteq> None), (''phone'', phone \<noteq> None), (''roleId'', role \<noteq> None),
            (''status'', status \<noteq> None), (''locale'', locale \<noteq> None), (''password'', password \<noteq> None)]
     in if issues \<noteq> [] then Inl issues
        else Inr \<lparr>uc_name = the name, uc_email = the email, uc_phone = the phone, uc_roleId = the role,
                  uc_status = the status, uc_locale = the locale, uc_password = the password\<rparr>)"

record password_update =
  pu_password :: string
  pu_revokeSessions :: bool
  pu_updatedAt :: int

definition adminUserPasswordUpdateSchema :: "gov_platform \<Rightarrow> json \<Rightarrow> error_detail list + password_update" where
  "adminUserPasswordUpdateSchema pf body =
    (let password = zPassword (memberOf body ''password''); updated = zDatetime pf (memberOf body ''updatedAt'');
         issues = gathered pf [(''password'', password \<noteq> None), (''updatedAt'', updated \<noteq> None),
           ('''', onlyKeys [''password'', ''revokeSessions'', ''updatedAt''] body)]
     in if issues \<noteq> [] then Inl issues
        else Inr \<lparr>pu_password = the password, pu_revokeSessions = zBoolean True (memberOf body ''revokeSessions''),
                  pu_updatedAt = the updated\<rparr>)"

definition stringsOf :: "json option \<Rightarrow> string list option" where
  "stringsOf v = (case v of
     Some (JArr vs) \<Rightarrow> those (map (\<lambda>j. case j of JStr s \<Rightarrow> Some s | _ \<Rightarrow> None) vs) | _ \<Rightarrow> None)"

definition rolePermissionUpdateSchema :: "gov_platform \<Rightarrow> json \<Rightarrow> error_detail list + string list \<times> int" where
  "rolePermissionUpdateSchema pf body =
    (let keys = stringsOf (memberOf body ''permissionKeys''); updated = zDatetime pf (memberOf body ''updatedAt'');
         issues = gathered pf
           [(''permissionKeys'', case keys of None \<Rightarrow> False
              | Some ks \<Rightarrow> list_all (\<lambda>k. k \<in> set ALL_PERMISSIONS) ks \<and> length ks \<le> length ALL_PERMISSIONS \<and> distinct ks),
            (''updatedAt'', updated \<noteq> None), ('''', onlyKeys [''permissionKeys'', ''updatedAt''] body)]
     in if issues \<noteq> [] then Inl issues else Inr (the keys, the updated))"


section \<open>Who may act\<close>

definition editableRoleNames :: "string list" where
  "editableRoleNames = [ROLE_lawyer, ROLE_secretary, ROLE_officeAdmin, ROLE_marketingStaff]"

definition protectedRoleNames :: "string list" where
  "protectedRoleNames = [ROLE_guest, ROLE_client, ROLE_superAdmin]"

definition canonicalRoleNames :: "string list" where
  "canonicalRoleNames = [ROLE_guest, ROLE_client, ROLE_lawyer, ROLE_secretary, ROLE_officeAdmin,
     ROLE_marketingStaff, ROLE_superAdmin]"

definition rolePermissionsWithinCeiling :: "string list \<Rightarrow> string list \<Rightarrow> bool" where
  "rolePermissionsWithinCeiling actorKeys candidateKeys = list_all (\<lambda>k. k \<in> set actorKeys) candidateKeys"

definition permissionKeysForRole :: "role_row \<Rightarrow> string list" where
  "permissionKeysForRole role = (if ro_name role = ROLE_superAdmin then [''*''] else ro_permissions role)"

definition exactSuperAdmin :: "principal \<Rightarrow> bool" where
  "exactSuperAdmin actor = (pr_roleName actor = ROLE_superAdmin)"

definition canManageAdminUsers :: "principal \<Rightarrow> bool" where
  "canManageAdminUsers actor = hasPermission actor ''user.manage.any''"

definition canCreateAdminUsers :: "principal \<Rightarrow> bool" where
  "canCreateAdminUsers actor = (pr_roleName actor = ROLE_superAdmin \<and> hasPermission actor ''user.manage.any'')"

definition canChangeAdminUserPassword :: "principal \<Rightarrow> bool" where
  "canChangeAdminUserPassword actor = (pr_roleName actor = ROLE_superAdmin \<and> hasPermission actor ''user.manage.any'')"

definition canManageAdminSettings :: "principal \<Rightarrow> bool" where
  "canManageAdminSettings actor = hasPermission actor ''settings.manage.any''"

definition canManageRolePermissions :: "principal \<Rightarrow> bool" where
  "canManageRolePermissions actor =
    (pr_roleName actor = ROLE_superAdmin \<and> hasPermission actor ''role.manage.any'' \<and>
     hasPermission actor ''permission.manage.any'')"

definition denied :: "string \<Rightarrow> api_error" where
  "denied message = apiError 403 PERMISSION_DENIED message"

definition assertUserManagePermission :: "principal \<Rightarrow> unit api" where
  "assertUserManagePermission actor =
    require (canManageAdminUsers actor) (denied ''User management permission is required.'')"

definition assertUserCreatePermission :: "principal \<Rightarrow> unit api" where
  "assertUserCreatePermission actor =
    require (canCreateAdminUsers actor) (denied ''Only Super Admin can create user email accounts.'')"

definition assertPasswordChangePermission :: "principal \<Rightarrow> unit api" where
  "assertPasswordChangePermission actor =
    require (canChangeAdminUserPassword actor) (denied ''Only Super Admin can change user passwords.'')"

definition assertAdminSettingsManagePermission :: "principal \<Rightarrow> unit api" where
  "assertAdminSettingsManagePermission actor =
    require (canManageAdminSettings actor) (denied ''Settings management permission is required.'')"

definition assertRolePermissionManager :: "principal \<Rightarrow> unit api" where
  "assertRolePermissionManager actor =
    require (canManageRolePermissions actor)
      (denied ''Exact Super Admin role and both role and permission management permissions are required.'')"

text \<open>An active account whose active role meets \<open>p\<close>, and the principal the database knows.\<close>

definition activeUserWith :: "(role_row \<Rightarrow> bool) \<Rightarrow> gov_db \<Rightarrow> user_row \<Rightarrow> bool" where
  "activeUserWith p db u =
    (ur_status u = U_ACTIVE \<and> ur_deletedAt u = None \<and>
     (case roleOf db u of None \<Rightarrow> False | Some role \<Rightarrow> ro_status role = R_ACTIVE \<and> p role))"

definition isSuperRole :: "role_row \<Rightarrow> bool" where
  "isSuperRole role = (ro_name role = ROLE_superAdmin)"

definition livePrincipal :: "user_row \<Rightarrow> role_row \<Rightarrow> principal" where
  "livePrincipal u role =
    \<lparr>pr_id = ur_id u, pr_roleName = ro_name role, pr_permissions = Some (permissionKeysForRole role), pr_clientId = None\<rparr>"

definition principalOf :: "gov_db \<Rightarrow> user_row \<Rightarrow> principal option" where
  "principalOf db u = map_option (livePrincipal u) (roleOf db u)"

text \<open>The account behind an open session of the actor, with an active role that meets \<open>p\<close>.\<close>

definition liveSessionActor ::
  "(role_row \<Rightarrow> bool) \<Rightarrow> string \<Rightarrow> principal \<Rightarrow> string \<Rightarrow> int \<Rightarrow> gov_db \<Rightarrow> principal api" where
  "liveSessionActor p message actor actorSessionId now db =
    (case find (\<lambda>s. se_id s = actorSessionId \<and> se_userId s = pr_id actor \<and> se_status s = S_ACTIVE \<and>
           se_revokedAt s = None \<and> now < se_expiresAt s) (gv_sessions db) of
       None \<Rightarrow> Inl (denied message)
     | Some s \<Rightarrow>
       (case fetch ur_id (se_userId s) (gv_users db) of
          None \<Rightarrow> Inl (denied message)
        | Some u \<Rightarrow> if activeUserWith p db u
            then (case principalOf db u of None \<Rightarrow> Inl (denied message) | Some q \<Rightarrow> Inr q)
            else Inl (denied message)))"

definition liveSettingsActor :: "principal \<Rightarrow> string \<Rightarrow> int \<Rightarrow> gov_db \<Rightarrow> principal api" where
  "liveSettingsActor actor actorSessionId now db =
    andThen (liveSessionActor (\<lambda>_. True) ''An active settings-management session is required.'' actor actorSessionId now db)
      (\<lambda>q. andThen (assertAdminSettingsManagePermission q) (\<lambda>_. Inr q))"

definition liveSensitiveAdminActor :: "principal \<Rightarrow> string \<Rightarrow> int \<Rightarrow> gov_db \<Rightarrow> principal api" where
  "liveSensitiveAdminActor actor actorSessionId now db =
    liveSessionActor isSuperRole ''An active exact Super Admin session is required.'' actor actorSessionId now db"

definition assertLiveExactSuperAdmin :: "principal \<Rightarrow> gov_db \<Rightarrow> unit api" where
  "assertLiveExactSuperAdmin actor db =
    require (list_ex (\<lambda>u. ur_id u = pr_id actor \<and> activeUserWith isSuperRole db u) (gv_users db))
      (denied ''An active exact Super Admin account is required.'')"

text \<open>\<open>actor.permissions ?? []\<close>.\<close>

definition ownKeys :: "principal \<Rightarrow> string list" where
  "ownKeys actor = (case pr_permissions actor of None \<Rightarrow> [] | Some ks \<Rightarrow> ks)"

definition delegatedCanTarget :: "principal \<Rightarrow> role_row \<Rightarrow> bool" where
  "delegatedCanTarget actor role =
    (ro_status role = R_ACTIVE \<and> ro_name role \<in> set editableRoleNames \<and>
     rolePermissionsWithinCeiling (ownKeys actor) (permissionKeysForRole role))"

definition assignable :: "role_row option \<Rightarrow> role_row api" where
  "assignable role =
    (case role of None \<Rightarrow> throwApi 400 VALIDATION_ERROR ''Role is invalid.''
     | Some r \<Rightarrow> if ro_status r \<noteq> R_ACTIVE \<or> ro_name r = ROLE_guest \<or> ro_name r \<notin> set canonicalRoleNames
         then throwApi 400 VALIDATION_ERROR ''Role is invalid.'' else Inr r)"

definition assignableRole :: "string \<Rightarrow> gov_db \<Rightarrow> role_row api" where
  "assignableRole roleId db = assignable (fetch ro_id roleId (gv_roles db))"


section \<open>What an administrator sees of an account\<close>

record user_item =
  ui_id :: string
  ui_email :: string
  ui_name :: string
  ui_phone :: "string option"
  ui_locale :: string
  ui_status :: user_status
  ui_createdAt :: string
  ui_updatedAt :: string
  ui_roleId :: string
  ui_roleName :: string
  ui_twoFactor :: "(recovery_state \<times> string option \<times> string option) option"
  ui_sessions :: nat
  ui_auditLogs :: nat
  ui_assignedCases :: nat
  ui_assignedTasks :: nat

record safe_session =
  ss_id :: string
  ss_status :: session_status
  ss_twoFactorVerifiedAt :: "string option"
  ss_expiresAt :: string
  ss_revokedAt :: "string option"
  ss_ipAddress :: "string option"
  ss_createdAt :: string

record safe_audit =
  sa_id :: string
  sa_action :: string
  sa_resourceType :: string
  sa_resourceId :: "string option"
  sa_metadata :: json
  sa_actor :: "string \<times> string"
  sa_createdAt :: string

record user_detail =
  ud_base :: user_item
  ud_rolePermissionKeys :: "string list"
  ud_sessions :: "safe_session list"
  ud_audit :: "safe_audit list"
  ud_clientProfile :: "(string \<times> string \<times> string) option"
  ud_lawyerProfile :: "(string \<times> string \<times> bool \<times> bool) option"

text \<open>An account is read with its role, which a foreign key provides.\<close>

definition toAdminUserListItem :: "gov_db \<Rightarrow> user_row \<Rightarrow> role_row \<Rightarrow> user_item" where
  "toAdminUserListItem db u role =
    \<lparr>ui_id = ur_id u, ui_email = ur_email u, ui_name = ur_name u, ui_phone = ur_phone u, ui_locale = ur_locale u,
     ui_status = ur_status u, ui_createdAt = isoText (ur_createdAt u), ui_updatedAt = isoText (ur_updatedAt u),
     ui_roleId = ro_id role, ui_roleName = ro_name role,
     ui_twoFactor = map_option (\<lambda>c. (cr_recoveryState c, map_option isoText (cr_enabledAt c),
         map_option isoText (cr_lastVerifiedAt c))) (fetch cr_userId (ur_id u) (gv_credentials db)),
     ui_sessions = length (filter (\<lambda>s. se_userId s = ur_id u) (gv_sessions db)),
     ui_auditLogs = length (filter (\<lambda>a. aw_actorId a = Some (ur_id u)) (gv_audit db)),
     ui_assignedCases = length (filter (\<lambda>i. i = ur_id u) (gv_caseLawyers db)),
     ui_assignedTasks = length (filter (\<lambda>i. i = ur_id u) (gv_taskAssignees db))\<rparr>"

text \<open>The newest eight.\<close>

definition newestEight :: "('r \<Rightarrow> int) \<Rightarrow> 'r list \<Rightarrow> 'r list" where
  "newestEight made rows = take 8 (rev (sort_key made rows))"

definition toAdminUserDetail :: "gov_db \<Rightarrow> user_row \<Rightarrow> role_row \<Rightarrow> user_detail" where
  "toAdminUserDetail db u role =
    \<lparr>ud_base = toAdminUserListItem db u role, ud_rolePermissionKeys = sort (ro_permissions role),
     ud_sessions = map (\<lambda>s. \<lparr>ss_id = se_id s, ss_status = se_status s,
         ss_twoFactorVerifiedAt = map_option isoText (se_twoFactorVerifiedAt s), ss_expiresAt = isoText (se_expiresAt s),
         ss_revokedAt = map_option isoText (se_revokedAt s), ss_ipAddress = se_ipAddress s,
         ss_createdAt = isoText (ds_createdAt s)\<rparr>)
       (newestEight ds_createdAt (filter (\<lambda>s. se_userId s = ur_id u) (gv_sessions db))),
     ud_audit = map (\<lambda>a. \<lparr>sa_id = aw_id a, sa_action = aw_action a, sa_resourceType = aw_resourceType a,
         sa_resourceId = aw_resourceId a, sa_metadata = redactMetadata (aw_metadata a),
         sa_actor = (ur_name u, ro_name role), sa_createdAt = isoText (aw_createdAt a)\<rparr>)
       (newestEight aw_createdAt (filter (\<lambda>a. aw_actorId a = Some (ur_id u)) (gv_audit db))),
     ud_clientProfile = ur_clientProfile u, ud_lawyerProfile = ur_lawyerProfile u\<rparr>"

record user_query =
  uq_q :: "string option"
  uq_roleId :: "string option"
  uq_status :: "user_status option"
  uq_twoFactorState :: "recovery_state option"
  uq_sortBy :: string
  uq_sortDirection :: string
  uq_page :: int
  uq_pageSize :: int

definition adminUserListQuerySchema :: "gov_platform \<Rightarrow> user_query \<Rightarrow> error_detail list + user_query" where
  "adminUserListQuerySchema pf raw =
    (let q = map_option jsTrim (uq_q raw);
         issues = gathered pf
           [(''q'', case q of None \<Rightarrow> True | Some t \<Rightarrow> length t \<le> 120),
            (''roleId'', case nonEmpty (uq_roleId raw) of None \<Rightarrow> True | Some i \<Rightarrow> gp_isUuid pf i),
            (''sortBy'', uq_sortBy raw \<in> {''createdAt'', ''updatedAt'', ''name'', ''email'', ''status''}),
            (''sortDirection'', uq_sortDirection raw \<in> {''asc'', ''desc''}),
            (''page'', 1 \<le> uq_page raw), (''pageSize'', 1 \<le> uq_pageSize raw \<and> uq_pageSize raw \<le> 80)]
     in if issues \<noteq> [] then Inl issues else Inr (raw\<lparr>uq_q := q\<rparr>))"

definition userListWhere :: "gov_platform \<Rightarrow> gov_db \<Rightarrow> user_query \<Rightarrow> string list option \<Rightarrow> user_row \<Rightarrow> bool" where
  "userListWhere pf db f allowedRoleIds u =
    ((case allowedRoleIds of None \<Rightarrow> True | Some ids \<Rightarrow> ur_roleId u \<in> set ids) \<and>
     (case uq_status f of None \<Rightarrow> True | Some st \<Rightarrow> ur_status u = st) \<and>
     (case nonEmpty (uq_roleId f) of None \<Rightarrow> True | Some i \<Rightarrow> ur_roleId u = i) \<and>
     (case uq_twoFactorState f of None \<Rightarrow> True
      | Some st \<Rightarrow> map_option cr_recoveryState (fetch cr_userId (ur_id u) (gv_credentials db)) = Some st) \<and>
     (case nonEmpty (map_option jsTrim (uq_q f)) of None \<Rightarrow> True
      | Some t \<Rightarrow> gp_contains pf t (ur_name u) \<or> gp_contains pf t (ur_email u) \<or>
          (case ur_phone u of None \<Rightarrow> False | Some p \<Rightarrow> gp_contains pf t p) \<or>
          (case roleOf db u of None \<Rightarrow> False | Some r \<Rightarrow> gp_contains pf t (ro_name r))))"

definition delegatedRoleIds :: "principal \<Rightarrow> gov_db \<Rightarrow> string list option" where
  "delegatedRoleIds actor db =
    (if exactSuperAdmin actor then None
     else Some (map ro_id (filter (\<lambda>r. rolePermissionsWithinCeiling (ownKeys actor) (permissionKeysForRole r))
       (filter (\<lambda>r. ro_status r = R_ACTIVE \<and> ro_name r \<in> set editableRoleNames) (gv_roles db)))))"

text \<open>\<open>gp_order\<close> is the order of the database, by the column and the direction asked for.\<close>

definition listAdminUsers ::
  "gov_platform \<Rightarrow> principal \<Rightarrow> user_query \<Rightarrow> gov_db \<Rightarrow> (user_item list \<times> nat \<times> pagination) api" where
  "listAdminUsers pf actor query db =
    andThen (assertUserManagePermission actor) (\<lambda>_.
    andThen (parseWithSchema (adminUserListQuerySchema pf) query ''User list query is invalid.'') (\<lambda>f.
    let pg = toPagination (Some (uq_page f)) (Some (uq_pageSize f));
        rows = filter (userListWhere pf db f (delegatedRoleIds actor db)) (gv_users db);
        sorted = gp_order pf (uq_sortBy f) (uq_sortDirection f) rows
    in Inr (concat (map (\<lambda>u. case roleOf db u of None \<Rightarrow> [] | Some r \<Rightarrow> [toAdminUserListItem db u r])
              (take (nat (pg_take pg)) (drop (nat (pg_skip pg)) sorted))),
            length rows, pg)))"

definition getAdminUserOptions :: "principal \<Rightarrow> gov_db \<Rightarrow> (string \<times> string \<times> string option) list api" where
  "getAdminUserOptions actor db =
    andThen (assertUserManagePermission actor) (\<lambda>_.
    Inr (map (\<lambda>r. (ro_id r, ro_name r, ro_description r))
      (filter (\<lambda>r. exactSuperAdmin actor \<or> rolePermissionsWithinCeiling (ownKeys actor) (permissionKeysForRole r))
        (sort_key ro_name (filter (\<lambda>r. ro_status r = R_ACTIVE \<and>
            (if exactSuperAdmin actor then ro_name r \<in> set canonicalRoleNames \<and> ro_name r \<noteq> ROLE_guest
             else ro_name r \<in> set editableRoleNames)) (gv_roles db))))))"

definition userMissing :: api_error where
  "userMissing = apiError 404 NOT_FOUND ''User was not found.''"

text \<open>The account and the role of an id, as far as the actor may see it.\<close>

definition targetOf :: "bool \<Rightarrow> principal \<Rightarrow> string \<Rightarrow> gov_db \<Rightarrow> (user_row \<times> role_row) api" where
  "targetOf super actor userId db =
    (case fetch ur_id userId (gv_users db) of
       None \<Rightarrow> Inl userMissing
     | Some u \<Rightarrow>
       (case roleOf db u of
          None \<Rightarrow> Inl userMissing
        | Some role \<Rightarrow> if \<not> super \<and> \<not> delegatedCanTarget actor role then Inl userMissing else Inr (u, role)))"

definition uuidText :: "gov_platform \<Rightarrow> string \<Rightarrow> string \<Rightarrow> string api" where
  "uuidText pf i message = parseWithSchema (\<lambda>i. if gp_isUuid pf i then Inr i else Inl [gp_issue pf '''']) i message"

definition getAdminUserDetail :: "gov_platform \<Rightarrow> principal \<Rightarrow> string \<Rightarrow> gov_db \<Rightarrow> user_detail api" where
  "getAdminUserDetail pf actor userId db =
    andThen (assertUserManagePermission actor) (\<lambda>_.
    andThen (uuidText pf userId ''User id is invalid.'') (\<lambda>i.
    andThen (targetOf (exactSuperAdmin actor) actor i db) (\<lambda>(u, role).
    Inr (toAdminUserDetail db u role))))"


section \<open>Creating an account\<close>

definition freshEmail :: "string \<Rightarrow> gov_db \<Rightarrow> unit api" where
  "freshEmail email db =
    require (email \<notin> ur_email ` set (gv_users db)) (apiError 409 CONFLICT ''A user with this email already exists.'')"

text \<open>The ids a request generates: of the row and of its audit row.\<close>

record gov_ids =
  gi_row :: string
  gi_audit :: string

definition statusText :: "user_status \<Rightarrow> string" where
  "statusText st = (case st of U_INVITED \<Rightarrow> ''INVITED'' | U_ACTIVE \<Rightarrow> ''ACTIVE'' | U_SUSPENDED \<Rightarrow> ''SUSPENDED''
     | U_DELETED \<Rightarrow> ''DELETED'')"

definition createdUser :: "gov_platform \<Rightarrow> int \<Rightarrow> string \<Rightarrow> user_create \<Rightarrow> role_row \<Rightarrow> user_row" where
  "createdUser pf now newId body role =
    \<lparr>ur_id = newId, ur_email = uc_email body, ur_name = uc_name body, ur_phone = nonEmpty (uc_phone body),
     ur_locale = uc_locale body, ur_status = uc_status body, ur_roleId = ro_id role,
     ur_passwordHash = Some (gp_hash pf (uc_password body)),
     ur_deletedAt = (if uc_status body = U_DELETED then Some now else None), ur_createdAt = now, ur_updatedAt = now,
     ur_clientProfile = None, ur_lawyerProfile = None\<rparr>"

definition createUserOperation ::
  "gov_platform \<Rightarrow> int \<Rightarrow> gov_ids \<Rightarrow> http_request option \<Rightarrow> principal \<Rightarrow> string \<Rightarrow> user_create \<Rightarrow> gov_db \<Rightarrow>
   (user_item \<times> gov_db) api" where
  "createUserOperation pf now ids request actor actorSessionId body db =
    andThen (liveSensitiveAdminActor actor actorSessionId now db) (\<lambda>live.
    andThen (assertUserCreatePermission live) (\<lambda>_.
    andThen (assignableRole (uc_roleId body) db) (\<lambda>role.
    andThen (freshEmail (uc_email body) db) (\<lambda>_.
    let created = createdUser pf now (gi_row ids) body role
    in andThen (insertRow ''users'' ur_id created (gv_users db)) (\<lambda>users.
       let db1 = db\<lparr>gv_users := users\<rparr>
       in Inr (toAdminUserListItem db1 created role,
            storeAudit pf (gi_audit ids) now request
              (auditEvent (Some (pr_id actor)) ''user.create'' ''User'' (Some (ur_id created))
                [(''role'', MText (ro_name role)), (''status'', MText (statusText (ur_status created))),
                 (''locale'', MText (ur_locale created)), (''passwordSetBySuperAdmin'', MFlag True),
                 (''emailDelivery'', MText ''disabled'')]) db1))))))"

definition createAdminUser ::
  "gov_platform \<Rightarrow> bool \<Rightarrow> int \<Rightarrow> gov_ids \<Rightarrow> http_request option \<Rightarrow> principal \<Rightarrow> string \<Rightarrow> json \<Rightarrow> gov_db \<Rightarrow>
   user_item api \<times> gov_db" where
  "createAdminUser pf aborted now ids request actor sessionId rawBody db =
    (case andThen (assertUserCreatePermission actor) (\<lambda>_.
          andThen (uuidText pf sessionId ''Session id is invalid.'') (\<lambda>sid.
          andThen (parseWithSchema (adminUserCreateSchema pf) rawBody ''User create payload is invalid.'') (\<lambda>body.
          andThen (assignableRole (uc_roleId body) db) (\<lambda>_.
          andThen (freshEmail (uc_email body) db) (\<lambda>_. Inr (sid, body)))))) of
       Inl e \<Rightarrow> (Inl e, db)
     | Inr (sid, body) \<Rightarrow>
       serializable ''User access changed concurrently. Reload and try again.'' aborted
         (createUserOperation pf now ids request actor sid body) db)"


section \<open>Changing an account\<close>

definition isActiveSuper :: "gov_db \<Rightarrow> user_row \<Rightarrow> bool" where
  "isActiveSuper db u = activeUserWith isSuperRole db u"

text \<open>The account of the actor as the database has it, and whether he is the Super Admin in both places.\<close>

definition liveManager :: "principal \<Rightarrow> gov_db \<Rightarrow> (principal \<times> bool) api" where
  "liveManager actor db =
    (case find (\<lambda>u. ur_id u = pr_id actor \<and> activeUserWith (\<lambda>_. True) db u) (gv_users db) of
       None \<Rightarrow> Inl (denied ''An active user manager account is required.'')
     | Some u \<Rightarrow>
       (case principalOf db u of
          None \<Rightarrow> Inl (denied ''An active user manager account is required.'')
        | Some live \<Rightarrow>
          andThen (require (hasPermission live ''user.manage.any'') (denied ''User management permission is required.''))
            (\<lambda>_. Inr (live, pr_roleName actor = ROLE_superAdmin \<and> pr_roleName live = ROLE_superAdmin))))"

definition roleMayBeGiven :: "bool \<Rightarrow> principal \<Rightarrow> role_row \<Rightarrow> unit api" where
  "roleMayBeGiven super live role =
    (if super then Inr ()
     else andThen (require (ro_name role \<notin> set protectedRoleNames) (denied ''Only Super Admin can assign a protected role.''))
       (\<lambda>_. require (delegatedCanTarget live role) (denied ''The selected role exceeds your permission ceiling.'')))"

definition superRemains :: "user_row \<Rightarrow> role_row \<Rightarrow> user_status \<Rightarrow> role_row \<Rightarrow> gov_db \<Rightarrow> unit api" where
  "superRemains u role status nextRole db =
    (if ur_status u = U_ACTIVE \<and> ur_deletedAt u = None \<and> isSuperRole role \<and>
        (status \<noteq> U_ACTIVE \<or> \<not> isSuperRole nextRole)
     then require (list_ex (\<lambda>v. ur_id v \<noteq> ur_id u \<and> isActiveSuper db v) (gv_users db))
       (apiError 409 CONFLICT ''The final active Super Admin account cannot be changed.'')
     else Inr ())"

definition staleUser :: api_error where
  "staleUser = apiError 409 CONFLICT ''User data changed after this form was loaded.''"

text \<open>\<open>updateMany\<close> on the id and the version the form was loaded with.\<close>

definition claimUser :: "string \<Rightarrow> int \<Rightarrow> (user_row \<Rightarrow> user_row) \<Rightarrow> gov_db \<Rightarrow> gov_db api" where
  "claimUser userId version f db =
    andThen (require (length (filter (\<lambda>u. ur_id u = userId \<and> ur_updatedAt u = version) (gv_users db)) = 1) staleUser)
      (\<lambda>_. Inr (db\<lparr>gv_users := updateWhere (\<lambda>u. ur_id u = userId \<and> ur_updatedAt u = version) f (gv_users db)\<rparr>))"

definition updatedUser :: "int \<Rightarrow> user_update \<Rightarrow> role_row \<Rightarrow> user_row \<Rightarrow> user_row" where
  "updatedUser now body nextRole u =
    u\<lparr>ur_name := uu_name body, ur_phone := nonEmpty (uu_phone body), ur_roleId := ro_id nextRole,
      ur_status := uu_status body, ur_locale := uu_locale body,
      ur_deletedAt := (if uu_status body = U_DELETED then Some now else None), ur_updatedAt := now\<rparr>"

definition accessChanged :: "user_row \<Rightarrow> role_row \<Rightarrow> user_update \<Rightarrow> role_row \<Rightarrow> bool" where
  "accessChanged u role body nextRole \<longleftrightarrow>
     ro_id role \<noteq> ro_id nextRole \<or> ur_status u \<noteq> uu_status body \<or>
     (ur_deletedAt u \<noteq> None) \<noteq> (uu_status body = U_DELETED)"

definition updateUserOperation ::
  "gov_platform \<Rightarrow> int \<Rightarrow> gov_ids \<Rightarrow> http_request option \<Rightarrow> principal \<Rightarrow> string \<Rightarrow> user_update \<Rightarrow> gov_db \<Rightarrow>
   (user_detail \<times> gov_db) api" where
  "updateUserOperation pf now ids request actor userId body db =
    andThen (liveManager actor db) (\<lambda>(live, super).
    andThen (targetOf super live userId db) (\<lambda>(u, role).
    andThen (assignableRole (uu_roleId body) db) (\<lambda>nextRole.
    andThen (roleMayBeGiven super live nextRole) (\<lambda>_.
    andThen (superRemains u role (uu_status body) nextRole db) (\<lambda>_.
    andThen (claimUser (ur_id u) (uu_updatedAt body) (updatedUser now body nextRole) db) (\<lambda>db1.
    let changed = accessChanged u role body nextRole;
        db2 = (if changed then revokeSessions (\<lambda>s. se_userId s = ur_id u) now db1 else db1);
        db3 = storeAudit pf (gi_audit ids) now request
          (auditEvent (Some (pr_id actor)) ''user.update'' ''User'' (Some (ur_id u))
            [(''previousStatus'', MText (statusText (ur_status u))), (''status'', MText (statusText (uu_status body))),
             (''locale'', MText (uu_locale body)), (''roleChanged'', MFlag (ro_id role \<noteq> ro_id nextRole)),
             (''sessionsRevoked'', MFlag changed)]) db2
    in andThen (targetOf True actor (ur_id u) db3) (\<lambda>(v, r). Inr (toAdminUserDetail db3 v r, db3))))))))"

definition updateAdminUser ::
  "gov_platform \<Rightarrow> bool \<Rightarrow> int \<Rightarrow> gov_ids \<Rightarrow> http_request option \<Rightarrow> principal \<Rightarrow> string \<Rightarrow> json \<Rightarrow> gov_db \<Rightarrow>
   user_detail api \<times> gov_db" where
  "updateAdminUser pf aborted now ids request actor rawUserId rawBody db =
    (case andThen (assertUserManagePermission actor) (\<lambda>_.
          andThen (uuidText pf rawUserId ''User id is invalid.'') (\<lambda>i.
          andThen (parseWithSchema (adminUserUpdateSchema pf) rawBody ''User payload is invalid.'') (\<lambda>body.
          Inr (i, body)))) of
       Inl e \<Rightarrow> (Inl e, db)
     | Inr (i, body) \<Rightarrow>
       serializable ''User access changed concurrently. Reload and try again.'' aborted
         (updateUserOperation pf now ids request actor i body) db)"

record password_answer =
  pw_id :: string
  pw_sessionsRevoked :: bool
  pw_updatedAt :: string

definition updatePasswordOperation ::
  "gov_platform \<Rightarrow> int \<Rightarrow> gov_ids \<Rightarrow> http_request option \<Rightarrow> principal \<Rightarrow> string \<Rightarrow> string \<Rightarrow> password_update \<Rightarrow> gov_db \<Rightarrow>
   (password_answer \<times> gov_db) api" where
  "updatePasswordOperation pf now ids request actor actorSessionId userId body db =
    andThen (liveSensitiveAdminActor actor actorSessionId now db) (\<lambda>live.
    andThen (assertPasswordChangePermission live) (\<lambda>_.
    andThen (targetOf True actor userId db) (\<lambda>(u, role).
    andThen (claimUser (ur_id u) (pu_updatedAt body)
      (\<lambda>v. v\<lparr>ur_passwordHash := Some (gp_hash pf (pu_password body)), ur_updatedAt := now\<rparr>) db) (\<lambda>db1.
    let db2 = (if pu_revokeSessions body
               then revokeSessions (\<lambda>s. se_userId s = ur_id u \<and> (pr_id actor = ur_id u \<longrightarrow> se_id s \<noteq> actorSessionId)) now db1
               else db1)
    in Inr (\<lparr>pw_id = ur_id u, pw_sessionsRevoked = pu_revokeSessions body, pw_updatedAt = isoText now\<rparr>,
         storeAudit pf (gi_audit ids) now request
           (auditEvent (Some (pr_id actor)) ''user.password.update'' ''User'' (Some (ur_id u))
             [(''role'', MText (ro_name role)), (''revokeSessions'', MFlag (pu_revokeSessions body))]) db2)))))"

definition updateAdminUserPassword ::
  "gov_platform \<Rightarrow> bool \<Rightarrow> int \<Rightarrow> gov_ids \<Rightarrow> http_request option \<Rightarrow> principal \<Rightarrow> string \<Rightarrow> string \<Rightarrow> json \<Rightarrow> gov_db \<Rightarrow>
   password_answer api \<times> gov_db" where
  "updateAdminUserPassword pf aborted now ids request actor sessionId rawUserId rawBody db =
    (case andThen (assertPasswordChangePermission actor) (\<lambda>_.
          andThen (uuidText pf sessionId ''Session id is invalid.'') (\<lambda>sid.
          andThen (uuidText pf rawUserId ''User id is invalid.'') (\<lambda>i.
          andThen (parseWithSchema (adminUserPasswordUpdateSchema pf) rawBody ''Password payload is invalid.'') (\<lambda>body.
          andThen (require (i \<in> ur_id ` set (gv_users db)) userMissing) (\<lambda>_. Inr (sid, i, body)))))) of
       Inl e \<Rightarrow> (Inl e, db)
     | Inr (sid, i, body) \<Rightarrow>
       serializable ''User access changed concurrently. Reload and try again.'' aborted
         (updatePasswordOperation pf now ids request actor sid i body) db)"

section \<open>Permissions of a role\<close>

record role_matrix_row =
  rm_id :: string
  rm_name :: string
  rm_status :: role_status
  rm_protected :: bool
  rm_readOnly :: bool
  rm_effectiveWildcard :: bool
  rm_userCount :: nat
  rm_permissionKeys :: "string list"
  rm_updatedAt :: string

definition roleMatrixRow :: "gov_db \<Rightarrow> role_row \<Rightarrow> role_matrix_row" where
  "roleMatrixRow db role =
    (let wildcard = isSuperRole role
     in \<lparr>rm_id = ro_id role, rm_name = ro_name role, rm_status = ro_status role,
         rm_protected = (ro_name role \<in> set protectedRoleNames),
         rm_readOnly = (ro_name role \<notin> set editableRoleNames \<or> ro_status role \<noteq> R_ACTIVE),
         rm_effectiveWildcard = wildcard,
         rm_userCount = length (filter (\<lambda>u. ur_roleId u = ro_id role) (gv_users db)),
         rm_permissionKeys = (if wildcard then ALL_PERMISSIONS else sort (ro_permissions role)),
         rm_updatedAt = isoText (ro_updatedAt role)\<rparr>)"

definition permissionGroupForKey :: "string \<Rightarrow> string" where
  "permissionGroupForKey key =
    (let prefix = hd (splitOn (CHR ''.'') key)
     in if prefix \<in> {''appointment'', ''consultation''} then ''appointments''
        else if prefix \<in> {''case'', ''note'', ''task''} then ''cases''
        else if prefix \<in> {''client'', ''lawyer''} then ''clients''
        else if prefix \<in> {''contact'', ''conversation'', ''email'', ''notification''} then ''communications''
        else if prefix = ''document'' then ''documents''
        else if prefix \<in> {''finance'', ''payment'', ''report''} then ''finance''
        else if prefix \<in> {''caseStudy'', ''content'', ''service'', ''socialDraft''} then ''content''
        else ''governance'')"

definition getRolePermissionMatrix ::
  "principal \<Rightarrow> gov_db \<Rightarrow> ((string \<times> string \<times> string) list \<times> role_matrix_row list) api" where
  "getRolePermissionMatrix actor db =
    andThen (assertRolePermissionManager actor) (\<lambda>_.
    andThen (assertLiveExactSuperAdmin actor db) (\<lambda>_.
    Inr (map (\<lambda>k. (k, permissionGroupForKey k, ''permissions.'' @ k)) ALL_PERMISSIONS,
         map (roleMatrixRow db) (sort_key ro_name (gv_roles db)))))"

definition conflict :: "string \<Rightarrow> api_error" where
  "conflict message = apiError 409 CONFLICT message"

record role_answer =
  rr_id :: string
  rr_permissionKeys :: "string list"
  rr_updatedAt :: string

definition editableRole :: "string \<Rightarrow> gov_db \<Rightarrow> role_row api" where
  "editableRole roleId db =
    (case fetch ro_id roleId (gv_roles db) of
       None \<Rightarrow> throwApi 404 NOT_FOUND ''Role was not found.''
     | Some role \<Rightarrow>
       andThen (require (ro_name role \<notin> set protectedRoleNames) (conflict ''Protected roles cannot be changed.'')) (\<lambda>_.
       andThen (require (ro_name role \<in> set editableRoleNames)
         (conflict ''Only canonical operational roles can be changed.'')) (\<lambda>_.
       andThen (require (ro_status role = R_ACTIVE) (conflict ''Inactive roles are read-only.'')) (\<lambda>_. Inr role))))"

text \<open>The rows of a role that is unchanged since the form was loaded.\<close>

definition roleAtVersion :: "role_row \<Rightarrow> int \<Rightarrow> role_row \<Rightarrow> bool" where
  "roleAtVersion role version r = (ro_id r = ro_id role \<and> ro_status r = R_ACTIVE \<and> ro_updatedAt r = version)"

definition replaceRoleOperation ::
  "gov_platform \<Rightarrow> int \<Rightarrow> gov_ids \<Rightarrow> http_request option \<Rightarrow> principal \<Rightarrow> string \<Rightarrow> string list \<times> int \<Rightarrow> gov_db \<Rightarrow>
   (role_answer \<times> gov_db) api" where
  "replaceRoleOperation pf now ids request actor roleId body db =
    (case body of (keys, version) \<Rightarrow>
    andThen (assertLiveExactSuperAdmin actor db) (\<lambda>_.
    andThen (require (1 \<le> length (filter (isActiveSuper db) (gv_users db)))
      (conflict ''No active Super Admin governance path remains.'')) (\<lambda>_.
    andThen (editableRole roleId db) (\<lambda>role.
    andThen (require (length (filter (\<lambda>k. k \<in> set keys) (gv_permissions db)) = length keys)
      (apiError 400 VALIDATION_ERROR ''Permission keys must be canonical.'')) (\<lambda>_.
    andThen (require (length (filter (roleAtVersion role version) (gv_roles db)) = 1)
      (conflict ''Role permissions changed after this form was loaded.'')) (\<lambda>_.
    Inr (\<lparr>rr_id = ro_id role, rr_permissionKeys = keys, rr_updatedAt = isoText now\<rparr>,
      storeAudit pf (gi_audit ids) now request
        (auditEvent (Some (pr_id actor)) PLAN35_rolePermissionsReplace ''Role'' (Some (ro_id role))
          [(''previousPermissionCount'', MInt (int (length (ro_permissions role)))),
           (''permissionCount'', MInt (int (length keys)))])
        (db\<lparr>gv_roles := modify ro_id (ro_id role) (\<lambda>r. r\<lparr>ro_permissions := keys\<rparr>)
           (updateWhere (roleAtVersion role version) (\<lambda>r. r\<lparr>ro_updatedAt := now\<rparr>) (gv_roles db))\<rparr>))))))))"

definition replaceRolePermissions ::
  "gov_platform \<Rightarrow> bool \<Rightarrow> int \<Rightarrow> gov_ids \<Rightarrow> http_request option \<Rightarrow> principal \<Rightarrow> string \<Rightarrow> json \<Rightarrow> gov_db \<Rightarrow>
   role_answer api \<times> gov_db" where
  "replaceRolePermissions pf aborted now ids request actor rawRoleId rawBody db =
    (case andThen (assertRolePermissionManager actor) (\<lambda>_.
          andThen (uuidText pf rawRoleId ''Role id is invalid.'') (\<lambda>i.
          andThen (parseWithSchema (rolePermissionUpdateSchema pf) rawBody ''Role permission payload is invalid.'') (\<lambda>body.
          Inr (i, body)))) of
       Inl e \<Rightarrow> (Inl e, db)
     | Inr (i, body) \<Rightarrow>
       serializable ''Role permissions changed concurrently. Reload and try again.'' aborted
         (replaceRoleOperation pf now ids request actor i body) db)"


section \<open>Settings\<close>

datatype setting_key = OfficeProfile | SecurityStaff2fa | EmailPolicy

definition settingName :: "setting_key \<Rightarrow> string" where
  "settingName key = (case key of OfficeProfile \<Rightarrow> ''office.profile'' | SecurityStaff2fa \<Rightarrow> ''security.staff2fa''
     | EmailPolicy \<Rightarrow> ''email.policy'')"

definition settingKeys :: "setting_key list" where
  "settingKeys = [OfficeProfile, SecurityStaff2fa, EmailPolicy]"

definition optMember :: "string \<Rightarrow> string option \<Rightarrow> (string \<times> json) list" where
  "optMember key v = (case v of None \<Rightarrow> [] | Some s \<Rightarrow> [(key, JStr s)])"

definition zPublicEmail :: "gov_platform \<Rightarrow> json option \<Rightarrow> string option option" where
  "zPublicEmail pf v = (case v of None \<Rightarrow> Some None
   | Some (JStr s) \<Rightarrow> (if gp_isEmail pf (jsTrim s) \<and> length (jsTrim s) \<le> 254 then Some (Some (jsTrim s))
       else if s = [] then Some (Some []) else None)
   | _ \<Rightarrow> None)"

definition officeProfileSettingSchema :: "gov_platform \<Rightarrow> json \<Rightarrow> error_detail list + (string \<times> json) list" where
  "officeProfileSettingSchema pf v =
    (let firm = zTrimmed 2 120 (memberOf v ''firmName''); phone = zOptionalText 40 (memberOf v ''publicPhone'');
         email = zPublicEmail pf (memberOf v ''publicEmail''); locale = zLocale (memberOf v ''primaryLocale'');
         issues = gathered pf [(''firmName'', firm \<noteq> None), (''publicPhone'', phone \<noteq> None),
           (''publicEmail'', email \<noteq> None), (''primaryLocale'', locale \<noteq> None)]
     in if issues \<noteq> [] then Inl issues
        else Inr ([(''firmName'', JStr (the firm))] @ optMember ''publicPhone'' (the phone) @
          optMember ''publicEmail'' (the email) @ [(''primaryLocale'', JStr (the locale))]))"

text \<open>The three flags of the second factor are read and then set to false.\<close>

definition securityStaff2faSettingSchema :: "gov_platform \<Rightarrow> json \<Rightarrow> error_detail list + (string \<times> json) list" where
  "securityStaff2faSettingSchema pf v =
    (if \<not> isObject v then Inl [gp_issue pf '''']
     else Inr [(''requiredForStaff'', JBool False), (''totpPrimary'', JBool False), (''emailOtpFallback'', JBool False),
               (''superAdminResetOnly'', JBool (zBoolean True (memberOf v ''superAdminResetOnly'')))])"

definition emailPolicySettingSchema :: "gov_platform \<Rightarrow> json \<Rightarrow> error_detail list + (string \<times> json) list" where
  "emailPolicySettingSchema pf v =
    (let mode = (case memberOf v ''mode'' of Some (JStr s) \<Rightarrow> if s \<in> {''disabled'', ''dev'', ''smtp''} then Some s else None
           | _ \<Rightarrow> None);
         label = zTrimmed 2 120 (memberOf v ''fromLabel'');
         issues = gathered pf [(''mode'', mode \<noteq> None), (''fromLabel'', label \<noteq> None)]
     in if issues \<noteq> [] then Inl issues
        else Inr [(''mode'', JStr (the mode)), (''fromLabel'', JStr (the label)),
          (''staffNotificationsEnabled'', JBool (zBoolean True (memberOf v ''staffNotificationsEnabled''))),
          (''appointmentRemindersEnabled'', JBool (zBoolean False (memberOf v ''appointmentRemindersEnabled'')))])"

definition normalizeSettingValue :: "gov_platform \<Rightarrow> setting_key \<Rightarrow> json \<Rightarrow> (string \<times> json) list api" where
  "normalizeSettingValue pf key v =
    (case key of
       OfficeProfile \<Rightarrow> parseWithSchema (officeProfileSettingSchema pf) v ''Office profile setting is invalid.''
     | SecurityStaff2fa \<Rightarrow> parseWithSchema (securityStaff2faSettingSchema pf) v ''Staff 2FA setting is invalid.''
     | EmailPolicy \<Rightarrow> parseWithSchema (emailPolicySettingSchema pf) v ''Email policy setting is invalid.'')"

definition defaultSettingValues :: "setting_key \<Rightarrow> (string \<times> json) list" where
  "defaultSettingValues key =
    (case key of
       OfficeProfile \<Rightarrow> [(''firmName'', JStr ''KMT Legal''), (''publicPhone'', JStr []), (''publicEmail'', JStr []),
         (''primaryLocale'', JStr ''ar'')]
     | SecurityStaff2fa \<Rightarrow> [(''requiredForStaff'', JBool False), (''totpPrimary'', JBool False),
         (''emailOtpFallback'', JBool False), (''superAdminResetOnly'', JBool True)]
     | EmailPolicy \<Rightarrow> [(''mode'', JStr ''disabled''), (''fromLabel'', JStr ''KMT Legal''),
         (''staffNotificationsEnabled'', JBool False), (''appointmentRemindersEnabled'', JBool False)])"

text \<open>\<open>{ ...a, ...b }\<close>.\<close>

definition spread :: "(string \<times> json) list \<Rightarrow> (string \<times> json) list \<Rightarrow> (string \<times> json) list" where
  "spread a b = fold (\<lambda>(k, v). setMember k v) b a"

definition valueForDefinition :: "gov_platform \<Rightarrow> setting_key \<Rightarrow> json option \<Rightarrow> (string \<times> json) list api" where
  "valueForDefinition pf key v =
    normalizeSettingValue pf key (JObj (spread (defaultSettingValues key)
      (case v of None \<Rightarrow> [] | Some j \<Rightarrow> metadataRecord j)))"

record shown_setting =
  sw_key :: setting_key
  sw_value :: "(string \<times> json) list"
  sw_updatedAt :: "int option"
  sw_updatedBy :: "(string \<times> string \<times> string) option"

definition updaterOf :: "gov_db \<Rightarrow> setting_row \<Rightarrow> (string \<times> string \<times> string) option" where
  "updaterOf db row =
    (case sg_updatedById row of None \<Rightarrow> None
     | Some i \<Rightarrow> map_option (\<lambda>u. (ur_id u, ur_name u, ur_email u)) (fetch ur_id i (gv_users db)))"

definition shownSetting :: "gov_platform \<Rightarrow> gov_db \<Rightarrow> setting_key \<Rightarrow> shown_setting api" where
  "shownSetting pf db key =
    (let row = fetch sg_key (settingName key) (gv_settings db)
     in andThen (valueForDefinition pf key (map_option sg_value row)) (\<lambda>v.
        Inr \<lparr>sw_key = key, sw_value = v, sw_updatedAt = map_option sg_updatedAt row,
             sw_updatedBy = Option.bind row (updaterOf db)\<rparr>))"

primrec gatherAll :: "('k \<Rightarrow> 'a api) \<Rightarrow> 'k list \<Rightarrow> 'a list api" where
  "gatherAll f [] = Inr []"
| "gatherAll f (k # ks) = andThen (f k) (\<lambda>x. andThen (gatherAll f ks) (\<lambda>xs. Inr (x # xs)))"

definition listAdminSettings :: "gov_platform \<Rightarrow> principal \<Rightarrow> gov_db \<Rightarrow> shown_setting list api" where
  "listAdminSettings pf actor db =
    andThen (assertAdminSettingsManagePermission actor) (\<lambda>_. gatherAll (shownSetting pf db) settingKeys)"

definition nextOfficeProfileVersion :: "int \<Rightarrow> int \<Rightarrow> int" where
  "nextOfficeProfileVersion observedAt now = max now (observedAt + 1)"

text \<open>\<open>adminSettingUpdateSchema\<close> after the key of the route was put into the body.\<close>

definition adminSettingUpdateSchema ::
  "gov_platform \<Rightarrow> setting_key \<Rightarrow> json \<Rightarrow> error_detail list + (string \<times> json) list \<times> int option" where
  "adminSettingUpdateSchema pf key body =
    (case key of
       OfficeProfile \<Rightarrow>
         (let version = (case memberOf body ''updatedAt'' of Some JNull \<Rightarrow> Some None
                | v \<Rightarrow> map_option Some (zDatetime pf v));
              more = gathered pf [(''updatedAt'', version \<noteq> None)]
          in (case officeProfileSettingSchema pf body of
                Inl issues \<Rightarrow> Inl (issues @ more)
              | Inr v \<Rightarrow> if more \<noteq> [] then Inl more else Inr (v, the version)))
     | SecurityStaff2fa \<Rightarrow> (case securityStaff2faSettingSchema pf body of Inl is \<Rightarrow> Inl is | Inr v \<Rightarrow> Inr (v, None))
     | EmailPolicy \<Rightarrow> (case emailPolicySettingSchema pf body of Inl is \<Rightarrow> Inl is | Inr v \<Rightarrow> Inr (v, None)))"

definition profileChanged :: api_error where
  "profileChanged = conflict ''Office profile changed after this form was loaded.''"

text \<open>
  The row that a change writes. The first profile is created, and the unique key refuses a second one; a
  later profile claims the version the form was loaded with; another setting is written over.
\<close>

definition writeSetting ::
  "setting_key \<Rightarrow> (string \<times> json) list \<Rightarrow> int option \<Rightarrow> int \<Rightarrow> string \<Rightarrow> string \<Rightarrow> gov_db \<Rightarrow> gov_db api" where
  "writeSetting key value version now newId actorId db =
    (let name = settingName key; taken = name \<in> sg_key ` set (gv_settings db);
         fresh = \<lparr>sg_id = newId, sg_key = name, sg_value = JObj value, sg_updatedById = Some actorId, sg_updatedAt = now\<rparr>;
         write = (\<lambda>stamp row. row\<lparr>sg_value := JObj value, sg_updatedById := Some actorId, sg_updatedAt := stamp\<rparr>)
     in if key = OfficeProfile then
          (case version of
             None \<Rightarrow> andThen (require (\<not> taken) profileChanged) (\<lambda>_. Inr (db\<lparr>gv_settings := gv_settings db @ [fresh]\<rparr>))
           | Some v \<Rightarrow>
             andThen (require (length (filter (\<lambda>r. sg_key r = name \<and> sg_updatedAt r = v) (gv_settings db)) = 1) profileChanged)
               (\<lambda>_. Inr (db\<lparr>gv_settings := updateWhere (\<lambda>r. sg_key r = name \<and> sg_updatedAt r = v)
                  (write (nextOfficeProfileVersion v now)) (gv_settings db)\<rparr>)))
        else Inr (if taken then db\<lparr>gv_settings := modify sg_key name (write now) (gv_settings db)\<rparr>
                  else db\<lparr>gv_settings := gv_settings db @ [fresh]\<rparr>))"

definition settingOperation ::
  "gov_platform \<Rightarrow> int \<Rightarrow> gov_ids \<Rightarrow> http_request option \<Rightarrow> principal \<Rightarrow> string \<Rightarrow> setting_key \<Rightarrow> (string \<times> json) list \<Rightarrow>
   int option \<Rightarrow> gov_db \<Rightarrow> (setting_row \<times> gov_db) api" where
  "settingOperation pf now ids request actor actorSessionId key value version db =
    andThen (liveSettingsActor actor actorSessionId now db) (\<lambda>live.
    andThen (writeSetting key value version now (gi_row ids) (pr_id live) db) (\<lambda>db1.
    case fetch sg_key (settingName key) (gv_settings db1) of
      None \<Rightarrow> Inl (unhandled ''systemSetting'')
    | Some row \<Rightarrow>
      Inr (row, storeAudit pf (gi_audit ids) now request
        (auditEvent (Some (pr_id live)) ''settings.update'' ''SystemSetting'' (Some (sg_id row))
          [(''key'', MText (sg_key row))]) db1)))"

definition updateAdminSetting ::
  "gov_platform \<Rightarrow> bool \<Rightarrow> int \<Rightarrow> gov_ids \<Rightarrow> http_request option \<Rightarrow> principal \<Rightarrow> string \<Rightarrow> string \<Rightarrow> json \<Rightarrow> gov_db \<Rightarrow>
   setting_row api \<times> gov_db" where
  "updateAdminSetting pf aborted now ids request actor sessionId rawKey rawBody db =
    (case andThen (assertAdminSettingsManagePermission actor) (\<lambda>_.
          andThen (uuidText pf sessionId ''Session id is invalid.'') (\<lambda>sid.
          andThen (parseWithSchema (\<lambda>k. if k \<in> {''office.profile'', ''security.staff2fa'', ''storage.policy'', ''email.policy''}
              then Inr k else Inl [gp_issue pf '''']) rawKey ''Setting key is invalid.'') (\<lambda>k.
          andThen (require (k \<noteq> ''storage.policy'') (apiError 409 SETTING_READ_ONLY
            ''Storage runtime settings are managed by the server environment and cannot be changed from the admin dashboard.'')) (\<lambda>_.
          andThen (require (k \<noteq> ''email.policy'') (apiError 403 FEATURE_DISABLED
            ''SMTP/email policy management is disabled for this release.'')) (\<lambda>_.
          let key = (if k = ''office.profile'' then OfficeProfile else SecurityStaff2fa);
              body = (case rawBody of JObj ms \<Rightarrow> JObj (setMember ''key'' (JStr k) ms) | _ \<Rightarrow> JObj [(''key'', JStr k)])
          in andThen (parseWithSchema (adminSettingUpdateSchema pf key) body ''Setting payload is invalid.'') (\<lambda>(parsed, version).
             andThen (normalizeSettingValue pf key (JObj parsed)) (\<lambda>value. Inr (sid, key, value, version)))))))) of
       Inl e \<Rightarrow> (Inl e, db)
     | Inr (sid, key, value, version) \<Rightarrow>
       serializable (if key = OfficeProfile then ''Office profile changed after this form was loaded.''
           else ''Setting changed concurrently. Reload and try again.'') aborted
         (settingOperation pf now ids request actor sid key value version) db)"


section \<open>The administration as a machine\<close>

datatype gov_request =
    CreateUser bool int gov_ids "http_request option" principal string json
  | UpdateUser bool int gov_ids "http_request option" principal string json
  | UpdatePassword bool int gov_ids "http_request option" principal string string json
  | ReplaceRole bool int gov_ids "http_request option" principal string json
  | UpdateSetting bool int gov_ids "http_request option" principal string string json

primrec requestActor :: "gov_request \<Rightarrow> principal" where
  "requestActor (CreateUser ab now ids rq a sid b) = a"
| "requestActor (UpdateUser ab now ids rq a i b) = a"
| "requestActor (UpdatePassword ab now ids rq a sid i b) = a"
| "requestActor (ReplaceRole ab now ids rq a i b) = a"
| "requestActor (UpdateSetting ab now ids rq a sid k b) = a"

primrec govServe :: "gov_platform \<Rightarrow> gov_request \<Rightarrow> gov_db \<Rightarrow> (api_error + unit) \<times> gov_db" where
  "govServe pf (CreateUser ab now ids rq a sid b) db = forgetAnswer (createAdminUser pf ab now ids rq a sid b db)"
| "govServe pf (UpdateUser ab now ids rq a i b) db = forgetAnswer (updateAdminUser pf ab now ids rq a i b db)"
| "govServe pf (UpdatePassword ab now ids rq a sid i b) db =
     forgetAnswer (updateAdminUserPassword pf ab now ids rq a sid i b db)"
| "govServe pf (ReplaceRole ab now ids rq a i b) db = forgetAnswer (replaceRolePermissions pf ab now ids rq a i b db)"
| "govServe pf (UpdateSetting ab now ids rq a sid k b) db =
     forgetAnswer (updateAdminSetting pf ab now ids rq a sid k b db)"

end
