(* ===== verification/GovernanceFacts.thy ===== *)
theory GovernanceFacts
  imports Governance
begin

text \<open>
  What the administration of accounts keeps: the tables stay well formed, one active Super Admin always
  remains, a delegated manager reaches nothing above his own permissions, and an account whose access
  changed is signed out.
\<close>

section \<open>What the operations write\<close>

lemma storeAudit_tables [simp]:
  "gv_users (storeAudit pf i now rq e db) = gv_users db" "gv_roles (storeAudit pf i now rq e db) = gv_roles db"
  "gv_permissions (storeAudit pf i now rq e db) = gv_permissions db"
  "gv_sessions (storeAudit pf i now rq e db) = gv_sessions db"
  "gv_settings (storeAudit pf i now rq e db) = gv_settings db"
  by (simp_all add: storeAudit_def)

lemma revokeSessions_tables [simp]:
  "gv_users (revokeSessions p now db) = gv_users db" "gv_roles (revokeSessions p now db) = gv_roles db"
  "gv_permissions (revokeSessions p now db) = gv_permissions db" "gv_settings (revokeSessions p now db) = gv_settings db"
  by (simp_all add: revokeSessions_def)

lemma serializable_Inr [simp]:
  "serializable m ab f db = (Inr x, db') \<longleftrightarrow> \<not> ab \<and> f db = Inr (x, db')"
  by (auto simp: serializable_def split: sum.splits)

lemma serializable_Inl: "serializable m ab f db = (Inl e, db') \<Longrightarrow> db' = db"
  by (auto simp: serializable_def split: sum.splits if_splits)

lemma roleOf_cong: "gv_roles db' = gv_roles db \<Longrightarrow> roleOf db' = roleOf db"
  by (rule ext) (simp add: roleOf_def)

lemma isActiveSuper_cong: "gv_roles db' = gv_roles db \<Longrightarrow> isActiveSuper db' = isActiveSuper db"
  by (simp add: isActiveSuper_def activeUserWith_def roleOf_def fun_eq_iff)

lemma uuidText_Inr [simp]: "uuidText pf i m = Inr j \<longleftrightarrow> gp_isUuid pf i \<and> j = i"
  by (simp add: uuidText_def parseWithSchema_def eq_commute)

lemma assignable_Inr:
  "assignableRole i db = Inr r \<longleftrightarrow> fetch ro_id i (gv_roles db) = Some r \<and> ro_status r = R_ACTIVE \<and>
     ro_name r \<noteq> ROLE_guest \<and> ro_name r \<in> set canonicalRoleNames"
  by (auto simp: assignableRole_def assignable_def split: option.splits)

lemma targetOf_Inr:
  "targetOf super a i db = Inr (u, r) \<longleftrightarrow> fetch ur_id i (gv_users db) = Some u \<and> roleOf db u = Some r \<and>
     (super \<or> delegatedCanTarget a r)"
  by (auto simp: targetOf_def split: option.splits)

lemma claimUser_Inr:
  "claimUser i v f db = Inr db' \<longleftrightarrow> length (filter (\<lambda>u. ur_id u = i \<and> ur_updatedAt u = v) (gv_users db)) = 1 \<and>
     db' = db\<lparr>gv_users := updateWhere (\<lambda>u. ur_id u = i \<and> ur_updatedAt u = v) f (gv_users db)\<rparr>"
  by (auto simp: claimUser_def)

text \<open>Whom a transaction reads as its actor.\<close>

lemma activeUserWith_iff:
  "activeUserWith p db u \<longleftrightarrow> ur_status u = U_ACTIVE \<and> ur_deletedAt u = None \<and>
     (\<exists>r. roleOf db u = Some r \<and> ro_status r = R_ACTIVE \<and> p r)"
  by (auto simp: activeUserWith_def split: option.splits)

lemma liveSessionActor_Inr:
  "liveSessionActor p m a sid now db = Inr q \<Longrightarrow>
     \<exists>u r. u \<in> set (gv_users db) \<and> ur_id u = pr_id a \<and> roleOf db u = Some r \<and> ro_status r = R_ACTIVE \<and> p r \<and>
       q = livePrincipal u r"
  by (auto simp: liveSessionActor_def principalOf_def activeUserWith_iff split: option.splits if_splits
      dest!: find_some_in fetch_SomeD)

lemma liveManager_Inr:
  "liveManager a db = Inr (q, super) \<Longrightarrow>
     \<exists>u r. u \<in> set (gv_users db) \<and> ur_id u = pr_id a \<and> roleOf db u = Some r \<and> ro_status r = R_ACTIVE \<and>
       q = livePrincipal u r \<and> hasPermission q ''user.manage.any'' \<and> (super \<longrightarrow> isSuperRole r) \<and>
       super = (pr_roleName a = ROLE_superAdmin \<and> isSuperRole r)"
  by (auto simp: liveManager_def principalOf_def activeUserWith_iff isSuperRole_def livePrincipal_def
      split: option.splits dest!: find_some_in)

section \<open>Effects\<close>

text \<open>Each change as the rows it writes; a request that fails writes nothing.\<close>

inductive edits :: "gov_platform \<Rightarrow> principal \<Rightarrow> gov_db \<Rightarrow> gov_db \<Rightarrow> bool" for pf a db where
  edit_user:
  "\<lbrakk>liveManager a db = Inr (live, super); targetOf super live i db = Inr (u, role);
    assignableRole (uu_roleId body) db = Inr nextRole; roleMayBeGiven super live nextRole = Inr ();
    superRemains u role (uu_status body) nextRole db = Inr ();
    length (filter (\<lambda>v. ur_id v = ur_id u \<and> ur_updatedAt v = uu_updatedAt body) (gv_users db)) = 1;
    gv_users db' = updateWhere (\<lambda>v. ur_id v = ur_id u \<and> ur_updatedAt v = uu_updatedAt body) (updatedUser now body nextRole) (gv_users db);
    gv_sessions db' = (if accessChanged u role body nextRole
      then gv_sessions (revokeSessions (\<lambda>s. se_userId s = ur_id u) now db) else gv_sessions db);
    gv_roles db' = gv_roles db; gv_permissions db' = gv_permissions db; gv_settings db' = gv_settings db\<rbrakk>
    \<Longrightarrow> edits pf a db db'"
| add_user:
  "\<lbrakk>liveSensitiveAdminActor a sid now db = Inr live; assignableRole (ur_roleId u) db = Inr role;
    ur_email u \<notin> ur_email ` set (gv_users db); ur_id u \<notin> ur_id ` set (gv_users db);
    (ur_deletedAt u \<noteq> None) = (ur_status u = U_DELETED);
    gv_users db' = gv_users db @ [u]; gv_sessions db' = gv_sessions db;
    gv_roles db' = gv_roles db; gv_permissions db' = gv_permissions db; gv_settings db' = gv_settings db\<rbrakk>
    \<Longrightarrow> edits pf a db db'"
| edit_password:
  "\<lbrakk>liveSensitiveAdminActor a sid now db = Inr live;
    gv_users db' = updateWhere (\<lambda>v. ur_id v = i \<and> ur_updatedAt v = version)
      (\<lambda>v. v\<lparr>ur_passwordHash := h, ur_updatedAt := now\<rparr>) (gv_users db);
    gv_sessions db' = gv_sessions db \<or> gv_sessions db' = gv_sessions (revokeSessions p now db);
    gv_roles db' = gv_roles db; gv_permissions db' = gv_permissions db; gv_settings db' = gv_settings db\<rbrakk>
    \<Longrightarrow> edits pf a db db'"
| edit_role:
  "\<lbrakk>assertLiveExactSuperAdmin a db = Inr (); editableRole i db = Inr role; set keys \<subseteq> set ALL_PERMISSIONS;
    distinct keys; length (filter (\<lambda>k. k \<in> set keys) (gv_permissions db)) = length keys;
    gv_roles db' = modify ro_id i (\<lambda>r. r\<lparr>ro_permissions := keys\<rparr>)
      (updateWhere (roleAtVersion role version) (\<lambda>r. r\<lparr>ro_updatedAt := now\<rparr>) (gv_roles db));
    gv_users db' = gv_users db; gv_sessions db' = gv_sessions db; gv_permissions db' = gv_permissions db;
    gv_settings db' = gv_settings db\<rbrakk>
    \<Longrightarrow> edits pf a db db'"
| edit_setting:
  "\<lbrakk>liveSettingsActor a sid now db = Inr live; writeSetting key value version now newId (pr_id live) db = Inr db1;
    gv_settings db' = gv_settings db1; gv_users db' = gv_users db; gv_sessions db' = gv_sessions db;
    gv_roles db' = gv_roles db; gv_permissions db' = gv_permissions db\<rbrakk>
    \<Longrightarrow> edits pf a db db'"

lemma assignable_id: "assignableRole i db = Inr r \<Longrightarrow> ro_id r = i"
  by (auto simp: assignable_Inr dest: fetch_SomeD)

lemma assignable_ids: "assignableRole i db = Inr r \<Longrightarrow> i \<in> ro_id ` set (gv_roles db)"
  by (force simp: assignable_Inr dest!: fetch_SomeD)

lemma updateUser_edits:
  "updateUserOperation pf now ids rq a i body db = Inr (d, db') \<Longrightarrow> edits pf a db db'"
  unfolding updateUserOperation_def
  apply (clarsimp simp: Let_def claimUser_Inr split del: if_split)
  subgoal for live super u role nextRole
    by (rule edit_user [where live = live and super = super and i = i and u = u and role = role and body = body and
        nextRole = nextRole and now = now]) (simp_all add: revokeSessions_def)
  done

lemma createdUser_sel [simp]:
  "ur_id (createdUser pf now i body role) = i" "ur_email (createdUser pf now i body role) = uc_email body"
  "ur_roleId (createdUser pf now i body role) = ro_id role"
  "(\<exists>t. ur_deletedAt (createdUser pf now i body role) = Some t) =
    (ur_status (createdUser pf now i body role) = U_DELETED)"
  by (simp_all add: createdUser_def)

lemma createUser_edits:
  assumes "createUserOperation pf now ids rq a sid body db = Inr (d, db')"
  shows "edits pf a db db'"
proof -
  from assms obtain live role where e: "liveSensitiveAdminActor a sid now db = Inr live"
      "assignableRole (uc_roleId body) db = Inr role" "uc_email body \<notin> ur_email ` set (gv_users db)"
      "gi_row ids \<notin> ur_id ` set (gv_users db)"
      "gv_users db' = gv_users db @ [createdUser pf now (gi_row ids) body role]" "gv_sessions db' = gv_sessions db"
      "gv_roles db' = gv_roles db" "gv_permissions db' = gv_permissions db" "gv_settings db' = gv_settings db"
    unfolding createUserOperation_def by (auto simp: Let_def freshEmail_def)
  then show ?thesis by (intro add_user [OF e(1) _ _ _ _ e(5)]) (simp_all add: assignable_id)
qed

lemma updatePassword_edits:
  "updatePasswordOperation pf now ids rq a sid i body db = Inr (d, db') \<Longrightarrow> edits pf a db db'"
  unfolding updatePasswordOperation_def
  apply (clarsimp simp: Let_def claimUser_Inr split del: if_split)
  subgoal for live u
    by (rule edit_password [where live = live and sid = sid and i = "ur_id u" and version = "pu_updatedAt body" and
        now = now and h = "Some (gp_hash pf (pu_password body))" and
        p = "\<lambda>s. se_userId s = ur_id u \<and> (pr_id a = ur_id u \<longrightarrow> se_id s \<noteq> sid)"])
      (simp_all add: revokeSessions_def)
  done

lemma editableRole_Inr:
  "editableRole i db = Inr r \<longleftrightarrow> fetch ro_id i (gv_roles db) = Some r \<and> ro_name r \<notin> set protectedRoleNames \<and>
     ro_name r \<in> set editableRoleNames \<and> ro_status r = R_ACTIVE"
  by (auto simp: editableRole_def split: option.splits)

lemma replaceRole_edits:
  assumes "replaceRoleOperation pf now ids rq a i (keys, version) db = Inr (d, db')"
    and "set keys \<subseteq> set ALL_PERMISSIONS" "distinct keys"
  shows "edits pf a db db'"
proof -
  from assms(1) obtain role where e: "assertLiveExactSuperAdmin a db = Inr ()" "editableRole i db = Inr role"
      "length (filter (\<lambda>k. k \<in> set keys) (gv_permissions db)) = length keys"
      "gv_roles db' = modify ro_id (ro_id role) (\<lambda>r. r\<lparr>ro_permissions := keys\<rparr>)
        (updateWhere (roleAtVersion role version) (\<lambda>r. r\<lparr>ro_updatedAt := now\<rparr>) (gv_roles db))"
      "gv_users db' = gv_users db" "gv_sessions db' = gv_sessions db" "gv_permissions db' = gv_permissions db"
      "gv_settings db' = gv_settings db"
    unfolding replaceRoleOperation_def by auto
  moreover from e(2) have "ro_id role = i" by (auto simp: editableRole_Inr dest: fetch_SomeD)
  ultimately show ?thesis using assms(2,3) by (intro edit_role) auto
qed

lemma writeSetting_tables:
  "writeSetting key value version now newId actorId db = Inr db' \<Longrightarrow>
     gv_users db' = gv_users db \<and> gv_sessions db' = gv_sessions db \<and> gv_roles db' = gv_roles db \<and>
     gv_permissions db' = gv_permissions db"
  by (auto simp: writeSetting_def Let_def split: if_splits option.splits)

lemma setting_edits:
  "settingOperation pf now ids rq a sid key value version db = Inr (d, db') \<Longrightarrow> edits pf a db db'"
  unfolding settingOperation_def
  by (auto split: option.splits intro!: edit_setting simp: writeSetting_tables)

text \<open>Every request that succeeds makes one of these changes, and one that fails none.\<close>

lemma rolePermission_keys:
  "rolePermissionUpdateSchema pf b = Inr (keys, version) \<Longrightarrow> set keys \<subseteq> set ALL_PERMISSIONS \<and> distinct keys"
  by (auto simp: rolePermissionUpdateSchema_def Let_def gathered_def list_all_iff split: if_splits option.splits)

lemma failed_writes_nothing:
  "createAdminUser pf ab now ids rq a sid b db = (Inl e, db') \<Longrightarrow> db' = db"
  "updateAdminUser pf ab now ids rq a i b db = (Inl e, db') \<Longrightarrow> db' = db"
  "updateAdminUserPassword pf ab now ids rq a sid i b db = (Inl e, db') \<Longrightarrow> db' = db"
  "replaceRolePermissions pf ab now ids rq a i b db = (Inl e, db') \<Longrightarrow> db' = db"
  "updateAdminSetting pf ab now ids rq a sid k b db = (Inl e, db') \<Longrightarrow> db' = db"
  unfolding createAdminUser_def updateAdminUser_def updateAdminUserPassword_def replaceRolePermissions_def
    updateAdminSetting_def
  by (auto split: sum.split_asm prod.split_asm dest: serializable_Inl)

lemma forgetAnswer_Inl: "fst (forgetAnswer r) = Inl e \<longleftrightarrow> (\<exists>s. r = (Inl e, s))"
  by (cases r) (auto simp: forgetAnswer_def split: sum.splits)

lemma forgetAnswer_Inr: "fst (forgetAnswer r) = Inr u \<longleftrightarrow> (\<exists>x s. r = (Inr x, s))"
  by (cases r) (auto simp: forgetAnswer_def split: sum.splits)

lemma govServe_fail: "fst (govServe pf q db) = Inl e \<Longrightarrow> snd (govServe pf q db) = db"
  by (cases q) (auto simp: forgetAnswer_Inl failed_writes_nothing)

text \<open>A change that succeeds is its transaction, on the parsed body.\<close>

lemma createAdminUser_Inr:
  "createAdminUser pf ab now ids rq a sid b db = (Inr d, db') \<Longrightarrow>
     \<exists>body. createUserOperation pf now ids rq a sid body db = Inr (d, db')"
  unfolding createAdminUser_def by (auto split: sum.split_asm prod.split_asm)

lemma updateAdminUser_Inr:
  "updateAdminUser pf ab now ids rq a i b db = (Inr d, db') \<Longrightarrow>
     \<exists>body. adminUserUpdateSchema pf b = Inr body \<and> updateUserOperation pf now ids rq a i body db = Inr (d, db')"
  unfolding updateAdminUser_def by (auto simp: parseWithSchema_eq split: sum.split_asm prod.split_asm)

lemma updateAdminUserPassword_Inr:
  "updateAdminUserPassword pf ab now ids rq a sid i b db = (Inr d, db') \<Longrightarrow>
     \<exists>body. updatePasswordOperation pf now ids rq a sid i body db = Inr (d, db')"
  unfolding updateAdminUserPassword_def by (auto split: sum.split_asm prod.split_asm)

lemma replaceRolePermissions_Inr:
  "replaceRolePermissions pf ab now ids rq a i b db = (Inr d, db') \<Longrightarrow>
     \<exists>keys version. rolePermissionUpdateSchema pf b = Inr (keys, version) \<and>
       replaceRoleOperation pf now ids rq a i (keys, version) db = Inr (d, db')"
  unfolding replaceRolePermissions_def by (auto simp: parseWithSchema_eq split: sum.split_asm prod.split_asm)

lemma updateAdminSetting_Inr:
  "updateAdminSetting pf ab now ids rq a sid k b db = (Inr d, db') \<Longrightarrow>
     \<exists>key value version. settingOperation pf now ids rq a sid key value version db = Inr (d, db')"
  unfolding updateAdminSetting_def by (auto simp: Let_def split: sum.split_asm prod.split_asm)

lemma request_edits:
  "createAdminUser pf ab now ids rq a sid b db = (Inr d, db') \<Longrightarrow> edits pf a db db'"
  "updateAdminUser pf ab now ids rq a i b db = (Inr e, db') \<Longrightarrow> edits pf a db db'"
  "updateAdminUserPassword pf ab now ids rq a sid i b db = (Inr f, db') \<Longrightarrow> edits pf a db db'"
  "replaceRolePermissions pf ab now ids rq a i b db = (Inr g, db') \<Longrightarrow> edits pf a db db'"
  "updateAdminSetting pf ab now ids rq a sid k b db = (Inr h, db') \<Longrightarrow> edits pf a db db'"
  by (auto dest!: createAdminUser_Inr updateAdminUser_Inr updateAdminUserPassword_Inr replaceRolePermissions_Inr
      updateAdminSetting_Inr rolePermission_keys
      intro: createUser_edits updateUser_edits updatePassword_edits replaceRole_edits setting_edits)

lemma govServe_edits: "fst (govServe pf q db) = Inr x \<Longrightarrow> edits pf (requestActor q) db (snd (govServe pf q db))"
  by (cases q) (auto simp: forgetAnswer_Inr request_edits)


section \<open>Well-formed tables\<close>

text \<open>
  Keys are unique, every account has a role and every session and setting an account, a role holds no key
  twice and only keys of the permission table, and an account is marked deleted exactly when it has the
  time of its deletion.
\<close>

definition govOk :: "gov_db \<Rightarrow> bool" where
  "govOk db \<longleftrightarrow>
     distinct (map ur_id (gv_users db)) \<and> distinct (map ur_email (gv_users db)) \<and>
     distinct (map ro_id (gv_roles db)) \<and> distinct (map ro_name (gv_roles db)) \<and>
     distinct (gv_permissions db) \<and> distinct (map sg_key (gv_settings db)) \<and>
     list_all (\<lambda>u. ur_roleId u \<in> ro_id ` set (gv_roles db) \<and>
       (ur_deletedAt u \<noteq> None) = (ur_status u = U_DELETED)) (gv_users db) \<and>
     list_all (\<lambda>s. se_userId s \<in> ur_id ` set (gv_users db)) (gv_sessions db) \<and>
     list_all (\<lambda>r. distinct (ro_permissions r) \<and> set (ro_permissions r) \<subseteq> set (gv_permissions db)) (gv_roles db) \<and>
     list_all (\<lambda>g. \<forall>i. sg_updatedById g = Some i \<longrightarrow> i \<in> ur_id ` set (gv_users db)) (gv_settings db)"

lemma updatedUser_sel [simp]:
  "ur_id (updatedUser now body r u) = ur_id u" "ur_email (updatedUser now body r u) = ur_email u"
  "ur_roleId (updatedUser now body r u) = ro_id r" "ur_status (updatedUser now body r u) = uu_status body"
  "ur_deletedAt (updatedUser now body r u) = (if uu_status body = U_DELETED then Some now else None)"
  "ur_updatedAt (updatedUser now body r u) = now"
  by (simp_all add: updatedUser_def)

lemma map_updateWhere_same: "(\<And>r. r \<in> set rows \<Longrightarrow> p r \<Longrightarrow> g (f r) = g r) \<Longrightarrow> map g (updateWhere p f rows) = map g rows"
  by (induction rows) auto

lemma list_all_updateWhere:
  "list_all P rows \<Longrightarrow> (\<And>r. r \<in> set rows \<Longrightarrow> P r \<Longrightarrow> p r \<Longrightarrow> P (f r)) \<Longrightarrow> list_all P (updateWhere p f rows)"
  by (induction rows) auto

lemma list_all_key_updateWhere:
  "(\<And>r. key (f r) = key r) \<Longrightarrow> list_all (\<lambda>r. key r \<in> A) (updateWhere p f rows) = list_all (\<lambda>r. key r \<in> A) rows"
  by (induction rows) auto

lemma ids_updateWhere:
  "(\<And>r. key (f r) = key r) \<Longrightarrow> key ` set (updateWhere p f rows) = key ` set rows"
  by (metis image_set map_key_updateWhere)

lemma subset_by_count:
  assumes "distinct ks" "distinct table" "length (filter (\<lambda>k. k \<in> set ks) table) = length ks"
  shows "set ks \<subseteq> set table"
proof -
  have "card (set table \<inter> set ks) = card (set ks)"
    using assms by (metis distinct_card distinct_filter inter_set_filter Int_commute)
  then have "set table \<inter> set ks = set ks" by (intro card_seteq) auto
  then show ?thesis by blast
qed

lemma revoked_owners:
  "list_all (\<lambda>s. se_userId s \<in> A) (gv_sessions (revokeSessions q t db)) = list_all (\<lambda>s. se_userId s \<in> A) (gv_sessions db)"
  unfolding revokeSessions_def by (simp add: list_all_key_updateWhere)

lemma govOk_users:
  assumes "govOk db" "gv_users db' = updateWhere p f (gv_users db)" "gv_roles db' = gv_roles db"
    "gv_permissions db' = gv_permissions db" "gv_settings db' = gv_settings db"
    "gv_sessions db' = gv_sessions db \<or> (\<exists>q t. gv_sessions db' = gv_sessions (revokeSessions q t db))"
    "\<And>u. ur_id (f u) = ur_id u" "\<And>u. ur_email (f u) = ur_email u"
    "\<And>u. u \<in> set (gv_users db) \<Longrightarrow> ur_roleId (f u) \<in> ro_id ` set (gv_roles db) \<and>
       (ur_deletedAt (f u) \<noteq> None) = (ur_status (f u) = U_DELETED)"
  shows "govOk db'"
proof -
  have ids: "map ur_id (gv_users db') = map ur_id (gv_users db)" "map ur_email (gv_users db') = map ur_email (gv_users db)"
    using assms(2,7,8) by (simp_all add: map_key_updateWhere)
  then have set_ids: "ur_id ` set (gv_users db') = ur_id ` set (gv_users db)" by (metis image_set)
  from assms(1) have owners: "list_all (\<lambda>s. se_userId s \<in> ur_id ` set (gv_users db)) (gv_sessions db)"
    by (simp add: govOk_def)
  have "list_all (\<lambda>s. se_userId s \<in> ur_id ` set (gv_users db)) (gv_sessions db')"
    using assms(6) owners by (elim disjE exE) (simp_all add: revoked_owners)
  moreover have "list_all (\<lambda>u. ur_roleId u \<in> ro_id ` set (gv_roles db) \<and>
       (ur_deletedAt u \<noteq> None) = (ur_status u = U_DELETED)) (gv_users db')"
    unfolding assms(2) by (rule list_all_updateWhere) (use assms(1,9) in \<open>auto simp: govOk_def\<close>)
  ultimately show ?thesis
    using assms(1) unfolding govOk_def set_ids ids assms(3-5) by simp
qed

lemma roles_after_edit:
  "map ro_id (modify ro_id i (\<lambda>r. r\<lparr>ro_permissions := keys\<rparr>) (updateWhere p (\<lambda>r. r\<lparr>ro_updatedAt := now\<rparr>) rs)) = map ro_id rs"
  "map ro_name (modify ro_id i (\<lambda>r. r\<lparr>ro_permissions := keys\<rparr>) (updateWhere p (\<lambda>r. r\<lparr>ro_updatedAt := now\<rparr>) rs)) = map ro_name rs"
  by (induction rs) auto

lemma writeSetting_keys:
  assumes "writeSetting key value version now newId actorId db = Inr db'"
    and "distinct (map sg_key (gv_settings db))"
  shows "distinct (map sg_key (gv_settings db'))"
  using assms by (auto simp: writeSetting_def Let_def modify_def map_key_updateWhere split: if_splits option.splits)

lemma writeSetting_updaters:
  assumes "writeSetting key value version now newId actorId db = Inr db'" and "actorId \<in> A"
    and "list_all (\<lambda>g. \<forall>i. sg_updatedById g = Some i \<longrightarrow> i \<in> A) (gv_settings db)"
  shows "list_all (\<lambda>g. \<forall>i. sg_updatedById g = Some i \<longrightarrow> i \<in> A) (gv_settings db')"
  using assms by (auto simp: writeSetting_def Let_def modify_def list_all_iff set_updateWhere split: if_splits option.splits)

lemma liveSettingsActor_id: "liveSettingsActor a sid now db = Inr q \<Longrightarrow> pr_id q \<in> ur_id ` set (gv_users db)"
  unfolding liveSettingsActor_def by (force dest!: liveSessionActor_Inr simp: livePrincipal_def)

lemma edits_govOk:
  assumes "edits pf a db db'" and ok: "govOk db"
  shows "govOk db'"
  using assms(1)
proof cases
  case (edit_user live super i u role body nextRole now)
  then have "ro_id nextRole \<in> ro_id ` set (gv_roles db)"
    using assignable_ids assignable_id by metis
  with edit_user show ?thesis by (intro govOk_users [OF ok edit_user(7)]) auto
next
  case (add_user sid now live u role)
  then have "ur_roleId u \<in> ro_id ` set (gv_roles db)" by (simp add: assignable_ids)
  with add_user ok show ?thesis by (simp add: govOk_def list_all_iff)
next
  case (edit_password sid now live i version h p)
  then show ?thesis
    using ok by (intro govOk_users [OF ok edit_password(2)]) (auto simp: govOk_def list_all_iff)
next
  case (edit_role i role keys version now)
  let ?rs = "gv_roles db'"
  have names: "map ro_id ?rs = map ro_id (gv_roles db)" "map ro_name ?rs = map ro_name (gv_roles db)"
    by (simp_all add: edit_role(6) roles_after_edit)
  then have ids: "ro_id ` set ?rs = ro_id ` set (gv_roles db)" by (metis image_set)
  have sub: "set keys \<subseteq> set (gv_permissions db)"
    using edit_role ok by (intro subset_by_count) (auto simp: govOk_def)
  have "list_all (\<lambda>r. distinct (ro_permissions r) \<and> set (ro_permissions r) \<subseteq> set (gv_permissions db)) ?rs"
    unfolding edit_role(6) modify_def
    by (intro list_all_updateWhere) (use ok edit_role(4) sub in \<open>auto simp: govOk_def list_all_iff\<close>)
  with ok names ids edit_role show ?thesis unfolding govOk_def by simp
next
  case (edit_setting sid now live key val version newId db1)
  then show ?thesis
    using ok writeSetting_keys [OF edit_setting(2)] writeSetting_updaters [OF edit_setting(2) liveSettingsActor_id]
    by (simp add: govOk_def)
qed

text \<open>The administration as a machine that keeps its tables and whose failing requests leave no trace.\<close>

interpretation accounts: atomic_machine "govServe pf" govOk for pf
proof
  fix q :: gov_request and db :: gov_db
  assume ok: "govOk db"
  show "govOk (snd (govServe pf q db))"
  proof (cases "fst (govServe pf q db)")
    case (Inl e)
    with ok show ?thesis by (simp add: govServe_fail)
  next
    case (Inr x)
    from edits_govOk [OF govServe_edits [OF Inr] ok] show ?thesis .
  qed
qed (rule govServe_fail)

text \<open>
  Every sequence of administrative requests keeps the tables well formed: unique ids, addresses, role
  names and settings, every account with an existing role, every session and setting with an existing
  account, roles that hold only existing permissions, and deleted accounts that carry the time of it.
\<close>

theorem accounts_well_formed: "govOk db \<Longrightarrow> govOk (serveAll (govServe pf) qs db)"
  by (rule accounts.serve_inv)


section \<open>A Super Admin always remains\<close>

definition superExists :: "gov_db \<Rightarrow> bool" where
  "superExists db = list_ex (isActiveSuper db) (gv_users db)"

lemma superExists_iff: "superExists db \<longleftrightarrow> (\<exists>v\<in>set (gv_users db). isActiveSuper db v)"
  by (simp add: superExists_def list_ex_iff)

lemma in_updateWhere:
  "w \<in> set rows \<Longrightarrow> \<not> p w \<Longrightarrow> w \<in> set (updateWhere p f rows)"
  "w \<in> set rows \<Longrightarrow> p w \<Longrightarrow> f w \<in> set (updateWhere p f rows)"
  by (auto simp: set_updateWhere)

lemma same_id: "govOk db \<Longrightarrow> u \<in> set (gv_users db) \<Longrightarrow> v \<in> set (gv_users db) \<Longrightarrow> ur_id u = ur_id v \<Longrightarrow> u = v"
  by (auto simp: govOk_def distinct_map dest: inj_onD)

lemma roleOf_edited:
  assumes "gv_roles db' = modify ro_id i (\<lambda>r. r\<lparr>ro_permissions := keys\<rparr>) (updateWhere p (\<lambda>r. r\<lparr>ro_updatedAt := now\<rparr>) (gv_roles db))"
  shows "\<exists>g. roleOf db' u = map_option g (roleOf db u) \<and> (\<forall>r. ro_name (g r) = ro_name r \<and> ro_status (g r) = ro_status r)"
proof -
  let ?g = "\<lambda>r. (let r1 = (if p r then r\<lparr>ro_updatedAt := now\<rparr> else r)
      in if ur_roleId u = i then r1\<lparr>ro_permissions := keys\<rparr> else r1)"
  have "roleOf db' u = map_option ?g (roleOf db u)"
    unfolding roleOf_def assms
    by (cases "ur_roleId u = i"; cases "fetch ro_id (ur_roleId u) (gv_roles db)") (simp_all add: table_simps Let_def)
  then show ?thesis by (intro exI [of _ ?g]) (simp add: Let_def)
qed

lemma edits_super:
  assumes "edits pf a db db'" and ok: "govOk db" and s: "superExists db"
  shows "superExists db'"
  using assms(1)
proof cases
  case (edit_user live super i u role body nextRole now)
  let ?p = "\<lambda>v. ur_id v = ur_id u \<and> ur_updatedAt v = uu_updatedAt body"
  from s obtain v where v: "v \<in> set (gv_users db)" "isActiveSuper db v" by (auto simp: superExists_iff)
  note same = isActiveSuper_cong [OF edit_user(9)]
  have other: "w \<in> set (gv_users db) \<Longrightarrow> isActiveSuper db w \<Longrightarrow> ur_id w \<noteq> ur_id u \<Longrightarrow> superExists db'" for w
    unfolding superExists_iff same edit_user(7) by (intro bexI [of _ w] in_updateWhere(1)) auto
  from edit_user(2) have u: "u \<in> set (gv_users db)" "roleOf db u = Some role"
    by (auto simp: targetOf_Inr dest: fetch_SomeD)
  show ?thesis
  proof (cases "ur_id v = ur_id u")
    case True
    then have vu: "v = u" using same_id [OF ok v(1) u(1)] by simp
    with v(2) u(2) have act: "ur_status u = U_ACTIVE" "ur_deletedAt u = None" "isSuperRole role"
      by (auto simp: isActiveSuper_def activeUserWith_iff)
    show ?thesis
    proof (cases "uu_status body \<noteq> U_ACTIVE \<or> \<not> isSuperRole nextRole")
      case True
      with edit_user(5) act obtain w where "w \<in> set (gv_users db)" "ur_id w \<noteq> ur_id u" "isActiveSuper db w"
        by (auto simp: superRemains_def list_ex_iff split: if_splits)
      with other show ?thesis by blast
    next
      case False
      have "isActiveSuper db (updatedUser now body nextRole u)"
        using False edit_user(3) assignable_id [OF edit_user(3)]
        by (auto simp: isActiveSuper_def activeUserWith_iff roleOf_def assignable_Inr)
      then show ?thesis
        unfolding superExists_iff same edit_user(7)
        using v(2) u(1) vu in_updateWhere [OF u(1), of ?p] by (cases "?p u") (metis (no_types, lifting))+
    qed
  qed (rule other [OF v])
next
  case (add_user sid now live u role)
  then show ?thesis using s by (auto simp: superExists_iff isActiveSuper_cong [OF add_user(8)])
next
  case (edit_password sid now live i version h p)
  have "isActiveSuper db (v\<lparr>ur_passwordHash := h, ur_updatedAt := now\<rparr>) = isActiveSuper db v" for v
    by (simp add: isActiveSuper_def activeUserWith_def roleOf_def)
  moreover from s obtain v where v: "v \<in> set (gv_users db)" "isActiveSuper db v" by (auto simp: superExists_iff)
  ultimately show ?thesis
    unfolding superExists_iff isActiveSuper_cong [OF edit_password(4)] edit_password(2) set_updateWhere
    by (intro bexI [OF _ imageI [OF v(1)]]) auto
next
  case (edit_role i role keys version now)
  have "isActiveSuper db' v = isActiveSuper db v" for v
    using roleOf_edited [OF edit_role(6), of v]
    by (auto simp: isActiveSuper_def activeUserWith_def isSuperRole_def split: option.splits)
  then show ?thesis using s edit_role(7) by (simp add: superExists_iff)
next
  case (edit_setting sid now live key val version newId db1)
  then show ?thesis using s by (simp add: superExists_iff isActiveSuper_cong [OF edit_setting(6)])
qed

interpretation governed: guarded_machine "govServe pf" "\<lambda>db. govOk db \<and> superExists db" for pf
proof
  fix q :: gov_request and db :: gov_db
  assume ok: "govOk db \<and> superExists db"
  show "govOk (snd (govServe pf q db)) \<and> superExists (snd (govServe pf q db))"
  proof (cases "fst (govServe pf q db)")
    case (Inl e)
    with ok show ?thesis by (simp add: govServe_fail)
  next
    case (Inr x)
    from edits_super [OF govServe_edits [OF Inr]] accounts.step_inv ok show ?thesis by blast
  qed
qed

text \<open>
  C7. The office never locks itself out: whatever administrative requests are made, in whatever order and by
  whomever, an active account whose active role is Super Admin remains.
\<close>

theorem super_admin_remains:
  "govOk db \<Longrightarrow> superExists db \<Longrightarrow> superExists (serveAll (govServe pf) qs db)"
  using governed.serve_inv by blast


section \<open>A delegated manager stays below his ceiling\<close>

definition heldKeys :: "gov_db \<Rightarrow> user_row \<Rightarrow> string set" where
  "heldKeys db u = (case roleOf db u of None \<Rightarrow> {} | Some r \<Rightarrow> set (permissionKeysForRole r))"

definition aboveCeiling :: "string set \<Rightarrow> gov_db \<Rightarrow> user_row \<Rightarrow> bool" where
  "aboveCeiling P db u \<longleftrightarrow> \<not> heldKeys db u \<subseteq> P"

text \<open>A group of accounts that together hold no more than \<open>P\<close>.\<close>

definition groupBelow :: "string set \<Rightarrow> string set \<Rightarrow> gov_db \<Rightarrow> bool" where
  "groupBelow U P db \<longleftrightarrow> ''*'' \<notin> P \<and> list_all (\<lambda>u. ur_id u \<in> U \<longrightarrow> heldKeys db u \<subseteq> P) (gv_users db)"

lemma heldKeys_cong: "gv_roles db' = gv_roles db \<Longrightarrow> heldKeys db' = heldKeys db"
  by (simp add: heldKeys_def roleOf_def fun_eq_iff)

lemma aboveCeiling_cong: "gv_roles db' = gv_roles db \<Longrightarrow> aboveCeiling P db' = aboveCeiling P db"
  by (simp add: aboveCeiling_def heldKeys_def roleOf_def fun_eq_iff)

lemma group_actor:
  assumes "groupBelow U P db" "u \<in> set (gv_users db)" "ur_id u \<in> U" "roleOf db u = Some r"
  shows "\<not> isSuperRole r" "set (permissionKeysForRole r) \<subseteq> P"
proof -
  from assms have "heldKeys db u \<subseteq> P" "''*'' \<notin> P" by (auto simp: groupBelow_def list_all_iff)
  then show "set (permissionKeysForRole r) \<subseteq> P" "\<not> isSuperRole r"
    using assms(4) by (auto simp: heldKeys_def permissionKeysForRole_def isSuperRole_def)
qed

lemma group_not_sensitive:
  assumes "groupBelow U P db" "pr_id a \<in> U"
  shows "liveSensitiveAdminActor a sid now db \<noteq> Inr q" "assertLiveExactSuperAdmin a db \<noteq> Inr ()"
proof -
  show "liveSensitiveAdminActor a sid now db \<noteq> Inr q"
    using group_actor(1) [OF assms(1)] assms(2) unfolding liveSensitiveAdminActor_def
    by (fastforce dest!: liveSessionActor_Inr)
  show "assertLiveExactSuperAdmin a db \<noteq> Inr ()"
    using group_actor(1) [OF assms(1)] assms(2)
    by (fastforce simp: assertLiveExactSuperAdmin_def list_ex_iff activeUserWith_iff)
qed

lemma edits_below:
  assumes "edits pf a db db'" and ok: "govOk db" and g: "groupBelow U P db" and a: "pr_id a \<in> U"
  shows "gv_roles db' = gv_roles db \<and> groupBelow U P db' \<and>
    filter (aboveCeiling P db') (gv_users db') = filter (aboveCeiling P db) (gv_users db)"
  using assms(1)
proof cases
  case (edit_user live super i u role body nextRole now)
  let ?p = "\<lambda>v. ur_id v = ur_id u \<and> ur_updatedAt v = uu_updatedAt body"
  let ?f = "updatedUser now body nextRole"
  from liveManager_Inr [OF edit_user(1)] obtain w r where w: "w \<in> set (gv_users db)" "ur_id w = pr_id a"
      "roleOf db w = Some r" "live = livePrincipal w r" "super = (pr_roleName a = ROLE_superAdmin \<and> isSuperRole r)"
    by auto
  have r: "\<not> isSuperRole r" "set (permissionKeysForRole r) \<subseteq> P" using group_actor [OF g w(1) _ w(3)] w(2) a by auto
  then have "\<not> super" using w(5) by simp
  with edit_user(2,4) have d: "delegatedCanTarget live role" "delegatedCanTarget live nextRole"
    by (auto simp: targetOf_Inr roleMayBeGiven_def)
  have "ownKeys live = permissionKeysForRole r" by (simp add: w(4) livePrincipal_def ownKeys_def)
  with d r(2) have keys: "set (permissionKeysForRole role) \<subseteq> P" "set (permissionKeysForRole nextRole) \<subseteq> P"
    by (auto simp: delegatedCanTarget_def rolePermissionsWithinCeiling_def list_all_iff)
  have u: "u \<in> set (gv_users db)" "roleOf db u = Some role" using edit_user(2) by (auto simp: targetOf_Inr dest: fetch_SomeD)
  have old: "\<not> aboveCeiling P db v" if "v \<in> set (gv_users db)" "?p v" for v
    using same_id [OF ok that(1) u(1)] that(2) u(2) keys(1) by (auto simp: aboveCeiling_def heldKeys_def)
  have "roleOf db (?f v) = Some nextRole" for v
    using edit_user(3) assignable_id [OF edit_user(3)] by (simp add: roleOf_def assignable_Inr)
  then have new: "heldKeys db (?f v) \<subseteq> P" for v using keys(2) by (simp add: heldKeys_def)
  have "filter (aboveCeiling P db) (updateWhere ?p ?f rows) = filter (aboveCeiling P db) rows"
    if "\<And>v. v \<in> set rows \<Longrightarrow> ?p v \<Longrightarrow> \<not> aboveCeiling P db v" for rows
    using that new by (induction rows) (auto simp: aboveCeiling_def)
  from this [OF old] have "filter (aboveCeiling P db') (gv_users db') = filter (aboveCeiling P db) (gv_users db)"
    unfolding edit_user(7) aboveCeiling_cong [OF edit_user(9)] .
  moreover have "groupBelow U P db'"
    using g new unfolding groupBelow_def heldKeys_cong [OF edit_user(9)] edit_user(7)
    by (auto intro!: list_all_updateWhere)
  ultimately show ?thesis using edit_user(9) by simp
next
  case (edit_setting sid now live key val version newId db1)
  then show ?thesis
    using g by (simp add: groupBelow_def aboveCeiling_cong [OF edit_setting(6)] heldKeys_cong [OF edit_setting(6)])
qed (use group_not_sensitive [OF g a] in auto)

definition madeBy :: "string set \<Rightarrow> gov_request \<Rightarrow> bool" where
  "madeBy U q \<longleftrightarrow> pr_id (requestActor q) \<in> U"

text \<open>
  C8. Nobody lifts himself or another above his own permissions: requests made by accounts that together hold
  no more than the keys \<open>P\<close>, in any number and order and with whatever principals they claim, change no role,
  leave every account above \<open>P\<close> exactly as it was, create none, and the group still holds no more than \<open>P\<close>.
\<close>

theorem ceiling_holds:
  assumes "govOk db" and "groupBelow U P db" and "list_all (madeBy U) qs"
  shows "gv_roles (serveAll (govServe pf) qs db) = gv_roles db \<and> groupBelow U P (serveAll (govServe pf) qs db) \<and>
    filter (aboveCeiling P (serveAll (govServe pf) qs db)) (gv_users (serveAll (govServe pf) qs db)) =
    filter (aboveCeiling P db) (gv_users db)"
  using assms
proof (induction qs arbitrary: db)
  case (Cons q qs)
  let ?d = "snd (govServe pf q db)"
  have step: "gv_roles ?d = gv_roles db \<and> groupBelow U P ?d \<and>
      filter (aboveCeiling P ?d) (gv_users ?d) = filter (aboveCeiling P db) (gv_users db)"
  proof (cases "fst (govServe pf q db)")
    case (Inl e)
    with Cons.prems show ?thesis by (simp add: govServe_fail)
  next
    case (Inr x)
    from edits_below [OF govServe_edits [OF Inr] Cons.prems(1,2)] Cons.prems(3) show ?thesis by (simp add: madeBy_def)
  qed
  note next_step = Cons.IH [OF accounts.step_inv [OF Cons.prems(1)], of pf q]
  from Cons.prems(3) have "list_all (madeBy U) qs" by simp
  with next_step step show ?case unfolding serveAll.simps by metis
qed simp


section \<open>What sign-in sees of the accounts\<close>

text \<open>The tables of the administration as the sign-in reads them.\<close>

definition authUser :: "role_row \<Rightarrow> user_row \<Rightarrow> auth_user" where
  "authUser r u =
    \<lparr>au_id = ur_id u, au_name = ur_name u, au_email = ur_email u, au_phone = ur_phone u, au_locale = ur_locale u,
     au_status = ur_status u, au_deletedAt = ur_deletedAt u, au_passwordHash = ur_passwordHash u,
     au_roleName = ro_name r, au_roleStatus = ro_status r, au_rolePermissions = ro_permissions r,
     au_clientProfileId = map_option fst (ur_clientProfile u)\<rparr>"

definition authView :: "gov_db \<Rightarrow> auth_db" where
  "authView db =
    \<lparr>adb_users = concat (map (\<lambda>u. case roleOf db u of None \<Rightarrow> [] | Some r \<Rightarrow> [authUser r u]) (gv_users db)),
     adb_sessions = map session.truncate (gv_sessions db), adb_credentials = gv_credentials db,
     adb_challenges = [], adb_emails = [], adb_audit = []\<rparr>"

lemma context_session:
  assumes "getAuthContextFromCookieHeader apf t pending cookie (authView db) = Some cx"
  shows "\<exists>s\<in>set (gv_sessions db). se_userId s = au_id (cx_user cx) \<and> se_revokedAt s = None \<and> t < se_expiresAt s"
proof -
  from assms obtain s where "s \<in> set (adb_sessions (authView db))" "se_revokedAt s = None" "t < se_expiresAt s"
      "se_userId s = au_id (cx_user cx)"
    by (fastforce simp: getAuthContextFromCookieHeader_def split: option.splits if_splits dest!: fetch_SomeD)
  then show ?thesis by (auto simp: authView_def session.truncate_def)
qed

lemma updateUser_Inr:
  "updateUserOperation pf now ids rq a i body db = Inr (d, db') \<Longrightarrow>
     \<exists>u role nextRole. fetch ur_id i (gv_users db) = Some u \<and> roleOf db u = Some role \<and>
       assignableRole (uu_roleId body) db = Inr nextRole \<and>
       gv_users db' = updateWhere (\<lambda>v. ur_id v = i \<and> ur_updatedAt v = uu_updatedAt body) (updatedUser now body nextRole) (gv_users db) \<and>
       (accessChanged u role body nextRole \<longrightarrow> gv_sessions db' = gv_sessions (revokeSessions (\<lambda>s. se_userId s = i) now db))"
  unfolding updateUserOperation_def
  apply (clarsimp simp: Let_def claimUser_Inr split del: if_split)
  subgoal premises prems for live super u role nextRole
  proof -
    from prems(2) have u: "fetch ur_id i (gv_users db) = Some u" "roleOf db u = Some role" "ur_id u = i"
      by (auto simp: targetOf_Inr dest: fetch_SomeD)
    show ?thesis
      by (intro exI [of _ u] exI [of _ role] exI [of _ nextRole] conjI impI)
        (use u prems(3) in \<open>simp_all add: prems(9) revokeSessions_def\<close>)
  qed
  done

lemma in_updateWhereD: "s \<in> set (updateWhere p f rows) \<Longrightarrow> \<exists>r\<in>set rows. s = (if p r then f r else r)"
  unfolding updateWhere_def by (simp only: set_map image_iff)

lemma revokeSessions_gone:
  assumes "s \<in> set (gv_sessions (revokeSessions (\<lambda>s. se_userId s = i) now db))" and "se_userId s = i"
  shows "se_revokedAt s \<noteq> None"
proof -
  from assms(1) have "s \<in> set (updateWhere (\<lambda>s. se_userId s = i \<and> se_revokedAt s = None)
      (\<lambda>s. s\<lparr>se_status := S_REVOKED, se_revokedAt := Some now\<rparr>) (gv_sessions db))"
    by (simp add: revokeSessions_def)
  then obtain r where "s = (if se_userId r = i \<and> se_revokedAt r = None
      then r\<lparr>se_status := S_REVOKED, se_revokedAt := Some now\<rparr> else r)"
    by (blast dest: in_updateWhereD)
  then have "(se_userId r = i \<and> se_revokedAt s = Some now) \<or> (s = r \<and> (se_userId r \<noteq> i \<or> se_revokedAt r \<noteq> None))"
    by (simp split: if_split_asm)
  with assms(2) show ?thesis by auto
qed

text \<open>
  C37. An account whose status or role an administrator changed is signed out everywhere: after the change no
  cookie, old or stolen, at whatever time and on whatever page, is recognised as that account.
\<close>

theorem access_change_signs_out:
  assumes "updateAdminUser pf ab now ids rq a i b db = (Inr d, db')"
    and "fetch ur_id i (gv_users db) = Some u" and "fetch ur_id i (gv_users db') = Some u'"
    and "ur_status u' \<noteq> ur_status u \<or> ur_roleId u' \<noteq> ur_roleId u"
    and "getAuthContextFromCookieHeader apf t pending cookie (authView db') = Some cx"
  shows "au_id (cx_user cx) \<noteq> i"
proof -
  from updateAdminUser_Inr [OF assms(1)] obtain body where "updateUserOperation pf now ids rq a i body db = Inr (d, db')"
    by auto
  from updateUser_Inr [OF this] obtain role nextRole where r: "roleOf db u = Some role"
      "gv_users db' = updateWhere (\<lambda>v. ur_id v = i \<and> ur_updatedAt v = uu_updatedAt body) (updatedUser now body nextRole) (gv_users db)"
      "accessChanged u role body nextRole \<longrightarrow> gv_sessions db' = gv_sessions (revokeSessions (\<lambda>s. se_userId s = i) now db)"
    using assms(2) by auto
  have "u' = u \<or> u' = updatedUser now body nextRole u"
    using assms(2,3) by (auto simp: r(2) table_simps split: if_splits)
  moreover have "ur_roleId u = ro_id role" using r(1) by (auto simp: roleOf_def dest: fetch_SomeD)
  ultimately have "accessChanged u role body nextRole" using assms(4) by (auto simp: accessChanged_def)
  with r(3) revokeSessions_gone context_session [OF assms(5)] show ?thesis by metis
qed


section \<open>The permissions of a role\<close>

text \<open>
  Replacing the permissions of a role is all or nothing: it is done by an active Super Admin, on an active
  operational role that is still as the form showed it; then the role holds exactly the keys of the form, in
  their order, and no other role and no account changed.
\<close>

theorem role_replaced_exactly:
  assumes "govOk db" and "replaceRolePermissions pf ab now ids rq a i b db = (Inr d, db')"
  shows "\<exists>role keys version. rolePermissionUpdateSchema pf b = Inr (keys, version) \<and>
    assertLiveExactSuperAdmin a db = Inr () \<and> fetch ro_id i (gv_roles db) = Some role \<and>
    ro_name role \<in> set editableRoleNames \<and> ro_status role = R_ACTIVE \<and> ro_updatedAt role = version \<and>
    fetch ro_id i (gv_roles db') = Some (role\<lparr>ro_updatedAt := now, ro_permissions := keys\<rparr>) \<and>
    (\<forall>j. j \<noteq> i \<longrightarrow> fetch ro_id j (gv_roles db') = fetch ro_id j (gv_roles db)) \<and>
    gv_users db' = gv_users db \<and> rr_permissionKeys d = keys"
proof -
  from replaceRolePermissions_Inr [OF assms(2)] obtain keys version where
      p: "rolePermissionUpdateSchema pf b = Inr (keys, version)"
      "replaceRoleOperation pf now ids rq a i (keys, version) db = Inr (d, db')" by auto
  then obtain role where r: "assertLiveExactSuperAdmin a db = Inr ()" "editableRole i db = Inr role"
      "length (filter (roleAtVersion role version) (gv_roles db)) = 1" "rr_permissionKeys d = keys"
      "gv_roles db' = modify ro_id (ro_id role) (\<lambda>r. r\<lparr>ro_permissions := keys\<rparr>)
        (updateWhere (roleAtVersion role version) (\<lambda>r. r\<lparr>ro_updatedAt := now\<rparr>) (gv_roles db))"
      "gv_users db' = gv_users db"
    unfolding replaceRoleOperation_def by auto
  then have i: "ro_id role = i" "fetch ro_id i (gv_roles db) = Some role"
    by (auto simp: editableRole_Inr dest: fetch_SomeD)
  from r(3) obtain w where "w \<in> set (gv_roles db)" "roleAtVersion role version w"
    by (metis filter_False length_0_conv one_neq_zero list.size(3) filter_empty_conv)
  moreover then have "w = role"
    using assms(1) i fetch_distinct [of ro_id "gv_roles db" w] by (auto simp: govOk_def roleAtVersion_def)
  ultimately have v: "roleAtVersion role version role" by simp
  have "fetch ro_id i (gv_roles db') = Some (role\<lparr>ro_updatedAt := now, ro_permissions := keys\<rparr>)"
    using v i by (simp add: r(5) table_simps)
  moreover have "fetch ro_id j (gv_roles db') = fetch ro_id j (gv_roles db)" if "j \<noteq> i" for j
    using that i(1) by (cases "fetch ro_id j (gv_roles db)")
      (auto simp: r(5) table_simps roleAtVersion_def dest: fetch_SomeD)
  ultimately show ?thesis using p(1) r i v by (auto simp: editableRole_Inr roleAtVersion_def)
qed

definition fixedRoles :: "gov_db \<Rightarrow> role_row list" where
  "fixedRoles db = filter (\<lambda>r. ro_name r \<notin> set editableRoleNames) (gv_roles db)"

lemma edits_fixedRoles:
  assumes "edits pf a db db'" and "govOk db"
  shows "fixedRoles db' = fixedRoles db \<and>
    map (\<lambda>r. (ro_id r, ro_name r, ro_status r)) (gv_roles db') = map (\<lambda>r. (ro_id r, ro_name r, ro_status r)) (gv_roles db)"
  using assms(1)
proof cases
  case (edit_role i role keys version now)
  from edit_role(2) have role: "role \<in> set (gv_roles db)" "ro_id role = i" "ro_name role \<in> set editableRoleNames"
    by (auto simp: editableRole_Inr dest: fetch_SomeD)
  then have "r \<in> set (gv_roles db) \<Longrightarrow> ro_id r = i \<Longrightarrow> r = role" for r
    using assms(2) by (auto simp: govOk_def distinct_map dest: inj_onD)
  with role(3) have only: "r \<in> set (gv_roles db) \<Longrightarrow> ro_id r = i \<Longrightarrow> ro_name r \<in> set editableRoleNames" for r by blast
  let ?g = "\<lambda>rs. modify ro_id i (\<lambda>r. r\<lparr>ro_permissions := keys\<rparr>) (updateWhere (roleAtVersion role version) (\<lambda>r. r\<lparr>ro_updatedAt := now\<rparr>) rs)"
  have "filter (\<lambda>r. ro_name r \<notin> set editableRoleNames) (?g rs) = filter (\<lambda>r. ro_name r \<notin> set editableRoleNames) rs"
    if "\<And>r. r \<in> set rs \<Longrightarrow> ro_id r = i \<Longrightarrow> ro_name r \<in> set editableRoleNames" for rs
    using that role(2) by (induction rs) (auto simp: roleAtVersion_def)
  moreover have "map (\<lambda>r. (ro_id r, ro_name r, ro_status r)) (?g rs) = map (\<lambda>r. (ro_id r, ro_name r, ro_status r)) rs" for rs
    by (induction rs) auto
  ultimately show ?thesis using only by (simp add: fixedRoles_def edit_role(6))
qed (simp_all add: fixedRoles_def)

text \<open>
  The permissions of the guests, of the clients and of the Super Admin never change, nor does the name or
  the status of any role, whatever administrative requests are made.
\<close>

theorem protected_roles_fixed:
  assumes "govOk db"
  shows "fixedRoles (serveAll (govServe pf) qs db) = fixedRoles db \<and>
    map (\<lambda>r. (ro_id r, ro_name r, ro_status r)) (gv_roles (serveAll (govServe pf) qs db)) =
    map (\<lambda>r. (ro_id r, ro_name r, ro_status r)) (gv_roles db)"
proof -
  let ?R = "\<lambda>d d'. fixedRoles d' = fixedRoles d \<and>
    map (\<lambda>r. (ro_id r, ro_name r, ro_status r)) (gv_roles d') = map (\<lambda>r. (ro_id r, ro_name r, ro_status r)) (gv_roles d)"
  have "?R d (snd (govServe pf q d))" if "govOk d" for q d
    using govServe_fail [of pf q d] edits_fixedRoles [OF govServe_edits that, of pf q]
    by (cases "fst (govServe pf q d)") auto
  then show ?thesis by (intro accounts.serve_rel [where R = ?R, OF _ _ _ assms]) auto
qed


section \<open>An office\<close>

definition sampleRoles :: "role_row list" where
  "sampleRoles =
    [\<lparr>ro_id = ''rs'', ro_name = ''Super Admin'', ro_description = None, ro_status = R_ACTIVE, ro_updatedAt = 5, ro_permissions = []\<rparr>,
     \<lparr>ro_id = ''ro'', ro_name = ''Office Admin'', ro_description = None, ro_status = R_ACTIVE, ro_updatedAt = 5,
      ro_permissions = [''user.manage.any'', ''client.read.any'']\<rparr>,
     \<lparr>ro_id = ''rl'', ro_name = ''Lawyer'', ro_description = None, ro_status = R_ACTIVE, ro_updatedAt = 5,
      ro_permissions = [''client.read.any'']\<rparr>]"

definition sampleAccount :: "string \<Rightarrow> string \<Rightarrow> user_row" where
  "sampleAccount i role =
    \<lparr>ur_id = i, ur_email = i @ ''@kmt.example'', ur_name = ''Name'', ur_phone = None, ur_locale = ''ar'', ur_status = U_ACTIVE,
     ur_roleId = role, ur_passwordHash = None, ur_deletedAt = None, ur_createdAt = 0, ur_updatedAt = 10,
     ur_clientProfile = None, ur_lawyerProfile = None\<rparr>"

definition sampleOpen :: "string \<Rightarrow> dated_session" where
  "sampleOpen i =
    \<lparr>se_id = i @ ''-session'', se_userId = i, se_tokenHash = i @ ''-token'', se_status = S_ACTIVE,
     se_twoFactorVerifiedAt = Some 1, se_twoFactorAttemptCount = 0, se_twoFactorLockedUntil = None,
     se_lastTwoFactorFailedAt = None, se_expiresAt = 1000, se_revokedAt = None, se_ipAddress = None, se_userAgent = None,
     ds_createdAt = 1\<rparr>"

definition sampleGov :: gov_db where
  "sampleGov =
    \<lparr>gv_users = [sampleAccount ''s1'' ''rs'', sampleAccount ''m1'' ''ro'', sampleAccount ''l1'' ''rl''], gv_roles = sampleRoles,
     gv_permissions = [''user.manage.any'', ''client.read.any'', ''case.read.any''],
     gv_sessions = [sampleOpen ''s1'', sampleOpen ''l1''], gv_credentials = [], gv_settings = [], gv_audit = [],
     gv_caseLawyers = [], gv_taskAssignees = []\<rparr>"

definition samplePf :: gov_platform where
  "samplePf =
    \<lparr>gp_env = (\<lambda>_. None), gp_amount = (\<lambda>_. []), gp_isUuid = (\<lambda>_. True), gp_isEmail = (\<lambda>_. True),
     gp_datetime = (\<lambda>t. if t = ''v10'' then Some 10 else if t = ''v5'' then Some 5 else None), gp_hash = (\<lambda>_. ''h''),
     gp_contains = (\<lambda>_ _. True), gp_order = (\<lambda>_ _ us. us),
     gp_issue = (\<lambda>p. \<lparr>ed_path = Some p, ed_message = [], ed_code = None\<rparr>)\<rparr>"

definition sampleActor :: "string \<Rightarrow> string \<Rightarrow> principal" where
  "sampleActor i role = \<lparr>pr_id = i, pr_roleName = role, pr_permissions = Some [''user.manage.any'', ''client.read.any''],
     pr_clientId = None\<rparr>"

definition sampleIds :: gov_ids where "sampleIds = \<lparr>gi_row = ''new'', gi_audit = ''a1''\<rparr>"

definition sampleBody :: "string \<Rightarrow> string \<Rightarrow> json" where
  "sampleBody role status = JObj [(''name'', JStr ''Lina''), (''roleId'', JStr role), (''status'', JStr status),
     (''updatedAt'', JStr ''v10'')]"

lemmas sample_office_defs = sampleGov_def sampleRoles_def sampleAccount_def sampleOpen_def samplePf_def sampleActor_def
  sampleIds_def

lemma sampleGov_ok: "govOk sampleGov"
  by (simp add: govOk_def sample_office_defs)

lemma sampleGov_super: "superExists sampleGov"
  by (simp add: superExists_def sample_office_defs isActiveSuper_def activeUserWith_def roleOf_def isSuperRole_def ROLE_superAdmin_def)

text \<open>The manager suspends the lawyer; he tries to make him a Super Admin, and himself.\<close>

definition sampleSuspend :: gov_request where
  "sampleSuspend = UpdateUser False 20 sampleIds None (sampleActor ''m1'' ''Office Admin'') ''l1'' (sampleBody ''rl'' ''SUSPENDED'')"

definition samplePromote :: "string \<Rightarrow> gov_request" where
  "samplePromote i = UpdateUser False 20 sampleIds None (sampleActor ''m1'' ''Super Admin'') i (sampleBody ''rs'' ''ACTIVE'')"

theorem accounts_well_formed_witness: "govOk (serveAll (govServe samplePf) [sampleSuspend] sampleGov)"
  by (rule accounts_well_formed [OF sampleGov_ok])

theorem super_admin_remains_witness: "superExists (serveAll (govServe samplePf) [sampleSuspend, samplePromote ''m1''] sampleGov)"
  by (rule super_admin_remains [OF sampleGov_ok sampleGov_super])

lemma sampleGov_below: "groupBelow {''m1''} {''user.manage.any'', ''client.read.any''} sampleGov"
  by (simp add: groupBelow_def sample_office_defs heldKeys_def roleOf_def permissionKeysForRole_def ROLE_superAdmin_def)

theorem ceiling_holds_witness:
  "groupBelow {''m1''} {''user.manage.any'', ''client.read.any''}
     (serveAll (govServe samplePf) [sampleSuspend, samplePromote ''m1'', samplePromote ''l1''] sampleGov)"
  using ceiling_holds [OF sampleGov_ok sampleGov_below, of "[sampleSuspend, samplePromote ''m1'', samplePromote ''l1'']" samplePf]
  by (simp add: madeBy_def sampleSuspend_def samplePromote_def sampleActor_def)

theorem protected_roles_fixed_witness:
  "fixedRoles (serveAll (govServe samplePf) [sampleSuspend] sampleGov) = fixedRoles sampleGov"
  using protected_roles_fixed [OF sampleGov_ok, of samplePf "[sampleSuspend]"] by blast

definition sampleSuspended :: gov_db where
  "sampleSuspended = snd (updateAdminUser samplePf False 20 sampleIds None (sampleActor ''m1'' ''Office Admin'') ''l1''
     (sampleBody ''rl'' ''SUSPENDED'') sampleGov)"

definition sampleUpdate :: user_update where
  "sampleUpdate = \<lparr>uu_name = ''Lina'', uu_phone = None, uu_roleId = ''rl'', uu_status = U_SUSPENDED, uu_locale = ''ar'',
     uu_updatedAt = 10\<rparr>"

lemma sample_parsed: "adminUserUpdateSchema samplePf (sampleBody ''rl'' ''SUSPENDED'') = Inr sampleUpdate"
  by code_simp

lemmas office_eval = roleOf_def activeUserWith_def principalOf_def livePrincipal_def hasPermission_def
  effectivePermissions_def permissionKeysForRole_def isSuperRole_def role_defs editableRoleNames_def protectedRoleNames_def
  canonicalRoleNames_def rolePermissionsWithinCeiling_def ownKeys_def list_all_iff

lemma sample_manager:
  "liveManager (sampleActor ''m1'' ''Office Admin'') sampleGov =
     Inr (\<lparr>pr_id = ''m1'', pr_roleName = ''Office Admin'', pr_permissions = Some [''user.manage.any'', ''client.read.any''],
       pr_clientId = None\<rparr>, False)"
  by (simp add: liveManager_def sample_office_defs office_eval)

definition sampleLawyer :: user_row where
  "sampleLawyer = updatedUser 20 sampleUpdate (sampleRoles ! 2) (sampleAccount ''l1'' ''rl'')"

definition sampleClosed :: dated_session where
  "sampleClosed = (sampleOpen ''l1'')\<lparr>se_status := S_REVOKED, se_revokedAt := Some 20\<rparr>"

lemma sample_operation:
  "\<exists>d db'. updateUserOperation samplePf 20 sampleIds None (sampleActor ''m1'' ''Office Admin'') ''l1'' sampleUpdate sampleGov
      = Inr (d, db') \<and> gv_users db' = [sampleAccount ''s1'' ''rs'', sampleAccount ''m1'' ''ro'', sampleLawyer] \<and>
      gv_sessions db' = [sampleOpen ''s1'', sampleClosed] \<and> gv_roles db' = sampleRoles"
  unfolding updateUserOperation_def sample_manager
  by (simp add: targetOf_def sample_office_defs office_eval delegatedCanTarget_def assignableRole_def assignable_def
      roleMayBeGiven_def superRemains_def claimUser_def sampleUpdate_def Let_def sampleLawyer_def sampleClosed_def
      updatedUser_def accessChanged_def revokeSessions_def)

lemma sample_uuid: "uuidText samplePf i m = Inr i"
  by (simp add: samplePf_def)

lemma sample_suspend:
  "\<exists>d. updateAdminUser samplePf False 20 sampleIds None (sampleActor ''m1'' ''Office Admin'') ''l1''
     (sampleBody ''rl'' ''SUSPENDED'') sampleGov = (Inr d, sampleSuspended)"
  "gv_users sampleSuspended = [sampleAccount ''s1'' ''rs'', sampleAccount ''m1'' ''ro'', sampleLawyer]"
  "gv_sessions sampleSuspended = [sampleOpen ''s1'', sampleClosed]" "gv_roles sampleSuspended = sampleRoles"
proof -
  have "assertUserManagePermission (sampleActor ''m1'' ''Office Admin'') = Inr ()"
    by (simp add: assertUserManagePermission_def canManageAdminUsers_def sampleActor_def office_eval)
  moreover from sample_operation obtain d db' where "updateUserOperation samplePf 20 sampleIds None
      (sampleActor ''m1'' ''Office Admin'') ''l1'' sampleUpdate sampleGov = Inr (d, db')"
      and t: "gv_users db' = [sampleAccount ''s1'' ''rs'', sampleAccount ''m1'' ''ro'', sampleLawyer]"
      "gv_sessions db' = [sampleOpen ''s1'', sampleClosed]" "gv_roles db' = sampleRoles" by auto
  ultimately have u: "updateAdminUser samplePf False 20 sampleIds None (sampleActor ''m1'' ''Office Admin'') ''l1''
     (sampleBody ''rl'' ''SUSPENDED'') sampleGov = (Inr d, db')"
    unfolding updateAdminUser_def by (simp add: parseWithSchema_def sample_parsed serializable_def sample_uuid)
  then have "sampleSuspended = db'" by (simp add: sampleSuspended_def)
  with u t show "\<exists>d. updateAdminUser samplePf False 20 sampleIds None (sampleActor ''m1'' ''Office Admin'') ''l1''
     (sampleBody ''rl'' ''SUSPENDED'') sampleGov = (Inr d, sampleSuspended)"
    "gv_users sampleSuspended = [sampleAccount ''s1'' ''rs'', sampleAccount ''m1'' ''ro'', sampleLawyer]"
    "gv_sessions sampleSuspended = [sampleOpen ''s1'', sampleClosed]" "gv_roles sampleSuspended = sampleRoles" by simp_all
qed

definition officePlatform :: auth_platform where
  "officePlatform =
    \<lparr>ap_env = (\<lambda>_. None), ap_hashToken = (\<lambda>t. t), ap_decodeURIComponent = Some, ap_hmacSha1 = (\<lambda>_ _. []),
     ap_hmacSha256 = (\<lambda>_ _. []), ap_bytesOf = (\<lambda>_. []),
     ap_cipher = \<lparr>ci_sha256 = (\<lambda>_. []), ci_encrypt = (\<lambda>_ _ p. (p, [])), ci_decrypt = (\<lambda>_ _ _ c. Some c)\<rparr>,
     ap_verifyPassword = (\<lambda>_ _. True), ap_smtp = False\<rparr>"

lemma sample_cookie: "getSessionTokenFromCookieHeader officePlatform ''kmt_session=s1-token'' = Some ''s1-token''"
  by code_simp

lemma sample_admin_context:
  "\<exists>cx. getAuthContextFromCookieHeader officePlatform 30 True ''kmt_session=s1-token'' (authView sampleSuspended) = Some cx"
  unfolding getAuthContextFromCookieHeader_def sample_cookie authView_def sample_suspend
  by (simp add: officePlatform_def sampleOpen_def sampleAccount_def roleOf_def sample_suspend(4) sampleRoles_def
      authUser_def session.truncate_def isActiveAuthUser_def)

theorem access_change_signs_out_witness:
  "\<exists>cx. getAuthContextFromCookieHeader officePlatform 30 True ''kmt_session=s1-token'' (authView sampleSuspended) = Some cx \<and>
     au_id (cx_user cx) \<noteq> ''l1''"
proof -
  from sample_suspend(1) obtain d where u: "updateAdminUser samplePf False 20 sampleIds None
      (sampleActor ''m1'' ''Office Admin'') ''l1'' (sampleBody ''rl'' ''SUSPENDED'') sampleGov = (Inr d, sampleSuspended)" by auto
  from sample_admin_context obtain cx where c: "getAuthContextFromCookieHeader officePlatform 30 True ''kmt_session=s1-token''
      (authView sampleSuspended) = Some cx" by auto
  have "fetch ur_id ''l1'' (gv_users sampleGov) = Some (sampleAccount ''l1'' ''rl'')"
    "fetch ur_id ''l1'' (gv_users sampleSuspended) = Some sampleLawyer"
    "ur_status sampleLawyer \<noteq> ur_status (sampleAccount ''l1'' ''rl'') \<or> ur_roleId sampleLawyer \<noteq> ur_roleId (sampleAccount ''l1'' ''rl'')"
    by (simp_all add: sampleGov_def sampleAccount_def sample_suspend(2) sampleLawyer_def sampleUpdate_def)
  from access_change_signs_out [OF u this c] c show ?thesis by blast
qed

definition sampleKeys :: json where
  "sampleKeys = JObj [(''permissionKeys'', JArr [JStr ''client.read.any'', JStr ''case.read.any'']), (''updatedAt'', JStr ''v5'')]"

lemma sample_keys_parsed: "rolePermissionUpdateSchema samplePf sampleKeys = Inr ([''client.read.any'', ''case.read.any''], 5)"
  by code_simp

lemma sample_replace:
  "\<exists>d db'. replaceRolePermissions samplePf False 20 sampleIds None (sampleActor ''s1'' ''Super Admin'') ''rl'' sampleKeys
     sampleGov = (Inr d, db')"
  unfolding replaceRolePermissions_def
  by (simp add: assertRolePermissionManager_def canManageRolePermissions_def parseWithSchema_def sample_keys_parsed
      sample_uuid serializable_def replaceRoleOperation_def assertLiveExactSuperAdmin_def editableRole_def
      isActiveSuper_def roleAtVersion_def sampleGov_def sampleRoles_def sampleAccount_def sampleActor_def office_eval)

theorem role_replaced_exactly_witness:
  "\<exists>d db' role. replaceRolePermissions samplePf False 20 sampleIds None (sampleActor ''s1'' ''Super Admin'') ''rl'' sampleKeys
     sampleGov = (Inr d, db') \<and> fetch ro_id ''rl'' (gv_roles db') =
       Some (role\<lparr>ro_updatedAt := 20, ro_permissions := [''client.read.any'', ''case.read.any'']\<rparr>)"
proof -
  from sample_replace obtain d db' where r: "replaceRolePermissions samplePf False 20 sampleIds None
      (sampleActor ''s1'' ''Super Admin'') ''rl'' sampleKeys sampleGov = (Inr d, db')" by auto
  from role_replaced_exactly [OF sampleGov_ok r] r show ?thesis by (auto simp: sample_keys_parsed)
qed

end
