(* ===== verification/SettingsFacts.thy ===== *)
theory SettingsFacts
  imports GovernanceFacts
begin

text \<open>
  The settings of the office and the listing of its accounts: a form of the profile is accepted once, the
  flags of the second factor are stored and shown off, and a manager's list holds exactly the accounts he can
  open.
\<close>

section \<open>A form of the profile is accepted once\<close>

definition profileNewer :: "int \<Rightarrow> gov_db \<Rightarrow> bool" where
  "profileNewer t db = (case fetch sg_key ''office.profile'' (gv_settings db) of None \<Rightarrow> False | Some r \<Rightarrow> t < sg_updatedAt r)"

lemma fetch_map_same:
  "(\<And>r. key (f r) = key r) \<Longrightarrow> (\<And>r. key r = k \<Longrightarrow> \<not> p r) \<Longrightarrow> fetch key k (updateWhere p f rows) = fetch key k rows"
  by (induction rows) auto

lemma other_settings:
  "key \<noteq> OfficeProfile \<Longrightarrow> settingName key \<noteq> ''office.profile''"
  by (cases key) (simp_all add: settingName_def)

lemma fetch_append_other: "key r \<noteq> k \<Longrightarrow> fetch key k (rows @ [r]) = fetch key k rows"
  by (induction rows) auto

lemma later_version: "t < v \<Longrightarrow> t < nextOfficeProfileVersion v now" "v < nextOfficeProfileVersion v now"
  by (simp_all add: nextOfficeProfileVersion_def less_max_iff_disj)

lemma writeSetting_newer:
  assumes "writeSetting key val version now newId actorId db = Inr db'" and "profileNewer t db"
  shows "profileNewer t db'"
proof (cases "key = OfficeProfile")
  case False
  then show ?thesis
    using assms other_settings [OF False]
    by (auto simp: writeSetting_def Let_def profileNewer_def modify_def fetch_map_same fetch_append_other
        split: if_splits)
next
  case True
  from assms(2) obtain r where r: "fetch sg_key ''office.profile'' (gv_settings db) = Some r" "t < sg_updatedAt r"
    by (auto simp: profileNewer_def split: option.splits)
  then have "''office.profile'' \<in> sg_key ` set (gv_settings db)" by (metis fetch_None_iff option.distinct(1))
  with assms(1) True r show ?thesis
    by (auto simp: writeSetting_def Let_def profileNewer_def settingName_def table_simps later_version
        split: option.splits)
qed

lemma edits_newer: "edits pf a db db' \<Longrightarrow> profileNewer t db \<Longrightarrow> profileNewer t db'"
  by (induction rule: edits.induct) (auto simp: profileNewer_def dest: writeSetting_newer [unfolded profileNewer_def])

lemma serve_newer: "profileNewer t db \<Longrightarrow> profileNewer t (serveAll (govServe pf) qs db)"
proof (induction qs arbitrary: db)
  case (Cons q qs)
  have "profileNewer t (snd (govServe pf q db))"
    using Cons.prems edits_newer [OF govServe_edits] govServe_fail [of pf q db]
    by (cases "fst (govServe pf q db)") auto
  then show ?case by (simp add: Cons.IH)
qed simp

lemma count_one: "length (filter p rows) = 1 \<Longrightarrow> \<exists>r\<in>set rows. p r"
  by (induction rows) (auto split: if_splits)

lemma claimed_version:
  assumes "govOk db" and "writeSetting OfficeProfile val (Some t) now newId actorId db = Inr db'"
  shows "\<exists>r. fetch sg_key ''office.profile'' (gv_settings db) = Some r \<and> sg_updatedAt r = t \<and> profileNewer t db'"
proof -
  from assms(2) have c: "length (filter (\<lambda>r. sg_key r = ''office.profile'' \<and> sg_updatedAt r = t) (gv_settings db)) = 1"
    and d: "gv_settings db' = updateWhere (\<lambda>r. sg_key r = ''office.profile'' \<and> sg_updatedAt r = t)
      (\<lambda>row. row\<lparr>sg_value := JObj val, sg_updatedById := Some actorId, sg_updatedAt := nextOfficeProfileVersion t now\<rparr>)
      (gv_settings db)"
    by (auto simp: writeSetting_def settingName_def Let_def)
  from count_one [OF c] obtain r where r: "r \<in> set (gv_settings db)" "sg_key r = ''office.profile''" "sg_updatedAt r = t" by blast
  then have "fetch sg_key ''office.profile'' (gv_settings db) = Some r"
    using assms(1) fetch_distinct [of sg_key "gv_settings db" r] by (simp add: govOk_def)
  with r show ?thesis by (simp add: profileNewer_def d table_simps later_version)
qed

lemma map_of_overwritten:
  "map_of (map (\<lambda>(i, w). (i, if i = k then v else w)) ms) j = (if j = k \<and> k \<in> set (map fst ms) then Some v else map_of ms j)"
  by (cases "j = k"; induction ms) (simp_all add: case_prod_unfold)

lemma map_of_setMember: "map_of (setMember k v ms) j = (if j = k then Some v else map_of ms j)"
proof (cases "k \<in> set (map fst ms)")
  case True
  then show ?thesis unfolding setMember_def by (simp only: map_of_overwritten if_True simp_thms)
next
  case False
  then have "map_of ms k = None" by (simp add: map_of_eq_None_iff)
  then show ?thesis using False by (auto simp: setMember_def map_add_def split: option.splits)
qed

text \<open>What a profile form with a version asks the transaction to claim.\<close>

lemma profile_request:
  assumes "updateAdminSetting pf ab now ids rq a sid ''office.profile'' b db = (Inr r, db')"
    and "memberOf b ''updatedAt'' = Some (JStr t)"
  shows "\<exists>val v actorId w. gp_datetime pf t = Some v \<and>
    writeSetting OfficeProfile val (Some v) now (gi_row ids) actorId db = Inr w \<and> gv_settings db' = gv_settings w"
proof -
  from assms(2) obtain ms where b: "b = JObj ms" "map_of ms ''updatedAt'' = Some (JStr t)" by (cases b) auto
  let ?body = "JObj (setMember ''key'' (JStr ''office.profile'') ms)"
  from assms(1) obtain parsed version val where
      p: "adminSettingUpdateSchema pf OfficeProfile ?body = Inr (parsed, version)"
      "settingOperation pf now ids rq a sid OfficeProfile val version db = Inr (r, db')"
    unfolding updateAdminSetting_def b(1)
    by (auto simp: Let_def parseWithSchema_eq split: sum.split_asm prod.split_asm)
  from p(1) obtain v where v: "gp_datetime pf t = Some v" "version = Some v"
    by (auto simp: adminSettingUpdateSchema_def map_of_setMember b(2) Let_def zDatetime_def gathered_def split: sum.splits if_splits)
  from p(2) obtain actorId w where "writeSetting OfficeProfile val version now (gi_row ids) actorId db = Inr w"
      "gv_settings db' = gv_settings w"
    by (auto simp: settingOperation_def split: option.splits)
  with v show ?thesis by blast
qed

text \<open>
  Two editors of the office profile never overwrite each other unknowingly: once a form that was loaded at a
  version has been saved, no form of that version is accepted again, whatever was asked in between and whatever
  the clock shows.
\<close>

theorem profile_form_once:
  assumes "govOk db" and "updateAdminSetting pf ab now ids rq a sid ''office.profile'' b db = (Inr r, db')"
    and "memberOf b ''updatedAt'' = Some (JStr t)" and "memberOf c ''updatedAt'' = Some (JStr t)"
  shows "\<not> succeeds (fst (updateAdminSetting pf ab2 now2 ids2 rq2 a2 sid2 ''office.profile'' c
    (serveAll (govServe pf) qs db')))"
proof
  let ?d = "serveAll (govServe pf) qs db'"
  assume "succeeds (fst (updateAdminSetting pf ab2 now2 ids2 rq2 a2 sid2 ''office.profile'' c ?d))"
  then obtain r2 d2 where again: "updateAdminSetting pf ab2 now2 ids2 rq2 a2 sid2 ''office.profile'' c ?d = (Inr r2, d2)"
    by (metis prod.collapse succeeds_iff)
  from profile_request [OF assms(2,3)] obtain val v i w where v: "gp_datetime pf t = Some v"
      "writeSetting OfficeProfile val (Some v) now (gi_row ids) i db = Inr w" "gv_settings db' = gv_settings w"
    by auto
  have "profileNewer v db'" using claimed_version [OF assms(1) v(2)] v(3) by (auto simp: profileNewer_def)
  then have newer: "profileNewer v ?d" by (rule serve_newer)
  have ok: "govOk ?d" using accounts.serve_inv [OF edits_govOk [OF request_edits(5) [OF assms(2)] assms(1)]] .
  from profile_request [OF again assms(4)] v(1) obtain val2 i2 w2 where
      "writeSetting OfficeProfile val2 (Some v) now2 (gi_row ids2) i2 ?d = Inr w2"
    by auto
  from claimed_version [OF ok this] newer show False by (auto simp: profileNewer_def)
qed

text \<open>
  A form of an account is not protected in this way: its version is the time of the change, so a second form of
  the same version is accepted when it is saved in the same millisecond as the first.
\<close>

lemma same_instant_claims_again:
  assumes "claimUser i v f db = Inr db'" and "\<And>u. ur_id (f u) = ur_id u" and "\<And>u. ur_updatedAt (f u) = v"
  shows "succeeds (claimUser i v g db')"
proof -
  have "length (filter (\<lambda>u. ur_id u = i \<and> ur_updatedAt u = v) (updateWhere (\<lambda>u. ur_id u = i \<and> ur_updatedAt u = v) f rows)) =
      length (filter (\<lambda>u. ur_id u = i \<and> ur_updatedAt u = v) rows)" for rows
    using assms(2,3) by (induction rows) auto
  with assms(1) show ?thesis by (auto simp: claimUser_Inr claimUser_def)
qed


section \<open>The settings page\<close>

text \<open>
  The second factor cannot be switched on from the settings: whatever is posted and whatever a row holds, the
  three flags are stored and shown as false.
\<close>

theorem staff_factor_stays_off:
  assumes "normalizeSettingValue pf SecurityStaff2fa v = Inr val"
  shows "map_of val ''requiredForStaff'' = Some (JBool False) \<and> map_of val ''totpPrimary'' = Some (JBool False) \<and>
    map_of val ''emailOtpFallback'' = Some (JBool False) \<and>
    valueForDefinition pf SecurityStaff2fa (Some (JObj val)) = Inr val"
proof -
  from assms obtain x where val: "val = [(''requiredForStaff'', JBool False), (''totpPrimary'', JBool False),
      (''emailOtpFallback'', JBool False), (''superAdminResetOnly'', JBool x)]"
    by (auto simp: normalizeSettingValue_def parseWithSchema_eq securityStaff2faSettingSchema_def split: if_splits)
  show ?thesis
    by (simp add: val valueForDefinition_def normalizeSettingValue_def parseWithSchema_def spread_def setMember_def
        defaultSettingValues_def metadataRecord_def securityStaff2faSettingSchema_def isObject_def zBoolean_def)
qed


section \<open>The list of accounts\<close>

definition unfiltered :: "user_query \<Rightarrow> bool" where
  "unfiltered f \<longleftrightarrow> nonEmpty (uq_roleId f) = None \<and> uq_status f = None \<and> uq_twoFactorState f = None \<and>
     nonEmpty (map_option jsTrim (uq_q f)) = None"

text \<open>
  The list of a manager, without filters, holds exactly the accounts he can open: neither an account that the
  detail page then refuses, nor one that only its address reveals.
\<close>

theorem listed_iff_opened:
  assumes "govOk db" and "canManageAdminUsers actor" and "u \<in> set (gv_users db)" and "gp_isUuid pf (ur_id u)"
    and "unfiltered f"
  shows "userListWhere pf db f (delegatedRoleIds actor db) u \<longleftrightarrow> (\<exists>d. getAdminUserDetail pf actor (ur_id u) db = Inr d)"
proof -
  have fu: "fetch ur_id (ur_id u) (gv_users db) = Some u"
    using assms(1,3) by (intro fetch_distinct) (auto simp: govOk_def)
  have "ur_roleId u \<in> ro_id ` set (gv_roles db)" using assms(1,3) by (auto simp: govOk_def list_all_iff)
  then obtain r where r: "roleOf db u = Some r"
    unfolding roleOf_def by (metis fetch_None_iff option.exhaust)
  then have rr: "r \<in> set (gv_roles db)" "ro_id r = ur_roleId u" by (auto simp: roleOf_def dest: fetch_SomeD)
  have unique: "q \<in> set (gv_roles db) \<Longrightarrow> ro_id q = ur_roleId u \<Longrightarrow> q = r" for q
    using fetch_distinct [of ro_id "gv_roles db" q] assms(1) r by (simp add: govOk_def roleOf_def)
  have opened: "(\<exists>d. getAdminUserDetail pf actor (ur_id u) db = Inr d) \<longleftrightarrow> exactSuperAdmin actor \<or> delegatedCanTarget actor r"
    using assms(2,4) fu r by (auto simp: getAdminUserDetail_def assertUserManagePermission_def targetOf_def)
  have "userListWhere pf db f (delegatedRoleIds actor db) u \<longleftrightarrow>
      (case delegatedRoleIds actor db of None \<Rightarrow> True | Some ids \<Rightarrow> ur_roleId u \<in> set ids)"
    using assms(5) by (simp add: userListWhere_def unfiltered_def)
  also have "\<dots> \<longleftrightarrow> exactSuperAdmin actor \<or> delegatedCanTarget actor r"
  proof -
    let ?A = "{q \<in> set (gv_roles db). delegatedCanTarget actor q}"
    have "ur_roleId u \<in> ro_id ` ?A \<longleftrightarrow> r \<in> ?A" using rr unique by (metis (no_types, lifting) imageE imageI mem_Collect_eq)
    moreover have "\<not> exactSuperAdmin actor \<Longrightarrow> \<exists>ids. delegatedRoleIds actor db = Some ids \<and> set ids = ro_id ` ?A"
      by (auto simp: delegatedRoleIds_def delegatedCanTarget_def)
    ultimately show ?thesis using rr(1) by (cases "exactSuperAdmin actor") (auto simp: delegatedRoleIds_def)
  qed
  finally show ?thesis by (simp only: opened)
qed


section \<open>An office\<close>

theorem staff_factor_stays_off_witness:
  "valueForDefinition samplePf SecurityStaff2fa (Some (JObj [(''requiredForStaff'', JBool False), (''totpPrimary'', JBool False),
     (''emailOtpFallback'', JBool False), (''superAdminResetOnly'', JBool False)])) =
   Inr [(''requiredForStaff'', JBool False), (''totpPrimary'', JBool False), (''emailOtpFallback'', JBool False),
     (''superAdminResetOnly'', JBool False)]"
proof -
  have "normalizeSettingValue samplePf SecurityStaff2fa
      (JObj [(''requiredForStaff'', JBool True), (''superAdminResetOnly'', JBool False)]) =
    Inr [(''requiredForStaff'', JBool False), (''totpPrimary'', JBool False), (''emailOtpFallback'', JBool False),
      (''superAdminResetOnly'', JBool False)]"
    by (simp add: normalizeSettingValue_def parseWithSchema_def securityStaff2faSettingSchema_def isObject_def zBoolean_def)
  from staff_factor_stays_off [OF this] show ?thesis by blast
qed

definition sampleQuery :: user_query where
  "sampleQuery = \<lparr>uq_q = None, uq_roleId = None, uq_status = None, uq_twoFactorState = None, uq_sortBy = ''name'',
     uq_sortDirection = ''asc'', uq_page = 1, uq_pageSize = 30\<rparr>"

theorem listed_iff_opened_witness:
  "\<not> (\<exists>d. getAdminUserDetail samplePf (sampleActor ''m1'' ''Office Admin'') ''s1'' sampleGov = Inr d)"
proof -
  let ?u = "sampleAccount ''s1'' ''rs''"
  have p: "canManageAdminUsers (sampleActor ''m1'' ''Office Admin'')" "?u \<in> set (gv_users sampleGov)"
      "gp_isUuid samplePf (ur_id ?u)" "unfiltered sampleQuery"
    by (simp_all add: canManageAdminUsers_def sampleActor_def office_eval sampleGov_def samplePf_def unfiltered_def
        sampleQuery_def nonEmpty_def)
  have "\<not> userListWhere samplePf sampleGov sampleQuery (delegatedRoleIds (sampleActor ''m1'' ''Office Admin'') sampleGov) ?u"
    by (simp add: userListWhere_def delegatedRoleIds_def exactSuperAdmin_def sampleActor_def office_eval sampleGov_def
        sampleRoles_def sampleAccount_def)
  then show ?thesis using listed_iff_opened [OF sampleGov_ok p] by (simp add: sampleAccount_def)
qed

definition sampleProfiled :: gov_db where
  "sampleProfiled = sampleGov\<lparr>gv_settings := [\<lparr>sg_id = ''g1'', sg_key = ''office.profile'',
     sg_value = JObj [(''firmName'', JStr ''KMT'')], sg_updatedById = None, sg_updatedAt = 10\<rparr>]\<rparr>"

definition sampleProfile :: "string \<Rightarrow> json" where
  "sampleProfile firm = JObj [(''firmName'', JStr firm), (''updatedAt'', JStr ''v10'')]"

lemma sampleProfiled_ok: "govOk sampleProfiled"
  using sampleGov_ok by (simp add: govOk_def sampleProfiled_def)

lemma sample_profile_parsed:
  "adminSettingUpdateSchema samplePf OfficeProfile (JObj (setMember ''key'' (JStr ''office.profile'')
     [(''firmName'', JStr ''KMT''), (''updatedAt'', JStr ''v10'')])) =
   Inr ([(''firmName'', JStr ''KMT''), (''primaryLocale'', JStr ''ar'')], Some 10)"
  by code_simp

lemma sample_profile_normal:
  "normalizeSettingValue samplePf OfficeProfile (JObj [(''firmName'', JStr ''KMT''), (''primaryLocale'', JStr ''ar'')]) =
   Inr [(''firmName'', JStr ''KMT''), (''primaryLocale'', JStr ''ar'')]"
  by code_simp

lemma sample_profile_saved:
  "\<exists>r db'. updateAdminSetting samplePf False 7 sampleIds None (sampleActor ''s1'' ''Super Admin'') ''s1-session'' ''office.profile''
     (sampleProfile ''KMT'') sampleProfiled = (Inr r, db')"
  unfolding updateAdminSetting_def sampleProfile_def
  by (simp add: assertAdminSettingsManagePermission_def canManageAdminSettings_def parseWithSchema_def sample_uuid
      sample_profile_parsed [simplified] sample_profile_normal Let_def serializable_def settingOperation_def
      liveSettingsActor_def liveSessionActor_def sampleProfiled_def sampleGov_def sampleRoles_def sampleAccount_def
      sampleOpen_def sampleActor_def office_eval writeSetting_def settingName_def)

theorem profile_form_once_witness:
  "\<exists>r db'. updateAdminSetting samplePf False 7 sampleIds None (sampleActor ''s1'' ''Super Admin'') ''s1-session'' ''office.profile''
     (sampleProfile ''KMT'') sampleProfiled = (Inr r, db') \<and>
   \<not> succeeds (fst (updateAdminSetting samplePf False 7 sampleIds None (sampleActor ''s1'' ''Super Admin'') ''s1-session''
     ''office.profile'' (sampleProfile ''Other'') (serveAll (govServe samplePf) [] db')))"
proof -
  from sample_profile_saved obtain r db' where u: "updateAdminSetting samplePf False 7 sampleIds None
      (sampleActor ''s1'' ''Super Admin'') ''s1-session'' ''office.profile'' (sampleProfile ''KMT'') sampleProfiled = (Inr r, db')"
    by auto
  have "memberOf (sampleProfile ''KMT'') ''updatedAt'' = Some (JStr ''v10'')"
    "memberOf (sampleProfile ''Other'') ''updatedAt'' = Some (JStr ''v10'')" by (simp_all add: sampleProfile_def)
  from profile_form_once [OF sampleProfiled_ok u this] u show ?thesis by blast
qed

end
