(* ===== verification/Spec2Isabelle.thy ===== *)
theory Spec2Isabelle
  imports RateLimit Enrollment Balances Redaction PaymentProvider ReceiptTokens OutcomeFacts PaymentFlows CaseFacts DocumentFacts SettingsFacts
begin

text \<open>
  KMT Legal is the application of a law office: a public site on which clients ask for and book
  consultations, and an administration in which the staff handles requests, cases, accounts and
  money. This library models its server, the files below \<open>src/src/server\<close>, and proves what its
  parts promise to each other.

  How the program is put together. A route handler finds the account behind the session cookie,
  and calls one function of a service with that account (the \<open>principal\<close>) and a parsed body. The
  service checks permissions, validates the body, reads and writes tables in a transaction, and
  throws an \<open>ApiError\<close> when it refuses. A service is therefore modelled as a function from the tables
  to an error or an answer with the new tables (\<open>'a api\<close>, that is \<open>api_error + 'a\<close>); a function that
  writes outside a transaction returns the tables with its answer, so that what it wrote before it
  threw stays. That a transaction that throws leaves no trace is the guarantee of the database, and built into
  \<open>commit\<close>. \<open>findFirst\<close> without an order is the first created row. A table is the list of its rows in the order of their creation, a row is a record with
  the columns of \<open>prisma/schema.prisma\<close> the code reads, an enum is a datatype. \<open>findUnique\<close> is \<open>fetch\<close>,
  \<open>update\<close> is \<open>modify\<close>, \<open>updateMany\<close> is \<open>updateWhere\<close>. A component whose requests can come in any order
  is put together as one machine (\<open>authServe\<close>, \<open>govServe\<close>, \<open>ledgerServe\<close>, \<open>payServe\<close>, \<open>outcomeServe\<close>,
  \<open>bookingServe\<close>, \<open>deskServe\<close>, \<open>houseServe\<close>, \<open>serviceServe\<close>), and its guarantees hold after any list of requests.

  Interfaces. \<open>Prelude\<close> states two contracts every machine has: \<open>guarded_machine\<close>, whose steps keep an
  invariant, and \<open>atomic_machine\<close>, whose refused requests leave the tables as they were; every machine
  above interprets one of them. \<open>timetable\<close> (in \<open>BookingFacts\<close>) is the contract between the rows of the
  appointments and a relation that says which two of them may not stand together; it is interpreted on the
  clash of two appointments of one person, on the double booking of lawyers and clients, and on the same
  relation relative to a point of time.

  The theories and the files they model.
  \<^item> \<open>Prelude\<close>, \<open>JsText\<close>, \<open>JsDate\<close>, \<open>Json\<close>: results, tables, the string, date and JSON operations of the
    language that the services use.
  \<^item> \<open>ApiErrors\<close>: \<open>http/errors.ts\<close>, \<open>http/pagination.ts\<close>, \<open>validation/schemas.ts\<close>. \<open>Policy\<close>: \<open>auth/policy.ts\<close>.
  \<^item> \<open>AuditTrail\<close>, \<open>AuditStore\<close>, \<open>Redaction\<close>: \<open>audit/audit-service.ts\<close>, \<open>audit/audit-event-catalog.ts\<close>,
    \<open>audit/redaction.ts\<close>: what an event stores and what of it is shown.
  \<^item> \<open>RateLimit\<close>: \<open>rate-limit/memory-rate-limit.ts\<close>, against a limiter that never prunes.
  \<^item> \<open>TwoFactor\<close>, \<open>Secrets\<close>, \<open>Sessions\<close>, \<open>AuthService\<close>, \<open>AuthFacts\<close>, \<open>Enrollment\<close>: \<open>auth/two-factor.ts\<close>, \<open>totp.ts\<close>, \<open>secret.ts\<close>,
    \<open>session-store.ts\<close>, \<open>auth-service.ts\<close>, \<open>totp-enrollment-service.ts\<close>: codes, the lock after five rejected
    tries, sign-in and sign-out, the enrolment of an authenticator.
  \<^item> \<open>Governance\<close>, \<open>GovernanceFacts\<close>, \<open>SettingsFacts\<close>: \<open>admin/governance-service.ts\<close> and
    \<open>admin/role-permission-service.ts\<close>: accounts, roles and settings; one Super Admin always remains, a
    delegated manager reaches nothing above his own permissions, a form is accepted once.
  \<^item> \<open>Ledger\<close>, \<open>Invoices\<close>, \<open>LedgerFacts\<close>, \<open>Balances\<close>: \<open>payments/payment-ledger-service.ts\<close>,
    \<open>admin/finance-report-service.ts\<close>: entries, invoices and the two ways balances are summed.
  \<^item> \<open>PaymentConfig\<close>, \<open>PaymentProvider\<close>, \<open>Pricing\<close>, \<open>PaymentSettings\<close>, \<open>ReceiptTokens\<close>: the gateways, their
    signatures and payloads, the fees, the booking modes and the signed receipt links.
  \<^item> \<open>PaymentDb\<close>, \<open>PaymentService\<close>, \<open>PaymentSamples\<close>, \<open>PaymentFacts\<close>, \<open>PaymentBooks\<close>, \<open>PaymentFlows\<close>:
    \<open>payments/payment-service.ts\<close>: attempts, webhooks, replays and expiry, down to the ledger.
  \<^item> \<open>Office\<close>, \<open>Conflicts\<close>: the rows the workflow shares and \<open>appointments/appointment-conflict-service.ts\<close>.
  \<^item> \<open>Availability\<close>, \<open>DirectBooking\<close>: \<open>consultations/consultation-availability-service.ts\<close> and
    \<open>direct-booking-availability.ts\<close>: which times are offered.
  \<^item> \<open>Phones\<close>, \<open>BookingDb\<close>, \<open>BookingActions\<close>, \<open>BookingFacts\<close>: \<open>phone/\<close>, the conversations that end in a booking and
    \<open>consultations/direct-booking-service.ts\<close>.
  \<^item> \<open>Outcomes\<close>, \<open>OutcomeFacts\<close>, \<open>ConsultationReview\<close>, \<open>ReviewFacts\<close>: \<open>admin/consultation-outcome-policy.ts\<close>,
    \<open>consultation-outcome-service.ts\<close>, \<open>consultation-review-service.ts\<close>: what the office does with a request,
    and what stays true of the office whatever clients and staff do.
  \<^item> \<open>CaseWork\<close>, \<open>ManualCases\<close>, \<open>CaseFacts\<close>: \<open>admin/case-operations-service.ts\<close>, \<open>admin/calendar-service.ts\<close>,
    \<open>admin/manual-case-service.ts\<close> and the office clock of \<open>lib/legal-format.ts\<close>: cases, their sessions and the calendar,
    beside everything else that gives a lawyer a time.
  \<^item> \<open>Uploads\<close>, \<open>UploadFacts\<close>: \<open>storage/upload-policy.ts\<close>, \<open>malware-scan.ts\<close>, \<open>vps-storage.ts\<close>, \<open>file-keys.ts\<close>,
    \<open>download-headers.ts\<close>: which files are taken, down to the entries of an archive, where they are kept, and how a
    name is sent.
  \<^item> \<open>FormationDraft\<close>, \<open>ServiceDesk\<close>, \<open>FormationDesk\<close>, \<open>ServiceFacts\<close>: \<open>lib/business-formation.ts\<close>,
    \<open>services/service-request-service.ts\<close>, \<open>formation-assessment.ts\<close>, \<open>formation-service.ts\<close>: the requests for a service from the draft
    to the delivered work.
  \<^item> \<open>Documents\<close>, \<open>DocumentFacts\<close>: \<open>storage/document-service.ts\<close> and the documents of \<open>admin/task-document-service.ts\<close>, put
    together with the requests for a service as one machine over tables and files.

  What the groups of lemmas show. The theories named \<open>...Facts\<close>, \<open>Balances\<close>, \<open>PaymentBooks\<close> and
  \<open>PaymentFlows\<close> hold the guarantees; the other theories hold the definitions and the small facts that
  belong to one of them. Each component has an invariant of its tables that every operation keeps
  (\<open>ledgerOk\<close>, \<open>payOk\<close>, \<open>authInv\<close>, \<open>govOk\<close>, \<open>deskOk\<close>, \<open>reviewOk\<close>, \<open>officeOk\<close>, \<open>serviceOk\<close>, \<open>documentsOk\<close>); small inductive machines
  (\<open>attempt_step\<close>, \<open>tx_step\<close>, \<open>outcomeStep\<close>, \<open>statusMoves\<close>) are the abstract specifications that the rows of payments,
  consultations and requests for a service refine; the equivalences compare an optimised routine with a plain one.

  Bounds and termination. Every definition is total but one: the loop that walks the minutes of an
  opening interval is a \<open>partial_function (option)\<close>, because with a step of zero it would not end; the
  schema of the settings admits only durations of at least fifteen minutes, and then it is proved to end.
  A booking transaction is tried three times, as in the code, each time on the tables it began with: what another
  client commits in between counts as an earlier request, which the serializable isolation allows; an administrative
  transaction is tried once, and a flag says whether the database gave it up. Integers of the language stay
  exact below \<open>2 ^ 53\<close>; the model uses \<open>int\<close> for counters and milliseconds, \<open>32 word\<close> where the code
  truncates (the one-time code), and \<open>rat\<close> for the decimal columns, whose twelve digits the decimal library
  handles exactly.

  Parameters. What is not under \<open>src\<close> is an argument: digests, keyed hashes and ciphers, the printing and
  parsing of dates and decimal numbers where the language's own grammar is large, the offset of the office's
  clock, the validators of the schema library (the verdict on an email address or a UUID), the ids and random
  values the platform makes, and the readings of the clock. Where a property depends on one, the law it
  needs is a named hypothesis, and a witness instantiates it. Strings are lists of code units
  below 256, so Arabic copy is a parameter or is left out; telephone numbers, file names and the names of founders,
  which may be Arabic, are lists of code points. A throw that is not an \<open>ApiError\<close> is the \<open>INTERNAL_ERROR\<close> the HTTP layer answers.

  Not modelled, and why.
  \<^item> The pages, components, forms and copy (\<open>app\<close>, \<open>components\<close>, \<open>features\<close>, \<open>content\<close>, \<open>hooks\<close>): they render, and
    what they decide is decided again by the services. The route handlers only pass a request on; the one that
    sends a document is modelled.
  \<^item> \<open>consultations/consultation-assistant-service.ts\<close> and \<open>ai\<close>: the turns of a language model, whose calls go
    to a remote service; the actions they end in (booking, hand-over) are modelled.
  \<^item> Mail, observability, health and installation: they move data to other systems.
  \<^item> The listings and exports of finance reports, of clients, tasks, content and the dashboards, which are queries without a decision
    of their own.
\<close>

end
